(* ===== verification/Sol_Prelude.thy ===== *)
theory Sol_Prelude
  imports Main "HOL-Library.Word" "HOL-Library.State_Monad" "HOL-Library.Code_Target_Nat"
begin

text \<open>
  Shared vocabulary of the development: C's \<open>size_t\<close> on the LP64 target, guarded array
  reads, slices of flat arenas, byte classes of \<open>ctype.h\<close> in the C locale, and a small
  program logic for the state monad. The locale \<open>io_preorder\<close> is the interface through
  which every state-passing component proves what all of its operations keep: a reflexive
  and transitive relation between the state before and after.
\<close>

named_theorems sol_unfold \<open>definitions of the model unfolded by component proofs\<close>
named_theorems io_intro \<open>state relation rules, one per operation of the model\<close>

section \<open>size_t\<close>

type_synonym size_t = nat

definition SIZE_MAX :: size_t where
  "SIZE_MAX = 2 ^ 64 - 1"

text \<open>\<open>a - b\<close> on \<open>size_t\<close> wraps around; nothing in C traps.\<close>

definition size_sub :: "size_t \<Rightarrow> size_t \<Rightarrow> size_t" where
  "size_sub a b = (if b \<le> a then a - b else a + (SIZE_MAX + 1) - b)"

lemma size_sub_no_wrap [simp]: "b \<le> a \<Longrightarrow> size_sub a b = a - b"
  by (simp add: size_sub_def)

lemma size_sub_bound: "a \<le> SIZE_MAX \<Longrightarrow> b \<le> SIZE_MAX \<Longrightarrow> size_sub a b \<le> SIZE_MAX"
  by (auto simp: size_sub_def SIZE_MAX_def)

lemma size_sub_mod:
  assumes "a \<le> SIZE_MAX" "b \<le> SIZE_MAX"
  shows "int (size_sub a b) = (int a - int b) mod 2 ^ 64"
proof (cases "b \<le> a")
  case True
  with assms show ?thesis by (simp add: SIZE_MAX_def of_nat_diff)
next
  case False
  have "(int a - int b) mod 2 ^ 64 = (int a - int b + 2 ^ 64) mod 2 ^ 64" by simp
  also have "\<dots> = int a - int b + 2 ^ 64"
    using False assms by (intro mod_pos_pos_trivial) (auto simp: SIZE_MAX_def)
  finally show ?thesis using False assms by (simp add: size_sub_def SIZE_MAX_def of_nat_diff)
qed

section \<open>Arrays and slices\<close>

text \<open>
  A read of a C array: \<open>None\<close> stands for a read outside the array, which has no defined
  behaviour in C. Reads the source guards are guarded in the model by the same test.
\<close>

definition nth_opt :: "'a list \<Rightarrow> size_t \<Rightarrow> 'a option" where
  "nth_opt xs i = (if i < length xs then Some (xs ! i) else None)"

lemma nth_opt_Some_iff: "nth_opt xs i = Some x \<longleftrightarrow> i < length xs \<and> xs ! i = x"
  by (auto simp: nth_opt_def)

lemma nth_opt_None_iff: "nth_opt xs i = None \<longleftrightarrow> length xs \<le> i"
  by (auto simp: nth_opt_def)

lemma nth_opt_mem: "nth_opt xs i = Some x \<Longrightarrow> x \<in> set xs"
  by (auto simp: nth_opt_def split: if_splits)

lemma nth_opt_code [simp]:
  "nth_opt [] i = None"
  "nth_opt (x # xs) 0 = Some x"
  "nth_opt (x # xs) (Suc i) = nth_opt xs i"
  by (simp_all add: nth_opt_def)

lemma find_mem: "find P xs = Some x \<Longrightarrow> x \<in> set xs"
  by (induction xs) (auto split: if_splits)

record slice =
  sl_offset :: size_t
  sl_count :: size_t

text \<open>The elements of a slice of an arena, in order; \<open>None\<close> when it leaves the arena.\<close>

definition slice_elems :: "'a list \<Rightarrow> slice \<Rightarrow> 'a list option" where
  "slice_elems xs sl =
     (if sl_count sl = 0 then Some []
      else if sl_offset sl + sl_count sl \<le> length xs
      then Some (take (sl_count sl) (drop (sl_offset sl) xs))
      else None)"

lemma slice_elems_length: "slice_elems xs sl = Some ys \<Longrightarrow> length ys = sl_count sl"
  by (auto simp: slice_elems_def split: if_splits)

lemma slice_elems_nth:
  "slice_elems xs sl = Some ys \<Longrightarrow> i < sl_count sl \<Longrightarrow> ys ! i = xs ! (sl_offset sl + i)"
  by (auto simp: slice_elems_def split: if_splits)

section \<open>Bytes\<close>

text \<open>\<open>isalpha\<close>, \<open>isdigit\<close> and \<open>isalnum\<close> of \<open>ctype.h\<close> in the C locale.\<close>

definition byte :: "char \<Rightarrow> nat" where
  "byte c = of_char c"

lemma byte_less: "byte c < 256"
  by (simp add: byte_def)

lemma byte_inject [simp]: "byte a = byte b \<longleftrightarrow> a = b"
  by (simp add: byte_def)

definition isdigit :: "char \<Rightarrow> bool" where
  "isdigit c \<longleftrightarrow> 48 \<le> byte c \<and> byte c \<le> 57"

definition isalpha :: "char \<Rightarrow> bool" where
  "isalpha c \<longleftrightarrow> (65 \<le> byte c \<and> byte c \<le> 90) \<or> (97 \<le> byte c \<and> byte c \<le> 122)"

definition isalnum :: "char \<Rightarrow> bool" where
  "isalnum c \<longleftrightarrow> isalpha c \<or> isdigit c"

text \<open>The part of a C string before its terminating NUL, which \<open>%s\<close> and \<open>strlen\<close> see.\<close>

definition c_string :: "string \<Rightarrow> string" where
  "c_string s = takeWhile (\<lambda>c. c \<noteq> CHR 0x00) s"

lemma c_string_no_nul: "CHR 0x00 \<notin> set (c_string s)"
  by (auto simp: c_string_def dest: set_takeWhileD)

lemma c_string_id: "CHR 0x00 \<notin> set s \<Longrightarrow> c_string s = s"
  by (auto simp: c_string_def takeWhile_eq_all_conv)

section \<open>State monad\<close>

abbreviation ret :: "'a \<Rightarrow> ('s, 'a) state" where
  "ret \<equiv> State_Monad.return"

definition gets :: "('s \<Rightarrow> 'a) \<Rightarrow> ('s, 'a) state" where
  "gets f = State (\<lambda>s. (f s, s))"

definition modify :: "('s \<Rightarrow> 's) \<Rightarrow> ('s, unit) state" where
  "modify f = State (\<lambda>s. ((), f s))"

lemma run_gets [simp]: "run_state (gets f) s = (f s, s)"
  by (simp add: gets_def)

lemma run_modify [simp]: "run_state (modify f) s = ((), f s)"
  by (simp add: modify_def)

text \<open>
  \<open>triple P m Q\<close>: from a state with \<open>P\<close>, \<open>m\<close> returns a value and a state with \<open>Q\<close>.
  Every operation of the model is total, so this is total correctness.
\<close>

definition triple :: "('s \<Rightarrow> bool) \<Rightarrow> ('s, 'a) state \<Rightarrow> ('a \<Rightarrow> 's \<Rightarrow> bool) \<Rightarrow> bool" where
  "triple P m Q \<longleftrightarrow> (\<forall>s. P s \<longrightarrow> (case run_state m s of (x, s') \<Rightarrow> Q x s'))"

lemma tripleI:
  "(\<And>s x s'. P s \<Longrightarrow> run_state m s = (x, s') \<Longrightarrow> Q x s') \<Longrightarrow> triple P m Q"
  by (auto simp: triple_def)

lemma tripleD:
  "triple P m Q \<Longrightarrow> run_state m s = (x, s') \<Longrightarrow> P s \<Longrightarrow> Q x s'"
  by (fastforce simp: triple_def)

lemma triple_bind:
  "triple P m R \<Longrightarrow> (\<And>x. triple (R x) (f x) Q) \<Longrightarrow> triple P (State_Monad.bind m f) Q"
  by (fastforce simp: triple_def split: prod.splits)

lemma triple_ret: "(\<And>s. P s \<Longrightarrow> Q x s) \<Longrightarrow> triple P (ret x) Q"
  by (simp add: triple_def)

lemma triple_conseq:
  "triple P' m Q' \<Longrightarrow> (\<And>s. P s \<Longrightarrow> P' s) \<Longrightarrow> (\<And>x s. Q' x s \<Longrightarrow> Q x s) \<Longrightarrow> triple P m Q"
  by (fastforce simp: triple_def)

text \<open>
  The interface of a component whose operations all relate the state before to the state
  after by one preorder. The rules are closed under the monad's operators, so a component
  proves the relation of its primitive operations and obtains it for every composite.
\<close>

locale io_preorder =
  fixes R :: "'s \<Rightarrow> 's \<Rightarrow> bool"
  assumes io_refl: "R s s"
    and io_trans: "R s t \<Longrightarrow> R t u \<Longrightarrow> R s u"
begin

lemma io_ret: "state_io_rel R (ret x)"
  by (auto simp: state_io_rel_def io_refl)

lemma io_gets: "state_io_rel R (gets f)"
  by (auto simp: state_io_rel_def io_refl)

lemma io_get: "state_io_rel R State_Monad.get"
  by (auto simp: state_io_rel_def io_refl)

lemma io_modify: "(\<And>s. R s (f s)) \<Longrightarrow> state_io_rel R (modify f)"
  by (auto simp: state_io_rel_def)

lemma io_bind:
  "state_io_rel R m \<Longrightarrow> (\<And>x. state_io_rel R (f x)) \<Longrightarrow> state_io_rel R (State_Monad.bind m f)"
  by (auto simp: state_io_rel_def split: prod.splits)
    (metis io_trans prod.collapse prod.inject)

lemma io_if:
  "(b \<Longrightarrow> state_io_rel R m) \<Longrightarrow> (\<not> b \<Longrightarrow> state_io_rel R n) \<Longrightarrow>
   state_io_rel R (if b then m else n)"
  by simp

lemma io_option:
  "(x = None \<Longrightarrow> state_io_rel R m) \<Longrightarrow> (\<And>y. x = Some y \<Longrightarrow> state_io_rel R (f y)) \<Longrightarrow>
   state_io_rel R (case x of None \<Rightarrow> m | Some y \<Rightarrow> f y)"
  by (simp split: option.split)

lemma io_prod:
  "(\<And>a b. x = (a, b) \<Longrightarrow> state_io_rel R (f a b)) \<Longrightarrow>
   state_io_rel R (case x of (a, b) \<Rightarrow> f a b)"
  by (simp split: prod.split)

lemma io_let: "(\<And>y. y = x \<Longrightarrow> state_io_rel R (f y)) \<Longrightarrow> state_io_rel R (let y = x in f y)"
  by (simp add: Let_def)

lemmas io_rules = io_ret io_gets io_get io_bind io_if io_option io_prod io_let

end

end
