(* ===== verification/Sol_Resource.thy ===== *)
theory Sol_Resource
  imports Sol_Prelude
begin

text \<open>
  \<open>src/src/resource.c\<close>: the compilation budget. A budget records what a compilation has
  used and its limits; while one is active every token, diagnostic, arena entry and
  allocation is charged to it. The thread-local pointer to the active budget is the field
  \<open>active_budget\<close> of the environment that the compiler's operations pass along. The C
  library's allocator is the oracle \<open>heap_fails\<close>: the \<open>n\<close>-th request it gets fails
  when \<open>heap_fails n\<close> holds.
\<close>

section \<open>State\<close>

record SolCompilationLimits =
  lim_source_bytes_per_file :: size_t
  lim_package_source_bytes :: size_t
  lim_source_files :: size_t
  lim_directory_depth :: size_t
  lim_directory_entries :: size_t
  lim_tokens :: size_t
  lim_arena_entries :: size_t
  lim_diagnostics :: size_t
  lim_allocation_bytes :: size_t
  lim_allocation_count :: size_t

record SolResourceBudget =
  budget_limits :: SolCompilationLimits
  used_source_bytes :: size_t
  used_files :: size_t
  used_directory_entries :: size_t
  used_tokens :: size_t
  used_arena_entries :: size_t
  used_diagnostics :: size_t
  used_allocation_bytes :: size_t
  used_allocation_count :: size_t
  budget_failure :: "string option"

record sol_env =
  active_budget :: "SolResourceBudget option"
  heap_fails :: "nat \<Rightarrow> bool"
  heap_calls :: nat

section \<open>Operations\<close>

definition sol_compilation_limits_default :: SolCompilationLimits where
  "sol_compilation_limits_default =
     \<lparr> lim_source_bytes_per_file = 8 * 1024 * 1024,
       lim_package_source_bytes = 64 * 1024 * 1024,
       lim_source_files = 1024,
       lim_directory_depth = 64,
       lim_directory_entries = 100000,
       lim_tokens = 1000000,
       lim_arena_entries = 2000000,
       lim_diagnostics = 256,
       lim_allocation_bytes = 512 * 1024 * 1024,
       lim_allocation_count = 1000000 \<rparr>"

definition budget_start :: "SolCompilationLimits \<Rightarrow> SolResourceBudget" where
  "budget_start l =
     \<lparr> budget_limits = l, used_source_bytes = 0, used_files = 0, used_directory_entries = 0,
       used_tokens = 0, used_arena_entries = 0, used_diagnostics = 0,
       used_allocation_bytes = 0, used_allocation_count = 0, budget_failure = None \<rparr>"

definition sol_resource_begin :: "SolResourceBudget \<Rightarrow> (sol_env, unit) state" where
  "sol_resource_begin b = modify (active_budget_update (\<lambda>_. Some b))"

text \<open>
  \<open>sol_resource_end(budget)\<close> compares its argument with the active pointer: \<open>same\<close> is
  the outcome of that comparison. It returns what the owner then finds in its budget.
\<close>

definition sol_resource_end :: "bool \<Rightarrow> (sol_env, SolResourceBudget option) state" where
  "sol_resource_end same = do {
     b \<leftarrow> gets active_budget;
     (if same then modify (active_budget_update (\<lambda>_. None)) else ret ());
     ret b
   }"

definition sol_resource_failure :: "SolResourceBudget option \<Rightarrow> string option" where
  "sol_resource_failure b = (case b of None \<Rightarrow> None | Some b \<Rightarrow> budget_failure b)"

definition note_failure :: "string \<Rightarrow> SolResourceBudget \<Rightarrow> SolResourceBudget" where
  "note_failure msg b = (if budget_failure b = None then b\<lparr>budget_failure := Some msg\<rparr> else b)"

text \<open>
  \<open>sol_resource_charge\<close> takes a pointer to the counter; here its reader and its updater.
  The first test keeps the addition of the second one below \<open>SIZE_MAX\<close>.
\<close>

definition sol_resource_charge ::
  "(SolResourceBudget \<Rightarrow> size_t) \<Rightarrow>
   ((size_t \<Rightarrow> size_t) \<Rightarrow> SolResourceBudget \<Rightarrow> SolResourceBudget) \<Rightarrow>
   size_t \<Rightarrow> (SolCompilationLimits \<Rightarrow> size_t) \<Rightarrow> string \<Rightarrow> (sol_env, bool) state" where
  "sol_resource_charge used upd amount limit msg = do {
     active \<leftarrow> gets active_budget;
     case active of
       None \<Rightarrow> ret True
     | Some b \<Rightarrow>
         if amount > SIZE_MAX - used b \<or> used b + amount > limit (budget_limits b)
         then do {
           modify (active_budget_update (\<lambda>_. Some (note_failure msg b)));
           ret False
         }
         else do {
           modify (active_budget_update (\<lambda>_. Some (upd (\<lambda>u. u + amount) b)));
           ret True
         }
   }"

definition sol_resource_charge_source :: "size_t \<Rightarrow> (sol_env, bool) state" where
  "sol_resource_charge_source bytes = do {
     active \<leftarrow> gets active_budget;
     case active of
       None \<Rightarrow> ret True
     | Some b \<Rightarrow>
         if bytes > lim_source_bytes_per_file (budget_limits b)
         then do {
           modify (active_budget_update
             (\<lambda>_. Some (note_failure ''source file byte limit exceeded'' b)));
           ret False
         }
         else sol_resource_charge used_source_bytes used_source_bytes_update bytes
           lim_package_source_bytes ''package source byte limit exceeded''
   }"

definition sol_resource_charge_file :: "(sol_env, bool) state" where
  "sol_resource_charge_file =
     sol_resource_charge used_files used_files_update 1 lim_source_files
       ''source file limit exceeded''"

definition sol_resource_charge_directory :: "size_t \<Rightarrow> (sol_env, bool) state" where
  "sol_resource_charge_directory depth = do {
     active \<leftarrow> gets active_budget;
     case active of
       None \<Rightarrow> ret True
     | Some b \<Rightarrow>
         if depth > lim_directory_depth (budget_limits b)
         then do {
           modify (active_budget_update
             (\<lambda>_. Some (note_failure ''directory depth limit exceeded'' b)));
           ret False
         }
         else sol_resource_charge used_directory_entries used_directory_entries_update 1
           lim_directory_entries ''directory entry limit exceeded''
   }"

definition sol_resource_charge_token :: "(sol_env, bool) state" where
  "sol_resource_charge_token =
     sol_resource_charge used_tokens used_tokens_update 1 lim_tokens ''token limit exceeded''"

definition sol_resource_charge_arena :: "size_t \<Rightarrow> (sol_env, bool) state" where
  "sol_resource_charge_arena entries =
     sol_resource_charge used_arena_entries used_arena_entries_update entries lim_arena_entries
       ''compiler arena limit exceeded''"

definition sol_resource_charge_diagnostic :: "(sol_env, bool) state" where
  "sol_resource_charge_diagnostic =
     sol_resource_charge used_diagnostics used_diagnostics_update 1 lim_diagnostics
       ''diagnostic limit exceeded''"

definition sol_resource_charge_allocation :: "size_t \<Rightarrow> (sol_env, bool) state" where
  "sol_resource_charge_allocation sz = do {
     counted \<leftarrow> sol_resource_charge used_allocation_count used_allocation_count_update 1
       lim_allocation_count ''compiler allocation count limit exceeded'';
     if \<not> counted then ret False
     else sol_resource_charge used_allocation_bytes used_allocation_bytes_update sz
       lim_allocation_bytes ''compiler allocation byte limit exceeded''
   }"

text \<open>The C library's \<open>malloc\<close>, \<open>calloc\<close> and \<open>realloc\<close>: whether memory was obtained.\<close>

definition heap_request :: "(sol_env, bool) state" where
  "heap_request = do {
     n \<leftarrow> gets heap_calls;
     fails \<leftarrow> gets heap_fails;
     modify (heap_calls_update Suc);
     ret (\<not> fails n)
   }"

definition sol_resource_malloc :: "size_t \<Rightarrow> (sol_env, bool) state" where
  "sol_resource_malloc sz = do {
     charged \<leftarrow> sol_resource_charge_allocation sz;
     if \<not> charged then ret False else heap_request
   }"

definition sol_resource_calloc :: "size_t \<Rightarrow> size_t \<Rightarrow> (sol_env, bool) state" where
  "sol_resource_calloc count sz = (
     if sz \<noteq> 0 \<and> count > SIZE_MAX div sz then ret False
     else do {
       charged \<leftarrow> sol_resource_charge_allocation (count * sz);
       if \<not> charged then ret False else heap_request
     })"

definition sol_resource_realloc :: "size_t \<Rightarrow> (sol_env, bool) state" where
  "sol_resource_realloc sz = do {
     charged \<leftarrow> sol_resource_charge_allocation sz;
     if \<not> charged then ret False else heap_request
   }"

section \<open>The budget is never overdrawn\<close>

definition within_limits :: "SolResourceBudget \<Rightarrow> bool" where
  "within_limits b \<longleftrightarrow>
     used_source_bytes b \<le> lim_package_source_bytes (budget_limits b) \<and>
     used_files b \<le> lim_source_files (budget_limits b) \<and>
     used_directory_entries b \<le> lim_directory_entries (budget_limits b) \<and>
     used_tokens b \<le> lim_tokens (budget_limits b) \<and>
     used_arena_entries b \<le> lim_arena_entries (budget_limits b) \<and>
     used_diagnostics b \<le> lim_diagnostics (budget_limits b) \<and>
     used_allocation_bytes b \<le> lim_allocation_bytes (budget_limits b) \<and>
     used_allocation_count b \<le> lim_allocation_count (budget_limits b)"

definition used_le :: "SolResourceBudget \<Rightarrow> SolResourceBudget \<Rightarrow> bool" where
  "used_le b c \<longleftrightarrow>
     used_source_bytes b \<le> used_source_bytes c \<and>
     used_files b \<le> used_files c \<and>
     used_directory_entries b \<le> used_directory_entries c \<and>
     used_tokens b \<le> used_tokens c \<and>
     used_arena_entries b \<le> used_arena_entries c \<and>
     used_diagnostics b \<le> used_diagnostics c \<and>
     used_allocation_bytes b \<le> used_allocation_bytes c \<and>
     used_allocation_count b \<le> used_allocation_count c"

text \<open>
  What every charging operation keeps: the limits themselves, the monotonicity of every
  counter, the first failure that was noted, and, from a budget within its limits, that it
  stays within them.
\<close>

definition budget_step :: "SolResourceBudget \<Rightarrow> SolResourceBudget \<Rightarrow> bool" where
  "budget_step b c \<longleftrightarrow>
     budget_limits c = budget_limits b \<and> used_le b c \<and>
     (budget_failure b \<noteq> None \<longrightarrow> budget_failure c = budget_failure b) \<and>
     (within_limits b \<longrightarrow> within_limits c)"

definition env_step :: "sol_env \<Rightarrow> sol_env \<Rightarrow> bool" where
  "env_step e f \<longleftrightarrow>
     heap_fails f = heap_fails e \<and> heap_calls e \<le> heap_calls f \<and>
     (case active_budget e of
        None \<Rightarrow> active_budget f = None
      | Some b \<Rightarrow> (\<exists>c. active_budget f = Some c \<and> budget_step b c))"

lemma used_le_refl [simp]: "used_le b b"
  by (simp add: used_le_def)

lemma used_le_trans: "used_le a b \<Longrightarrow> used_le b c \<Longrightarrow> used_le a c"
  by (auto simp: used_le_def)

lemma budget_step_refl [simp]: "budget_step b b"
  by (simp add: budget_step_def)

lemma budget_step_trans: "budget_step a b \<Longrightarrow> budget_step b c \<Longrightarrow> budget_step a c"
  by (auto simp: budget_step_def intro: used_le_trans)

lemma budget_step_note [simp]: "budget_step b (note_failure msg b)"
  by (auto simp: budget_step_def note_failure_def used_le_def within_limits_def)

interpretation env: io_preorder env_step
proof
  show "env_step s s" for s
    by (auto simp: env_step_def split: option.splits)
  show "env_step s u" if "env_step s t" "env_step t u" for s t u
    using that by (auto simp: env_step_def intro: budget_step_trans split: option.splits)
qed

lemmas charge_defs =
  sol_resource_charge_file_def sol_resource_charge_token_def sol_resource_charge_arena_def
  sol_resource_charge_diagnostic_def

lemma charge_io:
  assumes "\<And>b. used b + amount \<le> limit (budget_limits b) \<Longrightarrow> budget_step b (upd (\<lambda>u. u + amount) b)"
  shows "state_io_rel env_step (sol_resource_charge used upd amount limit msg)"
  unfolding sol_resource_charge_def
  using assms by (auto simp: state_io_rel_def env_step_def budget_step_note split: option.splits)

lemma step_source:
  "used_source_bytes b + n \<le> lim_package_source_bytes (budget_limits b) \<Longrightarrow>
   budget_step b (used_source_bytes_update (\<lambda>u. u + n) b)"
  by (auto simp: budget_step_def used_le_def within_limits_def)

lemma step_files:
  "used_files b + n \<le> lim_source_files (budget_limits b) \<Longrightarrow>
   budget_step b (used_files_update (\<lambda>u. u + n) b)"
  by (auto simp: budget_step_def used_le_def within_limits_def)

lemma step_directory:
  "used_directory_entries b + n \<le> lim_directory_entries (budget_limits b) \<Longrightarrow>
   budget_step b (used_directory_entries_update (\<lambda>u. u + n) b)"
  by (auto simp: budget_step_def used_le_def within_limits_def)

lemma step_tokens:
  "used_tokens b + n \<le> lim_tokens (budget_limits b) \<Longrightarrow>
   budget_step b (used_tokens_update (\<lambda>u. u + n) b)"
  by (auto simp: budget_step_def used_le_def within_limits_def)

lemma step_arena:
  "used_arena_entries b + n \<le> lim_arena_entries (budget_limits b) \<Longrightarrow>
   budget_step b (used_arena_entries_update (\<lambda>u. u + n) b)"
  by (auto simp: budget_step_def used_le_def within_limits_def)

lemma step_diagnostics:
  "used_diagnostics b + n \<le> lim_diagnostics (budget_limits b) \<Longrightarrow>
   budget_step b (used_diagnostics_update (\<lambda>u. u + n) b)"
  by (auto simp: budget_step_def used_le_def within_limits_def)

lemma step_bytes:
  "used_allocation_bytes b + n \<le> lim_allocation_bytes (budget_limits b) \<Longrightarrow>
   budget_step b (used_allocation_bytes_update (\<lambda>u. u + n) b)"
  by (auto simp: budget_step_def used_le_def within_limits_def)

lemma step_count:
  "used_allocation_count b + n \<le> lim_allocation_count (budget_limits b) \<Longrightarrow>
   budget_step b (used_allocation_count_update (\<lambda>u. u + n) b)"
  by (auto simp: budget_step_def used_le_def within_limits_def)

lemmas budget_steps =
  step_source step_files step_directory step_tokens step_arena step_diagnostics
  step_bytes step_count

lemma note_io:
  "state_io_rel env_step (do {
     active \<leftarrow> gets active_budget;
     case active of
       None \<Rightarrow> ret True
     | Some b \<Rightarrow>
         if p b
         then do {
           modify (active_budget_update (\<lambda>_. Some (note_failure msg b)));
           ret False
         }
         else m
   })"
  if "state_io_rel env_step m"
  using that by (auto simp: state_io_rel_def env_step_def split: option.splits)

lemma charge_file_io [io_intro]: "state_io_rel env_step sol_resource_charge_file"
  unfolding charge_defs by (intro charge_io budget_steps)

lemma charge_token_io [io_intro]: "state_io_rel env_step sol_resource_charge_token"
  unfolding charge_defs by (intro charge_io budget_steps)

lemma charge_arena_io [io_intro]: "state_io_rel env_step (sol_resource_charge_arena n)"
  unfolding charge_defs by (intro charge_io budget_steps)

lemma charge_diagnostic_io [io_intro]: "state_io_rel env_step sol_resource_charge_diagnostic"
  unfolding charge_defs by (intro charge_io budget_steps)

lemma charge_source_io [io_intro]: "state_io_rel env_step (sol_resource_charge_source n)"
  unfolding sol_resource_charge_source_def by (intro note_io charge_io budget_steps)

lemma charge_directory_io [io_intro]: "state_io_rel env_step (sol_resource_charge_directory n)"
  unfolding sol_resource_charge_directory_def by (intro note_io charge_io budget_steps)

lemma charge_allocation_io [io_intro]: "state_io_rel env_step (sol_resource_charge_allocation n)"
  unfolding sol_resource_charge_allocation_def
  by (intro env.io_rules charge_io budget_steps)

lemma heap_request_io [io_intro]: "state_io_rel env_step heap_request"
  by (auto simp: heap_request_def state_io_rel_def env_step_def split: option.splits)

lemma malloc_io [io_intro]: "state_io_rel env_step (sol_resource_malloc n)"
  unfolding sol_resource_malloc_def by (intro env.io_rules io_intro)

lemma calloc_io [io_intro]: "state_io_rel env_step (sol_resource_calloc n m)"
  unfolding sol_resource_calloc_def by (intro env.io_rules io_intro)

lemma realloc_io [io_intro]: "state_io_rel env_step (sol_resource_realloc n)"
  unfolding sol_resource_realloc_def by (intro env.io_rules io_intro)

text \<open>What a single charge decides: exactly whether the amount still fits.\<close>

lemma charge_result:
  assumes "active_budget e = Some b" and "limit (budget_limits b) \<le> SIZE_MAX"
    and "used b \<le> limit (budget_limits b)"
  shows "fst (run_state (sol_resource_charge used upd amount limit msg) e)
     \<longleftrightarrow> used b + amount \<le> limit (budget_limits b)"
  using assms by (auto simp: sol_resource_charge_def)

end
