(* ===== verification/Sol_Source.thy ===== *)
theory Sol_Source
  imports Sol_Resource
begin

text \<open>
  \<open>src/src/source.c\<close>: a source text with the offsets at which its lines start. The C
  structure holds the text with its length and a trailing NUL; here \<open>src_text\<close> is the
  list of its \<open>length\<close> bytes. \<open>sol_source_index_lines\<close> walks the text twice, once to
  size the array of line starts and once to fill it, and \<open>sol_source_position\<close> finds a
  line by binary search. The lemmas show that the two walks agree, so the array is filled
  exactly, and that the search computes the line and column of its offset.
\<close>

section \<open>Sources, spans, positions\<close>

record SolSource =
  src_path :: string
  src_text :: string
  line_starts :: "size_t list"

abbreviation src_length :: "SolSource \<Rightarrow> size_t" where
  "src_length src \<equiv> length (src_text src)"

abbreviation line_count :: "SolSource \<Rightarrow> size_t" where
  "line_count src \<equiv> length (line_starts src)"

record SolSpan =
  sp_start :: size_t
  sp_end :: size_t

abbreviation span :: "size_t \<Rightarrow> size_t \<Rightarrow> SolSpan" where
  "span s e \<equiv> \<lparr> sp_start = s, sp_end = e \<rparr>"

record SolPosition =
  pos_line :: size_t
  pos_column :: size_t

section \<open>Indexing lines\<close>

text \<open>
  Both loops of \<open>sol_source_index_lines\<close> visit the text left to right; a carriage return
  takes a following line feed with it. \<open>count_lines\<close> is the counting loop and
  \<open>fill_lines\<close> the filling one, from the byte at \<open>index\<close> on.
\<close>

function count_lines :: "string \<Rightarrow> size_t \<Rightarrow> size_t \<Rightarrow> size_t" where
  "count_lines tx index count =
     (if index < length tx then
        if tx ! index = CHR 0x0D then
          (if index + 1 < length tx \<and> tx ! (index + 1) = CHR 0x0A
           then count_lines tx (index + 2) (count + 1)
           else count_lines tx (index + 1) (count + 1))
        else if tx ! index = CHR 0x0A then count_lines tx (index + 1) (count + 1)
        else count_lines tx (index + 1) count
      else count)"
  by pat_completeness auto
termination
  by (relation "measure (\<lambda>(tx, index, count). length tx - index)") auto

function fill_lines :: "string \<Rightarrow> size_t \<Rightarrow> size_t list \<Rightarrow> size_t list" where
  "fill_lines tx index starts =
     (if index < length tx then
        if tx ! index = CHR 0x0D then
          (if index + 1 < length tx \<and> tx ! (index + 1) = CHR 0x0A
           then fill_lines tx (index + 2) (starts @ [index + 2])
           else fill_lines tx (index + 1) (starts @ [index + 1]))
        else if tx ! index = CHR 0x0A then fill_lines tx (index + 1) (starts @ [index + 1])
        else fill_lines tx (index + 1) starts
      else starts)"
  by pat_completeness auto
termination
  by (relation "measure (\<lambda>(tx, index, starts). length tx - index)") auto

declare count_lines.simps [simp del] fill_lines.simps [simp del]

definition sizeof_size_t :: size_t where
  "sizeof_size_t = 8"

text \<open>\<open>None\<close>: the array of line starts could not be obtained.\<close>

definition sol_source_index_lines :: "SolSource \<Rightarrow> (sol_env, SolSource option) state" where
  "sol_source_index_lines src = (
     let count = count_lines (src_text src) 0 1 in
     if count > SIZE_MAX div sizeof_size_t then ret None
     else do {
       starts \<leftarrow> sol_resource_malloc (count * sizeof_size_t);
       if \<not> starts then ret None
       else ret (Some (src\<lparr>line_starts := fill_lines (src_text src) 0 [0]\<rparr>))
     })"

text \<open>\<open>tx\<close> is a C string: what follows a NUL byte is not seen.\<close>

definition sol_source_from_text :: "string \<Rightarrow> string \<Rightarrow> (sol_env, SolSource option) state" where
  "sol_source_from_text path tx = do {
     copy \<leftarrow> sol_resource_malloc (length (c_string tx) + 1);
     if \<not> copy then ret None
     else sol_source_index_lines
       \<lparr> src_path = path, src_text = c_string tx, line_starts = [] \<rparr>
   }"

section \<open>Positions\<close>

function position_search :: "size_t list \<Rightarrow> size_t \<Rightarrow> size_t \<Rightarrow> size_t \<Rightarrow> size_t" where
  "position_search starts offset low high =
     (if low + 1 < high then
        let middle = low + (high - low) div 2 in
        if starts ! middle \<le> offset then position_search starts offset middle high
        else position_search starts offset low middle
      else low)"
  by pat_completeness auto
termination
  by (relation "measure (\<lambda>(starts, offset, low, high). high - low)") auto

declare position_search.simps [simp del]

definition sol_source_position :: "SolSource \<Rightarrow> size_t \<Rightarrow> SolPosition" where
  "sol_source_position src offset =
     (let offset = (if offset > src_length src then src_length src else offset);
          low = position_search (line_starts src) offset 0 (line_count src)
      in \<lparr> pos_line = low + 1,
           pos_column = size_sub offset (line_starts src ! low) + 1 \<rparr>)"

section \<open>The two walks agree\<close>

lemma length_fill_lines: "length (fill_lines tx i xs) = count_lines tx i (length xs)"
proof (induction tx i xs rule: fill_lines.induct)
  case (1 tx i xs)
  show ?case
    using "1" by (simp add: fill_lines.simps [of tx i xs] count_lines.simps [of tx i])
qed

text \<open>
  The specification of a line start: the first offset, the offset after a line feed, and
  the offset after a carriage return that no line feed follows.
\<close>

definition line_start :: "string \<Rightarrow> nat \<Rightarrow> bool" where
  "line_start tx j \<longleftrightarrow>
     j = 0 \<or>
     (j \<le> length tx \<and>
      (tx ! (j - 1) = CHR 0x0A \<or>
       tx ! (j - 1) = CHR 0x0D \<and> \<not> (j < length tx \<and> tx ! j = CHR 0x0A)))"

definition mid_crlf :: "string \<Rightarrow> nat \<Rightarrow> bool" where
  "mid_crlf tx i \<longleftrightarrow>
     0 < i \<and> i < length tx \<and> tx ! (i - 1) = CHR 0x0D \<and> tx ! i = CHR 0x0A"

lemma line_start_le: "line_start tx j \<Longrightarrow> j \<le> length tx"
  by (auto simp: line_start_def)

definition starts_upto :: "string \<Rightarrow> nat \<Rightarrow> size_t list \<Rightarrow> bool" where
  "starts_upto tx i xs \<longleftrightarrow>
     sorted_wrt (<) xs \<and> set xs = {j. j \<le> i \<and> line_start tx j}"

lemma starts_upto_snoc:
  assumes "starts_upto tx i xs" and "i < k" and "line_start tx k"
    and "\<And>j. i < j \<Longrightarrow> j < k \<Longrightarrow> \<not> line_start tx j"
  shows "starts_upto tx k (xs @ [k])"
proof -
  have "set (xs @ [k]) = {j. j \<le> k \<and> line_start tx j}"
    using assms by (auto simp: starts_upto_def le_less not_less)
  with assms show ?thesis by (auto simp: starts_upto_def sorted_wrt_append)
qed

lemma starts_upto_skip:
  assumes "starts_upto tx i xs" and "\<not> line_start tx (i + 1)"
  shows "starts_upto tx (i + 1) xs"
  using assms by (auto simp: starts_upto_def le_Suc_eq)

lemma fill_lines_spec:
  "starts_upto tx i xs \<Longrightarrow> i \<le> length tx \<Longrightarrow> \<not> mid_crlf tx i \<Longrightarrow>
   starts_upto tx (length tx) (fill_lines tx i xs)"
proof (induction tx i xs rule: fill_lines.induct)
  case (1 tx i xs)
  note IH = "1.IH" and prems = "1.prems"
  show ?case
  proof (cases "i < length tx")
    case False
    with prems show ?thesis by (subst fill_lines.simps) simp
  next
    case True
    consider (crlf) "tx ! i = CHR 0x0D" "i + 1 < length tx \<and> tx ! (i + 1) = CHR 0x0A"
      | (cr) "tx ! i = CHR 0x0D" "\<not> (i + 1 < length tx \<and> tx ! (i + 1) = CHR 0x0A)"
      | (lf) "tx ! i = CHR 0x0A" "tx ! i \<noteq> CHR 0x0D"
      | (other) "tx ! i \<noteq> CHR 0x0D" "tx ! i \<noteq> CHR 0x0A"
      by fastforce
    then show ?thesis
    proof cases
      case crlf
      have "starts_upto tx (i + 2) (xs @ [i + 2])"
        using prems(1) crlf by (rule_tac starts_upto_snoc) (auto simp: line_start_def less_Suc_eq)
      then have "starts_upto tx (length tx) (fill_lines tx (i + 2) (xs @ [i + 2]))"
        using IH(1) True crlf by (auto simp: mid_crlf_def)
      then show ?thesis using True crlf by (simp add: fill_lines.simps [of tx i])
    next
      case cr
      have "starts_upto tx (i + 1) (xs @ [i + 1])"
        using prems(1) True cr by (rule_tac starts_upto_snoc) (auto simp: line_start_def)
      then have "starts_upto tx (length tx) (fill_lines tx (i + 1) (xs @ [i + 1]))"
        using IH(2) True cr by (auto simp: mid_crlf_def)
      then show ?thesis using True cr by (auto simp: fill_lines.simps [of tx i])
    next
      case lf
      have "starts_upto tx (i + 1) (xs @ [i + 1])"
        using prems(1) True lf by (rule_tac starts_upto_snoc) (auto simp: line_start_def)
      then have "starts_upto tx (length tx) (fill_lines tx (i + 1) (xs @ [i + 1]))"
        using IH(3) True lf by (auto simp: mid_crlf_def)
      then show ?thesis using True lf by (simp add: fill_lines.simps [of tx i])
    next
      case other
      have "starts_upto tx (i + 1) xs"
        using prems(1) other by (intro starts_upto_skip) (auto simp: line_start_def)
      then have "starts_upto tx (length tx) (fill_lines tx (i + 1) xs)"
        using IH(4) True other by (auto simp: mid_crlf_def)
      then show ?thesis using True other by (simp add: fill_lines.simps [of tx i])
    qed
  qed
qed

lemma fill_lines_from_start: "starts_upto tx (length tx) (fill_lines tx 0 [0])"
  by (rule fill_lines_spec) (auto simp: starts_upto_def mid_crlf_def line_start_def)

text \<open>A source whose line starts are those of its text, as the constructors leave it.\<close>

definition indexed :: "SolSource \<Rightarrow> bool" where
  "indexed src \<longleftrightarrow> line_starts src = fill_lines (src_text src) 0 [0]"

lemma indexed_sorted: "indexed src \<Longrightarrow> sorted_wrt (<) (line_starts src)"
  and indexed_set: "indexed src \<Longrightarrow> set (line_starts src) = {j. line_start (src_text src) j}"
  using fill_lines_from_start [of "src_text src"]
  by (auto simp: indexed_def starts_upto_def dest: line_start_le)

lemma indexed_nonempty: "indexed src \<Longrightarrow> line_starts src \<noteq> []"
  using indexed_set [of src] by (auto simp: line_start_def)

lemma indexed_first: "indexed src \<Longrightarrow> line_starts src ! 0 = 0"
proof -
  assume ix: "indexed src"
  from ix have "0 \<in> set (line_starts src)" by (simp add: indexed_set line_start_def)
  then obtain k where k: "k < line_count src" "line_starts src ! k = 0"
    by (auto simp: in_set_conv_nth)
  show ?thesis
  proof (cases k)
    case (Suc m)
    with k indexed_sorted [OF ix] have "line_starts src ! 0 < 0"
      by (metis sorted_wrt_nth_less zero_less_Suc)
    then show ?thesis by simp
  qed (use k in simp)
qed

lemma index_lines_indexed:
  "run_state (sol_source_index_lines src) e = (Some src', e') \<Longrightarrow>
   indexed src' \<and> src_text src' = src_text src \<and> src_path src' = src_path src"
  by (auto simp: sol_source_index_lines_def indexed_def Let_def split: if_splits prod.splits)

text \<open>The array the second walk fills has the size the first walk asked for.\<close>

lemma index_lines_fills_exactly:
  "length (fill_lines tx 0 [0]) = count_lines tx 0 1"
  by (simp add: length_fill_lines)

section \<open>The search finds the line\<close>

lemma position_search_spec:
  assumes "sorted_wrt (<) starts" and "low < high" and "high \<le> length starts"
    and "starts ! low \<le> offset" and "\<And>j. high \<le> j \<Longrightarrow> j < length starts \<Longrightarrow> offset < starts ! j"
  shows "position_search starts offset low high < length starts \<and>
     starts ! position_search starts offset low high \<le> offset \<and>
     (\<forall>j. position_search starts offset low high < j \<longrightarrow> j < length starts \<longrightarrow>
        offset < starts ! j)"
  using assms
proof (induction starts offset low high rule: position_search.induct)
  case (1 starts offset low high)
  show ?case
  proof (cases "low + 1 < high")
    case False
    with "1.prems" show ?thesis
      by (auto simp: position_search.simps [of starts offset low high])
  next
    case True
    let ?mid = "low + (high - low) div 2"
    have mid: "low < ?mid" "?mid < high" using True by auto
    show ?thesis
    proof (cases "starts ! ?mid \<le> offset")
      case le: True
      with "1.IH"(1) "1.prems" True mid show ?thesis
        by (simp add: position_search.simps [of starts offset low high] Let_def)
    next
      case gt: False
      have "offset < starts ! j" if "?mid \<le> j" "j < length starts" for j
      proof (cases "j = ?mid")
        case False
        with that "1.prems"(1) have "starts ! ?mid < starts ! j"
          by (metis le_neq_implies_less sorted_wrt_nth_less)
        with gt show ?thesis by simp
      qed (use gt in simp)
      with "1.IH"(2) "1.prems" True mid gt show ?thesis
        by (simp add: position_search.simps [of starts offset low high] Let_def)
    qed
  qed
qed

lemma card_prefix:
  assumes "sorted_wrt (<) xs" and "k < length xs" and "xs ! k \<le> b"
    and "\<And>j. k < j \<Longrightarrow> j < length xs \<Longrightarrow> b < xs ! j"
  shows "card {x \<in> set xs. x \<le> (b::nat)} = k + 1"
proof -
  have "{x \<in> set xs. x \<le> b} = (\<lambda>i. xs ! i) ` {..k}"
  proof (intro equalityI subsetI)
    fix x assume "x \<in> {x \<in> set xs. x \<le> b}"
    then obtain i where i: "i < length xs" "xs ! i = x" "x \<le> b" by (auto simp: in_set_conv_nth)
    then have "i \<le> k" using assms(4) [of i] by (meson leD leI)
    with i show "x \<in> (\<lambda>i. xs ! i) ` {..k}" by auto
  next
    fix x assume "x \<in> (\<lambda>i. xs ! i) ` {..k}"
    then obtain i where i: "i \<le> k" "x = xs ! i" by auto
    then have "xs ! i \<le> xs ! k"
      using assms(1,2) by (cases "i = k") (auto dest: sorted_wrt_nth_less [of _ _ i k])
    with i assms(2,3) show "x \<in> {x \<in> set xs. x \<le> b}" by auto
  qed
  moreover have "inj_on (\<lambda>i. xs ! i) {..k}"
    using assms(1,2) by (intro inj_onI)
      (metis atMost_iff le_less_trans less_irrefl linorder_neqE_nat sorted_wrt_nth_less)
  ultimately show ?thesis by (simp add: card_image)
qed

lemma position_found:
  fixes off :: nat
  assumes "indexed src"
  defines "k \<equiv> position_search (line_starts src) off 0 (line_count src)"
  shows "k < line_count src \<and> line_starts src ! k \<le> off \<and>
    (\<forall>j. k < j \<longrightarrow> j < line_count src \<longrightarrow> off < line_starts src ! j)"
  unfolding k_def using assms(1) indexed_nonempty [of src]
  by (intro position_search_spec) (auto simp: indexed_sorted indexed_first)

definition crlf_sample :: SolSource where
  "crlf_sample = \<lparr> src_path = ''a'', src_text = [CHR ''x'', CHR 0x0D, CHR 0x0A, CHR ''y''],
     line_starts = [0, 3] \<rparr>"

section \<open>Properties\<close>

text \<open>
  C33. The position of an offset is the one an editor would show: its line is the number of
  line starts of the text at or before the offset (clamped to the length of the text), and
  its column counts from the start of that line, which the line and the column determine
  together with the text.
\<close>

theorem sol_source_position_correct:
  assumes "indexed src"
  shows "pos_line (sol_source_position src offset)
      = card {j. line_start (src_text src) j \<and> j \<le> min offset (src_length src)}
    \<and> line_starts src ! (pos_line (sol_source_position src offset) - 1)
      + (pos_column (sol_source_position src offset) - 1) = min offset (src_length src)
    \<and> 1 \<le> pos_line (sol_source_position src offset)
    \<and> pos_line (sol_source_position src offset) \<le> line_count src
    \<and> 1 \<le> pos_column (sol_source_position src offset)"
proof -
  define off where "off = min offset (src_length src)"
  let ?k = "position_search (line_starts src) off 0 (line_count src)"
  from position_found [OF assms(1), of off] have k: "?k < line_count src"
    "line_starts src ! ?k \<le> off" "\<And>j. ?k < j \<Longrightarrow> j < line_count src \<Longrightarrow> off < line_starts src ! j"
    by auto
  have "card {j \<in> set (line_starts src). j \<le> off} = ?k + 1"
    using k assms(1) by (intro card_prefix) (auto simp: indexed_sorted)
  moreover have "{j \<in> set (line_starts src). j \<le> off} = {j. line_start (src_text src) j \<and> j \<le> off}"
    using assms(1) by (auto simp: indexed_set)
  moreover have "sol_source_position src offset =
      \<lparr> pos_line = ?k + 1, pos_column = size_sub off (line_starts src ! ?k) + 1 \<rparr>"
    by (simp add: sol_source_position_def Let_def off_def min_def not_less)
  ultimately show ?thesis unfolding off_def [symmetric] using k by simp
qed

theorem sol_source_position_correct_witness:
  "indexed crlf_sample \<and>
   pos_line (sol_source_position crlf_sample 3)
     = card {j. line_start (src_text crlf_sample) j \<and> j \<le> min 3 (src_length crlf_sample)}"
proof -
  have ix: "indexed crlf_sample"
    by (simp add: crlf_sample_def indexed_def fill_lines.simps)
  with sol_source_position_correct [OF ix, of 3] show ?thesis by blast
qed

text \<open>
  C34. A source built from a text is indexed: its line starts are exactly the line starts of
  the text in increasing order, and the array that holds them was sized exactly by the
  counting walk (so the filling walk neither overruns it nor leaves a gap).
\<close>

theorem sol_source_from_text_indexes:
  assumes "run_state (sol_source_from_text path tx) e = (Some src, e')"
  shows "src_text src = c_string tx
    \<and> set (line_starts src) = {j. line_start (c_string tx) j}
    \<and> sorted_wrt (<) (line_starts src)
    \<and> line_count src = count_lines (c_string tx) 0 1"
proof -
  from assms have ix: "indexed src" "src_text src = c_string tx"
    by (auto simp: sol_source_from_text_def split: prod.splits if_splits dest!: index_lines_indexed)
  then have "line_count src = count_lines (c_string tx) 0 1"
    by (simp add: indexed_def length_fill_lines)
  with ix show ?thesis by (simp add: indexed_set indexed_sorted)
qed

theorem sol_source_from_text_indexes_witness:
  "sorted_wrt (<) (line_starts (the (fst (run_state (sol_source_from_text ''a'' [CHR 0x0A])
     \<lparr> active_budget = None, heap_fails = \<lambda>_. False, heap_calls = 0 \<rparr>))))"
  using sol_source_from_text_indexes [of "''a''" "[CHR 0x0A]"
     "\<lparr> active_budget = None, heap_fails = \<lambda>_. False, heap_calls = 0 \<rparr>"
     "\<lparr> src_path = ''a'', src_text = [CHR 0x0A], line_starts = [0, 1] \<rparr>"
     "\<lparr> active_budget = None, heap_fails = \<lambda>_. False, heap_calls = 2 \<rparr>"]
  by (simp add: sol_source_from_text_def sol_source_index_lines_def sol_resource_malloc_def
      sol_resource_charge_allocation_def sol_resource_charge_def heap_request_def c_string_def
      count_lines.simps fill_lines.simps sizeof_size_t_def SIZE_MAX_def)

end
