(* ===== verification/Sol_Diagnostic.thy ===== *)
theory Sol_Diagnostic
  imports Sol_Source
begin

text \<open>
  \<open>src/src/diagnostic.c\<close>: the growable array of diagnostics, its error test and its two
  renderings. A rendering is the list of bytes written to the stream. Messages reach
  \<open>sol_diagnostics_add\<close> already formatted; the copies into the fixed arrays \<open>code[32]\<close>
  and \<open>message[256]\<close> truncate as \<open>snprintf\<close> does.
\<close>

section \<open>Data\<close>

datatype SolSeverity = SOL_SEVERITY_ERROR | SOL_SEVERITY_WARNING

record SolDiagnostic =
  dg_code :: string
  dg_severity :: SolSeverity
  dg_message :: string
  dg_span :: SolSpan

record SolDiagnostics =
  dgs_items :: "SolDiagnostic list"
  dgs_capacity :: size_t
  dgs_allocation_failed :: bool

definition sol_diagnostics_init :: SolDiagnostics where
  "sol_diagnostics_init =
     \<lparr> dgs_items = [], dgs_capacity = 0, dgs_allocation_failed = False \<rparr>"

definition sizeof_SolDiagnostic :: size_t where
  "sizeof_SolDiagnostic = 312"

section \<open>Adding\<close>

text \<open>
  The growth step shared by the compiler's arrays: nothing to do below the capacity,
  otherwise double it (from \<open>initial\<close>) unless that leaves \<open>size_t\<close>. It yields the new
  capacity, or \<open>None\<close> when the memory could not be obtained.
\<close>

definition grow_array :: "size_t \<Rightarrow> size_t \<Rightarrow> size_t \<Rightarrow> size_t \<Rightarrow> (sol_env, size_t option) state" where
  "grow_array initial item count capacity = (
     if count = capacity then
       if capacity > SIZE_MAX div 2 then ret None
       else
         let capacity' = (if capacity = 0 then initial else capacity * 2) in
         if capacity' > SIZE_MAX div item then ret None
         else do {
           grown \<leftarrow> sol_resource_realloc (capacity' * item);
           ret (if grown then Some capacity' else None)
         }
     else ret (Some capacity))"

definition make_diagnostic :: "string \<Rightarrow> SolSeverity \<Rightarrow> SolSpan \<Rightarrow> string \<Rightarrow> SolDiagnostic" where
  "make_diagnostic code severity sp message =
     \<lparr> dg_code = take 31 (c_string code), dg_severity = severity,
       dg_message = take 255 (c_string message), dg_span = sp \<rparr>"

definition sol_diagnostics_add ::
  "SolDiagnostics \<Rightarrow> string \<Rightarrow> SolSeverity \<Rightarrow> SolSpan \<Rightarrow> string \<Rightarrow>
   (sol_env, bool \<times> SolDiagnostics) state" where
  "sol_diagnostics_add ds code severity sp message = do {
     charged \<leftarrow> sol_resource_charge_diagnostic;
     if \<not> charged then ret (False, ds\<lparr>dgs_allocation_failed := True\<rparr>)
     else do {
       grown \<leftarrow> grow_array 8 sizeof_SolDiagnostic (length (dgs_items ds)) (dgs_capacity ds);
       case grown of
         None \<Rightarrow> ret (False, ds\<lparr>dgs_allocation_failed := True\<rparr>)
       | Some capacity \<Rightarrow>
           ret (True, ds\<lparr>dgs_capacity := capacity,
             dgs_items := dgs_items ds @ [make_diagnostic code severity sp message]\<rparr>)
     }
   }"

definition sol_diagnostics_has_errors :: "SolDiagnostics \<Rightarrow> bool" where
  "sol_diagnostics_has_errors ds \<longleftrightarrow>
     dgs_allocation_failed ds \<or>
     list_ex (\<lambda>d. dg_severity d = SOL_SEVERITY_ERROR) (dgs_items ds)"

section \<open>Rendering\<close>

definition sol_severity_name :: "SolSeverity \<Rightarrow> string" where
  "sol_severity_name severity =
     (if severity = SOL_SEVERITY_ERROR then ''error'' else ''warning'')"

definition digit :: "nat \<Rightarrow> char" where
  "digit d = char_of (48 + d)"

fun decimal :: "nat \<Rightarrow> string" where
  "decimal n = (if n < 10 then [digit n] else decimal (n div 10) @ [digit (n mod 10)])"

declare decimal.simps [simp del]

definition hex_digit :: "nat \<Rightarrow> char" where
  "hex_digit d = (if d < 10 then char_of (48 + d) else char_of (87 + d))"

definition render_human_one :: "SolSource \<Rightarrow> SolDiagnostic \<Rightarrow> string" where
  "render_human_one src d =
     (let position = sol_source_position src (sp_start (dg_span d)) in
      src_path src @ '':'' @ decimal (pos_line position) @ '':'' @
      decimal (pos_column position) @ '': '' @ sol_severity_name (dg_severity d) @ ''['' @
      dg_code d @ '']: '' @ dg_message d @ [CHR 0x0A])"

definition sol_diagnostics_render_human :: "SolSource \<Rightarrow> SolDiagnostics \<Rightarrow> string" where
  "sol_diagnostics_render_human src ds = concat (map (render_human_one src) (dgs_items ds))"

definition json_escape :: "char \<Rightarrow> string" where
  "json_escape c =
     (if c = CHR 0x22 then [CHR 0x5C, CHR 0x22]
      else if c = CHR 0x5C then [CHR 0x5C, CHR 0x5C]
      else if c = CHR 0x08 then [CHR 0x5C, CHR ''b'']
      else if c = CHR 0x0C then [CHR 0x5C, CHR ''f'']
      else if c = CHR 0x0A then [CHR 0x5C, CHR ''n'']
      else if c = CHR 0x0D then [CHR 0x5C, CHR ''r'']
      else if c = CHR 0x09 then [CHR 0x5C, CHR ''t'']
      else if byte c < 32
      then [CHR 0x5C, CHR ''u'', CHR ''0'', CHR ''0'',
            hex_digit (byte c div 16), hex_digit (byte c mod 16)]
      else [c])"

text \<open>The loop stops at the NUL that ends the C string.\<close>

definition sol_json_string :: "string \<Rightarrow> string" where
  "sol_json_string tx =
     [CHR 0x22] @ concat (map json_escape (c_string tx)) @ [CHR 0x22]"

definition quoted :: "string \<Rightarrow> string" where
  "quoted s = [CHR 0x22] @ s @ [CHR 0x22]"

definition render_position :: "SolPosition \<Rightarrow> string" where
  "render_position p =
     ''{'' @ quoted ''line'' @ '':'' @ decimal (pos_line p) @ '','' @ quoted ''column'' @ '':'' @
     decimal (pos_column p) @ ''}''"

definition render_json_one :: "SolSource \<Rightarrow> SolDiagnostic \<Rightarrow> string" where
  "render_json_one src d =
     ''{'' @ quoted ''schema'' @ '':'' @ quoted ''sol.diagnostic/1'' @ '','' @ quoted ''code'' @ '':'' @
     sol_json_string (dg_code d) @ '','' @ quoted ''severity'' @ '':'' @
     sol_json_string (sol_severity_name (dg_severity d)) @ '','' @ quoted ''message'' @ '':'' @
     sol_json_string (dg_message d) @ '','' @ quoted ''locations'' @ '':[{'' @ quoted ''file'' @ '':'' @
     sol_json_string (src_path src) @ '','' @ quoted ''start'' @ '':'' @
     render_position (sol_source_position src (sp_start (dg_span d))) @ '','' @ quoted ''end'' @ '':'' @
     render_position (sol_source_position src (sp_end (dg_span d))) @ '','' @ quoted ''role'' @ '':'' @
     quoted ''primary'' @ ''}]}''"

fun separated :: "string \<Rightarrow> string list \<Rightarrow> string" where
  "separated sep [] = []"
| "separated sep [x] = x"
| "separated sep (x # xs) = x @ sep @ separated sep xs"

definition sol_diagnostics_render_json :: "SolSource \<Rightarrow> SolDiagnostics \<Rightarrow> string" where
  "sol_diagnostics_render_json src ds =
     ''['' @ separated '','' (map (render_json_one src) (dgs_items ds)) @ '']'' @ [CHR 0x0A]"

section \<open>Growth\<close>

lemma grow_array_io [io_intro]: "state_io_rel env_step (grow_array ini item count capacity)"
  unfolding grow_array_def by (intro env.io_rules io_intro)

lemma grow_array_room:
  assumes "run_state (grow_array ini item count capacity) e = (Some capacity', e')"
    and "count \<le> capacity" and "0 < ini"
  shows "count < capacity' \<and> capacity \<le> capacity'"
  using assms by (auto simp: grow_array_def Let_def split: if_splits prod.splits)

lemma grow_array_bytes:
  assumes "run_state (grow_array ini item count capacity) e = (Some capacity', e')"
    and "capacity * item \<le> SIZE_MAX" and "0 < item"
  shows "capacity' * item \<le> SIZE_MAX"
  using assms
  by (auto simp: grow_array_def Let_def less_eq_div_iff_mult_less_eq not_less
      split: if_splits prod.splits)

definition diagnostics_ok :: "SolDiagnostics \<Rightarrow> bool" where
  "diagnostics_ok ds \<longleftrightarrow>
     length (dgs_items ds) \<le> dgs_capacity ds \<and>
     dgs_capacity ds * sizeof_SolDiagnostic \<le> SIZE_MAX \<and>
     list_all (\<lambda>d. length (dg_code d) < 32 \<and> length (dg_message d) < 256) (dgs_items ds)"

lemma diagnostics_init_ok: "diagnostics_ok sol_diagnostics_init"
  by (simp add: diagnostics_ok_def sol_diagnostics_init_def)

lemma diagnostics_add_io [io_intro]:
  "state_io_rel env_step (sol_diagnostics_add ds code severity sp message)"
  unfolding sol_diagnostics_add_def by (intro env.io_rules io_intro)

lemma make_diagnostic_fits:
  "length (dg_code (make_diagnostic c v sp m)) < 32 \<and>
   length (dg_message (make_diagnostic c v sp m)) < 256"
  by (auto simp: make_diagnostic_def min_def)

lemma diagnostics_add_cases:
  assumes "run_state (sol_diagnostics_add ds code severity sp message) e = ((ok, ds'), e')"
  obtains "\<not> ok" "ds' = ds\<lparr>dgs_allocation_failed := True\<rparr>"
  | capacity e1 e2 where "ok"
      "run_state (grow_array 8 sizeof_SolDiagnostic (length (dgs_items ds)) (dgs_capacity ds)) e1
         = (Some capacity, e2)"
      "ds' = ds\<lparr>dgs_capacity := capacity,
         dgs_items := dgs_items ds @ [make_diagnostic code severity sp message]\<rparr>"
  using assms
  by (fastforce simp: sol_diagnostics_add_def split: if_splits prod.splits option.splits)

section \<open>UTF-8\<close>

text \<open>
  Well-formed UTF-8 (RFC 3629, section 4): after a leading byte each of the bytes that must
  follow has its own range, which rules out overlong forms, surrogates and values above
  U+10FFFF.
\<close>

definition utf8_tail :: "nat \<Rightarrow> (nat \<times> nat) list option" where
  "utf8_tail b =
     (if 0xC2 \<le> b \<and> b \<le> 0xDF then Some [(0x80, 0xBF)]
      else if b = 0xE0 then Some [(0xA0, 0xBF), (0x80, 0xBF)]
      else if b = 0xED then Some [(0x80, 0x9F), (0x80, 0xBF)]
      else if 0xE1 \<le> b \<and> b \<le> 0xEF then Some [(0x80, 0xBF), (0x80, 0xBF)]
      else if b = 0xF0 then Some [(0x90, 0xBF), (0x80, 0xBF), (0x80, 0xBF)]
      else if 0xF1 \<le> b \<and> b \<le> 0xF3 then Some [(0x80, 0xBF), (0x80, 0xBF), (0x80, 0xBF)]
      else if b = 0xF4 then Some [(0x80, 0x8F), (0x80, 0xBF), (0x80, 0xBF)]
      else None)"

fun utf8_from :: "(nat \<times> nat) list \<Rightarrow> string \<Rightarrow> bool" where
  "utf8_from pending [] \<longleftrightarrow> pending = []"
| "utf8_from [] (c # cs) \<longleftrightarrow>
     (if byte c < 0x80 then utf8_from [] cs
      else case utf8_tail (byte c) of None \<Rightarrow> False | Some pending \<Rightarrow> utf8_from pending cs)"
| "utf8_from ((low, high) # pending) (c # cs) \<longleftrightarrow>
     low \<le> byte c \<and> byte c \<le> high \<and> utf8_from pending cs"

abbreviation valid_utf8 :: "string \<Rightarrow> bool" where
  "valid_utf8 \<equiv> utf8_from []"

text \<open>The encoding of U+0000 to U+00FF.\<close>

definition utf8_encode :: "nat \<Rightarrow> string" where
  "utf8_encode n =
     (if n < 0x80 then [char_of n] else [char_of (0xC0 + n div 64), char_of (0x80 + n mod 64)])"

section \<open>JSON strings\<close>

text \<open>
  A reader of JSON string literals (RFC 8259): the text must be well-formed UTF-8; escapes
  are undone, of the \<open>u\<close> escapes those up to U+00FF; any other character is taken as itself
  unless it is a quote, a backslash or a control character.
\<close>

definition unhex :: "char \<Rightarrow> nat option" where
  "unhex c =
     (if isdigit c then Some (byte c - 48)
      else if 65 \<le> byte c \<and> byte c \<le> 70 then Some (byte c - 55)
      else if 97 \<le> byte c \<and> byte c \<le> 102 then Some (byte c - 87) else None)"

fun json_body :: "string \<Rightarrow> string option" where
  "json_body [] = None"
| "json_body (c # cs) =
     (if c = CHR 0x22 then (if cs = [] then Some [] else None)
      else if c = CHR 0x5C then
        (case cs of
           [] \<Rightarrow> None
         | e # rest \<Rightarrow>
             if e = CHR ''u'' then
               (case rest of
                  a # b # h # l # rest' \<Rightarrow>
                    if a = CHR ''0'' \<and> b = CHR ''0'' then do {
                      hi \<leftarrow> unhex h;
                      lo \<leftarrow> unhex l;
                      r \<leftarrow> json_body rest';
                      Some (utf8_encode (16 * hi + lo) @ r)
                    } else None
                | _ \<Rightarrow> None)
             else do {
               r \<leftarrow> json_body rest;
               if e = CHR 0x22 \<or> e = CHR 0x5C \<or> e = CHR 0x2F then Some (e # r)
               else if e = CHR ''b'' then Some (CHR 0x08 # r)
               else if e = CHR ''f'' then Some (CHR 0x0C # r)
               else if e = CHR ''n'' then Some (CHR 0x0A # r)
               else if e = CHR ''r'' then Some (CHR 0x0D # r)
               else if e = CHR ''t'' then Some (CHR 0x09 # r)
               else None
             })
      else if byte c < 32 then None
      else do { r \<leftarrow> json_body cs; Some (c # r) })"

definition json_read :: "string \<Rightarrow> string option" where
  "json_read s =
     (if \<not> valid_utf8 s then None
      else case s of [] \<Rightarrow> None | c # cs \<Rightarrow> if c = CHR 0x22 then json_body cs else None)"

lemma unhex_hex: "d < 16 \<Longrightarrow> unhex (hex_digit d) = Some d"
  by (auto simp: unhex_def hex_digit_def isdigit_def byte_def)

lemma json_body_escape:
  "json_body (json_escape c @ rest) = map_option ((#) c) (json_body rest)"
proof (cases "c \<in> {CHR 0x22, CHR 0x5C, CHR 0x08, CHR 0x0C, CHR 0x0A, CHR 0x0D, CHR 0x09}")
  case True
  then show ?thesis
    by (elim insertE) (simp_all add: json_escape_def bind_eq_Some_conv map_option_case
        split: option.split)
next
  case plain: False
  show ?thesis
  proof (cases "byte c < 32")
    case True
    then have "unhex (hex_digit (byte c div 16)) = Some (byte c div 16)"
      and "unhex (hex_digit (byte c mod 16)) = Some (byte c mod 16)"
      by (simp_all add: unhex_hex)
    moreover have "utf8_encode (16 * (byte c div 16) + byte c mod 16) = [c]"
      using True by (simp add: byte_def utf8_encode_def)
    ultimately show ?thesis using True plain
      by (simp add: json_escape_def map_option_case split: option.split)
  next
    case False
    then show ?thesis using plain
      by (simp add: json_escape_def map_option_case split: option.split)
  qed
qed

lemma json_body_escapes:
  "json_body (concat (map json_escape s) @ [CHR 0x22]) = Some s"
  by (induction s) (simp_all add: json_body_escape)

text \<open>An escape is ASCII and stands for an ASCII character, so it keeps well-formedness.\<close>

lemma escaped_ascii:
  "byte (CHR 0x22) < 0x80" "byte (CHR 0x5C) < 0x80" "byte (CHR 0x08) < 0x80" "byte (CHR 0x0C) < 0x80"
  "byte (CHR 0x0A) < 0x80" "byte (CHR 0x0D) < 0x80" "byte (CHR 0x09) < 0x80"
  by (simp_all add: byte_def)

lemma escape_letters_ascii:
  "byte (CHR ''b'') < 0x80" "byte (CHR ''f'') < 0x80" "byte (CHR ''n'') < 0x80"
  "byte (CHR ''r'') < 0x80" "byte (CHR ''t'') < 0x80" "byte (CHR ''u'') < 0x80"
  "byte (CHR ''0'') < 0x80" "d < 16 \<Longrightarrow> byte (hex_digit d) < 0x80"
  by (simp_all add: byte_def hex_digit_def)

lemma escape_ascii:
  assumes "byte c < 0x80"
  shows "list_all (\<lambda>e. byte e < 0x80) (json_escape c)" "json_escape c \<noteq> []"
  using assms by (simp_all add: json_escape_def escaped_ascii escape_letters_ascii)

lemma escape_plain:
  assumes "0x80 \<le> byte c"
  shows "json_escape c = [c]"
proof -
  have "(c = d) = False" if "byte d < 0x80" for d using that assms by auto
  with assms show ?thesis by (simp add: json_escape_def escaped_ascii)
qed

definition follows :: "(nat \<times> nat) list \<Rightarrow> bool" where
  "follows pending \<longleftrightarrow> list_all (\<lambda>(low, high). 0x80 \<le> low) pending"

lemma utf8_tail_follows: "utf8_tail b = Some pending \<Longrightarrow> follows pending"
  by (auto simp: utf8_tail_def follows_def split: if_splits)

lemma utf8_ascii:
  assumes "list_all (\<lambda>e. byte e < 0x80) es" "es \<noteq> []" "follows pending"
  shows "utf8_from pending (es @ rest) \<longleftrightarrow> pending = [] \<and> valid_utf8 rest"
proof -
  have "valid_utf8 (es @ rest) \<longleftrightarrow> valid_utf8 rest" using assms(1) by (induction es) auto
  moreover have "\<not> utf8_from pending (es @ rest)" if "pending \<noteq> []"
    using assms that by (cases pending; cases es) (auto simp: follows_def)
  ultimately show ?thesis by auto
qed

lemma utf8_escape:
  assumes "follows pending"
  shows "utf8_from pending (json_escape c @ rest) \<longleftrightarrow> utf8_from pending (c # rest)"
proof (cases "byte c < 0x80")
  case True
  with utf8_ascii [of "[c]" pending rest] utf8_ascii [OF escape_ascii [OF True] assms] assms
  show ?thesis by simp
qed (simp add: escape_plain)

lemma utf8_escapes:
  "follows pending \<Longrightarrow>
   utf8_from pending (concat (map json_escape s) @ [CHR 0x22]) \<longleftrightarrow> utf8_from pending s"
proof (induction s arbitrary: pending)
  case Nil
  then show ?case using utf8_ascii [of "[CHR 0x22]" pending "[]"] by (simp add: byte_def)
next
  case (Cons c s)
  have "utf8_from pending (c # concat (map json_escape s) @ [CHR 0x22]) \<longleftrightarrow> utf8_from pending (c # s)"
  proof (cases pending)
    case Nil
    with Cons.IH [of "[]"] show ?thesis
      by (auto simp: follows_def dest: Cons.IH [OF utf8_tail_follows] split: option.splits)
  next
    case (Cons r rs)
    with \<open>follows pending\<close> Cons.IH [of rs] show ?thesis by (cases r) (auto simp: follows_def)
  qed
  with Cons.prems show ?case by (simp add: utf8_escape)
qed

section \<open>Properties\<close>

text \<open>
  C35. The JSON rendering of a C string whose bytes are well-formed UTF-8 is a JSON string
  literal that reads back to exactly that string: nothing is lost, no quote or backslash ends
  or corrupts the literal, and no control character is written raw. Every other string is
  rendered as a text that is no JSON literal, because its bytes are written as they are.
\<close>

theorem sol_json_string_roundtrip:
  "json_read (sol_json_string s) = (if valid_utf8 (c_string s) then Some (c_string s) else None)"
  using utf8_ascii [of "[CHR 0x22]" "[]"] utf8_escapes [of "[]"]
  by (simp add: json_read_def sol_json_string_def json_body_escapes follows_def byte_def)

text \<open>
  C36. Adding a diagnostic keeps the array well formed (no more items than capacity, sizes
  within \<open>size_t\<close>, every text within its fixed array): on success exactly the new
  diagnostic is appended, on failure the items are untouched and the failure flag makes
  \<open>sol_diagnostics_has_errors\<close> true, so a lost diagnostic is never mistaken for success.
\<close>

theorem sol_diagnostics_add_correct:
  assumes "diagnostics_ok ds"
    and "run_state (sol_diagnostics_add ds code severity sp message) e = ((ok, ds'), e')"
  shows "diagnostics_ok ds' \<and>
    dgs_items ds' = dgs_items ds @ (if ok then [make_diagnostic code severity sp message] else []) \<and>
    (\<not> ok \<longrightarrow> sol_diagnostics_has_errors ds') \<and>
    (ok \<and> severity = SOL_SEVERITY_ERROR \<longrightarrow> sol_diagnostics_has_errors ds')"
  using assms(2)
proof (cases rule: diagnostics_add_cases)
  case 1
  with assms(1) show ?thesis by (auto simp: diagnostics_ok_def sol_diagnostics_has_errors_def)
next
  case (2 capacity e1 e2)
  have "length (dgs_items ds) < capacity" "dgs_capacity ds \<le> capacity"
    using grow_array_room [OF 2(2)] assms(1) by (auto simp: diagnostics_ok_def)
  moreover have "capacity * sizeof_SolDiagnostic \<le> SIZE_MAX"
    using grow_array_bytes [OF 2(2)] assms(1)
    by (auto simp: diagnostics_ok_def sizeof_SolDiagnostic_def)
  ultimately show ?thesis using 2 assms(1) make_diagnostic_fits
    by (auto simp: diagnostics_ok_def sol_diagnostics_has_errors_def make_diagnostic_def)
qed

definition plain_env :: sol_env where
  "plain_env = \<lparr> active_budget = None, heap_fails = \<lambda>_. False, heap_calls = 0 \<rparr>"

definition sample_diagnostics :: SolDiagnostics where
  "sample_diagnostics = \<lparr> dgs_items = [make_diagnostic ''SOL-LEX-001'' SOL_SEVERITY_ERROR
     (span 0 1) ''x''], dgs_capacity = 8, dgs_allocation_failed = False \<rparr>"

lemma sample_add:
  "run_state (sol_diagnostics_add sol_diagnostics_init ''SOL-LEX-001'' SOL_SEVERITY_ERROR
     (span 0 1) ''x'') plain_env = ((True, sample_diagnostics), plain_env\<lparr>heap_calls := 1\<rparr>)"
  by (simp add: plain_env_def sample_diagnostics_def sol_diagnostics_add_def
      sol_diagnostics_init_def sol_resource_charge_diagnostic_def sol_resource_charge_def
      grow_array_def sol_resource_realloc_def sol_resource_charge_allocation_def
      heap_request_def sizeof_SolDiagnostic_def SIZE_MAX_def)

theorem sol_diagnostics_add_correct_witness:
  "diagnostics_ok sample_diagnostics \<and> sol_diagnostics_has_errors sample_diagnostics"
  using sol_diagnostics_add_correct [OF diagnostics_init_ok sample_add] by simp

end
