(* ===== verification/Sol_Token.thy ===== *)
theory Sol_Token
  imports Sol_Diagnostic
begin

text \<open>
  \<open>src/include/sol/token.h\<close> and the tables of \<open>src/src/lexer.c\<close>: the token kinds in the
  order of the C enumeration (the formatter compares kinds by their position and
  \<open>sol_token_kind_name\<close> indexes by it), the keyword table and the display names.
\<close>

section \<open>Token kinds\<close>

datatype (plugins del: quickcheck_random quickcheck_exhaustive quickcheck_full_exhaustive
    quickcheck_bounded_forall quickcheck_narrowing) SolKeywordKind =
    KW_MODULE | KW_EDITION | KW_USE | KW_PUBLIC | KW_PRIVATE | KW_RECORD | KW_ENUM
    | KW_TYPE | KW_DISTINCT | KW_REFINED | KW_WHERE | KW_OPEN | KW_CAPABILITY | KW_TRAIT
    | KW_IMPLEMENTATION | KW_FOR | KW_FUNCTION | KW_BORROW | KW_INOUT | KW_TEST
    | KW_EFFECTS | KW_REQUIRES | KW_ENSURES | KW_PURE | KW_REQUIRE | KW_PANIC
    | KW_UNREACHABLE | KW_BECAUSE | KW_LET | KW_VAR | KW_RETURN | KW_REGION | KW_MODIFY
    | KW_IF | KW_ELSE | KW_MATCH | KW_HANDLE | KW_WITH | KW_TRUE | KW_FALSE | KW_LOOP
    | KW_WHILE | KW_INVARIANT | KW_DECREASES | KW_BREAK | KW_CONTINUE

datatype (plugins del: quickcheck_random quickcheck_exhaustive quickcheck_full_exhaustive
    quickcheck_bounded_forall quickcheck_narrowing) SolPunctuationKind =
    PU_LEFT_PAREN | PU_RIGHT_PAREN | PU_LEFT_BRACE | PU_RIGHT_BRACE | PU_LEFT_BRACKET
    | PU_RIGHT_BRACKET | PU_LESS | PU_GREATER | PU_LESS_EQUAL | PU_GREATER_EQUAL | PU_EQUAL
    | PU_EQUAL_EQUAL | PU_BANG | PU_BANG_EQUAL | PU_PLUS | PU_MINUS | PU_STAR | PU_SLASH
    | PU_PERCENT | PU_PLUS_EQUAL | PU_MINUS_EQUAL | PU_STAR_EQUAL | PU_SLASH_EQUAL
    | PU_PERCENT_EQUAL | PU_AMP_AMP | PU_PIPE_PIPE | PU_DOT | PU_COMMA | PU_COLON | PU_AT
    | PU_QUESTION | PU_ARROW | PU_FAT_ARROW

datatype (plugins del: quickcheck_random quickcheck_exhaustive quickcheck_full_exhaustive
    quickcheck_bounded_forall quickcheck_narrowing) SolTokenKind =
    SOL_TOKEN_EOF | SOL_TOKEN_INVALID | SOL_TOKEN_WHITESPACE | SOL_TOKEN_NEWLINE
    | SOL_TOKEN_LINE_COMMENT | SOL_TOKEN_BLOCK_COMMENT | SOL_TOKEN_IDENTIFIER
    | SOL_TOKEN_INTEGER | SOL_TOKEN_STRING | SOL_TOKEN_KEYWORD SolKeywordKind
    | SOL_TOKEN_PUNCTUATION SolPunctuationKind

text \<open>The enumerators of the C header under their own names.\<close>

abbreviation SOL_TOKEN_MODULE :: SolTokenKind where "SOL_TOKEN_MODULE \<equiv> SOL_TOKEN_KEYWORD KW_MODULE"
abbreviation SOL_TOKEN_EDITION :: SolTokenKind where "SOL_TOKEN_EDITION \<equiv> SOL_TOKEN_KEYWORD KW_EDITION"
abbreviation SOL_TOKEN_USE :: SolTokenKind where "SOL_TOKEN_USE \<equiv> SOL_TOKEN_KEYWORD KW_USE"
abbreviation SOL_TOKEN_PUBLIC :: SolTokenKind where "SOL_TOKEN_PUBLIC \<equiv> SOL_TOKEN_KEYWORD KW_PUBLIC"
abbreviation SOL_TOKEN_PRIVATE :: SolTokenKind where "SOL_TOKEN_PRIVATE \<equiv> SOL_TOKEN_KEYWORD KW_PRIVATE"
abbreviation SOL_TOKEN_RECORD :: SolTokenKind where "SOL_TOKEN_RECORD \<equiv> SOL_TOKEN_KEYWORD KW_RECORD"
abbreviation SOL_TOKEN_ENUM :: SolTokenKind where "SOL_TOKEN_ENUM \<equiv> SOL_TOKEN_KEYWORD KW_ENUM"
abbreviation SOL_TOKEN_TYPE :: SolTokenKind where "SOL_TOKEN_TYPE \<equiv> SOL_TOKEN_KEYWORD KW_TYPE"
abbreviation SOL_TOKEN_DISTINCT :: SolTokenKind where "SOL_TOKEN_DISTINCT \<equiv> SOL_TOKEN_KEYWORD KW_DISTINCT"
abbreviation SOL_TOKEN_REFINED :: SolTokenKind where "SOL_TOKEN_REFINED \<equiv> SOL_TOKEN_KEYWORD KW_REFINED"
abbreviation SOL_TOKEN_WHERE :: SolTokenKind where "SOL_TOKEN_WHERE \<equiv> SOL_TOKEN_KEYWORD KW_WHERE"
abbreviation SOL_TOKEN_OPEN :: SolTokenKind where "SOL_TOKEN_OPEN \<equiv> SOL_TOKEN_KEYWORD KW_OPEN"
abbreviation SOL_TOKEN_CAPABILITY :: SolTokenKind where "SOL_TOKEN_CAPABILITY \<equiv> SOL_TOKEN_KEYWORD KW_CAPABILITY"
abbreviation SOL_TOKEN_TRAIT :: SolTokenKind where "SOL_TOKEN_TRAIT \<equiv> SOL_TOKEN_KEYWORD KW_TRAIT"
abbreviation SOL_TOKEN_IMPLEMENTATION :: SolTokenKind where "SOL_TOKEN_IMPLEMENTATION \<equiv> SOL_TOKEN_KEYWORD KW_IMPLEMENTATION"
abbreviation SOL_TOKEN_FOR :: SolTokenKind where "SOL_TOKEN_FOR \<equiv> SOL_TOKEN_KEYWORD KW_FOR"
abbreviation SOL_TOKEN_FUNCTION :: SolTokenKind where "SOL_TOKEN_FUNCTION \<equiv> SOL_TOKEN_KEYWORD KW_FUNCTION"
abbreviation SOL_TOKEN_BORROW :: SolTokenKind where "SOL_TOKEN_BORROW \<equiv> SOL_TOKEN_KEYWORD KW_BORROW"
abbreviation SOL_TOKEN_INOUT :: SolTokenKind where "SOL_TOKEN_INOUT \<equiv> SOL_TOKEN_KEYWORD KW_INOUT"
abbreviation SOL_TOKEN_TEST :: SolTokenKind where "SOL_TOKEN_TEST \<equiv> SOL_TOKEN_KEYWORD KW_TEST"
abbreviation SOL_TOKEN_EFFECTS :: SolTokenKind where "SOL_TOKEN_EFFECTS \<equiv> SOL_TOKEN_KEYWORD KW_EFFECTS"
abbreviation SOL_TOKEN_REQUIRES :: SolTokenKind where "SOL_TOKEN_REQUIRES \<equiv> SOL_TOKEN_KEYWORD KW_REQUIRES"
abbreviation SOL_TOKEN_ENSURES :: SolTokenKind where "SOL_TOKEN_ENSURES \<equiv> SOL_TOKEN_KEYWORD KW_ENSURES"
abbreviation SOL_TOKEN_PURE :: SolTokenKind where "SOL_TOKEN_PURE \<equiv> SOL_TOKEN_KEYWORD KW_PURE"
abbreviation SOL_TOKEN_REQUIRE :: SolTokenKind where "SOL_TOKEN_REQUIRE \<equiv> SOL_TOKEN_KEYWORD KW_REQUIRE"
abbreviation SOL_TOKEN_PANIC :: SolTokenKind where "SOL_TOKEN_PANIC \<equiv> SOL_TOKEN_KEYWORD KW_PANIC"
abbreviation SOL_TOKEN_UNREACHABLE :: SolTokenKind where "SOL_TOKEN_UNREACHABLE \<equiv> SOL_TOKEN_KEYWORD KW_UNREACHABLE"
abbreviation SOL_TOKEN_BECAUSE :: SolTokenKind where "SOL_TOKEN_BECAUSE \<equiv> SOL_TOKEN_KEYWORD KW_BECAUSE"
abbreviation SOL_TOKEN_LET :: SolTokenKind where "SOL_TOKEN_LET \<equiv> SOL_TOKEN_KEYWORD KW_LET"
abbreviation SOL_TOKEN_VAR :: SolTokenKind where "SOL_TOKEN_VAR \<equiv> SOL_TOKEN_KEYWORD KW_VAR"
abbreviation SOL_TOKEN_RETURN :: SolTokenKind where "SOL_TOKEN_RETURN \<equiv> SOL_TOKEN_KEYWORD KW_RETURN"
abbreviation SOL_TOKEN_REGION :: SolTokenKind where "SOL_TOKEN_REGION \<equiv> SOL_TOKEN_KEYWORD KW_REGION"
abbreviation SOL_TOKEN_MODIFY :: SolTokenKind where "SOL_TOKEN_MODIFY \<equiv> SOL_TOKEN_KEYWORD KW_MODIFY"
abbreviation SOL_TOKEN_IF :: SolTokenKind where "SOL_TOKEN_IF \<equiv> SOL_TOKEN_KEYWORD KW_IF"
abbreviation SOL_TOKEN_ELSE :: SolTokenKind where "SOL_TOKEN_ELSE \<equiv> SOL_TOKEN_KEYWORD KW_ELSE"
abbreviation SOL_TOKEN_MATCH :: SolTokenKind where "SOL_TOKEN_MATCH \<equiv> SOL_TOKEN_KEYWORD KW_MATCH"
abbreviation SOL_TOKEN_HANDLE :: SolTokenKind where "SOL_TOKEN_HANDLE \<equiv> SOL_TOKEN_KEYWORD KW_HANDLE"
abbreviation SOL_TOKEN_WITH :: SolTokenKind where "SOL_TOKEN_WITH \<equiv> SOL_TOKEN_KEYWORD KW_WITH"
abbreviation SOL_TOKEN_TRUE :: SolTokenKind where "SOL_TOKEN_TRUE \<equiv> SOL_TOKEN_KEYWORD KW_TRUE"
abbreviation SOL_TOKEN_FALSE :: SolTokenKind where "SOL_TOKEN_FALSE \<equiv> SOL_TOKEN_KEYWORD KW_FALSE"
abbreviation SOL_TOKEN_LOOP :: SolTokenKind where "SOL_TOKEN_LOOP \<equiv> SOL_TOKEN_KEYWORD KW_LOOP"
abbreviation SOL_TOKEN_WHILE :: SolTokenKind where "SOL_TOKEN_WHILE \<equiv> SOL_TOKEN_KEYWORD KW_WHILE"
abbreviation SOL_TOKEN_INVARIANT :: SolTokenKind where "SOL_TOKEN_INVARIANT \<equiv> SOL_TOKEN_KEYWORD KW_INVARIANT"
abbreviation SOL_TOKEN_DECREASES :: SolTokenKind where "SOL_TOKEN_DECREASES \<equiv> SOL_TOKEN_KEYWORD KW_DECREASES"
abbreviation SOL_TOKEN_BREAK :: SolTokenKind where "SOL_TOKEN_BREAK \<equiv> SOL_TOKEN_KEYWORD KW_BREAK"
abbreviation SOL_TOKEN_CONTINUE :: SolTokenKind where "SOL_TOKEN_CONTINUE \<equiv> SOL_TOKEN_KEYWORD KW_CONTINUE"

abbreviation SOL_TOKEN_LEFT_PAREN :: SolTokenKind where "SOL_TOKEN_LEFT_PAREN \<equiv> SOL_TOKEN_PUNCTUATION PU_LEFT_PAREN"
abbreviation SOL_TOKEN_RIGHT_PAREN :: SolTokenKind where "SOL_TOKEN_RIGHT_PAREN \<equiv> SOL_TOKEN_PUNCTUATION PU_RIGHT_PAREN"
abbreviation SOL_TOKEN_LEFT_BRACE :: SolTokenKind where "SOL_TOKEN_LEFT_BRACE \<equiv> SOL_TOKEN_PUNCTUATION PU_LEFT_BRACE"
abbreviation SOL_TOKEN_RIGHT_BRACE :: SolTokenKind where "SOL_TOKEN_RIGHT_BRACE \<equiv> SOL_TOKEN_PUNCTUATION PU_RIGHT_BRACE"
abbreviation SOL_TOKEN_LEFT_BRACKET :: SolTokenKind where "SOL_TOKEN_LEFT_BRACKET \<equiv> SOL_TOKEN_PUNCTUATION PU_LEFT_BRACKET"
abbreviation SOL_TOKEN_RIGHT_BRACKET :: SolTokenKind where "SOL_TOKEN_RIGHT_BRACKET \<equiv> SOL_TOKEN_PUNCTUATION PU_RIGHT_BRACKET"
abbreviation SOL_TOKEN_LESS :: SolTokenKind where "SOL_TOKEN_LESS \<equiv> SOL_TOKEN_PUNCTUATION PU_LESS"
abbreviation SOL_TOKEN_GREATER :: SolTokenKind where "SOL_TOKEN_GREATER \<equiv> SOL_TOKEN_PUNCTUATION PU_GREATER"
abbreviation SOL_TOKEN_LESS_EQUAL :: SolTokenKind where "SOL_TOKEN_LESS_EQUAL \<equiv> SOL_TOKEN_PUNCTUATION PU_LESS_EQUAL"
abbreviation SOL_TOKEN_GREATER_EQUAL :: SolTokenKind where "SOL_TOKEN_GREATER_EQUAL \<equiv> SOL_TOKEN_PUNCTUATION PU_GREATER_EQUAL"
abbreviation SOL_TOKEN_EQUAL :: SolTokenKind where "SOL_TOKEN_EQUAL \<equiv> SOL_TOKEN_PUNCTUATION PU_EQUAL"
abbreviation SOL_TOKEN_EQUAL_EQUAL :: SolTokenKind where "SOL_TOKEN_EQUAL_EQUAL \<equiv> SOL_TOKEN_PUNCTUATION PU_EQUAL_EQUAL"
abbreviation SOL_TOKEN_BANG :: SolTokenKind where "SOL_TOKEN_BANG \<equiv> SOL_TOKEN_PUNCTUATION PU_BANG"
abbreviation SOL_TOKEN_BANG_EQUAL :: SolTokenKind where "SOL_TOKEN_BANG_EQUAL \<equiv> SOL_TOKEN_PUNCTUATION PU_BANG_EQUAL"
abbreviation SOL_TOKEN_PLUS :: SolTokenKind where "SOL_TOKEN_PLUS \<equiv> SOL_TOKEN_PUNCTUATION PU_PLUS"
abbreviation SOL_TOKEN_MINUS :: SolTokenKind where "SOL_TOKEN_MINUS \<equiv> SOL_TOKEN_PUNCTUATION PU_MINUS"
abbreviation SOL_TOKEN_STAR :: SolTokenKind where "SOL_TOKEN_STAR \<equiv> SOL_TOKEN_PUNCTUATION PU_STAR"
abbreviation SOL_TOKEN_SLASH :: SolTokenKind where "SOL_TOKEN_SLASH \<equiv> SOL_TOKEN_PUNCTUATION PU_SLASH"
abbreviation SOL_TOKEN_PERCENT :: SolTokenKind where "SOL_TOKEN_PERCENT \<equiv> SOL_TOKEN_PUNCTUATION PU_PERCENT"
abbreviation SOL_TOKEN_PLUS_EQUAL :: SolTokenKind where "SOL_TOKEN_PLUS_EQUAL \<equiv> SOL_TOKEN_PUNCTUATION PU_PLUS_EQUAL"
abbreviation SOL_TOKEN_MINUS_EQUAL :: SolTokenKind where "SOL_TOKEN_MINUS_EQUAL \<equiv> SOL_TOKEN_PUNCTUATION PU_MINUS_EQUAL"
abbreviation SOL_TOKEN_STAR_EQUAL :: SolTokenKind where "SOL_TOKEN_STAR_EQUAL \<equiv> SOL_TOKEN_PUNCTUATION PU_STAR_EQUAL"
abbreviation SOL_TOKEN_SLASH_EQUAL :: SolTokenKind where "SOL_TOKEN_SLASH_EQUAL \<equiv> SOL_TOKEN_PUNCTUATION PU_SLASH_EQUAL"
abbreviation SOL_TOKEN_PERCENT_EQUAL :: SolTokenKind where "SOL_TOKEN_PERCENT_EQUAL \<equiv> SOL_TOKEN_PUNCTUATION PU_PERCENT_EQUAL"
abbreviation SOL_TOKEN_AMP_AMP :: SolTokenKind where "SOL_TOKEN_AMP_AMP \<equiv> SOL_TOKEN_PUNCTUATION PU_AMP_AMP"
abbreviation SOL_TOKEN_PIPE_PIPE :: SolTokenKind where "SOL_TOKEN_PIPE_PIPE \<equiv> SOL_TOKEN_PUNCTUATION PU_PIPE_PIPE"
abbreviation SOL_TOKEN_DOT :: SolTokenKind where "SOL_TOKEN_DOT \<equiv> SOL_TOKEN_PUNCTUATION PU_DOT"
abbreviation SOL_TOKEN_COMMA :: SolTokenKind where "SOL_TOKEN_COMMA \<equiv> SOL_TOKEN_PUNCTUATION PU_COMMA"
abbreviation SOL_TOKEN_COLON :: SolTokenKind where "SOL_TOKEN_COLON \<equiv> SOL_TOKEN_PUNCTUATION PU_COLON"
abbreviation SOL_TOKEN_AT :: SolTokenKind where "SOL_TOKEN_AT \<equiv> SOL_TOKEN_PUNCTUATION PU_AT"
abbreviation SOL_TOKEN_QUESTION :: SolTokenKind where "SOL_TOKEN_QUESTION \<equiv> SOL_TOKEN_PUNCTUATION PU_QUESTION"
abbreviation SOL_TOKEN_ARROW :: SolTokenKind where "SOL_TOKEN_ARROW \<equiv> SOL_TOKEN_PUNCTUATION PU_ARROW"
abbreviation SOL_TOKEN_FAT_ARROW :: SolTokenKind where "SOL_TOKEN_FAT_ARROW \<equiv> SOL_TOKEN_PUNCTUATION PU_FAT_ARROW"

definition sol_token_kinds :: "SolTokenKind list" where
  "sol_token_kinds = [
     SOL_TOKEN_EOF, SOL_TOKEN_INVALID, SOL_TOKEN_WHITESPACE, SOL_TOKEN_NEWLINE,
     SOL_TOKEN_LINE_COMMENT, SOL_TOKEN_BLOCK_COMMENT, SOL_TOKEN_IDENTIFIER,
     SOL_TOKEN_INTEGER, SOL_TOKEN_STRING, SOL_TOKEN_MODULE, SOL_TOKEN_EDITION,
     SOL_TOKEN_USE, SOL_TOKEN_PUBLIC, SOL_TOKEN_PRIVATE, SOL_TOKEN_RECORD, SOL_TOKEN_ENUM,
     SOL_TOKEN_TYPE, SOL_TOKEN_DISTINCT, SOL_TOKEN_REFINED, SOL_TOKEN_WHERE,
     SOL_TOKEN_OPEN, SOL_TOKEN_CAPABILITY, SOL_TOKEN_TRAIT, SOL_TOKEN_IMPLEMENTATION,
     SOL_TOKEN_FOR, SOL_TOKEN_FUNCTION, SOL_TOKEN_BORROW, SOL_TOKEN_INOUT, SOL_TOKEN_TEST,
     SOL_TOKEN_EFFECTS, SOL_TOKEN_REQUIRES, SOL_TOKEN_ENSURES, SOL_TOKEN_PURE,
     SOL_TOKEN_REQUIRE, SOL_TOKEN_PANIC, SOL_TOKEN_UNREACHABLE, SOL_TOKEN_BECAUSE,
     SOL_TOKEN_LET, SOL_TOKEN_VAR, SOL_TOKEN_RETURN, SOL_TOKEN_REGION, SOL_TOKEN_MODIFY,
     SOL_TOKEN_IF, SOL_TOKEN_ELSE, SOL_TOKEN_MATCH, SOL_TOKEN_HANDLE, SOL_TOKEN_WITH,
     SOL_TOKEN_TRUE, SOL_TOKEN_FALSE, SOL_TOKEN_LOOP, SOL_TOKEN_WHILE, SOL_TOKEN_INVARIANT,
     SOL_TOKEN_DECREASES, SOL_TOKEN_BREAK, SOL_TOKEN_CONTINUE, SOL_TOKEN_LEFT_PAREN,
     SOL_TOKEN_RIGHT_PAREN, SOL_TOKEN_LEFT_BRACE, SOL_TOKEN_RIGHT_BRACE,
     SOL_TOKEN_LEFT_BRACKET, SOL_TOKEN_RIGHT_BRACKET, SOL_TOKEN_LESS, SOL_TOKEN_GREATER,
     SOL_TOKEN_LESS_EQUAL, SOL_TOKEN_GREATER_EQUAL, SOL_TOKEN_EQUAL, SOL_TOKEN_EQUAL_EQUAL,
     SOL_TOKEN_BANG, SOL_TOKEN_BANG_EQUAL, SOL_TOKEN_PLUS, SOL_TOKEN_MINUS, SOL_TOKEN_STAR,
     SOL_TOKEN_SLASH, SOL_TOKEN_PERCENT, SOL_TOKEN_PLUS_EQUAL, SOL_TOKEN_MINUS_EQUAL,
     SOL_TOKEN_STAR_EQUAL, SOL_TOKEN_SLASH_EQUAL, SOL_TOKEN_PERCENT_EQUAL,
     SOL_TOKEN_AMP_AMP, SOL_TOKEN_PIPE_PIPE, SOL_TOKEN_DOT, SOL_TOKEN_COMMA,
     SOL_TOKEN_COLON, SOL_TOKEN_AT, SOL_TOKEN_QUESTION, SOL_TOKEN_ARROW,
     SOL_TOKEN_FAT_ARROW]"

text \<open>The position of a kind in the enumeration, its value as a C integer.\<close>

definition kind_index :: "SolTokenKind \<Rightarrow> nat" where
  "kind_index k = length (takeWhile (\<lambda>x. x \<noteq> k) sol_token_kinds)"

record SolToken =
  tk_kind :: SolTokenKind
  tk_span :: SolSpan

record SolTokens =
  tks_items :: "SolToken list"
  tks_capacity :: size_t

definition sol_tokens_init :: SolTokens where
  "sol_tokens_init = \<lparr> tks_items = [], tks_capacity = 0 \<rparr>"

definition sizeof_SolToken :: size_t where
  "sizeof_SolToken = 24"

abbreviation token :: "SolTokenKind \<Rightarrow> size_t \<Rightarrow> size_t \<Rightarrow> SolToken" where
  "token k s e \<equiv> \<lparr> tk_kind = k, tk_span = span s e \<rparr>"

section \<open>Tables\<close>

definition SOL_KEYWORDS :: "(string \<times> SolTokenKind) list" where
  "SOL_KEYWORDS = [
     (''module'', SOL_TOKEN_MODULE), (''edition'', SOL_TOKEN_EDITION),
     (''use'', SOL_TOKEN_USE), (''public'', SOL_TOKEN_PUBLIC),
     (''private'', SOL_TOKEN_PRIVATE), (''record'', SOL_TOKEN_RECORD),
     (''enum'', SOL_TOKEN_ENUM), (''type'', SOL_TOKEN_TYPE),
     (''distinct'', SOL_TOKEN_DISTINCT), (''refined'', SOL_TOKEN_REFINED),
     (''where'', SOL_TOKEN_WHERE), (''open'', SOL_TOKEN_OPEN),
     (''capability'', SOL_TOKEN_CAPABILITY), (''trait'', SOL_TOKEN_TRAIT),
     (''implementation'', SOL_TOKEN_IMPLEMENTATION), (''for'', SOL_TOKEN_FOR),
     (''function'', SOL_TOKEN_FUNCTION), (''borrow'', SOL_TOKEN_BORROW),
     (''inout'', SOL_TOKEN_INOUT), (''test'', SOL_TOKEN_TEST),
     (''region'', SOL_TOKEN_REGION), (''modify'', SOL_TOKEN_MODIFY),
     (''effects'', SOL_TOKEN_EFFECTS), (''requires'', SOL_TOKEN_REQUIRES),
     (''ensures'', SOL_TOKEN_ENSURES), (''pure'', SOL_TOKEN_PURE),
     (''require'', SOL_TOKEN_REQUIRE), (''panic'', SOL_TOKEN_PANIC),
     (''unreachable'', SOL_TOKEN_UNREACHABLE), (''because'', SOL_TOKEN_BECAUSE),
     (''let'', SOL_TOKEN_LET), (''var'', SOL_TOKEN_VAR), (''return'', SOL_TOKEN_RETURN),
     (''if'', SOL_TOKEN_IF), (''else'', SOL_TOKEN_ELSE), (''match'', SOL_TOKEN_MATCH),
     (''handle'', SOL_TOKEN_HANDLE), (''with'', SOL_TOKEN_WITH),
     (''true'', SOL_TOKEN_TRUE), (''false'', SOL_TOKEN_FALSE), (''loop'', SOL_TOKEN_LOOP),
     (''while'', SOL_TOKEN_WHILE), (''invariant'', SOL_TOKEN_INVARIANT),
     (''decreases'', SOL_TOKEN_DECREASES), (''break'', SOL_TOKEN_BREAK),
     (''continue'', SOL_TOKEN_CONTINUE)]"

definition token_kind_names :: "string list" where
  "token_kind_names = [
     ''end of file'', ''invalid token'', ''whitespace'', ''newline'', ''line comment'',
     ''block comment'', ''identifier'', ''integer'', ''string'', ''module'', ''edition'',
     ''use'', ''public'', ''private'', ''record'', ''enum'', ''type'', ''distinct'',
     ''refined'', ''where'', ''open'', ''capability'', ''trait'', ''implementation'',
     ''for'', ''function'', ''borrow'', ''inout'', ''test'', ''effects'', ''requires'',
     ''ensures'', ''pure'', ''require'', ''panic'', ''unreachable'', ''because'', ''let'',
     ''var'', ''return'', ''region'', ''modify'', ''if'', ''else'', ''match'', ''handle'',
     ''with'', ''true'', ''false'', ''loop'', ''while'', ''invariant'', ''decreases'',
     ''break'', ''continue'', ''('', '')'', ''{'', ''}'', ''['', '']'', ''<'', ''>'',
     ''<='', ''>='', ''='', ''=='', ''!'', ''!='', ''+'', ''-'', ''*'', ''/'', ''%'',
     ''+='', ''-='', ''*='', ''/='', ''%='', ''&&'', ''||'', ''.'', '','', '':'', ''@'',
     ''?'', ''->'', ''=>'']"

definition sol_token_kind_name :: "SolTokenKind \<Rightarrow> string" where
  "sol_token_kind_name kind =
     (if kind_index kind < length token_kind_names then token_kind_names ! kind_index kind
      else ''unknown token'')"

definition sol_token_is_trivia :: "SolTokenKind \<Rightarrow> bool" where
  "sol_token_is_trivia kind \<longleftrightarrow>
     kind = SOL_TOKEN_WHITESPACE \<or> kind = SOL_TOKEN_NEWLINE \<or>
     kind = SOL_TOKEN_LINE_COMMENT \<or> kind = SOL_TOKEN_BLOCK_COMMENT"

text \<open>The bytes of a token; the C code reads them in place.\<close>

definition token_text :: "SolSource \<Rightarrow> SolToken \<Rightarrow> string" where
  "token_text src t =
     take (sp_end (tk_span t) - sp_start (tk_span t)) (drop (sp_start (tk_span t)) (src_text src))"

definition sol_token_text_equal :: "SolSource \<Rightarrow> SolToken \<Rightarrow> string \<Rightarrow> bool" where
  "sol_token_text_equal src t tx \<longleftrightarrow>
     length tx = size_sub (sp_end (tk_span t)) (sp_start (tk_span t)) \<and> token_text src t = tx"

lemma sol_token_kinds_distinct: "distinct sol_token_kinds"
  by (simp add: sol_token_kinds_def)

lemma keyword_kinds_all: "SOL_TOKEN_KEYWORD w \<in> set sol_token_kinds"
  by (cases w) (simp_all add: sol_token_kinds_def)

lemma punctuation_kinds_all: "SOL_TOKEN_PUNCTUATION p \<in> set sol_token_kinds"
  by (cases p) (simp_all add: sol_token_kinds_def)

lemma sol_token_kinds_all: "k \<in> set sol_token_kinds"
  by (cases k) (simp_all add: keyword_kinds_all punctuation_kinds_all, simp_all add: sol_token_kinds_def)

section \<open>Properties\<close>

text \<open>
  C38. The keyword table and the display names agree: every keyword's kind is displayed as the
  keyword itself, no keyword and no kind occurs twice in the table, every kind of the
  enumeration has its own display name, and no keyword kind is trivia.
\<close>

theorem keyword_names_agree:
  "list_all (\<lambda>(w, k). sol_token_kind_name k = w \<and> \<not> sol_token_is_trivia k) SOL_KEYWORDS \<and>
   distinct (map fst SOL_KEYWORDS) \<and> distinct (map snd SOL_KEYWORDS) \<and>
   length token_kind_names = length sol_token_kinds \<and> distinct token_kind_names"
proof (intro conjI)
  show "list_all (\<lambda>(w, k). sol_token_kind_name k = w \<and> \<not> sol_token_is_trivia k) SOL_KEYWORDS"
    by code_simp
  show "distinct (map fst SOL_KEYWORDS)" by code_simp
  show "distinct (map snd SOL_KEYWORDS)" by code_simp
  show "length token_kind_names = length sol_token_kinds" by code_simp
  show "distinct token_kind_names" by code_simp
qed

end
