(* ===== verification/Sol_Lexer.thy ===== *)
theory Sol_Lexer
  imports Sol_Token
begin

text \<open>
  \<open>src/src/lexer.c\<close>: the scanner. Every loop over the text is a recursive function with a
  termination proof; \<open>sol_lex_one\<close> is one iteration of the main loop of \<open>sol_lex\<close>, from
  the byte at \<open>cursor\<close> to the cursor after the token it adds. Tokens and diagnostics are
  passed along; the compilation budget lives in the environment of the state monad.
\<close>

section \<open>Adding a token\<close>

definition sol_tokens_add ::
  "SolTokens \<Rightarrow> SolTokenKind \<Rightarrow> size_t \<Rightarrow> size_t \<Rightarrow> (sol_env, bool \<times> SolTokens) state" where
  "sol_tokens_add ts kind start end' = do {
     charged \<leftarrow> sol_resource_charge_token;
     if \<not> charged then ret (False, ts)
     else do {
       grown \<leftarrow> grow_array 64 sizeof_SolToken (length (tks_items ts)) (tks_capacity ts);
       case grown of
         None \<Rightarrow> ret (False, ts)
       | Some capacity \<Rightarrow>
           ret (True, ts\<lparr>tks_capacity := capacity,
             tks_items := tks_items ts @ [token kind start end']\<rparr>)
     }
   }"

section \<open>Scanning\<close>

definition sol_identifier_kind :: "SolSource \<Rightarrow> size_t \<Rightarrow> size_t \<Rightarrow> SolTokenKind" where
  "sol_identifier_kind src start end' =
     (case find (\<lambda>(w, k). sol_token_text_equal src (token SOL_TOKEN_EOF start end') w) SOL_KEYWORDS of
        Some (w, k) \<Rightarrow> k
      | None \<Rightarrow> SOL_TOKEN_IDENTIFIER)"

definition sol_is_identifier_start :: "char \<Rightarrow> bool" where
  "sol_is_identifier_start c \<longleftrightarrow> c = CHR ''_'' \<or> isalpha c"

definition sol_is_identifier_continue :: "char \<Rightarrow> bool" where
  "sol_is_identifier_continue c \<longleftrightarrow> c = CHR ''_'' \<or> isalnum c"

text \<open>\<open>while (cursor < length && p(text[cursor])) ++cursor;\<close>\<close>

function skip_while :: "(char \<Rightarrow> bool) \<Rightarrow> string \<Rightarrow> size_t \<Rightarrow> size_t" where
  "skip_while p tx cursor =
     (if cursor < length tx \<and> p (tx ! cursor) then skip_while p tx (cursor + 1) else cursor)"
  by pat_completeness auto
termination
  by (relation "measure (\<lambda>(p, tx, cursor). length tx - cursor)") auto

declare skip_while.simps [simp del]

definition next_is :: "string \<Rightarrow> size_t \<Rightarrow> char \<Rightarrow> bool" where
  "next_is tx cursor c \<longleftrightarrow> cursor + 1 < length tx \<and> tx ! (cursor + 1) = c"

definition supported_escape :: "char \<Rightarrow> bool" where
  "supported_escape c \<longleftrightarrow>
     c = CHR ''n'' \<or> c = CHR ''r'' \<or> c = CHR ''t'' \<or> c = CHR 0x5C \<or> c = CHR 0x22"

text \<open>The loop of \<open>sol_lex_string\<close>: whether the closing quote was found, and where it ends.\<close>

function lex_string_loop ::
  "string \<Rightarrow> SolDiagnostics \<Rightarrow> size_t \<Rightarrow> (sol_env, bool \<times> size_t \<times> SolDiagnostics) state" where
  "lex_string_loop tx ds cursor =
     (if cursor < length tx then
        let current = tx ! cursor in
        if current = CHR 0x22 then ret (True, cursor + 1, ds)
        else if current = CHR 0x0A \<or> current = CHR 0x0D then ret (False, cursor, ds)
        else if current = CHR 0x5C \<and> cursor + 1 < length tx then
          (if \<not> supported_escape (tx ! (cursor + 1)) then do {
             (_, ds') \<leftarrow> sol_diagnostics_add ds ''SOL-LEX-003'' SOL_SEVERITY_ERROR
               (span cursor (cursor + 2)) ''unsupported string escape'';
             lex_string_loop tx ds' (cursor + 2)
           }
           else lex_string_loop tx ds (cursor + 2))
        else lex_string_loop tx ds (cursor + 1)
      else ret (False, cursor, ds))"
  by pat_completeness auto
termination
  by (relation "measure (\<lambda>(tx, ds, cursor). length tx - cursor)") auto

declare lex_string_loop.simps [simp del]

definition sol_lex_string ::
  "SolSource \<Rightarrow> SolTokens \<Rightarrow> SolDiagnostics \<Rightarrow> size_t \<Rightarrow>
   (sol_env, bool \<times> size_t \<times> SolTokens \<times> SolDiagnostics) state" where
  "sol_lex_string src ts ds start = do {
     (terminated, cursor, ds) \<leftarrow> lex_string_loop (src_text src) ds (start + 1);
     (_, ds) \<leftarrow> (if \<not> terminated
       then sol_diagnostics_add ds ''SOL-LEX-002'' SOL_SEVERITY_ERROR (span start cursor)
         ''unterminated string literal''
       else ret (True, ds));
     (ok, ts) \<leftarrow> sol_tokens_add ts SOL_TOKEN_STRING start cursor;
     ret (ok, cursor, ts, ds)
   }"

function block_comment_loop :: "string \<Rightarrow> size_t \<Rightarrow> size_t \<Rightarrow> size_t \<times> size_t" where
  "block_comment_loop tx cursor depth =
     (if cursor < length tx \<and> depth > 0 then
        if tx ! cursor = CHR ''/'' \<and> next_is tx cursor (CHR ''*'')
        then block_comment_loop tx (cursor + 2) (depth + 1)
        else if tx ! cursor = CHR ''*'' \<and> next_is tx cursor (CHR ''/'')
        then block_comment_loop tx (cursor + 2) (depth - 1)
        else block_comment_loop tx (cursor + 1) depth
      else (cursor, depth))"
  by pat_completeness auto
termination
  by (relation "measure (\<lambda>(tx, cursor, depth). length tx - cursor)") auto

declare block_comment_loop.simps [simp del]

definition sol_lex_block_comment ::
  "SolSource \<Rightarrow> SolTokens \<Rightarrow> SolDiagnostics \<Rightarrow> size_t \<Rightarrow>
   (sol_env, bool \<times> size_t \<times> SolTokens \<times> SolDiagnostics) state" where
  "sol_lex_block_comment src ts ds start = (
     let (cursor, depth) = block_comment_loop (src_text src) (start + 2) 1 in do {
       (_, ds) \<leftarrow> (if depth \<noteq> 0
         then sol_diagnostics_add ds ''SOL-LEX-003'' SOL_SEVERITY_ERROR (span start cursor)
           ''unterminated block comment''
         else ret (True, ds));
       (ok, ts) \<leftarrow> sol_tokens_add ts SOL_TOKEN_BLOCK_COMMENT start cursor;
       ret (ok, cursor, ts, ds)
     })"

text \<open>
  The \<open>switch\<close> of \<open>sol_lex\<close>: the kind of the punctuation at \<open>cursor\<close> and whether it
  takes two bytes (\<open>SOL_ADD_DOUBLE\<close>); \<open>None\<close> is the label \<open>invalid_character\<close>.
\<close>

definition lex_punctuation :: "string \<Rightarrow> size_t \<Rightarrow> (SolTokenKind \<times> size_t) option" where
  "lex_punctuation tx cursor =
     (let c = tx ! cursor; followed = next_is tx cursor in
      if c = CHR ''('' then Some (SOL_TOKEN_LEFT_PAREN, 1)
      else if c = CHR '')'' then Some (SOL_TOKEN_RIGHT_PAREN, 1)
      else if c = CHR ''{'' then Some (SOL_TOKEN_LEFT_BRACE, 1)
      else if c = CHR ''}'' then Some (SOL_TOKEN_RIGHT_BRACE, 1)
      else if c = CHR ''['' then Some (SOL_TOKEN_LEFT_BRACKET, 1)
      else if c = CHR '']'' then Some (SOL_TOKEN_RIGHT_BRACKET, 1)
      else if c = CHR ''+'' then
        Some (if followed (CHR ''='') then (SOL_TOKEN_PLUS_EQUAL, 2) else (SOL_TOKEN_PLUS, 1))
      else if c = CHR ''*'' then
        Some (if followed (CHR ''='') then (SOL_TOKEN_STAR_EQUAL, 2) else (SOL_TOKEN_STAR, 1))
      else if c = CHR ''%'' then
        Some (if followed (CHR ''='') then (SOL_TOKEN_PERCENT_EQUAL, 2) else (SOL_TOKEN_PERCENT, 1))
      else if c = CHR ''.'' then Some (SOL_TOKEN_DOT, 1)
      else if c = CHR '','' then Some (SOL_TOKEN_COMMA, 1)
      else if c = CHR '':'' then Some (SOL_TOKEN_COLON, 1)
      else if c = CHR ''@'' then Some (SOL_TOKEN_AT, 1)
      else if c = CHR ''?'' then Some (SOL_TOKEN_QUESTION, 1)
      else if c = CHR ''/'' then
        Some (if followed (CHR ''='') then (SOL_TOKEN_SLASH_EQUAL, 2) else (SOL_TOKEN_SLASH, 1))
      else if c = CHR ''-'' then
        Some (if followed (CHR ''>'') then (SOL_TOKEN_ARROW, 2)
              else if followed (CHR ''='') then (SOL_TOKEN_MINUS_EQUAL, 2)
              else (SOL_TOKEN_MINUS, 1))
      else if c = CHR ''='' then
        Some (if followed (CHR ''='') then (SOL_TOKEN_EQUAL_EQUAL, 2)
              else if followed (CHR ''>'') then (SOL_TOKEN_FAT_ARROW, 2)
              else (SOL_TOKEN_EQUAL, 1))
      else if c = CHR ''!'' then
        Some (if followed (CHR ''='') then (SOL_TOKEN_BANG_EQUAL, 2) else (SOL_TOKEN_BANG, 1))
      else if c = CHR ''<'' then
        Some (if followed (CHR ''='') then (SOL_TOKEN_LESS_EQUAL, 2) else (SOL_TOKEN_LESS, 1))
      else if c = CHR ''>'' then
        Some (if followed (CHR ''='') then (SOL_TOKEN_GREATER_EQUAL, 2) else (SOL_TOKEN_GREATER, 1))
      else if c = CHR ''&'' then
        (if followed (CHR ''&'') then Some (SOL_TOKEN_AMP_AMP, 2) else None)
      else if c = CHR ''|'' then
        (if followed (CHR ''|'') then Some (SOL_TOKEN_PIPE_PIPE, 2) else None)
      else None)"

definition add_scanned ::
  "SolTokens \<Rightarrow> SolDiagnostics \<Rightarrow> SolTokenKind \<Rightarrow> size_t \<Rightarrow> size_t \<Rightarrow>
   (sol_env, bool \<times> size_t \<times> SolTokens \<times> SolDiagnostics) state" where
  "add_scanned ts ds kind start cursor = do {
     (ok, ts) \<leftarrow> sol_tokens_add ts kind start cursor;
     ret (ok, cursor, ts, ds)
   }"

definition invalid_byte_message :: "char \<Rightarrow> string" where
  "invalid_byte_message c =
     ''invalid source byte 0x'' @ [hex_digit (byte c div 16), hex_digit (byte c mod 16)]"

definition lex_invalid ::
  "SolTokens \<Rightarrow> SolDiagnostics \<Rightarrow> char \<Rightarrow> size_t \<Rightarrow>
   (sol_env, bool \<times> size_t \<times> SolTokens \<times> SolDiagnostics) state" where
  "lex_invalid ts ds c start = do {
     (ok, ts) \<leftarrow> sol_tokens_add ts SOL_TOKEN_INVALID start (start + 1);
     if \<not> ok then ret (False, start + 1, ts, ds)
     else do {
       (_, ds) \<leftarrow> sol_diagnostics_add ds ''SOL-LEX-001'' SOL_SEVERITY_ERROR
         (span start (start + 1)) (invalid_byte_message c);
       ret (True, start + 1, ts, ds)
     }
   }"

definition sol_lex_one ::
  "SolSource \<Rightarrow> SolTokens \<Rightarrow> SolDiagnostics \<Rightarrow> size_t \<Rightarrow>
   (sol_env, bool \<times> size_t \<times> SolTokens \<times> SolDiagnostics) state" where
  "sol_lex_one src ts ds start =
     (let tx = src_text src; c = tx ! start in
      if c = CHR 0x20 \<or> c = CHR 0x09 then
        add_scanned ts ds SOL_TOKEN_WHITESPACE start
          (skip_while (\<lambda>b. b = CHR 0x20 \<or> b = CHR 0x09) tx (start + 1))
      else if c = CHR 0x0A \<or> c = CHR 0x0D then
        add_scanned ts ds SOL_TOKEN_NEWLINE start
          (if c = CHR 0x0D \<and> next_is tx start (CHR 0x0A) then start + 2 else start + 1)
      else if sol_is_identifier_start c then
        (let cursor = skip_while sol_is_identifier_continue tx (start + 1) in
         add_scanned ts ds (sol_identifier_kind src start cursor) start cursor)
      else if isdigit c then
        add_scanned ts ds SOL_TOKEN_INTEGER start
          (skip_while (\<lambda>b. isdigit b \<or> b = CHR ''_'') tx (start + 1))
      else if c = CHR 0x22 then sol_lex_string src ts ds start
      else if c = CHR ''/'' \<and> next_is tx start (CHR ''/'') then
        add_scanned ts ds SOL_TOKEN_LINE_COMMENT start
          (skip_while (\<lambda>b. b \<noteq> CHR 0x0A \<and> b \<noteq> CHR 0x0D) tx (start + 2))
      else if c = CHR ''/'' \<and> next_is tx start (CHR ''*'') then
        sol_lex_block_comment src ts ds start
      else case lex_punctuation tx start of
        Some (kind, width) \<Rightarrow> add_scanned ts ds kind start (start + width)
      | None \<Rightarrow> lex_invalid ts ds c start)"

section \<open>Progress\<close>

lemma skip_while_bounds:
  "cursor \<le> skip_while p tx cursor \<and>
   (cursor \<le> length tx \<longrightarrow> skip_while p tx cursor \<le> length tx)"
proof (induction p tx cursor rule: skip_while.induct)
  case (1 p tx cursor)
  then show ?case by (auto simp: skip_while.simps [of p tx cursor])
qed

lemma block_comment_bounds:
  "block_comment_loop tx cursor depth = (cursor', depth') \<Longrightarrow>
   cursor \<le> cursor' \<and> (cursor \<le> length tx \<longrightarrow> cursor' \<le> length tx)"
proof (induction tx cursor depth arbitrary: cursor' depth' rule: block_comment_loop.induct)
  case (1 tx cursor depth)
  show ?case
    using "1.prems" "1.IH"
    by (subst (asm) block_comment_loop.simps) (fastforce simp: next_is_def split: if_splits)
qed

lemma lex_string_bounds:
  "run_state (lex_string_loop tx ds cursor) e = ((ok, cursor', ds'), e') \<Longrightarrow>
   cursor \<le> cursor' \<and> (cursor \<le> length tx \<longrightarrow> cursor' \<le> length tx)"
proof (induction tx ds cursor arbitrary: e rule: lex_string_loop.induct)
  case (1 tx ds cursor)
  show ?case
    using "1.prems" "1.IH"
    by (subst (asm) lex_string_loop.simps)
      (fastforce simp: Let_def split: if_splits prod.splits)
qed

lemma lex_punctuation_width: "lex_punctuation tx cursor = Some (k, w) \<Longrightarrow> w = 1 \<or> w = 2"
  by (auto simp: lex_punctuation_def Let_def split: if_splits)

section \<open>The reference scan\<close>

text \<open>
  What one iteration scans, without budget and diagnostics: the kind of the token at
  \<open>start\<close> and the offset after it. \<open>string_end\<close> is the string loop without its
  diagnostics.
\<close>

function string_end :: "string \<Rightarrow> size_t \<Rightarrow> bool \<times> size_t" where
  "string_end tx cursor =
     (if cursor < length tx then
        if tx ! cursor = CHR 0x22 then (True, cursor + 1)
        else if tx ! cursor = CHR 0x0A \<or> tx ! cursor = CHR 0x0D then (False, cursor)
        else if tx ! cursor = CHR 0x5C \<and> cursor + 1 < length tx then string_end tx (cursor + 2)
        else string_end tx (cursor + 1)
      else (False, cursor))"
  by pat_completeness auto
termination
  by (relation "measure (\<lambda>(tx, cursor). length tx - cursor)") auto

declare string_end.simps [simp del]

definition scan :: "SolSource \<Rightarrow> size_t \<Rightarrow> SolTokenKind \<times> size_t" where
  "scan src start =
     (let tx = src_text src; c = tx ! start in
      if c = CHR 0x20 \<or> c = CHR 0x09 then
        (SOL_TOKEN_WHITESPACE, skip_while (\<lambda>b. b = CHR 0x20 \<or> b = CHR 0x09) tx (start + 1))
      else if c = CHR 0x0A \<or> c = CHR 0x0D then
        (SOL_TOKEN_NEWLINE,
         if c = CHR 0x0D \<and> next_is tx start (CHR 0x0A) then start + 2 else start + 1)
      else if sol_is_identifier_start c then
        (let cursor = skip_while sol_is_identifier_continue tx (start + 1) in
         (sol_identifier_kind src start cursor, cursor))
      else if isdigit c then
        (SOL_TOKEN_INTEGER, skip_while (\<lambda>b. isdigit b \<or> b = CHR ''_'') tx (start + 1))
      else if c = CHR 0x22 then (SOL_TOKEN_STRING, snd (string_end tx (start + 1)))
      else if c = CHR ''/'' \<and> next_is tx start (CHR ''/'') then
        (SOL_TOKEN_LINE_COMMENT,
         skip_while (\<lambda>b. b \<noteq> CHR 0x0A \<and> b \<noteq> CHR 0x0D) tx (start + 2))
      else if c = CHR ''/'' \<and> next_is tx start (CHR ''*'') then
        (SOL_TOKEN_BLOCK_COMMENT, fst (block_comment_loop tx (start + 2) 1))
      else case lex_punctuation tx start of
        Some (kind, width) \<Rightarrow> (kind, start + width)
      | None \<Rightarrow> (SOL_TOKEN_INVALID, start + 1))"

lemma lex_string_end:
  "run_state (lex_string_loop tx ds cursor) e = ((ok, cursor', ds'), e') \<Longrightarrow>
   string_end tx cursor = (ok, cursor')"
proof (induction tx ds cursor arbitrary: e rule: lex_string_loop.induct)
  case (1 tx ds cursor)
  from "1.prems" "1.IH" show ?case
    by (subst (asm) lex_string_loop.simps, subst string_end.simps)
      (fastforce simp: Let_def split: if_splits prod.splits)
qed

lemma string_end_bounds:
  "cursor \<le> snd (string_end tx cursor) \<and>
   (cursor \<le> length tx \<longrightarrow> snd (string_end tx cursor) \<le> length tx)"
proof (induction tx cursor rule: string_end.induct)
  case (1 tx cursor)
  then show ?case by (auto simp: string_end.simps [of tx cursor])
qed

lemma next_is_bound: "next_is tx i c \<Longrightarrow> i + 2 \<le> length tx"
  by (simp add: next_is_def)

lemma lex_punctuation_bound:
  "lex_punctuation tx i = Some (k, w) \<Longrightarrow> i < length tx \<Longrightarrow> 0 < w \<and> i + w \<le> length tx"
  by (auto simp: lex_punctuation_def Let_def dest: next_is_bound split: if_splits)

lemma scan_progress:
  assumes "start < src_length src"
  shows "start < snd (scan src start) \<and> snd (scan src start) \<le> src_length src"
proof -
  have sw: "start < skip_while p (src_text src) (start + n) \<and>
      skip_while p (src_text src) (start + n) \<le> src_length src"
    if "0 < n" "start + n \<le> src_length src" for p n
    using skip_while_bounds [of "start + n" p "src_text src"] that by auto
  have bc: "start < fst (block_comment_loop (src_text src) (start + 2) 1) \<and>
      fst (block_comment_loop (src_text src) (start + 2) 1) \<le> src_length src"
    if "start + 2 \<le> src_length src"
    using block_comment_bounds [of "src_text src" "start + 2" 1] that
    by (cases "block_comment_loop (src_text src) (start + 2) 1") auto
  have se: "start < snd (string_end (src_text src) (start + 1)) \<and>
      snd (string_end (src_text src) (start + 1)) \<le> src_length src"
    using string_end_bounds [of "start + 1" "src_text src"] assms by auto
  from assms sw [of 1] sw [of 2] bc se show ?thesis
    by (auto simp: scan_def Let_def dest: next_is_bound lex_punctuation_bound
        split: option.splits)
qed

section \<open>One iteration\<close>

lemma tokens_add_cases:
  assumes "run_state (sol_tokens_add ts kind start fin) e = ((ok, ts'), e')"
  obtains "\<not> ok" "ts' = ts"
  | capacity e1 e2 where "ok"
      "run_state (grow_array 64 sizeof_SolToken (length (tks_items ts)) (tks_capacity ts)) e1
         = (Some capacity, e2)"
      "ts' = ts\<lparr>tks_capacity := capacity, tks_items := tks_items ts @ [token kind start fin]\<rparr>"
  using assms by (fastforce simp: sol_tokens_add_def split: if_splits prod.splits option.splits)

lemma tokens_add_items:
  assumes "run_state (sol_tokens_add ts kind start fin) e = ((ok, ts'), e')"
  shows "tks_items ts' = tks_items ts @ (if ok then [token kind start fin] else [])"
  using assms by (cases rule: tokens_add_cases) auto

text \<open>\<open>adds m ts k start cursor\<close>: if \<open>m\<close> succeeds it has appended that one token.\<close>

definition adds ::
  "(sol_env, bool \<times> size_t \<times> SolTokens \<times> SolDiagnostics) state \<Rightarrow> SolTokens \<Rightarrow>
   SolTokenKind \<times> size_t \<Rightarrow> size_t \<Rightarrow> bool" where
  "adds m ts kc start \<longleftrightarrow>
     (\<forall>e ok cursor ts' ds' e'. run_state m e = ((ok, cursor, ts', ds'), e') \<longrightarrow>
        cursor = snd kc \<and>
        tks_items ts' = tks_items ts @ (if ok then [token (fst kc) start cursor] else []))"

lemma add_scanned_adds: "adds (add_scanned ts ds k start cursor) ts (k, cursor) start"
  by (auto simp: adds_def add_scanned_def split: prod.splits dest: tokens_add_items)

lemma lex_string_adds:
  "adds (sol_lex_string src ts ds start) ts
     (SOL_TOKEN_STRING, snd (string_end (src_text src) (start + 1))) start"
  by (auto simp: adds_def sol_lex_string_def split: prod.splits if_splits
      dest!: tokens_add_items lex_string_end)

lemma lex_block_comment_adds:
  "adds (sol_lex_block_comment src ts ds start) ts
     (SOL_TOKEN_BLOCK_COMMENT, fst (block_comment_loop (src_text src) (start + 2) 1)) start"
  by (auto simp: adds_def sol_lex_block_comment_def split: prod.splits if_splits
      dest!: tokens_add_items)

lemma lex_invalid_adds: "adds (lex_invalid ts ds c start) ts (SOL_TOKEN_INVALID, start + 1) start"
  by (auto simp: adds_def lex_invalid_def split: prod.splits if_splits dest!: tokens_add_items)

lemma sol_lex_one_adds: "adds (sol_lex_one src ts ds start) ts (scan src start) start"
  unfolding sol_lex_one_def scan_def Let_def
  by (simp add: add_scanned_adds lex_string_adds [simplified] lex_block_comment_adds [simplified]
      lex_invalid_adds [simplified] split: option.split prod.split)

lemma sol_lex_one_scans:
  assumes "run_state (sol_lex_one src ts ds start) e = ((ok, cursor, ts', ds'), e')"
  shows "cursor = snd (scan src start)"
    and "tks_items ts' = tks_items ts @
      (if ok then [token (fst (scan src start)) start cursor] else [])"
proof -
  from sol_lex_one_adds [of src ts ds start] assms
  have "cursor = snd (scan src start) \<and> tks_items ts' = tks_items ts @
      (if ok then [token (fst (scan src start)) start cursor] else [])"
    unfolding adds_def by blast
  then show "cursor = snd (scan src start)"
    and "tks_items ts' = tks_items ts @
      (if ok then [token (fst (scan src start)) start cursor] else [])"
    by simp_all
qed

section \<open>The main loop\<close>

function sol_lex_loop ::
  "SolSource \<Rightarrow> SolTokens \<Rightarrow> SolDiagnostics \<Rightarrow> size_t \<Rightarrow> sol_env \<Rightarrow>
   (bool \<times> SolTokens \<times> SolDiagnostics) \<times> sol_env" where
  "sol_lex_loop src ts ds cursor e =
     (if cursor < src_length src then
        case run_state (sol_lex_one src ts ds cursor) e of
          ((ok, cursor', ts', ds'), e') \<Rightarrow>
            if ok then sol_lex_loop src ts' ds' cursor' e' else ((False, ts', ds'), e')
      else ((True, ts, ds), e))"
  by pat_completeness auto
termination
  by (relation "measure (\<lambda>(src, ts, ds, cursor, e). src_length src - cursor)")
    (auto dest!: sol_lex_one_scans(1) [OF sym] scan_progress intro: diff_less_mono2)

declare sol_lex_loop.simps [simp del]

definition sol_lex ::
  "SolSource \<Rightarrow> SolTokens \<Rightarrow> SolDiagnostics \<Rightarrow>
   (sol_env, bool \<times> SolTokens \<times> SolDiagnostics) state" where
  "sol_lex src ts ds = do {
     (ok, ts, ds) \<leftarrow> State (sol_lex_loop src ts ds 0);
     if \<not> ok then ret (False, ts, ds)
     else do {
       (ok, ts) \<leftarrow> sol_tokens_add ts SOL_TOKEN_EOF (src_length src) (src_length src);
       ret (ok \<and> \<not> dgs_allocation_failed ds, ts, ds)
     }
   }"

text \<open>The reference token sequence of a source: scan again and again, then the end of file.\<close>

function reference_tokens :: "SolSource \<Rightarrow> size_t \<Rightarrow> SolToken list" where
  "reference_tokens src cursor =
     (if cursor < src_length src
      then token (fst (scan src cursor)) cursor (snd (scan src cursor))
        # reference_tokens src (snd (scan src cursor))
      else [])"
  by pat_completeness auto
termination
  by (relation "measure (\<lambda>(src, cursor). src_length src - cursor)")
    (auto dest: scan_progress intro: diff_less_mono2)

declare reference_tokens.simps [simp del]

section \<open>The loop computes the reference sequence\<close>

lemma sol_lex_loop_tokens:
  "sol_lex_loop src ts ds cursor e = ((ok, ts', ds'), e') \<Longrightarrow>
   \<exists>n. tks_items ts' = tks_items ts @ take n (reference_tokens src cursor) \<and>
       (ok \<longrightarrow> length (reference_tokens src cursor) \<le> n)"
proof (induction src ts ds cursor e rule: sol_lex_loop.induct)
  case (1 src ts ds cursor e)
  show ?case
  proof (cases "cursor < src_length src")
    case False
    with "1.prems" show ?thesis
      by (auto simp: sol_lex_loop.simps [of src] reference_tokens.simps [of src cursor])
  next
    case True
    obtain ok1 c1 ts1 ds1 e1
      where one: "run_state (sol_lex_one src ts ds cursor) e = ((ok1, c1, ts1, ds1), e1)"
      by (metis prod.exhaust)
    note scans = sol_lex_one_scans [OF one]
    note ref = reference_tokens.simps [of src cursor]
    show ?thesis
    proof (cases ok1)
      case False
      with "1.prems" True one scans show ?thesis
        by (auto simp: sol_lex_loop.simps [of src ts ds cursor] intro: exI [of _ 0])
    next
      case ok: True
      with "1.prems" True one have "sol_lex_loop src ts1 ds1 c1 e1 = ((ok, ts', ds'), e')"
        by (simp add: sol_lex_loop.simps [of src ts ds cursor])
      from "1.IH" [OF True one [symmetric] refl refl refl ok this] obtain n
        where "tks_items ts' = tks_items ts1 @ take n (reference_tokens src c1)"
          "ok \<longrightarrow> length (reference_tokens src c1) \<le> n" by blast
      with ok True scans show ?thesis
        by (intro exI [of _ "Suc n"]) (auto simp: ref)
    qed
  qed
qed

fun tiles :: "SolSource \<Rightarrow> size_t \<Rightarrow> size_t \<Rightarrow> SolToken list \<Rightarrow> bool" where
  "tiles src i j [] \<longleftrightarrow> i = j"
| "tiles src i j (t # ts) \<longleftrightarrow>
     sp_start (tk_span t) = i \<and> i < sp_end (tk_span t) \<and> sp_end (tk_span t) \<le> src_length src \<and>
     tiles src (sp_end (tk_span t)) j ts"

lemma reference_tiles:
  "cursor \<le> src_length src \<Longrightarrow> tiles src cursor (src_length src) (reference_tokens src cursor)"
proof (induction src cursor rule: reference_tokens.induct)
  case (1 src cursor)
  then show ?case using scan_progress [of cursor src]
    by (auto simp: reference_tokens.simps [of src cursor])
qed

lemma tiles_le: "tiles src i j ts \<Longrightarrow> i \<le> j"
  by (induction ts arbitrary: i) (auto intro: order.trans less_imp_le)

lemma tiles_text:
  "tiles src i j ts \<Longrightarrow> concat (map (token_text src) ts) = take (j - i) (drop i (src_text src))"
proof (induction ts arbitrary: i)
  case (Cons t ts)
  let ?k = "sp_end (tk_span t)"
  from Cons have k: "i < ?k" "?k \<le> j" and rest:
    "concat (map (token_text src) ts) = take (j - ?k) (drop ?k (src_text src))"
    by (auto dest: tiles_le)
  have "take (j - i) (drop i (src_text src))
      = take ((?k - i) + (j - ?k)) (drop i (src_text src))" using k by simp
  also have "\<dots> = take (?k - i) (drop i (src_text src)) @ take (j - ?k) (drop ?k (src_text src))"
    using k take_add [of "?k - i" "j - ?k" "drop i (src_text src)"] by simp
  also have "take (?k - i) (drop i (src_text src)) = token_text src t"
    using Cons.prems by (simp add: token_text_def)
  finally show ?case using rest by simp
qed simp

section \<open>Errors\<close>

text \<open>Whether every escape of the string body from \<open>cursor\<close> on is one the language has.\<close>

function escapes_ok :: "string \<Rightarrow> size_t \<Rightarrow> bool" where
  "escapes_ok tx cursor \<longleftrightarrow>
     (if cursor < length tx then
        if tx ! cursor = CHR 0x22 \<or> tx ! cursor = CHR 0x0A \<or> tx ! cursor = CHR 0x0D then True
        else if tx ! cursor = CHR 0x5C \<and> cursor + 1 < length tx
        then supported_escape (tx ! (cursor + 1)) \<and> escapes_ok tx (cursor + 2)
        else escapes_ok tx (cursor + 1)
      else True)"
  by pat_completeness auto
termination
  by (relation "measure (\<lambda>(tx, cursor). length tx - cursor)") auto

declare escapes_ok.simps [simp del]

text \<open>A token the language accepts: valid bytes, closed strings and comments, known escapes.\<close>

definition lexeme_ok :: "SolSource \<Rightarrow> SolToken \<Rightarrow> bool" where
  "lexeme_ok src t \<longleftrightarrow>
     tk_kind t \<noteq> SOL_TOKEN_INVALID \<and>
     (tk_kind t = SOL_TOKEN_STRING \<longrightarrow>
        fst (string_end (src_text src) (sp_start (tk_span t) + 1)) \<and>
        escapes_ok (src_text src) (sp_start (tk_span t) + 1)) \<and>
     (tk_kind t = SOL_TOKEN_BLOCK_COMMENT \<longrightarrow>
        snd (block_comment_loop (src_text src) (sp_start (tk_span t) + 2) 1) = 0)"

lemma add_error_has_errors:
  "run_state (sol_diagnostics_add ds code SOL_SEVERITY_ERROR sp m) e = ((ok, ds'), e') \<Longrightarrow>
   sol_diagnostics_has_errors ds'"
  by (erule diagnostics_add_cases)
    (auto simp: sol_diagnostics_has_errors_def make_diagnostic_def)

lemma add_keeps_errors:
  "run_state (sol_diagnostics_add ds code sev sp m) e = ((ok, ds'), e') \<Longrightarrow>
   sol_diagnostics_has_errors ds \<Longrightarrow> sol_diagnostics_has_errors ds'"
  by (erule diagnostics_add_cases) (auto simp: sol_diagnostics_has_errors_def)

lemma lex_string_errors:
  "run_state (lex_string_loop tx ds cursor) e = ((ok, cursor', ds'), e') \<Longrightarrow>
   sol_diagnostics_has_errors ds' \<longleftrightarrow>
     sol_diagnostics_has_errors ds \<or> \<not> escapes_ok tx cursor"
proof (induction tx ds cursor arbitrary: e rule: lex_string_loop.induct)
  case (1 tx ds cursor)
  note step = lex_string_loop.simps [of tx ds cursor] and ok = escapes_ok.simps [of tx cursor]
  show ?case
  proof (cases "cursor < length tx \<and> tx ! cursor = CHR 0x5C \<and> cursor + 1 < length tx
      \<and> \<not> supported_escape (tx ! (cursor + 1))")
    case True
    obtain ok1 ds1 e1 where add: "run_state (sol_diagnostics_add ds ''SOL-LEX-003''
        SOL_SEVERITY_ERROR (span cursor (cursor + 2)) ''unsupported string escape'') e
        = ((ok1, ds1), e1)" by (metis prod.exhaust)
    with "1.prems" True have "run_state (lex_string_loop tx ds1 (cursor + 2)) e1
        = ((ok, cursor', ds'), e')" by (simp add: step)
    with "1.IH"(1) True add add_error_has_errors [OF add] show ?thesis
      by (auto simp: ok)
  next
    case False
    with "1.prems" "1.IH" show ?thesis
      by (auto simp: step ok Let_def split: if_splits)
  qed
qed

lemma lex_string_result:
  "run_state (lex_string_loop tx ds cursor) e = ((ok, cursor', ds'), e') \<Longrightarrow>
   string_end tx cursor = (ok, cursor') \<and>
   (sol_diagnostics_has_errors ds' \<longleftrightarrow> sol_diagnostics_has_errors ds \<or> \<not> escapes_ok tx cursor)"
  using lex_string_end lex_string_errors by blast

text \<open>\<open>reports m ds bad\<close>: \<open>m\<close> leaves an error behind exactly if there was one or \<open>bad\<close>.\<close>

definition reports ::
  "(sol_env, bool \<times> size_t \<times> SolTokens \<times> SolDiagnostics) state \<Rightarrow> SolDiagnostics \<Rightarrow> bool \<Rightarrow> bool" where
  "reports m ds bad \<longleftrightarrow>
     (\<forall>e cursor ts' ds' e'. run_state m e = ((True, cursor, ts', ds'), e') \<longrightarrow>
        (sol_diagnostics_has_errors ds' \<longleftrightarrow> sol_diagnostics_has_errors ds \<or> bad))"

lemma add_scanned_reports: "reports (add_scanned ts ds k start cursor) ds False"
  by (auto simp: reports_def add_scanned_def split: prod.splits)

lemma lex_string_reports:
  "reports (sol_lex_string src ts ds start) ds
     (\<not> (fst (string_end (src_text src) (start + 1)) \<and> escapes_ok (src_text src) (start + 1)))"
  unfolding reports_def sol_lex_string_def
  by (auto split: prod.splits if_splits
      dest!: lex_string_result dest: add_error_has_errors add_keeps_errors)

lemma lex_block_comment_reports:
  "reports (sol_lex_block_comment src ts ds start) ds
     (snd (block_comment_loop (src_text src) (start + 2) 1) \<noteq> 0)"
  unfolding reports_def sol_lex_block_comment_def
  by (auto split: prod.splits if_splits dest: add_error_has_errors add_keeps_errors)

lemma lex_invalid_reports: "reports (lex_invalid ts ds c start) ds True"
  unfolding reports_def lex_invalid_def
  by (auto split: prod.splits if_splits dest: add_error_has_errors)

lemma punctuation_kind:
  "lex_punctuation tx i = Some (k, w) \<Longrightarrow> \<exists>p. k = SOL_TOKEN_PUNCTUATION p"
  by (auto simp: lex_punctuation_def Let_def split: if_splits)

lemma keyword_kind:
  "sol_identifier_kind src i j = SOL_TOKEN_IDENTIFIER \<or>
   (\<exists>w. sol_identifier_kind src i j = SOL_TOKEN_KEYWORD w)"
proof -
  have kinds: "\<exists>v. k = SOL_TOKEN_KEYWORD v" if "(w, k) \<in> set SOL_KEYWORDS" for w k
    using that by (auto simp: SOL_KEYWORDS_def)
  show ?thesis
  proof (cases "find (\<lambda>(w, k). sol_token_text_equal src (token SOL_TOKEN_EOF i j) w) SOL_KEYWORDS")
    case None
    then show ?thesis by (simp add: sol_identifier_kind_def)
  next
    case (Some wk)
    then have "wk \<in> set SOL_KEYWORDS" by (rule find_mem)
    with Some kinds show ?thesis by (cases wk) (auto simp: sol_identifier_kind_def)
  qed
qed

lemma keyword_kind_plain:
  "sol_identifier_kind src i j \<noteq> SOL_TOKEN_INVALID \<and>
   sol_identifier_kind src i j \<noteq> SOL_TOKEN_STRING \<and>
   sol_identifier_kind src i j \<noteq> SOL_TOKEN_BLOCK_COMMENT"
  using keyword_kind [of src i j] by auto

lemma reportsD:
  "reports m ds bad \<Longrightarrow> run_state m e = ((True, cursor, ts', ds'), e') \<Longrightarrow>
   sol_diagnostics_has_errors ds' \<longleftrightarrow> sol_diagnostics_has_errors ds \<or> bad"
  unfolding reports_def by blast

lemma plain_reports:
  "k \<noteq> SOL_TOKEN_INVALID \<Longrightarrow> k \<noteq> SOL_TOKEN_STRING \<Longrightarrow> k \<noteq> SOL_TOKEN_BLOCK_COMMENT \<Longrightarrow>
   reports (add_scanned ts ds k start cursor) ds (\<not> lexeme_ok src (token k start cursor))"
  using add_scanned_reports [of ts ds k start cursor] by (simp add: lexeme_ok_def)

lemma string_reports:
  "reports (sol_lex_string src ts ds start) ds
     (\<not> lexeme_ok src (token SOL_TOKEN_STRING start cursor))"
  using lex_string_reports [of src ts ds start] by (simp add: lexeme_ok_def)

lemma comment_reports:
  "reports (sol_lex_block_comment src ts ds start) ds
     (\<not> lexeme_ok src (token SOL_TOKEN_BLOCK_COMMENT start cursor))"
  using lex_block_comment_reports [of src ts ds start] by (simp add: lexeme_ok_def)

lemma invalid_reports:
  "reports (lex_invalid ts ds c start) ds
     (\<not> lexeme_ok src (token SOL_TOKEN_INVALID start cursor))"
  using lex_invalid_reports [of ts ds c start] by (simp add: lexeme_ok_def)

lemmas token_reports = plain_reports string_reports comment_reports invalid_reports

lemma sol_lex_one_reports:
  "reports (sol_lex_one src ts ds start) ds
     (\<not> lexeme_ok src (token (fst (scan src start)) start (snd (scan src start))))"
proof (cases "lex_punctuation (src_text src) start")
  case None
  then show ?thesis unfolding sol_lex_one_def scan_def Let_def
    by (simp add: token_reports keyword_kind_plain)
next
  case (Some kw)
  moreover obtain p w where "kw = (SOL_TOKEN_PUNCTUATION p, w)"
    using Some punctuation_kind by (cases kw) blast
  ultimately show ?thesis unfolding sol_lex_one_def scan_def Let_def
    by (simp add: token_reports keyword_kind_plain)
qed

lemma sol_lex_loop_reports:
  "sol_lex_loop src ts ds cursor e = ((True, ts', ds'), e') \<Longrightarrow>
   sol_diagnostics_has_errors ds' \<longleftrightarrow>
     sol_diagnostics_has_errors ds \<or> \<not> list_all (lexeme_ok src) (reference_tokens src cursor)"
proof (induction src ts ds cursor e rule: sol_lex_loop.induct)
  case (1 src ts ds cursor e)
  show ?case
  proof (cases "cursor < src_length src")
    case False
    with "1.prems" show ?thesis
      by (auto simp: sol_lex_loop.simps [of src] reference_tokens.simps [of src cursor])
  next
    case True
    obtain ok1 c1 ts1 ds1 e1
      where one: "run_state (sol_lex_one src ts ds cursor) e = ((ok1, c1, ts1, ds1), e1)"
      by (metis prod.exhaust)
    with "1.prems" True have ok: ok1 and rest: "sol_lex_loop src ts1 ds1 c1 e1 = ((True, ts', ds'), e')"
      by (auto simp: sol_lex_loop.simps [of src ts ds cursor] split: if_splits)
    from "1.IH" [OF True one [symmetric] refl refl refl ok rest]
      reportsD [OF sol_lex_one_reports] one ok True sol_lex_one_scans(1) [OF one]
    show ?thesis by (auto simp: reference_tokens.simps [of src cursor])
  qed
qed

section \<open>What the budget sees\<close>

definition same_tokens :: "sol_env \<Rightarrow> sol_env \<Rightarrow> bool" where
  "same_tokens e f \<longleftrightarrow>
     map_option used_tokens (active_budget f) = map_option used_tokens (active_budget e)"

interpretation tok: io_preorder same_tokens
  by unfold_locales (simp_all add: same_tokens_def)

lemma charge_same_tokens:
  assumes "\<And>f b. used_tokens (upd f b) = used_tokens b"
  shows "state_io_rel same_tokens (sol_resource_charge used upd amount limit msg)"
  using assms
  by (auto simp: sol_resource_charge_def state_io_rel_def same_tokens_def note_failure_def
      split: option.splits)

lemma realloc_same_tokens: "state_io_rel same_tokens (sol_resource_realloc n)"
  unfolding sol_resource_realloc_def sol_resource_charge_allocation_def heap_request_def
  by (intro tok.io_rules charge_same_tokens tok.io_modify) (simp_all add: same_tokens_def)

lemma grow_same_tokens: "state_io_rel same_tokens (grow_array ini item count capacity)"
  unfolding grow_array_def by (intro tok.io_rules realloc_same_tokens)

lemma diagnostics_add_same_tokens:
  "state_io_rel same_tokens (sol_diagnostics_add ds code sev sp m)"
  unfolding sol_diagnostics_add_def sol_resource_charge_diagnostic_def
  by (intro tok.io_rules charge_same_tokens grow_same_tokens) simp

lemma lex_string_same_tokens: "state_io_rel same_tokens (lex_string_loop tx ds cursor)"
proof (induction tx ds cursor rule: lex_string_loop.induct)
  case (1 tx ds cursor)
  then show ?case
    by (subst lex_string_loop.simps) (intro tok.io_rules diagnostics_add_same_tokens, auto)
qed

lemmas keeps_tokens = diagnostics_add_same_tokens lex_string_same_tokens

text \<open>A successful addition charges exactly one token.\<close>

definition charged :: "nat \<Rightarrow> sol_env \<Rightarrow> sol_env \<Rightarrow> bool" where
  "charged n e f \<longleftrightarrow>
     map_option used_tokens (active_budget f) = map_option (\<lambda>b. used_tokens b + n) (active_budget e)"

lemma charged_same: "same_tokens e f \<Longrightarrow> charged n f g \<Longrightarrow> charged n e g"
  by (auto simp: charged_def same_tokens_def map_option_case split: option.splits)

lemma charged_then_same: "charged n e f \<Longrightarrow> same_tokens f g \<Longrightarrow> charged n e g"
  by (auto simp: charged_def same_tokens_def)

lemma charged_trans: "charged m e f \<Longrightarrow> charged n f g \<Longrightarrow> charged (m + n) e g"
  by (auto simp: charged_def map_option_case split: option.splits)

lemma charge_token_charged:
  "run_state sol_resource_charge_token e = (True, e') \<Longrightarrow> charged 1 e e'"
  by (auto simp: sol_resource_charge_token_def sol_resource_charge_def charged_def
      split: option.splits if_splits)

lemma tokens_add_charged:
  assumes "run_state (sol_tokens_add ts k i j) e = ((True, ts'), e')"
  shows "charged 1 e e'"
proof -
  from assms obtain e1 grown where "run_state sol_resource_charge_token e = (True, e1)"
    and "run_state (grow_array 64 sizeof_SolToken (length (tks_items ts)) (tks_capacity ts)) e1
      = (grown, e')"
    by (auto simp: sol_tokens_add_def split: prod.splits if_splits option.splits)
  then show ?thesis
    using charge_token_charged charged_then_same state_io_relD [OF grow_same_tokens] by blast
qed

lemma sol_lex_one_charged:
  assumes "run_state (sol_lex_one src ts ds start) e = ((True, cursor, ts', ds'), e')"
  shows "charged 1 e e'"
proof -
  have str: "charged (Suc 0) e e'" if "run_state (sol_lex_string src ts ds start) e
      = ((True, cursor, ts', ds'), e')" for e
    using that unfolding sol_lex_string_def
    by (auto split: prod.splits if_splits
        dest!: tokens_add_charged state_io_relD [OF lex_string_same_tokens]
          state_io_relD [OF diagnostics_add_same_tokens] intro: charged_same tok.io_trans)
  have com: "charged (Suc 0) e e'" if "run_state (sol_lex_block_comment src ts ds start) e
      = ((True, cursor, ts', ds'), e')" for e
    using that unfolding sol_lex_block_comment_def
    by (auto split: prod.splits if_splits
        dest!: tokens_add_charged state_io_relD [OF diagnostics_add_same_tokens] intro: charged_same)
  have inv: "charged (Suc 0) e e'" if "run_state (lex_invalid ts ds c start) e
      = ((True, cursor, ts', ds'), e')" for e c
    using that unfolding lex_invalid_def
    by (auto split: prod.splits if_splits
        dest!: tokens_add_charged state_io_relD [OF diagnostics_add_same_tokens]
        intro: charged_then_same)
  have add: "charged (Suc 0) e e'" if "run_state (add_scanned ts ds k start c) e
      = ((True, cursor, ts', ds'), e')" for e k c
    using that unfolding add_scanned_def by (auto split: prod.splits dest!: tokens_add_charged)
  show ?thesis
    using assms unfolding sol_lex_one_def Let_def
    by (auto split: if_splits option.splits prod.splits dest: str com inv add)
qed

lemma sol_lex_loop_charged:
  "sol_lex_loop src ts ds cursor e = ((True, ts', ds'), e') \<Longrightarrow>
   charged (length (reference_tokens src cursor)) e e'"
proof (induction src ts ds cursor e rule: sol_lex_loop.induct)
  case (1 src ts ds cursor e)
  show ?case
  proof (cases "cursor < src_length src")
    case False
    with "1.prems" show ?thesis
      by (auto simp: sol_lex_loop.simps [of src] reference_tokens.simps [of src cursor]
          charged_def map_option_case split: option.splits)
  next
    case True
    obtain ok1 c1 ts1 ds1 e1
      where one: "run_state (sol_lex_one src ts ds cursor) e = ((ok1, c1, ts1, ds1), e1)"
      by (metis prod.exhaust)
    with "1.prems" True have ok: ok1 and rest: "sol_lex_loop src ts1 ds1 c1 e1 = ((True, ts', ds'), e')"
      by (auto simp: sol_lex_loop.simps [of src ts ds cursor] split: if_splits)
    have "charged 1 e e1" using one ok sol_lex_one_charged by simp
    then have "charged (1 + length (reference_tokens src c1)) e e'"
      using "1.IH" [OF True one [symmetric] refl refl refl ok rest] by (rule charged_trans)
    with True sol_lex_one_scans(1) [OF one] show ?thesis
      by (simp add: reference_tokens.simps [of src cursor])
  qed
qed

lemma sol_lex_split:
  assumes "run_state (sol_lex src ts ds) e = ((True, ts', ds'), e')"
  obtains ts1 e1 where "sol_lex_loop src ts ds 0 e = ((True, ts1, ds'), e1)"
    and "run_state (sol_tokens_add ts1 SOL_TOKEN_EOF (src_length src) (src_length src)) e1
      = ((True, ts'), e')"
    and "\<not> dgs_allocation_failed ds'"
  using assms by (auto simp: sol_lex_def split: prod.splits if_splits)

text \<open>A successful run from an empty token list, in terms of the reference tokens.\<close>

definition lexed_tokens :: "SolSource \<Rightarrow> SolToken list" where
  "lexed_tokens src = reference_tokens src 0 @ [token SOL_TOKEN_EOF (src_length src) (src_length src)]"

lemma sol_lex_items:
  assumes "run_state (sol_lex src sol_tokens_init ds) e = ((True, ts, ds'), e')"
  shows "tks_items ts = lexed_tokens src"
proof -
  from assms obtain ts1 e1 where loop: "sol_lex_loop src sol_tokens_init ds 0 e = ((True, ts1, ds'), e1)"
    and eof: "run_state (sol_tokens_add ts1 SOL_TOKEN_EOF (src_length src) (src_length src)) e1
      = ((True, ts), e')" by (rule sol_lex_split)
  from sol_lex_loop_tokens [OF loop] tokens_add_items [OF eof] show ?thesis
    by (auto simp: sol_tokens_init_def lexed_tokens_def)
qed

lemma sol_lex_reports:
  assumes "run_state (sol_lex src ts ds) e = ((True, ts', ds'), e')"
  shows "sol_diagnostics_has_errors ds' \<longleftrightarrow>
    sol_diagnostics_has_errors ds \<or> \<not> list_all (lexeme_ok src) (lexed_tokens src)"
  using assms sol_lex_loop_reports
  by (elim sol_lex_split) (auto simp: lexed_tokens_def lexeme_ok_def)

text \<open>No token but the last one is the end of the file.\<close>

lemma scan_not_eof: "fst (scan src i) \<noteq> SOL_TOKEN_EOF"
proof -
  have "sol_identifier_kind src i j \<noteq> SOL_TOKEN_EOF" for j
    using keyword_kind [of src i j] by auto
  then show ?thesis by (auto simp: scan_def Let_def split: option.splits dest: punctuation_kind)
qed

lemma reference_not_eof: "list_all (\<lambda>t. tk_kind t \<noteq> SOL_TOKEN_EOF) (reference_tokens src i)"
proof (induction src i rule: reference_tokens.induct)
  case (1 src i)
  then show ?case using scan_not_eof [of src i]
    by (auto simp: reference_tokens.simps [of src i] split: prod.splits)
qed

lemma lexed_text: "concat (map (token_text src) (lexed_tokens src)) = src_text src"
proof -
  have "tiles src 0 (src_length src) (reference_tokens src 0)" by (rule reference_tiles) simp
  from tiles_text [OF this] show ?thesis by (simp add: lexed_tokens_def token_text_def)
qed

lemma lex_string_io [io_intro]: "state_io_rel env_step (lex_string_loop tx ds cursor)"
proof (induction tx ds cursor rule: lex_string_loop.induct)
  case (1 tx ds cursor)
  then show ?case by (subst lex_string_loop.simps) (intro env.io_rules io_intro, auto)
qed

lemma tokens_add_io [io_intro]: "state_io_rel env_step (sol_tokens_add ts k i j)"
  unfolding sol_tokens_add_def by (intro env.io_rules io_intro)

lemma sol_lex_one_io [io_intro]: "state_io_rel env_step (sol_lex_one src ts ds cursor)"
  unfolding sol_lex_one_def add_scanned_def sol_lex_string_def sol_lex_block_comment_def
    lex_invalid_def
  by (intro env.io_rules io_intro)

lemma sol_lex_loop_io:
  "sol_lex_loop src ts ds cursor e = (r, e') \<Longrightarrow> env_step e e'"
proof (induction src ts ds cursor e rule: sol_lex_loop.induct)
  case (1 src ts ds cursor e)
  obtain ok1 c1 ts1 ds1 e1
    where one: "run_state (sol_lex_one src ts ds cursor) e = ((ok1, c1, ts1, ds1), e1)"
    by (metis prod.exhaust)
  with state_io_relD [OF sol_lex_one_io one] "1.prems" show ?case
    using "1.IH" [OF _ one [symmetric] refl refl refl]
    by (auto simp: sol_lex_loop.simps [of src ts ds cursor] split: if_splits
        intro: env.io_trans env.io_refl)
qed

lemma sol_lex_io [io_intro]: "state_io_rel env_step (sol_lex src ts ds)"
proof -
  have "state_io_rel env_step (State (sol_lex_loop src ts ds 0))"
    by (rule state_io_relI) (auto dest: sol_lex_loop_io)
  then show ?thesis unfolding sol_lex_def by (intro env.io_rules io_intro)
qed

section \<open>Properties\<close>

text \<open>
  C16. A successful run of the lexer is lossless: the tokens are the reference sequence of the
  source followed by one end-of-file token, their spans tile the text from its first to its
  last byte without gap, overlap or empty token, and concatenating the tokens' texts gives
  the source back.
\<close>

theorem sol_lex_tiles_source:
  assumes "run_state (sol_lex src sol_tokens_init ds) e = ((True, ts, ds'), e')"
  shows "tks_items ts
      = reference_tokens src 0 @ [token SOL_TOKEN_EOF (src_length src) (src_length src)] \<and>
    tiles src 0 (src_length src) (butlast (tks_items ts)) \<and>
    concat (map (token_text src) (tks_items ts)) = src_text src"
  using sol_lex_items [OF assms] lexed_text [of src] reference_tiles [of 0 src]
  by (simp add: lexed_tokens_def)

definition sample_source :: SolSource where
  "sample_source = \<lparr> src_path = ''a'', src_text = ''x='', line_starts = [0] \<rparr>"

definition sample_tokens :: SolTokens where
  "sample_tokens = \<lparr> tks_items = [token SOL_TOKEN_IDENTIFIER 0 1, token SOL_TOKEN_EQUAL 1 2,
     token SOL_TOKEN_EOF 2 2], tks_capacity = 64 \<rparr>"

lemma sample_lex:
  "run_state (sol_lex sample_source sol_tokens_init sol_diagnostics_init) plain_env
   = ((True, sample_tokens, sol_diagnostics_init),
      snd (run_state (sol_lex sample_source sol_tokens_init sol_diagnostics_init) plain_env))"
proof -
  have "fst (run_state (sol_lex sample_source sol_tokens_init sol_diagnostics_init) plain_env)
      = (True, sample_tokens, sol_diagnostics_init)" by code_simp
  then show ?thesis by (metis prod.collapse)
qed

theorem sol_lex_tiles_source_witness:
  "concat (map (token_text sample_source) (tks_items sample_tokens)) = src_text sample_source"
  using sol_lex_tiles_source [OF sample_lex] by blast

text \<open>
  C17. The lexer reports an error exactly when the text has a lexical error: after a
  successful run from error-free diagnostics there is an error if and only if some token is
  an invalid byte, an unterminated string, a string with an escape the language does not
  have, or an unterminated block comment.
\<close>

theorem sol_lex_errors_exact:
  assumes "run_state (sol_lex src sol_tokens_init ds) e = ((True, ts, ds'), e')"
    and "\<not> sol_diagnostics_has_errors ds"
  shows "sol_diagnostics_has_errors ds' \<longleftrightarrow> (\<exists>t \<in> set (tks_items ts). \<not> lexeme_ok src t)"
  using sol_lex_items [OF assms(1)] sol_lex_reports [OF assms(1)] assms(2)
  by (auto simp: list_all_iff)

theorem sol_lex_errors_exact_witness:
  "\<not> sol_diagnostics_has_errors sol_diagnostics_init \<and>
   list_all (lexeme_ok sample_source) (tks_items sample_tokens)"
proof -
  have clean: "\<not> sol_diagnostics_has_errors sol_diagnostics_init"
    by (simp add: sol_diagnostics_has_errors_def sol_diagnostics_init_def)
  with sol_lex_errors_exact [OF sample_lex clean] show ?thesis by (auto simp: list_all_iff)
qed

text \<open>
  C37. Under an active budget within its limits a successful run charges one token per
  token produced, so no more tokens are ever produced than the budget allows, and the budget
  is still within all of its limits afterwards.
\<close>

theorem sol_lex_respects_budget:
  assumes "run_state (sol_lex src sol_tokens_init ds) e = ((True, ts, ds'), e')"
    and "active_budget e = Some b" and "within_limits b"
  shows "\<exists>c. active_budget e' = Some c \<and> within_limits c \<and> budget_limits c = budget_limits b \<and>
    used_tokens c = used_tokens b + length (tks_items ts) \<and>
    length (tks_items ts) \<le> lim_tokens (budget_limits b)"
proof -
  from assms(1) obtain ts1 e1
    where loop: "sol_lex_loop src sol_tokens_init ds 0 e = ((True, ts1, ds'), e1)"
    and eof: "run_state (sol_tokens_add ts1 SOL_TOKEN_EOF (src_length src) (src_length src)) e1
      = ((True, ts), e')" by (rule sol_lex_split)
  from sol_lex_loop_tokens [OF loop] tokens_add_items [OF eof]
  have len: "length (tks_items ts) = length (reference_tokens src 0) + 1"
    by (auto simp: sol_tokens_init_def)
  have "charged (length (tks_items ts)) e e'"
    unfolding len using sol_lex_loop_charged [OF loop] tokens_add_charged [OF eof]
    by (rule charged_trans)
  moreover from state_io_relD [OF sol_lex_io assms(1)] assms(2) obtain c
    where c: "active_budget e' = Some c" "budget_step b c" by (auto simp: env_step_def)
  ultimately have "used_tokens c = used_tokens b + length (tks_items ts)"
    using assms(2) by (simp add: charged_def)
  with c assms(3) show ?thesis by (auto simp: budget_step_def within_limits_def)
qed

definition budget_env :: sol_env where
  "budget_env = plain_env\<lparr>active_budget := Some (budget_start sol_compilation_limits_default)\<rparr>"

definition budget_env_after :: sol_env where
  "budget_env_after = snd (run_state (sol_lex sample_source sol_tokens_init sol_diagnostics_init) budget_env)"

lemma sample_lex_budget:
  "run_state (sol_lex sample_source sol_tokens_init sol_diagnostics_init) budget_env
   = ((True, sample_tokens, sol_diagnostics_init), budget_env_after)"
proof -
  have "fst (run_state (sol_lex sample_source sol_tokens_init sol_diagnostics_init) budget_env)
      = (True, sample_tokens, sol_diagnostics_init)" by code_simp
  then show ?thesis unfolding budget_env_after_def by (metis prod.collapse)
qed

theorem sol_lex_respects_budget_witness:
  "\<exists>c. active_budget budget_env_after = Some c \<and> used_tokens c = 3"
proof -
  have b: "active_budget budget_env = Some (budget_start sol_compilation_limits_default)"
    by (simp add: budget_env_def)
  have w: "within_limits (budget_start sol_compilation_limits_default)"
    by (simp add: within_limits_def budget_start_def)
  from sol_lex_respects_budget [OF sample_lex_budget b w] show ?thesis
    by (auto simp: sample_tokens_def budget_start_def)
qed

end
