(* ===== verification/Sol_Syntax.thy ===== *)
theory Sol_Syntax
  imports Sol_Diagnostic Sol_Token
begin

text \<open>
  \<open>src/include/sol/ast.h\<close> and \<open>src/include/sol/parser.h\<close>: the syntax tree. Every kind of
  node lives in an array of its own and nodes refer to each other by index; \<open>SOL_AST_NONE\<close>
  is the absent reference. Tagged unions are datatypes whose constructors carry the member
  that is meaningful for the tag, plain structures are records. A table keeps the memory
  that has been written apart from the count of live entries, because the parser gives
  entries back by lowering the count while their memory stays allocated.
\<close>

section \<open>References\<close>

type_synonym SolExprId = size_t
type_synonym SolStatementId = size_t
type_synonym SolArgumentId = size_t
type_synonym SolParameterId = size_t
type_synonym SolTypeId = size_t
type_synonym SolTypeArgumentId = size_t
type_synonym SolTypeParameterId = size_t
type_synonym SolEffectParameterId = size_t
type_synonym SolFieldId = size_t
type_synonym SolVariantId = size_t
type_synonym SolPatternId = size_t
type_synonym SolPatternBindingId = size_t
type_synonym SolMatchArmId = size_t
type_synonym SolEffectId = size_t
type_synonym SolCapabilityMemberId = size_t
type_synonym SolTraitMethodId = size_t
type_synonym SolContractClauseId = size_t
type_synonym SolContractConditionId = size_t
type_synonym SolLoopInvariantId = size_t

definition SOL_AST_NONE :: size_t where
  "SOL_AST_NONE = SIZE_MAX"

abbreviation no_span :: SolSpan where
  "no_span \<equiv> span 0 0"

section \<open>Expressions and statements\<close>

datatype SolAccessMode = SOL_ACCESS_OWNED | SOL_ACCESS_SHARED | SOL_ACCESS_EXCLUSIVE

datatype SolExprKind =
    SOL_EXPR_ERROR
  | SOL_EXPR_INTEGER
  | SOL_EXPR_STRING
  | SOL_EXPR_BOOL bool
  | SOL_EXPR_UNIT
  | SOL_EXPR_PATH SolSpan
  | SOL_EXPR_UNARY SolTokenKind SolExprId
  | SOL_EXPR_BINARY SolExprId SolTokenKind SolExprId
  | SOL_EXPR_CALL SolExprId SolArgumentId
  | SOL_EXPR_FIELD SolExprId SolSpan
  | SOL_EXPR_TUPLE SolArgumentId
  | SOL_EXPR_RECORD SolExprId SolArgumentId
  | SOL_EXPR_IF SolExprId SolExprId SolExprId
  | SOL_EXPR_MATCH SolExprId SolMatchArmId
  | SOL_EXPR_BLOCK SolStatementId
  | SOL_EXPR_PROPAGATE SolExprId
  | SOL_EXPR_HANDLE SolSpan SolExprId SolExprId SolExprId
  | SOL_EXPR_RESULT
  | SOL_EXPR_OLD SolExprId
  | SOL_EXPR_TYPE_APPLICATION SolExprId SolTypeArgumentId

record SolExpr =
  ex_kind :: SolExprKind
  ex_span :: SolSpan

record SolArgument =
  ar_name :: SolSpan
  ar_value :: SolExprId
  ar_next :: SolArgumentId
  ar_is_named :: bool

datatype SolStatementKind =
    SOL_STATEMENT_LET SolSpan SolExprId SolTypeId
  | SOL_STATEMENT_VAR SolSpan SolExprId SolTypeId
  | SOL_STATEMENT_ASSIGNMENT SolExprId SolExprId SolTokenKind
  | SOL_STATEMENT_RETURN SolExprId
  | SOL_STATEMENT_EXPRESSION SolExprId
  | SOL_STATEMENT_REGION SolSpan SolExprId
  | SOL_STATEMENT_MODIFY SolExprId SolExprId
  | SOL_STATEMENT_LOOP SolExprId SolLoopInvariantId SolSpan SolExprId SolSpan SolExprId
  | SOL_STATEMENT_WHILE SolExprId SolLoopInvariantId SolSpan SolExprId SolSpan SolExprId
  | SOL_STATEMENT_BREAK
  | SOL_STATEMENT_CONTINUE
  | SOL_STATEMENT_PANIC SolExprId
  | SOL_STATEMENT_UNREACHABLE SolExprId SolSpan
  | SOL_STATEMENT_REQUIRE SolExprId SolExprId

record SolStatement =
  st_kind :: SolStatementKind
  st_span :: SolSpan
  st_next :: SolStatementId

record SolLoopInvariant =
  li_expression :: SolExprId
  li_span :: SolSpan
  li_next :: SolLoopInvariantId

section \<open>Types, parameters, declarations\<close>

record SolParameter =
  pa_name :: SolSpan
  pa_type :: SolSpan
  pa_type_id :: SolTypeId
  pa_next :: SolParameterId
  pa_access :: SolAccessMode

datatype SolSyntaxTypeKind =
    SOL_SYNTAX_TYPE_PATH | SOL_SYNTAX_TYPE_UNIT | SOL_SYNTAX_TYPE_FUNCTION
  | SOL_SYNTAX_TYPE_TUPLE

record SolSyntaxType =
  ty_kind :: SolSyntaxTypeKind
  ty_span :: SolSpan
  ty_name :: SolSpan
  ty_first_argument :: SolTypeArgumentId
  ty_return_type :: SolTypeId
  ty_first_effect :: SolEffectId
  ty_effect_tail :: SolSpan
  ty_has_effect_tail :: bool
  ty_is_capability :: bool
  ty_owner_item :: size_t

datatype SolEffectOwnerKind =
    SOL_EFFECT_OWNER_ITEM | SOL_EFFECT_OWNER_CAPABILITY_MEMBER | SOL_EFFECT_OWNER_TRAIT_METHOD
  | SOL_EFFECT_OWNER_TYPE

record SolTypeArgument =
  ta_type :: SolTypeId
  ta_next :: SolTypeArgumentId
  ta_access :: SolAccessMode

record SolTypeParameter =
  tp_name :: SolSpan
  tp_bound :: SolSpan
  tp_next :: SolTypeParameterId
  tp_owner_item :: size_t

record SolEffectParameter =
  ep_name :: SolSpan
  ep_next :: SolEffectParameterId
  ep_owner_item :: size_t

record SolField =
  fd_name :: SolSpan
  fd_span :: SolSpan
  fd_type :: SolTypeId
  fd_next :: SolFieldId

record SolVariant =
  va_name :: SolSpan
  va_span :: SolSpan
  va_first_field :: SolFieldId
  va_next :: SolVariantId
  va_owner_item :: size_t

datatype SolPatternKind =
    SOL_PATTERN_WILDCARD | SOL_PATTERN_VARIANT | SOL_PATTERN_BOOL | SOL_PATTERN_BINDING
  | SOL_PATTERN_RECORD | SOL_PATTERN_TUPLE

record SolPattern =
  pt_kind :: SolPatternKind
  pt_span :: SolSpan
  pt_name :: SolSpan
  pt_first_binding :: SolPatternBindingId
  pt_bool_value :: bool

record SolPatternBinding =
  pb_pattern :: SolPatternId
  pb_field :: SolSpan
  pb_next :: SolPatternBindingId

record SolMatchArm =
  ma_pattern :: SolPatternId
  ma_guard :: SolExprId
  ma_value :: SolExprId
  ma_span :: SolSpan
  ma_next :: SolMatchArmId

record SolEffect =
  ef_name :: SolSpan
  ef_argument :: SolSpan
  ef_span :: SolSpan
  ef_next :: SolEffectId
  ef_owner_kind :: SolEffectOwnerKind
  ef_owner :: size_t
  ef_is_pure :: bool
  ef_has_argument :: bool

datatype SolContractOwnerKind =
    SOL_CONTRACT_OWNER_ITEM | SOL_CONTRACT_OWNER_CAPABILITY_MEMBER | SOL_CONTRACT_OWNER_TYPE

datatype SolContractClauseKind = SOL_CONTRACT_REQUIRES | SOL_CONTRACT_ENSURES

datatype SolContractOutcomeKind =
    SOL_CONTRACT_OUTCOME_ALWAYS | SOL_CONTRACT_OUTCOME_SUCCESS | SOL_CONTRACT_OUTCOME_FAILURE

record SolContractClause =
  cl_kind :: SolContractClauseKind
  cl_span :: SolSpan
  cl_first_condition :: SolContractConditionId
  cl_next :: SolContractClauseId
  cl_owner_kind :: SolContractOwnerKind
  cl_owner :: size_t

record SolContractCondition =
  cc_outcome :: SolContractOutcomeKind
  cc_span :: SolSpan
  cc_expression :: SolExprId
  cc_next :: SolContractConditionId
  cc_owner_clause :: SolContractClauseId

record SolCapabilityMember =
  cm_name :: SolSpan
  cm_span :: SolSpan
  cm_first_parameter :: SolParameterId
  cm_return_type :: SolSpan
  cm_return_type_id :: SolTypeId
  cm_first_effect :: SolEffectId
  cm_first_contract :: SolContractClauseId
  cm_body :: SolExprId
  cm_next :: SolCapabilityMemberId
  cm_owner_item :: size_t
  cm_has_effect_clause :: bool
  cm_result_authority_from_self :: bool

record SolTraitMethod =
  tm_name :: SolSpan
  tm_span :: SolSpan
  tm_first_parameter :: SolParameterId
  tm_return_type :: SolSpan
  tm_return_type_id :: SolTypeId
  tm_first_effect :: SolEffectId
  tm_body :: SolExprId
  tm_next :: SolTraitMethodId
  tm_owner_item :: size_t
  tm_has_effect_clause :: bool

datatype SolItemKind =
    SOL_ITEM_RECORD | SOL_ITEM_ENUM | SOL_ITEM_TYPE | SOL_ITEM_CAPABILITY | SOL_ITEM_FUNCTION
  | SOL_ITEM_TRAIT | SOL_ITEM_IMPLEMENTATION | SOL_ITEM_TEST

datatype SolTypeDeclarationFlavor =
    SOL_TYPE_DECLARATION_NONE | SOL_TYPE_DECLARATION_DISTINCT | SOL_TYPE_DECLARATION_REFINED

record SolSyntaxItem =
  it_kind :: SolItemKind
  it_flavor :: SolTypeDeclarationFlavor
  it_name :: SolSpan
  it_span :: SolSpan
  it_stable_identity :: SolSpan
  it_is_public :: bool
  it_is_entrypoint :: bool
  it_body :: SolExprId
  it_first_parameter :: SolParameterId
  it_return_type :: SolSpan
  it_return_type_id :: SolTypeId
  it_first_field :: SolFieldId
  it_first_variant :: SolVariantId
  it_is_open :: bool
  it_first_effect :: SolEffectId
  it_has_effect_clause :: bool
  it_first_contract :: SolContractClauseId
  it_representation_type :: SolTypeId
  it_first_member :: SolCapabilityMemberId
  it_result_authority_parameter :: SolParameterId
  it_capability_source :: SolParameterId
  it_first_type_parameter :: SolTypeParameterId
  it_first_effect_parameter :: SolEffectParameterId
  it_trait_name :: SolSpan
  it_implementation_type :: SolTypeId
  it_first_trait_method :: SolTraitMethodId

record SolImport =
  im_path :: SolSpan

section \<open>The tree\<close>

text \<open>
  An array of the tree: \<open>tb_memory\<close> lists the entries written so far, the first
  \<open>tb_count\<close> of them are live and \<open>tb_capacity\<close> entries are allocated.
\<close>

record 'a sol_table =
  tb_memory :: "'a list"
  tb_count :: size_t
  tb_capacity :: size_t

definition empty_table :: "'a sol_table" where
  "empty_table = \<lparr> tb_memory = [], tb_count = 0, tb_capacity = 0 \<rparr>"

record SolSyntaxTree =
  tr_module_name :: SolSpan
  tr_edition :: nat
  tr_imports :: "SolImport sol_table"
  tr_items :: "SolSyntaxItem sol_table"
  tr_expressions :: "SolExpr sol_table"
  tr_statements :: "SolStatement sol_table"
  tr_loop_invariants :: "SolLoopInvariant sol_table"
  tr_arguments :: "SolArgument sol_table"
  tr_parameters :: "SolParameter sol_table"
  tr_types :: "SolSyntaxType sol_table"
  tr_type_arguments :: "SolTypeArgument sol_table"
  tr_type_parameters :: "SolTypeParameter sol_table"
  tr_effect_parameters :: "SolEffectParameter sol_table"
  tr_fields :: "SolField sol_table"
  tr_variants :: "SolVariant sol_table"
  tr_patterns :: "SolPattern sol_table"
  tr_pattern_bindings :: "SolPatternBinding sol_table"
  tr_match_arms :: "SolMatchArm sol_table"
  tr_effects :: "SolEffect sol_table"
  tr_capability_members :: "SolCapabilityMember sol_table"
  tr_trait_methods :: "SolTraitMethod sol_table"
  tr_contract_clauses :: "SolContractClause sol_table"
  tr_contract_conditions :: "SolContractCondition sol_table"

definition sol_syntax_tree_init :: SolSyntaxTree where
  "sol_syntax_tree_init =
     \<lparr> tr_module_name = no_span, tr_edition = 0, tr_imports = empty_table,
       tr_items = empty_table, tr_expressions = empty_table, tr_statements = empty_table,
       tr_loop_invariants = empty_table, tr_arguments = empty_table,
       tr_parameters = empty_table, tr_types = empty_table, tr_type_arguments = empty_table,
       tr_type_parameters = empty_table, tr_effect_parameters = empty_table,
       tr_fields = empty_table, tr_variants = empty_table, tr_patterns = empty_table,
       tr_pattern_bindings = empty_table, tr_match_arms = empty_table,
       tr_effects = empty_table, tr_capability_members = empty_table,
       tr_trait_methods = empty_table, tr_contract_clauses = empty_table,
       tr_contract_conditions = empty_table \<rparr>"

text \<open>The memory goes back to the allocator, which the model does not count.\<close>

definition sol_syntax_tree_free :: "SolSyntaxTree \<Rightarrow> SolSyntaxTree" where
  "sol_syntax_tree_free tree = sol_syntax_tree_init"

end
