(* ===== verification/Sol_ParserState.thy ===== *)
theory Sol_ParserState
  imports Sol_Syntax
begin

text \<open>
  \<open>src/src/parser.c\<close>, the part every production uses: the parser's state, the token
  cursor that steps over trivia, diagnostics, and the growing arrays of the tree. An
  access outside the memory of an array, or a loop that runs more often than there are
  tokens, records a trap; the theorems show that no run of the parser does.
\<close>

section \<open>State\<close>

datatype SolParserContractContext =
    SOL_PARSER_CONTRACT_NONE | SOL_PARSER_CONTRACT_REQUIRES | SOL_PARSER_CONTRACT_ENSURES

datatype parser_trap = OUT_OF_FUEL | BAD_ACCESS

record SolParser =
  ps_source :: SolSource
  ps_tokens :: "SolToken list"
  ps_tree :: SolSyntaxTree
  ps_diagnostics :: SolDiagnostics
  ps_cursor :: size_t
  ps_type_depth :: size_t
  ps_expression_depth :: size_t
  ps_loop_depth :: size_t
  ps_contract_context :: SolParserContractContext
  ps_suppress_record_literal :: bool
  ps_allocation_failed :: bool
  ps_env :: sol_env
  ps_trap :: "parser_trap option"

type_synonym 'a parse = "(SolParser, 'a) state"

abbreviation quote :: string where
  "quote \<equiv> [CHR 0x27]"

section \<open>Control\<close>

definition sol_trap :: "parser_trap \<Rightarrow> unit parse" where
  "sol_trap t = modify (ps_trap_update (\<lambda>_. Some t))"

definition when_do :: "bool \<Rightarrow> unit parse \<Rightarrow> unit parse" where
  "when_do b m = (if b then m else ret ())"

text \<open>\<open>b && f(parser)\<close>: the call is made only when \<open>b\<close> holds.\<close>

definition and_then :: "bool \<Rightarrow> bool parse \<Rightarrow> bool parse" where
  "and_then b m = (if b then m else ret False)"

text \<open>
  A C loop: the body maps the loop's local variables to their next values (\<open>Inl\<close>) or
  leaves the loop with a result (\<open>Inr\<close>). One round more than there are tokens left is
  allowed; \<open>d\<close> is the result of a loop that needs more, which also traps.
\<close>

primrec loop_rounds :: "nat \<Rightarrow> 'r \<Rightarrow> ('l \<Rightarrow> ('l + 'r) parse) \<Rightarrow> 'l \<Rightarrow> 'r parse" where
  "loop_rounds 0 d body l = do { sol_trap OUT_OF_FUEL; ret d }"
| "loop_rounds (Suc n) d body l = do {
     next \<leftarrow> body l;
     case next of Inl l' \<Rightarrow> loop_rounds n d body l' | Inr r \<Rightarrow> ret r
   }"

definition loop :: "'r \<Rightarrow> ('l \<Rightarrow> ('l + 'r) parse) \<Rightarrow> 'l \<Rightarrow> 'r parse" where
  "loop d body l = do {
     n \<leftarrow> gets (\<lambda>s. length (ps_tokens s) - ps_cursor s);
     loop_rounds (Suc n) d body l
   }"

section \<open>Tokens\<close>

definition sol_parser_next_significant :: "SolToken list \<Rightarrow> size_t \<Rightarrow> size_t" where
  "sol_parser_next_significant ts index =
     index + length (takeWhile (\<lambda>t. sol_token_is_trivia (tk_kind t)) (drop index ts))"

definition sol_parser_significant_index :: "size_t parse" where
  "sol_parser_significant_index = do {
     ts \<leftarrow> gets ps_tokens;
     modify (ps_cursor_update (sol_parser_next_significant ts));
     gets ps_cursor
   }"

text \<open>The token at an index; past the end, an end of file at the end of the source.\<close>

definition token_at :: "SolSource \<Rightarrow> SolToken list \<Rightarrow> size_t \<Rightarrow> SolToken" where
  "token_at src ts index =
     (if index < length ts then ts ! index
      else \<lparr> tk_kind = SOL_TOKEN_EOF, tk_span = span (src_length src) (src_length src) \<rparr>)"

definition sol_parser_current :: "SolToken parse" where
  "sol_parser_current = do {
     index \<leftarrow> sol_parser_significant_index;
     src \<leftarrow> gets ps_source;
     ts \<leftarrow> gets ps_tokens;
     ret (token_at src ts index)
   }"

definition sol_parser_kind :: "SolTokenKind parse" where
  "sol_parser_kind = do { t \<leftarrow> sol_parser_current; ret (tk_kind t) }"

definition sol_parser_peek_kind :: "size_t \<Rightarrow> SolTokenKind parse" where
  "sol_parser_peek_kind distance = do {
     index \<leftarrow> sol_parser_significant_index;
     ts \<leftarrow> gets ps_tokens;
     ret (case drop distance (filter (\<lambda>t. \<not> sol_token_is_trivia (tk_kind t)) (drop index ts)) of
            [] \<Rightarrow> SOL_TOKEN_EOF
          | t # _ \<Rightarrow> tk_kind t)
   }"

definition sol_parser_advance :: "SolToken parse" where
  "sol_parser_advance = do {
     t \<leftarrow> sol_parser_current;
     ts \<leftarrow> gets ps_tokens;
     cursor \<leftarrow> gets ps_cursor;
     when_do (cursor < length ts) (modify (ps_cursor_update Suc));
     ret t
   }"

definition sol_parser_match :: "SolTokenKind \<Rightarrow> bool parse" where
  "sol_parser_match kind = do {
     k \<leftarrow> sol_parser_kind;
     if k \<noteq> kind then ret False
     else do { sol_parser_advance; ret True }
   }"

text \<open>\<open>parser->tokens->items[parser->cursor - 1]\<close>.\<close>

definition previous_token :: "SolToken parse" where
  "previous_token = do {
     src \<leftarrow> gets ps_source;
     ts \<leftarrow> gets ps_tokens;
     cursor \<leftarrow> gets ps_cursor;
     if 0 < cursor \<and> cursor - 1 < length ts then ret (ts ! (cursor - 1))
     else do { sol_trap BAD_ACCESS; ret (token_at src ts cursor) }
   }"

section \<open>Diagnostics\<close>

definition lift_env :: "(sol_env, 'a) state \<Rightarrow> 'a parse" where
  "lift_env m = State (\<lambda>s. case run_state m (ps_env s) of (x, e) \<Rightarrow> (x, s\<lparr>ps_env := e\<rparr>))"

definition parser_diagnostic :: "string \<Rightarrow> SolSpan \<Rightarrow> string \<Rightarrow> unit parse" where
  "parser_diagnostic code sp message = do {
     ds \<leftarrow> gets ps_diagnostics;
     (added, ds') \<leftarrow> lift_env (sol_diagnostics_add ds code SOL_SEVERITY_ERROR sp message);
     modify (ps_diagnostics_update (\<lambda>_. ds'))
   }"

definition sol_parser_error :: "string \<Rightarrow> SolToken \<Rightarrow> string \<Rightarrow> unit parse" where
  "sol_parser_error code t message =
     parser_diagnostic code (tk_span t)
       (message @ ''; found '' @ sol_token_kind_name (tk_kind t))"

definition sol_parser_expect :: "SolTokenKind \<Rightarrow> string \<Rightarrow> bool parse" where
  "sol_parser_expect kind message = do {
     t \<leftarrow> sol_parser_current;
     if tk_kind t = kind then do { sol_parser_advance; ret True }
     else do { sol_parser_error ''SOL-PARSE-001'' t message; ret False }
   }"

definition token_text_is :: "SolToken \<Rightarrow> string \<Rightarrow> bool parse" where
  "token_text_is t tx = do {
     src \<leftarrow> gets ps_source;
     ret (sol_token_text_equal src t tx)
   }"

definition sol_parser_expect_identifier_text :: "string \<Rightarrow> string \<Rightarrow> bool parse" where
  "sol_parser_expect_identifier_text tx message = do {
     t \<leftarrow> sol_parser_current;
     equal \<leftarrow> token_text_is t tx;
     if tk_kind t = SOL_TOKEN_IDENTIFIER \<and> equal
     then do { sol_parser_advance; ret True }
     else do {
       sol_parser_error ''SOL-PARSE-016'' t message;
       (if tk_kind t \<noteq> SOL_TOKEN_EOF then do { sol_parser_advance; ret () } else ret ());
       ret False
     }
   }"

section \<open>Arrays of the tree\<close>

text \<open>
  \<open>sol_parser_grow\<close>: twice the capacity, \<open>initial\<close> entries for an array that has none
  yet. It charges the new entries to the arena budget and reallocates.
\<close>

definition parser_grow :: "size_t \<Rightarrow> size_t \<Rightarrow> size_t \<Rightarrow> size_t option parse" where
  "parser_grow initial capacity item = (
     let fail = do { modify (ps_allocation_failed_update (\<lambda>_. True)); ret None } in
     if capacity > SIZE_MAX div 2 then fail
     else
       let capacity' = (if capacity = 0 then initial else capacity * 2) in
       if capacity' > SIZE_MAX div item then fail
       else do {
         charged \<leftarrow> lift_env (sol_resource_charge_arena (capacity' - capacity));
         if \<not> charged then fail
         else do {
           grown \<leftarrow> lift_env (sol_resource_realloc (capacity' * item));
           if grown then ret (Some capacity') else fail
         }
       })"

definition sol_parser_grow :: "size_t \<Rightarrow> size_t \<Rightarrow> size_t option parse" where
  "sol_parser_grow capacity item = parser_grow 32 capacity item"

type_synonym 'a table_get = "SolSyntaxTree \<Rightarrow> 'a sol_table"
type_synonym 'a table_upd = "('a sol_table \<Rightarrow> 'a sol_table) \<Rightarrow> SolSyntaxTree \<Rightarrow> SolSyntaxTree"

text \<open>The entry at the count, over what is left there when entries were given back.\<close>

definition table_push :: "size_t \<Rightarrow> 'a \<Rightarrow> 'a sol_table \<Rightarrow> 'a sol_table" where
  "table_push capacity x tb =
     tb\<lparr>tb_memory := (if tb_count tb < length (tb_memory tb)
          then (tb_memory tb)[tb_count tb := x] else tb_memory tb @ [x]),
        tb_count := tb_count tb + 1, tb_capacity := capacity\<rparr>"

definition table_add ::
  "'a table_get \<Rightarrow> 'a table_upd \<Rightarrow> (size_t \<Rightarrow> size_t option parse) \<Rightarrow> 'a \<Rightarrow> size_t parse" where
  "table_add get upd grow x = do {
     tb \<leftarrow> gets (\<lambda>s. get (ps_tree s));
     grown \<leftarrow> (if tb_count tb = tb_capacity tb then grow (tb_capacity tb)
               else ret (Some (tb_capacity tb)));
     case grown of
       None \<Rightarrow> ret SOL_AST_NONE
     | Some capacity \<Rightarrow>
         if tb_count tb < capacity then do {
           modify (ps_tree_update (upd (table_push capacity x)));
           ret (tb_count tb)
         }
         else do { sol_trap BAD_ACCESS; ret SOL_AST_NONE }
   }"

text \<open>A read and an update of the entry at an index.\<close>

definition table_read :: "'a table_get \<Rightarrow> 'a \<Rightarrow> size_t \<Rightarrow> 'a parse" where
  "table_read get d index = do {
     tb \<leftarrow> gets (\<lambda>s. get (ps_tree s));
     if index < length (tb_memory tb) then ret (tb_memory tb ! index)
     else do { sol_trap BAD_ACCESS; ret d }
   }"

definition table_write ::
  "'a table_get \<Rightarrow> 'a table_upd \<Rightarrow> size_t \<Rightarrow> ('a \<Rightarrow> 'a) \<Rightarrow> unit parse" where
  "table_write get upd index f = do {
     tb \<leftarrow> gets (\<lambda>s. get (ps_tree s));
     if index < length (tb_memory tb) then
       modify (ps_tree_update (upd (\<lambda>tb. tb\<lparr>tb_memory := (tb_memory tb)[index := f (tb_memory tb ! index)]\<rparr>)))
     else sol_trap BAD_ACCESS
   }"

definition sol_parser_add_item :: "SolSyntaxItem \<Rightarrow> bool parse" where
  "sol_parser_add_item item = do {
     i \<leftarrow> table_add tr_items tr_items_update (\<lambda>c. parser_grow 8 c 232) item;
     ret (i \<noteq> SOL_AST_NONE)
   }"

definition sol_parser_add_import :: "SolImport \<Rightarrow> bool parse" where
  "sol_parser_add_import x = do {
     i \<leftarrow> table_add tr_imports tr_imports_update (\<lambda>c. sol_parser_grow c 16) x;
     ret (i \<noteq> SOL_AST_NONE)
   }"

definition sol_parser_add_expression :: "SolExpr \<Rightarrow> SolExprId parse" where
  "sol_parser_add_expression =
     table_add tr_expressions tr_expressions_update (\<lambda>c. sol_parser_grow c 64)"

definition sol_parser_add_statement :: "SolStatement \<Rightarrow> SolStatementId parse" where
  "sol_parser_add_statement =
     table_add tr_statements tr_statements_update (\<lambda>c. sol_parser_grow c 96)"

definition sol_parser_add_loop_invariant :: "SolLoopInvariant \<Rightarrow> SolLoopInvariantId parse" where
  "sol_parser_add_loop_invariant =
     table_add tr_loop_invariants tr_loop_invariants_update (\<lambda>c. sol_parser_grow c 32)"

definition sol_parser_add_argument :: "SolArgument \<Rightarrow> SolArgumentId parse" where
  "sol_parser_add_argument =
     table_add tr_arguments tr_arguments_update (\<lambda>c. sol_parser_grow c 40)"

definition sol_parser_add_parameter :: "SolParameter \<Rightarrow> SolParameterId parse" where
  "sol_parser_add_parameter =
     table_add tr_parameters tr_parameters_update (\<lambda>c. sol_parser_grow c 56)"

definition sol_parser_add_type :: "SolSyntaxType \<Rightarrow> SolTypeId parse" where
  "sol_parser_add_type = table_add tr_types tr_types_update (\<lambda>c. sol_parser_grow c 96)"

definition sol_parser_add_type_argument :: "SolTypeArgument \<Rightarrow> SolTypeArgumentId parse" where
  "sol_parser_add_type_argument =
     table_add tr_type_arguments tr_type_arguments_update (\<lambda>c. sol_parser_grow c 24)"

definition sol_parser_add_type_parameter :: "SolTypeParameter \<Rightarrow> SolTypeParameterId parse" where
  "sol_parser_add_type_parameter =
     table_add tr_type_parameters tr_type_parameters_update (\<lambda>c. sol_parser_grow c 48)"

definition sol_parser_add_effect_parameter ::
  "SolEffectParameter \<Rightarrow> SolEffectParameterId parse" where
  "sol_parser_add_effect_parameter =
     table_add tr_effect_parameters tr_effect_parameters_update (\<lambda>c. sol_parser_grow c 32)"

definition sol_parser_add_field :: "SolField \<Rightarrow> SolFieldId parse" where
  "sol_parser_add_field = table_add tr_fields tr_fields_update (\<lambda>c. sol_parser_grow c 48)"

definition sol_parser_add_variant :: "SolVariant \<Rightarrow> SolVariantId parse" where
  "sol_parser_add_variant =
     table_add tr_variants tr_variants_update (\<lambda>c. sol_parser_grow c 56)"

definition sol_parser_add_pattern :: "SolPattern \<Rightarrow> SolPatternId parse" where
  "sol_parser_add_pattern =
     table_add tr_patterns tr_patterns_update (\<lambda>c. sol_parser_grow c 56)"

definition sol_parser_add_pattern_binding :: "SolPatternBinding \<Rightarrow> SolPatternBindingId parse" where
  "sol_parser_add_pattern_binding =
     table_add tr_pattern_bindings tr_pattern_bindings_update (\<lambda>c. sol_parser_grow c 32)"

definition sol_parser_add_match_arm :: "SolMatchArm \<Rightarrow> SolMatchArmId parse" where
  "sol_parser_add_match_arm =
     table_add tr_match_arms tr_match_arms_update (\<lambda>c. sol_parser_grow c 48)"

definition sol_parser_add_effect :: "SolEffect \<Rightarrow> SolEffectId parse" where
  "sol_parser_add_effect = table_add tr_effects tr_effects_update (\<lambda>c. sol_parser_grow c 80)"

definition sol_parser_add_capability_member ::
  "SolCapabilityMember \<Rightarrow> SolCapabilityMemberId parse" where
  "sol_parser_add_capability_member =
     table_add tr_capability_members tr_capability_members_update (\<lambda>c. sol_parser_grow c 112)"

definition sol_parser_add_trait_method :: "SolTraitMethod \<Rightarrow> SolTraitMethodId parse" where
  "sol_parser_add_trait_method =
     table_add tr_trait_methods tr_trait_methods_update (\<lambda>c. sol_parser_grow c 104)"

definition sol_parser_add_contract_clause :: "SolContractClause \<Rightarrow> SolContractClauseId parse" where
  "sol_parser_add_contract_clause =
     table_add tr_contract_clauses tr_contract_clauses_update (\<lambda>c. sol_parser_grow c 56)"

definition sol_parser_add_contract_condition ::
  "SolContractCondition \<Rightarrow> SolContractConditionId parse" where
  "sol_parser_add_contract_condition =
     table_add tr_contract_conditions tr_contract_conditions_update (\<lambda>c. sol_parser_grow c 48)"

text \<open>
  \<open>if (first == SOL_AST_NONE) first = id; else array[latest].next = id; latest = id;\<close>, the
  step with which every list of nodes is built; \<open>link\<close> is the write of the \<open>next\<close> field.
\<close>

definition append_node ::
  "(size_t \<Rightarrow> size_t \<Rightarrow> unit parse) \<Rightarrow> size_t \<Rightarrow> size_t \<Rightarrow> size_t \<Rightarrow> (size_t \<times> size_t) parse" where
  "append_node link first latest i =
     (if first = SOL_AST_NONE then ret (i, i)
      else do { link latest i; ret (first, i) })"

text \<open>
  An entry added at the end of a list: \<open>None\<close> when there is no memory for it, else the
  first and the last entry of the list.
\<close>

definition add_to_list ::
  "('a \<Rightarrow> size_t parse) \<Rightarrow> (size_t \<Rightarrow> size_t \<Rightarrow> unit parse) \<Rightarrow> size_t \<times> size_t \<Rightarrow> 'a \<Rightarrow>
   (size_t \<times> size_t) option parse" where
  "add_to_list add link l x = do {
     i \<leftarrow> add x;
     if i = SOL_AST_NONE then ret None
     else do {
       l \<leftarrow> append_node link (fst l) (snd l) i;
       ret (Some l)
     }
   }"

definition link_argument :: "size_t \<Rightarrow> size_t \<Rightarrow> unit parse" where
  "link_argument latest i = table_write tr_arguments tr_arguments_update latest (ar_next_update (\<lambda>_. i))"

definition link_statement :: "size_t \<Rightarrow> size_t \<Rightarrow> unit parse" where
  "link_statement latest i = table_write tr_statements tr_statements_update latest (st_next_update (\<lambda>_. i))"

definition link_loop_invariant :: "size_t \<Rightarrow> size_t \<Rightarrow> unit parse" where
  "link_loop_invariant latest i =
     table_write tr_loop_invariants tr_loop_invariants_update latest (li_next_update (\<lambda>_. i))"

definition link_parameter :: "size_t \<Rightarrow> size_t \<Rightarrow> unit parse" where
  "link_parameter latest i = table_write tr_parameters tr_parameters_update latest (pa_next_update (\<lambda>_. i))"

definition link_type_argument :: "size_t \<Rightarrow> size_t \<Rightarrow> unit parse" where
  "link_type_argument latest i =
     table_write tr_type_arguments tr_type_arguments_update latest (ta_next_update (\<lambda>_. i))"

definition link_type_parameter :: "size_t \<Rightarrow> size_t \<Rightarrow> unit parse" where
  "link_type_parameter latest i =
     table_write tr_type_parameters tr_type_parameters_update latest (tp_next_update (\<lambda>_. i))"

definition link_field :: "size_t \<Rightarrow> size_t \<Rightarrow> unit parse" where
  "link_field latest i = table_write tr_fields tr_fields_update latest (fd_next_update (\<lambda>_. i))"

definition link_variant :: "size_t \<Rightarrow> size_t \<Rightarrow> unit parse" where
  "link_variant latest i = table_write tr_variants tr_variants_update latest (va_next_update (\<lambda>_. i))"

definition link_pattern_binding :: "size_t \<Rightarrow> size_t \<Rightarrow> unit parse" where
  "link_pattern_binding latest i =
     table_write tr_pattern_bindings tr_pattern_bindings_update latest (pb_next_update (\<lambda>_. i))"

definition link_match_arm :: "size_t \<Rightarrow> size_t \<Rightarrow> unit parse" where
  "link_match_arm latest i = table_write tr_match_arms tr_match_arms_update latest (ma_next_update (\<lambda>_. i))"

definition link_effect :: "size_t \<Rightarrow> size_t \<Rightarrow> unit parse" where
  "link_effect latest i = table_write tr_effects tr_effects_update latest (ef_next_update (\<lambda>_. i))"

definition link_capability_member :: "size_t \<Rightarrow> size_t \<Rightarrow> unit parse" where
  "link_capability_member latest i =
     table_write tr_capability_members tr_capability_members_update latest (cm_next_update (\<lambda>_. i))"

definition link_trait_method :: "size_t \<Rightarrow> size_t \<Rightarrow> unit parse" where
  "link_trait_method latest i =
     table_write tr_trait_methods tr_trait_methods_update latest (tm_next_update (\<lambda>_. i))"

definition link_contract_clause :: "size_t \<Rightarrow> size_t \<Rightarrow> unit parse" where
  "link_contract_clause latest i =
     table_write tr_contract_clauses tr_contract_clauses_update latest (cl_next_update (\<lambda>_. i))"

definition link_contract_condition :: "size_t \<Rightarrow> size_t \<Rightarrow> unit parse" where
  "link_contract_condition latest i =
     table_write tr_contract_conditions tr_contract_conditions_update latest (cc_next_update (\<lambda>_. i))"

text \<open>Reads of single entries; the second argument is the value of a read that traps.\<close>

definition expression_at :: "SolExprId \<Rightarrow> SolExpr parse" where
  "expression_at = table_read tr_expressions \<lparr> ex_kind = SOL_EXPR_ERROR, ex_span = no_span \<rparr>"

text \<open>\<open>id == SOL_AST_NONE ? end : expressions[id].span.end\<close>, and likewise for the start.\<close>

definition expression_end :: "SolExprId \<Rightarrow> size_t \<Rightarrow> size_t parse" where
  "expression_end i e =
     (if i = SOL_AST_NONE then ret e
      else do { x \<leftarrow> expression_at i; ret (sp_end (ex_span x)) })"

definition expression_start :: "SolExprId \<Rightarrow> size_t \<Rightarrow> size_t parse" where
  "expression_start i e =
     (if i = SOL_AST_NONE then ret e
      else do { x \<leftarrow> expression_at i; ret (sp_start (ex_span x)) })"

definition empty_type :: "SolSyntaxTypeKind \<Rightarrow> SolSyntaxType" where
  "empty_type kind =
     \<lparr> ty_kind = kind, ty_span = no_span, ty_name = no_span, ty_first_argument = SOL_AST_NONE,
       ty_return_type = SOL_AST_NONE, ty_first_effect = SOL_AST_NONE, ty_effect_tail = no_span,
       ty_has_effect_tail = False, ty_is_capability = False, ty_owner_item = 0 \<rparr>"

definition type_at :: "SolTypeId \<Rightarrow> SolSyntaxType parse" where
  "type_at = table_read tr_types (empty_type SOL_SYNTAX_TYPE_PATH)"

definition item_count :: "size_t parse" where
  "item_count = gets (\<lambda>s. tb_count (tr_items (ps_tree s)))"

text \<open>The flag that keeps \<open>{\<close> after a path from starting a record literal.\<close>

definition with_suppression :: "bool \<Rightarrow> 'a parse \<Rightarrow> 'a parse" where
  "with_suppression b m = do {
     previous \<leftarrow> gets ps_suppress_record_literal;
     modify (ps_suppress_record_literal_update (\<lambda>_. b));
     x \<leftarrow> m;
     modify (ps_suppress_record_literal_update (\<lambda>_. previous));
     ret x
   }"

section \<open>Paths\<close>

definition path_step :: "SolToken \<times> size_t \<Rightarrow> (SolToken \<times> size_t + SolToken \<times> size_t \<times> bool) parse" where
  "path_step = (\<lambda>(latest, components). do {
     dot \<leftarrow> sol_parser_match SOL_TOKEN_DOT;
     if \<not> dot then ret (Inr (latest, components, True))
     else do {
       latest \<leftarrow> sol_parser_current;
       ok \<leftarrow> sol_parser_expect SOL_TOKEN_IDENTIFIER
         (''expected a path component after '.'' @ quote);
       ret (if ok then Inl (latest, components + 1) else Inr (latest, components, False))
     }
   })"

text \<open>The span with the number of components and whether the path is complete.\<close>

definition sol_parser_path_components :: "string \<Rightarrow> (SolSpan \<times> size_t \<times> bool) option parse" where
  "sol_parser_path_components description = do {
     first \<leftarrow> sol_parser_current;
     ok \<leftarrow> sol_parser_expect SOL_TOKEN_IDENTIFIER description;
     if \<not> ok then ret None
     else do {
       (latest, components, valid) \<leftarrow> loop (first, 0, False) path_step (first, 1);
       ret (Some (span (sp_start (tk_span first)) (sp_end (tk_span latest)), components, valid))
     }
   }"

definition sol_parser_path :: "string \<Rightarrow> SolSpan option parse" where
  "sol_parser_path description = do {
     path \<leftarrow> sol_parser_path_components description;
     ret (map_option fst path)
   }"

section \<open>Lines\<close>

definition is_line_break :: "char \<Rightarrow> bool" where
  "is_line_break c \<longleftrightarrow> c = CHR 0x0A \<or> c = CHR 0x0D"

text \<open>The bytes from \<open>start\<close> up to \<open>stop\<close>, read until a line break is found.\<close>

definition sol_parser_has_line_break :: "size_t \<Rightarrow> size_t \<Rightarrow> bool parse" where
  "sol_parser_has_line_break start stop = do {
     src \<leftarrow> gets ps_source;
     if list_ex is_line_break (take (stop - start) (drop start (src_text src))) then ret True
     else do {
       when_do (start < stop \<and> src_length src < stop) (sol_trap BAD_ACCESS);
       ret False
     }
   }"

end
