(* ===== verification/Sol_ParserType.thy ===== *)
theory Sol_ParserType
  imports Sol_ParserState
begin

text \<open>
  \<open>src/src/parser.c\<close>: types, the effect clauses they may end in, and the lookahead that
  tells an explicit type argument list from a comparison. The mutually recursive
  productions are the fields of \<open>sol_parsers\<close>: a production takes the parsers it may call
  as an argument, and the recursion is closed where all of them are known.
\<close>

record sol_parsers =
  parse_expression :: "nat \<Rightarrow> SolExprId parse"
  parse_block :: "SolExprId parse"
  parse_type :: "(SolSpan \<times> SolTypeId) option parse"
  parse_pattern :: "size_t \<Rightarrow> bool \<Rightarrow> SolPatternId parse"

section \<open>Effect clauses\<close>

definition effect_name_step :: "SolToken \<Rightarrow> (bool \<times> SolSpan option) parse" where
  "effect_name_step first = do {
     is_pure \<leftarrow> sol_parser_match SOL_TOKEN_PURE;
     panic_effect \<leftarrow> and_then (\<not> is_pure) (sol_parser_match SOL_TOKEN_PANIC);
     if is_pure \<or> panic_effect then ret (is_pure, Some (tk_span first))
     else do {
       name \<leftarrow> sol_parser_path ''expected an effect name'';
       ret (False, name)
     }
   }"

text \<open>The argument \<open><path>\<close> of an effect: \<open>None\<close> on an error, else its span and its end.\<close>

definition effect_argument_step :: "size_t \<Rightarrow> (SolSpan \<times> bool \<times> size_t) option parse" where
  "effect_argument_step name_end = do {
     less \<leftarrow> sol_parser_match SOL_TOKEN_LESS;
     if \<not> less then ret (Some (no_span, False, name_end))
     else do {
       argument \<leftarrow> sol_parser_path ''expected an effect argument'';
       case argument of
         None \<Rightarrow> ret None
       | Some argument \<Rightarrow> do {
           closing \<leftarrow> sol_parser_current;
           ok \<leftarrow> sol_parser_expect SOL_TOKEN_GREATER ''expected '>' after effect argument'';
           ret (if ok then Some (argument, True, sp_end (tk_span closing)) else None)
         }
     }
   }"

definition effect_step ::
  "SolEffectOwnerKind \<Rightarrow> size_t \<Rightarrow> SolEffectId \<times> SolEffectId \<Rightarrow>
   (SolEffectId \<times> SolEffectId + SolEffectId option) parse" where
  "effect_step owner_kind owner l = do {
     kind \<leftarrow> sol_parser_kind;
     if kind = SOL_TOKEN_RIGHT_BRACE \<or> kind = SOL_TOKEN_EOF then do {
       closed \<leftarrow> sol_parser_expect SOL_TOKEN_RIGHT_BRACE ''expected '}' after effects'';
       ret (Inr (if closed then Some (fst l) else None))
     }
     else do {
       first \<leftarrow> sol_parser_current;
       (is_pure, name) \<leftarrow> effect_name_step first;
       case name of
         None \<Rightarrow> ret (Inr None)
       | Some name \<Rightarrow> do {
           argument \<leftarrow> effect_argument_step (sp_end name);
           case argument of
             None \<Rightarrow> ret (Inr None)
           | Some (argument, has_argument, stop) \<Rightarrow> do {
               added \<leftarrow> add_to_list sol_parser_add_effect link_effect l
                 \<lparr> ef_name = name, ef_argument = argument,
                   ef_span = span (sp_start (tk_span first)) stop, ef_next = SOL_AST_NONE,
                   ef_owner_kind = owner_kind, ef_owner = owner, ef_is_pure = is_pure,
                   ef_has_argument = has_argument \<rparr>;
               case added of
                 None \<Rightarrow> ret (Inr None)
               | Some l \<Rightarrow> do { sol_parser_match SOL_TOKEN_COMMA; ret (Inl l) }
             }
         }
     }
   }"

definition sol_parser_effect_clause ::
  "SolEffectOwnerKind \<Rightarrow> size_t \<Rightarrow> SolEffectId option parse" where
  "sol_parser_effect_clause owner_kind owner = do {
     ok \<leftarrow> sol_parser_expect SOL_TOKEN_LEFT_BRACE ''expected an effects block'';
     if \<not> ok then ret None
     else loop None (effect_step owner_kind owner) (SOL_AST_NONE, SOL_AST_NONE)
   }"

section \<open>Types\<close>

text \<open>
  The tail of a comma separated list after an element: leave with \<open>Some True\<close> at the
  closing token, with \<open>Some False\<close> on an error, or go on with \<open>None\<close>.
\<close>

definition list_separator :: "SolTokenKind \<Rightarrow> string \<Rightarrow> bool option parse" where
  "list_separator closing message = do {
     closed \<leftarrow> sol_parser_match closing;
     if closed then ret (Some True)
     else do {
       comma \<leftarrow> sol_parser_expect SOL_TOKEN_COMMA message;
       if \<not> comma then ret (Some False)
       else do {
         closed \<leftarrow> sol_parser_match closing;
         ret (if closed then Some True else None)
       }
     }
   }"

text \<open>The outcome of a round that ends with \<open>list_separator\<close>.\<close>

definition list_round :: "size_t \<times> size_t \<Rightarrow> bool option \<Rightarrow> size_t \<times> size_t + size_t option" where
  "list_round l tail =
     (case tail of None \<Rightarrow> Inl l | Some closed \<Rightarrow> Inr (if closed then Some (fst l) else None))"

definition type_argument_step ::
  "sol_parsers \<Rightarrow> SolTypeArgumentId \<times> SolTypeArgumentId \<Rightarrow>
   (SolTypeArgumentId \<times> SolTypeArgumentId + SolTypeArgumentId option) parse" where
  "type_argument_step P l = do {
     type \<leftarrow> parse_type P;
     case type of
       None \<Rightarrow> ret (Inr None)
     | Some (_, type) \<Rightarrow> do {
         added \<leftarrow> add_to_list sol_parser_add_type_argument link_type_argument l
           \<lparr> ta_type = type, ta_next = SOL_AST_NONE, ta_access = SOL_ACCESS_OWNED \<rparr>;
         case added of
           None \<Rightarrow> ret (Inr None)
         | Some l \<Rightarrow> do {
             tail \<leftarrow> list_separator SOL_TOKEN_GREATER ''expected ',' between generic arguments'';
             ret (list_round l tail)
           }
       }
   }"

definition sol_parser_type_arguments :: "sol_parsers \<Rightarrow> SolTypeArgumentId option parse" where
  "sol_parser_type_arguments P = do {
     less \<leftarrow> sol_parser_match SOL_TOKEN_LESS;
     if \<not> less then ret (Some SOL_AST_NONE)
     else do {
       empty \<leftarrow> sol_parser_match SOL_TOKEN_GREATER;
       if empty then do {
         greater \<leftarrow> previous_token;
         sol_parser_error ''SOL-PARSE-006'' greater ''generic argument lists cannot be empty'';
         ret None
       }
       else loop None (type_argument_step P) (SOL_AST_NONE, SOL_AST_NONE)
     }
   }"

definition parameter_access :: "SolAccessMode parse" where
  "parameter_access = do {
     borrow \<leftarrow> sol_parser_match SOL_TOKEN_BORROW;
     if borrow then ret SOL_ACCESS_SHARED
     else do {
       inout \<leftarrow> sol_parser_match SOL_TOKEN_INOUT;
       ret (if inout then SOL_ACCESS_EXCLUSIVE else SOL_ACCESS_OWNED)
     }
   }"

definition function_type_step ::
  "sol_parsers \<Rightarrow> SolTypeArgumentId \<times> SolTypeArgumentId \<Rightarrow>
   (SolTypeArgumentId \<times> SolTypeArgumentId + SolTypeArgumentId option) parse" where
  "function_type_step P l = do {
     access \<leftarrow> parameter_access;
     parameter_type \<leftarrow> parse_type P;
     case parameter_type of
       None \<Rightarrow> ret (Inr None)
     | Some (_, parameter_type) \<Rightarrow> do {
         added \<leftarrow> add_to_list sol_parser_add_type_argument link_type_argument l
           \<lparr> ta_type = parameter_type, ta_next = SOL_AST_NONE, ta_access = access \<rparr>;
         case added of
           None \<Rightarrow> ret (Inr None)
         | Some l \<Rightarrow> do {
             tail \<leftarrow> list_separator SOL_TOKEN_RIGHT_PAREN
               ''expected ',' or ')' after function parameter type'';
             ret (list_round l tail)
           }
       }
   }"

text \<open>
  What the branches of \<open>sol_parser_type\<close> leave in its local variables; the span is filled
  in at the end.
\<close>

definition function_type_parameters :: "sol_parsers \<Rightarrow> SolTypeArgumentId option parse" where
  "function_type_parameters P = do {
     closed \<leftarrow> sol_parser_match SOL_TOKEN_RIGHT_PAREN;
     if closed then ret (Some SOL_AST_NONE)
     else loop None (function_type_step P) (SOL_AST_NONE, SOL_AST_NONE)
   }"

text \<open>The effects of a function type: a first effect, or the name of an open tail.\<close>

definition function_type_effects :: "SolTypeId \<Rightarrow> (SolEffectId \<times> SolSpan \<times> bool) option parse" where
  "function_type_effects reserved = do {
     kind \<leftarrow> sol_parser_kind;
     if kind = SOL_TOKEN_IDENTIFIER then do {
       tail \<leftarrow> sol_parser_advance;
       ret (Some (SOL_AST_NONE, tk_span tail, True))
     }
     else do {
       effects \<leftarrow> sol_parser_effect_clause SOL_EFFECT_OWNER_TYPE reserved;
       ret (map_option (\<lambda>first_effect. (first_effect, no_span, False)) effects)
     }
   }"

definition function_type_result ::
  "sol_parsers \<Rightarrow> SolTypeId \<Rightarrow> (SolTypeId \<times> SolEffectId \<times> SolSpan \<times> bool) option parse" where
  "function_type_result P reserved = do {
     arrow \<leftarrow> sol_parser_expect SOL_TOKEN_ARROW ''expected '->' after function parameter types'';
     if \<not> arrow then ret None
     else do {
       type \<leftarrow> parse_type P;
       case type of
         None \<Rightarrow> ret None
       | Some (_, return_type) \<Rightarrow> do {
           effects \<leftarrow> sol_parser_expect SOL_TOKEN_EFFECTS
             ''expected 'effects' after function return type'';
           if \<not> effects then ret None
           else do {
             row \<leftarrow> function_type_effects reserved;
             ret (map_option (\<lambda>row. (return_type, row)) row)
           }
         }
     }
   }"

text \<open>
  From \<open>function\<close> on; the chain \<open>parsed = parsed && ...\<close> skips everything after the first
  failure. The result is the reserved entry with the type that will replace it.
\<close>

definition function_type :: "sol_parsers \<Rightarrow> (SolTypeId \<times> SolSyntaxType) option parse" where
  "function_type P = do {
     sol_parser_advance;
     reserved \<leftarrow> sol_parser_add_type (empty_type SOL_SYNTAX_TYPE_FUNCTION);
     if reserved = SOL_AST_NONE then ret None
     else do {
       paren \<leftarrow> sol_parser_expect SOL_TOKEN_LEFT_PAREN
         ''expected '(' after 'function' in function type'';
       if \<not> paren then ret None
       else do {
         parameters \<leftarrow> function_type_parameters P;
         case parameters of
           None \<Rightarrow> ret None
         | Some first_argument \<Rightarrow> do {
             rest \<leftarrow> function_type_result P reserved;
             ret (map_option (\<lambda>(return_type, first_effect, effect_tail, has_effect_tail).
               (reserved, (empty_type SOL_SYNTAX_TYPE_FUNCTION)
                 \<lparr>ty_first_argument := first_argument, ty_return_type := return_type,
                  ty_first_effect := first_effect, ty_effect_tail := effect_tail,
                  ty_has_effect_tail := has_effect_tail\<rparr>)) rest)
           }
       }
     }
   }"

definition reject_named_element :: "unit parse" where
  "reject_named_element = do {
     kind \<leftarrow> sol_parser_kind;
     next \<leftarrow> sol_parser_peek_kind 1;
     when_do (kind = SOL_TOKEN_IDENTIFIER \<and> next = SOL_TOKEN_COLON) (do {
       t \<leftarrow> sol_parser_current;
       sol_parser_error ''SOL-PARSE-024'' t ''tuple type elements cannot be named'';
       sol_parser_advance;
       sol_parser_advance;
       ret ()
     })
   }"

definition tuple_type_step ::
  "sol_parsers \<Rightarrow> SolTypeArgumentId \<times> size_t \<Rightarrow> (SolTypeArgumentId \<times> size_t + bool) parse" where
  "tuple_type_step P = (\<lambda>(last_argument, arity). do {
     reject_named_element;
     element \<leftarrow> parse_type P;
     case element of
       None \<Rightarrow> ret (Inr False)
     | Some (_, element) \<Rightarrow> do {
         argument \<leftarrow> sol_parser_add_type_argument
           \<lparr> ta_type = element, ta_next = SOL_AST_NONE, ta_access = SOL_ACCESS_OWNED \<rparr>;
         if argument = SOL_AST_NONE then ret (Inr False)
         else do {
           link_type_argument last_argument argument;
           when_do (arity + 1 = 17) (do {
             t \<leftarrow> sol_parser_current;
             sol_parser_error ''SOL-PARSE-024'' t
               ''tuple types cannot contain more than 16 elements''
           });
           tail \<leftarrow> list_separator SOL_TOKEN_RIGHT_PAREN
             ''expected ',' between tuple type elements'';
           ret (case tail of None \<Rightarrow> Inl (argument, arity + 1) | Some closed \<Rightarrow> Inr closed)
         }
       }
   })"

text \<open>The rest of a tuple type once its first element is parsed: its first argument.\<close>

definition tuple_type :: "sol_parsers \<Rightarrow> SolTypeId \<Rightarrow> SolTypeArgumentId option parse" where
  "tuple_type P element = do {
     first_argument \<leftarrow> sol_parser_add_type_argument
       \<lparr> ta_type = element, ta_next = SOL_AST_NONE, ta_access = SOL_ACCESS_OWNED \<rparr>;
     if first_argument = SOL_AST_NONE then ret None
     else do {
       comma \<leftarrow> sol_parser_expect SOL_TOKEN_COMMA ''expected ',' or ')' after tuple type element'';
       if \<not> comma then ret None
       else do {
         closed \<leftarrow> sol_parser_match SOL_TOKEN_RIGHT_PAREN;
         if closed then do {
           t \<leftarrow> previous_token;
           sol_parser_error ''SOL-PARSE-024'' t ''single-element tuple types are reserved'';
           ret (Some first_argument)
         }
         else do {
           parsed \<leftarrow> loop False (tuple_type_step P) (first_argument, 1);
           ret (if parsed then Some first_argument else None)
         }
       }
     }
   }"

text \<open>
  \<open>Inl\<close> is the return of a parenthesized type, \<open>Inr\<close> the type built so far, if it parsed.
\<close>

definition parenthesized_type ::
  "sol_parsers \<Rightarrow> SolToken \<Rightarrow> (SolSpan \<times> SolTypeId + SolSyntaxType option) parse" where
  "parenthesized_type P first = do {
     unit_type \<leftarrow> sol_parser_match SOL_TOKEN_RIGHT_PAREN;
     if unit_type then ret (Inr (Some (empty_type SOL_SYNTAX_TYPE_UNIT)))
     else do {
       reject_named_element;
       element \<leftarrow> parse_type P;
       case element of
         None \<Rightarrow> ret (Inr None)
       | Some (_, i) \<Rightarrow> do {
           closed \<leftarrow> sol_parser_match SOL_TOKEN_RIGHT_PAREN;
           if closed then do {
             closing \<leftarrow> previous_token;
             ret (Inl (span (sp_start (tk_span first)) (sp_end (tk_span closing)), i))
           }
           else do {
             arguments \<leftarrow> tuple_type P i;
             ret (Inr (map_option (\<lambda>first_argument. (empty_type SOL_SYNTAX_TYPE_TUPLE)
               \<lparr>ty_first_argument := first_argument\<rparr>) arguments))
           }
         }
     }
   }"

definition path_type :: "sol_parsers \<Rightarrow> SolSyntaxType option parse" where
  "path_type P = do {
     is_capability \<leftarrow> sol_parser_match SOL_TOKEN_CAPABILITY;
     name \<leftarrow> sol_parser_path ''expected a type name'';
     case name of
       None \<Rightarrow> ret None
     | Some name \<Rightarrow> do {
         arguments \<leftarrow> sol_parser_type_arguments P;
         ret (map_option (\<lambda>first_argument. (empty_type SOL_SYNTAX_TYPE_PATH)
           \<lparr>ty_name := name, ty_first_argument := first_argument,
            ty_is_capability := is_capability\<rparr>) arguments)
       }
   }"

text \<open>
  The last token before the cursor that is not trivia: the loop goes back at least one
  token and stops at the first one.
\<close>

fun last_significant :: "SolToken list \<Rightarrow> size_t \<Rightarrow> size_t" where
  "last_significant ts 0 = 0"
| "last_significant ts (Suc i) =
     (if 0 < i \<and> i < length ts \<and> sol_token_is_trivia (tk_kind (ts ! i))
      then last_significant ts i else i)"

definition last_significant_token :: "SolToken parse" where
  "last_significant_token = do {
     src \<leftarrow> gets ps_source;
     ts \<leftarrow> gets ps_tokens;
     cursor \<leftarrow> gets ps_cursor;
     if 0 < cursor \<and> cursor \<le> length ts then ret (ts ! last_significant ts cursor)
     else do { sol_trap BAD_ACCESS; ret (token_at src ts cursor) }
   }"

text \<open>The end of \<open>sol_parser_type\<close>: the type with its span, stored in the reserved entry if any.\<close>

definition store_type :: "SolTypeId \<Rightarrow> SolSyntaxType \<Rightarrow> SolTypeId parse" where
  "store_type reserved type =
     (if reserved = SOL_AST_NONE then sol_parser_add_type type
      else do { table_write tr_types tr_types_update reserved (\<lambda>_. type); ret reserved })"

definition finish_type ::
  "SolToken \<Rightarrow> (SolTypeId \<times> SolSyntaxType) option \<Rightarrow> (SolSpan \<times> SolTypeId) option parse" where
  "finish_type first parsed = do {
     modify (ps_type_depth_update (\<lambda>d. d - 1));
     case parsed of
       None \<Rightarrow> ret None
     | Some (reserved, type) \<Rightarrow> do {
         latest \<leftarrow> last_significant_token;
         owner \<leftarrow> item_count;
         let type_span = span (sp_start (tk_span first)) (sp_end (tk_span latest));
         i \<leftarrow> store_type reserved (type\<lparr>ty_span := type_span, ty_owner_item := owner\<rparr>);
         ret (if i = SOL_AST_NONE then None else Some (type_span, i))
       }
   }"

definition type_nesting_limit :: size_t where
  "type_nesting_limit = 256"

definition type_body :: "sol_parsers \<Rightarrow> SolToken \<Rightarrow> (SolSpan \<times> SolTypeId) option parse" where
  "type_body P first = do {
     modify (ps_type_depth_update Suc);
     kind \<leftarrow> sol_parser_kind;
     next \<leftarrow> sol_parser_peek_kind 1;
     if kind = SOL_TOKEN_FUNCTION \<and> next = SOL_TOKEN_LEFT_PAREN then do {
       parsed \<leftarrow> function_type P;
       finish_type first parsed
     }
     else do {
       paren \<leftarrow> sol_parser_match SOL_TOKEN_LEFT_PAREN;
       if paren then do {
         r \<leftarrow> parenthesized_type P first;
         case r of
           Inl result \<Rightarrow> do {
             modify (ps_type_depth_update (\<lambda>d. d - 1));
             ret (Some result)
           }
         | Inr parsed \<Rightarrow> finish_type first (map_option (Pair SOL_AST_NONE) parsed)
       }
       else do {
         parsed \<leftarrow> path_type P;
         finish_type first (map_option (Pair SOL_AST_NONE) parsed)
       }
     }
   }"

text \<open>The out parameters \<open>*span\<close> and \<open>*type_id\<close> are the result of a type that parsed.\<close>

definition sol_parser_type :: "sol_parsers \<Rightarrow> (SolSpan \<times> SolTypeId) option parse" where
  "sol_parser_type P = do {
     first \<leftarrow> sol_parser_current;
     if tk_kind first = SOL_TOKEN_BORROW \<or> tk_kind first = SOL_TOKEN_INOUT then do {
       sol_parser_error ''SOL-PARSE-021'' first
         ''borrow and inout are allowed only as callable parameter qualifiers'';
       sol_parser_advance;
       parse_type P
     }
     else do {
       depth \<leftarrow> gets ps_type_depth;
       if depth \<ge> type_nesting_limit then do {
         t \<leftarrow> sol_parser_current;
         parser_diagnostic ''SOL-PARSE-010'' (tk_span t)
           ''type nesting exceeds the compiler limit of 256'';
         ret None
       }
       else type_body P first
     }
   }"

section \<open>Lookahead over type arguments\<close>

text \<open>
  The lookahead moves an index of its own over the tokens. A result is the outcome with
  the index after it; \<open>None\<close> stands for a loop that runs more often than there are tokens.
\<close>

type_synonym lookahead = "(bool \<times> size_t) option"

definition sol_parser_lookahead_kind :: "SolToken list \<Rightarrow> size_t \<Rightarrow> SolTokenKind \<times> size_t" where
  "sol_parser_lookahead_kind ts index =
     (let index = sol_parser_next_significant ts index in
      (if index < length ts then tk_kind (ts ! index) else SOL_TOKEN_EOF, index))"

primrec lookahead_list ::
  "nat \<Rightarrow> SolToken list \<Rightarrow> (size_t \<Rightarrow> lookahead) \<Rightarrow> SolTokenKind \<Rightarrow> size_t \<Rightarrow> lookahead" where
  "lookahead_list 0 ts element closing index = None"
| "lookahead_list (Suc n) ts element closing index =
     (case element index of
        None \<Rightarrow> None
      | Some (False, index) \<Rightarrow> Some (False, index)
      | Some (True, index) \<Rightarrow>
          let (kind, index) = sol_parser_lookahead_kind ts index in
          if kind = closing then Some (True, index + 1)
          else if kind \<noteq> SOL_TOKEN_COMMA then Some (False, index)
          else
            let (kind, index) = sol_parser_lookahead_kind ts (index + 1) in
            if kind = closing then Some (True, index + 1)
            else lookahead_list n ts element closing index)"

definition sol_parser_lookahead_type_list ::
  "SolToken list \<Rightarrow> (size_t \<Rightarrow> lookahead) \<Rightarrow> SolTokenKind \<Rightarrow> size_t \<Rightarrow> lookahead" where
  "sol_parser_lookahead_type_list ts element closing index =
     (let (kind, index) = sol_parser_lookahead_kind ts index in
      if kind = closing then Some (True, index + 1)
      else lookahead_list (Suc (length ts - index)) ts element closing index)"

primrec lookahead_braces :: "nat \<Rightarrow> SolToken list \<Rightarrow> size_t \<Rightarrow> size_t \<Rightarrow> lookahead" where
  "lookahead_braces 0 ts braces index = None"
| "lookahead_braces (Suc n) ts braces index =
     (let (kind, index) = sol_parser_lookahead_kind ts index in
      if kind = SOL_TOKEN_EOF then Some (False, index)
      else
        let braces = (if kind = SOL_TOKEN_LEFT_BRACE then braces + 1 else braces);
            braces = (if kind = SOL_TOKEN_RIGHT_BRACE then braces - 1 else braces) in
        if braces = 0 then Some (True, index + 1)
        else lookahead_braces n ts braces (index + 1))"

primrec lookahead_path :: "nat \<Rightarrow> SolToken list \<Rightarrow> size_t \<Rightarrow> lookahead" where
  "lookahead_path 0 ts index = None"
| "lookahead_path (Suc n) ts index =
     (let (kind, index) = sol_parser_lookahead_kind ts index in
      if kind \<noteq> SOL_TOKEN_DOT then Some (True, index)
      else
        let (kind, index) = sol_parser_lookahead_kind ts (index + 1) in
        if kind \<noteq> SOL_TOKEN_IDENTIFIER then Some (False, index)
        else lookahead_path n ts (index + 1))"

text \<open>The branch of \<open>sol_parser_lookahead_type\<close> for \<open>function\<close>, from the token after it.\<close>

definition lookahead_function_type ::
  "SolToken list \<Rightarrow> (size_t \<Rightarrow> lookahead) \<Rightarrow> size_t \<Rightarrow> lookahead" where
  "lookahead_function_type ts element index =
     (let (kind, index) = sol_parser_lookahead_kind ts index in
      if kind \<noteq> SOL_TOKEN_LEFT_PAREN then Some (False, index)
      else case sol_parser_lookahead_type_list ts element SOL_TOKEN_RIGHT_PAREN (index + 1) of
        None \<Rightarrow> None
      | Some (False, index) \<Rightarrow> Some (False, index)
      | Some (True, index) \<Rightarrow>
          let (kind, index) = sol_parser_lookahead_kind ts index in
          if kind \<noteq> SOL_TOKEN_ARROW then Some (False, index)
          else case element (index + 1) of
            None \<Rightarrow> None
          | Some (False, index) \<Rightarrow> Some (False, index)
          | Some (True, index) \<Rightarrow>
              let (kind, index) = sol_parser_lookahead_kind ts index in
              if kind \<noteq> SOL_TOKEN_EFFECTS then Some (False, index)
              else
                let (kind, index) = sol_parser_lookahead_kind ts (index + 1) in
                if kind = SOL_TOKEN_IDENTIFIER then Some (True, index + 1)
                else if kind \<noteq> SOL_TOKEN_LEFT_BRACE then Some (False, index)
                else lookahead_braces (Suc (length ts - index)) ts 0 index)"

definition lookahead_path_type ::
  "SolToken list \<Rightarrow> (size_t \<Rightarrow> lookahead) \<Rightarrow> SolTokenKind \<Rightarrow> size_t \<Rightarrow> lookahead" where
  "lookahead_path_type ts element kind index =
     (let (kind, index) = (if kind = SOL_TOKEN_CAPABILITY
        then sol_parser_lookahead_kind ts (index + 1) else (kind, index)) in
      if kind \<noteq> SOL_TOKEN_IDENTIFIER then Some (False, index)
      else case lookahead_path (Suc (length ts - index)) ts (index + 1) of
        None \<Rightarrow> None
      | Some (False, index) \<Rightarrow> Some (False, index)
      | Some (True, index) \<Rightarrow>
          let (kind, index) = sol_parser_lookahead_kind ts index in
          if kind = SOL_TOKEN_LESS
          then sol_parser_lookahead_type_list ts element SOL_TOKEN_GREATER (index + 1)
          else Some (True, index))"

text \<open>
  The C function counts \<open>depth\<close> up and gives up at 256; the first argument here is what is
  left of that allowance, and every nested call has one less.
\<close>

primrec lookahead_type :: "nat \<Rightarrow> SolToken list \<Rightarrow> size_t \<Rightarrow> lookahead" where
  "lookahead_type 0 ts index = Some (False, index)"
| "lookahead_type (Suc left) ts index =
     (let (kind, index) = sol_parser_lookahead_kind ts index in
      if kind = SOL_TOKEN_BORROW \<or> kind = SOL_TOKEN_INOUT then lookahead_type left ts (index + 1)
      else if kind = SOL_TOKEN_FUNCTION
      then lookahead_function_type ts (lookahead_type left ts) (index + 1)
      else if kind = SOL_TOKEN_LEFT_PAREN then
        (let (kind, index) = sol_parser_lookahead_kind ts (index + 1) in
         if kind \<noteq> SOL_TOKEN_RIGHT_PAREN then Some (False, index) else Some (True, index + 1))
      else lookahead_path_type ts (lookahead_type left ts) kind index)"

definition sol_parser_lookahead_type :: "SolToken list \<Rightarrow> size_t \<Rightarrow> size_t \<Rightarrow> lookahead" where
  "sol_parser_lookahead_type ts index depth = lookahead_type (type_nesting_limit - depth) ts index"

datatype SolTypeLookaheadKind =
    SOL_TYPE_LOOKAHEAD_NONE | SOL_TYPE_LOOKAHEAD_VALID | SOL_TYPE_LOOKAHEAD_MALFORMED

record SolTypeLookahead =
  la_kind :: SolTypeLookaheadKind
  la_closing :: size_t

abbreviation no_lookahead :: SolTypeLookahead where
  "no_lookahead \<equiv> \<lparr> la_kind = SOL_TYPE_LOOKAHEAD_NONE, la_closing = 0 \<rparr>"

abbreviation malformed_lookahead :: SolTypeLookahead where
  "malformed_lookahead \<equiv> \<lparr> la_kind = SOL_TYPE_LOOKAHEAD_MALFORMED, la_closing = 0 \<rparr>"

primrec lookahead_arguments :: "nat \<Rightarrow> SolToken list \<Rightarrow> size_t \<Rightarrow> SolTypeLookahead option" where
  "lookahead_arguments 0 ts index = None"
| "lookahead_arguments (Suc n) ts index =
     (let (kind, index) = sol_parser_lookahead_kind ts index in
      if kind = SOL_TOKEN_GREATER then
        (let (next, _) = sol_parser_lookahead_kind ts (index + 1) in
         if next = SOL_TOKEN_LEFT_PAREN \<or> next = SOL_TOKEN_DOT \<or> next = SOL_TOKEN_LEFT_BRACE
         then Some \<lparr> la_kind = SOL_TYPE_LOOKAHEAD_VALID, la_closing = index \<rparr>
         else Some no_lookahead)
      else if kind = SOL_TOKEN_COMMA then
        (let (next, index) = sol_parser_lookahead_kind ts (index + 1) in
         if next = SOL_TOKEN_GREATER then lookahead_arguments n ts index
         else case sol_parser_lookahead_type ts index 0 of
           None \<Rightarrow> None
         | Some (False, _) \<Rightarrow> Some malformed_lookahead
         | Some (True, index) \<Rightarrow> lookahead_arguments n ts index)
      else if kind = SOL_TOKEN_LEFT_PAREN then Some malformed_lookahead
      else Some no_lookahead)"

definition sol_parser_expression_type_arguments :: "SolTypeLookahead parse" where
  "sol_parser_expression_type_arguments = do {
     ts \<leftarrow> gets ps_tokens;
     cursor \<leftarrow> gets ps_cursor;
     let (kind, index) = sol_parser_lookahead_kind ts cursor;
     if kind \<noteq> SOL_TOKEN_LESS then ret no_lookahead
     else case sol_parser_lookahead_type ts (index + 1) 0 of
       None \<Rightarrow> do { sol_trap OUT_OF_FUEL; ret no_lookahead }
     | Some (False, _) \<Rightarrow> ret no_lookahead
     | Some (True, index) \<Rightarrow>
         (case lookahead_arguments (Suc (length ts)) ts index of
            None \<Rightarrow> do { sol_trap OUT_OF_FUEL; ret no_lookahead }
          | Some result \<Rightarrow> ret result)
   }"

definition recover_type_arguments_step :: "size_t \<Rightarrow> (size_t + unit) parse" where
  "recover_type_arguments_step depth = do {
     kind \<leftarrow> sol_parser_kind;
     if kind = SOL_TOKEN_EOF then ret (Inr ())
     else if kind = SOL_TOKEN_LESS then do { sol_parser_advance; ret (Inl (depth + 1)) }
     else if kind = SOL_TOKEN_GREATER then
       (if depth = 0 then do { sol_parser_advance; ret (Inr ()) }
        else do { sol_parser_advance; ret (Inl (depth - 1)) })
     else if (kind = SOL_TOKEN_LEFT_PAREN \<or> kind = SOL_TOKEN_RIGHT_BRACE) \<and> depth = 0
     then ret (Inr ())
     else do { sol_parser_advance; ret (Inl depth) }
   }"

definition sol_parser_recover_expression_type_arguments :: "unit parse" where
  "sol_parser_recover_expression_type_arguments = do {
     sol_parser_match SOL_TOKEN_LESS;
     loop () recover_type_arguments_step 0
   }"

end
