(* ===== verification/Sol_ParserExpr.thy ===== *)
theory Sol_ParserExpr
  imports Sol_ParserType
begin

text \<open>
  \<open>src/src/parser.c\<close>: patterns, expressions by precedence climbing, statements and
  blocks. The recursion of the four mutually recursive productions is closed at the end by
  \<open>sol_parsers_upto\<close>, whose argument bounds the depth of the calls.
\<close>

section \<open>Arguments\<close>

definition sol_parser_nested_expression :: "sol_parsers \<Rightarrow> nat \<Rightarrow> SolExprId parse" where
  "sol_parser_nested_expression P minimum_precedence =
     with_suppression False (parse_expression P minimum_precedence)"

definition sol_parser_binary_precedence :: "SolTokenKind \<Rightarrow> nat" where
  "sol_parser_binary_precedence kind =
     (if kind = SOL_TOKEN_PIPE_PIPE then 1
      else if kind = SOL_TOKEN_AMP_AMP then 2
      else if kind = SOL_TOKEN_EQUAL_EQUAL \<or> kind = SOL_TOKEN_BANG_EQUAL then 3
      else if kind = SOL_TOKEN_LESS \<or> kind = SOL_TOKEN_LESS_EQUAL
        \<or> kind = SOL_TOKEN_GREATER \<or> kind = SOL_TOKEN_GREATER_EQUAL then 4
      else if kind = SOL_TOKEN_PLUS \<or> kind = SOL_TOKEN_MINUS then 5
      else if kind = SOL_TOKEN_STAR \<or> kind = SOL_TOKEN_SLASH \<or> kind = SOL_TOKEN_PERCENT then 6
      else 0)"

record SolParsedArguments =
  pr_first :: SolArgumentId
  pr_closing :: SolToken
  pr_closed :: bool

definition closed_arguments :: "SolArgumentId \<Rightarrow> SolParsedArguments parse" where
  "closed_arguments first = do {
     closing \<leftarrow> previous_token;
     ret \<lparr> pr_first = first, pr_closing = closing, pr_closed = True \<rparr>
   }"

definition unclosed_arguments :: "SolArgumentId \<Rightarrow> SolParsedArguments parse" where
  "unclosed_arguments first = do {
     closing \<leftarrow> sol_parser_current;
     ret \<lparr> pr_first = first, pr_closing = closing, pr_closed = False \<rparr>
   }"

text \<open>The end of a round of an argument loop, from the test for the closing token on.\<close>

definition argument_tail ::
  "SolTokenKind \<Rightarrow> string \<Rightarrow> SolArgumentId \<times> SolArgumentId \<Rightarrow>
   (SolArgumentId \<times> SolArgumentId + SolParsedArguments) parse" where
  "argument_tail closing message l = do {
     tail \<leftarrow> list_separator closing message;
     case tail of
       None \<Rightarrow> ret (Inl l)
     | Some closed \<Rightarrow> do {
         r \<leftarrow> (if closed then closed_arguments (fst l) else unclosed_arguments (fst l));
         ret (Inr r)
       }
   }"

text \<open>\<open>name =\<close> before an argument: its span and whether it is there.\<close>

definition argument_name :: "(SolSpan \<times> bool) parse" where
  "argument_name = do {
     kind \<leftarrow> sol_parser_kind;
     next \<leftarrow> sol_parser_peek_kind 1;
     if kind = SOL_TOKEN_IDENTIFIER \<and> next = SOL_TOKEN_EQUAL then do {
       name \<leftarrow> sol_parser_advance;
       sol_parser_advance;
       ret (tk_span name, True)
     }
     else ret (no_span, False)
   }"

definition argument_step ::
  "sol_parsers \<Rightarrow> SolTokenKind \<Rightarrow> SolArgumentId \<times> SolArgumentId \<Rightarrow>
   (SolArgumentId \<times> SolArgumentId + SolParsedArguments) parse" where
  "argument_step P closing l = do {
     (name, is_named) \<leftarrow> argument_name;
     value \<leftarrow> sol_parser_nested_expression P 1;
     added \<leftarrow> add_to_list sol_parser_add_argument link_argument l
       \<lparr> ar_name = name, ar_value = value, ar_next = SOL_AST_NONE, ar_is_named = is_named \<rparr>;
     case added of
       None \<Rightarrow> do { r \<leftarrow> unclosed_arguments (fst l); ret (Inr r) }
     | Some l \<Rightarrow> argument_tail closing ''expected ',' between arguments'' l
   }"

definition sol_parser_argument_list :: "sol_parsers \<Rightarrow> SolTokenKind \<Rightarrow> SolParsedArguments parse" where
  "sol_parser_argument_list P closing = do {
     empty \<leftarrow> sol_parser_match closing;
     if empty then closed_arguments SOL_AST_NONE
     else do {
       t \<leftarrow> sol_parser_current;
       loop \<lparr> pr_first = SOL_AST_NONE, pr_closing = t, pr_closed = False \<rparr>
         (argument_step P closing) (SOL_AST_NONE, SOL_AST_NONE)
     }
   }"

definition record_field_value :: "sol_parsers \<Rightarrow> SolToken \<Rightarrow> SolExprId parse" where
  "record_field_value P field = do {
     equal \<leftarrow> sol_parser_match SOL_TOKEN_EQUAL;
     if equal then sol_parser_nested_expression P 1
     else sol_parser_add_expression
       \<lparr> ex_kind = SOL_EXPR_PATH (tk_span field), ex_span = tk_span field \<rparr>
   }"

definition record_field_step ::
  "sol_parsers \<Rightarrow> SolArgumentId \<times> SolArgumentId \<Rightarrow>
   (SolArgumentId \<times> SolArgumentId + SolParsedArguments) parse" where
  "record_field_step P l = do {
     field \<leftarrow> sol_parser_current;
     ok \<leftarrow> sol_parser_expect SOL_TOKEN_IDENTIFIER ''expected a record field name'';
     if \<not> ok then do { r \<leftarrow> unclosed_arguments (fst l); ret (Inr r) }
     else do {
       value \<leftarrow> record_field_value P field;
       added \<leftarrow> add_to_list sol_parser_add_argument link_argument l
         \<lparr> ar_name = tk_span field, ar_value = value, ar_next = SOL_AST_NONE,
           ar_is_named = True \<rparr>;
       case added of
         None \<Rightarrow> do { r \<leftarrow> unclosed_arguments (fst l); ret (Inr r) }
       | Some l \<Rightarrow> argument_tail SOL_TOKEN_RIGHT_BRACE ''expected ',' between record fields'' l
     }
   }"

definition sol_parser_record_fields :: "sol_parsers \<Rightarrow> SolParsedArguments parse" where
  "sol_parser_record_fields P = do {
     empty \<leftarrow> sol_parser_match SOL_TOKEN_RIGHT_BRACE;
     if empty then closed_arguments SOL_AST_NONE
     else do {
       t \<leftarrow> sol_parser_current;
       loop \<lparr> pr_first = SOL_AST_NONE, pr_closing = t, pr_closed = False \<rparr>
         (record_field_step P) (SOL_AST_NONE, SOL_AST_NONE)
     }
   }"

section \<open>Patterns\<close>

definition make_pattern ::
  "SolPatternKind \<Rightarrow> SolSpan \<Rightarrow> SolSpan \<Rightarrow> SolPatternBindingId \<Rightarrow> SolPattern" where
  "make_pattern kind sp name first_binding =
     \<lparr> pt_kind = kind, pt_span = sp, pt_name = name, pt_first_binding = first_binding,
       pt_bool_value = False \<rparr>"

text \<open>\<open>None\<close> is the failure of \<open>sol_parser_pattern_child\<close>, else the updated list.\<close>

definition sol_parser_pattern_child ::
  "SolPatternBindingId \<times> SolPatternBindingId \<Rightarrow> SolPatternId \<Rightarrow> SolSpan \<Rightarrow>
   (SolPatternBindingId \<times> SolPatternBindingId) option parse" where
  "sol_parser_pattern_child l pattern field =
     (if pattern = SOL_AST_NONE then ret None
      else add_to_list sol_parser_add_pattern_binding link_pattern_binding l
        \<lparr> pb_pattern = pattern, pb_field = field, pb_next = SOL_AST_NONE \<rparr>)"

text \<open>
  The loops of tuple and positional patterns: elements up to the closing parenthesis. The
  result is the first element and the number of elements, or \<open>None\<close> on an error.
\<close>

definition pattern_list_step ::
  "sol_parsers \<Rightarrow> size_t \<Rightarrow> string \<Rightarrow> (SolPatternBindingId \<times> SolPatternBindingId) \<times> size_t \<Rightarrow>
   ((SolPatternBindingId \<times> SolPatternBindingId) \<times> size_t +
    (SolPatternBindingId \<times> size_t) option) parse" where
  "pattern_list_step P depth message = (\<lambda>(l, count). do {
     element \<leftarrow> parse_pattern P (depth + 1) True;
     child \<leftarrow> sol_parser_pattern_child l element no_span;
     case child of
       None \<Rightarrow> ret (Inr None)
     | Some l \<Rightarrow> do {
         tail \<leftarrow> list_separator SOL_TOKEN_RIGHT_PAREN message;
         ret (case tail of None \<Rightarrow> Inl (l, count + 1)
              | Some closed \<Rightarrow> Inr (if closed then Some (fst l, count + 1) else None))
       }
   })"

definition tuple_pattern :: "sol_parsers \<Rightarrow> size_t \<Rightarrow> SolPatternId parse" where
  "tuple_pattern P depth = do {
     opening \<leftarrow> sol_parser_advance;
     kind \<leftarrow> sol_parser_kind;
     if kind = SOL_TOKEN_RIGHT_PAREN then do {
       t \<leftarrow> sol_parser_current;
       sol_parser_error ''SOL-PARSE-016'' t ''unit is not a pattern'';
       sol_parser_advance;
       ret SOL_AST_NONE
     }
     else do {
       elements \<leftarrow> loop None (pattern_list_step P depth
           ''expected ',' between tuple pattern elements'') ((SOL_AST_NONE, SOL_AST_NONE), 0);
       case elements of
         None \<Rightarrow> ret SOL_AST_NONE
       | Some (first, count) \<Rightarrow>
           if count = 1 then do {
             sol_parser_error ''SOL-PARSE-016'' opening ''singleton tuple patterns are reserved'';
             ret SOL_AST_NONE
           }
           else do {
             closing \<leftarrow> previous_token;
             if count > 16 then do {
               sol_parser_error ''SOL-PARSE-016'' opening
                 ''tuple patterns support at most 16 elements'';
               ret SOL_AST_NONE
             }
             else sol_parser_add_pattern (make_pattern SOL_PATTERN_TUPLE
               (span (sp_start (tk_span opening)) (sp_end (tk_span closing))) no_span first)
           }
     }
   }"

definition record_pattern_child :: "sol_parsers \<Rightarrow> size_t \<Rightarrow> SolToken \<Rightarrow> SolPatternId parse" where
  "record_pattern_child P depth field = do {
     equal \<leftarrow> sol_parser_match SOL_TOKEN_EQUAL;
     if equal then parse_pattern P (depth + 1) True
     else sol_parser_add_pattern
       (make_pattern SOL_PATTERN_BINDING (tk_span field) (tk_span field) SOL_AST_NONE)
   }"

definition record_pattern_step ::
  "sol_parsers \<Rightarrow> size_t \<Rightarrow> SolPatternBindingId \<times> SolPatternBindingId \<Rightarrow>
   (SolPatternBindingId \<times> SolPatternBindingId + SolPatternBindingId option) parse" where
  "record_pattern_step P depth l = do {
     closed \<leftarrow> sol_parser_match SOL_TOKEN_RIGHT_BRACE;
     if closed then ret (Inr (Some (fst l)))
     else do {
       field \<leftarrow> sol_parser_current;
       ok \<leftarrow> sol_parser_expect SOL_TOKEN_IDENTIFIER ''expected a record pattern field'';
       if \<not> ok then ret (Inr None)
       else do {
         pattern \<leftarrow> record_pattern_child P depth field;
         child \<leftarrow> sol_parser_pattern_child l pattern (tk_span field);
         case child of
           None \<Rightarrow> ret (Inr None)
         | Some l \<Rightarrow> do {
             tail \<leftarrow> list_separator SOL_TOKEN_RIGHT_BRACE
               ''expected ',' between record pattern fields'';
             ret (list_round l tail)
           }
       }
     }
   }"

definition record_pattern :: "sol_parsers \<Rightarrow> size_t \<Rightarrow> SolToken \<Rightarrow> SolPatternId parse" where
  "record_pattern P depth t = do {
     fields \<leftarrow> loop None (record_pattern_step P depth) (SOL_AST_NONE, SOL_AST_NONE);
     case fields of
       None \<Rightarrow> ret SOL_AST_NONE
     | Some first_binding \<Rightarrow> do {
         closing \<leftarrow> previous_token;
         sol_parser_add_pattern (make_pattern SOL_PATTERN_RECORD
           (span (sp_start (tk_span t)) (sp_end (tk_span closing))) (tk_span t) first_binding)
       }
   }"

text \<open>The elements in the parentheses of a variant pattern.\<close>

definition positional_elements ::
  "sol_parsers \<Rightarrow> size_t \<Rightarrow> (SolPatternBindingId \<times> size_t) option parse" where
  "positional_elements P depth = do {
     empty \<leftarrow> sol_parser_match SOL_TOKEN_RIGHT_PAREN;
     if empty then ret (Some (SOL_AST_NONE, 0))
     else loop None (pattern_list_step P depth ''expected ',' between pattern bindings'')
       ((SOL_AST_NONE, SOL_AST_NONE), 0)
   }"

definition name_pattern :: "sol_parsers \<Rightarrow> size_t \<Rightarrow> bool \<Rightarrow> SolToken \<Rightarrow> SolPatternId parse" where
  "name_pattern P depth bare_binding t = do {
     positional \<leftarrow> sol_parser_match SOL_TOKEN_LEFT_PAREN;
     if positional then do {
       elements \<leftarrow> positional_elements P depth;
       case elements of
         None \<Rightarrow> ret SOL_AST_NONE
       | Some (first_binding, _) \<Rightarrow> do {
           closing \<leftarrow> previous_token;
           sol_parser_add_pattern (make_pattern SOL_PATTERN_VARIANT
             (span (sp_start (tk_span t)) (sp_end (tk_span closing))) (tk_span t) first_binding)
         }
     }
     else sol_parser_add_pattern (make_pattern
       (if bare_binding then SOL_PATTERN_BINDING else SOL_PATTERN_VARIANT)
       (tk_span t) (tk_span t) SOL_AST_NONE)
   }"

definition identifier_pattern :: "sol_parsers \<Rightarrow> size_t \<Rightarrow> bool \<Rightarrow> SolToken \<Rightarrow> SolPatternId parse" where
  "identifier_pattern P depth bare_binding t = do {
     sol_parser_advance;
     wildcard \<leftarrow> token_text_is t ''_'';
     if wildcard then sol_parser_add_pattern
       (make_pattern SOL_PATTERN_WILDCARD (tk_span t) no_span SOL_AST_NONE)
     else do {
       brace \<leftarrow> sol_parser_match SOL_TOKEN_LEFT_BRACE;
       if brace then record_pattern P depth t else name_pattern P depth bare_binding t
     }
   }"

definition sol_parser_pattern_depth :: "sol_parsers \<Rightarrow> size_t \<Rightarrow> bool \<Rightarrow> SolPatternId parse" where
  "sol_parser_pattern_depth P depth bare_binding = do {
     t \<leftarrow> sol_parser_current;
     if depth \<ge> 64 then do {
       sol_parser_error ''SOL-PARSE-016'' t ''pattern nesting is too deep'';
       ret SOL_AST_NONE
     }
     else if tk_kind t = SOL_TOKEN_TRUE \<or> tk_kind t = SOL_TOKEN_FALSE then do {
       sol_parser_advance;
       sol_parser_add_pattern ((make_pattern SOL_PATTERN_BOOL (tk_span t) no_span SOL_AST_NONE)
         \<lparr>pt_bool_value := (tk_kind t = SOL_TOKEN_TRUE)\<rparr>)
     }
     else if tk_kind t = SOL_TOKEN_LEFT_PAREN then tuple_pattern P depth
     else if tk_kind t \<noteq> SOL_TOKEN_IDENTIFIER then do {
       sol_parser_error ''SOL-PARSE-016'' t ''expected a match pattern'';
       (if tk_kind t \<noteq> SOL_TOKEN_EOF then do { sol_parser_advance; ret () } else ret ());
       ret SOL_AST_NONE
     }
     else identifier_pattern P depth bare_binding t
   }"

definition sol_parser_pattern :: "sol_parsers \<Rightarrow> SolPatternId parse" where
  "sol_parser_pattern P = parse_pattern P 0 False"

section \<open>Match expressions\<close>

text \<open>The rounds are bounded by the number of tokens, as in the source.\<close>

definition synchronize_arm_value :: "sol_parsers \<Rightarrow> unit parse" where
  "synchronize_arm_value P = do {
     sol_parser_advance;
     sol_parser_nested_expression P 1;
     sol_parser_match SOL_TOKEN_COMMA;
     ret ()
   }"

primrec synchronize_match_arm :: "sol_parsers \<Rightarrow> nat \<Rightarrow> size_t \<Rightarrow> size_t \<Rightarrow> unit parse" where
  "synchronize_match_arm P 0 parentheses braces = ret ()"
| "synchronize_match_arm P (Suc remaining) parentheses braces = do {
     kind \<leftarrow> sol_parser_kind;
     if kind = SOL_TOKEN_EOF then ret ()
     else if kind = SOL_TOKEN_LEFT_PAREN then do {
       sol_parser_advance;
       synchronize_match_arm P remaining (parentheses + 1) braces
     }
     else if kind = SOL_TOKEN_RIGHT_PAREN \<and> parentheses \<noteq> 0 then do {
       sol_parser_advance;
       synchronize_match_arm P remaining (parentheses - 1) braces
     }
     else if kind = SOL_TOKEN_LEFT_BRACE then do {
       sol_parser_advance;
       synchronize_match_arm P remaining parentheses (braces + 1)
     }
     else if kind = SOL_TOKEN_RIGHT_BRACE then
       (if braces = 0 then ret ()
        else do {
          sol_parser_advance;
          synchronize_match_arm P remaining parentheses (braces - 1)
        })
     else if kind = SOL_TOKEN_FAT_ARROW \<and> parentheses = 0 \<and> braces = 0
     then synchronize_arm_value P
     else if kind = SOL_TOKEN_COMMA \<and> parentheses = 0 \<and> braces = 0
     then do { sol_parser_advance; ret () }
     else do {
       sol_parser_advance;
       synchronize_match_arm P remaining parentheses braces
     }
   }"

definition sol_parser_synchronize_match_arm :: "sol_parsers \<Rightarrow> unit parse" where
  "sol_parser_synchronize_match_arm P = do {
     ts \<leftarrow> gets ps_tokens;
     synchronize_match_arm P (length ts) 0 0
   }"

text \<open>\<open>count = mark\<close>: the entries after the mark are given back.\<close>

definition truncate_to :: "size_t \<Rightarrow> 'a sol_table \<Rightarrow> 'a sol_table" where
  "truncate_to mark tb = tb\<lparr>tb_count := mark\<rparr>"

definition restart_arm ::
  "sol_parsers \<Rightarrow> size_t \<Rightarrow> size_t \<Rightarrow> size_t \<Rightarrow> unit parse" where
  "restart_arm P cursor_mark pattern_mark binding_mark = do {
     modify (ps_tree_update (\<lambda>t. tr_pattern_bindings_update (truncate_to binding_mark)
       (tr_patterns_update (truncate_to pattern_mark) t)));
     modify (ps_cursor_update (\<lambda>_. cursor_mark));
     sol_parser_synchronize_match_arm P
   }"

definition pattern_span :: "SolPatternId \<Rightarrow> SolSpan parse" where
  "pattern_span i = do {
     p \<leftarrow> table_read tr_patterns (make_pattern SOL_PATTERN_WILDCARD no_span no_span SOL_AST_NONE) i;
     ret (pt_span p)
   }"

text \<open>
  The part of an arm up to its arrow: \<open>None\<close> when the pattern is bad or the arrow is
  missing, else the pattern and the guard.
\<close>

definition arm_guard :: "sol_parsers \<Rightarrow> SolExprId parse" where
  "arm_guard P = do {
     guarded \<leftarrow> sol_parser_match SOL_TOKEN_IF;
     if guarded then parse_expression P 1 else ret SOL_AST_NONE
   }"

definition arm_head :: "sol_parsers \<Rightarrow> (SolPatternId \<times> SolExprId) option parse" where
  "arm_head P = do {
     pattern \<leftarrow> sol_parser_pattern P;
     if pattern = SOL_AST_NONE then ret None
     else do {
       guard \<leftarrow> arm_guard P;
       arrow \<leftarrow> sol_parser_expect SOL_TOKEN_FAT_ARROW ''expected '=>' after match pattern'';
       ret (if arrow then Some (pattern, guard) else None)
     }
   }"

definition arm_body ::
  "sol_parsers \<Rightarrow> SolMatchArmId \<times> SolMatchArmId \<Rightarrow> SolPatternId \<Rightarrow> SolExprId \<Rightarrow>
   (SolMatchArmId \<times> SolMatchArmId) option parse" where
  "arm_body P l pattern guard = do {
     value \<leftarrow> sol_parser_nested_expression P 1;
     sp \<leftarrow> pattern_span pattern;
     stop \<leftarrow> expression_end value (sp_end sp);
     add_to_list sol_parser_add_match_arm link_match_arm l
       \<lparr> ma_pattern = pattern, ma_guard = guard, ma_value = value,
         ma_span = span (sp_start sp) stop, ma_next = SOL_AST_NONE \<rparr>
   }"

definition match_arm_step ::
  "sol_parsers \<Rightarrow> SolMatchArmId \<times> SolMatchArmId \<Rightarrow>
   (SolMatchArmId \<times> SolMatchArmId + SolMatchArmId) parse" where
  "match_arm_step P l = do {
     kind \<leftarrow> sol_parser_kind;
     if kind = SOL_TOKEN_RIGHT_BRACE \<or> kind = SOL_TOKEN_EOF then ret (Inr (fst l))
     else do {
       cursor_mark \<leftarrow> gets ps_cursor;
       pattern_mark \<leftarrow> gets (\<lambda>s. tb_count (tr_patterns (ps_tree s)));
       binding_mark \<leftarrow> gets (\<lambda>s. tb_count (tr_pattern_bindings (ps_tree s)));
       head \<leftarrow> arm_head P;
       case head of
         None \<Rightarrow> do {
           restart_arm P cursor_mark pattern_mark binding_mark;
           ret (Inl l)
         }
       | Some (pattern, guard) \<Rightarrow> do {
           arm \<leftarrow> arm_body P l pattern guard;
           case arm of
             None \<Rightarrow> ret (Inr (fst l))
           | Some l \<Rightarrow> do { sol_parser_match SOL_TOKEN_COMMA; ret (Inl l) }
         }
     }
   }"

definition error_expression :: "SolSpan \<Rightarrow> SolExprId parse" where
  "error_expression sp = sol_parser_add_expression \<lparr> ex_kind = SOL_EXPR_ERROR, ex_span = sp \<rparr>"

definition sol_parser_match_expression :: "sol_parsers \<Rightarrow> SolExprId parse" where
  "sol_parser_match_expression P = do {
     match_token \<leftarrow> sol_parser_advance;
     scrutinee \<leftarrow> with_suppression True (parse_expression P 1);
     brace \<leftarrow> sol_parser_expect SOL_TOKEN_LEFT_BRACE ''expected '{' after match value'';
     if \<not> brace then error_expression (tk_span match_token)
     else do {
       first_arm \<leftarrow> loop SOL_AST_NONE (match_arm_step P) (SOL_AST_NONE, SOL_AST_NONE);
       closing \<leftarrow> sol_parser_current;
       sol_parser_expect SOL_TOKEN_RIGHT_BRACE ''expected '}' after match arms'';
       sol_parser_add_expression
         \<lparr> ex_kind = SOL_EXPR_MATCH scrutinee first_arm,
           ex_span = span (sp_start (tk_span match_token)) (sp_end (tk_span closing)) \<rparr>
     }
   }"

section \<open>Primary expressions\<close>

definition reject_named_tuple :: "SolSpan \<times> bool \<Rightarrow> unit parse" where
  "reject_named_tuple = (\<lambda>(name, named). when_do named
     (sol_parser_error ''SOL-PARSE-024'' \<lparr> tk_kind = SOL_TOKEN_EOF, tk_span = name \<rparr>
       ''tuple expression elements cannot be named''))"

text \<open>A round of the tuple loop; the result is the closing token, if it was found.\<close>

definition tuple_element_step ::
  "sol_parsers \<Rightarrow> SolArgumentId \<times> size_t \<Rightarrow> (SolArgumentId \<times> size_t + SolToken option) parse" where
  "tuple_element_step P = (\<lambda>(last_element, arity). do {
     (name, named) \<leftarrow> argument_name;
     reject_named_tuple (name, named);
     value \<leftarrow> sol_parser_nested_expression P 1;
     element \<leftarrow> sol_parser_add_argument
       \<lparr> ar_name = name, ar_value = value, ar_next = SOL_AST_NONE, ar_is_named = named \<rparr>;
     if element = SOL_AST_NONE then ret (Inr None)
     else do {
       link_argument last_element element;
       when_do (arity + 1 = 17) (do {
         t \<leftarrow> sol_parser_current;
         sol_parser_error ''SOL-PARSE-024'' t
           ''tuple expressions cannot contain more than 16 elements''
       });
       tail \<leftarrow> list_separator SOL_TOKEN_RIGHT_PAREN
         ''expected ',' between tuple expression elements'';
       case tail of
         None \<Rightarrow> ret (Inl (element, arity + 1))
       | Some closed \<Rightarrow>
           if closed then do { closing \<leftarrow> previous_token; ret (Inr (Some closing)) }
           else ret (Inr None)
     }
   })"

definition tuple_rest :: "sol_parsers \<Rightarrow> SolToken \<Rightarrow> SolArgumentId \<Rightarrow> SolExprId parse" where
  "tuple_rest P opening first_element = do {
     valid \<leftarrow> and_then (first_element \<noteq> SOL_AST_NONE) (sol_parser_expect SOL_TOKEN_COMMA
       ''expected ',' or ')' after tuple expression element'');
     closing \<leftarrow> sol_parser_current;
     single \<leftarrow> and_then valid (sol_parser_match SOL_TOKEN_RIGHT_PAREN);
     closing \<leftarrow>
       (if single then do {
          closing \<leftarrow> previous_token;
          sol_parser_error ''SOL-PARSE-024'' closing
            ''single-element tuple expressions are reserved'';
          ret closing
        }
        else if valid then do {
          found \<leftarrow> loop None (tuple_element_step P) (first_element, 1);
          ret (case found of None \<Rightarrow> closing | Some t \<Rightarrow> t)
        }
        else ret closing);
     sol_parser_add_expression
       \<lparr> ex_kind = SOL_EXPR_TUPLE first_element,
         ex_span = span (sp_start (tk_span opening)) (sp_end (tk_span closing)) \<rparr>
   }"

definition sol_parser_parenthesized_expression :: "sol_parsers \<Rightarrow> SolExprId parse" where
  "sol_parser_parenthesized_expression P = do {
     opening \<leftarrow> sol_parser_advance;
     empty \<leftarrow> sol_parser_match SOL_TOKEN_RIGHT_PAREN;
     if empty then do {
       closing \<leftarrow> previous_token;
       sol_parser_add_expression
         \<lparr> ex_kind = SOL_EXPR_UNIT,
           ex_span = span (sp_start (tk_span opening)) (sp_end (tk_span closing)) \<rparr>
     }
     else do {
       (name, named) \<leftarrow> argument_name;
       reject_named_tuple (name, named);
       value \<leftarrow> sol_parser_nested_expression P 1;
       closed \<leftarrow> sol_parser_match SOL_TOKEN_RIGHT_PAREN;
       if closed then ret value
       else do {
         first_element \<leftarrow> sol_parser_add_argument
           \<lparr> ar_name = name, ar_value = value, ar_next = SOL_AST_NONE, ar_is_named = named \<rparr>;
         tuple_rest P opening first_element
       }
     }
   }"

definition sol_parser_handle_expression :: "sol_parsers \<Rightarrow> SolExprId parse" where
  "sol_parser_handle_expression P = do {
     handle \<leftarrow> sol_parser_advance;
     effect_name \<leftarrow> sol_parser_path (''expected an effect name after 'handle'' @ quote);
     less \<leftarrow> sol_parser_expect SOL_TOKEN_LESS ''handled effects require an exact capability argument'';
     authority \<leftarrow> parse_expression P 5;
     greater \<leftarrow> sol_parser_expect SOL_TOKEN_GREATER ''expected '>' after handled effect authority'';
     with_token \<leftarrow> sol_parser_expect SOL_TOKEN_WITH ''expected 'with' after handled effect'';
     provider \<leftarrow> with_suppression True (parse_expression P 1);
     kind \<leftarrow> sol_parser_kind;
     when_do (kind \<noteq> SOL_TOKEN_LEFT_BRACE) (do {
       t \<leftarrow> sol_parser_current;
       sol_parser_error ''SOL-PARSE-001'' t ''expected a handler body''
     });
     body \<leftarrow> parse_block P;
     count \<leftarrow> gets (\<lambda>s. tb_count (tr_expressions (ps_tree s)));
     stop \<leftarrow> (if body < count then do { x \<leftarrow> expression_at body; ret (sp_end (ex_span x)) }
       else ret (sp_end (tk_span handle)));
     sol_parser_add_expression
       \<lparr> ex_kind = (if effect_name \<noteq> None \<and> less \<and> greater \<and> with_token
             \<and> kind = SOL_TOKEN_LEFT_BRACE
           then SOL_EXPR_HANDLE (case effect_name of None \<Rightarrow> no_span | Some n \<Rightarrow> n)
             authority provider body
           else SOL_EXPR_ERROR),
         ex_span = span (sp_start (tk_span handle)) stop \<rparr>
   }"

definition region_expression :: "SolToken \<Rightarrow> SolExprId parse" where
  "region_expression t = do {
     context \<leftarrow> gets ps_contract_context;
     (if context = SOL_PARSER_CONTRACT_NONE
      then sol_parser_error ''SOL-PARSE-011'' t
        ''a region is a statement and is not allowed in expression position''
      else sol_parser_error ''SOL-PARSE-022'' t
        ''region statements are not allowed in contract or refinement predicates'');
     sol_parser_advance;
     error_expression (tk_span t)
   }"

definition literal_expression :: "SolExprKind \<Rightarrow> SolToken \<Rightarrow> SolExprId parse" where
  "literal_expression kind t = do {
     sol_parser_advance;
     sol_parser_add_expression \<lparr> ex_kind = kind, ex_span = tk_span t \<rparr>
   }"

definition result_expression :: "SolToken \<Rightarrow> SolExprId parse" where
  "result_expression t = do {
     sol_parser_advance;
     context \<leftarrow> gets ps_contract_context;
     when_do (context \<noteq> SOL_PARSER_CONTRACT_ENSURES) (sol_parser_error ''SOL-PARSE-017'' t
       (quote @ ''result' is only available in ensures clauses''));
     sol_parser_add_expression \<lparr> ex_kind = SOL_EXPR_RESULT, ex_span = tk_span t \<rparr>
   }"

definition old_expression :: "sol_parsers \<Rightarrow> SolToken \<Rightarrow> SolExprId parse" where
  "old_expression P t = do {
     sol_parser_advance;
     context \<leftarrow> gets ps_contract_context;
     when_do (context \<noteq> SOL_PARSER_CONTRACT_ENSURES) (sol_parser_error ''SOL-PARSE-017'' t
       (quote @ ''old' is only available in ensures clauses''));
     paren \<leftarrow> sol_parser_expect SOL_TOKEN_LEFT_PAREN (''expected '(' after 'old'' @ quote);
     if \<not> paren then error_expression (tk_span t)
     else do {
       operand \<leftarrow> sol_parser_nested_expression P 1;
       closing \<leftarrow> sol_parser_current;
       sol_parser_expect SOL_TOKEN_RIGHT_PAREN ''expected ')' after old expression'';
       sol_parser_add_expression
         \<lparr> ex_kind = SOL_EXPR_OLD operand,
           ex_span = span (sp_start (tk_span t)) (sp_end (tk_span closing)) \<rparr>
     }
   }"

definition else_expression :: "sol_parsers \<Rightarrow> SolExprId parse" where
  "else_expression P = do {
     else_token \<leftarrow> sol_parser_match SOL_TOKEN_ELSE;
     if \<not> else_token then do {
       t \<leftarrow> sol_parser_current;
       sol_parser_error ''SOL-PARSE-012'' t
         ''an expression-valued 'if' requires an 'else' branch'';
       error_expression (tk_span t)
     }
     else do {
       kind \<leftarrow> sol_parser_kind;
       if kind = SOL_TOKEN_IF then sol_parser_nested_expression P 1 else parse_block P
     }
   }"

definition if_expression :: "sol_parsers \<Rightarrow> SolExprId parse" where
  "if_expression P = do {
     if_token \<leftarrow> sol_parser_advance;
     condition \<leftarrow> with_suppression True (parse_expression P 1);
     then_branch \<leftarrow> parse_block P;
     else_branch \<leftarrow> else_expression P;
     stop \<leftarrow> expression_end then_branch (sp_end (tk_span if_token));
     stop \<leftarrow> expression_end else_branch stop;
     sol_parser_add_expression
       \<lparr> ex_kind = SOL_EXPR_IF condition then_branch else_branch,
         ex_span = span (sp_start (tk_span if_token)) stop \<rparr>
   }"

definition unexpected_expression :: "SolToken \<Rightarrow> SolExprId parse" where
  "unexpected_expression t = do {
     sol_parser_error ''SOL-PARSE-011'' t ''expected an expression'';
     (if tk_kind t \<noteq> SOL_TOKEN_EOF \<and> tk_kind t \<noteq> SOL_TOKEN_RIGHT_BRACE
        \<and> tk_kind t \<noteq> SOL_TOKEN_RIGHT_PAREN \<and> tk_kind t \<noteq> SOL_TOKEN_COMMA
      then do { sol_parser_advance; ret () } else ret ());
     error_expression (tk_span t)
   }"

definition identifier_expression :: "sol_parsers \<Rightarrow> SolToken \<Rightarrow> SolExprId parse" where
  "identifier_expression P t = do {
     context \<leftarrow> gets ps_contract_context;
     is_result \<leftarrow> token_text_is t ''result'';
     is_old \<leftarrow> token_text_is t ''old'';
     if context \<noteq> SOL_PARSER_CONTRACT_NONE \<and> is_result then result_expression t
     else if context \<noteq> SOL_PARSER_CONTRACT_NONE \<and> is_old then old_expression P t
     else literal_expression (SOL_EXPR_PATH (tk_span t)) t
   }"

definition sol_parser_primary_expression :: "sol_parsers \<Rightarrow> SolExprId parse" where
  "sol_parser_primary_expression P = do {
     t \<leftarrow> sol_parser_current;
     if tk_kind t = SOL_TOKEN_REGION then region_expression t
     else if tk_kind t = SOL_TOKEN_INTEGER then literal_expression SOL_EXPR_INTEGER t
     else if tk_kind t = SOL_TOKEN_STRING then literal_expression SOL_EXPR_STRING t
     else if tk_kind t = SOL_TOKEN_TRUE \<or> tk_kind t = SOL_TOKEN_FALSE
     then literal_expression (SOL_EXPR_BOOL (tk_kind t = SOL_TOKEN_TRUE)) t
     else if tk_kind t = SOL_TOKEN_IDENTIFIER then identifier_expression P t
     else if tk_kind t = SOL_TOKEN_LEFT_BRACE then parse_block P
     else if tk_kind t = SOL_TOKEN_LEFT_PAREN then sol_parser_parenthesized_expression P
     else if tk_kind t = SOL_TOKEN_IF then if_expression P
     else if tk_kind t = SOL_TOKEN_MATCH then sol_parser_match_expression P
     else if tk_kind t = SOL_TOKEN_HANDLE then sol_parser_handle_expression P
     else unexpected_expression t
   }"

end
