(* ===== verification/Sol_ParserStmt.thy ===== *)
theory Sol_ParserStmt
  imports Sol_ParserExpr
begin

text \<open>
  \<open>src/src/parser.c\<close>: postfix, unary and binary expressions, statements and blocks, and the
  closing of the recursion. \<open>sol_parsers_upto n\<close> are the four mutually recursive
  productions with a call depth of at most \<open>n\<close>; a deeper call traps.
\<close>

section \<open>Postfix expressions\<close>

text \<open>\<open>expressions[expression].span.start\<close> with a given end, the span of every postfix node.\<close>

definition postfix_node :: "SolExprKind \<Rightarrow> SolExprId \<Rightarrow> size_t \<Rightarrow> SolExprId parse" where
  "postfix_node kind expression stop = do {
     x \<leftarrow> expression_at expression;
     sol_parser_add_expression
       \<lparr> ex_kind = kind, ex_span = span (sp_start (ex_span x)) stop \<rparr>
   }"

definition is_path_like :: "SolExprKind \<Rightarrow> bool" where
  "is_path_like kind =
     (case kind of SOL_EXPR_PATH _ \<Rightarrow> True | SOL_EXPR_FIELD _ _ \<Rightarrow> True
      | SOL_EXPR_TYPE_APPLICATION _ _ \<Rightarrow> True | _ \<Rightarrow> False)"

definition token_end_at :: "size_t \<Rightarrow> size_t parse" where
  "token_end_at index = do {
     ts \<leftarrow> gets ps_tokens;
     if index < length ts then ret (sp_end (tk_span (ts ! index)))
     else do { sol_trap BAD_ACCESS; ret 0 }
   }"

definition type_application :: "sol_parsers \<Rightarrow> SolExprId \<Rightarrow> size_t \<Rightarrow> (SolExprId + SolExprId) parse" where
  "type_application P expression closing = do {
     arguments \<leftarrow> sol_parser_type_arguments P;
     case arguments of
       None \<Rightarrow> ret (Inr expression)
     | Some first_argument \<Rightarrow> do {
         stop \<leftarrow> token_end_at closing;
         e \<leftarrow> postfix_node (SOL_EXPR_TYPE_APPLICATION expression first_argument) expression stop;
         ret (Inl e)
       }
   }"

definition malformed_type_arguments :: "SolExprId \<Rightarrow> (SolExprId + SolExprId) parse" where
  "malformed_type_arguments expression = do {
     t \<leftarrow> sol_parser_current;
     sol_parser_error ''SOL-PARSE-019'' t
       (''malformed explicit type argument list; expected ',' or '>'' @ quote);
     sol_parser_recover_expression_type_arguments;
     ret (Inl expression)
   }"

definition call_expression :: "sol_parsers \<Rightarrow> SolExprId \<Rightarrow> (SolExprId + SolExprId) parse" where
  "call_expression P expression = do {
     sol_parser_advance;
     arguments \<leftarrow> sol_parser_argument_list P SOL_TOKEN_RIGHT_PAREN;
     if \<not> pr_closed arguments then do {
       e \<leftarrow> postfix_node SOL_EXPR_ERROR expression (sp_end (tk_span (pr_closing arguments)));
       ret (Inr e)
     }
     else do {
       e \<leftarrow> postfix_node (SOL_EXPR_CALL expression (pr_first arguments)) expression
         (sp_end (tk_span (pr_closing arguments)));
       ret (Inl e)
     }
   }"

definition leading_zero :: "SolToken \<Rightarrow> bool parse" where
  "leading_zero name = do {
     src \<leftarrow> gets ps_source;
     if tk_kind name = SOL_TOKEN_INTEGER
       \<and> size_sub (sp_end (tk_span name)) (sp_start (tk_span name)) > 1 then
       (if sp_start (tk_span name) < src_length src
        then ret (src_text src ! sp_start (tk_span name) = CHR ''0'')
        else do { sol_trap BAD_ACCESS; ret False })
     else ret False
   }"

definition field_expression :: "SolExprId \<Rightarrow> (SolExprId + SolExprId) parse" where
  "field_expression expression = do {
     sol_parser_advance;
     name \<leftarrow> sol_parser_current;
     if tk_kind name \<noteq> SOL_TOKEN_IDENTIFIER \<and> tk_kind name \<noteq> SOL_TOKEN_INTEGER then do {
       sol_parser_error ''SOL-PARSE-001'' name
         (''expected a field name or tuple index after '.'' @ quote);
       ret (Inr expression)
     }
     else do {
       sol_parser_advance;
       zero \<leftarrow> leading_zero name;
       when_do zero (sol_parser_error ''SOL-PARSE-024'' name
         ''tuple projection indices cannot contain leading zeros'');
       e \<leftarrow> postfix_node (SOL_EXPR_FIELD expression (tk_span name)) expression
         (sp_end (tk_span name));
       ret (Inl e)
     }
   }"

definition record_expression :: "sol_parsers \<Rightarrow> SolExprId \<Rightarrow> (SolExprId + SolExprId) parse" where
  "record_expression P expression = do {
     sol_parser_advance;
     fields \<leftarrow> sol_parser_record_fields P;
     if \<not> pr_closed fields then do {
       e \<leftarrow> postfix_node SOL_EXPR_ERROR expression (sp_end (tk_span (pr_closing fields)));
       ret (Inr e)
     }
     else do {
       e \<leftarrow> postfix_node (SOL_EXPR_RECORD expression (pr_first fields)) expression
         (sp_end (tk_span (pr_closing fields)));
       ret (Inl e)
     }
   }"

text \<open>Whether a \<open>{\<close> at the current token would start a record literal of the expression.\<close>

definition record_brace :: "SolExpr \<Rightarrow> SolTokenKind \<Rightarrow> bool parse" where
  "record_brace x kind = do {
     suppress \<leftarrow> gets ps_suppress_record_literal;
     if kind = SOL_TOKEN_LEFT_BRACE \<and> \<not> suppress then do {
       t \<leftarrow> sol_parser_current;
       line_break \<leftarrow> sol_parser_has_line_break (sp_end (ex_span x)) (sp_start (tk_span t));
       ret (\<not> line_break)
     }
     else ret False
   }"

definition propagate_expression :: "SolExprId \<Rightarrow> (SolExprId + SolExprId) parse" where
  "propagate_expression expression = do {
     question \<leftarrow> sol_parser_advance;
     e \<leftarrow> postfix_node (SOL_EXPR_PROPAGATE expression) expression (sp_end (tk_span question));
     ret (Inl e)
   }"

definition postfix_step :: "sol_parsers \<Rightarrow> SolExprId \<Rightarrow> (SolExprId + SolExprId) parse" where
  "postfix_step P expression =
     (if expression = SOL_AST_NONE then ret (Inr expression)
      else do {
        kind \<leftarrow> sol_parser_kind;
        x \<leftarrow> expression_at expression;
        type_arguments \<leftarrow> (if kind = SOL_TOKEN_LESS \<and> is_path_like (ex_kind x)
          then sol_parser_expression_type_arguments else ret no_lookahead);
        brace \<leftarrow> record_brace x kind;
        if la_kind type_arguments = SOL_TYPE_LOOKAHEAD_VALID
        then type_application P expression (la_closing type_arguments)
        else if la_kind type_arguments = SOL_TYPE_LOOKAHEAD_MALFORMED
        then malformed_type_arguments expression
        else if kind = SOL_TOKEN_LEFT_PAREN then call_expression P expression
        else if kind = SOL_TOKEN_DOT then field_expression expression
        else if brace then
          (if is_path_like (ex_kind x) then record_expression P expression
           else ret (Inr expression))
        else if kind = SOL_TOKEN_QUESTION then propagate_expression expression
        else ret (Inr expression)
      })"

definition sol_parser_postfix_expression :: "sol_parsers \<Rightarrow> SolExprId parse" where
  "sol_parser_postfix_expression P = do {
     expression \<leftarrow> sol_parser_primary_expression P;
     loop SOL_AST_NONE (postfix_step P) expression
   }"

section \<open>Operators\<close>

definition sol_parser_unary_expression :: "sol_parsers \<Rightarrow> SolExprId parse" where
  "sol_parser_unary_expression P = do {
     operator_token \<leftarrow> sol_parser_current;
     if tk_kind operator_token \<noteq> SOL_TOKEN_BANG \<and> tk_kind operator_token \<noteq> SOL_TOKEN_MINUS
     then sol_parser_postfix_expression P
     else do {
       sol_parser_advance;
       operand \<leftarrow> parse_expression P 7;
       stop \<leftarrow> expression_end operand (sp_end (tk_span operator_token));
       sol_parser_add_expression
         \<lparr> ex_kind = SOL_EXPR_UNARY (tk_kind operator_token) operand,
           ex_span = span (sp_start (tk_span operator_token)) stop \<rparr>
     }
   }"

definition binary_step :: "sol_parsers \<Rightarrow> nat \<Rightarrow> SolExprId \<Rightarrow> (SolExprId + SolExprId) parse" where
  "binary_step P minimum_precedence left = do {
     operator_token \<leftarrow> sol_parser_current;
     let precedence = sol_parser_binary_precedence (tk_kind operator_token);
     if precedence < minimum_precedence \<or> precedence = 0 then ret (Inr left)
     else do {
       sol_parser_advance;
       right \<leftarrow> parse_expression P (precedence + 1);
       stop \<leftarrow> expression_end right (sp_end (tk_span operator_token));
       start \<leftarrow> expression_start left (sp_start (tk_span operator_token));
       e \<leftarrow> sol_parser_add_expression
         \<lparr> ex_kind = SOL_EXPR_BINARY left (tk_kind operator_token) right,
           ex_span = span start stop \<rparr>;
       ret (Inl e)
     }
   }"

definition expression_nesting_limit :: size_t where
  "expression_nesting_limit = 256"

definition sol_parser_expression :: "sol_parsers \<Rightarrow> nat \<Rightarrow> SolExprId parse" where
  "sol_parser_expression P minimum_precedence = do {
     depth \<leftarrow> gets ps_expression_depth;
     if depth \<ge> expression_nesting_limit then do {
       t \<leftarrow> sol_parser_current;
       parser_diagnostic ''SOL-PARSE-013'' (tk_span t)
         ''expression nesting exceeds the compiler limit of 256'';
       error_expression (tk_span t)
     }
     else do {
       modify (ps_expression_depth_update Suc);
       left \<leftarrow> sol_parser_unary_expression P;
       left \<leftarrow> loop SOL_AST_NONE (binary_step P minimum_precedence) left;
       modify (ps_expression_depth_update (\<lambda>d. d - 1));
       ret left
     }
   }"

section \<open>Statements\<close>

definition sol_parser_check_multiline_record :: "SolExprId \<Rightarrow> unit parse" where
  "sol_parser_check_multiline_record value =
     (if value = SOL_AST_NONE then ret ()
      else do {
        kind \<leftarrow> sol_parser_kind;
        x \<leftarrow> expression_at value;
        if kind = SOL_TOKEN_LEFT_BRACE \<and> is_path_like (ex_kind x) then do {
          t \<leftarrow> sol_parser_current;
          line_break \<leftarrow> sol_parser_has_line_break (sp_end (ex_span x)) (sp_start (tk_span t));
          when_do line_break (parser_diagnostic ''SOL-PARSE-015'' (tk_span t)
            ''a record literal's opening brace must be on the same line as its type'')
        }
        else ret ()
      })"

definition sol_parser_assignment_operator :: "SolTokenKind \<Rightarrow> bool" where
  "sol_parser_assignment_operator kind \<longleftrightarrow>
     kind = SOL_TOKEN_EQUAL \<or> kind = SOL_TOKEN_PLUS_EQUAL \<or> kind = SOL_TOKEN_MINUS_EQUAL \<or>
     kind = SOL_TOKEN_STAR_EQUAL \<or> kind = SOL_TOKEN_SLASH_EQUAL \<or> kind = SOL_TOKEN_PERCENT_EQUAL"

text \<open>
  The guard at the end of a round: \<open>if (significant_index <= before && kind != EOF) advance\<close>.
\<close>

definition ensure_progress :: "size_t \<Rightarrow> unit parse" where
  "ensure_progress start_index = do {
     index \<leftarrow> sol_parser_significant_index;
     kind \<leftarrow> sol_parser_kind;
     if index \<le> start_index \<and> kind \<noteq> SOL_TOKEN_EOF then do { sol_parser_advance; ret () } else ret ()
   }"

text \<open>What follows an invariant expression.\<close>

definition invariant_separator :: "SolSpan \<Rightarrow> size_t \<Rightarrow> unit parse" where
  "invariant_separator expression_span start_index = do {
     next \<leftarrow> sol_parser_current;
     if tk_kind next = SOL_TOKEN_RIGHT_BRACE \<or> tk_kind next = SOL_TOKEN_EOF then ret ()
     else do {
       comma \<leftarrow> sol_parser_match SOL_TOKEN_COMMA;
       if comma then do {
         kind \<leftarrow> sol_parser_kind;
         when_do (kind = SOL_TOKEN_RIGHT_BRACE) (do {
           t \<leftarrow> sol_parser_current;
           sol_parser_error ''SOL-PARSE-020'' t
             (''expected an invariant expression after ','' @ quote)
         })
       }
       else do {
         line_break \<leftarrow> sol_parser_has_line_break (sp_end expression_span) (sp_start (tk_span next));
         when_do (\<not> line_break) (sol_parser_error ''SOL-PARSE-020'' next
           ''expected a newline or ',' between invariant expressions'');
         ensure_progress start_index
       }
     }
   }"

definition invariant_expression_step ::
  "sol_parsers \<Rightarrow> SolLoopInvariantId \<times> SolLoopInvariantId \<Rightarrow>
   (SolLoopInvariantId \<times> SolLoopInvariantId + SolLoopInvariantId) parse" where
  "invariant_expression_step P l = do {
     start_index \<leftarrow> sol_parser_significant_index;
     expression \<leftarrow> with_suppression True (parse_expression P 1);
     if expression = SOL_AST_NONE then ret (Inr (fst l))
     else do {
       x \<leftarrow> expression_at expression;
       added \<leftarrow> add_to_list sol_parser_add_loop_invariant link_loop_invariant l
         \<lparr> li_expression = expression, li_span = ex_span x, li_next = SOL_AST_NONE \<rparr>;
       case added of
         None \<Rightarrow> ret (Inr (fst l))
       | Some l \<Rightarrow> do {
           invariant_separator (ex_span x) start_index;
           ret (Inl l)
         }
     }
   }"

definition loop_invariant_step ::
  "sol_parsers \<Rightarrow> SolLoopInvariantId \<times> SolLoopInvariantId \<Rightarrow>
   (SolLoopInvariantId \<times> SolLoopInvariantId + SolLoopInvariantId) parse" where
  "loop_invariant_step P l = do {
     kind \<leftarrow> sol_parser_kind;
     if kind = SOL_TOKEN_RIGHT_BRACE \<or> kind = SOL_TOKEN_EOF then ret (Inr (fst l))
     else do {
       comma \<leftarrow> sol_parser_match SOL_TOKEN_COMMA;
       if comma then do {
         t \<leftarrow> previous_token;
         sol_parser_error ''SOL-PARSE-020'' t
           (''expected an invariant expression before ','' @ quote);
         ret (Inl l)
       }
       else invariant_expression_step P l
     }
   }"

text \<open>The span of a clause \<open>keyword { ... }\<close>: up to the closing brace when it is there.\<close>

definition clause_span :: "SolToken \<Rightarrow> SolToken \<Rightarrow> SolToken \<Rightarrow> SolSpan" where
  "clause_span keyword opening closing =
     span (sp_start (tk_span keyword))
       (if tk_kind closing = SOL_TOKEN_RIGHT_BRACE then sp_end (tk_span closing)
        else sp_end (tk_span opening))"

definition sol_parser_loop_invariant_clause ::
  "sol_parsers \<Rightarrow> SolToken \<Rightarrow> (SolSpan \<times> SolLoopInvariantId) parse" where
  "sol_parser_loop_invariant_clause P keyword = do {
     opening \<leftarrow> sol_parser_current;
     ok \<leftarrow> sol_parser_expect SOL_TOKEN_LEFT_BRACE ''expected an invariant block'';
     if \<not> ok then ret (tk_span keyword, SOL_AST_NONE)
     else do {
       first \<leftarrow> loop SOL_AST_NONE (loop_invariant_step P) (SOL_AST_NONE, SOL_AST_NONE);
       closing \<leftarrow> sol_parser_current;
       when_do (first = SOL_AST_NONE) (sol_parser_error ''SOL-PARSE-020'' closing
         ''an invariant block requires at least one expression'');
       sol_parser_expect SOL_TOKEN_RIGHT_BRACE ''expected '}' after invariant expressions'';
       ret (clause_span keyword opening closing, first)
     }
   }"

definition skip_to_brace_step :: "unit \<Rightarrow> (unit + unit) parse" where
  "skip_to_brace_step l = do {
     kind \<leftarrow> sol_parser_kind;
     if kind = SOL_TOKEN_RIGHT_BRACE \<or> kind = SOL_TOKEN_EOF then ret (Inr ())
     else do { sol_parser_advance; ret (Inl ()) }
   }"

text \<open>The single expression of a \<open>decreases\<close> or \<open>because\<close> clause.\<close>

definition clause_expression :: "sol_parsers \<Rightarrow> string \<Rightarrow> string \<Rightarrow> SolExprId parse" where
  "clause_expression P code message = do {
     kind \<leftarrow> sol_parser_kind;
     if kind = SOL_TOKEN_RIGHT_BRACE then do {
       t \<leftarrow> sol_parser_current;
       sol_parser_error code t message;
       ret SOL_AST_NONE
     }
     else if kind \<noteq> SOL_TOKEN_EOF then with_suppression True (parse_expression P 1)
     else ret SOL_AST_NONE
   }"

definition sol_parser_loop_decreases_clause ::
  "sol_parsers \<Rightarrow> SolToken \<Rightarrow> (SolSpan \<times> SolExprId) parse" where
  "sol_parser_loop_decreases_clause P keyword = do {
     opening \<leftarrow> sol_parser_current;
     ok \<leftarrow> sol_parser_expect SOL_TOKEN_LEFT_BRACE ''expected a decreases block'';
     if \<not> ok then ret (tk_span keyword, SOL_AST_NONE)
     else do {
       decreases \<leftarrow> clause_expression P ''SOL-PARSE-020''
         ''a decreases block requires exactly one expression'';
       kind \<leftarrow> sol_parser_kind;
       when_do (kind \<noteq> SOL_TOKEN_RIGHT_BRACE \<and> kind \<noteq> SOL_TOKEN_EOF) (do {
         t \<leftarrow> sol_parser_current;
         sol_parser_error ''SOL-PARSE-020'' t ''a decreases block contains exactly one expression'';
         loop () skip_to_brace_step ()
       });
       closing \<leftarrow> sol_parser_current;
       sol_parser_expect SOL_TOKEN_RIGHT_BRACE ''expected '}' after decreases expression'';
       ret (clause_span keyword opening closing, decreases)
     }
   }"

definition make_statement :: "SolStatementKind \<Rightarrow> SolSpan \<Rightarrow> SolStatement" where
  "make_statement kind sp = \<lparr> st_kind = kind, st_span = sp, st_next = SOL_AST_NONE \<rparr>"

text \<open>The declared type of a \<open>var\<close>; an initializer after it is parsed and rejected.\<close>

definition typed_var :: "sol_parsers \<Rightarrow> (SolSpan \<times> SolTypeId) option parse" where
  "typed_var P = do {
     type \<leftarrow> parse_type P;
     equal \<leftarrow> sol_parser_match SOL_TOKEN_EQUAL;
     when_do equal (do {
       t \<leftarrow> sol_parser_current;
       sol_parser_error ''SOL-PARSE-001'' t ''typed 'var' declarations cannot have an initializer'';
       rejected \<leftarrow> parse_expression P 1;
       sol_parser_check_multiline_record rejected
     });
     ret type
   }"

definition initializer :: "sol_parsers \<Rightarrow> SolExprId parse" where
  "initializer P = do {
     sol_parser_expect SOL_TOKEN_EQUAL ''expected '=' after binding name'';
     value \<leftarrow> parse_expression P 1;
     sol_parser_check_multiline_record value;
     ret value
   }"

definition let_statement :: "sol_parsers \<Rightarrow> SolToken \<Rightarrow> SolStatement parse" where
  "let_statement P start = do {
     kind \<leftarrow> sol_parser_kind;
     sol_parser_advance;
     name \<leftarrow> sol_parser_current;
     sol_parser_expect SOL_TOKEN_IDENTIFIER
       (if kind = SOL_TOKEN_VAR then ''expected a binding name after 'var'' @ quote
        else ''expected a binding name after 'let'' @ quote);
     colon \<leftarrow> and_then (kind = SOL_TOKEN_VAR) (sol_parser_match SOL_TOKEN_COLON);
     if colon then do {
       type \<leftarrow> typed_var P;
       ret (case type of
           None \<Rightarrow> make_statement (SOL_STATEMENT_VAR (tk_span name) SOL_AST_NONE SOL_AST_NONE)
             (span (sp_start (tk_span start)) (sp_end (tk_span name)))
         | Some (type_span, type_id) \<Rightarrow>
             make_statement (SOL_STATEMENT_VAR (tk_span name) SOL_AST_NONE type_id)
               (span (sp_start (tk_span start)) (sp_end type_span)))
     }
     else do {
       value \<leftarrow> initializer P;
       stop \<leftarrow> expression_end value (sp_end (tk_span name));
       ret (make_statement
         (if kind = SOL_TOKEN_VAR then SOL_STATEMENT_VAR (tk_span name) value SOL_AST_NONE
          else SOL_STATEMENT_LET (tk_span name) value SOL_AST_NONE)
         (span (sp_start (tk_span start)) stop))
     }
   }"

text \<open>A statement of a keyword and an expression: \<open>panic\<close> and \<open>return\<close>.\<close>

definition keyword_statement ::
  "sol_parsers \<Rightarrow> (SolExprId \<Rightarrow> SolStatementKind) \<Rightarrow> SolToken \<Rightarrow> SolStatement parse" where
  "keyword_statement P kind start = do {
     value \<leftarrow> parse_expression P 1;
     sol_parser_check_multiline_record value;
     stop \<leftarrow> expression_end value (sp_end (tk_span start));
     ret (make_statement (kind value) (span (sp_start (tk_span start)) stop))
   }"

definition skip_braces_step :: "size_t \<Rightarrow> (size_t + unit) parse" where
  "skip_braces_step brace_depth = do {
     kind \<leftarrow> sol_parser_kind;
     if kind = SOL_TOKEN_EOF then ret (Inr ())
     else if kind = SOL_TOKEN_LEFT_BRACE then do { sol_parser_advance; ret (Inl (brace_depth + 1)) }
     else if kind = SOL_TOKEN_RIGHT_BRACE then
       (if brace_depth = 0 then ret (Inr ())
        else do { sol_parser_advance; ret (Inl (brace_depth - 1)) })
     else do { sol_parser_advance; ret (Inl brace_depth) }
   }"

definition unreachable_proof :: "sol_parsers \<Rightarrow> SolExprId parse" where
  "unreachable_proof P = do {
     ok \<leftarrow> sol_parser_expect SOL_TOKEN_LEFT_BRACE
       (''expected a proof clause after 'because'' @ quote);
     if \<not> ok then ret SOL_AST_NONE
     else do {
       proof_expression \<leftarrow> clause_expression P ''SOL-PARSE-023''
         ''an unreachable proof clause requires exactly one expression'';
       kind \<leftarrow> sol_parser_kind;
       when_do (kind \<noteq> SOL_TOKEN_RIGHT_BRACE \<and> kind \<noteq> SOL_TOKEN_EOF) (do {
         t \<leftarrow> sol_parser_current;
         sol_parser_error ''SOL-PARSE-023'' t
           ''an unreachable proof clause contains exactly one expression'';
         loop () skip_braces_step 0
       });
       ret proof_expression
     }
   }"

definition unreachable_statement :: "sol_parsers \<Rightarrow> SolToken \<Rightarrow> SolStatement parse" where
  "unreachable_statement P start = do {
     because \<leftarrow> sol_parser_current;
     sol_parser_expect SOL_TOKEN_BECAUSE (''expected 'because' after 'unreachable'' @ quote);
     opening \<leftarrow> sol_parser_current;
     proof_expression \<leftarrow> unreachable_proof P;
     closing \<leftarrow> sol_parser_current;
     sol_parser_expect SOL_TOKEN_RIGHT_BRACE ''expected '}' after unreachable proof'';
     ret (make_statement
       (SOL_STATEMENT_UNREACHABLE proof_expression (clause_span because opening closing))
       (clause_span start start closing))
   }"

definition require_statement :: "sol_parsers \<Rightarrow> SolToken \<Rightarrow> SolStatement parse" where
  "require_statement P start = do {
     condition \<leftarrow> with_suppression True (parse_expression P 1);
     sol_parser_expect SOL_TOKEN_ELSE ''expected 'else' after require condition'';
     fallback \<leftarrow> parse_block P;
     stop \<leftarrow> expression_end fallback (sp_end (tk_span start));
     ret (make_statement (SOL_STATEMENT_REQUIRE condition fallback)
       (span (sp_start (tk_span start)) stop))
   }"

definition region_statement :: "sol_parsers \<Rightarrow> SolToken \<Rightarrow> SolStatement parse" where
  "region_statement P start = do {
     label \<leftarrow> sol_parser_current;
     sol_parser_expect SOL_TOKEN_IDENTIFIER (''expected a region label after 'region'' @ quote);
     body \<leftarrow> parse_block P;
     stop \<leftarrow> expression_end body (sp_end (tk_span label));
     ret (make_statement (SOL_STATEMENT_REGION (tk_span label) body)
       (span (sp_start (tk_span start)) stop))
   }"

definition modify_statement :: "sol_parsers \<Rightarrow> SolToken \<Rightarrow> SolStatement parse" where
  "modify_statement P start = do {
     target \<leftarrow> with_suppression True (parse_expression P 1);
     body \<leftarrow> parse_block P;
     stop \<leftarrow> expression_end body (sp_end (tk_span start));
     ret (make_statement (SOL_STATEMENT_MODIFY target body)
       (span (sp_start (tk_span start)) stop))
   }"

text \<open>The clauses of a loop; a second clause of a kind is parsed but not kept.\<close>

record loop_clauses =
  lc_saw_invariant :: bool
  lc_saw_decreases :: bool
  lc_first_invariant :: SolLoopInvariantId
  lc_invariant_span :: SolSpan
  lc_decreases :: SolExprId
  lc_decreases_span :: SolSpan

definition no_clauses :: loop_clauses where
  "no_clauses =
     \<lparr> lc_saw_invariant = False, lc_saw_decreases = False, lc_first_invariant = SOL_AST_NONE,
       lc_invariant_span = no_span, lc_decreases = SOL_AST_NONE, lc_decreases_span = no_span \<rparr>"

definition invariant_clause_step ::
  "sol_parsers \<Rightarrow> SolToken \<Rightarrow> loop_clauses \<Rightarrow> loop_clauses parse" where
  "invariant_clause_step P clause lc = do {
     when_do (lc_saw_invariant lc) (sol_parser_error ''SOL-PARSE-020'' clause
       ''a loop may have at most one invariant clause'');
     when_do (lc_saw_decreases lc) (sol_parser_error ''SOL-PARSE-020'' clause
       ''invariant must precede decreases'');
     (sp, parsed) \<leftarrow> sol_parser_loop_invariant_clause P clause;
     ret (if lc_saw_invariant lc then lc
          else lc\<lparr>lc_saw_invariant := True, lc_first_invariant := parsed, lc_invariant_span := sp\<rparr>)
   }"

definition decreases_clause_step ::
  "sol_parsers \<Rightarrow> SolToken \<Rightarrow> loop_clauses \<Rightarrow> loop_clauses parse" where
  "decreases_clause_step P clause lc = do {
     when_do (lc_saw_decreases lc) (sol_parser_error ''SOL-PARSE-020'' clause
       ''a loop may have at most one decreases clause'');
     (sp, parsed) \<leftarrow> sol_parser_loop_decreases_clause P clause;
     ret (if lc_saw_decreases lc then lc
          else lc\<lparr>lc_saw_decreases := True, lc_decreases := parsed, lc_decreases_span := sp\<rparr>)
   }"

definition loop_clause_step ::
  "sol_parsers \<Rightarrow> loop_clauses \<Rightarrow> (loop_clauses + loop_clauses) parse" where
  "loop_clause_step P lc = do {
     kind \<leftarrow> sol_parser_kind;
     if kind = SOL_TOKEN_INVARIANT then do {
       clause \<leftarrow> sol_parser_advance;
       lc \<leftarrow> invariant_clause_step P clause lc;
       ret (Inl lc)
     }
     else if kind = SOL_TOKEN_DECREASES then do {
       clause \<leftarrow> sol_parser_advance;
       lc \<leftarrow> decreases_clause_step P clause lc;
       ret (Inl lc)
     }
     else ret (Inr lc)
   }"

definition loop_condition :: "sol_parsers \<Rightarrow> bool \<Rightarrow> SolExprId parse" where
  "loop_condition P conditional =
     (if conditional then with_suppression True (parse_expression P 1) else ret SOL_AST_NONE)"

definition loop_statement :: "sol_parsers \<Rightarrow> SolToken \<Rightarrow> SolStatement parse" where
  "loop_statement P start = do {
     kind \<leftarrow> sol_parser_kind;
     sol_parser_advance;
     modify (ps_loop_depth_update Suc);
     condition \<leftarrow> loop_condition P (kind = SOL_TOKEN_WHILE);
     lc \<leftarrow> loop no_clauses (loop_clause_step P) no_clauses;
     body \<leftarrow> parse_block P;
     modify (ps_loop_depth_update (\<lambda>d. d - 1));
     stop \<leftarrow> expression_end body (sp_end (tk_span start));
     ret (make_statement
       ((if kind = SOL_TOKEN_WHILE then SOL_STATEMENT_WHILE else SOL_STATEMENT_LOOP)
         condition (lc_first_invariant lc) (lc_invariant_span lc) (lc_decreases lc)
         (lc_decreases_span lc) body)
       (span (sp_start (tk_span start)) stop))
   }"

definition jump_statement :: "SolToken \<Rightarrow> SolStatement parse" where
  "jump_statement start = do {
     kind \<leftarrow> sol_parser_kind;
     sol_parser_advance;
     depth \<leftarrow> gets ps_loop_depth;
     when_do (depth = 0) (sol_parser_error ''SOL-PARSE-001'' start
       (if kind = SOL_TOKEN_BREAK then quote @ ''break' is only valid inside a loop''
        else quote @ ''continue' is only valid inside a loop''));
     next \<leftarrow> sol_parser_current;
     when_do (tk_kind next \<noteq> SOL_TOKEN_RIGHT_BRACE) (sol_parser_error ''SOL-PARSE-001'' next
       (if kind = SOL_TOKEN_BREAK then quote @ ''break' must be the final statement in its block''
        else quote @ ''continue' must be the final statement in its block''));
     ret (make_statement
       (if kind = SOL_TOKEN_BREAK then SOL_STATEMENT_BREAK else SOL_STATEMENT_CONTINUE)
       (tk_span start))
   }"

definition expression_statement :: "sol_parsers \<Rightarrow> SolToken \<Rightarrow> SolStatement parse" where
  "expression_statement P start = do {
     value \<leftarrow> parse_expression P 1;
     sol_parser_check_multiline_record value;
     operator_kind \<leftarrow> sol_parser_kind;
     if sol_parser_assignment_operator operator_kind then do {
       sol_parser_advance;
       rhs \<leftarrow> parse_expression P 1;
       sol_parser_check_multiline_record rhs;
       sp_start' \<leftarrow> expression_start value (sp_start (tk_span start));
       stop \<leftarrow> expression_end rhs (sp_end (tk_span start));
       ret (make_statement (SOL_STATEMENT_ASSIGNMENT value rhs operator_kind) (span sp_start' stop))
     }
     else do {
       sp_start' \<leftarrow> expression_start value (sp_start (tk_span start));
       stop \<leftarrow> expression_end value (sp_end (tk_span start));
       ret (make_statement (SOL_STATEMENT_EXPRESSION value) (span sp_start' stop))
     }
   }"

text \<open>The keyword of the statement is consumed by \<open>sol_parser_match\<close> in these branches.\<close>

definition matched_statement ::
  "sol_parsers \<Rightarrow> SolToken \<Rightarrow> (SolToken \<Rightarrow> SolStatement parse) \<Rightarrow> SolStatement parse" where
  "matched_statement P start branch = do { sol_parser_advance; branch start }"

definition statement_node :: "sol_parsers \<Rightarrow> SolToken \<Rightarrow> SolStatement parse" where
  "statement_node P start =
     (let kind = tk_kind start in
      if kind = SOL_TOKEN_LET \<or> kind = SOL_TOKEN_VAR then let_statement P start
      else if kind = SOL_TOKEN_PANIC
      then matched_statement P start (keyword_statement P SOL_STATEMENT_PANIC)
      else if kind = SOL_TOKEN_UNREACHABLE
      then matched_statement P start (unreachable_statement P)
      else if kind = SOL_TOKEN_REQUIRE then matched_statement P start (require_statement P)
      else if kind = SOL_TOKEN_RETURN
      then matched_statement P start (keyword_statement P SOL_STATEMENT_RETURN)
      else if kind = SOL_TOKEN_REGION then matched_statement P start (region_statement P)
      else if kind = SOL_TOKEN_MODIFY then matched_statement P start (modify_statement P)
      else if kind = SOL_TOKEN_LOOP \<or> kind = SOL_TOKEN_WHILE then loop_statement P start
      else if kind = SOL_TOKEN_BREAK \<or> kind = SOL_TOKEN_CONTINUE then jump_statement start
      else expression_statement P start)"

definition sol_parser_statement :: "sol_parsers \<Rightarrow> SolStatementId parse" where
  "sol_parser_statement P = do {
     start \<leftarrow> sol_parser_current;
     statement \<leftarrow> statement_node P start;
     sol_parser_add_statement statement
   }"

section \<open>Blocks\<close>

definition append_statement ::
  "SolStatementId \<times> SolStatementId \<Rightarrow> SolStatementId \<Rightarrow>
   (SolStatementId \<times> SolStatementId) parse" where
  "append_statement l statement =
     (if statement = SOL_AST_NONE then ret l
      else append_node link_statement (fst l) (snd l) statement)"

definition block_step ::
  "sol_parsers \<Rightarrow> SolStatementId \<times> SolStatementId \<Rightarrow>
   (SolStatementId \<times> SolStatementId + SolStatementId) parse" where
  "block_step P l = do {
     kind \<leftarrow> sol_parser_kind;
     if kind = SOL_TOKEN_RIGHT_BRACE \<or> kind = SOL_TOKEN_EOF then ret (Inr (fst l))
     else do {
       start_index \<leftarrow> sol_parser_significant_index;
       statement \<leftarrow> sol_parser_statement P;
       l \<leftarrow> append_statement l statement;
       ensure_progress start_index;
       ret (Inl l)
     }
   }"

definition block_statements :: "sol_parsers \<Rightarrow> SolToken \<Rightarrow> SolExprId parse" where
  "block_statements P opening = do {
     (first, closing) \<leftarrow> with_suppression False (do {
       first \<leftarrow> loop SOL_AST_NONE (block_step P) (SOL_AST_NONE, SOL_AST_NONE);
       closing \<leftarrow> sol_parser_current;
       sol_parser_expect SOL_TOKEN_RIGHT_BRACE ''expected '}' after block'';
       ret (first, closing)
     });
     sol_parser_add_expression
       \<lparr> ex_kind = SOL_EXPR_BLOCK first,
         ex_span = span (sp_start (tk_span opening)) (sp_end (tk_span closing)) \<rparr>
   }"

definition sol_parser_block_expression :: "sol_parsers \<Rightarrow> SolExprId parse" where
  "sol_parser_block_expression P = do {
     opening \<leftarrow> sol_parser_current;
     ok \<leftarrow> sol_parser_expect SOL_TOKEN_LEFT_BRACE ''expected a block'';
     if \<not> ok then error_expression (tk_span opening)
     else block_statements P opening
   }"

section \<open>The recursion\<close>

primrec sol_parsers_upto :: "nat \<Rightarrow> sol_parsers" where
  "sol_parsers_upto 0 =
     \<lparr> parse_expression = (\<lambda>_. do { sol_trap OUT_OF_FUEL; ret SOL_AST_NONE }),
       parse_block = do { sol_trap OUT_OF_FUEL; ret SOL_AST_NONE },
       parse_type = do { sol_trap OUT_OF_FUEL; ret None },
       parse_pattern = (\<lambda>_ _. do { sol_trap OUT_OF_FUEL; ret SOL_AST_NONE }) \<rparr>"
| "sol_parsers_upto (Suc n) =
     (let P = sol_parsers_upto n in
      \<lparr> parse_expression = sol_parser_expression P,
        parse_block = sol_parser_block_expression P,
        parse_type = sol_parser_type P,
        parse_pattern = sol_parser_pattern_depth P \<rparr>)"

end
