(* ===== verification/Sol_ParserDecl.thy ===== *)
theory Sol_ParserDecl
  imports Sol_ParserStmt
begin

text \<open>
  \<open>src/src/parser.c\<close>: contract clauses, parameter lists, functions, the other
  declarations, the module header and \<open>sol_parse\<close>.
\<close>

section \<open>Contract clauses\<close>

definition brace_depth_after :: "SolTokenKind \<Rightarrow> size_t \<Rightarrow> size_t" where
  "brace_depth_after kind depth =
     (if kind = SOL_TOKEN_LEFT_BRACE then depth + 1
      else if kind = SOL_TOKEN_RIGHT_BRACE then depth - 1 else depth)"

definition balanced_step :: "size_t \<Rightarrow> (size_t + size_t) parse" where
  "balanced_step depth =
     (if depth = 0 then ret (Inr depth)
      else do {
        kind \<leftarrow> sol_parser_kind;
        if kind = SOL_TOKEN_EOF then ret (Inr depth)
        else do {
          t \<leftarrow> sol_parser_advance;
          ret (Inl (brace_depth_after (tk_kind t) depth))
        }
      })"

definition sol_parser_balanced_block :: "string \<Rightarrow> bool parse" where
  "sol_parser_balanced_block description = do {
     opening \<leftarrow> sol_parser_current;
     ok \<leftarrow> sol_parser_expect SOL_TOKEN_LEFT_BRACE description;
     if \<not> ok then ret False
     else do {
       depth \<leftarrow> loop 1 balanced_step 1;
       if depth \<noteq> 0 then do {
         parser_diagnostic ''SOL-PARSE-002'' (tk_span opening) ''unterminated block'';
         ret False
       }
       else ret True
     }
   }"

text \<open>\<open>success =>\<close> or \<open>failure =>\<close> before a condition.\<close>

definition condition_outcome ::
  "SolContractClauseKind \<Rightarrow> SolToken \<Rightarrow> SolContractOutcomeKind parse" where
  "condition_outcome kind first = do {
     next \<leftarrow> sol_parser_peek_kind 1;
     success \<leftarrow> token_text_is first ''success'';
     failure \<leftarrow> token_text_is first ''failure'';
     if tk_kind first = SOL_TOKEN_IDENTIFIER \<and> next = SOL_TOKEN_FAT_ARROW \<and> (success \<or> failure)
     then do {
       sol_parser_advance;
       sol_parser_advance;
       when_do (kind \<noteq> SOL_CONTRACT_ENSURES) (sol_parser_error ''SOL-PARSE-017'' first
         ''success and failure outcomes are only available in ensures clauses'');
       ret (if success then SOL_CONTRACT_OUTCOME_SUCCESS else SOL_CONTRACT_OUTCOME_FAILURE)
     }
     else ret SOL_CONTRACT_OUTCOME_ALWAYS
   }"

definition condition_separator :: "size_t \<Rightarrow> size_t \<Rightarrow> unit parse" where
  "condition_separator root_end start_index = do {
     next \<leftarrow> sol_parser_current;
     if tk_kind next = SOL_TOKEN_RIGHT_BRACE \<or> tk_kind next = SOL_TOKEN_EOF then ret ()
     else do {
       comma \<leftarrow> sol_parser_match SOL_TOKEN_COMMA;
       if comma then ret ()
       else do {
         line_break \<leftarrow> sol_parser_has_line_break root_end (sp_start (tk_span next));
         when_do (\<not> line_break) (sol_parser_error ''SOL-PARSE-017'' next
           ''expected a newline or ',' between contract conditions'');
         ensure_progress start_index
       }
     }
   }"

definition clause_first_condition :: "SolContractClauseId \<Rightarrow> SolContractConditionId parse" where
  "clause_first_condition clause = do {
     c \<leftarrow> table_read tr_contract_clauses
       \<lparr> cl_kind = SOL_CONTRACT_REQUIRES, cl_span = no_span, cl_first_condition = SOL_AST_NONE,
         cl_next = SOL_AST_NONE, cl_owner_kind = SOL_CONTRACT_OWNER_ITEM, cl_owner = 0 \<rparr> clause;
     ret (cl_first_condition c)
   }"

definition set_first_condition :: "SolContractClauseId \<Rightarrow> SolContractConditionId \<Rightarrow> unit parse" where
  "set_first_condition clause condition =
     table_write tr_contract_clauses tr_contract_clauses_update clause
       (cl_first_condition_update (\<lambda>_. condition))"

definition append_condition ::
  "SolContractClauseId \<Rightarrow> SolContractConditionId \<Rightarrow> SolContractConditionId \<Rightarrow> unit parse" where
  "append_condition clause last_condition condition = do {
     first \<leftarrow> clause_first_condition clause;
     if first = SOL_AST_NONE then set_first_condition clause condition
     else link_contract_condition last_condition condition
   }"

text \<open>
  One condition up to its entry: the entry, the end of its expression and the index it
  starts at, or \<open>None\<close> on an error.
\<close>

definition condition_entry ::
  "sol_parsers \<Rightarrow> SolContractClauseId \<Rightarrow> SolToken \<Rightarrow> SolContractOutcomeKind \<Rightarrow> size_t \<Rightarrow>
   (SolContractConditionId \<times> size_t \<times> size_t) option parse" where
  "condition_entry P clause first outcome start_index = do {
     expression \<leftarrow> parse_expression P 1;
     if expression = SOL_AST_NONE then ret None
     else do {
       root \<leftarrow> expression_at expression;
       condition \<leftarrow> sol_parser_add_contract_condition
         \<lparr> cc_outcome = outcome,
           cc_span = span (sp_start (tk_span first)) (sp_end (ex_span root)),
           cc_expression = expression, cc_next = SOL_AST_NONE, cc_owner_clause = clause \<rparr>;
       ret (if condition = SOL_AST_NONE then None
            else Some (condition, sp_end (ex_span root), start_index))
     }
   }"

definition condition_node ::
  "sol_parsers \<Rightarrow> SolContractClauseKind \<Rightarrow> SolContractClauseId \<Rightarrow>
   (SolContractConditionId \<times> size_t \<times> size_t) option parse" where
  "condition_node P kind clause = do {
     first \<leftarrow> sol_parser_current;
     outcome \<leftarrow> condition_outcome kind first;
     start_index \<leftarrow> sol_parser_significant_index;
     condition_entry P clause first outcome start_index
   }"

text \<open>
  A round of the loop over the conditions: its first part ends the round (\<open>Inl\<close>) or gives
  a condition to append, which becomes the last one.
\<close>

definition contract_head ::
  "sol_parsers \<Rightarrow> SolContractClauseKind \<Rightarrow> SolContractClauseId \<Rightarrow> SolContractConditionId \<Rightarrow>
   ((SolContractConditionId + bool) + SolContractConditionId \<times> size_t \<times> size_t) parse" where
  "contract_head P kind clause last_condition = do {
     k \<leftarrow> sol_parser_kind;
     if k = SOL_TOKEN_RIGHT_BRACE \<or> k = SOL_TOKEN_EOF then ret (Inl (Inr True))
     else do {
       comma \<leftarrow> sol_parser_match SOL_TOKEN_COMMA;
       if comma then do {
         t \<leftarrow> previous_token;
         sol_parser_error ''SOL-PARSE-017'' t
           (''expected a contract condition before ','' @ quote);
         ret (Inl (Inl last_condition))
       }
       else do {
         node \<leftarrow> condition_node P kind clause;
         ret (case node of None \<Rightarrow> Inl (Inr False) | Some c \<Rightarrow> Inr c)
       }
     }
   }"

definition contract_step ::
  "sol_parsers \<Rightarrow> SolContractClauseKind \<Rightarrow> SolContractClauseId \<Rightarrow> SolContractConditionId \<Rightarrow>
   (SolContractConditionId + bool) parse" where
  "contract_step P kind clause last_condition = do {
     head \<leftarrow> contract_head P kind clause last_condition;
     case head of
       Inl r \<Rightarrow> ret r
     | Inr (condition, root_end, start_index) \<Rightarrow> do {
         append_condition clause last_condition condition;
         condition_separator root_end start_index;
         ret (Inl condition)
       }
   }"

definition with_context :: "SolParserContractContext \<Rightarrow> 'a parse \<Rightarrow> 'a parse" where
  "with_context context m = do {
     previous \<leftarrow> gets ps_contract_context;
     modify (ps_contract_context_update (\<lambda>_. context));
     x \<leftarrow> m;
     modify (ps_contract_context_update (\<lambda>_. previous));
     ret x
   }"

definition set_clause_end :: "SolContractClauseId \<Rightarrow> size_t \<Rightarrow> unit parse" where
  "set_clause_end clause stop =
     table_write tr_contract_clauses tr_contract_clauses_update clause
       (cl_span_update (sp_end_update (\<lambda>_. stop)))"

definition contract_conditions ::
  "sol_parsers \<Rightarrow> SolContractClauseKind \<Rightarrow> SolContractClauseId \<Rightarrow> bool parse" where
  "contract_conditions P kind clause = do {
     ok \<leftarrow> loop False (contract_step P kind clause) SOL_AST_NONE;
     if \<not> ok then ret False
     else do {
       closing \<leftarrow> sol_parser_current;
       closed \<leftarrow> sol_parser_expect SOL_TOKEN_RIGHT_BRACE ''expected '}' after contract conditions'';
       set_clause_end clause (sp_end (tk_span closing));
       ret closed
     }
   }"

text \<open>The clause is returned when the function returns true.\<close>

definition sol_parser_contract_clause ::
  "sol_parsers \<Rightarrow> SolContractClauseKind \<Rightarrow> SolContractOwnerKind \<Rightarrow> size_t \<Rightarrow> SolToken \<Rightarrow>
   SolContractClauseId option parse" where
  "sol_parser_contract_clause P kind owner_kind owner clause_token = do {
     opening \<leftarrow> sol_parser_current;
     ok \<leftarrow> sol_parser_expect SOL_TOKEN_LEFT_BRACE ''expected a block after the function clause'';
     if \<not> ok then ret None
     else do {
       clause \<leftarrow> sol_parser_add_contract_clause
         \<lparr> cl_kind = kind,
           cl_span = span (sp_start (tk_span clause_token)) (sp_end (tk_span opening)),
           cl_first_condition = SOL_AST_NONE, cl_next = SOL_AST_NONE,
           cl_owner_kind = owner_kind, cl_owner = owner \<rparr>;
       if clause = SOL_AST_NONE then ret None
       else do {
         closed \<leftarrow> with_context
           (if kind = SOL_CONTRACT_REQUIRES then SOL_PARSER_CONTRACT_REQUIRES
            else SOL_PARSER_CONTRACT_ENSURES) (contract_conditions P kind clause);
         ret (if closed then Some clause else None)
       }
     }
   }"

section \<open>Fields and parameters\<close>

text \<open>\<open>name: type\<close>, the beginning of every entry.\<close>

definition named_type ::
  "sol_parsers \<Rightarrow> string \<Rightarrow> string \<Rightarrow> SolAccessMode parse \<Rightarrow>
   (SolToken \<times> SolAccessMode \<times> SolSpan \<times> SolTypeId) option parse" where
  "named_type P name_message colon_message access = do {
     name \<leftarrow> sol_parser_current;
     ok \<leftarrow> sol_parser_expect SOL_TOKEN_IDENTIFIER name_message;
     colon \<leftarrow> and_then ok (sol_parser_expect SOL_TOKEN_COLON colon_message);
     if \<not> colon then ret None
     else do {
       access \<leftarrow> access;
       type \<leftarrow> parse_type P;
       ret (map_option (\<lambda>(sp, i). (name, access, sp, i)) type)
     }
   }"

definition field_step ::
  "sol_parsers \<Rightarrow> SolTokenKind \<Rightarrow> SolFieldId \<times> SolFieldId \<Rightarrow>
   (SolFieldId \<times> SolFieldId + SolFieldId option) parse" where
  "field_step P closing l = do {
     entry \<leftarrow> named_type P ''expected a name'' ''expected ':' after the name'' (ret SOL_ACCESS_OWNED);
     case entry of
       None \<Rightarrow> ret (Inr None)
     | Some (name, _, type_span, type_id) \<Rightarrow> do {
         added \<leftarrow> add_to_list sol_parser_add_field link_field l
           \<lparr> fd_name = tk_span name,
             fd_span = span (sp_start (tk_span name)) (sp_end type_span),
             fd_type = type_id, fd_next = SOL_AST_NONE \<rparr>;
         case added of
           None \<Rightarrow> ret (Inr None)
         | Some l \<Rightarrow> do {
             tail \<leftarrow> list_separator closing ''expected ',' between entries'';
             ret (list_round l tail)
           }
       }
   }"

text \<open>Both callers retain the fields.\<close>

definition sol_parser_named_type_list :: "sol_parsers \<Rightarrow> SolTokenKind \<Rightarrow> SolFieldId option parse" where
  "sol_parser_named_type_list P closing = do {
     empty \<leftarrow> sol_parser_match closing;
     if empty then ret (Some SOL_AST_NONE)
     else loop None (field_step P closing) (SOL_AST_NONE, SOL_AST_NONE)
   }"

definition parameter_step ::
  "sol_parsers \<Rightarrow> SolParameterId \<times> SolParameterId \<Rightarrow>
   (SolParameterId \<times> SolParameterId + SolParameterId option) parse" where
  "parameter_step P l = do {
     entry \<leftarrow> named_type P ''expected a parameter name'' ''expected ':' after the parameter name''
       parameter_access;
     case entry of
       None \<Rightarrow> ret (Inr None)
     | Some (name, access, type_span, type_id) \<Rightarrow> do {
         added \<leftarrow> add_to_list sol_parser_add_parameter link_parameter l
           \<lparr> pa_name = tk_span name, pa_type = type_span, pa_type_id = type_id,
             pa_next = SOL_AST_NONE, pa_access = access \<rparr>;
         case added of
           None \<Rightarrow> ret (Inr None)
         | Some l \<Rightarrow> do {
             tail \<leftarrow> list_separator SOL_TOKEN_RIGHT_PAREN ''expected ',' between parameters'';
             ret (list_round l tail)
           }
       }
   }"

definition sol_parser_parameters :: "sol_parsers \<Rightarrow> SolParameterId option parse" where
  "sol_parser_parameters P = do {
     empty \<leftarrow> sol_parser_match SOL_TOKEN_RIGHT_PAREN;
     if empty then ret (Some SOL_AST_NONE)
     else loop None (parameter_step P) (SOL_AST_NONE, SOL_AST_NONE)
   }"

section \<open>Generic parameters\<close>

definition skip_generic_step :: "size_t \<Rightarrow> (size_t + unit) parse" where
  "skip_generic_step nested = do {
     kind \<leftarrow> sol_parser_kind;
     if kind = SOL_TOKEN_EOF then ret (Inr ())
     else if kind = SOL_TOKEN_LESS then do { sol_parser_advance; ret (Inl (nested + 1)) }
     else if kind = SOL_TOKEN_GREATER then
       (if nested = 0 then ret (Inr ())
        else do { sol_parser_advance; ret (Inl (nested - 1)) })
     else if kind = SOL_TOKEN_COMMA \<and> nested = 0 then ret (Inr ())
     else do { sol_parser_advance; ret (Inl nested) }
   }"

definition generic_bound :: "bool \<Rightarrow> SolSpan option parse" where
  "generic_bound supported = do {
     colon \<leftarrow> sol_parser_match SOL_TOKEN_COLON;
     if \<not> colon then ret (Some no_span)
     else do {
       bound_name \<leftarrow> sol_parser_current;
       ok \<leftarrow> sol_parser_expect SOL_TOKEN_IDENTIFIER (''expected a trait name after ':'' @ quote);
       if \<not> ok then ret None
       else if supported then ret (Some (tk_span bound_name))
       else do {
         sol_parser_error ''SOL-PARSE-018'' bound_name
           ''trait bounds are supported only on free-function type parameters'';
         loop () skip_generic_step 0;
         ret (Some no_span)
       }
     }
   }"

definition reject_generic_default :: "unit parse" where
  "reject_generic_default = do {
     kind \<leftarrow> sol_parser_kind;
     when_do (kind = SOL_TOKEN_EQUAL) (do {
       t \<leftarrow> sol_parser_current;
       sol_parser_error ''SOL-PARSE-018'' t ''generic defaults are unsupported'';
       loop () skip_generic_step 0
     })
   }"

record generic_state =
  gs_first :: SolTypeParameterId
  gs_last :: SolTypeParameterId
  gs_first_effect :: SolEffectParameterId
  gs_saw_effect :: bool

definition no_generics :: generic_state where
  "no_generics =
     \<lparr> gs_first = SOL_AST_NONE, gs_last = SOL_AST_NONE, gs_first_effect = SOL_AST_NONE,
       gs_saw_effect = False \<rparr>"

definition store_effect_parameter :: "SolToken \<Rightarrow> generic_state \<Rightarrow> generic_state option parse" where
  "store_effect_parameter name g = do {
     owner \<leftarrow> item_count;
     parameter \<leftarrow> sol_parser_add_effect_parameter
       \<lparr> ep_name = tk_span name, ep_next = SOL_AST_NONE, ep_owner_item = owner \<rparr>;
     ret (if parameter = SOL_AST_NONE then None else Some (g\<lparr>gs_first_effect := parameter\<rparr>))
   }"

definition store_type_parameter ::
  "SolToken \<Rightarrow> SolSpan \<Rightarrow> generic_state \<Rightarrow> generic_state option parse" where
  "store_type_parameter name bound g = do {
     owner \<leftarrow> item_count;
     added \<leftarrow> add_to_list sol_parser_add_type_parameter link_type_parameter (gs_first g, gs_last g)
       \<lparr> tp_name = tk_span name, tp_bound = bound, tp_next = SOL_AST_NONE,
         tp_owner_item = owner \<rparr>;
     ret (map_option (\<lambda>(first, latest). g\<lparr>gs_first := first, gs_last := latest\<rparr>) added)
   }"

text \<open>Keeping a generic parameter; \<open>None\<close> when its memory could not be obtained.\<close>

definition store_generic ::
  "bool \<Rightarrow> bool \<Rightarrow> bool \<Rightarrow> SolToken \<Rightarrow> SolSpan \<Rightarrow> generic_state \<Rightarrow> generic_state option parse" where
  "store_generic type_supported effect_supported is_effect name bound g =
     (if is_effect \<and> \<not> effect_supported then do {
        sol_parser_error ''SOL-PARSE-018'' name
          ''effect parameters are supported only on free functions'';
        ret (Some g)
      }
      else if is_effect \<and> \<not> gs_saw_effect g then store_effect_parameter name g
      else if \<not> is_effect \<and> type_supported then store_type_parameter name bound g
      else ret (Some g))"

definition check_generic_order :: "bool \<Rightarrow> bool \<Rightarrow> unit parse" where
  "check_generic_order is_effect saw_effect = do {
     t \<leftarrow> sol_parser_current;
     when_do (is_effect \<and> saw_effect) (sol_parser_error ''SOL-PARSE-018'' t
       ''only one effect parameter is supported'');
     when_do (\<not> is_effect \<and> saw_effect) (sol_parser_error ''SOL-PARSE-018'' t
       ''type parameters must precede the effect parameter'')
   }"

text \<open>The name, bound and default of one generic parameter.\<close>

definition generic_name :: "bool \<Rightarrow> (SolToken \<times> SolSpan) option parse" where
  "generic_name bound_supported = do {
     name \<leftarrow> sol_parser_current;
     ok \<leftarrow> sol_parser_expect SOL_TOKEN_IDENTIFIER ''expected a generic parameter name'';
     if \<not> ok then ret None
     else do {
       underscore \<leftarrow> token_text_is name ''_'';
       when_do underscore (sol_parser_error ''SOL-PARSE-018'' name
         (quote @ ''_' is not a generic parameter name''));
       bound \<leftarrow> generic_bound bound_supported;
       case bound of
         None \<Rightarrow> ret None
       | Some bound \<Rightarrow> do { reject_generic_default; ret (Some (name, bound)) }
     }
   }"

definition generic_step ::
  "bool \<Rightarrow> bool \<Rightarrow> generic_state \<Rightarrow> (generic_state + generic_state option) parse" where
  "generic_step type_supported effect_supported g = do {
     is_effect \<leftarrow> sol_parser_match SOL_TOKEN_EFFECTS;
     check_generic_order is_effect (gs_saw_effect g);
     parameter \<leftarrow> generic_name (\<not> is_effect \<and> type_supported \<and> effect_supported);
     case parameter of
       None \<Rightarrow> ret (Inr None)
     | Some (name, bound) \<Rightarrow> do {
         stored \<leftarrow> store_generic type_supported effect_supported is_effect name bound g;
         case stored of
           None \<Rightarrow> ret (Inr None)
         | Some g \<Rightarrow> do {
             tail \<leftarrow> list_separator SOL_TOKEN_GREATER ''expected ',' between generic parameters'';
             let g = g\<lparr>gs_saw_effect := gs_saw_effect g \<or> is_effect\<rparr>;
             ret (case tail of None \<Rightarrow> Inl g
                  | Some closed \<Rightarrow> Inr (if closed then Some g else None))
           }
       }
   }"

text \<open>The first type and effect parameters; \<open>None\<close> when the function returns false.\<close>

definition sol_parser_generic_parameters ::
  "bool \<Rightarrow> bool \<Rightarrow> (SolTypeParameterId \<times> SolEffectParameterId) option parse" where
  "sol_parser_generic_parameters type_supported effect_supported = do {
     less \<leftarrow> sol_parser_match SOL_TOKEN_LESS;
     if \<not> less then ret (Some (SOL_AST_NONE, SOL_AST_NONE))
     else do {
       opening \<leftarrow> previous_token;
       when_do (\<not> type_supported \<and> \<not> effect_supported) (sol_parser_error ''SOL-PARSE-018'' opening
         ''generic parameters are unsupported on this declaration'');
       empty \<leftarrow> sol_parser_match SOL_TOKEN_GREATER;
       if empty then do {
         t \<leftarrow> previous_token;
         sol_parser_error ''SOL-PARSE-018'' t ''generic parameter lists cannot be empty'';
         ret (Some (SOL_AST_NONE, SOL_AST_NONE))
       }
       else do {
         g \<leftarrow> loop None (generic_step type_supported effect_supported) no_generics;
         ret (map_option (\<lambda>g. (gs_first g, gs_first_effect g)) g)
       }
     }
   }"

end
