(* ===== verification/Sol_ParserItem.thy ===== *)
theory Sol_ParserItem
  imports Sol_ParserDecl
begin

text \<open>
  \<open>src/src/parser.c\<close>: functions with their clauses, the declarations, recovery after a
  declaration that does not parse, the module header and \<open>sol_parse\<close>.
\<close>

section \<open>Functions\<close>

definition sol_parser_is_declaration_start :: "SolTokenKind \<Rightarrow> bool" where
  "sol_parser_is_declaration_start kind \<longleftrightarrow>
     kind = SOL_TOKEN_AT \<or> kind = SOL_TOKEN_PUBLIC \<or> kind = SOL_TOKEN_PRIVATE \<or>
     kind = SOL_TOKEN_RECORD \<or> kind = SOL_TOKEN_ENUM \<or> kind = SOL_TOKEN_TYPE \<or>
     kind = SOL_TOKEN_OPEN \<or> kind = SOL_TOKEN_CAPABILITY \<or> kind = SOL_TOKEN_TRAIT \<or>
     kind = SOL_TOKEN_IMPLEMENTATION \<or> kind = SOL_TOKEN_FUNCTION \<or> kind = SOL_TOKEN_TEST"

text \<open>What the clauses of a function leave in the local variables of \<open>sol_parser_function\<close>.\<close>

record function_clauses =
  fc_last_clause :: nat
  fc_seen_effects :: bool
  fc_seen_requires :: bool
  fc_seen_ensures :: bool
  fc_first_effect :: SolEffectId
  fc_has_effect_clause :: bool
  fc_first_contract :: SolContractClauseId
  fc_last_contract :: SolContractClauseId
  fc_authority_from_self :: bool
  fc_authority_parameter :: SolParameterId

definition no_function_clauses :: function_clauses where
  "no_function_clauses =
     \<lparr> fc_last_clause = 0, fc_seen_effects = False, fc_seen_requires = False,
       fc_seen_ensures = False, fc_first_effect = SOL_AST_NONE, fc_has_effect_clause = False,
       fc_first_contract = SOL_AST_NONE, fc_last_contract = SOL_AST_NONE,
       fc_authority_from_self = False, fc_authority_parameter = SOL_AST_NONE \<rparr>"

definition authority_recover_step :: "unit \<Rightarrow> (unit + unit) parse" where
  "authority_recover_step l = do {
     kind \<leftarrow> sol_parser_kind;
     if kind = SOL_TOKEN_RIGHT_BRACE \<or> kind = SOL_TOKEN_EOF \<or> sol_parser_is_declaration_start kind
     then ret (Inr ())
     else do { sol_parser_advance; ret (Inl ()) }
   }"

text \<open>\<open>{ result derives_from source }\<close>: the source token when the clause is well formed.\<close>

definition authority_source :: "(bool \<times> SolToken) parse" where
  "authority_source = do {
     valid \<leftarrow> sol_parser_expect SOL_TOKEN_LEFT_BRACE ''expected '{' after authority'';
     valid \<leftarrow> and_then valid (sol_parser_expect_identifier_text ''result''
       ''expected 'result' in return authority clause'');
     valid \<leftarrow> and_then valid (sol_parser_expect_identifier_text ''derives_from''
       ''expected 'derives_from' in return authority clause'');
     source \<leftarrow> sol_parser_current;
     valid \<leftarrow> and_then valid (sol_parser_expect SOL_TOKEN_IDENTIFIER ''expected an authority source'');
     valid \<leftarrow> and_then valid (sol_parser_expect SOL_TOKEN_RIGHT_BRACE ''expected '}' after authority'');
     ret (valid, source)
   }"

definition is_direct_capability :: "SolSyntaxType \<Rightarrow> bool" where
  "is_direct_capability type \<longleftrightarrow>
     ty_kind type = SOL_SYNTAX_TYPE_PATH \<and> ty_is_capability type \<and>
     ty_first_argument type = SOL_AST_NONE"

text \<open>Equal lengths and \<open>memcmp\<close> of the bytes of two spans.\<close>

definition same_text :: "SolSpan \<Rightarrow> SolSpan \<Rightarrow> bool parse" where
  "same_text a b = do {
     src \<leftarrow> gets ps_source;
     let n = size_sub (sp_end b) (sp_start b);
     if size_sub (sp_end a) (sp_start a) \<noteq> n then ret False
     else if sp_start a + n \<le> src_length src \<and> sp_start b + n \<le> src_length src
     then ret (take n (drop (sp_start a) (src_text src)) = take n (drop (sp_start b) (src_text src)))
     else do { sol_trap BAD_ACCESS; ret False }
   }"

definition parameter_at :: "SolParameterId \<Rightarrow> SolParameter parse" where
  "parameter_at = table_read tr_parameters
     \<lparr> pa_name = no_span, pa_type = no_span, pa_type_id = SOL_AST_NONE, pa_next = SOL_AST_NONE,
       pa_access = SOL_ACCESS_OWNED \<rparr>"

text \<open>The walk over the parameters; \<open>left\<close> counts what the test on \<open>traversed\<close> still allows.\<close>

primrec find_parameter :: "nat \<Rightarrow> size_t \<Rightarrow> SolSpan \<Rightarrow> SolParameterId \<Rightarrow> SolParameterId parse" where
  "find_parameter 0 count name parameter = ret SOL_AST_NONE"
| "find_parameter (Suc left) count name parameter =
     (if parameter = SOL_AST_NONE \<or> parameter \<ge> count then ret SOL_AST_NONE
      else do {
        p \<leftarrow> parameter_at parameter;
        same \<leftarrow> same_text (pa_name p) name;
        if same then ret parameter else find_parameter left count name (pa_next p)
      })"

definition parameter_authority ::
  "SolToken \<Rightarrow> bool \<Rightarrow> SolParameterId \<Rightarrow> function_clauses \<Rightarrow> function_clauses parse" where
  "parameter_authority source direct_capability first_parameter fc = do {
     count \<leftarrow> gets (\<lambda>s. tb_count (tr_parameters (ps_tree s)));
     parameter \<leftarrow> find_parameter count count (tk_span source) first_parameter;
     if parameter = SOL_AST_NONE then do {
       sol_parser_error ''SOL-PARSE-016'' source
         ''return authority source must name a function parameter'';
       ret fc
     }
     else do {
       p \<leftarrow> parameter_at parameter;
       type \<leftarrow> type_at (pa_type_id p);
       when_do (\<not> is_direct_capability type) (sol_parser_error ''SOL-PARSE-016'' source
         ''return authority source must be a capability parameter'');
       ret (fc\<lparr>fc_authority_parameter :=
         (if direct_capability \<and> is_direct_capability type then parameter else SOL_AST_NONE)\<rparr>)
     }
   }"

definition member_authority ::
  "SolToken \<Rightarrow> bool \<Rightarrow> function_clauses \<Rightarrow> function_clauses parse" where
  "member_authority source direct_capability fc = do {
     self \<leftarrow> token_text_is source ''Self'';
     if \<not> self then do {
       sol_parser_error ''SOL-PARSE-016'' source
         ''capability-member result authority must derive from Self'';
       ret fc
     }
     else ret (fc\<lparr>fc_authority_from_self := direct_capability\<rparr>)
   }"

definition apply_authority ::
  "bool \<Rightarrow> SolParameterId \<Rightarrow> SolTypeId \<Rightarrow> SolToken \<Rightarrow> SolToken \<Rightarrow> function_clauses \<Rightarrow>
   function_clauses parse" where
  "apply_authority member first_parameter return_type_id current source fc = do {
     type \<leftarrow> type_at return_type_id;
     when_do (\<not> is_direct_capability type) (sol_parser_error ''SOL-PARSE-016'' current
       ''return authority requires a direct capability result type'');
     if member then member_authority source (is_direct_capability type) fc
     else parameter_authority source (is_direct_capability type) first_parameter fc
   }"

definition authority_clause ::
  "bool \<Rightarrow> bool \<Rightarrow> SolParameterId \<Rightarrow> SolTypeId \<Rightarrow> SolToken \<Rightarrow> function_clauses \<Rightarrow>
   function_clauses option parse" where
  "authority_clause member member_contracts first_parameter return_type_id current fc = do {
     sol_parser_advance;
     if member \<and> \<not> member_contracts then do {
       sol_parser_error ''SOL-PARSE-019'' current
         ''trait and implementation methods cannot declare authority clauses'';
       ok \<leftarrow> sol_parser_balanced_block ''expected an authority clause'';
       ret (if ok then Some fc else None)
     }
     else do {
       when_do (fc_authority_from_self fc \<or> fc_authority_parameter fc \<noteq> SOL_AST_NONE)
         (sol_parser_error ''SOL-PARSE-016'' current ''duplicate return authority clause'');
       (valid, source) \<leftarrow> authority_source;
       if \<not> valid then do {
         loop () authority_recover_step ();
         sol_parser_match SOL_TOKEN_RIGHT_BRACE;
         ret None
       }
       else do {
         fc \<leftarrow> apply_authority member first_parameter return_type_id current source fc;
         ret (Some fc)
       }
     }
   }"

text \<open>The clause number of a token: effects, requires, ensures; 0 is none.\<close>

definition clause_number :: "SolTokenKind \<Rightarrow> nat" where
  "clause_number kind =
     (if kind = SOL_TOKEN_EFFECTS then 1 else if kind = SOL_TOKEN_REQUIRES then 2
      else if kind = SOL_TOKEN_ENSURES then 3 else 0)"

definition clause_seen :: "nat \<Rightarrow> function_clauses \<Rightarrow> bool" where
  "clause_seen clause fc =
     (if clause = 1 then fc_seen_effects fc else if clause = 2 then fc_seen_requires fc
      else fc_seen_ensures fc)"

definition note_clause :: "nat \<Rightarrow> function_clauses \<Rightarrow> function_clauses" where
  "note_clause clause fc =
     fc\<lparr>fc_last_clause := clause, fc_seen_effects := fc_seen_effects fc \<or> clause = 1,
        fc_seen_requires := fc_seen_requires fc \<or> clause = 2,
        fc_seen_ensures := fc_seen_ensures fc \<or> clause = 3\<rparr>"

definition check_clause_order :: "SolToken \<Rightarrow> nat \<Rightarrow> function_clauses \<Rightarrow> unit parse" where
  "check_clause_order clause_token clause fc = do {
     when_do (clause_seen clause fc) (parser_diagnostic ''SOL-PARSE-008'' (tk_span clause_token)
       ''duplicate function clause'');
     when_do (clause < fc_last_clause fc) (parser_diagnostic ''SOL-PARSE-009'' (tk_span clause_token)
       ''function clauses must be ordered as effects, requires, ensures'')
   }"

definition effects_clause ::
  "SolEffectOwnerKind \<Rightarrow> size_t \<Rightarrow> function_clauses \<Rightarrow> function_clauses option parse" where
  "effects_clause owner_kind owner fc = do {
     effects \<leftarrow> sol_parser_effect_clause owner_kind owner;
     ret (map_option (\<lambda>first. fc\<lparr>fc_has_effect_clause := True, fc_first_effect := first\<rparr>) effects)
   }"

definition contract_clause ::
  "sol_parsers \<Rightarrow> bool \<Rightarrow> bool \<Rightarrow> size_t \<Rightarrow> SolToken \<Rightarrow> nat \<Rightarrow> function_clauses \<Rightarrow>
   function_clauses option parse" where
  "contract_clause P member member_contracts owner clause_token clause fc =
     (if member \<and> \<not> member_contracts then do {
        sol_parser_error ''SOL-PARSE-019'' clause_token
          ''trait and implementation methods cannot declare contracts'';
        ok \<leftarrow> sol_parser_balanced_block ''expected a contract clause'';
        ret (if ok then Some fc else None)
      }
      else do {
        contract \<leftarrow> sol_parser_contract_clause P
          (if clause = 2 then SOL_CONTRACT_REQUIRES else SOL_CONTRACT_ENSURES)
          (if member then SOL_CONTRACT_OWNER_CAPABILITY_MEMBER else SOL_CONTRACT_OWNER_ITEM)
          owner clause_token;
        case contract of
          None \<Rightarrow> ret None
        | Some contract \<Rightarrow> do {
            (first, latest) \<leftarrow> append_node link_contract_clause (fc_first_contract fc)
              (fc_last_contract fc) contract;
            ret (Some (fc\<lparr>fc_first_contract := first, fc_last_contract := latest\<rparr>))
          }
      })"

text \<open>The parameters of \<open>sol_parser_function\<close> that distinguish its callers.\<close>

record function_mode =
  fm_member :: bool
  fm_member_has_body :: bool
  fm_member_contracts :: bool
  fm_effect_owner_kind :: SolEffectOwnerKind
  fm_effect_owner :: size_t

definition ordinary_clause ::
  "sol_parsers \<Rightarrow> function_mode \<Rightarrow> function_clauses \<Rightarrow>
   (function_clauses + function_clauses option) parse" where
  "ordinary_clause P mode fc = do {
     kind \<leftarrow> sol_parser_kind;
     let clause = clause_number kind;
     if clause = 0 then ret (Inr (Some fc))
     else do {
       clause_token \<leftarrow> sol_parser_advance;
       check_clause_order clause_token clause fc;
       r \<leftarrow> (if clause = 1
         then effects_clause
           (if fm_member mode then fm_effect_owner_kind mode else SOL_EFFECT_OWNER_ITEM)
           (fm_effect_owner mode) (note_clause clause fc)
         else contract_clause P (fm_member mode) (fm_member_contracts mode)
           (fm_effect_owner mode) clause_token clause (note_clause clause fc));
       ret (case r of None \<Rightarrow> Inr None | Some fc \<Rightarrow> Inl fc)
     }
   }"

definition function_clause_step ::
  "sol_parsers \<Rightarrow> function_mode \<Rightarrow> SolParameterId \<Rightarrow> SolTypeId \<Rightarrow> function_clauses \<Rightarrow>
   (function_clauses + function_clauses option) parse" where
  "function_clause_step P mode first_parameter return_type_id fc = do {
     current \<leftarrow> sol_parser_current;
     authority \<leftarrow> token_text_is current ''authority'';
     if tk_kind current = SOL_TOKEN_IDENTIFIER \<and> authority then do {
       r \<leftarrow> authority_clause (fm_member mode) (fm_member_contracts mode) first_parameter
         return_type_id current fc;
       ret (case r of None \<Rightarrow> Inr None | Some fc \<Rightarrow> Inl fc)
     }
     else ordinary_clause P mode fc
   }"

record function_header =
  fh_name :: SolSpan
  fh_type_parameter :: SolTypeParameterId
  fh_effect_parameter :: SolEffectParameterId
  fh_first_parameter :: SolParameterId
  fh_return_type :: SolSpan
  fh_return_type_id :: SolTypeId

text \<open>From the parameter list to the result type.\<close>

definition function_signature ::
  "sol_parsers \<Rightarrow> (SolParameterId \<times> SolSpan \<times> SolTypeId) option parse" where
  "function_signature P = do {
     paren \<leftarrow> sol_parser_expect SOL_TOKEN_LEFT_PAREN ''expected '(' after the function name'';
     if \<not> paren then ret None
     else do {
       parameters \<leftarrow> sol_parser_parameters P;
       case parameters of
         None \<Rightarrow> ret None
       | Some first_parameter \<Rightarrow> do {
           arrow \<leftarrow> sol_parser_expect SOL_TOKEN_ARROW ''expected '->' after function parameters'';
           if \<not> arrow then ret None
           else do {
             type \<leftarrow> parse_type P;
             ret (map_option (\<lambda>(sp, i). (first_parameter, sp, i)) type)
           }
         }
     }
   }"

definition function_head :: "sol_parsers \<Rightarrow> bool \<Rightarrow> function_header option parse" where
  "function_head P member = do {
     name \<leftarrow> sol_parser_path ''expected a function name'';
     case name of
       None \<Rightarrow> ret None
     | Some name \<Rightarrow> do {
         generics \<leftarrow> sol_parser_generic_parameters (\<not> member) (\<not> member);
         case generics of
           None \<Rightarrow> ret None
         | Some (type_parameter, effect_parameter) \<Rightarrow> do {
             signature \<leftarrow> function_signature P;
             ret (map_option (\<lambda>(first_parameter, sp, i).
               \<lparr> fh_name = name, fh_type_parameter = type_parameter,
                 fh_effect_parameter = effect_parameter, fh_first_parameter = first_parameter,
                 fh_return_type = sp, fh_return_type_id = i \<rparr>) signature)
           }
       }
   }"

text \<open>The body: \<open>None\<close> when the function returns false.\<close>

definition function_body :: "sol_parsers \<Rightarrow> function_mode \<Rightarrow> SolExprId option parse" where
  "function_body P mode = do {
     t \<leftarrow> sol_parser_current;
     if tk_kind t = SOL_TOKEN_LEFT_BRACE then do {
       body \<leftarrow> parse_block P;
       ret (if body = SOL_AST_NONE then None else Some body)
     }
     else if \<not> fm_member mode \<or> fm_member_has_body mode then do {
       sol_parser_error ''SOL-PARSE-001'' t
         (if fm_member mode then ''derived capability members must define function bodies''
          else ''expected a function body'');
       ret None
     }
     else ret (Some SOL_AST_NONE)
   }"

record parsed_function =
  pf_header :: function_header
  pf_clauses :: function_clauses
  pf_body :: SolExprId
  pf_whole :: SolSpan

definition function_rest ::
  "sol_parsers \<Rightarrow> function_mode \<Rightarrow> SolToken \<Rightarrow> function_header \<Rightarrow> parsed_function option parse" where
  "function_rest P mode function_token h = do {
     clauses \<leftarrow> loop None (function_clause_step P mode (fh_first_parameter h) (fh_return_type_id h))
       no_function_clauses;
     case clauses of
       None \<Rightarrow> ret None
     | Some fc \<Rightarrow> do {
         body \<leftarrow> function_body P mode;
         case body of
           None \<Rightarrow> ret None
         | Some body \<Rightarrow> do {
             previous \<leftarrow> previous_token;
             ret (Some \<lparr> pf_header = h, pf_clauses = fc, pf_body = body,
               pf_whole = span (sp_start (tk_span function_token)) (sp_end (tk_span previous)) \<rparr>)
           }
       }
   }"

definition sol_parser_function ::
  "sol_parsers \<Rightarrow> function_mode \<Rightarrow> parsed_function option parse" where
  "sol_parser_function P mode = do {
     function_token \<leftarrow> sol_parser_current;
     ok \<leftarrow> sol_parser_expect SOL_TOKEN_FUNCTION (''expected 'function'' @ quote);
     if \<not> ok then ret None
     else do {
       header \<leftarrow> function_head P (fm_member mode);
       case header of
         None \<Rightarrow> ret None
       | Some h \<Rightarrow> function_rest P mode function_token h
     }
   }"

section \<open>Types and records\<close>

text \<open>The keyword, the name and the generic parameters of a declaration.\<close>

definition declaration_name ::
  "string \<Rightarrow> (SolToken \<times> SolSpan \<times> SolTypeParameterId) option parse" where
  "declaration_name message = do {
     opening \<leftarrow> sol_parser_advance;
     name \<leftarrow> sol_parser_current;
     ok \<leftarrow> sol_parser_expect SOL_TOKEN_IDENTIFIER message;
     if \<not> ok then ret None
     else do {
       generics \<leftarrow> sol_parser_generic_parameters True False;
       ret (map_option (\<lambda>(type_parameter, _). (opening, tk_span name, type_parameter)) generics)
     }
   }"

definition declaration_flavor :: "SolTypeDeclarationFlavor option parse" where
  "declaration_flavor = do {
     flavor_token \<leftarrow> sol_parser_current;
     distinct \<leftarrow> sol_parser_match SOL_TOKEN_DISTINCT;
     if distinct then ret (Some SOL_TYPE_DECLARATION_DISTINCT)
     else do {
       refined \<leftarrow> sol_parser_match SOL_TOKEN_REFINED;
       if refined then ret (Some SOL_TYPE_DECLARATION_REFINED)
       else do {
         sol_parser_error ''SOL-PARSE-001'' flavor_token
           (''expected 'distinct' or 'refined' after '='' @ quote);
         ret None
       }
     }
   }"

text \<open>The clause a refinement predicate becomes: its end and its number.\<close>

definition refinement_clause ::
  "SolToken \<Rightarrow> SolExprId \<Rightarrow> SolSpan \<Rightarrow> (size_t \<times> SolContractClauseId) option parse" where
  "refinement_clause where_token predicate sp = do {
     owner \<leftarrow> item_count;
     clause \<leftarrow> sol_parser_add_contract_clause
       \<lparr> cl_kind = SOL_CONTRACT_REQUIRES,
         cl_span = span (sp_start (tk_span where_token)) (sp_end sp),
         cl_first_condition = SOL_AST_NONE, cl_next = SOL_AST_NONE,
         cl_owner_kind = SOL_CONTRACT_OWNER_TYPE, cl_owner = owner \<rparr>;
     if clause = SOL_AST_NONE then ret None
     else do {
       condition \<leftarrow> sol_parser_add_contract_condition
         \<lparr> cc_outcome = SOL_CONTRACT_OUTCOME_ALWAYS, cc_span = sp, cc_expression = predicate,
           cc_next = SOL_AST_NONE, cc_owner_clause = clause \<rparr>;
       if condition = SOL_AST_NONE then ret None
       else do {
         set_first_condition clause condition;
         ret (Some (sp_end sp, clause))
       }
     }
   }"

definition refinement_predicate :: "sol_parsers \<Rightarrow> (size_t \<times> SolContractClauseId) option parse" where
  "refinement_predicate P = do {
     where_token \<leftarrow> sol_parser_current;
     ok \<leftarrow> sol_parser_expect SOL_TOKEN_WHERE ''expected 'where' after the refined representation'';
     if \<not> ok then ret None
     else do {
       t \<leftarrow> sol_parser_current;
       if sol_parser_is_declaration_start (tk_kind t) then do {
         sol_parser_error ''SOL-PARSE-011'' t ''expected a refinement predicate'';
         ret None
       }
       else do {
         predicate \<leftarrow> with_context SOL_PARSER_CONTRACT_REQUIRES (parse_expression P 1);
         if predicate = SOL_AST_NONE then ret None
         else do {
           x \<leftarrow> expression_at predicate;
           if ex_kind x = SOL_EXPR_ERROR then ret None
           else refinement_clause where_token predicate (ex_span x)
         }
       }
     }
   }"

definition reject_distinct_predicate :: "bool parse" where
  "reject_distinct_predicate = do {
     t \<leftarrow> sol_parser_current;
     if tk_kind t = SOL_TOKEN_WHERE then do {
       sol_parser_error ''SOL-PARSE-001'' t
         ''distinct type declarations cannot have refinement predicates'';
       ret False
     }
     else ret True
   }"

definition reject_using :: "bool parse" where
  "reject_using = do {
     trailing \<leftarrow> sol_parser_current;
     using_text \<leftarrow> token_text_is trailing ''using'';
     if tk_kind trailing = SOL_TOKEN_IDENTIFIER \<and> using_text then do {
       sol_parser_error ''SOL-PARSE-001'' trailing ''type declarations do not support 'using' clauses'';
       ret False
     }
     else ret True
   }"

text \<open>The end of the declaration and the clause of its predicate.\<close>

definition type_predicate ::
  "sol_parsers \<Rightarrow> SolTypeDeclarationFlavor \<Rightarrow> SolTypeId \<Rightarrow>
   (size_t \<times> SolContractClauseId) option parse" where
  "type_predicate P flavor representation = do {
     type \<leftarrow> type_at representation;
     if flavor = SOL_TYPE_DECLARATION_REFINED then refinement_predicate P
     else do {
       ok \<leftarrow> reject_distinct_predicate;
       ret (if ok then Some (sp_end (ty_span type), SOL_AST_NONE) else None)
     }
   }"

text \<open>A declaration that parsed: the fields of \<open>SolSyntaxItem\<close> its kind sets.\<close>

definition empty_item :: "SolItemKind \<Rightarrow> SolSyntaxItem" where
  "empty_item kind =
     \<lparr> it_kind = kind, it_flavor = SOL_TYPE_DECLARATION_NONE, it_name = no_span,
       it_span = no_span, it_stable_identity = no_span, it_is_public = False,
       it_is_entrypoint = False, it_body = SOL_AST_NONE, it_first_parameter = SOL_AST_NONE,
       it_return_type = no_span, it_return_type_id = SOL_AST_NONE,
       it_first_field = SOL_AST_NONE, it_first_variant = SOL_AST_NONE, it_is_open = False,
       it_first_effect = SOL_AST_NONE, it_has_effect_clause = False,
       it_first_contract = SOL_AST_NONE, it_representation_type = SOL_AST_NONE,
       it_first_member = SOL_AST_NONE, it_result_authority_parameter = SOL_AST_NONE,
       it_capability_source = SOL_AST_NONE, it_first_type_parameter = SOL_AST_NONE,
       it_first_effect_parameter = SOL_AST_NONE, it_trait_name = no_span,
       it_implementation_type = SOL_AST_NONE, it_first_trait_method = SOL_AST_NONE \<rparr>"

text \<open>From the representation type on.\<close>

definition type_representation ::
  "sol_parsers \<Rightarrow> SolToken \<Rightarrow> SolSpan \<Rightarrow> SolTypeParameterId \<Rightarrow> SolTypeDeclarationFlavor \<Rightarrow>
   SolSyntaxItem option parse" where
  "type_representation P opening name type_parameter flavor = do {
     type \<leftarrow> parse_type P;
     case type of
       None \<Rightarrow> ret None
     | Some (_, representation) \<Rightarrow> do {
         predicate \<leftarrow> type_predicate P flavor representation;
         case predicate of
           None \<Rightarrow> ret None
         | Some (stop, contract) \<Rightarrow> do {
             ok \<leftarrow> reject_using;
             ret (if ok then Some ((empty_item SOL_ITEM_TYPE)
               \<lparr>it_flavor := flavor, it_name := name,
                it_span := span (sp_start (tk_span opening)) stop,
                it_first_contract := contract, it_representation_type := representation,
                it_first_type_parameter := type_parameter\<rparr>) else None)
           }
       }
   }"

definition sol_parser_type_declaration :: "sol_parsers \<Rightarrow> SolSyntaxItem option parse" where
  "sol_parser_type_declaration P = do {
     head \<leftarrow> declaration_name ''expected a type name'';
     case head of
       None \<Rightarrow> ret None
     | Some (opening, name, type_parameter) \<Rightarrow> do {
         equal \<leftarrow> sol_parser_expect SOL_TOKEN_EQUAL ''expected '=' after the type name'';
         if \<not> equal then ret None
         else do {
           flavor \<leftarrow> declaration_flavor;
           case flavor of
             None \<Rightarrow> ret None
           | Some flavor \<Rightarrow> type_representation P opening name type_parameter flavor
         }
       }
   }"

text \<open>The span from the opening keyword to the token before the cursor.\<close>

definition span_to_previous :: "SolToken \<Rightarrow> SolSpan parse" where
  "span_to_previous opening = do {
     previous \<leftarrow> previous_token;
     ret (span (sp_start (tk_span opening)) (sp_end (tk_span previous)))
   }"

definition sol_parser_record :: "sol_parsers \<Rightarrow> SolSyntaxItem option parse" where
  "sol_parser_record P = do {
     head \<leftarrow> declaration_name ''expected a record name'';
     case head of
       None \<Rightarrow> ret None
     | Some (opening, name, type_parameter) \<Rightarrow> do {
         brace \<leftarrow> sol_parser_expect SOL_TOKEN_LEFT_BRACE ''expected '{' after the record name'';
         if \<not> brace then ret None
         else do {
           fields \<leftarrow> sol_parser_named_type_list P SOL_TOKEN_RIGHT_BRACE;
           case fields of
             None \<Rightarrow> ret None
           | Some first_field \<Rightarrow> do {
               whole \<leftarrow> span_to_previous opening;
               ret (Some ((empty_item SOL_ITEM_RECORD)
                 \<lparr>it_name := name, it_span := whole, it_first_field := first_field,
                  it_first_type_parameter := type_parameter\<rparr>))
             }
         }
       }
   }"

section \<open>Enums\<close>

text \<open>The fields of a variant with the end of its span.\<close>

definition variant_fields :: "sol_parsers \<Rightarrow> SolToken \<Rightarrow> (SolFieldId \<times> size_t) option parse" where
  "variant_fields P name = do {
     paren \<leftarrow> sol_parser_match SOL_TOKEN_LEFT_PAREN;
     if \<not> paren then ret (Some (SOL_AST_NONE, sp_end (tk_span name)))
     else do {
       fields \<leftarrow> sol_parser_named_type_list P SOL_TOKEN_RIGHT_PAREN;
       case fields of
         None \<Rightarrow> ret None
       | Some first_field \<Rightarrow> do {
           previous \<leftarrow> previous_token;
           ret (Some (first_field, sp_end (tk_span previous)))
         }
     }
   }"

definition variant_step ::
  "sol_parsers \<Rightarrow> SolVariantId \<times> SolVariantId \<Rightarrow>
   (SolVariantId \<times> SolVariantId + SolVariantId option) parse" where
  "variant_step P l = do {
     name \<leftarrow> sol_parser_current;
     ok \<leftarrow> sol_parser_expect SOL_TOKEN_IDENTIFIER ''expected an enum variant'';
     if \<not> ok then ret (Inr None)
     else do {
       parsed \<leftarrow> variant_fields P name;
       case parsed of
         None \<Rightarrow> ret (Inr None)
       | Some (first_field, stop) \<Rightarrow> do {
           owner \<leftarrow> item_count;
           added \<leftarrow> add_to_list sol_parser_add_variant link_variant l
             \<lparr> va_name = tk_span name, va_span = span (sp_start (tk_span name)) stop,
               va_first_field = first_field, va_next = SOL_AST_NONE, va_owner_item = owner \<rparr>;
           case added of
             None \<Rightarrow> ret (Inr None)
           | Some l \<Rightarrow> do {
               tail \<leftarrow> list_separator SOL_TOKEN_RIGHT_BRACE ''expected ',' between enum variants'';
               ret (list_round l tail)
             }
         }
     }
   }"

definition enum_variants :: "sol_parsers \<Rightarrow> SolVariantId option parse" where
  "enum_variants P = do {
     brace \<leftarrow> sol_parser_expect SOL_TOKEN_LEFT_BRACE ''expected '{' after the enum name'';
     if \<not> brace then ret None
     else do {
       empty \<leftarrow> sol_parser_match SOL_TOKEN_RIGHT_BRACE;
       if empty then ret (Some SOL_AST_NONE)
       else loop None (variant_step P) (SOL_AST_NONE, SOL_AST_NONE)
     }
   }"

definition sol_parser_enum :: "sol_parsers \<Rightarrow> bool \<Rightarrow> SolSyntaxItem option parse" where
  "sol_parser_enum P is_open = do {
     head \<leftarrow> declaration_name ''expected an enum name'';
     case head of
       None \<Rightarrow> ret None
     | Some (opening, name, type_parameter) \<Rightarrow> do {
         variants \<leftarrow> enum_variants P;
         case variants of
           None \<Rightarrow> ret None
         | Some first_variant \<Rightarrow> do {
             whole \<leftarrow> span_to_previous opening;
             ret (Some ((empty_item SOL_ITEM_ENUM)
               \<lparr>it_name := name, it_span := whole, it_first_variant := first_variant,
                it_is_open := is_open, it_first_type_parameter := type_parameter\<rparr>))
           }
       }
   }"

end
