(* ===== verification/Sol_Parse.thy ===== *)
theory Sol_Parse
  imports Sol_ParserItem
begin

text \<open>
  \<open>src/src/parser.c\<close>: capabilities, traits and implementations, annotations, declarations
  with their recovery, the module header and \<open>sol_parse\<close>.
\<close>

section \<open>Giving entries back\<close>

text \<open>
  A production that may fail saves the counts of the arrays and restores them on failure;
  \<open>mark\<close> is the tree at the time of saving. The three lists of arrays are those of
  \<open>sol_parser_trait_like\<close>, \<open>sol_parser_capability\<close> and \<open>sol_parser_declaration\<close>.
\<close>

definition back_to :: "SolSyntaxTree \<Rightarrow> 'a table_get \<Rightarrow> 'a table_upd \<Rightarrow> SolSyntaxTree \<Rightarrow> SolSyntaxTree" where
  "back_to mark get upd = upd (truncate_to (tb_count (get mark)))"

definition restore_method :: "SolSyntaxTree \<Rightarrow> SolSyntaxTree \<Rightarrow> SolSyntaxTree" where
  "restore_method mark =
     back_to mark tr_match_arms tr_match_arms_update \<circ>
     back_to mark tr_pattern_bindings tr_pattern_bindings_update \<circ>
     back_to mark tr_patterns tr_patterns_update \<circ>
     back_to mark tr_arguments tr_arguments_update \<circ>
     back_to mark tr_statements tr_statements_update \<circ>
     back_to mark tr_expressions tr_expressions_update \<circ>
     back_to mark tr_effects tr_effects_update \<circ>
     back_to mark tr_type_arguments tr_type_arguments_update \<circ>
     back_to mark tr_types tr_types_update \<circ>
     back_to mark tr_parameters tr_parameters_update"

definition restore_member :: "SolSyntaxTree \<Rightarrow> SolSyntaxTree \<Rightarrow> SolSyntaxTree" where
  "restore_member mark =
     back_to mark tr_contract_conditions tr_contract_conditions_update \<circ>
     back_to mark tr_contract_clauses tr_contract_clauses_update \<circ>
     back_to mark tr_effect_parameters tr_effect_parameters_update \<circ>
     back_to mark tr_type_parameters tr_type_parameters_update \<circ>
     restore_method mark"

definition restore_declaration :: "SolSyntaxTree \<Rightarrow> SolSyntaxTree \<Rightarrow> SolSyntaxTree" where
  "restore_declaration mark =
     back_to mark tr_trait_methods tr_trait_methods_update \<circ>
     back_to mark tr_capability_members tr_capability_members_update \<circ>
     back_to mark tr_variants tr_variants_update \<circ>
     back_to mark tr_fields tr_fields_update \<circ>
     restore_member mark"

section \<open>Capabilities\<close>

text \<open>\<open>derives_from name: type\<close>: whether it is there, with the parameter that stands for it.\<close>

definition capability_source :: "sol_parsers \<Rightarrow> (bool \<times> SolParameterId) option parse" where
  "capability_source P = do {
     derives \<leftarrow> sol_parser_current;
     derived \<leftarrow> token_text_is derives ''derives_from'';
     if \<not> (tk_kind derives = SOL_TOKEN_IDENTIFIER \<and> derived) then ret (Some (False, SOL_AST_NONE))
     else do {
       sol_parser_advance;
       entry \<leftarrow> named_type P (''expected a source name after 'derives_from'' @ quote)
         ''expected ':' after the capability source name'' (ret SOL_ACCESS_OWNED);
       case entry of
         None \<Rightarrow> ret None
       | Some (name, access, type_span, type_id) \<Rightarrow> do {
           type \<leftarrow> type_at type_id;
           when_do (\<not> is_direct_capability type) (sol_parser_error ''SOL-PARSE-016'' derives
             ''a derived capability source must have a direct capability type'');
           parameter \<leftarrow> sol_parser_add_parameter
             \<lparr> pa_name = tk_span name, pa_type = type_span, pa_type_id = type_id,
               pa_next = SOL_AST_NONE, pa_access = access \<rparr>;
           ret (if parameter = SOL_AST_NONE then None else Some (True, parameter))
         }
     }
   }"

definition make_member :: "size_t \<Rightarrow> parsed_function \<Rightarrow> SolCapabilityMember" where
  "make_member owner f =
     \<lparr> cm_name = fh_name (pf_header f), cm_span = pf_whole f,
       cm_first_parameter = fh_first_parameter (pf_header f),
       cm_return_type = fh_return_type (pf_header f),
       cm_return_type_id = fh_return_type_id (pf_header f),
       cm_first_effect = fc_first_effect (pf_clauses f),
       cm_first_contract = fc_first_contract (pf_clauses f), cm_body = pf_body f,
       cm_next = SOL_AST_NONE, cm_owner_item = owner,
       cm_has_effect_clause = fc_has_effect_clause (pf_clauses f),
       cm_result_authority_from_self = fc_authority_from_self (pf_clauses f) \<rparr>"

definition skip_member :: "SolSyntaxTree \<Rightarrow> unit parse" where
  "skip_member mark = do {
     modify (ps_tree_update (restore_member mark));
     kind \<leftarrow> sol_parser_kind;
     if kind \<noteq> SOL_TOKEN_EOF \<and> kind \<noteq> SOL_TOKEN_FUNCTION \<and> kind \<noteq> SOL_TOKEN_RIGHT_BRACE
     then do { sol_parser_advance; ret () } else ret ()
   }"

definition member_step ::
  "sol_parsers \<Rightarrow> bool \<Rightarrow> SolCapabilityMemberId \<times> SolCapabilityMemberId \<Rightarrow>
   (SolCapabilityMemberId \<times> SolCapabilityMemberId + SolCapabilityMemberId option) parse" where
  "member_step P derived l = do {
     kind \<leftarrow> sol_parser_kind;
     if kind = SOL_TOKEN_RIGHT_BRACE \<or> kind = SOL_TOKEN_EOF then ret (Inr (Some (fst l)))
     else do {
       mark \<leftarrow> gets ps_tree;
       parsed \<leftarrow> sol_parser_function P
         \<lparr> fm_member = True, fm_member_has_body = derived, fm_member_contracts = True,
           fm_effect_owner_kind = SOL_EFFECT_OWNER_CAPABILITY_MEMBER,
           fm_effect_owner = tb_count (tr_capability_members mark) \<rparr>;
       case parsed of
         None \<Rightarrow> do { skip_member mark; ret (Inl l) }
       | Some f \<Rightarrow> do {
           owner \<leftarrow> item_count;
           added \<leftarrow> add_to_list sol_parser_add_capability_member link_capability_member l
             (make_member owner f);
           ret (case added of None \<Rightarrow> Inr None | Some l \<Rightarrow> Inl l)
         }
     }
   }"

text \<open>From the opening brace to the closing one.\<close>

definition capability_members ::
  "sol_parsers \<Rightarrow> bool \<Rightarrow> SolCapabilityMemberId option parse" where
  "capability_members P derived = do {
     brace \<leftarrow> sol_parser_expect SOL_TOKEN_LEFT_BRACE ''expected '{' after the capability name'';
     if \<not> brace then ret None
     else do {
       members \<leftarrow> loop None (member_step P derived) (SOL_AST_NONE, SOL_AST_NONE);
       case members of
         None \<Rightarrow> ret None
       | Some first_member \<Rightarrow> do {
           closed \<leftarrow> sol_parser_expect SOL_TOKEN_RIGHT_BRACE
             ''expected '}' after capability members'';
           ret (if closed then Some first_member else None)
         }
     }
   }"

definition capability_rest ::
  "sol_parsers \<Rightarrow> SolToken \<Rightarrow> SolSpan \<Rightarrow> SolSyntaxItem option parse" where
  "capability_rest P opening name = do {
     source \<leftarrow> capability_source P;
     case source of
       None \<Rightarrow> ret None
     | Some (derived, parameter) \<Rightarrow> do {
         members \<leftarrow> capability_members P derived;
         case members of
           None \<Rightarrow> ret None
         | Some first_member \<Rightarrow> do {
             whole \<leftarrow> span_to_previous opening;
             ret (Some ((empty_item SOL_ITEM_CAPABILITY)
               \<lparr>it_name := name, it_span := whole, it_first_member := first_member,
                it_capability_source := parameter\<rparr>))
           }
       }
   }"

definition sol_parser_capability :: "sol_parsers \<Rightarrow> SolSyntaxItem option parse" where
  "sol_parser_capability P = do {
     opening \<leftarrow> sol_parser_advance;
     name \<leftarrow> sol_parser_current;
     ok \<leftarrow> sol_parser_expect SOL_TOKEN_IDENTIFIER ''expected a capability name'';
     if \<not> ok then ret None
     else do {
       generics \<leftarrow> sol_parser_generic_parameters False False;
       case generics of
         None \<Rightarrow> ret None
       | Some _ \<Rightarrow> capability_rest P opening (tk_span name)
     }
   }"

section \<open>Traits and implementations\<close>

text \<open>The nesting counters of the recovery and whether the loop is at its first token.\<close>

definition recover_method_step ::
  "size_t \<times> size_t \<times> size_t \<times> bool \<Rightarrow> (size_t \<times> size_t \<times> size_t \<times> bool + unit) parse" where
  "recover_method_step = (\<lambda>(braces, parentheses, brackets, at_start). do {
     kind \<leftarrow> sol_parser_kind;
     let top_level = (braces = 0 \<and> parentheses = 0 \<and> brackets = 0);
     if kind = SOL_TOKEN_EOF \<or> kind = SOL_TOKEN_FUNCTION \<and> top_level \<and> \<not> at_start
       \<or> kind = SOL_TOKEN_RIGHT_BRACE \<and> top_level
     then ret (Inr ())
     else do {
       sol_parser_advance;
       ret (Inl (
         (if kind = SOL_TOKEN_LEFT_BRACE then braces + 1
          else if kind = SOL_TOKEN_RIGHT_BRACE \<and> braces \<noteq> 0 then braces - 1 else braces),
         (if kind = SOL_TOKEN_LEFT_PAREN then parentheses + 1
          else if kind = SOL_TOKEN_RIGHT_PAREN \<and> parentheses \<noteq> 0 then parentheses - 1
          else parentheses),
         (if kind = SOL_TOKEN_LEFT_BRACKET then brackets + 1
          else if kind = SOL_TOKEN_RIGHT_BRACKET \<and> brackets \<noteq> 0 then brackets - 1
          else brackets),
         False))
     }
   })"

definition sol_parser_recover_trait_method :: "size_t \<Rightarrow> unit parse" where
  "sol_parser_recover_trait_method method_start = do {
     modify (ps_cursor_update (\<lambda>_. method_start));
     loop () recover_method_step (0, 0, 0, True)
   }"

definition make_method :: "size_t \<Rightarrow> parsed_function \<Rightarrow> SolTraitMethod" where
  "make_method owner f =
     \<lparr> tm_name = fh_name (pf_header f), tm_span = pf_whole f,
       tm_first_parameter = fh_first_parameter (pf_header f),
       tm_return_type = fh_return_type (pf_header f),
       tm_return_type_id = fh_return_type_id (pf_header f),
       tm_first_effect = fc_first_effect (pf_clauses f), tm_body = pf_body f,
       tm_next = SOL_AST_NONE, tm_owner_item = owner,
       tm_has_effect_clause = fc_has_effect_clause (pf_clauses f) \<rparr>"

definition store_method ::
  "parsed_function \<Rightarrow> SolTraitMethodId \<times> SolTraitMethodId \<Rightarrow>
   (SolTraitMethodId \<times> SolTraitMethodId + SolTraitMethodId option) parse" where
  "store_method f l = do {
     when_do (\<not> fc_has_effect_clause (pf_clauses f)) (sol_parser_error ''SOL-PARSE-019''
       \<lparr> tk_kind = SOL_TOKEN_FUNCTION, tk_span = pf_whole f \<rparr>
       ''trait and implementation methods require explicit effects'');
     owner \<leftarrow> item_count;
     added \<leftarrow> add_to_list sol_parser_add_trait_method link_trait_method l (make_method owner f);
     ret (case added of None \<Rightarrow> Inr None | Some l \<Rightarrow> Inl l)
   }"

definition restart_method :: "SolSyntaxTree \<Rightarrow> size_t \<Rightarrow> unit parse" where
  "restart_method mark method_start = do {
     modify (ps_tree_update (restore_method mark));
     sol_parser_recover_trait_method method_start
   }"

definition method_step ::
  "sol_parsers \<Rightarrow> bool \<Rightarrow> SolTraitMethodId \<times> SolTraitMethodId \<Rightarrow>
   (SolTraitMethodId \<times> SolTraitMethodId + SolTraitMethodId option) parse" where
  "method_step P implementation l = do {
     kind \<leftarrow> sol_parser_kind;
     if kind = SOL_TOKEN_RIGHT_BRACE \<or> kind = SOL_TOKEN_EOF then ret (Inr (Some (fst l)))
     else do {
       method_start \<leftarrow> sol_parser_significant_index;
       mark \<leftarrow> gets ps_tree;
       parsed \<leftarrow> sol_parser_function P
         \<lparr> fm_member = True, fm_member_has_body = implementation, fm_member_contracts = False,
           fm_effect_owner_kind = SOL_EFFECT_OWNER_TRAIT_METHOD,
           fm_effect_owner = tb_count (tr_trait_methods mark) \<rparr>;
       case parsed of
         None \<Rightarrow> do { restart_method mark method_start; ret (Inl l) }
       | Some f \<Rightarrow> store_method f l
     }
   }"

text \<open>The implemented type with the name of the implementation, or the generics of a trait.\<close>

definition trait_head ::
  "sol_parsers \<Rightarrow> bool \<Rightarrow> SolToken \<Rightarrow> SolToken \<Rightarrow> (SolSpan \<times> SolTypeId) option parse" where
  "trait_head P implementation opening declared =
     (if implementation then do {
        ok \<leftarrow> sol_parser_expect SOL_TOKEN_FOR ''expected 'for' after trait name'';
        if \<not> ok then ret None
        else do {
          target \<leftarrow> parse_type P;
          ret (map_option (\<lambda>(sp, i).
            (span (sp_start (tk_span opening)) (sp_end sp), i)) target)
        }
      }
      else do {
        kind \<leftarrow> sol_parser_kind;
        if kind = SOL_TOKEN_LESS then do {
          generics \<leftarrow> sol_parser_generic_parameters False False;
          ret (map_option (\<lambda>_. (tk_span declared, SOL_AST_NONE)) generics)
        }
        else ret (Some (tk_span declared, SOL_AST_NONE))
      })"

definition trait_methods :: "sol_parsers \<Rightarrow> bool \<Rightarrow> SolTraitMethodId option parse" where
  "trait_methods P implementation = do {
     brace \<leftarrow> sol_parser_expect SOL_TOKEN_LEFT_BRACE ''expected '{' before methods'';
     if \<not> brace then ret None
     else do {
       methods \<leftarrow> loop None (method_step P implementation) (SOL_AST_NONE, SOL_AST_NONE);
       case methods of
         None \<Rightarrow> ret None
       | Some first_method \<Rightarrow> do {
           closed \<leftarrow> sol_parser_expect SOL_TOKEN_RIGHT_BRACE ''expected '}' after methods'';
           ret (if closed then Some first_method else None)
         }
     }
   }"

definition trait_rest ::
  "sol_parsers \<Rightarrow> bool \<Rightarrow> SolToken \<Rightarrow> SolToken \<Rightarrow> SolSyntaxItem option parse" where
  "trait_rest P implementation opening declared = do {
     head \<leftarrow> trait_head P implementation opening declared;
     case head of
       None \<Rightarrow> ret None
     | Some (name, implementation_type) \<Rightarrow> do {
         methods \<leftarrow> trait_methods P implementation;
         case methods of
           None \<Rightarrow> ret None
         | Some first_method \<Rightarrow> do {
             whole \<leftarrow> span_to_previous opening;
             ret (Some ((empty_item
                 (if implementation then SOL_ITEM_IMPLEMENTATION else SOL_ITEM_TRAIT))
               \<lparr>it_name := name, it_span := whole,
                it_trait_name := (if implementation then tk_span declared else no_span),
                it_implementation_type := implementation_type,
                it_first_trait_method := first_method\<rparr>))
           }
       }
   }"

definition sol_parser_trait_like :: "sol_parsers \<Rightarrow> bool \<Rightarrow> SolSyntaxItem option parse" where
  "sol_parser_trait_like P implementation = do {
     opening \<leftarrow> sol_parser_advance;
     declared \<leftarrow> sol_parser_current;
     ok \<leftarrow> sol_parser_expect SOL_TOKEN_IDENTIFIER
       (if implementation then ''expected a trait name after 'implementation'' @ quote
        else ''expected a trait name'');
     if \<not> ok then ret None else trait_rest P implementation opening declared
   }"

section \<open>Annotations\<close>

datatype SolAnnotationKind = SOL_ANNOTATION_OTHER | SOL_ANNOTATION_STABLE | SOL_ANNOTATION_ENTRY

record SolParsedAnnotation =
  an_kind :: SolAnnotationKind
  an_argument :: SolSpan
  an_span :: SolSpan

definition no_annotation :: SolParsedAnnotation where
  "no_annotation = \<lparr> an_kind = SOL_ANNOTATION_OTHER, an_argument = no_span, an_span = no_span \<rparr>"

definition reject_entry_arguments :: "unit parse" where
  "reject_entry_arguments = do {
     opening \<leftarrow> sol_parser_advance;
     parser_diagnostic ''SOL-PARSE-025'' (tk_span opening) ''@entry does not accept arguments'';
     kind \<leftarrow> sol_parser_kind;
     (if kind \<noteq> SOL_TOKEN_RIGHT_PAREN then do { sol_parser_advance; ret () } else ret ());
     sol_parser_expect SOL_TOKEN_RIGHT_PAREN ''expected ')' after annotation'';
     ret ()
   }"

definition string_annotation :: "SolToken \<Rightarrow> SolParsedAnnotation parse" where
  "string_annotation name = do {
     ok \<leftarrow> sol_parser_expect SOL_TOKEN_LEFT_PAREN ''expected '(' after annotation name'';
     if \<not> ok then ret no_annotation
     else do {
       argument \<leftarrow> sol_parser_current;
       ok \<leftarrow> sol_parser_expect SOL_TOKEN_STRING ''expected a string annotation argument'';
       ok \<leftarrow> and_then ok (sol_parser_expect SOL_TOKEN_RIGHT_PAREN ''expected ')' after annotation'');
       if \<not> ok then ret no_annotation
       else do {
         stable \<leftarrow> token_text_is name ''stable'';
         ret \<lparr> an_kind = (if stable then SOL_ANNOTATION_STABLE else SOL_ANNOTATION_OTHER),
               an_argument = tk_span argument, an_span = tk_span name \<rparr>
       }
     }
   }"

definition sol_parser_annotation :: "SolParsedAnnotation parse" where
  "sol_parser_annotation = do {
     sol_parser_advance;
     name \<leftarrow> sol_parser_current;
     ok \<leftarrow> sol_parser_expect SOL_TOKEN_IDENTIFIER ''expected an annotation name'';
     if \<not> ok then ret no_annotation
     else do {
       entry \<leftarrow> token_text_is name ''entry'';
       if entry then do {
         kind \<leftarrow> sol_parser_kind;
         when_do (kind = SOL_TOKEN_LEFT_PAREN) reject_entry_arguments;
         ret \<lparr> an_kind = SOL_ANNOTATION_ENTRY, an_argument = no_span, an_span = tk_span name \<rparr>
       }
       else string_annotation name
     }
   }"

text \<open>What the annotations of a declaration leave: its stable identity and the entry mark.\<close>

definition note_annotation ::
  "SolParsedAnnotation \<Rightarrow> SolSpan \<times> bool \<Rightarrow> (SolSpan \<times> bool) parse" where
  "note_annotation annotation = (\<lambda>(stable_identity, is_entrypoint).
     case an_kind annotation of
       SOL_ANNOTATION_STABLE \<Rightarrow>
         if sp_start stable_identity \<noteq> sp_end stable_identity then do {
           parser_diagnostic ''SOL-PARSE-020'' (an_argument annotation)
             ''a declaration may have only one @stable annotation'';
           ret (stable_identity, is_entrypoint)
         }
         else ret (an_argument annotation, is_entrypoint)
     | SOL_ANNOTATION_ENTRY \<Rightarrow> do {
         when_do is_entrypoint (parser_diagnostic ''SOL-PARSE-026'' (an_span annotation)
           ''a declaration may have only one @entry annotation'');
         ret (stable_identity, True)
       }
     | SOL_ANNOTATION_OTHER \<Rightarrow> ret (stable_identity, is_entrypoint))"

definition annotation_step :: "SolSpan \<times> bool \<Rightarrow> (SolSpan \<times> bool + SolSpan \<times> bool) parse" where
  "annotation_step l = do {
     kind \<leftarrow> sol_parser_kind;
     if kind \<noteq> SOL_TOKEN_AT then ret (Inr l)
     else do {
       annotation \<leftarrow> sol_parser_annotation;
       l \<leftarrow> note_annotation annotation l;
       ret (Inl l)
     }
   }"

section \<open>Declarations\<close>

definition needs_declaration :: "SolTokenKind \<Rightarrow> SolTokenKind \<Rightarrow> bool" where
  "needs_declaration kind next \<longleftrightarrow>
     kind \<noteq> SOL_TOKEN_EOF \<and>
     (\<not> sol_parser_is_declaration_start kind \<or>
      kind = SOL_TOKEN_FUNCTION \<and> next = SOL_TOKEN_LEFT_PAREN)"

definition recover_declaration_step :: "unit \<Rightarrow> (unit + unit) parse" where
  "recover_declaration_step l = do {
     kind \<leftarrow> sol_parser_kind;
     next \<leftarrow> sol_parser_peek_kind 1;
     if needs_declaration kind next then do { sol_parser_advance; ret (Inl ()) } else ret (Inr ())
   }"

definition sol_parser_recover_declaration :: "size_t \<Rightarrow> unit parse" where
  "sol_parser_recover_declaration failed_at = do {
     ensure_progress failed_at;
     loop () recover_declaration_step ()
   }"

definition function_item :: "parsed_function \<Rightarrow> SolSyntaxItem" where
  "function_item f = (empty_item SOL_ITEM_FUNCTION)
     \<lparr>it_name := fh_name (pf_header f), it_span := pf_whole f, it_body := pf_body f,
      it_first_parameter := fh_first_parameter (pf_header f),
      it_return_type := fh_return_type (pf_header f),
      it_return_type_id := fh_return_type_id (pf_header f),
      it_first_effect := fc_first_effect (pf_clauses f),
      it_has_effect_clause := fc_has_effect_clause (pf_clauses f),
      it_first_contract := fc_first_contract (pf_clauses f),
      it_result_authority_parameter := fc_authority_parameter (pf_clauses f),
      it_first_type_parameter := fh_type_parameter (pf_header f),
      it_first_effect_parameter := fh_effect_parameter (pf_header f)\<rparr>"

definition function_declaration :: "sol_parsers \<Rightarrow> SolSyntaxItem option parse" where
  "function_declaration P = do {
     owner \<leftarrow> item_count;
     f \<leftarrow> sol_parser_function P
       \<lparr> fm_member = False, fm_member_has_body = False, fm_member_contracts = True,
         fm_effect_owner_kind = SOL_EFFECT_OWNER_ITEM, fm_effect_owner = owner \<rparr>;
     ret (map_option function_item f)
   }"

definition test_declaration ::
  "sol_parsers \<Rightarrow> size_t \<Rightarrow> bool \<Rightarrow> SolSyntaxItem option parse" where
  "test_declaration P start decorated = do {
     test_token \<leftarrow> sol_parser_advance;
     label \<leftarrow> sol_parser_current;
     when_do decorated (parser_diagnostic ''SOL-PARSE-021''
       (span start (sp_end (tk_span test_token)))
       ''test declarations do not accept annotations or modifiers'');
     ok \<leftarrow> sol_parser_expect SOL_TOKEN_STRING ''expected a test label string'';
     if \<not> ok then ret None
     else do {
       body \<leftarrow> parse_expression P 1;
       if body = SOL_AST_NONE then ret None
       else do {
         x \<leftarrow> expression_at body;
         ret (Some ((empty_item SOL_ITEM_TEST)
           \<lparr>it_name := tk_span label, it_body := body,
            it_span := span (sp_start (tk_span test_token)) (sp_end (ex_span x))\<rparr>))
       }
     }
   }"

text \<open>\<open>open\<close> must be followed by \<open>enum\<close>; otherwise the function returns at once.\<close>

definition open_declaration :: "sol_parsers \<Rightarrow> (unit + SolSyntaxItem option) parse" where
  "open_declaration P = do {
     sol_parser_advance;
     t \<leftarrow> sol_parser_current;
     if tk_kind t \<noteq> SOL_TOKEN_ENUM then do {
       sol_parser_error ''SOL-PARSE-001'' t (''expected 'enum' after 'open'' @ quote);
       ret (Inl ())
     }
     else do { item \<leftarrow> sol_parser_enum P True; ret (Inr item) }
   }"

definition closed_declaration ::
  "sol_parsers \<Rightarrow> size_t \<Rightarrow> bool \<Rightarrow> SolSyntaxItem option parse" where
  "closed_declaration P start decorated = do {
     t \<leftarrow> sol_parser_current;
     let kind = tk_kind t;
     if kind = SOL_TOKEN_TYPE then sol_parser_type_declaration P
     else if kind = SOL_TOKEN_RECORD then sol_parser_record P
     else if kind = SOL_TOKEN_ENUM then sol_parser_enum P False
     else if kind = SOL_TOKEN_CAPABILITY then sol_parser_capability P
     else if kind = SOL_TOKEN_TRAIT then sol_parser_trait_like P False
     else if kind = SOL_TOKEN_IMPLEMENTATION then sol_parser_trait_like P True
     else if kind = SOL_TOKEN_FUNCTION then function_declaration P
     else if kind = SOL_TOKEN_TEST then test_declaration P start decorated
     else do {
       sol_parser_error ''SOL-PARSE-003'' t ''expected a declaration'';
       ret None
     }
   }"

text \<open>\<open>Inl\<close> is the early return after \<open>open\<close>.\<close>

definition declaration_item ::
  "sol_parsers \<Rightarrow> size_t \<Rightarrow> bool \<Rightarrow> (unit + SolSyntaxItem option) parse" where
  "declaration_item P start decorated = do {
     kind \<leftarrow> sol_parser_kind;
     if kind = SOL_TOKEN_OPEN then open_declaration P
     else do { item \<leftarrow> closed_declaration P start decorated; ret (Inr item) }
   }"

definition finish_item ::
  "size_t \<Rightarrow> SolSpan \<Rightarrow> bool \<Rightarrow> bool \<Rightarrow> SolSyntaxItem \<Rightarrow> SolSyntaxItem" where
  "finish_item start stable_identity is_entrypoint is_public item =
     (let item = it_span_update (sp_start_update (\<lambda>_. start)) item in
      if it_kind item = SOL_ITEM_TEST then item
      else item\<lparr>it_stable_identity := stable_identity, it_is_entrypoint := is_entrypoint,
                it_is_public := is_public\<rparr>)"

definition declaration_modifiers :: "(bool \<times> bool) parse" where
  "declaration_modifiers = do {
     is_public \<leftarrow> sol_parser_match SOL_TOKEN_PUBLIC;
     if is_public then ret (True, True)
     else do {
       private \<leftarrow> sol_parser_match SOL_TOKEN_PRIVATE;
       ret (False, private)
     }
   }"

definition keep_declaration ::
  "SolSyntaxTree \<Rightarrow> size_t \<Rightarrow> SolSyntaxItem option \<Rightarrow> unit parse" where
  "keep_declaration mark failed_at item =
     (case item of
        Some item \<Rightarrow> do { sol_parser_add_item item; ret () }
      | None \<Rightarrow> do {
          modify (ps_tree_update (restore_declaration mark));
          sol_parser_recover_declaration failed_at
        })"

definition sol_parser_declaration :: "sol_parsers \<Rightarrow> unit parse" where
  "sol_parser_declaration P = do {
     failed_at \<leftarrow> sol_parser_significant_index;
     mark \<leftarrow> gets ps_tree;
     first \<leftarrow> sol_parser_current;
     let start = sp_start (tk_span first);
     (stable_identity, is_entrypoint) \<leftarrow> loop (no_span, False) annotation_step (no_span, False);
     (is_public, has_modifier) \<leftarrow> declaration_modifiers;
     item \<leftarrow> declaration_item P start
       (sp_start stable_identity \<noteq> sp_end stable_identity \<or> is_entrypoint \<or> has_modifier);
     case item of
       Inl _ \<Rightarrow> ret ()
     | Inr item \<Rightarrow> keep_declaration mark failed_at
         (map_option (finish_item start stable_identity is_entrypoint is_public) item)
   }"

section \<open>Header and parser\<close>

definition parse_module :: "unit parse" where
  "parse_module = do {
     module_token \<leftarrow> sol_parser_match SOL_TOKEN_MODULE;
     if \<not> module_token then do {
       t \<leftarrow> sol_parser_current;
       sol_parser_error ''SOL-PARSE-004'' t ''a Sol source file must begin with a module declaration''
     }
     else do {
       path \<leftarrow> sol_parser_path ''expected a module path'';
       case path of
         None \<Rightarrow> ret ()
       | Some path \<Rightarrow> modify (ps_tree_update (tr_module_name_update (\<lambda>_. path)))
     }
   }"

definition parse_edition :: "unit parse" where
  "parse_edition = do {
     modify (ps_tree_update (tr_edition_update (\<lambda>_. 2027)));
     edition_token \<leftarrow> sol_parser_match SOL_TOKEN_EDITION;
     when_do edition_token (do {
       edition \<leftarrow> sol_parser_current;
       ok \<leftarrow> sol_parser_expect SOL_TOKEN_INTEGER ''expected an edition number'';
       supported \<leftarrow> token_text_is edition ''2027'';
       when_do (ok \<and> \<not> supported) (parser_diagnostic ''SOL-PARSE-005'' (tk_span edition)
         ''unsupported edition; this compiler supports edition 2027'')
     })
   }"

definition import_step :: "unit \<Rightarrow> (unit + unit) parse" where
  "import_step l = do {
     use_token \<leftarrow> sol_parser_match SOL_TOKEN_USE;
     if \<not> use_token then ret (Inr ())
     else do {
       first \<leftarrow> sol_parser_current;
       parsed \<leftarrow> sol_parser_path_components ''expected an import path'';
       case parsed of
         None \<Rightarrow> ret (Inl ())
       | Some (path, component_count, complete) \<Rightarrow> do {
           when_do (complete \<and> component_count < 2) (sol_parser_error ''SOL-PARSE-001'' first
             ''an import path must include a module and symbol'');
           (if complete \<and> 2 \<le> component_count
            then do { sol_parser_add_import \<lparr> im_path = path \<rparr>; ret () } else ret ());
           ret (Inl ())
         }
     }
   }"

definition sol_parser_header :: "unit parse" where
  "sol_parser_header = do {
     parse_module;
     parse_edition;
     loop () import_step ()
   }"

definition declarations_step :: "sol_parsers \<Rightarrow> unit \<Rightarrow> (unit + unit) parse" where
  "declarations_step P l = do {
     kind \<leftarrow> sol_parser_kind;
     allocation_failed \<leftarrow> gets ps_allocation_failed;
     if kind = SOL_TOKEN_EOF \<or> allocation_failed then ret (Inr ())
     else do { sol_parser_declaration P; ret (Inl ()) }
   }"

definition parse_file :: "sol_parsers \<Rightarrow> bool parse" where
  "parse_file P = do {
     sol_parser_header;
     loop () (declarations_step P) ();
     allocation_failed \<leftarrow> gets ps_allocation_failed;
     if allocation_failed then do {
       parser_diagnostic ''SOL-INTERNAL-001'' no_span
         ''out of memory while constructing the syntax tree'';
       ret False
     }
     else do {
       ds \<leftarrow> gets ps_diagnostics;
       ret (\<not> dgs_allocation_failed ds)
     }
   }"

definition parser_init ::
  "SolSource \<Rightarrow> SolToken list \<Rightarrow> SolSyntaxTree \<Rightarrow> SolDiagnostics \<Rightarrow> sol_env \<Rightarrow> SolParser" where
  "parser_init src ts tree ds env =
     \<lparr> ps_source = src, ps_tokens = ts, ps_tree = tree, ps_diagnostics = ds, ps_cursor = 0,
       ps_type_depth = 0, ps_expression_depth = 0, ps_loop_depth = 0,
       ps_contract_context = SOL_PARSER_CONTRACT_NONE, ps_suppress_record_literal = False,
       ps_allocation_failed = False, ps_env = env, ps_trap = None \<rparr>"

text \<open>
  A production calls another one at most once without consuming a token in between, so a
  call depth of twice the number of tokens is enough; the theorems show it.
\<close>

definition parser_depth :: "SolToken list \<Rightarrow> nat" where
  "parser_depth ts = 2 * length ts + 2"

definition sol_parse ::
  "SolSource \<Rightarrow> SolTokens \<Rightarrow> SolSyntaxTree \<Rightarrow> SolDiagnostics \<Rightarrow> sol_env \<Rightarrow> bool \<times> SolParser" where
  "sol_parse src ts tree ds env =
     run_state (parse_file (sol_parsers_upto (parser_depth (tks_items ts))))
       (parser_init src (tks_items ts) tree ds env)"

end
