(* ===== verification/Sol_ParserUniform.thy ===== *)
theory Sol_ParserUniform
  imports Sol_Parse
begin

text \<open>
  What the parser builds does not depend on its diagnostics or on its memory, short of running
  out of it. \<open>uniform m\<close> relates two runs of \<open>m\<close> from states that differ only in their
  diagnostics and their resources: unless one of them has failed to allocate, they return the same
  result and end in states that differ only there. The rules walk over the productions of
  \<open>src/src/parser.c\<close> as the rules of the program logic do.
\<close>

named_theorems uniform \<open>rules of the judgement, one per construct and operation\<close>

section \<open>Judgement\<close>

text \<open>A state without its diagnostics and resources.\<close>

definition visible :: "SolParser \<Rightarrow> SolParser" where
  "visible s = s\<lparr>ps_diagnostics := sol_diagnostics_init, ps_env := plain_env\<rparr>"

definition uniform :: "'a parse \<Rightarrow> bool" where
  "uniform m \<longleftrightarrow> (\<forall>s t x s' y t'.
     run_state m s = (x, s') \<longrightarrow> run_state m t = (y, t') \<longrightarrow> visible s = visible t \<longrightarrow>
     (ps_allocation_failed s \<longrightarrow> ps_allocation_failed s') \<and>
     (ps_allocation_failed s' \<or> ps_allocation_failed t' \<or> x = y \<and> visible s' = visible t'))"

lemma uniformI:
  assumes "\<And>s t x s' y t'. run_state m s = (x, s') \<Longrightarrow> run_state m t = (y, t') \<Longrightarrow>
      visible s = visible t \<Longrightarrow>
      (ps_allocation_failed s \<longrightarrow> ps_allocation_failed s') \<and>
      (ps_allocation_failed s' \<or> ps_allocation_failed t' \<or> x = y \<and> visible s' = visible t')"
  shows "uniform m"
  using assms unfolding uniform_def by blast

lemma uniform_same:
  assumes "uniform m" "run_state m s = (x, s')" "run_state m t = (y, t')" "visible s = visible t"
    and "\<not> ps_allocation_failed s'" "\<not> ps_allocation_failed t'"
  shows "x = y \<and> visible s' = visible t'"
  using assms unfolding uniform_def by blast

lemma uniform_sticks:
  assumes "uniform m" "run_state m s = (x, s')" "ps_allocation_failed s"
  shows "ps_allocation_failed s'"
  using assms unfolding uniform_def by blast

section \<open>Constructs\<close>

lemma uniform_ret [uniform]: "uniform (ret x)"
  by (simp add: uniform_def)

lemma uniform_bind [uniform]:
  assumes "uniform m" and "\<And>x. uniform (f x)"
  shows "uniform (State_Monad.bind m f)"
proof (rule uniformI)
  fix s t x s' y t'
  assume runs: "run_state (State_Monad.bind m f) s = (x, s')" "run_state (State_Monad.bind m f) t = (y, t')"
    and "visible s = visible t"
  obtain u s1 v t1 where m: "run_state m s = (u, s1)" "run_state m t = (v, t1)" by fastforce
  with runs have f: "run_state (f u) s1 = (x, s')" "run_state (f v) t1 = (y, t')" by auto
  show "(ps_allocation_failed s \<longrightarrow> ps_allocation_failed s') \<and>
      (ps_allocation_failed s' \<or> ps_allocation_failed t' \<or> x = y \<and> visible s' = visible t')"
    using uniform_same [OF assms(1) m \<open>visible s = visible t\<close>] uniform_sticks [OF assms(1) m(1)]
      uniform_sticks [OF assms(2) f(1)] uniform_sticks [OF assms(2) f(2)]
      uniform_same [OF assms(2) f(1)] f(2) by blast
qed

lemma uniform_if [uniform]: "uniform m \<Longrightarrow> uniform n \<Longrightarrow> uniform (if b then m else n)"
  by simp

lemma uniform_let [uniform]: "(\<And>x. uniform (f x)) \<Longrightarrow> uniform (Let x f)"
  by simp

lemma uniform_prod [uniform]: "(\<And>x y. uniform (f x y)) \<Longrightarrow> uniform (case p of (x, y) \<Rightarrow> f x y)"
  by (cases p) simp

lemma uniform_option [uniform]:
  "uniform m \<Longrightarrow> (\<And>x. uniform (f x)) \<Longrightarrow> uniform (case z of None \<Rightarrow> m | Some x \<Rightarrow> f x)"
  by (cases z) simp_all

lemma uniform_sum [uniform]:
  "(\<And>x. uniform (f x)) \<Longrightarrow> (\<And>x. uniform (g x)) \<Longrightarrow> uniform (case z of Inl x \<Rightarrow> f x | Inr x \<Rightarrow> g x)"
  by (cases z) simp_all

lemma uniform_bool [uniform]: "uniform m \<Longrightarrow> uniform n \<Longrightarrow> uniform (case b of True \<Rightarrow> m | False \<Rightarrow> n)"
  by (cases b) simp_all

text \<open>A read of the visible part, and an update that sees and changes only that.\<close>

definition hidden :: "SolDiagnostics \<Rightarrow> sol_env \<Rightarrow> SolParser \<Rightarrow> SolParser" where
  "hidden ds env s = s\<lparr>ps_diagnostics := ds, ps_env := env\<rparr>"

lemma visible_eq: "visible s = visible t \<longleftrightarrow> (\<exists>ds env. t = hidden ds env s)"
proof
  assume "visible s = visible t"
  then have "t = hidden (ps_diagnostics t) (ps_env t) s"
    by (cases s; cases t) (simp add: visible_def hidden_def)
  then show "\<exists>ds env. t = hidden ds env s" by blast
qed (auto simp: visible_def hidden_def)

lemma visible_hidden [simp]: "visible (hidden ds env s) = visible s"
  by (simp add: visible_def hidden_def)

lemma uniform_gets [uniform]: "(\<And>s ds env. f (hidden ds env s) = f s) \<Longrightarrow> uniform (gets f)"
  unfolding uniform_def by (auto simp: visible_eq)

lemma uniform_modify [uniform]:
  assumes "\<And>s ds env. f (hidden ds env s) = hidden ds env (f s)"
    and "\<And>s. ps_allocation_failed s \<Longrightarrow> ps_allocation_failed (f s)"
  shows "uniform (modify f)"
  unfolding uniform_def using assms by (auto simp: visible_eq) blast

text \<open>Diagnostics and allocations: what they change is not seen.\<close>

lemma uniform_diagnostic [uniform]: "uniform (parser_diagnostic code sp message)"
  by (rule uniformI) (auto simp: parser_diagnostic_def lift_env_def visible_def split: prod.splits)

text \<open>A growth that succeeds gives the same capacity; one that fails is noted.\<close>

lemma uniform_grow [uniform]: "uniform (parser_grow initial capacity item)"
  by (rule uniformI)
    (auto simp: parser_grow_def lift_env_def visible_def Let_def split: prod.splits if_splits)

lemma uniform_when [uniform]: "uniform m \<Longrightarrow> uniform (when_do b m)"
  by (simp add: when_do_def uniform)

lemma uniform_and [uniform]: "uniform m \<Longrightarrow> uniform (and_then b m)"
  by (simp add: and_then_def uniform)

lemma uniform_trap [uniform]: "uniform (sol_trap x)"
  unfolding sol_trap_def by (intro uniform) (simp_all add: hidden_def)

lemma uniform_rounds [uniform]:
  assumes "\<And>l. uniform (body l)"
  shows "uniform (loop_rounds n d body l)"
  by (induction n arbitrary: l) (simp_all add: uniform assms)

lemma uniform_loop [uniform]: "(\<And>l. uniform (body l)) \<Longrightarrow> uniform (loop d body l)"
  unfolding loop_def by (intro uniform) (simp_all add: hidden_def)

text \<open>The arrays of the tree.\<close>

lemma uniform_add [uniform]: "(\<And>c. uniform (grow c)) \<Longrightarrow> uniform (table_add get upd grow x)"
  unfolding table_add_def by (intro uniform) (simp_all add: hidden_def)

lemma uniform_read [uniform]: "uniform (table_read get d i)"
  unfolding table_read_def by (intro uniform) (simp_all add: hidden_def)

lemma uniform_write [uniform]: "uniform (table_write get upd i f)"
  unfolding table_write_def by (intro uniform) (simp_all add: hidden_def)

lemma uniform_append [uniform]:
  "(\<And>i j. uniform (link i j)) \<Longrightarrow> uniform (append_node link first latest i)"
  unfolding append_node_def by (intro uniform)

lemma uniform_add_to_list [uniform]:
  "(\<And>x. uniform (add x)) \<Longrightarrow> (\<And>i j. uniform (link i j)) \<Longrightarrow> uniform (add_to_list add link l x)"
  unfolding add_to_list_def by (intro uniform)

section \<open>Tokens and single entries\<close>

lemma uniform_index [uniform]: "uniform sol_parser_significant_index"
  unfolding sol_parser_significant_index_def by (intro uniform) (simp_all add: hidden_def)

lemma uniform_tokens [uniform]:
  "uniform sol_parser_current" "uniform sol_parser_kind" "uniform (sol_parser_peek_kind n)"
  "uniform sol_parser_advance" "uniform (sol_parser_match kind)" "uniform previous_token"
  unfolding sol_parser_match_def sol_parser_advance_def sol_parser_peek_kind_def sol_parser_kind_def
    sol_parser_current_def previous_token_def
  by (intro uniform; simp add: hidden_def)+

lemma uniform_error [uniform]: "uniform (sol_parser_error code t message)"
  unfolding sol_parser_error_def by (intro uniform)

lemma uniform_expect [uniform]:
  "uniform (sol_parser_expect kind message)" "uniform (token_text_is t s)"
  "uniform (sol_parser_expect_identifier_text s message)"
  unfolding sol_parser_expect_identifier_text_def sol_parser_expect_def token_text_is_def
  by (intro uniform; simp add: hidden_def)+

lemma uniform_adds [uniform]:
  "uniform (sol_parser_add_item x0)" "uniform (sol_parser_add_import x1)"
  "uniform (sol_parser_add_expression x2)" "uniform (sol_parser_add_statement x3)"
  "uniform (sol_parser_add_loop_invariant x4)" "uniform (sol_parser_add_argument x5)"
  "uniform (sol_parser_add_parameter x6)" "uniform (sol_parser_add_type x7)"
  "uniform (sol_parser_add_type_argument x8)" "uniform (sol_parser_add_type_parameter x9)"
  "uniform (sol_parser_add_effect_parameter x10)" "uniform (sol_parser_add_field x11)"
  "uniform (sol_parser_add_variant x12)" "uniform (sol_parser_add_pattern x13)"
  "uniform (sol_parser_add_pattern_binding x14)" "uniform (sol_parser_add_match_arm x15)"
  "uniform (sol_parser_add_effect x16)" "uniform (sol_parser_add_capability_member x17)"
  "uniform (sol_parser_add_trait_method x18)" "uniform (sol_parser_add_contract_clause x19)"
  "uniform (sol_parser_add_contract_condition x20)"
  unfolding sol_parser_grow_def
    sol_parser_add_item_def sol_parser_add_import_def sol_parser_add_expression_def
    sol_parser_add_statement_def sol_parser_add_loop_invariant_def sol_parser_add_argument_def
    sol_parser_add_parameter_def sol_parser_add_type_def sol_parser_add_type_argument_def
    sol_parser_add_type_parameter_def sol_parser_add_effect_parameter_def
    sol_parser_add_field_def sol_parser_add_variant_def sol_parser_add_pattern_def
    sol_parser_add_pattern_binding_def sol_parser_add_match_arm_def sol_parser_add_effect_def
    sol_parser_add_capability_member_def sol_parser_add_trait_method_def
    sol_parser_add_contract_clause_def sol_parser_add_contract_condition_def
  by (intro uniform)+

lemma uniform_links [uniform]: "uniform (link_argument i j)" "uniform (link_statement i j)"
  "uniform (link_loop_invariant i j)" "uniform (link_parameter i j)"
  "uniform (link_type_argument i j)" "uniform (link_type_parameter i j)"
  "uniform (link_field i j)" "uniform (link_variant i j)" "uniform (link_pattern_binding i j)"
  "uniform (link_match_arm i j)" "uniform (link_effect i j)"
  "uniform (link_capability_member i j)" "uniform (link_trait_method i j)"
  "uniform (link_contract_clause i j)" "uniform (link_contract_condition i j)"
  unfolding
    link_argument_def link_statement_def link_loop_invariant_def link_parameter_def
    link_type_argument_def link_type_parameter_def link_field_def link_variant_def
    link_pattern_binding_def link_match_arm_def link_effect_def link_capability_member_def
    link_trait_method_def link_contract_clause_def link_contract_condition_def
  by (intro uniform)+

lemma uniform_entries [uniform]:
  "uniform (expression_at i)" "uniform (expression_end i e)" "uniform (expression_start i e)"
  "uniform (type_at i)" "uniform item_count"
  unfolding expression_end_def expression_start_def expression_at_def type_at_def item_count_def
  by (intro uniform; simp add: hidden_def)+

lemma uniform_suppression [uniform]: "uniform m \<Longrightarrow> uniform (with_suppression b m)"
  unfolding with_suppression_def by (intro uniform) (simp_all add: hidden_def)

lemma uniform_path_components [uniform]: "uniform (sol_parser_path_components description)"
  unfolding sol_parser_path_components_def path_step_def by (intro uniform)

lemma uniform_path [uniform]: "uniform (sol_parser_path description)"
  unfolding sol_parser_path_def by (intro uniform)

lemma uniform_line_break [uniform]: "uniform (sol_parser_has_line_break start stop)"
  unfolding sol_parser_has_line_break_def by (intro uniform) (simp_all add: hidden_def)

text \<open>The four mutually recursive productions.\<close>

definition uniform_parsers :: "sol_parsers \<Rightarrow> bool" where
  "uniform_parsers P \<longleftrightarrow> (\<forall>n. uniform (parse_expression P n)) \<and> uniform (parse_block P) \<and>
     uniform (parse_type P) \<and> (\<forall>n b. uniform (parse_pattern P n b))"

lemma uniform_calls [uniform]:
  assumes "uniform_parsers P"
  shows "uniform (parse_expression P n)" "uniform (parse_block P)" "uniform (parse_type P)"
    "uniform (parse_pattern P m b)"
  using assms by (simp_all add: uniform_parsers_def)

section \<open>Types\<close>

lemma uniform_effect_clause [uniform]: "uniform (sol_parser_effect_clause a b)"
  by (intro uniform | simp only:
    sol_parser_effect_clause_def effect_step_def effect_name_step_def effect_argument_step_def
    | simp add: hidden_def)+

lemma uniform_list_separator [uniform]: "uniform (list_separator a b)"
  by (intro uniform | simp only: list_separator_def | simp add: hidden_def)+

lemma uniform_type_arguments [uniform]:
  "uniform_parsers P \<Longrightarrow> uniform (sol_parser_type_arguments P)"
  by (intro uniform | simp only: sol_parser_type_arguments_def
    type_argument_step_def | simp add: hidden_def)+

lemma uniform_parameter_access [uniform]: "uniform parameter_access"
  by (intro uniform | simp only: parameter_access_def | simp add: hidden_def)+

lemma uniform_reject_named_element [uniform]: "uniform reject_named_element"
  by (intro uniform | simp only: reject_named_element_def | simp add: hidden_def)+

lemma uniform_type [uniform]: "uniform_parsers P \<Longrightarrow> uniform (sol_parser_type P)"
  by (intro uniform | simp only:
    sol_parser_type_def type_body_def finish_type_def store_type_def last_significant_token_def
    parenthesized_type_def tuple_type_def tuple_type_step_def path_type_def function_type_def
    function_type_result_def function_type_effects_def function_type_parameters_def
    function_type_step_def
    | simp add: hidden_def)+

lemma uniform_expression_type_arguments [uniform]:
  "uniform sol_parser_expression_type_arguments"
  by (intro uniform | simp only: sol_parser_expression_type_arguments_def | simp add: hidden_def)+

lemma uniform_recover_expression_type_arguments [uniform]:
  "uniform sol_parser_recover_expression_type_arguments"
  by (intro uniform | simp only: sol_parser_recover_expression_type_arguments_def
    recover_type_arguments_step_def | simp add: hidden_def)+

section \<open>Expressions and patterns\<close>

lemma uniform_nested_expression [uniform]:
  "uniform_parsers P \<Longrightarrow> uniform (sol_parser_nested_expression P a)"
  by (intro uniform | simp only: sol_parser_nested_expression_def | simp add: hidden_def)+

lemma uniform_closed_arguments [uniform]: "uniform (closed_arguments a)"
  by (intro uniform | simp only: closed_arguments_def | simp add: hidden_def)+

lemma uniform_unclosed_arguments [uniform]: "uniform (unclosed_arguments a)"
  by (intro uniform | simp only: unclosed_arguments_def | simp add: hidden_def)+

lemma uniform_argument_tail [uniform]: "uniform (argument_tail a b c)"
  by (intro uniform | simp only: argument_tail_def | simp add: hidden_def)+

lemma uniform_argument_name [uniform]: "uniform argument_name"
  by (intro uniform | simp only: argument_name_def | simp add: hidden_def)+

lemma uniform_argument_list [uniform]:
  "uniform_parsers P \<Longrightarrow> uniform (sol_parser_argument_list P a)"
  by (intro uniform | simp only: sol_parser_argument_list_def
    argument_step_def | simp add: hidden_def)+

lemma uniform_record_fields [uniform]:
  "uniform_parsers P \<Longrightarrow> uniform (sol_parser_record_fields P)"
  by (intro uniform | simp only:
    sol_parser_record_fields_def record_field_step_def record_field_value_def
    | simp add: hidden_def)+

lemma uniform_pattern_child [uniform]: "uniform (sol_parser_pattern_child a b c)"
  by (intro uniform | simp only: sol_parser_pattern_child_def | simp add: hidden_def)+

lemma uniform_pattern_list_step [uniform]:
  "uniform_parsers P \<Longrightarrow> uniform (pattern_list_step P a b c)"
  by (intro uniform | simp only: pattern_list_step_def | simp add: hidden_def)+

lemma uniform_pattern_depth [uniform]:
  "uniform_parsers P \<Longrightarrow> uniform (sol_parser_pattern_depth P a b)"
  by (intro uniform | simp only:
    sol_parser_pattern_depth_def tuple_pattern_def identifier_pattern_def name_pattern_def
    positional_elements_def record_pattern_def record_pattern_step_def record_pattern_child_def
    | simp add: hidden_def)+

lemma uniform_synchronize [uniform]:
  "uniform_parsers P \<Longrightarrow> uniform (synchronize_match_arm P n parentheses braces)"
  by (induction n arbitrary: parentheses braces)
    (simp_all add: synchronize_arm_value_def uniform)

lemma uniform_error_expression [uniform]: "uniform (error_expression a)"
  by (intro uniform | simp only: error_expression_def | simp add: hidden_def)+

lemma uniform_reject_named_tuple [uniform]: "uniform (reject_named_tuple a)"
  by (intro uniform | simp only: reject_named_tuple_def | simp add: hidden_def)+

lemma uniform_literal_expression [uniform]: "uniform (literal_expression a b)"
  by (intro uniform | simp only: literal_expression_def | simp add: hidden_def)+

lemma uniform_primary_expression [uniform]:
  "uniform_parsers P \<Longrightarrow> uniform (sol_parser_primary_expression P)"
  by (intro uniform | simp only:
    sol_parser_primary_expression_def region_expression_def identifier_expression_def
    result_expression_def old_expression_def if_expression_def else_expression_def
    unexpected_expression_def sol_parser_handle_expression_def
    sol_parser_parenthesized_expression_def tuple_rest_def tuple_element_step_def
    sol_parser_match_expression_def match_arm_step_def restart_arm_def
    sol_parser_synchronize_match_arm_def arm_body_def pattern_span_def arm_head_def
    sol_parser_pattern_def arm_guard_def
    | simp add: hidden_def)+

section \<open>Statements\<close>

lemma uniform_postfix_node [uniform]: "uniform (postfix_node a b c)"
  by (intro uniform | simp only: postfix_node_def | simp add: hidden_def)+

lemma uniform_postfix_expression [uniform]:
  "uniform_parsers P \<Longrightarrow> uniform (sol_parser_postfix_expression P)"
  by (intro uniform | simp only:
    sol_parser_postfix_expression_def postfix_step_def call_expression_def record_brace_def
    propagate_expression_def record_expression_def malformed_type_arguments_def
    field_expression_def leading_zero_def type_application_def token_end_at_def
    | simp add: hidden_def)+

lemma uniform_expression [uniform]:
  "uniform_parsers P \<Longrightarrow> uniform (sol_parser_expression P a)"
  by (intro uniform | simp only:
    sol_parser_expression_def sol_parser_unary_expression_def binary_step_def
    | simp add: hidden_def)+

lemma uniform_check_multiline_record [uniform]: "uniform (sol_parser_check_multiline_record a)"
  by (intro uniform | simp only: sol_parser_check_multiline_record_def | simp add: hidden_def)+

lemma uniform_ensure_progress [uniform]: "uniform (ensure_progress a)"
  by (intro uniform | simp only: ensure_progress_def | simp add: hidden_def)+

lemma uniform_clause_expression [uniform]:
  "uniform_parsers P \<Longrightarrow> uniform (clause_expression P a b)"
  by (intro uniform | simp only: clause_expression_def | simp add: hidden_def)+

lemma uniform_initializer [uniform]:
  "uniform_parsers P \<Longrightarrow> uniform (initializer P)"
  by (intro uniform | simp only: initializer_def | simp add: hidden_def)+

lemma uniform_loop_statement [uniform]:
  "uniform_parsers P \<Longrightarrow> uniform (loop_statement P a)"
  by (intro uniform | simp only:
    loop_statement_def loop_clause_step_def decreases_clause_step_def
    sol_parser_loop_decreases_clause_def skip_to_brace_step_def invariant_clause_step_def
    sol_parser_loop_invariant_clause_def loop_invariant_step_def invariant_expression_step_def
    invariant_separator_def loop_condition_def
    | simp add: hidden_def)+

lemma uniform_matched [uniform]:
  "uniform_parsers P \<Longrightarrow> (\<And>t. uniform (f t)) \<Longrightarrow> uniform (matched_statement P t f)"
  unfolding matched_statement_def by (intro uniform)

lemma uniform_statement_node [uniform]:
  "uniform_parsers P \<Longrightarrow> uniform (statement_node P a)"
  by (intro uniform | simp only:
    statement_node_def keyword_statement_def modify_statement_def jump_statement_def
    let_statement_def typed_var_def region_statement_def require_statement_def
    unreachable_statement_def unreachable_proof_def skip_braces_step_def
    expression_statement_def
    | simp add: hidden_def)+

lemma uniform_block_expression [uniform]:
  "uniform_parsers P \<Longrightarrow> uniform (sol_parser_block_expression P)"
  by (intro uniform | simp only:
    sol_parser_block_expression_def block_statements_def block_step_def append_statement_def
    sol_parser_statement_def
    | simp add: hidden_def)+

section \<open>Clauses and parameters\<close>

lemma uniform_balanced_block [uniform]: "uniform (sol_parser_balanced_block a)"
  by (intro uniform | simp only: sol_parser_balanced_block_def
    balanced_step_def | simp add: hidden_def)+

lemma uniform_set_first_condition [uniform]: "uniform (set_first_condition a b)"
  by (intro uniform | simp only: set_first_condition_def | simp add: hidden_def)+

lemma uniform_context [uniform]: "uniform m \<Longrightarrow> uniform (with_context c m)"
  unfolding with_context_def by (intro uniform) (simp_all add: hidden_def)

lemma uniform_contract_clause [uniform]:
  "uniform_parsers P \<Longrightarrow> uniform (sol_parser_contract_clause P a b c d)"
  by (intro uniform | simp only:
    sol_parser_contract_clause_def contract_conditions_def set_clause_end_def contract_step_def
    condition_separator_def contract_head_def condition_node_def condition_entry_def
    condition_outcome_def append_condition_def clause_first_condition_def
    | simp add: hidden_def)+

lemma uniform_named_type [uniform]:
  "uniform_parsers P \<Longrightarrow> uniform m \<Longrightarrow> uniform (named_type P s t m)"
  unfolding named_type_def by (intro uniform)

lemma uniform_named_type_list [uniform]:
  "uniform_parsers P \<Longrightarrow> uniform (sol_parser_named_type_list P a)"
  by (intro uniform | simp only: sol_parser_named_type_list_def
    field_step_def | simp add: hidden_def)+

lemma uniform_parameters [uniform]:
  "uniform_parsers P \<Longrightarrow> uniform (sol_parser_parameters P)"
  by (intro uniform | simp only: sol_parser_parameters_def
    parameter_step_def | simp add: hidden_def)+

lemma uniform_skip_generic_step [uniform]: "uniform (skip_generic_step a)"
  by (intro uniform | simp only: skip_generic_step_def | simp add: hidden_def)+

lemma uniform_generic_parameters [uniform]: "uniform (sol_parser_generic_parameters a b)"
  by (intro uniform | simp only:
    sol_parser_generic_parameters_def generic_step_def store_generic_def
    store_type_parameter_def store_effect_parameter_def check_generic_order_def
    generic_name_def generic_bound_def reject_generic_default_def
    | simp add: hidden_def)+

section \<open>Functions and items\<close>

lemma uniform_parameter_at [uniform]: "uniform (parameter_at a)"
  by (intro uniform | simp only: parameter_at_def | simp add: hidden_def)+

lemma uniform_find_parameter [uniform]: "uniform (find_parameter n count name parameter)"
  by (induction n arbitrary: parameter)
    (simp_all add: parameter_at_def same_text_def uniform hidden_def)

lemma uniform_function [uniform]:
  "uniform_parsers P \<Longrightarrow> uniform (sol_parser_function P a)"
  by (intro uniform | simp only:
    sol_parser_function_def function_rest_def function_clause_step_def ordinary_clause_def
    contract_clause_def check_clause_order_def effects_clause_def authority_clause_def
    authority_recover_step_def apply_authority_def parameter_authority_def member_authority_def
    authority_source_def function_body_def function_head_def function_signature_def
    | simp add: hidden_def)+

lemma uniform_declaration_name [uniform]: "uniform (declaration_name a)"
  by (intro uniform | simp only: declaration_name_def | simp add: hidden_def)+

lemma uniform_type_declaration [uniform]:
  "uniform_parsers P \<Longrightarrow> uniform (sol_parser_type_declaration P)"
  by (intro uniform | simp only:
    sol_parser_type_declaration_def type_representation_def type_predicate_def
    refinement_predicate_def refinement_clause_def reject_distinct_predicate_def
    reject_using_def declaration_flavor_def
    | simp add: hidden_def)+

lemma uniform_span_to_previous [uniform]: "uniform (span_to_previous a)"
  by (intro uniform | simp only: span_to_previous_def | simp add: hidden_def)+

lemma uniform_record [uniform]:
  "uniform_parsers P \<Longrightarrow> uniform (sol_parser_record P)"
  by (intro uniform | simp only: sol_parser_record_def | simp add: hidden_def)+

lemma uniform_enum [uniform]:
  "uniform_parsers P \<Longrightarrow> uniform (sol_parser_enum P a)"
  by (intro uniform | simp only:
    sol_parser_enum_def enum_variants_def variant_step_def variant_fields_def
    | simp add: hidden_def)+

section \<open>Files\<close>

lemma uniform_capability [uniform]:
  "uniform_parsers P \<Longrightarrow> uniform (sol_parser_capability P)"
  by (intro uniform | simp only:
    sol_parser_capability_def capability_rest_def capability_source_def capability_members_def
    member_step_def skip_member_def
    | simp add: hidden_def)+

lemma uniform_trait_like [uniform]:
  "uniform_parsers P \<Longrightarrow> uniform (sol_parser_trait_like P a)"
  by (intro uniform | simp only:
    sol_parser_trait_like_def trait_rest_def trait_methods_def method_step_def
    restart_method_def sol_parser_recover_trait_method_def recover_method_step_def
    store_method_def trait_head_def
    | simp add: hidden_def)+

lemma uniform_annotation [uniform]: "uniform sol_parser_annotation"
  by (intro uniform | simp only:
    sol_parser_annotation_def string_annotation_def reject_entry_arguments_def
    | simp add: hidden_def)+

lemma uniform_annotation_kind [uniform]:
  "uniform m \<Longrightarrow> uniform n \<Longrightarrow> uniform k \<Longrightarrow> uniform (case x of
     SOL_ANNOTATION_OTHER \<Rightarrow> m | SOL_ANNOTATION_STABLE \<Rightarrow> n | SOL_ANNOTATION_ENTRY \<Rightarrow> k)"
  by (cases x) simp_all

lemma uniform_declaration [uniform]:
  "uniform_parsers P \<Longrightarrow> uniform (sol_parser_declaration P)"
  by (intro uniform | simp only:
    sol_parser_declaration_def annotation_step_def note_annotation_def
    declaration_modifiers_def keep_declaration_def sol_parser_recover_declaration_def
    recover_declaration_step_def declaration_item_def closed_declaration_def
    function_declaration_def test_declaration_def open_declaration_def
    | simp add: hidden_def)+

lemma uniform_header [uniform]: "uniform sol_parser_header"
  by (intro uniform | simp only:
    sol_parser_header_def import_step_def parse_module_def parse_edition_def
    | simp add: hidden_def)+

lemma uniform_upto: "uniform_parsers (sol_parsers_upto n)"
proof (induction n)
  case 0
  then show ?case by (simp add: uniform_parsers_def uniform)
next
  case (Suc n)
  then show ?case
    by (subst uniform_parsers_def) (simp add: Let_def uniform)
qed

lemma uniform_declarations [uniform]: "uniform_parsers P \<Longrightarrow> uniform (declarations_step P l)"
  unfolding declarations_step_def by (intro uniform) (simp_all add: hidden_def)

text \<open>
  The tree of a parse that succeeds is a function of the source, the tokens and the tree the
  parse started from.
\<close>

lemma visible_tree: "visible s = visible t \<Longrightarrow> ps_tree s = ps_tree t"
  by (auto simp: visible_eq hidden_def)

lemma parse_file_same:
  assumes "uniform_parsers P" and "run_state (parse_file P) s = (True, s')"
    and "run_state (parse_file P) t = (True, t')" and "visible s = visible t"
  shows "ps_tree s' = ps_tree t'"
proof -
  let ?body = "do { sol_parser_header; loop () (declarations_step P) () }"
  have uniform: "uniform ?body" using assms(1) by (intro uniform)
  obtain u v where "run_state ?body s = ((), u)" "run_state ?body t = ((), v)"
    by (metis (full_types) prod.exhaust old.unit.exhaust)
  moreover from this assms(2,3) have "\<not> ps_allocation_failed u" "s' = u"
      "\<not> ps_allocation_failed v" "t' = v"
    by (auto simp: parse_file_def split: prod.splits if_splits)
  ultimately show ?thesis using uniform_same [OF uniform _ _ assms(4)] visible_tree by metis
qed

lemma sol_parse_same:
  assumes "sol_parse src ts tree ds env = (True, s)" and "sol_parse src us tree ds' env' = (True, t)"
    and "tks_items ts = tks_items us"
  shows "ps_tree s = ps_tree t"
  using assms(1,2) unfolding sol_parse_def assms(3)
  by (rule parse_file_same [OF uniform_upto]) (simp add: parser_init_def visible_def)

end
