(* ===== verification/Sol_Formatter.thy ===== *)
theory Sol_Formatter
  imports Sol_Lexer Sol_ParserUniform
begin

text \<open>
  \<open>src/src/formatter.c\<close>: the source formatter. It renders the tokens of a source with canonical
  spacing and indentation, then lexes, parses and renders its own output again and refuses
  an output whose tokens differ or that is not a fixed point. The parser it calls is
  \<open>Sol_Parse.sol_parse\<close>; the results that hold whatever the parser answers are stated for
  \<open>format_with\<close>, which takes it as an argument.
\<close>

section \<open>Output buffer\<close>

record SolFormatted =
  fm_text :: string
  fm_capacity :: size_t

record SolFormatWriter =
  fw_output :: SolFormatted
  fw_allocation_failed :: bool

definition sol_formatted_init :: SolFormatted where
  "sol_formatted_init = \<lparr> fm_text = [], fm_capacity = 0 \<rparr>"

abbreviation fm_length :: "SolFormatted \<Rightarrow> size_t" where
  "fm_length fm \<equiv> length (fm_text fm)"

text \<open>The doubling loop of \<open>sol_format_reserve\<close>; it starts from a positive capacity.\<close>

function grow_capacity :: "size_t \<Rightarrow> size_t \<Rightarrow> size_t" where
  "grow_capacity capacity required =
     (if capacity = 0 \<or> required \<le> capacity then capacity
      else if capacity > SIZE_MAX div 2 then required
      else grow_capacity (capacity * 2) required)"
  by auto
termination by (relation "measure (\<lambda>(capacity, required). required - capacity)") auto

declare grow_capacity.simps [simp del]

definition sol_format_reserve ::
    "SolFormatWriter \<Rightarrow> size_t \<Rightarrow> (sol_env, bool \<times> SolFormatWriter) state" where
  "sol_format_reserve writer additional =
     (let output = fw_output writer in
      if additional > size_sub (size_sub SIZE_MAX (fm_length output)) 1
      then ret (False, writer\<lparr>fw_allocation_failed := True\<rparr>)
      else
        (let required = fm_length output + additional + 1 in
         if required \<le> fm_capacity output then ret (True, writer)
         else
           (let capacity = grow_capacity
                  (if fm_capacity output = 0 then 256 else fm_capacity output) required in
            do {
              grown \<leftarrow> sol_resource_realloc capacity;
              ret (if grown then (True, writer\<lparr>fw_output := output\<lparr>fm_capacity := capacity\<rparr>\<rparr>)
                   else (False, writer\<lparr>fw_allocation_failed := True\<rparr>))
            })))"

definition sol_format_append_bytes ::
    "SolFormatWriter \<Rightarrow> string \<Rightarrow> (sol_env, bool \<times> SolFormatWriter) state" where
  "sol_format_append_bytes writer bytes = do {
     (ok, writer) \<leftarrow> sol_format_reserve writer (length bytes);
     ret (if ok then (True, writer\<lparr>fw_output :=
            (fw_output writer)\<lparr>fm_text := fm_text (fw_output writer) @ bytes\<rparr>\<rparr>)
          else (False, writer))
   }"

definition sol_format_append_byte :: "SolFormatWriter \<Rightarrow> char \<Rightarrow> (sol_env, bool \<times> SolFormatWriter) state" where
  "sol_format_append_byte writer c = sol_format_append_bytes writer [c]"

definition sol_format_at_line_start :: "SolFormatted \<Rightarrow> bool" where
  "sol_format_at_line_start output \<longleftrightarrow> fm_text output = [] \<or> last (fm_text output) = CHR 0x0A"

text \<open>Indentation is written in runs of at most 32 spaces.\<close>

function indent_loop :: "SolFormatWriter \<Rightarrow> size_t \<Rightarrow> (sol_env, bool \<times> SolFormatWriter) state" where
  "indent_loop writer remaining =
     (if remaining = 0 then ret (True, writer)
      else
        (let count = (if remaining < 32 then remaining else 32) in
         do {
           (ok, writer) \<leftarrow> sol_format_append_bytes writer (replicate count CHR 0x20);
           (if ok then indent_loop writer (remaining - count) else ret (False, writer))
         }))"
  by auto
termination by (relation "measure snd") auto

declare indent_loop.simps [simp del]

definition sol_format_indent :: "SolFormatWriter \<Rightarrow> size_t \<Rightarrow> (sol_env, bool \<times> SolFormatWriter) state" where
  "sol_format_indent writer depth =
     (if depth > SIZE_MAX div 4 then ret (False, writer\<lparr>fw_allocation_failed := True\<rparr>)
      else indent_loop writer (depth * 4))"

primrec newlines_loop :: "nat \<Rightarrow> SolFormatWriter \<Rightarrow> (sol_env, bool \<times> SolFormatWriter) state" where
  "newlines_loop 0 writer = ret (True, writer)"
| "newlines_loop (Suc n) writer = do {
     (ok, writer) \<leftarrow> sol_format_append_byte writer CHR 0x0A;
     (if ok then newlines_loop n writer else ret (False, writer))
   }"

definition sol_format_break :: "SolFormatWriter \<Rightarrow> size_t \<Rightarrow> (sol_env, bool \<times> SolFormatWriter) state" where
  "sol_format_break writer count =
     (let wanted = (if count > 2 then 2 else count);
          present = length (takeWhile (\<lambda>c. c = CHR 0x0A) (rev (fm_text (fw_output writer)))) in
      newlines_loop (wanted - present) writer)"

section \<open>Spacing\<close>

datatype SolFormatAngleRole =
    SOL_FORMAT_ANGLE_NONE | SOL_FORMAT_ANGLE_DELIMITER | SOL_FORMAT_ANGLE_COMPARISON

definition sol_format_is_word :: "SolTokenKind \<Rightarrow> bool" where
  "sol_format_is_word kind \<longleftrightarrow>
     kind_index SOL_TOKEN_IDENTIFIER \<le> kind_index kind \<and> kind_index kind \<le> kind_index SOL_TOKEN_CONTINUE"

definition sol_format_is_binary :: "SolTokenKind \<Rightarrow> bool" where
  "sol_format_is_binary kind \<longleftrightarrow> kind \<in> {SOL_TOKEN_LESS_EQUAL, SOL_TOKEN_GREATER_EQUAL,
     SOL_TOKEN_EQUAL, SOL_TOKEN_EQUAL_EQUAL, SOL_TOKEN_BANG_EQUAL, SOL_TOKEN_PLUS, SOL_TOKEN_MINUS,
     SOL_TOKEN_STAR, SOL_TOKEN_SLASH, SOL_TOKEN_PERCENT, SOL_TOKEN_PLUS_EQUAL, SOL_TOKEN_MINUS_EQUAL,
     SOL_TOKEN_STAR_EQUAL, SOL_TOKEN_SLASH_EQUAL, SOL_TOKEN_PERCENT_EQUAL, SOL_TOKEN_AMP_AMP,
     SOL_TOKEN_PIPE_PIPE, SOL_TOKEN_ARROW, SOL_TOKEN_FAT_ARROW}"

definition sol_format_is_left_delimiter :: "SolTokenKind \<Rightarrow> bool" where
  "sol_format_is_left_delimiter kind \<longleftrightarrow> kind = SOL_TOKEN_LEFT_PAREN \<or> kind = SOL_TOKEN_LEFT_BRACKET"

definition sol_format_is_right_delimiter :: "SolTokenKind \<Rightarrow> bool" where
  "sol_format_is_right_delimiter kind \<longleftrightarrow> kind = SOL_TOKEN_RIGHT_PAREN \<or> kind = SOL_TOKEN_RIGHT_BRACKET"

text \<open>The expressions of a syntax tree: the first \<open>expression_count\<close> entries of their array.\<close>

definition tree_expressions :: "SolSyntaxTree \<Rightarrow> SolExpr list" where
  "tree_expressions tree = take (tb_count (tr_expressions tree)) (tb_memory (tr_expressions tree))"

definition sol_format_is_unary :: "SolSyntaxTree \<Rightarrow> SolToken \<Rightarrow> bool" where
  "sol_format_is_unary tree t \<longleftrightarrow>
     (tk_kind t = SOL_TOKEN_MINUS \<or> tk_kind t = SOL_TOKEN_BANG) \<and>
     list_ex (\<lambda>e. (case ex_kind e of SOL_EXPR_UNARY op _ \<Rightarrow> op = tk_kind t | _ \<Rightarrow> False) \<and>
       sp_start (ex_span e) = sp_start (tk_span t)) (tree_expressions tree)"

definition sol_format_needs_space ::
    "SolTokenKind \<Rightarrow> SolTokenKind \<Rightarrow> SolFormatAngleRole \<Rightarrow> SolFormatAngleRole \<Rightarrow> bool \<Rightarrow> bool \<Rightarrow> bool" where
  "sol_format_needs_space previous current previous_angle current_angle previous_unary current_unary =
     (if current = SOL_TOKEN_LINE_COMMENT \<or> current = SOL_TOKEN_BLOCK_COMMENT
        \<or> previous = SOL_TOKEN_LINE_COMMENT \<or> previous = SOL_TOKEN_BLOCK_COMMENT then True
      else if previous_angle = SOL_FORMAT_ANGLE_COMPARISON
        \<or> current_angle = SOL_FORMAT_ANGLE_COMPARISON then True
      else if current_angle = SOL_FORMAT_ANGLE_DELIMITER
        \<or> (previous_angle = SOL_FORMAT_ANGLE_DELIMITER \<and> previous = SOL_TOKEN_LESS) then False
      else if previous_angle = SOL_FORMAT_ANGLE_DELIMITER \<and> previous = SOL_TOKEN_GREATER
        \<and> sol_format_is_word current then True
      else if current = SOL_TOKEN_COMMA \<or> current = SOL_TOKEN_DOT \<or> current = SOL_TOKEN_QUESTION
        \<or> current = SOL_TOKEN_COLON \<or> sol_format_is_right_delimiter current then False
      else if previous = SOL_TOKEN_DOT \<or> previous = SOL_TOKEN_AT
        \<or> sol_format_is_left_delimiter previous then False
      else if previous = SOL_TOKEN_COMMA \<or> previous = SOL_TOKEN_COLON
        \<or> (sol_format_is_binary previous \<and> \<not> previous_unary)
        \<or> (sol_format_is_binary current \<and> \<not> current_unary) then True
      else if current_unary \<and> sol_format_is_word previous then True
      else if previous_unary then False
      else if previous = SOL_TOKEN_LEFT_BRACE then current \<noteq> SOL_TOKEN_RIGHT_BRACE
      else if current = SOL_TOKEN_RIGHT_BRACE then previous \<noteq> SOL_TOKEN_LEFT_BRACE
      else if previous = SOL_TOKEN_RIGHT_BRACE \<and> sol_format_is_word current then True
      else if previous = SOL_TOKEN_RIGHT_BRACE \<and> current = SOL_TOKEN_ELSE then True
      else if current = SOL_TOKEN_IF \<and> sol_format_is_right_delimiter previous then True
      else if current = SOL_TOKEN_LEFT_BRACE then True
      else sol_format_is_word previous \<and> sol_format_is_word current)"

definition sol_format_append_token_text ::
    "SolFormatWriter \<Rightarrow> SolSource \<Rightarrow> SolToken \<Rightarrow> (sol_env, bool \<times> SolFormatWriter) state" where
  "sol_format_append_token_text writer src t = sol_format_append_bytes writer (token_text src t)"

section \<open>Angle brackets\<close>

text \<open>The search for the operator of a comparison between its two operands.\<close>

fun find_operator :: "SolTokenKind \<Rightarrow> size_t \<Rightarrow> size_t \<Rightarrow> size_t \<Rightarrow> SolToken list \<Rightarrow> size_t option" where
  "find_operator op left_end right_start i [] = None"
| "find_operator op left_end right_start i (t # ts) =
     (if sp_start (tk_span t) < left_end then find_operator op left_end right_start (Suc i) ts
      else if sp_end (tk_span t) > right_start then None
      else if tk_kind t = op then Some i
      else find_operator op left_end right_start (Suc i) ts)"

fun classify_comparisons ::
    "SolToken list \<Rightarrow> SolExpr list \<Rightarrow> SolExpr list \<Rightarrow> SolFormatAngleRole list \<Rightarrow>
     SolFormatAngleRole list option" where
  "classify_comparisons tokens all [] roles = Some roles"
| "classify_comparisons tokens all (e # es) roles =
     (case ex_kind e of
        SOL_EXPR_BINARY left op right \<Rightarrow>
          if op \<noteq> SOL_TOKEN_LESS \<and> op \<noteq> SOL_TOKEN_GREATER then classify_comparisons tokens all es roles
          else if left \<ge> length all \<or> right \<ge> length all then None
          else
            (case find_operator op (sp_end (ex_span (all ! left))) (sp_start (ex_span (all ! right)))
                    0 tokens of
               None \<Rightarrow> None
             | Some i \<Rightarrow> classify_comparisons tokens all es
                 (roles[i := SOL_FORMAT_ANGLE_COMPARISON]))
      | _ \<Rightarrow> classify_comparisons tokens all es roles)"

definition sol_format_classify_angles ::
    "SolToken list \<Rightarrow> SolSyntaxTree \<Rightarrow> SolFormatAngleRole list option" where
  "sol_format_classify_angles tokens tree =
     classify_comparisons tokens (tree_expressions tree) (tree_expressions tree)
     (map (\<lambda>t. if tk_kind t = SOL_TOKEN_LESS \<or> tk_kind t = SOL_TOKEN_GREATER
        then SOL_FORMAT_ANGLE_DELIMITER else SOL_FORMAT_ANGLE_NONE) tokens)"

section \<open>Rendering\<close>

text \<open>The local variables of \<open>sol_format_render_raw\<close> that its loop carries.\<close>

record render_state =
  rs_depth :: size_t
  rs_continuation_depth :: size_t
  rs_pending_newlines :: size_t
  rs_previous :: "(SolTokenKind \<times> SolFormatAngleRole \<times> bool) option"

definition render_start :: render_state where
  "render_start = \<lparr> rs_depth = 0, rs_continuation_depth = 0, rs_pending_newlines = 0,
     rs_previous = None \<rparr>"

text \<open>The separator written before a token: line breaks, or one space where the style wants it.\<close>

definition render_separator ::
    "render_state \<Rightarrow> SolTokenKind \<Rightarrow> SolFormatAngleRole \<Rightarrow> bool \<Rightarrow> SolFormatWriter \<Rightarrow>
     (sol_env, bool \<times> SolFormatWriter) state" where
  "render_separator rs kind angle unary writer =
     (if rs_pending_newlines rs \<noteq> 0 then sol_format_break writer (rs_pending_newlines rs)
      else
        (case rs_previous rs of
           Some (previous, previous_angle, previous_unary) \<Rightarrow>
             if \<not> sol_format_at_line_start (fw_output writer)
               \<and> sol_format_needs_space previous kind previous_angle angle previous_unary unary
             then sol_format_append_byte writer CHR 0x20 else ret (True, writer)
         | None \<Rightarrow> ret (True, writer)))"

definition render_indent ::
    "render_state \<Rightarrow> SolTokenKind \<Rightarrow> SolFormatWriter \<Rightarrow> (sol_env, bool \<times> SolFormatWriter) state" where
  "render_indent rs kind writer =
     (if sol_format_at_line_start (fw_output writer) then
        (let token_depth = rs_depth rs + rs_continuation_depth rs in
         sol_format_indent writer
           (if (kind = SOL_TOKEN_RIGHT_BRACE \<or> sol_format_is_right_delimiter kind) \<and> token_depth \<noteq> 0
            then token_depth - 1 else token_depth))
      else ret (True, writer))"

definition render_advance :: "render_state \<Rightarrow> SolTokenKind \<Rightarrow> SolFormatAngleRole \<Rightarrow> bool \<Rightarrow> render_state" where
  "render_advance rs kind angle unary =
     (let rs =
        (if kind = SOL_TOKEN_LEFT_BRACE then rs\<lparr>rs_depth := rs_depth rs + 1\<rparr>
         else if kind = SOL_TOKEN_RIGHT_BRACE \<and> rs_depth rs \<noteq> 0 then rs\<lparr>rs_depth := rs_depth rs - 1\<rparr>
         else if sol_format_is_left_delimiter kind
         then rs\<lparr>rs_continuation_depth := rs_continuation_depth rs + 1\<rparr>
         else if sol_format_is_right_delimiter kind \<and> rs_continuation_depth rs \<noteq> 0
         then rs\<lparr>rs_continuation_depth := rs_continuation_depth rs - 1\<rparr> else rs) in
      rs\<lparr>rs_previous := Some (kind, angle, unary), rs_pending_newlines := 0\<rparr>)"

fun render_loop ::
    "SolSource \<Rightarrow> SolSyntaxTree \<Rightarrow> (SolToken \<times> SolFormatAngleRole) list \<Rightarrow> render_state \<Rightarrow> SolFormatWriter \<Rightarrow>
     (sol_env, bool \<times> SolFormatWriter) state" where
  "render_loop src tree [] rs writer = ret (True, writer)"
| "render_loop src tree ((t, angle) # rest) rs writer =
     (if tk_kind t = SOL_TOKEN_EOF then ret (True, writer)
      else if tk_kind t = SOL_TOKEN_WHITESPACE then render_loop src tree rest rs writer
      else if tk_kind t = SOL_TOKEN_NEWLINE
      then render_loop src tree rest (rs\<lparr>rs_pending_newlines := rs_pending_newlines rs + 1\<rparr>) writer
      else
        (let unary = sol_format_is_unary tree t in
         do {
           (ok, writer) \<leftarrow> render_separator rs (tk_kind t) angle unary writer;
           (if \<not> ok then ret (False, writer)
            else do {
              (ok, writer) \<leftarrow> render_indent rs (tk_kind t) writer;
              (if \<not> ok then ret (False, writer)
               else do {
                 (ok, writer) \<leftarrow> sol_format_append_token_text writer src t;
                 (if \<not> ok then ret (False, writer)
                  else render_loop src tree rest (render_advance rs (tk_kind t) angle unary) writer)
               })
            })
         }))"

definition sizeof_angle_role :: size_t where "sizeof_angle_role = 4"

definition sol_format_render_raw ::
    "SolSource \<Rightarrow> SolTokens \<Rightarrow> SolSyntaxTree \<Rightarrow> SolFormatted \<Rightarrow> (sol_env, bool \<times> SolFormatted) state" where
  "sol_format_render_raw src tokens tree output = do {
     memory \<leftarrow> (if tks_items tokens = [] then ret True
       else sol_resource_calloc (length (tks_items tokens)) sizeof_angle_role);
     (if \<not> memory then ret (False, output)
      else
        (case sol_format_classify_angles (tks_items tokens) tree of
           None \<Rightarrow> ret (False, output)
         | Some roles \<Rightarrow> do {
             (ok, writer) \<leftarrow> render_loop src tree (zip (tks_items tokens) roles) render_start
               \<lparr> fw_output = output, fw_allocation_failed = False \<rparr>;
             (if \<not> ok then ret (False, fw_output writer)
              else do {
                (ok, writer) \<leftarrow> sol_format_append_byte writer CHR 0x0A;
                ret (ok \<and> \<not> fw_allocation_failed writer, fw_output writer)
              })
           }))
   }"

section \<open>Comparing token sequences\<close>

definition layout_token :: "SolToken \<Rightarrow> bool" where
  "layout_token t \<longleftrightarrow> tk_kind t = SOL_TOKEN_WHITESPACE \<or> tk_kind t = SOL_TOKEN_NEWLINE"

function sol_format_tokens_equal :: "SolSource \<Rightarrow> SolToken list \<Rightarrow> SolSource \<Rightarrow> SolToken list \<Rightarrow> bool" where
  "sol_format_tokens_equal left_source left right_source right =
     (case (dropWhile layout_token left, dropWhile layout_token right) of
        ([], []) \<Rightarrow> True
      | (l # ls, r # rs) \<Rightarrow>
          if tk_kind l \<noteq> tk_kind r
            \<or> size_sub (sp_end (tk_span l)) (sp_start (tk_span l))
              \<noteq> size_sub (sp_end (tk_span r)) (sp_start (tk_span r))
            \<or> token_text left_source l \<noteq> token_text right_source r then False
          else if tk_kind l = SOL_TOKEN_EOF then True
          else sol_format_tokens_equal left_source ls right_source rs
      | _ \<Rightarrow> False)"
  by pat_completeness auto
termination
proof (relation "measure (\<lambda>(_, left, _, _). length left)", goal_cases)
  case (2 left_source left right_source right x y l ls r rs)
  then have "length (l # ls) \<le> length left" by (metis length_dropWhile_le prod.inject)
  then show ?case by simp
qed simp

declare sol_format_tokens_equal.simps [simp del]

section \<open>Formatting a source\<close>

definition sol_format_add_error ::
    "SolDiagnostics \<Rightarrow> string \<Rightarrow> string \<Rightarrow> (sol_env, bool \<times> SolDiagnostics) state" where
  "sol_format_add_error ds code message =
     sol_diagnostics_add ds code SOL_SEVERITY_ERROR (span 0 0) message"

definition sol_format_report_oom :: "SolDiagnostics \<Rightarrow> (sol_env, SolDiagnostics) state" where
  "sol_format_report_oom ds = do {
     (_, ds) \<leftarrow> sol_format_add_error ds ''SOL-INTERNAL-001'' ''out of memory while formatting source'';
     ret ds
   }"

text \<open>
  A parser as the formatter calls it: success, the tree built from an empty one, and the
  diagnostics.
\<close>

type_synonym sol_parser =
  "SolSource \<Rightarrow> SolTokens \<Rightarrow> SolDiagnostics \<Rightarrow>
   (sol_env, bool \<times> SolSyntaxTree \<times> SolDiagnostics) state"

text \<open>The three ways out: nothing formatted, with or without one more diagnostic.\<close>

definition format_stop :: "SolDiagnostics \<Rightarrow> (sol_env, SolFormatted option \<times> SolDiagnostics) state" where
  "format_stop ds = ret (None, ds)"

definition format_oom :: "SolDiagnostics \<Rightarrow> (sol_env, SolFormatted option \<times> SolDiagnostics) state" where
  "format_oom ds = do { ds \<leftarrow> sol_format_report_oom ds; format_stop ds }"

definition format_refuse ::
    "SolDiagnostics \<Rightarrow> string \<Rightarrow> string \<Rightarrow> (sol_env, SolFormatted option \<times> SolDiagnostics) state" where
  "format_refuse ds code message = do { (_, ds) \<leftarrow> sol_format_add_error ds code message; format_stop ds }"

text \<open>
  The checks of the first rendering: it must lex and parse without errors, have the tokens of
  the source, and be rendered as itself. \<open>Some\<close> is the text handed to the caller.
\<close>

definition format_check ::
    "sol_parser \<Rightarrow> SolSource \<Rightarrow> SolTokens \<Rightarrow> SolFormatted \<Rightarrow> SolDiagnostics \<Rightarrow>
     (sol_env, SolFormatted option \<times> SolDiagnostics) state" where
  "format_check parse src tokens first ds = do {
     source \<leftarrow> sol_source_from_text (src_path src) (fm_text first);
     (case source of
        None \<Rightarrow> format_oom ds
      | Some first_source \<Rightarrow> do {
          (ok, first_tokens, vds) \<leftarrow> sol_lex first_source sol_tokens_init sol_diagnostics_init;
          (if \<not> ok \<or> dgs_allocation_failed vds then format_oom ds
           else if sol_diagnostics_has_errors vds
           then format_refuse ds ''SOL-FMT-001'' ''formatter produced source that does not lex''
           else do {
             (ok, first_tree, vds) \<leftarrow> parse first_source first_tokens vds;
             (if \<not> ok then format_oom ds
              else if sol_diagnostics_has_errors vds
              then format_refuse ds ''SOL-FMT-001'' ''formatter produced source that does not parse''
              else if \<not> sol_format_tokens_equal src (tks_items tokens) first_source (tks_items first_tokens)
              then format_refuse ds ''SOL-FMT-001'' ''formatter did not preserve the source token sequence''
              else do {
                (ok, second) \<leftarrow> sol_format_render_raw first_source first_tokens first_tree sol_formatted_init;
                (if \<not> ok then format_oom ds
                 else if fm_text first \<noteq> fm_text second
                 then format_refuse ds ''SOL-FMT-001'' ''formatter output is not idempotent''
                 else ret (Some first, ds))
              })
           })
        })
   }"

text \<open>\<open>None\<close> where the C function returns false; the caller's buffer is then left alone.\<close>

definition format_with ::
    "sol_parser \<Rightarrow> SolSource \<Rightarrow> SolDiagnostics \<Rightarrow> (sol_env, SolFormatted option \<times> SolDiagnostics) state" where
  "format_with parse src ds = do {
     (formatted, ds) \<leftarrow>
       (if CHR 0x00 \<in> set (src_text src)
        then format_refuse ds ''SOL-FMT-002'' ''formatter input contains an embedded NUL byte''
        else do {
          (ok, tokens, ds) \<leftarrow> sol_lex src sol_tokens_init ds;
          (if \<not> ok then (if sol_diagnostics_has_errors ds then format_stop ds else format_oom ds)
           else if sol_diagnostics_has_errors ds then format_stop ds
           else do {
             (ok, tree, ds) \<leftarrow> parse src tokens ds;
             (if \<not> ok \<or> sol_diagnostics_has_errors ds then format_stop ds
              else do {
                (ok, first) \<leftarrow> sol_format_render_raw src tokens tree sol_formatted_init;
                (if \<not> ok then format_oom ds else format_check parse src tokens first ds)
              })
           })
        });
     ret (if dgs_allocation_failed ds then None else formatted, ds)
   }"

text \<open>The parser of \<open>src/src/parser.c\<close>, whose four mutual productions are given by the tokens.\<close>

definition parse_with :: "(SolToken list \<Rightarrow> sol_parsers) \<Rightarrow> sol_parser" where
  "parse_with productions src tokens ds = State (\<lambda>env.
     case run_state (parse_file (productions (tks_items tokens)))
            (parser_init src (tks_items tokens) sol_syntax_tree_init ds env) of
       (ok, s) \<Rightarrow> ((ok, ps_tree s, ps_diagnostics s), ps_env s))"

definition format_parser :: sol_parser where
  "format_parser src tokens ds = State (\<lambda>env.
     case sol_parse src tokens sol_syntax_tree_init ds env of
       (ok, s) \<Rightarrow> ((ok, ps_tree s, ps_diagnostics s), ps_env s))"

definition sol_format_source ::
    "SolSource \<Rightarrow> SolDiagnostics \<Rightarrow> (sol_env, SolFormatted option \<times> SolDiagnostics) state" where
  "sol_format_source = format_with format_parser"

section \<open>The text a rendering produces\<close>

text \<open>Rendering without the buffer: what is written before a token, and the whole text.\<close>

definition separator_text :: "render_state \<Rightarrow> SolTokenKind \<Rightarrow> SolFormatAngleRole \<Rightarrow> bool \<Rightarrow> string \<Rightarrow> string" where
  "separator_text rs kind angle unary out =
     (if rs_pending_newlines rs \<noteq> 0 then
        replicate ((if rs_pending_newlines rs > 2 then 2 else rs_pending_newlines rs)
          - length (takeWhile (\<lambda>c. c = CHR 0x0A) (rev out))) CHR 0x0A
      else
        (case rs_previous rs of
           Some (previous, previous_angle, previous_unary) \<Rightarrow>
             if \<not> (out = [] \<or> last out = CHR 0x0A)
               \<and> sol_format_needs_space previous kind previous_angle angle previous_unary unary
             then [CHR 0x20] else []
         | None \<Rightarrow> []))"

definition indent_text :: "render_state \<Rightarrow> SolTokenKind \<Rightarrow> string \<Rightarrow> string" where
  "indent_text rs kind out =
     (if out = [] \<or> last out = CHR 0x0A then
        (let token_depth = rs_depth rs + rs_continuation_depth rs in
         replicate (4 * (if (kind = SOL_TOKEN_RIGHT_BRACE \<or> sol_format_is_right_delimiter kind)
           \<and> token_depth \<noteq> 0 then token_depth - 1 else token_depth)) CHR 0x20)
      else [])"

fun layout_text ::
    "SolSource \<Rightarrow> SolSyntaxTree \<Rightarrow> (SolToken \<times> SolFormatAngleRole) list \<Rightarrow> render_state \<Rightarrow> string \<Rightarrow> string" where
  "layout_text src tree [] rs out = out"
| "layout_text src tree ((t, angle) # rest) rs out =
     (if tk_kind t = SOL_TOKEN_EOF then out
      else if tk_kind t = SOL_TOKEN_WHITESPACE then layout_text src tree rest rs out
      else if tk_kind t = SOL_TOKEN_NEWLINE
      then layout_text src tree rest (rs\<lparr>rs_pending_newlines := rs_pending_newlines rs + 1\<rparr>) out
      else
        (let unary = sol_format_is_unary tree t;
             out = out @ separator_text rs (tk_kind t) angle unary out;
             out = out @ indent_text rs (tk_kind t) out in
         layout_text src tree rest (render_advance rs (tk_kind t) angle unary)
           (out @ token_text src t)))"

text \<open>\<open>writes m w s\<close>: if \<open>m\<close> succeeds, it has appended exactly \<open>s\<close> to the text of \<open>w\<close>.\<close>

definition writes ::
    "(sol_env, bool \<times> SolFormatWriter) state \<Rightarrow> SolFormatWriter \<Rightarrow> string \<Rightarrow> bool" where
  "writes m w s \<longleftrightarrow> (\<forall>e w' e'. run_state m e = ((True, w'), e') \<longrightarrow>
     fm_text (fw_output w') = fm_text (fw_output w) @ s)"

lemma writesD:
  "writes m w s \<Longrightarrow> run_state m e = ((True, w'), e') \<Longrightarrow> fm_text (fw_output w') = fm_text (fw_output w) @ s"
  by (auto simp: writes_def)

lemma reserve_text:
  "run_state (sol_format_reserve w n) e = ((ok, w'), e') \<Longrightarrow> fm_text (fw_output w') = fm_text (fw_output w)"
  by (auto simp: sol_format_reserve_def Let_def split: if_splits prod.splits)

lemma append_bytes_writes [intro]: "writes (sol_format_append_bytes w s) w s"
  by (auto simp: writes_def sol_format_append_bytes_def split: prod.splits if_splits dest: reserve_text)

lemma append_byte_writes [intro]: "writes (sol_format_append_byte w c) w [c]"
  unfolding sol_format_append_byte_def by blast

lemma writes_ret [intro]: "writes (ret (True, w)) w []"
  by (simp add: writes_def)

lemma writes_bind:
  assumes "writes m w s" and "\<And>w'. fm_text (fw_output w') = fm_text (fw_output w) @ s \<Longrightarrow> writes (f w') w' t"
  shows "writes (State_Monad.bind m (\<lambda>(ok, w'). if ok then f w' else ret (False, w'))) w (s @ t)"
  unfolding writes_def
proof (intro allI impI)
  fix e w' e'
  assume run: "run_state (State_Monad.bind m (\<lambda>(ok, w'). if ok then f w' else ret (False, w'))) e = ((True, w'), e')"
  obtain ok u e1 where m: "run_state m e = ((ok, u), e1)" by (metis prod.exhaust)
  with run have "ok" "run_state (f u) e1 = ((True, w'), e')" by (auto split: if_splits)
  with m assms show "fm_text (fw_output w') = fm_text (fw_output w) @ s @ t"
    by (fastforce dest: writesD)
qed

lemma indent_loop_writes: "writes (indent_loop w n) w (replicate n CHR 0x20)"
proof (induction n arbitrary: w rule: less_induct)
  case (less n)
  show ?case
  proof (cases "n = 0")
    case False
    let ?k = "if n < 32 then n else 32"
    have step: "indent_loop w n = State_Monad.bind (sol_format_append_bytes w (replicate ?k CHR 0x20))
        (\<lambda>(ok, w'). if ok then indent_loop w' (n - ?k) else ret (False, w'))"
      using False by (subst indent_loop.simps) (simp add: Let_def)
    have "writes (indent_loop w n) w (replicate ?k CHR 0x20 @ replicate (n - ?k) CHR 0x20)"
      unfolding step using False by (intro writes_bind append_bytes_writes less.IH) auto
    then show ?thesis by (simp add: replicate_add [symmetric] split: if_splits)
  qed (auto simp: indent_loop.simps)
qed

lemma newlines_loop_writes: "writes (newlines_loop n w) w (replicate n CHR 0x0A)"
proof (induction n arbitrary: w)
  case (Suc n)
  have "writes (newlines_loop (Suc n) w) w ([CHR 0x0A] @ replicate n CHR 0x0A)"
    unfolding newlines_loop.simps by (intro writes_bind append_byte_writes Suc.IH)
  then show ?case by simp
qed auto

lemma separator_writes:
  "writes (render_separator rs kind angle unary w) w
     (separator_text rs kind angle unary (fm_text (fw_output w)))"
  by (auto simp: render_separator_def separator_text_def sol_format_break_def Let_def
      sol_format_at_line_start_def intro: newlines_loop_writes split: option.split)

lemma indent_writes:
  "writes (render_indent rs kind w) w (indent_text rs kind (fm_text (fw_output w)))"
  using indent_loop_writes
  by (auto simp: render_indent_def indent_text_def sol_format_indent_def Let_def mult.commute
      sol_format_at_line_start_def writes_def)

lemma render_loop_text:
  assumes "run_state (render_loop src tree ts rs w) e = ((True, w'), e')"
  shows "fm_text (fw_output w') = layout_text src tree ts rs (fm_text (fw_output w))"
  using assms
proof (induction src tree ts rs w arbitrary: e rule: render_loop.induct)
  case (2 src tree t angle rest rs w)
  show ?case
  proof (cases "tk_kind t \<in> {SOL_TOKEN_EOF, SOL_TOKEN_WHITESPACE, SOL_TOKEN_NEWLINE}")
    case True
    with 2 show ?thesis by (auto split: if_splits)
  next
    case False
    let ?unary = "sol_format_is_unary tree t"
    obtain ok1 w1 e1 where sep: "run_state (render_separator rs (tk_kind t) angle ?unary w) e = ((ok1, w1), e1)"
      by (metis prod.exhaust)
    with False 2(4) have ok1: "ok1" by (auto simp: Let_def split: if_splits)
    obtain ok2 w2 e2 where ind: "run_state (render_indent rs (tk_kind t) w1) e1 = ((ok2, w2), e2)"
      by (metis prod.exhaust)
    with False 2(4) sep ok1 have ok2: "ok2" by (auto simp: Let_def split: if_splits)
    obtain ok3 w3 e3 where app: "run_state (sol_format_append_token_text w2 src t) e2 = ((ok3, w3), e3)"
      by (metis prod.exhaust)
    with False 2(4) sep ok1 ind ok2 have ok3: "ok3"
      and rest: "run_state (render_loop src tree rest (render_advance rs (tk_kind t) angle ?unary) w3) e3
        = ((True, w'), e')" by (auto simp: Let_def split: if_splits)
    note t1 = writesD [OF separator_writes sep [unfolded ok1 [THEN eqTrueI]]]
    note t2 = writesD [OF indent_writes ind [unfolded ok2 [THEN eqTrueI]]]
    note t3 = writesD [OF append_bytes_writes, OF app [unfolded sol_format_append_token_text_def
          ok3 [THEN eqTrueI]]]
    have "fm_text (fw_output w') = layout_text src tree rest
        (render_advance rs (tk_kind t) angle ?unary) (fm_text (fw_output w3))"
      using False by (intro 2(3) [OF _ _ _ refl, of True True True, OF _ _ _ _ _ _ rest]) simp_all
    with False show ?thesis by (simp add: Let_def t1 t2 t3)
  qed
qed simp


lemma render_raw_text:
  assumes "run_state (sol_format_render_raw src tokens tree output) e = ((True, out), e')"
  obtains roles where "sol_format_classify_angles (tks_items tokens) tree = Some roles"
    and "fm_text out = layout_text src tree (zip (tks_items tokens) roles) render_start (fm_text output)
      @ [CHR 0x0A]"
proof -
  from assms obtain roles w w' e1 e2
    where "sol_format_classify_angles (tks_items tokens) tree = Some roles"
    and "run_state (render_loop src tree (zip (tks_items tokens) roles) render_start
      \<lparr> fw_output = output, fw_allocation_failed = False \<rparr>) e1 = ((True, w), e2)"
    and "run_state (sol_format_append_byte w CHR 0x0A) e2 = ((True, w'), e')" and "out = fw_output w'"
    by (auto simp: sol_format_render_raw_def split: if_splits prod.splits option.splits)
  then show ?thesis
    by (intro that) (auto dest!: render_loop_text writesD [OF append_byte_writes])
qed

section \<open>What a rendering keeps\<close>

definition blank :: "string \<Rightarrow> bool" where
  "blank s \<longleftrightarrow> set s \<subseteq> {CHR 0x20, CHR 0x0A}"

lemma blank_append [simp]: "blank (s @ t) \<longleftrightarrow> blank s \<and> blank t"
  by (auto simp: blank_def)

text \<open>The tokens up to the end of file that are neither white space nor line ends.\<close>

definition kept_tokens :: "SolToken list \<Rightarrow> SolToken list" where
  "kept_tokens ts = filter (\<lambda>t. \<not> layout_token t) (takeWhile (\<lambda>t. tk_kind t \<noteq> SOL_TOKEN_EOF) ts)"

definition significant :: "SolSource \<Rightarrow> SolToken list \<Rightarrow> (SolTokenKind \<times> string) list" where
  "significant src ts = map (\<lambda>t. (tk_kind t, token_text src t)) (kept_tokens ts)"

definition interleave :: "string list \<Rightarrow> string list \<Rightarrow> string" where
  "interleave gaps words = concat (map2 (@) gaps words)"

lemma kept_tokens_Cons:
  "kept_tokens (t # ts) = (if tk_kind t = SOL_TOKEN_EOF then [] else if layout_token t
    then kept_tokens ts else t # kept_tokens ts)"
  by (simp add: kept_tokens_def)

lemma kept_tokens_Nil [simp]: "kept_tokens [] = []"
  by (simp add: kept_tokens_def)

lemma separator_blank: "blank (separator_text rs k a u out)" "blank (indent_text rs k out)"
  by (auto simp: blank_def separator_text_def indent_text_def Let_def split: option.splits)

lemma layout_interleaves:
  "\<exists>gaps. length gaps = length (kept_tokens (map fst ts)) \<and> list_all blank gaps \<and>
     layout_text src tree ts rs out
       = out @ interleave gaps (map (token_text src) (kept_tokens (map fst ts)))"
proof (induction src tree ts rs out rule: layout_text.induct)
  case (2 src tree t angle rest rs out)
  show ?case
  proof (cases "tk_kind t \<in> {SOL_TOKEN_EOF, SOL_TOKEN_WHITESPACE, SOL_TOKEN_NEWLINE}")
    case True
    with 2 show ?thesis
      by (auto simp: kept_tokens_Cons layout_token_def interleave_def)
  next
    case False
    let ?u = "sol_format_is_unary tree t"
    let ?sep = "separator_text rs (tk_kind t) angle ?u out"
    let ?ind = "indent_text rs (tk_kind t) (out @ ?sep)"
    from False 2(3) [OF _ _ _ refl refl refl] obtain gaps where
      "length gaps = length (kept_tokens (map fst rest))" "list_all blank gaps"
      "layout_text src tree rest (render_advance rs (tk_kind t) angle ?u)
         (((out @ ?sep) @ ?ind) @ token_text src t)
       = (((out @ ?sep) @ ?ind) @ token_text src t)
         @ interleave gaps (map (token_text src) (kept_tokens (map fst rest)))" by auto
    with False separator_blank show ?thesis
      by (intro exI [of _ "(?sep @ ?ind) # gaps"])
        (auto simp: Let_def kept_tokens_Cons layout_token_def interleave_def)
  qed
qed (simp add: kept_tokens_def interleave_def)

lemma classify_length:
  "classify_comparisons ts tree es roles = Some roles' \<Longrightarrow> length roles' = length roles"
  by (induction ts tree es roles arbitrary: roles' rule: classify_comparisons.induct)
    (auto split: SolExprKind.splits if_splits option.splits)

lemma classified_tokens:
  "sol_format_classify_angles ts tree = Some roles \<Longrightarrow> map fst (zip ts roles) = ts"
  by (auto simp: sol_format_classify_angles_def dest: classify_length)

lemma render_interleaves:
  assumes "run_state (sol_format_render_raw src tokens tree sol_formatted_init) e = ((True, out), e')"
  shows "\<exists>gaps. length gaps = length (kept_tokens (tks_items tokens)) \<and> list_all blank gaps \<and>
    fm_text out = interleave gaps (map (token_text src) (kept_tokens (tks_items tokens))) @ [CHR 0x0A]"
  using assms
proof (rule render_raw_text)
  fix roles
  assume r: "sol_format_classify_angles (tks_items tokens) tree = Some roles"
    "fm_text out = layout_text src tree (zip (tks_items tokens) roles) render_start
      (fm_text sol_formatted_init) @ [CHR 0x0A]"
  with layout_interleaves [of "zip (tks_items tokens) roles" src tree render_start
      "fm_text sol_formatted_init"] classified_tokens [OF r(1)]
  show ?thesis by (auto simp: sol_formatted_init_def)
qed

lemma interleave_set:
  "x \<in> set (interleave gaps words) \<Longrightarrow> (\<exists>g \<in> set gaps. x \<in> set g) \<or> (\<exists>w \<in> set words. x \<in> set w)"
  by (auto simp: interleave_def dest: set_zip_leftD set_zip_rightD)

lemma token_text_subset: "set (token_text src t) \<subseteq> set (src_text src)"
  unfolding token_text_def by (meson order_trans set_drop_subset set_take_subset)

lemma render_no_nul:
  assumes "run_state (sol_format_render_raw src tokens tree sol_formatted_init) e = ((True, out), e')"
    and "CHR 0x00 \<notin> set (src_text src)"
  shows "CHR 0x00 \<notin> set (fm_text out)"
  using render_interleaves [OF assms(1)] assms(2) subsetD [OF token_text_subset]
  by (auto simp: list_all_iff blank_def dest!: interleave_set) blast+

text \<open>The comparison that guards the output accepts only equal significant tokens.\<close>

lemma kept_dropWhile: "kept_tokens (dropWhile layout_token ts) = kept_tokens ts"
proof (induction ts)
  case (Cons t ts)
  then show ?case by (auto simp: kept_tokens_Cons layout_token_def)
qed simp

lemma tokens_equal_significant:
  "sol_format_tokens_equal l ls r rs \<Longrightarrow> significant l ls = significant r rs"
proof (induction l ls r rs rule: sol_format_tokens_equal.induct)
  case (1 l ls r rs)
  have kept: "significant l ls = significant l (dropWhile layout_token ls)"
    "significant r rs = significant r (dropWhile layout_token rs)"
    by (simp_all add: significant_def kept_dropWhile)
  from "1.prems" "1.IH" show ?case
    unfolding kept sol_format_tokens_equal.simps [of l ls r rs]
    by (cases "dropWhile layout_token ls"; cases "dropWhile layout_token rs")
      (auto simp: kept_tokens_Cons significant_def layout_token_def simp del: dropWhile_eq_Nil_conv
        split: if_splits)
qed


section \<open>What formatting guarantees\<close>

definition text_source :: "string \<Rightarrow> string \<Rightarrow> SolSource" where
  "text_source path tx = \<lparr> src_path = path, src_text = tx, line_starts = fill_lines tx 0 [0] \<rparr>"

lemma from_text_source:
  "run_state (sol_source_from_text path tx) e = (Some s, e') \<Longrightarrow> CHR 0x00 \<notin> set tx \<Longrightarrow>
   s = text_source path tx"
proof -
  assume "CHR 0x00 \<notin> set tx"
  then have "c_string tx = tx" unfolding c_string_def by (auto simp: takeWhile_eq_all_conv)
  then show "run_state (sol_source_from_text path tx) e = (Some s, e') \<Longrightarrow> s = text_source path tx"
    by (auto simp: sol_source_from_text_def sol_source_index_lines_def text_source_def Let_def
        split: if_splits prod.splits)
qed

lemma format_leaves [simp]:
  "run_state (format_stop ds) e \<noteq> ((Some out, ds'), e')"
  "run_state (format_oom ds) e \<noteq> ((Some out, ds'), e')"
  "run_state (format_refuse ds code m) e \<noteq> ((Some out, ds'), e')"
  by (auto simp: format_stop_def format_oom_def format_refuse_def split: prod.splits)

lemma format_check_success:
  assumes "run_state (format_check parse src tokens first ds) e = ((Some out, ds'), e')"
    and "CHR 0x00 \<notin> set (fm_text first)"
  obtains ts d1 tree d2 second e1 e2 e3 e4 where "out = first"
    and "run_state (sol_lex (text_source (src_path src) (fm_text first)) sol_tokens_init sol_diagnostics_init) e1
      = ((True, ts, d1), e2)"
    and "\<not> sol_diagnostics_has_errors d1"
    and "run_state (parse (text_source (src_path src) (fm_text first)) ts d1) e2 = ((True, tree, d2), e3)"
    and "sol_format_tokens_equal src (tks_items tokens) (text_source (src_path src) (fm_text first))
      (tks_items ts)"
    and "run_state (sol_format_render_raw (text_source (src_path src) (fm_text first)) ts tree
      sol_formatted_init) e3 = ((True, second), e4)"
    and "fm_text second = fm_text first"
  using assms from_text_source [OF _ assms(2)]
  by (auto simp: format_check_def split: if_splits prod.splits option.splits)

lemma format_success:
  assumes "run_state (format_with parse src ds) e = ((Some out, ds'), e')"
  obtains ts d1 tree d2 e2 e3 e4 where "CHR 0x00 \<notin> set (src_text src)"
    and "run_state (sol_lex src sol_tokens_init ds) e = ((True, ts, d1), e2)"
    and "\<not> sol_diagnostics_has_errors d1"
    and "run_state (parse src ts d1) e2 = ((True, tree, d2), e3)"
    and "run_state (sol_format_render_raw src ts tree sol_formatted_init) e3 = ((True, out), e4)"
    and "run_state (format_check parse src ts out d2) e4 = ((Some out, ds'), e')"
proof -
  from assms obtain ts d1 tree d2 first e2 e3 e4 where *: "CHR 0x00 \<notin> set (src_text src)"
    "run_state (sol_lex src sol_tokens_init ds) e = ((True, ts, d1), e2)"
    "\<not> sol_diagnostics_has_errors d1"
    "run_state (parse src ts d1) e2 = ((True, tree, d2), e3)"
    "run_state (sol_format_render_raw src ts tree sol_formatted_init) e3 = ((True, first), e4)"
    "run_state (format_check parse src ts first d2) e4 = ((Some out, ds'), e')"
    by (auto simp: format_with_def split: if_splits prod.splits)
  from format_check_success [OF *(6) render_no_nul [OF *(5,1)]] have "out = first" by blast
  with * that show ?thesis by blast
qed

lemma kept_lexed:
  "kept_tokens (lexed_tokens src) = filter (\<lambda>t. \<not> layout_token t) (reference_tokens src 0)"
  using reference_not_eof [of src 0]
  by (simp add: lexed_tokens_def kept_tokens_def list_all_iff takeWhile_append2)

lemma format_parser_same:
  assumes "run_state (format_parser src ts ds) e = ((True, tree, d), f)"
    and "run_state (format_parser src us ds') e' = ((True, tree', d'), f')"
    and "tks_items ts = tks_items us"
  shows "tree = tree'"
  using assms sol_parse_same [of src ts sol_syntax_tree_init ds e _ us ds' e']
  by (auto simp: format_parser_def split: prod.splits)

lemma layout_deterministic:
  assumes "run_state (sol_format_render_raw src ts tree sol_formatted_init) e = ((True, out), e')"
    and "run_state (sol_format_render_raw src ts' tree sol_formatted_init) f = ((True, out'), f')"
    and "tks_items ts = tks_items ts'"
  shows "fm_text out = fm_text out'"
  by (rule render_raw_text [OF assms(1)], rule render_raw_text [OF assms(2)]) (simp add: assms(3))

text \<open>
  A concrete run on a module header. It needs none of the four mutual productions, so the run
  is the same whatever these are.
\<close>

definition cramped_source :: SolSource where
  "cramped_source = text_source ''a'' (''module  m . n  edition'' @ [CHR 0x0A] @ ''2027'')"

definition cramped_output :: SolFormatted where
  "cramped_output = \<lparr> fm_text = ''module m.n edition'' @ [CHR 0x0A] @ ''2027'' @ [CHR 0x0A],
     fm_capacity = 256 \<rparr>"

lemma format_parser_with: "format_parser = parse_with (\<lambda>ts. sol_parsers_upto (parser_depth ts))"
  by (intro ext) (simp add: format_parser_def parse_with_def sol_parse_def)

lemma cramped_runs_with:
  "fst (run_state (format_with (parse_with productions) cramped_source sol_diagnostics_init) plain_env)
     = (Some cramped_output, sol_diagnostics_init)"
  "fst (run_state (format_with (parse_with productions) (text_source (src_path cramped_source)
     (fm_text cramped_output)) sol_diagnostics_init) plain_env) = (Some cramped_output, sol_diagnostics_init)"
  by code_simp+

lemma cramped_formats:
  "\<exists>e. run_state (sol_format_source cramped_source sol_diagnostics_init) plain_env
     = ((Some cramped_output, sol_diagnostics_init), e)"
  "\<exists>e. run_state (sol_format_source (text_source (src_path cramped_source) (fm_text cramped_output))
     sol_diagnostics_init) plain_env = ((Some cramped_output, sol_diagnostics_init), e)"
  unfolding sol_format_source_def format_parser_with using cramped_runs_with by (metis prod.collapse)+

section \<open>Properties\<close>

text \<open>
  C15. Formatting never changes a program: whatever the parser answers, and so for
  \<open>sol_format_source\<close>, which formats with \<open>sol_parse\<close>, when a text is handed out, that text lexes without a lexical error and has the
  same sequence of significant tokens (kinds and spellings, comments included) as the source.
\<close>

theorem format_preserves_tokens:
  assumes "run_state (format_with parse src ds) e = ((Some out, ds'), e')"
  defines "formatted \<equiv> text_source (src_path src) (fm_text out)"
  shows "significant formatted (lexed_tokens formatted) = significant src (lexed_tokens src) \<and>
    list_all (lexeme_ok formatted) (lexed_tokens formatted)"
  using assms(1)
proof (rule format_success)
  fix ts d1 tree d2 e2 e3 e4
  assume f: "CHR 0x00 \<notin> set (src_text src)"
    "run_state (sol_lex src sol_tokens_init ds) e = ((True, ts, d1), e2)"
    "run_state (sol_format_render_raw src ts tree sol_formatted_init) e3 = ((True, out), e4)"
    "run_state (format_check parse src ts out d2) e4 = ((Some out, ds'), e')"
  from format_check_success [OF f(4) render_no_nul [OF f(3,1)], folded formatted_def] show ?thesis
    using sol_lex_items [OF f(2)]
    by (metis sol_lex_items sol_lex_reports tokens_equal_significant)
qed

theorem format_preserves_tokens_witness:
  "significant (text_source ''a'' (fm_text cramped_output)) (lexed_tokens (text_source ''a'' (fm_text cramped_output)))
     = significant cramped_source (lexed_tokens cramped_source) \<and>
   length (significant cramped_source (lexed_tokens cramped_source)) = 6"
proof -
  have "length (significant cramped_source (lexed_tokens cramped_source)) = 6" by code_simp
  moreover have "src_path cramped_source = ''a''" by (simp add: cramped_source_def text_source_def)
  ultimately show ?thesis
    using cramped_formats(1) [unfolded sol_format_source_def] format_preserves_tokens by metis
qed

text \<open>
  C27. The formatter only lays text out: its output is the spellings of the source's
  tokens in order, each preceded by a run of spaces and line feeds, and a final line feed.
\<close>

theorem format_only_spaces:
  assumes "run_state (format_with parse src ds) e = ((Some out, ds'), e')"
  shows "\<exists>gaps. length gaps = length (kept_tokens (lexed_tokens src)) \<and> list_all blank gaps \<and>
    fm_text out = interleave gaps (map (token_text src) (kept_tokens (lexed_tokens src))) @ [CHR 0x0A]"
  using assms by (rule format_success) (metis render_interleaves sol_lex_items)

theorem format_only_spaces_witness:
  "\<exists>gaps. list_all blank gaps \<and> length gaps = length (kept_tokens (lexed_tokens cramped_source)) \<and>
    fm_text cramped_output
      = interleave gaps (map (token_text cramped_source) (kept_tokens (lexed_tokens cramped_source))) @ [CHR 0x0A]"
  using cramped_formats(1) [unfolded sol_format_source_def] format_only_spaces by blast

text \<open>
  C26. Formatting is idempotent: when \<open>sol_format_source\<close>, with the parser of
  \<open>src/src/parser.c\<close>, has formatted a source and then formats the text it handed out, under
  whatever diagnostics and memory, that run, if it succeeds, hands out the same text.
\<close>

theorem format_idempotent:
  assumes "run_state (sol_format_source src ds) e = ((Some out, ds'), e')"
    and "run_state (sol_format_source (text_source (src_path src) (fm_text out)) d) f
      = ((Some out', d'), f')"
  shows "fm_text out' = fm_text out"
proof (rule format_success [OF assms(1) [unfolded sol_format_source_def]],
    rule format_success [OF assms(2) [unfolded sol_format_source_def]])
  let ?src = "text_source (src_path src) (fm_text out)"
  fix ts d1 tree d2 e2 e3 e4 us c1 tree' c2 f2 f3 f4
  assume f: "CHR 0x00 \<notin> set (src_text src)"
    "run_state (sol_format_render_raw src ts tree sol_formatted_init) e3 = ((True, out), e4)"
    "run_state (format_check format_parser src ts out d2) e4 = ((Some out, ds'), e')"
    and g: "run_state (sol_lex ?src sol_tokens_init d) f = ((True, us, c1), f2)"
    "run_state (format_parser ?src us c1) f2 = ((True, tree', c2), f3)"
    "run_state (sol_format_render_raw ?src us tree' sol_formatted_init) f3 = ((True, out'), f4)"
  from format_check_success [OF f(3) render_no_nul [OF f(2,1)]]
  obtain vs b1 tree2 b2 second h1 h2 h3 h4
    where h: "run_state (sol_lex ?src sol_tokens_init sol_diagnostics_init) h1 = ((True, vs, b1), h2)"
      "run_state (format_parser ?src vs b1) h2 = ((True, tree2, b2), h3)"
      "run_state (sol_format_render_raw ?src vs tree2 sol_formatted_init) h3 = ((True, second), h4)"
      "fm_text second = fm_text out" by metis
  have items: "tks_items us = tks_items vs" using sol_lex_items g(1) h(1) by metis
  with g(2) h(2) have "tree' = tree2" using format_parser_same by blast
  with layout_deterministic [OF g(3) _ items] h(3,4) show ?thesis by metis
qed

theorem format_idempotent_witness:
  "\<exists>d f out. run_state (sol_format_source (text_source ''a'' (fm_text cramped_output))
     sol_diagnostics_init) plain_env = ((Some out, d), f) \<and> fm_text out = fm_text cramped_output \<and>
   cramped_source \<noteq> text_source ''a'' (fm_text cramped_output)"
proof -
  have path: "src_path cramped_source = ''a''"
    and differ: "cramped_source \<noteq> text_source ''a'' (fm_text cramped_output)"
    by (simp_all add: cramped_source_def text_source_def cramped_output_def)
  obtain e e' where "run_state (sol_format_source cramped_source sol_diagnostics_init) plain_env
      = ((Some cramped_output, sol_diagnostics_init), e)"
    and "run_state (sol_format_source (text_source (src_path cramped_source) (fm_text cramped_output))
      sol_diagnostics_init) plain_env = ((Some cramped_output, sol_diagnostics_init), e')"
    using cramped_formats by blast
  with format_idempotent [OF this] differ show ?thesis unfolding path by blast
qed

end
