(* ===== verification/Sol_IR.thy ===== *)
theory Sol_IR
  imports Sol_Token
begin

text \<open>
  \<open>src/include/sol/ir.h\<close>: the interpreter IR, a set of flat arenas that refer to each other
  by index. Each struct is a record, each tagged union a datatype whose constructors carry
  the union's members. Kept are the members that execution and the host registry read;
  names used only by renderers, semantic ids and source spans of sub-parts are left out. Arrays and their
  counts are lists.
\<close>

definition SOL_IR_NONE :: size_t where
  "SOL_IR_NONE = SIZE_MAX"

type_synonym SolIrTypeId = size_t
type_synonym SolIrDefinitionId = size_t
type_synonym SolIrCallableId = size_t
type_synonym SolIrLocalId = size_t
type_synonym SolIrExpressionId = size_t

datatype SolAccessMode = SOL_ACCESS_OWNED | SOL_ACCESS_SHARED | SOL_ACCESS_EXCLUSIVE

section \<open>Types, effects and definitions\<close>

datatype SolIrTypeKind =
    SOL_IR_TYPE_INT64 | SOL_IR_TYPE_BOOL | SOL_IR_TYPE_TEXT | SOL_IR_TYPE_UNIT
  | SOL_IR_TYPE_NEVER | SOL_IR_TYPE_NOMINAL | SOL_IR_TYPE_OPTION | SOL_IR_TYPE_RESULT
  | SOL_IR_TYPE_TUPLE | SOL_IR_TYPE_FUNCTION | SOL_IR_TYPE_PARAMETER | SOL_IR_TYPE_SELF

record SolIrType =
  ty_kind :: SolIrTypeKind
  ty_definition :: size_t
  ty_arguments :: slice
  ty_parameters :: slice
  ty_access_offset :: size_t
  ty_result :: size_t
  ty_effects :: slice

datatype SolIrAuthorityKind =
  SOL_IR_AUTHORITY_NONE | SOL_IR_AUTHORITY_LOCAL | SOL_IR_AUTHORITY_SELF

record SolIrEffect =
  ef_name :: string
  ef_authority_kind :: SolIrAuthorityKind
  ef_authority :: size_t

datatype SolIrDefinitionKind =
    SOL_IR_DEFINITION_RECORD | SOL_IR_DEFINITION_ENUM | SOL_IR_DEFINITION_DISTINCT
  | SOL_IR_DEFINITION_REFINED | SOL_IR_DEFINITION_CAPABILITY | SOL_IR_DEFINITION_FUNCTION
  | SOL_IR_DEFINITION_TRAIT | SOL_IR_DEFINITION_IMPLEMENTATION | SOL_IR_DEFINITION_TEST

record SolIrDefinition =
  def_kind :: SolIrDefinitionKind
  def_name :: string
  def_span :: SolSpan
  def_callable :: size_t
  def_representation :: size_t
  def_impl_trait :: size_t
  def_impl_target :: size_t
  def_fields :: slice
  def_members :: slice
  def_generics :: slice
  def_source :: size_t
  def_is_entrypoint :: bool

datatype SolIrCallableKind =
    SOL_IR_CALLABLE_FUNCTION | SOL_IR_CALLABLE_CAPABILITY | SOL_IR_CALLABLE_TRAIT_REQUIREMENT
  | SOL_IR_CALLABLE_TRAIT_IMPLEMENTATION | SOL_IR_CALLABLE_TEST

record SolIrCallable =
  ca_kind :: SolIrCallableKind
  ca_owner :: size_t
  ca_name :: string
  ca_span :: SolSpan
  ca_parameters :: slice
  ca_result :: size_t
  ca_body :: size_t
  ca_effects :: slice
  ca_generics :: slice
  ca_effect_parameters :: slice
  ca_effect_parameter :: size_t
  ca_receiver :: size_t
  ca_receiver_access :: SolAccessMode
  ca_source :: size_t
  ca_authority_kind :: SolIrAuthorityKind
  ca_authority :: size_t

record SolIrDispatchEvidence =
  ev_trait :: size_t
  ev_requirement :: size_t
  ev_implementation :: size_t
  ev_method :: size_t
  ev_type :: size_t
  ev_binding :: size_t
  ev_parameter :: size_t
  ev_forwarded :: bool

record SolIrLocal =
  lo_name :: string
  lo_type :: size_t
  lo_access :: SolAccessMode

record SolIrVariant =
  va_owner :: size_t
  va_fields :: slice

section \<open>Places, expressions and statements\<close>

datatype SolIrPlaceRootKind = SOL_IR_PLACE_ROOT_LOCAL | SOL_IR_PLACE_ROOT_TEMPORARY

datatype SolIrProjectionKind =
    SOL_IR_PROJECTION_FIELD | SOL_IR_PROJECTION_TUPLE_FIELD | SOL_IR_PROJECTION_INDEX
  | SOL_IR_PROJECTION_DEREFERENCE

record SolIrProjection =
  pj_kind :: SolIrProjectionKind
  pj_field :: size_t
  pj_ordinal :: size_t
  pj_span :: SolSpan

record SolIrPlace =
  pl_root_kind :: SolIrPlaceRootKind
  pl_local :: size_t
  pl_temporary :: size_t
  pl_projections :: slice
  pl_root_span :: SolSpan

datatype SolIrLocalUse =
    SOL_IR_LOCAL_USE_NONE | SOL_IR_LOCAL_USE_COPY | SOL_IR_LOCAL_USE_MOVE
  | SOL_IR_LOCAL_USE_SHARED | SOL_IR_LOCAL_USE_EXCLUSIVE | SOL_IR_LOCAL_USE_UPDATE

datatype SolIrCallKind =
    SOL_IR_CALL_FUNCTION | SOL_IR_CALL_CALLBACK | SOL_IR_CALL_CAPABILITY | SOL_IR_CALL_METHOD
  | SOL_IR_CALL_BUILTIN_OK | SOL_IR_CALL_BUILTIN_ERR | SOL_IR_CALL_BUILTIN_SOME
  | SOL_IR_CALL_BUILTIN_NONE | SOL_IR_CALL_ENUM_CONSTRUCTOR | SOL_IR_CALL_DISTINCT_CONSTRUCTOR

datatype SolIrPropagationKind = SOL_IR_PROPAGATE_OPTION | SOL_IR_PROPAGATE_RESULT

record SolIrOperand =
  op_value :: size_t
  op_access :: SolAccessMode

record SolIrCall =
  cl_kind :: SolIrCallKind
  cl_callable :: size_t
  cl_callee :: size_t
  cl_receiver :: size_t
  cl_receiver_access :: SolAccessMode
  cl_variant :: size_t
  cl_definition :: size_t
  cl_operands :: slice
  cl_type_arguments :: slice
  cl_evidence :: slice

record SolIrHandler =
  ha_effect_name :: string
  ha_authority :: size_t
  ha_provider :: size_t
  ha_body :: size_t
  ha_source :: size_t
  ha_provider_callable :: size_t

datatype SolIrExpressionKind =
    SOL_IR_EXPR_INTEGER "64 word"
  | SOL_IR_EXPR_STRING string
  | SOL_IR_EXPR_BOOL bool
  | SOL_IR_EXPR_UNIT
  | SOL_IR_EXPR_PLACE size_t
  | SOL_IR_EXPR_DEFINITION size_t
  | SOL_IR_EXPR_REFINEMENT_SELF
  | SOL_IR_EXPR_UNARY SolTokenKind size_t
  | SOL_IR_EXPR_BINARY size_t SolTokenKind size_t
  | SOL_IR_EXPR_CALL SolIrCall
  | SOL_IR_EXPR_RECORD size_t slice
  | SOL_IR_EXPR_TUPLE slice
  | SOL_IR_EXPR_VARIANT size_t
  | SOL_IR_EXPR_IF size_t size_t size_t
  | SOL_IR_EXPR_MATCH size_t slice
  | SOL_IR_EXPR_BLOCK slice slice
  | SOL_IR_EXPR_PROPAGATE SolIrPropagationKind size_t
  | SOL_IR_EXPR_HANDLE SolIrHandler
  | SOL_IR_EXPR_RESULT
  | SOL_IR_EXPR_SNAPSHOT_READ size_t
  | SOL_IR_EXPR_COMPILE_TIME_HEAD
  | SOL_IR_EXPR_BOUND_OPERATION size_t size_t

record SolIrExpression =
  ex_kind :: SolIrExpressionKind
  ex_local_use :: SolIrLocalUse
  ex_span :: SolSpan
  ex_type :: size_t

datatype SolIrStatementKind =
    SOL_IR_STATEMENT_LET | SOL_IR_STATEMENT_DECLARE | SOL_IR_STATEMENT_ASSIGNMENT
  | SOL_IR_STATEMENT_RETURN | SOL_IR_STATEMENT_EXPRESSION | SOL_IR_STATEMENT_REGION
  | SOL_IR_STATEMENT_MODIFY | SOL_IR_STATEMENT_LOOP | SOL_IR_STATEMENT_WHILE
  | SOL_IR_STATEMENT_BREAK | SOL_IR_STATEMENT_CONTINUE | SOL_IR_STATEMENT_PANIC
  | SOL_IR_STATEMENT_UNREACHABLE | SOL_IR_STATEMENT_REQUIRE

record SolIrStatement =
  st_kind :: SolIrStatementKind
  st_span :: SolSpan
  st_local :: size_t
  st_target :: size_t
  st_expression :: size_t
  st_condition :: size_t
  st_operator :: SolTokenKind

section \<open>Patterns and contracts\<close>

datatype SolIrPatternKind =
    SOL_IR_PATTERN_WILDCARD | SOL_IR_PATTERN_BOOL | SOL_IR_PATTERN_BINDING
  | SOL_IR_PATTERN_VARIANT | SOL_IR_PATTERN_RECORD | SOL_IR_PATTERN_TUPLE

record SolIrPattern =
  pa_kind :: SolIrPatternKind
  pa_span :: SolSpan
  pa_boolean :: bool
  pa_variant :: size_t
  pa_definition :: size_t
  pa_children :: slice

record SolIrPatternChild =
  pc_field :: size_t
  pc_ordinal :: size_t
  pc_pattern :: size_t

record SolIrArm =
  ar_pattern :: size_t
  ar_guard :: size_t
  ar_bindings :: slice
  ar_cleanup :: slice
  ar_body :: size_t
  ar_span :: SolSpan

datatype SolContractOwnerKind =
    SOL_CONTRACT_OWNER_ITEM | SOL_CONTRACT_OWNER_CAPABILITY_MEMBER | SOL_CONTRACT_OWNER_TYPE

datatype SolContractClauseKind = SOL_CONTRACT_REQUIRES | SOL_CONTRACT_ENSURES

datatype SolContractOutcomeKind =
    SOL_CONTRACT_OUTCOME_ALWAYS | SOL_CONTRACT_OUTCOME_SUCCESS | SOL_CONTRACT_OUTCOME_FAILURE

record SolIrObligation =
  ob_id :: size_t
  ob_owner_kind :: SolContractOwnerKind
  ob_owner :: size_t
  ob_kind :: SolContractClauseKind
  ob_outcome :: SolContractOutcomeKind
  ob_predicate :: size_t
  ob_result_available :: bool

record SolIrSnapshot =
  sn_obligation :: size_t
  sn_operand :: size_t

record SolIrSourceFile =
  sf_path :: string
  sf_start :: size_t
  sf_end :: size_t

section \<open>The whole IR\<close>

record SolIr =
  ir_source_path :: "string option"
  ir_types :: "SolIrType list"
  ir_type_ids :: "size_t list"
  ir_accesses :: "SolAccessMode list"
  ir_definitions :: "SolIrDefinition list"
  ir_callables :: "SolIrCallable list"
  ir_members :: "size_t list"
  ir_evidence :: "SolIrDispatchEvidence list"
  ir_locals :: "SolIrLocal list"
  ir_fields :: "size_t list"
  ir_variants :: "SolIrVariant list"
  ir_expressions :: "SolIrExpression list"
  ir_places :: "SolIrPlace list"
  ir_projections :: "SolIrProjection list"
  ir_statements :: "SolIrStatement list"
  ir_statement_ids :: "size_t list"
  ir_arms :: "SolIrArm list"
  ir_arm_ids :: "size_t list"
  ir_patterns :: "SolIrPattern list"
  ir_pattern_children :: "SolIrPatternChild list"
  ir_operands :: "SolIrOperand list"
  ir_roots :: "size_t list"
  ir_cleanup_locals :: "size_t list"
  ir_effects :: "SolIrEffect list"
  ir_trait_bounds :: "size_t list"
  ir_obligations :: "SolIrObligation list"
  ir_snapshots :: "SolIrSnapshot list"
  ir_files :: "SolIrSourceFile list"

text \<open>
  \<open>ir_members\<close> holds the callable of each member, \<open>ir_fields\<close> the type of each field and
  \<open>ir_trait_bounds\<close> the trait bound of each generic parameter, the only members of those
  structs that execution reads.
\<close>

end
