(* ===== verification/Sol_Value.thy ===== *)
theory Sol_Value
  imports Sol_IR
begin

text \<open>
  Runtime values of \<open>src/include/sol/interpreter.h\<close> and the value operations at the head of
  \<open>src/src/interpreter.c\<close>: shape checking, deep clones, metrics and structural equality.
  A value owns what it points to, so it is a tree here: an absent pointer is \<open>None\<close>, a field
  array is a list. Sharing and cycles, which \<open>value_shape_valid\<close> also rejects, have no
  counterpart. Memory comes from an oracle that says which request fails; releasing memory
  is not modelled (a released value is dropped).
\<close>

section \<open>Data\<close>

type_synonym void_ptr = nat

abbreviation (input) NULL :: void_ptr where "NULL \<equiv> 0"

datatype SolAggregateKind = SOL_VALUE_TUPLE | SOL_VALUE_RECORD | SOL_VALUE_ENUM
datatype SolSumKind = SOL_VALUE_OPTION | SOL_VALUE_RESULT
datatype SolCallableValueKind = SOL_VALUE_FUNCTION | SOL_VALUE_BOUND_OPERATION

datatype SolInterpreterValue =
    VALUE_INVALID
  | VALUE_INT64 "64 word"
  | VALUE_BOOL bool
  | VALUE_TEXT "string option"
  | VALUE_UNIT
  | VALUE_AGGREGATE SolAggregateKind size_t size_t "SolInterpreterValue list"
  | VALUE_SUM SolSumKind bool bool "SolInterpreterValue option"
  | VALUE_DISTINCT size_t "SolInterpreterValue option"
  | VALUE_CAPABILITY size_t void_ptr "SolInterpreterValue option"
  | VALUE_CALLABLE SolCallableValueKind size_t "SolInterpreterValue option"

text \<open>The \<open>kind\<close> tag of a value; the C enumeration lists the aggregate, sum and callable kinds flat.\<close>

datatype SolInterpreterValueKind =
    KIND_INVALID | KIND_INT64 | KIND_BOOL | KIND_TEXT | KIND_UNIT
  | KIND_AGGREGATE SolAggregateKind | KIND_SUM SolSumKind | KIND_DISTINCT | KIND_CAPABILITY
  | KIND_CALLABLE SolCallableValueKind

fun value_kind :: "SolInterpreterValue \<Rightarrow> SolInterpreterValueKind" where
  "value_kind VALUE_INVALID = KIND_INVALID"
| "value_kind (VALUE_INT64 _) = KIND_INT64"
| "value_kind (VALUE_BOOL _) = KIND_BOOL"
| "value_kind (VALUE_TEXT _) = KIND_TEXT"
| "value_kind VALUE_UNIT = KIND_UNIT"
| "value_kind (VALUE_AGGREGATE k _ _ _) = KIND_AGGREGATE k"
| "value_kind (VALUE_SUM k _ _ _) = KIND_SUM k"
| "value_kind (VALUE_DISTINCT _ _) = KIND_DISTINCT"
| "value_kind (VALUE_CAPABILITY _ _ _) = KIND_CAPABILITY"
| "value_kind (VALUE_CALLABLE k _ _) = KIND_CALLABLE k"

section \<open>Memory\<close>

record heap =
  alloc_fails :: "nat \<Rightarrow> bool"
  alloc_calls :: nat

definition allocate :: "('z heap_scheme, bool) state" where
  "allocate = State (\<lambda>h. (\<not> alloc_fails h (alloc_calls h), h\<lparr>alloc_calls := Suc (alloc_calls h)\<rparr>))"

lemma run_allocate [simp]:
  "run_state allocate h = (\<not> alloc_fails h (alloc_calls h), h\<lparr>alloc_calls := Suc (alloc_calls h)\<rparr>)"
  by (simp add: allocate_def)

section \<open>Shape\<close>

record ShapePointers =
  sp_count :: size_t
  sp_capacity :: size_t

definition shape_pointer_add :: "ShapePointers \<Rightarrow> ('z heap_scheme, bool \<times> ShapePointers) state" where
  "shape_pointer_add ps =
     (if sp_count ps = sp_capacity ps then
        (let capacity = (if sp_capacity ps = 0 then 16 else sp_capacity ps * 2) in
         if capacity > SIZE_MAX div 8 then ret (False, ps)
         else do {
           ok \<leftarrow> allocate;
           (if ok then ret (True, \<lparr> sp_count = sp_count ps + 1, sp_capacity = capacity \<rparr>)
            else ret (False, ps)) })
      else ret (True, ps\<lparr>sp_count := sp_count ps + 1\<rparr>))"

fun value_shape_valid_recursive ::
    "SolInterpreterValue \<Rightarrow> size_t \<Rightarrow> ShapePointers \<Rightarrow> ('z heap_scheme, bool \<times> ShapePointers) state"
  and value_shape_fields ::
    "SolInterpreterValue list \<Rightarrow> size_t \<Rightarrow> ShapePointers \<Rightarrow> ('z heap_scheme, bool \<times> ShapePointers) state"
  and value_shape_pointer ::
    "SolInterpreterValue option \<Rightarrow> size_t \<Rightarrow> ShapePointers \<Rightarrow> ('z heap_scheme, bool \<times> ShapePointers) state"
where
  "value_shape_valid_recursive v depth owned =
     (if depth \<ge> 256 then ret (False, owned)
      else case v of
        VALUE_INVALID \<Rightarrow> ret (False, owned)
      | VALUE_TEXT bytes \<Rightarrow>
          (if bytes = None then ret (False, owned) else shape_pointer_add owned)
      | VALUE_AGGREGATE k definition variant elems \<Rightarrow>
          if k = SOL_VALUE_TUPLE \<and> (definition \<noteq> SOL_IR_NONE \<or> variant \<noteq> SOL_IR_NONE
              \<or> length elems < 2 \<or> length elems > 16) then ret (False, owned)
          else if elems = [] then ret (True, owned)
          else do {
            (ok, owned') \<leftarrow> shape_pointer_add owned;
            (if ok then value_shape_fields elems (depth + 1) owned' else ret (False, owned')) }
      | VALUE_SUM SOL_VALUE_OPTION has_value is_error payload \<Rightarrow>
          if is_error \<or> has_value \<noteq> (payload \<noteq> None) then ret (False, owned)
          else value_shape_pointer payload (depth + 1) owned
      | VALUE_SUM SOL_VALUE_RESULT has_value is_error payload \<Rightarrow>
          if \<not> has_value \<or> payload = None then ret (False, owned)
          else value_shape_pointer payload (depth + 1) owned
      | VALUE_DISTINCT definition payload \<Rightarrow>
          if payload = None then ret (False, owned)
          else value_shape_pointer payload (depth + 1) owned
      | VALUE_CAPABILITY definition root source \<Rightarrow>
          value_shape_pointer source (depth + 1) owned
      | VALUE_CALLABLE SOL_VALUE_FUNCTION callable receiver \<Rightarrow>
          ret (receiver = None, owned)
      | VALUE_CALLABLE SOL_VALUE_BOUND_OPERATION callable receiver \<Rightarrow>
          if receiver = None then ret (False, owned)
          else value_shape_pointer receiver (depth + 1) owned
      | _ \<Rightarrow> ret (True, owned))"
| "value_shape_fields [] depth owned = ret (True, owned)"
| "value_shape_fields (v # vs) depth owned = do {
     (ok, owned') \<leftarrow> value_shape_valid_recursive v depth owned;
     (if ok then value_shape_fields vs depth owned' else ret (False, owned')) }"
| "value_shape_pointer None depth owned = ret (True, owned)"
| "value_shape_pointer (Some v) depth owned = do {
     (ok, owned') \<leftarrow> shape_pointer_add owned;
     (if ok then value_shape_valid_recursive v depth owned' else ret (False, owned')) }"

declare value_shape_valid_recursive.simps [simp del]

definition value_shape_valid :: "SolInterpreterValue \<Rightarrow> ('z heap_scheme, bool) state" where
  "value_shape_valid v = do {
     (valid, owned) \<leftarrow> value_shape_valid_recursive v 0 \<lparr> sp_count = 0, sp_capacity = 0 \<rparr>;
     ret valid }"

section \<open>Clone\<close>

fun sol_interpreter_value_clone ::
    "SolInterpreterValue \<Rightarrow> ('z heap_scheme, SolInterpreterValue option) state"
  and clone_fields ::
    "SolInterpreterValue list \<Rightarrow> ('z heap_scheme, SolInterpreterValue list option) state"
  and clone_pointer ::
    "SolInterpreterValue option \<Rightarrow> ('z heap_scheme, SolInterpreterValue option option) state"
where
  "sol_interpreter_value_clone source = do {
     shape \<leftarrow> value_shape_valid source;
     (if \<not> shape then ret None
      else case source of
        VALUE_TEXT None \<Rightarrow> ret None
      | VALUE_TEXT (Some bytes) \<Rightarrow>
          (if length bytes = SIZE_MAX then ret None
           else do { ok \<leftarrow> allocate; ret (if ok then Some (VALUE_TEXT (Some bytes)) else None) })
      | VALUE_AGGREGATE k definition variant elems \<Rightarrow>
          (if elems = [] then ret (Some source)
           else do {
             ok \<leftarrow> allocate;
             (if \<not> ok then ret None
              else do {
                copy \<leftarrow> clone_fields elems;
                ret (map_option (VALUE_AGGREGATE k definition variant) copy) }) })
      | VALUE_SUM k has_value is_error payload \<Rightarrow> do {
          copy \<leftarrow> clone_pointer payload;
          ret (map_option (VALUE_SUM k has_value is_error) copy) }
      | VALUE_DISTINCT definition payload \<Rightarrow>
          (if payload = None then ret None
           else do {
             copy \<leftarrow> clone_pointer payload;
             ret (map_option (VALUE_DISTINCT definition) copy) })
      | VALUE_CAPABILITY definition root payload \<Rightarrow> do {
          copy \<leftarrow> clone_pointer payload;
          ret (map_option (VALUE_CAPABILITY definition root) copy) }
      | VALUE_CALLABLE SOL_VALUE_FUNCTION callable receiver \<Rightarrow>
          ret (Some (VALUE_CALLABLE SOL_VALUE_FUNCTION callable None))
      | VALUE_CALLABLE SOL_VALUE_BOUND_OPERATION callable receiver \<Rightarrow>
          (if receiver = None then ret None
           else do {
             copy \<leftarrow> clone_pointer receiver;
             ret (map_option (VALUE_CALLABLE SOL_VALUE_BOUND_OPERATION callable) copy) })
      | _ \<Rightarrow> ret (Some source)) }"
| "clone_fields [] = ret (Some [])"
| "clone_fields (v # vs) = do {
     copy \<leftarrow> sol_interpreter_value_clone v;
     (case copy of
        None \<Rightarrow> ret None
      | Some w \<Rightarrow> do { rest \<leftarrow> clone_fields vs; ret (map_option ((#) w) rest) }) }"
| "clone_pointer None = ret (Some None)"
| "clone_pointer (Some v) = do {
     ok \<leftarrow> allocate;
     (if \<not> ok then ret None
      else do { copy \<leftarrow> sol_interpreter_value_clone v; ret (map_option Some copy) }) }"

declare sol_interpreter_value_clone.simps [simp del]

section \<open>Metrics\<close>

fun value_metrics :: "SolInterpreterValue \<Rightarrow> size_t \<times> size_t \<Rightarrow> (size_t \<times> size_t) option"
  and fields_metrics :: "SolInterpreterValue list \<Rightarrow> size_t \<times> size_t \<Rightarrow> (size_t \<times> size_t) option"
  and pointer_metrics :: "SolInterpreterValue option \<Rightarrow> size_t \<times> size_t \<Rightarrow> (size_t \<times> size_t) option"
where
  "value_metrics v (nodes, text_bytes) =
     (if nodes = SIZE_MAX then None
      else case v of
        VALUE_TEXT bytes \<Rightarrow>
          (case bytes of
             None \<Rightarrow> Some (nodes + 1, text_bytes)
           | Some s \<Rightarrow> if length s > SIZE_MAX - text_bytes then None
                       else Some (nodes + 1, text_bytes + length s))
      | VALUE_AGGREGATE k definition variant elems \<Rightarrow> fields_metrics elems (nodes + 1, text_bytes)
      | VALUE_SUM k has_value is_error payload \<Rightarrow> pointer_metrics payload (nodes + 1, text_bytes)
      | VALUE_DISTINCT definition payload \<Rightarrow> pointer_metrics payload (nodes + 1, text_bytes)
      | VALUE_CAPABILITY definition root payload \<Rightarrow> pointer_metrics payload (nodes + 1, text_bytes)
      | VALUE_CALLABLE SOL_VALUE_BOUND_OPERATION callable receiver \<Rightarrow>
          pointer_metrics receiver (nodes + 1, text_bytes)
      | _ \<Rightarrow> Some (nodes + 1, text_bytes))"
| "fields_metrics [] m = Some m"
| "fields_metrics (v # vs) m =
     (case value_metrics v m of None \<Rightarrow> None | Some m' \<Rightarrow> fields_metrics vs m')"
| "pointer_metrics None m = Some m"
| "pointer_metrics (Some v) m = value_metrics v m"

section \<open>Equality\<close>

text \<open>
  \<open>value_equal\<close> returns its result and the final value of \<open>*supported\<close>, which starts as true;
  \<open>None\<close> is the null dereference C would perform on a malformed sum, text or distinct value.
\<close>

fun value_equal :: "SolInterpreterValue \<Rightarrow> SolInterpreterValue \<Rightarrow> (bool \<times> bool) option"
  and fields_equal :: "SolInterpreterValue list \<Rightarrow> SolInterpreterValue list \<Rightarrow> (bool \<times> bool) option"
  and pointer_equal :: "SolInterpreterValue option \<Rightarrow> SolInterpreterValue option \<Rightarrow> (bool \<times> bool) option"
where
  "value_equal left right =
     (if value_kind left \<noteq> value_kind right then Some (False, True)
      else case left of
        VALUE_INT64 a \<Rightarrow> (case right of VALUE_INT64 b \<Rightarrow> Some (a = b, True) | _ \<Rightarrow> None)
      | VALUE_BOOL a \<Rightarrow> (case right of VALUE_BOOL b \<Rightarrow> Some (a = b, True) | _ \<Rightarrow> None)
      | VALUE_TEXT a \<Rightarrow>
          (case right of
             VALUE_TEXT b \<Rightarrow>
               (case (a, b) of (Some s, Some t) \<Rightarrow> Some (s = t, True) | _ \<Rightarrow> None)
           | _ \<Rightarrow> None)
      | VALUE_UNIT \<Rightarrow> Some (True, True)
      | VALUE_AGGREGATE k d w fs \<Rightarrow>
          (case right of
             VALUE_AGGREGATE k' d' w' gs \<Rightarrow>
               if d \<noteq> d' \<or> w \<noteq> w' \<or> length fs \<noteq> length gs then Some (False, True)
               else fields_equal fs gs
           | _ \<Rightarrow> None)
      | VALUE_SUM k h e p \<Rightarrow>
          (case right of
             VALUE_SUM k' h' e' q \<Rightarrow>
               if h \<noteq> h' \<or> e \<noteq> e' then Some (False, True)
               else if \<not> h then Some (True, True)
               else pointer_equal p q
           | _ \<Rightarrow> None)
      | VALUE_DISTINCT d p \<Rightarrow>
          (case right of
             VALUE_DISTINCT d' q \<Rightarrow>
               if d \<noteq> d' then Some (False, True) else pointer_equal p q
           | _ \<Rightarrow> None)
      | _ \<Rightarrow> Some (False, False))"
| "fields_equal (l # ls) (r # rs) =
     (case value_equal l r of
        None \<Rightarrow> None
      | Some (equal, supported) \<Rightarrow>
          if \<not> equal \<or> \<not> supported then Some (False, supported) else fields_equal ls rs)"
| "fields_equal _ _ = Some (True, True)"
| "pointer_equal (Some l) (Some r) = value_equal l r"
| "pointer_equal _ _ = None"

declare value_equal.simps [simp del]

section \<open>What the operations compute\<close>

text \<open>
  Specifications over the tree: which values are well shaped, how many nodes and text bytes a
  value has, and which values contain no runtime-only part (capability or callable).
\<close>

fun shape_ok :: "size_t \<Rightarrow> SolInterpreterValue \<Rightarrow> bool" where
  "shape_ok depth v \<longleftrightarrow> depth < 256 \<and>
     (case v of
        VALUE_INVALID \<Rightarrow> False
      | VALUE_TEXT bytes \<Rightarrow> bytes \<noteq> None
      | VALUE_AGGREGATE k definition variant elems \<Rightarrow>
          (k = SOL_VALUE_TUPLE \<longrightarrow> definition = SOL_IR_NONE \<and> variant = SOL_IR_NONE
             \<and> 2 \<le> length elems \<and> length elems \<le> 16) \<and>
          (\<forall>w \<in> set elems. shape_ok (depth + 1) w)
      | VALUE_SUM k has_value is_error payload \<Rightarrow>
          (k = SOL_VALUE_OPTION \<longrightarrow> \<not> is_error) \<and> (k = SOL_VALUE_RESULT \<longrightarrow> has_value) \<and>
          has_value = (payload \<noteq> None) \<and> (\<forall>w \<in> set_option payload. shape_ok (depth + 1) w)
      | VALUE_DISTINCT definition payload \<Rightarrow>
          payload \<noteq> None \<and> (\<forall>w \<in> set_option payload. shape_ok (depth + 1) w)
      | VALUE_CAPABILITY definition root source \<Rightarrow>
          (\<forall>w \<in> set_option source. shape_ok (depth + 1) w)
      | VALUE_CALLABLE k callable receiver \<Rightarrow>
          (k = SOL_VALUE_FUNCTION) = (receiver = None) \<and>
          (\<forall>w \<in> set_option receiver. shape_ok (depth + 1) w)
      | _ \<Rightarrow> True)"

declare shape_ok.simps [simp del]

fun node_count :: "SolInterpreterValue \<Rightarrow> nat" where
  "node_count (VALUE_AGGREGATE _ _ _ elems) = 1 + sum_list (map node_count elems)"
| "node_count (VALUE_SUM _ _ _ payload) = (case payload of None \<Rightarrow> 1 | Some v \<Rightarrow> 1 + node_count v)"
| "node_count (VALUE_DISTINCT _ payload) = (case payload of None \<Rightarrow> 1 | Some v \<Rightarrow> 1 + node_count v)"
| "node_count (VALUE_CAPABILITY _ _ source) = (case source of None \<Rightarrow> 1 | Some v \<Rightarrow> 1 + node_count v)"
| "node_count (VALUE_CALLABLE SOL_VALUE_BOUND_OPERATION _ receiver) =
     (case receiver of None \<Rightarrow> 1 | Some v \<Rightarrow> 1 + node_count v)"
| "node_count _ = 1"

fun text_size :: "SolInterpreterValue \<Rightarrow> nat" where
  "text_size (VALUE_TEXT bytes) = (case bytes of None \<Rightarrow> 0 | Some s \<Rightarrow> length s)"
| "text_size (VALUE_AGGREGATE _ _ _ elems) = sum_list (map text_size elems)"
| "text_size (VALUE_SUM _ _ _ payload) = (case payload of None \<Rightarrow> 0 | Some v \<Rightarrow> text_size v)"
| "text_size (VALUE_DISTINCT _ payload) = (case payload of None \<Rightarrow> 0 | Some v \<Rightarrow> text_size v)"
| "text_size (VALUE_CAPABILITY _ _ source) = (case source of None \<Rightarrow> 0 | Some v \<Rightarrow> text_size v)"
| "text_size (VALUE_CALLABLE SOL_VALUE_BOUND_OPERATION _ receiver) =
     (case receiver of None \<Rightarrow> 0 | Some v \<Rightarrow> text_size v)"
| "text_size _ = 0"

fun comparable :: "SolInterpreterValue \<Rightarrow> bool" where
  "comparable (VALUE_AGGREGATE _ _ _ elems) = (\<forall>v \<in> set elems. comparable v)"
| "comparable (VALUE_SUM _ _ _ payload) = (\<forall>v \<in> set_option payload. comparable v)"
| "comparable (VALUE_DISTINCT _ payload) = (\<forall>v \<in> set_option payload. comparable v)"
| "comparable (VALUE_CAPABILITY _ _ _) = False"
| "comparable (VALUE_CALLABLE _ _ _) = False"
| "comparable VALUE_INVALID = False"
| "comparable _ = True"

lemma node_count_pos [simp]: "0 < node_count v"
  by (cases v rule: node_count.cases) (auto split: option.split)

subsection \<open>Shape checking is sound\<close>

lemma shape_sound:
  "run_state (value_shape_valid_recursive v depth owned) h = ((True, owned'), h') \<Longrightarrow> shape_ok depth v"
  "run_state (value_shape_fields vs depth owned) h = ((True, owned'), h') \<Longrightarrow>
   (\<forall>v \<in> set vs. shape_ok depth v)"
  "run_state (value_shape_pointer p depth owned) h = ((True, owned'), h') \<Longrightarrow>
   (\<forall>v \<in> set_option p. shape_ok depth v)"
proof (induction v depth owned and vs depth owned and p depth owned arbitrary: h h' owned' and h h' owned' and h h' owned'
    rule: value_shape_valid_recursive_value_shape_fields_value_shape_pointer.induct)
  case (1 v depth owned)
  then show ?case
    unfolding value_shape_valid_recursive.simps [of v] shape_ok.simps [of depth v]
    by (cases v) (auto simp: not_less split: if_splits prod.splits SolSumKind.splits
        SolCallableValueKind.splits)
qed (auto split: prod.splits if_splits)

lemma value_shape_valid_sound:
  "run_state (value_shape_valid v) h = (True, h') \<Longrightarrow> shape_ok 0 v"
  by (auto simp: value_shape_valid_def split: prod.splits dest: shape_sound(1))

subsection \<open>A clone is the value itself\<close>

lemma clone_sound:
  "run_state (sol_interpreter_value_clone v) h = (Some w, h') \<Longrightarrow> w = v"
  "run_state (clone_fields vs) h = (Some ws, h') \<Longrightarrow> ws = vs"
  "run_state (clone_pointer p) h = (Some q, h') \<Longrightarrow> q = p"
proof (induction v and vs and p arbitrary: h h' w and h h' ws and h h' q
    rule: sol_interpreter_value_clone_clone_fields_clone_pointer.induct)
  case (1 v)
  obtain shape h1 where shape: "run_state (value_shape_valid v) h = (shape, h1)"
    by (metis prod.exhaust)
  have shape_v: "shape \<Longrightarrow> shape_ok 0 v" using shape value_shape_valid_sound [of v h h1] by simp
  show ?case
  proof (cases shape)
    case False
    with "1.prems" shape show ?thesis by (simp add: sol_interpreter_value_clone.simps [of v])
  next
    case True
    then have T: "\<not> \<not> shape" by simp
    note [simp] = sol_interpreter_value_clone.simps
    note [simp del] = clone_pointer.simps clone_fields.simps
    show ?thesis
    proof (cases v)
      case (VALUE_TEXT bytes)
      with "1.prems" shape True show ?thesis by (cases bytes) (auto split: if_splits)
    next
      case (VALUE_AGGREGATE k a b elems)
      with "1.prems" shape True show ?thesis
        by (auto split: if_splits prod.splits dest: "1.IH"(1) [OF T VALUE_AGGREGATE])
    next
      case (VALUE_SUM k a b p)
      with "1.prems" shape True show ?thesis
        by (auto split: prod.splits dest: "1.IH"(2) [OF T VALUE_SUM])
    next
      case (VALUE_DISTINCT a p)
      with "1.prems" shape True "1.IH"(3) [OF T VALUE_DISTINCT, of h1] show ?thesis
        by (auto split: if_splits prod.splits)
    next
      case (VALUE_CAPABILITY a b p)
      with "1.prems" shape True show ?thesis
        by (auto split: prod.splits dest: "1.IH"(4) [OF T VALUE_CAPABILITY])
    next
      case (VALUE_CALLABLE k a p)
      with "1.prems" shape True shape_v "1.IH"(5) [OF T VALUE_CALLABLE, of h1] show ?thesis
        by (cases k) (auto simp: shape_ok.simps [of 0] split: if_splits prod.splits)
    qed (use "1.prems" shape True in auto)
  qed
qed (auto split: prod.splits if_splits option.splits)

subsection \<open>Metrics\<close>

lemma metrics_exact:
  "n \<le> SIZE_MAX \<Longrightarrow> b \<le> SIZE_MAX \<Longrightarrow> value_metrics v (n, b) =
     (if n + node_count v \<le> SIZE_MAX \<and> b + text_size v \<le> SIZE_MAX
      then Some (n + node_count v, b + text_size v) else None)"
  "fst m \<le> SIZE_MAX \<Longrightarrow> snd m \<le> SIZE_MAX \<Longrightarrow> fields_metrics vs m =
     (if fst m + sum_list (map node_count vs) \<le> SIZE_MAX \<and> snd m + sum_list (map text_size vs) \<le> SIZE_MAX
      then Some (fst m + sum_list (map node_count vs), snd m + sum_list (map text_size vs)) else None)"
  "fst m' \<le> SIZE_MAX \<Longrightarrow> snd m' \<le> SIZE_MAX \<Longrightarrow> pointer_metrics p m' =
     (case p of None \<Rightarrow> Some m'
      | Some v \<Rightarrow> if fst m' + node_count v \<le> SIZE_MAX \<and> snd m' + text_size v \<le> SIZE_MAX
                  then Some (fst m' + node_count v, snd m' + text_size v) else None)"
proof (induction v "(n, b)" and vs m and p m' arbitrary: n b and and
    rule: value_metrics_fields_metrics_pointer_metrics.induct)
  case (1 v nodes text_bytes)
  show ?case
  proof (cases "nodes = SIZE_MAX")
    case True
    with node_count_pos [of v] show ?thesis by (auto simp: not_le)
  next
    case False
    with 1 show ?thesis
      by (cases v) (auto split: option.splits SolCallableValueKind.splits)
  qed
next
  case (3 v vs m)
  then show ?case by (cases m) (auto split: option.splits)
qed (auto split: option.splits)

subsection \<open>Structural equality\<close>

lemma value_equal_exact:
  "shape_ok d l \<Longrightarrow> shape_ok d r \<Longrightarrow>
   \<exists>equal supported. value_equal l r = Some (equal, supported) \<and>
     (supported \<longrightarrow> equal = (l = r) \<and> (equal \<longrightarrow> comparable l)) \<and>
     (\<not> supported \<longrightarrow> \<not> comparable l \<and> \<not> comparable r \<and> \<not> equal)"
  "(\<forall>v \<in> set ls. shape_ok d v) \<Longrightarrow> (\<forall>v \<in> set rs. shape_ok d v) \<Longrightarrow> length ls = length rs \<Longrightarrow>
   \<exists>equal supported. fields_equal ls rs = Some (equal, supported) \<and>
     (supported \<longrightarrow> equal = (ls = rs) \<and> (equal \<longrightarrow> (\<forall>v \<in> set ls. comparable v))) \<and>
     (\<not> supported \<longrightarrow> (\<exists>v \<in> set ls. \<not> comparable v) \<and> (\<exists>v \<in> set rs. \<not> comparable v) \<and> \<not> equal)"
  "(\<forall>v \<in> set_option p. shape_ok d v) \<Longrightarrow> (\<forall>v \<in> set_option q. shape_ok d v) \<Longrightarrow>
   p \<noteq> None \<Longrightarrow> q \<noteq> None \<Longrightarrow>
   \<exists>equal supported. pointer_equal p q = Some (equal, supported) \<and>
     (supported \<longrightarrow> equal = (p = q) \<and> (equal \<longrightarrow> (\<forall>v \<in> set_option p. comparable v))) \<and>
     (\<not> supported \<longrightarrow> (\<exists>v \<in> set_option p. \<not> comparable v) \<and> (\<exists>v \<in> set_option q. \<not> comparable v) \<and> \<not> equal)"
proof (induction l r and ls rs and p q arbitrary: d and d and d
    rule: value_equal_fields_equal_pointer_equal.induct)
  case (1 l r)
  show ?case
  proof (cases "value_kind l = value_kind r")
    case False
    then show ?thesis by (auto simp: value_equal.simps [of l r])
  next
    case True
    show ?thesis
    proof (cases l)
      case (VALUE_AGGREGATE k a b elems)
      with True obtain a' b' elems' where r: "r = VALUE_AGGREGATE k a' b' elems'" by (cases r) auto
      show ?thesis
      proof (cases "a = a' \<and> b = b' \<and> length elems = length elems'")
        case eq: True
        have ok: "\<forall>v \<in> set elems. shape_ok (d + 1) v" "\<forall>v \<in> set elems'. shape_ok (d + 1) v"
          using "1.prems" by (simp_all add: VALUE_AGGREGATE r shape_ok.simps [of d])
        from "1.IH"(1) [of k a b elems k a' b' elems', OF _ VALUE_AGGREGATE r _ ok] True eq
        show ?thesis by (auto simp: VALUE_AGGREGATE r value_equal.simps [of "VALUE_AGGREGATE _ _ _ _"])
      qed (auto simp: VALUE_AGGREGATE r value_equal.simps [of "VALUE_AGGREGATE _ _ _ _"])
    next
      case (VALUE_SUM k h e p)
      with True obtain h' e' q where r: "r = VALUE_SUM k h' e' q" by (cases r) auto
      show ?thesis
      proof (cases "h = h' \<and> e = e' \<and> h")
        case eq: True
        have ok: "\<forall>v \<in> set_option p. shape_ok (d + 1) v" "\<forall>v \<in> set_option q. shape_ok (d + 1) v"
            "p \<noteq> None" "q \<noteq> None"
          using "1.prems" eq by (auto simp: VALUE_SUM r shape_ok.simps [of d])
        from "1.IH"(2) [of k h e p k h' e' q, OF _ VALUE_SUM r _ _ ok] True eq
        show ?thesis by (auto simp: VALUE_SUM r value_equal.simps [of "VALUE_SUM _ _ _ _"])
      next
        case False
        with "1.prems" show ?thesis
          by (auto simp: VALUE_SUM r value_equal.simps [of "VALUE_SUM _ _ _ _"] shape_ok.simps [of d])
      qed
    next
      case (VALUE_DISTINCT a p)
      with True obtain a' q where r: "r = VALUE_DISTINCT a' q" by (cases r) auto
      show ?thesis
      proof (cases "a = a'")
        case eq: True
        have ok: "\<forall>v \<in> set_option p. shape_ok (d + 1) v" "\<forall>v \<in> set_option q. shape_ok (d + 1) v"
            "p \<noteq> None" "q \<noteq> None"
          using "1.prems" eq by (auto simp: VALUE_DISTINCT r shape_ok.simps [of d])
        from "1.IH"(3) [of a p a' q, OF _ VALUE_DISTINCT r _ ok] True eq
        show ?thesis by (auto simp: VALUE_DISTINCT r value_equal.simps [of "VALUE_DISTINCT _ _"])
      qed (auto simp: VALUE_DISTINCT r value_equal.simps [of "VALUE_DISTINCT _ _"])
    next
      case (VALUE_TEXT a)
      with True obtain b where "r = VALUE_TEXT b" by (cases r) auto
      with VALUE_TEXT "1.prems" show ?thesis
        by (auto simp: value_equal.simps [of "VALUE_TEXT _"] shape_ok.simps [of d])
    next
      case VALUE_INVALID
      with True show ?thesis by (cases r) (auto simp: value_equal.simps [of "VALUE_INVALID"])
    next
      case (VALUE_INT64 a)
      with True show ?thesis by (cases r) (auto simp: value_equal.simps [of "VALUE_INT64 _"])
    next
      case (VALUE_BOOL a)
      with True show ?thesis by (cases r) (auto simp: value_equal.simps [of "VALUE_BOOL _"])
    next
      case VALUE_UNIT
      with True show ?thesis by (cases r) (auto simp: value_equal.simps [of "VALUE_UNIT"])
    next
      case (VALUE_CAPABILITY a b p)
      with True show ?thesis by (cases r) (auto simp: value_equal.simps [of "VALUE_CAPABILITY _ _ _"])
    next
      case (VALUE_CALLABLE k a p)
      with True show ?thesis by (cases r) (auto simp: value_equal.simps [of "VALUE_CALLABLE _ _ _"])
    qed
  qed
next
  case (2 l ls r rs)
  from "2.prems" have head: "shape_ok d l" "shape_ok d r"
    and tail: "\<forall>v \<in> set ls. shape_ok d v" "\<forall>v \<in> set rs. shape_ok d v" "length ls = length rs"
    by simp_all
  from "2.IH"(1) [OF head] obtain e1 s1 where hd: "value_equal l r = Some (e1, s1)"
    "s1 \<longrightarrow> e1 = (l = r) \<and> (e1 \<longrightarrow> comparable l)" "\<not> s1 \<longrightarrow> \<not> comparable l \<and> \<not> comparable r \<and> \<not> e1"
    by blast
  show ?case
  proof (cases "e1 \<and> s1")
    case False
    then have "fields_equal (l # ls) (r # rs) = Some (False, s1)" using hd(1) by simp
    with False hd(2,3) show ?thesis
      by (intro exI [of _ False] exI [of _ s1]) (cases s1; simp)
  next
    case True
    with hd(2) have lr: "l = r" "comparable l" by blast+
    from True hd(1) have "fields_equal (l # ls) (r # rs) = fields_equal ls rs" by simp
    with "2.IH"(2) [OF hd(1) refl _ tail] True lr show ?thesis by simp
  qed
next
  case (4 l r)
  from "4.IH" [of d] "4.prems" show ?case by simp
qed auto

section \<open>Properties\<close>

lemma clone_Some_shape:
  "run_state (sol_interpreter_value_clone v) h = (Some w, h') \<Longrightarrow> shape_ok 0 v"
  by (auto simp: sol_interpreter_value_clone.simps [of v] split: prod.splits if_splits
      dest: value_shape_valid_sound)

text \<open>
  C29. Whatever allocations fail, a deep clone that succeeds is the value that was cloned,
  and only well-shaped values can be cloned: no malformed payload, no invalid (moved-out)
  part, nesting below 256.
\<close>

theorem value_clone_faithful:
  assumes "run_state (sol_interpreter_value_clone v) h = (Some w, h')"
  shows "w = v \<and> shape_ok 0 v"
  using assms clone_sound(1) clone_Some_shape by blast

definition sample_heap :: heap where
  "sample_heap = \<lparr> alloc_fails = \<lambda>n. n = 7, alloc_calls = 0 \<rparr>"

definition sample_pair :: SolInterpreterValue where
  "sample_pair = VALUE_AGGREGATE SOL_VALUE_RECORD 3 SOL_IR_NONE
     [VALUE_INT64 5, VALUE_SUM SOL_VALUE_OPTION True False (Some (VALUE_TEXT (Some ''ab'')))]"

theorem value_clone_faithful_witness:
  "fst (run_state (sol_interpreter_value_clone sample_pair) sample_heap) = Some sample_pair \<and>
   shape_ok 0 sample_pair"
proof -
  have run: "fst (run_state (sol_interpreter_value_clone sample_pair) sample_heap) = Some sample_pair"
    by code_simp
  from value_clone_faithful [of sample_pair sample_heap sample_pair
      "snd (run_state (sol_interpreter_value_clone sample_pair) sample_heap)"] run
  show ?thesis by (metis prod.collapse)
qed

text \<open>
  C32. The metrics a clone reserves are exact: from counters within \<open>size_t\<close> they add the
  number of nodes and of text bytes of the value, and they fail exactly when one of the two
  sums does not fit \<open>size_t\<close>.
\<close>

theorem value_metrics_exact:
  assumes "nodes \<le> SIZE_MAX" and "bytes \<le> SIZE_MAX"
  shows "value_metrics v (nodes, bytes) =
     (if nodes + node_count v \<le> SIZE_MAX \<and> bytes + text_size v \<le> SIZE_MAX
      then Some (nodes + node_count v, bytes + text_size v) else None)"
  using assms by (rule metrics_exact(1))

theorem value_metrics_exact_witness:
  "value_metrics sample_pair (0, 0) = Some (4, 2)"
  using value_metrics_exact [of 0 0 sample_pair] by (simp add: sample_pair_def SIZE_MAX_def)

text \<open>
  C30. Structural equality decides equality of well-shaped values: it never dereferences a
  null pointer; when it reports the comparison as supported, its answer is whether the two
  values are equal; and it reports two values without capabilities and callables always as
  supported.
\<close>

theorem value_equal_decides:
  assumes "shape_ok d l" and "shape_ok d r"
  shows "\<exists>equal supported. value_equal l r = Some (equal, supported) \<and>
    (supported \<longrightarrow> equal = (l = r)) \<and> (comparable l \<or> comparable r \<longrightarrow> supported)"
  using value_equal_exact(1) [OF assms] by blast

theorem value_equal_decides_witness:
  "value_equal sample_pair sample_pair = Some (True, True)"
proof -
  have "shape_ok 0 sample_pair" by (simp add: sample_pair_def shape_ok.simps)
  moreover have "comparable sample_pair" by (simp add: sample_pair_def)
  ultimately show ?thesis using value_equal_decides [of 0 sample_pair sample_pair] by auto
qed

end
