(* ===== verification/Sol_Types.thy ===== *)
theory Sol_Types
  imports Sol_Value
begin

text \<open>
  The runtime type discipline of \<open>src/src/interpreter.c\<close>: which values are well-formed
  capabilities and bound operations, type substitution through the active frames, the check
  of a value against an IR type, and the domain of dispatch evidence. All of it only reads;
  \<open>None\<close> is a read outside an IR arena, which C leaves undefined. The chain of frames is seen
  through the type arguments it binds: a list of scopes, innermost first, each the offset of
  its first generic parameter and the bound type ids.
\<close>

type_synonym type_scopes = "(size_t \<times> size_t list) list"

text \<open>A C loop that stops with false at the first element whose check is false.\<close>

fun all_opt :: "('a \<Rightarrow> bool option) \<Rightarrow> 'a list \<Rightarrow> bool option" where
  "all_opt P [] = Some True"
| "all_opt P (x # xs) = do { b \<leftarrow> P x; (if b then all_opt P xs else Some False) }"

lemma all_opt_True_iff: "all_opt P xs = Some True \<longleftrightarrow> (\<forall>x \<in> set xs. P x = Some True)"
  by (induction xs) (auto simp: bind_eq_Some_conv)

lemma all_opt_cong [fundef_cong]:
  "xs = ys \<Longrightarrow> (\<And>x. x \<in> set ys \<Longrightarrow> P x = Q x) \<Longrightarrow> all_opt P xs = all_opt Q ys"
proof (induction ys arbitrary: xs)
  case (Cons y ys)
  then have "P y = Q y" "all_opt P ys = all_opt Q ys" by simp_all
  with Cons.prems(1) show ?case by (simp cong: Option.bind_cong if_cong)
qed simp

section \<open>Capabilities and bound operations\<close>

fun capability_value_valid :: "SolIr \<Rightarrow> SolInterpreterValue \<Rightarrow> size_t \<Rightarrow> bool" where
  "capability_value_valid ir (VALUE_CAPABILITY definition root source) depth =
     (if root = NULL \<or> definition \<ge> length (ir_definitions ir)
         \<or> depth > length (ir_definitions ir) then False
      else
        (let d = ir_definitions ir ! definition in
         if def_kind d \<noteq> SOL_IR_DEFINITION_CAPABILITY then False
         else if def_source d = SOL_IR_NONE then source = None
         else if def_source d \<ge> length (ir_locals ir) then False
         else
           (let source_type = lo_type (ir_locals ir ! def_source d) in
            if source_type \<ge> length (ir_types ir)
              \<or> ty_kind (ir_types ir ! source_type) \<noteq> SOL_IR_TYPE_NOMINAL then False
            else case source of
                Some (VALUE_CAPABILITY definition' root' source') \<Rightarrow>
                  definition' = ty_definition (ir_types ir ! source_type) \<and> root' = root \<and>
                  capability_value_valid ir (VALUE_CAPABILITY definition' root' source') (depth + 1)
              | _ \<Rightarrow> False)))"
| "capability_value_valid ir _ depth = False"

definition bound_operation_value_valid :: "SolIr \<Rightarrow> SolInterpreterValue \<Rightarrow> bool" where
  "bound_operation_value_valid ir v =
     (case v of
        VALUE_CALLABLE SOL_VALUE_BOUND_OPERATION callable (Some receiver) \<Rightarrow>
          callable < length (ir_callables ir) \<and> capability_value_valid ir receiver 0 \<and>
          ca_kind (ir_callables ir ! callable) = SOL_IR_CALLABLE_CAPABILITY \<and>
          (case receiver of
             VALUE_CAPABILITY definition _ _ \<Rightarrow> ca_owner (ir_callables ir ! callable) = definition
           | _ \<Rightarrow> False)
      | _ \<Rightarrow> False)"

section \<open>Substitution\<close>

fun find_scope :: "type_scopes \<Rightarrow> size_t \<Rightarrow> size_t option" where
  "find_scope [] parameter = None"
| "find_scope ((offset, arguments) # scopes) parameter =
     (if offset \<le> parameter \<and> parameter - offset < length arguments
      then Some (arguments ! (parameter - offset)) else find_scope scopes parameter)"

fun substitute :: "SolIr \<Rightarrow> type_scopes \<Rightarrow> nat \<Rightarrow> size_t \<Rightarrow> size_t" where
  "substitute ir scopes 0 type_id = SOL_IR_NONE"
| "substitute ir scopes (Suc n) type_id =
     (if type_id \<ge> length (ir_types ir) then SOL_IR_NONE
      else
        (let ty = ir_types ir ! type_id in
         if ty_kind ty \<noteq> SOL_IR_TYPE_PARAMETER then type_id
         else case find_scope scopes (ty_definition ty) of
             None \<Rightarrow> SOL_IR_NONE
           | Some argument \<Rightarrow> substitute ir scopes n argument))"

definition substituted_type :: "SolIr \<Rightarrow> type_scopes \<Rightarrow> size_t \<Rightarrow> size_t" where
  "substituted_type ir scopes type_id = substitute ir scopes 256 type_id"

section \<open>Values against types\<close>

text \<open>The \<open>SOL_IR_TYPE_SELF\<close> branch.\<close>

definition matches_self :: "SolInterpreterValue \<Rightarrow> SolInterpreterValue option \<Rightarrow> bool" where
  "matches_self v self =
     (case self of
        None \<Rightarrow> False
      | Some s \<Rightarrow>
          if value_kind v \<noteq> value_kind s then False
          else case (v, s) of
              (VALUE_AGGREGATE SOL_VALUE_TUPLE _ _ _, _) \<Rightarrow> True
            | (VALUE_AGGREGATE _ d _ _, VALUE_AGGREGATE _ d' _ _) \<Rightarrow> d = d'
            | (VALUE_DISTINCT d _, VALUE_DISTINCT d' _) \<Rightarrow> d = d'
            | (VALUE_CAPABILITY d _ _, VALUE_CAPABILITY d' _ _) \<Rightarrow> d = d'
            | (VALUE_INVALID, _) \<Rightarrow> False
            | _ \<Rightarrow> True)"

text \<open>The \<open>SOL_IR_TYPE_FUNCTION\<close> branch.\<close>

definition matches_function ::
    "SolIr \<Rightarrow> type_scopes \<Rightarrow> SolInterpreterValue \<Rightarrow> SolIrType \<Rightarrow> bool option" where
  "matches_function ir scopes v ty =
     (case v of
        VALUE_CALLABLE k callable_id _ \<Rightarrow>
          if callable_id \<ge> length (ir_callables ir) then Some False
          else
            (let callable = ir_callables ir ! callable_id in
             if k = SOL_VALUE_FUNCTION \<and> ca_kind callable \<noteq> SOL_IR_CALLABLE_FUNCTION then Some False
             else if k = SOL_VALUE_BOUND_OPERATION \<and> \<not> bound_operation_value_valid ir v then Some False
             else if sl_count (ca_generics callable) \<noteq> 0
               \<or> sl_count (ca_effect_parameters callable) \<noteq> 0 then Some False
             else if ty_definition ty \<noteq> SOL_IR_NONE then Some (ca_owner callable = ty_definition ty)
             else if sl_count (ca_parameters callable) \<noteq> sl_count (ty_parameters ty)
               \<or> ca_result callable \<noteq> substituted_type ir scopes (ty_result ty)
               \<or> sl_count (ca_effects callable) \<noteq> sl_count (ty_effects ty) then Some False
             else do {
               parameters \<leftarrow> all_opt (\<lambda>i. do {
                   local \<leftarrow> nth_opt (ir_roots ir) (sl_offset (ca_parameters callable) + i);
                   (if local \<ge> length (ir_locals ir) then Some False
                    else do {
                      access \<leftarrow> nth_opt (ir_accesses ir) (ty_access_offset ty + i);
                      (if lo_access (ir_locals ir ! local) \<noteq> access then Some False
                       else do {
                         parameter \<leftarrow> nth_opt (ir_type_ids ir) (sl_offset (ty_parameters ty) + i);
                         Some (lo_type (ir_locals ir ! local)
                           = substituted_type ir scopes parameter) }) }) })
                 [0..<sl_count (ty_parameters ty)];
               (if \<not> parameters then Some False
                else all_opt (\<lambda>i. do {
                    left \<leftarrow> nth_opt (ir_effects ir) (sl_offset (ca_effects callable) + i);
                    right \<leftarrow> nth_opt (ir_effects ir) (sl_offset (ty_effects ty) + i);
                    Some (ef_authority_kind left = ef_authority_kind right
                      \<and> ef_authority left = ef_authority right \<and> ef_name left = ef_name right) })
                  [0..<sl_count (ty_effects ty)]) })
      | _ \<Rightarrow> Some False)"

text \<open>
  The \<open>SOL_IR_TYPE_NOMINAL\<close> branch; \<open>rec\<close> is the recursive check one level deeper, called with
  the scopes extended by the definition's own type arguments.
\<close>

definition matches_nominal ::
    "SolIr \<Rightarrow> (type_scopes \<Rightarrow> SolInterpreterValue \<Rightarrow> size_t \<Rightarrow> bool option) \<Rightarrow>
     type_scopes \<Rightarrow> SolInterpreterValue \<Rightarrow> SolIrType \<Rightarrow> bool option" where
  "matches_nominal ir rec scopes v ty =
     (if ty_definition ty \<ge> length (ir_definitions ir) then Some False
      else
        (let d = ir_definitions ir ! ty_definition ty in
         if sl_count (def_generics d) \<noteq> sl_count (ty_arguments ty) then Some False
         else do {
           arguments \<leftarrow> slice_elems (ir_type_ids ir) (ty_arguments ty);
           (let inner = (sl_offset (def_generics d), arguments) # scopes in
            case def_kind d of
              SOL_IR_DEFINITION_CAPABILITY \<Rightarrow>
                Some (case v of VALUE_CAPABILITY definition _ _ \<Rightarrow>
                    definition = ty_definition ty \<and> capability_value_valid ir v 0 | _ \<Rightarrow> False)
            | SOL_IR_DEFINITION_RECORD \<Rightarrow>
                (case v of
                   VALUE_AGGREGATE SOL_VALUE_RECORD definition _ elems \<Rightarrow>
                     if definition \<noteq> ty_definition ty \<or> length elems \<noteq> sl_count (def_fields d)
                     then Some False
                     else all_opt (\<lambda>i. do {
                         field \<leftarrow> nth_opt (ir_fields ir) (sl_offset (def_fields d) + i);
                         rec inner (elems ! i) field }) [0..<sl_count (def_fields d)]
                 | _ \<Rightarrow> Some False)
            | SOL_IR_DEFINITION_ENUM \<Rightarrow>
                (case v of
                   VALUE_AGGREGATE SOL_VALUE_ENUM definition variant elems \<Rightarrow>
                     if definition \<noteq> ty_definition ty \<or> variant \<ge> length (ir_variants ir)
                     then Some False
                     else
                       (let w = ir_variants ir ! variant in
                        if va_owner w \<noteq> ty_definition ty \<or> sl_count (va_fields w) \<noteq> length elems
                        then Some False
                        else all_opt (\<lambda>i. do {
                            field \<leftarrow> nth_opt (ir_fields ir) (sl_offset (va_fields w) + i);
                            rec inner (elems ! i) field }) [0..<sl_count (va_fields w)])
                 | _ \<Rightarrow> Some False)
            | SOL_IR_DEFINITION_DISTINCT \<Rightarrow>
                (case v of
                   VALUE_DISTINCT definition (Some payload) \<Rightarrow>
                     if definition \<noteq> ty_definition ty then Some False
                     else rec inner payload (def_representation d)
                 | _ \<Rightarrow> Some False)
            | SOL_IR_DEFINITION_REFINED \<Rightarrow>
                (case v of
                   VALUE_DISTINCT definition (Some payload) \<Rightarrow>
                     if definition \<noteq> ty_definition ty then Some False
                     else rec inner payload (def_representation d)
                 | _ \<Rightarrow> Some False)
            | _ \<Rightarrow> Some False) }))"

definition value_matches_type_body ::
    "SolIr \<Rightarrow> (type_scopes \<Rightarrow> SolInterpreterValue \<Rightarrow> size_t \<Rightarrow> bool option) \<Rightarrow>
     type_scopes \<Rightarrow> SolInterpreterValue option \<Rightarrow> SolInterpreterValue \<Rightarrow> size_t \<Rightarrow> bool option" where
  "value_matches_type_body ir rec scopes self v type_id =
     (if type_id \<ge> length (ir_types ir) then Some False
      else
        (let ty = ir_types ir ! type_id in
         case ty_kind ty of
           SOL_IR_TYPE_PARAMETER \<Rightarrow>
             (case find_scope scopes (ty_definition ty) of
                None \<Rightarrow> Some False
              | Some argument \<Rightarrow> rec scopes v argument)
         | SOL_IR_TYPE_SELF \<Rightarrow> Some (matches_self v self)
         | SOL_IR_TYPE_INT64 \<Rightarrow> Some (value_kind v = KIND_INT64)
         | SOL_IR_TYPE_BOOL \<Rightarrow> Some (value_kind v = KIND_BOOL)
         | SOL_IR_TYPE_TEXT \<Rightarrow> Some (value_kind v = KIND_TEXT)
         | SOL_IR_TYPE_UNIT \<Rightarrow> Some (value_kind v = KIND_UNIT)
         | SOL_IR_TYPE_NEVER \<Rightarrow> Some False
         | SOL_IR_TYPE_FUNCTION \<Rightarrow> matches_function ir scopes v ty
         | SOL_IR_TYPE_OPTION \<Rightarrow>
             (case v of
                VALUE_SUM SOL_VALUE_OPTION has_value _ payload \<Rightarrow>
                  if \<not> has_value then Some True
                  else (case payload of
                      None \<Rightarrow> Some False
                    | Some w \<Rightarrow>
                        if sl_count (ty_arguments ty) \<noteq> 1 then Some False
                        else do {
                          argument \<leftarrow> nth_opt (ir_type_ids ir) (sl_offset (ty_arguments ty));
                          rec scopes w argument })
              | _ \<Rightarrow> Some False)
         | SOL_IR_TYPE_RESULT \<Rightarrow>
             (case v of
                VALUE_SUM SOL_VALUE_RESULT has_value is_error payload \<Rightarrow>
                  (case payload of
                      None \<Rightarrow> Some False
                    | Some w \<Rightarrow>
                        if \<not> has_value \<or> sl_count (ty_arguments ty) \<noteq> 2 then Some False
                        else do {
                          argument \<leftarrow> nth_opt (ir_type_ids ir)
                            (sl_offset (ty_arguments ty) + (if is_error then 1 else 0));
                          rec scopes w argument })
              | _ \<Rightarrow> Some False)
         | SOL_IR_TYPE_TUPLE \<Rightarrow>
             (case v of
                VALUE_AGGREGATE SOL_VALUE_TUPLE definition variant elems \<Rightarrow>
                  if definition \<noteq> SOL_IR_NONE \<or> variant \<noteq> SOL_IR_NONE
                    \<or> length elems \<noteq> sl_count (ty_arguments ty) then Some False
                  else all_opt (\<lambda>i. do {
                      argument \<leftarrow> nth_opt (ir_type_ids ir) (sl_offset (ty_arguments ty) + i);
                      rec scopes (elems ! i) argument }) [0..<sl_count (ty_arguments ty)]
              | _ \<Rightarrow> Some False)
         | SOL_IR_TYPE_NOMINAL \<Rightarrow> matches_nominal ir rec scopes v ty))"

text \<open>The depth guard of the source leaves 256 levels; \<open>n\<close> is the number of levels left.\<close>

primrec value_matches_levels ::
    "nat \<Rightarrow> SolIr \<Rightarrow> SolInterpreterValue option \<Rightarrow> type_scopes \<Rightarrow> SolInterpreterValue \<Rightarrow> size_t \<Rightarrow> bool option"
where
  "value_matches_levels 0 ir self scopes v type_id = Some False"
| "value_matches_levels (Suc n) ir self scopes v type_id =
     value_matches_type_body ir (value_matches_levels n ir self) scopes self v type_id"

definition value_matches_type ::
    "SolIr \<Rightarrow> type_scopes \<Rightarrow> SolInterpreterValue \<Rightarrow> size_t \<Rightarrow> SolInterpreterValue option \<Rightarrow> bool option" where
  "value_matches_type ir scopes v type_id self = value_matches_levels 256 ir self scopes v type_id"

section \<open>Dispatch evidence\<close>

text \<open>
  \<open>resolve_parameter_evidence\<close> on the evidence each frame of the chain carries: forwarded
  evidence is looked up one frame further out.
\<close>

fun resolve_parameter_evidence ::
    "SolIrDispatchEvidence list list \<Rightarrow> size_t \<Rightarrow> size_t \<Rightarrow> size_t \<Rightarrow> SolIrDispatchEvidence option" where
  "resolve_parameter_evidence [] parameter trait requirement = None"
| "resolve_parameter_evidence (evidence # parents) parameter trait requirement =
     (case find (\<lambda>entry. ev_binding entry = parameter \<and> ev_trait entry = trait
         \<and> ev_requirement entry = requirement) evidence of
        None \<Rightarrow> None
      | Some entry \<Rightarrow>
          if \<not> ev_forwarded entry then Some entry
          else resolve_parameter_evidence parents (ev_parameter entry) trait requirement)"

definition resolve_evidence ::
    "SolIrDispatchEvidence list list \<Rightarrow> SolIrDispatchEvidence \<Rightarrow> SolIrDispatchEvidence option" where
  "resolve_evidence chain candidate =
     (if \<not> ev_forwarded candidate then Some candidate
      else resolve_parameter_evidence chain (ev_parameter candidate) (ev_trait candidate)
        (ev_requirement candidate))"

definition evidence_domain_valid :: "SolIr \<Rightarrow> SolIrDispatchEvidence \<Rightarrow> bool" where
  "evidence_domain_valid ir e =
     (if ev_trait e \<ge> length (ir_definitions ir) \<or> ev_requirement e \<ge> length (ir_callables ir)
        \<or> def_kind (ir_definitions ir ! ev_trait e) \<noteq> SOL_IR_DEFINITION_TRAIT
        \<or> ca_kind (ir_callables ir ! ev_requirement e) \<noteq> SOL_IR_CALLABLE_TRAIT_REQUIREMENT
        \<or> ca_owner (ir_callables ir ! ev_requirement e) \<noteq> ev_trait e then False
      else if ev_forwarded e then
        ev_parameter e < length (ir_trait_bounds ir) \<and>
        ir_trait_bounds ir ! ev_parameter e = ev_trait e \<and>
        ev_implementation e = SOL_IR_NONE \<and> ev_method e = SOL_IR_NONE \<and> ev_type e = SOL_IR_NONE
      else
        ev_parameter e = SOL_IR_NONE \<and> ev_implementation e < length (ir_definitions ir) \<and>
        ev_method e < length (ir_callables ir) \<and> ev_type e < length (ir_types ir) \<and>
        def_kind (ir_definitions ir ! ev_implementation e) = SOL_IR_DEFINITION_IMPLEMENTATION \<and>
        def_impl_trait (ir_definitions ir ! ev_implementation e) = ev_trait e \<and>
        def_impl_target (ir_definitions ir ! ev_implementation e) = ev_type e \<and>
        ca_kind (ir_callables ir ! ev_method e) = SOL_IR_CALLABLE_TRAIT_IMPLEMENTATION \<and>
        ca_owner (ir_callables ir ! ev_method e) = ev_implementation e)"

end
