(* ===== verification/Sol_Runtime.thy ===== *)
theory Sol_Runtime
  imports Sol_Types
begin

text \<open>
  The machine state of \<open>src/src/interpreter.c\<close> and the operations below the evaluator:
  diagnostics, resource limits, reserved clones, local bindings and their cleanup, places and
  pattern matching. \<open>struct Interpreter\<close>, its result and the two callback contexts are one
  record; the request is passed along as an argument, since nothing writes it. The frame
  chain is a list, innermost first.

  Two kinds of execution have no meaning in C and are recorded in the ghost field \<open>it_trap\<close>:
  an access outside an array or through a null pointer (\<open>TRAP_UNDEFINED\<close>) and a loop that never
  ends (\<open>TRAP_DIVERGED\<close>). \<open>TRAP_FUEL\<close> belongs to the model alone: the evaluator's recursion ran
  out of fuel. The first trap sticks, and what is computed after it is meaningless.
\<close>

section \<open>State\<close>

datatype FlowKind = FLOW_VALUE | FLOW_RETURN | FLOW_BREAK | FLOW_CONTINUE | FLOW_ERROR

type_synonym Flow = "FlowKind \<times> SolInterpreterValue"

definition flow_new :: "FlowKind \<Rightarrow> Flow" where
  "flow_new kind = (kind, VALUE_INVALID)"

datatype SolInterpreterCode =
    SOL_INTERPRETER_OK | SOL_INTERPRETER_INVALID_REQUEST | SOL_INTERPRETER_INVALID_IR
  | SOL_INTERPRETER_UNSUPPORTED_CONTRACT_POLICY | SOL_INTERPRETER_TYPE_INVARIANT
  | SOL_INTERPRETER_UNBOUND_OPERATION | SOL_INTERPRETER_HOST_ERROR
  | SOL_INTERPRETER_INTEGER_OVERFLOW | SOL_INTERPRETER_DIVISION_BY_ZERO
  | SOL_INTERPRETER_STEP_LIMIT | SOL_INTERPRETER_CALL_DEPTH_LIMIT | SOL_INTERPRETER_VALUE_LIMIT
  | SOL_INTERPRETER_TEXT_LIMIT | SOL_INTERPRETER_HOST_CALL_LIMIT | SOL_INTERPRETER_NO_MATCH
  | SOL_INTERPRETER_PANIC | SOL_INTERPRETER_REACHED_UNREACHABLE
  | SOL_INTERPRETER_REQUIRE_FALLBACK_RETURNED | SOL_INTERPRETER_REQUIRE_VIOLATION
  | SOL_INTERPRETER_ENSURE_VIOLATION | SOL_INTERPRETER_REFINEMENT_VIOLATION
  | SOL_INTERPRETER_INTERNAL_INVARIANT

record SolInterpreterLimits =
  li_steps :: size_t
  li_call_depth :: size_t
  li_value_nodes :: size_t
  li_text_bytes :: size_t
  li_host_calls :: size_t

record SolInterpreterDiagnostic =
  id_code :: SolInterpreterCode
  id_span :: SolSpan
  id_file :: string
  id_file_offset :: size_t
  id_message :: string

datatype SolInterpreterContractPolicy =
    SOL_INTERPRETER_CONTRACTS_IGNORE | SOL_INTERPRETER_CONTRACTS_CHECK
  | SOL_INTERPRETER_CONTRACTS_OTHER

text \<open>A pointer with a count: a null pointer with whatever count the caller states, or an array.\<close>

datatype 'a counted = COUNTED_NULL size_t | COUNTED_ITEMS "'a list"

primrec counted_items :: "'a counted \<Rightarrow> 'a list" where
  "counted_items (COUNTED_NULL n) = []"
| "counted_items (COUNTED_ITEMS xs) = xs"

primrec counted_count :: "'a counted \<Rightarrow> size_t" where
  "counted_count (COUNTED_NULL n) = n"
| "counted_count (COUNTED_ITEMS xs) = length xs"

primrec counted_missing :: "'a counted \<Rightarrow> bool" where
  "counted_missing (COUNTED_NULL n) = (n \<noteq> 0)"
| "counted_missing (COUNTED_ITEMS xs) = False"

record SolInterpreterHostFailure =
  hf_bytes :: string
  hf_length :: size_t

text \<open>
  The host callbacks are code outside the repository: functions of the operation, the root,
  the private source and the arguments that may change the host's own state \<open>'h\<close>.
\<close>

type_synonym 'h SolInterpreterHostOperation =
  "size_t \<Rightarrow> void_ptr \<Rightarrow> SolInterpreterValue option \<Rightarrow> SolInterpreterValue list \<Rightarrow> 'h \<Rightarrow>
   (bool \<times> SolInterpreterValue \<times> SolInterpreterHostFailure) \<times> 'h"

type_synonym 'h SolInterpreterHostAllows = "size_t \<Rightarrow> void_ptr \<Rightarrow> 'h \<Rightarrow> bool \<times> 'h"

record 'h SolInterpreterRequest =
  rq_ir :: SolIr
  rq_callable :: size_t
  rq_definition :: size_t
  rq_arguments :: "SolInterpreterValue counted"
  rq_type_arguments :: "size_t counted"
  rq_evidence :: "SolIrDispatchEvidence counted"
  rq_contracts :: SolInterpreterContractPolicy
  rq_limits :: SolInterpreterLimits
  rq_host_operation :: "'h SolInterpreterHostOperation option"
  rq_host_allows :: "'h SolInterpreterHostAllows option"
  rq_cleanup_observer :: bool
  rq_test_entry :: bool

text \<open>
  \<open>fr_order\<close> is \<open>binding_order[0..binding_count)\<close> with the most recent binding first; its array
  has room for one entry per local of the IR.
\<close>

record Frame =
  fr_locals :: "SolInterpreterValue list"
  fr_bound :: "bool list"
  fr_registered :: "bool list"
  fr_roots :: "void_ptr list"
  fr_known :: "bool list"
  fr_order :: "size_t list"
  fr_type_arguments :: "size_t list"
  fr_type_offset :: size_t
  fr_evidence :: "SolIrDispatchEvidence list"
  fr_obligation :: "SolIrObligation option"
  fr_result :: "SolInterpreterValue option"
  fr_self :: "SolInterpreterValue option"
  fr_snapshots :: "SolInterpreterValue list"
  fr_snapshot_bound :: "bool list"
  fr_observe :: bool

record Handler =
  hd_source :: size_t
  hd_provider_callable :: size_t
  hd_effect_name :: string
  hd_root :: void_ptr
  hd_provider :: SolInterpreterValue

datatype trap = TRAP_UNDEFINED | TRAP_DIVERGED | TRAP_FUEL

record 'h interp = heap +
  it_diagnostic :: SolInterpreterDiagnostic
  it_used :: SolInterpreterLimits
  it_cleanup_actions :: size_t
  it_frames :: "Frame list"
  it_handlers :: "Handler list"
  it_depth :: size_t
  it_observed :: "(size_t \<times> size_t) list"
  it_host :: 'h
  it_trap :: "trap option"

type_synonym ('h, 'a) run = "('h interp, 'a) state"

definition empty_frame :: Frame where
  "empty_frame = \<lparr> fr_locals = [], fr_bound = [], fr_registered = [], fr_roots = [], fr_known = [],
     fr_order = [], fr_type_arguments = [], fr_type_offset = 0, fr_evidence = [],
     fr_obligation = None, fr_result = None, fr_self = None, fr_snapshots = [],
     fr_snapshot_bound = [], fr_observe = False \<rparr>"

definition scopes_of :: "Frame list \<Rightarrow> type_scopes" where
  "scopes_of frames = map (\<lambda>f. (fr_type_offset f, fr_type_arguments f)) frames"

section \<open>Traps, array accesses and loops\<close>

definition trap :: "trap \<Rightarrow> ('h, unit) run" where
  "trap t = modify (\<lambda>s. if it_trap s = None then s\<lparr>it_trap := Some t\<rparr> else s)"

definition deref :: "'a list \<Rightarrow> size_t \<Rightarrow> ('h, 'a) run" where
  "deref xs i = do {
     (if i < length xs then ret () else trap TRAP_UNDEFINED);
     ret (xs ! i) }"

definition defined :: "'a option \<Rightarrow> 'a \<Rightarrow> ('h, 'a) run" where
  "defined r otherwise = (case r of
      Some x \<Rightarrow> ret x
    | None \<Rightarrow> do { trap TRAP_UNDEFINED; ret otherwise })"

text \<open>\<open>for (...) if (!body) return false; return true\<close> over a list of indices.\<close>

primrec for_each :: "'a list \<Rightarrow> ('a \<Rightarrow> ('s, bool) state) \<Rightarrow> ('s, bool) state" where
  "for_each [] body = ret True"
| "for_each (x # xs) body = do { ok \<leftarrow> body x; (if ok then for_each xs body else ret False) }"

section \<open>Diagnostics\<close>

definition diagnostic_file :: "SolIr \<Rightarrow> SolSpan \<Rightarrow> string option \<times> size_t" where
  "diagnostic_file ir sp =
     (case find (\<lambda>f. sf_start f \<le> sp_start sp \<and> sp_start sp \<le> sf_end f) (ir_files ir) of
        None \<Rightarrow> (ir_source_path ir, sp_start sp)
      | Some f \<Rightarrow> (Some (sf_path f), sp_start sp - sf_start f))"

definition diagnostic :: "'h SolInterpreterRequest \<Rightarrow> SolInterpreterCode \<Rightarrow> SolSpan \<Rightarrow> string \<Rightarrow> ('h, unit) run" where
  "diagnostic rq code sp message = modify (\<lambda>s.
     if id_code (it_diagnostic s) \<noteq> SOL_INTERPRETER_OK then s
     else
       (let (file, offset) = diagnostic_file (rq_ir rq) sp in
        s\<lparr>it_diagnostic := \<lparr> id_code = code, id_span = sp,
            id_file = (case file of None \<Rightarrow> id_file (it_diagnostic s) | Some p \<Rightarrow> take 511 p),
            id_file_offset = offset, id_message = take 191 message \<rparr>\<rparr>))"

definition no_span :: SolSpan where
  "no_span = span 0 0"

section \<open>Limits\<close>

definition consume ::
    "'h SolInterpreterRequest \<Rightarrow> (SolInterpreterLimits \<Rightarrow> size_t) \<Rightarrow>
     ((size_t \<Rightarrow> size_t) \<Rightarrow> SolInterpreterLimits \<Rightarrow> SolInterpreterLimits) \<Rightarrow>
     SolInterpreterCode \<Rightarrow> SolSpan \<Rightarrow> string \<Rightarrow> ('h, bool) run" where
  "consume rq counter update code sp name = do {
     used \<leftarrow> gets (\<lambda>s. counter (it_used s));
     (if used = SIZE_MAX \<or> used \<ge> counter (rq_limits rq)
      then do { diagnostic rq code sp (name @ '' limit exceeded''); ret False }
      else do { modify (\<lambda>s. s\<lparr>it_used := update (\<lambda>_. used + 1) (it_used s)\<rparr>); ret True }) }"

definition consume_step :: "'h SolInterpreterRequest \<Rightarrow> SolSpan \<Rightarrow> string \<Rightarrow> ('h, bool) run" where
  "consume_step rq sp name = consume rq li_steps li_steps_update SOL_INTERPRETER_STEP_LIMIT sp name"

definition new_value :: "'h SolInterpreterRequest \<Rightarrow> SolSpan \<Rightarrow> ('h, bool) run" where
  "new_value rq sp =
     consume rq li_value_nodes li_value_nodes_update SOL_INTERPRETER_VALUE_LIMIT sp ''value node''"

text \<open>Unsigned addition wraps.\<close>

definition size_add :: "size_t \<Rightarrow> size_t \<Rightarrow> size_t" where
  "size_add a b = (a + b) mod (SIZE_MAX + 1)"

definition reserve_clone :: "'h SolInterpreterRequest \<Rightarrow> SolSpan \<Rightarrow> SolInterpreterValue \<Rightarrow> ('h, bool) run" where
  "reserve_clone rq sp v = do {
     shape \<leftarrow> value_shape_valid v;
     (if \<not> shape then do {
        diagnostic rq SOL_INTERPRETER_TYPE_INVARIANT sp ''runtime value shape is malformed or cyclic'';
        ret False }
      else do {
        used \<leftarrow> gets it_used;
        (case value_metrics v (0, 0) of
           None \<Rightarrow> do {
             diagnostic rq SOL_INTERPRETER_VALUE_LIMIT sp ''value node limit exceeded''; ret False }
         | Some (nodes, bytes) \<Rightarrow>
             if nodes > size_sub (li_value_nodes (rq_limits rq)) (li_value_nodes used) then do {
               diagnostic rq SOL_INTERPRETER_VALUE_LIMIT sp ''value node limit exceeded''; ret False }
             else if bytes > size_sub (li_text_bytes (rq_limits rq)) (li_text_bytes used) then do {
               diagnostic rq SOL_INTERPRETER_TEXT_LIMIT sp ''text byte limit exceeded''; ret False }
             else do {
               modify (\<lambda>s. s\<lparr>it_used := (it_used s)\<lparr>
                 li_value_nodes := size_add (li_value_nodes (it_used s)) nodes,
                 li_text_bytes := size_add (li_text_bytes (it_used s)) bytes\<rparr>\<rparr>);
               ret True }) }) }"

definition clone_runtime ::
    "'h SolInterpreterRequest \<Rightarrow> SolSpan \<Rightarrow> SolInterpreterValue \<Rightarrow> ('h, SolInterpreterValue option) run" where
  "clone_runtime rq sp v = do {
     reserved \<leftarrow> reserve_clone rq sp v;
     (if \<not> reserved then ret None
      else do {
        copy \<leftarrow> sol_interpreter_value_clone v;
        (case copy of
           None \<Rightarrow> do {
             diagnostic rq SOL_INTERPRETER_INTERNAL_INVARIANT sp ''runtime value allocation failed'';
             ret None }
         | Some w \<Rightarrow> ret (Some w)) }) }"

section \<open>Locals\<close>

text \<open>
  \<open>lookup_local\<close> gives the position in the frame chain of the frame that binds the local.
\<close>

fun lookup_local :: "SolIr \<Rightarrow> size_t \<Rightarrow> Frame list \<Rightarrow> nat \<Rightarrow> ('h, nat option) run" where
  "lookup_local ir local [] k = ret None"
| "lookup_local ir local (f # fs) k = do {
     bound \<leftarrow> (if local < length (ir_locals ir) then deref (fr_bound f) local else ret False);
     (if bound then ret (Some k) else lookup_local ir local fs (k + 1)) }"

definition capability_root :: "SolInterpreterValue \<Rightarrow> void_ptr option" where
  "capability_root v = (case v of VALUE_CAPABILITY _ root _ \<Rightarrow> Some root | _ \<Rightarrow> None)"

definition note_authority :: "size_t \<Rightarrow> SolInterpreterValue \<Rightarrow> Frame \<Rightarrow> Frame" where
  "note_authority local v f = (case capability_root v of
      None \<Rightarrow> f
    | Some root \<Rightarrow> f\<lparr>fr_roots := (fr_roots f)[local := root], fr_known := (fr_known f)[local := True]\<rparr>)"

text \<open>Writing one more entry of \<open>binding_order\<close>; the array holds one entry per local.\<close>

definition push_order :: "SolIr \<Rightarrow> size_t \<Rightarrow> Frame \<Rightarrow> ('h, Frame) run" where
  "push_order ir local f = do {
     (if length (fr_order f) < length (ir_locals ir) then ret () else trap TRAP_UNDEFINED);
     ret (f\<lparr>fr_order := local # fr_order f\<rparr>) }"

definition bind_local ::
    "'h SolInterpreterRequest \<Rightarrow> size_t \<Rightarrow> SolInterpreterValue \<Rightarrow> SolSpan \<Rightarrow> Frame \<Rightarrow> ('h, bool \<times> Frame) run" where
  "bind_local rq local v sp f = do {
     duplicate \<leftarrow> (if local \<ge> length (ir_locals (rq_ir rq)) then ret True
       else deref (fr_registered f) local);
     (if duplicate then do {
        diagnostic rq SOL_INTERPRETER_INTERNAL_INVARIANT sp ''invalid or duplicate local binding'';
        ret (False, f) }
      else do {
        copy \<leftarrow> clone_runtime rq sp v;
        (case copy of
           None \<Rightarrow> ret (False, f)
         | Some w \<Rightarrow> do {
             f' \<leftarrow> push_order (rq_ir rq) local (f\<lparr>fr_locals := (fr_locals f)[local := w],
               fr_bound := (fr_bound f)[local := True],
               fr_registered := (fr_registered f)[local := True]\<rparr>);
             ret (True, note_authority local v f') }) }) }"

definition declare_local ::
    "'h SolInterpreterRequest \<Rightarrow> size_t \<Rightarrow> SolSpan \<Rightarrow> Frame \<Rightarrow> ('h, bool \<times> Frame) run" where
  "declare_local rq local sp f = do {
     duplicate \<leftarrow> (if local \<ge> length (ir_locals (rq_ir rq)) then ret True
       else deref (fr_registered f) local);
     (if duplicate then do {
        diagnostic rq SOL_INTERPRETER_INTERNAL_INVARIANT sp ''invalid or duplicate local declaration'';
        ret (False, f) }
      else do {
        f' \<leftarrow> push_order (rq_ir rq) local (f\<lparr>fr_registered := (fr_registered f)[local := True]\<rparr>);
        ret (True, f') }) }"

text \<open>One cleanup action: it is counted and, with an observer installed, reported with its ordinal.\<close>

definition cleanup_action :: "'h SolInterpreterRequest \<Rightarrow> size_t \<Rightarrow> ('h, unit) run" where
  "cleanup_action rq local = modify (\<lambda>s.
     s\<lparr>it_cleanup_actions := it_cleanup_actions s + 1,
       it_observed := (if rq_cleanup_observer rq
         then it_observed s @ [(local, it_cleanup_actions s)] else it_observed s)\<rparr>)"

definition cleanup_local :: "'h SolInterpreterRequest \<Rightarrow> size_t \<Rightarrow> Frame \<Rightarrow> ('h, Frame) run" where
  "cleanup_local rq local f =
     (if local \<ge> length (ir_locals (rq_ir rq)) then ret f
      else do {
        bound \<leftarrow> deref (fr_bound f) local;
        (if \<not> bound then ret f
         else do {
           (if lo_access (ir_locals (rq_ir rq) ! local) = SOL_ACCESS_OWNED \<and> fr_observe f
            then cleanup_action rq local else ret ());
           ret (f\<lparr>fr_locals := (fr_locals f)[local := VALUE_INVALID],
             fr_bound := (fr_bound f)[local := False],
             fr_roots := (fr_roots f)[local := NULL],
             fr_known := (fr_known f)[local := False]\<rparr>) }) })"

definition cleanup_binding :: "'h SolInterpreterRequest \<Rightarrow> size_t \<Rightarrow> Frame \<Rightarrow> ('h, Frame) run" where
  "cleanup_binding rq local f = do {
     f \<leftarrow> cleanup_local rq local f;
     (if local \<ge> length (ir_locals (rq_ir rq)) then ret f
      else do {
        registered \<leftarrow> deref (fr_registered f) local;
        (if \<not> registered then ret f
         else
           (let f' = f\<lparr>fr_registered := (fr_registered f)[local := False]\<rparr> in
            ret (if fr_order f' \<noteq> [] \<and> hd (fr_order f') = local
              then f'\<lparr>fr_order := tl (fr_order f')\<rparr> else f'))) }) }"

text \<open>An operation on \<open>interpreter->frame\<close>; without a frame it dereferences a null pointer.\<close>

definition on_top :: "'a \<Rightarrow> (Frame \<Rightarrow> ('h, 'a \<times> Frame) run) \<Rightarrow> ('h, 'a) run" where
  "on_top otherwise g = do {
     frames \<leftarrow> gets it_frames;
     (case frames of
        [] \<Rightarrow> do { trap TRAP_UNDEFINED; ret otherwise }
      | f # fs \<Rightarrow> do {
          (x, f') \<leftarrow> g f;
          modify (\<lambda>s. s\<lparr>it_frames := f' # tl (it_frames s)\<rparr>);
          ret x }) }"

definition cleanup_top :: "'h SolInterpreterRequest \<Rightarrow> size_t \<Rightarrow> ('h, bool) run" where
  "cleanup_top rq local = on_top True (\<lambda>f. do { f' \<leftarrow> cleanup_binding rq local f; ret (True, f') })"

definition cleanup_slice :: "'h SolInterpreterRequest \<Rightarrow> slice \<Rightarrow> ('h, unit) run" where
  "cleanup_slice rq cleanup = do {
     _ \<leftarrow> for_each (rev [0..<sl_count cleanup]) (\<lambda>i. do {
       local \<leftarrow> deref (ir_cleanup_locals (rq_ir rq)) (sl_offset cleanup + i);
       cleanup_top rq local });
     ret () }"

definition cleanup_arm_slice :: "'h SolInterpreterRequest \<Rightarrow> slice \<Rightarrow> ('h, unit) run" where
  "cleanup_arm_slice rq cleanup = do {
     _ \<leftarrow> for_each [0..<sl_count cleanup] (\<lambda>i. do {
       local \<leftarrow> deref (ir_cleanup_locals (rq_ir rq)) (sl_offset cleanup + i);
       cleanup_top rq local });
     ret () }"

definition update_local ::
    "'h SolInterpreterRequest \<Rightarrow> size_t \<Rightarrow> SolInterpreterValue \<Rightarrow> SolSpan \<Rightarrow> ('h, bool) run" where
  "update_local rq local v sp = do {
     frames \<leftarrow> gets it_frames;
     registered \<leftarrow> (case frames of
         [] \<Rightarrow> ret False
       | f # _ \<Rightarrow> if local \<ge> length (ir_locals (rq_ir rq)) then ret False
                  else deref (fr_registered f) local);
     (if \<not> registered then do {
        diagnostic rq SOL_INTERPRETER_INTERNAL_INVARIANT sp
          ''assignment local is unavailable in the current frame'';
        ret False }
      else on_top False (\<lambda>f. do {
        bound \<leftarrow> deref (fr_bound f) local;
        f \<leftarrow> (if bound then cleanup_local rq local f else ret f);
        ret (True, note_authority local v (f\<lparr>fr_locals := (fr_locals f)[local := v],
          fr_bound := (fr_bound f)[local := True], fr_roots := (fr_roots f)[local := NULL],
          fr_known := (fr_known f)[local := False]\<rparr>)) })) }"

section \<open>Places\<close>

text \<open>
  A pointer into a value is the list of field ordinals that leads to it. \<open>place_field\<close> gives
  the ordinal of the field a projection selects.
\<close>

definition place_field :: "SolIr \<Rightarrow> SolInterpreterValue \<Rightarrow> SolIrProjection \<Rightarrow> nat option" where
  "place_field ir base projection =
     (if pj_kind projection = SOL_IR_PROJECTION_TUPLE_FIELD then
        (case base of
           VALUE_AGGREGATE SOL_VALUE_TUPLE _ _ elems \<Rightarrow>
             if pj_ordinal projection < length elems then Some (pj_ordinal projection) else None
         | _ \<Rightarrow> None)
      else case base of
           VALUE_AGGREGATE SOL_VALUE_RECORD definition _ elems \<Rightarrow>
             if definition \<ge> length (ir_definitions ir) then None
             else
               (let f = def_fields (ir_definitions ir ! definition) in
                if pj_field projection < sl_offset f
                  \<or> pj_field projection - sl_offset f \<ge> sl_count f
                  \<or> pj_field projection - sl_offset f \<ge> length elems then None
                else Some (pj_field projection - sl_offset f))
         | _ \<Rightarrow> None)"

definition field_at :: "SolInterpreterValue \<Rightarrow> nat \<Rightarrow> SolInterpreterValue" where
  "field_at v i = (case v of VALUE_AGGREGATE _ _ _ elems \<Rightarrow> elems ! i | _ \<Rightarrow> VALUE_INVALID)"

definition field_put :: "SolInterpreterValue \<Rightarrow> nat \<Rightarrow> SolInterpreterValue \<Rightarrow> SolInterpreterValue" where
  "field_put v i w = (case v of
      VALUE_AGGREGATE k d variant elems \<Rightarrow> VALUE_AGGREGATE k d variant (elems[i := w]) | _ \<Rightarrow> v)"

fun value_put :: "SolInterpreterValue \<Rightarrow> nat list \<Rightarrow> SolInterpreterValue \<Rightarrow> SolInterpreterValue" where
  "value_put v [] w = w"
| "value_put v (i # is) w = field_put v i (value_put (field_at v i) is w)"

text \<open>
  The projection loop shared by \<open>local_place_slot\<close> and \<open>update_place\<close>: from a slot follow the
  projections at the given indices; a moved-out ancestor or a missing field ends it.
\<close>

fun walk_place ::
    "SolIr \<Rightarrow> slice \<Rightarrow> nat list \<Rightarrow> SolInterpreterValue \<Rightarrow> ('h, (nat list \<times> SolInterpreterValue) option) run"
where
  "walk_place ir projections [] slot = ret (Some ([], slot))"
| "walk_place ir projections (i # is) slot =
     (if slot = VALUE_INVALID then ret None
      else do {
        projection \<leftarrow> deref (ir_projections ir) (sl_offset projections + i);
        (case place_field ir slot projection of
           None \<Rightarrow> ret None
         | Some ordinal \<Rightarrow> do {
             rest \<leftarrow> walk_place ir projections is (field_at slot ordinal);
             ret (map_option (\<lambda>(path, w). (ordinal # path, w)) rest) }) })"

definition local_slot ::
    "'h SolInterpreterRequest \<Rightarrow> SolIrPlace \<Rightarrow> ('h, (nat \<times> nat list \<times> SolInterpreterValue) option) run" where
  "local_slot rq place = do {
     frames \<leftarrow> gets it_frames;
     owner \<leftarrow> lookup_local (rq_ir rq) (pl_local place) frames 0;
     (case owner of
        None \<Rightarrow> ret None
      | Some k \<Rightarrow> do {
          root \<leftarrow> deref (fr_locals (frames ! k)) (pl_local place);
          found \<leftarrow> walk_place (rq_ir rq) (pl_projections place)
            [0..<sl_count (pl_projections place)] root;
          ret (map_option (Pair k) found) }) }"

definition local_place_slot ::
    "'h SolInterpreterRequest \<Rightarrow> SolIrPlace \<Rightarrow> ('h, (nat \<times> nat list \<times> SolInterpreterValue) option) run" where
  "local_place_slot rq place = do {
     found \<leftarrow> local_slot rq place;
     ret (case found of
         Some (k, path, v) \<Rightarrow> if v = VALUE_INVALID then None else found
       | None \<Rightarrow> None) }"

definition runtime_expression_place :: "SolIr \<Rightarrow> size_t \<Rightarrow> SolIrPlace option" where
  "runtime_expression_place ir e =
     (if e \<ge> length (ir_expressions ir) then None
      else case ex_kind (ir_expressions ir ! e) of
          SOL_IR_EXPR_PLACE p \<Rightarrow> if p \<ge> length (ir_places ir) then None else Some (ir_places ir ! p)
        | _ \<Rightarrow> None)"

text \<open>Store into the slot at \<open>path\<close> of a local of the frame at position \<open>k\<close>.\<close>

definition store_slot :: "nat \<Rightarrow> size_t \<Rightarrow> nat list \<Rightarrow> SolInterpreterValue \<Rightarrow> ('h, unit) run" where
  "store_slot k local path v = modify (\<lambda>s.
     (let f = it_frames s ! k in
      s\<lparr>it_frames := (it_frames s)[k := f\<lparr>fr_locals :=
          (fr_locals f)[local := value_put (fr_locals f ! local) path v]\<rparr>]\<rparr>))"

definition update_place ::
    "'h SolInterpreterRequest \<Rightarrow> SolIrPlace \<Rightarrow> SolInterpreterValue \<Rightarrow> SolSpan \<Rightarrow> ('h, bool) run" where
  "update_place rq place v sp =
     (if sl_count (pl_projections place) = 0 then update_local rq (pl_local place) v sp
      else do {
        found \<leftarrow> local_slot rq place;
        (case found of
           None \<Rightarrow> do {
             diagnostic rq SOL_INTERPRETER_INTERNAL_INVARIANT sp
               ''assignment target has a missing strict ancestor'';
             ret False }
         | Some (k, path, old) \<Rightarrow> do {
             (if old \<noteq> VALUE_INVALID then do {
                metadata \<leftarrow> deref (ir_locals (rq_ir rq)) (pl_local place);
                (if lo_access metadata = SOL_ACCESS_OWNED
                 then cleanup_action rq (pl_local place) else ret ()) }
              else ret ());
             store_slot k (pl_local place) path v;
             ret True }) })"

definition charge_place_update ::
    "'h SolInterpreterRequest \<Rightarrow> SolIrPlace option \<Rightarrow> SolSpan \<Rightarrow> ('h, bool) run" where
  "charge_place_update rq place fallback_span =
     (case place of
        None \<Rightarrow> ret False
      | Some p \<Rightarrow> for_each [0..<sl_count (pl_projections p)] (\<lambda>i. do {
          projection \<leftarrow> deref (ir_projections (rq_ir rq)) (sl_offset (pl_projections p) + i);
          consume_step rq (if sp_end (pj_span projection) \<le> sp_start (pj_span projection)
            then fallback_span else pj_span projection) ''step'' }))"

section \<open>Patterns\<close>

text \<open>
  \<open>match_pattern\<close> returns 1 for a match, 0 for none and -1 for an error, with the leaves bound
  so far. \<open>rec\<close> is the recursive call one level deeper.
\<close>

fun match_children ::
    "'h SolInterpreterRequest \<Rightarrow>
     (size_t \<Rightarrow> SolInterpreterValue \<Rightarrow> SolInterpreterValue list \<Rightarrow> ('h, int \<times> SolInterpreterValue list) run) \<Rightarrow>
     SolIrPattern \<Rightarrow> SolInterpreterValue list \<Rightarrow> SolInterpreterValue list \<Rightarrow>
     SolInterpreterValue list \<Rightarrow> nat list \<Rightarrow> ('h, int \<times> SolInterpreterValue list) run"
where
  "match_children rq rec pattern elems saved leaves [] = ret (1, leaves)"
| "match_children rq rec pattern elems saved leaves (i # is) = do {
     edge \<leftarrow> deref (ir_pattern_children (rq_ir rq)) (sl_offset (pa_children pattern) + i);
     ordinal \<leftarrow> (if pc_field edge \<noteq> SOL_IR_NONE then do {
         d \<leftarrow> deref (ir_definitions (rq_ir rq)) (pa_definition pattern);
         ret (size_sub (pc_field edge) (sl_offset (def_fields d))) }
       else ret (pc_ordinal edge));
     (if ordinal \<ge> length elems then ret (0, saved)
      else do {
        (matched, leaves') \<leftarrow> rec (pc_pattern edge) (elems ! ordinal) leaves;
        (if matched \<noteq> 1 then ret (matched, saved)
         else match_children rq rec pattern elems saved leaves' is) }) }"

definition pattern_fields :: "SolIrPattern \<Rightarrow> SolInterpreterValue \<Rightarrow> SolInterpreterValue list option" where
  "pattern_fields pattern v =
     (case v of
        VALUE_AGGREGATE k definition variant elems \<Rightarrow>
          if (pa_kind pattern = SOL_IR_PATTERN_VARIANT \<and> k = SOL_VALUE_ENUM
                \<and> variant = pa_variant pattern)
            \<or> (pa_kind pattern = SOL_IR_PATTERN_RECORD \<and> k = SOL_VALUE_RECORD
                \<and> definition = pa_definition pattern)
            \<or> (pa_kind pattern = SOL_IR_PATTERN_TUPLE \<and> k = SOL_VALUE_TUPLE)
          then Some elems else None
      | _ \<Rightarrow> None)"

definition match_pattern_body ::
    "'h SolInterpreterRequest \<Rightarrow>
     (size_t \<Rightarrow> SolInterpreterValue \<Rightarrow> SolInterpreterValue list \<Rightarrow> ('h, int \<times> SolInterpreterValue list) run) \<Rightarrow>
     size_t \<Rightarrow> size_t \<Rightarrow> SolInterpreterValue \<Rightarrow> SolInterpreterValue list \<Rightarrow>
     ('h, int \<times> SolInterpreterValue list) run"
where
  "match_pattern_body rq rec capacity pattern_id v leaves =
     (if pattern_id \<ge> length (ir_patterns (rq_ir rq)) then ret (- 1, leaves)
      else
        (let pattern = ir_patterns (rq_ir rq) ! pattern_id in
         do {
           step \<leftarrow> consume_step rq (pa_span pattern) ''interpreter step'';
           (if \<not> step then ret (- 1, leaves)
            else case pa_kind pattern of
                SOL_IR_PATTERN_BOOL \<Rightarrow>
                  ret (if v = VALUE_BOOL (pa_boolean pattern) then 1 else 0, leaves)
              | SOL_IR_PATTERN_BINDING \<Rightarrow>
                  ret (if length leaves \<ge> capacity then (- 1, leaves) else (1, leaves @ [v]))
              | SOL_IR_PATTERN_WILDCARD \<Rightarrow> ret (1, leaves)
              | _ \<Rightarrow>
                  (case pattern_fields pattern v of
                     None \<Rightarrow> ret (0, leaves)
                   | Some elems \<Rightarrow> match_children rq rec pattern elems leaves leaves
                       [0..<sl_count (pa_children pattern)])) }))"

text \<open>The depth guard of the source leaves 64 levels.\<close>

primrec match_levels ::
    "nat \<Rightarrow> 'h SolInterpreterRequest \<Rightarrow> size_t \<Rightarrow> size_t \<Rightarrow> SolInterpreterValue \<Rightarrow>
     SolInterpreterValue list \<Rightarrow> ('h, int \<times> SolInterpreterValue list) run"
where
  "match_levels 0 rq capacity pattern_id v leaves = ret (- 1, leaves)"
| "match_levels (Suc n) rq capacity pattern_id v leaves =
     match_pattern_body rq (match_levels n rq capacity) capacity pattern_id v leaves"

definition match_pattern ::
    "'h SolInterpreterRequest \<Rightarrow> size_t \<Rightarrow> SolInterpreterValue \<Rightarrow> size_t \<Rightarrow>
     ('h, int \<times> SolInterpreterValue list) run" where
  "match_pattern rq pattern_id v capacity = match_levels 64 rq capacity pattern_id v []"

section \<open>Frames\<close>

definition frame_allocate :: "'h SolInterpreterRequest \<Rightarrow> SolSpan \<Rightarrow> Frame \<Rightarrow> ('h, Frame option) run" where
  "frame_allocate rq sp f =
     (let n = length (ir_locals (rq_ir rq)) in
      if n = 0 then ret (Some f)
      else do {
        locals \<leftarrow> allocate; bound \<leftarrow> allocate; registered \<leftarrow> allocate;
        roots \<leftarrow> allocate; known \<leftarrow> allocate; order \<leftarrow> allocate;
        (if locals \<and> bound \<and> registered \<and> roots \<and> known \<and> order
         then ret (Some (f\<lparr>fr_locals := replicate n VALUE_INVALID, fr_bound := replicate n False,
           fr_registered := replicate n False, fr_roots := replicate n NULL,
           fr_known := replicate n False, fr_order := []\<rparr>))
         else do {
           diagnostic rq SOL_INTERPRETER_INTERNAL_INVARIANT sp ''frame allocation failed'';
           ret None }) })"

text \<open>
  The loop of \<open>frame_release\<close>. \<open>cleanup_binding\<close> leaves a local that is not registered in
  \<open>binding_order\<close>, and then the loop meets the same entry forever.
\<close>

primrec release_loop :: "nat \<Rightarrow> 'h SolInterpreterRequest \<Rightarrow> Frame \<Rightarrow> ('h, Frame) run" where
  "release_loop 0 rq f = ret f"
| "release_loop (Suc n) rq f = do {
     f' \<leftarrow> cleanup_binding rq (hd (fr_order f)) f;
     (if length (fr_order f') = length (fr_order f)
      then do { trap TRAP_DIVERGED; ret f' } else release_loop n rq f') }"

definition frame_release :: "'h SolInterpreterRequest \<Rightarrow> Frame \<Rightarrow> ('h, Frame) run" where
  "frame_release rq f = release_loop (length (fr_order f)) rq f"

end
