(* ===== verification/Sol_Contract.thy ===== *)
theory Sol_Contract
  imports Sol_Runtime
begin

text \<open>
  Runtime contracts of \<open>src/src/interpreter.c\<close>: contract frames, preconditions, postconditions,
  \<open>old\<close> snapshots and the predicates of refined types. The functions evaluate expressions
  through an evaluator \<open>ev\<close> they take as an argument; \<open>Sol_Eval\<close> passes the real one.
\<close>

type_synonym 'h evaluator = "size_t \<Rightarrow> ('h, Flow) run"

abbreviation flow_error :: Flow where "flow_error \<equiv> (FLOW_ERROR, VALUE_INVALID)"
abbreviation flow_unit :: Flow where "flow_unit \<equiv> (FLOW_VALUE, VALUE_UNIT)"

definition matches ::
    "'h SolInterpreterRequest \<Rightarrow> SolInterpreterValue \<Rightarrow> size_t \<Rightarrow> SolInterpreterValue option \<Rightarrow> ('h, bool) run" where
  "matches rq v type_id self = do {
     frames \<leftarrow> gets it_frames;
     defined (value_matches_type (rq_ir rq) (scopes_of frames) v type_id self) False }"

definition quote_name :: "string \<Rightarrow> string" where
  "quote_name name = CHR 0x27 # name @ [CHR 0x27]"

definition push_frame :: "Frame \<Rightarrow> ('h, unit) run" where
  "push_frame f = modify (\<lambda>s. s\<lparr>it_frames := f # it_frames s\<rparr>)"

definition pop_frame :: "('h, Frame) run" where
  "pop_frame = do {
     frames \<leftarrow> gets it_frames;
     (case frames of
        [] \<Rightarrow> do { trap TRAP_UNDEFINED; ret empty_frame }
      | f # fs \<Rightarrow> do { modify (\<lambda>s. s\<lparr>it_frames := fs\<rparr>); ret f }) }"

definition top_frame :: "('h, Frame) run" where
  "top_frame = do {
     frames \<leftarrow> gets it_frames;
     (case frames of [] \<Rightarrow> do { trap TRAP_UNDEFINED; ret empty_frame } | f # fs \<Rightarrow> ret f) }"

definition set_top :: "Frame \<Rightarrow> ('h, unit) run" where
  "set_top f = modify (\<lambda>s. s\<lparr>it_frames := f # tl (it_frames s)\<rparr>)"

text \<open>
  Run with \<open>interpreter->frame\<close> replaced by a contract frame, whose parent is the parent of
  the frame it replaces, and put the saved frame back.
\<close>

definition in_contract :: "Frame \<Rightarrow> ('h, 'a) run \<Rightarrow> ('h, 'a \<times> Frame) run" where
  "in_contract contract m = do {
     saved \<leftarrow> top_frame;
     set_top contract;
     x \<leftarrow> m;
     contract' \<leftarrow> top_frame;
     set_top saved;
     ret (x, contract') }"

section \<open>Contracts\<close>

definition contract_owner_matches :: "SolIr \<Rightarrow> SolIrObligation \<Rightarrow> size_t \<Rightarrow> bool" where
  "contract_owner_matches ir obligation callable_id =
     (if ob_owner_kind obligation = SOL_CONTRACT_OWNER_CAPABILITY_MEMBER
      then ob_owner obligation = callable_id
      else ob_owner_kind obligation = SOL_CONTRACT_OWNER_ITEM \<and>
        ob_owner obligation = ca_owner (ir_callables ir ! callable_id))"

fun contract_copy_locals ::
    "'h SolInterpreterRequest \<Rightarrow> SolSpan \<Rightarrow> Frame \<Rightarrow> Frame \<Rightarrow> size_t list \<Rightarrow> ('h, bool \<times> Frame) run"
where
  "contract_copy_locals rq sp source contract [] = ret (True, contract)"
| "contract_copy_locals rq sp source contract (local # rest) = do {
     bound \<leftarrow> deref (fr_bound source) local;
     (if \<not> bound then contract_copy_locals rq sp source contract rest
      else do {
        v \<leftarrow> deref (fr_locals source) local;
        copy \<leftarrow> clone_runtime rq sp v;
        (case copy of
           None \<Rightarrow> ret (False, contract)
         | Some w \<Rightarrow> do {
             root \<leftarrow> deref (fr_roots source) local;
             known \<leftarrow> deref (fr_known source) local;
             contract' \<leftarrow> push_order (rq_ir rq) local
               (contract\<lparr>fr_locals := (fr_locals contract)[local := w],
                 fr_bound := (fr_bound contract)[local := True],
                 fr_registered := (fr_registered contract)[local := True],
                 fr_roots := (fr_roots contract)[local := root],
                 fr_known := (fr_known contract)[local := known]\<rparr>);
             contract_copy_locals rq sp source contract' rest }) }) }"

definition contract_frame_init ::
    "'h SolInterpreterRequest \<Rightarrow> Frame \<Rightarrow> SolSpan \<Rightarrow> ('h, Frame option) run" where
  "contract_frame_init rq source sp = do {
     allocated \<leftarrow> frame_allocate rq sp (empty_frame\<lparr>fr_type_arguments := fr_type_arguments source,
       fr_type_offset := fr_type_offset source, fr_evidence := fr_evidence source\<rparr>);
     (case allocated of
        None \<Rightarrow> ret None
      | Some contract \<Rightarrow> do {
          (copied, contract) \<leftarrow> contract_copy_locals rq sp source contract
            [0..<length (ir_locals (rq_ir rq))];
          (if \<not> copied then do { _ \<leftarrow> frame_release rq contract; ret None }
           else if ir_snapshots (rq_ir rq) = [] then ret (Some contract)
           else do {
             snapshots \<leftarrow> allocate;
             bound \<leftarrow> allocate;
             (if snapshots \<and> bound then ret (Some (contract\<lparr>
                fr_snapshots := replicate (length (ir_snapshots (rq_ir rq))) VALUE_INVALID,
                fr_snapshot_bound := replicate (length (ir_snapshots (rq_ir rq))) False\<rparr>))
              else do {
                diagnostic rq SOL_INTERPRETER_INTERNAL_INVARIANT sp
                  ''contract snapshot allocation failed'';
                _ \<leftarrow> frame_release rq contract;
                ret None }) }) }) }"

definition evaluate_contract ::
    "'h SolInterpreterRequest \<Rightarrow> 'h evaluator \<Rightarrow> Frame \<Rightarrow> SolIrObligation \<Rightarrow>
     SolInterpreterValue option \<Rightarrow> ('h, bool \<times> Frame) run" where
  "evaluate_contract rq ev contract obligation result = do {
     (predicate, contract') \<leftarrow> in_contract
       (contract\<lparr>fr_obligation := Some obligation, fr_result := result\<rparr>)
       (ev (ob_predicate obligation));
     (let contract = contract'\<lparr>fr_obligation := None, fr_result := None\<rparr> in
      case predicate of
        (FLOW_ERROR, _) \<Rightarrow> ret (False, contract)
      | (FLOW_VALUE, VALUE_BOOL satisfied) \<Rightarrow>
          if satisfied then ret (True, contract)
          else do {
            e \<leftarrow> deref (ir_expressions (rq_ir rq)) (ob_predicate obligation);
            (if ob_kind obligation = SOL_CONTRACT_REQUIRES
             then diagnostic rq SOL_INTERPRETER_REQUIRE_VIOLATION (ex_span e)
               ''requires contract was not satisfied''
             else diagnostic rq SOL_INTERPRETER_ENSURE_VIOLATION (ex_span e)
               ''ensures contract was not satisfied'');
            ret (False, contract) }
      | _ \<Rightarrow> do {
            e \<leftarrow> deref (ir_expressions (rq_ir rq)) (ob_predicate obligation);
            diagnostic rq SOL_INTERPRETER_INVALID_IR (ex_span e)
              ''contract predicate did not produce Bool'';
            ret (False, contract) }) }"

text \<open>The loops over all obligations: those selected are evaluated, the first failure ends them.\<close>

fun check_contracts ::
    "'h SolInterpreterRequest \<Rightarrow> 'h evaluator \<Rightarrow> (SolIrObligation \<Rightarrow> bool) \<Rightarrow>
     (SolIrObligation \<Rightarrow> SolInterpreterValue option) \<Rightarrow> Frame \<Rightarrow> SolIrObligation list \<Rightarrow>
     ('h, bool \<times> Frame) run"
where
  "check_contracts rq ev selected binding contract [] = ret (True, contract)"
| "check_contracts rq ev selected binding contract (obligation # rest) =
     (if \<not> selected obligation then check_contracts rq ev selected binding contract rest
      else do {
        (ok, contract') \<leftarrow> evaluate_contract rq ev contract obligation (binding obligation);
        (if ok then check_contracts rq ev selected binding contract' rest
         else ret (False, contract')) })"

definition check_preconditions ::
    "'h SolInterpreterRequest \<Rightarrow> 'h evaluator \<Rightarrow> Frame \<Rightarrow> size_t \<Rightarrow> ('h, bool \<times> Frame) run" where
  "check_preconditions rq ev contract callable_id =
     check_contracts rq ev
       (\<lambda>ob. ob_kind ob = SOL_CONTRACT_REQUIRES \<and> contract_owner_matches (rq_ir rq) ob callable_id)
       (\<lambda>_. None) contract (ir_obligations (rq_ir rq))"

definition outcome_applies :: "SolContractOutcomeKind \<Rightarrow> SolInterpreterValue \<Rightarrow> bool" where
  "outcome_applies outcome result =
     (case outcome of
        SOL_CONTRACT_OUTCOME_ALWAYS \<Rightarrow> True
      | SOL_CONTRACT_OUTCOME_SUCCESS \<Rightarrow>
          (case result of VALUE_SUM SOL_VALUE_RESULT _ is_error _ \<Rightarrow> \<not> is_error | _ \<Rightarrow> False)
      | SOL_CONTRACT_OUTCOME_FAILURE \<Rightarrow>
          (case result of VALUE_SUM SOL_VALUE_RESULT _ is_error _ \<Rightarrow> is_error | _ \<Rightarrow> False))"

definition result_binding :: "SolIrObligation \<Rightarrow> SolInterpreterValue \<Rightarrow> SolInterpreterValue option" where
  "result_binding obligation result =
     (if \<not> ob_result_available obligation then None
      else if ob_outcome obligation = SOL_CONTRACT_OUTCOME_SUCCESS
      then (case result of VALUE_SUM _ _ _ payload \<Rightarrow> payload | _ \<Rightarrow> None)
      else Some result)"

definition check_postconditions ::
    "'h SolInterpreterRequest \<Rightarrow> 'h evaluator \<Rightarrow> Frame \<Rightarrow> size_t \<Rightarrow> SolInterpreterValue \<Rightarrow>
     ('h, bool \<times> Frame) run" where
  "check_postconditions rq ev contract callable_id result =
     check_contracts rq ev
       (\<lambda>ob. ob_kind ob = SOL_CONTRACT_ENSURES \<and> contract_owner_matches (rq_ir rq) ob callable_id
         \<and> outcome_applies (ob_outcome ob) result)
       (\<lambda>ob. result_binding ob result) contract (ir_obligations (rq_ir rq))"

fun capture_snapshots ::
    "'h SolInterpreterRequest \<Rightarrow> 'h evaluator \<Rightarrow> size_t \<Rightarrow> Frame \<Rightarrow> size_t list \<Rightarrow> ('h, bool \<times> Frame) run"
where
  "capture_snapshots rq ev callable_id contract [] = ret (True, contract)"
| "capture_snapshots rq ev callable_id contract (i # is) = do {
     snapshot \<leftarrow> deref (ir_snapshots (rq_ir rq)) i;
     obligation \<leftarrow> deref (ir_obligations (rq_ir rq)) (sn_obligation snapshot);
     (if ob_kind obligation \<noteq> SOL_CONTRACT_ENSURES
         \<or> \<not> contract_owner_matches (rq_ir rq) obligation callable_id
      then capture_snapshots rq ev callable_id contract is
      else do {
        ((kind, v), contract') \<leftarrow> in_contract (contract\<lparr>fr_obligation := Some obligation\<rparr>)
          (ev (sn_operand snapshot));
        (let contract'' = contract'\<lparr>fr_obligation := None\<rparr> in
         if kind \<noteq> FLOW_VALUE then ret (False, contract'')
         else capture_snapshots rq ev callable_id
           (contract''\<lparr>fr_snapshots := (fr_snapshots contract'')[i := v],
             fr_snapshot_bound := (fr_snapshot_bound contract'')[i := True]\<rparr>) is) }) }"

definition capture_contract_snapshots ::
    "'h SolInterpreterRequest \<Rightarrow> 'h evaluator \<Rightarrow> Frame \<Rightarrow> size_t \<Rightarrow> ('h, bool \<times> Frame) run" where
  "capture_contract_snapshots rq ev contract callable_id =
     capture_snapshots rq ev callable_id contract [0..<length (ir_snapshots (rq_ir rq))]"

definition refresh_contract_local ::
    "'h SolInterpreterRequest \<Rightarrow> Frame \<Rightarrow> Frame \<Rightarrow> size_t \<Rightarrow> SolSpan \<Rightarrow> ('h, bool \<times> Frame) run" where
  "refresh_contract_local rq contract body local sp = do {
     bound \<leftarrow> (if local \<ge> length (ir_locals (rq_ir rq)) then ret False
       else deref (fr_bound body) local);
     (if \<not> bound then do {
        diagnostic rq SOL_INTERPRETER_TYPE_INVARIANT sp
          ''exclusive contract binding is unavailable after the callable body'';
        ret (False, contract) }
      else do {
        v \<leftarrow> deref (fr_locals body) local;
        copy \<leftarrow> clone_runtime rq sp v;
        (case copy of
           None \<Rightarrow> ret (False, contract\<lparr>fr_locals := (fr_locals contract)[local := VALUE_INVALID],
             fr_bound := (fr_bound contract)[local := False]\<rparr>)
         | Some w \<Rightarrow> do {
             root \<leftarrow> deref (fr_roots body) local;
             known \<leftarrow> deref (fr_known body) local;
             ret (True, contract\<lparr>fr_locals := (fr_locals contract)[local := w],
               fr_bound := (fr_bound contract)[local := True],
               fr_roots := (fr_roots contract)[local := root],
               fr_known := (fr_known contract)[local := known]\<rparr>) }) }) }"

fun refresh_parameters ::
    "'h SolInterpreterRequest \<Rightarrow> Frame \<Rightarrow> SolIrCallable \<Rightarrow> SolSpan \<Rightarrow> Frame \<Rightarrow> size_t list \<Rightarrow>
     ('h, bool \<times> Frame) run"
where
  "refresh_parameters rq body callable sp contract [] = ret (True, contract)"
| "refresh_parameters rq body callable sp contract (i # is) = do {
     local \<leftarrow> deref (ir_roots (rq_ir rq)) (sl_offset (ca_parameters callable) + i);
     metadata \<leftarrow> deref (ir_locals (rq_ir rq)) local;
     (if lo_access metadata \<noteq> SOL_ACCESS_EXCLUSIVE
      then refresh_parameters rq body callable sp contract is
      else do {
        (ok, contract') \<leftarrow> refresh_contract_local rq contract body local sp;
        (if ok then refresh_parameters rq body callable sp contract' is
         else ret (False, contract')) }) }"

definition refresh_contract_writebacks ::
    "'h SolInterpreterRequest \<Rightarrow> Frame \<Rightarrow> Frame \<Rightarrow> SolIrCallable \<Rightarrow> SolSpan \<Rightarrow> ('h, bool \<times> Frame) run" where
  "refresh_contract_writebacks rq contract body callable sp = do {
     (ok, contract) \<leftarrow>
       (if ca_receiver callable \<noteq> SOL_IR_NONE \<and> ca_receiver_access callable = SOL_ACCESS_EXCLUSIVE
        then refresh_contract_local rq contract body (ca_receiver callable) sp
        else ret (True, contract));
     (if \<not> ok then ret (False, contract)
      else refresh_parameters rq body callable sp contract
        [0..<sl_count (ca_parameters callable)]) }"

section \<open>Refinements\<close>

fun refinement_loop ::
    "'h SolInterpreterRequest \<Rightarrow> 'h evaluator \<Rightarrow> size_t \<Rightarrow> size_t \<Rightarrow> SolIrObligation list \<Rightarrow>
     ('h, bool \<times> size_t) run"
where
  "refinement_loop rq ev definition_id predicates [] = ret (True, predicates)"
| "refinement_loop rq ev definition_id predicates (obligation # rest) =
     (if ob_owner_kind obligation \<noteq> SOL_CONTRACT_OWNER_TYPE \<or> ob_owner obligation \<noteq> definition_id
      then refinement_loop rq ev definition_id predicates rest
      else do {
        f \<leftarrow> top_frame;
        set_top (f\<lparr>fr_obligation := Some obligation\<rparr>);
        predicate \<leftarrow> ev (ob_predicate obligation);
        f \<leftarrow> top_frame;
        set_top (f\<lparr>fr_obligation := None\<rparr>);
        (case predicate of
           (FLOW_ERROR, _) \<Rightarrow> ret (False, predicates + 1)
         | (FLOW_VALUE, VALUE_BOOL satisfied) \<Rightarrow>
             if satisfied then refinement_loop rq ev definition_id (predicates + 1) rest
             else do {
               e \<leftarrow> deref (ir_expressions (rq_ir rq)) (ob_predicate obligation);
               diagnostic rq SOL_INTERPRETER_REFINEMENT_VIOLATION (ex_span e)
                 ''refined type predicate was not satisfied'';
               ret (False, predicates + 1) }
         | _ \<Rightarrow> do {
               e \<leftarrow> deref (ir_expressions (rq_ir rq)) (ob_predicate obligation);
               diagnostic rq SOL_INTERPRETER_INVALID_IR (ex_span e)
                 ''refinement predicate did not produce Bool'';
               ret (False, predicates + 1) }) })"

definition check_refinement ::
    "'h SolInterpreterRequest \<Rightarrow> 'h evaluator \<Rightarrow> SolIrExpression \<Rightarrow> SolIrCall \<Rightarrow> SolInterpreterValue \<Rightarrow>
     ('h, bool) run" where
  "check_refinement rq ev construction call v = do {
     definition \<leftarrow> deref (ir_definitions (rq_ir rq)) (cl_definition call);
     (if def_kind definition \<noteq> SOL_IR_DEFINITION_REFINED then ret True
      else do {
        nominal \<leftarrow> deref (ir_types (rq_ir rq)) (ex_type construction);
        arguments \<leftarrow> defined (slice_elems (ir_type_ids (rq_ir rq)) (ty_arguments nominal)) [];
        allocated \<leftarrow> frame_allocate rq (ex_span construction)
          (empty_frame\<lparr>fr_type_arguments := arguments,
            fr_type_offset := sl_offset (def_generics definition), fr_self := Some v\<rparr>);
        (case allocated of
           None \<Rightarrow> ret False
         | Some refinement \<Rightarrow> do {
             push_frame refinement;
             (satisfied, predicates) \<leftarrow> refinement_loop rq ev (cl_definition call) 0
               (ir_obligations (rq_ir rq));
             satisfied \<leftarrow> (if satisfied \<and> predicates \<noteq> 1 then do {
                 diagnostic rq SOL_INTERPRETER_INVALID_IR (ex_span construction)
                   ''refined type does not own exactly one runtime predicate'';
                 ret False }
               else ret satisfied);
             f \<leftarrow> pop_frame;
             _ \<leftarrow> frame_release rq f;
             ret satisfied }) }) }"

end
