(* ===== verification/Sol_Invoke.thy ===== *)
theory Sol_Invoke
  imports Sol_Contract
begin

text \<open>
  Invocation in \<open>src/src/interpreter.c\<close>: authority and evidence checks, \<open>invoke\<close> with its frame,
  contracts and writebacks, and capability operations with their handlers and host calls.
\<close>

section \<open>Authority and evidence\<close>

definition validate_authority ::
    "'h SolInterpreterRequest \<Rightarrow> SolIrCallable \<Rightarrow> SolInterpreterValue option \<Rightarrow> SolInterpreterValue \<Rightarrow>
     SolSpan \<Rightarrow> ('h, bool) run" where
  "validate_authority rq callable receiver result sp =
     (if ca_authority_kind callable = SOL_IR_AUTHORITY_NONE then ret True
      else case capability_root result of
          None \<Rightarrow> do {
            diagnostic rq SOL_INTERPRETER_TYPE_INVARIANT sp
              ''authority-returning callable returned a non-capability'';
            ret False }
        | Some result_root \<Rightarrow> do {
            frames \<leftarrow> gets it_frames;
            authority \<leftarrow>
              (if ca_authority_kind callable = SOL_IR_AUTHORITY_LOCAL then
                 (case frames of
                    [] \<Rightarrow> ret None
                  | f # _ \<Rightarrow>
                      if ca_authority callable \<ge> length (ir_locals (rq_ir rq)) then ret None
                      else do {
                        known \<leftarrow> deref (fr_known f) (ca_authority callable);
                        root \<leftarrow> deref (fr_roots f) (ca_authority callable);
                        ret (if known then Some root else None) })
               else ret (Option.bind receiver capability_root));
            (if authority \<noteq> Some result_root then do {
               diagnostic rq SOL_INTERPRETER_TYPE_INVARIANT sp
                 ''returned capability has the wrong authority root'';
               ret False }
             else ret True) })"

text \<open>One entry of the evidence of a generic invocation, with the entries before it.\<close>

definition validate_evidence_entry ::
    "'h SolInterpreterRequest \<Rightarrow> SolIrCallable \<Rightarrow> size_t list \<Rightarrow> SolInterpreterCode \<Rightarrow> SolSpan \<Rightarrow>
     SolIrDispatchEvidence list \<Rightarrow> SolIrDispatchEvidence \<Rightarrow> ('h, bool) run" where
  "validate_evidence_entry rq callable type_arguments code sp previous entry =
     (let ir = rq_ir rq; generics = ca_generics callable in
      if \<not> evidence_domain_valid ir entry \<or> ev_binding entry < sl_offset generics
        \<or> ev_binding entry - sl_offset generics \<ge> sl_count generics then do {
        diagnostic rq code sp ''generic invocation evidence domain is invalid''; ret False }
      else do {
        trait_bound \<leftarrow> deref (ir_trait_bounds ir) (ev_binding entry);
        (if trait_bound \<noteq> ev_trait entry then do {
           diagnostic rq code sp ''generic invocation evidence domain is invalid''; ret False }
         else do {
           argument \<leftarrow> deref type_arguments (ev_binding entry - sl_offset generics);
           frames \<leftarrow> gets it_frames;
           matched \<leftarrow>
             (if ev_forwarded entry then
                (case frames of
                   [] \<Rightarrow> ret False
                 | caller # _ \<Rightarrow>
                     if ev_parameter entry < fr_type_offset caller
                       \<or> ev_parameter entry - fr_type_offset caller \<ge> length (fr_type_arguments caller)
                     then ret False
                     else do {
                       ty \<leftarrow> deref (ir_types ir) argument;
                       ret (ty_kind ty = SOL_IR_TYPE_PARAMETER
                         \<and> ty_definition ty = ev_parameter entry) })
              else ret (ev_type entry = argument));
           (if \<not> matched then do {
              diagnostic rq code sp (if ev_forwarded entry
                then ''forwarded invocation evidence has no matching caller parameter''
                else ''concrete invocation evidence has the wrong type'');
              ret False }
            else if \<exists>p \<in> set previous. ev_binding p = ev_binding entry
                \<and> ev_requirement p = ev_requirement entry then do {
              diagnostic rq code sp ''generic invocation evidence binding is duplicated'';
              ret False }
            else ret True) }) })"

fun validate_evidence_entries ::
    "'h SolInterpreterRequest \<Rightarrow> SolIrCallable \<Rightarrow> size_t list \<Rightarrow> SolInterpreterCode \<Rightarrow> SolSpan \<Rightarrow>
     SolIrDispatchEvidence list \<Rightarrow> SolIrDispatchEvidence list \<Rightarrow> ('h, bool) run"
where
  "validate_evidence_entries rq callable type_arguments code sp previous [] = ret True"
| "validate_evidence_entries rq callable type_arguments code sp previous (entry # rest) = do {
     ok \<leftarrow> validate_evidence_entry rq callable type_arguments code sp previous entry;
     (if ok then validate_evidence_entries rq callable type_arguments code sp
         (previous @ [entry]) rest
      else ret False) }"

definition validate_evidence_complete ::
    "'h SolInterpreterRequest \<Rightarrow> SolIrDispatchEvidence list \<Rightarrow> SolInterpreterCode \<Rightarrow> SolSpan \<Rightarrow>
     size_t \<Rightarrow> ('h, bool) run" where
  "validate_evidence_complete rq evidence code sp parameter = do {
     trait \<leftarrow> deref (ir_trait_bounds (rq_ir rq)) parameter;
     (if trait = SOL_IR_NONE then ret True
      else do {
        definition \<leftarrow> deref (ir_definitions (rq_ir rq)) trait;
        for_each [0..<sl_count (def_members definition)] (\<lambda>i. do {
          requirement \<leftarrow> deref (ir_members (rq_ir rq)) (sl_offset (def_members definition) + i);
          (if length (filter (\<lambda>e. ev_binding e = parameter \<and> ev_requirement e = requirement)
              evidence) \<noteq> 1
           then do {
             diagnostic rq code sp ''generic invocation evidence binding is incomplete'';
             ret False }
           else ret True) }) }) }"

definition validate_invocation_evidence ::
    "'h SolInterpreterRequest \<Rightarrow> SolIrCallable \<Rightarrow> size_t counted \<Rightarrow> SolIrDispatchEvidence counted \<Rightarrow>
     SolSpan \<Rightarrow> ('h, bool) run" where
  "validate_invocation_evidence rq callable type_arguments evidence sp = do {
     depth \<leftarrow> gets it_depth;
     (let code = (if depth = 0 then SOL_INTERPRETER_INVALID_REQUEST
                  else SOL_INTERPRETER_TYPE_INVARIANT) in
      if counted_missing type_arguments \<or> counted_missing evidence then do {
        diagnostic rq code sp ''generic invocation metadata is missing''; ret False }
      else if \<exists>t \<in> set (counted_items type_arguments). t \<ge> length (ir_types (rq_ir rq)) then do {
        diagnostic rq code sp ''generic invocation type argument is out of range''; ret False }
      else do {
        ok \<leftarrow> validate_evidence_entries rq callable (counted_items type_arguments) code sp []
          (counted_items evidence);
        (if \<not> ok then ret False
         else for_each [0..<sl_count (ca_generics callable)] (\<lambda>i.
           validate_evidence_complete rq (counted_items evidence) code sp
             (sl_offset (ca_generics callable) + i))) }) }"

section \<open>Invocation\<close>

text \<open>Argument \<open>i\<close> has a well-formed shape and matches the type of parameter \<open>i\<close>.\<close>

definition check_argument ::
    "'h SolInterpreterRequest \<Rightarrow> SolIrCallable \<Rightarrow> SolInterpreterValue option \<Rightarrow>
     SolInterpreterValue list \<Rightarrow> SolSpan \<Rightarrow> size_t \<Rightarrow> ('h, bool) run" where
  "check_argument rq callable receiver arguments sp i = do {
     local \<leftarrow> deref (ir_roots (rq_ir rq)) (sl_offset (ca_parameters callable) + i);
     shape \<leftarrow> value_shape_valid (arguments ! i);
     ok \<leftarrow> (if \<not> shape then ret False
       else do {
         metadata \<leftarrow> deref (ir_locals (rq_ir rq)) local;
         matches rq (arguments ! i) (lo_type metadata) receiver });
     (if \<not> ok then do {
        depth \<leftarrow> gets it_depth;
        diagnostic rq (if depth = 1 then SOL_INTERPRETER_INVALID_REQUEST
            else SOL_INTERPRETER_TYPE_INVARIANT)
          sp ''call argument does not match its substituted IR type'';
        ret False }
      else ret True) }"

definition bind_argument ::
    "'h SolInterpreterRequest \<Rightarrow> SolIrCallable \<Rightarrow> SolInterpreterValue list \<Rightarrow> SolSpan \<Rightarrow> size_t \<Rightarrow> ('h, bool) run" where
  "bind_argument rq callable arguments sp i = do {
     local \<leftarrow> deref (ir_roots (rq_ir rq)) (sl_offset (ca_parameters callable) + i);
     on_top False (bind_local rq local (arguments ! i) sp) }"

definition capability_source_of :: "SolInterpreterValue option \<Rightarrow> SolInterpreterValue option" where
  "capability_source_of receiver =
     (case receiver of Some (VALUE_CAPABILITY _ _ source) \<Rightarrow> source | _ \<Rightarrow> None)"

text \<open>The part of \<open>invoke\<close> between entering the new frame and checking contracts.\<close>

definition bind_invocation ::
    "'h SolInterpreterRequest \<Rightarrow> SolIrCallable \<Rightarrow> SolInterpreterValue option \<Rightarrow>
     SolInterpreterValue list \<Rightarrow> SolSpan \<Rightarrow> ('h, bool) run" where
  "bind_invocation rq callable receiver arguments sp =
     (if ca_receiver callable \<noteq> SOL_IR_NONE \<and> receiver = None then do {
        diagnostic rq SOL_INTERPRETER_TYPE_INVARIANT sp ''callable receiver is missing''; ret False }
      else if ca_source callable \<noteq> SOL_IR_NONE
        \<and> ((case receiver of None \<Rightarrow> True | Some v \<Rightarrow> \<not> capability_value_valid (rq_ir rq) v 0)
          \<or> capability_source_of receiver = None) then do {
        diagnostic rq SOL_INTERPRETER_TYPE_INVARIANT sp
          ''derived capability source is missing or malformed'';
        ret False }
      else do {
        checked \<leftarrow> for_each [0..<length arguments] (check_argument rq callable receiver arguments sp);
        (if \<not> checked then ret False
         else do {
           bound \<leftarrow> (case receiver of
               Some v \<Rightarrow> if ca_receiver callable \<noteq> SOL_IR_NONE
                 then on_top False (bind_local rq (ca_receiver callable) v sp) else ret True
             | None \<Rightarrow> ret True);
           bound \<leftarrow> (case capability_source_of receiver of
               Some source \<Rightarrow> if bound \<and> ca_source callable \<noteq> SOL_IR_NONE
                 then on_top False (bind_local rq (ca_source callable) source sp) else ret bound
             | None \<Rightarrow> ret bound);
           (if \<not> bound then ret False
            else for_each [0..<length arguments] (bind_argument rq callable arguments sp)) }) })"

text \<open>
  The contract part: when contracts are checked, the contract frame with its preconditions
  evaluated and its snapshots captured. The frame is returned even after a failure, since it
  is released later.
\<close>

definition prepare_contract ::
    "'h SolInterpreterRequest \<Rightarrow> 'h evaluator \<Rightarrow> size_t \<Rightarrow> SolSpan \<Rightarrow> ('h, bool \<times> Frame option) run" where
  "prepare_contract rq ev callable_id sp = do {
     source \<leftarrow> top_frame;
     ready \<leftarrow> contract_frame_init rq source sp;
     (case ready of
        None \<Rightarrow> ret (False, None)
      | Some contract \<Rightarrow> do {
          (bound, contract) \<leftarrow> check_preconditions rq ev contract callable_id;
          (if \<not> bound then ret (False, Some contract)
           else do {
             (bound, contract) \<leftarrow> capture_contract_snapshots rq ev contract callable_id;
             ret (bound, Some contract) }) }) }"

text \<open>Move the final value of an exclusive local out of the callee's frame.\<close>

definition take_writeback ::
    "'h SolInterpreterRequest \<Rightarrow> size_t \<Rightarrow> SolInterpreterValue option \<Rightarrow> bool \<Rightarrow> string \<Rightarrow> SolSpan \<Rightarrow>
     ('h, SolInterpreterValue option) run" where
  "take_writeback rq local receiver wanted message sp = do {
     f \<leftarrow> top_frame;
     complete \<leftarrow> (if \<not> wanted then ret False
       else do {
         bound \<leftarrow> deref (fr_bound f) local;
         (if \<not> bound then ret False
          else do {
            v \<leftarrow> deref (fr_locals f) local;
            metadata \<leftarrow> deref (ir_locals (rq_ir rq)) local;
            matches rq v (lo_type metadata) receiver }) });
     (if \<not> complete then do {
        diagnostic rq SOL_INTERPRETER_TYPE_INVARIANT sp message; ret None }
      else do {
        set_top (f\<lparr>fr_locals := (fr_locals f)[local := VALUE_INVALID],
          fr_bound := (fr_bound f)[local := False]\<rparr>);
        ret (Some (fr_locals f ! local)) }) }"

fun take_writebacks ::
    "'h SolInterpreterRequest \<Rightarrow> SolIrCallable \<Rightarrow> SolInterpreterValue option \<Rightarrow> bool \<Rightarrow> SolSpan \<Rightarrow>
     SolInterpreterValue list \<Rightarrow> size_t list \<Rightarrow> ('h, bool \<times> SolInterpreterValue list) run"
where
  "take_writebacks rq callable receiver wanted sp writebacks [] = ret (True, writebacks)"
| "take_writebacks rq callable receiver wanted sp writebacks (i # is) = do {
     local \<leftarrow> deref (ir_roots (rq_ir rq)) (sl_offset (ca_parameters callable) + i);
     metadata \<leftarrow> deref (ir_locals (rq_ir rq)) local;
     (if lo_access metadata \<noteq> SOL_ACCESS_EXCLUSIVE
      then take_writebacks rq callable receiver wanted sp writebacks is
      else do {
        taken \<leftarrow> take_writeback rq local receiver wanted
          ''exclusive parameter did not remain complete for writeback'' sp;
        (case taken of
           None \<Rightarrow> ret (False, writebacks)
         | Some v \<Rightarrow> take_writebacks rq callable receiver wanted sp (writebacks[i := v]) is) }) }"

text \<open>
  After the body: type, authority, writeback refresh and postconditions, in this order. The
  contract frame may change, the flow turns into an error at the first failure.
\<close>

definition finish_body ::
    "'h SolInterpreterRequest \<Rightarrow> 'h evaluator \<Rightarrow> size_t \<Rightarrow> SolIrCallable \<Rightarrow> SolInterpreterValue option \<Rightarrow>
     Frame option \<Rightarrow> SolSpan \<Rightarrow> Flow \<Rightarrow> ('h, Flow \<times> Frame option) run" where
  "finish_body rq ev callable_id callable receiver contract sp result =
     (if fst result = FLOW_ERROR then ret (flow_error, contract)
      else do {
        typed \<leftarrow> matches rq (snd result) (ca_result callable) receiver;
        (if \<not> typed then do {
           diagnostic rq SOL_INTERPRETER_TYPE_INVARIANT sp
             ''callable result does not match its substituted IR type'';
           ret (flow_error, contract) }
         else do {
           authority \<leftarrow> validate_authority rq callable receiver (snd result) sp;
           (if \<not> authority then ret (flow_error, contract)
            else case contract of
                None \<Rightarrow> ret (result, None)
              | Some c \<Rightarrow> do {
                  body \<leftarrow> top_frame;
                  (refreshed, c) \<leftarrow> refresh_contract_writebacks rq c body callable sp;
                  (if \<not> refreshed then ret (flow_error, Some c)
                   else do {
                     (ok, c) \<leftarrow> check_postconditions rq ev c callable_id (snd result);
                     ret (if ok then result else flow_error, Some c) }) }) }) })"

text \<open>\<open>++interpreter->depth\<close> and the high-water mark of the call depth.\<close>

definition enter_call :: "size_t \<Rightarrow> ('h, unit) run" where
  "enter_call depth = modify (\<lambda>s. s\<lparr>it_depth := depth + 1,
     it_used := (it_used s)\<lparr>li_call_depth := max (li_call_depth (it_used s)) (depth + 1)\<rparr>\<rparr>)"

text \<open>
  \<open>invoke\<close> returns the flow, the receiver's writeback and the arguments' writebacks (invalid
  where nothing is written back); the two flags say whether the caller passed storage for them.
\<close>

definition invoke ::
    "'h SolInterpreterRequest \<Rightarrow> 'h evaluator \<Rightarrow> size_t \<Rightarrow> SolInterpreterValue option \<Rightarrow>
     SolInterpreterValue list \<Rightarrow> size_t counted \<Rightarrow> SolIrDispatchEvidence counted \<Rightarrow> bool \<Rightarrow> bool \<Rightarrow>
     SolSpan \<Rightarrow> ('h, Flow \<times> SolInterpreterValue \<times> SolInterpreterValue list) run" where
  "invoke rq ev callable_id receiver arguments type_arguments evidence receiver_writeback
     argument_writebacks sp =
     (let none = replicate (length arguments) VALUE_INVALID;
          failed = (flow_error, VALUE_INVALID, none) in
      if callable_id \<ge> length (ir_callables (rq_ir rq)) then do {
        diagnostic rq SOL_INTERPRETER_INVALID_REQUEST sp ''callable is out of range''; ret failed }
      else
        (let callable = ir_callables (rq_ir rq) ! callable_id in
         if sl_count (ca_parameters callable) \<noteq> length arguments
           \<or> sl_count (ca_generics callable) \<noteq> counted_count type_arguments then do {
           diagnostic rq SOL_INTERPRETER_TYPE_INVARIANT sp
             ''call argument count does not match callable metadata'';
           ret failed }
         else do {
           valid \<leftarrow> validate_invocation_evidence rq callable type_arguments evidence sp;
           (if \<not> valid then ret failed
            else do {
              depth \<leftarrow> gets it_depth;
              (if depth \<ge> li_call_depth (rq_limits rq) then do {
                 diagnostic rq SOL_INTERPRETER_CALL_DEPTH_LIMIT sp ''call depth limit exceeded'';
                 ret failed }
               else do {
                 allocated \<leftarrow> frame_allocate rq sp (empty_frame\<lparr>
                   fr_type_arguments := counted_items type_arguments,
                   fr_type_offset := sl_offset (ca_generics callable),
                   fr_evidence := counted_items evidence, fr_observe := True\<rparr>);
                 (case allocated of
                    None \<Rightarrow> ret failed
                  | Some frame \<Rightarrow> do {
                      push_frame frame;
                      enter_call depth;
                      bound \<leftarrow> bind_invocation rq callable receiver arguments sp;
                      (bound, contract) \<leftarrow>
                        (if bound \<and> rq_contracts rq = SOL_INTERPRETER_CONTRACTS_CHECK
                         then prepare_contract rq ev callable_id sp else ret (bound, None));
                      result \<leftarrow>
                        (if \<not> bound then ret flow_error
                         else if ca_body callable \<noteq> SOL_IR_NONE then ev (ca_body callable)
                         else do {
                           diagnostic rq SOL_INTERPRETER_UNBOUND_OPERATION sp
                             (''bodyless callable '' @ quote_name (ca_name callable)
                               @ '' cannot execute directly'');
                           ret flow_error });
                      (result, contract) \<leftarrow>
                        finish_body rq ev callable_id callable receiver contract sp result;
                      (result, receiver_back) \<leftarrow>
                        (if fst result \<noteq> FLOW_ERROR \<and> ca_receiver callable \<noteq> SOL_IR_NONE
                            \<and> ca_receiver_access callable = SOL_ACCESS_EXCLUSIVE
                         then do {
                           taken \<leftarrow> take_writeback rq (ca_receiver callable) receiver
                             receiver_writeback
                             ''exclusive receiver did not remain complete for writeback'' sp;
                           ret (case taken of None \<Rightarrow> (flow_error, VALUE_INVALID)
                             | Some v \<Rightarrow> (result, v)) }
                         else ret (result, VALUE_INVALID));
                      (result, backs) \<leftarrow>
                        (if fst result = FLOW_ERROR then ret (result, none)
                         else do {
                           (ok, backs) \<leftarrow> take_writebacks rq callable receiver
                             argument_writebacks sp none [0..<length arguments];
                           ret (if ok then result else flow_error, backs) });
                      _ \<leftarrow> (case contract of None \<Rightarrow> ret empty_frame | Some c \<Rightarrow> frame_release rq c);
                      frame' \<leftarrow> top_frame;
                      _ \<leftarrow> frame_release rq frame';
                      modify (\<lambda>s. s\<lparr>it_depth := it_depth s - 1\<rparr>);
                      _ \<leftarrow> pop_frame;
                      ret (if fst result = FLOW_RETURN then (FLOW_VALUE, snd result) else result,
                        receiver_back, backs) }) }) }) }))"

section \<open>Capability operations\<close>

text \<open>
  \<open>prepare_operation_contracts\<close>: a frame with the operation's receiver, source and arguments is
  left on the chain for the contract frame that is returned; on failure both are released.
\<close>

definition bind_operation ::
    "'h SolInterpreterRequest \<Rightarrow> SolIrCallable \<Rightarrow> SolInterpreterValue \<Rightarrow> SolInterpreterValue list \<Rightarrow>
     SolSpan \<Rightarrow> ('h, bool) run" where
  "bind_operation rq operation receiver arguments sp = do {
     bound \<leftarrow> (if ca_receiver operation = SOL_IR_NONE then ret True
       else on_top False (bind_local rq (ca_receiver operation) receiver sp));
     bound \<leftarrow> (if bound \<and> ca_source operation \<noteq> SOL_IR_NONE
       then (case capability_source_of (Some receiver) of
           None \<Rightarrow> do {
             diagnostic rq SOL_INTERPRETER_TYPE_INVARIANT sp ''derived capability source is missing'';
             ret False }
         | Some source \<Rightarrow> on_top False (bind_local rq (ca_source operation) source sp))
       else ret bound);
     (if \<not> bound then ret False
      else for_each [0..<length arguments] (bind_argument rq operation arguments sp)) }"

definition prepare_operation_contracts ::
    "'h SolInterpreterRequest \<Rightarrow> 'h evaluator \<Rightarrow> size_t \<Rightarrow> SolInterpreterValue \<Rightarrow>
     SolInterpreterValue list \<Rightarrow> SolSpan \<Rightarrow> ('h, Frame option) run" where
  "prepare_operation_contracts rq ev callable receiver arguments sp = do {
     operation \<leftarrow> deref (ir_callables (rq_ir rq)) callable;
     allocated \<leftarrow> frame_allocate rq sp empty_frame;
     (case allocated of
        None \<Rightarrow> ret None
      | Some operation_frame \<Rightarrow> do {
          push_frame operation_frame;
          bound \<leftarrow> bind_operation rq operation receiver arguments sp;
          (bound, contract) \<leftarrow> (if bound then prepare_contract rq ev callable sp
            else ret (False, None));
          (if bound then ret contract
           else do {
             _ \<leftarrow> (case contract of None \<Rightarrow> ret empty_frame | Some c \<Rightarrow> frame_release rq c);
             f \<leftarrow> pop_frame;
             _ \<leftarrow> frame_release rq f;
             ret None }) }) }"

definition release_operation_contracts :: "'h SolInterpreterRequest \<Rightarrow> Frame \<Rightarrow> ('h, unit) run" where
  "release_operation_contracts rq contract = do {
     _ \<leftarrow> frame_release rq contract;
     f \<leftarrow> pop_frame;
     _ \<leftarrow> frame_release rq f;
     ret () }"

text \<open>Whether the operation declares the effect of a handler.\<close>

fun effect_declared :: "'h SolInterpreterRequest \<Rightarrow> slice \<Rightarrow> string \<Rightarrow> bool \<Rightarrow> size_t list \<Rightarrow> ('h, bool) run" where
  "effect_declared rq effects name found [] = ret found"
| "effect_declared rq effects name found (i # is) = do {
     atom \<leftarrow> deref (ir_effects (rq_ir rq)) (sl_offset effects + i);
     effect_declared rq effects name (found \<or> ef_name atom = name) is }"

text \<open>The failure text of a host operation.\<close>

definition host_failure_message :: "SolInterpreterHostFailure \<Rightarrow> string" where
  "host_failure_message failure =
     (if hf_length failure > 191 then ''host operation returned an invalid failure length''
      else if hf_length failure = 0 then ''host operation failed''
      else if CHR 0x00 \<in> set (take (hf_length failure) (hf_bytes failure))
      then ''host operation returned invalid failure text''
      else take (hf_length failure) (hf_bytes failure))"

text \<open>A call of a host callback: it sees and changes the host's state only.\<close>

definition host_step :: "('h \<Rightarrow> 'a \<times> 'h) \<Rightarrow> ('h, 'a) run" where
  "host_step f = State (\<lambda>s. let (answer, host) = f (it_host s) in (answer, s\<lparr>it_host := host\<rparr>))"

text \<open>The host part of \<open>invoke_operation\<close>, between preparing and releasing the contract frames.\<close>

definition host_invoke ::
    "'h SolInterpreterRequest \<Rightarrow> 'h evaluator \<Rightarrow> size_t \<Rightarrow> SolIrCallable \<Rightarrow> SolInterpreterValue \<Rightarrow>
     void_ptr \<Rightarrow> SolInterpreterValue list \<Rightarrow> SolSpan \<Rightarrow> Frame option \<Rightarrow> ('h, Flow \<times> Frame option) run" where
  "host_invoke rq ev callable operation receiver root arguments sp contract =
     (case rq_host_operation rq of
        None \<Rightarrow> do {
          diagnostic rq SOL_INTERPRETER_UNBOUND_OPERATION sp
            (''capability operation '' @ quote_name (ca_name operation) @ '' is unbound'');
          ret (flow_error, contract) }
      | Some host_operation \<Rightarrow> do {
          allowed \<leftarrow> (case rq_host_allows rq of
              None \<Rightarrow> ret True
            | Some host_allows \<Rightarrow> host_step (host_allows callable root));
          (if \<not> allowed then do {
             diagnostic rq SOL_INTERPRETER_UNBOUND_OPERATION sp
               (''capability operation '' @ quote_name (ca_name operation)
                 @ '' is not allowed for this root'');
             ret (flow_error, contract) }
           else do {
             counted \<leftarrow> consume rq li_host_calls li_host_calls_update
               SOL_INTERPRETER_HOST_CALL_LIMIT sp ''host call'';
             (if \<not> counted then ret (flow_error, contract)
              else do {
                (ok, borrowed, failure) \<leftarrow> host_step (host_operation callable root
                  (capability_source_of (Some receiver)) arguments);
                (if \<not> ok then do {
                   diagnostic rq SOL_INTERPRETER_HOST_ERROR sp (host_failure_message failure);
                   ret (flow_error, contract) }
                 else do {
                   shape \<leftarrow> value_shape_valid borrowed;
                   typed \<leftarrow> (if shape then matches rq borrowed (ca_result operation) (Some receiver)
                     else ret False);
                   (if \<not> typed then do {
                      diagnostic rq SOL_INTERPRETER_TYPE_INVARIANT sp
                        ''host operation result does not match its IR type'';
                      ret (flow_error, contract) }
                    else do {
                      copy \<leftarrow> clone_runtime rq sp borrowed;
                      (case copy of
                         None \<Rightarrow> ret (flow_error, contract)
                       | Some v \<Rightarrow> do {
                           authority \<leftarrow> validate_authority rq operation (Some receiver) v sp;
                           (if \<not> authority then ret (flow_error, contract)
                            else case contract of
                                None \<Rightarrow> ret ((FLOW_VALUE, v), None)
                              | Some c \<Rightarrow> do {
                                  (ok, c) \<leftarrow> check_postconditions rq ev c callable v;
                                  ret (if ok then (FLOW_VALUE, v) else flow_error, Some c) }) }) }) }) }) }) })"

text \<open>The guard of \<open>invoke_operation\<close>, in front of the rest of it.\<close>

definition guard_operation ::
    "'h SolInterpreterRequest \<Rightarrow> SolInterpreterValue list \<Rightarrow> SolSpan \<Rightarrow>
     (SolInterpreterValue \<Rightarrow> void_ptr \<Rightarrow> size_t \<Rightarrow> ('h, Flow \<times> SolInterpreterValue list) run) \<Rightarrow>
     SolInterpreterValue option \<Rightarrow> size_t \<Rightarrow> ('h, Flow \<times> SolInterpreterValue list) run" where
  "guard_operation rq arguments sp k receiver callable =
     (let mismatch = do {
        diagnostic rq SOL_INTERPRETER_TYPE_INVARIANT sp
          ''capability operation receiver and callable domains do not match'';
        ret (flow_error, replicate (length arguments) VALUE_INVALID) } in
      case receiver of
        Some (VALUE_CAPABILITY definition root source) \<Rightarrow>
          if callable \<ge> length (ir_callables (rq_ir rq))
            \<or> \<not> capability_value_valid (rq_ir rq) (VALUE_CAPABILITY definition root source) 0
            \<or> ca_kind (ir_callables (rq_ir rq) ! callable) \<noteq> SOL_IR_CALLABLE_CAPABILITY
            \<or> ca_owner (ir_callables (rq_ir rq) ! callable) \<noteq> definition then mismatch
          else k (VALUE_CAPABILITY definition root source) root callable
      | _ \<Rightarrow> mismatch)"

text \<open>An operation no handler takes: its own body, or the host.\<close>

definition operation_direct ::
    "'h SolInterpreterRequest \<Rightarrow> 'h evaluator \<Rightarrow> SolInterpreterValue list \<Rightarrow> SolSpan \<Rightarrow>
     SolInterpreterValue \<Rightarrow> void_ptr \<Rightarrow> size_t \<Rightarrow> ('h, Flow \<times> SolInterpreterValue list) run" where
  "operation_direct rq ev arguments sp capability root callable =
     (let operation = ir_callables (rq_ir rq) ! callable;
          none = replicate (length arguments) VALUE_INVALID;
          check = (rq_contracts rq = SOL_INTERPRETER_CONTRACTS_CHECK) in
      if ca_body operation \<noteq> SOL_IR_NONE then do {
        (flow, _, backs) \<leftarrow> invoke rq ev callable (Some capability) arguments
          (COUNTED_NULL 0) (COUNTED_NULL 0) False True sp;
        ret (flow, backs) }
      else do {
        shared \<leftarrow> for_each [0..<sl_count (ca_parameters operation)] (\<lambda>i. do {
          local \<leftarrow> deref (ir_roots (rq_ir rq)) (sl_offset (ca_parameters operation) + i);
          metadata \<leftarrow> deref (ir_locals (rq_ir rq)) local;
          (if lo_access metadata = SOL_ACCESS_EXCLUSIVE then do {
             diagnostic rq SOL_INTERPRETER_UNBOUND_OPERATION sp
               ''bodyless capability operations do not support inout writeback'';
             ret False }
           else ret True) });
        (if \<not> shared then ret (flow_error, none)
         else do {
           contract \<leftarrow> (if check
             then prepare_operation_contracts rq ev callable capability arguments sp
             else ret None);
           (if check \<and> contract = None then ret (flow_error, none)
            else do {
              (flow, contract) \<leftarrow> host_invoke rq ev callable operation capability root
                arguments sp contract;
              (case contract of
                 None \<Rightarrow> ret ()
               | Some c \<Rightarrow> release_operation_contracts rq c);
              ret (flow, none) }) }) })"

text \<open>
  The loop over the handlers, innermost first. The handler that takes the operation runs its
  provider with \<open>interpreter->handler\<close> set to the handlers around it, so the recursive call of
  \<open>invoke_operation\<close> continues on the rest of the list, like the loop itself.
\<close>

primrec search_handlers ::
    "Handler list \<Rightarrow> 'h SolInterpreterRequest \<Rightarrow> 'h evaluator \<Rightarrow> SolInterpreterValue list \<Rightarrow> SolSpan \<Rightarrow>
     SolInterpreterValue \<Rightarrow> void_ptr \<Rightarrow> size_t \<Rightarrow> ('h, Flow \<times> SolInterpreterValue list) run"
where
  "search_handlers [] rq ev arguments sp capability root callable =
     operation_direct rq ev arguments sp capability root callable"
| "search_handlers (h # parents) rq ev arguments sp capability root callable =
     (let operation = ir_callables (rq_ir rq) ! callable;
          check = (rq_contracts rq = SOL_INTERPRETER_CONTRACTS_CHECK) in do {
        effect \<leftarrow> effect_declared rq (ca_effects operation) (hd_effect_name h) False
          [0..<sl_count (ca_effects operation)];
        (if \<not> (hd_source h = callable \<and> hd_root h = root \<and> effect)
         then search_handlers parents rq ev arguments sp capability root callable
         else do {
           contract \<leftarrow> (if check
             then prepare_operation_contracts rq ev callable capability arguments sp
             else ret None);
           (if check \<and> contract = None
            then ret (flow_error, replicate (length arguments) VALUE_INVALID)
            else do {
              saved \<leftarrow> gets it_handlers;
              modify (\<lambda>s. s\<lparr>it_handlers := parents\<rparr>);
              (result, backs) \<leftarrow> guard_operation rq arguments sp
                (search_handlers parents rq ev arguments sp)
                (Some (hd_provider h)) (hd_provider_callable h);
              modify (\<lambda>s. s\<lparr>it_handlers := saved\<rparr>);
              (case contract of
                 None \<Rightarrow> ret (result, backs)
               | Some c \<Rightarrow> do {
                   (ok, c) \<leftarrow> (if fst result \<noteq> FLOW_ERROR
                     then check_postconditions rq ev c callable (snd result)
                     else ret (True, c));
                   release_operation_contracts rq c;
                   ret (if ok then result else flow_error, backs) }) }) }) })"

definition invoke_operation ::
    "'h SolInterpreterRequest \<Rightarrow> 'h evaluator \<Rightarrow> SolInterpreterValue option \<Rightarrow> size_t \<Rightarrow>
     SolInterpreterValue list \<Rightarrow> SolSpan \<Rightarrow> ('h, Flow \<times> SolInterpreterValue list) run" where
  "invoke_operation rq ev receiver callable arguments sp = do {
     handlers \<leftarrow> gets it_handlers;
     guard_operation rq arguments sp (search_handlers handlers rq ev arguments sp) receiver callable }"

end
