(* ===== verification/Sol_Arith.thy ===== *)
theory Sol_Arith
  imports Sol_Token
begin

text \<open>
  Checked \<open>Int64\<close> arithmetic of \<open>src/src/interpreter.c\<close>: the integer part of
  \<open>evaluate_binary\<close> and \<open>compound_integer\<close>. C's signed operators are partial here (\<open>None\<close> is
  an overflow, which C leaves undefined), so the theorems show both that the guards never
  overflow themselves and that the result is the mathematical one or a reported overflow.
\<close>

section \<open>C operators on int64\<close>

definition INT64_MAX :: int where "INT64_MAX = 2 ^ 63 - 1"
definition INT64_MIN :: int where "INT64_MIN = - (2 ^ 63)"

definition in_int64 :: "int \<Rightarrow> bool" where
  "in_int64 x \<longleftrightarrow> INT64_MIN \<le> x \<and> x \<le> INT64_MAX"

definition c_int64 :: "int \<Rightarrow> int option" where
  "c_int64 x = (if in_int64 x then Some x else None)"

text \<open>C division truncates towards zero; the remainder has the sign of the dividend.\<close>

definition quot :: "int \<Rightarrow> int \<Rightarrow> int" where
  "quot a b = sgn a * sgn b * (\<bar>a\<bar> div \<bar>b\<bar>)"

definition c_div :: "int \<Rightarrow> int \<Rightarrow> int option" where
  "c_div a b = (if b = 0 then None else c_int64 (quot a b))"

definition c_mod :: "int \<Rightarrow> int \<Rightarrow> int option" where
  "c_mod a b = (if b = 0 then None else map_option (\<lambda>q. a - b * q) (c_int64 (quot a b)))"

definition c_and :: "bool \<Rightarrow> bool option \<Rightarrow> bool option" where
  "c_and p q = (if p then q else Some False)"

definition c_or :: "bool option \<Rightarrow> bool option \<Rightarrow> bool option" where
  "c_or p q = (case p of None \<Rightarrow> None | Some True \<Rightarrow> Some True | Some False \<Rightarrow> q)"

abbreviation c_greater :: "int \<Rightarrow> int option \<Rightarrow> bool option" where
  "c_greater a m \<equiv> map_option (\<lambda>b. a > b) m"

abbreviation c_less :: "int \<Rightarrow> int option \<Rightarrow> bool option" where
  "c_less a m \<equiv> map_option (\<lambda>b. a < b) m"

section \<open>The checked operations\<close>

text \<open>
  The outer option is C's undefined behaviour, the inner one the code's \<open>valid\<close> flag. The two
  functions of the source spell out the same guards for \<open>+\<close> and \<open>+=\<close>, and so on.
\<close>

definition checked_add :: "int \<Rightarrow> int \<Rightarrow> int option option" where
  "checked_add a b = do {
     invalid \<leftarrow> c_or (c_and (b > 0) (c_greater a (c_int64 (INT64_MAX - b))))
                    (c_and (b < 0) (c_less a (c_int64 (INT64_MIN - b))));
     (if invalid then Some None else map_option Some (c_int64 (a + b))) }"

definition checked_sub :: "int \<Rightarrow> int \<Rightarrow> int option option" where
  "checked_sub a b = do {
     invalid \<leftarrow> c_or (c_and (b < 0) (c_greater a (c_int64 (INT64_MAX + b))))
                    (c_and (b > 0) (c_less a (c_int64 (INT64_MIN + b))));
     (if invalid then Some None else map_option Some (c_int64 (a - b))) }"

definition checked_mul :: "int \<Rightarrow> int \<Rightarrow> int option option" where
  "checked_mul a b =
     (if a = 0 \<or> b = 0 then Some (Some 0)
      else if a = - 1 then (if b = INT64_MIN then Some None else map_option Some (c_int64 (- b)))
      else if b = - 1 then (if a = INT64_MIN then Some None else map_option Some (c_int64 (- a)))
      else do {
        invalid \<leftarrow> c_or (c_and (a > 0 \<and> b > 0) (c_greater a (c_div INT64_MAX b)))
                  (c_or (c_and (a > 0 \<and> b < 0) (c_less b (c_div INT64_MIN a)))
                  (c_or (c_and (a < 0 \<and> b > 0) (c_less a (c_div INT64_MIN b)))
                        (c_and (a < 0 \<and> b < 0) (c_less a (c_div INT64_MAX b)))));
        (if invalid then Some None else map_option Some (c_int64 (a * b))) })"

definition checked_div :: "int \<Rightarrow> int \<Rightarrow> int option option" where
  "checked_div a b = (if a = INT64_MIN \<and> b = - 1 then Some None else map_option Some (c_div a b))"

definition checked_mod :: "int \<Rightarrow> int \<Rightarrow> int option option" where
  "checked_mod a b = (if a = INT64_MIN \<and> b = - 1 then Some None else map_option Some (c_mod a b))"

datatype arith_outcome =
    ARITH_INTEGER int | ARITH_BOOLEAN bool | ARITH_OVERFLOW | ARITH_DIVISION_BY_ZERO

definition arith_integer :: "int option \<Rightarrow> arith_outcome" where
  "arith_integer r = (case r of None \<Rightarrow> ARITH_OVERFLOW | Some v \<Rightarrow> ARITH_INTEGER v)"

text \<open>The \<open>switch\<close> of \<open>evaluate_binary\<close> on two integers; any other operator is invalid.\<close>

definition binary_integer :: "SolTokenKind \<Rightarrow> int \<Rightarrow> int \<Rightarrow> arith_outcome option" where
  "binary_integer op a b =
     (if op = SOL_TOKEN_PLUS then map_option arith_integer (checked_add a b)
      else if op = SOL_TOKEN_MINUS then map_option arith_integer (checked_sub a b)
      else if op = SOL_TOKEN_STAR then map_option arith_integer (checked_mul a b)
      else if op = SOL_TOKEN_SLASH \<or> op = SOL_TOKEN_PERCENT then
        (if b = 0 then Some ARITH_DIVISION_BY_ZERO
         else map_option arith_integer
           (if op = SOL_TOKEN_SLASH then checked_div a b else checked_mod a b))
      else if op = SOL_TOKEN_LESS then Some (ARITH_BOOLEAN (a < b))
      else if op = SOL_TOKEN_LESS_EQUAL then Some (ARITH_BOOLEAN (a \<le> b))
      else if op = SOL_TOKEN_GREATER then Some (ARITH_BOOLEAN (a > b))
      else if op = SOL_TOKEN_GREATER_EQUAL then Some (ARITH_BOOLEAN (a \<ge> b))
      else Some ARITH_OVERFLOW)"

text \<open>\<open>compound_integer\<close>: \<open>Some None\<close> is the silent \<open>return false\<close> of its default branch.\<close>

definition compound_integer_value :: "SolTokenKind \<Rightarrow> int \<Rightarrow> int \<Rightarrow> arith_outcome option option" where
  "compound_integer_value op a b =
     (if op = SOL_TOKEN_PLUS_EQUAL then map_option (Some \<circ> arith_integer) (checked_add a b)
      else if op = SOL_TOKEN_MINUS_EQUAL then map_option (Some \<circ> arith_integer) (checked_sub a b)
      else if op = SOL_TOKEN_STAR_EQUAL then map_option (Some \<circ> arith_integer) (checked_mul a b)
      else if op = SOL_TOKEN_SLASH_EQUAL \<or> op = SOL_TOKEN_PERCENT_EQUAL then
        (if b = 0 then Some (Some ARITH_DIVISION_BY_ZERO)
         else map_option (Some \<circ> arith_integer)
           (if op = SOL_TOKEN_SLASH_EQUAL then checked_div a b else checked_mod a b))
      else Some None)"

section \<open>Exactness\<close>

text \<open>The mathematical result, when it fits.\<close>

definition exact :: "int \<Rightarrow> int option" where
  "exact x = (if in_int64 x then Some x else None)"

lemmas int64_defs = in_int64_def INT64_MAX_def INT64_MIN_def

lemma checked_add_exact:
  "in_int64 a \<Longrightarrow> in_int64 b \<Longrightarrow> checked_add a b = Some (exact (a + b))"
  by (auto simp: checked_add_def c_or_def c_and_def c_int64_def exact_def int64_defs
      split: if_splits)

lemma checked_sub_exact:
  "in_int64 a \<Longrightarrow> in_int64 b \<Longrightarrow> checked_sub a b = Some (exact (a - b))"
  by (auto simp: checked_sub_def c_or_def c_and_def c_int64_def exact_def int64_defs
      split: if_splits)

lemma quot_simps:
  "0 \<le> a \<Longrightarrow> 0 < b \<Longrightarrow> quot a b = a div b"
  "a \<le> 0 \<Longrightarrow> 0 < b \<Longrightarrow> quot a b = - (- a div b)"
  "0 \<le> a \<Longrightarrow> b < 0 \<Longrightarrow> quot a b = - (a div - b)"
  "a \<le> 0 \<Longrightarrow> b < 0 \<Longrightarrow> quot a b = - a div - b"
  by (cases "a = 0"; simp add: quot_def sgn_if)+

lemma div_less_iff_mult: "0 < (b::int) \<Longrightarrow> m div b < n \<longleftrightarrow> m < n * b"
proof -
  assume b: "0 < b"
  have "n \<le> m div b \<longleftrightarrow> n * b \<le> m"
  proof
    assume "n \<le> m div b"
    with b have "n * b \<le> m div b * b" by (simp add: mult_right_mono)
    also have "\<dots> = m - m mod b" by (rule minus_mod_eq_div_mult [symmetric])
    also have "\<dots> \<le> m" using b by simp
    finally show "n * b \<le> m" .
  next
    assume "n * b \<le> m"
    with b have "n * b div b \<le> m div b" by (intro zdiv_mono1) auto
    with b show "n \<le> m div b" by simp
  qed
  then show ?thesis by linarith
qed

lemma in_int64_quot: "in_int64 a \<Longrightarrow> b \<noteq> 0 \<Longrightarrow> \<not> (a = INT64_MIN \<and> b = - 1) \<Longrightarrow> in_int64 (quot a b)"
proof -
  assume a: "in_int64 a" and b: "b \<noteq> 0" and ne: "\<not> (a = INT64_MIN \<and> b = - 1)"
  have le: "\<bar>a\<bar> div \<bar>b\<bar> \<le> \<bar>a\<bar>"
    using b by (intro zdiv_mono2 [of "\<bar>a\<bar>" 1 "\<bar>b\<bar>", simplified]) auto
  have nn: "0 \<le> \<bar>a\<bar> div \<bar>b\<bar>" by (simp add: pos_imp_zdiv_nonneg_iff b)
  show ?thesis
  proof (cases "\<bar>a\<bar> \<le> INT64_MAX")
    case True
    with le nn have "\<bar>quot a b\<bar> \<le> INT64_MAX"
      by (auto simp: quot_def abs_mult sgn_if)
    then show ?thesis by (auto simp: int64_defs)
  next
    case False
    with a have "a = INT64_MIN" by (auto simp: int64_defs)
    show ?thesis
    proof (cases "0 < b")
      case True
      with le nn \<open>a = INT64_MIN\<close> show ?thesis by (simp add: quot_simps int64_defs)
    next
      case neg: False
      with b ne \<open>a = INT64_MIN\<close> have "2 \<le> - b" by auto
      then have "- a div - b \<le> - a div 2"
        using \<open>a = INT64_MIN\<close> by (intro zdiv_mono2) (auto simp: int64_defs)
      with neg b nn \<open>a = INT64_MIN\<close> show ?thesis by (simp add: quot_simps int64_defs)
    qed
  qed
qed

lemma quot_min: "\<not> in_int64 (quot INT64_MIN (- 1))"
  by (simp add: quot_def int64_defs)

lemma checked_div_exact:
  "in_int64 a \<Longrightarrow> b \<noteq> 0 \<Longrightarrow> checked_div a b = Some (exact (quot a b))"
  by (cases "a = INT64_MIN \<and> b = - 1")
    (auto simp: checked_div_def c_div_def c_int64_def exact_def in_int64_quot quot_min)

lemma checked_mod_exact:
  "in_int64 a \<Longrightarrow> b \<noteq> 0 \<Longrightarrow>
   checked_mod a b = Some (map_option (\<lambda>q. a - b * q) (exact (quot a b)))"
  by (cases "a = INT64_MIN \<and> b = - 1")
    (auto simp: checked_mod_def c_mod_def c_int64_def exact_def in_int64_quot quot_min)

lemma mul_guards:
  assumes "in_int64 a" "in_int64 b" "a \<noteq> 0" "b \<noteq> 0" "a \<noteq> - 1" "b \<noteq> - 1"
  shows "0 < a \<Longrightarrow> 0 < b \<Longrightarrow> quot INT64_MAX b < a \<longleftrightarrow> \<not> in_int64 (a * b)"
    "0 < a \<Longrightarrow> b < 0 \<Longrightarrow> b < quot INT64_MIN a \<longleftrightarrow> \<not> in_int64 (a * b)"
    "a < 0 \<Longrightarrow> 0 < b \<Longrightarrow> a < quot INT64_MIN b \<longleftrightarrow> \<not> in_int64 (a * b)"
    "a < 0 \<Longrightarrow> b < 0 \<Longrightarrow> a < quot INT64_MAX b \<longleftrightarrow> \<not> in_int64 (a * b)"
proof -
  assume s: "0 < a" "0 < b"
  then have "0 < a * b" by simp
  then have "INT64_MIN \<le> a * b" by (simp add: int64_defs)
  with s show "quot INT64_MAX b < a \<longleftrightarrow> \<not> in_int64 (a * b)"
    by (simp add: quot_simps int64_defs div_less_iff_mult not_le)
next
  assume s: "0 < a" "b < 0"
  then have neg: "a * b < 0" by (simp add: mult_pos_neg)
  have "b < quot INT64_MIN a \<longleftrightarrow> - INT64_MIN div a < - b"
    using s by (simp add: quot_simps int64_defs) linarith
  also have "\<dots> \<longleftrightarrow> - INT64_MIN < - b * a" using s by (intro div_less_iff_mult) simp
  finally show "b < quot INT64_MIN a \<longleftrightarrow> \<not> in_int64 (a * b)"
    using neg by (auto simp: int64_defs mult.commute)
next
  assume s: "a < 0" "0 < b"
  then have neg: "a * b < 0" by (simp add: mult_neg_pos)
  have "a < quot INT64_MIN b \<longleftrightarrow> - INT64_MIN div b < - a"
    using s by (simp add: quot_simps int64_defs) linarith
  also have "\<dots> \<longleftrightarrow> - INT64_MIN < - a * b" using s by (intro div_less_iff_mult) simp
  finally show "a < quot INT64_MIN b \<longleftrightarrow> \<not> in_int64 (a * b)"
    using neg by (auto simp: int64_defs)
next
  assume s: "a < 0" "b < 0"
  then have pos: "0 < a * b" by (simp add: mult_neg_neg)
  have "a < quot INT64_MAX b \<longleftrightarrow> INT64_MAX div - b < - a"
    using s by (simp add: quot_simps int64_defs) linarith
  also have "\<dots> \<longleftrightarrow> INT64_MAX < - a * - b" using s by (intro div_less_iff_mult) simp
  finally show "a < quot INT64_MAX b \<longleftrightarrow> \<not> in_int64 (a * b)"
    using pos by (auto simp: int64_defs)
qed

lemma c_div_guard: "in_int64 m \<Longrightarrow> b \<noteq> 0 \<Longrightarrow> b \<noteq> - 1 \<Longrightarrow> c_div m b = Some (quot m b)"
  by (simp add: c_div_def c_int64_def in_int64_quot)

lemma checked_mul_exact:
  assumes "in_int64 a" "in_int64 b"
  shows "checked_mul a b = Some (exact (a * b))"
proof -
  have bounds: "in_int64 INT64_MAX" "in_int64 INT64_MIN" "in_int64 0" by (simp_all add: int64_defs)
  consider "a = 0 \<or> b = 0" | "a = - 1" "b \<noteq> 0" | "b = - 1" "a \<noteq> 0" "a \<noteq> - 1"
    | "a \<noteq> 0" "b \<noteq> 0" "a \<noteq> - 1" "b \<noteq> - 1" by blast
  then show ?thesis
  proof cases
    case 4
    note guards = mul_guards [OF assms 4]
    show ?thesis
      using 4 bounds guards
      by (cases "0 < a"; cases "0 < b")
        (auto simp: checked_mul_def c_div_guard c_or_def c_and_def c_int64_def exact_def
          split: if_splits)
  qed (use assms bounds in \<open>auto simp: checked_mul_def c_int64_def exact_def int64_defs\<close>)
qed

section \<open>Properties\<close>

text \<open>The result each binary operator promises, over unbounded integers.\<close>

definition arith_spec :: "SolTokenKind \<Rightarrow> int \<Rightarrow> int \<Rightarrow> arith_outcome" where
  "arith_spec op a b =
     (if op = SOL_TOKEN_PLUS then arith_integer (exact (a + b))
      else if op = SOL_TOKEN_MINUS then arith_integer (exact (a - b))
      else if op = SOL_TOKEN_STAR then arith_integer (exact (a * b))
      else if op = SOL_TOKEN_SLASH then
        (if b = 0 then ARITH_DIVISION_BY_ZERO else arith_integer (exact (quot a b)))
      else if op = SOL_TOKEN_PERCENT then
        (if b = 0 then ARITH_DIVISION_BY_ZERO
         else arith_integer (map_option (\<lambda>q. a - b * q) (exact (quot a b))))
      else if op = SOL_TOKEN_LESS then ARITH_BOOLEAN (a < b)
      else if op = SOL_TOKEN_LESS_EQUAL then ARITH_BOOLEAN (a \<le> b)
      else if op = SOL_TOKEN_GREATER then ARITH_BOOLEAN (a > b)
      else if op = SOL_TOKEN_GREATER_EQUAL then ARITH_BOOLEAN (a \<ge> b)
      else ARITH_OVERFLOW)"

lemmas checked_exact = checked_add_exact checked_sub_exact checked_mul_exact checked_div_exact
  checked_mod_exact

text \<open>
  C21. Checked \<open>Int64\<close> arithmetic is exact: for operands in range no C operation of the
  guards overflows, \<open>+\<close>, \<open>-\<close>, \<open>*\<close>, \<open>/\<close> give the mathematical (truncating) result when it fits
  and an overflow otherwise, \<open>%\<close> gives the remainder except where the quotient overflows,
  division by zero is told apart from overflow, and comparisons are the integer ones.
\<close>

theorem binary_integer_exact:
  assumes "in_int64 a" and "in_int64 b"
  shows "binary_integer op a b = Some (arith_spec op a b)"
  using assms by (simp add: binary_integer_def arith_spec_def checked_exact)

theorem binary_integer_exact_witness:
  "binary_integer SOL_TOKEN_STAR INT64_MIN 2 = Some ARITH_OVERFLOW \<and>
   binary_integer SOL_TOKEN_PERCENT (- 7) 2 = Some (ARITH_INTEGER (- 1))"
proof
  have "in_int64 INT64_MIN" "in_int64 2" "in_int64 (- 7)" by (simp_all add: int64_defs)
  note exact = binary_integer_exact [OF this(1,2), of SOL_TOKEN_STAR]
    binary_integer_exact [OF this(3,2), of SOL_TOKEN_PERCENT]
  show "binary_integer SOL_TOKEN_STAR INT64_MIN 2 = Some ARITH_OVERFLOW"
    unfolding exact(1) by (simp add: arith_spec_def exact_def arith_integer_def int64_defs)
  show "binary_integer SOL_TOKEN_PERCENT (- 7) 2 = Some (ARITH_INTEGER (- 1))"
    unfolding exact(2) by (simp add: arith_spec_def exact_def arith_integer_def int64_defs quot_def)
qed

definition plain_operator :: "SolTokenKind \<Rightarrow> SolTokenKind option" where
  "plain_operator op = map_of
     [(SOL_TOKEN_PLUS_EQUAL, SOL_TOKEN_PLUS), (SOL_TOKEN_MINUS_EQUAL, SOL_TOKEN_MINUS),
      (SOL_TOKEN_STAR_EQUAL, SOL_TOKEN_STAR), (SOL_TOKEN_SLASH_EQUAL, SOL_TOKEN_SLASH),
      (SOL_TOKEN_PERCENT_EQUAL, SOL_TOKEN_PERCENT)] op"

text \<open>
  Compound assignment computes what the plain operator computes; any other token is refused
  without a result.
\<close>

lemma compound_integer_agrees:
  "compound_integer_value op a b =
     (case plain_operator op of
        None \<Rightarrow> Some None
      | Some plain \<Rightarrow> map_option Some (binary_integer plain a b))"
  by (auto simp: compound_integer_value_def plain_operator_def binary_integer_def
      option.map_comp comp_def)

end
