(* ===== verification/Sol_Eval.thy ===== *)
theory Sol_Eval
  imports Sol_Invoke Sol_Arith
begin

text \<open>
  The evaluator of \<open>src/src/interpreter.c\<close>: operators, calls, blocks, expressions and the entry
  \<open>sol_interpret\<close>. The C functions are mutually recursive through \<open>evaluate\<close>; here each takes
  the evaluator \<open>ev\<close> as an argument, and \<open>evaluate (Suc n)\<close> ties the knot with \<open>evaluate n\<close>. Fuel
  is not a bound of the source: every call of \<open>evaluate\<close> consumes one step of the request's
  budget, so fuel above the remaining steps never runs out (\<open>sol_interpret_terminates\<close>).
\<close>

section \<open>Operators\<close>

definition evaluate_binary ::
    "'h SolInterpreterRequest \<Rightarrow> 'h evaluator \<Rightarrow> SolSpan \<Rightarrow> size_t \<Rightarrow> SolTokenKind \<Rightarrow> size_t \<Rightarrow> ('h, Flow) run" where
  "evaluate_binary rq ev sp left_id op right_id = do {
     left \<leftarrow> ev left_id;
     (if fst left \<noteq> FLOW_VALUE then ret left
      else if (op = SOL_TOKEN_AMP_AMP \<and> snd left = VALUE_BOOL False)
        \<or> (op = SOL_TOKEN_PIPE_PIPE \<and> snd left = VALUE_BOOL True) then ret left
      else do {
        right \<leftarrow> ev right_id;
        (if fst right \<noteq> FLOW_VALUE then ret right
         else do {
           valid \<leftarrow> new_value rq sp;
           (if \<not> valid then ret flow_error
            else if op = SOL_TOKEN_EQUAL_EQUAL \<or> op = SOL_TOKEN_BANG_EQUAL then do {
              (equal, supported) \<leftarrow> defined (value_equal (snd left) (snd right)) (False, False);
              (if \<not> supported then do {
                 diagnostic rq SOL_INTERPRETER_TYPE_INVARIANT sp
                   ''runtime-only values do not support structural equality'';
                 ret flow_error }
               else ret (FLOW_VALUE, VALUE_BOOL (if op = SOL_TOKEN_EQUAL_EQUAL then equal else \<not> equal))) }
            else case (snd left, snd right) of
                (VALUE_BOOL a, VALUE_BOOL b) \<Rightarrow>
                  if op = SOL_TOKEN_AMP_AMP then ret (FLOW_VALUE, VALUE_BOOL (a \<and> b))
                  else if op = SOL_TOKEN_PIPE_PIPE then ret (FLOW_VALUE, VALUE_BOOL (a \<or> b))
                  else do {
                    diagnostic rq SOL_INTERPRETER_TYPE_INVARIANT sp
                      ''binary operand runtime types are invalid'';
                    ret flow_error }
              | (VALUE_INT64 a, VALUE_INT64 b) \<Rightarrow> do {
                  outcome \<leftarrow> defined (binary_integer op (sint a) (sint b)) ARITH_OVERFLOW;
                  (case outcome of
                     ARITH_INTEGER v \<Rightarrow> ret (FLOW_VALUE, VALUE_INT64 (word_of_int v))
                   | ARITH_BOOLEAN v \<Rightarrow> ret (FLOW_VALUE, VALUE_BOOL v)
                   | ARITH_DIVISION_BY_ZERO \<Rightarrow> do {
                       diagnostic rq SOL_INTERPRETER_DIVISION_BY_ZERO sp ''integer division by zero'';
                       ret flow_error }
                   | ARITH_OVERFLOW \<Rightarrow> do {
                       diagnostic rq SOL_INTERPRETER_INTEGER_OVERFLOW sp
                         ''checked Int64 arithmetic overflow'';
                       ret flow_error }) }
              | _ \<Rightarrow> do {
                  diagnostic rq SOL_INTERPRETER_TYPE_INVARIANT sp
                    ''binary operand runtime types are invalid'';
                  ret flow_error }) }) }) }"

definition compound_integer ::
    "'h SolInterpreterRequest \<Rightarrow> SolTokenKind \<Rightarrow> 64 word \<Rightarrow> 64 word \<Rightarrow> SolSpan \<Rightarrow> ('h, 64 word option) run" where
  "compound_integer rq op left right sp = do {
     outcome \<leftarrow> defined (compound_integer_value op (sint left) (sint right)) None;
     (case outcome of
        Some (ARITH_INTEGER v) \<Rightarrow> ret (Some (word_of_int v))
      | Some ARITH_DIVISION_BY_ZERO \<Rightarrow> do {
          diagnostic rq SOL_INTERPRETER_DIVISION_BY_ZERO sp ''integer division by zero''; ret None }
      | Some ARITH_OVERFLOW \<Rightarrow> do {
          diagnostic rq SOL_INTERPRETER_INTEGER_OVERFLOW sp ''checked Int64 arithmetic overflow'';
          ret None }
      | _ \<Rightarrow> ret None) }"

definition evaluate_unary ::
    "'h SolInterpreterRequest \<Rightarrow> 'h evaluator \<Rightarrow> SolSpan \<Rightarrow> SolTokenKind \<Rightarrow> size_t \<Rightarrow> ('h, Flow) run" where
  "evaluate_unary rq ev sp op operand_id = do {
     operand \<leftarrow> ev operand_id;
     (if fst operand \<noteq> FLOW_VALUE then ret operand
      else do {
        ok \<leftarrow> new_value rq sp;
        (if \<not> ok then ret flow_error
         else case snd operand of
             VALUE_BOOL b \<Rightarrow>
               if op = SOL_TOKEN_BANG then ret (FLOW_VALUE, VALUE_BOOL (\<not> b))
               else do {
                 diagnostic rq SOL_INTERPRETER_TYPE_INVARIANT sp ''invalid unary operation'';
                 ret flow_error }
           | VALUE_INT64 w \<Rightarrow>
               if op = SOL_TOKEN_MINUS \<and> sint w \<noteq> INT64_MIN
               then ret (FLOW_VALUE, VALUE_INT64 (word_of_int (- sint w)))
               else do {
                 diagnostic rq SOL_INTERPRETER_INTEGER_OVERFLOW sp ''invalid unary operation'';
                 ret flow_error }
           | _ \<Rightarrow> do {
               diagnostic rq SOL_INTERPRETER_TYPE_INVARIANT sp ''invalid unary operation'';
               ret flow_error }) }) }"

section \<open>Calls\<close>

text \<open>Evaluate operands in order; the first that is not a value ends the evaluation.\<close>

fun evaluate_operands ::
    "'h SolInterpreterRequest \<Rightarrow> 'h evaluator \<Rightarrow> slice \<Rightarrow> SolInterpreterValue list \<Rightarrow> size_t list \<Rightarrow>
     ('h, Flow + SolInterpreterValue list) run"
where
  "evaluate_operands rq ev operands values [] = ret (Inr values)"
| "evaluate_operands rq ev operands values (i # is) = do {
     operand \<leftarrow> deref (ir_operands (rq_ir rq)) (sl_offset operands + i);
     argument \<leftarrow> ev (op_value operand);
     (if fst argument \<noteq> FLOW_VALUE then ret (Inl argument)
      else evaluate_operands rq ev operands (values @ [snd argument]) is) }"

fun find_evidence ::
    "'h SolInterpreterRequest \<Rightarrow> slice \<Rightarrow> size_t \<Rightarrow> size_t list \<Rightarrow> ('h, SolIrDispatchEvidence option) run"
where
  "find_evidence rq evidence callable [] = ret None"
| "find_evidence rq evidence callable (i # is) = do {
     candidate \<leftarrow> deref (ir_evidence (rq_ir rq)) (sl_offset evidence + i);
     (if ev_requirement candidate = callable then do {
        frames \<leftarrow> gets it_frames;
        ret (resolve_evidence (map fr_evidence frames) candidate) }
      else find_evidence rq evidence callable is) }"

definition counted_slice :: "'a list \<Rightarrow> slice \<Rightarrow> ('h, 'a counted) run" where
  "counted_slice xs sl =
     (if sl_count sl = 0 then ret (COUNTED_NULL 0)
      else do { ys \<leftarrow> defined (slice_elems xs sl) []; ret (COUNTED_ITEMS ys) })"

text \<open>The \<open>switch\<close> of \<open>evaluate_call\<close>: the output with the receiver's and the arguments' writebacks.\<close>

definition dispatch_call ::
    "'h SolInterpreterRequest \<Rightarrow> 'h evaluator \<Rightarrow> SolIrExpression \<Rightarrow> SolIrCall \<Rightarrow> SolInterpreterValue \<Rightarrow>
     SolInterpreterValue \<Rightarrow> SolInterpreterValue list \<Rightarrow>
     ('h, Flow \<times> SolInterpreterValue \<times> SolInterpreterValue list) run" where
  "dispatch_call rq ev expression call callee receiver arguments =
     (let sp = ex_span expression;
          none = replicate (length arguments) VALUE_INVALID;
          failed = (flow_error, VALUE_INVALID, none);
          value = (\<lambda>v. ((FLOW_VALUE, v), VALUE_INVALID, none));
          operation = (\<lambda>target callable. do {
            (flow, backs) \<leftarrow> invoke_operation rq ev target callable arguments sp;
            ret (flow, VALUE_INVALID, backs) });
          sum = (\<lambda>kind is_error. do {
            ok \<leftarrow> new_value rq sp;
            (if \<not> ok then ret failed
             else do {
               memory \<leftarrow> allocate;
               (if \<not> memory then ret failed
                else do {
                  payload \<leftarrow> deref arguments 0;
                  ret (value (VALUE_SUM kind True is_error (Some payload))) }) }) }) in
      case cl_kind call of
        SOL_IR_CALL_BUILTIN_NONE \<Rightarrow> do {
          ok \<leftarrow> new_value rq sp;
          ret (if ok then value (VALUE_SUM SOL_VALUE_OPTION False False None) else failed) }
      | SOL_IR_CALL_BUILTIN_SOME \<Rightarrow> sum SOL_VALUE_OPTION False
      | SOL_IR_CALL_BUILTIN_OK \<Rightarrow> sum SOL_VALUE_RESULT False
      | SOL_IR_CALL_BUILTIN_ERR \<Rightarrow> sum SOL_VALUE_RESULT True
      | SOL_IR_CALL_ENUM_CONSTRUCTOR \<Rightarrow> do {
          ok \<leftarrow> new_value rq sp;
          ret (if ok then value (VALUE_AGGREGATE SOL_VALUE_ENUM (cl_definition call)
            (cl_variant call) arguments) else failed) }
      | SOL_IR_CALL_DISTINCT_CONSTRUCTOR \<Rightarrow> do {
          payload \<leftarrow> deref arguments 0;
          refined \<leftarrow> check_refinement rq ev expression call payload;
          ok \<leftarrow> (if refined then new_value rq sp else ret False);
          (if \<not> ok then ret failed
           else do {
             memory \<leftarrow> allocate;
             ret (if memory then value (VALUE_DISTINCT (cl_definition call) (Some payload))
               else failed) }) }
      | SOL_IR_CALL_CALLBACK \<Rightarrow>
          (case callee of
             VALUE_CALLABLE SOL_VALUE_FUNCTION callable _ \<Rightarrow>
               if callable < length (ir_callables (rq_ir rq))
                 \<and> ca_kind (ir_callables (rq_ir rq) ! callable) = SOL_IR_CALLABLE_FUNCTION
               then invoke rq ev callable None arguments (COUNTED_NULL 0) (COUNTED_NULL 0)
                 False True sp
               else do {
                 diagnostic rq SOL_INTERPRETER_TYPE_INVARIANT sp ''callback callee is not executable'';
                 ret failed }
           | VALUE_CALLABLE SOL_VALUE_BOUND_OPERATION callable target \<Rightarrow> do {
               shared \<leftarrow> for_each [0..<length arguments] (\<lambda>i. do {
                 operand \<leftarrow> deref (ir_operands (rq_ir rq)) (sl_offset (cl_operands call) + i);
                 ret (op_access operand \<noteq> SOL_ACCESS_EXCLUSIVE) });
               (if \<not> shared \<and> callable \<ge> length (ir_callables (rq_ir rq)) then do {
                  diagnostic rq SOL_INTERPRETER_TYPE_INVARIANT sp
                    ''capability callback metadata is invalid'';
                  ret failed }
                else operation target callable) }
           | _ \<Rightarrow> do {
               diagnostic rq SOL_INTERPRETER_TYPE_INVARIANT sp ''callback callee is not executable'';
               ret failed })
      | SOL_IR_CALL_CAPABILITY \<Rightarrow>
          (case callee of
             VALUE_CALLABLE SOL_VALUE_BOUND_OPERATION callable target \<Rightarrow> operation target callable
           | _ \<Rightarrow> do {
               diagnostic rq SOL_INTERPRETER_TYPE_INVARIANT sp
                 ''capability callee is not a bound operation'';
               ret failed })
      | SOL_IR_CALL_METHOD \<Rightarrow> do {
          selected \<leftarrow> find_evidence rq (cl_evidence call) (cl_callable call)
            [0..<sl_count (cl_evidence call)];
          (case selected of
             None \<Rightarrow> do {
               diagnostic rq SOL_INTERPRETER_TYPE_INVARIANT sp
                 ''method invocation evidence is unavailable'';
               ret failed }
           | Some evidence \<Rightarrow> invoke rq ev (ev_method evidence) (Some receiver) arguments
               (COUNTED_NULL 0) (COUNTED_NULL 0)
               (cl_receiver_access call = SOL_ACCESS_EXCLUSIVE) True sp) }
      | SOL_IR_CALL_FUNCTION \<Rightarrow> do {
          type_arguments \<leftarrow> counted_slice (ir_type_ids (rq_ir rq)) (cl_type_arguments call);
          evidence \<leftarrow> counted_slice (ir_evidence (rq_ir rq)) (cl_evidence call);
          invoke rq ev (cl_callable call) None arguments type_arguments evidence False True sp })"

text \<open>One writeback is charged, or stored, through the place expression it came from.\<close>

definition charge_writeback ::
    "'h SolInterpreterRequest \<Rightarrow> SolSpan \<Rightarrow> size_t \<Rightarrow> SolInterpreterValue \<Rightarrow> ('h, bool) run" where
  "charge_writeback rq sp actual v =
     (if v = VALUE_INVALID then ret True
      else charge_place_update rq (runtime_expression_place (rq_ir rq) actual) sp)"

definition store_writeback ::
    "'h SolInterpreterRequest \<Rightarrow> SolSpan \<Rightarrow> size_t \<Rightarrow> SolInterpreterValue \<Rightarrow> ('h, bool) run" where
  "store_writeback rq sp actual v =
     (if v = VALUE_INVALID then ret True
      else case runtime_expression_place (rq_ir rq) actual of
          None \<Rightarrow> ret False
        | Some place \<Rightarrow> update_place rq place v sp)"

definition argument_writebacks ::
    "'h SolInterpreterRequest \<Rightarrow> slice \<Rightarrow> (size_t \<Rightarrow> SolInterpreterValue \<Rightarrow> ('h, bool) run) \<Rightarrow>
     SolInterpreterValue list \<Rightarrow> ('h, bool) run" where
  "argument_writebacks rq operands f backs =
     for_each [0..<length backs] (\<lambda>i.
       if backs ! i = VALUE_INVALID then ret True
       else do {
         operand \<leftarrow> deref (ir_operands (rq_ir rq)) (sl_offset operands + i);
         f (op_value operand) (backs ! i) })"

definition apply_writebacks ::
    "'h SolInterpreterRequest \<Rightarrow> SolSpan \<Rightarrow> SolIrCall \<Rightarrow> SolInterpreterValue \<Rightarrow>
     SolInterpreterValue list \<Rightarrow> ('h, bool) run" where
  "apply_writebacks rq sp call receiver_back backs = do {
     ok \<leftarrow> charge_writeback rq sp (cl_receiver call) receiver_back;
     ok \<leftarrow> (if ok then argument_writebacks rq (cl_operands call) (charge_writeback rq sp) backs
       else ret False);
     ok \<leftarrow> (if ok then store_writeback rq sp (cl_receiver call) receiver_back else ret False);
     (if ok then argument_writebacks rq (cl_operands call) (store_writeback rq sp) backs
      else ret False) }"

definition evaluate_call ::
    "'h SolInterpreterRequest \<Rightarrow> 'h evaluator \<Rightarrow> SolIrExpression \<Rightarrow> SolIrCall \<Rightarrow> ('h, Flow) run" where
  "evaluate_call rq ev expression call = do {
     callee \<leftarrow> (if cl_kind call = SOL_IR_CALL_CALLBACK \<or> cl_kind call = SOL_IR_CALL_CAPABILITY
       then ev (cl_callee call) else ret (flow_new FLOW_VALUE));
     (if fst callee \<noteq> FLOW_VALUE then ret callee
      else do {
        receiver \<leftarrow> (if cl_kind call = SOL_IR_CALL_METHOD then ev (cl_receiver call)
          else ret (flow_new FLOW_VALUE));
        (if fst receiver \<noteq> FLOW_VALUE then ret receiver
         else do {
           memory \<leftarrow> (if sl_count (cl_operands call) = 0 then ret True
             else do { arguments \<leftarrow> allocate; writebacks \<leftarrow> allocate; ret (arguments \<and> writebacks) });
           (if \<not> memory then do {
              diagnostic rq SOL_INTERPRETER_INTERNAL_INVARIANT (ex_span expression)
                ''argument allocation failed'';
              ret flow_error }
            else do {
              operands \<leftarrow> evaluate_operands rq ev (cl_operands call) []
                [0..<sl_count (cl_operands call)];
              (case operands of
                 Inl flow \<Rightarrow> ret flow
               | Inr arguments \<Rightarrow> do {
                   (output, receiver_back, backs) \<leftarrow>
                     dispatch_call rq ev expression call (snd callee) (snd receiver) arguments;
                   (if fst output = FLOW_ERROR then ret output
                    else do {
                      ok \<leftarrow> apply_writebacks rq (ex_span expression) call receiver_back backs;
                      ret (if ok then output else flow_error) }) }) }) }) }) }"

section \<open>Blocks\<close>

text \<open>
  \<open>SOL_IR_STATEMENT_LOOP\<close> and \<open>SOL_IR_STATEMENT_WHILE\<close>: the flow the loop ends with. Each
  round evaluates at least one expression, hence uses at least one step.
\<close>

primrec run_loop ::
    "nat \<Rightarrow> 'h SolInterpreterRequest \<Rightarrow> 'h evaluator \<Rightarrow> SolIrStatement \<Rightarrow> ('h, Flow) run"
where
  "run_loop 0 rq ev statement = do { trap TRAP_FUEL; ret flow_error }"
| "run_loop (Suc n) rq ev statement =
     (let body = do {
        loop \<leftarrow> ev (st_expression statement);
        (case fst loop of
           FLOW_BREAK \<Rightarrow> ret flow_unit
         | FLOW_CONTINUE \<Rightarrow> run_loop n rq ev statement
         | FLOW_VALUE \<Rightarrow> run_loop n rq ev statement
         | _ \<Rightarrow> ret loop) } in
      if st_kind statement \<noteq> SOL_IR_STATEMENT_WHILE then body
      else do {
        loop \<leftarrow> ev (st_condition statement);
        (case fst loop of
           FLOW_BREAK \<Rightarrow> ret flow_unit
         | FLOW_CONTINUE \<Rightarrow> run_loop n rq ev statement
         | FLOW_VALUE \<Rightarrow>
             (case snd loop of
                VALUE_BOOL condition \<Rightarrow> if condition then body else ret flow_unit
              | _ \<Rightarrow> do {
                  diagnostic rq SOL_INTERPRETER_TYPE_INVARIANT (st_span statement)
                    ''while condition is not Bool'';
                  ret flow_error })
         | _ \<Rightarrow> ret loop) })"

text \<open>A statement goes on with a new last value, or ends the block with a flow.\<close>

datatype statement_outcome = GO_ON SolInterpreterValue | LEAVE Flow

definition assignment_place :: "'h SolInterpreterRequest \<Rightarrow> SolIrStatement \<Rightarrow> ('h, SolIrPlace) run" where
  "assignment_place rq statement = do {
     target \<leftarrow> deref (ir_expressions (rq_ir rq)) (st_target statement);
     deref (ir_places (rq_ir rq)) (case ex_kind target of SOL_IR_EXPR_PLACE p \<Rightarrow> p | _ \<Rightarrow> SOL_IR_NONE) }"

text \<open>The value of a compound assignment.\<close>

definition compound_value ::
    "'h SolInterpreterRequest \<Rightarrow> 'h evaluator \<Rightarrow> SolIrStatement \<Rightarrow> ('h, Flow) run" where
  "compound_value rq ev statement = do {
     place \<leftarrow> assignment_place rq statement;
     charged \<leftarrow> charge_place_update rq (Some place) (st_span statement);
     (if \<not> charged then ret flow_error
      else do {
        slot \<leftarrow> local_place_slot rq place;
        (case slot of
           Some (_, _, VALUE_INT64 old) \<Rightarrow> do {
             v \<leftarrow> ev (st_expression statement);
             (if fst v \<noteq> FLOW_VALUE then ret v
              else case snd v of
                  VALUE_INT64 operand \<Rightarrow> do {
                    result \<leftarrow> compound_integer rq (st_operator statement) old operand (st_span statement);
                    (case result of
                       None \<Rightarrow> ret flow_error
                     | Some w \<Rightarrow> do {
                         charged \<leftarrow> charge_place_update rq (Some place) (st_span statement);
                         ret (if charged then (FLOW_VALUE, VALUE_INT64 w) else flow_error) }) }
                | _ \<Rightarrow> ret flow_error) }
         | _ \<Rightarrow> do {
             diagnostic rq SOL_INTERPRETER_INTERNAL_INVARIANT (st_span statement)
               ''compound assignment target is unbound'';
             ret flow_error }) }) }"

definition run_require ::
    "'h SolInterpreterRequest \<Rightarrow> 'h evaluator \<Rightarrow> SolIrStatement \<Rightarrow> ('h, statement_outcome) run" where
  "run_require rq ev statement = do {
     condition \<leftarrow> ev (st_condition statement);
     (if fst condition \<noteq> FLOW_VALUE then ret (LEAVE condition)
      else case snd condition of
          VALUE_BOOL True \<Rightarrow> ret (GO_ON VALUE_UNIT)
        | VALUE_BOOL False \<Rightarrow> do {
            fallback \<leftarrow> ev (st_expression statement);
            (if fst fallback = FLOW_VALUE then do {
               diagnostic rq SOL_INTERPRETER_REQUIRE_FALLBACK_RETURNED (st_span statement)
                 ''require fallback returned a value instead of terminating'';
               ret (LEAVE flow_error) }
             else ret (LEAVE fallback)) }
        | _ \<Rightarrow> do {
            diagnostic rq SOL_INTERPRETER_TYPE_INVARIANT (st_span statement)
              ''require condition is not Bool'';
            ret (LEAVE flow_error) }) }"

definition run_panic ::
    "'h SolInterpreterRequest \<Rightarrow> 'h evaluator \<Rightarrow> SolIrStatement \<Rightarrow> ('h, statement_outcome) run" where
  "run_panic rq ev statement = do {
     message \<leftarrow> ev (st_expression statement);
     (if fst message \<noteq> FLOW_VALUE then ret (LEAVE message)
      else do {
        (case snd message of
           VALUE_TEXT (Some bytes) \<Rightarrow>
             diagnostic rq SOL_INTERPRETER_PANIC (st_span statement) (c_string bytes)
         | VALUE_TEXT None \<Rightarrow> trap TRAP_UNDEFINED
         | _ \<Rightarrow> diagnostic rq SOL_INTERPRETER_TYPE_INVARIANT (st_span statement)
             ''panic message is not Text'');
        ret (LEAVE flow_error) }) }"

text \<open>
  The remaining statements evaluate an expression first. \<open>let\<close> keeps the value of the block so
  far, an assignment resets it to unit, an expression replaces it.
\<close>

definition run_simple ::
    "'h SolInterpreterRequest \<Rightarrow> 'h evaluator \<Rightarrow> SolIrStatement \<Rightarrow> SolInterpreterValue \<Rightarrow>
     ('h, statement_outcome) run" where
  "run_simple rq ev statement final = do {
     v \<leftarrow> (if st_kind statement = SOL_IR_STATEMENT_ASSIGNMENT
           \<and> st_operator statement \<noteq> SOL_TOKEN_EQUAL
         then compound_value rq ev statement else ev (st_expression statement));
     (if fst v \<noteq> FLOW_VALUE then ret (LEAVE v)
      else case st_kind statement of
          SOL_IR_STATEMENT_RETURN \<Rightarrow> ret (LEAVE (FLOW_RETURN, snd v))
        | SOL_IR_STATEMENT_LET \<Rightarrow> do {
            ok \<leftarrow> on_top False (bind_local rq (st_local statement) (snd v) (st_span statement));
            ret (if ok then GO_ON final else LEAVE flow_error) }
        | SOL_IR_STATEMENT_ASSIGNMENT \<Rightarrow> do {
            place \<leftarrow> assignment_place rq statement;
            charged \<leftarrow> (if st_operator statement = SOL_TOKEN_EQUAL
              then charge_place_update rq (Some place) (st_span statement) else ret True);
            ok \<leftarrow> (if charged then update_place rq place (snd v) (st_span statement) else ret False);
            ret (if ok then GO_ON VALUE_UNIT else LEAVE flow_error) }
        | _ \<Rightarrow> ret (GO_ON (snd v))) }"

definition run_statement ::
    "'h SolInterpreterRequest \<Rightarrow> 'h evaluator \<Rightarrow> nat \<Rightarrow> SolIrStatement \<Rightarrow> SolInterpreterValue \<Rightarrow>
     ('h, statement_outcome) run" where
  "run_statement rq ev fuel statement final =
     (case st_kind statement of
        SOL_IR_STATEMENT_PANIC \<Rightarrow> run_panic rq ev statement
      | SOL_IR_STATEMENT_UNREACHABLE \<Rightarrow> do {
          diagnostic rq SOL_INTERPRETER_REACHED_UNREACHABLE (st_span statement)
            ''execution reached an unreachable statement'';
          ret (LEAVE flow_error) }
      | SOL_IR_STATEMENT_REQUIRE \<Rightarrow> run_require rq ev statement
      | SOL_IR_STATEMENT_DECLARE \<Rightarrow> do {
          ok \<leftarrow> on_top False (declare_local rq (st_local statement) (st_span statement));
          ret (if ok then GO_ON final else LEAVE flow_error) }
      | SOL_IR_STATEMENT_MODIFY \<Rightarrow> do {
          body \<leftarrow> ev (st_expression statement);
          ret (if fst body \<noteq> FLOW_VALUE then LEAVE body else GO_ON VALUE_UNIT) }
      | SOL_IR_STATEMENT_BREAK \<Rightarrow> ret (LEAVE (flow_new FLOW_BREAK))
      | SOL_IR_STATEMENT_CONTINUE \<Rightarrow> ret (LEAVE (flow_new FLOW_CONTINUE))
      | SOL_IR_STATEMENT_LOOP \<Rightarrow> do {
          loop \<leftarrow> run_loop fuel rq ev statement;
          ret (if fst loop \<noteq> FLOW_VALUE then LEAVE loop else GO_ON VALUE_UNIT) }
      | SOL_IR_STATEMENT_WHILE \<Rightarrow> do {
          loop \<leftarrow> run_loop fuel rq ev statement;
          ret (if fst loop \<noteq> FLOW_VALUE then LEAVE loop else GO_ON VALUE_UNIT) }
      | _ \<Rightarrow> run_simple rq ev statement final)"

fun run_statements ::
    "'h SolInterpreterRequest \<Rightarrow> 'h evaluator \<Rightarrow> nat \<Rightarrow> slice \<Rightarrow> SolInterpreterValue \<Rightarrow> size_t list \<Rightarrow>
     ('h, Flow) run"
where
  "run_statements rq ev fuel statements final [] = ret (FLOW_VALUE, final)"
| "run_statements rq ev fuel statements final (i # is) = do {
     statement_id \<leftarrow> deref (ir_statement_ids (rq_ir rq)) (sl_offset statements + i);
     statement \<leftarrow> deref (ir_statements (rq_ir rq)) statement_id;
     outcome \<leftarrow> run_statement rq ev fuel statement final;
     (case outcome of
        LEAVE flow \<Rightarrow> ret flow
      | GO_ON final' \<Rightarrow> run_statements rq ev fuel statements final' is) }"

text \<open>Every way out of a block runs its cleanup.\<close>

definition evaluate_block ::
    "'h SolInterpreterRequest \<Rightarrow> 'h evaluator \<Rightarrow> nat \<Rightarrow> slice \<Rightarrow> slice \<Rightarrow> ('h, Flow) run" where
  "evaluate_block rq ev fuel statements cleanup = do {
     flow \<leftarrow> run_statements rq ev fuel statements VALUE_UNIT [0..<sl_count statements];
     cleanup_slice rq cleanup;
     ret flow }"

section \<open>Expressions\<close>

definition evaluate_string :: "'h SolInterpreterRequest \<Rightarrow> SolSpan \<Rightarrow> string \<Rightarrow> ('h, Flow) run" where
  "evaluate_string rq sp string = do {
     used \<leftarrow> gets it_used;
     (let tx = c_string string in
      if length tx > size_sub (li_text_bytes (rq_limits rq)) (li_text_bytes used) then do {
        diagnostic rq SOL_INTERPRETER_TEXT_LIMIT sp ''text byte limit exceeded''; ret flow_error }
      else do {
        ok \<leftarrow> new_value rq sp;
        memory \<leftarrow> (if ok \<and> length tx \<noteq> SIZE_MAX then allocate else ret False);
        (if \<not> memory then ret flow_error
         else do {
           modify (\<lambda>s. s\<lparr>it_used := (it_used s)\<lparr>li_text_bytes :=
             size_add (li_text_bytes (it_used s)) (length tx)\<rparr>\<rparr>);
           ret (FLOW_VALUE, VALUE_TEXT (Some tx)) }) }) }"

text \<open>The step charges of a place expression, one per projection that is not the last evaluation.\<close>

definition charge_place_read :: "'h SolInterpreterRequest \<Rightarrow> SolIrPlace \<Rightarrow> ('h, bool) run" where
  "charge_place_read rq place =
     (let projections = pl_projections place; count = sl_count projections;
          steps = (if pl_root_kind place = SOL_IR_PLACE_ROOT_TEMPORARY then size_sub count 1 else count) in
      for_each [0..<steps] (\<lambda>i. do {
        sp \<leftarrow> (if i + 1 < count then do {
            projection \<leftarrow> deref (ir_projections (rq_ir rq)) (sl_offset projections + count - i - 2);
            ret (pj_span projection) }
          else ret (pl_root_span place));
        consume_step rq sp ''step'' }))"

fun project_temporary ::
    "'h SolInterpreterRequest \<Rightarrow> slice \<Rightarrow> SolInterpreterValue \<Rightarrow> size_t list \<Rightarrow> ('h, Flow) run"
where
  "project_temporary rq projections v [] = ret (FLOW_VALUE, v)"
| "project_temporary rq projections v (i # is) = do {
     projection \<leftarrow> deref (ir_projections (rq_ir rq)) (sl_offset projections + i);
     (case place_field (rq_ir rq) v projection of
        Some ordinal \<Rightarrow>
          if field_at v ordinal = VALUE_INVALID then do {
            diagnostic rq SOL_INTERPRETER_TYPE_INVARIANT (pj_span projection)
              ''field projection base is invalid'';
            ret flow_error }
          else project_temporary rq projections (field_at v ordinal) is
      | None \<Rightarrow> do {
            diagnostic rq SOL_INTERPRETER_TYPE_INVARIANT (pj_span projection)
              ''field projection base is invalid'';
            ret flow_error }) }"

text \<open>Clear the \<open>bound\<close> flag of a local of the frame at position \<open>k\<close>.\<close>

definition unbind :: "nat \<Rightarrow> size_t \<Rightarrow> ('h, unit) run" where
  "unbind k local = modify (\<lambda>s.
     (let f = it_frames s ! k in
      s\<lparr>it_frames := (it_frames s)[k := f\<lparr>fr_bound := (fr_bound f)[local := False]\<rparr>]\<rparr>))"

definition evaluate_place ::
    "'h SolInterpreterRequest \<Rightarrow> 'h evaluator \<Rightarrow> SolIrExpression \<Rightarrow> size_t \<Rightarrow> ('h, Flow) run" where
  "evaluate_place rq ev expression place_id = do {
     place \<leftarrow> deref (ir_places (rq_ir rq)) place_id;
     charged \<leftarrow> charge_place_read rq place;
     (let count = sl_count (pl_projections place) in
      if \<not> charged then ret flow_error
      else if pl_root_kind place = SOL_IR_PLACE_ROOT_TEMPORARY then do {
        output \<leftarrow> ev (pl_temporary place);
        (if fst output \<noteq> FLOW_VALUE then ret output
         else project_temporary rq (pl_projections place) (snd output) [0..<count]) }
      else do {
        slot \<leftarrow> (if count = 0 then local_slot rq place else local_place_slot rq place);
        (case slot of
           None \<Rightarrow> do {
             diagnostic rq SOL_INTERPRETER_INTERNAL_INVARIANT (pl_root_span place)
               ''local is not bound in the active frame'';
             ret flow_error }
         | Some (k, path, v) \<Rightarrow>
             if ex_local_use expression = SOL_IR_LOCAL_USE_MOVE then do {
               store_slot k (pl_local place) path VALUE_INVALID;
               (if count = 0 then unbind k (pl_local place) else ret ());
               ret (FLOW_VALUE, v) }
             else do {
               copy \<leftarrow> clone_runtime rq (pl_root_span place) v;
               ret (case copy of None \<Rightarrow> flow_error | Some w \<Rightarrow> (FLOW_VALUE, w)) }) }) }"

definition evaluate_definition :: "'h SolInterpreterRequest \<Rightarrow> SolSpan \<Rightarrow> size_t \<Rightarrow> ('h, Flow) run" where
  "evaluate_definition rq sp definition =
     (let ir = rq_ir rq in
      if definition \<ge> length (ir_definitions ir)
        \<or> def_kind (ir_definitions ir ! definition) \<noteq> SOL_IR_DEFINITION_FUNCTION
        \<or> def_callable (ir_definitions ir ! definition) \<ge> length (ir_callables ir) then do {
        diagnostic rq SOL_INTERPRETER_TYPE_INVARIANT sp ''definition is not an executable function'';
        ret flow_error }
      else
        (let callable = def_callable (ir_definitions ir ! definition);
             c = ir_callables ir ! callable in
         if ca_kind c \<noteq> SOL_IR_CALLABLE_FUNCTION \<or> ca_owner c \<noteq> definition
           \<or> sl_count (ca_generics c) \<noteq> 0 \<or> sl_count (ca_effect_parameters c) \<noteq> 0 then do {
           diagnostic rq SOL_INTERPRETER_INVALID_IR sp
             ''generic functions cannot become runtime function values'';
           ret flow_error }
         else do {
           ok \<leftarrow> new_value rq sp;
           ret (if ok then (FLOW_VALUE, VALUE_CALLABLE SOL_VALUE_FUNCTION callable None)
             else flow_error) }))"

definition evaluate_bound_operation ::
    "'h SolInterpreterRequest \<Rightarrow> 'h evaluator \<Rightarrow> SolSpan \<Rightarrow> size_t \<Rightarrow> size_t \<Rightarrow> ('h, Flow) run" where
  "evaluate_bound_operation rq ev sp receiver_id callable = do {
     receiver \<leftarrow> ev receiver_id;
     (if fst receiver \<noteq> FLOW_VALUE then ret receiver
      else case snd receiver of
          VALUE_CAPABILITY definition root source \<Rightarrow>
            if capability_value_valid (rq_ir rq) (snd receiver) 0
              \<and> callable < length (ir_callables (rq_ir rq))
              \<and> ca_kind (ir_callables (rq_ir rq) ! callable) = SOL_IR_CALLABLE_CAPABILITY
              \<and> ca_owner (ir_callables (rq_ir rq) ! callable) = definition then do {
              ok \<leftarrow> new_value rq sp;
              memory \<leftarrow> (if ok then allocate else ret False);
              ret (if memory then (FLOW_VALUE, VALUE_CALLABLE SOL_VALUE_BOUND_OPERATION callable
                (Some (snd receiver))) else flow_error) }
            else do {
              diagnostic rq SOL_INTERPRETER_TYPE_INVARIANT sp
                ''bound operation receiver is not a capability'';
              ret flow_error }
        | _ \<Rightarrow> do {
              diagnostic rq SOL_INTERPRETER_TYPE_INVARIANT sp
                ''bound operation receiver is not a capability'';
              ret flow_error }) }"

definition evaluate_record ::
    "'h SolInterpreterRequest \<Rightarrow> 'h evaluator \<Rightarrow> SolSpan \<Rightarrow> size_t \<Rightarrow> slice \<Rightarrow> ('h, Flow) run" where
  "evaluate_record rq ev sp definition operands = do {
     memory \<leftarrow> (if sl_count operands = 0 then ret True else allocate);
     (if \<not> memory then ret flow_error
      else do {
        evaluated \<leftarrow> evaluate_operands rq ev operands [] [0..<sl_count operands];
        (case evaluated of
           Inl flow \<Rightarrow> ret flow
         | Inr elems \<Rightarrow> do {
             ok \<leftarrow> new_value rq sp;
             (if \<not> ok then ret flow_error
              else do {
                d \<leftarrow> deref (ir_definitions (rq_ir rq)) definition;
                (if def_kind d \<noteq> SOL_IR_DEFINITION_CAPABILITY
                 then ret (FLOW_VALUE, VALUE_AGGREGATE SOL_VALUE_RECORD definition SOL_IR_NONE elems)
                 else case elems of
                     [VALUE_CAPABILITY d' root source] \<Rightarrow> do {
                       memory \<leftarrow> allocate;
                       ret (if memory then (FLOW_VALUE, VALUE_CAPABILITY definition root (Some (hd elems)))
                         else flow_error) }
                   | _ \<Rightarrow> do {
                       diagnostic rq SOL_INTERPRETER_TYPE_INVARIANT sp
                         ''capability wrapper source is invalid'';
                       ret flow_error }) }) }) }) }"

definition evaluate_tuple ::
    "'h SolInterpreterRequest \<Rightarrow> 'h evaluator \<Rightarrow> SolSpan \<Rightarrow> slice \<Rightarrow> ('h, Flow) run" where
  "evaluate_tuple rq ev sp operands = do {
     memory \<leftarrow> allocate;
     (if \<not> memory then ret flow_error
      else do {
        evaluated \<leftarrow> evaluate_operands rq ev operands [] [0..<sl_count operands];
        (case evaluated of
           Inl flow \<Rightarrow> ret flow
         | Inr elems \<Rightarrow> do {
             ok \<leftarrow> new_value rq sp;
             ret (if ok then (FLOW_VALUE, VALUE_AGGREGATE SOL_VALUE_TUPLE SOL_IR_NONE SOL_IR_NONE elems)
               else flow_error) }) }) }"

text \<open>Bind the leaves of a matched pattern; a binding without a leaf passes a null value.\<close>

definition bind_leaves ::
    "'h SolInterpreterRequest \<Rightarrow> SolIrArm \<Rightarrow> SolInterpreterValue list \<Rightarrow> ('h, bool) run" where
  "bind_leaves rq arm leaves =
     for_each [0..<sl_count (ar_bindings arm)] (\<lambda>i. do {
       local \<leftarrow> deref (ir_roots (rq_ir rq)) (sl_offset (ar_bindings arm) + i);
       on_top False (bind_local rq local (if i < length leaves then leaves ! i else VALUE_INVALID)
         (ar_span arm)) })"

fun match_arms ::
    "'h SolInterpreterRequest \<Rightarrow> 'h evaluator \<Rightarrow> SolSpan \<Rightarrow> slice \<Rightarrow> SolInterpreterValue \<Rightarrow> size_t list \<Rightarrow>
     ('h, Flow) run"
where
  "match_arms rq ev sp arms scrutinee [] = do {
     diagnostic rq SOL_INTERPRETER_NO_MATCH sp ''match has no runtime arm''; ret flow_error }"
| "match_arms rq ev sp arms scrutinee (i # is) = do {
     arm_id \<leftarrow> deref (ir_arm_ids (rq_ir rq)) (sl_offset arms + i);
     arm \<leftarrow> deref (ir_arms (rq_ir rq)) arm_id;
     memory \<leftarrow> (if sl_count (ar_bindings arm) = 0 then ret True else allocate);
     (if \<not> memory then ret flow_error
      else do {
        (matched, leaves) \<leftarrow> match_pattern rq (ar_pattern arm) scrutinee (sl_count (ar_bindings arm));
        (if matched < 0 then ret flow_error
         else if matched = 0 then match_arms rq ev sp arms scrutinee is
         else do {
           bound \<leftarrow> bind_leaves rq arm leaves;
           (if \<not> bound then do { cleanup_arm_slice rq (ar_cleanup arm); ret flow_error }
            else do {
              guard \<leftarrow> (if ar_guard arm = SOL_IR_NONE then ret (FLOW_VALUE, VALUE_BOOL True)
                else ev (ar_guard arm));
              (if fst guard \<noteq> FLOW_VALUE then do { cleanup_arm_slice rq (ar_cleanup arm); ret guard }
               else case snd guard of
                   VALUE_BOOL True \<Rightarrow> do {
                     v \<leftarrow> ev (ar_body arm);
                     cleanup_arm_slice rq (ar_cleanup arm);
                     ret v }
                 | VALUE_BOOL False \<Rightarrow> do {
                     cleanup_arm_slice rq (ar_cleanup arm);
                     match_arms rq ev sp arms scrutinee is }
                 | _ \<Rightarrow> do {
                     cleanup_arm_slice rq (ar_cleanup arm);
                     diagnostic rq SOL_INTERPRETER_TYPE_INVARIANT (ar_span arm)
                       ''match guard is not Bool'';
                     ret flow_error }) }) }) }) }"

definition evaluate_propagate ::
    "'h SolInterpreterRequest \<Rightarrow> 'h evaluator \<Rightarrow> SolSpan \<Rightarrow> SolIrPropagationKind \<Rightarrow> size_t \<Rightarrow> ('h, Flow) run" where
  "evaluate_propagate rq ev sp kind operand_id = do {
     operand \<leftarrow> ev operand_id;
     (if fst operand \<noteq> FLOW_VALUE then ret operand
      else
        (let invalid = do {
           diagnostic rq SOL_INTERPRETER_TYPE_INVARIANT sp ''propagation operand is invalid'';
           ret flow_error } in
         case snd operand of
           VALUE_SUM sum_kind has_value is_error payload \<Rightarrow>
             if (sum_kind = SOL_VALUE_OPTION) \<noteq> (kind = SOL_IR_PROPAGATE_OPTION) then invalid
             else if \<not> has_value \<or> is_error then ret (FLOW_RETURN, snd operand)
             else (case payload of
                 Some v \<Rightarrow> ret (FLOW_VALUE, v)
               | None \<Rightarrow> do { trap TRAP_UNDEFINED; ret flow_error })
         | _ \<Rightarrow> invalid)) }"

definition evaluate_handle ::
    "'h SolInterpreterRequest \<Rightarrow> 'h evaluator \<Rightarrow> SolSpan \<Rightarrow> SolIrHandler \<Rightarrow> ('h, Flow) run" where
  "evaluate_handle rq ev sp h = do {
     authority \<leftarrow> ev (ha_authority h);
     (if fst authority \<noteq> FLOW_VALUE then ret authority
      else do {
        provider \<leftarrow> ev (ha_provider h);
        (if fst provider \<noteq> FLOW_VALUE then ret provider
         else
           (let invalid = do {
              diagnostic rq SOL_INTERPRETER_TYPE_INVARIANT sp
                ''handler authority/provider domains are invalid'';
              ret flow_error } in
            case (snd authority, snd provider) of
              (VALUE_CAPABILITY d root _, VALUE_CAPABILITY d' _ _) \<Rightarrow>
                if \<not> capability_value_valid (rq_ir rq) (snd authority) 0
                  \<or> \<not> capability_value_valid (rq_ir rq) (snd provider) 0
                  \<or> ha_source h \<ge> length (ir_callables (rq_ir rq))
                  \<or> ha_provider_callable h \<ge> length (ir_callables (rq_ir rq))
                  \<or> ca_owner (ir_callables (rq_ir rq) ! ha_source h) \<noteq> d
                  \<or> ca_owner (ir_callables (rq_ir rq) ! ha_provider_callable h) \<noteq> d' then invalid
                else do {
                  parents \<leftarrow> gets it_handlers;
                  modify (\<lambda>s. s\<lparr>it_handlers := \<lparr> hd_source = ha_source h,
                    hd_provider_callable = ha_provider_callable h,
                    hd_effect_name = ha_effect_name h, hd_root = root,
                    hd_provider = snd provider \<rparr> # parents\<rparr>);
                  body \<leftarrow> ev (ha_body h);
                  modify (\<lambda>s. s\<lparr>it_handlers := parents\<rparr>);
                  ret body }
            | _ \<Rightarrow> invalid)) }) }"

text \<open>
  \<open>result\<close>, \<open>old(...)\<close> and the refinement's \<open>self\<close>: a clone of what the contract frame holds, or
  an error with the given message unless the clone has already reported one.
\<close>

definition clone_available ::
    "'h SolInterpreterRequest \<Rightarrow> SolSpan \<Rightarrow> SolInterpreterValue option \<Rightarrow> string \<Rightarrow> ('h, Flow) run" where
  "clone_available rq sp source message = do {
     copy \<leftarrow> (case source of None \<Rightarrow> ret None | Some v \<Rightarrow> clone_runtime rq sp v);
     (case copy of
        Some w \<Rightarrow> ret (FLOW_VALUE, w)
      | None \<Rightarrow> do { diagnostic rq SOL_INTERPRETER_INVALID_IR sp message; ret flow_error }) }"

definition contract_result_of :: "Frame list \<Rightarrow> SolInterpreterValue option" where
  "contract_result_of frames = (case frames of
      [] \<Rightarrow> None
    | f # _ \<Rightarrow> if fr_obligation f = None then None else fr_result f)"

definition snapshot_of :: "SolIr \<Rightarrow> Frame list \<Rightarrow> size_t \<Rightarrow> SolInterpreterValue option" where
  "snapshot_of ir frames snapshot = (case frames of
      [] \<Rightarrow> None
    | f # _ \<Rightarrow>
        (case fr_obligation f of
           None \<Rightarrow> None
         | Some obligation \<Rightarrow>
             if snapshot < length (ir_snapshots ir) \<and> snapshot < length (fr_snapshot_bound f)
               \<and> fr_snapshot_bound f ! snapshot
               \<and> sn_obligation (ir_snapshots ir ! snapshot) = ob_id obligation
             then Some (fr_snapshots f ! snapshot) else None))"

definition evaluate_kind ::
    "'h SolInterpreterRequest \<Rightarrow> 'h evaluator \<Rightarrow> nat \<Rightarrow> SolIrExpression \<Rightarrow> ('h, Flow) run" where
  "evaluate_kind rq ev fuel expression =
     (let sp = ex_span expression;
          literal = (\<lambda>v. do { ok \<leftarrow> new_value rq sp; ret (if ok then (FLOW_VALUE, v) else flow_error) }) in
      case ex_kind expression of
        SOL_IR_EXPR_INTEGER w \<Rightarrow> literal (VALUE_INT64 w)
      | SOL_IR_EXPR_BOOL b \<Rightarrow> literal (VALUE_BOOL b)
      | SOL_IR_EXPR_STRING string \<Rightarrow> evaluate_string rq sp string
      | SOL_IR_EXPR_UNIT \<Rightarrow> literal VALUE_UNIT
      | SOL_IR_EXPR_PLACE place \<Rightarrow> evaluate_place rq ev expression place
      | SOL_IR_EXPR_DEFINITION definition \<Rightarrow> evaluate_definition rq sp definition
      | SOL_IR_EXPR_BOUND_OPERATION receiver callable \<Rightarrow>
          evaluate_bound_operation rq ev sp receiver callable
      | SOL_IR_EXPR_UNARY op operand \<Rightarrow> evaluate_unary rq ev sp op operand
      | SOL_IR_EXPR_BINARY left op right \<Rightarrow> evaluate_binary rq ev sp left op right
      | SOL_IR_EXPR_CALL call \<Rightarrow> evaluate_call rq ev expression call
      | SOL_IR_EXPR_RECORD definition operands \<Rightarrow> evaluate_record rq ev sp definition operands
      | SOL_IR_EXPR_TUPLE operands \<Rightarrow> evaluate_tuple rq ev sp operands
      | SOL_IR_EXPR_VARIANT variant \<Rightarrow> do {
          ok \<leftarrow> new_value rq sp;
          (if \<not> ok then ret flow_error
           else do {
             w \<leftarrow> deref (ir_variants (rq_ir rq)) variant;
             ret (FLOW_VALUE, VALUE_AGGREGATE SOL_VALUE_ENUM (va_owner w) variant []) }) }
      | SOL_IR_EXPR_IF condition then_branch else_branch \<Rightarrow> do {
          c \<leftarrow> ev condition;
          (if fst c \<noteq> FLOW_VALUE then ret c
           else case snd c of
               VALUE_BOOL choice \<Rightarrow> ev (if choice then then_branch else else_branch)
             | _ \<Rightarrow> do {
                 diagnostic rq SOL_INTERPRETER_TYPE_INVARIANT sp ''if condition is not Bool'';
                 ret flow_error }) }
      | SOL_IR_EXPR_MATCH scrutinee arms \<Rightarrow> do {
          v \<leftarrow> ev scrutinee;
          (if fst v \<noteq> FLOW_VALUE then ret v
           else match_arms rq ev sp arms (snd v) [0..<sl_count arms]) }
      | SOL_IR_EXPR_BLOCK statements cleanup \<Rightarrow> evaluate_block rq ev fuel statements cleanup
      | SOL_IR_EXPR_PROPAGATE kind operand \<Rightarrow> evaluate_propagate rq ev sp kind operand
      | SOL_IR_EXPR_HANDLE h \<Rightarrow> evaluate_handle rq ev sp h
      | SOL_IR_EXPR_RESULT \<Rightarrow> do {
          frames \<leftarrow> gets it_frames;
          clone_available rq sp (contract_result_of frames) ''result is unavailable in this contract'' }
      | SOL_IR_EXPR_SNAPSHOT_READ snapshot \<Rightarrow> do {
          frames \<leftarrow> gets it_frames;
          clone_available rq sp (snapshot_of (rq_ir rq) frames snapshot)
            ''old snapshot is unavailable in this contract'' }
      | SOL_IR_EXPR_REFINEMENT_SELF \<Rightarrow> do {
          frames \<leftarrow> gets it_frames;
          clone_available rq sp (case frames of [] \<Rightarrow> None | f # _ \<Rightarrow> fr_self f)
            ''self is unavailable outside a refinement predicate'' }
      | SOL_IR_EXPR_COMPILE_TIME_HEAD \<Rightarrow> do {
          diagnostic rq SOL_INTERPRETER_INVALID_IR sp
            ''contract-only or compile-time expression reached an ordinary body'';
          ret flow_error })"

primrec evaluate :: "nat \<Rightarrow> 'h SolInterpreterRequest \<Rightarrow> 'h evaluator" where
  "evaluate 0 rq expression_id = do { trap TRAP_FUEL; ret flow_error }"
| "evaluate (Suc n) rq expression_id =
     (if expression_id \<ge> length (ir_expressions (rq_ir rq)) then do {
        diagnostic rq SOL_INTERPRETER_INTERNAL_INVARIANT no_span ''expression is out of range'';
        ret flow_error }
      else
        (let expression = ir_expressions (rq_ir rq) ! expression_id in
         do {
           ok \<leftarrow> consume_step rq (ex_span expression) ''step'';
           (if \<not> ok then ret flow_error
            else evaluate_kind rq (evaluate n rq) (Suc n) expression) }))"

section \<open>Entry\<close>

definition default_limits :: SolInterpreterLimits where
  "default_limits = \<lparr> li_steps = 100000, li_call_depth = 128, li_value_nodes = 100000,
     li_text_bytes = 1024 * 1024, li_host_calls = 10000 \<rparr>"

definition zero_limits :: SolInterpreterLimits where
  "zero_limits = \<lparr> li_steps = 0, li_call_depth = 0, li_value_nodes = 0, li_text_bytes = 0,
     li_host_calls = 0 \<rparr>"

definition normalized :: "'h SolInterpreterRequest \<Rightarrow> 'h SolInterpreterRequest" where
  "normalized rq = (if rq_limits rq = zero_limits then rq\<lparr>rq_limits := default_limits\<rparr> else rq)"

definition empty_diagnostic :: SolInterpreterDiagnostic where
  "empty_diagnostic = \<lparr> id_code = SOL_INTERPRETER_OK, id_span = no_span, id_file = [],
     id_file_offset = 0, id_message = [] \<rparr>"

text \<open>The state a run starts in: a cleared result, no frames and no handlers.\<close>

definition initial_state :: "(nat \<Rightarrow> bool) \<Rightarrow> 'h \<Rightarrow> 'h interp" where
  "initial_state fails host = \<lparr> alloc_fails = fails, alloc_calls = 0,
     it_diagnostic = empty_diagnostic, it_used = zero_limits, it_cleanup_actions = 0,
     it_frames = [], it_handlers = [], it_depth = 0, it_observed = [], it_host = host,
     it_trap = None \<rparr>"

text \<open>
  The request checks of \<open>sol_interpret_impl\<close>: the callable to run, or a diagnostic.
  \<open>sol_ir_validate\<close> of \<open>src/src/ir.c\<close> is the parameter \<open>ir_valid\<close>; \<open>None\<close> skips it.
\<close>

definition select_callable ::
    "(SolIr \<Rightarrow> bool) option \<Rightarrow> 'h SolInterpreterRequest \<Rightarrow> ('h, size_t option) run" where
  "select_callable ir_valid rq =
     (let ir = rq_ir rq;
          refuse = (\<lambda>code sp message. do { diagnostic rq code sp message; ret None });
          selected_definition = (rq_callable rq = SOL_IR_NONE);
          callable = (if selected_definition then def_callable (ir_definitions ir ! rq_definition rq)
                      else rq_callable rq);
          expected = (if rq_test_entry rq then SOL_IR_DEFINITION_TEST else SOL_IR_DEFINITION_FUNCTION) in
      if (case ir_valid of None \<Rightarrow> False | Some valid \<Rightarrow> \<not> valid ir) then
        refuse SOL_INTERPRETER_INVALID_IR no_span ''interpreter input IR failed validation''
      else if rq_contracts rq = SOL_INTERPRETER_CONTRACTS_OTHER then
        refuse SOL_INTERPRETER_UNSUPPORTED_CONTRACT_POLICY no_span ''unknown runtime contract policy''
      else if selected_definition \<and> rq_definition rq \<ge> length (ir_definitions ir) then
        refuse SOL_INTERPRETER_INVALID_REQUEST no_span
          ''request selects no valid callable or definition''
      else if callable \<ge> length (ir_callables ir) \<or> counted_missing (rq_arguments rq)
        \<or> counted_missing (rq_type_arguments rq) \<or> counted_missing (rq_evidence rq) then
        refuse SOL_INTERPRETER_INVALID_REQUEST no_span
          ''request argument or callable domain is malformed''
      else if selected_definition
        \<and> (def_kind (ir_definitions ir ! rq_definition rq) \<noteq> expected
          \<or> ca_owner (ir_callables ir ! callable) \<noteq> rq_definition rq) then
        refuse SOL_INTERPRETER_INVALID_REQUEST no_span
          ''definition does not own the requested entry kind''
      else if ca_kind (ir_callables ir ! callable)
        \<noteq> (if rq_test_entry rq then SOL_IR_CALLABLE_TEST else SOL_IR_CALLABLE_FUNCTION) then
        refuse SOL_INTERPRETER_INVALID_REQUEST no_span (if rq_test_entry rq
          then ''test request must select a test callable''
          else ''request must select a free-function callable'')
      else
        (let entry = ir_callables ir ! callable in do {
           shared \<leftarrow> for_each [0..<sl_count (ca_parameters entry)] (\<lambda>i. do {
             local \<leftarrow> deref (ir_roots ir) (sl_offset (ca_parameters entry) + i);
             metadata \<leftarrow> deref (ir_locals ir) local;
             ret (lo_access metadata \<noteq> SOL_ACCESS_EXCLUSIVE) });
           (if shared then ret (Some callable)
            else refuse SOL_INTERPRETER_INVALID_REQUEST (ca_span entry)
              ''top-level exclusive parameters require a mutable argument ABI'') }))"

text \<open>The value on success, \<open>None\<close> where the C function returns false.\<close>

definition sol_interpret_impl ::
    "nat \<Rightarrow> (SolIr \<Rightarrow> bool) option \<Rightarrow> 'h SolInterpreterRequest \<Rightarrow> ('h, SolInterpreterValue option) run" where
  "sol_interpret_impl fuel ir_valid request =
     (let rq = normalized request in do {
        selected \<leftarrow> select_callable ir_valid rq;
        (case selected of
           None \<Rightarrow> ret None
         | Some callable \<Rightarrow> do {
             (flow, _, _) \<leftarrow> invoke rq (evaluate fuel rq) callable None
               (counted_items (rq_arguments rq)) (rq_type_arguments rq) (rq_evidence rq) False False
               (ca_span (ir_callables (rq_ir rq) ! callable));
             (if fst flow = FLOW_ERROR then do {
                diagnostic rq SOL_INTERPRETER_INTERNAL_INVARIANT
                  (ca_span (ir_callables (rq_ir rq) ! callable))
                  ''execution failed without a more specific diagnostic'';
                ret None }
              else ret (Some (snd flow))) }) })"

text \<open>Fuel that never runs out: one more than the step limit.\<close>

definition enough_fuel :: "'h SolInterpreterRequest \<Rightarrow> nat" where
  "enough_fuel rq = Suc (li_steps (rq_limits (normalized rq)))"

definition sol_interpret ::
    "(SolIr \<Rightarrow> bool) \<Rightarrow> 'h SolInterpreterRequest \<Rightarrow> ('h, SolInterpreterValue option) run" where
  "sol_interpret ir_valid rq = sol_interpret_impl (enough_fuel rq) (Some ir_valid) rq"

end
