(* ===== verification/Sol_Machine.thy ===== *)
theory Sol_Machine
  imports Sol_Eval
begin

text \<open>
  The interface between the machine's primitive operations and everything the evaluator builds
  from them: the locale \<open>machine\<close> assumes that a preorder on states relates the state before
  and after each primitive (diagnostics, traps, allocation, the limit counters, frames,
  handlers, host state and call depth) and derives it for every operation up to
  \<open>evaluate_kind\<close>. Facts about whole runs are interpretations of it: resource bounds and
  sticky diagnostics in \<open>Sol_Limits\<close>, termination in \<open>Sol_Termination\<close>.
\<close>

section \<open>Rules for the case distinctions of the evaluator\<close>

context io_preorder
begin

lemma io_list:
  "(x = [] \<Longrightarrow> state_io_rel R m) \<Longrightarrow> (\<And>y ys. x = y # ys \<Longrightarrow> state_io_rel R (f y ys)) \<Longrightarrow>
   state_io_rel R (case x of [] \<Rightarrow> m | y # ys \<Rightarrow> f y ys)"
  by (simp split: list.split)

lemma io_sum:
  "(\<And>y. x = Inl y \<Longrightarrow> state_io_rel R (f y)) \<Longrightarrow> (\<And>y. x = Inr y \<Longrightarrow> state_io_rel R (g y)) \<Longrightarrow>
   state_io_rel R (case x of Inl y \<Rightarrow> f y | Inr y \<Rightarrow> g y)"
  by (simp split: sum.split)

lemma io_bool:
  "(x \<Longrightarrow> state_io_rel R m) \<Longrightarrow> (\<not> x \<Longrightarrow> state_io_rel R n) \<Longrightarrow>
   state_io_rel R (case x of True \<Rightarrow> m | False \<Rightarrow> n)"
  by (simp split: bool.split)

lemma io_flow:
  "state_io_rel R a \<Longrightarrow> state_io_rel R b \<Longrightarrow> state_io_rel R c \<Longrightarrow> state_io_rel R d \<Longrightarrow>
   state_io_rel R e \<Longrightarrow> state_io_rel R (case x of FLOW_VALUE \<Rightarrow> a | FLOW_RETURN \<Rightarrow> b
     | FLOW_BREAK \<Rightarrow> c | FLOW_CONTINUE \<Rightarrow> d | FLOW_ERROR \<Rightarrow> e)"
  by (simp split: FlowKind.split)

lemma io_value:
  "state_io_rel R f1 \<Longrightarrow> (\<And>w. state_io_rel R (f2 w)) \<Longrightarrow> (\<And>b. state_io_rel R (f3 b)) \<Longrightarrow>
   (\<And>t. state_io_rel R (f4 t)) \<Longrightarrow> state_io_rel R f5 \<Longrightarrow>
   (\<And>k d w vs. state_io_rel R (f6 k d w vs)) \<Longrightarrow> (\<And>k h e p. state_io_rel R (f7 k h e p)) \<Longrightarrow>
   (\<And>d p. state_io_rel R (f8 d p)) \<Longrightarrow> (\<And>d r p. state_io_rel R (f9 d r p)) \<Longrightarrow>
   (\<And>k c p. state_io_rel R (f10 k c p)) \<Longrightarrow>
   state_io_rel R (case v of VALUE_INVALID \<Rightarrow> f1 | VALUE_INT64 w \<Rightarrow> f2 w | VALUE_BOOL b \<Rightarrow> f3 b
     | VALUE_TEXT t \<Rightarrow> f4 t | VALUE_UNIT \<Rightarrow> f5 | VALUE_AGGREGATE k d w vs \<Rightarrow> f6 k d w vs
     | VALUE_SUM k h e p \<Rightarrow> f7 k h e p | VALUE_DISTINCT d p \<Rightarrow> f8 d p
     | VALUE_CAPABILITY d r p \<Rightarrow> f9 d r p | VALUE_CALLABLE k c p \<Rightarrow> f10 k c p)"
  by (simp split: SolInterpreterValue.split)

lemma io_callable_kind:
  "state_io_rel R a \<Longrightarrow> state_io_rel R b \<Longrightarrow>
   state_io_rel R (case x of SOL_VALUE_FUNCTION \<Rightarrow> a | SOL_VALUE_BOUND_OPERATION \<Rightarrow> b)"
  by (simp split: SolCallableValueKind.split)

lemma io_arith:
  "(\<And>v. state_io_rel R (a v)) \<Longrightarrow> (\<And>v. state_io_rel R (b v)) \<Longrightarrow> state_io_rel R c \<Longrightarrow>
   state_io_rel R d \<Longrightarrow>
   state_io_rel R (case x of ARITH_INTEGER v \<Rightarrow> a v | ARITH_BOOLEAN v \<Rightarrow> b v
     | ARITH_OVERFLOW \<Rightarrow> c | ARITH_DIVISION_BY_ZERO \<Rightarrow> d)"
  by (simp split: arith_outcome.split)

lemma io_outcome:
  "(\<And>v. state_io_rel R (a v)) \<Longrightarrow> (\<And>f. state_io_rel R (b f)) \<Longrightarrow>
   state_io_rel R (case x of GO_ON v \<Rightarrow> a v | LEAVE f \<Rightarrow> b f)"
  by (simp split: statement_outcome.split)

lemma io_pattern_kind:
  "state_io_rel R a \<Longrightarrow> state_io_rel R b \<Longrightarrow> state_io_rel R c \<Longrightarrow> state_io_rel R d \<Longrightarrow>
   state_io_rel R e \<Longrightarrow> state_io_rel R f \<Longrightarrow>
   state_io_rel R (case x of SOL_IR_PATTERN_WILDCARD \<Rightarrow> a | SOL_IR_PATTERN_BOOL \<Rightarrow> b
     | SOL_IR_PATTERN_BINDING \<Rightarrow> c | SOL_IR_PATTERN_VARIANT \<Rightarrow> d | SOL_IR_PATTERN_RECORD \<Rightarrow> e
     | SOL_IR_PATTERN_TUPLE \<Rightarrow> f)"
  by (simp split: SolIrPatternKind.split)

lemma io_for_each:
  "(\<And>x. state_io_rel R (body x)) \<Longrightarrow> state_io_rel R (for_each xs body)"
  by (induction xs) (auto intro!: io_ret io_bind)

lemmas io_cases = io_rules io_list io_sum io_bool io_flow io_value io_callable_kind io_arith
  io_outcome io_pattern_kind io_for_each

end

section \<open>Operations that only allocate\<close>

locale heap_machine = io_preorder R for R :: "'h interp \<Rightarrow> 'h interp \<Rightarrow> bool" +
  assumes allocate_io: "state_io_rel R allocate"
begin

lemma shape_pointer_add_io: "state_io_rel R (shape_pointer_add ps)"
  unfolding shape_pointer_add_def by (intro io_cases allocate_io)

lemma value_shape_io:
  "state_io_rel R (value_shape_valid_recursive v depth owned)"
  "state_io_rel R (value_shape_fields vs depth owned)"
  "state_io_rel R (value_shape_pointer p depth owned)"
proof (induction v depth owned and vs depth owned and p depth owned
    rule: value_shape_valid_recursive_value_shape_fields_value_shape_pointer.induct)
  case (1 v depth owned)
  then show ?case
    unfolding value_shape_valid_recursive.simps [of v]
    by (cases v) (auto intro!: io_cases shape_pointer_add_io
        split: SolSumKind.split SolCallableValueKind.split)
qed (auto intro!: io_cases shape_pointer_add_io)

lemma value_shape_valid_io: "state_io_rel R (value_shape_valid v)"
  unfolding value_shape_valid_def by (intro io_cases value_shape_io)

lemma clone_io:
  "state_io_rel R (sol_interpreter_value_clone v)"
  "state_io_rel R (clone_fields vs)"
  "state_io_rel R (clone_pointer p)"
proof (induction v and vs and p rule: sol_interpreter_value_clone_clone_fields_clone_pointer.induct)
  case (1 v)
  then show ?case
    unfolding sol_interpreter_value_clone.simps [of v]
    by (intro io_bind value_shape_valid_io; cases v)
      (auto intro!: io_rules allocate_io split: SolCallableValueKind.split option.split)
qed (auto intro!: io_cases allocate_io)

end

section \<open>The machine interface\<close>

lemma host_step_io:
  "(\<And>s. R s (s\<lparr>it_host := snd (f (it_host s))\<rparr>)) \<Longrightarrow> state_io_rel R (host_step f)"
  by (auto simp: state_io_rel_def host_step_def case_prod_beta)

locale machine = heap_machine R for R :: "'h interp \<Rightarrow> 'h interp \<Rightarrow> bool" +
  fixes rq :: "'h SolInterpreterRequest"
  assumes trap_io: "t \<noteq> TRAP_FUEL \<Longrightarrow> state_io_rel R (trap t)"
    and diagnostic_io: "code \<noteq> SOL_INTERPRETER_OK \<Longrightarrow> state_io_rel R (diagnostic rq code sp message)"
    and consume_step_io: "state_io_rel R (consume_step rq sp name)"
    and new_value_io: "state_io_rel R (new_value rq sp)"
    and host_call_io: "state_io_rel R (consume rq li_host_calls li_host_calls_update
      SOL_INTERPRETER_HOST_CALL_LIMIT sp ''host call'')"
    and reserve_clone_io: "state_io_rel R (reserve_clone rq sp v)"
    and evaluate_string_io: "state_io_rel R (evaluate_string rq sp tx)"
    and cleanup_action_io: "state_io_rel R (cleanup_action rq local)"
    and enter_call_io: "depth < li_call_depth (rq_limits rq) \<Longrightarrow> state_io_rel R (enter_call depth)"
    and leave_call: "R s (s\<lparr>it_depth := it_depth s - 1\<rparr>)"
    and set_frames: "R s (s\<lparr>it_frames := frames\<rparr>)"
    and set_handlers: "R s (s\<lparr>it_handlers := handlers\<rparr>)"
    and host_allows_io: "rq_host_allows rq = Some allows \<Longrightarrow> state_io_rel R (host_step (allows c r))"
    and host_operation_io: "rq_host_operation rq = Some operation \<Longrightarrow>
      state_io_rel R (host_step (operation c r source arguments))"
begin

subsection \<open>Accesses, values and frames\<close>

lemma deref_io: "state_io_rel R (deref xs i)"
  unfolding deref_def by (intro io_cases trap_io) simp

lemma defined_io: "state_io_rel R (defined r d)"
  unfolding defined_def by (intro io_cases trap_io) simp_all

lemma clone_runtime_io: "state_io_rel R (clone_runtime rq sp v)"
  unfolding clone_runtime_def by (intro io_cases reserve_clone_io clone_io diagnostic_io) simp

lemma push_order_io: "state_io_rel R (push_order ir local f)"
  unfolding push_order_def by (intro io_cases trap_io) simp

lemma bind_local_io: "state_io_rel R (bind_local rq local v sp f)"
  unfolding bind_local_def
  by (intro io_cases deref_io diagnostic_io clone_runtime_io push_order_io) simp

lemma declare_local_io: "state_io_rel R (declare_local rq local sp f)"
  unfolding declare_local_def by (intro io_cases deref_io diagnostic_io push_order_io) simp

lemma cleanup_local_io: "state_io_rel R (cleanup_local rq local f)"
  unfolding cleanup_local_def by (intro io_cases deref_io cleanup_action_io)

lemma cleanup_binding_io: "state_io_rel R (cleanup_binding rq local f)"
  unfolding cleanup_binding_def by (intro io_cases deref_io cleanup_local_io)

lemma frames_io: "state_io_rel R (modify (\<lambda>s. s\<lparr>it_frames := g s\<rparr>))"
  by (intro io_modify set_frames)

lemma handlers_io: "state_io_rel R (modify (\<lambda>s. s\<lparr>it_handlers := hs\<rparr>))"
  by (intro io_modify set_handlers)

lemma on_top_io: "(\<And>f. state_io_rel R (g f)) \<Longrightarrow> state_io_rel R (on_top d g)"
  unfolding on_top_def by (intro io_cases frames_io trap_io) simp_all

lemma cleanup_top_io: "state_io_rel R (cleanup_top rq local)"
  unfolding cleanup_top_def by (intro io_cases on_top_io cleanup_binding_io)

lemma cleanup_slice_io: "state_io_rel R (cleanup_slice rq cleanup)"
  unfolding cleanup_slice_def by (intro io_cases deref_io cleanup_top_io)

lemma cleanup_arm_slice_io: "state_io_rel R (cleanup_arm_slice rq cleanup)"
  unfolding cleanup_arm_slice_def by (intro io_cases deref_io cleanup_top_io)

lemma update_local_io: "state_io_rel R (update_local rq local v sp)"
  unfolding update_local_def
  by (intro io_cases deref_io diagnostic_io on_top_io cleanup_local_io) simp_all

lemma lookup_local_io: "state_io_rel R (lookup_local ir local fs k)"
  by (induction fs arbitrary: k) (auto intro!: io_cases deref_io)

lemma walk_place_io: "state_io_rel R (walk_place ir projections is slot)"
  by (induction "is" arbitrary: slot) (auto intro!: io_cases deref_io)

lemma local_slot_io: "state_io_rel R (local_slot rq place)"
  unfolding local_slot_def by (intro io_cases deref_io lookup_local_io walk_place_io)

lemma local_place_slot_io: "state_io_rel R (local_place_slot rq place)"
  unfolding local_place_slot_def by (intro io_cases local_slot_io)

lemma store_slot_io: "state_io_rel R (store_slot k local path v)"
  unfolding store_slot_def Let_def by (rule frames_io)

lemma unbind_io: "state_io_rel R (unbind k local)"
  unfolding unbind_def Let_def by (rule frames_io)

lemma update_place_io: "state_io_rel R (update_place rq place v sp)"
  unfolding update_place_def
  by (intro io_cases update_local_io local_slot_io diagnostic_io deref_io cleanup_action_io
      store_slot_io) simp_all

lemma charge_place_update_io: "state_io_rel R (charge_place_update rq place sp)"
  unfolding charge_place_update_def by (intro io_cases deref_io consume_step_io)

lemma match_children_io:
  "(\<And>p v leaves. state_io_rel R (rec p v leaves)) \<Longrightarrow>
   state_io_rel R (match_children rq rec pattern elems saved leaves is)"
  by (induction "is" arbitrary: leaves) (auto intro!: io_cases deref_io)

lemma match_levels_io: "state_io_rel R (match_levels n rq capacity pattern v leaves)"
proof (induction n arbitrary: pattern v leaves)
  case (Suc n)
  then show ?case
    unfolding match_levels.simps match_pattern_body_def Let_def
    by (intro io_cases consume_step_io match_children_io)
qed (auto intro: io_ret)

lemma match_pattern_io: "state_io_rel R (match_pattern rq pattern v capacity)"
  unfolding match_pattern_def by (rule match_levels_io)

lemma frame_allocate_io: "state_io_rel R (frame_allocate rq sp f)"
  unfolding frame_allocate_def Let_def by (intro io_cases allocate_io diagnostic_io) simp

lemma release_loop_io: "state_io_rel R (release_loop n rq f)"
  by (induction n arbitrary: f) (auto intro!: io_cases cleanup_binding_io trap_io)

lemma frame_release_io: "state_io_rel R (frame_release rq f)"
  unfolding frame_release_def by (rule release_loop_io)

lemmas frame_ops_io = deref_io defined_io value_shape_valid_io clone_runtime_io bind_local_io
  declare_local_io cleanup_slice_io cleanup_arm_slice_io on_top_io local_slot_io
  local_place_slot_io store_slot_io unbind_io update_place_io charge_place_update_io
  match_pattern_io frame_allocate_io frame_release_io push_order_io

subsection \<open>Contracts\<close>

lemma matches_io: "state_io_rel R (matches rq v ty self)"
  unfolding matches_def by (intro io_cases defined_io)

lemma push_frame_io: "state_io_rel R (push_frame f)"
  unfolding push_frame_def by (rule frames_io)

lemma pop_frame_io: "state_io_rel R pop_frame"
  unfolding pop_frame_def by (intro io_cases frames_io trap_io) simp_all

lemma top_frame_io: "state_io_rel R top_frame"
  unfolding top_frame_def by (intro io_cases trap_io) simp

lemma set_top_io: "state_io_rel R (set_top f)"
  unfolding set_top_def by (rule frames_io)

lemmas stack_io = matches_io push_frame_io pop_frame_io top_frame_io set_top_io

lemma in_contract_io: "state_io_rel R m \<Longrightarrow> state_io_rel R (in_contract c m)"
  unfolding in_contract_def by (intro io_cases stack_io)

lemma contract_copy_locals_io: "state_io_rel R (contract_copy_locals rq sp source contract is)"
  by (induction "is" arbitrary: contract) (auto intro!: io_cases frame_ops_io)

lemma contract_frame_init_io: "state_io_rel R (contract_frame_init rq source sp)"
  unfolding contract_frame_init_def
  by (intro io_cases frame_ops_io contract_copy_locals_io allocate_io diagnostic_io) simp

lemma refresh_contract_local_io: "state_io_rel R (refresh_contract_local rq c body local sp)"
  unfolding refresh_contract_local_def by (intro io_cases frame_ops_io diagnostic_io) simp

lemma refresh_parameters_io: "state_io_rel R (refresh_parameters rq body callable sp c is)"
  by (induction "is" arbitrary: c) (auto intro!: io_cases frame_ops_io refresh_contract_local_io)

lemma refresh_contract_writebacks_io:
  "state_io_rel R (refresh_contract_writebacks rq c body callable sp)"
  unfolding refresh_contract_writebacks_def
  by (intro io_cases refresh_contract_local_io refresh_parameters_io)

end

subsection \<open>With an evaluator\<close>

locale machine_evaluator = machine R rq
  for R :: "'h interp \<Rightarrow> 'h interp \<Rightarrow> bool" and rq :: "'h SolInterpreterRequest" +
  fixes ev :: "'h evaluator"
  assumes ev_io: "state_io_rel R (ev e)"
begin

lemma evaluate_contract_io: "state_io_rel R (evaluate_contract rq ev c ob result)"
  unfolding evaluate_contract_def Let_def
  by (intro io_cases in_contract_io ev_io frame_ops_io diagnostic_io) simp_all

lemma check_contracts_io: "state_io_rel R (check_contracts rq ev selected binding c obs)"
  by (induction obs arbitrary: c) (auto intro!: io_cases evaluate_contract_io)

lemma check_preconditions_io: "state_io_rel R (check_preconditions rq ev c callable)"
  unfolding check_preconditions_def by (rule check_contracts_io)

lemma check_postconditions_io: "state_io_rel R (check_postconditions rq ev c callable result)"
  unfolding check_postconditions_def by (rule check_contracts_io)

lemma capture_snapshots_io: "state_io_rel R (capture_snapshots rq ev callable c is)"
  by (induction "is" arbitrary: c) (auto intro!: io_cases frame_ops_io in_contract_io ev_io)

lemma prepare_contract_io: "state_io_rel R (prepare_contract rq ev callable sp)"
  unfolding prepare_contract_def capture_contract_snapshots_def
  by (intro io_cases stack_io contract_frame_init_io check_preconditions_io capture_snapshots_io)

lemma refinement_loop_io: "state_io_rel R (refinement_loop rq ev d n obs)"
  by (induction obs arbitrary: n)
    (auto intro!: io_cases frame_ops_io stack_io ev_io diagnostic_io)

lemma check_refinement_io: "state_io_rel R (check_refinement rq ev expression call v)"
  unfolding check_refinement_def
  by (intro io_cases frame_ops_io stack_io refinement_loop_io diagnostic_io) simp

lemma validate_authority_io: "state_io_rel R (validate_authority rq callable receiver result sp)"
  unfolding validate_authority_def by (intro io_cases frame_ops_io diagnostic_io) simp_all

lemma validate_evidence_entry_io:
  "code \<noteq> SOL_INTERPRETER_OK \<Longrightarrow>
   state_io_rel R (validate_evidence_entry rq callable tys code sp previous entry)"
  unfolding validate_evidence_entry_def Let_def by (intro io_cases frame_ops_io diagnostic_io)

lemma validate_evidence_entries_io:
  "code \<noteq> SOL_INTERPRETER_OK \<Longrightarrow>
   state_io_rel R (validate_evidence_entries rq callable tys code sp previous entries)"
  by (induction entries arbitrary: previous) (auto intro!: io_cases validate_evidence_entry_io)

lemma validate_evidence_complete_io:
  "code \<noteq> SOL_INTERPRETER_OK \<Longrightarrow> state_io_rel R (validate_evidence_complete rq evidence code sp p)"
  unfolding validate_evidence_complete_def by (intro io_cases frame_ops_io diagnostic_io)

lemma validate_invocation_evidence_io:
  "state_io_rel R (validate_invocation_evidence rq callable tys evidence sp)"
  unfolding validate_invocation_evidence_def Let_def
  by (intro io_cases diagnostic_io validate_evidence_entries_io validate_evidence_complete_io) auto

lemma check_argument_io: "state_io_rel R (check_argument rq callable receiver arguments sp i)"
  unfolding check_argument_def by (intro io_cases frame_ops_io stack_io diagnostic_io) simp

lemma bind_argument_io: "state_io_rel R (bind_argument rq callable arguments sp i)"
  unfolding bind_argument_def by (intro io_cases frame_ops_io)

lemma bind_invocation_io: "state_io_rel R (bind_invocation rq callable receiver arguments sp)"
  unfolding bind_invocation_def
  by (intro io_cases diagnostic_io check_argument_io bind_argument_io frame_ops_io) simp_all

lemma take_writeback_io: "state_io_rel R (take_writeback rq local receiver wanted message sp)"
  unfolding take_writeback_def by (intro io_cases frame_ops_io stack_io diagnostic_io) simp

lemma take_writebacks_io:
  "state_io_rel R (take_writebacks rq callable receiver wanted sp backs is)"
  by (induction "is" arbitrary: backs) (auto intro!: io_cases frame_ops_io take_writeback_io)

lemma finish_body_io:
  "state_io_rel R (finish_body rq ev callable_id callable receiver contract sp result)"
  unfolding finish_body_def
  by (intro io_cases stack_io diagnostic_io validate_authority_io refresh_contract_writebacks_io
      check_postconditions_io) simp

lemma invoke_io:
  "state_io_rel R (invoke rq ev callable receiver arguments tys evidence rw aw sp)"
  unfolding invoke_def Let_def
  by (intro io_cases diagnostic_io validate_invocation_evidence_io frame_ops_io stack_io
      bind_invocation_io prepare_contract_io ev_io finish_body_io take_writeback_io
      take_writebacks_io enter_call_io io_modify leave_call) simp_all

subsection \<open>Operations, calls and blocks\<close>

lemma bind_operation_io: "state_io_rel R (bind_operation rq operation receiver arguments sp)"
  unfolding bind_operation_def
  by (intro io_cases frame_ops_io diagnostic_io bind_argument_io) simp

lemma prepare_operation_contracts_io:
  "state_io_rel R (prepare_operation_contracts rq ev callable receiver arguments sp)"
  unfolding prepare_operation_contracts_def
  by (intro io_cases frame_ops_io stack_io bind_operation_io prepare_contract_io)

lemma release_operation_contracts_io: "state_io_rel R (release_operation_contracts rq c)"
  unfolding release_operation_contracts_def by (intro io_cases frame_ops_io stack_io)

lemma effect_declared_io: "state_io_rel R (effect_declared rq effects name found is)"
  by (induction "is" arbitrary: found) (auto intro!: io_cases frame_ops_io)

lemma host_invoke_io:
  "state_io_rel R (host_invoke rq ev callable operation receiver root arguments sp contract)"
  unfolding host_invoke_def Let_def
  by (intro io_cases diagnostic_io host_call_io host_allows_io host_operation_io frame_ops_io stack_io
      validate_authority_io check_postconditions_io) simp_all

lemma guard_operation_io:
  "(\<And>v root c. state_io_rel R (k v root c)) \<Longrightarrow>
   state_io_rel R (guard_operation rq arguments sp k receiver callable)"
  unfolding guard_operation_def Let_def by (intro io_cases diagnostic_io) simp_all

lemma operation_direct_io:
  "state_io_rel R (operation_direct rq ev arguments sp capability root callable)"
  unfolding operation_direct_def Let_def
  by (intro io_cases invoke_io frame_ops_io diagnostic_io prepare_operation_contracts_io
      host_invoke_io release_operation_contracts_io) simp

lemma search_handlers_io:
  "state_io_rel R (search_handlers handlers rq ev arguments sp capability root callable)"
proof (induction handlers arbitrary: capability root callable)
  case (Cons h parents)
  then show ?case
    unfolding search_handlers.simps Let_def
    by (intro io_cases effect_declared_io prepare_operation_contracts_io handlers_io
        guard_operation_io check_postconditions_io release_operation_contracts_io)
qed (simp add: operation_direct_io)

lemma invoke_operation_io:
  "state_io_rel R (invoke_operation rq ev receiver callable arguments sp)"
  unfolding invoke_operation_def by (intro io_cases guard_operation_io search_handlers_io)

lemma evaluate_binary_io: "state_io_rel R (evaluate_binary rq ev sp left op right)"
  unfolding evaluate_binary_def
  by (intro io_cases ev_io new_value_io frame_ops_io diagnostic_io) simp_all

lemma compound_integer_io: "state_io_rel R (compound_integer rq op left right sp)"
  unfolding compound_integer_def by (intro io_cases frame_ops_io diagnostic_io) simp_all

lemma evaluate_unary_io: "state_io_rel R (evaluate_unary rq ev sp op operand)"
  unfolding evaluate_unary_def by (intro io_cases ev_io new_value_io diagnostic_io) simp_all

lemma evaluate_operands_io: "state_io_rel R (evaluate_operands rq ev operands values is)"
  by (induction "is" arbitrary: "values") (auto intro!: io_cases frame_ops_io ev_io)

lemma find_evidence_io: "state_io_rel R (find_evidence rq evidence callable is)"
  by (induction "is") (auto intro!: io_cases frame_ops_io)

lemma counted_slice_io: "state_io_rel R (counted_slice xs sl)"
  unfolding counted_slice_def by (intro io_cases frame_ops_io)

lemma dispatch_call_io: "state_io_rel R (dispatch_call rq ev expression call callee receiver arguments)"
  unfolding dispatch_call_def Let_def
  by (cases "cl_kind call"; simp only: SolIrCallKind.case)
    (intro io_cases new_value_io allocate_io frame_ops_io check_refinement_io invoke_io
      invoke_operation_io find_evidence_io counted_slice_io diagnostic_io; simp)+

lemma charge_writeback_io: "state_io_rel R (charge_writeback rq sp actual v)"
  unfolding charge_writeback_def by (intro io_cases frame_ops_io)

lemma store_writeback_io: "state_io_rel R (store_writeback rq sp actual v)"
  unfolding store_writeback_def by (intro io_cases frame_ops_io)

lemma argument_writebacks_io:
  "(\<And>e v. state_io_rel R (f e v)) \<Longrightarrow> state_io_rel R (argument_writebacks rq operands f backs)"
  unfolding argument_writebacks_def by (intro io_cases frame_ops_io)

lemma apply_writebacks_io: "state_io_rel R (apply_writebacks rq sp call back backs)"
  unfolding apply_writebacks_def
  by (intro io_cases charge_writeback_io store_writeback_io argument_writebacks_io)

lemma evaluate_call_io: "state_io_rel R (evaluate_call rq ev expression call)"
  unfolding evaluate_call_def
  by (intro io_cases ev_io allocate_io diagnostic_io evaluate_operands_io dispatch_call_io
      apply_writebacks_io) simp

end

subsection \<open>With an evaluator and the loop's fuel\<close>

locale machine_step = machine_evaluator R rq ev
  for R :: "'h interp \<Rightarrow> 'h interp \<Rightarrow> bool" and rq :: "'h SolInterpreterRequest"
    and ev :: "'h evaluator" +
  fixes fuel :: nat
  assumes loop_io: "state_io_rel R (run_loop fuel rq ev statement)"
begin

lemma assignment_place_io: "state_io_rel R (assignment_place rq statement)"
  unfolding assignment_place_def by (intro io_cases frame_ops_io)

lemma compound_value_io: "state_io_rel R (compound_value rq ev statement)"
  unfolding compound_value_def
  by (intro io_cases assignment_place_io frame_ops_io ev_io compound_integer_io diagnostic_io)
    simp_all

lemma run_require_io: "state_io_rel R (run_require rq ev statement)"
  unfolding run_require_def by (intro io_cases ev_io diagnostic_io) simp_all

lemma run_panic_io: "state_io_rel R (run_panic rq ev statement)"
  unfolding run_panic_def by (intro io_cases ev_io diagnostic_io trap_io) simp_all

lemma run_simple_io: "state_io_rel R (run_simple rq ev statement final)"
  unfolding run_simple_def
  by (cases "st_kind statement"; simp only: SolIrStatementKind.case)
    (intro io_cases compound_value_io ev_io assignment_place_io frame_ops_io)+

lemma run_statement_io: "state_io_rel R (run_statement rq ev fuel statement final)"
  unfolding run_statement_def
  by (cases "st_kind statement"; simp only: SolIrStatementKind.case)
    (intro io_cases run_panic_io run_require_io run_simple_io loop_io ev_io frame_ops_io
      diagnostic_io; simp)+

lemma run_statements_io: "state_io_rel R (run_statements rq ev fuel statements final is)"
  by (induction "is" arbitrary: final) (auto intro!: io_cases frame_ops_io run_statement_io)

lemma evaluate_block_io: "state_io_rel R (evaluate_block rq ev fuel statements cleanup)"
  unfolding evaluate_block_def by (intro io_cases run_statements_io frame_ops_io)

lemma project_temporary_io: "state_io_rel R (project_temporary rq projections v is)"
  by (induction "is" arbitrary: v) (auto intro!: io_cases frame_ops_io diagnostic_io)

lemma charge_place_read_io: "state_io_rel R (charge_place_read rq place)"
  unfolding charge_place_read_def Let_def by (intro io_cases frame_ops_io consume_step_io)

lemma evaluate_place_io: "state_io_rel R (evaluate_place rq ev expression place)"
  unfolding evaluate_place_def Let_def
  by (intro io_cases frame_ops_io charge_place_read_io ev_io project_temporary_io diagnostic_io)
    simp

lemma evaluate_definition_io: "state_io_rel R (evaluate_definition rq sp definition)"
  unfolding evaluate_definition_def Let_def by (intro io_cases new_value_io diagnostic_io) simp_all

lemma evaluate_bound_operation_io: "state_io_rel R (evaluate_bound_operation rq ev sp e callable)"
  unfolding evaluate_bound_operation_def
  by (intro io_cases ev_io new_value_io allocate_io diagnostic_io) simp_all

lemma evaluate_record_io: "state_io_rel R (evaluate_record rq ev sp definition operands)"
  unfolding evaluate_record_def
  by (intro io_cases evaluate_operands_io new_value_io allocate_io frame_ops_io diagnostic_io)
    simp_all

lemma evaluate_tuple_io: "state_io_rel R (evaluate_tuple rq ev sp operands)"
  unfolding evaluate_tuple_def by (intro io_cases evaluate_operands_io new_value_io allocate_io)

lemma bind_leaves_io: "state_io_rel R (bind_leaves rq arm leaves)"
  unfolding bind_leaves_def by (intro io_cases frame_ops_io)

lemma match_arms_io: "state_io_rel R (match_arms rq ev sp arms scrutinee is)"
proof (induction "is")
  case (Cons i "is")
  then show ?case
    unfolding match_arms.simps
    by (intro io_cases frame_ops_io allocate_io bind_leaves_io ev_io diagnostic_io) simp_all
qed (auto intro!: io_cases diagnostic_io)

lemma evaluate_propagate_io: "state_io_rel R (evaluate_propagate rq ev sp kind operand)"
  unfolding evaluate_propagate_def Let_def by (intro io_cases ev_io diagnostic_io trap_io) simp_all

lemma evaluate_handle_io: "state_io_rel R (evaluate_handle rq ev sp h)"
  unfolding evaluate_handle_def Let_def
  by (intro io_cases ev_io diagnostic_io handlers_io) simp_all

lemma clone_available_io: "state_io_rel R (clone_available rq sp source message)"
  unfolding clone_available_def by (intro io_cases frame_ops_io diagnostic_io) simp

lemma evaluate_kind_io: "state_io_rel R (evaluate_kind rq ev fuel expression)"
  unfolding evaluate_kind_def Let_def
  by (cases "ex_kind expression"; simp only: SolIrExpressionKind.case)
    (intro io_cases new_value_io evaluate_string_io evaluate_place_io evaluate_definition_io
      evaluate_bound_operation_io evaluate_unary_io evaluate_binary_io evaluate_call_io
      evaluate_record_io evaluate_tuple_io frame_ops_io ev_io match_arms_io evaluate_block_io
      evaluate_propagate_io evaluate_handle_io clone_available_io diagnostic_io; simp)+

end

section \<open>Whole runs\<close>

context machine
begin

lemma machine_evaluatorI: "(\<And>e. state_io_rel R (ev e)) \<Longrightarrow> machine_evaluator R rq ev"
  by (intro machine_evaluator.intro machine_axioms machine_evaluator_axioms.intro)

lemma machine_stepI:
  "(\<And>e. state_io_rel R (ev e)) \<Longrightarrow> (\<And>st. state_io_rel R (run_loop fuel rq ev st)) \<Longrightarrow>
   machine_step R rq ev fuel"
  by (intro machine_step.intro machine_evaluatorI machine_step_axioms.intro)

lemma run_loop_io:
  assumes "state_io_rel R (trap TRAP_FUEL)" and "\<And>e. state_io_rel R (ev e)"
  shows "state_io_rel R (run_loop n rq ev statement)"
proof (induction n)
  case (Suc n)
  then show ?case
    unfolding run_loop.simps Let_def by (intro io_cases assms(2) diagnostic_io) simp_all
qed (auto intro!: io_cases assms(1))

lemma evaluate_io:
  assumes "state_io_rel R (trap TRAP_FUEL)"
  shows "state_io_rel R (evaluate n rq e)"
proof (induction n arbitrary: e)
  case (Suc n)
  have "machine_step R rq (evaluate n rq) (Suc n)"
    by (intro machine_stepI Suc run_loop_io assms)
  from machine_step.evaluate_kind_io [OF this] show ?case
    unfolding evaluate.simps Let_def by (intro io_cases diagnostic_io consume_step_io) simp_all
qed (auto intro!: io_cases assms)

lemma select_callable_io: "state_io_rel R (select_callable ir_valid rq)"
  unfolding select_callable_def Let_def by (intro io_cases deref_io diagnostic_io) simp_all

lemma sol_interpret_impl_io:
  assumes "rq = normalized request" and "\<And>e. state_io_rel R (evaluate fuel rq e)"
  shows "state_io_rel R (sol_interpret_impl fuel ir_valid request)"
  unfolding sol_interpret_impl_def Let_def assms(1) [symmetric]
  by (intro io_cases select_callable_io diagnostic_io
      machine_evaluator.invoke_io [OF machine_evaluatorI] assms(2)) simp

end

end
