(* ===== verification/Sol_Sample.thy ===== *)
theory Sol_Sample
  imports Sol_Eval
begin

text \<open>
  Small IR programs that the development runs inside the logic: helpers that build IR nodes,
  a function \<open>add\<close> of two \<open>Int64\<close> parameters with contracts, and requests for it.
\<close>

definition no_slice :: slice where
  "no_slice = \<lparr> sl_offset = 0, sl_count = 0 \<rparr>"

definition slice_at :: "size_t \<Rightarrow> size_t \<Rightarrow> slice" where
  "slice_at offset count = \<lparr> sl_offset = offset, sl_count = count \<rparr>"

definition simple_type :: "SolIrTypeKind \<Rightarrow> SolIrType" where
  "simple_type k = \<lparr> ty_kind = k, ty_definition = SOL_IR_NONE, ty_arguments = no_slice,
     ty_parameters = no_slice, ty_access_offset = 0, ty_result = SOL_IR_NONE, ty_effects = no_slice \<rparr>"

definition simple_expression :: "SolIrExpressionKind \<Rightarrow> size_t \<Rightarrow> SolIrExpression" where
  "simple_expression k ty = \<lparr> ex_kind = k, ex_local_use = SOL_IR_LOCAL_USE_COPY, ex_span = span 0 1,
     ex_type = ty \<rparr>"

definition local_place :: "size_t \<Rightarrow> SolIrPlace" where
  "local_place l = \<lparr> pl_root_kind = SOL_IR_PLACE_ROOT_LOCAL, pl_local = l, pl_temporary = SOL_IR_NONE,
     pl_projections = no_slice, pl_root_span = span 0 1 \<rparr>"

definition simple_definition :: "SolIrDefinitionKind \<Rightarrow> size_t \<Rightarrow> SolIrDefinition" where
  "simple_definition k callable = \<lparr> def_kind = k, def_name = ''main'', def_span = span 0 1, def_callable = callable,
     def_representation = SOL_IR_NONE, def_impl_trait = SOL_IR_NONE, def_impl_target = SOL_IR_NONE,
     def_fields = no_slice, def_members = no_slice, def_generics = no_slice,
     def_source = SOL_IR_NONE, def_is_entrypoint = False \<rparr>"

definition simple_callable :: "string \<Rightarrow> slice \<Rightarrow> size_t \<Rightarrow> size_t \<Rightarrow> SolIrCallable" where
  "simple_callable name parameters result body = \<lparr> ca_kind = SOL_IR_CALLABLE_FUNCTION, ca_owner = 0,
     ca_name = name, ca_span = span 0 1, ca_parameters = parameters, ca_result = result,
     ca_body = body, ca_effects = no_slice, ca_generics = no_slice, ca_effect_parameters = no_slice,
     ca_effect_parameter = SOL_IR_NONE,
     ca_receiver = SOL_IR_NONE, ca_receiver_access = SOL_ACCESS_OWNED, ca_source = SOL_IR_NONE,
     ca_authority_kind = SOL_IR_AUTHORITY_NONE, ca_authority = SOL_IR_NONE \<rparr>"

definition empty_ir :: SolIr where
  "empty_ir = \<lparr> ir_source_path = Some ''main.sol'', ir_types = [], ir_type_ids = [], ir_accesses = [],
     ir_definitions = [], ir_callables = [], ir_members = [], ir_evidence = [], ir_locals = [],
     ir_fields = [], ir_variants = [], ir_expressions = [], ir_places = [], ir_projections = [],
     ir_statements = [], ir_statement_ids = [], ir_arms = [], ir_arm_ids = [], ir_patterns = [],
     ir_pattern_children = [], ir_operands = [], ir_roots = [], ir_cleanup_locals = [],
     ir_effects = [], ir_trait_bounds = [], ir_obligations = [], ir_snapshots = [], ir_files = [] \<rparr>"

text \<open>\<open>function add(a: Int64, b: Int64) -> Int64 requires a < b { a + b }\<close>\<close>

definition add_ir :: SolIr where
  "add_ir = empty_ir\<lparr>
     ir_types := [simple_type SOL_IR_TYPE_INT64, simple_type SOL_IR_TYPE_BOOL],
     ir_definitions := [simple_definition SOL_IR_DEFINITION_FUNCTION 0],
     ir_callables := [simple_callable ''add'' (slice_at 0 2) 0 2],
     ir_locals := [\<lparr> lo_name = ''x'', lo_type = 0, lo_access = SOL_ACCESS_OWNED \<rparr>,
       \<lparr> lo_name = ''x'', lo_type = 0, lo_access = SOL_ACCESS_OWNED \<rparr>],
     ir_roots := [0, 1],
     ir_places := [local_place 0, local_place 1],
     ir_expressions := [simple_expression (SOL_IR_EXPR_PLACE 0) 0,
       simple_expression (SOL_IR_EXPR_PLACE 1) 0,
       simple_expression (SOL_IR_EXPR_BINARY 0 SOL_TOKEN_PLUS 1) 0,
       simple_expression (SOL_IR_EXPR_BINARY 0 SOL_TOKEN_LESS 1) 1],
     ir_obligations := [\<lparr> ob_id = 0, ob_owner_kind = SOL_CONTRACT_OWNER_ITEM, ob_owner = 0,
       ob_kind = SOL_CONTRACT_REQUIRES, ob_outcome = SOL_CONTRACT_OUTCOME_ALWAYS,
       ob_predicate = 3, ob_result_available = False \<rparr>]\<rparr>"

definition add_request :: "64 word \<Rightarrow> 64 word \<Rightarrow> unit SolInterpreterRequest" where
  "add_request a b = \<lparr> rq_ir = add_ir, rq_callable = 0, rq_definition = SOL_IR_NONE,
     rq_arguments = COUNTED_ITEMS [VALUE_INT64 a, VALUE_INT64 b],
     rq_type_arguments = COUNTED_NULL 0, rq_evidence = COUNTED_NULL 0,
     rq_contracts = SOL_INTERPRETER_CONTRACTS_CHECK,
     rq_limits = \<lparr> li_steps = 20, li_call_depth = 4, li_value_nodes = 20, li_text_bytes = 0,
       li_host_calls = 0 \<rparr>,
     rq_host_operation = None, rq_host_allows = None, rq_cleanup_observer = True,
     rq_test_entry = False \<rparr>"

definition no_failures :: "nat \<Rightarrow> bool" where
  "no_failures n = False"

definition run_add :: "64 word \<Rightarrow> 64 word \<Rightarrow> SolInterpreterValue option \<times> unit interp" where
  "run_add a b = run_state (sol_interpret (\<lambda>_. True) (add_request a b)) (initial_state no_failures ())"

lemma run_add_value: "fst (run_add 2 5) = Some (VALUE_INT64 7)"
  by code_simp

section \<open>Bindings in a block\<close>

text \<open>\<open>{ 1  let x = 2 }\<close>: an expression statement followed by a binding.\<close>

definition simple_statement :: "SolIrStatementKind \<Rightarrow> size_t \<Rightarrow> size_t \<Rightarrow> SolIrStatement" where
  "simple_statement k local expression = \<lparr> st_kind = k, st_span = span 0 1, st_local = local,
     st_target = SOL_IR_NONE, st_expression = expression, st_condition = SOL_IR_NONE,
     st_operator = SOL_TOKEN_EQUAL \<rparr>"

definition let_ir :: SolIr where
  "let_ir = empty_ir\<lparr>
     ir_types := [simple_type SOL_IR_TYPE_INT64],
     ir_locals := [\<lparr> lo_name = ''x'', lo_type = 0, lo_access = SOL_ACCESS_OWNED \<rparr>],
     ir_expressions := [simple_expression (SOL_IR_EXPR_INTEGER 1) 0,
       simple_expression (SOL_IR_EXPR_INTEGER 2) 0],
     ir_statements := [simple_statement SOL_IR_STATEMENT_EXPRESSION SOL_IR_NONE 0,
       simple_statement SOL_IR_STATEMENT_LET 0 1],
     ir_statement_ids := [0, 1]\<rparr>"

definition let_request :: "unit SolInterpreterRequest" where
  "let_request = (add_request 0 0)\<lparr>rq_ir := let_ir, rq_arguments := COUNTED_ITEMS []\<rparr>"

definition let_state :: "unit interp" where
  "let_state = (initial_state no_failures ())\<lparr>it_frames := [empty_frame\<lparr>fr_locals := [VALUE_INVALID],
     fr_bound := [False], fr_registered := [False], fr_roots := [NULL], fr_known := [False]\<rparr>]\<rparr>"

definition run_let_block :: "Flow \<times> unit interp" where
  "run_let_block = run_state (run_statements let_request (evaluate 1 let_request) 1 (slice_at 0 2)
     VALUE_UNIT ([0] @ [1])) let_state"

lemma run_let_value: "fst run_let_block = (FLOW_VALUE, VALUE_INT64 1)"
  by code_simp

lemma binding_keeps_value:
  assumes "st_kind statement \<in> {SOL_IR_STATEMENT_LET, SOL_IR_STATEMENT_DECLARE}"
    and "run_state (run_statement rq ev fuel statement final) s = (outcome, t)"
  shows "outcome = GO_ON final \<or> (\<exists>flow. outcome = LEAVE flow \<and> fst flow \<noteq> FLOW_VALUE)"
  using assms by (auto simp: run_statement_def run_simple_def split: prod.splits if_splits)

text \<open>
  C39. A binding does not reset the value of a block. Whatever the statements before it, if the
  last statement of a block is a \<open>let\<close> or a declaration and the block ends normally, its value is
  the value those statements left: in \<open>{ 1  let x = 2 }\<close> it is 1.
\<close>

theorem let_keeps_previous_value:
  fixes rq :: "'h SolInterpreterRequest"
  defines "ir \<equiv> rq_ir rq"
  assumes "sl_offset statements + i < length (ir_statement_ids ir)"
    and "ir_statement_ids ir ! (sl_offset statements + i) < length (ir_statements ir)"
    and "st_kind (ir_statements ir ! (ir_statement_ids ir ! (sl_offset statements + i)))
      \<in> {SOL_IR_STATEMENT_LET, SOL_IR_STATEMENT_DECLARE}"
    and "run_state (run_statements rq ev fuel statements final (is @ [i])) s = ((FLOW_VALUE, w), t)"
  shows "\<exists>u. run_state (run_statements rq ev fuel statements final is) s = ((FLOW_VALUE, w), u)"
  using assms(5)
proof (induction "is" arbitrary: final s)
  case Nil
  with assms(2,3) show ?case
    by (auto simp: ir_def deref_def split: prod.splits statement_outcome.splits
        dest!: binding_keeps_value [OF assms(4) [unfolded ir_def]])
next
  case (Cons j js)
  then show ?case by (auto split: prod.splits statement_outcome.splits)
qed

theorem let_keeps_previous_value_witness:
  "\<exists>u. run_state (run_statements let_request (evaluate 1 let_request) 1 (slice_at 0 2) VALUE_UNIT [0])
     let_state = ((FLOW_VALUE, VALUE_INT64 1), u)"
proof (rule let_keeps_previous_value)
  show "run_state (run_statements let_request (evaluate 1 let_request) 1 (slice_at 0 2) VALUE_UNIT ([0] @ [1]))
      let_state = ((FLOW_VALUE, VALUE_INT64 1), snd run_let_block)"
    using run_let_value unfolding run_let_block_def by (metis prod.collapse)
qed (simp_all add: let_request_def let_ir_def slice_at_def simple_statement_def)

end
