(* ===== verification/Sol_Limits.thy ===== *)
theory Sol_Limits
  imports Sol_Machine Sol_Sample
begin

text \<open>
  What every run keeps, whatever the IR, the request, the host and the allocator do: the
  resource counters stay within the request's limits and never decrease, the first
  diagnostic and the first trap stick, and cleanup actions are numbered consecutively. The
  relation \<open>run_step\<close> is shown to be a \<open>machine\<close> relation; the facts about runs follow.
\<close>

definition limits_sized :: "SolInterpreterLimits \<Rightarrow> bool" where
  "limits_sized l \<longleftrightarrow> li_steps l \<le> SIZE_MAX \<and> li_call_depth l \<le> SIZE_MAX \<and>
     li_value_nodes l \<le> SIZE_MAX \<and> li_text_bytes l \<le> SIZE_MAX \<and> li_host_calls l \<le> SIZE_MAX"

definition limits_le :: "SolInterpreterLimits \<Rightarrow> SolInterpreterLimits \<Rightarrow> bool" where
  "limits_le a b \<longleftrightarrow> li_steps a \<le> li_steps b \<and> li_call_depth a \<le> li_call_depth b \<and>
     li_value_nodes a \<le> li_value_nodes b \<and> li_text_bytes a \<le> li_text_bytes b \<and>
     li_host_calls a \<le> li_host_calls b"

lemma limits_le_refl [simp]: "limits_le a a"
  by (simp add: limits_le_def)

lemma limits_le_trans: "limits_le a b \<Longrightarrow> limits_le b c \<Longrightarrow> limits_le a c"
  by (auto simp: limits_le_def)

text \<open>With an observer every action was reported, numbered from 0; without one none was.\<close>

definition numbered :: "'h SolInterpreterRequest \<Rightarrow> 'h interp \<Rightarrow> bool" where
  "numbered rq s \<longleftrightarrow>
     (if rq_cleanup_observer rq then map snd (it_observed s) = [0..<it_cleanup_actions s]
      else it_observed s = [])"

definition run_step :: "'h SolInterpreterRequest \<Rightarrow> 'h interp \<Rightarrow> 'h interp \<Rightarrow> bool" where
  "run_step rq s t \<longleftrightarrow>
     (limits_sized (rq_limits rq) \<and> limits_le (it_used s) (rq_limits rq) \<longrightarrow>
        limits_le (it_used s) (it_used t) \<and> limits_le (it_used t) (rq_limits rq)) \<and>
     (id_code (it_diagnostic s) \<noteq> SOL_INTERPRETER_OK \<longrightarrow> it_diagnostic t = it_diagnostic s) \<and>
     (it_trap s \<noteq> None \<longrightarrow> it_trap t = it_trap s) \<and>
     it_cleanup_actions s \<le> it_cleanup_actions t \<and> (numbered rq s \<longrightarrow> numbered rq t)"

lemma run_step_same:
  "it_used t = it_used s \<Longrightarrow> it_diagnostic t = it_diagnostic s \<Longrightarrow> it_trap t = it_trap s \<Longrightarrow>
   it_cleanup_actions t = it_cleanup_actions s \<Longrightarrow> it_observed t = it_observed s \<Longrightarrow>
   run_step rq s t"
  by (simp add: run_step_def numbered_def)

lemma run_step_preorder: "io_preorder (run_step rq)"
proof
  show "run_step rq s s" for s by (simp add: run_step_same)
  show "run_step rq s t \<Longrightarrow> run_step rq t u \<Longrightarrow> run_step rq s u" for s t u
    unfolding run_step_def by (auto intro: limits_le_trans)
qed

lemma trap_step: "state_io_rel (run_step rq) (trap t)"
  by (auto simp: state_io_rel_def trap_def run_step_def numbered_def)

lemma diagnostic_step: "state_io_rel (run_step rq) (diagnostic rq code sp message)"
  by (auto simp: state_io_rel_def diagnostic_def run_step_def numbered_def split: prod.splits)

lemma allocate_step: "state_io_rel (run_step rq) allocate"
  by (auto simp: state_io_rel_def intro!: run_step_same)

lemma consume_limits_step:
  assumes "\<And>n l. counter l < n \<Longrightarrow> limits_le l (update (\<lambda>_. n) l)"
    and "\<And>n l. limits_le l (rq_limits rq) \<Longrightarrow> n \<le> counter (rq_limits rq) \<Longrightarrow>
      limits_le (update (\<lambda>_. n) l) (rq_limits rq)"
  shows "state_io_rel (run_step rq) (consume rq counter update code sp name)"
proof (rule state_io_relI)
  fix s r t
  assume run: "run_state (consume rq counter update code sp name) s = (r, t)"
  show "run_step rq s t"
  proof (cases "counter (it_used s) = SIZE_MAX \<or> counter (it_used s) \<ge> counter (rq_limits rq)")
    case True
    then have "t = snd (run_state (diagnostic rq code sp (name @ '' limit exceeded'')) s)"
      using run by (auto simp: consume_def split: prod.splits)
    then show ?thesis using diagnostic_step by (metis prod.collapse state_io_relD)
  next
    case False
    then have t: "t = s\<lparr>it_used := update (\<lambda>_. counter (it_used s) + 1) (it_used s)\<rparr>"
      using run by (auto simp: consume_def)
    with False assms show ?thesis by (simp add: run_step_def numbered_def)
  qed
qed

lemma size_add_le: "a + b \<le> SIZE_MAX \<Longrightarrow> size_add a b = a + b"
  by (simp add: size_add_def)

interpretation run_heap: heap_machine "run_step rq" for rq :: "'h SolInterpreterRequest"
  by (intro heap_machine.intro heap_machine_axioms.intro run_step_preorder allocate_step)

lemma reserve_clone_step: "state_io_rel (run_step rq) (reserve_clone rq sp v)"
proof -
  have charge: "run_step rq s (s\<lparr>it_used := (it_used s)\<lparr>
      li_value_nodes := size_add (li_value_nodes (it_used s)) nodes,
      li_text_bytes := size_add (li_text_bytes (it_used s)) bytes\<rparr>\<rparr>)"
    if "nodes \<le> size_sub (li_value_nodes (rq_limits rq)) (li_value_nodes (it_used s))"
      and "bytes \<le> size_sub (li_text_bytes (rq_limits rq)) (li_text_bytes (it_used s))" for s nodes bytes
    using that by (auto simp: run_step_def numbered_def limits_le_def limits_sized_def size_add_le)
  have rest: "state_io_rel (run_step rq) (do {
        used \<leftarrow> gets it_used;
        (case value_metrics v (0, 0) of
           None \<Rightarrow> do {
             diagnostic rq SOL_INTERPRETER_VALUE_LIMIT sp ''value node limit exceeded''; ret False }
         | Some (nodes, bytes) \<Rightarrow>
             if nodes > size_sub (li_value_nodes (rq_limits rq)) (li_value_nodes used) then do {
               diagnostic rq SOL_INTERPRETER_VALUE_LIMIT sp ''value node limit exceeded''; ret False }
             else if bytes > size_sub (li_text_bytes (rq_limits rq)) (li_text_bytes used) then do {
               diagnostic rq SOL_INTERPRETER_TEXT_LIMIT sp ''text byte limit exceeded''; ret False }
             else do {
               modify (\<lambda>s. s\<lparr>it_used := (it_used s)\<lparr>
                 li_value_nodes := size_add (li_value_nodes (it_used s)) nodes,
                 li_text_bytes := size_add (li_text_bytes (it_used s)) bytes\<rparr>\<rparr>);
               ret True }) })"
    by (rule state_io_relI) (auto split: option.splits prod.splits if_splits
        intro!: charge dest: state_io_relD [OF diagnostic_step])
  show ?thesis
    unfolding reserve_clone_def
    by (intro run_heap.io_rules run_heap.value_shape_valid_io diagnostic_step rest)
qed

lemma new_value_step: "state_io_rel (run_step rq) (new_value rq sp)"
  unfolding new_value_def by (rule consume_limits_step) (auto simp: limits_le_def)

lemma new_value_text:
  "run_state (new_value rq sp) s = (ok, t) \<Longrightarrow> li_text_bytes (it_used t) = li_text_bytes (it_used s)"
  by (auto simp: new_value_def consume_def diagnostic_def split: if_splits prod.splits)

lemma charge_text_step:
  assumes "n \<le> size_sub (li_text_bytes (rq_limits rq)) (li_text_bytes (it_used s))"
  shows "run_step rq s (s\<lparr>it_used := (it_used s)\<lparr>li_text_bytes :=
    size_add (li_text_bytes (it_used s)) n\<rparr>\<rparr>)"
  using assms by (auto simp: run_step_def numbered_def limits_le_def limits_sized_def size_add_le)

lemma evaluate_string_step: "state_io_rel (run_step rq) (evaluate_string rq sp tx)"
proof (rule state_io_relI)
  fix s r t
  assume run: "run_state (evaluate_string rq sp tx) s = (r, t)"
  let ?n = "length (c_string tx)"
  show "run_step rq s t"
  proof (cases "?n > size_sub (li_text_bytes (rq_limits rq)) (li_text_bytes (it_used s))")
    case True
    with run show ?thesis
      by (auto simp: evaluate_string_def split: prod.splits dest: state_io_relD [OF diagnostic_step])
  next
    case False
    obtain ok s1 where new: "run_state (new_value rq sp) s = (ok, s1)" by (metis prod.exhaust)
    obtain memory s2 where alloc: "run_state (if ok \<and> ?n \<noteq> SIZE_MAX then allocate else ret False) s1
        = (memory, s2)" by (metis prod.exhaust)
    have same: "it_used s2 = it_used s1" using alloc by (auto split: if_splits)
    have "run_step rq s1 s2" using alloc by (auto intro: run_step_same split: if_splits)
    with new have step: "run_step rq s s2"
      by (meson new_value_step run_heap.io_trans state_io_relD)
    show ?thesis
    proof (cases memory)
      case True
      with run False new alloc have "t = s2\<lparr>it_used := (it_used s2)\<lparr>li_text_bytes :=
          size_add (li_text_bytes (it_used s2)) ?n\<rparr>\<rparr>"
        by (simp add: evaluate_string_def Let_def)
      with False charge_text_step [of ?n rq s2] same new_value_text [OF new] step show ?thesis
        by (auto intro: run_heap.io_trans)
    next
      case False
      with run \<open>\<not> ?n > _\<close> new alloc have "t = s2" by (simp add: evaluate_string_def Let_def)
      with step show ?thesis by simp
    qed
  qed
qed

lemma cleanup_action_step: "state_io_rel (run_step rq) (cleanup_action rq local)"
  by (auto simp: state_io_rel_def cleanup_action_def run_step_def numbered_def)

lemma enter_call_step:
  "depth < li_call_depth (rq_limits rq) \<Longrightarrow> state_io_rel (run_step rq) (enter_call depth)"
  by (auto simp: state_io_rel_def enter_call_def run_step_def numbered_def limits_le_def)

lemma run_step_machine: "machine (run_step rq) rq"
proof (intro machine.intro machine_axioms.intro)
  show "heap_machine (run_step rq)" by (rule run_heap.heap_machine_axioms)
  show "state_io_rel (run_step rq) (consume_step rq sp name)" for sp name
    unfolding consume_step_def by (rule consume_limits_step) (auto simp: limits_le_def)
  show "state_io_rel (run_step rq) (consume rq li_host_calls li_host_calls_update
      SOL_INTERPRETER_HOST_CALL_LIMIT sp ''host call'')" for sp
    by (rule consume_limits_step) (auto simp: limits_le_def)
qed (auto intro: trap_step diagnostic_step new_value_step reserve_clone_step evaluate_string_step
    cleanup_action_step enter_call_step run_step_same intro!: host_step_io)

interpretation run: machine "run_step rq" rq for rq :: "'h SolInterpreterRequest"
  by (rule run_step_machine)

lemma sol_interpret_impl_step:
  "state_io_rel (run_step (normalized rq)) (sol_interpret_impl fuel ir_valid rq)"
  by (rule run.sol_interpret_impl_io [OF refl]) (rule run.evaluate_io [OF trap_step])

section \<open>Properties\<close>

text \<open>
  C2. Every run stays within its limits: whatever the IR, the host operations and the
  allocator do, after \<open>sol_interpret\<close> the steps, the call depth, the value nodes, the text
  bytes and the host calls it reports are at most the limits of the request (the defaults,
  if the request leaves all of them zero).
\<close>

theorem sol_interpret_within_limits:
  assumes "limits_sized (rq_limits rq)"
  shows "limits_le (it_used (snd (run_state (sol_interpret ir_valid rq) (initial_state fails host))))
    (rq_limits (normalized rq))"
proof -
  have "limits_sized (rq_limits (normalized rq))"
    using assms(1) by (auto simp: normalized_def limits_sized_def default_limits_def SIZE_MAX_def)
  moreover have "limits_le (it_used (initial_state fails host)) (rq_limits (normalized rq))"
    by (simp add: initial_state_def limits_le_def zero_limits_def)
  moreover have "run_step (normalized rq) (initial_state fails host)
      (snd (run_state (sol_interpret ir_valid rq) (initial_state fails host)))"
    using sol_interpret_impl_step unfolding sol_interpret_def state_io_rel_def by blast
  ultimately show ?thesis by (simp add: run_step_def)
qed

theorem sol_interpret_within_limits_witness:
  "limits_sized (rq_limits (add_request 2 5)) \<and> li_steps (it_used (snd (run_add 2 5))) \<le> 20"
proof -
  have sized: "limits_sized (rq_limits (add_request 2 5))"
    by (simp add: limits_sized_def add_request_def SIZE_MAX_def)
  have "rq_limits (normalized (add_request 2 5)) = rq_limits (add_request 2 5)"
    by (simp add: normalized_def add_request_def zero_limits_def)
  with sol_interpret_within_limits [OF sized, of "\<lambda>_. True" no_failures "()"] sized
  show ?thesis by (simp add: run_add_def limits_le_def add_request_def)
qed

text \<open>
  C7. The first diagnostic of a run is the one it reports: once a diagnostic is set, no
  evaluation changes it, with any amount of fuel left.
\<close>

theorem first_diagnostic_sticks:
  assumes "id_code (it_diagnostic s) \<noteq> SOL_INTERPRETER_OK"
  shows "it_diagnostic (snd (run_state (evaluate n rq e) s)) = it_diagnostic s"
  using run.evaluate_io [OF trap_step, of rq n e] assms
  unfolding state_io_rel_def run_step_def by blast

theorem first_diagnostic_sticks_witness:
  "id_code (it_diagnostic (snd (run_add 5 2))) = SOL_INTERPRETER_REQUIRE_VIOLATION \<and>
   it_diagnostic (snd (run_state (evaluate 9 (add_request 5 2) 2) (snd (run_add 5 2))))
     = it_diagnostic (snd (run_add 5 2))"
proof -
  have "id_code (it_diagnostic (snd (run_add 5 2))) = SOL_INTERPRETER_REQUIRE_VIOLATION"
    by code_simp
  with first_diagnostic_sticks [of "snd (run_add 5 2)" 9 "add_request 5 2" 2] show ?thesis by simp
qed

text \<open>
  C31. Cleanup actions are observed without gaps: after a run with an observer, the
  ordinals it was given are exactly 0, 1, 2, ... in order, as many as the actions the result
  counts; without an observer nothing is observed.
\<close>

theorem cleanup_actions_numbered:
  "numbered (normalized rq) (snd (run_state (sol_interpret ir_valid rq) (initial_state fails host)))"
proof -
  have "numbered (normalized rq) (initial_state fails host)"
    by (simp add: numbered_def initial_state_def)
  moreover have "run_step (normalized rq) (initial_state fails host)
      (snd (run_state (sol_interpret ir_valid rq) (initial_state fails host)))"
    using sol_interpret_impl_step unfolding sol_interpret_def state_io_rel_def by blast
  ultimately show ?thesis by (simp add: run_step_def)
qed

end
