(* ===== verification/Sol_Termination.thy ===== *)
theory Sol_Termination
  imports Sol_Limits
begin

text \<open>
  The evaluator terminates: every call of \<open>evaluate\<close> consumes a step before it recurses, and a
  loop evaluates at least one expression per round, so recursion and loops are bounded by the
  steps the request leaves. In the model this says that fuel above the remaining steps never
  runs out, for any IR, request, host and allocator.
\<close>

definition steps_left :: "'h SolInterpreterRequest \<Rightarrow> 'h interp \<Rightarrow> nat" where
  "steps_left rq s = li_steps (rq_limits rq) - li_steps (it_used s)"

definition fuel_step :: "'h SolInterpreterRequest \<Rightarrow> nat \<Rightarrow> 'h interp \<Rightarrow> 'h interp \<Rightarrow> bool" where
  "fuel_step rq n s t \<longleftrightarrow> li_steps (it_used s) \<le> li_steps (it_used t) \<and>
     (steps_left rq s < n \<and> it_trap s \<noteq> Some TRAP_FUEL \<longrightarrow> it_trap t \<noteq> Some TRAP_FUEL)"

lemma fuel_step_same:
  "li_steps (it_used t) = li_steps (it_used s) \<Longrightarrow> it_trap t = it_trap s \<Longrightarrow> fuel_step rq n s t"
  by (simp add: fuel_step_def)

lemma steps_left_mono: "li_steps (it_used s) \<le> li_steps (it_used t) \<Longrightarrow> steps_left rq t \<le> steps_left rq s"
  by (simp add: steps_left_def)

lemma fuel_step_preorder: "io_preorder (fuel_step rq n)"
proof
  show "fuel_step rq n s s" for s by (simp add: fuel_step_same)
  show "fuel_step rq n s t \<Longrightarrow> fuel_step rq n t u \<Longrightarrow> fuel_step rq n s u" for s t u
    unfolding fuel_step_def using steps_left_mono [of s t rq] by fastforce
qed

interpretation fuel_heap: heap_machine "fuel_step rq n" for rq :: "'h SolInterpreterRequest" and n
  by (intro heap_machine.intro heap_machine_axioms.intro fuel_step_preorder)
    (auto simp: state_io_rel_def intro: fuel_step_same)

lemma fuel_diagnostic: "state_io_rel (fuel_step rq n) (diagnostic rq code sp message)"
  by (auto simp: state_io_rel_def diagnostic_def intro: fuel_step_same split: prod.splits)

lemma fuel_consume:
  assumes "\<And>l m. li_steps l \<le> li_steps (update (\<lambda>_. m) l) \<or> m \<le> counter l"
  shows "state_io_rel (fuel_step rq n) (consume rq counter update code sp name)"
proof -
  have "fuel_step rq n s (s\<lparr>it_used := update (\<lambda>_. Suc (counter (it_used s))) (it_used s)\<rparr>)" for s
    using assms [of "it_used s" "Suc (counter (it_used s))"] by (simp add: fuel_step_def)
  moreover note state_io_relD [OF fuel_diagnostic]
  ultimately show ?thesis
    unfolding consume_def by (auto intro!: state_io_relI split: if_splits prod.splits)
qed

lemma fuel_reserve_clone: "state_io_rel (fuel_step rq n) (reserve_clone rq sp v)"
  unfolding reserve_clone_def
  by (intro fuel_heap.io_rules fuel_heap.value_shape_valid_io fuel_diagnostic fuel_heap.io_modify
      fuel_step_same) simp_all

lemma fuel_new_value: "state_io_rel (fuel_step rq n) (new_value rq sp)"
  unfolding new_value_def by (rule fuel_consume) simp

lemma fuel_evaluate_string: "state_io_rel (fuel_step rq n) (evaluate_string rq sp tx)"
  unfolding evaluate_string_def Let_def
  by (intro fuel_heap.io_rules fuel_new_value fuel_diagnostic fuel_heap.allocate_io
      fuel_heap.io_modify fuel_step_same) simp_all

interpretation fuel: machine "fuel_step rq n" rq for rq :: "'h SolInterpreterRequest" and n
proof (intro machine.intro machine_axioms.intro)
  show "heap_machine (fuel_step rq n)" by (rule fuel_heap.heap_machine_axioms)
  show "t \<noteq> TRAP_FUEL \<Longrightarrow> state_io_rel (fuel_step rq n) (trap t)" for t
    by (auto simp: state_io_rel_def trap_def fuel_step_def)
  show "state_io_rel (fuel_step rq n) (consume_step rq sp name)" for sp name
    unfolding consume_step_def by (rule fuel_consume) auto
  show "state_io_rel (fuel_step rq n) (consume rq li_host_calls li_host_calls_update
      SOL_INTERPRETER_HOST_CALL_LIMIT sp ''host call'')" for sp
    by (rule fuel_consume) simp
  show "state_io_rel (fuel_step rq n) (cleanup_action rq local)" for local
    by (auto simp: state_io_rel_def cleanup_action_def intro: fuel_step_same)
  show "state_io_rel (fuel_step rq n) (enter_call depth)" for depth
    by (auto simp: state_io_rel_def enter_call_def intro: fuel_step_same)
qed (auto intro: fuel_diagnostic fuel_reserve_clone fuel_new_value fuel_evaluate_string fuel_step_same
    intro!: host_step_io)

section \<open>Every evaluation makes progress\<close>

lemma consume_step_cases:
  "run_state (consume_step rq sp name) s = (ok, t) \<Longrightarrow>
   (if ok then li_steps (it_used s) < li_steps (rq_limits rq) \<and>
      li_steps (it_used t) = Suc (li_steps (it_used s)) \<and> it_trap t = it_trap s
    else it_used t = it_used s \<and> it_trap t = it_trap s)"
  by (auto simp: consume_step_def consume_def diagnostic_def split: if_splits prod.splits)

lemma evaluate_Suc_cases:
  assumes "run_state (evaluate (Suc n) rq e) s = (r, t)"
  obtains (refused) "fst r = FLOW_ERROR" "it_used t = it_used s" "it_trap t = it_trap s"
  | (ran) expression u where "li_steps (it_used s) < li_steps (rq_limits rq)"
      "li_steps (it_used u) = Suc (li_steps (it_used s))" "it_trap u = it_trap s"
      "run_state (evaluate_kind rq (evaluate n rq) (Suc n) expression) u = (r, t)"
proof (cases "e \<ge> length (ir_expressions (rq_ir rq))")
  case True
  with assms refused show ?thesis by (auto simp: diagnostic_def split: prod.splits if_splits)
next
  case False
  let ?x = "ir_expressions (rq_ir rq) ! e"
  obtain ok u where step: "run_state (consume_step rq (ex_span ?x) ''step'') s = (ok, u)"
    by (metis prod.exhaust)
  from consume_step_cases [OF step] step assms False refused ran [of u ?x] show ?thesis
    by (cases ok) (auto simp: Let_def)
qed

lemma steps_mono_kind:
  assumes "\<And>e. state_io_rel (fuel_step rq m) (ev e)"
    and "\<And>st. state_io_rel (fuel_step rq m) (run_loop fuel rq ev st)"
    and "run_state (evaluate_kind rq ev fuel expression) s = (r, t)"
  shows "fuel_step rq m s t"
  using machine_step.evaluate_kind_io [OF fuel.machine_stepI, OF assms(1,2)] assms(3) by blast

text \<open>Fuel 0 in the relation says only that the step counter never decreases.\<close>

lemma evaluate_steps_mono: "state_io_rel (fuel_step rq 0) (evaluate n rq e)"
  by (rule fuel.evaluate_io) (auto simp: state_io_rel_def trap_def fuel_step_def)

lemma evaluate_progress:
  assumes "run_state (evaluate n rq e) s = (r, t)" and "fst r \<noteq> FLOW_ERROR"
  shows "steps_left rq t < steps_left rq s"
proof (cases n)
  case 0
  with assms show ?thesis by (auto split: prod.splits)
next
  case (Suc m)
  from assms(1) [unfolded Suc] assms(2) show ?thesis
  proof (cases rule: evaluate_Suc_cases)
    case (ran expression u)
    have "state_io_rel (fuel_step rq 0) (run_loop (Suc m) rq (evaluate m rq) st)" for st
      by (rule fuel.run_loop_io [OF _ evaluate_steps_mono])
        (auto simp: state_io_rel_def trap_def fuel_step_def)
    from steps_mono_kind [OF evaluate_steps_mono this ran(4)] ran(1,2) show ?thesis
      by (simp add: fuel_step_def steps_left_def)
  qed simp
qed

lemma run_loop_fuel:
  assumes "\<And>e. state_io_rel (fuel_step rq n) (evaluate n rq e)"
  shows "run_state (run_loop m rq (evaluate n rq) statement) s = (r, t) \<Longrightarrow>
    li_steps (it_used s) \<le> li_steps (it_used t) \<and>
    (steps_left rq s < m \<and> steps_left rq s < n \<and> it_trap s \<noteq> Some TRAP_FUEL \<longrightarrow>
      it_trap t \<noteq> Some TRAP_FUEL)"
proof (induction m arbitrary: s r t)
  case 0
  then show ?case by (auto simp: trap_def)
next
  case (Suc m)
  note ev = state_io_relD [OF assms, unfolded fuel_step_def]
  have next_round: "li_steps (it_used s) \<le> li_steps (it_used t) \<and>
      (steps_left rq s < Suc m \<and> steps_left rq s < n \<and> it_trap s \<noteq> Some TRAP_FUEL \<longrightarrow>
        it_trap t \<noteq> Some TRAP_FUEL)"
    if "run_state (evaluate n rq e) s = (f, u)" and "fst f \<noteq> FLOW_ERROR"
      and "li_steps (it_used u) \<le> li_steps (it_used t)"
      and "steps_left rq u < m \<and> steps_left rq u < n \<and> it_trap u \<noteq> Some TRAP_FUEL \<longrightarrow>
        it_trap t \<noteq> Some TRAP_FUEL" for e f u s
    using ev [OF that(1)] evaluate_progress [OF that(1,2)] that(3,4) by linarith
  have body: "li_steps (it_used s) \<le> li_steps (it_used t) \<and>
      (steps_left rq s < Suc m \<and> steps_left rq s < n \<and> it_trap s \<noteq> Some TRAP_FUEL \<longrightarrow>
        it_trap t \<noteq> Some TRAP_FUEL)"
    if run: "run_state (do {
        loop \<leftarrow> evaluate n rq (st_expression statement);
        (case fst loop of
           FLOW_BREAK \<Rightarrow> ret flow_unit
         | FLOW_CONTINUE \<Rightarrow> run_loop m rq (evaluate n rq) statement
         | FLOW_VALUE \<Rightarrow> run_loop m rq (evaluate n rq) statement
         | _ \<Rightarrow> ret loop) }) s = (r, t)" for s
  proof -
    obtain f u where f: "run_state (evaluate n rq (st_expression statement)) s = (f, u)"
      by (metis prod.exhaust)
    show ?thesis
      using run f ev [OF f] Suc.IH [of u r t] next_round [OF f]
      by (cases "fst f") auto
  qed
  show ?case
  proof (cases "st_kind statement = SOL_IR_STATEMENT_WHILE")
    case False
    with Suc.prems show ?thesis by (intro body) (simp add: Let_def)
  next
    case True
    obtain f u where f: "run_state (evaluate n rq (st_condition statement)) s = (f, u)"
      by (metis prod.exhaust)
    show ?thesis
    proof (cases "fst f")
      case FLOW_VALUE
      show ?thesis
      proof (cases "snd f = VALUE_BOOL True")
        case cond: True
        with True FLOW_VALUE Suc.prems f ev [OF f] steps_left_mono [of s u rq] body [of u]
        show ?thesis by (simp add: Let_def)
      next
        case False
        with True FLOW_VALUE Suc.prems f have "it_trap t = it_trap u \<and> it_used t = it_used u"
          by (cases "snd f") (auto simp: Let_def diagnostic_def split: prod.splits if_splits bool.splits)
        with ev [OF f] show ?thesis by simp
      qed
    next
      case FLOW_CONTINUE
      with True Suc.prems f Suc.IH [of u r t] next_round [OF f] show ?thesis by (simp add: Let_def)
    qed (use True Suc.prems f ev [OF f] in \<open>auto simp: Let_def\<close>)
  qed
qed

lemma evaluate_fuel: "state_io_rel (fuel_step rq n) (evaluate n rq e)"
proof (induction n arbitrary: e)
  case 0
  show ?case by (auto simp: state_io_rel_def trap_def fuel_step_def)
next
  case (Suc n)
  show ?case
  proof (rule state_io_relI)
    fix s r t
    assume "run_state (evaluate (Suc n) rq e) s = (r, t)"
    then show "fuel_step rq (Suc n) s t"
    proof (cases rule: evaluate_Suc_cases)
      case refused
      then show ?thesis by (simp add: fuel_step_def)
    next
      case (ran expression u)
      have "state_io_rel (fuel_step rq n) (run_loop (Suc n) rq (evaluate n rq) st)" for st
        using run_loop_fuel [OF Suc.IH, where m = "Suc n" and statement = st]
        by (intro state_io_relI) (fastforce simp: fuel_step_def)
      from steps_mono_kind [OF Suc.IH this ran(4)] ran(1-3) show ?thesis
        by (auto simp: fuel_step_def steps_left_def)
    qed
  qed
qed

section \<open>Property\<close>

text \<open>
  C1. The interpreter terminates on every request: with fuel one above the step limit
  neither the recursion of \<open>evaluate\<close> nor a \<open>loop\<close> or \<open>while\<close> statement runs out of fuel,
  whatever the IR, the arguments, the host operations and the allocator do. The step limit
  is what bounds execution; no property of the program is needed.
\<close>

theorem sol_interpret_terminates:
  "it_trap (snd (run_state (sol_interpret ir_valid rq) (initial_state fails host))) \<noteq> Some TRAP_FUEL"
proof -
  have "fuel_step (normalized rq) (enough_fuel rq) (initial_state fails host)
      (snd (run_state (sol_interpret ir_valid rq) (initial_state fails host)))"
    using fuel.sol_interpret_impl_io [OF refl evaluate_fuel]
    unfolding sol_interpret_def state_io_rel_def by blast
  then show ?thesis
    by (auto simp: fuel_step_def steps_left_def enough_fuel_def initial_state_def)
qed

end
