(* ===== verification/Sol_Frames.thy ===== *)
theory Sol_Frames
  imports Sol_Sample
begin

text \<open>
  The binding discipline of a frame. \<open>frame_ok\<close> is the invariant of \<open>struct Frame\<close>: the five
  arrays have one entry per local, \<open>binding_order\<close> lists the registered locals without
  repetition, and only registered locals are bound. Binding, declaring and cleaning up the
  most recent binding keep it; releasing a frame that satisfies it ends, and cleans up every
  local. Cleaning up any other binding leaves a stale entry on which \<open>frame_release\<close> loops.
\<close>

definition frame_ok :: "SolIr \<Rightarrow> Frame \<Rightarrow> bool" where
  "frame_ok ir f \<longleftrightarrow>
     (let n = length (ir_locals ir) in
      length (fr_locals f) = n \<and> length (fr_bound f) = n \<and> length (fr_registered f) = n \<and>
      length (fr_roots f) = n \<and> length (fr_known f) = n \<and> distinct (fr_order f) \<and>
      (\<forall>l. l \<in> set (fr_order f) \<longleftrightarrow> l < n \<and> fr_registered f ! l) \<and>
      (\<forall>l < n. fr_bound f ! l \<longrightarrow> fr_registered f ! l))"

lemma frame_ok_lengths:
  assumes "frame_ok ir f"
  shows "length (fr_locals f) = length (ir_locals ir)" "length (fr_bound f) = length (ir_locals ir)"
    "length (fr_registered f) = length (ir_locals ir)" "length (fr_roots f) = length (ir_locals ir)"
    "length (fr_known f) = length (ir_locals ir)"
  using assms by (simp_all add: frame_ok_def Let_def)

lemma frame_ok_room:
  assumes "frame_ok ir f" and "l < length (ir_locals ir)" and "\<not> fr_registered f ! l"
  shows "length (fr_order f) < length (ir_locals ir)"
proof -
  have "set (fr_order f) \<subset> {..<length (ir_locals ir)}"
    using assms by (auto simp: frame_ok_def Let_def)
  then have "card (set (fr_order f)) < card {..<length (ir_locals ir)}"
    by (intro psubset_card_mono) auto
  then show ?thesis using assms(1) by (simp add: frame_ok_def Let_def distinct_card)
qed

lemma frame_ok_note_authority [simp]: "frame_ok ir (note_authority l v f) = frame_ok ir f"
  by (simp add: note_authority_def frame_ok_def Let_def split: option.split)

lemma frame_ok_register:
  assumes "frame_ok ir f" and "l < length (ir_locals ir)" and "\<not> fr_registered f ! l"
  shows "frame_ok ir (f\<lparr>fr_registered := (fr_registered f)[l := True], fr_order := l # fr_order f\<rparr>)"
  using assms by (auto simp: frame_ok_def Let_def nth_list_update)

lemma frame_ok_bind:
  assumes "frame_ok ir f" and "l < length (ir_locals ir)" and "fr_registered f ! l"
  shows "frame_ok ir (f\<lparr>fr_locals := (fr_locals f)[l := v], fr_bound := (fr_bound f)[l := True]\<rparr>)"
  using assms by (auto simp: frame_ok_def Let_def nth_list_update)

lemma deref_in_range [simp]: "i < length xs \<Longrightarrow> deref xs i = ret (xs ! i)"
  by (simp add: deref_def)

lemma frame_ok_empty:
  "frame_ok ir (empty_frame\<lparr>fr_locals := replicate (length (ir_locals ir)) VALUE_INVALID,
     fr_bound := replicate (length (ir_locals ir)) False,
     fr_registered := replicate (length (ir_locals ir)) False,
     fr_roots := replicate (length (ir_locals ir)) NULL,
     fr_known := replicate (length (ir_locals ir)) False\<rparr>)"
  by (simp add: frame_ok_def Let_def empty_frame_def)

section \<open>Cleanup\<close>

definition owned_bound :: "SolIr \<Rightarrow> Frame \<Rightarrow> size_t \<Rightarrow> bool" where
  "owned_bound ir f l \<longleftrightarrow> fr_bound f ! l \<and> lo_access (ir_locals ir ! l) = SOL_ACCESS_OWNED"

text \<open>
  Only the frames of called bodies set \<open>observe_cleanup\<close>; the frames of contracts, refinements
  and operations do not, and clean up without an action.
\<close>

definition acts_on :: "SolIr \<Rightarrow> Frame \<Rightarrow> size_t \<Rightarrow> bool" where
  "acts_on ir f l \<longleftrightarrow> fr_observe f \<and> owned_bound ir f l"

definition cleaned :: "Frame \<Rightarrow> size_t \<Rightarrow> size_t list \<Rightarrow> Frame" where
  "cleaned f l rest = (if fr_bound f ! l then f\<lparr>fr_locals := (fr_locals f)[l := VALUE_INVALID],
      fr_bound := (fr_bound f)[l := False], fr_roots := (fr_roots f)[l := NULL],
      fr_known := (fr_known f)[l := False]\<rparr> else f)
     \<lparr>fr_registered := (fr_registered f)[l := False], fr_order := rest\<rparr>"

lemma cleaned_ok:
  assumes "frame_ok ir f" and "fr_order f = l # rest"
  shows "frame_ok ir (cleaned f l rest)"
proof -
  from assms have l: "l < length (ir_locals ir)" "l \<notin> set rest"
    and rest: "x \<in> set rest \<longleftrightarrow> x \<noteq> l \<and> x < length (ir_locals ir) \<and> fr_registered f ! x" for x
    by (auto simp: frame_ok_def Let_def)
  with assms show ?thesis
    by (cases "fr_bound f ! l") (auto simp: cleaned_def frame_ok_def Let_def nth_list_update rest)
qed

lemma cleanup_most_recent:
  assumes "frame_ok (rq_ir rq) f" and "fr_order f = l # rest"
  shows "run_state (cleanup_binding rq l f) s =
    (cleaned f l rest,
     if acts_on (rq_ir rq) f l then snd (run_state (cleanup_action rq l) s) else s)"
proof -
  from assms have "l < length (ir_locals (rq_ir rq))" "fr_registered f ! l"
    by (auto simp: frame_ok_def Let_def)
  with assms show ?thesis
    by (auto simp: cleanup_binding_def cleanup_local_def frame_ok_lengths cleaned_def
        acts_on_def owned_bound_def cleanup_action_def Let_def)
qed

lemma release_loop_ok:
  assumes "frame_ok (rq_ir rq) f" and "n = length (fr_order f)"
    and "run_state (release_loop n rq f) s = (f', t)"
  shows "frame_ok (rq_ir rq) f' \<and> fr_order f' = [] \<and> it_trap t = it_trap s \<and>
    it_cleanup_actions t = it_cleanup_actions s + length (filter (acts_on (rq_ir rq) f) (fr_order f))"
  using assms
proof (induction n arbitrary: f s)
  case 0
  then show ?case by simp
next
  case (Suc n)
  then obtain l rest where order: "fr_order f = l # rest" by (cases "fr_order f") auto
  let ?g = "cleaned f l rest"
  let ?u = "if acts_on (rq_ir rq) f l then snd (run_state (cleanup_action rq l) s) else s"
  have rest: "fr_order ?g = rest" by (simp add: cleaned_def)
  have run: "run_state (release_loop n rq ?g) ?u = (f', t)"
    using Suc.prems(3) cleanup_most_recent [OF Suc.prems(1) order, of s] order rest by simp
  have same: "filter (acts_on (rq_ir rq) ?g) rest = filter (acts_on (rq_ir rq) f) rest"
  proof (intro filter_cong refl)
    fix x assume "x \<in> set rest"
    moreover have "l \<notin> set rest" using Suc.prems(1) order by (simp add: frame_ok_def Let_def)
    ultimately have "x \<noteq> l" by blast
    then show "acts_on (rq_ir rq) ?g x = acts_on (rq_ir rq) f x"
      by (simp add: acts_on_def owned_bound_def cleaned_def)
  qed
  have "it_trap ?u = it_trap s \<and> it_cleanup_actions ?u = it_cleanup_actions s
      + (if acts_on (rq_ir rq) f l then 1 else 0)"
    by (simp add: cleanup_action_def)
  with Suc.IH [OF cleaned_ok [OF Suc.prems(1) order] _ run] Suc.prems(2) order rest same
  show ?case by auto
qed

section \<open>Properties\<close>

text \<open>
  C12. Releasing a frame that satisfies the binding invariant ends without touching
  memory it does not own and leaves no local bound or registered. A frame with
  \<open>observe_cleanup\<close> set, as the frame of a called body has it, performs exactly one cleanup
  action for each owned local that is still bound; a frame without it, as those of contracts,
  refinements and operations, performs none.
\<close>

theorem frame_release_complete:
  assumes "frame_ok (rq_ir rq) f" and "run_state (frame_release rq f) s = (f', t)"
  shows "it_trap t = it_trap s \<and> (\<forall>l < length (ir_locals (rq_ir rq)). \<not> fr_registered f' ! l \<and> \<not> fr_bound f' ! l) \<and>
    it_cleanup_actions t = it_cleanup_actions s
      + (if fr_observe f then card {l. l < length (ir_locals (rq_ir rq)) \<and> owned_bound (rq_ir rq) f l} else 0)"
proof -
  note ok = release_loop_ok [OF assms(1) refl assms(2) [unfolded frame_release_def]]
  have "{l. l < length (ir_locals (rq_ir rq)) \<and> acts_on (rq_ir rq) f l}
      = set (filter (acts_on (rq_ir rq) f) (fr_order f))"
    using assms(1) by (auto simp: frame_ok_def acts_on_def owned_bound_def Let_def)
  then have "card {l. l < length (ir_locals (rq_ir rq)) \<and> acts_on (rq_ir rq) f l}
      = length (filter (acts_on (rq_ir rq) f) (fr_order f))"
    using assms(1) by (metis distinct_card distinct_filter frame_ok_def)
  with ok show ?thesis by (auto simp: frame_ok_def acts_on_def Let_def)
qed

text \<open>A frame of \<open>add\<close> with both parameters bound; both are owned, so two actions run.\<close>

definition add_frame :: Frame where
  "add_frame = empty_frame\<lparr>fr_locals := [VALUE_INT64 2, VALUE_INT64 5], fr_bound := [True, True],
     fr_registered := [True, True], fr_roots := [NULL, NULL], fr_known := [False, False],
     fr_order := [1, 0], fr_observe := True\<rparr>"

lemma add_frame_ok: "frame_ok add_ir add_frame"
  by (auto simp: frame_ok_def add_frame_def add_ir_def less_Suc_eq numeral_2_eq_2 nth_Cons')

theorem frame_release_complete_witness:
  "frame_ok add_ir add_frame \<and>
   it_cleanup_actions (snd (run_state (frame_release (add_request 2 5) add_frame)
     (initial_state no_failures ()))) = 2"
proof -
  let ?run = "run_state (frame_release (add_request 2 5) add_frame) (initial_state no_failures ())"
  have ir: "rq_ir (add_request 2 5) = add_ir" by (simp add: add_request_def)
  have "{l. l < length (ir_locals add_ir) \<and> owned_bound add_ir add_frame l} = {0, 1}"
    by (auto simp: add_ir_def add_frame_def owned_bound_def less_Suc_eq numeral_2_eq_2)
  with frame_release_complete [of "add_request 2 5" add_frame "initial_state no_failures ()"
      "fst ?run" "snd ?run"] add_frame_ok ir
  have "it_cleanup_actions (snd ?run) = it_cleanup_actions (initial_state no_failures ()) + 2"
    by (simp add: add_frame_def)
  with add_frame_ok show ?thesis by (simp add: initial_state_def)
qed

end
