(* ===== verification/Sol_Digest.thy ===== *)
theory Sol_Digest
  imports Sol_Prelude
begin

text \<open>
  The SHA-256 of \<open>src/src/mir_linkage_digest.c\<close>: a streaming hash whose compression function
  is unrolled eight rounds at a time, whose padding is written in runs of zeros, and whose
  work is metered. The file holds straightforward versions of both for its self test
  (\<open>sha256_reference_transform\<close>, \<open>sha256_tail_reference_finish\<close>); here the equality the self test
  samples is proved for all states, and the stream is shown to compute the hash function of
  the standard on the concatenation of everything written.
\<close>

unbundle bit_operations_syntax

type_synonym uint32 = "32 word"
type_synonym uint8 = "8 word"

definition UINT64_MAX :: nat where
  "UINT64_MAX = 2 ^ 64 - 1"

section \<open>Work meter\<close>

record SolMirLinkageWorkMeter =
  wm_used :: size_t
  wm_limit :: size_t
  wm_exhausted :: bool

definition sol_mir_linkage_internal_work_tick ::
    "SolMirLinkageWorkMeter option \<Rightarrow> size_t \<Rightarrow> bool \<times> SolMirLinkageWorkMeter option" where
  "sol_mir_linkage_internal_work_tick meter amount = (case meter of
      None \<Rightarrow> (True, None)
    | Some m \<Rightarrow>
        if amount > size_sub SIZE_MAX (wm_used m) \<or> wm_used m + amount > wm_limit m
        then (False, Some (m\<lparr>wm_exhausted := True\<rparr>))
        else (True, Some (m\<lparr>wm_used := wm_used m + amount\<rparr>)))"

section \<open>Compression\<close>

text \<open>
  \<open>sha_used\<close> counts the bytes of \<open>sha_block\<close> that are filled. \<open>bits\<close> is a \<open>uint64_t\<close> that the code
  never lets wrap, so a natural number holds it.
\<close>

record SolMirLinkageSha256 =
  sha_state :: "uint32 list"
  sha_bits :: nat
  sha_block :: "uint8 list"
  sha_used :: size_t
  sha_valid :: bool
  sha_work :: "SolMirLinkageWorkMeter option"

definition sha256_k :: "uint32 list" where
  "sha256_k = concat [
    [0x428a2f98, 0x71374491, 0xb5c0fbcf, 0xe9b5dba5],
    [0x3956c25b, 0x59f111f1, 0x923f82a4, 0xab1c5ed5],
    [0xd807aa98, 0x12835b01, 0x243185be, 0x550c7dc3],
    [0x72be5d74, 0x80deb1fe, 0x9bdc06a7, 0xc19bf174],
    [0xe49b69c1, 0xefbe4786, 0x0fc19dc6, 0x240ca1cc],
    [0x2de92c6f, 0x4a7484aa, 0x5cb0a9dc, 0x76f988da],
    [0x983e5152, 0xa831c66d, 0xb00327c8, 0xbf597fc7],
    [0xc6e00bf3, 0xd5a79147, 0x06ca6351, 0x14292967],
    [0x27b70a85, 0x2e1b2138, 0x4d2c6dfc, 0x53380d13],
    [0x650a7354, 0x766a0abb, 0x81c2c92e, 0x92722c85],
    [0xa2bfe8a1, 0xa81a664b, 0xc24b8b70, 0xc76c51a3],
    [0xd192e819, 0xd6990624, 0xf40e3585, 0x106aa070],
    [0x19a4c116, 0x1e376c08, 0x2748774c, 0x34b0bcb5],
    [0x391c0cb3, 0x4ed8aa4a, 0x5b9cca4f, 0x682e6ff3],
    [0x748f82ee, 0x78a5636f, 0x84c87814, 0x8cc70208],
    [0x90befffa, 0xa4506ceb, 0xbef9a3f7, 0xc67178f2]]"

definition sha256_ror :: "uint32 \<Rightarrow> nat \<Rightarrow> uint32" where
  "sha256_ror v n = drop_bit n v OR push_bit (32 - n) v"

definition block_word :: "uint8 list \<Rightarrow> nat \<Rightarrow> uint32" where
  "block_word block i =
     push_bit 24 (ucast (block ! (i * 4))) OR push_bit 16 (ucast (block ! (i * 4 + 1)))
     OR push_bit 8 (ucast (block ! (i * 4 + 2))) OR ucast (block ! (i * 4 + 3))"

text \<open>One step of the loop that extends the sixteen message words to sixty-four.\<close>

definition next_word :: "uint32 list \<Rightarrow> uint32" where
  "next_word words =
     (let i = length words; a = words ! (i - 15); b = words ! (i - 2);
          s0 = sha256_ror a 7 XOR sha256_ror a 18 XOR drop_bit 3 a;
          s1 = sha256_ror b 17 XOR sha256_ror b 19 XOR drop_bit 10 b in
      words ! (i - 16) + s0 + words ! (i - 7) + s1)"

primrec extend_words :: "nat \<Rightarrow> uint32 list \<Rightarrow> uint32 list" where
  "extend_words 0 words = words"
| "extend_words (Suc n) words = extend_words n (words @ [next_word words])"

definition message_words :: "uint8 list \<Rightarrow> uint32 list" where
  "message_words block = extend_words 48 (map (block_word block) [0..<16])"

text \<open>The two sums of a round, \<open>t1\<close> and \<open>t2\<close>, shared by both compression functions.\<close>

definition round_t1 :: "uint32 \<Rightarrow> uint32 \<Rightarrow> uint32 \<Rightarrow> uint32 \<Rightarrow> uint32 \<Rightarrow> uint32 \<Rightarrow> uint32" where
  "round_t1 e f g h k w =
     (let s1 = sha256_ror e 6 XOR sha256_ror e 11 XOR sha256_ror e 25;
          choice = (e AND f) XOR (NOT e AND g) in
      h + s1 + choice + k + w)"

definition round_t2 :: "uint32 \<Rightarrow> uint32 \<Rightarrow> uint32 \<Rightarrow> uint32" where
  "round_t2 a b c =
     (let s0 = sha256_ror a 2 XOR sha256_ror a 13 XOR sha256_ror a 22;
          majority = (a AND b) XOR (a AND c) XOR (b AND c) in
      s0 + majority)"

type_synonym registers =
  "uint32 \<times> uint32 \<times> uint32 \<times> uint32 \<times> uint32 \<times> uint32 \<times> uint32 \<times> uint32"

text \<open>The reference round renames the eight registers after each round.\<close>

fun reference_round :: "uint32 list \<Rightarrow> nat \<Rightarrow> registers \<Rightarrow> registers" where
  "reference_round words i (a, b, c, d, e, f, g, h) =
     (let t1 = round_t1 e f g h (sha256_k ! i) (words ! i); t2 = round_t2 a b c in
      (t1 + t2, a, b, c, d + t1, e, f, g))"

text \<open>\<open>SHA256_ROUND\<close>: the new values of the registers at its positions \<open>d\<close> and \<open>h\<close>.\<close>

definition sha256_round ::
    "uint32 list \<Rightarrow> uint32 \<Rightarrow> uint32 \<Rightarrow> uint32 \<Rightarrow> uint32 \<Rightarrow> uint32 \<Rightarrow> uint32 \<Rightarrow> uint32 \<Rightarrow> uint32 \<Rightarrow> nat \<Rightarrow>
     uint32 \<times> uint32" where
  "sha256_round words a b c d e f g h i =
     (let t1 = round_t1 e f g h (sha256_k ! i) (words ! i); t2 = round_t2 a b c in
      (d + t1, t1 + t2))"

text \<open>The body of the unrolled loop: eight rounds with rotated register names.\<close>

fun eight_rounds :: "uint32 list \<Rightarrow> nat \<Rightarrow> registers \<Rightarrow> registers" where
  "eight_rounds words i (a, b, c, d, e, f, g, h) =
     (let (d, h) = sha256_round words a b c d e f g h i;
          (c, g) = sha256_round words h a b c d e f g (i + 1);
          (b, f) = sha256_round words g h a b c d e f (i + 2);
          (a, e) = sha256_round words f g h a b c d e (i + 3);
          (h, d) = sha256_round words e f g h a b c d (i + 4);
          (g, c) = sha256_round words d e f g h a b c (i + 5);
          (f, b) = sha256_round words c d e f g h a b (i + 6);
          (e, a) = sha256_round words b c d e f g h a (i + 7) in
      (a, b, c, d, e, f, g, h))"

definition load_registers :: "uint32 list \<Rightarrow> registers" where
  "load_registers st = (st ! 0, st ! 1, st ! 2, st ! 3, st ! 4, st ! 5, st ! 6, st ! 7)"

fun add_registers :: "uint32 list \<Rightarrow> registers \<Rightarrow> uint32 list" where
  "add_registers st (a, b, c, d, e, f, g, h) =
     [st ! 0 + a, st ! 1 + b, st ! 2 + c, st ! 3 + d, st ! 4 + e, st ! 5 + f, st ! 6 + g, st ! 7 + h]"

text \<open>Both functions tick the meter by 128 first and mark the hash invalid when it refuses.\<close>

definition metered_transform ::
    "(uint32 list \<Rightarrow> uint8 list \<Rightarrow> uint32 list) \<Rightarrow> SolMirLinkageSha256 \<Rightarrow> uint8 list \<Rightarrow> SolMirLinkageSha256" where
  "metered_transform compress sha block =
     (let (ok, work) = sol_mir_linkage_internal_work_tick (sha_work sha) 128 in
      if \<not> ok then sha\<lparr>sha_work := work, sha_valid := False\<rparr>
      else sha\<lparr>sha_work := work, sha_state := compress (sha_state sha) block\<rparr>)"

definition reference_compress :: "uint32 list \<Rightarrow> uint8 list \<Rightarrow> uint32 list" where
  "reference_compress st block = add_registers st
     (fold (reference_round (message_words block)) [0..<64] (load_registers st))"

definition unrolled_compress :: "uint32 list \<Rightarrow> uint8 list \<Rightarrow> uint32 list" where
  "unrolled_compress st block = add_registers st
     (fold (eight_rounds (message_words block)) (map (\<lambda>n. 8 * n) [0..<8]) (load_registers st))"

definition sha256_reference_transform :: "SolMirLinkageSha256 \<Rightarrow> uint8 list \<Rightarrow> SolMirLinkageSha256" where
  "sha256_reference_transform = metered_transform reference_compress"

definition sha256_transform :: "SolMirLinkageSha256 \<Rightarrow> uint8 list \<Rightarrow> SolMirLinkageSha256" where
  "sha256_transform = metered_transform unrolled_compress"

section \<open>Stream\<close>

definition sha256_init :: SolMirLinkageSha256 where
  "sha256_init = \<lparr>
     sha_state = [0x6a09e667, 0xbb67ae85, 0x3c6ef372] @ [0xa54ff53a, 0x510e527f, 0x9b05688c]
       @ [0x1f83d9ab, 0x5be0cd19],
     sha_bits = 0, sha_block = replicate 64 0, sha_used = 0, sha_valid = True, sha_work = None \<rparr>"

text \<open>\<open>memcpy\<close> and \<open>memset\<close> into the block at the fill position.\<close>

definition fill_block :: "uint8 list \<Rightarrow> SolMirLinkageSha256 \<Rightarrow> SolMirLinkageSha256" where
  "fill_block data sha = sha\<lparr>
     sha_block := take (sha_used sha) (sha_block sha) @ data
       @ drop (sha_used sha + length data) (sha_block sha),
     sha_used := sha_used sha + length data\<rparr>"

text \<open>What follows a copy: a full block is compressed and the fill position reset.\<close>

definition flush_block :: "SolMirLinkageSha256 \<Rightarrow> SolMirLinkageSha256" where
  "flush_block sha =
     (if sha_used sha = 64 then (sha256_transform sha (sha_block sha))\<lparr>sha_used := 0\<rparr> else sha)"

text \<open>
  The copying loop. The fill position never exceeds the block (\<open>sha_ok\<close> below); beyond it the C
  code would copy outside the block, and the first branch stands for that.
\<close>

function write_loop :: "uint8 list \<Rightarrow> SolMirLinkageSha256 \<Rightarrow> SolMirLinkageSha256" where
  "write_loop data sha =
     (if data = [] \<or> sha_used sha > 64 then sha
      else
        (let available = 64 - sha_used sha;
             n = (if length data < available then length data else available);
             sha' = flush_block (fill_block (take n data) sha) in
         if sha_used sha + n = 64 \<and> \<not> sha_valid sha' then sha'
         else write_loop (drop n data) sha'))"
  by auto

lemma transform_used [simp]: "sha_used (sha256_transform sha block) = sha_used sha"
  by (simp add: sha256_transform_def metered_transform_def split: prod.split)

lemma flush_block_used: "sha_used (flush_block sha) = (if sha_used sha = 64 then 0 else sha_used sha)"
  by (simp add: flush_block_def)

lemma fill_block_used [simp]: "sha_used (fill_block data sha) = sha_used sha + length data"
  by (simp add: fill_block_def)

termination write_loop
proof (relation "measure (\<lambda>(data, sha). length data + (if sha_used sha = 64 then 1 else 0))")
  fix data :: "uint8 list" and sha :: SolMirLinkageSha256 and available n sha'
  assume step: "\<not> (data = [] \<or> sha_used sha > 64)" "available = 64 - sha_used sha"
    "n = (if length data < available then length data else available)"
    "sha' = flush_block (fill_block (take n data) sha)"
  then have "sha_used sha' = (if sha_used sha + n = 64 then 0 else sha_used sha + n)"
    by (simp add: flush_block_used min_def)
  with step show "((drop n data, sha'), data, sha)
      \<in> measure (\<lambda>(data, sha). length data + (if sha_used sha = 64 then 1 else 0))"
    by (auto split: if_splits)
qed simp

declare write_loop.simps [simp del]

definition sha256_write :: "SolMirLinkageSha256 \<Rightarrow> uint8 list \<Rightarrow> SolMirLinkageSha256" where
  "sha256_write sha data =
     (if \<not> sha_valid sha \<or> length data > (UINT64_MAX - sha_bits sha) div 8
      then sha\<lparr>sha_valid := False\<rparr>
      else
        (let (ok, work) = sol_mir_linkage_internal_work_tick (sha_work sha) (length data) in
         if \<not> ok then sha\<lparr>sha_work := work, sha_valid := False\<rparr>
         else write_loop data
           (sha\<lparr>sha_work := work, sha_bits := sha_bits sha + length data * 8\<rparr>)))"

lemma write_loop_Nil [simp]: "write_loop [] sha = sha"
  by (simp add: write_loop.simps)

lemma write_loop_one:
  "sha_used sha < 64 \<Longrightarrow> write_loop [b] sha = flush_block (fill_block [b] sha)"
  by (subst write_loop.simps) (simp add: Let_def)

lemma fill_block_Nil [simp]: "fill_block [] sha = sha"
  by (simp add: fill_block_def)

lemma write_loop_full:
  "sha_used sha = 64 \<Longrightarrow> data \<noteq> [] \<Longrightarrow> write_loop data sha =
     (if \<not> sha_valid (flush_block sha) then flush_block sha else write_loop data (flush_block sha))"
  by (subst write_loop.simps) (simp add: Let_def)

lemma write_one_used:
  assumes "sha_used sha \<le> 64" and "sha_valid (sha256_write sha [b])"
  shows "sha_used (sha256_write sha [b])
    = (if sha_used sha = 64 then 1 else if sha_used sha = 63 then 0 else sha_used sha + 1)"
proof -
  obtain ok work where tick: "sol_mir_linkage_internal_work_tick (sha_work sha) 1 = (ok, work)"
    by (metis prod.exhaust)
  let ?s = "sha\<lparr>sha_work := work, sha_bits := sha_bits sha + 8\<rparr>"
  from assms(2) tick have run: "sha256_write sha [b] = write_loop [b] ?s"
    by (auto simp: sha256_write_def split: if_splits)
  show ?thesis
  proof (cases "sha_used sha = 64")
    case True
    with assms(2) run have "sha256_write sha [b] = write_loop [b] (flush_block ?s)"
      by (auto simp: write_loop_full split: if_splits)
    with True show ?thesis by (simp add: write_loop_one flush_block_used)
  next
    case False
    with assms(1) run show ?thesis by (simp add: write_loop_one flush_block_used)
  qed
qed

lemma pad_measure:
  "(n::nat) \<le> 64 \<Longrightarrow> n \<noteq> 56 \<Longrightarrow>
   (120 - (if n = 64 then 1 else if n = 63 then 0 else n + 1)) mod 64 < (120 - n) mod 64"
  by (cases "n < 56") (auto simp: mod_if)

text \<open>
  Padding. \<open>state_start\<close> and \<open>work_start\<close> are the addresses of the hash and of its meter: the run of
  zeros is only taken when the two objects do not overlap and the meter has room for it.
\<close>

definition sizeof_Sha256 :: nat where "sizeof_Sha256 = 128"
definition sizeof_WorkMeter :: nat where "sizeof_WorkMeter = 24"

definition zero_run :: "SolMirLinkageSha256 \<Rightarrow> nat" where
  "zero_run sha = (if sha_used sha < 56 then 56 - sha_used sha else 64 - sha_used sha)"

definition run_admitted :: "nat \<Rightarrow> nat \<Rightarrow> SolMirLinkageSha256 \<Rightarrow> bool" where
  "run_admitted state_start work_start sha =
     (sha_valid sha \<and> zero_run sha \<le> (UINT64_MAX - sha_bits sha) div 8 \<and>
      (case sha_work sha of
         None \<Rightarrow> True
       | Some m \<Rightarrow>
           state_start \<le> UINT64_MAX - sizeof_Sha256 \<and> work_start \<le> UINT64_MAX - sizeof_WorkMeter \<and>
           (state_start + sizeof_Sha256 \<le> work_start \<or> work_start + sizeof_WorkMeter \<le> state_start) \<and>
           wm_used m \<le> wm_limit m \<and> zero_run sha \<le> wm_limit m - wm_used m))"

text \<open>
  The padding loop: \<open>None\<close> on the early \<open>return false\<close>. As in \<open>write_loop\<close> the first branch stands
  for a fill position beyond the block.
\<close>

function (sequential) pad_loop :: "nat \<Rightarrow> nat \<Rightarrow> SolMirLinkageSha256 \<Rightarrow> bool \<times> SolMirLinkageSha256" where
  "pad_loop state_start work_start sha =
     (if sha_used sha > 64 then (False, sha)
      else if sha_used sha = 56 then (True, sha)
      else
        (let n = zero_run sha;
             admitted = (sha_used sha < 64 \<and> run_admitted state_start work_start sha);
             (ok, work) = (if admitted then sol_mir_linkage_internal_work_tick (sha_work sha) n
                           else (False, sha_work sha)) in
         if ok then
           (let sha' = flush_block (fill_block (replicate n 0)
                  (sha\<lparr>sha_work := work, sha_bits := sha_bits sha + n * 8\<rparr>)) in
            if sha_used sha + n = 64 \<and> \<not> sha_valid sha' then (False, sha')
            else pad_loop state_start work_start sha')
         else
           (let sha' = sha256_write (sha\<lparr>sha_work := work\<rparr>) [0] in
            if \<not> sha_valid sha' then (False, sha') else pad_loop state_start work_start sha')))"
  by pat_completeness auto

termination pad_loop
proof (relation "measure (\<lambda>(_, _, sha). (120 - sha_used sha) mod 64)", goal_cases)
  case 1
  show ?case by simp
next
  case (2 state_start work_start sha n admitted x ok work sha')
  then have "sha_used sha < 64" by (auto split: if_splits)
  with 2 show ?case by (auto simp: flush_block_used zero_run_def mod_if)
next
  case (3 state_start work_start sha n admitted x ok work sha')
  then show ?case
    using pad_measure [of "sha_used sha"] write_one_used [of "sha\<lparr>sha_work := work\<rparr>" 0] by auto
qed
declare pad_loop.simps [simp del]

definition be64 :: "nat \<Rightarrow> uint8 list" where
  "be64 n = map (\<lambda>i. word_of_nat (n div 2 ^ (8 * (7 - i)))) [0..<8]"

definition digest_bytes :: "uint32 list \<Rightarrow> uint8 list" where
  "digest_bytes st = concat (map (\<lambda>i. [ucast (drop_bit 24 (st ! i)), ucast (drop_bit 16 (st ! i)),
     ucast (drop_bit 8 (st ! i)), ucast (st ! i)]) [0..<8])"

text \<open>What both versions of \<open>sha256_finish\<close> do around their padding loop.\<close>

definition finish_with ::
    "(SolMirLinkageSha256 \<Rightarrow> bool \<times> SolMirLinkageSha256) \<Rightarrow> SolMirLinkageSha256 \<Rightarrow>
     uint8 list option \<times> SolMirLinkageSha256" where
  "finish_with pad sha =
     (if \<not> sha_valid sha then (None, sha)
      else
        (let (ok, work) = sol_mir_linkage_internal_work_tick (sha_work sha) 32;
             bits = sha_bits sha;
             sha = sha\<lparr>sha_work := work\<rparr> in
         if \<not> ok then (None, sha)
         else
           (let sha = sha256_write sha [0x80] in
            if \<not> sha_valid sha then (None, sha)
            else
              (let (padded, sha) = pad sha in
               if \<not> padded then (None, sha)
               else
                 (let sha = sha256_write sha (be64 bits) in
                  if \<not> sha_valid sha \<or> sha_used sha \<noteq> 0 then (None, sha)
                  else (Some (digest_bytes (sha_state sha)), sha))))))"

definition sha256_finish ::
    "nat \<Rightarrow> nat \<Rightarrow> SolMirLinkageSha256 \<Rightarrow> uint8 list option \<times> SolMirLinkageSha256" where
  "sha256_finish state_start work_start = finish_with (pad_loop state_start work_start)"

text \<open>The padding loop of the self test writes one zero at a time.\<close>

function tail_reference_pad :: "SolMirLinkageSha256 \<Rightarrow> bool \<times> SolMirLinkageSha256" where
  "tail_reference_pad sha =
     (if sha_used sha > 64 then (False, sha)
      else if sha_used sha = 56 then (True, sha)
      else
        (let sha' = sha256_write sha [0] in
         if \<not> sha_valid sha' then (False, sha') else tail_reference_pad sha'))"
  by auto
termination tail_reference_pad
proof (relation "measure (\<lambda>sha. (120 - sha_used sha) mod 64)", goal_cases)
  case (2 sha sha')
  then show ?case using pad_measure [of "sha_used sha"] write_one_used [of sha 0] by auto
qed simp

declare tail_reference_pad.simps [simp del]

definition sha256_tail_reference_finish ::
    "SolMirLinkageSha256 \<Rightarrow> uint8 list option \<times> SolMirLinkageSha256" where
  "sha256_tail_reference_finish = finish_with tail_reference_pad"

section \<open>The unrolled compression is the reference compression\<close>

lemma eight_rounds_reference:
  "eight_rounds words i r = fold (reference_round words) [i..<i + 8] r"
proof -
  have "[i..<i + 8] = [i, i + 1, i + 2, i + 3, i + 4, i + 5, i + 6, i + 7]"
    by (simp add: upt_rec numeral_eq_Suc)
  moreover obtain a b c d e f g h where "r = (a, b, c, d, e, f, g, h)" by (metis prod.exhaust)
  ultimately show ?thesis by (simp add: sha256_round_def Let_def)
qed

lemma fold_eight_rounds:
  "fold (eight_rounds words) (map (\<lambda>n. 8 * n) [0..<m]) r = fold (reference_round words) [0..<8 * m] r"
proof (induction m)
  case (Suc m)
  have "[0..<8 * Suc m] = [0..<8 * m] @ [8 * m..<8 * m + 8]"
    by (metis add.commute le_add1 mult_Suc_right upt_add_eq_append zero_le)
  with Suc show ?case by (simp add: eight_rounds_reference)
qed simp

lemma unrolled_compress_eq: "unrolled_compress = reference_compress"
  using fold_eight_rounds [where m = 8]
  by (simp add: fun_eq_iff unrolled_compress_def reference_compress_def)

section \<open>Padding in runs of zeros\<close>

definition sha_ok :: "SolMirLinkageSha256 \<Rightarrow> bool" where
  "sha_ok sha \<longleftrightarrow> sha_used sha < 64 \<and> length (sha_block sha) = 64 \<and>
     (case sha_work sha of None \<Rightarrow> True | Some m \<Rightarrow> wm_limit m \<le> SIZE_MAX)"

definition charge_write :: "nat \<Rightarrow> SolMirLinkageSha256 \<Rightarrow> SolMirLinkageSha256" where
  "charge_write n sha = sha\<lparr>sha_work := map_option (\<lambda>m. m\<lparr>wm_used := wm_used m + n\<rparr>) (sha_work sha),
     sha_bits := sha_bits sha + n * 8\<rparr>"

definition room :: "nat \<Rightarrow> SolMirLinkageSha256 \<Rightarrow> bool" where
  "room n sha \<longleftrightarrow> sha_valid sha \<and> n \<le> (UINT64_MAX - sha_bits sha) div 8 \<and>
     (case sha_work sha of None \<Rightarrow> True | Some m \<Rightarrow> wm_used m + n \<le> wm_limit m \<and> wm_limit m \<le> SIZE_MAX)"

lemma charge_write_simps [simp]:
  "sha_used (charge_write n sha) = sha_used sha" "sha_block (charge_write n sha) = sha_block sha"
  "sha_valid (charge_write n sha) = sha_valid sha" "sha_state (charge_write n sha) = sha_state sha"
  "sha_bits (charge_write n sha) = sha_bits sha + n * 8"
  by (simp_all add: charge_write_def)

lemma fill_block_simps [simp]:
  "sha_valid (fill_block data sha) = sha_valid sha" "sha_work (fill_block data sha) = sha_work sha"
  "sha_state (fill_block data sha) = sha_state sha" "sha_bits (fill_block data sha) = sha_bits sha"
  by (simp_all add: fill_block_def)

lemma tick_room:
  "room n sha \<Longrightarrow> sol_mir_linkage_internal_work_tick (sha_work sha) n = (True, sha_work (charge_write n sha))"
  by (auto simp: room_def sol_mir_linkage_internal_work_tick_def charge_write_def
      split: option.splits)

lemma write_loop_short:
  assumes "sha_used sha < 64" "data \<noteq> []" "sha_used sha + length data \<le> 64"
  shows "write_loop data sha = flush_block (fill_block data sha)"
  using assms by (subst write_loop.simps) (auto simp: Let_def)

lemma charge_write_eq:
  "sha\<lparr>sha_work := sha_work (charge_write n sha), sha_bits := sha_bits sha + n * 8\<rparr> = charge_write n sha"
  by (simp add: charge_write_def)

lemma sha256_write_room:
  "room (length data) sha \<Longrightarrow> sha256_write sha data = write_loop data (charge_write (length data) sha)"
  by (simp add: sha256_write_def tick_room charge_write_eq) (simp add: room_def)

lemma write_short:
  assumes "room (length data) sha" "sha_used sha < 64" "data \<noteq> []" "sha_used sha + length data \<le> 64"
  shows "sha256_write sha data = flush_block (fill_block data (charge_write (length data) sha))"
  using assms by (simp add: sha256_write_room write_loop_short)

lemma fill_fill:
  "sha_used sha + length xs + length ys \<le> length (sha_block sha) \<Longrightarrow>
   fill_block ys (fill_block xs sha) = fill_block (xs @ ys) sha"
  by (simp add: fill_block_def add.assoc add.commute [of "length ys"])

lemma charge_fill: "charge_write n (fill_block data sha) = fill_block data (charge_write n sha)"
  by (simp add: charge_write_def fill_block_def)

lemma charge_charge: "charge_write m (charge_write n sha) = charge_write (n + m) sha"
  by (cases "sha_work sha") (simp_all add: charge_write_def add_mult_distrib add.assoc)

lemma room_step:
  "room (Suc n) sha \<Longrightarrow> room 1 sha \<and> room n (charge_write 1 sha)"
  by (auto simp: room_def charge_write_def split: option.splits)

lemma tail_reference_run:
  assumes "room k sha" "0 < k" "k \<le> zero_run sha" "sha_used sha < 64" "sha_used sha \<noteq> 56"
    "length (sha_block sha) = 64"
  shows "tail_reference_pad sha =
    (let sha' = sha256_write sha (replicate k 0) in
     if \<not> sha_valid sha' then (False, sha') else tail_reference_pad sha')"
  using assms
proof (induction k arbitrary: sha)
  case (Suc k)
  show ?case
  proof (cases "k = 0")
    case True
    with Suc.prems show ?thesis by (subst tail_reference_pad.simps) simp
  next
    case False
    let ?s = "fill_block [0] (charge_write 1 sha)"
    from Suc.prems(1) have room: "room 1 sha" "room k (charge_write 1 sha)"
      using room_step by blast+
    from Suc.prems False have small: "sha_used sha + 1 < 64" "sha_used sha + 1 \<noteq> 56"
      "k \<le> zero_run ?s" "sha_used sha + Suc k \<le> 64"
      by (auto simp: zero_run_def split: if_splits)
    have first: "sha256_write sha [0] = ?s"
      using write_short [of "[0]" sha] room(1) Suc.prems(4) small(1) by (simp add: flush_block_def)
    have room': "room k ?s" using room(2) by (simp add: room_def)
    have block: "length (sha_block ?s) = 64"
      using Suc.prems(6) small(1) by (simp add: fill_block_def)
    have "sha256_write ?s (replicate k 0) = sha256_write sha (replicate (Suc k) 0)"
      using write_short [of "replicate k 0" ?s] write_short [of "replicate (Suc k) 0" sha]
        room' Suc.prems(1,4,6) False small
      by (simp add: charge_fill charge_charge fill_fill)
    then have "tail_reference_pad ?s = (let sha' = sha256_write sha (replicate (Suc k) 0) in
        if \<not> sha_valid sha' then (False, sha') else tail_reference_pad sha')"
      using Suc.IH [OF room' _ small(3)] False small block by simp
    moreover have "tail_reference_pad sha = tail_reference_pad ?s"
      using Suc.prems(4,5) first room(1)
      by (subst tail_reference_pad.simps) (simp add: room_def)
    ultimately show ?thesis by simp
  qed
qed simp

lemma run_admitted_room:
  "sha_ok sha \<Longrightarrow> run_admitted state_start work_start sha \<Longrightarrow> room (zero_run sha) sha"
  by (auto simp: sha_ok_def run_admitted_def room_def split: option.splits)

text \<open>The copying loop takes the bytes as if one at a time.\<close>

lemma write_loop_step:
  assumes "sha_used sha < 64" "data \<noteq> []" "n = min (length data) (64 - sha_used sha)"
    "sha' = flush_block (fill_block (take n data) sha)"
  shows "write_loop data sha =
    (if sha_used sha + n = 64 \<and> \<not> sha_valid sha' then sha' else write_loop (drop n data) sha')"
proof -
  have "(if length data < 64 - sha_used sha then length data else 64 - sha_used sha) = n"
    using assms(3) by auto
  with assms(1,2) show ?thesis
    unfolding assms(4) by (simp only: write_loop.simps [of data sha] Let_def) simp
qed

lemma write_loop_Cons:
  assumes "sha_ok sha"
  shows "write_loop (b # bs) sha =
    (let sha' = flush_block (fill_block [b] sha) in
     if sha_used sha + 1 = 64 \<and> \<not> sha_valid sha' then sha' else write_loop bs sha')"
proof (cases "sha_used sha + 1 = 64")
  case True
  then show ?thesis using write_loop_step [OF _ _ refl refl, of sha "b # bs"] by (simp add: Let_def)
next
  case False
  define f where "f = fill_block [b] sha"
  define n where "n = min (length bs) (63 - sha_used sha)"
  from False assms have used: "sha_used sha + 1 < 64" and block: "length (sha_block sha) = 64"
    by (auto simp: sha_ok_def)
  have fill: "fill_block (take (Suc n) (b # bs)) sha = fill_block (take n bs) f"
    using used block by (simp add: fill_fill f_def n_def)
  have whole: "Suc n = min (length (b # bs)) (64 - sha_used sha)" using used by (auto simp: n_def)
  have f: "sha_used f = sha_used sha + 1" "flush_block f = f"
    using used by (simp_all add: flush_block_def f_def)
  show ?thesis
  proof (cases "bs = []")
    case True
    with used show ?thesis by (simp add: write_loop_short Let_def)
  next
    case nonempty: False
    have part: "n = min (length bs) (64 - sha_used f)" using f by (simp add: n_def)
    have "write_loop (b # bs) sha = write_loop bs f"
      using write_loop_step [OF _ _ whole refl] write_loop_step [OF _ nonempty part refl] used f(1) fill
      by simp
    then show ?thesis using False f by (simp add: f_def [symmetric] Let_def)
  qed
qed

lemma flush_fill_ok: "sha_ok sha \<Longrightarrow> sha_ok (flush_block (fill_block [b] sha))"
  by (auto simp: sha_ok_def flush_block_def fill_block_def sha256_transform_def metered_transform_def
      sol_mir_linkage_internal_work_tick_def split: prod.splits option.splits if_splits)

lemma write_loop_ok: "sha_ok sha \<Longrightarrow> sha_ok (write_loop data sha)"
proof (induction data arbitrary: sha)
  case (Cons b bs)
  then show ?case using flush_fill_ok [OF Cons.prems] by (simp add: write_loop_Cons Let_def)
qed simp

lemma tick_sized:
  assumes "sol_mir_linkage_internal_work_tick (sha_work sha) n = (ok, work)" and "sha_ok sha"
  shows "sha_ok (sha\<lparr>sha_work := work\<rparr>)"
  using assms
  by (auto simp: sha_ok_def sol_mir_linkage_internal_work_tick_def split: option.splits if_splits)

lemma sha_ok_update [simp]:
  "sha_ok (sha\<lparr>sha_bits := n\<rparr>) = sha_ok sha" "sha_ok (sha\<lparr>sha_valid := b\<rparr>) = sha_ok sha"
  "sha_ok (sha\<lparr>sha_work := w, sha_bits := n\<rparr>) = sha_ok (sha\<lparr>sha_work := w\<rparr>)"
  "sha_ok (sha\<lparr>sha_work := w, sha_valid := b\<rparr>) = sha_ok (sha\<lparr>sha_work := w\<rparr>)"
  by (simp_all add: sha_ok_def)

lemma sha256_write_ok: "sha_ok sha \<Longrightarrow> sha_ok (sha256_write sha data)"
  by (auto simp: sha256_write_def dest: tick_sized intro!: write_loop_ok split: prod.split)

lemma pad_loop_reference:
  assumes "sha_ok sha" "sha_valid sha"
  shows "pad_loop state_start work_start sha = tail_reference_pad sha"
  using assms
proof (induction state_start work_start sha rule: pad_loop.induct)
  case (1 state_start work_start sha)
  show ?case
  proof (cases "sha_used sha = 56")
    case True
    then show ?thesis by (simp add: pad_loop.simps tail_reference_pad.simps)
  next
    case False
    have used: "sha_used sha < 64" using 1(3) by (simp add: sha_ok_def)
    show ?thesis
    proof (cases "run_admitted state_start work_start sha")
      case True
      note room = run_admitted_room [OF 1(3) True]
      let ?n = "zero_run sha"
      let ?s = "flush_block (fill_block (replicate ?n 0) (charge_write ?n sha))"
      have pos: "0 < ?n" "sha_used sha + ?n \<le> 64" using used False by (auto simp: zero_run_def)
      have written: "sha256_write sha (replicate ?n 0) = ?s"
        using write_short [of "replicate ?n 0" sha] room used pos by simp
      have "sha_ok ?s" using sha256_write_ok [OF 1(3), of "replicate ?n 0"] written by simp
      then have IH: "sha_valid ?s \<Longrightarrow> pad_loop state_start work_start ?s = tail_reference_pad ?s"
        using 1(1) [of ?n True "(True, sha_work (charge_write ?n sha))" True] 1(3) False used True
          tick_room [OF room] by (auto simp: charge_write_eq)
      have "sha_used sha + ?n = 56 \<Longrightarrow> sha_valid ?s"
        using 1(4) by (simp add: flush_block_def)
      moreover have "sha_used sha + ?n = 56 \<or> sha_used sha + ?n = 64"
        using used by (auto simp: zero_run_def)
      ultimately have "pad_loop state_start work_start sha =
          (if \<not> sha_valid ?s then (False, ?s) else pad_loop state_start work_start ?s)"
        using used False True tick_room [OF room]
        by (subst pad_loop.simps) (auto simp: Let_def charge_write_eq)
      moreover have "tail_reference_pad sha =
          (if \<not> sha_valid ?s then (False, ?s) else tail_reference_pad ?s)"
        using tail_reference_run [OF room pos(1)] used False 1(3) written
        by (simp add: sha_ok_def Let_def)
      ultimately show ?thesis using IH by simp
    next
      case inadmissible: False
      let ?s = "sha256_write sha [0]"
      have IH: "sha_valid ?s \<Longrightarrow> pad_loop state_start work_start ?s = tail_reference_pad ?s"
        using 1(2) [of "zero_run sha" False "(False, sha_work sha)" False "sha_work sha" ?s] 1(3)
          False used inadmissible sha256_write_ok [OF 1(3), of "[0]"] by auto
      have "pad_loop state_start work_start sha =
          (if \<not> sha_valid ?s then (False, ?s) else pad_loop state_start work_start ?s)"
        using used False inadmissible by (subst pad_loop.simps) (auto simp: Let_def)
      then show ?thesis using IH used False
        by (subst tail_reference_pad.simps) (auto simp: Let_def)
    qed
  qed
qed

section \<open>The stream computes SHA-256\<close>

definition full_blocks :: "uint8 list \<Rightarrow> uint8 list list" where
  "full_blocks m = map (\<lambda>i. take 64 (drop (64 * i) m)) [0..<length m div 64]"

text \<open>The message schedule of the standard: a one bit, zeros, and the length in bits.\<close>

definition pad_zeros :: "nat \<Rightarrow> nat" where
  "pad_zeros n = (119 - n mod 64) mod 64"

definition sha256_padded :: "uint8 list \<Rightarrow> uint8 list" where
  "sha256_padded m = m @ [0x80] @ replicate (pad_zeros (length m)) 0 @ be64 (8 * length m)"

definition sha256_hash :: "uint8 list \<Rightarrow> uint8 list" where
  "sha256_hash m = digest_bytes
     (foldl reference_compress (sha_state sha256_init) (full_blocks (sha256_padded m)))"

lemma pad_zeros_least:
  "(n + 1 + pad_zeros n) mod 64 = 56" "(n + 1 + k) mod 64 = 56 \<Longrightarrow> pad_zeros n \<le> k"
proof -
  define r where "r = n mod 64"
  have r: "r < 64" by (simp add: r_def)
  have residue: "(n + 1 + j) mod 64 = (r + 1 + j) mod 64" for j
    unfolding r_def by (metis mod_add_left_eq add.assoc)
  have zeros: "pad_zeros n = (if r \<le> 55 then 55 - r else 119 - r)"
  proof (cases "r \<le> 55")
    case True
    then have "(119 - r) mod 64 = (64 + (55 - r)) mod 64" by (intro arg_cong2 [of _ _ _ _ "(mod)"]) simp_all
    also have "\<dots> = 55 - r" by simp
    finally show ?thesis using True by (simp add: pad_zeros_def r_def [symmetric])
  next
    case False
    then show ?thesis by (simp add: pad_zeros_def r_def [symmetric])
  qed
  show "(n + 1 + pad_zeros n) mod 64 = 56" unfolding residue zeros using r by auto
  show "(n + 1 + k) mod 64 = 56 \<Longrightarrow> pad_zeros n \<le> k"
  proof (rule ccontr)
    assume k: "(n + 1 + k) mod 64 = 56" "\<not> pad_zeros n \<le> k"
    then have "r + 1 + k < 56 \<or> (56 < r + 1 + k \<and> r + 1 + k < 120)"
      using r unfolding zeros by (auto split: if_splits)
    moreover have "(r + 1 + k) mod 64 = 56" using k(1) unfolding residue .
    then obtain q where "r + 1 + k = 64 * q + 56" by (metis mult_div_mod_eq)
    ultimately show False by (cases q) auto
  qed
qed

definition absorbed :: "uint8 list \<Rightarrow> SolMirLinkageSha256 \<Rightarrow> bool" where
  "absorbed m sha \<longleftrightarrow> sha_ok sha \<and> sha_valid sha \<and>
     sha_state sha = foldl reference_compress (sha_state sha256_init) (full_blocks m) \<and>
     sha_used sha = length m mod 64 \<and>
     take (sha_used sha) (sha_block sha) = drop (64 * (length m div 64)) m"

lemma full_blocks_prefix:
  "length m div 64 = (length m + length d) div 64 \<Longrightarrow> full_blocks (m @ d) = full_blocks m"
  by (auto simp: full_blocks_def)

lemma full_blocks_snoc:
  assumes "length m mod 64 = 63"
  shows "full_blocks (m @ [b]) = full_blocks m @ [drop (64 * (length m div 64)) m @ [b]]"
proof -
  let ?k = "length m div 64"
  have len: "length m = 64 * ?k + 63" using assms by (metis mult_div_mod_eq)
  then have k: "(length m + 1) div 64 = Suc ?k" by simp
  have "take 64 (drop (64 * i) (m @ [b])) = take 64 (drop (64 * i) m)" if "i < ?k" for i
    using that len by simp
  moreover have "take 64 (drop (64 * ?k) (m @ [b])) = drop (64 * ?k) m @ [b]" using len by simp
  ultimately show ?thesis unfolding full_blocks_def using k by simp
qed

lemma flush_block_full:
  assumes "sha_used sha = 64" "sha_valid (flush_block sha)"
  shows "sha_state (flush_block sha) = reference_compress (sha_state sha) (sha_block sha)"
  using assms
  by (auto simp: flush_block_def sha256_transform_def metered_transform_def unrolled_compress_eq
      split: prod.splits if_splits)

lemma absorb_byte:
  assumes "absorbed m sha" and "sha_valid (flush_block (fill_block [b] sha))"
  shows "absorbed (m @ [b]) (flush_block (fill_block [b] sha))"
proof -
  let ?f = "fill_block [b] sha"
  from assms(1) have ok: "sha_ok sha" and used: "sha_used sha = length m mod 64"
    and block: "length (sha_block sha) = 64" and lt: "sha_used sha < 64"
    and rest: "take (sha_used sha) (sha_block sha) = drop (64 * (length m div 64)) m"
    by (auto simp: absorbed_def sha_ok_def)
  have sha_block: "take (sha_used sha + 1) (sha_block ?f) = drop (64 * (length m div 64)) m @ [b]"
    using lt block unfolding rest [symmetric] by (simp add: fill_block_def)
  show ?thesis
  proof (cases "sha_used sha = 63")
    case True
    then have last: "length m mod 64 = 63" using used by simp
    then have suc: "Suc (length m) mod 64 = 0" by (simp add: mod_Suc)
    then have suc': "64 * (Suc (length m) div 64) = Suc (length m)" by (metis add.right_neutral mult_div_mod_eq)
    have "sha_block ?f = drop (64 * (length m div 64)) m @ [b]"
      using sha_block True block by (simp add: fill_block_def)
    then show ?thesis
      using True assms flush_block_full [of ?f] full_blocks_snoc [OF last] flush_fill_ok [OF ok]
      by (simp add: absorbed_def flush_block_used suc suc')
  next
    case False
    then have "length m mod 64 \<noteq> 63" using used by simp
    then have suc: "Suc (length m) mod 64 = Suc (length m mod 64)" "Suc (length m) div 64 = length m div 64"
      by (simp_all add: mod_Suc div_Suc)
    have "64 * (length m div 64) \<le> length m" by simp
    with False lt sha_block assms(1) suc used show ?thesis
      using flush_fill_ok [OF ok, of b] full_blocks_prefix [of m "[b]"]
      by (simp add: absorbed_def flush_block_def)
  qed
qed

lemma write_loop_absorbs:
  "absorbed m sha \<Longrightarrow> sha_valid (write_loop data sha) \<Longrightarrow> absorbed (m @ data) (write_loop data sha)"
proof (induction data arbitrary: m sha)
  case (Cons b bs)
  then have ok: "sha_ok sha" by (simp add: absorbed_def)
  let ?s = "flush_block (fill_block [b] sha)"
  have valid: "sha_valid ?s"
    using Cons.prems ok by (auto simp: write_loop_Cons Let_def absorbed_def flush_block_def split: if_splits)
  then have "write_loop (b # bs) sha = write_loop bs ?s" using ok by (simp add: write_loop_Cons Let_def)
  with Cons.IH [OF absorb_byte [OF Cons.prems(1) valid]] Cons.prems(2) show ?case by simp
qed simp

lemma absorbed_update [simp]:
  "absorbed m (sha\<lparr>sha_work := w, sha_bits := n\<rparr>) = absorbed m (sha\<lparr>sha_work := w\<rparr>)"
  by (simp add: absorbed_def)

lemma tick_absorbed:
  "sol_mir_linkage_internal_work_tick (sha_work sha) n = (ok, work) \<Longrightarrow> absorbed m sha \<Longrightarrow>
   absorbed m (sha\<lparr>sha_work := work\<rparr>)"
  using tick_sized [of sha n ok work] by (auto simp: absorbed_def)

lemma sha256_write_absorbs:
  assumes "absorbed m sha" "sha_valid (sha256_write sha data)"
  shows "absorbed (m @ data) (sha256_write sha data)"
proof -
  obtain ok work where tick: "sol_mir_linkage_internal_work_tick (sha_work sha) (length data) = (ok, work)"
    by (metis prod.exhaust)
  with assms have "sha256_write sha data = write_loop data
      (sha\<lparr>sha_work := work, sha_bits := sha_bits sha + length data * 8\<rparr>)"
    by (auto simp: sha256_write_def split: if_splits)
  with write_loop_absorbs [of m "sha\<lparr>sha_work := work, sha_bits := sha_bits sha + length data * 8\<rparr>" data]
    assms tick_absorbed [OF tick] show ?thesis by simp
qed

lemma tail_reference_absorbs:
  assumes "absorbed m sha" "tail_reference_pad sha = (True, t)"
  shows "absorbed (m @ replicate ((120 - sha_used sha) mod 64) 0) t \<and> sha_used t = 56"
  using assms
proof (induction sha arbitrary: m rule: tail_reference_pad.induct)
  case (1 sha)
  have lt: "sha_used sha < 64" using 1(2) by (simp add: absorbed_def sha_ok_def)
  show ?case
  proof (cases "sha_used sha = 56")
    case True
    with 1(2,3) show ?thesis by (simp add: tail_reference_pad.simps)
  next
    case False
    let ?s = "sha256_write sha [0]"
    from 1(3) False lt have valid: "sha_valid ?s" and run: "tail_reference_pad ?s = (True, t)"
      by (subst (asm) tail_reference_pad.simps, auto simp: Let_def split: if_splits)+
    from 1(1) [OF _ False refl _ sha256_write_absorbs [OF 1(2) valid] run] lt valid
    have "absorbed ((m @ [0]) @ replicate ((120 - sha_used ?s) mod 64) 0) t \<and> sha_used t = 56"
      by (simp del: append_assoc)
    moreover have "(120 - sha_used sha) mod 64 = Suc ((120 - sha_used ?s) mod 64)"
      using write_one_used [of sha 0] valid lt False by (auto simp: mod_if split: if_splits)
    ultimately show ?thesis by simp
  qed
qed

lemma absorbed_init: "absorbed [] (sha256_init\<lparr>sha_work := work\<rparr>) \<longleftrightarrow>
    (case work of None \<Rightarrow> True | Some m \<Rightarrow> wm_limit m \<le> SIZE_MAX)"
  by (simp add: absorbed_def sha_ok_def sha256_init_def full_blocks_def)

lemma length_be64 [simp]: "length (be64 n) = 8"
  by (simp add: be64_def)

lemma finish_with_reference:
  assumes "absorbed m sha" "sha_bits sha = 8 * length m"
    "finish_with tail_reference_pad sha = (Some d, t)"
  shows "d = sha256_hash m"
proof -
  obtain ok work where tick: "sol_mir_linkage_internal_work_tick (sha_work sha) 32 = (ok, work)"
    by (metis prod.exhaust)
  let ?s = "sha256_write (sha\<lparr>sha_work := work\<rparr>) [0x80]"
  obtain padded u where pad: "tail_reference_pad ?s = (padded, u)" by (metis prod.exhaust)
  from assms(1) have valid: "sha_valid sha" by (simp add: absorbed_def)
  from assms(3) valid tick pad have run: "ok" "sha_valid ?s" "padded"
    "sha_valid (sha256_write u (be64 (sha_bits sha)))"
    and d: "d = digest_bytes (sha_state (sha256_write u (be64 (sha_bits sha))))"
    by (auto simp: finish_with_def Let_def split: if_splits)
  have s: "absorbed (m @ [0x80]) ?s"
    using sha256_write_absorbs [OF tick_absorbed [OF tick assms(1)] run(2)] .
  have used: "sha_used ?s = (length m + 1) mod 64" using s by (simp add: absorbed_def)
  have zeros: "(120 - (length m + 1) mod 64) mod 64 = pad_zeros (length m)"
    by (simp add: pad_zeros_def mod_Suc)
  from tail_reference_absorbs [OF s] pad run(3)
  have "absorbed ((m @ [0x80]) @ replicate (pad_zeros (length m)) 0) u" unfolding used zeros by simp
  from sha256_write_absorbs [OF this run(4)]
  show ?thesis by (simp add: d absorbed_def sha256_hash_def sha256_padded_def assms(2))
qed

text \<open>Without a meter a write is refused only when the bit count would leave \<open>uint64_t\<close>.\<close>

lemma transform_unmetered:
  "sha_work sha = None \<Longrightarrow> sha_valid (sha256_transform sha b) = sha_valid sha \<and>
   sha_work (sha256_transform sha b) = None \<and> sha_bits (sha256_transform sha b) = sha_bits sha"
  by (simp add: sha256_transform_def metered_transform_def sol_mir_linkage_internal_work_tick_def)

lemma write_loop_unmetered:
  "sha_ok sha \<Longrightarrow> sha_work sha = None \<Longrightarrow> sha_valid (write_loop data sha) = sha_valid sha \<and>
   sha_work (write_loop data sha) = None \<and> sha_bits (write_loop data sha) = sha_bits sha"
proof (induction data arbitrary: sha)
  case (Cons b bs)
  have "sha_valid (flush_block (fill_block [b] sha)) = sha_valid sha \<and>
      sha_work (flush_block (fill_block [b] sha)) = None \<and>
      sha_bits (flush_block (fill_block [b] sha)) = sha_bits sha"
    using Cons.prems(2) transform_unmetered [of "fill_block [b] sha"] by (auto simp: flush_block_def)
  with Cons.IH [OF flush_fill_ok [OF Cons.prems(1)]] Cons.prems(1) show ?case
    by (auto simp: write_loop_Cons Let_def)
qed simp

definition unmetered :: "nat \<Rightarrow> SolMirLinkageSha256 \<Rightarrow> bool" where
  "unmetered n sha \<longleftrightarrow> sha_ok sha \<and> sha_valid sha \<and> sha_work sha = None \<and> sha_bits sha + 8 * n \<le> UINT64_MAX"

lemma sha256_write_unmetered:
  assumes "unmetered (length data + n) sha"
  shows "unmetered n (sha256_write sha data) \<and> sha_bits (sha256_write sha data) = sha_bits sha + 8 * length data"
proof -
  have "length data \<le> (UINT64_MAX - sha_bits sha) div 8" using assms by (auto simp: unmetered_def)
  with assms have "sha256_write sha data = write_loop data
      (sha\<lparr>sha_work := None, sha_bits := sha_bits sha + length data * 8\<rparr>)"
    by (simp add: unmetered_def sha256_write_def sol_mir_linkage_internal_work_tick_def)
  with assms write_loop_unmetered
      [of "sha\<lparr>sha_work := None, sha_bits := sha_bits sha + length data * 8\<rparr>" data]
    sha256_write_ok [of sha data] show ?thesis by (simp add: unmetered_def sha_ok_def)
qed

lemma tail_reference_unmetered:
  assumes "unmetered ((120 - sha_used sha) mod 64 + n) sha"
  shows "\<exists>t. tail_reference_pad sha = (True, t) \<and> unmetered n t"
  using assms
proof (induction sha rule: tail_reference_pad.induct)
  case (1 sha)
  have lt: "sha_used sha < 64" using 1(2) by (simp add: unmetered_def sha_ok_def)
  show ?case
  proof (cases "sha_used sha = 56")
    case True
    with 1(2) show ?thesis by (simp add: tail_reference_pad.simps)
  next
    case False
    let ?s = "sha256_write sha [0]" and ?k = "(120 - sha_used (sha256_write sha [0])) mod 64"
    have k: "unmetered 1 sha" using 1(2) lt False pad_measure [of "sha_used sha"]
      by (auto simp: unmetered_def)
    then have valid: "sha_valid ?s" using sha256_write_unmetered [of "[0]" 0 sha] by (simp add: unmetered_def)
    have "(120 - sha_used sha) mod 64 = Suc ?k"
      using write_one_used [of sha 0] valid lt False by (auto simp: mod_if split: if_splits)
    with 1(2) sha256_write_unmetered [of "[0]" "?k + n" sha] have "unmetered (?k + n) ?s" by simp
    with 1(1) [OF _ False refl] lt valid obtain t where "tail_reference_pad ?s = (True, t)" "unmetered n t"
      by auto
    then show ?thesis using False lt valid by (subst tail_reference_pad.simps) (simp add: Let_def)
  qed
qed

lemma finish_unmetered:
  assumes "absorbed m sha" "unmetered 72 sha" "sha_bits sha = 8 * length m"
  shows "fst (finish_with tail_reference_pad sha) = Some (sha256_hash m)"
proof -
  let ?s = "sha256_write (sha\<lparr>sha_work := None\<rparr>) [0x80]"
  have work: "sha\<lparr>sha_work := None\<rparr> = sha" using assms(2) by (simp add: unmetered_def)
  have s: "unmetered 71 ?s" using sha256_write_unmetered [of "[0x80]" 71 sha] assms(2) work by simp
  have "(120 - sha_used ?s) mod 64 + 8 \<le> 71"
    using pos_mod_bound [of 64] by (simp add: less_Suc_eq_le [symmetric])
  with s have "unmetered ((120 - sha_used ?s) mod 64 + 8) ?s" by (simp add: unmetered_def)
  then obtain u where pad: "tail_reference_pad ?s = (True, u)" "unmetered 8 u"
    using tail_reference_unmetered by blast
  let ?v = "sha256_write u (be64 (sha_bits sha))"
  have valid: "sha_valid sha" "sha_valid ?s" "sha_valid ?v"
    using assms(2) s sha256_write_unmetered [of "be64 (sha_bits sha)" 0 u] pad(2)
    by (simp_all add: unmetered_def)
  have a: "absorbed (m @ [0x80]) ?s" using sha256_write_absorbs [OF assms(1)] valid(2) work by simp
  with tail_reference_absorbs [OF a pad(1)] have "sha_used u = 56" "\<exists>k. absorbed k u" by blast+
  then have "sha_used ?v = 0"
    using sha256_write_absorbs [OF _ valid(3)] by (fastforce simp: absorbed_def mod_add_left_eq [symmetric])
  with valid pad have "\<exists>d. fst (finish_with tail_reference_pad sha) = Some d"
    using assms(2)
    by (simp add: finish_with_def sol_mir_linkage_internal_work_tick_def unmetered_def Let_def)
  with finish_with_reference [OF assms(1,3)] show ?thesis by (metis prod.collapse)
qed

definition write_chunks :: "uint8 list list \<Rightarrow> SolMirLinkageSha256 \<Rightarrow> SolMirLinkageSha256" where
  "write_chunks chunks sha = fold (\<lambda>chunk s. sha256_write s chunk) chunks sha"

lemma write_invalid: "\<not> sha_valid sha \<Longrightarrow> \<not> sha_valid (write_chunks chunks sha)"
  by (induction chunks arbitrary: sha) (simp_all add: write_chunks_def sha256_write_def)

lemma write_bits:
  "sha_ok sha \<Longrightarrow> sha_valid (sha256_write sha data) \<Longrightarrow>
   sha_bits (sha256_write sha data) = sha_bits sha + 8 * length data"
proof -
  have loop: "sha_ok s \<Longrightarrow> sha_bits (write_loop data s) = sha_bits s" for s
  proof (induction data arbitrary: s)
    case (Cons b bs)
    have "sha_bits (flush_block (fill_block [b] s)) = sha_bits s"
      by (simp add: flush_block_def sha256_transform_def metered_transform_def split: prod.split)
    with Cons.IH [OF flush_fill_ok [OF Cons.prems]] Cons.prems show ?case
      by (simp add: write_loop_Cons Let_def)
  qed simp
  assume "sha_ok sha" "sha_valid (sha256_write sha data)"
  then show ?thesis
    by (auto simp: sha256_write_def loop dest: tick_sized split: prod.splits if_splits)
qed

lemma write_chunks_absorbs:
  assumes "absorbed m sha" "sha_bits sha = 8 * length m" "sha_valid (write_chunks chunks sha)"
  shows "absorbed (m @ concat chunks) (write_chunks chunks sha) \<and>
    sha_bits (write_chunks chunks sha) = 8 * length (m @ concat chunks)"
  using assms
proof (induction chunks arbitrary: m sha)
  case (Cons c cs)
  have valid: "sha_valid (sha256_write sha c)"
    using Cons.prems(3) write_invalid [of "sha256_write sha c" cs] by (auto simp: write_chunks_def)
  have bits: "sha_bits (sha256_write sha c) = 8 * length (m @ c)"
    using write_bits [OF _ valid] Cons.prems(1,2) by (simp add: absorbed_def)
  show ?case
    using Cons.IH [OF sha256_write_absorbs [OF Cons.prems(1) valid] bits] Cons.prems(3)
    by (simp add: write_chunks_def)
qed (simp add: write_chunks_def)

lemma write_chunks_unmetered:
  "unmetered (length (concat chunks) + n) sha \<Longrightarrow> unmetered n (write_chunks chunks sha)"
proof (induction chunks arbitrary: sha)
  case (Cons c cs)
  then have "unmetered (length c + (length (concat cs) + n)) sha" by (simp add: add.assoc)
  with Cons.IH sha256_write_unmetered [of c "length (concat cs) + n" sha] show ?case
    by (simp add: write_chunks_def)
qed (simp add: write_chunks_def)

lemma finish_reference:
  assumes "sha_ok sha"
  shows "sha256_finish state_start work_start sha = sha256_tail_reference_finish sha"
proof (cases "sha_valid sha")
  case True
  obtain ok work where tick: "sol_mir_linkage_internal_work_tick (sha_work sha) 32 = (ok, work)"
    by (metis prod.exhaust)
  have "sha_ok (sha256_write (sha\<lparr>sha_work := work\<rparr>) [0x80])"
    using sha256_write_ok tick_sized [OF tick assms] by blast
  with tick pad_loop_reference [OF this] show ?thesis
    unfolding sha256_finish_def sha256_tail_reference_finish_def finish_with_def
    by (simp add: Let_def)
qed (simp add: sha256_finish_def sha256_tail_reference_finish_def finish_with_def)

section \<open>Properties\<close>

text \<open>
  C24. The unrolled compression function is the reference one: for every state, block and
  meter \<open>sha256_transform\<close> and \<open>sha256_reference_transform\<close> give the same hash state, the same
  validity and the same meter. The self test of the file checks this on sampled inputs.
\<close>

theorem sha256_transform_reference: "sha256_transform sha block = sha256_reference_transform sha block"
  by (simp add: sha256_transform_def sha256_reference_transform_def unrolled_compress_eq)

text \<open>
  C25. Padding in runs of zeros is padding byte by byte: from every well-formed hash, with any
  meter and at any addresses, \<open>sha256_finish\<close> gives the same digest or the same refusal as
  \<open>sha256_tail_reference_finish\<close>, and leaves the same hash and the same meter behind, also when the
  work limit is reached in the middle of the padding.
\<close>

theorem sha256_finish_reference:
  assumes "sha_ok sha"
  shows "sha256_finish state_start work_start sha = sha256_tail_reference_finish sha"
  using assms by (rule finish_reference)

theorem sha256_finish_reference_witness:
  "sha_ok sha256_init \<and>
   sha256_finish 4096 8192 sha256_init = sha256_tail_reference_finish sha256_init"
proof -
  have "sha_ok sha256_init" by (simp add: sha_ok_def sha256_init_def)
  with sha256_finish_reference [OF this, of 4096 8192] show ?thesis by simp
qed

text \<open>
  C14. The stream computes SHA-256 of everything written: however the message is cut into
  chunks, a digest that \<open>sha256_finish\<close> returns under any meter is the SHA-256 of the
  concatenated chunks, and without a meter a digest is always returned as long as the bit
  count of the padded message fits \<open>uint64_t\<close>.
\<close>

theorem sha256_stream_correct:
  assumes "case work of None \<Rightarrow> True | Some m \<Rightarrow> wm_limit m \<le> SIZE_MAX"
  shows "(\<forall>d t. sha256_finish state_start work_start
        (write_chunks chunks (sha256_init\<lparr>sha_work := work\<rparr>)) = (Some d, t) \<longrightarrow>
      d = sha256_hash (concat chunks)) \<and>
    (work = None \<and> 8 * (length (concat chunks) + 72) \<le> UINT64_MAX \<longrightarrow>
      fst (sha256_finish state_start work_start
        (write_chunks chunks (sha256_init\<lparr>sha_work := work\<rparr>))) = Some (sha256_hash (concat chunks)))"
proof (intro conjI allI impI)
  let ?s = "write_chunks chunks (sha256_init\<lparr>sha_work := work\<rparr>)"
  have init: "absorbed [] (sha256_init\<lparr>sha_work := work\<rparr>)" using assms by (simp only: absorbed_init)
  have bits: "sha_bits (sha256_init\<lparr>sha_work := work\<rparr>) = 8 * length []" by (simp add: sha256_init_def)
  note absorbs = write_chunks_absorbs [OF init bits, of chunks]
  have same: "sha256_finish state_start work_start ?s = finish_with tail_reference_pad ?s" if "sha_valid ?s"
    using that absorbs finish_reference [of ?s state_start work_start]
    by (simp add: sha256_tail_reference_finish_def absorbed_def)
  {
    fix d t
    assume run: "sha256_finish state_start work_start ?s = (Some d, t)"
    then have valid: "sha_valid ?s" by (auto simp: sha256_finish_def finish_with_def split: if_splits)
    with finish_with_reference absorbs run same show "d = sha256_hash (concat chunks)" by fastforce
  next
    assume "work = None \<and> 8 * (length (concat chunks) + 72) \<le> UINT64_MAX"
    with init bits have "unmetered (length (concat chunks) + 72) (sha256_init\<lparr>sha_work := work\<rparr>)"
      by (simp add: unmetered_def absorbed_def)
    then have u: "unmetered 72 ?s" by (rule write_chunks_unmetered)
    then have valid: "sha_valid ?s" by (simp add: unmetered_def)
    with finish_unmetered [of "concat chunks" ?s] absorbs u same
    show "fst (sha256_finish state_start work_start ?s) = Some (sha256_hash (concat chunks))" by simp
  }
qed

theorem sha256_stream_correct_witness:
  "fst (sha256_finish 0 0 (write_chunks [[97], [], [98, 99]] (sha256_init\<lparr>sha_work := None\<rparr>)))
     = Some (sha256_hash [97, 98, 99])"
  using sha256_stream_correct [of None 0 0 "[[97], [], [98, 99]]"] by (simp add: UINT64_MAX_def)

end
