(* ===== verification/Sol_Host.thy ===== *)
theory Sol_Host
  imports Sol_Value
begin

text \<open>
  The entrypoint views and the host registry of \<open>src/src/compilation.c\<close>: which operations of
  the entrypoint's capability parameters the embedding program allows. A handle is not \<open>NULL\<close>
  here; the C functions return at once for one that is. An IR is read without bounds checks
  where the C code relies on its validation: such a read outside an array is \<open>None\<close>.
\<close>

section \<open>Entrypoint\<close>

text \<open>\<open>vi_address\<close> is the identity of the handle, which the C code compares as a pointer.\<close>

record SolValidatedIr =
  vi_address :: void_ptr
  vi_ir :: SolIr

datatype SolEntrypointResultKind = SOL_ENTRYPOINT_RESULT_UNIT | SOL_ENTRYPOINT_RESULT_INT64

record SolEntrypointView =
  en_definition :: size_t
  en_callable :: size_t
  en_parameter_count :: size_t
  en_result :: SolEntrypointResultKind
  en_span :: SolSpan
  en_name :: string

text \<open>The inner option is the result of the C function: \<open>None\<close> where it returns false.\<close>

fun find_entrypoint :: "SolIr \<Rightarrow> size_t \<Rightarrow> SolIrDefinition list \<Rightarrow> SolEntrypointView option option" where
  "find_entrypoint ir index [] = Some None"
| "find_entrypoint ir index (definition # rest) =
     (if \<not> def_is_entrypoint definition then find_entrypoint ir (Suc index) rest
      else do {
        callable \<leftarrow> nth_opt (ir_callables ir) (def_callable definition);
        result \<leftarrow> nth_opt (ir_types ir) (ca_result callable);
        Some (Some \<lparr> en_definition = index, en_callable = def_callable definition,
          en_parameter_count = sl_count (ca_parameters callable),
          en_result = (if ty_kind result = SOL_IR_TYPE_UNIT then SOL_ENTRYPOINT_RESULT_UNIT
            else SOL_ENTRYPOINT_RESULT_INT64),
          en_span = def_span definition, en_name = def_name definition \<rparr>)
      })"

definition sol_validated_ir_entrypoint :: "SolValidatedIr \<Rightarrow> SolEntrypointView option option" where
  "sol_validated_ir_entrypoint validated =
     find_entrypoint (vi_ir validated) 0 (ir_definitions (vi_ir validated))"

record SolEntrypointParameterView =
  ep_capability_definition :: size_t
  ep_name :: string
  ep_capability :: string

definition sol_validated_ir_entrypoint_parameter_at ::
    "SolValidatedIr \<Rightarrow> size_t \<Rightarrow> SolEntrypointParameterView option option" where
  "sol_validated_ir_entrypoint_parameter_at validated index = do {
     entrypoint \<leftarrow> sol_validated_ir_entrypoint validated;
     (case entrypoint of
        None \<Rightarrow> Some None
      | Some entry \<Rightarrow>
          if index \<ge> en_parameter_count entry then Some None
          else
            (let ir = vi_ir validated in do {
               callable \<leftarrow> nth_opt (ir_callables ir) (en_callable entry);
               root \<leftarrow> nth_opt (ir_roots ir) (sl_offset (ca_parameters callable) + index);
               local \<leftarrow> nth_opt (ir_locals ir) root;
               type \<leftarrow> nth_opt (ir_types ir) (lo_type local);
               capability \<leftarrow> nth_opt (ir_definitions ir) (ty_definition type);
               Some (Some \<lparr> ep_capability_definition = ty_definition type, ep_name = lo_name local,
                 ep_capability = def_name capability \<rparr>)
             }))
   }"

section \<open>Operations the host may implement\<close>

text \<open>A type built from data alone; the depth is bounded by the number of types.\<close>

function sol_host_type_supported :: "SolIr \<Rightarrow> size_t \<Rightarrow> size_t \<Rightarrow> bool" where
  "sol_host_type_supported ir type_id depth =
     (if type_id \<ge> length (ir_types ir) \<or> depth > length (ir_types ir) then False
      else
        (let type = ir_types ir ! type_id in
         if ty_kind type \<in> {SOL_IR_TYPE_INT64, SOL_IR_TYPE_BOOL, SOL_IR_TYPE_TEXT, SOL_IR_TYPE_UNIT}
         then True
         else if ty_kind type \<noteq> SOL_IR_TYPE_OPTION \<and> ty_kind type \<noteq> SOL_IR_TYPE_RESULT then False
         else
           (let expected = (if ty_kind type = SOL_IR_TYPE_OPTION then 1 else 2) in
            if sl_count (ty_arguments type) \<noteq> expected
              \<or> sl_offset (ty_arguments type) > length (ir_type_ids ir)
              \<or> expected > length (ir_type_ids ir) - sl_offset (ty_arguments type) then False
            else list_all (\<lambda>index. sol_host_type_supported ir
              (ir_type_ids ir ! (sl_offset (ty_arguments type) + index)) (depth + 1)) [0..<expected])))"
  by pat_completeness auto
termination
  by (relation "measure (\<lambda>(ir, type_id, depth). length (ir_types ir) + 1 - depth)") auto

declare sol_host_type_supported.simps [simp del]

text \<open>The loop over the parameters of an operation.\<close>

fun host_parameters_supported :: "SolIr \<Rightarrow> size_t \<Rightarrow> nat list \<Rightarrow> bool option" where
  "host_parameters_supported ir offset [] = Some True"
| "host_parameters_supported ir offset (index # rest) = do {
     local \<leftarrow> nth_opt (ir_roots ir) (offset + index);
     (if local \<ge> length (ir_locals ir)
        \<or> lo_access (ir_locals ir ! local) = SOL_ACCESS_EXCLUSIVE
        \<or> \<not> sol_host_type_supported ir (lo_type (ir_locals ir ! local)) 0 then Some False
      else host_parameters_supported ir offset rest)
   }"

definition sol_host_operation_supported_internal :: "SolIr \<Rightarrow> size_t \<Rightarrow> bool option" where
  "sol_host_operation_supported_internal ir callable_id =
     (if callable_id \<ge> length (ir_callables ir) then Some False
      else
        (let callable = ir_callables ir ! callable_id in
         if ca_kind callable \<noteq> SOL_IR_CALLABLE_CAPABILITY \<or> ca_body callable \<noteq> SOL_IR_NONE
           \<or> sl_count (ca_generics callable) \<noteq> 0 \<or> sl_count (ca_effect_parameters callable) \<noteq> 0
           \<or> ca_effect_parameter callable \<noteq> SOL_IR_NONE
           \<or> ca_authority_kind callable \<noteq> SOL_IR_AUTHORITY_NONE
           \<or> sl_count (ca_effects callable) \<noteq> 1
           \<or> \<not> sol_host_type_supported ir (ca_result callable) 0 then Some False
         else do {
           effect \<leftarrow> nth_opt (ir_effects ir) (sl_offset (ca_effects callable));
           (if ef_authority_kind effect \<noteq> SOL_IR_AUTHORITY_SELF then Some False
            else host_parameters_supported ir (sl_offset (ca_parameters callable))
              [0..<sl_count (ca_parameters callable)])
         }))"

fun find_member :: "SolIr \<Rightarrow> string \<Rightarrow> size_t \<Rightarrow> size_t \<Rightarrow> nat list \<Rightarrow> size_t option" where
  "find_member ir name offset found [] = Some found"
| "find_member ir name offset found (index # rest) = do {
     callable \<leftarrow> nth_opt (ir_members ir) (offset + index);
     (if callable < length (ir_callables ir) \<and> ca_name (ir_callables ir ! callable) = name then
        if found \<noteq> SOL_IR_NONE then Some SOL_IR_NONE
        else find_member ir name offset callable rest
      else find_member ir name offset found rest)
   }"

text \<open>The one member with that name, or \<open>SOL_IR_NONE\<close>.\<close>

definition sol_host_find_operation :: "SolIr \<Rightarrow> size_t \<Rightarrow> string \<Rightarrow> size_t option" where
  "sol_host_find_operation ir capability name =
     (if capability \<ge> length (ir_definitions ir) then Some SOL_IR_NONE
      else
        (let members = def_members (ir_definitions ir ! capability) in
         find_member ir name (sl_offset members) SOL_IR_NONE [0..<sl_count members]))"

section \<open>Registry\<close>

definition SOL_HOST_ROOT_LIMIT :: size_t where "SOL_HOST_ROOT_LIMIT = 64"
definition SOL_HOST_OPERATION_LIMIT :: size_t where "SOL_HOST_OPERATION_LIMIT = 256"

record SolHostRoot =
  hr_capability :: size_t
  hr_bound :: bool

text \<open>\<open>'c\<close> is the type of host callbacks; \<open>hg_context\<close> the pointer handed to the callback.\<close>

record 'c SolHostGrant =
  hg_parameter :: size_t
  hg_callable :: size_t
  hg_callback :: 'c
  hg_context :: void_ptr

text \<open>\<open>rg_roots_base\<close> is the address of the array of roots: roots are compared as pointers into it.\<close>

record 'c SolHostRegistry =
  rg_validated :: SolValidatedIr
  rg_roots_base :: void_ptr
  rg_roots :: "SolHostRoot list"
  rg_grants :: "'c SolHostGrant list"
  rg_grant_capacity :: size_t
  rg_error :: string

definition sizeof_SolHostRegistry :: size_t where "sizeof_SolHostRegistry = 240"
definition sizeof_SolHostRoot :: size_t where "sizeof_SolHostRoot = 16"
definition sizeof_SolHostGrant :: size_t where "sizeof_SolHostGrant = 32"

definition sol_host_registry_set_error :: "'c SolHostRegistry \<Rightarrow> string \<Rightarrow> 'c SolHostRegistry" where
  "sol_host_registry_set_error registry message = registry\<lparr>rg_error := take 191 message\<rparr>"

text \<open>
  The member counts of the parameters' capabilities: \<open>Some False\<close> when they exceed the
  operation limit.
\<close>

fun count_members :: "SolIr \<Rightarrow> size_t \<Rightarrow> size_t \<Rightarrow> nat list \<Rightarrow> bool option" where
  "count_members ir offset member_count [] = Some True"
| "count_members ir offset member_count (index # rest) = do {
     local_id \<leftarrow> nth_opt (ir_roots ir) (offset + index);
     local \<leftarrow> nth_opt (ir_locals ir) local_id;
     type \<leftarrow> nth_opt (ir_types ir) (lo_type local);
     capability \<leftarrow> nth_opt (ir_definitions ir) (ty_definition type);
     (let count = sl_count (def_members capability) in
      if count > SOL_HOST_OPERATION_LIMIT - member_count then Some False
      else count_members ir offset (member_count + count) rest)
   }"

text \<open>The roots of the parameters; the inner \<open>None\<close> where a parameter view is refused.\<close>

fun make_roots :: "SolValidatedIr \<Rightarrow> nat list \<Rightarrow> SolHostRoot list option option" where
  "make_roots validated [] = Some (Some [])"
| "make_roots validated (index # rest) = do {
     parameter \<leftarrow> sol_validated_ir_entrypoint_parameter_at validated index;
     (case parameter of
        None \<Rightarrow> Some None
      | Some view \<Rightarrow> do {
          roots \<leftarrow> make_roots validated rest;
          Some (map_option (Cons \<lparr> hr_capability = ep_capability_definition view, hr_bound = False \<rparr>)
            roots)
        })
   }"

text \<open>The checks made before anything is allocated: the entrypoint's parameter count.\<close>

definition create_checks :: "SolValidatedIr \<Rightarrow> size_t option option" where
  "create_checks validated = do {
     entrypoint \<leftarrow> sol_validated_ir_entrypoint validated;
     (case entrypoint of
        None \<Rightarrow> Some None
      | Some entry \<Rightarrow> do {
          callable \<leftarrow> nth_opt (ir_callables (vi_ir validated)) (en_callable entry);
          (if en_parameter_count entry > SOL_HOST_ROOT_LIMIT
             \<or> sl_count (ca_effects callable) > SOL_HOST_OPERATION_LIMIT then Some None
           else do {
             few \<leftarrow> count_members (vi_ir validated) (sl_offset (ca_parameters callable)) 0
               [0..<en_parameter_count entry];
             Some (if few then Some (en_parameter_count entry) else None)
           })
        })
   }"

text \<open>
  \<open>base\<close> is the address the array of roots gets. The result is \<open>None\<close> for a read outside an
  array, \<open>Some None\<close> where the C function returns \<open>NULL\<close>.
\<close>

definition sol_host_registry_create ::
    "SolValidatedIr \<Rightarrow> void_ptr \<Rightarrow> (sol_env, 'c SolHostRegistry option option) state" where
  "sol_host_registry_create validated base =
     (case create_checks validated of
        None \<Rightarrow> ret None
      | Some None \<Rightarrow> ret (Some None)
      | Some (Some root_count) \<Rightarrow> do {
          memory \<leftarrow> sol_resource_calloc 1 sizeof_SolHostRegistry;
          (if \<not> memory then ret (Some None)
           else do {
             memory \<leftarrow> (if root_count = 0 then ret True
               else if root_count > SIZE_MAX div sizeof_SolHostRoot then ret False
               else sol_resource_calloc root_count sizeof_SolHostRoot);
             (if \<not> memory then ret (Some None)
              else ret (map_option (map_option (\<lambda>roots. \<lparr> rg_validated = validated,
                rg_roots_base = base, rg_roots = roots, rg_grants = [], rg_grant_capacity = 0,
                rg_error = [] \<rparr>)) (make_roots validated [0..<root_count])))
           })
        })"

definition sol_host_registry_bind_root :: "'c SolHostRegistry \<Rightarrow> size_t \<Rightarrow> bool \<times> 'c SolHostRegistry" where
  "sol_host_registry_bind_root registry parameter =
     (if parameter \<ge> length (rg_roots registry) then (False, registry)
      else if hr_bound (rg_roots registry ! parameter)
      then (False, sol_host_registry_set_error registry ''entrypoint capability root is already bound'')
      else (True, registry\<lparr>rg_roots := (rg_roots registry)[parameter :=
             (rg_roots registry ! parameter)\<lparr>hr_bound := True\<rparr>], rg_error := []\<rparr>))"

text \<open>An effect of the entrypoint on a root, by name.\<close>

fun effect_on_root :: "SolIr \<Rightarrow> size_t \<Rightarrow> string \<Rightarrow> size_t \<Rightarrow> nat list \<Rightarrow> bool option" where
  "effect_on_root ir root name offset [] = Some False"
| "effect_on_root ir root name offset (index # rest) = do {
     effect \<leftarrow> nth_opt (ir_effects ir) (offset + index);
     (if ef_authority_kind effect = SOL_IR_AUTHORITY_LOCAL \<and> ef_authority effect = root
        \<and> ef_name effect = name then Some True
      else effect_on_root ir root name offset rest)
   }"

definition sol_host_registry_operation_required ::
    "'c SolHostRegistry \<Rightarrow> size_t \<Rightarrow> string \<Rightarrow> string \<Rightarrow> bool option" where
  "sol_host_registry_operation_required registry parameter operation effect_name =
     (if parameter \<ge> length (rg_roots registry) then Some False
      else
        (let ir = vi_ir (rg_validated registry) in do {
           member \<leftarrow> sol_host_find_operation ir (hr_capability (rg_roots registry ! parameter)) operation;
           supported \<leftarrow> (if member = SOL_IR_NONE then Some False
             else sol_host_operation_supported_internal ir member);
           (if \<not> supported then Some False
            else do {
              entrypoint \<leftarrow> sol_validated_ir_entrypoint (rg_validated registry);
              (case entrypoint of
                 None \<Rightarrow> Some False
               | Some view \<Rightarrow> do {
                   entry \<leftarrow> nth_opt (ir_callables ir) (en_callable view);
                   callable \<leftarrow> nth_opt (ir_callables ir) member;
                   required \<leftarrow> nth_opt (ir_effects ir) (sl_offset (ca_effects callable));
                   (if ef_name required \<noteq> effect_name then Some False
                    else do {
                      root \<leftarrow> nth_opt (ir_roots ir) (sl_offset (ca_parameters entry) + parameter);
                      effect_on_root ir root (ef_name required) (sl_offset (ca_effects entry))
                        [0..<sl_count (ca_effects entry)]
                    })
                 })
            })
         }))"

definition sol_host_option_text :: "SolIr \<Rightarrow> size_t \<Rightarrow> bool" where
  "sol_host_option_text ir type_id \<longleftrightarrow>
     type_id < length (ir_types ir) \<and>
     (let type = ir_types ir ! type_id in
      ty_kind type = SOL_IR_TYPE_OPTION \<and> sl_count (ty_arguments type) = 1 \<and>
      sl_offset (ty_arguments type) < length (ir_type_ids ir) \<and>
      ir_type_ids ir ! sl_offset (ty_arguments type) < length (ir_types ir) \<and>
      ty_kind (ir_types ir ! (ir_type_ids ir ! sl_offset (ty_arguments type))) = SOL_IR_TYPE_TEXT)"

datatype SolHostOperationProfile =
    SOL_HOST_PROFILE_CONSOLE_WRITE | SOL_HOST_PROFILE_ARGUMENTS_COUNT
  | SOL_HOST_PROFILE_ARGUMENTS_GET | SOL_HOST_PROFILE_CONFIGURATION_READ

text \<open>
  Capability, operation and effect of a profile, the type of its one parameter if it has one,
  and its result type; \<open>None\<close> is an optional text.
\<close>

fun host_profile ::
    "SolHostOperationProfile \<Rightarrow>
     string \<times> string \<times> string \<times> SolIrTypeKind option \<times> SolIrTypeKind option" where
  "host_profile SOL_HOST_PROFILE_CONSOLE_WRITE =
     (''Console'', ''write'', ''console.write'', Some SOL_IR_TYPE_TEXT, Some SOL_IR_TYPE_UNIT)"
| "host_profile SOL_HOST_PROFILE_ARGUMENTS_COUNT =
     (''Arguments'', ''count'', ''process.arguments.count'', None, Some SOL_IR_TYPE_INT64)"
| "host_profile SOL_HOST_PROFILE_ARGUMENTS_GET =
     (''Arguments'', ''get'', ''process.arguments.get'', Some SOL_IR_TYPE_INT64, None)"
| "host_profile SOL_HOST_PROFILE_CONFIGURATION_READ =
     (''Configuration'', ''read'', ''configuration.read'', Some SOL_IR_TYPE_TEXT, None)"

definition sol_host_registry_profile_required ::
    "'c SolHostRegistry \<Rightarrow> size_t \<Rightarrow> SolHostOperationProfile \<Rightarrow> bool option" where
  "sol_host_registry_profile_required registry parameter profile =
     (if parameter \<ge> length (rg_roots registry) then Some False
      else
        (case host_profile profile of (capability, operation, effect, parameter_type, result_type) \<Rightarrow>
           let ir = vi_ir (rg_validated registry); owner = hr_capability (rg_roots registry ! parameter) in
           if owner \<ge> length (ir_definitions ir) \<or> def_name (ir_definitions ir ! owner) \<noteq> capability
           then Some False
           else do {
             callable \<leftarrow> sol_host_find_operation ir owner operation;
             required \<leftarrow> (if callable = SOL_IR_NONE then Some False
               else sol_host_registry_operation_required registry parameter operation effect);
             (if \<not> required then Some False
              else do {
                member \<leftarrow> nth_opt (ir_callables ir) callable;
                (if sl_count (ca_parameters member) \<noteq> (if parameter_type = None then 0 else 1)
                   \<or> ca_result member \<ge> length (ir_types ir)
                   \<or> (case result_type of
                        None \<Rightarrow> \<not> sol_host_option_text ir (ca_result member)
                      | Some kind \<Rightarrow> ty_kind (ir_types ir ! ca_result member) \<noteq> kind) then Some False
                 else
                   (case parameter_type of
                      None \<Rightarrow> Some True
                    | Some kind \<Rightarrow> do {
                        local \<leftarrow> nth_opt (ir_roots ir) (sl_offset (ca_parameters member));
                        Some (local < length (ir_locals ir)
                          \<and> lo_access (ir_locals ir ! local) = SOL_ACCESS_OWNED
                          \<and> lo_type (ir_locals ir ! local) < length (ir_types ir)
                          \<and> ty_kind (ir_types ir ! lo_type (ir_locals ir ! local)) = kind)
                      }))
              })
           }))"

text \<open>The growth of the array of grants: \<open>Inl\<close> the error, \<open>Inr\<close> the capacity.\<close>

definition grow_grants :: "'c SolHostRegistry \<Rightarrow> (sol_env, string + size_t) state" where
  "grow_grants registry =
     (if length (rg_grants registry) \<noteq> rg_grant_capacity registry then ret (Inr (rg_grant_capacity registry))
      else
        (let capacity = (if rg_grant_capacity registry = 0 then 4
               else (rg_grant_capacity registry * 2) mod (SIZE_MAX + 1)) in
         if capacity < rg_grant_capacity registry \<or> capacity > SIZE_MAX div sizeof_SolHostGrant
         then ret (Inl ''host registry is too large'')
         else do {
           memory \<leftarrow> sol_resource_realloc (capacity * sizeof_SolHostGrant);
           ret (if memory then Inr capacity else Inl ''host registry allocation failed'')
         }))"

definition refuse_grant :: "'c SolHostRegistry \<Rightarrow> string \<Rightarrow> (sol_env, (bool \<times> 'c SolHostRegistry) option) state" where
  "refuse_grant registry message = ret (Some (False, sol_host_registry_set_error registry message))"

definition sol_host_registry_allow ::
    "'c SolHostRegistry \<Rightarrow> size_t \<Rightarrow> string \<Rightarrow> 'c \<Rightarrow> void_ptr \<Rightarrow>
     (sol_env, (bool \<times> 'c SolHostRegistry) option) state" where
  "sol_host_registry_allow registry parameter operation callback context =
     (if parameter \<ge> length (rg_roots registry) then ret (Some (False, registry))
      else if length (rg_grants registry) \<ge> SOL_HOST_OPERATION_LIMIT
      then refuse_grant registry ''host operation limit exceeded''
      else if \<not> hr_bound (rg_roots registry ! parameter)
      then refuse_grant registry ''entrypoint capability root must be bound before allowing operations''
      else
        (let ir = vi_ir (rg_validated registry) in
         case sol_host_find_operation ir (hr_capability (rg_roots registry ! parameter)) operation of
           None \<Rightarrow> ret None
         | Some callable \<Rightarrow>
             (case (if callable = SOL_IR_NONE then Some False
                    else sol_host_operation_supported_internal ir callable) of
                None \<Rightarrow> ret None
              | Some False \<Rightarrow> refuse_grant registry
                  ''host operation must be a unique bodyless data-only capability member''
              | Some True \<Rightarrow>
                  if list_ex (\<lambda>g. hg_parameter g = parameter \<and> hg_callable g = callable) (rg_grants registry)
                  then refuse_grant registry ''host operation is already allowed''
                  else do {
                    grown \<leftarrow> grow_grants registry;
                    (case grown of
                       Inl message \<Rightarrow> refuse_grant registry message
                     | Inr capacity \<Rightarrow> ret (Some (True, registry\<lparr>rg_grant_capacity := capacity,
                         rg_grants := rg_grants registry @ [\<lparr> hg_parameter = parameter,
                           hg_callable = callable, hg_callback = callback, hg_context = context \<rparr>],
                         rg_error := []\<rparr>)))
                  })))"

definition sol_host_registry_error :: "'c SolHostRegistry \<Rightarrow> string option" where
  "sol_host_registry_error registry = (if rg_error registry = [] then None else Some (rg_error registry))"

text \<open>The address of a root.\<close>

definition root_address :: "'c SolHostRegistry \<Rightarrow> size_t \<Rightarrow> void_ptr" where
  "root_address registry index = rg_roots_base registry + index * sizeof_SolHostRoot"

definition host_registry_grant ::
    "'c SolHostRegistry \<Rightarrow> void_ptr \<Rightarrow> size_t \<Rightarrow> 'c SolHostGrant option" where
  "host_registry_grant registry root callable =
     (case find (\<lambda>index. root = root_address registry index) [0..<length (rg_roots registry)] of
        None \<Rightarrow> None
      | Some parameter \<Rightarrow>
          find (\<lambda>g. hg_parameter g = parameter \<and> hg_callable g = callable) (rg_grants registry))"

section \<open>Registries of an embedding program\<close>

text \<open>What an embedding program can do with a registry, failing calls included.\<close>

inductive registry_session :: "SolValidatedIr \<Rightarrow> void_ptr \<Rightarrow> 'c SolHostRegistry \<Rightarrow> bool"
  for validated base where
  created: "run_state (sol_host_registry_create validated base) e = (Some (Some r), e') \<Longrightarrow>
    registry_session validated base r"
| bound: "registry_session validated base r \<Longrightarrow> sol_host_registry_bind_root r parameter = (ok, r') \<Longrightarrow>
    registry_session validated base r'"
| allowed: "registry_session validated base r \<Longrightarrow>
    run_state (sol_host_registry_allow r parameter operation callback context) e = (Some (ok, r'), e') \<Longrightarrow>
    registry_session validated base r'"

text \<open>A grant is for a bound root and a supported member of that root's capability.\<close>

definition grant_ok :: "'c SolHostRegistry \<Rightarrow> 'c SolHostGrant \<Rightarrow> bool" where
  "grant_ok r g \<longleftrightarrow> hg_parameter g < length (rg_roots r) \<and> hr_bound (rg_roots r ! hg_parameter g) \<and>
     sol_host_operation_supported_internal (vi_ir (rg_validated r)) (hg_callable g) = Some True \<and>
     (\<exists>name. sol_host_find_operation (vi_ir (rg_validated r))
       (hr_capability (rg_roots r ! hg_parameter g)) name = Some (hg_callable g))"

definition roots_ok :: "SolValidatedIr \<Rightarrow> SolHostRoot list \<Rightarrow> bool" where
  "roots_ok validated roots \<longleftrightarrow>
     (\<exists>entry. sol_validated_ir_entrypoint validated = Some (Some entry) \<and>
        length roots = en_parameter_count entry) \<and>
     length roots \<le> SOL_HOST_ROOT_LIMIT \<and>
     (\<forall>index < length roots. \<exists>view.
        sol_validated_ir_entrypoint_parameter_at validated index = Some (Some view) \<and>
        hr_capability (roots ! index) = ep_capability_definition view)"

abbreviation grant_key :: "'c SolHostGrant \<Rightarrow> size_t \<times> size_t" where
  "grant_key g \<equiv> (hg_parameter g, hg_callable g)"

definition registry_ok :: "SolValidatedIr \<Rightarrow> void_ptr \<Rightarrow> 'c SolHostRegistry \<Rightarrow> bool" where
  "registry_ok validated base r \<longleftrightarrow> rg_validated r = validated \<and> rg_roots_base r = base \<and>
     roots_ok validated (rg_roots r) \<and> list_all (grant_ok r) (rg_grants r) \<and>
     distinct (map grant_key (rg_grants r)) \<and> length (rg_grants r) \<le> SOL_HOST_OPERATION_LIMIT \<and>
     length (rg_grants r) \<le> rg_grant_capacity r"

lemma make_roots_ok:
  "make_roots validated is = Some (Some roots) \<Longrightarrow> length roots = length is \<and>
   (\<forall>k < length is. \<exists>view. sol_validated_ir_entrypoint_parameter_at validated (is ! k) = Some (Some view) \<and>
      roots ! k = \<lparr> hr_capability = ep_capability_definition view, hr_bound = False \<rparr>)"
proof (induction "is" arbitrary: roots)
  case (Cons i "is")
  from Cons.prems obtain view rest
    where "sol_validated_ir_entrypoint_parameter_at validated i = Some (Some view)"
    and "make_roots validated is = Some (Some rest)"
    and "roots = \<lparr> hr_capability = ep_capability_definition view, hr_bound = False \<rparr> # rest"
    by (auto split: option.splits bind_splits)
  with Cons.IH [OF this(2)] show ?case by (auto simp: nth_Cons split: nat.split)
qed simp

lemma create_ok:
  assumes "run_state (sol_host_registry_create validated base) e = (Some (Some r), e')"
  shows "registry_ok validated base r"
proof -
  from assms obtain n roots where n: "create_checks validated = Some (Some n)"
    and roots: "make_roots validated [0..<n] = Some (Some roots)"
    and r: "r = \<lparr> rg_validated = validated, rg_roots_base = base, rg_roots = roots, rg_grants = [],
      rg_grant_capacity = 0, rg_error = [] \<rparr>"
    by (auto simp: sol_host_registry_create_def split: option.splits if_splits prod.splits)
  from n have "\<exists>entry. sol_validated_ir_entrypoint validated = Some (Some entry)
      \<and> n = en_parameter_count entry \<and> n \<le> SOL_HOST_ROOT_LIMIT"
    by (auto simp: create_checks_def split: option.splits bind_splits if_splits)
  with make_roots_ok [OF roots] r show ?thesis
    by (auto simp: registry_ok_def roots_ok_def)
qed

text \<open>Errors do not touch what the invariant speaks about.\<close>

lemma set_error_ok [simp]:
  "registry_ok validated base (sol_host_registry_set_error r m) = registry_ok validated base r"
  by (simp add: registry_ok_def grant_ok_def list_all_iff sol_host_registry_set_error_def)

lemma bind_root_ok:
  assumes "sol_host_registry_bind_root r p = (ok, r')" and "registry_ok validated base r"
  shows "registry_ok validated base r'"
proof (cases "p < length (rg_roots r) \<and> \<not> hr_bound (rg_roots r ! p)")
  case True
  with assms(1) have "r' = r\<lparr>rg_roots := (rg_roots r)[p := (rg_roots r ! p)\<lparr>hr_bound := True\<rparr>], rg_error := []\<rparr>"
    by (auto simp: sol_host_registry_bind_root_def)
  moreover have "(rg_roots r)[p := x] ! i = (if i = p then x else rg_roots r ! i)" for x i
    using True by auto
  ultimately show ?thesis using assms(2)
    by (auto simp: registry_ok_def roots_ok_def grant_ok_def list_all_iff)
next
  case False
  with assms show ?thesis by (auto simp: sol_host_registry_bind_root_def split: if_splits)
qed

lemma grow_grants_capacity:
  assumes "run_state (grow_grants r) e = (Inr capacity, e')"
    and "length (rg_grants r) \<le> rg_grant_capacity r" "length (rg_grants r) < SOL_HOST_OPERATION_LIMIT"
  shows "length (rg_grants r) < capacity"
proof (cases "length (rg_grants r) = rg_grant_capacity r")
  case True
  with assms(3) have "rg_grant_capacity r * 2 < SIZE_MAX + 1"
    by (simp add: SOL_HOST_OPERATION_LIMIT_def SIZE_MAX_def)
  with True assms(1) show ?thesis
    by (auto simp: grow_grants_def Let_def split: if_splits prod.splits)
next
  case False
  with assms show ?thesis by (auto simp: grow_grants_def)
qed

lemma allow_cases:
  assumes "run_state (sol_host_registry_allow r p operation callback context) e = (Some (ok, r'), e')"
  obtains "r' = r" | m where "r' = sol_host_registry_set_error r m"
  | callable capacity e1 e2 where "p < length (rg_roots r)" "length (rg_grants r) < SOL_HOST_OPERATION_LIMIT"
      "hr_bound (rg_roots r ! p)"
      "sol_host_find_operation (vi_ir (rg_validated r)) (hr_capability (rg_roots r ! p)) operation
        = Some callable"
      "sol_host_operation_supported_internal (vi_ir (rg_validated r)) callable = Some True"
      "\<not> list_ex (\<lambda>g. hg_parameter g = p \<and> hg_callable g = callable) (rg_grants r)"
      "run_state (grow_grants r) e1 = (Inr capacity, e2)"
      "r' = r\<lparr>rg_grant_capacity := capacity, rg_grants := rg_grants r @ [\<lparr> hg_parameter = p,
        hg_callable = callable, hg_callback = callback, hg_context = context \<rparr>], rg_error := []\<rparr>"
  using assms
  by (auto simp: sol_host_registry_allow_def refuse_grant_def Let_def
      split: if_splits option.splits bool.splits sum.splits prod.splits)

lemma allow_ok:
  assumes "run_state (sol_host_registry_allow r p operation callback context) e = (Some (ok, r'), e')"
    and "registry_ok validated base r"
  shows "registry_ok validated base r'"
  using assms(1)
proof (cases rule: allow_cases)
  case (3 callable capacity e1 e2)
  with assms(2) grow_grants_capacity [OF 3(7)] have "length (rg_grants r) < capacity"
    by (simp add: registry_ok_def)
  with 3 assms(2) show ?thesis
    by (auto simp: registry_ok_def grant_ok_def list_all_iff list_ex_iff)
qed (use assms(2) in auto)

lemma session_ok: "registry_session v base r \<Longrightarrow> registry_ok v base r"
  by (induction rule: registry_session.induct) (auto intro: create_ok bind_root_ok allow_ok)

end
