(* ===== verification/Sol_HostRun.thy ===== *)
theory Sol_HostRun
  imports Sol_Host Sol_Machine Sol_Sample Sol_Diagnostic
begin

text \<open>
  The hosted execution at the end of \<open>src/src/interpreter.c\<close>: the preflight check of a
  registry, the conversion of values to and from the host's view, the two callbacks that the
  interpreter gets, and \<open>sol_validated_ir_interpret_entrypoint\<close>.
\<close>

section \<open>Values across the boundary\<close>

datatype SolHostValue =
    HOST_VALUE_INVALID
  | HOST_VALUE_INT64 "64 word"
  | HOST_VALUE_BOOL bool
  | HOST_VALUE_TEXT "char counted"
  | HOST_VALUE_UNIT
  | HOST_VALUE_SUM SolSumKind bool "SolHostValue option"

text \<open>A view is built while memory lasts; \<open>None\<close> where the C function returns false.\<close>

fun host_value_view :: "SolInterpreterValue \<Rightarrow> size_t \<Rightarrow> ('z heap_scheme, SolHostValue option) state" where
  "host_value_view source depth =
     (if depth \<ge> 256 then ret None
      else case source of
          VALUE_INT64 n \<Rightarrow> ret (Some (HOST_VALUE_INT64 n))
        | VALUE_BOOL b \<Rightarrow> ret (Some (HOST_VALUE_BOOL b))
        | VALUE_TEXT None \<Rightarrow> ret (Some (HOST_VALUE_TEXT (COUNTED_NULL 0)))
        | VALUE_TEXT (Some bytes) \<Rightarrow> ret (Some (HOST_VALUE_TEXT (COUNTED_ITEMS bytes)))
        | VALUE_UNIT \<Rightarrow> ret (Some HOST_VALUE_UNIT)
        | VALUE_SUM kind has_value is_error payload \<Rightarrow>
            if \<not> has_value then ret (Some (HOST_VALUE_SUM kind is_error None))
            else do {
              memory \<leftarrow> allocate;
              (if \<not> memory then ret None
               else case payload of
                   None \<Rightarrow> ret None
                 | Some v \<Rightarrow> do {
                     inner \<leftarrow> host_value_view v (depth + 1);
                     ret (map_option (\<lambda>w. HOST_VALUE_SUM kind is_error (Some w)) inner)
                   })
            }
        | _ \<Rightarrow> ret None)"

declare host_value_view.simps [simp del]

text \<open>
  Back from the host, at the operation's result type. The outer \<open>None\<close> is a read outside
  \<open>type_ids\<close>, the inner one a refused value.
\<close>

fun host_value_result ::
    "SolIr \<Rightarrow> size_t \<Rightarrow> SolHostValue \<Rightarrow> size_t \<Rightarrow> ('z heap_scheme, SolInterpreterValue option option) state" where
  "host_value_result ir type_id source depth =
     (if type_id \<ge> length (ir_types ir) \<or> depth > length (ir_types ir) then ret (Some None)
      else
        (let type = ir_types ir ! type_id in
         case ty_kind type of
           SOL_IR_TYPE_INT64 \<Rightarrow>
             (case source of HOST_VALUE_INT64 n \<Rightarrow> ret (Some (Some (VALUE_INT64 n))) | _ \<Rightarrow> ret (Some None))
         | SOL_IR_TYPE_BOOL \<Rightarrow>
             (case source of HOST_VALUE_BOOL b \<Rightarrow> ret (Some (Some (VALUE_BOOL b))) | _ \<Rightarrow> ret (Some None))
         | SOL_IR_TYPE_TEXT \<Rightarrow>
             (case source of
                HOST_VALUE_TEXT bytes \<Rightarrow>
                  ret (Some (if counted_missing bytes then None
                    else Some (VALUE_TEXT (Some (counted_items bytes)))))
              | _ \<Rightarrow> ret (Some None))
         | SOL_IR_TYPE_UNIT \<Rightarrow>
             (case source of HOST_VALUE_UNIT \<Rightarrow> ret (Some (Some VALUE_UNIT)) | _ \<Rightarrow> ret (Some None))
         | SOL_IR_TYPE_OPTION \<Rightarrow>
             (case source of
                HOST_VALUE_SUM SOL_VALUE_OPTION is_error payload \<Rightarrow>
                  if is_error \<or> sl_count (ty_arguments type) \<noteq> 1 then ret (Some None)
                  else (case payload of
                      None \<Rightarrow> ret (Some (Some (VALUE_SUM SOL_VALUE_OPTION False False None)))
                    | Some v \<Rightarrow> do {
                        memory \<leftarrow> allocate;
                        (if \<not> memory then ret (Some None)
                         else case nth_opt (ir_type_ids ir) (sl_offset (ty_arguments type)) of
                             None \<Rightarrow> ret None
                           | Some argument \<Rightarrow> do {
                               inner \<leftarrow> host_value_result ir argument v (depth + 1);
                               ret (map_option (map_option (\<lambda>w.
                                 VALUE_SUM SOL_VALUE_OPTION True False (Some w))) inner)
                             })
                      })
              | _ \<Rightarrow> ret (Some None))
         | SOL_IR_TYPE_RESULT \<Rightarrow>
             (case source of
                HOST_VALUE_SUM SOL_VALUE_RESULT is_error (Some v) \<Rightarrow>
                  if sl_count (ty_arguments type) \<noteq> 2 then ret (Some None)
                  else do {
                    memory \<leftarrow> allocate;
                    (if \<not> memory then ret (Some None)
                     else case nth_opt (ir_type_ids ir)
                             (sl_offset (ty_arguments type) + (if is_error then 1 else 0)) of
                         None \<Rightarrow> ret None
                       | Some argument \<Rightarrow> do {
                           inner \<leftarrow> host_value_result ir argument v (depth + 1);
                           ret (map_option (map_option (\<lambda>w.
                             VALUE_SUM SOL_VALUE_RESULT True is_error (Some w))) inner)
                         })
                  }
              | _ \<Rightarrow> ret (Some None))
         | _ \<Rightarrow> ret (Some None)))"

declare host_value_result.simps [simp del]

section \<open>The callbacks of the interpreter\<close>

text \<open>
  The state of a hosted execution: the memory of the conversions, the result still borrowed
  by the interpreter and the host's own state \<open>'u\<close>. \<open>hx_undefined\<close> records a read outside an
  array. The registry does not change and is an argument.
\<close>

record 'u SolHostExecution = heap +
  hx_pending :: "SolInterpreterValue option"
  hx_user :: 'u
  hx_undefined :: bool

text \<open>A host callback is code outside the repository.\<close>

type_synonym 'u SolHostOperation =
  "void_ptr \<Rightarrow> SolHostValue list \<Rightarrow> 'u \<Rightarrow> (bool \<times> SolHostValue \<times> SolInterpreterHostFailure) \<times> 'u"

type_synonym 'u registry = "'u SolHostOperation SolHostRegistry"

definition no_failure :: SolInterpreterHostFailure where
  "no_failure = \<lparr> hf_bytes = [], hf_length = 0 \<rparr>"

definition host_registry_allows ::
    "'u registry \<Rightarrow> void_ptr \<Rightarrow> size_t \<Rightarrow> void_ptr \<Rightarrow> bool" where
  "host_registry_allows registry ir operation root \<longleftrightarrow>
     ir = vi_address (rg_validated registry) \<and> host_registry_grant registry root operation \<noteq> None"

fun view_arguments :: "SolInterpreterValue list \<Rightarrow> ('z heap_scheme, SolHostValue list option) state" where
  "view_arguments [] = ret (Some [])"
| "view_arguments (v # vs) = do {
     view \<leftarrow> host_value_view v 0;
     (case view of
        None \<Rightarrow> ret None
      | Some w \<Rightarrow> do { rest \<leftarrow> view_arguments vs; ret (map_option (Cons w) rest) })
   }"

definition call_host ::
    "'u SolHostOperation SolHostGrant \<Rightarrow> SolHostValue list \<Rightarrow>
     ('u SolHostExecution, bool \<times> SolHostValue \<times> SolInterpreterHostFailure) state" where
  "call_host grant views = State (\<lambda>x.
     let (answer, user) = hg_callback grant (hg_context grant) views (hx_user x) in
     (answer, x\<lparr>hx_user := user\<rparr>))"

text \<open>After a successful callback: its answer at the operation's result type.\<close>

definition accept_result ::
    "SolIr \<Rightarrow> size_t \<Rightarrow> SolHostValue \<Rightarrow> ('u SolHostExecution, SolInterpreterValue option) state" where
  "accept_result ir operation answer =
     (case nth_opt (ir_callables ir) operation of
        None \<Rightarrow> do { modify (\<lambda>x. x\<lparr>hx_undefined := True\<rparr>); ret None }
      | Some callable \<Rightarrow> do {
          converted \<leftarrow> host_value_result ir (ca_result callable) answer 0;
          (case converted of
             None \<Rightarrow> do { modify (\<lambda>x. x\<lparr>hx_undefined := True\<rparr>); ret None }
           | Some None \<Rightarrow> ret None
           | Some (Some v) \<Rightarrow> do { modify (\<lambda>x. x\<lparr>hx_pending := Some v\<rparr>); ret (Some v) })
        })"

definition host_registry_dispatch ::
    "'u registry \<Rightarrow> void_ptr \<Rightarrow> size_t \<Rightarrow> void_ptr \<Rightarrow> SolInterpreterValue option \<Rightarrow>
     SolInterpreterValue list \<Rightarrow>
     ('u SolHostExecution, bool \<times> SolInterpreterValue \<times> SolInterpreterHostFailure) state" where
  "host_registry_dispatch registry ir operation root private_source arguments =
     (case (if ir \<noteq> vi_address (rg_validated registry) \<or> private_source \<noteq> None then None
            else host_registry_grant registry root operation) of
        None \<Rightarrow> ret (False, VALUE_INVALID, no_failure)
      | Some grant \<Rightarrow> do {
          modify (\<lambda>x. x\<lparr>hx_pending := None\<rparr>);
          memory \<leftarrow> (if arguments = [] then ret True else allocate);
          (if \<not> memory then ret (False, VALUE_INVALID, no_failure)
           else do {
             views \<leftarrow> view_arguments arguments;
             (case views of
                None \<Rightarrow> ret (False, VALUE_INVALID, no_failure)
              | Some views \<Rightarrow> do {
                  (succeeded, answer, failure) \<leftarrow> call_host grant views;
                  (if \<not> succeeded then ret (False, VALUE_INVALID, failure)
                   else do {
                     result \<leftarrow> accept_result (vi_ir (rg_validated registry)) operation answer;
                     ret (case result of
                         None \<Rightarrow> (False, VALUE_INVALID, failure)
                       | Some v \<Rightarrow> (True, v, failure))
                   })
                })
           })
        })"

section \<open>Preflight\<close>

definition host_entry_effect_matches :: "SolIr \<Rightarrow> SolIrCallable \<Rightarrow> size_t \<Rightarrow> SolIrEffect \<Rightarrow> bool option" where
  "host_entry_effect_matches ir entry parameter operation_effect = do {
     root \<leftarrow> nth_opt (ir_roots ir) (sl_offset (ca_parameters entry) + parameter);
     effect_on_root ir root (ef_name operation_effect) (sl_offset (ca_effects entry))
       [0..<sl_count (ca_effects entry)]
   }"

text \<open>
  The three loops of \<open>host_registry_preflight\<close>. \<open>Some None\<close> is success, \<open>Some (Some message)\<close> a
  refusal, \<open>None\<close> a read outside an array.
\<close>

definition preflight_roots :: "'c SolHostRegistry \<Rightarrow> string option" where
  "preflight_roots registry =
     map_option (\<lambda>index. ''entrypoint capability parameter '' @ decimal index @ '' has no bound host root'')
       (find (\<lambda>index. \<not> hr_bound (rg_roots registry ! index)) [0..<length (rg_roots registry)])"

fun preflight_grants :: "SolIr \<Rightarrow> SolIrCallable \<Rightarrow> 'c SolHostGrant list \<Rightarrow> string option option" where
  "preflight_grants ir entry [] = Some None"
| "preflight_grants ir entry (grant # rest) = do {
     operation \<leftarrow> nth_opt (ir_callables ir) (hg_callable grant);
     effect \<leftarrow> nth_opt (ir_effects ir) (sl_offset (ca_effects operation));
     declared \<leftarrow> host_entry_effect_matches ir entry (hg_parameter grant) effect;
     (if declared then preflight_grants ir entry rest
      else Some (Some (''allowed host operation '' @ quote_name (ca_name operation) @
        '' is not declared by the entrypoint'')))
   }"

fun find_parameter :: "SolIr \<Rightarrow> size_t \<Rightarrow> size_t \<Rightarrow> nat list \<Rightarrow> size_t option option" where
  "find_parameter ir offset authority [] = Some None"
| "find_parameter ir offset authority (index # rest) = do {
     root \<leftarrow> nth_opt (ir_roots ir) (offset + index);
     (if root = authority then Some (Some index) else find_parameter ir offset authority rest)
   }"

fun find_required ::
    "SolIr \<Rightarrow> string \<Rightarrow> size_t \<Rightarrow> size_t \<Rightarrow> nat list \<Rightarrow> (string + size_t) option" where
  "find_required ir name offset required [] = Some (Inr required)"
| "find_required ir name offset required (member # rest) = do {
     callable \<leftarrow> nth_opt (ir_members ir) (offset + member);
     operation \<leftarrow> nth_opt (ir_callables ir) callable;
     (if ca_body operation \<noteq> SOL_IR_NONE \<or> sl_count (ca_effects operation) \<noteq> 1
      then find_required ir name offset required rest
      else do {
        effect \<leftarrow> nth_opt (ir_effects ir) (sl_offset (ca_effects operation));
        (if name \<noteq> ef_name effect then find_required ir name offset required rest
         else do {
           supported \<leftarrow> sol_host_operation_supported_internal ir callable;
           (if \<not> supported then
              Some (Inl (''entrypoint effect '' @ quote_name name @ '' names an unsupported host operation''))
            else if required \<noteq> SOL_IR_NONE then
              Some (Inl (''entrypoint effect '' @ quote_name name @
                '' ambiguously names multiple host operations''))
            else find_required ir name offset callable rest)
         })
      })
   }"

definition preflight_effect ::
    "'c SolHostRegistry \<Rightarrow> SolIrCallable \<Rightarrow> SolIrEffect \<Rightarrow> string option option" where
  "preflight_effect registry entry effect =
     (let ir = vi_ir (rg_validated registry) in
      if ef_authority_kind effect = SOL_IR_AUTHORITY_NONE then Some None
      else if ef_authority_kind effect \<noteq> SOL_IR_AUTHORITY_LOCAL
      then Some (Some ''entrypoint effect authority is not a registered root'')
      else do {
        found \<leftarrow> find_parameter ir (sl_offset (ca_parameters entry)) (ef_authority effect)
          [0..<sl_count (ca_parameters entry)];
        (case found of
           None \<Rightarrow> Some (Some ''entrypoint effect refers to undeclared authority'')
         | Some parameter \<Rightarrow> do {
             root \<leftarrow> nth_opt (rg_roots registry) parameter;
             capability \<leftarrow> nth_opt (ir_definitions ir) (hr_capability root);
             search \<leftarrow> find_required ir (ef_name effect) (sl_offset (def_members capability)) SOL_IR_NONE
               [0..<sl_count (def_members capability)];
             (case search of
                Inl message \<Rightarrow> Some (Some message)
              | Inr required \<Rightarrow>
                  if required = SOL_IR_NONE then
                    Some (Some (''entrypoint effect '' @ quote_name (ef_name effect) @ '' names no host operation''))
                  else if host_registry_grant registry (root_address registry parameter) required = None then do {
                    operation \<leftarrow> nth_opt (ir_callables ir) required;
                    Some (Some (''entrypoint host operation '' @ quote_name (ca_name operation) @
                      '' is not allowed''))
                  }
                  else Some None)
           })
      })"

fun preflight_effects ::
    "'c SolHostRegistry \<Rightarrow> SolIrCallable \<Rightarrow> nat list \<Rightarrow> string option option" where
  "preflight_effects registry entry [] = Some None"
| "preflight_effects registry entry (index # rest) = do {
     effect \<leftarrow> nth_opt (ir_effects (vi_ir (rg_validated registry))) (sl_offset (ca_effects entry) + index);
     outcome \<leftarrow> preflight_effect registry entry effect;
     (if outcome = None then preflight_effects registry entry rest else Some outcome)
   }"

definition host_registry_preflight :: "'c SolHostRegistry \<Rightarrow> SolIrCallable \<Rightarrow> string option option" where
  "host_registry_preflight registry entry =
     (case preflight_roots registry of
        Some message \<Rightarrow> Some (Some message)
      | None \<Rightarrow> do {
          grants \<leftarrow> preflight_grants (vi_ir (rg_validated registry)) entry (rg_grants registry);
          (if grants \<noteq> None then Some grants
           else preflight_effects registry entry [0..<sl_count (ca_effects entry)])
        })"

section \<open>Entry\<close>

definition sol_interpreter_value_capability ::
    "size_t \<Rightarrow> void_ptr \<Rightarrow> SolInterpreterValue option \<Rightarrow> ('z heap_scheme, SolInterpreterValue option) state" where
  "sol_interpreter_value_capability definition root private_source =
     (if root = NULL then ret None
      else if private_source = None then ret (Some (VALUE_CAPABILITY definition root None))
      else do {
        source \<leftarrow> clone_pointer private_source;
        ret (map_option (VALUE_CAPABILITY definition root) source)
      })"

fun root_arguments :: "'c SolHostRegistry \<Rightarrow> nat list \<Rightarrow> ('z heap_scheme, SolInterpreterValue list option) state" where
  "root_arguments registry [] = ret (Some [])"
| "root_arguments registry (index # rest) = do {
     argument \<leftarrow> sol_interpreter_value_capability (hr_capability (rg_roots registry ! index))
       (root_address registry index) None;
     (case argument of
        None \<Rightarrow> ret None
      | Some v \<Rightarrow> do { vs \<leftarrow> root_arguments registry rest; ret (map_option (Cons v) vs) })
   }"

definition host_invalid_result :: "string \<Rightarrow> ('h, SolInterpreterValue option) run" where
  "host_invalid_result message = do {
     modify (\<lambda>s. s\<lparr>it_diagnostic := empty_diagnostic\<lparr>id_code := SOL_INTERPRETER_INVALID_REQUEST,
       id_message := take 191 message\<rparr>\<rparr>);
     ret None
   }"

definition sol_validated_ir_interpret ::
    "SolValidatedIr \<Rightarrow> 'h SolInterpreterRequest \<Rightarrow> ('h, SolInterpreterValue option) run" where
  "sol_validated_ir_interpret validated request =
     (if rq_host_operation request \<noteq> None \<or> rq_host_allows request \<noteq> None
      then host_invalid_result
        ''validated IR handles do not expose raw IR host callbacks; use a host registry''
      else sol_interpret_impl (enough_fuel request) None (request\<lparr>rq_ir := vi_ir validated\<rparr>))"

definition hosted_request ::
    "SolValidatedIr \<Rightarrow> 'u registry \<Rightarrow> SolEntrypointView \<Rightarrow> 'r SolInterpreterRequest \<Rightarrow>
     SolInterpreterValue list \<Rightarrow> 'u SolHostExecution SolInterpreterRequest" where
  "hosted_request validated registry entrypoint request arguments = \<lparr> rq_ir = vi_ir validated,
     rq_callable = en_callable entrypoint, rq_definition = SOL_IR_NONE,
     rq_arguments = (if arguments = [] then COUNTED_NULL 0 else COUNTED_ITEMS arguments),
     rq_type_arguments = COUNTED_NULL 0, rq_evidence = COUNTED_NULL 0,
     rq_contracts = rq_contracts request, rq_limits = rq_limits request,
     rq_host_operation = Some (\<lambda>operation root source arguments.
       run_state (host_registry_dispatch registry (vi_address validated) operation root source arguments)),
     rq_host_allows = Some (\<lambda>operation root x.
       (host_registry_allows registry (vi_address validated) operation root, x)),
     rq_cleanup_observer = False, rq_test_entry = False \<rparr>"

text \<open>The part after the preflight: arguments, execution, release of the last borrowed result.\<close>

definition run_hosted ::
    "SolValidatedIr \<Rightarrow> 'u registry \<Rightarrow> SolEntrypointView \<Rightarrow> 'r SolInterpreterRequest \<Rightarrow>
     ('u SolHostExecution, SolInterpreterValue option) run" where
  "run_hosted validated registry entrypoint request = do {
     memory \<leftarrow> (if en_parameter_count entrypoint = 0 then ret True else allocate);
     (if \<not> memory then host_invalid_result ''entrypoint argument allocation failed''
      else do {
        arguments \<leftarrow> root_arguments registry [0..<en_parameter_count entrypoint];
        (case arguments of
           None \<Rightarrow> host_invalid_result ''entrypoint capability construction failed''
         | Some arguments \<Rightarrow>
             (let hosted = hosted_request validated registry entrypoint request arguments in do {
                result \<leftarrow> sol_interpret_impl (enough_fuel hosted) None hosted;
                modify (\<lambda>s. s\<lparr>it_host := (it_host s)\<lparr>hx_pending := None\<rparr>\<rparr>);
                ret result
              }))
      })
   }"

definition sol_validated_ir_interpret_entrypoint ::
    "SolValidatedIr \<Rightarrow> 'u registry \<Rightarrow> 'r SolInterpreterRequest \<Rightarrow>
     ('u SolHostExecution, SolInterpreterValue option) run" where
  "sol_validated_ir_interpret_entrypoint validated registry request =
     (if vi_address (rg_validated registry) \<noteq> vi_address validated
      then host_invalid_result ''entrypoint execution requires a matching validated host registry''
      else do {
        found \<leftarrow> defined (sol_validated_ir_entrypoint validated) None;
        (case found of
           None \<Rightarrow> host_invalid_result ''application declares no entrypoint''
         | Some entrypoint \<Rightarrow> do {
             callable \<leftarrow> deref (ir_callables (vi_ir validated)) (en_callable entrypoint);
             refused \<leftarrow> defined (host_registry_preflight registry callable) (Some []);
             (case refused of
                Some message \<Rightarrow> host_invalid_result (take 191 message)
              | None \<Rightarrow> run_hosted validated registry entrypoint request)
           })
      })"

text \<open>\<open>sol_validated_ir_entrypoint_exit_status\<close> of \<open>src/src/compilation.c\<close>, on a finished run.\<close>

definition sol_validated_ir_entrypoint_exit_status ::
    "SolValidatedIr \<Rightarrow> SolInterpreterCode \<Rightarrow> SolInterpreterValue \<Rightarrow> int option option" where
  "sol_validated_ir_entrypoint_exit_status validated code v =
     (if code \<noteq> SOL_INTERPRETER_OK then Some None
      else do {
        found \<leftarrow> sol_validated_ir_entrypoint validated;
        Some (case found of
            None \<Rightarrow> None
          | Some entrypoint \<Rightarrow>
              (case (en_result entrypoint, v) of
                 (SOL_ENTRYPOINT_RESULT_UNIT, VALUE_UNIT) \<Rightarrow> Some 0
               | (SOL_ENTRYPOINT_RESULT_INT64, VALUE_INT64 n) \<Rightarrow>
                   if sint n < 0 \<or> sint n > 255 then None else Some (sint n)
               | _ \<Rightarrow> None))
      })"

end
