(* ===== verification/Sol_HostSafety.thy ===== *)
theory Sol_HostSafety
  imports Sol_HostRun
begin

text \<open>
  What the host registry and hosted execution guarantee: only granted and declared callbacks
  can touch the host's state, the preflight covers every authority effect of the entrypoint,
  answers of the host have the operation's type, and no array is read out of bounds.
\<close>

section \<open>What a run can do to the host\<close>

text \<open>\<open>host_keeps P s t\<close>: a run from \<open>s\<close> to \<open>t\<close> preserved \<open>P\<close> of the host's state.\<close>

definition host_keeps :: "('h \<Rightarrow> bool) \<Rightarrow> 'h interp \<Rightarrow> 'h interp \<Rightarrow> bool" where
  "host_keeps P s t \<longleftrightarrow> (P (it_host s) \<longrightarrow> P (it_host t))"

lemma host_keeps_same: "it_host t = it_host s \<Longrightarrow> host_keeps P s t"
  by (simp add: host_keeps_def)

interpretation keeps_heap: heap_machine "host_keeps P" for P :: "'h \<Rightarrow> bool"
  by unfold_locales (auto simp: host_keeps_def state_io_rel_def)

lemma keeps_modify:
  "(\<And>s. it_host (f s) = it_host s) \<Longrightarrow> state_io_rel (host_keeps P) (modify f)"
  by (auto simp: state_io_rel_def intro: host_keeps_same)

lemma keeps_trap: "state_io_rel (host_keeps P) (trap t)"
  unfolding trap_def by (rule keeps_modify) simp

lemma keeps_diagnostic: "state_io_rel (host_keeps P) (diagnostic rq code sp message)"
  unfolding diagnostic_def Let_def by (rule keeps_modify) (simp split: prod.split)

lemma keeps_consume: "state_io_rel (host_keeps P) (consume rq counter update code sp name)"
  unfolding consume_def
  by (intro keeps_heap.io_rules keeps_diagnostic keeps_modify) simp

lemma keeps_reserve_clone: "state_io_rel (host_keeps P) (reserve_clone rq sp v)"
  unfolding reserve_clone_def
  by (intro keeps_heap.io_rules keeps_heap.value_shape_valid_io keeps_diagnostic keeps_modify) simp

lemma keeps_new_value: "state_io_rel (host_keeps P) (new_value rq sp)"
  unfolding new_value_def by (rule keeps_consume)

lemma keeps_evaluate_string: "state_io_rel (host_keeps P) (evaluate_string rq sp tx)"
  unfolding evaluate_string_def Let_def
  by (intro keeps_heap.io_rules keeps_new_value keeps_diagnostic keeps_heap.allocate_io keeps_modify)
    simp

text \<open>The machine keeps \<open>P\<close> as soon as the two host callbacks do.\<close>

lemma keeps_machine:
  assumes "\<And>allows c r x. rq_host_allows rq = Some allows \<Longrightarrow> P x \<Longrightarrow> P (snd (allows c r x))"
    and "\<And>operation c r source arguments x. rq_host_operation rq = Some operation \<Longrightarrow> P x \<Longrightarrow>
      P (snd (operation c r source arguments x))"
  shows "machine (host_keeps P) rq"
proof (intro machine.intro machine_axioms.intro)
  show "heap_machine (host_keeps P)" by (rule keeps_heap.heap_machine_axioms)
  show "state_io_rel (host_keeps P) (cleanup_action rq local)" for local
    unfolding cleanup_action_def by (rule keeps_modify) simp
  show "state_io_rel (host_keeps P) (enter_call depth)" for depth
    unfolding enter_call_def by (auto simp: state_io_rel_def intro: host_keeps_same)
  show "state_io_rel (host_keeps P) (consume_step rq sp name)" for sp name
    unfolding consume_step_def by (rule keeps_consume)
  show "rq_host_allows rq = Some allows \<Longrightarrow> state_io_rel (host_keeps P) (host_step (allows c r))"
    for allows c r by (intro host_step_io) (auto simp: host_keeps_def assms(1))
  show "rq_host_operation rq = Some operation \<Longrightarrow>
      state_io_rel (host_keeps P) (host_step (operation c r source arguments))"
    for operation c r source arguments by (intro host_step_io) (auto simp: host_keeps_def assms(2))
qed (auto intro: host_keeps_same keeps_trap keeps_diagnostic keeps_consume keeps_reserve_clone
    keeps_new_value keeps_evaluate_string)

lemma normalized_host [simp]:
  "rq_host_allows (normalized rq) = rq_host_allows rq"
  "rq_host_operation (normalized rq) = rq_host_operation rq"
  by (simp_all add: normalized_def)

lemma interpret_impl_keeps:
  assumes "\<And>allows c r x. rq_host_allows rq = Some allows \<Longrightarrow> P x \<Longrightarrow> P (snd (allows c r x))"
    and "\<And>operation c r source arguments x. rq_host_operation rq = Some operation \<Longrightarrow> P x \<Longrightarrow>
      P (snd (operation c r source arguments x))"
  shows "state_io_rel (host_keeps P) (sol_interpret_impl fuel ir_valid rq)"
proof -
  have m: "machine (host_keeps P) (normalized rq)" using assms by (intro keeps_machine) auto
  show ?thesis
    by (rule machine.sol_interpret_impl_io [OF m refl]) (rule machine.evaluate_io [OF m keeps_trap])
qed


text \<open>A supported result type is converted without a read outside an array.\<close>

lemma supported_argument:
  assumes "sol_host_type_supported ir ty depth" "ty_kind (ir_types ir ! ty) = k"
    and "k = SOL_IR_TYPE_OPTION \<and> i = 0 \<or> k = SOL_IR_TYPE_RESULT \<and> i < 2"
  shows "\<exists>a. nth_opt (ir_type_ids ir) (sl_offset (ty_arguments (ir_types ir ! ty)) + i) = Some a \<and>
    sol_host_type_supported ir a (depth + 1)"
  using assms sol_host_type_supported.simps [of ir ty depth]
  by (auto simp: nth_opt_def Let_def list_all_iff split: if_splits)

lemma host_result_defined:
  assumes "run_state (host_value_result ir ty hv depth) h = (r, h')" "sol_host_type_supported ir ty depth"
  shows "r \<noteq> None"
  using assms
proof (induction ir ty hv depth arbitrary: r h h' rule: host_value_result.induct)
  case (1 ir ty hv depth)
  note arg = supported_argument [OF "1.prems"(2) refl]
  show ?case
    using "1.prems"(1) arg [of 0] arg [of 1] "1.IH"
    unfolding host_value_result.simps [of ir ty hv depth]
    by (auto simp: Let_def split: if_splits SolIrTypeKind.splits SolHostValue.splits SolSumKind.splits
        option.splits prod.splits)
qed


text \<open>\<open>exec_keeps I\<close>: the host's own state keeps \<open>I\<close> and no read leaves its array.\<close>

definition exec_keeps :: "('u \<Rightarrow> bool) \<Rightarrow> 'u SolHostExecution \<Rightarrow> 'u SolHostExecution \<Rightarrow> bool" where
  "exec_keeps I x y \<longleftrightarrow> (I (hx_user x) \<and> \<not> hx_undefined x \<longrightarrow> I (hx_user y) \<and> \<not> hx_undefined y)"

interpretation exec: io_preorder "exec_keeps I" for I :: "'u \<Rightarrow> bool"
  by unfold_locales (auto simp: exec_keeps_def)

lemma exec_allocate: "state_io_rel (exec_keeps I) allocate"
  by (auto simp: state_io_rel_def exec_keeps_def)

lemma exec_view: "state_io_rel (exec_keeps I) (host_value_view v depth)"
proof (induction v depth rule: host_value_view.induct)
  case (1 v depth)
  then show ?case
    unfolding host_value_view.simps [of v depth]
    by (cases v) (auto intro!: exec.io_rules exec_allocate split: option.split)
qed

lemma exec_views: "state_io_rel (exec_keeps I) (view_arguments vs)"
  by (induction vs) (auto intro!: exec.io_rules exec_view)

lemma exec_result: "state_io_rel (exec_keeps I) (host_value_result ir ty hv depth)"
proof (induction ir ty hv depth rule: host_value_result.induct)
  case (1 ir ty hv depth)
  then show ?case
    unfolding host_value_result.simps [of ir ty hv depth] Let_def
    by (auto intro!: exec.io_rules exec_allocate
        split: SolIrTypeKind.split SolHostValue.split SolSumKind.split option.split)
qed

lemma supported_parts:
  assumes "sol_host_operation_supported_internal ir c = Some True"
  shows "c < length (ir_callables ir)" "ca_kind (ir_callables ir ! c) = SOL_IR_CALLABLE_CAPABILITY"
    "ca_body (ir_callables ir ! c) = SOL_IR_NONE" "sl_count (ca_effects (ir_callables ir ! c)) = 1"
    "sol_host_type_supported ir (ca_result (ir_callables ir ! c)) 0"
  using assms by (auto simp: sol_host_operation_supported_internal_def Let_def split: if_splits)

lemma exec_accept:
  fixes I :: "'u \<Rightarrow> bool"
  assumes "sol_host_operation_supported_internal ir c = Some True"
  shows "state_io_rel (exec_keeps I) (accept_result ir c answer)"
proof (rule state_io_relI)
  fix x y :: "'u SolHostExecution" and r
  assume run: "run_state (accept_result ir c answer) x = (r, y)"
  let ?ty = "ca_result (ir_callables ir ! c)"
  obtain v z where conv: "run_state (host_value_result ir ?ty answer 0) x = (v, z)" by fastforce
  then have "v \<noteq> None" by (rule host_result_defined) (rule supported_parts(5) [OF assms])
  moreover have "exec_keeps I x z" by (rule state_io_relD [OF exec_result conv])
  ultimately show "exec_keeps I x y"
    using run conv supported_parts(1) [OF assms]
    by (auto simp: accept_result_def nth_opt_def exec_keeps_def split: option.splits)
qed

text \<open>The root pointers of a registry are distinct, so a grant is found by its parameter.\<close>

lemma root_address_inj: "root_address r i = root_address r j \<longleftrightarrow> i = j"
  by (simp add: root_address_def sizeof_SolHostRoot_def)

lemma registry_grantD:
  assumes "host_registry_grant r root c = Some g"
  shows "g \<in> set (rg_grants r)" "hg_callable g = c" "root = root_address r (hg_parameter g)"
    "hg_parameter g < length (rg_roots r)"
  using assms
  by (auto simp: host_registry_grant_def find_Some_iff split: option.splits)

lemma registry_grant_root:
  assumes "p < length (rg_roots r)"
  shows "host_registry_grant r (root_address r p) c
    = find (\<lambda>g. hg_parameter g = p \<and> hg_callable g = c) (rg_grants r)"
proof -
  have "find (\<lambda>i. root_address r p = root_address r i) [0..<length (rg_roots r)] = Some p"
    unfolding find_Some_iff root_address_inj using assms by (intro exI [of _ p]) simp
  then show ?thesis by (simp add: host_registry_grant_def)
qed

lemma exec_call_host:
  assumes "\<And>views u. I u \<Longrightarrow> I (snd (hg_callback g (hg_context g) views u))"
  shows "state_io_rel (exec_keeps I) (call_host g views)"
  using assms by (auto simp: state_io_rel_def call_host_def exec_keeps_def case_prod_beta)

lemma exec_dispatch:
  assumes "\<And>g views u. g \<in> set (rg_grants r) \<Longrightarrow> I u \<Longrightarrow> I (snd (hg_callback g (hg_context g) views u))"
    and "list_all (grant_ok r) (rg_grants r)"
  shows "state_io_rel (exec_keeps I) (host_registry_dispatch r ir c root source arguments)"
proof (cases "(if ir \<noteq> vi_address (rg_validated r) \<or> source \<noteq> None then None
    else host_registry_grant r root c)")
  case (Some g)
  then have g: "host_registry_grant r root c = Some g" by (auto split: if_splits)
  note facts = registry_grantD [OF g]
  from facts assms(2) have supported:
    "sol_host_operation_supported_internal (vi_ir (rg_validated r)) c = Some True"
    by (auto simp: list_all_iff grant_ok_def)
  show ?thesis
    unfolding host_registry_dispatch_def Some option.case
    by (intro exec.io_rules exec_allocate exec_views exec_call_host exec_accept supported
        assms(1) facts(1)) (auto simp: exec_keeps_def)
next
  case None
  then show ?thesis by (simp add: host_registry_dispatch_def None exec.io_ret)
qed


section \<open>What the preflight establishes\<close>

text \<open>The entrypoint declares the effect of the granted operation on the granted root.\<close>

definition grant_declared :: "SolIr \<Rightarrow> SolIrCallable \<Rightarrow> 'c SolHostGrant \<Rightarrow> bool" where
  "grant_declared ir entry g \<longleftrightarrow> (\<exists>operation effect.
     nth_opt (ir_callables ir) (hg_callable g) = Some operation \<and>
     nth_opt (ir_effects ir) (sl_offset (ca_effects operation)) = Some effect \<and>
     host_entry_effect_matches ir entry (hg_parameter g) effect = Some True)"

lemma preflight_grants_declared:
  "preflight_grants ir entry gs = Some None \<Longrightarrow> list_all (grant_declared ir entry) gs"
  by (induction ir entry gs rule: preflight_grants.induct)
    (auto simp: grant_declared_def split: bind_splits if_splits)

lemma preflight_split:
  assumes "host_registry_preflight r entry = Some None"
  shows "preflight_roots r = None"
    "preflight_grants (vi_ir (rg_validated r)) entry (rg_grants r) = Some None"
    "preflight_effects r entry [0..<sl_count (ca_effects entry)] = Some None"
  using assms by (auto simp: host_registry_preflight_def split: option.splits bind_splits if_splits)

lemma find_entrypoint_callable:
  "find_entrypoint ir i ds = Some (Some en) \<Longrightarrow> en_callable en < length (ir_callables ir)"
  by (induction ir i ds rule: find_entrypoint.induct)
    (auto simp: nth_opt_Some_iff split: if_splits bind_splits)

lemma entrypoint_callable:
  "sol_validated_ir_entrypoint v = Some (Some en) \<Longrightarrow> en_callable en < length (ir_callables (vi_ir v))"
  unfolding sol_validated_ir_entrypoint_def by (rule find_entrypoint_callable)

section \<open>Hosted runs\<close>

abbreviation exec_ok :: "('u \<Rightarrow> bool) \<Rightarrow> 'u SolHostExecution \<Rightarrow> bool" where
  "exec_ok I x \<equiv> I (hx_user x) \<and> \<not> hx_undefined x"

lemma keeps_invalid: "state_io_rel (host_keeps P) (host_invalid_result m)"
  unfolding host_invalid_result_def by (intro keeps_heap.io_rules keeps_modify) simp

lemma keeps_root_arguments: "state_io_rel (host_keeps P) (root_arguments r is)"
proof (induction r "is" rule: root_arguments.induct)
  case (2 r i "is")
  have "state_io_rel (host_keeps P) (sol_interpreter_value_capability d a None)" for d a
    unfolding sol_interpreter_value_capability_def by (auto intro!: keeps_heap.io_rules)
  with 2 show ?case by (auto intro!: keeps_heap.io_rules)
qed (auto intro!: keeps_heap.io_rules)

lemma run_hosted_keeps:
  assumes "\<And>g views u. g \<in> set (rg_grants r) \<Longrightarrow> I u \<Longrightarrow> I (snd (hg_callback g (hg_context g) views u))"
    and "list_all (grant_ok r) (rg_grants r)"
  shows "state_io_rel (host_keeps (exec_ok I)) (run_hosted v r en request)"
proof -
  have dispatch: "exec_ok I x \<Longrightarrow> exec_ok I (snd (run_state (host_registry_dispatch r a c root source vs) x))"
    for x a c root source vs
    using exec_dispatch [of r I, OF assms] by (metis exec_keeps_def prod.collapse state_io_relD)
  have "state_io_rel (host_keeps (exec_ok I)) (sol_interpret_impl fuel None (hosted_request v r en request vs))"
    for fuel vs
    by (rule interpret_impl_keeps) (use dispatch in \<open>auto simp: hosted_request_def\<close>)
  then show ?thesis
    unfolding run_hosted_def Let_def
    by (intro keeps_heap.io_rules keeps_heap.allocate_io keeps_invalid keeps_root_arguments
        keeps_heap.io_modify) (auto simp: host_keeps_def)
qed

lemma entrypoint_keeps:
  assumes session: "registry_ok v base r" and entry: "sol_validated_ir_entrypoint v = Some (Some en)"
    and callbacks: "\<And>g views u. g \<in> set (rg_grants r) \<Longrightarrow>
      grant_declared (vi_ir v) (ir_callables (vi_ir v) ! en_callable en) g \<Longrightarrow> I u \<Longrightarrow>
      I (snd (hg_callback g (hg_context g) views u))"
  shows "state_io_rel (host_keeps (exec_ok I)) (sol_validated_ir_interpret_entrypoint v r request)"
proof -
  let ?entry = "ir_callables (vi_ir v) ! en_callable en"
  have same: "rg_validated r = v" and grants: "list_all (grant_ok r) (rg_grants r)"
    using session by (auto simp: registry_ok_def)
  have "state_io_rel (host_keeps (exec_ok I)) (run_hosted v r en request)"
    if "host_registry_preflight r ?entry = Some None"
    using preflight_grants_declared [OF preflight_split(2) [OF that]] same
    by (intro run_hosted_keeps grants callbacks) (auto simp: list_all_iff)
  then have "state_io_rel (host_keeps (exec_ok I)) (do {
      refused \<leftarrow> defined (host_registry_preflight r ?entry) (Some []);
      (case refused of
         Some message \<Rightarrow> host_invalid_result (take 191 message)
       | None \<Rightarrow> run_hosted v r en request) })"
    unfolding defined_def
    by (cases "host_registry_preflight r ?entry")
      (auto intro!: keeps_heap.io_rules keeps_trap keeps_invalid)
  then show ?thesis
    using entrypoint_callable [OF entry]
    by (auto simp: sol_validated_ir_interpret_entrypoint_def same entry defined_def deref_def)
qed


text \<open>The members of a capability that carry a named effect: bodyless, with that one effect.\<close>

definition carries_effect :: "SolIr \<Rightarrow> string \<Rightarrow> size_t \<Rightarrow> bool" where
  "carries_effect ir name c \<longleftrightarrow> ca_body (ir_callables ir ! c) = SOL_IR_NONE \<and>
     sl_count (ca_effects (ir_callables ir ! c)) = 1 \<and>
     ef_name (ir_effects ir ! sl_offset (ca_effects (ir_callables ir ! c))) = name"

definition effect_members :: "SolIr \<Rightarrow> string \<Rightarrow> size_t \<Rightarrow> nat list \<Rightarrow> size_t list" where
  "effect_members ir name offset is = filter (carries_effect ir name) (map (\<lambda>i. ir_members ir ! (offset + i)) is)"

lemma find_required_unique:
  assumes "find_required ir name offset required is = Some (Inr c)"
    and "length (ir_callables ir) \<le> SOL_IR_NONE"
  shows "effect_members ir name offset is = [] \<and> c = required \<or>
    effect_members ir name offset is = [c] \<and> required = SOL_IR_NONE \<and>
    sol_host_operation_supported_internal ir c = Some True"
  using assms
proof (induction "is" arbitrary: required)
  case (Cons member rest)
  let ?c = "ir_members ir ! (offset + member)"
  from Cons.prems have c: "offset + member < length (ir_members ir)" "?c < length (ir_callables ir)"
    by (auto simp: nth_opt_Some_iff split: bind_splits)
  show ?case
  proof (cases "carries_effect ir name ?c")
    case False
    with Cons.prems c have "find_required ir name offset required rest = Some (Inr c)"
      by (auto simp: nth_opt_def carries_effect_def split: if_splits bind_splits)
    with False Cons.IH Cons.prems(2) show ?thesis by (simp add: effect_members_def)
  next
    case True
    with Cons.prems c have "sol_host_operation_supported_internal ir ?c = Some True"
      "required = SOL_IR_NONE" "find_required ir name offset ?c rest = Some (Inr c)"
      by (auto simp: nth_opt_def carries_effect_def split: if_splits bind_splits)
    moreover have "?c \<noteq> SOL_IR_NONE" using c Cons.prems(2) by simp
    ultimately show ?thesis using True Cons.IH [of ?c] Cons.prems(2) by (simp add: effect_members_def)
  qed
qed (simp add: effect_members_def)

lemma find_required_inr:
  "find_required ir name offset required is = Some (Inr c) \<Longrightarrow>
   c = required \<or> sol_host_operation_supported_internal ir c = Some True"
  by (induction "is" arbitrary: required) (fastforce split: bind_splits if_splits)+

lemma find_parameter_at:
  "find_parameter ir offset authority is = Some (Some p) \<Longrightarrow>
   p \<in> set is \<and> nth_opt (ir_roots ir) (offset + p) = Some authority"
  by (induction "is") (auto split: bind_splits if_splits)

text \<open>
  An effect of the entrypoint is covered: it needs no authority, or exactly one operation of
  the parameter's capability carries it, the host may implement it, and it is granted.
\<close>

definition effect_covered :: "'c SolHostRegistry \<Rightarrow> SolIrCallable \<Rightarrow> SolIrEffect \<Rightarrow> bool" where
  "effect_covered r entry effect \<longleftrightarrow> ef_authority_kind effect = SOL_IR_AUTHORITY_NONE \<or>
     (let ir = vi_ir (rg_validated r) in
      ef_authority_kind effect = SOL_IR_AUTHORITY_LOCAL \<and>
      (\<exists>p < sl_count (ca_parameters entry). \<exists>c.
        nth_opt (ir_roots ir) (sl_offset (ca_parameters entry) + p) = Some (ef_authority effect) \<and>
        effect_members ir (ef_name effect)
          (sl_offset (def_members (ir_definitions ir ! hr_capability (rg_roots r ! p))))
          [0..<sl_count (def_members (ir_definitions ir ! hr_capability (rg_roots r ! p)))] = [c] \<and>
        sol_host_operation_supported_internal ir c = Some True \<and>
        (p, c) \<in> grant_key ` set (rg_grants r)))"

lemma preflight_effect_covered:
  assumes "preflight_effect r entry effect = Some None"
    and "length (ir_callables (vi_ir (rg_validated r))) \<le> SOL_IR_NONE"
  shows "effect_covered r entry effect"
proof (cases "ef_authority_kind effect = SOL_IR_AUTHORITY_NONE")
  case False
  let ?ir = "vi_ir (rg_validated r)"
  from False assms(1) obtain p root c where local: "ef_authority_kind effect = SOL_IR_AUTHORITY_LOCAL"
    and p: "find_parameter ?ir (sl_offset (ca_parameters entry)) (ef_authority effect)
      [0..<sl_count (ca_parameters entry)] = Some (Some p)"
    and root: "nth_opt (rg_roots r) p = Some root"
    and c: "find_required ?ir (ef_name effect)
      (sl_offset (def_members (ir_definitions ?ir ! hr_capability root))) SOL_IR_NONE
      [0..<sl_count (def_members (ir_definitions ?ir ! hr_capability root))] = Some (Inr c)"
    and some: "c \<noteq> SOL_IR_NONE" and grant: "host_registry_grant r (root_address r p) c \<noteq> None"
    by (auto simp: preflight_effect_def Let_def nth_opt_Some_iff
        split: if_splits bind_splits option.splits sum.splits)
  from grant obtain g where "host_registry_grant r (root_address r p) c = Some g" by auto
  from registry_grantD [OF this] have "(p, c) \<in> grant_key ` set (rg_grants r)"
    by (auto simp: root_address_inj intro!: image_eqI [of _ _ g])
  with local find_parameter_at [OF p] root find_required_unique [OF c assms(2)] some show ?thesis
    unfolding effect_covered_def Let_def nth_opt_Some_iff by auto
qed (simp add: effect_covered_def)

lemma preflight_effects_covered:
  "preflight_effects r entry is = Some None \<Longrightarrow>
   length (ir_callables (vi_ir (rg_validated r))) \<le> SOL_IR_NONE \<Longrightarrow>
   list_all (\<lambda>i. effect_covered r entry
     (ir_effects (vi_ir (rg_validated r)) ! (sl_offset (ca_effects entry) + i))) is"
  by (induction r entry "is" rule: preflight_effects.induct)
    (auto simp: nth_opt_Some_iff preflight_effect_covered split: bind_splits if_splits)


section \<open>What the host's answers become\<close>








section \<open>Reads inside the arrays\<close>

text \<open>
  What validation guarantees and the registry relies on: entrypoints and capability members
  refer to callables of the IR, an entrypoint's parameters have capability types, and the
  parameters and effects of a callable lie inside their arrays.
\<close>

definition slice_inside :: "slice \<Rightarrow> 'a list \<Rightarrow> bool" where
  "slice_inside sl xs \<longleftrightarrow> sl_offset sl + sl_count sl \<le> length xs"

definition callable_inside :: "SolIr \<Rightarrow> SolIrCallable \<Rightarrow> bool" where
  "callable_inside ir c \<longleftrightarrow> slice_inside (ca_parameters c) (ir_roots ir) \<and>
     slice_inside (ca_effects c) (ir_effects ir)"

definition entry_inside :: "SolIr \<Rightarrow> SolIrCallable \<Rightarrow> bool" where
  "entry_inside ir c \<longleftrightarrow> ca_result c < length (ir_types ir) \<and>
     list_all (\<lambda>i. let local = ir_roots ir ! (sl_offset (ca_parameters c) + i) in
       local < length (ir_locals ir) \<and> lo_type (ir_locals ir ! local) < length (ir_types ir) \<and>
       ty_definition (ir_types ir ! lo_type (ir_locals ir ! local)) < length (ir_definitions ir))
       [0..<sl_count (ca_parameters c)]"

definition definition_inside :: "SolIr \<Rightarrow> SolIrDefinition \<Rightarrow> bool" where
  "definition_inside ir d \<longleftrightarrow> slice_inside (def_members d) (ir_members ir) \<and>
     list_all (\<lambda>i. ir_members ir ! (sl_offset (def_members d) + i) < length (ir_callables ir))
       [0..<sl_count (def_members d)] \<and>
     (def_is_entrypoint d \<longrightarrow> def_callable d < length (ir_callables ir) \<and>
        entry_inside ir (ir_callables ir ! def_callable d))"

definition host_ir_inside :: "SolIr \<Rightarrow> bool" where
  "host_ir_inside ir \<longleftrightarrow> list_all (callable_inside ir) (ir_callables ir) \<and>
     list_all (definition_inside ir) (ir_definitions ir)"

lemma inside_callable: "host_ir_inside ir \<Longrightarrow> c < length (ir_callables ir) \<Longrightarrow> callable_inside ir (ir_callables ir ! c)"
  by (simp add: host_ir_inside_def list_all_length)

lemma inside_definition:
  "host_ir_inside ir \<Longrightarrow> d < length (ir_definitions ir) \<Longrightarrow> definition_inside ir (ir_definitions ir ! d)"
  by (simp add: host_ir_inside_def list_all_length)

lemma entrypoint_inside:
  assumes "list_all (definition_inside ir) ds"
  shows "find_entrypoint ir i ds \<noteq> None" "find_entrypoint ir i ds = Some (Some en) \<Longrightarrow>
    en_callable en < length (ir_callables ir) \<and> entry_inside ir (ir_callables ir ! en_callable en) \<and>
    en_parameter_count en = sl_count (ca_parameters (ir_callables ir ! en_callable en))"
  using assms
  by (induction ir i ds rule: find_entrypoint.induct)
    (auto simp: definition_inside_def entry_inside_def nth_opt_def split: if_splits bind_splits)

lemma parameters_supported_inside:
  "(\<And>i. i \<in> set is \<Longrightarrow> offset + i < length (ir_roots ir)) \<Longrightarrow> \<exists>b. host_parameters_supported ir offset is = Some b"
  by (induction "is") (auto simp: nth_opt_def)

lemma operation_supported_inside:
  assumes "host_ir_inside ir"
  shows "\<exists>b. sol_host_operation_supported_internal ir c = Some b"
proof (cases "c < length (ir_callables ir)")
  case True
  from inside_callable [OF assms this] have
    "sl_count (ca_effects (ir_callables ir ! c)) = 1 \<Longrightarrow>
       sl_offset (ca_effects (ir_callables ir ! c)) < length (ir_effects ir)"
    "\<exists>b. host_parameters_supported ir (sl_offset (ca_parameters (ir_callables ir ! c)))
       [0..<sl_count (ca_parameters (ir_callables ir ! c))] = Some b"
    by (auto simp: callable_inside_def slice_inside_def intro!: parameters_supported_inside)
  then show ?thesis
    by (auto simp: sol_host_operation_supported_internal_def Let_def nth_opt_def)
qed (auto simp: sol_host_operation_supported_internal_def)

lemma find_member_inside:
  "(\<And>i. i \<in> set is \<Longrightarrow> offset + i < length (ir_members ir)) \<Longrightarrow> \<exists>c. find_member ir name offset found is = Some c"
  by (induction "is" arbitrary: found) (auto simp: nth_opt_def)

lemma find_operation_inside:
  "host_ir_inside ir \<Longrightarrow> \<exists>c. sol_host_find_operation ir capability name = Some c"
  by (cases "capability < length (ir_definitions ir)")
    (auto simp: sol_host_find_operation_def Let_def definition_inside_def slice_inside_def
      dest!: inside_definition intro!: find_member_inside)


lemma effect_on_root_inside:
  "(\<And>i. i \<in> set is \<Longrightarrow> offset + i < length (ir_effects ir)) \<Longrightarrow> \<exists>b. effect_on_root ir root name offset is = Some b"
  by (induction "is") (auto simp: nth_opt_def)

lemma entrypoint_defined:
  "host_ir_inside (vi_ir v) \<Longrightarrow> \<exists>e. sol_validated_ir_entrypoint v = Some e"
  using entrypoint_inside(1) by (auto simp: sol_validated_ir_entrypoint_def host_ir_inside_def)

lemma entrypoint_facts:
  assumes "host_ir_inside (vi_ir v)" and "sol_validated_ir_entrypoint v = Some (Some en)"
  defines "entry \<equiv> ir_callables (vi_ir v) ! en_callable en"
  shows "en_callable en < length (ir_callables (vi_ir v))" "entry_inside (vi_ir v) entry"
    "en_parameter_count en = sl_count (ca_parameters entry)" "callable_inside (vi_ir v) entry"
  using assms entrypoint_inside(2) inside_callable
  by (auto simp: sol_validated_ir_entrypoint_def host_ir_inside_def)

lemma parameter_at_inside:
  assumes "host_ir_inside (vi_ir v)"
  shows "\<exists>p. sol_validated_ir_entrypoint_parameter_at v i = Some p"
proof -
  obtain e where e: "sol_validated_ir_entrypoint v = Some e" using entrypoint_defined [OF assms] ..
  show ?thesis
  proof (cases e)
    case (Some en)
    from entrypoint_facts [OF assms, of en] e Some show ?thesis
      by (auto simp: sol_validated_ir_entrypoint_parameter_at_def Let_def nth_opt_def
          entry_inside_def callable_inside_def slice_inside_def list_all_iff)
  qed (simp add: sol_validated_ir_entrypoint_parameter_at_def e)
qed

lemma make_roots_inside: "host_ir_inside (vi_ir v) \<Longrightarrow> \<exists>r. make_roots v is = Some r"
proof (induction "is")
  case (Cons i "is")
  then show ?case using parameter_at_inside [of v i] by (auto split: option.split)
qed simp

lemma count_members_inside:
  assumes "\<And>i. i \<in> set is \<Longrightarrow> offset + i < length (ir_roots ir) \<and>
      (let local = ir_roots ir ! (offset + i) in local < length (ir_locals ir) \<and>
       lo_type (ir_locals ir ! local) < length (ir_types ir) \<and>
       ty_definition (ir_types ir ! lo_type (ir_locals ir ! local)) < length (ir_definitions ir))"
  shows "\<exists>b. count_members ir offset n is = Some b"
  using assms by (induction "is" arbitrary: n) (auto simp: nth_opt_def Let_def)


lemma create_checks_inside:
  assumes "host_ir_inside (vi_ir v)"
  shows "\<exists>r. create_checks v = Some r"
proof -
  obtain e where e: "sol_validated_ir_entrypoint v = Some e" using entrypoint_defined [OF assms] ..
  show ?thesis
  proof (cases e)
    case (Some en)
    let ?entry = "ir_callables (vi_ir v) ! en_callable en"
    note facts = entrypoint_facts [OF assms e [unfolded Some]]
    have "\<exists>b. count_members (vi_ir v) (sl_offset (ca_parameters ?entry)) 0 [0..<en_parameter_count en] = Some b"
      using facts by (intro count_members_inside)
        (auto simp: entry_inside_def callable_inside_def slice_inside_def list_all_iff Let_def)
    with facts(1) e Some show ?thesis
      by (auto simp: create_checks_def nth_opt_def)
  qed (simp add: create_checks_def e)
qed

lemma create_inside:
  assumes "host_ir_inside (vi_ir v)"
  shows "fst (run_state (sol_host_registry_create v base) e) \<noteq> None"
  using create_checks_inside [OF assms] make_roots_inside [OF assms]
  by (auto simp: sol_host_registry_create_def split: option.splits prod.splits)

lemma allow_inside:
  assumes "host_ir_inside (vi_ir (rg_validated r))"
  shows "fst (run_state (sol_host_registry_allow r p operation callback context) e) \<noteq> None"
proof -
  obtain c b where "sol_host_find_operation (vi_ir (rg_validated r)) (hr_capability (rg_roots r ! p)) operation = Some c"
    "sol_host_operation_supported_internal (vi_ir (rg_validated r)) c = Some b"
    using find_operation_inside [OF assms] operation_supported_inside [OF assms] by blast
  then show ?thesis
    by (auto simp: sol_host_registry_allow_def refuse_grant_def Let_def
        split: bool.splits sum.splits prod.splits)
qed

lemma preflight_grants_inside:
  assumes "host_ir_inside ir" "callable_inside ir entry"
    and "\<And>g. g \<in> set gs \<Longrightarrow> hg_parameter g < sl_count (ca_parameters entry) \<and>
      sol_host_operation_supported_internal ir (hg_callable g) = Some True"
  shows "\<exists>m. preflight_grants ir entry gs = Some m"
  using assms(3)
proof (induction gs)
  case (Cons g gs)
  let ?op = "ir_callables ir ! hg_callable g"
  from Cons.prems [of g] have g: "hg_parameter g < sl_count (ca_parameters entry)"
    and sup: "sol_host_operation_supported_internal ir (hg_callable g) = Some True" by auto
  note parts = supported_parts [OF sup]
  from inside_callable [OF assms(1) parts(1)] parts(4) have
    "sl_offset (ca_effects ?op) < length (ir_effects ir)"
    by (simp add: callable_inside_def slice_inside_def)
  moreover have "\<exists>b. host_entry_effect_matches ir entry (hg_parameter g) ef = Some b" for ef
    using assms(2) g effect_on_root_inside [of "[0..<sl_count (ca_effects entry)]"]
    by (auto simp: host_entry_effect_matches_def callable_inside_def slice_inside_def nth_opt_def)
  ultimately show ?case
    using Cons parts(1) by (auto simp: nth_opt_def split: bind_splits)
qed simp

lemma find_parameter_inside:
  "(\<And>i. i \<in> set is \<Longrightarrow> offset + i < length (ir_roots ir)) \<Longrightarrow> \<exists>p. find_parameter ir offset authority is = Some p"
  by (induction "is") (auto simp: nth_opt_def)

lemma find_required_inside:
  assumes "host_ir_inside ir"
    and "\<And>i. i \<in> set is \<Longrightarrow> offset + i < length (ir_members ir) \<and> ir_members ir ! (offset + i) < length (ir_callables ir)"
  shows "\<exists>c. find_required ir name offset required is = Some c"
  using assms(2)
proof (induction "is" arbitrary: required)
  case (Cons i "is")
  let ?c = "ir_members ir ! (offset + i)"
  from Cons.prems [of i] have c: "offset + i < length (ir_members ir)" "?c < length (ir_callables ir)" by auto
  from inside_callable [OF assms(1) c(2)] have
    "sl_count (ca_effects (ir_callables ir ! ?c)) = 1 \<Longrightarrow>
      sl_offset (ca_effects (ir_callables ir ! ?c)) < length (ir_effects ir)"
    by (simp add: callable_inside_def slice_inside_def)
  moreover obtain b where "sol_host_operation_supported_internal ir ?c = Some b"
    using operation_supported_inside [OF assms(1)] by blast
  moreover note Cons c
  ultimately show ?case by (auto simp: nth_opt_def split: bind_splits)
qed simp


lemma root_capability_inside:
  assumes "roots_ok v roots" "p < length roots"
  shows "hr_capability (roots ! p) < length (ir_definitions (vi_ir v))"
proof -
  from assms obtain view where "sol_validated_ir_entrypoint_parameter_at v p = Some (Some view)"
    "hr_capability (roots ! p) = ep_capability_definition view" by (auto simp: roots_ok_def)
  then show ?thesis
    by (auto simp: sol_validated_ir_entrypoint_parameter_at_def Let_def nth_opt_Some_iff
        split: option.splits bind_splits if_splits)
qed

lemma preflight_effect_inside:
  assumes ok: "registry_ok v base r" and ir: "host_ir_inside (vi_ir v)"
    and entry: "callable_inside (vi_ir v) entry" "sl_count (ca_parameters entry) = length (rg_roots r)"
  shows "\<exists>m. preflight_effect r entry effect = Some m"
proof -
  have v: "rg_validated r = v" and roots: "roots_ok v (rg_roots r)" using ok by (auto simp: registry_ok_def)
  obtain found where found: "find_parameter (vi_ir v) (sl_offset (ca_parameters entry)) (ef_authority effect)
      [0..<sl_count (ca_parameters entry)] = Some found"
    using find_parameter_inside entry(1) by (fastforce simp: callable_inside_def slice_inside_def)
  show ?thesis
  proof (cases found)
    case (Some p)
    with find_parameter_at [OF found [unfolded Some]] entry(2) have p: "p < length (rg_roots r)" by simp
    let ?d = "ir_definitions (vi_ir v) ! hr_capability (rg_roots r ! p)"
    have d: "hr_capability (rg_roots r ! p) < length (ir_definitions (vi_ir v))"
      by (rule root_capability_inside [OF roots p])
    have "\<exists>c. find_required (vi_ir v) (ef_name effect) (sl_offset (def_members ?d)) SOL_IR_NONE
        [0..<sl_count (def_members ?d)] = Some c"
      using inside_definition [OF ir d]
      by (intro find_required_inside [OF ir])
        (auto simp: definition_inside_def slice_inside_def list_all_iff)
    moreover have "c < length (ir_callables (vi_ir v))" if "find_required (vi_ir v) (ef_name effect)
        (sl_offset (def_members ?d)) SOL_IR_NONE [0..<sl_count (def_members ?d)] = Some (Inr c)" "c \<noteq> SOL_IR_NONE" for c
      using find_required_inr [OF that(1)] that(2) supported_parts(1) by blast
    ultimately show ?thesis using found Some p d
      by (auto simp: preflight_effect_def v Let_def nth_opt_def split: sum.split)
  qed (auto simp: preflight_effect_def v Let_def found)
qed


lemma preflight_effects_inside:
  assumes "\<And>effect. \<exists>m. preflight_effect r entry effect = Some m"
    and "\<And>i. i \<in> set is \<Longrightarrow> sl_offset (ca_effects entry) + i < length (ir_effects (vi_ir (rg_validated r)))"
  shows "\<exists>m. preflight_effects r entry is = Some m"
  using assms(2)
proof (induction "is")
  case (Cons i "is")
  then show ?case using assms(1) [of "ir_effects (vi_ir (rg_validated r)) ! (sl_offset (ca_effects entry) + i)"]
    by (auto simp: nth_opt_def)
qed simp

lemma preflight_inside:
  assumes ok: "registry_ok v base r" and ir: "host_ir_inside (vi_ir v)"
    and en: "sol_validated_ir_entrypoint v = Some (Some en)"
  shows "host_registry_preflight r (ir_callables (vi_ir v) ! en_callable en) \<noteq> None"
proof -
  let ?entry = "ir_callables (vi_ir v) ! en_callable en"
  note facts = entrypoint_facts [OF ir en]
  have v: "rg_validated r = v" using ok by (simp add: registry_ok_def)
  have count: "sl_count (ca_parameters ?entry) = length (rg_roots r)"
    using ok facts(3) en by (auto simp: registry_ok_def roots_ok_def)
  have "\<exists>m. preflight_grants (vi_ir v) ?entry (rg_grants r) = Some m"
    using ok by (intro preflight_grants_inside ir facts(4))
      (auto simp: registry_ok_def grant_ok_def list_all_iff count)
  moreover have "\<exists>m. preflight_effects r ?entry [0..<sl_count (ca_effects ?entry)] = Some m"
    using facts(4) by (intro preflight_effects_inside preflight_effect_inside [OF ok ir facts(4) count])
      (auto simp: v callable_inside_def slice_inside_def)
  ultimately show ?thesis by (auto simp: host_registry_preflight_def v split: option.split)
qed

section \<open>A hosted program\<close>

text \<open>
  \<open>capability Console { write(text: Text) effects { console.write(self) } }\<close> and
  \<open>entrypoint main(out: Console) effects { console.write(out) } { out.write("hi") }\<close>
\<close>

definition hosted_ir :: SolIr where
  "hosted_ir = empty_ir\<lparr>
     ir_types := [simple_type SOL_IR_TYPE_UNIT, simple_type SOL_IR_TYPE_TEXT,
       (simple_type SOL_IR_TYPE_NOMINAL)\<lparr>ty_definition := 0\<rparr>],
     ir_definitions := [(simple_definition SOL_IR_DEFINITION_CAPABILITY SOL_IR_NONE)\<lparr>
         def_name := ''Console'', def_members := slice_at 0 1\<rparr>,
       (simple_definition SOL_IR_DEFINITION_FUNCTION 1)\<lparr>def_is_entrypoint := True\<rparr>],
     ir_members := [0],
     ir_callables := [(simple_callable ''write'' (slice_at 0 1) 0 SOL_IR_NONE)\<lparr>
         ca_kind := SOL_IR_CALLABLE_CAPABILITY, ca_effects := slice_at 0 1\<rparr>,
       (simple_callable ''main'' (slice_at 1 1) 0 2)\<lparr>ca_owner := 1, ca_effects := slice_at 1 1\<rparr>],
     ir_locals := [\<lparr> lo_name = ''text'', lo_type = 1, lo_access = SOL_ACCESS_OWNED \<rparr>,
       \<lparr> lo_name = ''out'', lo_type = 2, lo_access = SOL_ACCESS_OWNED \<rparr>],
     ir_roots := [0, 1],
     ir_effects := [\<lparr> ef_name = ''console.write'', ef_authority_kind = SOL_IR_AUTHORITY_SELF,
         ef_authority = SOL_IR_NONE \<rparr>,
       \<lparr> ef_name = ''console.write'', ef_authority_kind = SOL_IR_AUTHORITY_LOCAL, ef_authority = 1 \<rparr>],
     ir_places := [local_place 1],
     ir_operands := [\<lparr> op_value = 1, op_access = SOL_ACCESS_OWNED \<rparr>],
     ir_expressions := [simple_expression (SOL_IR_EXPR_PLACE 0) 2,
       simple_expression (SOL_IR_EXPR_STRING ''hi'') 1,
       simple_expression (SOL_IR_EXPR_CALL \<lparr> cl_kind = SOL_IR_CALL_CAPABILITY, cl_callable = 0,
         cl_callee = 3, cl_receiver = SOL_IR_NONE, cl_receiver_access = SOL_ACCESS_SHARED,
         cl_variant = SOL_IR_NONE, cl_definition = SOL_IR_NONE, cl_operands = slice_at 0 1,
         cl_type_arguments = no_slice, cl_evidence = no_slice \<rparr>) 0,
       simple_expression (SOL_IR_EXPR_BOUND_OPERATION 0 0) 0]\<rparr>"

definition hosted_program :: SolValidatedIr where
  "hosted_program = \<lparr> vi_address = 1, vi_ir = hosted_ir \<rparr>"

text \<open>The host keeps a log of the texts it is asked to write.\<close>

definition log_write :: "string list SolHostOperation" where
  "log_write context arguments log =
     ((True, HOST_VALUE_UNIT, no_failure),
      log @ concat (map (\<lambda>v. case v of HOST_VALUE_TEXT bytes \<Rightarrow> [counted_items bytes] | _ \<Rightarrow> []) arguments))"

definition log_session :: "string list registry option" where
  "log_session =
     (case run_state (sol_host_registry_create hosted_program 4096) plain_env of
        (Some (Some r), e) \<Rightarrow>
          (case run_state (sol_host_registry_allow (snd (sol_host_registry_bind_root r 0)) 0 ''write''
             log_write 0) e of
             (Some (ok, r'), _) \<Rightarrow> Some r'
           | _ \<Rightarrow> None)
      | _ \<Rightarrow> None)"

definition log_registry :: "string list registry" where
  "log_registry = the log_session"

definition log_request :: "unit SolInterpreterRequest" where
  "log_request = (add_request 0 0)\<lparr>rq_limits := \<lparr> li_steps = 20, li_call_depth = 4, li_value_nodes = 40,
     li_text_bytes = 40, li_host_calls = 2 \<rparr>\<rparr>"

definition log_start :: "string list SolHostExecution" where
  "log_start = \<lparr> alloc_fails = no_failures, alloc_calls = 0, hx_pending = None, hx_user = [''boot''],
     hx_undefined = False \<rparr>"

lemma log_session_registry: "log_session = Some r \<Longrightarrow> registry_session hosted_program 4096 r"
  unfolding log_session_def
  by (auto split: prod.splits option.splits intro: registry_session.intros
      dest: registry_session.created registry_session.bound [OF _ prod.collapse [symmetric]])

lemma log_session_some: "log_session \<noteq> None"
  by code_simp

lemma log_registry_session: "registry_session hosted_program 4096 log_registry"
  using log_session_some log_session_registry by (auto simp: log_registry_def)

lemma log_registry_grants: "map grant_key (rg_grants log_registry) = [(0, 0)]"
  by code_simp

lemma log_preflight: "host_registry_preflight log_registry (ir_callables hosted_ir ! 1) = Some None"
  by code_simp

lemma log_registry_ir: "vi_ir (rg_validated log_registry) = hosted_ir"
  using session_ok [OF log_registry_session] by (simp add: registry_ok_def hosted_program_def)

lemma create_grants:
  "run_state (sol_host_registry_create v base) e = (Some (Some r), e') \<Longrightarrow> rg_grants r = []"
  by (auto simp: sol_host_registry_create_def split: option.splits if_splits prod.splits)

lemma bind_grants [simp]: "rg_grants (snd (sol_host_registry_bind_root r p)) = rg_grants r"
  by (simp add: sol_host_registry_bind_root_def sol_host_registry_set_error_def)

lemma allow_callbacks:
  assumes "run_state (sol_host_registry_allow r p operation callback context) e = (Some (ok, r'), e')"
  shows "hg_callback ` set (rg_grants r') \<subseteq> insert callback (hg_callback ` set (rg_grants r))"
  using assms by (rule allow_cases) (auto simp: sol_host_registry_set_error_def)

lemma log_registry_callback:
  assumes "g \<in> set (rg_grants log_registry)"
  shows "hg_callback g = log_write"
proof -
  obtain r where r: "log_session = Some r" using log_session_some by blast
  then have "hg_callback ` set (rg_grants r) \<subseteq> {log_write}"
    unfolding log_session_def
    by (auto split: prod.splits option.splits dest!: allow_callbacks create_grants)
  moreover have "log_registry = r" unfolding log_registry_def r by (rule option.sel)
  ultimately show ?thesis using assms by auto
qed

lemma initial_host [simp]: "it_host (initial_state fails x) = x"
  by (simp add: initial_state_def)

text \<open>The one grant reaches the host: the text is logged.\<close>

lemma log_dispatch:
  "fst (run_state (host_registry_dispatch log_registry 1 0 4096 None [VALUE_TEXT (Some ''hi'')]) log_start)
     = (True, VALUE_UNIT, no_failure)"
  "hx_user (snd (run_state (host_registry_dispatch log_registry 1 0 4096 None [VALUE_TEXT (Some ''hi'')]) log_start))
     = [''boot'', ''hi'']"
  by code_simp+

section \<open>Properties\<close>

text \<open>
  C22. A registry is sound however it was built: after any sequence of creating,
  binding and allowing calls, failing ones included, it has one root per entrypoint
  parameter with that parameter's capability, at most 256 grants inside its capacity, no
  grant twice, and every grant is for a bound root and a data-only, bodyless member that the
  root's capability has.
\<close>

theorem registry_session_ok:
  assumes "registry_session v base r"
  shows "registry_ok v base r"
  using assms by (rule session_ok)

theorem registry_session_ok_witness:
  "registry_ok hosted_program 4096 log_registry \<and> length (rg_grants log_registry) = 1"
proof -
  have "length (map grant_key (rg_grants log_registry)) = 1" unfolding log_registry_grants by simp
  with registry_session_ok [OF log_registry_session] show ?thesis by simp
qed

text \<open>
  C3. A hosted run is confined: whatever the program, the request, the allocator and
  the callbacks do, the host's state keeps every property that the callbacks of those grants
  keep whose operation is supported, whose root is bound and whose effect the entrypoint
  declares; no other callback ever runs. The conversion of the callbacks' answers reads inside
  the arrays of the types; reads of the interpreter itself are not part of this statement.
\<close>

theorem host_run_confined:
  assumes session: "registry_session v base r"
    and entry: "sol_validated_ir_entrypoint v = Some (Some en)"
    and callbacks: "\<And>g views u. g \<in> set (rg_grants r) \<Longrightarrow> grant_ok r g \<Longrightarrow>
      grant_declared (vi_ir v) (ir_callables (vi_ir v) ! en_callable en) g \<Longrightarrow> I u \<Longrightarrow>
      I (snd (hg_callback g (hg_context g) views u))"
    and start: "exec_ok I x"
  shows "exec_ok I (it_host (snd (run_state (sol_validated_ir_interpret_entrypoint v r request)
    (initial_state fails x))))"
proof -
  have ok: "registry_ok v base r" by (rule session_ok [OF session])
  then have "grant_ok r g" if "g \<in> set (rg_grants r)" for g
    using that by (simp add: registry_ok_def list_all_iff)
  with callbacks have "state_io_rel (host_keeps (exec_ok I)) (sol_validated_ir_interpret_entrypoint v r request)"
    by (intro entrypoint_keeps [OF ok entry]) blast
  moreover obtain a t where run: "run_state (sol_validated_ir_interpret_entrypoint v r request)
      (initial_state fails x) = (a, t)" by fastforce
  ultimately have "host_keeps (exec_ok I) (initial_state fails x) t" by (rule state_io_relD)
  with run start show ?thesis by (simp add: host_keeps_def)
qed

theorem host_run_confined_witness:
  "take 1 (hx_user (it_host (snd (run_state (sol_validated_ir_interpret_entrypoint hosted_program log_registry
     log_request) (initial_state no_failures log_start))))) = [''boot'']"
proof -
  have entry: "sol_validated_ir_entrypoint hosted_program = Some (Some \<lparr> en_definition = 1, en_callable = 1,
      en_parameter_count = 1, en_result = SOL_ENTRYPOINT_RESULT_UNIT, en_span = span 0 1, en_name = ''main'' \<rparr>)"
    by code_simp
  have "take 1 (snd (hg_callback g (hg_context g) views u)) = [''boot'']"
    if "g \<in> set (rg_grants log_registry)" "take 1 u = [''boot'']" for g views u
    using that by (cases u) (auto simp: log_registry_callback log_write_def)
  from host_run_confined [OF log_registry_session entry, of "\<lambda>u. take 1 u = [''boot'']" log_start log_request no_failures, OF this]
  show ?thesis by (simp add: log_start_def)
qed

text \<open>
  C13. A successful preflight matches grants and declared effects both ways: every root
  is bound, every granted operation's effect is declared by the entrypoint on that root, and
  every effect of the entrypoint that needs authority is carried by exactly one operation of
  its parameter's capability, which the host may implement and which is granted.
\<close>

theorem host_preflight_exact:
  assumes "host_registry_preflight r entry = Some None"
    and "length (ir_callables (vi_ir (rg_validated r))) \<le> SOL_IR_NONE"
  shows "list_all hr_bound (rg_roots r) \<and>
    list_all (grant_declared (vi_ir (rg_validated r)) entry) (rg_grants r) \<and>
    list_all (\<lambda>i. effect_covered r entry
      (ir_effects (vi_ir (rg_validated r)) ! (sl_offset (ca_effects entry) + i))) [0..<sl_count (ca_effects entry)]"
proof -
  note parts = preflight_split [OF assms(1)]
  from parts(1) have "list_all hr_bound (rg_roots r)"
    by (auto simp: preflight_roots_def find_None_iff list_all_length)
  with preflight_grants_declared [OF parts(2)] preflight_effects_covered [OF parts(3) assms(2)]
  show ?thesis by blast
qed

theorem host_preflight_exact_witness:
  "list_all (grant_declared hosted_ir (ir_callables hosted_ir ! 1)) (rg_grants log_registry) \<and>
   effect_covered log_registry (ir_callables hosted_ir ! 1) (ir_effects hosted_ir ! 1)"
proof -
  have ir: "vi_ir (rg_validated log_registry) = hosted_ir" by (rule log_registry_ir)
  have "length (ir_callables hosted_ir) \<le> SOL_IR_NONE" by code_simp
  from host_preflight_exact [OF log_preflight, unfolded ir, OF this] show ?thesis
    by (simp add: hosted_ir_def slice_at_def list_all_iff)
qed



text \<open>
  C28. On an IR whose references are inside its arrays, as validation ensures, the
  registry and the preflight never read out of bounds: creating a registry, allowing an
  operation on any registry built for the IR, and the preflight of its entrypoint are defined.
\<close>

theorem host_reads_inside:
  assumes "host_ir_inside (vi_ir v)"
  shows "fst (run_state (sol_host_registry_create v base) e) \<noteq> None \<and>
    (registry_session v base r \<longrightarrow>
      fst (run_state (sol_host_registry_allow r p operation callback context) e) \<noteq> None \<and>
      (sol_validated_ir_entrypoint v = Some (Some en) \<longrightarrow>
        host_registry_preflight r (ir_callables (vi_ir v) ! en_callable en) \<noteq> None))"
proof (intro conjI impI)
  assume session: "registry_session v base r"
  have ok: "registry_ok v base r" by (rule session_ok [OF session])
  then have "rg_validated r = v" by (simp add: registry_ok_def)
  with assms show "fst (run_state (sol_host_registry_allow r p operation callback context) e) \<noteq> None"
    by (intro allow_inside) simp
  assume "sol_validated_ir_entrypoint v = Some (Some en)"
  with preflight_inside [OF ok assms]
  show "host_registry_preflight r (ir_callables (vi_ir v) ! en_callable en) \<noteq> None" .
qed (rule create_inside [OF assms])

theorem host_reads_inside_witness:
  "host_ir_inside hosted_ir \<and>
   fst (run_state (sol_host_registry_allow log_registry 0 ''write'' log_write 0) plain_env) \<noteq> None"
proof -
  have inside: "host_ir_inside hosted_ir" by code_simp
  then have "host_ir_inside (vi_ir hosted_program)" by (simp add: hosted_program_def)
  from host_reads_inside [OF this, of 4096 plain_env log_registry 0 "''write''" log_write 0]
    log_registry_session inside show ?thesis by blast
qed

end
