(* ===== verification/Sol_Build.thy ===== *)
theory Sol_Build
  imports Sol_Diagnostic
begin

text \<open>
  The frame shared by the builders of the MIR back end. A builder fills arenas that it owns
  and stops at its first failure: \<open>fail\<close> of the source records the outcome, reports one
  message and returns false through every caller. The model is a sum: \<open>Inl\<close> carries how the
  build stopped, \<open>Inr\<close> the state it continues with. A read or a write outside an arena, which
  has no behaviour in C, stops with \<open>OutOfBounds\<close>. An arena keeps its address, its elements
  and its capacity, because the validators compare addresses.
\<close>

section \<open>Stopping\<close>

datatype 'o stop = Stop 'o "string option" | OutOfBounds

definition fail :: "'o \<Rightarrow> string \<Rightarrow> 'o stop + 'a" where
  "fail outcome message = Inl (Stop outcome (Some message))"

definition fail_silent :: "'o \<Rightarrow> 'o stop + 'a" where
  "fail_silent outcome = Inl (Stop outcome None)"

definition andThen :: "'e + 'a \<Rightarrow> ('a \<Rightarrow> 'e + 'b) \<Rightarrow> 'e + 'b" where
  "andThen r f = (case r of Inl e \<Rightarrow> Inl e | Inr x \<Rightarrow> f x)"

primrec for_each :: "('i \<Rightarrow> 's \<Rightarrow> 'e + 's) \<Rightarrow> 'i list \<Rightarrow> 's \<Rightarrow> 'e + 's" where
  "for_each f [] s = Inr s"
| "for_each f (i # is) s = andThen (f i s) (for_each f is)"

definition at :: "'a list \<Rightarrow> size_t \<Rightarrow> 'o stop + 'a" where
  "at xs i = (if i < length xs then Inr (xs ! i) else Inl OutOfBounds)"

definition put_at :: "'a list \<Rightarrow> size_t \<Rightarrow> 'a \<Rightarrow> 'o stop + 'a list" where
  "put_at xs i x = (if i < length xs then Inr (xs[i := x]) else Inl OutOfBounds)"

declare andThen_def [code_unfold]

lemma andThen_simps [simp]:
  "andThen (Inl e) f = Inl e"
  "andThen (Inr x) f = f x"
  by (simp_all add: andThen_def)

lemma andThen_Inr_iff [simp]:
  "andThen r f = Inr y \<longleftrightarrow> (\<exists>x. r = Inr x \<and> f x = Inr y)"
  by (cases r) simp_all

lemma andThenE:
  assumes "andThen r f = Inr y"
  obtains x where "r = Inr x" "f x = Inr y"
  using assms by (cases r) simp_all

lemma andThen_Inl_iff:
  "andThen r f = Inl e \<longleftrightarrow> r = Inl e \<or> (\<exists>x. r = Inr x \<and> f x = Inl e)"
  by (cases r) simp_all

lemma fail_not_Inr [simp]:
  "fail outcome message \<noteq> Inr x" "fail_silent outcome \<noteq> Inr x"
  "Inr x \<noteq> fail outcome message" "Inr x \<noteq> fail_silent outcome"
  by (simp_all add: fail_def fail_silent_def)

lemma fail_defined [simp]:
  "fail outcome message \<noteq> Inl OutOfBounds" "fail_silent outcome \<noteq> Inl OutOfBounds"
  by (simp_all add: fail_def fail_silent_def)

lemma at_Inr_iff [simp]: "at xs i = Inr x \<longleftrightarrow> i < length xs \<and> xs ! i = x"
  by (auto simp: at_def)

lemma at_in_range [simp]: "i < length xs \<Longrightarrow> at xs i = Inr (xs ! i)"
  by (simp add: at_def)

lemma put_at_Inr_iff [simp]: "put_at xs i x = Inr ys \<longleftrightarrow> i < length xs \<and> ys = xs[i := x]"
  by (auto simp: put_at_def)

lemma put_at_in_range [simp]: "i < length xs \<Longrightarrow> put_at xs i x = Inr (xs[i := x])"
  by (simp add: put_at_def)

lemma for_each_append:
  "for_each f (is @ js) s = andThen (for_each f is s) (for_each f js)"
proof (induction "is" arbitrary: s)
  case (Cons i "is")
  then show ?case by (cases "f i s") simp_all
qed simp

text \<open>An invariant of the loop, indexed by the elements already visited.\<close>

lemma for_each_invariant:
  assumes "for_each f is s = Inr s'" and "I [] s"
    and step: "\<And>pre i rest s s'. is = pre @ i # rest \<Longrightarrow> I pre s \<Longrightarrow> f i s = Inr s' \<Longrightarrow> I (pre @ [i]) s'"
  shows "I is s'"
proof -
  have "I is s'" if "is = pre @ rest" "I pre s" "for_each f rest s = Inr s'" for pre rest s
    using that
  proof (induction rest arbitrary: pre s)
    case (Cons i rest)
    then obtain t where "f i s = Inr t" "for_each f rest t = Inr s'" by auto
    with Cons.prems step show ?case by (intro Cons.IH [of "pre @ [i]" t]) auto
  qed simp
  with assms show ?thesis by force
qed

text \<open>The loop of C's \<open>for (i = 0; i < n; ++i)\<close>, with the counter in the invariant.\<close>

lemma for_each_upt:
  assumes "for_each f [0..<n] s = Inr s'" and "I 0 s"
    and step: "\<And>i s s'. i < n \<Longrightarrow> I i s \<Longrightarrow> f i s = Inr s' \<Longrightarrow> I (Suc i) s'"
  shows "I n s'"
proof -
  have "I (length [0..<n]) s'"
  proof (rule for_each_invariant [where I = "\<lambda>pre. I (length pre)", OF assms(1)])
    fix pre i rest s s'
    assume split: "[0..<n] = pre @ i # rest" and "I (length pre) s" "f i s = Inr s'"
    moreover have "i = length pre" "i < n"
    proof -
      have "length pre < n" using arg_cong [OF split, of length] by simp
      moreover have "[0..<n] ! length pre = i" by (simp add: split)
      ultimately show "i = length pre" "i < n" by auto
    qed
    ultimately show "I (length (pre @ [i])) s'" using step by simp
  qed (simp add: assms(2))
  then show ?thesis by simp
qed

text \<open>A loop that never stops: every iteration continues from the invariant.\<close>

lemma for_each_total:
  assumes "I s" and "\<And>i s. i \<in> set is \<Longrightarrow> I s \<Longrightarrow> \<exists>s'. f i s = Inr s' \<and> I s'"
  shows "\<exists>s'. for_each f is s = Inr s' \<and> I s'"
  using assms
proof (induction "is" arbitrary: s)
  case (Cons i "is")
  obtain t where "f i s = Inr t" "I t" using Cons.prems by fastforce
  with Cons show ?case by simp
qed simp

lemma for_each_defined:
  assumes "I s"
    and "\<And>i s. i \<in> set is \<Longrightarrow> I s \<Longrightarrow> f i s \<noteq> Inl OutOfBounds"
    and "\<And>i s s'. i \<in> set is \<Longrightarrow> I s \<Longrightarrow> f i s = Inr s' \<Longrightarrow> I s'"
  shows "for_each f is s \<noteq> Inl OutOfBounds"
  using assms
proof (induction "is" arbitrary: s)
  case (Cons i "is")
  show ?case
  proof (cases "f i s")
    case (Inr t)
    have "I t" by (rule Cons.prems(3) [OF _ Cons.prems(1) Inr]) simp
    have "for_each f is t \<noteq> Inl OutOfBounds"
    proof (rule Cons.IH [OF \<open>I t\<close>])
      show "f j s \<noteq> Inl OutOfBounds" if "j \<in> set is" "I s" for j s
        using that by (intro Cons.prems(2)) simp_all
      show "I s'" if "j \<in> set is" "I s" "f j s = Inr s'" for j s s'
        using that by (intro Cons.prems(3) [of j s s']) simp_all
    qed
    with Inr show ?thesis by simp
  next
    case (Inl e)
    with Cons.prems(2) [OF _ Cons.prems(1), of i] show ?thesis by simp
  qed
qed simp

section \<open>Checked arithmetic\<close>

text \<open>\<open>add\<close>, \<open>checked_add\<close>, \<open>checked_add_size\<close>, \<open>add_size\<close> and their products: one text per file.\<close>

definition checked_add_size :: "size_t \<Rightarrow> size_t \<Rightarrow> size_t option" where
  "checked_add_size v amount = (if amount > SIZE_MAX - v then None else Some (v + amount))"

definition checked_mul_size :: "size_t \<Rightarrow> size_t \<Rightarrow> size_t option" where
  "checked_mul_size left right =
     (if left \<noteq> 0 \<and> right > SIZE_MAX div left then None else Some (left * right))"

primrec checked_sum :: "size_t \<Rightarrow> size_t list \<Rightarrow> size_t option" where
  "checked_sum v [] = Some v"
| "checked_sum v (x # xs) = Option.bind (checked_add_size v x) (\<lambda>v. checked_sum v xs)"

lemma checked_add_size_Some_iff:
  "v \<le> SIZE_MAX \<Longrightarrow> checked_add_size v a = Some r \<longleftrightarrow> r = v + a \<and> r \<le> SIZE_MAX"
  by (auto simp: checked_add_size_def)

lemma checked_mul_size_Some_iff:
  "checked_mul_size a b = Some r \<longleftrightarrow> r = a * b \<and> r \<le> SIZE_MAX"
proof (cases "a = 0")
  case False
  then have "b \<le> SIZE_MAX div a \<longleftrightarrow> a * b \<le> SIZE_MAX"
    by (simp add: less_eq_div_iff_mult_less_eq mult.commute)
  with False show ?thesis by (auto simp: checked_mul_size_def not_less)
qed (auto simp: checked_mul_size_def)

lemma checked_sum_Some_iff:
  "v \<le> SIZE_MAX \<Longrightarrow>
   checked_sum v xs = Some r \<longleftrightarrow> r = v + sum_list xs \<and> r \<le> SIZE_MAX"
proof (induction xs arbitrary: v)
  case (Cons x xs)
  show ?case
  proof (cases "v + x \<le> SIZE_MAX")
    case True
    then have "checked_add_size v x = Some (v + x)" using Cons.prems by (simp add: checked_add_size_def)
    with Cons.IH [OF True] show ?thesis by (simp add: add.assoc)
  next
    case False
    then have "checked_add_size v x = None" using Cons.prems by (simp add: checked_add_size_def)
    with False show ?thesis by auto
  qed
qed auto

section \<open>Arenas\<close>

record 'a arena =
  ar_base :: size_t
  ar_items :: "'a list"
  ar_capacity :: size_t

definition empty_arena :: "'a arena" where
  "empty_arena = \<lparr> ar_base = 0, ar_items = [], ar_capacity = 0 \<rparr>"

text \<open>
  \<open>array[count++] = x\<close> on an arena of fixed capacity.
\<close>

definition push :: "'a \<Rightarrow> 'a arena \<Rightarrow> 'o stop + 'a arena" where
  "push x a =
     (if length (ar_items a) < ar_capacity a then Inr (a\<lparr>ar_items := ar_items a @ [x]\<rparr>)
      else Inl OutOfBounds)"

lemma push_Inr_iff:
  "push x a = Inr b \<longleftrightarrow>
     length (ar_items a) < ar_capacity a \<and> b = a\<lparr>ar_items := ar_items a @ [x]\<rparr>"
  by (auto simp: push_def)

text \<open>
  The validators' address checks: a canonical arena is full and null exactly when empty; the
  byte ranges of the owned arenas do not wrap around and do not meet; a borrowed range must
  meet none of them.
\<close>

type_synonym range = "size_t \<times> size_t"

definition canonical_arena :: "'a arena \<Rightarrow> bool" where
  "canonical_arena a \<longleftrightarrow>
     length (ar_items a) = ar_capacity a \<and> (ar_items a = []) = (ar_base a = 0)"

definition add_owned_range :: "range list \<Rightarrow> size_t \<Rightarrow> size_t \<Rightarrow> size_t \<Rightarrow> range list option" where
  "add_owned_range ranges pointer count item_size =
     (if count = 0 then (if pointer = 0 then Some ranges else None)
      else if pointer = 0 then None
      else case checked_mul_size count item_size of
        None \<Rightarrow> None
      | Some bytes \<Rightarrow>
          if bytes > SIZE_MAX - pointer then None
          else if list_ex (\<lambda>(start, stop). pointer < stop \<and> start < pointer + bytes) ranges
          then None
          else Some (ranges @ [(pointer, pointer + bytes)]))"

definition borrowed_overlaps :: "range list \<Rightarrow> size_t \<Rightarrow> size_t \<Rightarrow> size_t \<Rightarrow> bool" where
  "borrowed_overlaps ranges pointer count item_size =
     (if count = 0 then pointer \<noteq> 0
      else if pointer = 0 then True
      else case checked_mul_size count item_size of
        None \<Rightarrow> True
      | Some bytes \<Rightarrow>
          if bytes > SIZE_MAX - pointer then True
          else list_ex (\<lambda>(start, stop). pointer < stop \<and> start < pointer + bytes) ranges)"

end
