(* ===== verification/Sol_Representation.thy ===== *)
theory Sol_Representation
  imports Sol_Build Sol_IR
begin

text \<open>
  \<open>src/src/mir_representation.c\<close>: from the materialized types of a program to target-neutral
  recipes. The builder counts the graph, allocates its arenas, populates one recipe per
  materialized type, classifies the recipes by three fixed points (inhabited, zero-sized,
  copyable) and records the producers of callable values. Every step is charged to a work
  limit. Structs are records with the members this component and the layout read;
  \<open>sol_mir_materialization_validate\<close> is an argument of the entry point.
\<close>

section \<open>The materialized program\<close>

datatype SolMirMaterializedNominalCategory =
    SOL_MIR_MATERIALIZED_NOMINAL_NONE | SOL_MIR_MATERIALIZED_NOMINAL_RECORD
  | SOL_MIR_MATERIALIZED_NOMINAL_ENUM | SOL_MIR_MATERIALIZED_NOMINAL_DISTINCT
  | SOL_MIR_MATERIALIZED_NOMINAL_REFINED | SOL_MIR_MATERIALIZED_NOMINAL_CAPABILITY

record SolMirMaterializedShapeField =
  sf_source_field :: size_t
  sf_ordinal :: size_t
  sf_type :: size_t

record SolMirMaterializedShapeVariant =
  sv_source_variant :: size_t
  sv_ordinal :: size_t
  sv_fields :: slice

record SolMirMaterializedType =
  mt_kind :: SolIrTypeKind
  mt_definition :: size_t
  mt_nominal_category :: SolMirMaterializedNominalCategory
  mt_arguments :: slice
  mt_parameters :: slice
  mt_parameter_accesses :: slice
  mt_result :: size_t
  mt_effects :: size_t
  mt_fields :: slice
  mt_variants :: slice
  mt_backing :: size_t
  mt_capability_source :: size_t
  mt_nominal_open :: bool
  mt_is_copy :: bool

record SolMirMaterializedProjection =
  mj_kind :: SolIrProjectionKind
  pj_type :: size_t
  pj_source_field :: size_t
  pj_tuple_ordinal :: size_t

record SolMirMaterializedPlace =
  pl_root_type :: size_t
  mp_projections :: slice
  pl_final_type :: size_t

datatype SolMirPlanDemandKind =
    SOL_MIR_PLAN_DEMAND_ROOT | SOL_MIR_PLAN_DEMAND_INVOKE | SOL_MIR_PLAN_DEMAND_CALLBACK
  | SOL_MIR_PLAN_DEMAND_PREDICATE | SOL_MIR_PLAN_DEMAND_HANDLER_SOURCE
  | SOL_MIR_PLAN_DEMAND_HANDLER_PROVIDER | SOL_MIR_PLAN_DEMAND_FUNCTION_VALUE
  | SOL_MIR_PLAN_DEMAND_BOUND_OPERATION | SOL_MIR_PLAN_DEMAND_PREDICATE_FUNCTION_VALUE

datatype SolMirMaterializedTargetKind =
  SOL_MIR_MATERIALIZED_TARGET_INSTANCE | SOL_MIR_MATERIALIZED_TARGET_IMPORT

datatype SolMirMaterializedReceiverKind =
    SOL_MIR_MATERIALIZED_RECEIVER_NONE | SOL_MIR_MATERIALIZED_RECEIVER_SOURCE_EXPRESSION
  | SOL_MIR_MATERIALIZED_RECEIVER_PLACE | SOL_MIR_MATERIALIZED_RECEIVER_TEMPORARY
  | SOL_MIR_MATERIALIZED_RECEIVER_VALUE

record SolMirMaterializedBinding =
  bn_target_kind :: SolMirMaterializedTargetKind
  bn_instance :: size_t
  bn_import :: size_t

record SolMirMaterializedSemanticSite =
  ss_kind :: SolMirPlanDemandKind
  ss_binding :: size_t
  ss_produced_function_type :: size_t
  ss_captured_receiver_type :: size_t
  ss_captured_receiver_kind :: SolMirMaterializedReceiverKind
  ss_captured_receiver_expression :: size_t
  ss_captured_receiver_place :: size_t
  ss_captured_receiver_temporary :: size_t
  ss_captured_receiver_value :: size_t
  ss_captured_receiver_instruction :: size_t
  ss_captured_receiver_roots :: slice
  ss_operation_effects :: size_t

text \<open>
  \<open>mz_borrowed_counts\<close>: the twelve record counts of the plan, the program and the IR that
  \<open>sol_mir_representation_validation_requirements\<close> adds, in its order.
\<close>

record SolMirMaterialization =
  mz_types :: "SolMirMaterializedType list"
  mz_shape_fields :: "SolMirMaterializedShapeField list"
  mz_shape_variants :: "SolMirMaterializedShapeVariant list"
  mz_type_ids :: "size_t list"
  mz_accesses :: "SolAccessMode list"
  mz_places :: "SolMirMaterializedPlace list"
  mz_projections :: "SolMirMaterializedProjection list"
  mz_bindings :: "SolMirMaterializedBinding list"
  mz_semantic_sites :: "SolMirMaterializedSemanticSite list"
  mz_receiver_roots :: "size_t list"
  mz_usage_validation_work :: size_t
  mz_usage_concrete_records :: size_t
  mz_usage_owned_bytes :: size_t
  mz_borrowed_counts :: "size_t list"

definition SOL_MIR_MATERIALIZED_NONE :: size_t where
  "SOL_MIR_MATERIALIZED_NONE = SIZE_MAX"

definition SOL_MIR_RECIPE_NONE :: size_t where
  "SOL_MIR_RECIPE_NONE = SIZE_MAX"

section \<open>Recipes\<close>

datatype SolMirRecipeKind =
    SOL_MIR_RECIPE_INT64 | SOL_MIR_RECIPE_BOOL | SOL_MIR_RECIPE_TEXT | SOL_MIR_RECIPE_UNIT
  | SOL_MIR_RECIPE_NEVER | SOL_MIR_RECIPE_TUPLE | SOL_MIR_RECIPE_RECORD | SOL_MIR_RECIPE_ENUM
  | SOL_MIR_RECIPE_OPTION | SOL_MIR_RECIPE_RESULT | SOL_MIR_RECIPE_DISTINCT
  | SOL_MIR_RECIPE_REFINED | SOL_MIR_RECIPE_FUNCTION | SOL_MIR_RECIPE_CAPABILITY

datatype SolMirStorageKind =
    SOL_MIR_STORAGE_NONE | SOL_MIR_STORAGE_SCALAR | SOL_MIR_STORAGE_TEXT_HANDLE
  | SOL_MIR_STORAGE_AGGREGATE_VALUE | SOL_MIR_STORAGE_CALLABLE_HANDLE
  | SOL_MIR_STORAGE_CAPABILITY_HANDLE

datatype SolMirCopyKind =
    SOL_MIR_COPY_TRIVIAL | SOL_MIR_COPY_TEXT | SOL_MIR_COPY_AGGREGATE | SOL_MIR_COPY_WRAPPER
  | SOL_MIR_COPY_FORBIDDEN | SOL_MIR_COPY_UNREACHABLE

datatype SolMirDropKind =
    SOL_MIR_DROP_NONE | SOL_MIR_DROP_TEXT | SOL_MIR_DROP_AGGREGATE | SOL_MIR_DROP_CALLABLE
  | SOL_MIR_DROP_CAPABILITY | SOL_MIR_DROP_WRAPPER

record SolMirRecipeField =
  rf_source_field :: size_t
  rf_ordinal :: size_t
  rf_type :: size_t

record SolMirRecipeVariant =
  rv_source_variant :: size_t
  rv_ordinal :: size_t
  rv_semantic_tag :: size_t
  rv_fields :: slice

record SolMirRecipe =
  rc_kind :: SolMirRecipeKind
  rc_concrete_definition :: size_t
  rc_fields :: slice
  rc_variants :: slice
  rc_parameters :: slice
  rc_parameter_accesses :: slice
  rc_result :: size_t
  rc_effects :: size_t
  rc_backing :: size_t
  rc_capability_source :: size_t
  rc_storage :: SolMirStorageKind
  rc_copy_kind :: SolMirCopyKind
  rc_drop_kind :: SolMirDropKind
  rc_inhabited :: bool
  rc_zero_sized :: bool
  rc_is_copy :: bool

datatype SolMirCallableProducerKind =
  SOL_MIR_CALLABLE_PRODUCER_EXACT_FUNCTION | SOL_MIR_CALLABLE_PRODUCER_BOUND_OPERATION

record SolMirCallableProducer =
  cp_kind :: SolMirCallableProducerKind
  cp_function_recipe :: size_t
  cp_semantic_site :: size_t
  cp_binding :: size_t
  cp_target_kind :: SolMirMaterializedTargetKind
  cp_instance :: size_t
  cp_import :: size_t
  cp_captured_receiver_type :: size_t
  cp_captured_receiver_kind :: SolMirMaterializedReceiverKind
  cp_captured_receiver_expression :: size_t
  cp_captured_receiver_place :: size_t
  cp_captured_receiver_temporary :: size_t
  cp_captured_receiver_value :: size_t
  cp_captured_receiver_instruction :: size_t
  cp_captured_receiver_roots :: slice
  cp_effects :: size_t

record SolMirRepresentationLimits =
  rl_max_recipes :: size_t
  rl_max_fields :: size_t
  rl_max_variants :: size_t
  rl_max_recipe_ids :: size_t
  rl_max_callable_producers :: size_t
  rl_max_receiver_roots :: size_t
  rl_max_owned_bytes :: size_t
  rl_max_build_scratch_bytes :: size_t
  rl_max_build_work :: size_t
  rl_max_validation_work :: size_t
  rl_max_validation_scratch_bytes :: size_t

record SolMirRepresentationUsage =
  ru_recipes :: size_t
  ru_fields :: size_t
  ru_variants :: size_t
  ru_recipe_ids :: size_t
  ru_callable_producers :: size_t
  ru_receiver_roots :: size_t
  ru_owned_bytes :: size_t
  ru_build_scratch_bytes :: size_t
  ru_build_work :: size_t
  ru_validation_work :: size_t
  ru_validation_scratch_bytes :: size_t

record SolMirRepresentation =
  rp_materialization :: SolMirMaterialization
  rp_recipes :: "SolMirRecipe arena"
  rp_fields :: "SolMirRecipeField arena"
  rp_variants :: "SolMirRecipeVariant arena"
  rp_recipe_ids :: "size_t arena"
  rp_accesses :: "SolAccessMode arena"
  rp_receiver_roots :: "size_t arena"
  rp_callable_producers :: "SolMirCallableProducer arena"
  rp_limits :: SolMirRepresentationLimits
  rp_usage :: SolMirRepresentationUsage

datatype SolMirRepresentationBuildOutcome =
    SOL_MIR_REPRESENTATION_BUILD_SUCCEEDED
  | SOL_MIR_REPRESENTATION_BUILD_INVALID_ARGUMENT
  | SOL_MIR_REPRESENTATION_BUILD_INVALID_MATERIALIZATION
  | SOL_MIR_REPRESENTATION_BUILD_UNSUPPORTED
  | SOL_MIR_REPRESENTATION_BUILD_RESOURCE_EXHAUSTED
  | SOL_MIR_REPRESENTATION_BUILD_ALLOCATION_FAILED
  | SOL_MIR_REPRESENTATION_BUILD_INTERNAL_FAILED

abbreviation recipes_of :: "SolMirRepresentation \<Rightarrow> SolMirRecipe list" where
  "recipes_of r \<equiv> ar_items (rp_recipes r)"

abbreviation fields_of :: "SolMirRepresentation \<Rightarrow> SolMirRecipeField list" where
  "fields_of r \<equiv> ar_items (rp_fields r)"

abbreviation variants_of :: "SolMirRepresentation \<Rightarrow> SolMirRecipeVariant list" where
  "variants_of r \<equiv> ar_items (rp_variants r)"

abbreviation producers_of :: "SolMirRepresentation \<Rightarrow> SolMirCallableProducer list" where
  "producers_of r \<equiv> ar_items (rp_callable_producers r)"

definition empty_slice :: slice where
  "empty_slice = \<lparr> sl_offset = 0, sl_count = 0 \<rparr>"

text \<open>The indices \<open>offset, offset + 1, \<dots>\<close> of a slice's elements.\<close>

definition slice_ids :: "slice \<Rightarrow> size_t list" where
  "slice_ids sl = [sl_offset sl ..< sl_offset sl + sl_count sl]"

text \<open>What \<open>calloc\<close> and \<open>sol_mir_representation_init\<close> leave.\<close>

definition zero_recipe :: SolMirRecipe where
  "zero_recipe =
     \<lparr> rc_kind = SOL_MIR_RECIPE_INT64, rc_concrete_definition = 0, rc_fields = empty_slice,
       rc_variants = empty_slice, rc_parameters = empty_slice,
       rc_parameter_accesses = empty_slice, rc_result = 0, rc_effects = 0, rc_backing = 0,
       rc_capability_source = 0, rc_storage = SOL_MIR_STORAGE_NONE,
       rc_copy_kind = SOL_MIR_COPY_TRIVIAL, rc_drop_kind = SOL_MIR_DROP_NONE,
       rc_inhabited = False, rc_zero_sized = False, rc_is_copy = False \<rparr>"

definition sol_mir_representation_default_limits :: SolMirRepresentationLimits where
  "sol_mir_representation_default_limits =
     \<lparr> rl_max_recipes = 12000000, rl_max_fields = 24000000, rl_max_variants = 12000000,
       rl_max_recipe_ids = 12000000, rl_max_callable_producers = 4000000,
       rl_max_receiver_roots = 8000000, rl_max_owned_bytes = 768 * 1024 * 1024,
       rl_max_build_scratch_bytes = 128 * 1024 * 1024, rl_max_build_work = 100000000,
       rl_max_validation_work = 1000000000,
       rl_max_validation_scratch_bytes = 896 * 1024 * 1024 \<rparr>"

definition rep_limits_zero :: "SolMirRepresentationLimits \<Rightarrow> bool" where
  "rep_limits_zero l \<longleftrightarrow>
     rl_max_recipes l = 0 \<and> rl_max_fields l = 0 \<and> rl_max_variants l = 0 \<and>
     rl_max_recipe_ids l = 0 \<and> rl_max_callable_producers l = 0 \<and>
     rl_max_receiver_roots l = 0 \<and> rl_max_owned_bytes l = 0 \<and>
     rl_max_build_scratch_bytes l = 0 \<and> rl_max_build_work l = 0 \<and>
     rl_max_validation_work l = 0 \<and> rl_max_validation_scratch_bytes l = 0"

definition rep_limits_complete :: "SolMirRepresentationLimits \<Rightarrow> bool" where
  "rep_limits_complete l \<longleftrightarrow>
     rl_max_recipes l \<noteq> 0 \<and> rl_max_fields l \<noteq> 0 \<and> rl_max_variants l \<noteq> 0 \<and>
     rl_max_recipe_ids l \<noteq> 0 \<and> rl_max_callable_producers l \<noteq> 0 \<and>
     rl_max_receiver_roots l \<noteq> 0 \<and> rl_max_owned_bytes l \<noteq> 0 \<and>
     rl_max_build_scratch_bytes l \<noteq> 0 \<and> rl_max_build_work l \<noteq> 0 \<and>
     rl_max_validation_work l \<noteq> 0 \<and> rl_max_validation_scratch_bytes l \<noteq> 0"

definition sol_mir_representation_init ::
  "SolMirMaterialization \<Rightarrow> SolMirRepresentationLimits \<Rightarrow> SolMirRepresentation" where
  "sol_mir_representation_init m limits =
     \<lparr> rp_materialization = m, rp_recipes = empty_arena, rp_fields = empty_arena,
       rp_variants = empty_arena, rp_recipe_ids = empty_arena, rp_accesses = empty_arena,
       rp_receiver_roots = empty_arena, rp_callable_producers = empty_arena,
       rp_limits = limits,
       rp_usage = \<lparr> ru_recipes = 0, ru_fields = 0, ru_variants = 0, ru_recipe_ids = 0,
         ru_callable_producers = 0, ru_receiver_roots = 0, ru_owned_bytes = 0,
         ru_build_scratch_bytes = 0, ru_build_work = 0, ru_validation_work = 0,
         ru_validation_scratch_bytes = 0 \<rparr> \<rparr>"

section \<open>Work and memory\<close>

text \<open>The requests a build makes to the C library, each at most once.\<close>

datatype rep_request =
    HEAP_RECIPES | HEAP_FIELDS | HEAP_VARIANTS | HEAP_RECIPE_IDS | HEAP_ACCESSES
  | HEAP_RECEIVER_ROOTS | HEAP_PRODUCERS | HEAP_INHABITED | HEAP_ZERO | HEAP_COPY

type_synonym rep_heap = "rep_request \<Rightarrow> size_t"

type_synonym 'a rep_result = "SolMirRepresentationBuildOutcome stop + 'a"

text \<open>
  \<open>charge\<close> followed by the \<open>fail\<close> of its caller. The work counter is the only part of the
  builder that classification changes before its last two loops.
\<close>

definition rep_charge ::
  "string \<Rightarrow> size_t \<Rightarrow> SolMirRepresentation \<Rightarrow> SolMirRepresentation rep_result" where
  "rep_charge message amount r =
     (case checked_add_size (ru_build_work (rp_usage r)) amount of
        None \<Rightarrow> fail SOL_MIR_REPRESENTATION_BUILD_RESOURCE_EXHAUSTED message
      | Some work \<Rightarrow>
          if work \<le> rl_max_build_work (rp_limits r)
          then Inr (r\<lparr>rp_usage := (rp_usage r)\<lparr>ru_build_work := work\<rparr>\<rparr>)
          else fail SOL_MIR_REPRESENTATION_BUILD_RESOURCE_EXHAUSTED message)"

text \<open>
  \<open>allocate\<close>: the C library answers the request with an address, zero when it has none.
\<close>

definition rep_allocate ::
  "size_t \<Rightarrow> size_t \<Rightarrow> size_t \<Rightarrow> SolMirRepresentation \<Rightarrow>
   ('a arena \<times> SolMirRepresentation) rep_result" where
  "rep_allocate address count item r =
     (if count = 0 then Inr (empty_arena, r)
      else if item = 0 \<or> count > SIZE_MAX div item
      then fail_silent SOL_MIR_REPRESENTATION_BUILD_RESOURCE_EXHAUSTED
      else case checked_add_size (ru_owned_bytes (rp_usage r)) (count * item) of
        None \<Rightarrow> fail_silent SOL_MIR_REPRESENTATION_BUILD_RESOURCE_EXHAUSTED
      | Some owned \<Rightarrow>
          if owned > rl_max_owned_bytes (rp_limits r)
          then fail_silent SOL_MIR_REPRESENTATION_BUILD_RESOURCE_EXHAUSTED
          else if address = 0
          then fail_silent SOL_MIR_REPRESENTATION_BUILD_ALLOCATION_FAILED
          else Inr (\<lparr> ar_base = address, ar_items = [], ar_capacity = count \<rparr>,
            r\<lparr>rp_usage := (rp_usage r)\<lparr>ru_owned_bytes := owned\<rparr>\<rparr>))"

section \<open>Counting\<close>

definition recipe_kind :: "SolMirMaterializedType \<Rightarrow> SolMirRecipeKind option" where
  "recipe_kind t =
     (case mt_kind t of
        SOL_IR_TYPE_INT64 \<Rightarrow> Some SOL_MIR_RECIPE_INT64
      | SOL_IR_TYPE_BOOL \<Rightarrow> Some SOL_MIR_RECIPE_BOOL
      | SOL_IR_TYPE_TEXT \<Rightarrow> Some SOL_MIR_RECIPE_TEXT
      | SOL_IR_TYPE_UNIT \<Rightarrow> Some SOL_MIR_RECIPE_UNIT
      | SOL_IR_TYPE_NEVER \<Rightarrow> Some SOL_MIR_RECIPE_NEVER
      | SOL_IR_TYPE_OPTION \<Rightarrow> Some SOL_MIR_RECIPE_OPTION
      | SOL_IR_TYPE_RESULT \<Rightarrow> Some SOL_MIR_RECIPE_RESULT
      | SOL_IR_TYPE_TUPLE \<Rightarrow> Some SOL_MIR_RECIPE_TUPLE
      | SOL_IR_TYPE_FUNCTION \<Rightarrow> Some SOL_MIR_RECIPE_FUNCTION
      | SOL_IR_TYPE_NOMINAL \<Rightarrow>
          (case mt_nominal_category t of
             SOL_MIR_MATERIALIZED_NOMINAL_RECORD \<Rightarrow> Some SOL_MIR_RECIPE_RECORD
           | SOL_MIR_MATERIALIZED_NOMINAL_ENUM \<Rightarrow> Some SOL_MIR_RECIPE_ENUM
           | SOL_MIR_MATERIALIZED_NOMINAL_DISTINCT \<Rightarrow> Some SOL_MIR_RECIPE_DISTINCT
           | SOL_MIR_MATERIALIZED_NOMINAL_REFINED \<Rightarrow> Some SOL_MIR_RECIPE_REFINED
           | SOL_MIR_MATERIALIZED_NOMINAL_CAPABILITY \<Rightarrow> Some SOL_MIR_RECIPE_CAPABILITY
           | _ \<Rightarrow> None)
      | _ \<Rightarrow> None)"

definition is_wrapper :: "SolMirRecipeKind \<Rightarrow> bool" where
  "is_wrapper k \<longleftrightarrow> k = SOL_MIR_RECIPE_DISTINCT \<or> k = SOL_MIR_RECIPE_REFINED"

definition is_product :: "SolMirRecipeKind \<Rightarrow> bool" where
  "is_product k \<longleftrightarrow> k = SOL_MIR_RECIPE_TUPLE \<or> k = SOL_MIR_RECIPE_RECORD"

definition is_sum :: "SolMirRecipeKind \<Rightarrow> bool" where
  "is_sum k \<longleftrightarrow>
     k = SOL_MIR_RECIPE_ENUM \<or> k = SOL_MIR_RECIPE_OPTION \<or> k = SOL_MIR_RECIPE_RESULT"

definition is_producer_site :: "SolMirMaterializedSemanticSite \<Rightarrow> bool" where
  "is_producer_site s \<longleftrightarrow>
     ss_kind s = SOL_MIR_PLAN_DEMAND_FUNCTION_VALUE \<or>
     ss_kind s = SOL_MIR_PLAN_DEMAND_BOUND_OPERATION \<or>
     ss_kind s = SOL_MIR_PLAN_DEMAND_PREDICATE_FUNCTION_VALUE"

record graph_count =
  gc_fields :: size_t
  gc_variants :: size_t
  gc_ids :: size_t
  gc_producers :: size_t
  gc_roots :: size_t

text \<open>
  An \<open>add\<close> of \<open>count_graph\<close> that overflows returns false with the builder's first outcome,
  which \<open>build_scratch\<close> turns into this failure.
\<close>

definition count_add :: "size_t \<Rightarrow> size_t \<Rightarrow> size_t rep_result" where
  "count_add v amount =
     (case checked_add_size v amount of
        None \<Rightarrow> fail SOL_MIR_REPRESENTATION_BUILD_RESOURCE_EXHAUSTED
          ''representation graph count overflowed''
      | Some w \<Rightarrow> Inr w)"

abbreviation count_charge :: "SolMirRepresentation \<Rightarrow> SolMirRepresentation rep_result" where
  "count_charge \<equiv> rep_charge ''representation count work limit exceeded'' 1"

definition count_variant ::
  "SolMirMaterialization \<Rightarrow> size_t \<Rightarrow> size_t \<times> SolMirRepresentation \<Rightarrow>
   (size_t \<times> SolMirRepresentation) rep_result" where
  "count_variant m v = (\<lambda>(fs, r).
     andThen (count_charge r) (\<lambda>r.
     andThen (at (mz_shape_variants m) v) (\<lambda>variant.
     andThen (count_add fs (sl_count (sv_fields variant))) (\<lambda>fs. Inr (fs, r)))))"

definition count_type_shape ::
  "SolMirMaterialization \<Rightarrow> SolMirMaterializedType \<Rightarrow> SolMirRecipeKind \<Rightarrow> SolMirRepresentation \<Rightarrow>
   (size_t \<times> size_t \<times> SolMirRepresentation) rep_result" where
  "count_type_shape m t kind r =
     (if kind = SOL_MIR_RECIPE_TUPLE then Inr (sl_count (mt_arguments t), 0, r)
      else if kind = SOL_MIR_RECIPE_RECORD then Inr (sl_count (mt_fields t), 0, r)
      else if kind = SOL_MIR_RECIPE_ENUM then
        andThen (for_each (count_variant m) (slice_ids (mt_variants t)) (0, r))
          (\<lambda>(fs, r). Inr (fs, sl_count (mt_variants t), r))
      else if kind = SOL_MIR_RECIPE_OPTION then Inr (1, 2, r)
      else if kind = SOL_MIR_RECIPE_RESULT then Inr (2, 2, r)
      else Inr (0, 0, r))"

definition count_type ::
  "SolMirMaterialization \<Rightarrow> SolMirMaterializedType \<Rightarrow> graph_count \<times> SolMirRepresentation \<Rightarrow>
   (graph_count \<times> SolMirRepresentation) rep_result" where
  "count_type m t = (\<lambda>(g, r).
     andThen (count_charge r) (\<lambda>r.
     case recipe_kind t of
       None \<Rightarrow> fail SOL_MIR_REPRESENTATION_BUILD_UNSUPPORTED
         ''materialized type has no representation recipe''
     | Some kind \<Rightarrow>
         if kind = SOL_MIR_RECIPE_ENUM \<and> mt_nominal_open t
         then fail SOL_MIR_REPRESENTATION_BUILD_UNSUPPORTED
           ''reachable open enum has no closed canonical representation''
         else
           andThen (count_type_shape m t kind r) (\<lambda>(fs, vs, r).
           andThen (count_add (gc_fields g) fs) (\<lambda>fs.
           andThen (count_add (gc_variants g) vs) (\<lambda>vs.
           andThen (if kind = SOL_MIR_RECIPE_FUNCTION
                    then count_add (gc_ids g) (sl_count (mt_parameters t))
                    else Inr (gc_ids g)) (\<lambda>ids.
           Inr (g\<lparr>gc_fields := fs, gc_variants := vs, gc_ids := ids\<rparr>, r)))))))"

definition count_site ::
  "SolMirMaterializedSemanticSite \<Rightarrow> graph_count \<times> SolMirRepresentation \<Rightarrow>
   (graph_count \<times> SolMirRepresentation) rep_result" where
  "count_site s = (\<lambda>(g, r).
     andThen (count_charge r) (\<lambda>r.
     if is_producer_site s then
       andThen (count_add (gc_producers g) 1) (\<lambda>producers.
       andThen (if ss_kind s = SOL_MIR_PLAN_DEMAND_BOUND_OPERATION
                then count_add (gc_roots g) (sl_count (ss_captured_receiver_roots s))
                else Inr (gc_roots g)) (\<lambda>roots.
       Inr (g\<lparr>gc_producers := producers, gc_roots := roots\<rparr>, r)))
     else Inr (g, r)))"

definition count_graph ::
  "SolMirRepresentation \<Rightarrow> (graph_count \<times> SolMirRepresentation) rep_result" where
  "count_graph r =
     (let m = rp_materialization r in
      andThen (for_each (count_type m) (mz_types m)
        (\<lparr> gc_fields = 0, gc_variants = 0, gc_ids = 0, gc_producers = 0, gc_roots = 0 \<rparr>, r))
        (for_each count_site (mz_semantic_sites m)))"

section \<open>Populating\<close>

abbreviation populate_charge ::
  "size_t \<Rightarrow> SolMirRepresentation \<Rightarrow> SolMirRepresentation rep_result" where
  "populate_charge \<equiv> rep_charge ''representation population work limit exceeded''"

definition append_field ::
  "size_t \<Rightarrow> size_t \<Rightarrow> size_t \<Rightarrow> SolMirRepresentation \<Rightarrow> SolMirRepresentation rep_result" where
  "append_field source ordinal ty r =
     andThen (push \<lparr> rf_source_field = source, rf_ordinal = ordinal, rf_type = ty \<rparr> (rp_fields r))
       (\<lambda>fs. Inr (r\<lparr>rp_fields := fs\<rparr>))"

definition append_variant ::
  "size_t \<Rightarrow> size_t \<Rightarrow> size_t \<Rightarrow> size_t \<Rightarrow> size_t \<Rightarrow> SolMirRepresentation \<Rightarrow>
   SolMirRepresentation rep_result" where
  "append_variant source ordinal tag field_offset field_count r =
     andThen (push \<lparr> rv_source_variant = source, rv_ordinal = ordinal, rv_semantic_tag = tag,
         rv_fields = \<lparr> sl_offset = field_offset, sl_count = field_count \<rparr> \<rparr> (rp_variants r))
       (\<lambda>vs. Inr (r\<lparr>rp_variants := vs\<rparr>))"

definition append_tuple_field ::
  "SolMirMaterializedType \<Rightarrow> size_t \<Rightarrow> SolMirRepresentation \<Rightarrow> SolMirRepresentation rep_result" where
  "append_tuple_field t f r =
     andThen (populate_charge 1 r) (\<lambda>r.
     andThen (at (mz_type_ids (rp_materialization r)) (sl_offset (mt_arguments t) + f)) (\<lambda>ty.
     append_field SOL_IR_NONE f ty r))"

definition append_shape_field ::
  "size_t \<Rightarrow> SolMirRepresentation \<Rightarrow> SolMirRepresentation rep_result" where
  "append_shape_field f r =
     andThen (populate_charge 1 r) (\<lambda>r.
     andThen (at (mz_shape_fields (rp_materialization r)) f) (\<lambda>sf.
     append_field (sf_source_field sf) (sf_ordinal sf) (sf_type sf) r))"

definition append_shape_variant ::
  "size_t \<Rightarrow> SolMirRepresentation \<Rightarrow> SolMirRepresentation rep_result" where
  "append_shape_variant v r =
     andThen (populate_charge 1 r) (\<lambda>r.
     andThen (at (mz_shape_variants (rp_materialization r)) v) (\<lambda>variant.
     let field_at = length (fields_of r) in
     andThen (for_each append_shape_field (slice_ids (sv_fields variant)) r) (\<lambda>r.
     append_variant (sv_source_variant variant) (sv_ordinal variant) (sv_ordinal variant)
       field_at (sl_count (sv_fields variant)) r)))"

definition append_argument_field ::
  "SolMirMaterializedType \<Rightarrow> size_t \<Rightarrow> SolMirRepresentation \<Rightarrow> SolMirRepresentation rep_result" where
  "append_argument_field t f r =
     andThen (at (mz_type_ids (rp_materialization r)) (sl_offset (mt_arguments t) + f))
       (\<lambda>ty. append_field SOL_IR_NONE 0 ty r)"

definition append_option_shape ::
  "SolMirMaterializedType \<Rightarrow> SolMirRepresentation \<Rightarrow> SolMirRepresentation rep_result" where
  "append_option_shape t r =
     andThen (append_variant SOL_IR_NONE 0 0 (length (fields_of r)) 0 r) (\<lambda>r.
     let start = length (fields_of r) in
     andThen (append_argument_field t 0 r) (append_variant SOL_IR_NONE 1 1 start 1))"

definition append_result_shape ::
  "SolMirMaterializedType \<Rightarrow> SolMirRepresentation \<Rightarrow> SolMirRepresentation rep_result" where
  "append_result_shape t r =
     (let start = length (fields_of r) in
      andThen (append_argument_field t 0 r) (\<lambda>r.
      andThen (append_variant SOL_IR_NONE 0 0 start 1 r) (\<lambda>r.
      let start = length (fields_of r) in
      andThen (append_argument_field t 1 r) (append_variant SOL_IR_NONE 1 1 start 1))))"

definition append_parameter ::
  "SolMirMaterializedType \<Rightarrow> size_t \<Rightarrow> SolMirRepresentation \<Rightarrow> SolMirRepresentation rep_result" where
  "append_parameter t p r =
     andThen (populate_charge 1 r) (\<lambda>r.
     let m = rp_materialization r in
     andThen (at (mz_type_ids m) (sl_offset (mt_parameters t) + p)) (\<lambda>ty.
     andThen (push ty (rp_recipe_ids r)) (\<lambda>ids.
     andThen (at (mz_accesses m) (sl_offset (mt_parameter_accesses t) + p)) (\<lambda>access.
     andThen (push access (rp_accesses r)) (\<lambda>accesses.
     Inr (r\<lparr>rp_recipe_ids := ids, rp_accesses := accesses\<rparr>))))))"

text \<open>
  The body of the loop over the types. \<open>recipe\<close> is what the loop has written to
  \<open>recipes[i]\<close>; the slices are taken before their elements are appended. A type without a
  recipe kind does not get here: \<open>count_graph\<close> has refused it.
\<close>

definition start_recipe :: "SolMirMaterializedType \<Rightarrow> SolMirRecipeKind \<Rightarrow> SolMirRecipe" where
  "start_recipe t kind =
     zero_recipe\<lparr> rc_kind := kind,
       rc_concrete_definition :=
         (if mt_kind t = SOL_IR_TYPE_NOMINAL then mt_definition t else SOL_IR_NONE),
       rc_result := SOL_MIR_RECIPE_NONE, rc_backing := SOL_MIR_RECIPE_NONE,
       rc_capability_source := SOL_MIR_RECIPE_NONE, rc_effects := SOL_MIR_MATERIALIZED_NONE \<rparr>"

definition finish_recipe ::
  "SolMirMaterializedType \<Rightarrow> SolMirRecipeKind \<Rightarrow> SolMirRepresentation \<Rightarrow> SolMirRecipe" where
  "finish_recipe t kind r =
     (let recipe = start_recipe t kind;
          here_fields = (\<lambda>n. \<lparr> sl_offset = length (fields_of r), sl_count = n \<rparr>);
          here_variants = (\<lambda>n. \<lparr> sl_offset = length (variants_of r), sl_count = n \<rparr>)
      in case kind of
        SOL_MIR_RECIPE_TUPLE \<Rightarrow> recipe\<lparr>rc_fields := here_fields (sl_count (mt_arguments t))\<rparr>
      | SOL_MIR_RECIPE_RECORD \<Rightarrow> recipe\<lparr>rc_fields := here_fields (sl_count (mt_fields t))\<rparr>
      | SOL_MIR_RECIPE_ENUM \<Rightarrow> recipe\<lparr>rc_variants := here_variants (sl_count (mt_variants t))\<rparr>
      | SOL_MIR_RECIPE_OPTION \<Rightarrow> recipe\<lparr>rc_variants := here_variants 2\<rparr>
      | SOL_MIR_RECIPE_RESULT \<Rightarrow> recipe\<lparr>rc_variants := here_variants 2\<rparr>
      | SOL_MIR_RECIPE_DISTINCT \<Rightarrow> recipe\<lparr>rc_backing := mt_backing t\<rparr>
      | SOL_MIR_RECIPE_REFINED \<Rightarrow> recipe\<lparr>rc_backing := mt_backing t\<rparr>
      | SOL_MIR_RECIPE_FUNCTION \<Rightarrow>
          recipe\<lparr> rc_parameters := \<lparr> sl_offset = length (ar_items (rp_recipe_ids r)),
              sl_count = sl_count (mt_parameters t) \<rparr>,
            rc_parameter_accesses := \<lparr> sl_offset = length (ar_items (rp_accesses r)),
              sl_count = sl_count (mt_parameter_accesses t) \<rparr>,
            rc_result := mt_result t, rc_effects := mt_effects t \<rparr>
      | SOL_MIR_RECIPE_CAPABILITY \<Rightarrow>
          recipe\<lparr>rc_capability_source := mt_capability_source t\<rparr>
      | _ \<Rightarrow> recipe)"

definition append_shape ::
  "SolMirMaterializedType \<Rightarrow> SolMirRecipeKind \<Rightarrow> SolMirRepresentation \<Rightarrow>
   SolMirRepresentation rep_result" where
  "append_shape t kind r =
     (case kind of
        SOL_MIR_RECIPE_TUPLE \<Rightarrow>
          for_each (append_tuple_field t) [0 ..< sl_count (mt_arguments t)] r
      | SOL_MIR_RECIPE_RECORD \<Rightarrow> for_each append_shape_field (slice_ids (mt_fields t)) r
      | SOL_MIR_RECIPE_ENUM \<Rightarrow> for_each append_shape_variant (slice_ids (mt_variants t)) r
      | SOL_MIR_RECIPE_OPTION \<Rightarrow> andThen (populate_charge 3 r) (append_option_shape t)
      | SOL_MIR_RECIPE_RESULT \<Rightarrow> andThen (populate_charge 4 r) (append_result_shape t)
      | SOL_MIR_RECIPE_FUNCTION \<Rightarrow>
          for_each (append_parameter t) [0 ..< sl_count (mt_parameters t)] r
      | _ \<Rightarrow> Inr r)"

definition populate_recipe ::
  "size_t \<Rightarrow> SolMirRepresentation \<Rightarrow> SolMirRepresentation rep_result" where
  "populate_recipe i r =
     andThen (rep_charge ''representation build work limit exceeded'' 1 r) (\<lambda>r.
     andThen (at (mz_types (rp_materialization r)) i) (\<lambda>t.
     case recipe_kind t of
       None \<Rightarrow> Inl OutOfBounds
     | Some kind \<Rightarrow>
         andThen (put_at (recipes_of r) i (finish_recipe t kind r)) (\<lambda>rs.
         append_shape t kind (r\<lparr>rp_recipes := (rp_recipes r)\<lparr>ar_items := rs\<rparr>\<rparr>))))"

definition populate_recipes :: "SolMirRepresentation \<Rightarrow> SolMirRepresentation rep_result" where
  "populate_recipes r =
     for_each populate_recipe [0 ..< length (mz_types (rp_materialization r))] r"

section \<open>Classification\<close>

abbreviation fact_charge :: "SolMirRepresentation \<Rightarrow> SolMirRepresentation rep_result" where
  "fact_charge \<equiv> rep_charge ''representation fixed-point work limit exceeded'' 1"

primrec all_fields ::
  "bool list \<Rightarrow> size_t list \<Rightarrow> SolMirRepresentation \<Rightarrow> (bool \<times> SolMirRepresentation) rep_result" where
  "all_fields facts [] r = Inr (True, r)"
| "all_fields facts (i # is) r =
     andThen (fact_charge r) (\<lambda>r.
     andThen (at (fields_of r) i) (\<lambda>f.
     andThen (at facts (rf_type f)) (\<lambda>v.
     if v then all_fields facts is r else Inr (False, r))))"

primrec any_inhabited_variant ::
  "bool list \<Rightarrow> size_t list \<Rightarrow> SolMirRepresentation \<Rightarrow> (bool \<times> SolMirRepresentation) rep_result" where
  "any_inhabited_variant facts [] r = Inr (False, r)"
| "any_inhabited_variant facts (i # is) r =
     andThen (fact_charge r) (\<lambda>r.
     andThen (at (variants_of r) i) (\<lambda>variant.
     andThen (all_fields facts (slice_ids (rv_fields variant)) r) (\<lambda>(v, r).
     if v then Inr (True, r) else any_inhabited_variant facts is r)))"

primrec all_variants ::
  "bool list \<Rightarrow> size_t list \<Rightarrow> SolMirRepresentation \<Rightarrow> (bool \<times> SolMirRepresentation) rep_result" where
  "all_variants facts [] r = Inr (True, r)"
| "all_variants facts (i # is) r =
     andThen (fact_charge r) (\<lambda>r.
     andThen (at (variants_of r) i) (\<lambda>variant.
     andThen (all_fields facts (slice_ids (rv_fields variant)) r) (\<lambda>(v, r).
     if v then all_variants facts is r else Inr (False, r))))"

text \<open>
  The value one pass computes for one recipe: of the loop for \<open>inhabited\<close>, of the loop for
  \<open>zero\<close> (which reads the finished \<open>inhabited\<close>) and of the loop for \<open>copy\<close>.
\<close>

definition inhabited_value ::
  "bool list \<Rightarrow> SolMirRecipe \<Rightarrow> SolMirRepresentation \<Rightarrow> (bool \<times> SolMirRepresentation) rep_result" where
  "inhabited_value facts recipe r =
     (case rc_kind recipe of
        SOL_MIR_RECIPE_INT64 \<Rightarrow> Inr (True, r)
      | SOL_MIR_RECIPE_BOOL \<Rightarrow> Inr (True, r)
      | SOL_MIR_RECIPE_TEXT \<Rightarrow> Inr (True, r)
      | SOL_MIR_RECIPE_UNIT \<Rightarrow> Inr (True, r)
      | SOL_MIR_RECIPE_FUNCTION \<Rightarrow> Inr (True, r)
      | SOL_MIR_RECIPE_CAPABILITY \<Rightarrow> Inr (True, r)
      | SOL_MIR_RECIPE_OPTION \<Rightarrow> Inr (True, r)
      | SOL_MIR_RECIPE_NEVER \<Rightarrow> Inr (False, r)
      | SOL_MIR_RECIPE_TUPLE \<Rightarrow> all_fields facts (slice_ids (rc_fields recipe)) r
      | SOL_MIR_RECIPE_RECORD \<Rightarrow> all_fields facts (slice_ids (rc_fields recipe)) r
      | SOL_MIR_RECIPE_ENUM \<Rightarrow> any_inhabited_variant facts (slice_ids (rc_variants recipe)) r
      | SOL_MIR_RECIPE_RESULT \<Rightarrow> any_inhabited_variant facts (slice_ids (rc_variants recipe)) r
      | SOL_MIR_RECIPE_DISTINCT \<Rightarrow> andThen (at facts (rc_backing recipe)) (\<lambda>v. Inr (v, r))
      | SOL_MIR_RECIPE_REFINED \<Rightarrow> andThen (at facts (rc_backing recipe)) (\<lambda>v. Inr (v, r)))"

definition zero_value ::
  "bool \<Rightarrow> bool list \<Rightarrow> SolMirRecipe \<Rightarrow> SolMirRepresentation \<Rightarrow>
   (bool \<times> SolMirRepresentation) rep_result" where
  "zero_value inhabited facts recipe r =
     (if \<not> inhabited then Inr (False, r)
      else if rc_kind recipe = SOL_MIR_RECIPE_UNIT then Inr (True, r)
      else if is_product (rc_kind recipe) then all_fields facts (slice_ids (rc_fields recipe)) r
      else if is_wrapper (rc_kind recipe)
      then andThen (at facts (rc_backing recipe)) (\<lambda>v. Inr (v, r))
      else Inr (False, r))"

definition copy_value ::
  "bool list \<Rightarrow> SolMirRecipe \<Rightarrow> SolMirRepresentation \<Rightarrow> (bool \<times> SolMirRepresentation) rep_result" where
  "copy_value facts recipe r =
     (if is_product (rc_kind recipe) then all_fields facts (slice_ids (rc_fields recipe)) r
      else if is_sum (rc_kind recipe) then all_variants facts (slice_ids (rc_variants recipe)) r
      else if is_wrapper (rc_kind recipe)
      then andThen (at facts (rc_backing recipe)) (\<lambda>v. Inr (v, r))
      else Inr (True, r))"

text \<open>
  One iteration and one pass of a fixed-point loop. \<open>target\<close> is the value a fact can change
  to: true for \<open>inhabited\<close> and \<open>zero\<close>, false for \<open>copy\<close>, whose loop skips the recipes that
  already have it.
\<close>

type_synonym fact_state = "bool \<times> bool list \<times> SolMirRepresentation"

definition fact_step ::
  "bool \<Rightarrow> bool \<Rightarrow>
   (size_t \<Rightarrow> bool list \<Rightarrow> SolMirRecipe \<Rightarrow> SolMirRepresentation \<Rightarrow>
     (bool \<times> SolMirRepresentation) rep_result) \<Rightarrow>
   size_t \<Rightarrow> fact_state \<Rightarrow> fact_state rep_result" where
  "fact_step skip target fact_value i = (\<lambda>(changed, facts, r).
     andThen (fact_charge r) (\<lambda>r.
     andThen (at facts i) (\<lambda>old.
     if skip \<and> old = target then Inr (changed, facts, r)
     else
       andThen (at (recipes_of r) i) (\<lambda>recipe.
       andThen (fact_value i facts recipe r) (\<lambda>(v, r).
       if v = target \<and> old \<noteq> target then Inr (True, facts[i := target], r)
       else Inr (changed, facts, r))))))"

primrec fact_passes ::
  "bool \<Rightarrow> bool \<Rightarrow>
   (size_t \<Rightarrow> bool list \<Rightarrow> SolMirRecipe \<Rightarrow> SolMirRepresentation \<Rightarrow>
     (bool \<times> SolMirRepresentation) rep_result) \<Rightarrow>
   nat \<Rightarrow> bool list \<Rightarrow> SolMirRepresentation \<Rightarrow> fact_state rep_result" where
  "fact_passes skip target fact_value 0 facts r = Inr (True, facts, r)"
| "fact_passes skip target fact_value (Suc passes) facts r =
     andThen (for_each (fact_step skip target fact_value) [0 ..< length (recipes_of r)] (False, facts, r))
       (\<lambda>(changed, facts, r).
          if changed then fact_passes skip target fact_value passes facts r
          else Inr (False, facts, r))"

text \<open>
  \<open>while (changed && passes++ <= count)\<close> runs at most \<open>count + 1\<close> passes; leaving it with
  \<open>changed\<close> still set is the internal failure.
\<close>

abbreviation fixed_point_failed :: "'a rep_result" where
  "fixed_point_failed \<equiv> fail SOL_MIR_REPRESENTATION_BUILD_INTERNAL_FAILED
     ''representation fixed point did not converge or disagreed with Copy''"

definition fixed_point ::
  "bool \<Rightarrow> bool \<Rightarrow>
   (size_t \<Rightarrow> bool list \<Rightarrow> SolMirRecipe \<Rightarrow> SolMirRepresentation \<Rightarrow>
     (bool \<times> SolMirRepresentation) rep_result) \<Rightarrow>
   bool list \<Rightarrow> SolMirRepresentation \<Rightarrow> (bool list \<times> SolMirRepresentation) rep_result" where
  "fixed_point skip target fact_value facts r =
     andThen (fact_passes skip target fact_value (length (recipes_of r) + 1) facts r)
       (\<lambda>(changed, facts, r). if changed then fixed_point_failed else Inr (facts, r))"

definition inhabited_facts ::
  "SolMirRepresentation \<Rightarrow> (bool list \<times> SolMirRepresentation) rep_result" where
  "inhabited_facts r =
     fixed_point False True (\<lambda>i. inhabited_value) (replicate (length (recipes_of r)) False) r"

definition zero_facts ::
  "bool list \<Rightarrow> SolMirRepresentation \<Rightarrow> (bool list \<times> SolMirRepresentation) rep_result" where
  "zero_facts inhabited r =
     fixed_point False True (\<lambda>i. zero_value (inhabited ! i))
       (replicate (length (recipes_of r)) False) r"

definition copy_start :: "SolMirRecipe \<Rightarrow> bool" where
  "copy_start recipe \<longleftrightarrow>
     rc_kind recipe \<noteq> SOL_MIR_RECIPE_FUNCTION \<and> rc_kind recipe \<noteq> SOL_MIR_RECIPE_CAPABILITY"

definition copy_facts ::
  "bool list \<Rightarrow> SolMirRepresentation \<Rightarrow> (bool list \<times> SolMirRepresentation) rep_result" where
  "copy_facts start r = fixed_point True False (\<lambda>i. copy_value) start r"

primrec storage_for ::
  "nat \<Rightarrow> size_t \<Rightarrow> SolMirRepresentation \<Rightarrow> (SolMirStorageKind \<times> SolMirRepresentation) rep_result" where
  "storage_for 0 i r = andThen (fact_charge r) (\<lambda>r. Inr (SOL_MIR_STORAGE_NONE, r))"
| "storage_for (Suc depth) i r =
     andThen (fact_charge r) (\<lambda>r.
     if i \<ge> length (recipes_of r) then Inr (SOL_MIR_STORAGE_NONE, r)
     else let recipe = recipes_of r ! i; kind = rc_kind recipe in
       if \<not> rc_inhabited recipe \<or> rc_zero_sized recipe then Inr (SOL_MIR_STORAGE_NONE, r)
       else if kind = SOL_MIR_RECIPE_INT64 \<or> kind = SOL_MIR_RECIPE_BOOL
       then Inr (SOL_MIR_STORAGE_SCALAR, r)
       else if kind = SOL_MIR_RECIPE_TEXT then Inr (SOL_MIR_STORAGE_TEXT_HANDLE, r)
       else if kind = SOL_MIR_RECIPE_FUNCTION then Inr (SOL_MIR_STORAGE_CALLABLE_HANDLE, r)
       else if kind = SOL_MIR_RECIPE_CAPABILITY then Inr (SOL_MIR_STORAGE_CAPABILITY_HANDLE, r)
       else if is_wrapper kind then storage_for depth (rc_backing recipe) r
       else Inr (SOL_MIR_STORAGE_AGGREGATE_VALUE, r))"

definition copy_kind_of :: "SolMirRecipe \<Rightarrow> SolMirCopyKind" where
  "copy_kind_of recipe =
     (let kind = rc_kind recipe in
      if \<not> rc_inhabited recipe then SOL_MIR_COPY_UNREACHABLE
      else if \<not> rc_is_copy recipe then SOL_MIR_COPY_FORBIDDEN
      else if kind = SOL_MIR_RECIPE_TEXT then SOL_MIR_COPY_TEXT
      else if is_wrapper kind then SOL_MIR_COPY_WRAPPER
      else if is_product kind \<or> is_sum kind then SOL_MIR_COPY_AGGREGATE
      else SOL_MIR_COPY_TRIVIAL)"

definition drop_kind_of :: "SolMirRecipe \<Rightarrow> SolMirDropKind" where
  "drop_kind_of recipe =
     (let kind = rc_kind recipe in
      if \<not> rc_inhabited recipe \<or> kind = SOL_MIR_RECIPE_INT64 \<or> kind = SOL_MIR_RECIPE_BOOL \<or>
        kind = SOL_MIR_RECIPE_UNIT \<or> kind = SOL_MIR_RECIPE_NEVER then SOL_MIR_DROP_NONE
      else if kind = SOL_MIR_RECIPE_TEXT then SOL_MIR_DROP_TEXT
      else if kind = SOL_MIR_RECIPE_FUNCTION then SOL_MIR_DROP_CALLABLE
      else if kind = SOL_MIR_RECIPE_CAPABILITY then SOL_MIR_DROP_CAPABILITY
      else if is_wrapper kind then SOL_MIR_DROP_WRAPPER
      else SOL_MIR_DROP_AGGREGATE)"

definition update_recipe ::
  "size_t \<Rightarrow> (SolMirRecipe \<Rightarrow> SolMirRecipe) \<Rightarrow> SolMirRepresentation \<Rightarrow> SolMirRepresentation" where
  "update_recipe i f r =
     r\<lparr>rp_recipes := (rp_recipes r)\<lparr>ar_items := (recipes_of r)[i := f (recipes_of r ! i)]\<rparr>\<rparr>"

definition store_facts ::
  "bool list \<Rightarrow> bool list \<Rightarrow> bool list \<Rightarrow> size_t \<Rightarrow> SolMirRepresentation \<Rightarrow>
   SolMirRepresentation rep_result" where
  "store_facts inhabited zero copy i r =
     andThen (fact_charge r) (\<lambda>r.
     Inr (update_recipe i (\<lambda>recipe. recipe\<lparr> rc_inhabited := inhabited ! i,
       rc_zero_sized := zero ! i, rc_is_copy := copy ! i \<rparr>) r))"

definition store_kinds :: "size_t \<Rightarrow> SolMirRepresentation \<Rightarrow> SolMirRepresentation rep_result" where
  "store_kinds i r =
     andThen (fact_charge r) (\<lambda>r.
     andThen (at (mz_types (rp_materialization r)) i) (\<lambda>t.
     if rc_is_copy (recipes_of r ! i) \<noteq> mt_is_copy t then fixed_point_failed
     else
       andThen (storage_for (length (recipes_of r) + 1) i r) (\<lambda>(storage, r).
       Inr (update_recipe i (\<lambda>recipe. recipe\<lparr> rc_storage := storage,
         rc_copy_kind := copy_kind_of recipe, rc_drop_kind := drop_kind_of recipe \<rparr>) r))))"

text \<open>The loops of \<open>classify\<close> that compute the facts, and the two that store them.\<close>

definition classify_facts ::
  "SolMirRepresentation \<Rightarrow> (bool list \<times> bool list \<times> bool list \<times> SolMirRepresentation) rep_result" where
  "classify_facts r =
     (let start = map copy_start (recipes_of r) in
      andThen (for_each (\<lambda>i. fact_charge) [0 ..< length (recipes_of r)] r) (\<lambda>r.
      andThen (inhabited_facts r) (\<lambda>(inhabited, r).
      andThen (zero_facts inhabited r) (\<lambda>(zero, r).
      andThen (copy_facts start r) (\<lambda>(copy, r).
      Inr (inhabited, zero, copy, r))))))"

definition classify_store ::
  "bool list \<times> bool list \<times> bool list \<times> SolMirRepresentation \<Rightarrow> SolMirRepresentation rep_result" where
  "classify_store = (\<lambda>(inhabited, zero, copy, r).
     andThen (for_each (store_facts inhabited zero copy) [0 ..< length (recipes_of r)] r)
       (\<lambda>r. for_each store_kinds [0 ..< length (recipes_of r)] r))"

definition classify :: "rep_heap \<Rightarrow> SolMirRepresentation \<Rightarrow> SolMirRepresentation rep_result" where
  "classify heap r =
     (if recipes_of r \<noteq> [] \<and>
        (heap HEAP_INHABITED = 0 \<or> heap HEAP_ZERO = 0 \<or> heap HEAP_COPY = 0)
      then fail SOL_MIR_REPRESENTATION_BUILD_ALLOCATION_FAILED
        ''representation fixed-point allocation failed''
      else andThen (classify_facts r) classify_store)"

section \<open>Producers of callable values\<close>

abbreviation producer_charge :: "SolMirRepresentation \<Rightarrow> SolMirRepresentation rep_result" where
  "producer_charge \<equiv> rep_charge ''representation producer work limit exceeded'' 1"

definition is_bound_site :: "SolMirMaterializedSemanticSite \<Rightarrow> bool" where
  "is_bound_site s \<longleftrightarrow> ss_kind s = SOL_MIR_PLAN_DEMAND_BOUND_OPERATION"

definition make_producer ::
  "size_t \<Rightarrow> SolMirMaterializedSemanticSite \<Rightarrow> SolMirMaterializedBinding \<Rightarrow> slice \<Rightarrow> size_t \<Rightarrow>
   SolMirCallableProducer" where
  "make_producer i site binding roots effects =
     \<lparr> cp_kind = (if is_bound_site site then SOL_MIR_CALLABLE_PRODUCER_BOUND_OPERATION
                  else SOL_MIR_CALLABLE_PRODUCER_EXACT_FUNCTION),
       cp_function_recipe = ss_produced_function_type site, cp_semantic_site = i,
       cp_binding = ss_binding site, cp_target_kind = bn_target_kind binding,
       cp_instance = bn_instance binding, cp_import = bn_import binding,
       cp_captured_receiver_type = ss_captured_receiver_type site,
       cp_captured_receiver_kind = ss_captured_receiver_kind site,
       cp_captured_receiver_expression = ss_captured_receiver_expression site,
       cp_captured_receiver_place = ss_captured_receiver_place site,
       cp_captured_receiver_temporary = ss_captured_receiver_temporary site,
       cp_captured_receiver_value = ss_captured_receiver_value site,
       cp_captured_receiver_instruction = ss_captured_receiver_instruction site,
       cp_captured_receiver_roots = roots, cp_effects = effects \<rparr>"

definition append_root :: "size_t \<Rightarrow> SolMirRepresentation \<Rightarrow> SolMirRepresentation rep_result" where
  "append_root j r =
     andThen (producer_charge r) (\<lambda>r.
     andThen (at (mz_receiver_roots (rp_materialization r)) j) (\<lambda>root.
     andThen (push root (rp_receiver_roots r)) (\<lambda>roots.
     Inr (r\<lparr>rp_receiver_roots := roots\<rparr>))))"

definition populate_producer ::
  "size_t \<Rightarrow> SolMirRepresentation \<Rightarrow> SolMirRepresentation rep_result" where
  "populate_producer i r =
     andThen (producer_charge r) (\<lambda>r.
     let m = rp_materialization r in
     andThen (at (mz_semantic_sites m) i) (\<lambda>site.
     if \<not> is_producer_site site then Inr r
     else
       andThen (at (mz_bindings m) (ss_binding site)) (\<lambda>binding.
       andThen (if is_bound_site site then Inr (ss_operation_effects site)
                else andThen (at (recipes_of r) (ss_produced_function_type site))
                  (\<lambda>recipe. Inr (rc_effects recipe))) (\<lambda>effects.
       let roots = (if is_bound_site site
             then \<lparr> sl_offset = length (ar_items (rp_receiver_roots r)),
               sl_count = sl_count (ss_captured_receiver_roots site) \<rparr>
             else empty_slice) in
       andThen (push (make_producer i site binding roots effects) (rp_callable_producers r))
         (\<lambda>producers.
       for_each append_root (slice_ids (ss_captured_receiver_roots site))
         (r\<lparr>rp_callable_producers := producers\<rparr>))))))"

definition populate_producers :: "SolMirRepresentation \<Rightarrow> SolMirRepresentation rep_result" where
  "populate_producers r =
     for_each populate_producer
       [0 ..< length (mz_semantic_sites (rp_materialization r))] r"

section \<open>Building\<close>

text \<open>\<open>sol_mir_representation_validation_requirements\<close>: the work and the scratch bytes.\<close>

definition sol_mir_representation_validation_requirements ::
  "SolMirRepresentation \<Rightarrow> (size_t \<times> size_t) option" where
  "sol_mir_representation_validation_requirements r =
     (let m = rp_materialization r; types = length (mz_types m) in
      Option.bind (checked_sum (length (recipes_of r))
        [length (fields_of r), length (variants_of r), length (ar_items (rp_recipe_ids r)),
         length (ar_items (rp_accesses r)), length (producers_of r),
         length (ar_items (rp_receiver_roots r))]) (\<lambda>records.
      Option.bind (checked_add_size (mz_usage_validation_work m) records) (\<lambda>total.
      Option.bind (checked_sum types
        [length (mz_shape_fields m), length (mz_shape_variants m)]) (\<lambda>fixed_scan.
      Option.bind (checked_add_size types 1) (\<lambda>passes.
      Option.bind (checked_mul_size fixed_scan passes) (\<lambda>fixed_work.
      Option.bind (checked_mul_size fixed_work 3) (\<lambda>fixed_work.
      Option.bind (checked_add_size total fixed_work) (\<lambda>total.
      Option.bind (checked_mul_size types passes) (\<lambda>wrappers.
      Option.bind (checked_sum total
        [wrappers, length (mz_semantic_sites m), length (mz_receiver_roots m)]) (\<lambda>total.
      Option.bind (checked_sum (mz_usage_concrete_records m) (mz_borrowed_counts m)) (\<lambda>borrowed.
      Option.bind (checked_mul_size borrowed 8) (\<lambda>borrowed.
      Option.bind (checked_add_size total borrowed) (\<lambda>total.
      Option.bind (checked_mul_size (mz_usage_validation_work m) 8) (\<lambda>scratch.
      Option.bind (checked_add_size scratch (mz_usage_owned_bytes m)) (\<lambda>scratch.
      Option.bind (checked_mul_size types 3) (\<lambda>local_scratch.
      Some (total, if scratch > local_scratch then scratch else local_scratch)))))))))))))))))"

definition sizeof_SolMirRecipe :: size_t where
  "sizeof_SolMirRecipe = 128"

definition sizeof_SolMirRecipeField :: size_t where
  "sizeof_SolMirRecipeField = 24"

definition sizeof_SolMirRecipeVariant :: size_t where
  "sizeof_SolMirRecipeVariant = 40"

definition sizeof_SolMirCallableProducer :: size_t where
  "sizeof_SolMirCallableProducer = 136"

definition rep_allocations ::
  "rep_heap \<Rightarrow> graph_count \<Rightarrow> SolMirRepresentation \<Rightarrow> SolMirRepresentation rep_result" where
  "rep_allocations heap g r =
     (let types = length (mz_types (rp_materialization r)) in
      andThen (rep_allocate (heap HEAP_RECIPES) types sizeof_SolMirRecipe r) (\<lambda>(recipes, r).
      andThen (rep_allocate (heap HEAP_FIELDS) (gc_fields g) sizeof_SolMirRecipeField r)
        (\<lambda>(fs, r).
      andThen (rep_allocate (heap HEAP_VARIANTS) (gc_variants g) sizeof_SolMirRecipeVariant r)
        (\<lambda>(vs, r).
      andThen (rep_allocate (heap HEAP_RECIPE_IDS) (gc_ids g) 8 r) (\<lambda>(ids, r).
      andThen (rep_allocate (heap HEAP_ACCESSES) (gc_ids g) 4 r) (\<lambda>(accesses, r).
      andThen (rep_allocate (heap HEAP_RECEIVER_ROOTS) (gc_roots g) 8 r) (\<lambda>(roots, r).
      andThen (rep_allocate (heap HEAP_PRODUCERS) (gc_producers g) sizeof_SolMirCallableProducer r)
        (\<lambda>(producers, r).
      Inr (r\<lparr> rp_recipes := recipes\<lparr>ar_items := replicate types zero_recipe\<rparr>,
        rp_fields := fs, rp_variants := vs, rp_recipe_ids := ids, rp_accesses := accesses,
        rp_receiver_roots := roots, rp_callable_producers := producers \<rparr>)))))))))"

definition rep_counts_usage :: "SolMirRepresentation \<Rightarrow> SolMirRepresentation" where
  "rep_counts_usage r =
     r\<lparr>rp_usage := (rp_usage r)\<lparr> ru_recipes := length (recipes_of r),
       ru_fields := length (fields_of r), ru_variants := length (variants_of r),
       ru_recipe_ids := length (ar_items (rp_recipe_ids r)),
       ru_callable_producers := length (producers_of r),
       ru_receiver_roots := length (ar_items (rp_receiver_roots r)) \<rparr>\<rparr>"

definition rep_full :: "SolMirRepresentation \<Rightarrow> bool" where
  "rep_full r \<longleftrightarrow>
     length (fields_of r) = ar_capacity (rp_fields r) \<and>
     length (variants_of r) = ar_capacity (rp_variants r) \<and>
     length (ar_items (rp_recipe_ids r)) = ar_capacity (rp_recipe_ids r) \<and>
     length (ar_items (rp_accesses r)) = ar_capacity (rp_accesses r) \<and>
     length (ar_items (rp_receiver_roots r)) = ar_capacity (rp_receiver_roots r) \<and>
     length (producers_of r) = ar_capacity (rp_callable_producers r)"

definition rep_finish :: "SolMirRepresentation \<Rightarrow> SolMirRepresentation rep_result" where
  "rep_finish r =
     (case (if rep_full r then sol_mir_representation_validation_requirements r else None) of
        None \<Rightarrow> fail SOL_MIR_REPRESENTATION_BUILD_RESOURCE_EXHAUSTED
          ''representation validation work limit exceeded''
      | Some (work, scratch) \<Rightarrow>
          if work > rl_max_validation_work (rp_limits r) \<or>
            scratch > rl_max_validation_scratch_bytes (rp_limits r)
          then fail SOL_MIR_REPRESENTATION_BUILD_RESOURCE_EXHAUSTED
            ''representation validation work limit exceeded''
          else Inr (r\<lparr>rp_usage := (rp_usage r)\<lparr> ru_validation_work := work,
            ru_validation_scratch_bytes := scratch \<rparr>\<rparr>))"

definition build_scratch :: "rep_heap \<Rightarrow> SolMirRepresentation \<Rightarrow> SolMirRepresentation rep_result" where
  "build_scratch heap r =
     andThen (count_graph r) (\<lambda>(g, r).
     if length (mz_types (rp_materialization r)) > rl_max_recipes (rp_limits r) \<or>
       gc_fields g > rl_max_fields (rp_limits r) \<or>
       gc_variants g > rl_max_variants (rp_limits r) \<or>
       gc_ids g > rl_max_recipe_ids (rp_limits r) \<or>
       gc_producers g > rl_max_callable_producers (rp_limits r) \<or>
       gc_roots g > rl_max_receiver_roots (rp_limits r)
     then fail SOL_MIR_REPRESENTATION_BUILD_RESOURCE_EXHAUSTED
       ''representation graph record limit exceeded''
     else
       andThen (rep_allocations heap g r) (\<lambda>r.
       case checked_mul_size (length (recipes_of r)) 3 of
         None \<Rightarrow> fail SOL_MIR_REPRESENTATION_BUILD_RESOURCE_EXHAUSTED
           ''representation build scratch-byte limit exceeded''
       | Some scratch \<Rightarrow>
           if scratch > rl_max_build_scratch_bytes (rp_limits r)
           then fail SOL_MIR_REPRESENTATION_BUILD_RESOURCE_EXHAUSTED
             ''representation build scratch-byte limit exceeded''
           else
             andThen (populate_recipes
               (r\<lparr>rp_usage := (rp_usage r)\<lparr>ru_build_scratch_bytes := scratch\<rparr>\<rparr>)) (\<lambda>r.
             andThen (classify heap r) (\<lambda>r.
             andThen (populate_producers r) (\<lambda>r. rep_finish (rep_counts_usage r))))))"

definition rep_error ::
  "SolDiagnostics \<Rightarrow> string \<Rightarrow> (sol_env, SolDiagnostics) state" where
  "rep_error ds message = do {
     (_, ds) \<leftarrow> sol_diagnostics_add ds ''SOL-MIR-REPRESENTATION-001'' SOL_SEVERITY_ERROR
       \<lparr> sp_start = 0, sp_end = 0 \<rparr> message;
     ret ds
   }"

text \<open>
  The entry point. \<open>validate_materialization\<close> and \<open>validate\<close> stand for the two validators
  it calls; the result is the outcome, the representation when there is one, and the
  diagnostics. A stop that is undefined behaviour in C has no outcome.
\<close>

definition rep_build_checked ::
  "(SolMirMaterialization \<Rightarrow> SolDiagnostics \<Rightarrow> (sol_env, bool \<times> SolDiagnostics) state) \<Rightarrow>
   (SolMirRepresentation \<Rightarrow> SolDiagnostics \<Rightarrow> (sol_env, bool \<times> SolDiagnostics) state) \<Rightarrow>
   rep_heap \<Rightarrow> SolMirMaterialization \<Rightarrow> SolMirRepresentationLimits \<Rightarrow> SolDiagnostics \<Rightarrow>
   (sol_env, SolMirRepresentationBuildOutcome option \<times> SolMirRepresentation option \<times> SolDiagnostics)
     state" where
  "rep_build_checked validate_materialization validate heap m limits ds = do {
     (valid, ds) \<leftarrow> validate_materialization m ds;
     if \<not> valid then
       ret (Some (if dgs_allocation_failed ds then SOL_MIR_REPRESENTATION_BUILD_ALLOCATION_FAILED
         else SOL_MIR_REPRESENTATION_BUILD_INVALID_MATERIALIZATION), None, ds)
     else (case build_scratch heap (sol_mir_representation_init m limits) of
       Inl OutOfBounds \<Rightarrow> ret (None, None, ds)
     | Inl (Stop outcome None) \<Rightarrow> ret (Some outcome, None, ds)
     | Inl (Stop outcome (Some message)) \<Rightarrow> do {
         ds \<leftarrow> rep_error ds message;
         ret (Some outcome, None, ds)
       }
     | Inr r \<Rightarrow> do {
         (valid, ds) \<leftarrow> validate r ds;
         ret (if valid then (Some SOL_MIR_REPRESENTATION_BUILD_SUCCEEDED, Some r, ds)
           else (Some (if dgs_allocation_failed ds
             then SOL_MIR_REPRESENTATION_BUILD_ALLOCATION_FAILED
             else SOL_MIR_REPRESENTATION_BUILD_INTERNAL_FAILED), None, ds))
       })
   }"

definition sol_mir_representation_build ::
  "(SolMirMaterialization \<Rightarrow> SolDiagnostics \<Rightarrow> (sol_env, bool \<times> SolDiagnostics) state) \<Rightarrow>
   (SolMirRepresentation \<Rightarrow> SolDiagnostics \<Rightarrow> (sol_env, bool \<times> SolDiagnostics) state) \<Rightarrow>
   rep_heap \<Rightarrow> SolMirMaterialization \<Rightarrow> SolMirRepresentationLimits option \<Rightarrow> SolDiagnostics \<Rightarrow>
   (sol_env, SolMirRepresentationBuildOutcome option \<times> SolMirRepresentation option \<times> SolDiagnostics)
     state" where
  "sol_mir_representation_build validate_materialization validate heap m limits ds =
     (case limits of
        Some l \<Rightarrow>
          if \<not> rep_limits_zero l \<and> \<not> rep_limits_complete l
          then do {
            ds \<leftarrow> rep_error ds ''invalid representation build request or destination'';
            ret (Some SOL_MIR_REPRESENTATION_BUILD_INVALID_ARGUMENT, None, ds)
          }
          else rep_build_checked validate_materialization validate heap m
            (if rep_limits_zero l then sol_mir_representation_default_limits else l) ds
      | None \<Rightarrow> rep_build_checked validate_materialization validate heap m
          sol_mir_representation_default_limits ds)"

end
