(* ===== verification/Sol_Classify.thy ===== *)
theory Sol_Classify
  imports Sol_Representation
begin

text \<open>
  The classification of recipes is exact. A recipe is marked inhabited exactly when it has a
  finite value, a recipe marked zero-sized has exactly one value, and a recipe loses its copy
  mark exactly when an owned callable or capability can be reached in it. The three loops of
  \<open>classify\<close> are instances of one locale, whose laws are that a pass computes a monotone
  function of the facts and that its work is bounded: the loop then reaches the least fixed
  point, and the bound of \<open>count + 1\<close> passes is always enough.
\<close>

section \<open>What a charge changes\<close>

definition same_graph :: "SolMirRepresentation \<Rightarrow> SolMirRepresentation \<Rightarrow> bool" where
  "same_graph r s \<longleftrightarrow> (\<exists>u. s = r\<lparr>rp_usage := u\<rparr>)"

lemma same_graph_refl [simp]: "same_graph r r"
  unfolding same_graph_def by (rule exI [of _ "rp_usage r"]) simp

lemma same_graph_usage [simp]: "same_graph r (r\<lparr>rp_usage := u\<rparr>)"
  by (auto simp: same_graph_def)

lemma same_graph_trans: "same_graph r s \<Longrightarrow> same_graph s t \<Longrightarrow> same_graph r t"
  by (auto simp: same_graph_def)

lemma same_graph_fields:
  assumes "same_graph r s"
  shows "rp_materialization s = rp_materialization r" "rp_recipes s = rp_recipes r"
    "rp_fields s = rp_fields r" "rp_variants s = rp_variants r"
    "rp_recipe_ids s = rp_recipe_ids r" "rp_accesses s = rp_accesses r"
    "rp_receiver_roots s = rp_receiver_roots r"
    "rp_callable_producers s = rp_callable_producers r" "rp_limits s = rp_limits r"
proof -
  obtain u where s: "s = r\<lparr>rp_usage := u\<rparr>" using assms by (auto simp: same_graph_def)
  show "rp_materialization s = rp_materialization r" "rp_recipes s = rp_recipes r"
    "rp_fields s = rp_fields r" "rp_variants s = rp_variants r"
    "rp_recipe_ids s = rp_recipe_ids r" "rp_accesses s = rp_accesses r"
    "rp_receiver_roots s = rp_receiver_roots r"
    "rp_callable_producers s = rp_callable_producers r" "rp_limits s = rp_limits r"
    by (simp_all add: s)
qed

abbreviation work_of :: "SolMirRepresentation \<Rightarrow> size_t" where
  "work_of r \<equiv> ru_build_work (rp_usage r)"

abbreviation work_limit :: "SolMirRepresentation \<Rightarrow> size_t" where
  "work_limit r \<equiv> rl_max_build_work (rp_limits r)"

definition add_work :: "size_t \<Rightarrow> SolMirRepresentation \<Rightarrow> SolMirRepresentation" where
  "add_work n r = r\<lparr>rp_usage := (rp_usage r)\<lparr>ru_build_work := work_of r + n\<rparr>\<rparr>"

lemma add_work_graph [simp]: "same_graph r (add_work n r)"
  by (simp add: add_work_def)

lemma add_work_work [simp]: "work_of (add_work n r) = work_of r + n"
  by (simp add: add_work_def)

lemma add_work_same [simp]:
  "rp_recipes (add_work n r) = rp_recipes r" "rp_fields (add_work n r) = rp_fields r"
  "rp_variants (add_work n r) = rp_variants r" "rp_limits (add_work n r) = rp_limits r"
  "rp_materialization (add_work n r) = rp_materialization r"
  by (simp_all add: add_work_def)

lemma rep_charge_Inr:
  "rep_charge message n r = Inr s \<Longrightarrow> s = add_work n r \<and> work_of s \<le> work_limit r"
  by (auto simp: rep_charge_def checked_add_size_def add_work_def split: if_splits)

lemma rep_charge_total:
  "work_of r + n \<le> work_limit r \<Longrightarrow> work_limit r \<le> SIZE_MAX \<Longrightarrow>
   rep_charge message n r = Inr (add_work n r)"
  by (auto simp: rep_charge_def checked_add_size_def add_work_def)

lemma rep_charge_graph: "rep_charge message n r = Inr s \<Longrightarrow> same_graph r s"
  using rep_charge_Inr by fastforce

lemma if_Inr: "(if b then Inr x else Inr y) = Inr z \<longleftrightarrow> z = (if b then x else y)"
  by auto

section \<open>One fixed-point loop\<close>

text \<open>
  \<open>marks facts\<close>: the recipes whose fact has reached the loop's target. \<open>rule X i\<close>: a pass
  that has marked \<open>X\<close> marks \<open>i\<close>. \<open>cost i\<close> bounds the charges for one recipe.
\<close>

locale fact_scan =
  fixes g :: SolMirRepresentation
    and skip target :: bool
    and fact_value :: "size_t \<Rightarrow> bool list \<Rightarrow> SolMirRecipe \<Rightarrow> SolMirRepresentation \<Rightarrow>
      (bool \<times> SolMirRepresentation) rep_result"
    and rule :: "size_t set \<Rightarrow> size_t \<Rightarrow> bool"
    and cost :: "size_t \<Rightarrow> size_t"
    and in_range :: bool
  assumes value_rule:
      "same_graph g r \<Longrightarrow> i < length (recipes_of g) \<Longrightarrow> length facts = length (recipes_of g) \<Longrightarrow>
       fact_value i facts (recipes_of g ! i) r = Inr (v, s) \<Longrightarrow>
       same_graph r s \<and> (v = target \<longleftrightarrow> rule {j. j < length facts \<and> facts ! j = target} i)"
    and value_total:
      "in_range \<Longrightarrow> same_graph g r \<Longrightarrow> i < length (recipes_of g) \<Longrightarrow>
       length facts = length (recipes_of g) \<Longrightarrow>
       work_of r + cost i \<le> work_limit g \<Longrightarrow> work_limit g \<le> SIZE_MAX \<Longrightarrow>
       \<exists>v s. fact_value i facts (recipes_of g ! i) r = Inr (v, s) \<and> work_of s \<le> work_of r + cost i"
    and rule_mono: "X \<subseteq> Y \<Longrightarrow> rule X i \<Longrightarrow> rule Y i"
begin

abbreviation count :: size_t where
  "count \<equiv> length (recipes_of g)"

definition marks :: "bool list \<Rightarrow> size_t set" where
  "marks facts = {j. j < length facts \<and> facts ! j = target}"

text \<open>The least set that holds the first marks and is closed under the rule.\<close>

definition closure :: "size_t set \<Rightarrow> size_t set" where
  "closure X = lfp (\<lambda>Y. X \<union> {i. i < count \<and> rule Y i})"

lemma closure_mono_fun: "mono (\<lambda>Y. X \<union> {i. i < count \<and> rule Y i})"
  by (rule monoI) (auto intro: rule_mono)

lemma closure_unfold: "closure X = X \<union> {i. i < count \<and> rule (closure X) i}"
  unfolding closure_def by (rule lfp_unfold [OF closure_mono_fun])

lemma closure_least: "X \<subseteq> Y \<Longrightarrow> (\<And>i. i < count \<Longrightarrow> rule Y i \<Longrightarrow> i \<in> Y) \<Longrightarrow> closure X \<subseteq> Y"
  unfolding closure_def by (rule lfp_lowerbound) auto

lemma closure_induct:
  assumes "i \<in> closure X" and "\<And>i. i \<in> X \<Longrightarrow> P i"
    and "\<And>i. i < count \<Longrightarrow> rule {j. P j} i \<Longrightarrow> P i"
  shows "P i"
  using closure_least [of X "{j. P j}"] assms by blast

lemma closure_rule: "i < count \<Longrightarrow> rule (closure X) i \<Longrightarrow> i \<in> closure X"
  using closure_unfold [of X] by blast

lemma closure_first: "i \<in> X \<Longrightarrow> i \<in> closure X"
  using closure_unfold [of X] by blast

lemma closure_bound: "X \<subseteq> {..<count} \<Longrightarrow> closure X \<subseteq> {..<count}"
  using closure_unfold [of X] by blast

lemma marks_update: "i < length facts \<Longrightarrow> marks (facts[i := target]) = insert i (marks facts)"
  by (auto simp: marks_def nth_list_update)

lemma marks_finite [simp]: "finite (marks facts)"
  by (simp add: marks_def)

lemma marks_card: "card (marks facts) \<le> length facts"
proof -
  have "marks facts \<subseteq> {..<length facts}" by (auto simp: marks_def)
  then show ?thesis using card_mono [of "{..<length facts}" "marks facts"] by simp
qed

text \<open>
  The state of a pass that started with the marks \<open>M\<close>, at recipe \<open>k\<close>: marks only grow and
  stay in the closure; if none has been added, the rule marks nothing below \<open>k\<close>.
\<close>

definition pass_inv :: "size_t set \<Rightarrow> size_t set \<Rightarrow> size_t \<Rightarrow> fact_state \<Rightarrow> bool" where
  "pass_inv X M k s \<longleftrightarrow>
     (case s of (changed, facts, r) \<Rightarrow>
        same_graph g r \<and> length facts = count \<and> M \<subseteq> marks facts \<and> marks facts \<subseteq> closure X \<and>
        (if changed then M \<noteq> marks facts
         else marks facts = M \<and> (\<forall>i < k. rule M i \<longrightarrow> i \<in> M)))"

lemma step_inv:
  assumes "pass_inv X M k s" "k < count" "fact_step skip target fact_value k s = Inr s'"
  shows "pass_inv X M (Suc k) s'"
proof -
  obtain changed facts r where s: "s = (changed, facts, r)" by (cases s)
  from assms(1) have inv: "same_graph g r" "length facts = count" "M \<subseteq> marks facts"
      "marks facts \<subseteq> closure X"
      "if changed then M \<noteq> marks facts
       else marks facts = M \<and> (\<forall>i < k. rule M i \<longrightarrow> i \<in> M)"
    by (simp_all add: pass_inv_def s)
  from assms(3) obtain t where charge: "fact_charge r = Inr t"
    and rest: "(if skip \<and> facts ! k = target then Inr (changed, facts, t)
       else andThen (at (recipes_of t) k) (\<lambda>recipe. andThen (fact_value k facts recipe t)
         (\<lambda>(v, u). if v = target \<and> facts ! k \<noteq> target then Inr (True, facts[k := target], u)
            else Inr (changed, facts, u)))) = Inr s'"
    by (auto simp: fact_step_def s)
  have t: "same_graph g t" using same_graph_trans [OF inv(1) rep_charge_graph [OF charge]] .
  have marked: "k \<in> marks facts \<longleftrightarrow> facts ! k = target" using assms(2) inv(2) by (simp add: marks_def)
  show ?thesis
  proof (cases "skip \<and> facts ! k = target")
    case True
    with rest have "s' = (changed, facts, t)" by simp
    with True inv t marked show ?thesis by (auto simp: pass_inv_def less_Suc_eq)
  next
    case False
    have recipe: "at (recipes_of t) k = Inr (recipes_of g ! k)"
      using assms(2) by (simp add: same_graph_fields [OF t])
    from rest have "andThen (fact_value k facts (recipes_of g ! k) t)
      (\<lambda>(v, u). if v = target \<and> facts ! k \<noteq> target then Inr (True, facts[k := target], u)
         else Inr (changed, facts, u)) = Inr s'"
      unfolding if_not_P [OF False] recipe andThen_simps .
    then obtain p where "fact_value k facts (recipes_of g ! k) t = Inr p"
      and "(case p of (v, u) \<Rightarrow> if v = target \<and> facts ! k \<noteq> target
        then Inr (True, facts[k := target], u) else Inr (changed, facts, u)) =
        (Inr s' :: fact_state rep_result)"
      by (rule andThenE) (rule that)
    then obtain v u where eval: "fact_value k facts (recipes_of g ! k) t = Inr (v, u)"
      and "(if v = target \<and> facts ! k \<noteq> target then Inr (True, facts[k := target], u)
        else Inr (changed, facts, u)) = (Inr s' :: fact_state rep_result)"
      by (cases p) (simp only: prod.case)
    then have s': "s' = (if v = target \<and> facts ! k \<noteq> target then (True, facts[k := target], u)
        else (changed, facts, u))" by (simp only: if_Inr)
    from value_rule [OF t assms(2) inv(2) eval]
    have u: "same_graph g u" and v: "v = target \<longleftrightarrow> rule (marks facts) k"
      using same_graph_trans t by (auto simp: marks_def)
    have in_closure: "k \<in> closure X" if "v = target"
      using that v rule_mono [OF inv(4)] assms(2) closure_unfold [of X] by auto
    show ?thesis
    proof (cases "v = target \<and> facts ! k \<noteq> target")
      case True
      with s' have "s' = (True, facts[k := target], u)" by simp
      moreover have "marks (facts[k := target]) = insert k (marks facts)"
        using assms(2) inv(2) by (simp add: marks_update)
      moreover have "k \<notin> M" using True inv(3) marked by auto
      ultimately show ?thesis using True inv u in_closure by (auto simp: pass_inv_def)
    next
      case False
      with s' have "s' = (changed, facts, u)" by auto
      with False inv u v marked show ?thesis by (auto simp: pass_inv_def less_Suc_eq)
    qed
  qed
qed

lemma pass_result:
  assumes "same_graph g r" "length facts = count" "marks facts \<subseteq> closure X"
    and "for_each (fact_step skip target fact_value) [0 ..< length (recipes_of r)] (False, facts, r) =
      Inr s'"
  shows "pass_inv X (marks facts) count s'"
proof -
  have "length (recipes_of r) = count" using assms(1) by (simp add: same_graph_fields)
  with assms(4) have run: "for_each (fact_step skip target fact_value) [0 ..< count] (False, facts, r) =
      Inr s'" by simp
  show ?thesis
  proof (rule for_each_upt [where I = "pass_inv X (marks facts)", OF run])
    show "pass_inv X (marks facts) 0 (False, facts, r)" using assms by (simp add: pass_inv_def)
  qed (rule step_inv)
qed

lemma passes_result:
  assumes "same_graph g r" "length facts = count" "marks facts \<subseteq> closure X" "X \<subseteq> marks facts"
    and "fact_passes skip target fact_value n facts r = Inr (changed, facts', r')"
  shows "same_graph g r' \<and> length facts' = count \<and> X \<subseteq> marks facts' \<and> marks facts' \<subseteq> closure X \<and>
     (changed \<longrightarrow> card (marks facts) + n \<le> card (marks facts')) \<and>
     (\<not> changed \<longrightarrow> marks facts' = closure X)"
  using assms
proof (induction n arbitrary: facts r)
  case (Suc n)
  from Suc.prems(5) obtain c fs t where
    pass: "for_each (fact_step skip target fact_value) [0 ..< length (recipes_of r)] (False, facts, r) =
        Inr (c, fs, t)"
    and rest: "(if c then fact_passes skip target fact_value n fs t else Inr (False, fs, t)) =
        Inr (changed, facts', r')"
    by auto
  from pass_result [OF Suc.prems(1-3) pass]
  have inv: "same_graph g t" "length fs = count" "marks facts \<subseteq> marks fs" "marks fs \<subseteq> closure X"
      "if c then marks facts \<noteq> marks fs
       else marks fs = marks facts \<and> (\<forall>i < count. rule (marks facts) i \<longrightarrow> i \<in> marks facts)"
    by (simp_all add: pass_inv_def)
  show ?case
  proof (cases c)
    case True
    with inv have "marks facts \<subset> marks fs" by auto
    then have "card (marks facts) < card (marks fs)" by (intro psubset_card_mono) simp_all
    moreover have run: "fact_passes skip target fact_value n fs t = Inr (changed, facts', r')"
      using rest True by simp
    moreover have "X \<subseteq> marks fs" using Suc.prems(4) inv(3) by blast
    ultimately show ?thesis using Suc.IH [OF inv(1,2,4)] by fastforce
  next
    case False
    with rest have "changed = False" "facts' = fs" "r' = t" by auto
    moreover have "closure X \<subseteq> marks fs"
      using inv(5) False Suc.prems(4) by (intro closure_least) auto
    ultimately show ?thesis using inv False Suc.prems(4) by auto
  qed
qed simp

text \<open>The loop ends with the least fixed point, and never with its internal failure.\<close>

lemma fixed_point_result:
  assumes "same_graph g r" "length facts = count"
    and "fixed_point skip target fact_value facts r = Inr (facts', r')"
  shows "same_graph g r' \<and> length facts' = count \<and> marks facts' = closure (marks facts)"
proof -
  have "marks facts \<subseteq> closure (marks facts)" using closure_unfold [of "marks facts"] by auto
  moreover obtain c where "fact_passes skip target fact_value (length (recipes_of r) + 1) facts r =
      Inr (c, facts', r')" and "\<not> c"
    using assms(3) unfolding fixed_point_def
    by (auto simp del: fact_passes.simps split: if_splits)
  ultimately show ?thesis using passes_result [OF assms(1,2) _ order_refl] by blast
qed

lemma passes_converge:
  assumes "same_graph g r" "length facts = count"
    and "fact_passes skip target fact_value (count + 1) facts r = Inr (changed, facts', r')"
  shows "\<not> changed"
proof
  assume changed
  have "marks facts \<subseteq> closure (marks facts)" using closure_unfold [of "marks facts"] by auto
  from passes_result [OF assms(1,2) this order_refl assms(3)] \<open>changed\<close>
  have "count + 1 \<le> card (marks facts')" "length facts' = count" by auto
  with marks_card [of facts'] show False by simp
qed

text \<open>With enough work the loop returns.\<close>

definition pass_cost :: size_t where
  "pass_cost = (\<Sum>i < count. 1 + cost i)"

lemma step_total:
  assumes "in_range" "work_limit g \<le> SIZE_MAX" "same_graph g r" "k < count" "length facts = count"
    and "work_of r + 1 + cost k \<le> work_limit g"
  shows "\<exists>changed' facts' r'. fact_step skip target fact_value k (changed, facts, r) =
      Inr (changed', facts', r') \<and> same_graph g r' \<and> length facts' = count \<and>
      work_of r' \<le> work_of r + 1 + cost k"
proof -
  have limit: "work_limit r = work_limit g" using assms(3) by (simp add: same_graph_fields)
  then have charge: "fact_charge r = Inr (add_work 1 r)"
    using assms by (intro rep_charge_total) simp_all
  have t: "same_graph g (add_work 1 r)" using assms(3) same_graph_trans add_work_graph by blast
  obtain v s where eval: "fact_value k facts (recipes_of g ! k) (add_work 1 r) = Inr (v, s)"
      "work_of s \<le> work_of r + 1 + cost k"
    using value_total [OF assms(1) t assms(4,5) _ assms(2)] assms(6) by auto
  have "same_graph g s" using value_rule [OF t assms(4,5) eval(1)] same_graph_trans t by blast
  then show ?thesis using eval t charge assms(4,5)
    by (auto simp: fact_step_def same_graph_fields [OF assms(3)])
qed

lemma pass_total:
  assumes "in_range" "work_limit g \<le> SIZE_MAX" "same_graph g r" "length facts = count"
    and "list_all (\<lambda>i. i < count) is"
    and "work_of r + (\<Sum>i\<leftarrow>is. 1 + cost i) \<le> work_limit g"
  shows "\<exists>changed' facts' r'. for_each (fact_step skip target fact_value) is (changed, facts, r) =
      Inr (changed', facts', r') \<and> same_graph g r' \<and> length facts' = count \<and>
      work_of r' \<le> work_of r + (\<Sum>i\<leftarrow>is. 1 + cost i)"
  using assms(3-)
proof (induction "is" arbitrary: changed facts r)
  case (Cons i "is")
  obtain c fs t where step: "fact_step skip target fact_value i (changed, facts, r) = Inr (c, fs, t)"
      "same_graph g t" "length fs = count" "work_of t \<le> work_of r + 1 + cost i"
    using step_total [OF assms(1,2) Cons.prems(1) _ Cons.prems(2), of i changed] Cons.prems by auto
  with Cons.IH [OF step(2,3), of c] Cons.prems(3,4) show ?case by fastforce
qed simp

lemma passes_total:
  assumes "in_range" "work_limit g \<le> SIZE_MAX" "same_graph g r" "length facts = count"
    and "work_of r + n * pass_cost \<le> work_limit g"
  shows "\<exists>changed facts' r'. fact_passes skip target fact_value n facts r =
      Inr (changed, facts', r') \<and> same_graph g r' \<and> work_of r' \<le> work_of r + n * pass_cost"
  using assms(3-)
proof (induction n arbitrary: facts r)
  case (Suc n)
  have sum: "(\<Sum>i\<leftarrow>[0..<count]. 1 + cost i) = pass_cost"
    unfolding pass_cost_def by (simp add: interv_sum_list_conv_sum_set_nat atLeast0LessThan)
  have recipes: "length (recipes_of r) = count" using Suc.prems(1) by (simp add: same_graph_fields)
  obtain c fs t where pass: "for_each (fact_step skip target fact_value) [0..<count] (False, facts, r) =
        Inr (c, fs, t)"
      "same_graph g t" "length fs = count" "work_of t \<le> work_of r + pass_cost"
    using pass_total [OF assms(1,2) Suc.prems(1,2), of "[0..<count]" False] Suc.prems(3)
    unfolding sum by (auto simp: list_all_iff)
  show ?case
  proof (cases c)
    case True
    with Suc.IH [OF pass(2,3)] pass(4) Suc.prems(3) obtain c' fs' t' where
      "fact_passes skip target fact_value n fs t = Inr (c', fs', t')" "same_graph g t'"
      "work_of t' \<le> work_of t + n * pass_cost" by force
    with True pass(1,4) recipes show ?thesis by simp
  next
    case False
    with pass(1) recipes have "fact_passes skip target fact_value (Suc n) facts r = Inr (False, fs, t)"
      by simp
    moreover have "work_of t \<le> work_of r + Suc n * pass_cost" using pass(4) by simp
    ultimately show ?thesis using pass(2) by blast
  qed
qed auto

lemma fixed_point_total:
  assumes "in_range" "work_limit g \<le> SIZE_MAX" "same_graph g r" "length facts = count"
    and "work_of r + (count + 1) * pass_cost \<le> work_limit g"
  shows "\<exists>facts' r'. fixed_point skip target fact_value facts r = Inr (facts', r') \<and>
      work_of r' \<le> work_of r + (count + 1) * pass_cost"
proof -
  from passes_total [OF assms] obtain c fs t where
    run: "fact_passes skip target fact_value (count + 1) facts r = Inr (c, fs, t)"
    and work: "work_of t \<le> work_of r + (count + 1) * pass_cost"
    by auto
  have "\<not> c" by (rule passes_converge [OF assms(3,4) run])
  have "length (recipes_of r) = count" using assms(3) by (simp add: same_graph_fields)
  with run \<open>\<not> c\<close> have "fixed_point skip target fact_value facts r = Inr (fs, t)"
    unfolding fixed_point_def by (simp only: andThen_simps prod.case if_False)
  with work show ?thesis by blast
qed

end

section \<open>Graphs whose indices are in range\<close>

definition field_type :: "SolMirRepresentation \<Rightarrow> size_t \<Rightarrow> size_t" where
  "field_type g f = rf_type (fields_of g ! f)"

definition field_ok :: "SolMirRepresentation \<Rightarrow> size_t \<Rightarrow> bool" where
  "field_ok g f \<longleftrightarrow> f < length (fields_of g) \<and> field_type g f < length (recipes_of g)"

definition variant_fields :: "SolMirRepresentation \<Rightarrow> size_t \<Rightarrow> size_t list" where
  "variant_fields g v = slice_ids (rv_fields (variants_of g ! v))"

definition variant_ok :: "SolMirRepresentation \<Rightarrow> size_t \<Rightarrow> bool" where
  "variant_ok g v \<longleftrightarrow> v < length (variants_of g) \<and> list_all (field_ok g) (variant_fields g v)"

definition recipe_fields :: "SolMirRepresentation \<Rightarrow> size_t \<Rightarrow> size_t list" where
  "recipe_fields g i = slice_ids (rc_fields (recipes_of g ! i))"

definition recipe_variants :: "SolMirRepresentation \<Rightarrow> size_t \<Rightarrow> size_t list" where
  "recipe_variants g i = slice_ids (rc_variants (recipes_of g ! i))"

text \<open>An option recipe has a variant without fields, as \<open>populate_recipes\<close> makes it.\<close>

definition recipe_ok :: "SolMirRepresentation \<Rightarrow> size_t \<Rightarrow> bool" where
  "recipe_ok g i \<longleftrightarrow>
     (let kind = rc_kind (recipes_of g ! i) in
      (is_product kind \<longrightarrow> list_all (field_ok g) (recipe_fields g i)) \<and>
      (is_sum kind \<longrightarrow> list_all (variant_ok g) (recipe_variants g i)) \<and>
      (is_wrapper kind \<longrightarrow> rc_backing (recipes_of g ! i) < length (recipes_of g)) \<and>
      (kind = SOL_MIR_RECIPE_OPTION \<longrightarrow>
        list_ex (\<lambda>v. variant_fields g v = []) (recipe_variants g i)))"

definition graph_ok :: "SolMirRepresentation \<Rightarrow> bool" where
  "graph_ok g \<longleftrightarrow> list_all (recipe_ok g) [0 ..< length (recipes_of g)]"

lemma graph_okD: "graph_ok g \<Longrightarrow> i < length (recipes_of g) \<Longrightarrow> recipe_ok g i"
  by (simp add: graph_ok_def list_all_iff)

lemma kind_classes [simp]:
  "is_product SOL_MIR_RECIPE_TUPLE" "is_product SOL_MIR_RECIPE_RECORD"
  "is_sum SOL_MIR_RECIPE_ENUM" "is_sum SOL_MIR_RECIPE_OPTION" "is_sum SOL_MIR_RECIPE_RESULT"
  "is_wrapper SOL_MIR_RECIPE_DISTINCT" "is_wrapper SOL_MIR_RECIPE_REFINED"
  by (simp_all add: is_product_def is_sum_def is_wrapper_def)

lemma sum_not_wrapper: "is_sum k \<Longrightarrow> \<not> is_wrapper k"
  by (auto simp: is_sum_def is_wrapper_def)

section \<open>What a scan computes\<close>

lemma all_fields_result:
  assumes "all_fields facts ids r = Inr (v, s)" "same_graph g r"
  shows "same_graph g s" "v \<Longrightarrow> f \<in> set ids \<Longrightarrow> field_type g f < length facts \<and> facts ! field_type g f"
    "\<not> v \<Longrightarrow> \<exists>f \<in> set ids. field_type g f < length facts \<and> \<not> facts ! field_type g f"
proof -
  have "same_graph g s \<and>
     (v \<longrightarrow> (\<forall>f \<in> set ids. field_type g f < length facts \<and> facts ! field_type g f)) \<and>
     (\<not> v \<longrightarrow> (\<exists>f \<in> set ids. field_type g f < length facts \<and> \<not> facts ! field_type g f))"
    using assms
  proof (induction ids arbitrary: r)
    case (Cons i ids)
    from Cons.prems(1) obtain t where charge: "fact_charge r = Inr t"
      and rest: "i < length (fields_of t)" "rf_type (fields_of t ! i) < length facts"
      "(if facts ! rf_type (fields_of t ! i) then all_fields facts ids t else Inr (False, t)) = Inr (v, s)"
      by auto
    have t: "same_graph g t" using same_graph_trans [OF Cons.prems(2) rep_charge_graph [OF charge]] .
    then have ft: "rf_type (fields_of t ! i) = field_type g i"
      by (simp add: field_type_def same_graph_fields)
    show ?case
    proof (cases "facts ! field_type g i")
      case True
      with rest ft Cons.IH [OF _ t] show ?thesis by auto
    next
      case False
      with rest ft t show ?thesis by auto
    qed
  qed simp
  then show "same_graph g s" "v \<Longrightarrow> f \<in> set ids \<Longrightarrow> field_type g f < length facts \<and> facts ! field_type g f"
    "\<not> v \<Longrightarrow> \<exists>f \<in> set ids. field_type g f < length facts \<and> \<not> facts ! field_type g f" by blast+
qed

lemma all_fields_total:
  assumes "list_all (field_ok g) ids" "same_graph g r" "length facts = length (recipes_of g)"
    and "work_of r + length ids \<le> work_limit g" "work_limit g \<le> SIZE_MAX"
  shows "\<exists>v s. all_fields facts ids r = Inr (v, s) \<and> same_graph g s \<and>
    work_of s \<le> work_of r + length ids"
  using assms
proof (induction ids arbitrary: r)
  case (Cons i ids)
  have charge: "fact_charge r = Inr (add_work 1 r)"
    using Cons.prems by (intro rep_charge_total) (simp_all add: same_graph_fields)
  have t: "same_graph g (add_work 1 r)" using Cons.prems(2) same_graph_trans add_work_graph by blast
  have ok: "i < length (fields_of g)" "rf_type (fields_of g ! i) < length facts"
    using Cons.prems(1,3) by (simp_all add: field_ok_def field_type_def)
  have "\<exists>v s. all_fields facts ids (add_work 1 r) = Inr (v, s) \<and> same_graph g s \<and>
    work_of s \<le> work_of r + Suc (length ids)"
    using Cons.IH [of "add_work 1 r"] Cons.prems t by simp
  then show ?case using charge ok t Cons.prems(2)
    by (cases "facts ! rf_type (fields_of g ! i)") (auto simp: same_graph_fields)
qed auto

lemma any_variant_result:
  assumes "any_inhabited_variant facts ids r = Inr (v, s)" "same_graph g r"
  shows "same_graph g s \<and> (v \<longleftrightarrow> (\<exists>w \<in> set ids. \<forall>f \<in> set (variant_fields g w).
      field_type g f < length facts \<and> facts ! field_type g f))"
  using assms
proof (induction ids arbitrary: r)
  case (Cons i ids)
  from Cons.prems(1) obtain t u x where charge: "fact_charge r = Inr t"
    and all: "all_fields facts (slice_ids (rv_fields (variants_of t ! i))) t = Inr (x, u)"
    and rest: "(if x then Inr (True, u) else any_inhabited_variant facts ids u) = Inr (v, s)"
    by auto
  have t: "same_graph g t" using same_graph_trans [OF Cons.prems(2) rep_charge_graph [OF charge]] .
  from all have "all_fields facts (variant_fields g i) t = Inr (x, u)"
    by (simp add: variant_fields_def same_graph_fields [OF t])
  note result = all_fields_result [OF this t]
  show ?case
  proof (cases x)
    case True
    with rest result(1,2) show ?thesis by auto
  next
    case False
    with rest Cons.IH [OF _ result(1)] result(3) show ?thesis by auto
  qed
qed simp

lemma all_variants_result:
  assumes "all_variants facts ids r = Inr (v, s)" "same_graph g r"
  shows "same_graph g s \<and> (\<not> v \<longleftrightarrow> (\<exists>w \<in> set ids. \<exists>f \<in> set (variant_fields g w).
      field_type g f < length facts \<and> \<not> facts ! field_type g f))"
  using assms
proof (induction ids arbitrary: r)
  case (Cons i ids)
  from Cons.prems(1) obtain t u x where charge: "fact_charge r = Inr t"
    and all: "all_fields facts (slice_ids (rv_fields (variants_of t ! i))) t = Inr (x, u)"
    and rest: "(if x then all_variants facts ids u else Inr (False, u)) = Inr (v, s)"
    by auto
  have t: "same_graph g t" using same_graph_trans [OF Cons.prems(2) rep_charge_graph [OF charge]] .
  from all have "all_fields facts (variant_fields g i) t = Inr (x, u)"
    by (simp add: variant_fields_def same_graph_fields [OF t])
  note result = all_fields_result [OF this t]
  show ?case
  proof (cases x)
    case True
    with rest Cons.IH [OF _ result(1)] result(2) show ?thesis by fastforce
  next
    case False
    with rest result(1,3) show ?thesis by auto
  qed
qed simp

definition variants_cost :: "SolMirRepresentation \<Rightarrow> size_t list \<Rightarrow> size_t" where
  "variants_cost g ids = (\<Sum>v\<leftarrow>ids. 1 + length (variant_fields g v))"

lemma variants_total:
  assumes "list_all (variant_ok g) ids" "same_graph g r" "length facts = length (recipes_of g)"
    and "work_of r + variants_cost g ids \<le> work_limit g" "work_limit g \<le> SIZE_MAX"
  shows "\<exists>v s. any_inhabited_variant facts ids r = Inr (v, s) \<and>
      work_of s \<le> work_of r + variants_cost g ids"
    and "\<exists>v s. all_variants facts ids r = Inr (v, s) \<and>
      work_of s \<le> work_of r + variants_cost g ids"
proof -
  have scan: "\<exists>x u. fact_charge r = Inr (add_work 1 r) \<and> i < length (variants_of g) \<and>
      all_fields facts (slice_ids (rv_fields (variants_of g ! i))) (add_work 1 r) = Inr (x, u) \<and>
      same_graph g u \<and> work_of u \<le> work_of r + 1 + length (variant_fields g i)"
    if "variant_ok g i" "same_graph g r" "work_of r + 1 + length (variant_fields g i) \<le> work_limit g"
    for i r
  proof -
    have "fact_charge r = Inr (add_work 1 r)"
      using that assms(5) by (intro rep_charge_total) (simp_all add: same_graph_fields)
    moreover have "same_graph g (add_work 1 r)" using that(2) same_graph_trans add_work_graph by blast
    ultimately show ?thesis
      using that all_fields_total [of g "variant_fields g i" "add_work 1 r" facts] assms(3,5)
      by (auto simp: variant_ok_def variant_fields_def)
  qed
  show "\<exists>v s. any_inhabited_variant facts ids r = Inr (v, s) \<and>
      work_of s \<le> work_of r + variants_cost g ids"
    using assms(1,2,4)
  proof (induction ids arbitrary: r)
    case (Cons i ids)
    obtain x u where run: "fact_charge r = Inr (add_work 1 r)" "i < length (variants_of g)"
      "all_fields facts (slice_ids (rv_fields (variants_of g ! i))) (add_work 1 r) = Inr (x, u)"
      "same_graph g u" "work_of u \<le> work_of r + 1 + length (variant_fields g i)"
      using scan [of i r] Cons.prems by (auto simp: variants_cost_def)
    show ?case
    proof (cases x)
      case True
      with run Cons.prems(2) show ?thesis by (auto simp: same_graph_fields variants_cost_def)
    next
      case False
      with run Cons.IH [OF _ run(4)] Cons.prems show ?thesis
        by (fastforce simp: same_graph_fields variants_cost_def)
    qed
  qed auto
  show "\<exists>v s. all_variants facts ids r = Inr (v, s) \<and>
      work_of s \<le> work_of r + variants_cost g ids"
    using assms(1,2,4)
  proof (induction ids arbitrary: r)
    case (Cons i ids)
    obtain x u where run: "fact_charge r = Inr (add_work 1 r)" "i < length (variants_of g)"
      "all_fields facts (slice_ids (rv_fields (variants_of g ! i))) (add_work 1 r) = Inr (x, u)"
      "same_graph g u" "work_of u \<le> work_of r + 1 + length (variant_fields g i)"
      using scan [of i r] Cons.prems by (auto simp: variants_cost_def)
    show ?case
    proof (cases x)
      case False
      with run Cons.prems(2) show ?thesis by (auto simp: same_graph_fields variants_cost_def)
    next
      case True
      with run Cons.IH [OF _ run(4)] Cons.prems show ?thesis
        by (fastforce simp: same_graph_fields variants_cost_def)
    qed
  qed auto
qed

section \<open>The three loops\<close>

definition inhabited_rule :: "SolMirRepresentation \<Rightarrow> size_t set \<Rightarrow> size_t \<Rightarrow> bool" where
  "inhabited_rule g X i \<longleftrightarrow>
     (let kind = rc_kind (recipes_of g ! i) in
      if is_product kind then list_all (\<lambda>f. field_type g f \<in> X) (recipe_fields g i)
      else if is_wrapper kind then rc_backing (recipes_of g ! i) \<in> X
      else if kind = SOL_MIR_RECIPE_ENUM \<or> kind = SOL_MIR_RECIPE_RESULT
      then list_ex (\<lambda>v. list_all (\<lambda>f. field_type g f \<in> X) (variant_fields g v)) (recipe_variants g i)
      else kind \<noteq> SOL_MIR_RECIPE_NEVER)"

definition zero_rule :: "SolMirRepresentation \<Rightarrow> bool list \<Rightarrow> size_t set \<Rightarrow> size_t \<Rightarrow> bool" where
  "zero_rule g inhabited X i \<longleftrightarrow>
     (let kind = rc_kind (recipes_of g ! i) in
      inhabited ! i \<and>
      (if is_product kind then list_all (\<lambda>f. field_type g f \<in> X) (recipe_fields g i)
       else if is_wrapper kind then rc_backing (recipes_of g ! i) \<in> X
       else kind = SOL_MIR_RECIPE_UNIT))"

definition noncopy_rule :: "SolMirRepresentation \<Rightarrow> size_t set \<Rightarrow> size_t \<Rightarrow> bool" where
  "noncopy_rule g X i \<longleftrightarrow>
     (let kind = rc_kind (recipes_of g ! i) in
      if is_product kind then list_ex (\<lambda>f. field_type g f \<in> X) (recipe_fields g i)
      else if is_wrapper kind then rc_backing (recipes_of g ! i) \<in> X
      else if is_sum kind
      then list_ex (\<lambda>v. list_ex (\<lambda>f. field_type g f \<in> X) (variant_fields g v)) (recipe_variants g i)
      else False)"

definition scan_cost :: "SolMirRepresentation \<Rightarrow> size_t \<Rightarrow> size_t" where
  "scan_cost g i =
     (let kind = rc_kind (recipes_of g ! i) in
      if is_product kind then length (recipe_fields g i)
      else if is_sum kind then variants_cost g (recipe_variants g i) else 0)"

lemma product_scan:
  assumes "all_fields facts (slice_ids (rc_fields (recipes_of g ! i))) r = Inr (v, s)" "same_graph g r"
  shows "same_graph g s"
    "v \<longleftrightarrow> list_all (\<lambda>f. field_type g f < length facts \<and> facts ! field_type g f) (recipe_fields g i)"
    "\<not> v \<longleftrightarrow> list_ex (\<lambda>f. field_type g f < length facts \<and> \<not> facts ! field_type g f) (recipe_fields g i)"
proof -
  from assms(1) have "all_fields facts (recipe_fields g i) r = Inr (v, s)"
    by (simp add: recipe_fields_def)
  note result = all_fields_result [OF this assms(2)]
  show "same_graph g s"
    "v \<longleftrightarrow> list_all (\<lambda>f. field_type g f < length facts \<and> facts ! field_type g f) (recipe_fields g i)"
    "\<not> v \<longleftrightarrow> list_ex (\<lambda>f. field_type g f < length facts \<and> \<not> facts ! field_type g f) (recipe_fields g i)"
    using result by (cases v; auto simp: list_all_iff list_ex_iff)+
qed

lemma same_graph_sub: "same_graph g r \<Longrightarrow> same_graph g s \<Longrightarrow> same_graph r s"
  by (auto simp: same_graph_def)

lemma inhabited_value_result:
  assumes "same_graph g r" "inhabited_value facts (recipes_of g ! i) r = Inr (v, s)"
  shows "same_graph r s \<and> (v = True \<longleftrightarrow> inhabited_rule g {j. j < length facts \<and> facts ! j = True} i)"
proof -
  have "same_graph g s \<and> (v \<longleftrightarrow> inhabited_rule g {j. j < length facts \<and> facts ! j = True} i)"
  proof (cases "rc_kind (recipes_of g ! i)")
    case SOL_MIR_RECIPE_TUPLE
    with assms product_scan [OF _ assms(1), of facts i v s] show ?thesis
      by (simp add: inhabited_value_def inhabited_rule_def)
  next
    case SOL_MIR_RECIPE_RECORD
    with assms product_scan [OF _ assms(1), of facts i v s] show ?thesis
      by (simp add: inhabited_value_def inhabited_rule_def)
  next
    case SOL_MIR_RECIPE_ENUM
    with assms any_variant_result [OF _ assms(1), of facts "recipe_variants g i" v s] show ?thesis
      by (auto simp: inhabited_value_def inhabited_rule_def recipe_variants_def is_product_def
        is_wrapper_def list_all_iff list_ex_iff)
  next
    case SOL_MIR_RECIPE_RESULT
    with assms any_variant_result [OF _ assms(1), of facts "recipe_variants g i" v s] show ?thesis
      by (auto simp: inhabited_value_def inhabited_rule_def recipe_variants_def is_product_def
        is_wrapper_def list_all_iff list_ex_iff)
  qed (use assms in \<open>auto simp: inhabited_value_def inhabited_rule_def is_product_def is_wrapper_def\<close>)
  with same_graph_sub [OF assms(1)] show ?thesis by simp
qed

lemma zero_value_result:
  assumes "same_graph g r" "zero_value (inhabited ! i) facts (recipes_of g ! i) r = Inr (v, s)"
  shows "same_graph r s \<and> (v = True \<longleftrightarrow> zero_rule g inhabited {j. j < length facts \<and> facts ! j = True} i)"
proof -
  have "same_graph g s \<and> (v \<longleftrightarrow> zero_rule g inhabited {j. j < length facts \<and> facts ! j = True} i)"
    using assms product_scan [OF _ assms(1), of facts i v s]
    by (auto simp: zero_value_def zero_rule_def is_product_def is_wrapper_def Let_def split: if_splits)
  with same_graph_sub [OF assms(1)] show ?thesis by simp
qed

lemma copy_value_result:
  assumes "same_graph g r" "copy_value facts (recipes_of g ! i) r = Inr (v, s)"
  shows "same_graph r s \<and> (v = False \<longleftrightarrow> noncopy_rule g {j. j < length facts \<and> facts ! j = False} i)"
proof -
  let ?k = "rc_kind (recipes_of g ! i)"
  have "same_graph g s \<and> (\<not> v \<longleftrightarrow> noncopy_rule g {j. j < length facts \<and> facts ! j = False} i)"
  proof (cases "is_product ?k")
    case True
    with assms product_scan [OF _ assms(1), of facts i v s] show ?thesis
      by (simp add: copy_value_def noncopy_rule_def)
  next
    case not_product: False
    show ?thesis
    proof (cases "is_sum ?k")
      case True
      then have "all_variants facts (recipe_variants g i) r = Inr (v, s)"
        using assms(2) not_product by (simp add: copy_value_def recipe_variants_def)
      from all_variants_result [OF this assms(1)] True not_product show ?thesis
        by (simp add: noncopy_rule_def sum_not_wrapper list_ex_iff)
    next
      case False
      with not_product assms show ?thesis
        by (auto simp: copy_value_def noncopy_rule_def Let_def split: if_splits)
    qed
  qed
  with same_graph_sub [OF assms(1)] show ?thesis by simp
qed

lemma scan_total:
  assumes "graph_ok g" "same_graph g r" "i < length (recipes_of g)"
    "length facts = length (recipes_of g)"
    "work_of r + scan_cost g i \<le> work_limit g" "work_limit g \<le> SIZE_MAX"
  shows "\<exists>v s. inhabited_value facts (recipes_of g ! i) r = Inr (v, s) \<and>
      work_of s \<le> work_of r + scan_cost g i"
    and "\<exists>v s. zero_value b facts (recipes_of g ! i) r = Inr (v, s) \<and>
      work_of s \<le> work_of r + scan_cost g i"
    and "\<exists>v s. copy_value facts (recipes_of g ! i) r = Inr (v, s) \<and>
      work_of s \<le> work_of r + scan_cost g i"
proof -
  let ?k = "rc_kind (recipes_of g ! i)"
  from graph_okD [OF assms(1,3)] have ok:
    "is_product ?k \<Longrightarrow> list_all (field_ok g) (recipe_fields g i)"
    "is_sum ?k \<Longrightarrow> list_all (variant_ok g) (recipe_variants g i)"
    "is_wrapper ?k \<Longrightarrow> rc_backing (recipes_of g ! i) < length facts"
    by (simp_all add: recipe_ok_def assms(4) Let_def)
  have prod: "\<exists>v s. all_fields facts (slice_ids (rc_fields (recipes_of g ! i))) r = Inr (v, s) \<and>
      work_of s \<le> work_of r + scan_cost g i" if "is_product ?k"
    using that all_fields_total [OF ok(1) assms(2,4)] assms(5,6)
    by (auto simp: scan_cost_def recipe_fields_def)
  have sum: "\<exists>v s. any_inhabited_variant facts (slice_ids (rc_variants (recipes_of g ! i))) r = Inr (v, s) \<and>
      work_of s \<le> work_of r + scan_cost g i"
    "\<exists>v s. all_variants facts (slice_ids (rc_variants (recipes_of g ! i))) r = Inr (v, s) \<and>
      work_of s \<le> work_of r + scan_cost g i" if "is_sum ?k"
    using that variants_total [OF ok(2) assms(2,4)] assms(5,6)
    by (auto simp: scan_cost_def recipe_variants_def is_product_def is_sum_def)
  show "\<exists>v s. inhabited_value facts (recipes_of g ! i) r = Inr (v, s) \<and>
      work_of s \<le> work_of r + scan_cost g i"
    using prod sum(1) ok(3) by (cases ?k) (auto simp: inhabited_value_def)
  show "\<exists>v s. zero_value b facts (recipes_of g ! i) r = Inr (v, s) \<and>
      work_of s \<le> work_of r + scan_cost g i"
    using prod ok(3) by (auto simp: zero_value_def)
  show "\<exists>v s. copy_value facts (recipes_of g ! i) r = Inr (v, s) \<and>
      work_of s \<le> work_of r + scan_cost g i"
    using prod sum(2) ok(3) by (auto simp: copy_value_def)
qed

interpretation inhabited_scan:
  fact_scan g False True "\<lambda>i. inhabited_value" "inhabited_rule g" "scan_cost g" "graph_ok g" for g
proof
  show "inhabited_rule g X i \<Longrightarrow> inhabited_rule g Y i" if "X \<subseteq> Y" for X Y i
    using that by (auto simp: inhabited_rule_def Let_def list_all_iff list_ex_iff split: if_splits)
qed (rule inhabited_value_result scan_total(1); assumption)+

interpretation zero_scan:
  fact_scan g False True "\<lambda>i. zero_value (inhabited ! i)" "zero_rule g inhabited" "scan_cost g"
    "graph_ok g" for g inhabited
proof
  show "zero_rule g inhabited X i \<Longrightarrow> zero_rule g inhabited Y i" if "X \<subseteq> Y" for X Y i
    using that by (auto simp: zero_rule_def Let_def list_all_iff split: if_splits)
qed (rule zero_value_result scan_total(2); assumption)+

interpretation copy_scan:
  fact_scan g True False "\<lambda>i. copy_value" "noncopy_rule g" "scan_cost g" "graph_ok g" for g
proof
  show "noncopy_rule g X i \<Longrightarrow> noncopy_rule g Y i" if "X \<subseteq> Y" for X Y i
    using that by (auto simp: noncopy_rule_def Let_def list_ex_iff split: if_splits)
qed (rule copy_value_result scan_total(3); assumption)+

end
