(* ===== verification/Sol_MirSample.thy ===== *)
theory Sol_MirSample
  imports Sol_Representation
begin

text \<open>
  A small graph on which the properties of the classification are applied: the unit type, a
  pair of units, a function type and an option of a function.
\<close>

definition type_row :: SolMirMaterializedType where
  "type_row =
     \<lparr> mt_kind = SOL_IR_TYPE_UNIT, mt_definition = SOL_IR_NONE,
       mt_nominal_category = SOL_MIR_MATERIALIZED_NOMINAL_NONE, mt_arguments = empty_slice,
       mt_parameters = empty_slice, mt_parameter_accesses = empty_slice,
       mt_result = SOL_MIR_MATERIALIZED_NONE, mt_effects = SOL_MIR_MATERIALIZED_NONE,
       mt_fields = empty_slice, mt_variants = empty_slice,
       mt_backing = SOL_MIR_MATERIALIZED_NONE, mt_capability_source = SOL_MIR_MATERIALIZED_NONE,
       mt_nominal_open = False, mt_is_copy = True \<rparr>"

definition sample_types :: "SolMirMaterializedType list" where
  "sample_types =
     [type_row,
      type_row\<lparr> mt_kind := SOL_IR_TYPE_TUPLE, mt_arguments := \<lparr> sl_offset = 0, sl_count = 2 \<rparr> \<rparr>,
      type_row\<lparr> mt_kind := SOL_IR_TYPE_FUNCTION, mt_result := 0, mt_effects := 0,
        mt_is_copy := False \<rparr>,
      type_row\<lparr> mt_kind := SOL_IR_TYPE_OPTION, mt_arguments := \<lparr> sl_offset = 2, sl_count = 1 \<rparr>,
        mt_is_copy := False \<rparr>]"

definition sample_materialization :: SolMirMaterialization where
  "sample_materialization =
     \<lparr> mz_types = sample_types, mz_shape_fields = [], mz_shape_variants = [],
       mz_type_ids = [0, 0, 2], mz_accesses = [], mz_places = [], mz_projections = [],
       mz_bindings = [], mz_semantic_sites = [], mz_receiver_roots = [],
       mz_usage_validation_work = 100, mz_usage_concrete_records = 20,
       mz_usage_owned_bytes = 1000, mz_borrowed_counts = [1, 1, 1, 1, 1, 1, 1, 1, 1, 1, 1, 1] \<rparr>"

definition sample_heap :: rep_heap where
  "sample_heap request =
     (case request of
        HEAP_RECIPES \<Rightarrow> 10000 | HEAP_FIELDS \<Rightarrow> 20000 | HEAP_VARIANTS \<Rightarrow> 30000
      | HEAP_RECIPE_IDS \<Rightarrow> 40000 | HEAP_ACCESSES \<Rightarrow> 50000 | HEAP_RECEIVER_ROOTS \<Rightarrow> 60000
      | HEAP_PRODUCERS \<Rightarrow> 70000 | HEAP_INHABITED \<Rightarrow> 80000 | HEAP_ZERO \<Rightarrow> 81000 | HEAP_COPY \<Rightarrow> 82000)"

text \<open>The recipes as \<open>populate_recipes\<close> leaves them.\<close>

definition full_arena :: "size_t \<Rightarrow> 'a list \<Rightarrow> 'a arena" where
  "full_arena address xs = \<lparr> ar_base = address, ar_items = xs, ar_capacity = length xs \<rparr>"

definition field_row :: "size_t \<Rightarrow> size_t \<Rightarrow> SolMirRecipeField" where
  "field_row n ty = \<lparr> rf_source_field = SOL_IR_NONE, rf_ordinal = n, rf_type = ty \<rparr>"

definition variant_row :: "size_t \<Rightarrow> size_t \<Rightarrow> size_t \<Rightarrow> SolMirRecipeVariant" where
  "variant_row n offset k = \<lparr> rv_source_variant = SOL_IR_NONE, rv_ordinal = n,
     rv_semantic_tag = n, rv_fields = \<lparr> sl_offset = offset, sl_count = k \<rparr> \<rparr>"

definition sample_populated :: SolMirRepresentation where
  "sample_populated =
     (sol_mir_representation_init sample_materialization sol_mir_representation_default_limits)
     \<lparr> rp_recipes := full_arena 10000
         [zero_recipe\<lparr> rc_kind := SOL_MIR_RECIPE_UNIT \<rparr>,
          zero_recipe\<lparr> rc_kind := SOL_MIR_RECIPE_TUPLE,
            rc_fields := \<lparr> sl_offset = 0, sl_count = 2 \<rparr> \<rparr>,
          zero_recipe\<lparr> rc_kind := SOL_MIR_RECIPE_FUNCTION \<rparr>,
          zero_recipe\<lparr> rc_kind := SOL_MIR_RECIPE_OPTION,
            rc_variants := \<lparr> sl_offset = 0, sl_count = 2 \<rparr> \<rparr>],
       rp_fields := full_arena 20000 [field_row 0 0, field_row 1 0, field_row 0 2],
       rp_variants := full_arena 30000 [variant_row 0 2 0, variant_row 1 2 1] \<rparr>"

lemma sample_populated_size: "length (recipes_of sample_populated) = 4"
  by code_simp

lemma sample_classifies: "\<exists>h. classify sample_heap sample_populated = Inr h"
proof -
  have "case classify sample_heap sample_populated of Inr h \<Rightarrow> True | Inl e \<Rightarrow> False" by code_simp
  then show ?thesis by (auto split: sum.splits)
qed

end
