(* ===== verification/Sol_Recipe.thy ===== *)
theory Sol_Recipe
  imports Sol_Classify Sol_MirSample
begin

text \<open>
  What the classification of \<open>src/src/mir_representation.c\<close> means. A recipe denotes a set of
  finite values; the marks that \<open>classify\<close> stores are compared with that meaning, and the
  pass is shown to succeed whenever its work limit is large enough.
\<close>

section \<open>Values of a recipe\<close>

datatype recipe_value =
    RInt int | RBool bool | RText string | RUnit
  | RProduct "recipe_value list" | RVariant size_t "recipe_value list"
  | RWrapped recipe_value | RCallable nat | RCapability nat

abbreviation kind_of :: "SolMirRepresentation \<Rightarrow> size_t \<Rightarrow> SolMirRecipeKind" where
  "kind_of g i \<equiv> rc_kind (recipes_of g ! i)"

inductive has_value :: "SolMirRepresentation \<Rightarrow> size_t \<Rightarrow> recipe_value \<Rightarrow> bool" for g where
  int_value: "i < length (recipes_of g) \<Longrightarrow> kind_of g i = SOL_MIR_RECIPE_INT64 \<Longrightarrow>
    has_value g i (RInt k)"
| bool_value: "i < length (recipes_of g) \<Longrightarrow> kind_of g i = SOL_MIR_RECIPE_BOOL \<Longrightarrow>
    has_value g i (RBool b)"
| text_value: "i < length (recipes_of g) \<Longrightarrow> kind_of g i = SOL_MIR_RECIPE_TEXT \<Longrightarrow>
    has_value g i (RText t)"
| unit_value: "i < length (recipes_of g) \<Longrightarrow> kind_of g i = SOL_MIR_RECIPE_UNIT \<Longrightarrow>
    has_value g i RUnit"
| callable_value: "i < length (recipes_of g) \<Longrightarrow> kind_of g i = SOL_MIR_RECIPE_FUNCTION \<Longrightarrow>
    has_value g i (RCallable c)"
| capability_value: "i < length (recipes_of g) \<Longrightarrow> kind_of g i = SOL_MIR_RECIPE_CAPABILITY \<Longrightarrow>
    has_value g i (RCapability c)"
| product_value: "i < length (recipes_of g) \<Longrightarrow> is_product (kind_of g i) \<Longrightarrow>
    list_all2 (\<lambda>f. has_value g (field_type g f)) (recipe_fields g i) vs \<Longrightarrow>
    has_value g i (RProduct vs)"
| variant_value: "i < length (recipes_of g) \<Longrightarrow> is_sum (kind_of g i) \<Longrightarrow>
    v \<in> set (recipe_variants g i) \<Longrightarrow>
    list_all2 (\<lambda>f. has_value g (field_type g f)) (variant_fields g v) vs \<Longrightarrow>
    has_value g i (RVariant v vs)"
| wrapped_value: "i < length (recipes_of g) \<Longrightarrow> is_wrapper (kind_of g i) \<Longrightarrow>
    has_value g (rc_backing (recipes_of g ! i)) x \<Longrightarrow> has_value g i (RWrapped x)"

lemmas value_kinds = is_product_def is_sum_def is_wrapper_def

lemma product_value_inv:
  assumes "has_value g i v" "is_product (kind_of g i)"
  obtains vs where "v = RProduct vs"
    "list_all2 (\<lambda>f. has_value g (field_type g f)) (recipe_fields g i) vs"
  using assms by (cases rule: has_value.cases) (auto simp: value_kinds)

lemma wrapped_value_inv:
  assumes "has_value g i v" "is_wrapper (kind_of g i)"
  obtains x where "v = RWrapped x" "has_value g (rc_backing (recipes_of g ! i)) x"
  using assms by (cases rule: has_value.cases) (auto simp: value_kinds)

lemma unit_value_inv:
  "has_value g i v \<Longrightarrow> kind_of g i = SOL_MIR_RECIPE_UNIT \<Longrightarrow> v = RUnit"
  by (cases rule: has_value.cases) (auto simp: value_kinds)

lemmas simple_values = int_value bool_value text_value unit_value callable_value capability_value

text \<open>A value without storage: units, in products and wrappers.\<close>

fun only_units :: "recipe_value \<Rightarrow> bool" where
  "only_units RUnit \<longleftrightarrow> True"
| "only_units (RProduct vs) \<longleftrightarrow> list_all only_units vs"
| "only_units (RWrapped v) \<longleftrightarrow> only_units v"
| "only_units _ \<longleftrightarrow> False"

text \<open>One recipe is a component of another when a value of the latter holds one of the former.\<close>

definition component :: "SolMirRepresentation \<Rightarrow> size_t \<Rightarrow> size_t \<Rightarrow> bool" where
  "component g i j \<longleftrightarrow>
     i < length (recipes_of g) \<and>
     (is_product (kind_of g i) \<and> j \<in> field_type g ` set (recipe_fields g i) \<or>
      is_sum (kind_of g i) \<and>
        (\<exists>v \<in> set (recipe_variants g i). j \<in> field_type g ` set (variant_fields g v)) \<or>
      is_wrapper (kind_of g i) \<and> j = rc_backing (recipes_of g ! i))"

definition is_owned_handle :: "SolMirRepresentation \<Rightarrow> size_t \<Rightarrow> bool" where
  "is_owned_handle g i \<longleftrightarrow> i < length (recipes_of g) \<and>
     (kind_of g i = SOL_MIR_RECIPE_FUNCTION \<or> kind_of g i = SOL_MIR_RECIPE_CAPABILITY)"

definition holds_handle :: "SolMirRepresentation \<Rightarrow> size_t \<Rightarrow> bool" where
  "holds_handle g i \<longleftrightarrow> (\<exists>j. (component g)\<^sup>*\<^sup>* i j \<and> is_owned_handle g j)"

section \<open>The least fixed points\<close>

definition inhabited_set :: "SolMirRepresentation \<Rightarrow> size_t set" where
  "inhabited_set g = inhabited_scan.closure g {}"

definition zero_set :: "SolMirRepresentation \<Rightarrow> bool list \<Rightarrow> size_t set" where
  "zero_set g inhabited = zero_scan.closure g inhabited {}"

definition noncopy_set :: "SolMirRepresentation \<Rightarrow> size_t set" where
  "noncopy_set g = copy_scan.closure g {i. is_owned_handle g i}"

lemma inhabited_setI:
  "i < length (recipes_of g) \<Longrightarrow> inhabited_rule g (inhabited_set g) i \<Longrightarrow> i \<in> inhabited_set g"
  unfolding inhabited_set_def by (rule inhabited_scan.closure_rule)

lemma list_all2_exists:
  "list_all (\<lambda>f. \<exists>v. P f v) fs \<Longrightarrow> \<exists>vs. list_all2 P fs vs"
  by (induction fs) (auto simp: list_all2_Cons1)

lemma inhabited_sound:
  assumes "graph_ok g" "i \<in> inhabited_set g"
  shows "\<exists>v. has_value g i v"
  using assms(2) unfolding inhabited_set_def
proof (rule inhabited_scan.closure_induct)
  fix i
  assume i: "i < length (recipes_of g)" and rule: "inhabited_rule g {j. \<exists>v. has_value g j v} i"
  note ok = graph_okD [OF assms(1) i]
  show "\<exists>v. has_value g i v"
  proof (cases "kind_of g i")
    case SOL_MIR_RECIPE_TUPLE
    with rule obtain vs where
      "list_all2 (\<lambda>f. has_value g (field_type g f)) (recipe_fields g i) vs"
      using list_all2_exists [of "\<lambda>f. has_value g (field_type g f)" "recipe_fields g i"]
      by (auto simp: inhabited_rule_def)
    with SOL_MIR_RECIPE_TUPLE have "has_value g i (RProduct vs)"
      by (intro product_value [OF i]) simp_all
    then show ?thesis ..
  next
    case SOL_MIR_RECIPE_RECORD
    with rule obtain vs where
      "list_all2 (\<lambda>f. has_value g (field_type g f)) (recipe_fields g i) vs"
      using list_all2_exists [of "\<lambda>f. has_value g (field_type g f)" "recipe_fields g i"]
      by (auto simp: inhabited_rule_def)
    with SOL_MIR_RECIPE_RECORD have "has_value g i (RProduct vs)"
      by (intro product_value [OF i]) simp_all
    then show ?thesis ..
  next
    case SOL_MIR_RECIPE_ENUM
    with rule obtain v where "v \<in> set (recipe_variants g i)"
      "list_all (\<lambda>f. \<exists>x. has_value g (field_type g f) x) (variant_fields g v)"
      by (auto simp: inhabited_rule_def value_kinds list_ex_iff)
    moreover from this obtain vs where
      "list_all2 (\<lambda>f. has_value g (field_type g f)) (variant_fields g v) vs"
      using list_all2_exists [of "\<lambda>f. has_value g (field_type g f)" "variant_fields g v"] by auto
    ultimately have "has_value g i (RVariant v vs)"
      using SOL_MIR_RECIPE_ENUM by (intro variant_value [OF i]) simp_all
    then show ?thesis ..
  next
    case SOL_MIR_RECIPE_RESULT
    with rule obtain v where "v \<in> set (recipe_variants g i)"
      "list_all (\<lambda>f. \<exists>x. has_value g (field_type g f) x) (variant_fields g v)"
      by (auto simp: inhabited_rule_def value_kinds list_ex_iff)
    moreover from this obtain vs where
      "list_all2 (\<lambda>f. has_value g (field_type g f)) (variant_fields g v) vs"
      using list_all2_exists [of "\<lambda>f. has_value g (field_type g f)" "variant_fields g v"] by auto
    ultimately have "has_value g i (RVariant v vs)"
      using SOL_MIR_RECIPE_RESULT by (intro variant_value [OF i]) simp_all
    then show ?thesis ..
  next
    case SOL_MIR_RECIPE_OPTION
    with ok obtain v where "v \<in> set (recipe_variants g i)" "variant_fields g v = []"
      by (auto simp: recipe_ok_def list_ex_iff)
    with SOL_MIR_RECIPE_OPTION have "has_value g i (RVariant v [])"
      by (intro variant_value [OF i]) simp_all
    then show ?thesis ..
  next
    case SOL_MIR_RECIPE_DISTINCT
    with rule obtain x where "has_value g (rc_backing (recipes_of g ! i)) x"
      by (auto simp: inhabited_rule_def value_kinds)
    with SOL_MIR_RECIPE_DISTINCT have "has_value g i (RWrapped x)" by (intro wrapped_value [OF i]) simp_all
    then show ?thesis ..
  next
    case SOL_MIR_RECIPE_REFINED
    with rule obtain x where "has_value g (rc_backing (recipes_of g ! i)) x"
      by (auto simp: inhabited_rule_def value_kinds)
    with SOL_MIR_RECIPE_REFINED have "has_value g i (RWrapped x)" by (intro wrapped_value [OF i]) simp_all
    then show ?thesis ..
  qed (use rule in \<open>auto simp: inhabited_rule_def value_kinds intro: simple_values [OF i]\<close>)
qed simp

lemma inhabited_complete:
  assumes "has_value g i v"
  shows "i \<in> inhabited_set g"
  using assms
proof (induction rule: has_value.induct)
  case (product_value i vs)
  then show ?case
    by (intro inhabited_setI)
      (auto simp: inhabited_rule_def list_all_length list_all2_conv_all_nth)
next
  case (variant_value i v vs)
  then have "list_all (\<lambda>f. field_type g f \<in> inhabited_set g) (variant_fields g v)"
    by (auto simp: list_all_length list_all2_conv_all_nth)
  with variant_value(1-3) show ?case
    by (intro inhabited_setI) (auto simp: inhabited_rule_def value_kinds list_ex_iff)
qed (rule inhabited_setI; auto simp: inhabited_rule_def value_kinds)+

lemma inhabited_exact:
  "graph_ok g \<Longrightarrow> i \<in> inhabited_set g \<longleftrightarrow> (\<exists>v. has_value g i v)"
  using inhabited_sound inhabited_complete by blast

lemma list_all2_unique:
  "list_all (\<lambda>f. \<forall>v w. P f v \<longrightarrow> P f w \<longrightarrow> v = w) fs \<Longrightarrow> list_all2 P fs vs \<Longrightarrow> list_all2 P fs ws \<Longrightarrow>
   vs = ws"
  by (induction fs arbitrary: vs ws) (auto simp: list_all2_Cons1)

lemma zero_unique:
  assumes "i \<in> zero_set g inhabited" "has_value g i v" "has_value g i w"
  shows "v = w"
proof -
  have "\<forall>v w. has_value g i v \<longrightarrow> has_value g i w \<longrightarrow> v = w"
    using assms(1) unfolding zero_set_def
  proof (rule zero_scan.closure_induct)
    fix i
    let ?P = "\<lambda>j. \<forall>v w. has_value g j v \<longrightarrow> has_value g j w \<longrightarrow> v = w"
    assume rule: "zero_rule g inhabited {j. ?P j} i"
    show "?P i"
    proof (intro allI impI)
      fix v w
      assume v: "has_value g i v" and w: "has_value g i w"
      consider "is_product (kind_of g i)" "list_all (\<lambda>f. ?P (field_type g f)) (recipe_fields g i)"
        | "is_wrapper (kind_of g i)" "?P (rc_backing (recipes_of g ! i))"
        | "kind_of g i = SOL_MIR_RECIPE_UNIT"
        using rule by (auto simp: zero_rule_def Let_def split: if_splits)
      then show "v = w"
      proof cases
        case 1
        obtain vs ws where "v = RProduct vs" "w = RProduct ws"
          "list_all2 (\<lambda>f. has_value g (field_type g f)) (recipe_fields g i) vs"
          "list_all2 (\<lambda>f. has_value g (field_type g f)) (recipe_fields g i) ws"
          using product_value_inv [OF v 1(1)] product_value_inv [OF w 1(1)] by metis
        with list_all2_unique [OF 1(2)] show ?thesis by blast
      next
        case 2
        obtain x y where "v = RWrapped x" "w = RWrapped y"
          "has_value g (rc_backing (recipes_of g ! i)) x" "has_value g (rc_backing (recipes_of g ! i)) y"
          using wrapped_value_inv [OF v 2(1)] wrapped_value_inv [OF w 2(1)] by metis
        with 2(2) show ?thesis by blast
      next
        case 3
        then show ?thesis using unit_value_inv [OF v] unit_value_inv [OF w] by simp
      qed
    qed
  qed simp
  with assms(2,3) show ?thesis by blast
qed

lemma zero_only_units:
  assumes "i \<in> zero_set g inhabited" "has_value g i v"
  shows "only_units v"
proof -
  have "\<forall>v. has_value g i v \<longrightarrow> only_units v"
    using assms(1) unfolding zero_set_def
  proof (rule zero_scan.closure_induct)
    fix i
    assume rule: "zero_rule g inhabited {j. \<forall>v. has_value g j v \<longrightarrow> only_units v} i"
    show "\<forall>v. has_value g i v \<longrightarrow> only_units v"
    proof (intro allI impI)
      fix v
      assume "has_value g i v"
      then show "only_units v"
        using rule by (cases rule: has_value.cases)
          (auto simp: zero_rule_def value_kinds list_all_length list_all2_conv_all_nth split: if_splits)
    qed
  qed simp
  with assms(2) show ?thesis by blast
qed

lemma only_units_zero:
  assumes "has_value g i v" "only_units v"
    and marks: "\<And>j. j < length (recipes_of g) \<Longrightarrow> inhabited ! j \<longleftrightarrow> j \<in> inhabited_set g"
  shows "i \<in> zero_set g inhabited"
  using assms(1,2)
proof (induction rule: has_value.induct)
  case (product_value i vs)
  then have "has_value g i (RProduct vs)"
    by (intro has_value.product_value) (auto elim: list_all2_mono)
  with product_value show ?case
    unfolding zero_set_def
    by (intro zero_scan.closure_rule)
      (auto simp: zero_rule_def marks inhabited_complete list_all_length list_all2_conv_all_nth)
next
  case (wrapped_value i x)
  then have "has_value g i (RWrapped x)" by (intro has_value.wrapped_value)
  with wrapped_value show ?case
    unfolding zero_set_def
    by (intro zero_scan.closure_rule) (auto simp: zero_rule_def value_kinds marks inhabited_complete)
next
  case (unit_value i)
  then have "has_value g i RUnit" by (intro has_value.unit_value)
  with unit_value show ?case
    unfolding zero_set_def
    by (intro zero_scan.closure_rule) (auto simp: zero_rule_def value_kinds marks inhabited_complete)
qed simp_all

lemma noncopy_rule_component:
  "i < length (recipes_of g) \<Longrightarrow> noncopy_rule g X i \<longleftrightarrow> (\<exists>j \<in> X. component g i j)"
  by (cases "kind_of g i") (auto simp: noncopy_rule_def component_def value_kinds list_ex_iff)

lemma noncopy_exact: "i \<in> noncopy_set g \<longleftrightarrow> holds_handle g i"
proof
  assume "i \<in> noncopy_set g"
  then show "holds_handle g i"
    unfolding noncopy_set_def
  proof (rule copy_scan.closure_induct)
    fix i
    assume "i < length (recipes_of g)" "noncopy_rule g {j. holds_handle g j} i"
    then obtain j where "holds_handle g j" "component g i j" by (auto simp: noncopy_rule_component)
    then show "holds_handle g i" unfolding holds_handle_def by (meson converse_rtranclp_into_rtranclp)
  qed (auto simp: holds_handle_def)
next
  assume "holds_handle g i"
  then obtain j where path: "(component g)\<^sup>*\<^sup>* i j" and "is_owned_handle g j"
    by (auto simp: holds_handle_def)
  from path show "i \<in> noncopy_set g"
  proof (induction rule: converse_rtranclp_induct)
    case base
    from \<open>is_owned_handle g j\<close> show ?case
      unfolding noncopy_set_def by (intro copy_scan.closure_first) simp
  next
    case (step i k)
    from step(1) have i: "i < length (recipes_of g)" by (auto simp: component_def)
    with step(1,3) show ?case
      unfolding noncopy_set_def
      by (intro copy_scan.closure_rule) (auto simp: noncopy_rule_component)
  qed
qed

section \<open>The graph is the same before and after\<close>

text \<open>The members that classification writes.\<close>

definition same_shape :: "SolMirRecipe \<Rightarrow> SolMirRecipe \<Rightarrow> bool" where
  "same_shape a b \<longleftrightarrow>
     (\<exists>inhabited zero copy storage copy_kind drop_kind.
       b = a\<lparr> rc_inhabited := inhabited, rc_zero_sized := zero, rc_is_copy := copy,
         rc_storage := storage, rc_copy_kind := copy_kind, rc_drop_kind := drop_kind \<rparr>)"

definition same_shapes :: "SolMirRepresentation \<Rightarrow> SolMirRepresentation \<Rightarrow> bool" where
  "same_shapes g h \<longleftrightarrow>
     rp_fields h = rp_fields g \<and> rp_variants h = rp_variants g \<and>
     rp_materialization h = rp_materialization g \<and> rp_limits h = rp_limits g \<and>
     length (recipes_of h) = length (recipes_of g) \<and>
     (\<forall>i < length (recipes_of g). same_shape (recipes_of g ! i) (recipes_of h ! i))"

lemma same_shape_members:
  "same_shape a b \<Longrightarrow> rc_kind b = rc_kind a"
  "same_shape a b \<Longrightarrow> rc_fields b = rc_fields a"
  "same_shape a b \<Longrightarrow> rc_variants b = rc_variants a"
  "same_shape a b \<Longrightarrow> rc_backing b = rc_backing a"
  by (auto simp: same_shape_def)

lemma has_value_transfer:
  assumes "has_value g i v" "same_shapes g h"
  shows "has_value h i v"
proof -
  have same: "fields_of h = fields_of g" "variants_of h = variants_of g"
    "length (recipes_of h) = length (recipes_of g)"
    using assms(2) by (simp_all add: same_shapes_def)
  have shape: "kind_of h i = kind_of g i" "recipe_fields h i = recipe_fields g i"
    "recipe_variants h i = recipe_variants g i"
    "rc_backing (recipes_of h ! i) = rc_backing (recipes_of g ! i)"
    if "i < length (recipes_of g)" for i
    using that assms(2) same_shape_members [of "recipes_of g ! i" "recipes_of h ! i"]
    by (simp_all add: same_shapes_def recipe_fields_def recipe_variants_def)
  have ft: "field_type h = field_type g" "variant_fields h = variant_fields g"
    by (simp_all add: fun_eq_iff field_type_def variant_fields_def same)
  from assms(1) show ?thesis
  proof (induction rule: has_value.induct)
    case (product_value i vs)
    then show ?case
      by (intro has_value.product_value) (auto simp: same shape ft elim: list_all2_mono)
  next
    case (variant_value i v vs)
    then show ?case
      by (intro has_value.variant_value) (auto simp: same shape ft elim: list_all2_mono)
  qed (auto simp: same shape intro: has_value.intros)
qed

section \<open>What \<open>classify\<close> stores\<close>

definition stored :: "SolMirRecipe \<Rightarrow> bool \<Rightarrow> bool \<Rightarrow> bool \<Rightarrow> SolMirRecipe" where
  "stored recipe inhabited zero copy =
     recipe\<lparr> rc_inhabited := inhabited, rc_zero_sized := zero, rc_is_copy := copy \<rparr>"

definition with_items ::
  "SolMirRepresentation \<Rightarrow> SolMirRecipe list \<Rightarrow> SolMirRepresentationUsage \<Rightarrow> SolMirRepresentation" where
  "with_items g items u = g\<lparr>rp_recipes := (rp_recipes g)\<lparr>ar_items := items\<rparr>, rp_usage := u\<rparr>"

lemma with_items_simps [simp]:
  "recipes_of (with_items g items u) = items"
  "rp_usage (with_items g items u) = u"
  "rp_materialization (with_items g items u) = rp_materialization g"
  "rp_fields (with_items g items u) = rp_fields g"
  "rp_variants (with_items g items u) = rp_variants g"
  "rp_limits (with_items g items u) = rp_limits g"
  "(with_items g items u)\<lparr>rp_usage := v\<rparr> = with_items g items v"
  "update_recipe i f (with_items g items u) = with_items g (items[i := f (items ! i)]) u"
  by (simp_all add: with_items_def update_recipe_def)

lemma with_items_self: "with_items g (recipes_of g) (rp_usage g) = g"
  by (simp add: with_items_def)

lemma with_items_graph: "same_graph (with_items g items u) s \<Longrightarrow> \<exists>v. s = with_items g items v"
  by (auto simp: same_graph_def)

definition facts_inv ::
  "SolMirRepresentation \<Rightarrow> bool list \<Rightarrow> bool list \<Rightarrow> bool list \<Rightarrow> size_t \<Rightarrow> SolMirRepresentation \<Rightarrow> bool" where
  "facts_inv g inhabited zero copy k r \<longleftrightarrow>
     (\<exists>u. r = with_items g (map (\<lambda>j. if j < k
        then stored (recipes_of g ! j) (inhabited ! j) (zero ! j) (copy ! j)
        else recipes_of g ! j) [0 ..< length (recipes_of g)]) u)"

lemma update_map_upt:
  "k < n \<Longrightarrow> (map (\<lambda>j. if j < k then f j else g j) [0 ..< n])[k := f k] =
    map (\<lambda>j. if j < Suc k then f j else g j) [0 ..< n]"
  by (auto intro!: nth_equalityI simp: nth_list_update less_Suc_eq)

lemma facts_inv_step:
  assumes "facts_inv g inhabited zero copy k r" "k < length (recipes_of g)"
    "store_facts inhabited zero copy k r = Inr s"
  shows "facts_inv g inhabited zero copy (Suc k) s"
proof -
  from assms(3) obtain t where "fact_charge r = Inr t"
    and s: "s = update_recipe k (\<lambda>recipe. stored recipe (inhabited ! k) (zero ! k) (copy ! k)) t"
    by (auto simp: store_facts_def stored_def)
  then have "same_graph r t" using rep_charge_graph by blast
  with assms(1) obtain u where "t = with_items g (map (\<lambda>j. if j < k
        then stored (recipes_of g ! j) (inhabited ! j) (zero ! j) (copy ! j)
        else recipes_of g ! j) [0 ..< length (recipes_of g)]) u"
    unfolding facts_inv_def using with_items_graph by blast
  with assms(2) show ?thesis
    by (auto simp: facts_inv_def s update_map_upt
      [where f = "\<lambda>j. stored (recipes_of g ! j) (inhabited ! j) (zero ! j) (copy ! j)"])
qed

definition kinds_inv :: "SolMirRepresentation \<Rightarrow> size_t \<Rightarrow> SolMirRepresentation \<Rightarrow> bool" where
  "kinds_inv g k r \<longleftrightarrow>
     (\<exists>u items. r = with_items g items u \<and>
       length items = length (recipes_of g) \<and>
       (\<forall>j < length items. \<exists>storage copy_kind drop_kind. items ! j = (recipes_of g ! j)
          \<lparr> rc_storage := storage, rc_copy_kind := copy_kind, rc_drop_kind := drop_kind \<rparr>) \<and>
       (\<forall>j < k. rc_is_copy (recipes_of g ! j) = mt_is_copy (mz_types (rp_materialization g) ! j)))"

lemma kinds_self:
  "\<exists>storage copy_kind drop_kind. recipe = recipe
     \<lparr> rc_storage := storage, rc_copy_kind := copy_kind, rc_drop_kind := drop_kind \<rparr>"
  by (rule exI [of _ "rc_storage recipe"], rule exI [of _ "rc_copy_kind recipe"],
    rule exI [of _ "rc_drop_kind recipe"]) simp

lemma storage_for_graph: "storage_for n i r = Inr (storage, s) \<Longrightarrow> same_graph r s"
proof (induction n arbitrary: i r)
  case 0
  then show ?case by (auto dest: rep_charge_graph)
next
  case (Suc n)
  from Suc.prems obtain t where charge: "same_graph r t"
    and rest: "t = s \<or> (\<exists>j. storage_for n j t = Inr (storage, s))"
    by (auto dest!: rep_charge_graph simp: Let_def split: if_splits)
  from rest show ?case
  proof
    assume "\<exists>j. storage_for n j t = Inr (storage, s)"
    with Suc.IH show ?thesis using same_graph_trans [OF charge] by blast
  qed (use charge in simp)
qed

lemma kinds_inv_graph:
  assumes "kinds_inv g k r" "same_graph r s"
  shows "kinds_inv g k s"
  using assms with_items_graph unfolding kinds_inv_def by blast

lemma kinds_inv_step:
  assumes "kinds_inv g k r" "k < length (recipes_of g)" "store_kinds k r = Inr s"
  shows "kinds_inv g (Suc k) s"
proof -
  from assms(3) obtain t storage u where "fact_charge r = Inr t"
    and storage: "storage_for (length (recipes_of t) + 1) k t = Inr (storage, u)"
    and copy: "rc_is_copy (recipes_of t ! k) = mt_is_copy (mz_types (rp_materialization t) ! k)"
    and s: "s = update_recipe k (\<lambda>recipe. recipe\<lparr> rc_storage := storage,
      rc_copy_kind := copy_kind_of recipe, rc_drop_kind := drop_kind_of recipe \<rparr>) u"
    by (auto simp: store_kinds_def simp del: storage_for.simps split: if_splits)
  then have t: "same_graph r t" using rep_charge_graph by blast
  have "kinds_inv g k t" using kinds_inv_graph [OF assms(1) t] .
  with assms(2) copy have agree:
    "rc_is_copy (recipes_of g ! k) = mt_is_copy (mz_types (rp_materialization g) ! k)"
    by (fastforce simp: kinds_inv_def)
  have "kinds_inv g k u"
    using kinds_inv_graph [OF assms(1) same_graph_trans [OF t storage_for_graph [OF storage]]] .
  then obtain v items where u: "u = with_items g items v"
    and len: "length items = length (recipes_of g)"
    and items: "\<forall>j < length items. \<exists>storage copy_kind drop_kind. items ! j = (recipes_of g ! j)
          \<lparr> rc_storage := storage, rc_copy_kind := copy_kind, rc_drop_kind := drop_kind \<rparr>"
    and before: "\<forall>j < k. rc_is_copy (recipes_of g ! j) = mt_is_copy (mz_types (rp_materialization g) ! j)"
    by (auto simp: kinds_inv_def)
  let ?new = "(items ! k)\<lparr> rc_storage := storage, rc_copy_kind := copy_kind_of (items ! k),
    rc_drop_kind := drop_kind_of (items ! k) \<rparr>"
  have "\<exists>storage copy_kind drop_kind. items[k := ?new] ! j = (recipes_of g ! j)
          \<lparr> rc_storage := storage, rc_copy_kind := copy_kind, rc_drop_kind := drop_kind \<rparr>"
    if j: "j < length items" for j
  proof (cases "j = k")
    case True
    obtain x y z where "items ! k = (recipes_of g ! k)
      \<lparr> rc_storage := x, rc_copy_kind := y, rc_drop_kind := z \<rparr>" using items j True by blast
    with True j show ?thesis by (intro exI) simp
  next
    case False
    with items j show ?thesis by simp
  qed
  moreover have "s = with_items g (items[k := ?new]) v"
    by (simp add: s u)
  moreover have "\<forall>j < Suc k. rc_is_copy (recipes_of g ! j) =
      mt_is_copy (mz_types (rp_materialization g) ! j)"
    using before agree by (simp add: less_Suc_eq)
  ultimately show ?thesis
    using len unfolding kinds_inv_def
    by (intro exI [of _ v] exI [of _ "items[k := ?new]"] conjI) simp_all
qed

lemma marks_replicate: "inhabited_scan.marks (replicate n False) = {}"
  by (auto simp: inhabited_scan.marks_def)

lemma marks_start: "copy_scan.marks (map copy_start (recipes_of g)) = {i. is_owned_handle g i}"
  by (auto simp: copy_scan.marks_def copy_start_def is_owned_handle_def)

lemma charges_graph:
  assumes "for_each (\<lambda>i. fact_charge) is r = Inr s"
  shows "same_graph r s"
  using assms
proof (induction "is" arbitrary: r)
  case (Cons i "is")
  then show ?case using rep_charge_graph same_graph_trans by (auto, blast)
qed simp

lemma classify_facts_result:
  assumes "classify_facts g = Inr (inhabited, zero, copy, d)"
  shows "same_graph g d"
    "length inhabited = length (recipes_of g)" "length zero = length (recipes_of g)"
    "length copy = length (recipes_of g)"
    "inhabited_scan.marks inhabited = inhabited_set g"
    "zero_scan.marks zero = zero_set g inhabited"
    "copy_scan.marks copy = noncopy_set g"
proof -
  let ?n = "length (recipes_of g)"
  from assms obtain a b c where
    a: "for_each (\<lambda>i. fact_charge) [0 ..< ?n] g = Inr a"
    and b: "inhabited_facts a = Inr (inhabited, b)"
    and c: "zero_facts inhabited b = Inr (zero, c)"
    and d: "copy_facts (map copy_start (recipes_of g)) c = Inr (copy, d)"
    by (auto simp: classify_facts_def Let_def)
  have ga: "same_graph g a" using charges_graph [OF a] .
  from b ga have "fixed_point False True (\<lambda>i. inhabited_value) (replicate ?n False) a = Inr (inhabited, b)"
    by (simp add: inhabited_facts_def same_graph_fields)
  from inhabited_scan.fixed_point_result [OF ga _ this]
  have gb: "same_graph g b" and "length inhabited = ?n"
    and "inhabited_scan.marks inhabited = inhabited_set g"
    by (simp_all add: marks_replicate inhabited_set_def)
  moreover from c gb
  have "fixed_point False True (\<lambda>i. zero_value (inhabited ! i)) (replicate ?n False) b = Inr (zero, c)"
    by (simp add: zero_facts_def same_graph_fields)
  from zero_scan.fixed_point_result [OF gb _ this]
  have gc: "same_graph g c" and "length zero = ?n" and "zero_scan.marks zero = zero_set g inhabited"
    by (simp_all add: marks_replicate zero_set_def)
  moreover from d
  have "fixed_point True False (\<lambda>i. copy_value) (map copy_start (recipes_of g)) c = Inr (copy, d)"
    by (simp add: copy_facts_def)
  from copy_scan.fixed_point_result [OF gc _ this]
  have "same_graph g d" and "length copy = ?n" and "copy_scan.marks copy = noncopy_set g"
    by (simp_all add: marks_start noncopy_set_def)
  ultimately show "same_graph g d"
    "length inhabited = length (recipes_of g)" "length zero = length (recipes_of g)"
    "length copy = length (recipes_of g)"
    "inhabited_scan.marks inhabited = inhabited_set g"
    "zero_scan.marks zero = zero_set g inhabited"
    "copy_scan.marks copy = noncopy_set g" by simp_all
qed

lemma facts_inv_start: "facts_inv d inhabited zero copy 0 d"
  unfolding facts_inv_def by (rule exI [of _ "rp_usage d"]) (simp add: map_nth with_items_self)

lemma kinds_inv_start: "kinds_inv e 0 e"
  unfolding kinds_inv_def
  by (rule exI [of _ "rp_usage e"], rule exI [of _ "recipes_of e"])
    (simp add: with_items_self kinds_self)

lemma facts_inv_end:
  assumes "facts_inv d inhabited zero copy (length (recipes_of d)) e"
  obtains u where "e = with_items d (map (\<lambda>j. stored (recipes_of d ! j) (inhabited ! j) (zero ! j) (copy ! j))
      [0 ..< length (recipes_of d)]) u"
proof -
  have "map (\<lambda>j. if j < length (recipes_of d)
        then stored (recipes_of d ! j) (inhabited ! j) (zero ! j) (copy ! j)
        else recipes_of d ! j) [0 ..< length (recipes_of d)] =
      map (\<lambda>j. stored (recipes_of d ! j) (inhabited ! j) (zero ! j) (copy ! j))
        [0 ..< length (recipes_of d)]" by simp
  with assms that show thesis by (auto simp: facts_inv_def)
qed

lemma classify_store_result:
  assumes "classify_store (inhabited, zero, copy, d) = Inr h"
  shows "rp_fields h = rp_fields d \<and> rp_variants h = rp_variants d \<and>
      rp_materialization h = rp_materialization d \<and> rp_limits h = rp_limits d \<and>
      length (recipes_of h) = length (recipes_of d)"
    and "i < length (recipes_of d) \<Longrightarrow> \<exists>storage copy_kind drop_kind. recipes_of h ! i =
      (stored (recipes_of d ! i) (inhabited ! i) (zero ! i) (copy ! i))
          \<lparr> rc_storage := storage, rc_copy_kind := copy_kind, rc_drop_kind := drop_kind \<rparr>"
    and "i < length (recipes_of d) \<Longrightarrow> copy ! i = mt_is_copy (mz_types (rp_materialization d) ! i)"
proof -
  let ?n = "length (recipes_of d)"
  from assms obtain e where
    e: "for_each (store_facts inhabited zero copy) [0 ..< ?n] d = Inr e"
    and h: "for_each store_kinds [0 ..< length (recipes_of e)] e = Inr h"
    by (auto simp: classify_store_def)
  have "facts_inv d inhabited zero copy ?n e"
    by (rule for_each_upt [where I = "facts_inv d inhabited zero copy", OF e])
      (rule facts_inv_start, rule facts_inv_step)
  then obtain u where e_eq: "e = with_items d (map (\<lambda>j. stored (recipes_of d ! j) (inhabited ! j) (zero ! j) (copy ! j))
      [0 ..< ?n]) u" by (rule facts_inv_end)
  then have e_len: "length (recipes_of e) = ?n" by simp
  have "kinds_inv e (length (recipes_of e)) h"
    by (rule for_each_upt [where I = "kinds_inv e", OF h]) (rule kinds_inv_start, rule kinds_inv_step)
  then obtain v items where h_eq: "h = with_items e items v" "length items = ?n"
    and items: "\<forall>j < ?n. \<exists>storage copy_kind drop_kind. items ! j = (recipes_of e ! j)
          \<lparr> rc_storage := storage, rc_copy_kind := copy_kind, rc_drop_kind := drop_kind \<rparr>"
    and agree: "\<forall>j < ?n. rc_is_copy (recipes_of e ! j) = mt_is_copy (mz_types (rp_materialization e) ! j)"
    by (auto simp: kinds_inv_def e_len)
  show "rp_fields h = rp_fields d \<and> rp_variants h = rp_variants d \<and>
      rp_materialization h = rp_materialization d \<and> rp_limits h = rp_limits d \<and>
      length (recipes_of h) = length (recipes_of d)"
    by (simp add: h_eq e_eq)
  show "\<exists>storage copy_kind drop_kind. recipes_of h ! i =
      (stored (recipes_of d ! i) (inhabited ! i) (zero ! i) (copy ! i))
          \<lparr> rc_storage := storage, rc_copy_kind := copy_kind, rc_drop_kind := drop_kind \<rparr>"
    if "i < ?n" using that items by (simp add: h_eq e_eq)
  show "copy ! i = mt_is_copy (mz_types (rp_materialization d) ! i)" if "i < ?n"
    using that agree by (simp add: e_eq stored_def)
qed

text \<open>The marks stored for every recipe, in terms of the three fixed points.\<close>

lemma classify_result:
  assumes "classify heap g = Inr h"
  obtains inhabited where
    "same_shapes g h"
    "\<And>i. i < length (recipes_of g) \<Longrightarrow> inhabited ! i \<longleftrightarrow> i \<in> inhabited_set g"
    "\<And>i. i < length (recipes_of g) \<Longrightarrow> rc_inhabited (recipes_of h ! i) \<longleftrightarrow> i \<in> inhabited_set g"
    "\<And>i. i < length (recipes_of g) \<Longrightarrow> rc_zero_sized (recipes_of h ! i) \<longleftrightarrow> i \<in> zero_set g inhabited"
    "\<And>i. i < length (recipes_of g) \<Longrightarrow> rc_is_copy (recipes_of h ! i) \<longleftrightarrow> i \<notin> noncopy_set g"
    "\<And>i. i < length (recipes_of g) \<Longrightarrow>
      rc_is_copy (recipes_of h ! i) = mt_is_copy (mz_types (rp_materialization g) ! i)"
proof -
  let ?n = "length (recipes_of g)"
  from assms obtain inhabited zero copy d where
    "classify_facts g = Inr (inhabited, zero, copy, d)"
    and store: "classify_store (inhabited, zero, copy, d) = Inr h"
    by (auto simp: classify_def split: if_splits)
  note facts = classify_facts_result [OF this(1)]
  note graph = same_graph_fields [OF facts(1)]
  have recipe: "\<exists>storage copy_kind drop_kind. recipes_of h ! i =
      (stored (recipes_of g ! i) (inhabited ! i) (zero ! i) (copy ! i))
          \<lparr> rc_storage := storage, rc_copy_kind := copy_kind, rc_drop_kind := drop_kind \<rparr>"
    if "i < ?n" for i
    using that classify_store_result(2) [OF store, of i] by (simp add: graph)
  have flags: "rc_inhabited (recipes_of h ! i) = inhabited ! i"
    "rc_zero_sized (recipes_of h ! i) = zero ! i" "rc_is_copy (recipes_of h ! i) = copy ! i"
    if "i < ?n" for i
    using recipe [OF that] by (auto simp: stored_def)
  have shape: "same_shape (recipes_of g ! i) (recipes_of h ! i)" if "i < ?n" for i
    using recipe [OF that] unfolding stored_def same_shape_def by blast
  show thesis
  proof (rule that [of inhabited])
    show "same_shapes g h"
      using shape classify_store_result(1) [OF store] by (simp add: same_shapes_def graph)
    fix i assume i: "i < ?n"
    show "inhabited ! i \<longleftrightarrow> i \<in> inhabited_set g"
      using i facts(2) by (simp add: facts(5) [symmetric] inhabited_scan.marks_def)
    then show "rc_inhabited (recipes_of h ! i) \<longleftrightarrow> i \<in> inhabited_set g" by (simp add: flags [OF i])
    show "rc_zero_sized (recipes_of h ! i) \<longleftrightarrow> i \<in> zero_set g inhabited"
      using i facts(3) by (simp add: flags facts(6) [symmetric] zero_scan.marks_def)
    show "rc_is_copy (recipes_of h ! i) \<longleftrightarrow> i \<notin> noncopy_set g"
      using i facts(4) by (simp add: flags facts(7) [symmetric] copy_scan.marks_def)
    show "rc_is_copy (recipes_of h ! i) = mt_is_copy (mz_types (rp_materialization g) ! i)"
      using i classify_store_result(3) [OF store, of i] by (simp add: flags graph)
  qed
qed

section \<open>Classification succeeds\<close>

definition classify_work :: "SolMirRepresentation \<Rightarrow> size_t" where
  "classify_work g =
     (let n = length (recipes_of g); pass = (\<Sum>i < n. 1 + scan_cost g i) in
      n + 3 * ((n + 1) * pass) + n + n * (n + 3))"

lemma charges_total:
  assumes "work_of r + length is \<le> work_limit r" "work_limit r \<le> SIZE_MAX"
  shows "\<exists>s. for_each (\<lambda>i. fact_charge) is r = Inr s \<and> work_of s = work_of r + length is"
  using assms
proof (induction "is" arbitrary: r)
  case (Cons i "is")
  from Cons.prems have "fact_charge r = Inr (add_work 1 r)" by (intro rep_charge_total) simp_all
  with Cons.IH [of "add_work 1 r"] Cons.prems show ?case by auto
qed simp

lemma storage_for_total:
  assumes "work_of r + Suc n \<le> work_limit r" "work_limit r \<le> SIZE_MAX"
  shows "\<exists>storage s. storage_for n i r = Inr (storage, s) \<and> work_of s \<le> work_of r + Suc n"
  using assms
proof (induction n arbitrary: i r)
  case 0
  then have "fact_charge r = Inr (add_work 1 r)" by (intro rep_charge_total) simp_all
  then show ?case by simp
next
  case (Suc n)
  from Suc.prems have charge: "fact_charge r = Inr (add_work 1 r)" by (intro rep_charge_total) simp_all
  have "\<exists>storage s. storage_for n j (add_work 1 r) = Inr (storage, s) \<and>
      work_of s \<le> work_of r + Suc (Suc n)" for j
    using Suc.IH [of "add_work 1 r" j] Suc.prems by auto
  with charge show ?case by (auto simp: Let_def)
qed

lemma store_facts_total:
  assumes "facts_inv d inhabited zero copy k r" "k < length (recipes_of d)"
    "work_of r + 1 \<le> work_limit d" "work_limit d \<le> SIZE_MAX"
  shows "\<exists>s. store_facts inhabited zero copy k r = Inr s \<and> facts_inv d inhabited zero copy (Suc k) s \<and>
      work_of s = work_of r + 1"
proof -
  have "rp_limits r = rp_limits d" using assms(1) by (auto simp: facts_inv_def)
  then have "fact_charge r = Inr (add_work 1 r)" using assms by (intro rep_charge_total) simp_all
  then obtain s where s: "store_facts inhabited zero copy k r = Inr s" "work_of s = work_of r + 1"
    by (auto simp: store_facts_def update_recipe_def)
  with facts_inv_step [OF assms(1,2) s(1)] show ?thesis by blast
qed

lemma store_kinds_total:
  assumes "kinds_inv e k r" "k < length (recipes_of e)"
    "length (recipes_of e) = length (mz_types (rp_materialization e))"
    "rc_is_copy (recipes_of e ! k) = mt_is_copy (mz_types (rp_materialization e) ! k)"
    "work_of r + (length (recipes_of e) + 3) \<le> work_limit e" "work_limit e \<le> SIZE_MAX"
  shows "\<exists>s. store_kinds k r = Inr s \<and> kinds_inv e (Suc k) s \<and>
      work_of s \<le> work_of r + (length (recipes_of e) + 3)"
proof -
  from assms(1) obtain u items where r: "r = with_items e items u" "length items = length (recipes_of e)"
    and items: "\<forall>j < length items. \<exists>storage copy_kind drop_kind. items ! j = (recipes_of e ! j)
          \<lparr> rc_storage := storage, rc_copy_kind := copy_kind, rc_drop_kind := drop_kind \<rparr>"
    by (auto simp: kinds_inv_def)
  have charge: "fact_charge r = Inr (add_work 1 r)"
    using assms(5,6) by (intro rep_charge_total) (simp_all add: r)
  have copy: "rc_is_copy (items ! k) = mt_is_copy (mz_types (rp_materialization e) ! k)"
    using items assms(2,4) r(2) by fastforce
  obtain storage t where st: "storage_for (length (recipes_of r) + 1) k (add_work 1 r) = Inr (storage, t)"
    "work_of t \<le> work_of r + (length (recipes_of e) + 3)"
    using storage_for_total [of "add_work 1 r" "length (recipes_of r) + 1" k] assms(5,6) r by auto
  have "\<exists>s. store_kinds k r = Inr s \<and> work_of s \<le> work_of r + (length (recipes_of e) + 3)"
    using charge st copy assms(2,3) r
    by (auto simp: store_kinds_def update_recipe_def simp del: storage_for.simps)
  with kinds_inv_step [OF assms(1,2)] show ?thesis by blast
qed

lemma store_kinds_refuses:
  assumes "kinds_inv e k r" "k < length (recipes_of e)"
    "length (recipes_of e) = length (mz_types (rp_materialization e))"
    "rc_is_copy (recipes_of e ! k) \<noteq> mt_is_copy (mz_types (rp_materialization e) ! k)"
    "work_of r + (length (recipes_of e) + 3) \<le> work_limit e" "work_limit e \<le> SIZE_MAX"
  shows "store_kinds k r = fixed_point_failed"
proof -
  from assms(1) obtain u items where r: "r = with_items e items u" "length items = length (recipes_of e)"
    and items: "\<forall>j < length items. \<exists>storage copy_kind drop_kind. items ! j = (recipes_of e ! j)
          \<lparr> rc_storage := storage, rc_copy_kind := copy_kind, rc_drop_kind := drop_kind \<rparr>"
    by (auto simp: kinds_inv_def)
  have charge: "fact_charge r = Inr (add_work 1 r)"
    using assms(5,6) by (intro rep_charge_total) (simp_all add: r)
  have "rc_is_copy (items ! k) \<noteq> mt_is_copy (mz_types (rp_materialization e) ! k)"
    using items assms(2,4) r(2) by fastforce
  with charge assms(2,3) r show ?thesis by (simp add: store_kinds_def)
qed

text \<open>A loop whose steps keep \<open>P\<close> or stop with \<open>e\<close>, and then satisfy \<open>Q\<close>, ends with one of the two.\<close>

lemma for_each_outcome:
  assumes "P 0 s" and stop: "stop = Inl e"
    and "\<And>k s. k < n \<Longrightarrow> P k s \<Longrightarrow> f k s = stop \<and> Q k \<or> (\<exists>s'. f k s = Inr s' \<and> P (Suc k) s')"
  shows "for_each f [0 ..< n] s = stop \<and> (\<exists>k < n. Q k) \<or> (\<exists>s'. for_each f [0 ..< n] s = Inr s')"
proof -
  have "for_each f [k ..< n] s = stop \<and> (\<exists>k < n. Q k) \<or> (\<exists>s'. for_each f [k ..< n] s = Inr s')"
    if "k \<le> n" "P k s" for k s
    using that
  proof (induction "n - k" arbitrary: k s)
    case (Suc m)
    then have k: "k < n" by simp
    from assms(3) [OF k Suc.prems(2)]
    consider "f k s = stop" "Q k" | t where "f k s = Inr t" "P (Suc k) t" by blast
    then show ?case
    proof cases
      case 1
      with k stop show ?thesis by (auto simp: upt_rec [of k])
    next
      case 2
      with Suc.hyps k Suc.hyps(1) [of "Suc k" t] show ?thesis by (simp add: upt_rec [of k])
    qed
  qed simp
  with assms(1) show ?thesis by blast
qed

lemma for_each_progress:
  assumes "P 0 s" and "\<And>k s. k < n \<Longrightarrow> P k s \<Longrightarrow> \<exists>s'. f k s = Inr s' \<and> P (Suc k) s'"
  shows "\<exists>s'. for_each f [0 ..< n] s = Inr s' \<and> P n s'"
proof -
  have "\<exists>s'. for_each f [k ..< n] s = Inr s' \<and> P n s'" if "k \<le> n" "P k s" for k s
    using that
  proof (induction "n - k" arbitrary: k s)
    case (Suc m)
    then have k: "k < n" by simp
    with Suc.prems assms(2) obtain t where "f k s = Inr t" "P (Suc k) t" by blast
    with Suc k show ?case by (simp add: upt_rec [of k])
  qed simp
  with assms(1) show ?thesis by blast
qed

lemma classify_facts_total:
  assumes ok: "graph_ok g" and limit: "work_limit g \<le> SIZE_MAX"
    and work: "work_of g + (length (recipes_of g) +
      3 * ((length (recipes_of g) + 1) * (\<Sum>i < length (recipes_of g). 1 + scan_cost g i))) \<le> work_limit g"
  shows "\<exists>inhabited zero copy d. classify_facts g = Inr (inhabited, zero, copy, d) \<and>
      work_of d \<le> work_of g + (length (recipes_of g) +
      3 * ((length (recipes_of g) + 1) * (\<Sum>i < length (recipes_of g). 1 + scan_cost g i)))"
proof -
  let ?n = "length (recipes_of g)"
  define pass where "pass = (\<Sum>i < ?n. 1 + scan_cost g i)"
  have passes: "inhabited_scan.pass_cost g = pass" "zero_scan.pass_cost g = pass"
    "copy_scan.pass_cost g = pass"
    by (simp_all add: pass_def inhabited_scan.pass_cost_def)
  note work = work [folded pass_def]
  obtain a where a: "for_each (\<lambda>i. fact_charge) [0 ..< ?n] g = Inr a" "work_of a = work_of g + ?n"
    using charges_total [of g "[0 ..< ?n]"] work limit by auto
  have ga: "same_graph g a" using charges_graph [OF a(1)] .
  obtain inhabited b where b: "inhabited_facts a = Inr (inhabited, b)"
      "work_of b \<le> work_of a + (?n + 1) * pass"
    using inhabited_scan.fixed_point_total [OF ok limit ga, of "replicate ?n False"] work a(2)
    unfolding passes by (auto simp: inhabited_facts_def same_graph_fields [OF ga])
  have gb: "same_graph g b"
    using inhabited_scan.fixed_point_result [OF ga, of "replicate ?n False"] b(1)
    by (auto simp: inhabited_facts_def same_graph_fields [OF ga])
  obtain zero c where c: "zero_facts inhabited b = Inr (zero, c)"
      "work_of c \<le> work_of b + (?n + 1) * pass"
    using zero_scan.fixed_point_total
      [where inhabited = inhabited, OF ok limit gb, of "replicate ?n False"] work a(2) b(2)
    unfolding passes by (auto simp: zero_facts_def same_graph_fields [OF gb])
  have gc: "same_graph g c"
    using zero_scan.fixed_point_result [OF gb, of "replicate ?n False"] c(1)
    by (auto simp: zero_facts_def same_graph_fields [OF gb])
  obtain copy d where d: "copy_facts (map copy_start (recipes_of g)) c = Inr (copy, d)"
      "work_of d \<le> work_of c + (?n + 1) * pass"
    using copy_scan.fixed_point_total [OF ok limit gc, of "map copy_start (recipes_of g)"]
      work a(2) b(2) c(2)
    unfolding passes by (auto simp: copy_facts_def)
  have "classify_facts g = Inr (inhabited, zero, copy, d)"
    using a b c d by (simp add: classify_facts_def)
  moreover have "work_of d \<le> work_of g + (?n + 3 * ((?n + 1) * pass))"
    using a(2) b(2) c(2) d(2) by simp
  ultimately show ?thesis unfolding pass_def by blast
qed

lemma store_facts_progress:
  assumes "work_of d + length (recipes_of d) \<le> work_limit d" "work_limit d \<le> SIZE_MAX"
  shows "\<exists>e. for_each (store_facts inhabited zero copy) [0 ..< length (recipes_of d)] d = Inr e \<and>
      (facts_inv d inhabited zero copy (length (recipes_of d)) e \<and>
       work_of e = work_of d + length (recipes_of d))"
proof (rule for_each_progress
    [where P = "\<lambda>k r. facts_inv d inhabited zero copy k r \<and> work_of r = work_of d + k"])
  fix k s
  assume "k < length (recipes_of d)" "facts_inv d inhabited zero copy k s \<and> work_of s = work_of d + k"
  then show "\<exists>s'. store_facts inhabited zero copy k s = Inr s' \<and>
      facts_inv d inhabited zero copy (Suc k) s' \<and> work_of s' = work_of d + Suc k"
    using store_facts_total [of d inhabited zero copy k s] assms by fastforce
qed (simp add: facts_inv_start)

lemma store_kinds_outcome:
  assumes "work_of e + length (recipes_of e) * (length (recipes_of e) + 3) \<le> work_limit e"
    "work_limit e \<le> SIZE_MAX" "length (recipes_of e) = length (mz_types (rp_materialization e))"
  shows "for_each store_kinds [0 ..< length (recipes_of e)] e = fixed_point_failed \<and>
      (\<exists>k < length (recipes_of e).
        rc_is_copy (recipes_of e ! k) \<noteq> mt_is_copy (mz_types (rp_materialization e) ! k)) \<or>
    (\<exists>h. for_each store_kinds [0 ..< length (recipes_of e)] e = Inr h)"
proof (rule for_each_outcome [where P = "\<lambda>k r. kinds_inv e k r \<and>
      work_of r \<le> work_of e + k * (length (recipes_of e) + 3)", OF _ fail_def])
  let ?n = "length (recipes_of e)"
  fix k s
  assume k: "k < ?n" and s: "kinds_inv e k s \<and> work_of s \<le> work_of e + k * (?n + 3)"
  have "Suc k * (?n + 3) \<le> ?n * (?n + 3)" using k by (intro mult_right_mono) simp_all
  then have work: "work_of s + (?n + 3) \<le> work_limit e" using s assms(1) by simp
  show "store_kinds k s = fixed_point_failed \<and>
        rc_is_copy (recipes_of e ! k) \<noteq> mt_is_copy (mz_types (rp_materialization e) ! k) \<or>
      (\<exists>s'. store_kinds k s = Inr s' \<and> kinds_inv e (Suc k) s' \<and> work_of s' \<le> work_of e + Suc k * (?n + 3))"
  proof (cases "rc_is_copy (recipes_of e ! k) = mt_is_copy (mz_types (rp_materialization e) ! k)")
    case True
    with k s work store_kinds_total [of e k s] assms(2,3) show ?thesis by fastforce
  next
    case False
    with k s work store_kinds_refuses [of e k s] assms(2,3) show ?thesis by simp
  qed
qed (simp add: kinds_inv_start)

lemma classify_outcome:
  assumes ok: "graph_ok g" and len: "length (recipes_of g) = length (mz_types (rp_materialization g))"
    and heap: "heap HEAP_INHABITED \<noteq> 0" "heap HEAP_ZERO \<noteq> 0" "heap HEAP_COPY \<noteq> 0"
    and work: "work_of g + classify_work g \<le> work_limit g" and limit: "work_limit g \<le> SIZE_MAX"
  shows "classify heap g = fixed_point_failed \<and>
      (\<exists>i < length (recipes_of g). mt_is_copy (mz_types (rp_materialization g) ! i) \<noteq> (i \<notin> noncopy_set g)) \<or>
    (\<exists>h. classify heap g = Inr h)"
proof -
  let ?n = "length (recipes_of g)"
  obtain inhabited zero cp d where scans: "classify_facts g = Inr (inhabited, zero, cp, d)"
    and d_work: "work_of d + ?n + ?n * (?n + 3) \<le> work_limit g"
    using classify_facts_total [OF ok limit] work by (force simp: classify_work_def Let_def)
  note facts = classify_facts_result [OF scans]
  note graph = same_graph_fields [OF facts(1)]
  obtain e where e: "for_each (store_facts inhabited zero cp) [0 ..< length (recipes_of d)] d = Inr e"
    "facts_inv d inhabited zero cp (length (recipes_of d)) e" "work_of e = work_of d + ?n"
    using store_facts_progress [of d inhabited zero cp] d_work limit by (auto simp: graph)
  from facts_inv_end [OF e(2)] obtain u where e_eq: "e = with_items d
      (map (\<lambda>j. stored (recipes_of d ! j) (inhabited ! j) (zero ! j) (cp ! j)) [0 ..< ?n]) u"
    by (auto simp: graph)
  have "rc_is_copy (recipes_of e ! k) \<longleftrightarrow> k \<notin> noncopy_set g" if "k < ?n" for k
    using that facts(4) by (simp add: facts(7) [symmetric] copy_scan.marks_def e_eq stored_def)
  moreover have "for_each store_kinds [0 ..< ?n] e = fixed_point_failed \<and> (\<exists>k < ?n.
        rc_is_copy (recipes_of e ! k) \<noteq> mt_is_copy (mz_types (rp_materialization g) ! k)) \<or>
      (\<exists>h. for_each store_kinds [0 ..< ?n] e = Inr h)"
    using store_kinds_outcome [of e] d_work e(3) limit len by (simp add: e_eq graph)
  moreover have "classify heap g = for_each store_kinds [0 ..< ?n] e"
    using heap scans e(1) by (simp add: classify_def classify_store_def e_eq graph)
  ultimately show ?thesis by auto
qed

section \<open>The meaning of the marks\<close>

lemma same_shape_sym: "same_shape a b \<Longrightarrow> same_shape b a"
proof -
  assume "same_shape a b"
  then have "a = b\<lparr> rc_inhabited := rc_inhabited a, rc_zero_sized := rc_zero_sized a,
    rc_is_copy := rc_is_copy a, rc_storage := rc_storage a, rc_copy_kind := rc_copy_kind a,
    rc_drop_kind := rc_drop_kind a \<rparr>" by (auto simp: same_shape_def)
  then show ?thesis unfolding same_shape_def by blast
qed

lemma same_shapes_sym: "same_shapes g h \<Longrightarrow> same_shapes h g"
  by (auto simp: same_shapes_def intro: same_shape_sym)

lemma has_value_same: "same_shapes g h \<Longrightarrow> has_value h i v \<longleftrightarrow> has_value g i v"
  using has_value_transfer same_shapes_sym by blast

lemma component_same:
  assumes "same_shapes g h"
  shows "component h = component g" "is_owned_handle h = is_owned_handle g"
proof -
  have shape: "kind_of h i = kind_of g i" "recipe_fields h i = recipe_fields g i"
    "recipe_variants h i = recipe_variants g i"
    "rc_backing (recipes_of h ! i) = rc_backing (recipes_of g ! i)"
    if "i < length (recipes_of g)" for i
    using that assms same_shape_members [of "recipes_of g ! i" "recipes_of h ! i"]
    by (simp_all add: same_shapes_def recipe_fields_def recipe_variants_def)
  have "length (recipes_of h) = length (recipes_of g)" "field_type h = field_type g"
    "variant_fields h = variant_fields g"
    using assms by (simp_all add: same_shapes_def fun_eq_iff field_type_def variant_fields_def)
  then show "component h = component g" "is_owned_handle h = is_owned_handle g"
    by (auto simp: fun_eq_iff component_def is_owned_handle_def shape)
qed

lemma zero_set_inhabited: "i \<in> zero_set g inhabited \<Longrightarrow> i < length (recipes_of g) \<and> inhabited ! i"
  unfolding zero_set_def
  by (subst (asm) zero_scan.closure_unfold) (auto simp: zero_rule_def Let_def)

text \<open>
  C9. The marks that a successful \<open>classify\<close> stores on a graph whose indices are in range
  are exact: a recipe is marked inhabited if and only if it has a finite value; it is marked
  zero-sized if and only if it has a value built of units only, in products and wrappers, and
  that value is then its only one, so it needs no storage; and it is marked copyable if and
  only if no owned callable or capability can be reached in it. The copy mark is the one the
  materialized type carries.
\<close>

theorem classify_exact:
  assumes "graph_ok g" "classify heap g = Inr h" "i < length (recipes_of g)"
  shows "(rc_inhabited (recipes_of h ! i) \<longleftrightarrow> (\<exists>v. has_value h i v)) \<and>
    (rc_zero_sized (recipes_of h ! i) \<longleftrightarrow> (\<exists>v. has_value h i v \<and> only_units v)) \<and>
    (rc_zero_sized (recipes_of h ! i) \<longrightarrow> (\<exists>!v. has_value h i v)) \<and>
    (rc_is_copy (recipes_of h ! i) \<longleftrightarrow> \<not> holds_handle h i) \<and>
    rc_is_copy (recipes_of h ! i) = mt_is_copy (mz_types (rp_materialization h) ! i)"
proof (intro conjI impI)
  obtain inhabited where shapes: "same_shapes g h"
    and marks: "\<And>j. j < length (recipes_of g) \<Longrightarrow> inhabited ! j \<longleftrightarrow> j \<in> inhabited_set g"
    and inh: "rc_inhabited (recipes_of h ! i) \<longleftrightarrow> i \<in> inhabited_set g"
    and zero: "rc_zero_sized (recipes_of h ! i) \<longleftrightarrow> i \<in> zero_set g inhabited"
    and copy: "rc_is_copy (recipes_of h ! i) \<longleftrightarrow> i \<notin> noncopy_set g"
      "rc_is_copy (recipes_of h ! i) = mt_is_copy (mz_types (rp_materialization g) ! i)"
    using assms(3) by (rule_tac classify_result [OF assms(2)]) blast
  note same = has_value_same [OF shapes]
  show "rc_inhabited (recipes_of h ! i) \<longleftrightarrow> (\<exists>v. has_value h i v)"
    by (simp add: inh inhabited_exact [OF assms(1)] same)
  have valued: "\<exists>v. has_value g i v" if "i \<in> zero_set g inhabited"
    using that zero_set_inhabited marks inhabited_sound [OF assms(1)] by blast
  show "rc_zero_sized (recipes_of h ! i) \<longleftrightarrow> (\<exists>v. has_value h i v \<and> only_units v)"
    unfolding zero same using valued zero_only_units only_units_zero [OF _ _ marks] by blast
  show "\<exists>!v. has_value h i v" if "rc_zero_sized (recipes_of h ! i)"
    using that valued zero_unique unfolding zero same by blast
  show "rc_is_copy (recipes_of h ! i) \<longleftrightarrow> \<not> holds_handle h i"
    by (simp add: copy(1) noncopy_exact holds_handle_def component_same [OF shapes])
  show "rc_is_copy (recipes_of h ! i) = mt_is_copy (mz_types (rp_materialization h) ! i)"
    using copy(2) shapes by (simp add: same_shapes_def)
qed

lemma sample_graph_ok: "graph_ok sample_populated"
  by code_simp

theorem classify_exact_witness:
  "\<exists>h. classify sample_heap sample_populated = Inr h \<and>
     (rc_inhabited (recipes_of h ! 3) \<longleftrightarrow> (\<exists>v. has_value h 3 v)) \<and>
     (rc_zero_sized (recipes_of h ! 3) \<longleftrightarrow> (\<exists>v. has_value h 3 v \<and> only_units v)) \<and>
     (rc_is_copy (recipes_of h ! 3) \<longleftrightarrow> \<not> holds_handle h 3)"
proof -
  obtain h where "classify sample_heap sample_populated = Inr h" using sample_classifies ..
  with classify_exact [OF sample_graph_ok this, of 3] show ?thesis
    by (auto simp: sample_populated_size)
qed

text \<open>
  C11. Classification is decided: on a graph whose indices are in range, with one recipe per
  materialized type, memory for its three tables and a work limit of at least \<open>classify_work\<close>
  more than the work already done, \<open>classify\<close> succeeds if the copy flags of the materialized
  types say exactly which types hold no owned callable or capability, and otherwise reports
  \<open>INTERNAL_FAILED\<close>. In particular none of its loops runs out of its \<open>count + 1\<close> passes.
\<close>

theorem classify_progress:
  assumes "graph_ok g" "length (recipes_of g) = length (mz_types (rp_materialization g))"
    and "heap HEAP_INHABITED \<noteq> 0" "heap HEAP_ZERO \<noteq> 0" "heap HEAP_COPY \<noteq> 0"
    and "ru_build_work (rp_usage g) + classify_work g \<le> rl_max_build_work (rp_limits g)"
    and "rl_max_build_work (rp_limits g) \<le> SIZE_MAX"
  shows "if \<forall>i < length (recipes_of g).
        mt_is_copy (mz_types (rp_materialization g) ! i) = (\<not> holds_handle g i)
      then \<exists>h. classify heap g = Inr h
      else classify heap g = fail SOL_MIR_REPRESENTATION_BUILD_INTERNAL_FAILED
        ''representation fixed point did not converge or disagreed with Copy''"
proof -
  have agree: "mt_is_copy (mz_types (rp_materialization g) ! i) = (i \<notin> noncopy_set g)"
    if "classify heap g = Inr h" "i < length (recipes_of g)" for h i
    using that(2) by (rule_tac classify_result [OF that(1)]) simp
  from classify_outcome [OF assms] agree show ?thesis by (auto simp: noncopy_exact)
qed

lemma sample_shape:
  "recipe_fields sample_populated (Suc 0) = [0, 1]"
  "recipe_variants sample_populated 3 = [0, 1]" "variant_fields sample_populated 1 = [2]"
  "field_type sample_populated 0 = 0" "field_type sample_populated 1 = 0"
  "field_type sample_populated 2 = 2"
  by code_simp+

lemma sample_kinds:
  "kind_of sample_populated 0 = SOL_MIR_RECIPE_UNIT"
  "kind_of sample_populated (Suc 0) = SOL_MIR_RECIPE_TUPLE"
  "kind_of sample_populated 2 = SOL_MIR_RECIPE_FUNCTION"
  "kind_of sample_populated 3 = SOL_MIR_RECIPE_OPTION"
  by code_simp+

lemma sample_handles:
  "holds_handle sample_populated 2" "holds_handle sample_populated 3"
  "\<not> holds_handle sample_populated 0" "\<not> holds_handle sample_populated (Suc 0)"
proof -
  let ?g = sample_populated
  have two: "is_owned_handle ?g 2"
    by (simp add: is_owned_handle_def sample_populated_size sample_kinds)
  then show "holds_handle ?g 2" unfolding holds_handle_def by blast
  have "component ?g 3 2"
    using sample_shape by (simp add: component_def sample_populated_size sample_kinds)
  with two show "holds_handle ?g 3" unfolding holds_handle_def by blast
  have none: "\<not> component ?g 0 j" for j
    by (simp add: component_def sample_kinds value_kinds)
  have one: "component ?g (Suc 0) j \<Longrightarrow> j = 0" for j
    using sample_shape by (auto simp: component_def sample_kinds value_kinds)
  have zero: "j = 0" if "(component ?g)\<^sup>*\<^sup>* 0 j" for j
    by (rule converse_rtranclpE [OF that]) (auto simp: none)
  have few: "j = 0 \<or> j = Suc 0" if "(component ?g)\<^sup>*\<^sup>* (Suc 0) j" for j
    by (rule converse_rtranclpE [OF that]) (auto dest: one zero)
  have "\<not> is_owned_handle ?g 0" "\<not> is_owned_handle ?g (Suc 0)"
    by (simp_all add: is_owned_handle_def sample_kinds)
  then show "\<not> holds_handle ?g 0" "\<not> holds_handle ?g (Suc 0)"
    unfolding holds_handle_def using zero few by metis+
qed

theorem classify_progress_witness:
  "\<exists>h. classify sample_heap sample_populated = Inr h"
proof -
  have "map mt_is_copy (mz_types (rp_materialization sample_populated)) = [True, True, False, False]"
    "length (mz_types (rp_materialization sample_populated)) = 4"
    by code_simp+
  then have flags: "mt_is_copy (mz_types (rp_materialization sample_populated) ! i) = (\<not> holds_handle sample_populated i)"
    if "i < length (recipes_of sample_populated)" for i
  proof -
    have "i = 0 \<or> i = 1 \<or> i = 2 \<or> i = 3" using that by (auto simp: sample_populated_size)
    with \<open>map mt_is_copy _ = _\<close> \<open>length _ = 4\<close> sample_handles show ?thesis
      by (auto simp: list_eq_iff_nth_eq nth_Cons')
  qed
  have "length (recipes_of sample_populated) = length (mz_types (rp_materialization sample_populated))"
    "sample_heap HEAP_INHABITED \<noteq> 0" "sample_heap HEAP_ZERO \<noteq> 0" "sample_heap HEAP_COPY \<noteq> 0"
    "ru_build_work (rp_usage sample_populated) + classify_work sample_populated
       \<le> rl_max_build_work (rp_limits sample_populated)"
    "rl_max_build_work (rp_limits sample_populated) \<le> SIZE_MAX"
    by code_simp+
  from classify_progress [OF sample_graph_ok this] flags show ?thesis by simp
qed

end
