(* ===== verification/Sol_Layout.thy ===== *)
theory Sol_Layout
  imports Sol_Representation
begin

text \<open>
  \<open>src/src/mir_layout.c\<close>: from recipes to sizes, alignments and offsets on a target. The
  builder gives every recipe a value layout (what a field of that type occupies) and, where
  values live on the heap, an object layout (product, sum, text, callable or capability
  header); it lays the fields of products and of the variants of sums out in source order
  and maps every projection of a place to the offset of its field. Byte counts are 64-bit
  words with the source's overflow tests; \<open>sol_mir_representation_validate\<close> is an argument.
\<close>

unbundle bit_operations_syntax

section \<open>Targets\<close>

type_synonym uint64_t = "64 word"

datatype SolMirEndianness = SOL_MIR_ENDIAN_LITTLE | SOL_MIR_ENDIAN_BIG

record SolMirTargetDescriptor =
  td_pointer_size :: uint64_t
  td_pointer_alignment :: uint64_t
  td_int64_alignment :: uint64_t
  td_endianness :: SolMirEndianness
  td_max_object_bytes :: uint64_t

definition UINT64_MAX :: uint64_t where
  "UINT64_MAX = 18446744073709551615"

definition UINT32_MAX :: uint64_t where
  "UINT32_MAX = 4294967295"

definition checked_add_u64 :: "uint64_t \<Rightarrow> uint64_t \<Rightarrow> uint64_t option" where
  "checked_add_u64 left right = (if right > UINT64_MAX - left then None else Some (left + right))"

definition align_u64 :: "uint64_t \<Rightarrow> uint64_t \<Rightarrow> uint64_t option" where
  "align_u64 v alignment =
     (let mask = alignment - 1 in
      if v > UINT64_MAX - mask then None else Some ((v + mask) AND NOT mask))"

definition power_of_two :: "uint64_t \<Rightarrow> bool" where
  "power_of_two v \<longleftrightarrow> v \<noteq> 0 \<and> v AND (v - 1) = 0"

definition sol_mir_target_descriptor_validate :: "SolMirTargetDescriptor \<Rightarrow> bool" where
  "sol_mir_target_descriptor_validate target \<longleftrightarrow>
     (td_pointer_size target = 4 \<or> td_pointer_size target = 8) \<and>
     power_of_two (td_pointer_alignment target) \<and>
     td_pointer_size target mod td_pointer_alignment target = 0 \<and>
     power_of_two (td_int64_alignment target) \<and>
     8 mod td_int64_alignment target = 0 \<and>
     td_max_object_bytes target \<noteq> 0 \<and>
     td_max_object_bytes target \<le> (if td_pointer_size target = 4 then UINT32_MAX else UINT64_MAX)"

definition sol_mir_target_wasm32 :: SolMirTargetDescriptor where
  "sol_mir_target_wasm32 =
     \<lparr> td_pointer_size = 4, td_pointer_alignment = 4, td_int64_alignment = 8,
       td_endianness = SOL_MIR_ENDIAN_LITTLE, td_max_object_bytes = UINT32_MAX \<rparr>"

section \<open>Layouts\<close>

datatype SolMirLayoutObjectKind =
    SOL_MIR_LAYOUT_OBJECT_NONE | SOL_MIR_LAYOUT_OBJECT_PRODUCT | SOL_MIR_LAYOUT_OBJECT_SUM
  | SOL_MIR_LAYOUT_OBJECT_TEXT | SOL_MIR_LAYOUT_OBJECT_CALLABLE
  | SOL_MIR_LAYOUT_OBJECT_CAPABILITY

definition SOL_MIR_LAYOUT_OFFSET_NONE :: uint64_t where
  "SOL_MIR_LAYOUT_OFFSET_NONE = UINT64_MAX"

record SolMirTypeLayout =
  tl_recipe :: size_t
  tl_value_size :: uint64_t
  tl_value_alignment :: uint64_t
  tl_object_kind :: SolMirLayoutObjectKind
  tl_has_object :: bool
  tl_object_size :: uint64_t
  tl_object_alignment :: uint64_t
  tl_tail_padding :: uint64_t
  tl_tag_offset :: uint64_t
  tl_tag_size :: uint64_t
  tl_payload_offset :: uint64_t
  tl_payload_size :: uint64_t
  tl_data_handle_offset :: uint64_t
  tl_length_offset :: uint64_t
  tl_target_token_offset :: uint64_t
  tl_environment_handle_offset :: uint64_t
  tl_root_token_offset :: uint64_t
  tl_private_source_handle_offset :: uint64_t

record SolMirFieldLayout =
  fl_field :: size_t
  fl_owner_recipe :: size_t
  fl_variant :: size_t
  fl_has_storage :: bool
  fl_offset :: uint64_t
  fl_size :: uint64_t
  fl_alignment :: uint64_t
  fl_padding_before :: uint64_t

record SolMirVariantLayout =
  vl_variant :: size_t
  vl_owner_recipe :: size_t
  vl_tag :: "32 word"
  vl_inhabited :: bool
  vl_has_payload_storage :: bool
  vl_payload_size :: uint64_t
  vl_payload_alignment :: uint64_t
  vl_tail_padding :: uint64_t

record SolMirProjectionMap =
  pm_projection :: size_t
  pm_place :: size_t
  pm_base_recipe :: size_t
  pm_result_recipe :: size_t
  pm_field_layout :: size_t
  pm_object_offset :: uint64_t

record SolMirLayoutLimits =
  ll_max_type_layouts :: size_t
  ll_max_field_layouts :: size_t
  ll_max_variant_layouts :: size_t
  ll_max_projection_maps :: size_t
  ll_max_owned_bytes :: size_t
  ll_max_build_scratch_bytes :: size_t
  ll_max_build_work :: size_t
  ll_max_validation_scratch_bytes :: size_t
  ll_max_validation_work :: size_t

record SolMirLayoutUsage =
  lu_type_layouts :: size_t
  lu_field_layouts :: size_t
  lu_variant_layouts :: size_t
  lu_projection_maps :: size_t
  lu_owned_bytes :: size_t
  lu_build_scratch_bytes :: size_t
  lu_build_work :: size_t
  lu_validation_scratch_bytes :: size_t
  lu_validation_work :: size_t

record SolMirLayout =
  ly_representation :: SolMirRepresentation
  ly_target :: SolMirTargetDescriptor
  ly_types :: "SolMirTypeLayout arena"
  ly_fields :: "SolMirFieldLayout arena"
  ly_variants :: "SolMirVariantLayout arena"
  ly_projections :: "SolMirProjectionMap arena"
  ly_limits :: SolMirLayoutLimits
  ly_usage :: SolMirLayoutUsage

datatype SolMirLayoutBuildOutcome =
    SOL_MIR_LAYOUT_BUILD_SUCCEEDED | SOL_MIR_LAYOUT_BUILD_INVALID_ARGUMENT
  | SOL_MIR_LAYOUT_BUILD_INVALID_REPRESENTATION | SOL_MIR_LAYOUT_BUILD_INVALID_TARGET
  | SOL_MIR_LAYOUT_BUILD_UNSUPPORTED | SOL_MIR_LAYOUT_BUILD_RESOURCE_EXHAUSTED
  | SOL_MIR_LAYOUT_BUILD_ALLOCATION_FAILED | SOL_MIR_LAYOUT_BUILD_INTERNAL_FAILED

definition sol_mir_layout_default_limits :: SolMirLayoutLimits where
  "sol_mir_layout_default_limits =
     \<lparr> ll_max_type_layouts = 12000000, ll_max_field_layouts = 24000000,
       ll_max_variant_layouts = 12000000, ll_max_projection_maps = 24000000,
       ll_max_owned_bytes = 768 * 1024 * 1024, ll_max_build_scratch_bytes = 128 * 1024 * 1024,
       ll_max_build_work = 100000000, ll_max_validation_scratch_bytes = 896 * 1024 * 1024,
       ll_max_validation_work = 1000000000 \<rparr>"

definition layout_limits_zero :: "SolMirLayoutLimits \<Rightarrow> bool" where
  "layout_limits_zero l \<longleftrightarrow>
     ll_max_type_layouts l = 0 \<and> ll_max_field_layouts l = 0 \<and> ll_max_variant_layouts l = 0 \<and>
     ll_max_projection_maps l = 0 \<and> ll_max_owned_bytes l = 0 \<and>
     ll_max_build_scratch_bytes l = 0 \<and> ll_max_build_work l = 0 \<and>
     ll_max_validation_scratch_bytes l = 0 \<and> ll_max_validation_work l = 0"

definition layout_limits_complete :: "SolMirLayoutLimits \<Rightarrow> bool" where
  "layout_limits_complete l \<longleftrightarrow>
     ll_max_type_layouts l \<noteq> 0 \<and> ll_max_field_layouts l \<noteq> 0 \<and> ll_max_variant_layouts l \<noteq> 0 \<and>
     ll_max_projection_maps l \<noteq> 0 \<and> ll_max_owned_bytes l \<noteq> 0 \<and>
     ll_max_build_scratch_bytes l \<noteq> 0 \<and> ll_max_build_work l \<noteq> 0 \<and>
     ll_max_validation_scratch_bytes l \<noteq> 0 \<and> ll_max_validation_work l \<noteq> 0"

definition blank_type :: "size_t \<Rightarrow> SolMirTypeLayout" where
  "blank_type i =
     \<lparr> tl_recipe = i, tl_value_size = 0, tl_value_alignment = 1,
       tl_object_kind = SOL_MIR_LAYOUT_OBJECT_NONE, tl_has_object = False, tl_object_size = 0,
       tl_object_alignment = 1, tl_tail_padding = 0, tl_tag_offset = SOL_MIR_LAYOUT_OFFSET_NONE,
       tl_tag_size = 0, tl_payload_offset = SOL_MIR_LAYOUT_OFFSET_NONE, tl_payload_size = 0,
       tl_data_handle_offset = SOL_MIR_LAYOUT_OFFSET_NONE,
       tl_length_offset = SOL_MIR_LAYOUT_OFFSET_NONE,
       tl_target_token_offset = SOL_MIR_LAYOUT_OFFSET_NONE,
       tl_environment_handle_offset = SOL_MIR_LAYOUT_OFFSET_NONE,
       tl_root_token_offset = SOL_MIR_LAYOUT_OFFSET_NONE,
       tl_private_source_handle_offset = SOL_MIR_LAYOUT_OFFSET_NONE \<rparr>"

text \<open>The field record without storage, and the one with storage.\<close>

definition shape_field :: "size_t \<Rightarrow> size_t \<Rightarrow> size_t \<Rightarrow> SolMirFieldLayout" where
  "shape_field field owner variant =
     \<lparr> fl_field = field, fl_owner_recipe = owner, fl_variant = variant, fl_has_storage = False,
       fl_offset = 0, fl_size = 0, fl_alignment = 1, fl_padding_before = 0 \<rparr>"

definition stored_field ::
  "size_t \<Rightarrow> size_t \<Rightarrow> size_t \<Rightarrow> uint64_t \<Rightarrow> uint64_t \<Rightarrow> SolMirTypeLayout \<Rightarrow> SolMirFieldLayout" where
  "stored_field field owner variant previous offset v =
     \<lparr> fl_field = field, fl_owner_recipe = owner, fl_variant = variant, fl_has_storage = True,
       fl_offset = offset, fl_size = tl_value_size v, fl_alignment = tl_value_alignment v,
       fl_padding_before = offset - previous \<rparr>"

definition max_u64 :: "uint64_t \<Rightarrow> uint64_t \<Rightarrow> uint64_t" where
  "max_u64 a b = (if b > a then b else a)"

section \<open>The builder\<close>

text \<open>\<open>object_state\<close> is 0, 1 or 2 in the source.\<close>

datatype ObjectState = Unvisited | Active | Finished

record LayoutBuilder =
  lb_out :: SolMirLayout
  lb_object_state :: "ObjectState list"

type_synonym 'a layout_result = "SolMirLayoutBuildOutcome stop + 'a"

abbreviation lb_recipes :: "LayoutBuilder \<Rightarrow> SolMirRecipe list" where
  "lb_recipes b \<equiv> recipes_of (ly_representation (lb_out b))"

abbreviation lb_target :: "LayoutBuilder \<Rightarrow> SolMirTargetDescriptor" where
  "lb_target b \<equiv> ly_target (lb_out b)"

abbreviation lb_types :: "LayoutBuilder \<Rightarrow> SolMirTypeLayout list" where
  "lb_types b \<equiv> ar_items (ly_types (lb_out b))"

abbreviation lb_fields :: "LayoutBuilder \<Rightarrow> SolMirFieldLayout list" where
  "lb_fields b \<equiv> ar_items (ly_fields (lb_out b))"

abbreviation lb_variants :: "LayoutBuilder \<Rightarrow> SolMirVariantLayout list" where
  "lb_variants b \<equiv> ar_items (ly_variants (lb_out b))"

definition set_types :: "SolMirTypeLayout list \<Rightarrow> LayoutBuilder \<Rightarrow> LayoutBuilder" where
  "set_types xs b = b\<lparr>lb_out := (lb_out b)\<lparr>ly_types := (ly_types (lb_out b))\<lparr>ar_items := xs\<rparr>\<rparr>\<rparr>"

definition set_fields :: "SolMirFieldLayout list \<Rightarrow> LayoutBuilder \<Rightarrow> LayoutBuilder" where
  "set_fields xs b = b\<lparr>lb_out := (lb_out b)\<lparr>ly_fields := (ly_fields (lb_out b))\<lparr>ar_items := xs\<rparr>\<rparr>\<rparr>"

definition set_variants :: "SolMirVariantLayout list \<Rightarrow> LayoutBuilder \<Rightarrow> LayoutBuilder" where
  "set_variants xs b =
     b\<lparr>lb_out := (lb_out b)\<lparr>ly_variants := (ly_variants (lb_out b))\<lparr>ar_items := xs\<rparr>\<rparr>\<rparr>"

definition set_projections :: "SolMirProjectionMap list \<Rightarrow> LayoutBuilder \<Rightarrow> LayoutBuilder" where
  "set_projections xs b =
     b\<lparr>lb_out := (lb_out b)\<lparr>ly_projections := (ly_projections (lb_out b))\<lparr>ar_items := xs\<rparr>\<rparr>\<rparr>"

definition put_type :: "size_t \<Rightarrow> SolMirTypeLayout \<Rightarrow> LayoutBuilder \<Rightarrow> LayoutBuilder layout_result" where
  "put_type i t b = andThen (put_at (lb_types b) i t) (\<lambda>xs. Inr (set_types xs b))"

definition put_field :: "size_t \<Rightarrow> SolMirFieldLayout \<Rightarrow> LayoutBuilder \<Rightarrow> LayoutBuilder layout_result" where
  "put_field i f b = andThen (put_at (lb_fields b) i f) (\<lambda>xs. Inr (set_fields xs b))"

definition put_variant ::
  "size_t \<Rightarrow> SolMirVariantLayout \<Rightarrow> LayoutBuilder \<Rightarrow> LayoutBuilder layout_result" where
  "put_variant i v b = andThen (put_at (lb_variants b) i v) (\<lambda>xs. Inr (set_variants xs b))"

definition exhausted :: "string \<Rightarrow> 'a layout_result" where
  "exhausted message = fail SOL_MIR_LAYOUT_BUILD_RESOURCE_EXHAUSTED message"

definition layout_charge :: "string \<Rightarrow> LayoutBuilder \<Rightarrow> LayoutBuilder layout_result" where
  "layout_charge message b =
     (case checked_add_size (lu_build_work (ly_usage (lb_out b))) 1 of
        None \<Rightarrow> exhausted message
      | Some work \<Rightarrow>
          if work \<le> ll_max_build_work (ly_limits (lb_out b))
          then Inr (b\<lparr>lb_out := (lb_out b)\<lparr>ly_usage := (ly_usage (lb_out b))
            \<lparr>lu_build_work := work\<rparr>\<rparr>\<rparr>)
          else exhausted message)"

subsection \<open>Values\<close>

text \<open>The loop over the wrappers, with the iterations that are left.\<close>

primrec wrapper_layout ::
  "nat \<Rightarrow> size_t \<Rightarrow> LayoutBuilder \<Rightarrow> (uint64_t \<times> uint64_t \<times> LayoutBuilder) layout_result" where
  "wrapper_layout 0 current b =
     fail SOL_MIR_LAYOUT_BUILD_UNSUPPORTED ''layout wrapper cycle is not representable''"
| "wrapper_layout (Suc depth) current b =
     andThen (layout_charge ''layout wrapper work limit exceeded'' b) (\<lambda>b.
     andThen (at (lb_recipes b) current) (\<lambda>item.
     if is_wrapper (rc_kind item) then
       if rc_backing item \<ge> length (lb_recipes b)
       then fail SOL_MIR_LAYOUT_BUILD_INVALID_REPRESENTATION ''layout wrapper backing is invalid''
       else wrapper_layout depth (rc_backing item) b
     else if rc_kind item = SOL_MIR_RECIPE_INT64 then Inr (8, td_int64_alignment (lb_target b), b)
     else if rc_kind item = SOL_MIR_RECIPE_BOOL then Inr (1, 1, b)
     else Inr (td_pointer_size (lb_target b), td_pointer_alignment (lb_target b), b)))"

definition value_layout :: "size_t \<Rightarrow> LayoutBuilder \<Rightarrow> LayoutBuilder layout_result" where
  "value_layout i b =
     andThen (layout_charge ''layout build work limit exceeded'' b) (\<lambda>b.
     andThen (at (lb_recipes b) i) (\<lambda>recipe.
     andThen (put_type i (blank_type i) b) (\<lambda>b.
     if \<not> rc_inhabited recipe \<or> rc_zero_sized recipe then Inr b
     else
       andThen (wrapper_layout (length (lb_recipes b) + 1) i b) (\<lambda>(bytes, alignment, b).
       put_type i ((blank_type i)\<lparr> tl_value_size := bytes, tl_value_alignment := alignment \<rparr>) b))))"

subsection \<open>Objects\<close>

definition finish_object ::
  "SolMirTargetDescriptor \<Rightarrow> SolMirTypeLayout \<Rightarrow> uint64_t \<Rightarrow> uint64_t \<Rightarrow> SolMirTypeLayout layout_result" where
  "finish_object target layout stop alignment =
     (case align_u64 stop alignment of
        None \<Rightarrow> exhausted ''layout object size overflow or target bound exceeded''
      | Some bytes \<Rightarrow>
          if bytes > td_max_object_bytes target
          then exhausted ''layout object size overflow or target bound exceeded''
          else Inr (layout\<lparr> tl_has_object := True, tl_object_size := bytes,
            tl_object_alignment := alignment, tl_tail_padding := bytes - stop \<rparr>))"

definition header_object ::
  "SolMirTargetDescriptor \<Rightarrow> SolMirTypeLayout \<Rightarrow> SolMirLayoutObjectKind \<Rightarrow> uint64_t \<Rightarrow>
   SolMirTypeLayout layout_result" where
  "header_object target layout kind n =
     (if n > UINT64_MAX div td_pointer_size target
      then exhausted ''layout header arithmetic overflowed''
      else case checked_add_u64 0 (n * td_pointer_size target) of
        None \<Rightarrow> exhausted ''layout header arithmetic overflowed''
      | Some stop \<Rightarrow>
          finish_object target (layout\<lparr>tl_object_kind := kind\<rparr>) stop (td_pointer_alignment target))"

text \<open>Aligning the running end to a value and moving past it.\<close>

definition place_value :: "uint64_t \<Rightarrow> SolMirTypeLayout \<Rightarrow> (uint64_t \<times> uint64_t) option" where
  "place_value stop v =
     (case align_u64 stop (tl_value_alignment v) of
        None \<Rightarrow> None
      | Some offset \<Rightarrow>
          (case checked_add_u64 offset (tl_value_size v) of
             None \<Rightarrow> None
           | Some stop' \<Rightarrow> Some (offset, stop')))"

type_synonym pack_state = "uint64_t \<times> uint64_t \<times> LayoutBuilder"

definition pack_field ::
  "string \<Rightarrow> string \<Rightarrow> bool \<Rightarrow> size_t \<Rightarrow> size_t \<Rightarrow> size_t \<Rightarrow> pack_state \<Rightarrow> pack_state layout_result" where
  "pack_field work_message overflow_message physical owner variant field_id =
     (\<lambda>(stop, alignment, b).
     andThen (layout_charge work_message b) (\<lambda>b.
     andThen (at (fields_of (ly_representation (lb_out b))) field_id) (\<lambda>field.
     if \<not> physical then
       andThen (put_field field_id (shape_field field_id owner variant) b)
         (\<lambda>b. Inr (stop, alignment, b))
     else
       andThen (at (lb_types b) (rf_type field)) (\<lambda>v.
       case place_value stop v of
         None \<Rightarrow> exhausted overflow_message
       | Some (offset, stop') \<Rightarrow>
           andThen (put_field field_id (stored_field field_id owner variant stop offset v) b)
             (\<lambda>b. Inr (stop', max_u64 alignment (tl_value_alignment v), b))))))"

definition layout_product :: "size_t \<Rightarrow> LayoutBuilder \<Rightarrow> LayoutBuilder layout_result" where
  "layout_product i b =
     andThen (at (lb_recipes b) i) (\<lambda>recipe.
     let physical = rc_inhabited recipe \<and> \<not> rc_zero_sized recipe in
     andThen (for_each (pack_field ''layout product work limit exceeded''
         ''layout product arithmetic overflowed'' physical i SIZE_MAX)
       (slice_ids (rc_fields recipe)) (0, 1, b)) (\<lambda>(stop, alignment, b).
     if \<not> physical then Inr b
     else
       andThen (at (lb_types b) i) (\<lambda>layout.
       andThen (finish_object (lb_target b)
         (layout\<lparr>tl_object_kind := SOL_MIR_LAYOUT_OBJECT_PRODUCT\<rparr>) stop alignment)
         (\<lambda>layout. put_type i layout b))))"

primrec fields_inhabited :: "SolMirRepresentation \<Rightarrow> size_t list \<Rightarrow> bool layout_result" where
  "fields_inhabited r [] = Inr True"
| "fields_inhabited r (f # fs) =
     andThen (at (fields_of r) f) (\<lambda>field.
     andThen (at (recipes_of r) (rf_type field)) (\<lambda>recipe.
     if rc_inhabited recipe then fields_inhabited r fs else Inr False))"

definition variant_inhabited ::
  "SolMirRepresentation \<Rightarrow> SolMirRecipeVariant \<Rightarrow> bool layout_result" where
  "variant_inhabited r variant = fields_inhabited r (slice_ids (rv_fields variant))"

definition layout_variant :: "size_t \<Rightarrow> size_t \<Rightarrow> pack_state \<Rightarrow> pack_state layout_result" where
  "layout_variant owner variant_id = (\<lambda>(maximum_size, maximum_alignment, b).
     andThen (layout_charge ''layout sum work limit exceeded'' b) (\<lambda>b.
     andThen (at (variants_of (ly_representation (lb_out b))) variant_id) (\<lambda>variant.
     if rv_semantic_tag variant > 4294967295
     then fail SOL_MIR_LAYOUT_BUILD_UNSUPPORTED ''layout sum tag exceeds u32''
     else
       andThen (variant_inhabited (ly_representation (lb_out b)) variant) (\<lambda>inhabited.
       andThen (for_each (pack_field ''layout variant work limit exceeded''
           ''layout variant arithmetic overflowed'' inhabited owner variant_id)
         (slice_ids (rv_fields variant)) (0, 1, b)) (\<lambda>(stop, alignment, b).
       case align_u64 stop alignment of
         None \<Rightarrow> exhausted ''layout variant tail padding overflowed''
       | Some payload_size \<Rightarrow>
           andThen (put_variant variant_id
             \<lparr> vl_variant = variant_id, vl_owner_recipe = owner,
               vl_tag = of_nat (rv_semantic_tag variant), vl_inhabited = inhabited,
               vl_has_payload_storage = inhabited, vl_payload_size = payload_size,
               vl_payload_alignment = alignment, vl_tail_padding = payload_size - stop \<rparr> b) (\<lambda>b.
           Inr (if inhabited then (max_u64 maximum_size payload_size,
                  max_u64 maximum_alignment alignment, b)
                else (maximum_size, maximum_alignment, b))))))))"

definition shift_field :: "uint64_t \<Rightarrow> size_t \<Rightarrow> LayoutBuilder \<Rightarrow> LayoutBuilder layout_result" where
  "shift_field payload_offset field_id b =
     andThen (at (lb_fields b) field_id) (\<lambda>field.
     case checked_add_u64 (fl_offset field) payload_offset of
       None \<Rightarrow> exhausted ''layout absolute field offset overflowed''
     | Some offset \<Rightarrow> put_field field_id (field\<lparr>fl_offset := offset\<rparr>) b)"

definition shift_variant :: "uint64_t \<Rightarrow> size_t \<Rightarrow> LayoutBuilder \<Rightarrow> LayoutBuilder layout_result" where
  "shift_variant payload_offset variant_id b =
     andThen (at (variants_of (ly_representation (lb_out b))) variant_id) (\<lambda>variant.
     andThen (at (lb_variants b) variant_id) (\<lambda>layout.
     if \<not> vl_has_payload_storage layout then Inr b
     else for_each (shift_field payload_offset) (slice_ids (rv_fields variant)) b))"

definition layout_sum :: "size_t \<Rightarrow> LayoutBuilder \<Rightarrow> LayoutBuilder layout_result" where
  "layout_sum i b =
     andThen (at (lb_recipes b) i) (\<lambda>recipe.
     andThen (for_each (layout_variant i) (slice_ids (rc_variants recipe)) (0, 1, b))
       (\<lambda>(maximum_size, maximum_alignment, b).
     if \<not> rc_inhabited recipe then Inr b
     else
       case align_u64 4 maximum_alignment of
         None \<Rightarrow> exhausted ''layout sum arithmetic overflowed''
       | Some payload_offset \<Rightarrow>
           (case checked_add_u64 payload_offset maximum_size of
              None \<Rightarrow> exhausted ''layout sum arithmetic overflowed''
            | Some stop \<Rightarrow>
                andThen (for_each (shift_variant payload_offset) (slice_ids (rc_variants recipe)) b)
                  (\<lambda>b.
                andThen (at (lb_types b) i) (\<lambda>layout.
                andThen (finish_object (lb_target b)
                  (layout\<lparr> tl_object_kind := SOL_MIR_LAYOUT_OBJECT_SUM, tl_tag_offset := 0,
                    tl_tag_size := 4, tl_payload_offset := payload_offset,
                    tl_payload_size := maximum_size \<rparr>)
                  stop (if maximum_alignment > 4 then maximum_alignment else 4))
                  (\<lambda>layout. put_type i layout b))))))"

subsection \<open>Recursion over the recipes\<close>

definition has_environment :: "size_t \<Rightarrow> SolMirCallableProducer \<Rightarrow> bool" where
  "has_environment i producer \<longleftrightarrow>
     cp_function_recipe producer = i \<and> cp_kind producer = SOL_MIR_CALLABLE_PRODUCER_BOUND_OPERATION"

definition scan_producers :: "size_t \<Rightarrow> LayoutBuilder \<Rightarrow> (bool \<times> LayoutBuilder) layout_result" where
  "scan_producers i b =
     for_each (\<lambda>producer (environment, b).
         andThen (layout_charge ''layout callable producer work limit exceeded'' b)
           (\<lambda>b. Inr (environment \<or> has_environment i producer, b)))
       (producers_of (ly_representation (lb_out b))) (False, b)"

definition text_object :: "SolMirTargetDescriptor \<Rightarrow> SolMirTypeLayout \<Rightarrow> SolMirTypeLayout layout_result" where
  "text_object target layout =
     andThen (header_object target layout SOL_MIR_LAYOUT_OBJECT_TEXT 2) (\<lambda>layout.
     Inr (layout\<lparr> tl_data_handle_offset := 0, tl_length_offset := td_pointer_size target \<rparr>))"

definition callable_object ::
  "SolMirTargetDescriptor \<Rightarrow> bool \<Rightarrow> SolMirTypeLayout \<Rightarrow> SolMirTypeLayout layout_result" where
  "callable_object target environment layout =
     andThen (header_object target layout SOL_MIR_LAYOUT_OBJECT_CALLABLE
       (if environment then 2 else 1)) (\<lambda>layout.
     Inr (let layout = layout\<lparr>tl_target_token_offset := 0\<rparr> in
       if environment then layout\<lparr>tl_environment_handle_offset := td_pointer_size target\<rparr>
       else layout))"

definition capability_object ::
  "SolMirTargetDescriptor \<Rightarrow> SolMirTypeLayout \<Rightarrow> SolMirTypeLayout layout_result" where
  "capability_object target layout =
     andThen (header_object target layout SOL_MIR_LAYOUT_OBJECT_CAPABILITY 2) (\<lambda>layout.
     Inr (layout\<lparr> tl_root_token_offset := 0,
       tl_private_source_handle_offset := td_pointer_size target \<rparr>))"

definition header_layout ::
  "size_t \<Rightarrow> (SolMirTypeLayout \<Rightarrow> SolMirTypeLayout layout_result) \<Rightarrow> LayoutBuilder \<Rightarrow>
   LayoutBuilder layout_result" where
  "header_layout i f b =
     andThen (at (lb_types b) i) (\<lambda>layout.
     andThen (f layout) (\<lambda>layout. put_type i layout b))"

text \<open>What the end of \<open>object_layout\<close> clears for a recipe without an object.\<close>

definition clear_object :: "SolMirTypeLayout \<Rightarrow> SolMirTypeLayout" where
  "clear_object layout =
     layout\<lparr> tl_object_kind := SOL_MIR_LAYOUT_OBJECT_NONE, tl_has_object := False,
       tl_object_size := 0, tl_object_alignment := 1, tl_tail_padding := 0,
       tl_tag_offset := SOL_MIR_LAYOUT_OFFSET_NONE,
       tl_payload_offset := SOL_MIR_LAYOUT_OFFSET_NONE,
       tl_data_handle_offset := SOL_MIR_LAYOUT_OFFSET_NONE,
       tl_length_offset := SOL_MIR_LAYOUT_OFFSET_NONE,
       tl_target_token_offset := SOL_MIR_LAYOUT_OFFSET_NONE,
       tl_environment_handle_offset := SOL_MIR_LAYOUT_OFFSET_NONE,
       tl_root_token_offset := SOL_MIR_LAYOUT_OFFSET_NONE,
       tl_private_source_handle_offset := SOL_MIR_LAYOUT_OFFSET_NONE, tl_payload_size := 0 \<rparr>"

definition finish_recipe_layout :: "size_t \<Rightarrow> LayoutBuilder \<Rightarrow> LayoutBuilder layout_result" where
  "finish_recipe_layout i b =
     andThen (at (lb_recipes b) i) (\<lambda>recipe.
     andThen (if \<not> rc_inhabited recipe \<or> rc_zero_sized recipe
              then andThen (at (lb_types b) i) (\<lambda>layout. put_type i (clear_object layout) b)
              else Inr b) (\<lambda>b.
     Inr (b\<lparr>lb_object_state := (lb_object_state b)[i := Finished]\<rparr>)))"

text \<open>The cases of \<open>object_layout\<close> that do not recur.\<close>

definition plain_object :: "size_t \<Rightarrow> SolMirRecipe \<Rightarrow> LayoutBuilder \<Rightarrow> LayoutBuilder layout_result" where
  "plain_object i recipe b =
     (case rc_kind recipe of
        SOL_MIR_RECIPE_TEXT \<Rightarrow> header_layout i (text_object (lb_target b)) b
      | SOL_MIR_RECIPE_FUNCTION \<Rightarrow>
          andThen (scan_producers i b) (\<lambda>(environment, b).
          header_layout i (callable_object (lb_target b) environment) b)
      | SOL_MIR_RECIPE_CAPABILITY \<Rightarrow> header_layout i (capability_object (lb_target b)) b
      | SOL_MIR_RECIPE_TUPLE \<Rightarrow> layout_product i b
      | SOL_MIR_RECIPE_RECORD \<Rightarrow> layout_product i b
      | SOL_MIR_RECIPE_ENUM \<Rightarrow> layout_sum i b
      | SOL_MIR_RECIPE_OPTION \<Rightarrow> layout_sum i b
      | SOL_MIR_RECIPE_RESULT \<Rightarrow> layout_sum i b
      | _ \<Rightarrow> Inr b)"

definition copy_backing :: "size_t \<Rightarrow> size_t \<Rightarrow> LayoutBuilder \<Rightarrow> LayoutBuilder layout_result" where
  "copy_backing i backing b =
     andThen (at (lb_types b) backing) (\<lambda>layout.
     andThen (at (lb_types b) i) (\<lambda>own.
     put_type i (layout\<lparr>tl_recipe := tl_recipe own\<rparr>) b))"

lemma layout_charge_state: "layout_charge message b = Inr c \<Longrightarrow> lb_object_state c = lb_object_state b"
  by (auto simp: layout_charge_def exhausted_def split: option.splits if_splits)

lemma unvisited_decreases:
  "\<not> length xs \<le> i \<Longrightarrow> xs ! i = Unvisited \<Longrightarrow>
   length (filter ((=) Unvisited) (xs[i := Active])) < length (filter ((=) Unvisited) xs)"
proof (induction xs arbitrary: i)
  case (Cons x xs)
  then show ?case by (cases i) auto
qed simp

function (sequential) object_layout :: "size_t \<Rightarrow> LayoutBuilder \<Rightarrow> LayoutBuilder layout_result" where
  "object_layout i b =
     (if i \<ge> length (lb_object_state b) then Inl OutOfBounds
      else case lb_object_state b ! i of
        Finished \<Rightarrow> Inr b
      | Active \<Rightarrow> fail SOL_MIR_LAYOUT_BUILD_UNSUPPORTED ''layout wrapper object cycle detected''
      | Unvisited \<Rightarrow>
          (case layout_charge ''layout object work limit exceeded''
              (b\<lparr>lb_object_state := (lb_object_state b)[i := Active]\<rparr>) of
             Inl e \<Rightarrow> Inl e
           | Inr b \<Rightarrow>
               (case at (lb_recipes b) i of
                  Inl e \<Rightarrow> Inl e
                | Inr recipe \<Rightarrow>
                    if is_wrapper (rc_kind recipe) then
                      if rc_backing recipe \<ge> length (lb_types b)
                      then fail_silent SOL_MIR_LAYOUT_BUILD_INTERNAL_FAILED
                      else andThen (object_layout (rc_backing recipe) b) (\<lambda>b.
                        andThen (copy_backing i (rc_backing recipe) b) (finish_recipe_layout i))
                    else andThen (plain_object i recipe b) (finish_recipe_layout i))))"
  by pat_completeness auto

termination object_layout
  by (relation "measure (\<lambda>(i, b). length (filter ((=) Unvisited) (lb_object_state b)))")
    (auto dest!: layout_charge_state intro: unvisited_decreases)

declare object_layout.simps [simp del]

subsection \<open>Projections\<close>

primrec find_field ::
  "SolMirRepresentation \<Rightarrow> (SolMirRecipeField \<Rightarrow> bool) \<Rightarrow> size_t list \<Rightarrow> size_t option layout_result" where
  "find_field r match [] = Inr None"
| "find_field r match (f # fs) =
     andThen (at (fields_of r) f) (\<lambda>field.
     if match field then Inr (Some f) else find_field r match fs)"

definition projection_matches :: "SolMirMaterializedProjection \<Rightarrow> SolMirRecipeField \<Rightarrow> bool" where
  "projection_matches projection field \<longleftrightarrow>
     (if mj_kind projection = SOL_IR_PROJECTION_TUPLE_FIELD
      then rf_ordinal field = pj_tuple_ordinal projection
      else pj_tuple_ordinal projection = SOL_IR_NONE \<and>
        rf_source_field field = pj_source_field projection)"

definition projection_product :: "SolMirMaterializedProjection \<Rightarrow> SolMirRecipe \<Rightarrow> bool" where
  "projection_product projection recipe \<longleftrightarrow>
     rc_kind recipe = (if mj_kind projection = SOL_IR_PROJECTION_TUPLE_FIELD
       then SOL_MIR_RECIPE_TUPLE else SOL_MIR_RECIPE_RECORD)"

text \<open>One projection: the state is the number consumed, the recipe projected from and the builder.\<close>

type_synonym projection_state = "size_t \<times> size_t \<times> LayoutBuilder"

definition map_projection :: "size_t \<Rightarrow> projection_state \<Rightarrow> projection_state layout_result" where
  "map_projection place = (\<lambda>(consumed, base, b).
     andThen (layout_charge ''layout projection work limit exceeded'' b) (\<lambda>b.
     let r = ly_representation (lb_out b); m = rp_materialization r in
     andThen (at (mz_projections m) consumed) (\<lambda>projection.
     if mj_kind projection \<noteq> SOL_IR_PROJECTION_FIELD \<and>
       mj_kind projection \<noteq> SOL_IR_PROJECTION_TUPLE_FIELD
     then fail SOL_MIR_LAYOUT_BUILD_UNSUPPORTED
       ''index and dereference projections have no initial layout map''
     else if base \<ge> length (recipes_of r) \<or> pj_type projection \<ge> length (recipes_of r)
     then fail SOL_MIR_LAYOUT_BUILD_INVALID_REPRESENTATION ''layout projection type is invalid''
     else if \<not> projection_product projection (recipes_of r ! base)
     then fail SOL_MIR_LAYOUT_BUILD_UNSUPPORTED ''layout projection selects a non-product value''
     else
       andThen (find_field r (projection_matches projection)
         (slice_ids (rc_fields (recipes_of r ! base)))) (\<lambda>found.
       case found of
         None \<Rightarrow> fail SOL_MIR_LAYOUT_BUILD_INVALID_REPRESENTATION
           ''layout projection does not exactly match its source field''
       | Some f \<Rightarrow>
           if rf_type (fields_of r ! f) \<noteq> pj_type projection
           then fail SOL_MIR_LAYOUT_BUILD_INVALID_REPRESENTATION
             ''layout projection does not exactly match its source field''
           else
             andThen (at (lb_fields b) f) (\<lambda>layout.
             andThen (put_at (ar_items (ly_projections (lb_out b))) consumed
               \<lparr> pm_projection = consumed, pm_place = place, pm_base_recipe = base,
                 pm_result_recipe = pj_type projection, pm_field_layout = f,
                 pm_object_offset = fl_offset layout \<rparr>) (\<lambda>maps.
             Inr (consumed + 1, pj_type projection, set_projections maps b)))))))"

definition map_place ::
  "size_t \<Rightarrow> size_t \<times> LayoutBuilder \<Rightarrow> (size_t \<times> LayoutBuilder) layout_result" where
  "map_place p = (\<lambda>(consumed, b).
     andThen (at (mz_places (rp_materialization (ly_representation (lb_out b)))) p) (\<lambda>place.
     if sl_offset (mp_projections place) \<noteq> consumed
     then fail SOL_MIR_LAYOUT_BUILD_INVALID_REPRESENTATION
       ''materialized projections are not exactly source ordered''
     else
       andThen (for_each (\<lambda>i. map_projection p) [0 ..< sl_count (mp_projections place)]
         (consumed, pl_root_type place, b)) (\<lambda>(consumed, base, b).
       if base \<noteq> pl_final_type place
       then fail SOL_MIR_LAYOUT_BUILD_INVALID_REPRESENTATION
         ''layout projection final type is invalid''
       else Inr (consumed, b))))"

definition projection_maps :: "LayoutBuilder \<Rightarrow> LayoutBuilder layout_result" where
  "projection_maps b =
     (let m = rp_materialization (ly_representation (lb_out b)) in
      andThen (for_each map_place [0 ..< length (mz_places m)] (0, b)) (\<lambda>(consumed, b).
      if consumed = length (mz_projections m) then Inr b
      else fail_silent SOL_MIR_LAYOUT_BUILD_INTERNAL_FAILED))"

subsection \<open>Accounting\<close>

text \<open>
  \<open>derive_build_work\<close> and \<open>sol_mir_layout_internal_requirements\<close> of
  \<open>src/src/mir_layout_validate.c\<close>, which the builder calls too. \<open>None\<close> is the result false.
\<close>

primrec wrapper_work :: "nat \<Rightarrow> size_t \<Rightarrow> SolMirRepresentation \<Rightarrow> size_t \<Rightarrow> size_t option" where
  "wrapper_work 0 current r work = None"
| "wrapper_work (Suc depth) current r work =
     (case checked_add_size work 1 of
        None \<Rightarrow> None
      | Some work \<Rightarrow>
          if current \<ge> length (recipes_of r) then None
          else if is_wrapper (rc_kind (recipes_of r ! current))
          then wrapper_work depth (rc_backing (recipes_of r ! current)) r work
          else Some work)"

primrec variants_work :: "SolMirRepresentation \<Rightarrow> size_t list \<Rightarrow> size_t \<Rightarrow> size_t option" where
  "variants_work r [] work = Some work"
| "variants_work r (v # vs) work =
     (if v \<ge> length (variants_of r) then None
      else case checked_add_size work (sl_count (rv_fields (variants_of r ! v))) of
        None \<Rightarrow> None
      | Some work \<Rightarrow> variants_work r vs work)"

definition shape_work :: "SolMirRepresentation \<Rightarrow> SolMirRecipe \<Rightarrow> size_t \<Rightarrow> size_t option" where
  "shape_work r recipe work =
     (if is_product (rc_kind recipe) then checked_add_size work (sl_count (rc_fields recipe))
      else if is_sum (rc_kind recipe) then
        Option.bind (checked_add_size work (sl_count (rc_variants recipe)))
          (variants_work r (slice_ids (rc_variants recipe)))
      else if rc_kind recipe = SOL_MIR_RECIPE_FUNCTION
      then checked_add_size work (length (producers_of r))
      else Some work)"

definition recipe_work :: "SolMirRepresentation \<Rightarrow> size_t \<Rightarrow> size_t \<Rightarrow> size_t option" where
  "recipe_work r i work =
     (let recipe = recipes_of r ! i in
      Option.bind (checked_add_size work 2) (\<lambda>work.
      Option.bind (if rc_inhabited recipe \<and> \<not> rc_zero_sized recipe
        then wrapper_work (length (recipes_of r) + 1) i r work else Some work)
        (shape_work r recipe)))"

primrec recipes_work :: "SolMirRepresentation \<Rightarrow> size_t list \<Rightarrow> size_t \<Rightarrow> size_t option" where
  "recipes_work r [] work = Some work"
| "recipes_work r (i # is) work = Option.bind (recipe_work r i work) (recipes_work r is)"

definition derive_build_work :: "SolMirLayout \<Rightarrow> size_t option" where
  "derive_build_work layout =
     (let r = ly_representation layout in
      Option.bind (recipes_work r [0 ..< length (recipes_of r)] 0) (\<lambda>work.
      checked_add_size work (length (ar_items (ly_projections layout)))))"

definition sol_mir_layout_internal_requirements :: "SolMirLayout \<Rightarrow> (size_t \<times> size_t) option" where
  "sol_mir_layout_internal_requirements layout =
     Option.bind (derive_build_work layout) (\<lambda>build_work.
     Option.bind (checked_sum (ru_validation_work (rp_usage (ly_representation layout)))
       [1, length (ar_items (ly_types layout)), length (ar_items (ly_fields layout)),
        length (ar_items (ly_variants layout)), length (ar_items (ly_projections layout)),
        build_work]) (\<lambda>total.
     Some (total, ru_validation_scratch_bytes (rp_usage (ly_representation layout)))))"

definition derive_usage :: "LayoutBuilder \<Rightarrow> LayoutBuilder layout_result" where
  "derive_usage b =
     (let out = lb_out b;
          usage = (ly_usage out)\<lparr> lu_type_layouts := length (ar_items (ly_types out)),
            lu_field_layouts := length (ar_items (ly_fields out)),
            lu_variant_layouts := length (ar_items (ly_variants out)),
            lu_projection_maps := length (ar_items (ly_projections out)) \<rparr>
      in if lu_build_scratch_bytes usage \<noteq> length (ar_items (ly_types out))
      then fail SOL_MIR_LAYOUT_BUILD_INTERNAL_FAILED
        ''layout build scratch accounting disagreed with preflight''
      else case sol_mir_layout_internal_requirements out of
        None \<Rightarrow> exhausted ''layout validation requirements overflowed''
      | Some (work, scratch) \<Rightarrow>
          if work > ll_max_validation_work (ly_limits out) \<or>
            scratch > ll_max_validation_scratch_bytes (ly_limits out)
          then exhausted ''layout validation resource limit exceeded''
          else Inr (b\<lparr>lb_out := out\<lparr>ly_usage := usage\<lparr> lu_validation_work := work,
            lu_validation_scratch_bytes := scratch \<rparr>\<rparr>\<rparr>))"

section \<open>Building\<close>

datatype layout_request =
  HEAP_TYPES | HEAP_FIELD_LAYOUTS | HEAP_VARIANT_LAYOUTS | HEAP_PROJECTIONS | HEAP_OBJECT_STATE

type_synonym layout_heap = "layout_request \<Rightarrow> size_t"

definition sizeof_SolMirTypeLayout :: size_t where
  "sizeof_SolMirTypeLayout = 136"

definition sizeof_SolMirFieldLayout :: size_t where
  "sizeof_SolMirFieldLayout = 64"

definition sizeof_SolMirVariantLayout :: size_t where
  "sizeof_SolMirVariantLayout = 48"

definition sizeof_SolMirProjectionMap :: size_t where
  "sizeof_SolMirProjectionMap = 48"

definition layout_allocate ::
  "size_t \<Rightarrow> 'a \<Rightarrow> size_t \<Rightarrow> size_t \<Rightarrow> SolMirLayout \<Rightarrow> ('a arena \<times> SolMirLayout) layout_result" where
  "layout_allocate address zero count item_size out =
     (if count = 0 then Inr (empty_arena, out)
      else case Option.bind (checked_mul_size count item_size)
          (checked_add_size (lu_owned_bytes (ly_usage out))) of
        None \<Rightarrow> fail_silent SOL_MIR_LAYOUT_BUILD_RESOURCE_EXHAUSTED
      | Some owned \<Rightarrow>
          if owned > ll_max_owned_bytes (ly_limits out)
          then fail_silent SOL_MIR_LAYOUT_BUILD_RESOURCE_EXHAUSTED
          else if address = 0 then fail_silent SOL_MIR_LAYOUT_BUILD_ALLOCATION_FAILED
          else Inr (\<lparr> ar_base = address, ar_items = replicate count zero, ar_capacity = count \<rparr>,
            out\<lparr>ly_usage := (ly_usage out)\<lparr>lu_owned_bytes := owned\<rparr>\<rparr>))"

text \<open>What \<open>calloc\<close> leaves in each arena.\<close>

definition zero_type :: SolMirTypeLayout where
  "zero_type =
     \<lparr> tl_recipe = 0, tl_value_size = 0, tl_value_alignment = 0,
       tl_object_kind = SOL_MIR_LAYOUT_OBJECT_NONE, tl_has_object = False, tl_object_size = 0,
       tl_object_alignment = 0, tl_tail_padding = 0, tl_tag_offset = 0, tl_tag_size = 0,
       tl_payload_offset = 0, tl_payload_size = 0, tl_data_handle_offset = 0,
       tl_length_offset = 0, tl_target_token_offset = 0, tl_environment_handle_offset = 0,
       tl_root_token_offset = 0, tl_private_source_handle_offset = 0 \<rparr>"

definition zero_field :: SolMirFieldLayout where
  "zero_field = \<lparr> fl_field = 0, fl_owner_recipe = 0, fl_variant = 0, fl_has_storage = False,
     fl_offset = 0, fl_size = 0, fl_alignment = 0, fl_padding_before = 0 \<rparr>"

definition zero_variant :: SolMirVariantLayout where
  "zero_variant = \<lparr> vl_variant = 0, vl_owner_recipe = 0, vl_tag = 0, vl_inhabited = False,
     vl_has_payload_storage = False, vl_payload_size = 0, vl_payload_alignment = 0,
     vl_tail_padding = 0 \<rparr>"

definition zero_projection :: SolMirProjectionMap where
  "zero_projection = \<lparr> pm_projection = 0, pm_place = 0, pm_base_recipe = 0,
     pm_result_recipe = 0, pm_field_layout = 0, pm_object_offset = 0 \<rparr>"

definition layout_start ::
  "SolMirRepresentation \<Rightarrow> SolMirTargetDescriptor \<Rightarrow> SolMirLayoutLimits \<Rightarrow> SolMirLayout" where
  "layout_start r target limits =
     \<lparr> ly_representation = r, ly_target = target, ly_types = empty_arena,
       ly_fields = empty_arena, ly_variants = empty_arena, ly_projections = empty_arena,
       ly_limits = limits,
       ly_usage = \<lparr> lu_type_layouts = 0, lu_field_layouts = 0, lu_variant_layouts = 0,
         lu_projection_maps = 0, lu_owned_bytes = 0,
         lu_build_scratch_bytes = length (recipes_of r), lu_build_work = 0,
         lu_validation_scratch_bytes = 0, lu_validation_work = 0 \<rparr> \<rparr>"

definition layout_allocations :: "layout_heap \<Rightarrow> SolMirLayout \<Rightarrow> LayoutBuilder layout_result" where
  "layout_allocations heap out =
     (let r = ly_representation out; m = rp_materialization r in
      andThen (layout_allocate (heap HEAP_TYPES) zero_type (length (recipes_of r))
        sizeof_SolMirTypeLayout out) (\<lambda>(types, out).
      andThen (layout_allocate (heap HEAP_FIELD_LAYOUTS) zero_field (length (fields_of r))
        sizeof_SolMirFieldLayout out) (\<lambda>(fs, out).
      andThen (layout_allocate (heap HEAP_VARIANT_LAYOUTS) zero_variant (length (variants_of r))
        sizeof_SolMirVariantLayout out) (\<lambda>(vs, out).
      andThen (layout_allocate (heap HEAP_PROJECTIONS) zero_projection (length (mz_projections m))
        sizeof_SolMirProjectionMap out) (\<lambda>(ps, out).
      if recipes_of r \<noteq> [] \<and> heap HEAP_OBJECT_STATE = 0
      then fail_silent SOL_MIR_LAYOUT_BUILD_ALLOCATION_FAILED
      else Inr \<lparr> lb_out = out\<lparr> ly_types := types, ly_fields := fs, ly_variants := vs,
          ly_projections := ps \<rparr>,
        lb_object_state = replicate (length (recipes_of r)) Unvisited \<rparr>)))))"

definition build_layout ::
  "layout_heap \<Rightarrow> SolMirRepresentation \<Rightarrow> SolMirTargetDescriptor \<Rightarrow> SolMirLayoutLimits \<Rightarrow>
   SolMirLayout layout_result" where
  "build_layout heap r target limits =
     (if length (recipes_of r) > ll_max_build_scratch_bytes limits
      then exhausted ''layout build scratch limit exceeded''
      else if length (recipes_of r) > ll_max_type_layouts limits \<or>
        length (fields_of r) > ll_max_field_layouts limits \<or>
        length (variants_of r) > ll_max_variant_layouts limits \<or>
        length (mz_projections (rp_materialization r)) > ll_max_projection_maps limits
      then exhausted ''layout record limit exceeded''
      else
        andThen (layout_allocations heap (layout_start r target limits)) (\<lambda>b.
        andThen (for_each value_layout [0 ..< length (lb_types b)] b) (\<lambda>b.
        andThen (for_each object_layout [0 ..< length (lb_types b)] b) (\<lambda>b.
        andThen (projection_maps b) (\<lambda>b.
        andThen (derive_usage b) (\<lambda>b. Inr (lb_out b)))))))"

end
