(* ===== verification/Sol_LayoutCheck.thy ===== *)
theory Sol_LayoutCheck
  imports Sol_Layout
begin

text \<open>
  \<open>src/src/mir_layout_validate.c\<close>: the independent validator of layouts, and the entry point
  \<open>sol_mir_layout_build\<close> that runs it on every layout it built. The validator derives each
  record again from the recipes and compares. A rejection is \<open>Inl\<close> of a stop without
  message; the message of the whole validation is added by its entry point.
\<close>

type_synonym 'a checked = "unit stop + 'a"

definition reject :: "'a checked" where
  "reject = fail_silent ()"

definition check :: "bool \<Rightarrow> 'a \<Rightarrow> 'a checked" where
  "check ok x = (if ok then Inr x else reject)"

definition from_option :: "'a option \<Rightarrow> 'a checked" where
  "from_option x = (case x of None \<Rightarrow> reject | Some y \<Rightarrow> Inr y)"

declare reject_def [code_unfold]

lemma reject_not_Inr [simp]: "reject \<noteq> Inr x"
  by (simp add: reject_def)

lemma check_Inr_iff [simp]: "check ok x = Inr y \<longleftrightarrow> ok \<and> x = y"
  by (simp add: check_def)

lemma from_option_Inr_iff [simp]: "from_option x = Inr y \<longleftrightarrow> x = Some y"
  by (cases x) (simp_all add: from_option_def)

section \<open>Deriving the records again\<close>

text \<open>The validator's \<open>align_u64\<close> also tests its alignment.\<close>

definition check_align :: "uint64_t \<Rightarrow> uint64_t \<Rightarrow> uint64_t option" where
  "check_align v alignment = (if power_of_two alignment then align_u64 v alignment else None)"

primrec derive_wrapper ::
  "nat \<Rightarrow> SolMirLayout \<Rightarrow> size_t \<Rightarrow> (uint64_t \<times> uint64_t) checked" where
  "derive_wrapper 0 layout current = reject"
| "derive_wrapper (Suc depth) layout current =
     (let rs = recipes_of (ly_representation layout); target = ly_target layout in
      if current \<ge> length rs then reject
      else let kind = rc_kind (rs ! current) in
        if is_wrapper kind then derive_wrapper depth layout (rc_backing (rs ! current))
        else if kind = SOL_MIR_RECIPE_INT64 then Inr (8, td_int64_alignment target)
        else if kind = SOL_MIR_RECIPE_BOOL then Inr (1, 1)
        else if kind = SOL_MIR_RECIPE_UNIT \<or> kind = SOL_MIR_RECIPE_NEVER then reject
        else Inr (td_pointer_size target, td_pointer_alignment target))"

definition derive_value :: "SolMirLayout \<Rightarrow> size_t \<Rightarrow> SolMirTypeLayout checked" where
  "derive_value layout i =
     (let rs = recipes_of (ly_representation layout) in
      andThen (at rs i) (\<lambda>recipe.
      if \<not> rc_inhabited recipe \<or> rc_zero_sized recipe then Inr (blank_type i)
      else andThen (derive_wrapper (length rs + 1) layout i) (\<lambda>(bytes, alignment).
        Inr ((blank_type i)\<lparr> tl_value_size := bytes, tl_value_alignment := alignment \<rparr>))))"

definition check_finish ::
  "SolMirTargetDescriptor \<Rightarrow> SolMirTypeLayout \<Rightarrow> uint64_t \<Rightarrow> uint64_t \<Rightarrow> SolMirTypeLayout checked" where
  "check_finish target type stop alignment =
     andThen (from_option (check_align stop alignment)) (\<lambda>bytes.
     check (bytes \<le> td_max_object_bytes target)
       (type\<lparr> tl_has_object := True, tl_object_size := bytes, tl_object_alignment := alignment,
         tl_tail_padding := bytes - stop \<rparr>))"

definition check_place :: "uint64_t \<Rightarrow> SolMirTypeLayout \<Rightarrow> (uint64_t \<times> uint64_t) checked" where
  "check_place stop v =
     andThen (from_option (check_align stop (tl_value_alignment v))) (\<lambda>offset.
     andThen (from_option (checked_add_u64 offset (tl_value_size v))) (\<lambda>stop'.
     Inr (offset, stop')))"

text \<open>\<open>same_field\<close>, \<open>same_variant\<close> and \<open>same_type\<close> compare every member.\<close>

definition check_field :: "SolMirLayout \<Rightarrow> bool \<Rightarrow> size_t \<Rightarrow> SolMirFieldLayout \<Rightarrow> unit checked" where
  "check_field layout check_records field_id expected =
     (if check_records
      then andThen (at (ar_items (ly_fields layout)) field_id) (\<lambda>actual. check (actual = expected) ())
      else Inr ())"

definition field_value :: "SolMirLayout \<Rightarrow> size_t \<Rightarrow> SolMirTypeLayout checked" where
  "field_value layout field_id =
     (let r = ly_representation layout in
      andThen (at (fields_of r) field_id) (\<lambda>field.
      if rf_type field \<ge> length (recipes_of r) then reject else derive_value layout (rf_type field)))"

text \<open>
  The loop body shared by \<open>derive_product\<close> and \<open>pack_variant\<close>; \<open>shift\<close> is the payload offset
  that the absolute pass adds to the expected offset.
\<close>

definition derive_field ::
  "SolMirLayout \<Rightarrow> bool \<Rightarrow> uint64_t option \<Rightarrow> bool \<Rightarrow> size_t \<Rightarrow> size_t \<Rightarrow> size_t \<Rightarrow>
   uint64_t \<times> uint64_t \<Rightarrow> (uint64_t \<times> uint64_t) checked" where
  "derive_field layout physical shift check_records owner variant field_id = (\<lambda>(stop, alignment).
     if field_id \<ge> length (fields_of (ly_representation layout)) then reject
     else if \<not> physical then
       andThen (check_field layout check_records field_id (shape_field field_id owner variant))
         (\<lambda>_. Inr (stop, alignment))
     else
       andThen (field_value layout field_id) (\<lambda>v.
       andThen (check_place stop v) (\<lambda>(offset, stop').
       andThen (case shift of None \<Rightarrow> Inr offset
                | Some base \<Rightarrow> from_option (checked_add_u64 offset base)) (\<lambda>shown.
       andThen (check_field layout check_records field_id
         ((stored_field field_id owner variant stop offset v)\<lparr>fl_offset := shown\<rparr>)) (\<lambda>_.
       Inr (stop', max_u64 alignment (tl_value_alignment v)))))))"

definition derive_product ::
  "SolMirLayout \<Rightarrow> size_t \<Rightarrow> SolMirTypeLayout \<Rightarrow> bool \<Rightarrow> SolMirTypeLayout checked" where
  "derive_product layout i type check_records =
     andThen (at (recipes_of (ly_representation layout)) i) (\<lambda>recipe.
     let physical = rc_inhabited recipe \<and> \<not> rc_zero_sized recipe in
     andThen (for_each (derive_field layout physical None check_records i SIZE_MAX)
       (slice_ids (rc_fields recipe)) (0, 1)) (\<lambda>(stop, alignment).
     if \<not> physical then Inr type
     else check_finish (ly_target layout)
       (type\<lparr>tl_object_kind := SOL_MIR_LAYOUT_OBJECT_PRODUCT\<rparr>) stop alignment))"

primrec check_inhabited :: "SolMirRepresentation \<Rightarrow> size_t list \<Rightarrow> bool checked" where
  "check_inhabited r [] = Inr True"
| "check_inhabited r (f # fs) =
     (if f \<ge> length (fields_of r) then Inr False
      else andThen (at (recipes_of r) (rf_type (fields_of r ! f))) (\<lambda>recipe.
        if rc_inhabited recipe then check_inhabited r fs else Inr False))"

definition pack_variant ::
  "SolMirLayout \<Rightarrow> size_t \<Rightarrow> size_t \<Rightarrow> uint64_t option \<Rightarrow> bool \<Rightarrow> (uint64_t \<times> uint64_t) checked" where
  "pack_variant layout owner variant_id shift check_records =
     andThen (at (variants_of (ly_representation layout)) variant_id) (\<lambda>variant.
     andThen (check_inhabited (ly_representation layout) (slice_ids (rv_fields variant)))
       (\<lambda>inhabited.
     andThen (for_each (derive_field layout inhabited shift check_records owner variant_id)
       (slice_ids (rv_fields variant)) (0, 1)) (\<lambda>(stop, alignment).
     andThen (from_option (check_align stop alignment)) (\<lambda>payload_size.
     Inr (payload_size, alignment)))))"

text \<open>The second walk over an inhabited variant, which finds the end of its last field.\<close>

definition variant_end :: "SolMirLayout \<Rightarrow> size_t list \<Rightarrow> uint64_t checked" where
  "variant_end layout fs =
     for_each (\<lambda>f stop.
       andThen (at (fields_of (ly_representation layout)) f) (\<lambda>field.
       andThen (derive_value layout (rf_type field)) (\<lambda>v.
       andThen (check_place stop v) (\<lambda>(offset, stop'). Inr stop')))) fs 0"

definition check_variant ::
  "SolMirLayout \<Rightarrow> bool \<Rightarrow> size_t \<Rightarrow> SolMirVariantLayout \<Rightarrow> unit checked" where
  "check_variant layout check_records variant_id expected =
     (if check_records
      then andThen (at (ar_items (ly_variants layout)) variant_id)
        (\<lambda>actual. check (actual = expected) ())
      else Inr ())"

definition derive_variant ::
  "SolMirLayout \<Rightarrow> size_t \<Rightarrow> bool \<Rightarrow> bool \<Rightarrow> size_t \<Rightarrow> uint64_t \<times> uint64_t \<Rightarrow>
   (uint64_t \<times> uint64_t) checked" where
  "derive_variant layout owner owner_inhabited check_records variant_id =
     (\<lambda>(maximum_size, maximum_alignment).
     let r = ly_representation layout in
     if variant_id \<ge> length (variants_of r) then reject
     else let variant = variants_of r ! variant_id; fs = slice_ids (rv_fields variant) in
     if rv_semantic_tag variant > 4294967295 then reject
     else
       andThen (pack_variant layout owner variant_id None (check_records \<and> \<not> owner_inhabited))
         (\<lambda>(bytes, alignment).
       andThen (check_inhabited r fs) (\<lambda>inhabited.
       andThen (if inhabited then andThen (variant_end layout fs) (\<lambda>stop. Inr (bytes - stop))
                else Inr 0) (\<lambda>tail.
       andThen (check_variant layout check_records variant_id
         \<lparr> vl_variant = variant_id, vl_owner_recipe = owner,
           vl_tag = of_nat (rv_semantic_tag variant), vl_inhabited = inhabited,
           vl_has_payload_storage = inhabited, vl_payload_size = bytes,
           vl_payload_alignment = alignment, vl_tail_padding = tail \<rparr>) (\<lambda>_.
       Inr (if inhabited then (max_u64 maximum_size bytes, max_u64 maximum_alignment alignment)
         else (maximum_size, maximum_alignment)))))))"

definition derive_sum ::
  "SolMirLayout \<Rightarrow> size_t \<Rightarrow> SolMirTypeLayout \<Rightarrow> bool \<Rightarrow> SolMirTypeLayout checked" where
  "derive_sum layout i type check_records =
     andThen (at (recipes_of (ly_representation layout)) i) (\<lambda>recipe.
     andThen (for_each (derive_variant layout i (rc_inhabited recipe) check_records)
       (slice_ids (rc_variants recipe)) (0, 1)) (\<lambda>(maximum_size, maximum_alignment).
     if \<not> rc_inhabited recipe then Inr type
     else
       andThen (from_option (check_align 4 maximum_alignment)) (\<lambda>payload_offset.
       andThen (from_option (checked_add_u64 payload_offset maximum_size)) (\<lambda>stop.
       andThen (if check_records
                then for_each (\<lambda>v _. andThen (pack_variant layout i v (Some payload_offset) True)
                    (\<lambda>_. Inr ())) (slice_ids (rc_variants recipe)) ()
                else Inr ()) (\<lambda>_.
       check_finish (ly_target layout)
         (type\<lparr> tl_object_kind := SOL_MIR_LAYOUT_OBJECT_SUM, tl_tag_offset := 0, tl_tag_size := 4,
           tl_payload_offset := payload_offset, tl_payload_size := maximum_size \<rparr>) stop
         (if maximum_alignment > 4 then maximum_alignment else 4))))))"

definition check_header ::
  "SolMirTargetDescriptor \<Rightarrow> SolMirTypeLayout \<Rightarrow> SolMirLayoutObjectKind \<Rightarrow> uint64_t \<Rightarrow>
   SolMirTypeLayout checked" where
  "check_header target type kind n =
     (if n > UINT64_MAX div td_pointer_size target then reject
      else check_finish target (type\<lparr>tl_object_kind := kind\<rparr>) (n * td_pointer_size target)
        (td_pointer_alignment target))"

definition derive_plain ::
  "SolMirLayout \<Rightarrow> size_t \<Rightarrow> SolMirRecipe \<Rightarrow> SolMirTypeLayout \<Rightarrow> bool \<Rightarrow> SolMirTypeLayout checked" where
  "derive_plain layout i recipe expected check_records =
     (let target = ly_target layout in
      case rc_kind recipe of
        SOL_MIR_RECIPE_TEXT \<Rightarrow>
          andThen (check_header target expected SOL_MIR_LAYOUT_OBJECT_TEXT 2) (\<lambda>type.
          Inr (type\<lparr> tl_data_handle_offset := 0, tl_length_offset := td_pointer_size target \<rparr>))
      | SOL_MIR_RECIPE_FUNCTION \<Rightarrow>
          (let environment = list_ex (has_environment i) (producers_of (ly_representation layout)) in
           andThen (check_header target expected SOL_MIR_LAYOUT_OBJECT_CALLABLE
             (if environment then 2 else 1)) (\<lambda>type.
           Inr (let type = type\<lparr>tl_target_token_offset := 0\<rparr> in
             if environment then type\<lparr>tl_environment_handle_offset := td_pointer_size target\<rparr>
             else type)))
      | SOL_MIR_RECIPE_CAPABILITY \<Rightarrow>
          andThen (check_header target expected SOL_MIR_LAYOUT_OBJECT_CAPABILITY 2) (\<lambda>type.
          Inr (type\<lparr> tl_root_token_offset := 0,
            tl_private_source_handle_offset := td_pointer_size target \<rparr>))
      | SOL_MIR_RECIPE_TUPLE \<Rightarrow> derive_product layout i expected check_records
      | SOL_MIR_RECIPE_RECORD \<Rightarrow> derive_product layout i expected check_records
      | SOL_MIR_RECIPE_ENUM \<Rightarrow> derive_sum layout i expected check_records
      | SOL_MIR_RECIPE_OPTION \<Rightarrow> derive_sum layout i expected check_records
      | SOL_MIR_RECIPE_RESULT \<Rightarrow> derive_sum layout i expected check_records
      | _ \<Rightarrow> Inr expected)"

primrec derive_type ::
  "nat \<Rightarrow> SolMirLayout \<Rightarrow> size_t \<Rightarrow> bool \<Rightarrow> SolMirTypeLayout checked" where
  "derive_type 0 layout i check_records = reject"
| "derive_type (Suc depth) layout i check_records =
     (let rs = recipes_of (ly_representation layout) in
      if i \<ge> length rs then reject
      else
        andThen (derive_value layout i) (\<lambda>expected.
        let recipe = rs ! i in
        if \<not> rc_inhabited recipe \<or> rc_zero_sized recipe then
          if is_product (rc_kind recipe) then derive_product layout i expected check_records
          else if is_sum (rc_kind recipe) then derive_sum layout i expected check_records
          else Inr expected
        else if is_wrapper (rc_kind recipe) then
          andThen (derive_type depth layout (rc_backing recipe) False) (\<lambda>backing.
          Inr (backing\<lparr>tl_recipe := tl_recipe expected\<rparr>))
        else derive_plain layout i recipe expected check_records))"

section \<open>Walking the arenas\<close>

definition count_variant_fields ::
  "SolMirRepresentation \<Rightarrow> size_t \<times> size_t \<Rightarrow> (size_t \<times> size_t) checked" where
  "count_variant_fields r = (\<lambda>(field_at, variant_at).
     if variant_at \<ge> length (variants_of r) then reject
     else let fs = rv_fields (variants_of r ! variant_at) in
       if sl_offset fs \<noteq> field_at then reject
       else andThen (from_option (checked_add_size field_at (sl_count fs))) (\<lambda>field_at.
         check (field_at \<le> length (fields_of r)) (field_at, variant_at + 1)))"

definition count_recipe ::
  "SolMirRepresentation \<Rightarrow> SolMirRecipe \<Rightarrow> size_t \<times> size_t \<Rightarrow> (size_t \<times> size_t) checked" where
  "count_recipe r recipe = (\<lambda>(field_at, variant_at).
     if is_product (rc_kind recipe) then
       if sl_offset (rc_fields recipe) \<noteq> field_at then reject
       else andThen (from_option (checked_add_size field_at (sl_count (rc_fields recipe))))
         (\<lambda>field_at. check (field_at \<le> length (fields_of r)) (field_at, variant_at))
     else if is_sum (rc_kind recipe) then
       if sl_offset (rc_variants recipe) \<noteq> variant_at then reject
       else for_each (\<lambda>v. count_variant_fields r) [0 ..< sl_count (rc_variants recipe)]
         (field_at, variant_at)
     else Inr (field_at, variant_at))"

definition validate_recipe ::
  "SolMirLayout \<Rightarrow> size_t \<Rightarrow> size_t \<times> size_t \<Rightarrow> (size_t \<times> size_t) checked" where
  "validate_recipe layout i state =
     (let r = ly_representation layout in
      andThen (at (recipes_of r) i) (\<lambda>recipe.
      andThen (count_recipe r recipe state) (\<lambda>state.
      andThen (derive_type (length (recipes_of r) + 1) layout i True) (\<lambda>expected.
      andThen (at (ar_items (ly_types layout)) i) (\<lambda>actual.
      check (actual = expected) state)))))"

definition validate_records :: "SolMirLayout \<Rightarrow> unit checked" where
  "validate_records layout =
     andThen (for_each (validate_recipe layout)
       [0 ..< length (recipes_of (ly_representation layout))] (0, 0)) (\<lambda>(field_at, variant_at).
     check (field_at = length (ar_items (ly_fields layout)) \<and>
       variant_at = length (ar_items (ly_variants layout))) ())"

text \<open>The last matching field and the number of matches.\<close>

primrec match_fields ::
  "SolMirRepresentation \<Rightarrow> (SolMirRecipeField \<Rightarrow> bool) \<Rightarrow> size_t list \<Rightarrow> size_t \<times> size_t \<Rightarrow>
   (size_t \<times> size_t) checked" where
  "match_fields r match [] state = Inr state"
| "match_fields r match (f # fs) state =
     andThen (at (fields_of r) f) (\<lambda>field.
     match_fields r match fs (if match field then (f, snd state + 1) else state))"

definition validate_projection ::
  "SolMirLayout \<Rightarrow> size_t \<Rightarrow> size_t \<times> size_t \<Rightarrow> (size_t \<times> size_t) checked" where
  "validate_projection layout place = (\<lambda>(consumed, base).
     let r = ly_representation layout; m = rp_materialization r in
     if consumed \<ge> length (mz_projections m) \<or>
       consumed \<ge> length (ar_items (ly_projections layout)) \<or> base \<ge> length (recipes_of r)
     then reject
     else let projection = mz_projections m ! consumed in
     if mj_kind projection \<noteq> SOL_IR_PROJECTION_FIELD \<and>
       mj_kind projection \<noteq> SOL_IR_PROJECTION_TUPLE_FIELD then reject
     else if \<not> projection_product projection (recipes_of r ! base) then reject
     else
       andThen (match_fields r (projection_matches projection)
         (slice_ids (rc_fields (recipes_of r ! base))) (SIZE_MAX, 0)) (\<lambda>(found, matches).
       if matches \<noteq> 1 \<or> pj_type projection \<ge> length (recipes_of r) \<or>
         rf_type (fields_of r ! found) \<noteq> pj_type projection then reject
       else
         andThen (at (ar_items (ly_fields layout)) found) (\<lambda>field.
         if \<not> fl_has_storage field then reject
         else check (ar_items (ly_projections layout) ! consumed =
             \<lparr> pm_projection = consumed, pm_place = place, pm_base_recipe = base,
               pm_result_recipe = pj_type projection, pm_field_layout = found,
               pm_object_offset = fl_offset field \<rparr>)
           (consumed + 1, pj_type projection))))"

definition validate_place :: "SolMirLayout \<Rightarrow> size_t \<Rightarrow> size_t \<Rightarrow> size_t checked" where
  "validate_place layout p consumed =
     andThen (at (mz_places (rp_materialization (ly_representation layout))) p) (\<lambda>place.
     if sl_offset (mp_projections place) \<noteq> consumed then reject
     else
       andThen (for_each (\<lambda>i. validate_projection layout p) [0 ..< sl_count (mp_projections place)]
         (consumed, pl_root_type place)) (\<lambda>(consumed, base).
       check (base = pl_final_type place) consumed))"

definition validate_projections :: "SolMirLayout \<Rightarrow> unit checked" where
  "validate_projections layout =
     (let m = rp_materialization (ly_representation layout) in
      andThen (for_each (validate_place layout) [0 ..< length (mz_places m)] 0) (\<lambda>consumed.
      check (consumed = length (mz_projections m) \<and>
        consumed = length (ar_items (ly_projections layout))) ()))"

section \<open>The entry points\<close>

definition layout_header_ok :: "SolMirLayout \<Rightarrow> bool" where
  "layout_header_ok layout \<longleftrightarrow>
     (let limits = ly_limits layout; usage = ly_usage layout in
      sol_mir_target_descriptor_validate (ly_target layout) \<and> layout_limits_complete limits \<and>
      length (ar_items (ly_types layout)) \<le> ll_max_type_layouts limits \<and>
      length (ar_items (ly_fields layout)) \<le> ll_max_field_layouts limits \<and>
      length (ar_items (ly_variants layout)) \<le> ll_max_variant_layouts limits \<and>
      length (ar_items (ly_projections layout)) \<le> ll_max_projection_maps limits \<and>
      lu_owned_bytes usage \<le> ll_max_owned_bytes limits \<and>
      lu_build_scratch_bytes usage \<le> ll_max_build_scratch_bytes limits \<and>
      lu_build_work usage \<le> ll_max_build_work limits \<and>
      lu_validation_scratch_bytes usage \<le> ll_max_validation_scratch_bytes limits \<and>
      lu_validation_work usage \<le> ll_max_validation_work limits)"

definition layout_arenas_ok :: "SolMirLayout \<Rightarrow> bool" where
  "layout_arenas_ok layout \<longleftrightarrow>
     canonical_arena (ly_types layout) \<and> canonical_arena (ly_fields layout) \<and>
     canonical_arena (ly_variants layout) \<and> canonical_arena (ly_projections layout)"

definition layout_persistent_bytes :: "SolMirLayout \<Rightarrow> size_t option" where
  "layout_persistent_bytes layout =
     Option.bind (checked_mul_size (ar_capacity (ly_types layout)) sizeof_SolMirTypeLayout) (\<lambda>a.
     Option.bind (checked_mul_size (ar_capacity (ly_fields layout)) sizeof_SolMirFieldLayout) (\<lambda>b.
     Option.bind (checked_mul_size (ar_capacity (ly_variants layout)) sizeof_SolMirVariantLayout) (\<lambda>c.
     Option.bind (checked_mul_size (ar_capacity (ly_projections layout)) sizeof_SolMirProjectionMap)
       (\<lambda>d. checked_sum 0 [a, b, c, d]))))"

definition layout_accounting_ok :: "SolMirLayout \<Rightarrow> bool" where
  "layout_accounting_ok layout \<longleftrightarrow>
     (let usage = ly_usage layout in
      layout_persistent_bytes layout = Some (lu_owned_bytes usage) \<and>
      lu_type_layouts usage = length (ar_items (ly_types layout)) \<and>
      lu_field_layouts usage = length (ar_items (ly_fields layout)) \<and>
      lu_variant_layouts usage = length (ar_items (ly_variants layout)) \<and>
      lu_projection_maps usage = length (ar_items (ly_projections layout)) \<and>
      lu_build_scratch_bytes usage = length (ar_items (ly_types layout)))"

definition layout_owned :: "SolMirLayout \<Rightarrow> range list option" where
  "layout_owned layout =
     Option.bind (add_owned_range [] (ar_base (ly_types layout)) (ar_capacity (ly_types layout))
       sizeof_SolMirTypeLayout) (\<lambda>ranges.
     Option.bind (add_owned_range ranges (ar_base (ly_fields layout)) (ar_capacity (ly_fields layout))
       sizeof_SolMirFieldLayout) (\<lambda>ranges.
     Option.bind (add_owned_range ranges (ar_base (ly_variants layout))
       (ar_capacity (ly_variants layout)) sizeof_SolMirVariantLayout) (\<lambda>ranges.
     add_owned_range ranges (ar_base (ly_projections layout)) (ar_capacity (ly_projections layout))
       sizeof_SolMirProjectionMap)))"

text \<open>
  \<open>chain\<close> and \<open>arenas\<close> are the ranges (address, count, item size) that
  \<open>preflight_owner_chain\<close> and \<open>reject_borrowed_overlap\<close> visit: the owners the layout borrows
  from, and all arenas and texts of the representation, the materialization, the plan, the
  program and the IR.
\<close>

type_synonym borrowed_range = "size_t \<times> size_t \<times> size_t"

record layout_memory =
  lm_chain :: "borrowed_range list"
  lm_arenas :: "borrowed_range list"

definition no_overlap :: "range list \<Rightarrow> borrowed_range list \<Rightarrow> bool" where
  "no_overlap owned borrowed \<longleftrightarrow>
     list_all (\<lambda>(pointer, count, item_size). \<not> borrowed_overlaps owned pointer count item_size) borrowed"

definition layout_work_ok :: "SolMirLayout \<Rightarrow> bool" where
  "layout_work_ok layout \<longleftrightarrow>
     derive_build_work layout = Some (lu_build_work (ly_usage layout)) \<and>
     sol_mir_layout_internal_requirements layout =
       Some (lu_validation_work (ly_usage layout), lu_validation_scratch_bytes (ly_usage layout))"

definition layout_counts_ok :: "SolMirLayout \<Rightarrow> bool" where
  "layout_counts_ok layout \<longleftrightarrow>
     (let r = ly_representation layout in
      length (ar_items (ly_types layout)) = length (recipes_of r) \<and>
      length (ar_items (ly_fields layout)) = length (fields_of r) \<and>
      length (ar_items (ly_variants layout)) = length (variants_of r) \<and>
      length (ar_items (ly_projections layout)) = length (mz_projections (rp_materialization r)))"

definition layout_error ::
  "SolDiagnostics option \<Rightarrow> string \<Rightarrow> (sol_env, SolDiagnostics option) state" where
  "layout_error ds message =
     (case ds of
        None \<Rightarrow> ret None
      | Some d \<Rightarrow> do {
          (_, d) \<leftarrow> sol_diagnostics_add d ''SOL-MIR-LAYOUT-001'' SOL_SEVERITY_ERROR
            \<lparr> sp_start = 0, sp_end = 0 \<rparr> message;
          ret (Some d)
        })"

definition invalid ::
  "SolDiagnostics option \<Rightarrow> string \<Rightarrow> (sol_env, bool \<times> SolDiagnostics option) state" where
  "invalid ds message = do { ds \<leftarrow> layout_error ds message; ret (False, ds) }"

type_synonym rep_validator =
  "SolMirRepresentation \<Rightarrow> SolDiagnostics option \<Rightarrow> (sol_env, bool \<times> SolDiagnostics option) state"

definition sol_mir_layout_validate ::
  "rep_validator \<Rightarrow> layout_memory \<Rightarrow> SolMirLayout \<Rightarrow> SolDiagnostics option \<Rightarrow>
   (sol_env, bool \<times> SolDiagnostics option) state" where
  "sol_mir_layout_validate validate memory layout ds =
     (let malformed = invalid ds ''layout graph, access maps, or owned arenas are malformed'' in
      if \<not> layout_header_ok layout
      then invalid ds ''layout header or descriptor is malformed''
      else if \<not> layout_arenas_ok layout then invalid ds ''layout arenas are noncanonical''
      else if \<not> layout_accounting_ok layout
      then invalid ds ''layout resource accounting is malformed''
      else case layout_owned layout of
        None \<Rightarrow> malformed
      | Some owned \<Rightarrow>
          if \<not> no_overlap owned (lm_chain memory) then malformed
          else do {
            (valid, ds) \<leftarrow> validate (ly_representation layout) ds;
            if \<not> valid then ret (False, ds)
            else if no_overlap owned (lm_arenas memory) \<and> layout_work_ok layout \<and>
              layout_counts_ok layout \<and> validate_records layout = Inr () \<and>
              validate_projections layout = Inr ()
            then ret (True, ds)
            else invalid ds ''layout graph, access maps, or owned arenas are malformed''
          })"

text \<open>
  \<open>build_internal\<close> with source validation, and the public entry point. \<open>None\<close> as outcome is
  undefined behaviour of the build; an absent destination is not modelled.
\<close>

type_synonym layout_build_result =
  "SolMirLayoutBuildOutcome option \<times> SolMirLayout option \<times> SolDiagnostics option"

definition allocation_failed_in :: "SolDiagnostics option \<Rightarrow> bool" where
  "allocation_failed_in ds = (case ds of None \<Rightarrow> False | Some d \<Rightarrow> dgs_allocation_failed d)"

definition build_internal ::
  "rep_validator \<Rightarrow> layout_heap \<Rightarrow> SolMirRepresentation \<Rightarrow> SolMirTargetDescriptor \<Rightarrow>
   SolMirLayoutLimits option \<Rightarrow> SolDiagnostics option \<Rightarrow> (sol_env, layout_build_result) state" where
  "build_internal validate heap r target limits ds =
     (if (case limits of None \<Rightarrow> False
          | Some l \<Rightarrow> \<not> layout_limits_zero l \<and> \<not> layout_limits_complete l)
      then do {
        ds \<leftarrow> layout_error ds ''invalid layout build request or destination'';
        ret (Some SOL_MIR_LAYOUT_BUILD_INVALID_ARGUMENT, None, ds)
      }
      else if \<not> sol_mir_target_descriptor_validate target
      then do {
        ds \<leftarrow> layout_error ds ''invalid layout target descriptor'';
        ret (Some SOL_MIR_LAYOUT_BUILD_INVALID_TARGET, None, ds)
      }
      else do {
        (valid, ds) \<leftarrow> validate r ds;
        if \<not> valid
        then ret (Some (if allocation_failed_in ds then SOL_MIR_LAYOUT_BUILD_ALLOCATION_FAILED
          else SOL_MIR_LAYOUT_BUILD_INVALID_REPRESENTATION), None, ds)
        else (case build_layout heap r target
            (case limits of None \<Rightarrow> sol_mir_layout_default_limits
             | Some l \<Rightarrow> if layout_limits_zero l then sol_mir_layout_default_limits else l) of
          Inl OutOfBounds \<Rightarrow> ret (None, None, ds)
        | Inl (Stop outcome None) \<Rightarrow> ret (Some outcome, None, ds)
        | Inl (Stop outcome (Some message)) \<Rightarrow> do {
            ds \<leftarrow> layout_error ds message;
            ret (Some outcome, None, ds)
          }
        | Inr layout \<Rightarrow> ret (Some SOL_MIR_LAYOUT_BUILD_SUCCEEDED, Some layout, ds))
      })"

definition sol_mir_layout_build ::
  "rep_validator \<Rightarrow> layout_memory \<Rightarrow> layout_heap \<Rightarrow> SolMirRepresentation \<Rightarrow> SolMirTargetDescriptor \<Rightarrow>
   SolMirLayoutLimits option \<Rightarrow> SolDiagnostics option \<Rightarrow> (sol_env, layout_build_result) state" where
  "sol_mir_layout_build validate memory heap r target limits ds = do {
     (outcome, built, ds) \<leftarrow> build_internal validate heap r target limits ds;
     (case built of
       None \<Rightarrow> ret (outcome, None, ds)
     | Some layout \<Rightarrow> do {
         (valid, ds) \<leftarrow> sol_mir_layout_validate validate memory layout ds;
         ret (if valid then (outcome, Some layout, ds)
           else (Some (if allocation_failed_in ds then SOL_MIR_LAYOUT_BUILD_ALLOCATION_FAILED
             else SOL_MIR_LAYOUT_BUILD_INTERNAL_FAILED), None, ds))
       })
   }"

end
