(* ===== verification/Sol_LayoutWord.thy ===== *)
theory Sol_LayoutWord
  imports Sol_LayoutCheck
begin

text \<open>
  What the 64-bit arithmetic of the layout computes, on natural numbers: the overflow tests
  are exact, a number that passes \<open>power_of_two\<close> is a power of two, and \<open>align_u64\<close> rounds up
  to the next multiple.
\<close>

lemma unat_UINT64_MAX [simp]: "unat UINT64_MAX = 2 ^ 64 - 1"
  by (simp add: UINT64_MAX_def)

lemma unat64_bound: "unat (w :: 64 word) < 2 ^ 64"
  using unsigned_less [of w] by simp

lemma word64_max [simp]: "w \<le> UINT64_MAX"
  using unat64_bound [of w] by (simp add: word_le_nat_alt)

lemma unat_from_max: "unat (UINT64_MAX - w) = 2 ^ 64 - 1 - unat w"
  by (simp add: unat_sub)

lemma checked_add_u64_Some:
  assumes "checked_add_u64 a b = Some c"
  shows "unat c = unat a + unat b"
proof -
  from assms have c: "c = a + b" and "\<not> UINT64_MAX - a < b"
    by (auto simp: checked_add_u64_def split: if_splits)
  then have "unat b \<le> 2 ^ 64 - 1 - unat a"
    by (simp add: not_less word_le_nat_alt unat_from_max)
  then have "unat a + unat b < 2 ^ 64" using unat64_bound [of a] by linarith
  then show ?thesis using c by (simp add: unat_word_ariths)
qed

lemma checked_add_u64_total:
  assumes "unat a + unat b < 2 ^ 64"
  shows "checked_add_u64 a b = Some (a + b)"
proof -
  have "b \<le> UINT64_MAX - a"
    using assms unat64_bound [of a] by (simp add: word_le_nat_alt unat_from_max)
  then show ?thesis by (simp add: checked_add_u64_def not_less)
qed

lemma odd_part: "(n :: nat) \<noteq> 0 \<Longrightarrow> \<exists>k q. n = 2 ^ k * (2 * q + 1)"
proof (induction n rule: less_induct)
  case (less n)
  show ?case
  proof (cases "even n")
    case True
    then obtain h where h: "n = 2 * h" by blast
    with less obtain k q where "h = 2 ^ k * (2 * q + 1)" by fastforce
    with h have "n = 2 ^ Suc k * (2 * q + 1)" by simp
    then show ?thesis by blast
  next
    case False
    then obtain q where "n = 2 ^ 0 * (2 * q + 1)" by (auto elim: oddE)
    then show ?thesis by blast
  qed
qed

lemma nat_power_of_two:
  fixes n :: nat
  assumes "n \<noteq> 0" "n AND (n - 1) = 0"
  shows "\<exists>k. n = 2 ^ k"
proof -
  obtain k q where "n = 2 ^ k * (2 * q + 1)" using odd_part [OF assms(1)] by blast
  then have a: "n = 2 ^ Suc k * q + 2 ^ k" by (simp add: algebra_simps)
  then have b: "n - 1 = 2 ^ Suc k * q + (2 ^ k - 1)" by simp
  have "drop_bit (Suc k) n = q"
    unfolding a drop_bit_eq_div by (subst div_mult_self4) simp_all
  moreover have "drop_bit (Suc k) (n - 1) = q"
    unfolding b drop_bit_eq_div by (subst div_mult_self4) (simp_all add: less_imp_diff_less)
  ultimately have "q = drop_bit (Suc k) (n AND (n - 1))" by (simp add: drop_bit_and)
  with assms(2) have "q = 0" by simp
  with a show ?thesis by auto
qed

lemma power_of_two_unat:
  assumes "power_of_two a"
  obtains k where "k < 64" "unat a = 2 ^ k" "a = 2 ^ k"
proof -
  from assms have nz: "a \<noteq> 0" and "a AND (a - 1) = 0" by (simp_all add: power_of_two_def)
  then have "unat a AND unat (a - 1) = 0" by (simp add: unsigned_and_eq [symmetric])
  moreover have "unat (a - 1) = unat a - 1" using nz by (simp add: unat_minus_one)
  ultimately obtain k where k: "unat a = 2 ^ k"
    using nat_power_of_two [of "unat a"] nz by (auto simp: unat_eq_zero)
  with unat64_bound [of a] have "(2 :: nat) ^ k < 2 ^ 64" by simp
  then have "k < 64" by (rule power_less_imp_less_exp [rotated]) simp
  moreover have "a = 2 ^ k"
    using arg_cong [OF k, of "of_nat :: nat \<Rightarrow> 64 word"] by simp
  ultimately show thesis using that k by blast
qed

lemma and_not_low_bits: "k < 64 \<Longrightarrow> unat ((x :: 64 word) AND NOT (2 ^ k - 1)) = unat x div 2 ^ k * 2 ^ k"
proof -
  assume "k < 64"
  have "x AND NOT (2 ^ k - 1) = push_bit k (drop_bit k x)"
    by (rule bit_word_eqI) (auto simp: bit_simps mask_eq_exp_minus_1 [symmetric])
  moreover have "unat x div 2 ^ k * 2 ^ k < 2 ^ 64"
    using unat64_bound [of x] div_times_less_eq_dividend [of "unat x" "2 ^ k"] by linarith
  moreover have "unat (push_bit k (drop_bit k x)) = take_bit 64 (push_bit k (drop_bit k (unat x)))"
    using unat64_bound [of x]
    by (simp only: unsigned_push_bit_eq unsigned_drop_bit_eq) (simp add: take_bit_nat_eq_self)
  ultimately show ?thesis
    by (simp only: push_bit_eq_mult [where 'a = nat] drop_bit_eq_div [where 'a = nat]
      take_bit_eq_mod mod_less)
qed

text \<open>\<open>align_u64\<close> is the least multiple of the alignment that is not below the value.\<close>

lemma align_u64_Some:
  assumes "power_of_two a" "align_u64 v a = Some r"
  shows "unat a dvd unat r" "unat v \<le> unat r" "unat r < unat v + unat a"
proof -
  obtain k where k: "k < 64" "unat a = 2 ^ k" "a = 2 ^ k" using power_of_two_unat [OF assms(1)] .
  let ?mask = "a - 1"
  have mask: "unat ?mask = 2 ^ k - 1"
    using k assms(1) by (simp add: power_of_two_def unat_minus_one)
  from assms(2) have r: "r = (v + ?mask) AND NOT ?mask" and "v \<le> UINT64_MAX - ?mask"
    by (auto simp: align_u64_def Let_def not_less split: if_splits)
  then have "unat v \<le> 2 ^ 64 - 1 - (2 ^ k - 1)"
    by (simp add: word_le_nat_alt unat_from_max mask)
  moreover have "(2 :: nat) ^ k < 2 ^ 64" using k(1) by (intro power_strict_increasing) simp_all
  ultimately have bound: "unat v + (2 ^ k - 1) < 2 ^ 64" by linarith
  have "unat (v + ?mask) = unat v + (2 ^ k - 1)"
    using bound by (simp add: unat_word_ariths mask)
  then have eq: "unat r = (unat v + (2 ^ k - 1)) div 2 ^ k * 2 ^ k"
    using and_not_low_bits [OF k(1), of "v + ?mask"] by (simp add: r k(3))
  then show "unat a dvd unat r" by (simp add: k(2))
  let ?x = "unat v + (2 ^ k - 1)"
  have "?x div 2 ^ k * 2 ^ k + ?x mod 2 ^ k = ?x" by (rule div_mult_mod_eq)
  moreover have "?x mod 2 ^ k < 2 ^ k" by simp
  ultimately show "unat v \<le> unat r" "unat r < unat v + unat a" unfolding eq k(2) by linarith+
qed

end
