(* ===== verification/Sol_LayoutSound.thy ===== *)
theory Sol_LayoutSound
  imports Sol_LayoutWord Sol_Classify
begin

text \<open>
  What an accepted layout promises. In every product the fields are aligned, follow each other
  without overlap and lie inside the object; in every sum the same holds of the fields of each
  inhabited variant, inside the payload, which starts behind the tag; an object is a multiple
  of its alignment and fits the target. Every layout that \<open>sol_mir_layout_build\<close> returns has
  been accepted.
\<close>

section \<open>Specification\<close>

abbreviation field_layout :: "SolMirLayout \<Rightarrow> size_t \<Rightarrow> SolMirFieldLayout" where
  "field_layout layout f \<equiv> ar_items (ly_fields layout) ! f"

abbreviation type_layout :: "SolMirLayout \<Rightarrow> size_t \<Rightarrow> SolMirTypeLayout" where
  "type_layout layout i \<equiv> ar_items (ly_types layout) ! i"

definition field_end :: "SolMirFieldLayout \<Rightarrow> nat" where
  "field_end l = unat (fl_offset l) + unat (fl_size l)"

definition field_sound :: "SolMirLayout \<Rightarrow> nat \<Rightarrow> nat \<Rightarrow> nat \<Rightarrow> size_t \<Rightarrow> bool" where
  "field_sound layout lo hi alignment f \<longleftrightarrow>
     (let l = field_layout layout f in
      fl_has_storage l \<and> lo \<le> unat (fl_offset l) \<and> field_end l \<le> hi \<and>
      unat (fl_alignment l) dvd unat (fl_offset l) \<and> unat (fl_alignment l) dvd alignment)"

definition fields_sound :: "SolMirLayout \<Rightarrow> nat \<Rightarrow> nat \<Rightarrow> nat \<Rightarrow> size_t list \<Rightarrow> bool" where
  "fields_sound layout lo hi alignment fs \<longleftrightarrow>
     list_all (field_sound layout lo hi alignment) fs \<and>
     sorted_wrt (\<lambda>f g. field_end (field_layout layout f) \<le> unat (fl_offset (field_layout layout g))) fs"

definition object_sound :: "SolMirLayout \<Rightarrow> size_t \<Rightarrow> bool" where
  "object_sound layout i \<longleftrightarrow>
     (let r = ly_representation layout; recipe = recipes_of r ! i; t = type_layout layout i;
          bytes = unat (tl_object_size t); alignment = unat (tl_object_alignment t);
          payload = unat (tl_payload_offset t); payload_end = payload + unat (tl_payload_size t)
      in rc_inhabited recipe \<and> \<not> rc_zero_sized recipe \<longrightarrow>
        (is_product (rc_kind recipe) \<or> is_sum (rc_kind recipe) \<longrightarrow>
          tl_has_object t \<and> tl_object_size t \<le> td_max_object_bytes (ly_target layout) \<and>
          alignment dvd bytes) \<and>
        (is_product (rc_kind recipe) \<longrightarrow> fields_sound layout 0 bytes alignment (recipe_fields r i)) \<and>
        (is_sum (rc_kind recipe) \<longrightarrow>
          tl_tag_offset t = 0 \<and> tl_tag_size t = 4 \<and> 4 \<le> payload \<and> payload_end \<le> bytes \<and>
          list_all (\<lambda>v. vl_has_payload_storage (ar_items (ly_variants layout) ! v) \<longrightarrow>
            fields_sound layout payload payload_end alignment (variant_fields r v))
            (recipe_variants r i)))"

section \<open>Powers of two\<close>

lemma power_of_two_dvd:
  assumes "power_of_two a" "power_of_two b" "a \<le> b"
  shows "unat a dvd unat b"
proof -
  obtain k where k: "unat a = 2 ^ k" using power_of_two_unat [OF assms(1)] .
  obtain l where l: "unat b = 2 ^ l" using power_of_two_unat [OF assms(2)] .
  have "(2 :: nat) ^ k \<le> 2 ^ l" using assms(3) k l by (simp add: word_le_nat_alt)
  then show ?thesis unfolding k l by (intro le_imp_power_dvd) (simp add: power_increasing_iff)
qed

lemma power_of_two_one [simp]: "power_of_two 1"
  by (simp add: power_of_two_def)

lemma power_of_two_four [simp]: "power_of_two 4"
  by (simp add: power_of_two_def)

lemma max_u64_power: "power_of_two a \<Longrightarrow> power_of_two b \<Longrightarrow> power_of_two (max_u64 a b)"
  by (simp add: max_u64_def)

lemma max_u64_ge: "a \<le> max_u64 a b" "b \<le> max_u64 a b"
  by (auto simp: max_u64_def)

lemma check_align_Some:
  assumes "check_align v a = Some r"
  shows "power_of_two a" "unat a dvd unat r" "unat v \<le> unat r"
  using assms align_u64_Some [of a v r] by (auto simp: check_align_def split: if_splits)

section \<open>Packing\<close>

text \<open>The shift and the comparison with the records do not change what a packing computes.\<close>

lemma derive_field_relax:
  assumes "derive_field layout physical shift records owner variant f s = Inr t"
  shows "derive_field layout physical None False owner variant f s = Inr t"
proof -
  obtain stop alignment where s: "s = (stop, alignment)" by (cases s)
  have range: "f < length (fields_of (ly_representation layout))"
    using assms by (auto simp: derive_field_def s split: if_splits)
  show ?thesis
  proof (cases physical)
    case True
    then obtain v p where "field_value layout f = Inr v" "check_place stop v = Inr p"
      "t = (snd p, max_u64 alignment (tl_value_alignment v))"
      using assms range unfolding derive_field_def s
      by (auto split: prod.splits)
    with True range show ?thesis by (simp add: derive_field_def s check_field_def case_prod_beta)
  next
    case False
    with assms range show ?thesis by (auto simp: derive_field_def s check_field_def)
  qed
qed

lemma derive_fields_relax:
  "for_each (derive_field layout physical shift records owner variant) fs s = Inr t \<Longrightarrow>
   for_each (derive_field layout physical None False owner variant) fs s = Inr t"
proof (induction fs arbitrary: s)
  case (Cons f fs)
  from Cons.prems obtain u where
    "derive_field layout physical shift records owner variant f s = Inr u"
    and rest: "for_each (derive_field layout physical shift records owner variant) fs u = Inr t" by auto
  then have "derive_field layout physical None False owner variant f s = Inr u"
    by (intro derive_field_relax)
  with Cons.IH [OF rest] show ?case by simp
qed simp

lemma pack_variant_relax:
  assumes "pack_variant layout owner v shift records = Inr t"
  shows "pack_variant layout owner v None False = Inr t"
proof -
  let ?variant = "variants_of (ly_representation layout) ! v"
  from assms obtain inhabited stop alignment where
    "v < length (variants_of (ly_representation layout))"
    "check_inhabited (ly_representation layout) (slice_ids (rv_fields ?variant)) = Inr inhabited"
    and run: "for_each (derive_field layout inhabited shift records owner v) (slice_ids (rv_fields ?variant))
      (0, 1) = Inr (stop, alignment)"
    and "andThen (from_option (check_align stop alignment)) (\<lambda>b. Inr (b, alignment)) = Inr t"
    by (auto simp: pack_variant_def)
  then show ?thesis using derive_fields_relax [OF run] by (auto simp: pack_variant_def)
qed

definition shift_of :: "uint64_t option \<Rightarrow> nat" where
  "shift_of shift = (case shift of None \<Rightarrow> 0 | Some b \<Rightarrow> unat b)"

lemma derive_field_placed:
  assumes "derive_field layout True shift True owner variant f (stop, alignment) = Inr (stop', alignment')"
    and "power_of_two alignment"
  shows "power_of_two alignment'" "alignment \<le> alignment'"
    "fl_has_storage (field_layout layout f)"
    "power_of_two (fl_alignment (field_layout layout f))" "fl_alignment (field_layout layout f) \<le> alignment'"
    "shift_of shift + unat stop \<le> unat (fl_offset (field_layout layout f))"
    "unat (fl_alignment (field_layout layout f)) dvd unat (fl_offset (field_layout layout f)) - shift_of shift"
    "field_end (field_layout layout f) = shift_of shift + unat stop'"
proof -
  from assms(1) obtain v offset shown where
    "field_value layout f = Inr v" and place: "check_place stop v = Inr (offset, stop')"
    and shown: "(case shift of None \<Rightarrow> Inr offset
       | Some base \<Rightarrow> from_option (checked_add_u64 offset base)) = Inr shown"
    and field: "field_layout layout f = (stored_field f owner variant stop offset v)\<lparr>fl_offset := shown\<rparr>"
    and al: "alignment' = max_u64 alignment (tl_value_alignment v)"
    by (auto simp: derive_field_def check_field_def split: if_splits)
  from place have align: "check_align stop (tl_value_alignment v) = Some offset"
    and add: "checked_add_u64 offset (tl_value_size v) = Some stop'"
    by (auto simp: check_place_def)
  note aligned = check_align_Some [OF align]
  have shown_eq: "unat shown = unat offset + shift_of shift"
    using shown checked_add_u64_Some by (auto simp: shift_of_def split: option.splits)
  show "power_of_two alignment'" "alignment \<le> alignment'"
    using al assms(2) aligned(1) by (simp_all add: max_u64_power max_u64_ge)
  show "fl_has_storage (field_layout layout f)"
    "power_of_two (fl_alignment (field_layout layout f))" "fl_alignment (field_layout layout f) \<le> alignment'"
    using aligned(1) by (simp_all add: field stored_field_def al max_u64_ge)
  show "shift_of shift + unat stop \<le> unat (fl_offset (field_layout layout f))"
    "unat (fl_alignment (field_layout layout f)) dvd unat (fl_offset (field_layout layout f)) - shift_of shift"
    "field_end (field_layout layout f) = shift_of shift + unat stop'"
    using aligned checked_add_u64_Some [OF add]
    by (simp_all add: field stored_field_def shown_eq field_end_def)
qed

lemma derive_fields_placed:
  assumes "for_each (derive_field layout True shift True owner variant) fs (stop, alignment) =
      Inr (stop', alignment')" "power_of_two alignment"
  shows "power_of_two alignment' \<and> alignment \<le> alignment' \<and> unat stop \<le> unat stop' \<and>
    list_all (\<lambda>f. let l = field_layout layout f in
      fl_has_storage l \<and> power_of_two (fl_alignment l) \<and> fl_alignment l \<le> alignment' \<and>
      shift_of shift + unat stop \<le> unat (fl_offset l) \<and> field_end l \<le> shift_of shift + unat stop' \<and>
      unat (fl_alignment l) dvd unat (fl_offset l) - shift_of shift) fs \<and>
    sorted_wrt (\<lambda>f g. field_end (field_layout layout f) \<le> unat (fl_offset (field_layout layout g))) fs"
  using assms
proof (induction fs arbitrary: stop alignment)
  case (Cons f fs)
  from Cons.prems(1) obtain stop1 alignment1 where
    step: "derive_field layout True shift True owner variant f (stop, alignment) = Inr (stop1, alignment1)"
    and rest: "for_each (derive_field layout True shift True owner variant) fs (stop1, alignment1) =
      Inr (stop', alignment')" by auto
  note first = derive_field_placed [OF step Cons.prems(2)]
  from Cons.IH [OF rest first(1)] have later:
    "power_of_two alignment'" "alignment1 \<le> alignment'" "unat stop1 \<le> unat stop'"
    "\<forall>g \<in> set fs. fl_has_storage (field_layout layout g) \<and>
      power_of_two (fl_alignment (field_layout layout g)) \<and>
      fl_alignment (field_layout layout g) \<le> alignment' \<and>
      shift_of shift + unat stop1 \<le> unat (fl_offset (field_layout layout g)) \<and>
      field_end (field_layout layout g) \<le> shift_of shift + unat stop' \<and>
      unat (fl_alignment (field_layout layout g)) dvd
        unat (fl_offset (field_layout layout g)) - shift_of shift"
    "sorted_wrt (\<lambda>f g. field_end (field_layout layout f) \<le> unat (fl_offset (field_layout layout g))) fs"
    by (simp_all add: list_all_iff Let_def)
  have grow: "unat stop \<le> unat stop1" using first(6,8) by (simp add: field_end_def)
  have "fl_alignment (field_layout layout f) \<le> alignment'" "alignment \<le> alignment'"
    using first(2,5) later(2) by (blast intro: order_trans)+
  then show ?case using first later grow
    by (auto simp: list_all_iff Let_def)
qed simp

lemma placed_sound:
  assumes "for_each (derive_field layout True shift True owner variant) fs (0, 1) = Inr (stop, alignment)"
    and "power_of_two whole" "alignment \<le> whole" "unat alignment dvd shift_of shift"
    and "shift_of shift + unat stop \<le> hi"
  shows "fields_sound layout (shift_of shift) hi (unat whole) fs"
proof -
  from derive_fields_placed [OF assms(1) power_of_two_one]
  have al: "power_of_two alignment"
    and fields: "\<forall>f \<in> set fs. fl_has_storage (field_layout layout f) \<and>
      power_of_two (fl_alignment (field_layout layout f)) \<and>
      fl_alignment (field_layout layout f) \<le> alignment \<and>
      shift_of shift \<le> unat (fl_offset (field_layout layout f)) \<and>
      field_end (field_layout layout f) \<le> shift_of shift + unat stop \<and>
      unat (fl_alignment (field_layout layout f)) dvd
        unat (fl_offset (field_layout layout f)) - shift_of shift"
    and sorted: "sorted_wrt (\<lambda>f g. field_end (field_layout layout f) \<le>
      unat (fl_offset (field_layout layout g))) fs"
    by (simp_all add: list_all_iff Let_def)
  have "field_sound layout (shift_of shift) hi (unat whole) f" if f: "f \<in> set fs" for f
  proof -
    let ?l = "field_layout layout f"
    from fields f have p: "power_of_two (fl_alignment ?l)" "fl_alignment ?l \<le> alignment"
      "shift_of shift \<le> unat (fl_offset ?l)" "field_end ?l \<le> hi" "fl_has_storage ?l"
      "unat (fl_alignment ?l) dvd unat (fl_offset ?l) - shift_of shift"
      using assms(5) by fastforce+
    have "unat (fl_alignment ?l) dvd shift_of shift"
      using power_of_two_dvd [OF p(1) al p(2)] assms(4) by (rule dvd_trans)
    with p(3,6) have "unat (fl_alignment ?l) dvd unat (fl_offset ?l)"
      by (metis dvd_diffD)
    moreover have "unat (fl_alignment ?l) dvd unat whole"
      using p(1,2) assms(2,3) by (intro power_of_two_dvd) (auto intro: order_trans)
    ultimately show ?thesis using p by (simp add: field_sound_def Let_def)
  qed
  with sorted show ?thesis by (simp add: fields_sound_def list_all_iff)
qed

section \<open>Products and sums\<close>

lemma check_finish_Inr:
  assumes "check_finish target type stop alignment = Inr t"
  shows "tl_has_object t" "tl_object_size t \<le> td_max_object_bytes target"
    "tl_object_alignment t = alignment" "power_of_two alignment"
    "unat alignment dvd unat (tl_object_size t)" "unat stop \<le> unat (tl_object_size t)"
    "tl_tag_offset t = tl_tag_offset type" "tl_tag_size t = tl_tag_size type"
    "tl_payload_offset t = tl_payload_offset type" "tl_payload_size t = tl_payload_size type"
  using assms check_align_Some by (auto simp: check_finish_def)

lemma derive_product_sound:
  assumes "derive_product layout i type True = Inr t"
    "rc_inhabited (recipes_of (ly_representation layout) ! i)"
    "\<not> rc_zero_sized (recipes_of (ly_representation layout) ! i)"
  shows "tl_has_object t" "tl_object_size t \<le> td_max_object_bytes (ly_target layout)"
    "unat (tl_object_alignment t) dvd unat (tl_object_size t)"
    "fields_sound layout 0 (unat (tl_object_size t)) (unat (tl_object_alignment t))
      (recipe_fields (ly_representation layout) i)"
proof -
  from assms obtain stop alignment where
    pack: "for_each (derive_field layout True None True i SIZE_MAX)
      (recipe_fields (ly_representation layout) i) (0, 1) = Inr (stop, alignment)"
    and finish: "check_finish (ly_target layout) (type\<lparr>tl_object_kind := SOL_MIR_LAYOUT_OBJECT_PRODUCT\<rparr>)
      stop alignment = Inr t"
    by (auto simp: derive_product_def recipe_fields_def Let_def)
  note object = check_finish_Inr [OF finish]
  show "tl_has_object t" "tl_object_size t \<le> td_max_object_bytes (ly_target layout)"
    "unat (tl_object_alignment t) dvd unat (tl_object_size t)"
    using object by simp_all
  show "fields_sound layout 0 (unat (tl_object_size t)) (unat (tl_object_alignment t))
      (recipe_fields (ly_representation layout) i)"
    using placed_sound [OF pack, of alignment "unat (tl_object_size t)"] object by (simp add: shift_of_def)
qed

text \<open>What the first pass over the variants knows of the ones it has seen.\<close>

definition variant_seen ::
  "SolMirLayout \<Rightarrow> size_t \<Rightarrow> uint64_t \<Rightarrow> uint64_t \<Rightarrow> size_t \<Rightarrow> bool" where
  "variant_seen layout owner maximum_size maximum_alignment v \<longleftrightarrow>
     (\<exists>inhabited bytes alignment.
       check_inhabited (ly_representation layout) (variant_fields (ly_representation layout) v) =
         Inr inhabited \<and>
       vl_has_payload_storage (ar_items (ly_variants layout) ! v) = inhabited \<and>
       pack_variant layout owner v None False = Inr (bytes, alignment) \<and>
       (inhabited \<longrightarrow> bytes \<le> maximum_size \<and> alignment \<le> maximum_alignment))"

lemma pack_variant_power:
  "pack_variant layout owner v shift records = Inr (bytes, alignment) \<Longrightarrow> power_of_two alignment"
  using check_align_Some by (auto simp: pack_variant_def)

lemma derive_variant_seen:
  assumes "derive_variant layout owner owner_inhabited True v (ms, ma) = Inr (ms', ma')"
    "power_of_two ma"
  shows "ms \<le> ms'" "ma \<le> ma'" "power_of_two ma'" "variant_seen layout owner ms' ma' v"
proof -
  from assms(1) obtain bytes alignment inhabited where
    pack: "pack_variant layout owner v None (\<not> owner_inhabited) = Inr (bytes, alignment)"
    and inh: "check_inhabited (ly_representation layout) (variant_fields (ly_representation layout) v) =
      Inr inhabited"
    and storage: "vl_has_payload_storage (ar_items (ly_variants layout) ! v) = inhabited"
    and result: "(ms', ma') = (if inhabited then (max_u64 ms bytes, max_u64 ma alignment) else (ms, ma))"
    by (auto simp: derive_variant_def Let_def variant_fields_def check_variant_def split: if_splits)
  have "power_of_two alignment" using pack_variant_power [OF pack] .
  with result assms(2) show "ms \<le> ms'" "ma \<le> ma'" "power_of_two ma'"
    by (auto simp: max_u64_ge max_u64_power split: if_splits)
  show "variant_seen layout owner ms' ma' v"
    using inh storage pack_variant_relax [OF pack] result
    by (auto simp: variant_seen_def max_u64_ge split: if_splits)
qed

lemma variant_seen_mono:
  "variant_seen layout owner ms ma v \<Longrightarrow> ms \<le> ms' \<Longrightarrow> ma \<le> ma' \<Longrightarrow> variant_seen layout owner ms' ma' v"
  unfolding variant_seen_def by (blast intro: order_trans)

lemma derive_variants_seen:
  assumes "for_each (derive_variant layout owner owner_inhabited True) vs (ms, ma) = Inr (ms', ma')"
    "power_of_two ma"
  shows "ms \<le> ms' \<and> ma \<le> ma' \<and> power_of_two ma' \<and> list_all (variant_seen layout owner ms' ma') vs"
  using assms
proof (induction vs arbitrary: ms ma)
  case (Cons v vs)
  from Cons.prems(1) obtain ms1 ma1 where
    step: "derive_variant layout owner owner_inhabited True v (ms, ma) = Inr (ms1, ma1)"
    and rest: "for_each (derive_variant layout owner owner_inhabited True) vs (ms1, ma1) = Inr (ms', ma')"
    by auto
  note first = derive_variant_seen [OF step Cons.prems(2)]
  from Cons.IH [OF rest first(3)] first show ?case
    by (auto intro: order_trans variant_seen_mono)
qed simp

lemma absolute_variant_sound:
  assumes seen: "variant_seen layout owner ms ma v"
    and storage: "vl_has_payload_storage (ar_items (ly_variants layout) ! v)"
    and pack: "pack_variant layout owner v (Some payload) True = Inr t"
    and ma: "power_of_two ma" "unat ma dvd unat payload" and whole: "power_of_two whole" "ma \<le> whole"
  shows "fields_sound layout (unat payload) (unat payload + unat ms) (unat whole)
    (variant_fields (ly_representation layout) v)"
proof -
  from seen storage obtain bytes alignment where
    inh: "check_inhabited (ly_representation layout) (variant_fields (ly_representation layout) v) = Inr True"
    and relaxed: "pack_variant layout owner v None False = Inr (bytes, alignment)"
    and le: "bytes \<le> ms" "alignment \<le> ma"
    by (auto simp: variant_seen_def)
  have t: "t = (bytes, alignment)" using pack_variant_relax [OF pack] relaxed by simp
  from pack inh obtain stop where
    run: "for_each (derive_field layout True (Some payload) True owner v)
      (variant_fields (ly_representation layout) v) (0, 1) = Inr (stop, alignment)"
    and align: "check_align stop alignment = Some bytes"
    by (auto simp: pack_variant_def variant_fields_def t)
  have "unat alignment dvd unat payload"
    using power_of_two_dvd [OF check_align_Some(1) [OF align] ma(1) le(2)] ma(2) by (rule dvd_trans)
  moreover have "unat stop \<le> unat ms"
    using check_align_Some(3) [OF align] le(1) by (simp add: word_le_nat_alt)
  ultimately show ?thesis
    using placed_sound [OF run whole(1), of "unat payload + unat ms"] le(2) whole(2)
    by (simp add: shift_of_def)
qed

lemma absolute_pass:
  "for_each (\<lambda>v _. andThen (pack_variant layout i v shift True) (\<lambda>_. Inr ())) vs () = Inr () \<Longrightarrow>
   v \<in> set vs \<Longrightarrow> \<exists>t. pack_variant layout i v shift True = Inr t"
  by (induction vs) auto

lemma derive_sum_sound:
  assumes "derive_sum layout i type True = Inr t"
    "rc_inhabited (recipes_of (ly_representation layout) ! i)"
  shows "tl_has_object t" "tl_object_size t \<le> td_max_object_bytes (ly_target layout)"
    "unat (tl_object_alignment t) dvd unat (tl_object_size t)"
    "tl_tag_offset t = 0" "tl_tag_size t = 4" "4 \<le> unat (tl_payload_offset t)"
    "unat (tl_payload_offset t) + unat (tl_payload_size t) \<le> unat (tl_object_size t)"
    "list_all (\<lambda>v. vl_has_payload_storage (ar_items (ly_variants layout) ! v) \<longrightarrow>
        fields_sound layout (unat (tl_payload_offset t))
          (unat (tl_payload_offset t) + unat (tl_payload_size t)) (unat (tl_object_alignment t))
          (variant_fields (ly_representation layout) v))
      (recipe_variants (ly_representation layout) i)"
proof -
  let ?vs = "recipe_variants (ly_representation layout) i"
  from assms obtain ms ma payload stop where
    first: "for_each (derive_variant layout i True True) ?vs (0, 1) = Inr (ms, ma)"
    and payload: "check_align 4 ma = Some payload"
    and stop: "checked_add_u64 payload ms = Some stop"
    and second: "for_each (\<lambda>v _. andThen (pack_variant layout i v (Some payload) True) (\<lambda>_. Inr ())) ?vs () = Inr ()"
    and finish: "check_finish (ly_target layout)
      (type\<lparr> tl_object_kind := SOL_MIR_LAYOUT_OBJECT_SUM, tl_tag_offset := 0, tl_tag_size := 4,
         tl_payload_offset := payload, tl_payload_size := ms \<rparr>) stop (if ma > 4 then ma else 4) = Inr t"
    by (auto simp: derive_sum_def recipe_variants_def)
  note object = check_finish_Inr [OF finish]
  note seen = derive_variants_seen [OF first power_of_two_one]
  note base = check_align_Some [OF payload]
  show "tl_has_object t" "tl_object_size t \<le> td_max_object_bytes (ly_target layout)"
    "unat (tl_object_alignment t) dvd unat (tl_object_size t)"
    "tl_tag_offset t = 0" "tl_tag_size t = 4" "4 \<le> unat (tl_payload_offset t)"
    using object base(3) by simp_all
  show "unat (tl_payload_offset t) + unat (tl_payload_size t) \<le> unat (tl_object_size t)"
    using object checked_add_u64_Some [OF stop] by simp
  have whole: "power_of_two (if ma > 4 then ma else 4)" "ma \<le> (if ma > 4 then ma else 4)"
    using object(4) by auto
  have "fields_sound layout (unat payload) (unat payload + unat ms) (unat (if ma > 4 then ma else 4))
      (variant_fields (ly_representation layout) v)"
    if v: "v \<in> set ?vs" "vl_has_payload_storage (ar_items (ly_variants layout) ! v)" for v
  proof -
    obtain packed where "pack_variant layout i v (Some payload) True = Inr packed"
      using absolute_pass [OF second v(1)] by blast
    moreover have "variant_seen layout i ms ma v" using seen v(1) by (simp add: list_all_iff)
    ultimately show ?thesis using v(2) base(1,2) whole by (intro absolute_variant_sound)
  qed
  then show "list_all (\<lambda>v. vl_has_payload_storage (ar_items (ly_variants layout) ! v) \<longrightarrow>
        fields_sound layout (unat (tl_payload_offset t))
          (unat (tl_payload_offset t) + unat (tl_payload_size t)) (unat (tl_object_alignment t))
          (variant_fields (ly_representation layout) v)) ?vs"
    using object by (simp add: list_all_iff)
qed

section \<open>Accepted layouts\<close>

lemma product_not_sum: "is_product k \<Longrightarrow> \<not> is_sum k"
  by (cases k) (auto simp: is_product_def is_sum_def)

lemma derive_type_sound:
  assumes "derive_type (Suc n) layout i True = Inr (type_layout layout i)"
  shows "object_sound layout i"
proof (cases "rc_inhabited (recipes_of (ly_representation layout) ! i) \<and>
    \<not> rc_zero_sized (recipes_of (ly_representation layout) ! i)")
  case True
  let ?recipe = "recipes_of (ly_representation layout) ! i"
  from assms True obtain expected where
    plain: "\<not> is_wrapper (rc_kind ?recipe) \<Longrightarrow>
      derive_plain layout i ?recipe expected True = Inr (type_layout layout i)"
    by (auto simp: Let_def split: if_splits)
  show ?thesis
  proof (cases "is_product (rc_kind ?recipe)")
    case product: True
    then have "derive_product layout i expected True = Inr (type_layout layout i)"
      using plain by (auto simp: derive_plain_def is_product_def is_wrapper_def)
    from derive_product_sound [OF this] True product show ?thesis
      by (simp add: object_sound_def Let_def product_not_sum)
  next
    case no_product: False
    show ?thesis
    proof (cases "is_sum (rc_kind ?recipe)")
      case sum: True
      then have "derive_sum layout i expected True = Inr (type_layout layout i)"
        using plain by (auto simp: derive_plain_def is_sum_def is_wrapper_def)
      from derive_sum_sound [OF this] True sum no_product show ?thesis
        by (simp add: object_sound_def Let_def)
    next
      case False
      with no_product show ?thesis by (simp add: object_sound_def Let_def)
    qed
  qed
qed (auto simp: object_sound_def Let_def)

lemma validate_records_sound:
  assumes "validate_records layout = Inr ()" "i < length (recipes_of (ly_representation layout))"
  shows "object_sound layout i"
proof -
  let ?n = "length (recipes_of (ly_representation layout))"
  from assms(1) obtain state where
    "for_each (validate_recipe layout) [0 ..< ?n] (0, 0) = Inr state"
    by (auto simp: validate_records_def)
  then have "\<forall>j < ?n. object_sound layout j"
  proof (rule for_each_upt [where I = "\<lambda>k _. \<forall>j < k. object_sound layout j"])
    fix k s s'
    assume "\<forall>j < k. object_sound layout j" "validate_recipe layout k s = Inr s'"
    then show "\<forall>j < Suc k. object_sound layout j"
      using derive_type_sound by (auto simp: validate_recipe_def Let_def less_Suc_eq simp del: derive_type.simps)
  qed simp
  with assms(2) show ?thesis by blast
qed

end
