(* ===== verification/Sol_LayoutApi.thy ===== *)
theory Sol_LayoutApi
  imports Sol_LayoutSound
begin

text \<open>
  What holds of every layout that \<open>sol_mir_layout_build\<close> hands out: it has been accepted, its
  projections stay inside their objects, and it is a layout of the requested representation
  for the requested target.
\<close>

section \<open>Projections\<close>

text \<open>A projection reads a field of its base object, inside the object and aligned.\<close>

definition projection_sound :: "SolMirLayout \<Rightarrow> size_t \<Rightarrow> bool" where
  "projection_sound layout p \<longleftrightarrow>
     (let map = ar_items (ly_projections layout) ! p;
          t = type_layout layout (pm_base_recipe map); l = field_layout layout (pm_field_layout map) in
      pm_field_layout map \<in> set (recipe_fields (ly_representation layout) (pm_base_recipe map)) \<and>
      rf_type (fields_of (ly_representation layout) ! pm_field_layout map) = pm_result_recipe map \<and>
      tl_has_object t \<and> pm_object_offset map = fl_offset l \<and>
      unat (pm_object_offset map) + unat (fl_size l) \<le> unat (tl_object_size t) \<and>
      unat (fl_alignment l) dvd unat (pm_object_offset map))"

lemma match_fields_found:
  "match_fields r match fs (found, n) = Inr (found', n') \<Longrightarrow>
   n' = n \<and> found' = found \<or> found' \<in> set fs"
proof (induction fs arbitrary: found n)
  case (Cons f fs)
  then show ?case by (fastforce split: if_splits)
qed simp

lemma projection_is_product: "projection_product projection recipe \<Longrightarrow> is_product (rc_kind recipe)"
  by (auto simp: projection_product_def is_product_def split: if_splits)

text \<open>The fields of a product without objects have no storage.\<close>

lemma derive_fields_shape:
  "for_each (derive_field layout False shift True owner variant) fs s = Inr t \<Longrightarrow> f \<in> set fs \<Longrightarrow>
   \<not> fl_has_storage (field_layout layout f)"
proof (induction fs arbitrary: s)
  case (Cons g fs)
  then obtain u where step: "derive_field layout False shift True owner variant g s = Inr u"
    and rest: "for_each (derive_field layout False shift True owner variant) fs u = Inr t" by auto
  from step have "\<not> fl_has_storage (field_layout layout g)"
    by (auto simp: derive_field_def check_field_def shape_field_def split: prod.splits if_splits)
  with Cons.IH [OF rest] Cons.prems(2) show ?case by auto
qed simp

lemma stored_field_physical:
  assumes "derive_type (Suc n) layout i True = Inr t" "is_product (rc_kind (recipes_of (ly_representation layout) ! i))"
    and "f \<in> set (recipe_fields (ly_representation layout) i)" "fl_has_storage (field_layout layout f)"
  shows "rc_inhabited (recipes_of (ly_representation layout) ! i) \<and>
    \<not> rc_zero_sized (recipes_of (ly_representation layout) ! i)"
proof (rule ccontr)
  let ?recipe = "recipes_of (ly_representation layout) ! i"
  assume "\<not> (rc_inhabited ?recipe \<and> \<not> rc_zero_sized ?recipe)"
  moreover have "\<not> is_wrapper (rc_kind ?recipe)"
    using assms(2) by (auto simp: is_product_def is_wrapper_def)
  ultimately obtain expected where "derive_product layout i expected True = Inr t"
    using assms(1,2) product_not_sum by (auto simp: derive_plain_def Let_def split: if_splits)
  then obtain u where "for_each (derive_field layout False None True i SIZE_MAX)
      (recipe_fields (ly_representation layout) i) (0, 1) = Inr u"
    using \<open>\<not> (rc_inhabited ?recipe \<and> \<not> rc_zero_sized ?recipe)\<close>
    by (auto simp: derive_product_def recipe_fields_def Let_def)
  from derive_fields_shape [OF this assms(3)] assms(4) show False by simp
qed

lemma validate_records_recipe:
  assumes "validate_records layout = Inr ()" "i < length (recipes_of (ly_representation layout))"
  shows "\<exists>n t. derive_type (Suc n) layout i True = Inr t"
proof -
  let ?n = "length (recipes_of (ly_representation layout))"
  from assms(1) obtain state where
    "for_each (validate_recipe layout) [0 ..< ?n] (0, 0) = Inr state"
    by (auto simp: validate_records_def)
  then have "\<forall>j < ?n. \<exists>n t. derive_type (Suc n) layout j True = Inr t"
  proof (rule for_each_upt [where I = "\<lambda>k _. \<forall>j < k. \<exists>n t. derive_type (Suc n) layout j True = Inr t"])
    fix k s s'
    assume old: "\<forall>j < k. \<exists>n t. derive_type (Suc n) layout j True = Inr t"
      and "validate_recipe layout k s = Inr s'"
    then obtain t where "derive_type (Suc ?n) layout k True = Inr t"
      by (auto simp: validate_recipe_def Let_def simp del: derive_type.simps)
    with old show "\<forall>j < Suc k. \<exists>n t. derive_type (Suc n) layout j True = Inr t"
      by (auto simp: less_Suc_eq simp del: derive_type.simps)
  qed simp
  with assms(2) show ?thesis by blast
qed

lemma stored_field_sound:
  assumes records: "validate_records layout = Inr ()"
    and i: "i < length (recipes_of (ly_representation layout))"
    and product: "is_product (rc_kind (recipes_of (ly_representation layout) ! i))"
    and f: "f \<in> set (recipe_fields (ly_representation layout) i)" "fl_has_storage (field_layout layout f)"
  shows "tl_has_object (type_layout layout i)"
    "field_end (field_layout layout f) \<le> unat (tl_object_size (type_layout layout i))"
    "unat (fl_alignment (field_layout layout f)) dvd unat (fl_offset (field_layout layout f))"
proof -
  obtain n t where "derive_type (Suc n) layout i True = Inr t"
    using validate_records_recipe [OF records i] by blast
  from stored_field_physical [OF this product f] validate_records_sound [OF records i] product f(1)
  show "tl_has_object (type_layout layout i)"
    "field_end (field_layout layout f) \<le> unat (tl_object_size (type_layout layout i))"
    "unat (fl_alignment (field_layout layout f)) dvd unat (fl_offset (field_layout layout f))"
    by (auto simp: object_sound_def fields_sound_def field_sound_def list_all_iff Let_def)
qed

lemma validate_projection_sound:
  assumes "validate_projection layout place (consumed, base) = Inr (consumed', base')"
    and "validate_records layout = Inr ()"
  shows "consumed' = Suc consumed" "projection_sound layout consumed"
proof -
  let ?r = "ly_representation layout"
  from assms(1) obtain projection found matches where
    base: "base < length (recipes_of ?r)" and product: "projection_product projection (recipes_of ?r ! base)"
    and found: "match_fields ?r (projection_matches projection)
      (recipe_fields ?r base) (SIZE_MAX, 0) = Inr (found, matches)"
    and matches: "matches = 1" and type: "rf_type (fields_of ?r ! found) = pj_type projection"
    and stored: "fl_has_storage (field_layout layout found)"
    and map: "ar_items (ly_projections layout) ! consumed =
      \<lparr> pm_projection = consumed, pm_place = place, pm_base_recipe = base,
        pm_result_recipe = pj_type projection, pm_field_layout = found,
        pm_object_offset = fl_offset (field_layout layout found) \<rparr>"
    and next_state: "consumed' = Suc consumed"
    by (auto simp: validate_projection_def Let_def recipe_fields_def split: if_splits)
  show "consumed' = Suc consumed" by (rule next_state)
  have "found \<in> set (recipe_fields ?r base)"
    using match_fields_found [OF found] matches by simp
  with stored_field_sound [OF assms(2) base projection_is_product [OF product] this stored] type
  show "projection_sound layout consumed"
    by (simp add: projection_sound_def map field_end_def)
qed

lemma validate_place_sound:
  assumes "validate_place layout p consumed = Inr consumed'" "validate_records layout = Inr ()"
    and "\<forall>j < consumed. projection_sound layout j"
  shows "\<forall>j < consumed'. projection_sound layout j"
proof -
  from assms(1) obtain n start state where
    run: "for_each (\<lambda>i. validate_projection layout p) [0 ..< n] (consumed, start) = Inr state"
    and consumed': "fst state = consumed'"
    by (auto simp: validate_place_def split: if_splits)
  from run have "\<forall>j < fst state. projection_sound layout j"
  proof (rule for_each_upt [where I = "\<lambda>_ s. \<forall>j < fst s. projection_sound layout j"])
    fix i :: nat and s s' :: "size_t \<times> size_t"
    assume old: "\<forall>j < fst s. projection_sound layout j"
      and step: "validate_projection layout p s = Inr s'"
    obtain a b a' b' where "s = (a, b)" "s' = (a', b')" by (cases s, cases s')
    with old validate_projection_sound [of layout p a b a' b'] step assms(2)
    show "\<forall>j < fst s'. projection_sound layout j" by (auto simp: less_Suc_eq)
  qed (use assms(3) in simp)
  with consumed' show ?thesis by simp
qed

lemma validate_projections_sound:
  assumes "validate_projections layout = Inr ()" "validate_records layout = Inr ()"
    and "p < length (ar_items (ly_projections layout))"
  shows "projection_sound layout p"
proof -
  from assms(1) obtain n where
    run: "for_each (validate_place layout) [0 ..< n] 0 = Inr (length (ar_items (ly_projections layout)))"
    by (auto simp: validate_projections_def Let_def)
  then have "\<forall>j < length (ar_items (ly_projections layout)). projection_sound layout j"
    by (rule for_each_upt [where I = "\<lambda>_ c. \<forall>j < c. projection_sound layout j"])
      (use validate_place_sound assms(2) in auto)
  with assms(3) show ?thesis by blast
qed

section \<open>The entry point\<close>

lemma layout_validate_accepts:
  assumes "run_state (sol_mir_layout_validate validate memory layout ds) env = ((True, ds'), env')"
  shows "validate_records layout = Inr ()" "validate_projections layout = Inr ()"
    "layout_counts_ok layout"
  using assms
  by (auto simp: sol_mir_layout_validate_def invalid_def Let_def split: if_splits option.splits prod.splits)

lemma layout_build_accepts:
  assumes "run_state (sol_mir_layout_build validate memory heap r target limits ds) env =
      ((outcome, Some layout, ds'), env')"
  shows "\<exists>ds1 env1. run_state (sol_mir_layout_validate validate memory layout ds1) env1 = ((True, ds'), env')"
  using assms
  by (auto simp: sol_mir_layout_build_def split: if_splits option.splits prod.splits)

section \<open>The request\<close>

text \<open>No step of the builder changes what is laid out or for which target.\<close>

definition request_of :: "LayoutBuilder \<Rightarrow> SolMirRepresentation \<times> SolMirTargetDescriptor" where
  "request_of b = (ly_representation (lb_out b), ly_target (lb_out b))"

lemma for_each_frame:
  assumes "for_each f is s = Inr s'" "\<And>i s s'. f i s = Inr s' \<Longrightarrow> g s' = g s"
  shows "g s' = g s"
  using assms by (induction "is" arbitrary: s) fastforce+

lemma put_request:
  "put_type i t b = Inr c \<Longrightarrow> request_of c = request_of b"
  "put_field i l b = Inr c \<Longrightarrow> request_of c = request_of b"
  "put_variant i v b = Inr c \<Longrightarrow> request_of c = request_of b"
  "layout_charge message b = Inr c \<Longrightarrow> request_of c = request_of b"
  by (auto simp: request_of_def put_type_def put_field_def put_variant_def layout_charge_def exhausted_def
      set_types_def set_fields_def set_variants_def split: option.splits if_splits)

lemma wrapper_layout_request:
  "wrapper_layout depth current b = Inr (bytes, alignment, c) \<Longrightarrow> request_of c = request_of b"
  by (induction depth arbitrary: current b) (auto split: if_splits dest!: put_request)

lemma value_layout_request:
  assumes "value_layout i b = Inr c" shows "request_of c = request_of b"
proof -
  from assms obtain b1 b2 and recipe :: SolMirRecipe where charged: "layout_charge ''layout build work limit exceeded'' b = Inr b1"
    and put: "put_type i (blank_type i) b1 = Inr b2"
    and rest: "(if \<not> rc_inhabited recipe \<or> rc_zero_sized recipe then Inr b2
      else andThen (wrapper_layout (length (lb_recipes b2) + 1) i b2) (\<lambda>(bytes, alignment, b).
        put_type i ((blank_type i)\<lparr> tl_value_size := bytes, tl_value_alignment := alignment \<rparr>) b)) = Inr c"
    unfolding value_layout_def by (elim andThenE) (rule that)
  have "request_of c = request_of b2"
    using rest put_request(1) wrapper_layout_request
    by (cases "\<not> rc_inhabited recipe \<or> rc_zero_sized recipe")
      (auto elim!: andThenE simp del: andThen_Inr_iff wrapper_layout.simps)
  with put_request(1) [OF put] put_request(4) [OF charged] show ?thesis by simp
qed

lemma pack_field_request:
  "pack_field work overflow physical owner variant f s = Inr s' \<Longrightarrow>
   request_of (snd (snd s')) = request_of (snd (snd s))"
  by (auto simp: pack_field_def exhausted_def split: if_splits option.splits prod.splits dest!: put_request)

lemma pack_fields_request:
  "for_each (pack_field work overflow physical owner variant) fs (x, y, b) = Inr (x', y', c) \<Longrightarrow>
   request_of c = request_of b"
  using for_each_frame [where g = "\<lambda>s. request_of (snd (snd s))"] pack_field_request by fastforce

lemma layout_product_request: "layout_product i b = Inr c \<Longrightarrow> request_of c = request_of b"
  by (auto simp: layout_product_def Let_def split: if_splits dest!: put_request pack_fields_request)

lemma layout_variant_request:
  "layout_variant owner v s = Inr s' \<Longrightarrow> request_of (snd (snd s')) = request_of (snd (snd s))"
  by (auto simp: layout_variant_def exhausted_def split: if_splits option.splits prod.splits
      dest!: put_request pack_fields_request)

lemma layout_variants_request:
  "for_each (layout_variant owner) vs (x, y, b) = Inr (x', y', c) \<Longrightarrow> request_of c = request_of b"
  using for_each_frame [where g = "\<lambda>s. request_of (snd (snd s))"] layout_variant_request by fastforce

lemma shift_field_request: "shift_field payload f b = Inr c \<Longrightarrow> request_of c = request_of b"
  by (auto simp: shift_field_def exhausted_def split: option.splits dest!: put_request)

lemma shift_fields_request: "for_each (shift_field payload) fs b = Inr c \<Longrightarrow> request_of c = request_of b"
  by (erule for_each_frame) (rule shift_field_request)

lemma shift_variant_request: "shift_variant payload v b = Inr c \<Longrightarrow> request_of c = request_of b"
  by (auto simp: shift_variant_def split: if_splits dest: shift_fields_request)

lemma layout_sum_request:
  assumes "layout_sum i b = Inr c" shows "request_of c = request_of b"
proof -
  have shift: "request_of b' = request_of b" if "for_each (shift_variant payload) vs b = Inr b'" for payload vs b b'
    using for_each_frame [where g = request_of, OF that] shift_variant_request by blast
  let ?recipe = "lb_recipes b ! i"
  from assms obtain ms ma b1 where
    variants: "for_each (layout_variant i) (slice_ids (rc_variants ?recipe)) (0, 1, b) = Inr (ms, ma, b1)"
    by (auto simp: layout_sum_def)
  show ?thesis
  proof (cases "rc_inhabited ?recipe")
    case True
    with assms variants obtain payload b2 t where
      "for_each (shift_variant payload) (slice_ids (rc_variants ?recipe)) b1 = Inr b2"
      "put_type i t b2 = Inr c"
      by (cases "align_u64 4 ma"; cases "checked_add_u64 (the (align_u64 4 ma)) ms")
        (auto simp: layout_sum_def exhausted_def)
    with layout_variants_request [OF variants] show ?thesis by (auto dest!: put_request shift)
  next
    case False
    with assms variants layout_variants_request [OF variants] show ?thesis
      by (auto simp: layout_sum_def)
  qed
qed

lemma scan_producers_request:
  "scan_producers i b = Inr (environment, c) \<Longrightarrow> request_of c = request_of b"
  using for_each_frame [where g = "\<lambda>s. request_of (snd s)" and s = "(False, b)" and s' = "(environment, c)"]
  by (fastforce simp: scan_producers_def dest: put_request)

lemma header_layout_request: "header_layout i f b = Inr c \<Longrightarrow> request_of c = request_of b"
  by (auto simp: header_layout_def dest!: put_request)

lemma plain_object_request: "plain_object i recipe b = Inr c \<Longrightarrow> request_of c = request_of b"
  by (auto simp: plain_object_def split: SolMirRecipeKind.splits
      dest!: header_layout_request scan_producers_request layout_product_request layout_sum_request)

lemma finish_recipe_request: "finish_recipe_layout i b = Inr c \<Longrightarrow> request_of c = request_of b"
  by (auto simp: finish_recipe_layout_def request_of_def split: if_splits dest!: put_request)

lemma copy_backing_request: "copy_backing i backing b = Inr c \<Longrightarrow> request_of c = request_of b"
  by (auto simp: copy_backing_def dest!: put_request)

lemma object_layout_request: "object_layout i b = Inr c \<Longrightarrow> request_of c = request_of b"
proof (induction i b arbitrary: c rule: object_layout.induct)
  case (1 i b)
  have active: "request_of (b\<lparr>lb_object_state := xs\<rparr>) = request_of b" for xs b
    by (simp add: request_of_def)
  show ?case using "1.prems" "1.IH"
    by (subst (asm) object_layout.simps)
      (fastforce split: if_splits ObjectState.splits sum.splits simp: active
        dest: finish_recipe_request copy_backing_request plain_object_request put_request)
qed

lemma map_projection_request:
  "map_projection place s = Inr s' \<Longrightarrow> request_of (snd (snd s')) = request_of (snd (snd s))"
  by (auto simp: map_projection_def Let_def split: if_splits option.splits prod.splits dest!: put_request)
    (auto simp: request_of_def set_projections_def)

lemma map_projections_request:
  "for_each (\<lambda>i. map_projection p) is (x, y, b) = Inr (x', y', c) \<Longrightarrow> request_of c = request_of b"
  using for_each_frame [where g = "\<lambda>s. request_of (snd (snd s))"] map_projection_request by fastforce

lemma map_place_request: "map_place p s = Inr s' \<Longrightarrow> request_of (snd s') = request_of (snd s)"
  by (auto simp: map_place_def split: if_splits prod.splits dest!: map_projections_request)

lemma map_places_request:
  "for_each map_place is (x, b) = Inr (x', c) \<Longrightarrow> request_of c = request_of b"
  using for_each_frame [where g = "\<lambda>s. request_of (snd s)"] map_place_request by fastforce

lemma projection_maps_request: "projection_maps b = Inr c \<Longrightarrow> request_of c = request_of b"
  by (auto simp: projection_maps_def Let_def split: if_splits dest: map_places_request)

lemma derive_usage_request: "derive_usage b = Inr c \<Longrightarrow> request_of c = request_of b"
  by (auto simp: derive_usage_def exhausted_def Let_def request_of_def split: if_splits option.splits)

lemma layout_allocate_request:
  "layout_allocate address zero count item_size out = Inr (arena, out') \<Longrightarrow>
   ly_representation out' = ly_representation out \<and> ly_target out' = ly_target out"
  by (auto simp: layout_allocate_def split: if_splits option.splits)

lemma layout_allocations_request:
  "layout_allocations heap out = Inr b \<Longrightarrow> request_of b = (ly_representation out, ly_target out)"
  by (auto simp: layout_allocations_def Let_def request_of_def split: if_splits
      dest!: layout_allocate_request)

lemma build_layout_request:
  assumes "build_layout heap r target limits = Inr layout"
  shows "ly_representation layout = r" "ly_target layout = target"
proof -
  from assms obtain b b1 b2 b3 b4 where
    start: "layout_allocations heap (layout_start r target limits) = Inr b"
    and vals: "for_each value_layout [0 ..< length (lb_types b)] b = Inr b1"
    and objs: "for_each object_layout [0 ..< length (lb_types b1)] b1 = Inr b2"
    and maps: "projection_maps b2 = Inr b3" and usage: "derive_usage b3 = Inr b4"
    and layout: "layout = lb_out b4"
    by (auto simp: build_layout_def exhausted_def split: if_splits)
  have "request_of b4 = request_of b"
    using for_each_frame [where g = request_of, OF vals value_layout_request]
      for_each_frame [where g = request_of, OF objs object_layout_request]
      projection_maps_request [OF maps] derive_usage_request [OF usage] by simp
  also have "request_of b = (r, target)"
    using layout_allocations_request [OF start] by (simp add: layout_start_def)
  finally show "ly_representation layout = r" "ly_target layout = target"
    by (simp_all add: request_of_def layout)
qed

lemma build_internal_request:
  assumes "run_state (build_internal validate heap r target limits ds) env = ((outcome, Some layout, ds'), env')"
  shows "outcome = Some SOL_MIR_LAYOUT_BUILD_SUCCEEDED" "ly_representation layout = r" "ly_target layout = target"
  using assms build_layout_request
  by (auto simp: build_internal_def split: if_splits option.splits prod.splits sum.splits stop.splits)

lemma layout_build_request:
  assumes "run_state (sol_mir_layout_build validate memory heap r target limits ds) env =
      ((outcome, Some layout, ds'), env')"
  shows "outcome = Some SOL_MIR_LAYOUT_BUILD_SUCCEEDED" "ly_representation layout = r" "ly_target layout = target"
proof -
  from assms obtain ds1 env1 where
    "run_state (build_internal validate heap r target limits ds) env = ((outcome, Some layout, ds1), env1)"
    by (auto simp: sol_mir_layout_build_def split: if_splits option.splits prod.splits)
  from build_internal_request [OF this]
  show "outcome = Some SOL_MIR_LAYOUT_BUILD_SUCCEEDED" "ly_representation layout = r" "ly_target layout = target"
    by blast+
qed

end
