(* ===== verification/Sol_LayoutSample.thy ===== *)
theory Sol_LayoutSample
  imports Sol_LayoutApi Sol_MirSample
begin

text \<open>
  The properties of the layouts that \<open>sol_mir_layout_build\<close> hands out, and a representation
  whose layout it builds.
\<close>

section \<open>A representation\<close>

text \<open>A pair of a Boolean and an integer, an option of an integer, and a place that reads the integer.\<close>

definition accept_representation :: rep_validator where
  "accept_representation r ds = State_Monad.return (True, ds)"

definition layout_sample_heap :: layout_heap where
  "layout_sample_heap request =
     (case request of
        HEAP_TYPES \<Rightarrow> 90000 | HEAP_FIELD_LAYOUTS \<Rightarrow> 92000 | HEAP_VARIANT_LAYOUTS \<Rightarrow> 94000
      | HEAP_PROJECTIONS \<Rightarrow> 96000 | HEAP_OBJECT_STATE \<Rightarrow> 98000)"

definition layout_sample_memory :: layout_memory where
  "layout_sample_memory = \<lparr> lm_chain = [(500, 1, 100)], lm_arenas = [(10000, 4, 100), (20000, 3, 24)] \<rparr>"

definition tuple_place :: "size_t \<Rightarrow> size_t \<Rightarrow> size_t \<Rightarrow> SolMirMaterialization \<Rightarrow> SolMirMaterialization" where
  "tuple_place base ordinal type m =
     m\<lparr> mz_places := [\<lparr> pl_root_type = base, mp_projections = \<lparr> sl_offset = 0, sl_count = 1 \<rparr>,
          pl_final_type = type \<rparr>],
       mz_projections := [\<lparr> mj_kind = SOL_IR_PROJECTION_TUPLE_FIELD, pj_type = type,
          pj_source_field = SOL_IR_NONE, pj_tuple_ordinal = ordinal \<rparr>] \<rparr>"

definition value_recipe :: "SolMirRecipeKind \<Rightarrow> bool \<Rightarrow> SolMirRecipe" where
  "value_recipe kind zero_sized =
     zero_recipe\<lparr> rc_kind := kind, rc_inhabited := True, rc_zero_sized := zero_sized, rc_is_copy := True \<rparr>"

definition bare_materialization :: SolMirMaterialization where
  "bare_materialization =
     \<lparr> mz_types = [], mz_shape_fields = [], mz_shape_variants = [], mz_type_ids = [],
       mz_accesses = [], mz_places = [], mz_projections = [], mz_bindings = [],
       mz_semantic_sites = [], mz_receiver_roots = [], mz_usage_validation_work = 100,
       mz_usage_concrete_records = 20, mz_usage_owned_bytes = 1000, mz_borrowed_counts = [] \<rparr>"

definition pair_representation :: SolMirRepresentation where
  "pair_representation =
     (sol_mir_representation_init (tuple_place 2 1 0 bare_materialization)
       sol_mir_representation_default_limits)
     \<lparr> rp_recipes := full_arena 10000
         [value_recipe SOL_MIR_RECIPE_INT64 False, value_recipe SOL_MIR_RECIPE_BOOL False,
          (value_recipe SOL_MIR_RECIPE_TUPLE False)\<lparr> rc_fields := \<lparr> sl_offset = 0, sl_count = 2 \<rparr> \<rparr>,
          (value_recipe SOL_MIR_RECIPE_OPTION False)\<lparr> rc_variants := \<lparr> sl_offset = 0, sl_count = 2 \<rparr> \<rparr>],
       rp_fields := full_arena 20000 [field_row 0 1, field_row 1 0, field_row 0 0],
       rp_variants := full_arena 30000 [variant_row 0 2 0, variant_row 1 2 1] \<rparr>"

definition wide_target :: SolMirTargetDescriptor where
  "wide_target = \<lparr> td_pointer_size = 8, td_pointer_alignment = 8, td_int64_alignment = 8,
     td_endianness = SOL_MIR_ENDIAN_LITTLE, td_max_object_bytes = 65536 \<rparr>"

definition pair_types :: "SolMirTypeLayout list" where
  "pair_types =
     [(blank_type 0)\<lparr> tl_value_size := 8, tl_value_alignment := 8 \<rparr>,
      (blank_type 1)\<lparr> tl_value_size := 1, tl_value_alignment := 1 \<rparr>,
      (blank_type 2)\<lparr> tl_value_size := 8, tl_value_alignment := 8,
        tl_object_kind := SOL_MIR_LAYOUT_OBJECT_PRODUCT, tl_has_object := True,
        tl_object_size := 16, tl_object_alignment := 8 \<rparr>,
      (blank_type 3)\<lparr> tl_value_size := 8, tl_value_alignment := 8,
        tl_object_kind := SOL_MIR_LAYOUT_OBJECT_SUM, tl_has_object := True,
        tl_object_size := 16, tl_object_alignment := 8, tl_tag_offset := 0, tl_tag_size := 4,
        tl_payload_offset := 8, tl_payload_size := 8 \<rparr>]"

definition pair_fields :: "SolMirFieldLayout list" where
  "pair_fields =
     [\<lparr> fl_field = 0, fl_owner_recipe = 2, fl_variant = SIZE_MAX, fl_has_storage = True,
       fl_offset = 0, fl_size = 1, fl_alignment = 1, fl_padding_before = 0 \<rparr>,
      \<lparr> fl_field = 1, fl_owner_recipe = 2, fl_variant = SIZE_MAX, fl_has_storage = True,
       fl_offset = 8, fl_size = 8, fl_alignment = 8, fl_padding_before = 7 \<rparr>,
      \<lparr> fl_field = 2, fl_owner_recipe = 3, fl_variant = 1, fl_has_storage = True,
       fl_offset = 8, fl_size = 8, fl_alignment = 8, fl_padding_before = 0 \<rparr>]"

definition pair_variants :: "SolMirVariantLayout list" where
  "pair_variants =
     [\<lparr> vl_variant = 0, vl_owner_recipe = 3, vl_tag = 0, vl_inhabited = True,
        vl_has_payload_storage = True, vl_payload_size = 0, vl_payload_alignment = 1,
        vl_tail_padding = 0 \<rparr>,
      \<lparr> vl_variant = 1, vl_owner_recipe = 3, vl_tag = 1, vl_inhabited = True,
        vl_has_payload_storage = True, vl_payload_size = 8, vl_payload_alignment = 8,
        vl_tail_padding = 0 \<rparr>]"

definition pair_layout :: SolMirLayout where
  "pair_layout =
     \<lparr> ly_representation = pair_representation, ly_target = wide_target,
       ly_types = full_arena 90000 pair_types, ly_fields = full_arena 92000 pair_fields,
       ly_variants = full_arena 94000 pair_variants,
       ly_projections = full_arena 96000
         [\<lparr> pm_projection = 0, pm_place = 0, pm_base_recipe = 2, pm_result_recipe = 0,
            pm_field_layout = 1, pm_object_offset = 8 \<rparr>],
       ly_limits = sol_mir_layout_default_limits,
       ly_usage = \<lparr> lu_type_layouts = 4, lu_field_layouts = 3, lu_variant_layouts = 2,
         lu_projection_maps = 1, lu_owned_bytes = 880, lu_build_scratch_bytes = 4,
         lu_build_work = 18, lu_validation_scratch_bytes = 0, lu_validation_work = 29 \<rparr> \<rparr>"

definition layout_parts :: "SolMirLayout layout_result \<Rightarrow> (SolMirTypeLayout arena \<times>
    SolMirFieldLayout arena \<times> SolMirVariantLayout arena \<times> SolMirProjectionMap arena \<times>
    SolMirLayoutLimits \<times> SolMirLayoutUsage) option" where
  "layout_parts built =
     (case built of
        Inl e \<Rightarrow> None
      | Inr l \<Rightarrow> Some (ly_types l, ly_fields l, ly_variants l, ly_projections l, ly_limits l, ly_usage l))"

lemma pair_parts:
  "layout_parts (build_layout layout_sample_heap pair_representation wide_target
     sol_mir_layout_default_limits) = layout_parts (Inr pair_layout)" (is "layout_parts ?built = _")
proof -
  have "P (layout_parts ?built)" if "P (layout_parts (Inr pair_layout))" for P
    by (code_simp) (use that in \<open>simp add: layout_parts_def pair_layout_def pair_types_def pair_fields_def
      pair_variants_def full_arena_def blank_type_def sol_mir_layout_default_limits_def SIZE_MAX_def
      SOL_MIR_LAYOUT_OFFSET_NONE_def UINT64_MAX_def One_nat_def [symmetric] Suc_1 del: One_nat_def\<close>)
  from this [of "\<lambda>x. x = layout_parts (Inr pair_layout)"] show ?thesis by simp
qed

lemma pair_built:
  "build_layout layout_sample_heap pair_representation wide_target sol_mir_layout_default_limits =
   Inr pair_layout"
proof (cases "build_layout layout_sample_heap pair_representation wide_target sol_mir_layout_default_limits")
  case (Inr l)
  with pair_parts build_layout_request [OF Inr] show ?thesis
    by (simp add: layout_parts_def pair_layout_def)
qed (use pair_parts in \<open>simp add: layout_parts_def\<close>)

lemma pair_rows:
  "ly_representation pair_layout = pair_representation" "ly_target pair_layout = wide_target"
  "ar_items (ly_types pair_layout) = pair_types" "ar_items (ly_fields pair_layout) = pair_fields"
  "ar_items (ly_variants pair_layout) = pair_variants"
  "recipes_of pair_representation =
     [value_recipe SOL_MIR_RECIPE_INT64 False, value_recipe SOL_MIR_RECIPE_BOOL False,
      (value_recipe SOL_MIR_RECIPE_TUPLE False)\<lparr> rc_fields := \<lparr> sl_offset = 0, sl_count = 2 \<rparr> \<rparr>,
      (value_recipe SOL_MIR_RECIPE_OPTION False)\<lparr> rc_variants := \<lparr> sl_offset = 0, sl_count = 2 \<rparr> \<rparr>]"
  "fields_of pair_representation = [field_row 0 1, field_row 1 0, field_row 0 0]"
  "variants_of pair_representation = [variant_row 0 2 0, variant_row 1 2 1]"
  by (simp_all add: pair_layout_def pair_representation_def full_arena_def)

lemma wide_rows:
  "td_pointer_size wide_target = 8" "td_pointer_alignment wide_target = 8" "td_int64_alignment wide_target = 8"
  "td_max_object_bytes wide_target = 65536"
  by (simp_all add: wide_target_def)

lemma recipe_rows:
  "rc_kind (value_recipe kind zero) = kind" "rc_inhabited (value_recipe kind zero)"
  "rc_zero_sized (value_recipe kind zero) = zero"
  by (simp_all add: value_recipe_def)

lemma pair_sums:
  "check_align 0 1 = Some 0" "check_align 1 8 = Some 8" "check_align 0 8 = Some 0"
  "check_align 8 8 = Some 8" "check_align 16 8 = Some 16" "check_align 4 8 = Some 8"
  "checked_add_u64 0 1 = Some 1" "checked_add_u64 0 8 = Some 8" "checked_add_u64 8 8 = Some 16"
  by (simp_all add: check_align_def power_of_two_def align_u64_def checked_add_u64_def UINT64_MAX_def)

lemma small_sums: "checked_add_size 0 2 = Some 2" "checked_add_size 2 0 = Some 2" "checked_add_size 2 (Suc 0) = Some 3"
  by (simp_all add: checked_add_size_def SIZE_MAX_def)

lemmas check_defs = validate_recipe_def count_recipe_def count_variant_fields_def derive_value_def derive_plain_def
  derive_product_def derive_sum_def derive_variant_def pack_variant_def variant_end_def derive_field_def
  check_field_def check_variant_def check_place_def check_finish_def from_option_def check_def field_value_def
  is_product_def is_sum_def is_wrapper_def slice_ids_def stored_field_def max_u64_def

lemmas pair_eval = pair_rows recipe_rows wide_rows pair_types_def pair_fields_def pair_variants_def
  field_row_def variant_row_def upt_rec blank_type_def pair_sums small_sums

lemma pair_recipes:
  "validate_recipe pair_layout 0 (0, 0) = Inr (0, 0)" "validate_recipe pair_layout 1 (0, 0) = Inr (0, 0)"
  "validate_recipe pair_layout 2 (0, 0) = Inr (2, 0)" "validate_recipe pair_layout 3 (2, 0) = Inr (3, 2)"
  by (simp_all add: check_defs pair_eval)

lemma pair_accepted:
  "run_state (sol_mir_layout_validate accept_representation layout_sample_memory pair_layout ds) env =
   ((True, ds), env)"
proof -
  have sizes: "length (recipes_of pair_representation) = 4" "length (ar_items (ly_fields pair_layout)) = 3"
    "length (ar_items (ly_variants pair_layout)) = 2"
    by (simp_all add: pair_eval)
  have "[0 ..< 4] = [0 :: nat, 1, 2, 3]" by (simp add: upt_rec)
  then have records: "validate_records pair_layout = Inr ()"
    using pair_recipes by (simp add: validate_records_def pair_rows(1) sizes check_def)
  have projections: "validate_projections pair_layout = Inr ()"
    by code_simp
  have header: "layout_header_ok pair_layout \<and> layout_arenas_ok pair_layout \<and> layout_accounting_ok pair_layout \<and>
      layout_work_ok pair_layout \<and> layout_counts_ok pair_layout"
    by code_simp
  have owned: "layout_owned pair_layout = Some [(90000, 90544), (92000, 92192), (94000, 94096), (96000, 96048)]"
    by code_simp
  show ?thesis using header records projections owned
    by (simp add: sol_mir_layout_validate_def accept_representation_def layout_sample_memory_def no_overlap_def
        borrowed_overlaps_def checked_mul_size_def SIZE_MAX_def)
qed

lemma pair_builds:
  "run_state (sol_mir_layout_build accept_representation layout_sample_memory layout_sample_heap
     pair_representation wide_target None None) plain_env =
   ((Some SOL_MIR_LAYOUT_BUILD_SUCCEEDED, Some pair_layout, None), plain_env)"
proof -
  have "sol_mir_target_descriptor_validate wide_target" by code_simp
  then show ?thesis
    by (simp add: sol_mir_layout_build_def build_internal_def accept_representation_def pair_built pair_accepted
        pair_accepted [unfolded accept_representation_def])
qed

text \<open>
  C8. Every layout that \<open>sol_mir_layout_build\<close> hands out is a layout of the
  requested representation for the requested target in which each inhabited, sized product and
  sum is sound: the object fits the target and is a multiple of its alignment; in a product the
  fields are aligned, ordered without overlap and inside the object; in a sum the tag is the
  first four bytes, the payload starts behind it and ends inside the object, and the fields of
  every variant with storage are aligned, ordered without overlap and inside the payload. This
  holds whatever the validator of representations and the allocator answer.
\<close>

theorem layout_objects_sound:
  assumes "run_state (sol_mir_layout_build validate memory heap r target limits ds) env =
      ((outcome, Some layout, ds'), env')"
  shows "outcome = Some SOL_MIR_LAYOUT_BUILD_SUCCEEDED \<and> ly_representation layout = r \<and>
    ly_target layout = target \<and> list_all (object_sound layout) [0 ..< length (recipes_of r)]"
proof -
  from layout_build_accepts [OF assms] obtain ds1 env1 where
    "run_state (sol_mir_layout_validate validate memory layout ds1) env1 = ((True, ds'), env')" by blast
  note accepted = layout_validate_accepts [OF this]
  note request = layout_build_request [OF assms]
  from accepted(1) request show ?thesis
    using validate_records_sound by (auto simp: list_all_iff)
qed

theorem layout_objects_sound_witness:
  "object_sound pair_layout 2 \<and> object_sound pair_layout 3"
  using layout_objects_sound [OF pair_builds] by (simp add: pair_rows upt_rec list_all_iff eval_nat_numeral)

text \<open>
  C10. In every layout that \<open>sol_mir_layout_build\<close> hands out, each projection
  map names a field of its base recipe whose type is the projection's result, the base has an
  object, and the bytes that the projection reads start at the field's offset, are aligned for
  the field and end inside the object.
\<close>

theorem layout_projections_sound:
  assumes "run_state (sol_mir_layout_build validate memory heap r target limits ds) env =
      ((outcome, Some layout, ds'), env')"
  shows "length (ar_items (ly_projections layout)) = length (mz_projections (rp_materialization r)) \<and>
    list_all (projection_sound layout) [0 ..< length (ar_items (ly_projections layout))]"
proof -
  from layout_build_accepts [OF assms] obtain ds1 env1 where
    "run_state (sol_mir_layout_validate validate memory layout ds1) env1 = ((True, ds'), env')" by blast
  note accepted = layout_validate_accepts [OF this]
  note request = layout_build_request [OF assms]
  from accepted request(2) show ?thesis
    using validate_projections_sound by (auto simp: list_all_iff layout_counts_ok_def Let_def)
qed

theorem layout_projections_sound_witness: "projection_sound pair_layout 0"
proof -
  have "ar_items (ly_projections pair_layout) \<noteq> []" by (simp add: pair_layout_def full_arena_def)
  with layout_projections_sound [OF pair_builds] show ?thesis by (auto simp: list_all_iff)
qed

end
