(* ===== verification/Sol_ParserNodes.thy ===== *)
theory Sol_ParserNodes
  imports Sol_Parse
begin

text \<open>
  What a well-formed syntax tree is. Every array of the tree is seen through one type of
  node: the references it holds into the arrays, its children in its own array, its link
  to the next node of a list. A tree is well formed when no node is an error node, every
  reference points to an entry, the children of an expression come before it and every
  link points forward, so that neither the descent into expressions nor the walk over a
  list can run in a circle.
\<close>

section \<open>The view of a node\<close>

datatype table =
    T_IMPORT | T_ITEM | T_EXPR | T_STMT | T_INVARIANT | T_ARG | T_PARAM | T_TYPE | T_TYPE_ARG
  | T_TYPE_PARAM | T_EFFECT_PARAM | T_FIELD | T_VARIANT | T_PATTERN | T_BINDING | T_ARM
  | T_EFFECT | T_MEMBER | T_METHOD | T_CLAUSE | T_CONDITION

record node =
  nd_error :: bool
  nd_refs :: "(table \<times> size_t) list"
  nd_children :: "size_t list"
  nd_link :: size_t
  nd_always :: "(table \<times> size_t) list"
  nd_spans :: "SolSpan list"

text \<open>\<open>nd_always\<close> and \<open>nd_spans\<close> hold even after an error: the parser reads them back.\<close>

definition plain_node :: "(table \<times> size_t) list \<Rightarrow> size_t \<Rightarrow> node" where
  "plain_node refs link =
     \<lparr> nd_error = False, nd_refs = refs, nd_children = [], nd_link = link, nd_always = [],
       nd_spans = [] \<rparr>"

text \<open>A reference that may be absent.\<close>

definition maybe :: "table \<Rightarrow> size_t \<Rightarrow> (table \<times> size_t) list" where
  "maybe T i = (if i = SOL_AST_NONE then [] else [(T, i)])"

fun expr_children :: "SolExprKind \<Rightarrow> SolExprId list" where
  "expr_children (SOL_EXPR_UNARY _ e) = [e]"
| "expr_children (SOL_EXPR_BINARY l _ r) = [l, r]"
| "expr_children (SOL_EXPR_CALL e _) = [e]"
| "expr_children (SOL_EXPR_FIELD e _) = [e]"
| "expr_children (SOL_EXPR_RECORD e _) = [e]"
| "expr_children (SOL_EXPR_IF c t e) = [c, t, e]"
| "expr_children (SOL_EXPR_MATCH e _) = [e]"
| "expr_children (SOL_EXPR_PROPAGATE e) = [e]"
| "expr_children (SOL_EXPR_HANDLE _ a p b) = [a, p, b]"
| "expr_children (SOL_EXPR_OLD e) = [e]"
| "expr_children (SOL_EXPR_TYPE_APPLICATION e _) = [e]"
| "expr_children _ = []"

fun expr_refs :: "SolExprKind \<Rightarrow> (table \<times> size_t) list" where
  "expr_refs (SOL_EXPR_CALL _ a) = maybe T_ARG a"
| "expr_refs (SOL_EXPR_TUPLE a) = [(T_ARG, a)]"
| "expr_refs (SOL_EXPR_RECORD _ a) = maybe T_ARG a"
| "expr_refs (SOL_EXPR_MATCH _ a) = maybe T_ARM a"
| "expr_refs (SOL_EXPR_BLOCK s) = maybe T_STMT s"
| "expr_refs (SOL_EXPR_TYPE_APPLICATION _ a) = maybe T_TYPE_ARG a"
| "expr_refs _ = []"

definition expr_node :: "SolExpr \<Rightarrow> node" where
  "expr_node x = (plain_node (expr_refs (ex_kind x)) SOL_AST_NONE)
     \<lparr>nd_error := (ex_kind x = SOL_EXPR_ERROR), nd_children := expr_children (ex_kind x)\<rparr>"

fun stmt_refs :: "SolStatementKind \<Rightarrow> (table \<times> size_t) list" where
  "stmt_refs (SOL_STATEMENT_LET _ v t) = (T_EXPR, v) # maybe T_TYPE t"
| "stmt_refs (SOL_STATEMENT_VAR _ v t) = maybe T_EXPR v @ maybe T_TYPE t"
| "stmt_refs (SOL_STATEMENT_ASSIGNMENT t v _) = [(T_EXPR, t), (T_EXPR, v)]"
| "stmt_refs (SOL_STATEMENT_RETURN v) = [(T_EXPR, v)]"
| "stmt_refs (SOL_STATEMENT_EXPRESSION v) = [(T_EXPR, v)]"
| "stmt_refs (SOL_STATEMENT_REGION _ b) = [(T_EXPR, b)]"
| "stmt_refs (SOL_STATEMENT_MODIFY t b) = [(T_EXPR, t), (T_EXPR, b)]"
| "stmt_refs (SOL_STATEMENT_LOOP c i _ d _ b) =
     (T_EXPR, b) # maybe T_EXPR c @ maybe T_INVARIANT i @ maybe T_EXPR d"
| "stmt_refs (SOL_STATEMENT_WHILE c i _ d _ b) =
     (T_EXPR, b) # (T_EXPR, c) # maybe T_INVARIANT i @ maybe T_EXPR d"
| "stmt_refs (SOL_STATEMENT_PANIC m) = [(T_EXPR, m)]"
| "stmt_refs (SOL_STATEMENT_UNREACHABLE p _) = [(T_EXPR, p)]"
| "stmt_refs (SOL_STATEMENT_REQUIRE c f) = [(T_EXPR, c), (T_EXPR, f)]"
| "stmt_refs _ = []"

definition stmt_node :: "SolStatement \<Rightarrow> node" where
  "stmt_node x = plain_node (stmt_refs (st_kind x)) (st_next x)"

definition invariant_node :: "SolLoopInvariant \<Rightarrow> node" where
  "invariant_node x = plain_node [(T_EXPR, li_expression x)] (li_next x)"

definition arg_node :: "SolArgument \<Rightarrow> node" where
  "arg_node x = plain_node [(T_EXPR, ar_value x)] (ar_next x)"

definition param_node :: "SolParameter \<Rightarrow> node" where
  "param_node x = (plain_node [] (pa_next x))
     \<lparr>nd_always := [(T_TYPE, pa_type_id x)], nd_spans := [pa_name x]\<rparr>"

definition type_node :: "SolSyntaxType \<Rightarrow> node" where
  "type_node x = plain_node (maybe T_TYPE_ARG (ty_first_argument x) @
     maybe T_TYPE (ty_return_type x) @ maybe T_EFFECT (ty_first_effect x)) SOL_AST_NONE"

definition type_arg_node :: "SolTypeArgument \<Rightarrow> node" where
  "type_arg_node x = plain_node [(T_TYPE, ta_type x)] (ta_next x)"

definition type_param_node :: "SolTypeParameter \<Rightarrow> node" where
  "type_param_node x = plain_node [] (tp_next x)"

definition effect_param_node :: "SolEffectParameter \<Rightarrow> node" where
  "effect_param_node x = plain_node [] (ep_next x)"

definition field_node :: "SolField \<Rightarrow> node" where
  "field_node x = plain_node [(T_TYPE, fd_type x)] (fd_next x)"

definition variant_node :: "SolVariant \<Rightarrow> node" where
  "variant_node x = plain_node (maybe T_FIELD (va_first_field x)) (va_next x)"

definition pattern_node :: "SolPattern \<Rightarrow> node" where
  "pattern_node x = plain_node (maybe T_BINDING (pt_first_binding x)) SOL_AST_NONE"

definition binding_node :: "SolPatternBinding \<Rightarrow> node" where
  "binding_node x = plain_node [(T_PATTERN, pb_pattern x)] (pb_next x)"

definition arm_node :: "SolMatchArm \<Rightarrow> node" where
  "arm_node x = plain_node ([(T_PATTERN, ma_pattern x), (T_EXPR, ma_value x)] @
     maybe T_EXPR (ma_guard x)) (ma_next x)"

definition effect_node :: "SolEffect \<Rightarrow> node" where
  "effect_node x = plain_node [] (ef_next x)"

definition member_node :: "SolCapabilityMember \<Rightarrow> node" where
  "member_node x = plain_node ((T_TYPE, cm_return_type_id x) #
     maybe T_PARAM (cm_first_parameter x) @ maybe T_EFFECT (cm_first_effect x) @
     maybe T_CLAUSE (cm_first_contract x) @ maybe T_EXPR (cm_body x)) (cm_next x)"

definition method_node :: "SolTraitMethod \<Rightarrow> node" where
  "method_node x = plain_node ((T_TYPE, tm_return_type_id x) #
     maybe T_PARAM (tm_first_parameter x) @ maybe T_EFFECT (tm_first_effect x) @
     maybe T_EXPR (tm_body x)) (tm_next x)"

definition clause_node :: "SolContractClause \<Rightarrow> node" where
  "clause_node x = plain_node (maybe T_CONDITION (cl_first_condition x)) (cl_next x)"

definition condition_view :: "SolContractCondition \<Rightarrow> node" where
  "condition_view x =
     plain_node [(T_EXPR, cc_expression x), (T_CLAUSE, cc_owner_clause x)] (cc_next x)"

text \<open>What a declaration of each kind must have, and what it may have.\<close>

definition item_required :: "SolSyntaxItem \<Rightarrow> (table \<times> size_t) list" where
  "item_required x =
     (case it_kind x of
        SOL_ITEM_FUNCTION \<Rightarrow> [(T_EXPR, it_body x), (T_TYPE, it_return_type_id x)]
      | SOL_ITEM_TYPE \<Rightarrow> [(T_TYPE, it_representation_type x)]
      | SOL_ITEM_IMPLEMENTATION \<Rightarrow> [(T_TYPE, it_implementation_type x)]
      | SOL_ITEM_TEST \<Rightarrow> [(T_EXPR, it_body x)]
      | _ \<Rightarrow> [])"

definition item_node :: "SolSyntaxItem \<Rightarrow> node" where
  "item_node x = plain_node (item_required x @
     maybe T_EXPR (it_body x) @ maybe T_PARAM (it_first_parameter x) @
     maybe T_TYPE (it_return_type_id x) @ maybe T_FIELD (it_first_field x) @
     maybe T_VARIANT (it_first_variant x) @ maybe T_EFFECT (it_first_effect x) @
     maybe T_CLAUSE (it_first_contract x) @ maybe T_TYPE (it_representation_type x) @
     maybe T_MEMBER (it_first_member x) @ maybe T_PARAM (it_result_authority_parameter x) @
     maybe T_PARAM (it_capability_source x) @ maybe T_TYPE_PARAM (it_first_type_parameter x) @
     maybe T_EFFECT_PARAM (it_first_effect_parameter x) @
     maybe T_TYPE (it_implementation_type x) @ maybe T_METHOD (it_first_trait_method x))
     SOL_AST_NONE"

definition import_node :: "SolImport \<Rightarrow> node" where
  "import_node x = plain_node [] SOL_AST_NONE"

section \<open>Well-formed trees\<close>

text \<open>The nodes, the count and the capacity of an array of the tree.\<close>

definition table_shape :: "('a \<Rightarrow> node) \<Rightarrow> 'a sol_table \<Rightarrow> node list \<times> size_t \<times> size_t" where
  "table_shape view tb = (map view (tb_memory tb), tb_count tb, tb_capacity tb)"

fun tree_shape :: "SolSyntaxTree \<Rightarrow> table \<Rightarrow> node list \<times> size_t \<times> size_t" where
  "tree_shape t T_IMPORT = table_shape import_node (tr_imports t)"
| "tree_shape t T_ITEM = table_shape item_node (tr_items t)"
| "tree_shape t T_EXPR = table_shape expr_node (tr_expressions t)"
| "tree_shape t T_STMT = table_shape stmt_node (tr_statements t)"
| "tree_shape t T_INVARIANT = table_shape invariant_node (tr_loop_invariants t)"
| "tree_shape t T_ARG = table_shape arg_node (tr_arguments t)"
| "tree_shape t T_PARAM = table_shape param_node (tr_parameters t)"
| "tree_shape t T_TYPE = table_shape type_node (tr_types t)"
| "tree_shape t T_TYPE_ARG = table_shape type_arg_node (tr_type_arguments t)"
| "tree_shape t T_TYPE_PARAM = table_shape type_param_node (tr_type_parameters t)"
| "tree_shape t T_EFFECT_PARAM = table_shape effect_param_node (tr_effect_parameters t)"
| "tree_shape t T_FIELD = table_shape field_node (tr_fields t)"
| "tree_shape t T_VARIANT = table_shape variant_node (tr_variants t)"
| "tree_shape t T_PATTERN = table_shape pattern_node (tr_patterns t)"
| "tree_shape t T_BINDING = table_shape binding_node (tr_pattern_bindings t)"
| "tree_shape t T_ARM = table_shape arm_node (tr_match_arms t)"
| "tree_shape t T_EFFECT = table_shape effect_node (tr_effects t)"
| "tree_shape t T_MEMBER = table_shape member_node (tr_capability_members t)"
| "tree_shape t T_METHOD = table_shape method_node (tr_trait_methods t)"
| "tree_shape t T_CLAUSE = table_shape clause_node (tr_contract_clauses t)"
| "tree_shape t T_CONDITION = table_shape condition_view (tr_contract_conditions t)"

definition nodes :: "SolSyntaxTree \<Rightarrow> table \<Rightarrow> node list" where
  "nodes t T = fst (tree_shape t T)"

definition live :: "SolSyntaxTree \<Rightarrow> table \<Rightarrow> size_t" where
  "live t T = fst (snd (tree_shape t T))"

definition room :: "SolSyntaxTree \<Rightarrow> table \<Rightarrow> size_t" where
  "room t T = snd (snd (tree_shape t T))"

definition entries :: "SolSyntaxTree \<Rightarrow> table \<Rightarrow> size_t" where
  "entries t T = length (nodes t T)"

definition refs_in :: "SolSyntaxTree \<Rightarrow> (table \<times> size_t) list \<Rightarrow> bool" where
  "refs_in t rs \<longleftrightarrow> list_all (\<lambda>(T, i). i < entries t T) rs"

definition node_ok :: "SolSyntaxTree \<Rightarrow> table \<Rightarrow> size_t \<Rightarrow> node \<Rightarrow> bool" where
  "node_ok t T i n \<longleftrightarrow>
     \<not> nd_error n \<and> refs_in t (nd_refs n) \<and> list_all (\<lambda>j. j < i) (nd_children n) \<and>
     (nd_link n = SOL_AST_NONE \<or> i < nd_link n \<and> nd_link n < entries t T)"

definition table_ok :: "SolSyntaxTree \<Rightarrow> table \<Rightarrow> bool" where
  "table_ok t T \<longleftrightarrow>
     live t T = entries t T \<and>
     list_all (\<lambda>i. node_ok t T i (nodes t T ! i)) [0..<entries t T]"

definition all_tables :: "table list" where
  "all_tables = [T_IMPORT, T_ITEM, T_EXPR, T_STMT, T_INVARIANT, T_ARG, T_PARAM, T_TYPE,
     T_TYPE_ARG, T_TYPE_PARAM, T_EFFECT_PARAM, T_FIELD, T_VARIANT, T_PATTERN, T_BINDING, T_ARM,
     T_EFFECT, T_MEMBER, T_METHOD, T_CLAUSE, T_CONDITION]"

definition syntax_tree_ok :: "SolSyntaxTree \<Rightarrow> bool" where
  "syntax_tree_ok t \<longleftrightarrow> list_all (table_ok t) all_tables"

lemma all_tables_all: "T \<in> set all_tables"
  by (cases T) (simp_all add: all_tables_def)

lemma syntax_tree_ok_iff: "syntax_tree_ok t \<longleftrightarrow> (\<forall>T. table_ok t T)"
  by (auto simp: syntax_tree_ok_def list_all_iff all_tables_all)

lemma table_ok_iff:
  "table_ok t T \<longleftrightarrow>
     live t T = entries t T \<and> (\<forall>i < entries t T. node_ok t T i (nodes t T ! i))"
  by (auto simp: table_ok_def list_all_iff)

text \<open>What holds of the memory at every moment of a run, errors or not.\<close>

definition span_in :: "SolSource \<Rightarrow> SolSpan \<Rightarrow> bool" where
  "span_in src sp \<longleftrightarrow> sp_start sp \<le> sp_end sp \<and> sp_end sp \<le> src_length src"

definition node_safe :: "SolSource \<Rightarrow> SolSyntaxTree \<Rightarrow> node \<Rightarrow> bool" where
  "node_safe src t n \<longleftrightarrow> refs_in t (nd_always n) \<and> list_all (span_in src) (nd_spans n)"

definition table_safe :: "SolSource \<Rightarrow> SolSyntaxTree \<Rightarrow> table \<Rightarrow> bool" where
  "table_safe src t T \<longleftrightarrow>
     live t T \<le> entries t T \<and> entries t T \<le> room t T \<and> room t T \<le> SIZE_MAX \<and>
     list_all (node_safe src t) (nodes t T)"

section \<open>Growing trees\<close>

definition grows :: "SolSyntaxTree \<Rightarrow> SolSyntaxTree \<Rightarrow> bool" where
  "grows t t' \<longleftrightarrow> (\<forall>T. entries t T \<le> entries t' T)"

lemma grows_refl [simp]: "grows t t"
  by (simp add: grows_def)

lemma grows_trans: "grows t u \<Longrightarrow> grows u v \<Longrightarrow> grows t v"
  by (auto simp: grows_def intro: order.trans)

lemma refs_in_grows: "grows t t' \<Longrightarrow> refs_in t rs \<Longrightarrow> refs_in t' rs"
  by (auto simp: grows_def refs_in_def list_all_iff intro: order.strict_trans2)

lemma node_ok_grows: "grows t t' \<Longrightarrow> node_ok t T i n \<Longrightarrow> node_ok t' T i n"
  by (auto simp: node_ok_def intro: refs_in_grows) (auto simp: grows_def intro: order.strict_trans2)

lemma node_safe_grows: "grows t t' \<Longrightarrow> node_safe src t n \<Longrightarrow> node_safe src t' n"
  by (auto simp: node_safe_def intro: refs_in_grows)

lemmas shape_defs = nodes_def live_def room_def entries_def

text \<open>
  The interface of the arrays: how an update of one array shows in the views of all. Every
  array of the tree is an instance, and the operations on arrays are verified once.
\<close>

locale syntax_table =
  fixes get :: "'a table_get" and upd :: "'a table_upd" and T :: table and view :: "'a \<Rightarrow> node"
  assumes get_upd: "get (upd f t) = f (get t)"
    and shape_get: "tree_shape t T = table_shape view (get t)"
    and shape_other: "T' \<noteq> T \<Longrightarrow> tree_shape (upd f t) T' = tree_shape t T'"
begin

lemma nodes_get: "nodes t T = map view (tb_memory (get t))"
  by (simp add: nodes_def shape_get table_shape_def)

lemma entries_get: "entries t T = length (tb_memory (get t))"
  by (simp add: entries_def nodes_get)

lemma live_get: "live t T = tb_count (get t)"
  by (simp add: live_def shape_get table_shape_def)

lemma room_get: "room t T = tb_capacity (get t)"
  by (simp add: room_def shape_get table_shape_def)

lemma other_views:
  "T' \<noteq> T \<Longrightarrow> nodes (upd f t) T' = nodes t T'" "T' \<noteq> T \<Longrightarrow> live (upd f t) T' = live t T'"
  "T' \<noteq> T \<Longrightarrow> room (upd f t) T' = room t T'" "T' \<noteq> T \<Longrightarrow> entries (upd f t) T' = entries t T'"
  by (simp_all add: shape_defs shape_other)

lemmas view_get = nodes_get entries_get live_get room_get get_upd

text \<open>An entry appended or written over one that was given back.\<close>

lemma push_entries:
  assumes "table_safe src t T"
  shows "entries (upd (table_push c x) t) T =
    (if live t T < entries t T then entries t T else Suc (entries t T))"
  by (simp add: view_get table_push_def)

lemma push_grows: "grows t (upd (table_push c x) t)"
  unfolding grows_def
proof
  fix T'
  show "entries t T' \<le> entries (upd (table_push c x) t) T'"
    by (cases "T' = T") (simp_all add: view_get table_push_def other_views)
qed

lemma push_safe:
  assumes "\<forall>T. table_safe src t T" "tb_count (get t) < c" "tb_capacity (get t) \<le> c" "c \<le> SIZE_MAX"
    and "node_safe src (upd (table_push c x) t) (view x)"
  shows "table_safe src (upd (table_push c x) t) T'"
proof (cases "T' = T")
  case False
  with assms(1) show ?thesis
    by (auto simp: table_safe_def other_views list_all_iff
        intro: node_safe_grows [OF push_grows])
next
  case True
  let ?t = "upd (table_push c x) t"
  from assms(1) have old: "list_all (node_safe src ?t) (nodes t T)"
    by (auto simp: table_safe_def list_all_iff intro: node_safe_grows [OF push_grows])
  from assms(1) have "live t T \<le> entries t T" "entries t T \<le> room t T" "room t T \<le> SIZE_MAX"
    by (auto simp: table_safe_def)
  with old assms True show ?thesis
    by (auto simp: table_safe_def view_get table_push_def list_all_iff
        dest!: set_update_subset_insert [THEN subsetD])
qed

lemma push_ok:
  assumes "\<forall>T. table_ok t T" and "node_ok (upd (table_push c x) t) T (entries t T) (view x)"
  shows "table_ok (upd (table_push c x) t) T'"
proof (cases "T' = T")
  case False
  with assms(1) show ?thesis
    by (auto simp: table_ok_iff other_views intro: node_ok_grows [OF push_grows])
next
  case True
  let ?t = "upd (table_push c x) t"
  from assms(1) have eq: "live t T = entries t T" by (simp add: table_ok_iff)
  then have nodes: "nodes ?t T = nodes t T @ [view x]"
    by (simp add: view_get table_push_def)
  have "node_ok ?t T i ((nodes t T @ [view x]) ! i)" if "i < Suc (entries t T)" for i
  proof (cases "i = entries t T")
    case True
    with assms(2) show ?thesis by (simp add: nth_append entries_def)
  next
    case False
    with that assms(1) show ?thesis
      by (auto simp: nth_append entries_def [symmetric] table_ok_iff
          intro: node_ok_grows [OF push_grows])
  qed
  with eq nodes True show ?thesis
    by (simp add: table_ok_iff view_get table_push_def)
qed

text \<open>An entry overwritten in place.\<close>

abbreviation put :: "size_t \<Rightarrow> ('a \<Rightarrow> 'a) \<Rightarrow> SolSyntaxTree \<Rightarrow> SolSyntaxTree" where
  "put i f \<equiv> upd (\<lambda>tb. tb\<lparr>tb_memory := (tb_memory tb)[i := f (tb_memory tb ! i)]\<rparr>)"

lemma put_entries: "entries (put i f t) T' = entries t T'"
  by (cases "T' = T") (simp_all add: view_get other_views)

lemma put_grows: "grows t (put i f t)"
  by (simp add: grows_def put_entries)

lemma put_safe:
  assumes "\<forall>T. table_safe src t T"
    and "node_safe src t (view (f (tb_memory (get t) ! i)))"
  shows "table_safe src (put i f t) T'"
proof (cases "T' = T")
  case False
  with assms(1) show ?thesis
    by (auto simp: table_safe_def other_views list_all_iff
        intro: node_safe_grows [OF put_grows])
next
  case True
  have "node_safe src (put i f t) n" if "n \<in> set (nodes (put i f t) T)" for n
  proof -
    from that have "n \<in> insert (view (f (tb_memory (get t) ! i))) (set (nodes t T))"
      by (auto simp: view_get map_update dest!: set_update_subset_insert [THEN subsetD])
    with assms have "node_safe src t n" by (auto simp: table_safe_def list_all_iff)
    then show ?thesis by (rule node_safe_grows [OF put_grows])
  qed
  moreover from assms(1) have "live t T \<le> entries t T" "entries t T \<le> room t T" "room t T \<le> SIZE_MAX"
    by (auto simp: table_safe_def)
  ultimately show ?thesis using True
    by (simp add: table_safe_def put_entries list_all_iff) (simp add: view_get)
qed

lemma put_ok:
  assumes "\<forall>T. table_ok t T" and "i < entries t T"
    and "node_ok t T i (view (f (tb_memory (get t) ! i)))"
  shows "table_ok (put i f t) T'"
proof (cases "T' = T")
  case False
  with assms(1) show ?thesis
    by (auto simp: table_ok_iff other_views intro: node_ok_grows [OF put_grows])
next
  case True
  have "node_ok (put i f t) T j (nodes (put i f t) T ! j)" if "j < entries t T" for j
  proof -
    from assms(1) that have "node_ok t T j (nodes t T ! j)" by (simp add: table_ok_iff)
    with that assms(2,3) have "node_ok t T j (nodes (put i f t) T ! j)"
      by (cases "j = i") (simp_all add: view_get nth_list_update)
    then show ?thesis by (rule node_ok_grows [OF put_grows])
  qed
  moreover from assms(1) have "live t T = entries t T" by (simp add: table_ok_iff)
  ultimately show ?thesis using True
    by (simp add: table_ok_iff put_entries) (simp add: view_get)
qed

end

section \<open>The arrays of the tree\<close>

lemma shape_other_tables:
  "T' \<noteq> T_IMPORT \<Longrightarrow> tree_shape (tr_imports_update f1 t) T' = tree_shape t T'"
  "T' \<noteq> T_ITEM \<Longrightarrow> tree_shape (tr_items_update f2 t) T' = tree_shape t T'"
  "T' \<noteq> T_EXPR \<Longrightarrow> tree_shape (tr_expressions_update f3 t) T' = tree_shape t T'"
  "T' \<noteq> T_STMT \<Longrightarrow> tree_shape (tr_statements_update f4 t) T' = tree_shape t T'"
  "T' \<noteq> T_INVARIANT \<Longrightarrow> tree_shape (tr_loop_invariants_update f5 t) T' = tree_shape t T'"
  "T' \<noteq> T_ARG \<Longrightarrow> tree_shape (tr_arguments_update f6 t) T' = tree_shape t T'"
  "T' \<noteq> T_PARAM \<Longrightarrow> tree_shape (tr_parameters_update f7 t) T' = tree_shape t T'"
  "T' \<noteq> T_TYPE \<Longrightarrow> tree_shape (tr_types_update f8 t) T' = tree_shape t T'"
  "T' \<noteq> T_TYPE_ARG \<Longrightarrow> tree_shape (tr_type_arguments_update f9 t) T' = tree_shape t T'"
  "T' \<noteq> T_TYPE_PARAM \<Longrightarrow> tree_shape (tr_type_parameters_update f10 t) T' = tree_shape t T'"
  "T' \<noteq> T_EFFECT_PARAM \<Longrightarrow> tree_shape (tr_effect_parameters_update f11 t) T' = tree_shape t T'"
  "T' \<noteq> T_FIELD \<Longrightarrow> tree_shape (tr_fields_update f12 t) T' = tree_shape t T'"
  "T' \<noteq> T_VARIANT \<Longrightarrow> tree_shape (tr_variants_update f13 t) T' = tree_shape t T'"
  "T' \<noteq> T_PATTERN \<Longrightarrow> tree_shape (tr_patterns_update f14 t) T' = tree_shape t T'"
  "T' \<noteq> T_BINDING \<Longrightarrow> tree_shape (tr_pattern_bindings_update f15 t) T' = tree_shape t T'"
  "T' \<noteq> T_ARM \<Longrightarrow> tree_shape (tr_match_arms_update f16 t) T' = tree_shape t T'"
  "T' \<noteq> T_EFFECT \<Longrightarrow> tree_shape (tr_effects_update f17 t) T' = tree_shape t T'"
  "T' \<noteq> T_MEMBER \<Longrightarrow> tree_shape (tr_capability_members_update f18 t) T' = tree_shape t T'"
  "T' \<noteq> T_METHOD \<Longrightarrow> tree_shape (tr_trait_methods_update f19 t) T' = tree_shape t T'"
  "T' \<noteq> T_CLAUSE \<Longrightarrow> tree_shape (tr_contract_clauses_update f20 t) T' = tree_shape t T'"
  "T' \<noteq> T_CONDITION \<Longrightarrow> tree_shape (tr_contract_conditions_update f21 t) T' = tree_shape t T'"
  by (cases T'; simp)+

end
