(* ===== verification/Sol_ParserLogic.thy ===== *)
theory Sol_ParserLogic
  imports Sol_ParserNodes
begin

text \<open>
  A program logic for the parser. A judgement \<open>H X k c A m B\<close> speaks about runs of \<open>m\<close> on
  the input \<open>X\<close> from states that satisfy the invariant, have at most \<open>k\<close> tokens left from
  the current one on, satisfy the facts \<open>A\<close> and, when \<open>c\<close> is an index, have their current
  token there: such a run keeps the invariant, only moves forward and ends with the facts
  \<open>B\<close>. Facts are monotone by construction, so whatever is known stays known and every
  production is verified by walking over its definition once.
\<close>

named_theorems hoare \<open>rules of the judgement, one per construct and operation\<close>

section \<open>Positions\<close>

definition sig :: "SolParser \<Rightarrow> size_t" where
  "sig s = sol_parser_next_significant (ps_tokens s) (ps_cursor s)"

definition rem :: "SolParser \<Rightarrow> nat" where
  "rem s = length (ps_tokens s) - sig s"

lemma next_significant_le: "i \<le> sol_parser_next_significant ts i"
  by (simp add: sol_parser_next_significant_def)

lemma next_significant_bound:
  assumes "i \<le> length ts"
  shows "sol_parser_next_significant ts i \<le> length ts"
proof -
  have "length (takeWhile (\<lambda>t. sol_token_is_trivia (tk_kind t)) (drop i ts)) \<le> length (drop i ts)"
    by (rule length_takeWhile_le)
  with assms show ?thesis by (simp add: sol_parser_next_significant_def)
qed

lemma next_significant_step:
  "sol_parser_next_significant ts i =
     (if i < length ts \<and> sol_token_is_trivia (tk_kind (ts ! i))
      then sol_parser_next_significant ts (Suc i) else i)"
proof (cases "i < length ts")
  case True
  then have "drop i ts = ts ! i # drop (Suc i) ts" by (simp add: Cons_nth_drop_Suc)
  with True show ?thesis by (simp add: sol_parser_next_significant_def)
qed (simp add: sol_parser_next_significant_def)

lemma next_significant_mono:
  "i \<le> j \<Longrightarrow> sol_parser_next_significant ts i \<le> sol_parser_next_significant ts j"
proof (induction "j - i" arbitrary: i)
  case (Suc n)
  have "sol_parser_next_significant ts i \<le> sol_parser_next_significant ts (Suc i)"
    using next_significant_step [of ts i] next_significant_le [of "Suc i" ts] by auto
  also have "\<dots> \<le> sol_parser_next_significant ts j" using Suc by (intro Suc.hyps) auto
  finally show ?case .
qed simp

lemma next_significant_stops:
  "sol_parser_next_significant ts i < length ts \<Longrightarrow>
   \<not> sol_token_is_trivia (tk_kind (ts ! sol_parser_next_significant ts i))"
  using nth_length_takeWhile [of "\<lambda>t. sol_token_is_trivia (tk_kind t)" "drop i ts"]
  by (auto simp: sol_parser_next_significant_def)

lemma next_significant_idem [simp]:
  "sol_parser_next_significant ts (sol_parser_next_significant ts i) =
     sol_parser_next_significant ts i"
  using next_significant_step [of ts "sol_parser_next_significant ts i"]
    next_significant_stops [of ts i] by auto

lemma sig_idem [simp]: "sig (s\<lparr>ps_cursor := sig s\<rparr>) = sig s"
  by (simp add: sig_def)

section \<open>Invariant\<close>

record parse_input =
  in_source :: SolSource
  in_tokens :: "SolToken list"
  in_frozen :: bool

definition failed :: "SolParser \<Rightarrow> bool" where
  "failed s \<longleftrightarrow> ps_allocation_failed s \<or> sol_diagnostics_has_errors (ps_diagnostics s)"

text \<open>The tokens lie in the source; the lexer's output does.\<close>

definition tokens_in :: "SolSource \<Rightarrow> SolToken list \<Rightarrow> bool" where
  "tokens_in src ts \<longleftrightarrow> list_all (\<lambda>t. span_in src (tk_span t)) ts"

definition parser_inv :: "parse_input \<Rightarrow> SolParser \<Rightarrow> bool" where
  "parser_inv X s \<longleftrightarrow>
     ps_source s = in_source X \<and> ps_tokens s = in_tokens X \<and>
     tokens_in (in_source X) (in_tokens X) \<and>
     ps_cursor s \<le> length (in_tokens X) \<and> ps_trap s = None \<and>
     (\<forall>T. table_safe (in_source X) (ps_tree s) T) \<and>
     (failed s \<or> (\<forall>T. table_ok (ps_tree s) T))"

lemma none_not_entry [simp]: "parser_inv X s \<Longrightarrow> \<not> SOL_AST_NONE < entries (ps_tree s) T"
  by (auto simp: parser_inv_def table_safe_def SOL_AST_NONE_def not_less intro: order.trans)

text \<open>
  How a run changes the state. While the clauses are frozen, as during the parsing of an
  expression, their nodes do not change.
\<close>

definition onward :: "parse_input \<Rightarrow> SolParser \<Rightarrow> SolParser \<Rightarrow> bool" where
  "onward X s s' \<longleftrightarrow>
     ps_source s' = ps_source s \<and> ps_tokens s' = ps_tokens s \<and>
     grows (ps_tree s) (ps_tree s') \<and> (failed s \<longrightarrow> failed s') \<and>
     ps_cursor s \<le> ps_cursor s' \<and>
     (in_frozen X \<longrightarrow> nodes (ps_tree s') T_CLAUSE = nodes (ps_tree s) T_CLAUSE)"

lemma onward_refl [simp]: "onward X s s"
  by (simp add: onward_def)

lemma onward_trans: "onward X s t \<Longrightarrow> onward X t u \<Longrightarrow> onward X s u"
  by (auto simp: onward_def intro: grows_trans)

lemma onward_sig: "onward X s s' \<Longrightarrow> sig s \<le> sig s'"
  by (auto simp: onward_def sig_def intro: next_significant_mono)

lemma onward_rem: "onward X s s' \<Longrightarrow> rem s' \<le> rem s"
  using onward_sig [of X s s'] by (auto simp: onward_def rem_def intro: diff_le_mono2)

section \<open>Facts\<close>

datatype fact =
    Pure bool
  | Both fact fact
  | Either fact fact
  | Given bool fact
  | Has table size_t
  | Bad
  | Ate nat
  | Below nat
  | From size_t
  | Sound node
  | Since SolSyntaxTree

fun holds :: "fact \<Rightarrow> SolParser \<Rightarrow> bool" where
  "holds (Pure b) s \<longleftrightarrow> b"
| "holds (Both a b) s \<longleftrightarrow> holds a s \<and> holds b s"
| "holds (Either a b) s \<longleftrightarrow> holds a s \<or> holds b s"
| "holds (Given b a) s \<longleftrightarrow> (b \<longrightarrow> holds a s)"
| "holds (Has T i) s \<longleftrightarrow> i < entries (ps_tree s) T"
| "holds Bad s \<longleftrightarrow> failed s"
| "holds (Ate k) s \<longleftrightarrow> rem s < k \<and> 0 < ps_cursor s"
| "holds (Below k) s \<longleftrightarrow> rem s < k"
| "holds (From i) s \<longleftrightarrow> i \<le> sig s"
| "holds (Sound n) s \<longleftrightarrow> node_safe (ps_source s) (ps_tree s) n \<and> (nd_error n \<longrightarrow> failed s)"
| "holds (Since t) s \<longleftrightarrow> (\<forall>T. live t T \<le> entries (ps_tree s) T)"

lemma holds_onward: "holds a s \<Longrightarrow> onward X s s' \<Longrightarrow> holds a s'"
proof (induction a)
  case (Has T i)
  then show ?case by (auto simp: onward_def grows_def intro: order.strict_trans2)
next
  case (Ate k)
  with onward_rem [of X s s'] show ?case by (auto simp: onward_def)
next
  case (Below k)
  with onward_rem [of X s s'] show ?case by auto
next
  case (From i)
  with onward_sig [of X s s'] show ?case by auto
next
  case (Sound n)
  then show ?case by (auto simp: onward_def intro: node_safe_grows)
next
  case (Since t)
  then show ?case by (auto simp: onward_def grows_def intro: order.trans)
qed (auto simp: onward_def)

text \<open>A reference that is there unless the parse has failed; one that may be absent.\<close>

abbreviation Res :: "table \<Rightarrow> size_t \<Rightarrow> fact" where
  "Res T i \<equiv> Either (Has T i) (Both (Pure (i = SOL_AST_NONE)) Bad)"

abbreviation Opt :: "table \<Rightarrow> size_t \<Rightarrow> fact" where
  "Opt T i \<equiv> Given (i \<noteq> SOL_AST_NONE) (Has T i)"

text \<open>The first and the last entry of a list.\<close>

abbreviation Lst :: "table \<Rightarrow> size_t \<times> size_t \<Rightarrow> fact" where
  "Lst T l \<equiv> Given (fst l \<noteq> SOL_AST_NONE) (Both (Has T (fst l)) (Has T (snd l)))"

text \<open>The outcome of a round of a loop.\<close>

abbreviation Round :: "nat \<Rightarrow> ('l \<Rightarrow> fact) \<Rightarrow> ('r \<Rightarrow> fact) \<Rightarrow> 'l + 'r \<Rightarrow> fact" where
  "Round k I B x \<equiv> (case x of Inl l \<Rightarrow> Both (Below k) (I l) | Inr r \<Rightarrow> B r)"

abbreviation Orelse :: "('a \<Rightarrow> fact) \<Rightarrow> 'a option \<Rightarrow> fact" where
  "Orelse B x \<equiv> (case x of None \<Rightarrow> Bad | Some y \<Rightarrow> B y)"

section \<open>The judgement\<close>

primrec at :: "size_t option \<Rightarrow> SolParser \<Rightarrow> bool" where
  "at None s \<longleftrightarrow> True"
| "at (Some i) s \<longleftrightarrow> sig s = i"

definition known :: "parse_input \<Rightarrow> nat \<Rightarrow> size_t option \<Rightarrow> fact \<Rightarrow> SolParser \<Rightarrow> bool" where
  "known X k c A s \<longleftrightarrow> parser_inv X s \<and> rem s \<le> k \<and> holds A s \<and> at c s"

definition H ::
  "parse_input \<Rightarrow> nat \<Rightarrow> size_t option \<Rightarrow> fact \<Rightarrow> 'a parse \<Rightarrow> ('a \<Rightarrow> fact) \<Rightarrow> bool" where
  "H X k c A m B \<longleftrightarrow>
     (\<forall>s. known X k c A s \<longrightarrow>
       (case run_state m s of (r, s') \<Rightarrow> parser_inv X s' \<and> onward X s s' \<and> holds (B r) s'))"

lemma HI:
  assumes "\<And>s r s'. known X k c A s \<Longrightarrow> run_state m s = (r, s') \<Longrightarrow>
    parser_inv X s' \<and> onward X s s' \<and> holds (B r) s'"
  shows "H X k c A m B"
  using assms by (auto simp: H_def split: prod.splits)

lemma HD:
  assumes "H X k c A m B" "known X k c A s" "run_state m s = (r, s')"
  shows "parser_inv X s'" "onward X s s'" "holds (B r) s'"
  using assms by (force simp: H_def)+

lemma known_onward:
  assumes "known X k c A s" "onward X s s'" "parser_inv X s'" "holds b s'"
  shows "known X k None (Both A b) s'"
  using assms onward_rem [of X s s'] by (auto simp: known_def intro: holds_onward)

lemma H_bind:
  assumes m: "H X k c A m B" and f: "\<And>r. H X k None (Both A (B r)) (f r) C"
  shows "H X k c A (State_Monad.bind m f) C"
proof (rule HI)
  fix s r s'
  assume s: "known X k c A s" and run: "run_state (State_Monad.bind m f) s = (r, s')"
  obtain r1 s1 where m1: "run_state m s = (r1, s1)" by (cases "run_state m s")
  with run have f1: "run_state (f r1) s1 = (r, s')" by simp
  from HD [OF m s m1] have s1: "known X k None (Both A (B r1)) s1" "onward X s s1"
    by (auto intro: known_onward [OF s])
  from HD [OF f s1(1) f1] s1(2) show "parser_inv X s' \<and> onward X s s' \<and> holds (C r) s'"
    by (auto intro: onward_trans)
qed

lemma H_run:
  assumes "H X k c A m B" "known X k c A s" "run_state m s = (r, s')"
  shows "parser_inv X s' \<and> onward X s s' \<and> holds (B r) s'"
  using HD [OF assms] by blast

lemma H_note:
  "(\<And>s. known X k c A s \<Longrightarrow> holds b s) \<Longrightarrow> H X k c (Both A b) m B \<Longrightarrow> H X k c A m B"
  by (auto simp: H_def known_def)

lemma H_conseq:
  assumes "H X k c A m B" and "\<And>r s. known X k None (Both A (B r)) s \<Longrightarrow> holds (C r) s"
  shows "H X k c A m C"
proof (rule HI)
  fix s r s'
  assume s: "known X k c A s" and run: "run_state m s = (r, s')"
  from HD [OF assms(1) s run] known_onward [OF s, of s' "B r"] assms(2)
  show "parser_inv X s' \<and> onward X s s' \<and> holds (C r) s'" by auto
qed

lemma H_weaken:
  assumes "H X k' c' A' m B" and "\<And>s. known X k c A s \<Longrightarrow> known X k' c' A' s"
  shows "H X k c A m B"
  using assms by (auto simp: H_def)

lemma known_D:
  assumes "known X k c A s"
  shows "parser_inv X s" "rem s \<le> k" "holds A s" "at c s"
  using assms by (auto simp: known_def)

lemma H_call:
  "H X k None A m B \<Longrightarrow> (\<And>r. H X k None (Both A (B r)) (f r) C) \<Longrightarrow> H X k c A (State_Monad.bind m f) C"
  by (rule H_weaken [OF H_bind]) (auto simp: known_def)

lemma H_tail_call:
  "H X k None A m B \<Longrightarrow> (\<And>r s. known X k None (Both A (B r)) s \<Longrightarrow> holds (C r) s) \<Longrightarrow> H X k c A m C"
  by (rule H_weaken [OF H_conseq]) (auto simp: known_def)

section \<open>Constructs\<close>

lemma H_ret [hoare]: "(\<And>s. known X k c A s \<Longrightarrow> holds (B x) s) \<Longrightarrow> H X k c A (ret x) B"
  by (auto simp: H_def known_def)

lemma H_ret_bind [hoare]: "H X k c A (f x) B \<Longrightarrow> H X k c A (State_Monad.bind (ret x) f) B"
  by (simp add: H_def)

lemma H_assoc [hoare]:
  "H X k c A (State_Monad.bind m (\<lambda>x. State_Monad.bind (g x) f)) B \<Longrightarrow>
   H X k c A (State_Monad.bind (State_Monad.bind m g) f) B"
  by (simp add: H_def split: prod.splits)

lemma H_if_known [hoare]:
  "H X k c A m B \<Longrightarrow> H X k c A (if True then m else n) B"
  "H X k c A n B \<Longrightarrow> H X k c A (if False then m else n) B"
  "H X k c A m B \<Longrightarrow> H X k c A (if \<not> False then m else n) B"
  "H X k c A n B \<Longrightarrow> H X k c A (if \<not> True then m else n) B"
  by simp_all

lemma H_if [hoare]:
  "(b \<Longrightarrow> H X k c A m B) \<Longrightarrow> (\<not> b \<Longrightarrow> H X k c A n B) \<Longrightarrow> H X k c A (if b then m else n) B"
  by simp

lemma H_if_bind [hoare]:
  "(b \<Longrightarrow> H X k c A (State_Monad.bind m f) B) \<Longrightarrow> (\<not> b \<Longrightarrow> H X k c A (State_Monad.bind n f) B) \<Longrightarrow>
   H X k c A (State_Monad.bind (if b then m else n) f) B"
  by simp

lemma H_option_known [hoare]:
  "H X k c A m B \<Longrightarrow> H X k c A (case None of None \<Rightarrow> m | Some y \<Rightarrow> f y) B"
  "H X k c A (f x) B \<Longrightarrow> H X k c A (case Some x of None \<Rightarrow> m | Some y \<Rightarrow> f y) B"
  by simp_all

lemma H_option [hoare]:
  "(x = None \<Longrightarrow> H X k c A m B) \<Longrightarrow> (\<And>y. x = Some y \<Longrightarrow> H X k c A (f y) B) \<Longrightarrow>
   H X k c A (case x of None \<Rightarrow> m | Some y \<Rightarrow> f y) B"
  by (simp split: option.split)

lemma H_prod_known [hoare]: "H X k c A (f a b) B \<Longrightarrow> H X k c A (case (a, b) of (x, y) \<Rightarrow> f x y) B"
  by simp

lemma H_prod [hoare]:
  "(\<And>a b. x = (a, b) \<Longrightarrow> H X k c A (f a b) B) \<Longrightarrow> H X k c A (case x of (a, b) \<Rightarrow> f a b) B"
  by (simp split: prod.split)

lemma H_prod_bind [hoare]:
  "(\<And>a b. x = (a, b) \<Longrightarrow> H X k c A (State_Monad.bind (g a b) f) B) \<Longrightarrow>
   H X k c A (State_Monad.bind (case x of (a, b) \<Rightarrow> g a b) f) B"
  by (simp split: prod.split)

lemma H_option_bind [hoare]:
  "(x = None \<Longrightarrow> H X k c A (State_Monad.bind m f) B) \<Longrightarrow>
   (\<And>y. x = Some y \<Longrightarrow> H X k c A (State_Monad.bind (g y) f) B) \<Longrightarrow>
   H X k c A (State_Monad.bind (case x of None \<Rightarrow> m | Some y \<Rightarrow> g y) f) B"
  by (simp split: option.split)

lemma H_sum [hoare]:
  "(\<And>a. x = Inl a \<Longrightarrow> H X k c A (f a) B) \<Longrightarrow> (\<And>b. x = Inr b \<Longrightarrow> H X k c A (g b) B) \<Longrightarrow>
   H X k c A (case x of Inl a \<Rightarrow> f a | Inr b \<Rightarrow> g b) B"
  by (simp split: sum.split)

lemma H_let [hoare]: "H X k c A (f x) B \<Longrightarrow> H X k c A (let y = x in f y) B"
  by simp

lemma H_and_then_known [hoare]:
  "H X k c A (State_Monad.bind m f) B \<Longrightarrow> H X k c A (State_Monad.bind (and_then True m) f) B"
  "H X k c A (f False) B \<Longrightarrow> H X k c A (State_Monad.bind (and_then False m) f) B"
  by (simp_all add: and_then_def)

lemma H_and_then [hoare]:
  "(b \<Longrightarrow> H X k c A (State_Monad.bind m f) B) \<Longrightarrow> (\<not> b \<Longrightarrow> H X k c A (f False) B) \<Longrightarrow>
   H X k c A (State_Monad.bind (and_then b m) f) B"
  by (simp add: and_then_def)

text \<open>A loop whose rounds consume a token each, with an invariant of its local variables.\<close>

lemma loop_rounds_inv:
  assumes body: "\<And>l s x s1. known X k None (Both A (I l)) s \<Longrightarrow> Q l s \<Longrightarrow>
      run_state (body l) s = (x, s1) \<Longrightarrow> parser_inv X s1 \<and> onward X s s1 \<and>
      (case x of Inl l' \<Rightarrow> rem s1 < rem s \<and> holds (I l') s1 \<and> Q l' s1 | Inr r \<Rightarrow> holds (B r) s1)"
    and "known X k None (Both A (I l)) s" and "Q l s" and "rem s < n"
    and "run_state (loop_rounds n d body l) s = (r, s')"
  shows "parser_inv X s' \<and> onward X s s' \<and> holds (B r) s'"
  using assms(2-)
proof (induction n arbitrary: l s)
  case (Suc n)
  obtain x s1 where b: "run_state (body l) s = (x, s1)" by (cases "run_state (body l) s")
  from body [OF Suc.prems(1,2) b] have step: "parser_inv X s1" "onward X s s1"
    "case x of Inl l' \<Rightarrow> rem s1 < rem s \<and> holds (I l') s1 \<and> Q l' s1 | Inr r \<Rightarrow> holds (B r) s1" by auto
  show ?case
  proof (cases x)
    case (Inr r')
    with b step Suc.prems(4) show ?thesis by simp
  next
    case (Inl l')
    with step have "rem s1 < rem s" "Q l' s1" "holds (I l') s1" by auto
    moreover from this have "known X k None (Both A (I l')) s1"
      using known_onward [OF Suc.prems(1) step(2,1), of "I l'"] by (simp add: known_def)
    ultimately have "parser_inv X s' \<and> onward X s1 s' \<and> holds (B r) s'"
      using Suc.prems(3,4) b Inl by (intro Suc.IH [of l' s1]) auto
    then show ?thesis using step(2) by (auto intro: onward_trans)
  qed
qed simp

text \<open>A loop with a further condition on its states that not every operation keeps.\<close>

lemma loop_inv:
  assumes body: "\<And>l s x s1. known X k None (Both A (I l)) s \<Longrightarrow> Q l s \<Longrightarrow>
      run_state (body l) s = (x, s1) \<Longrightarrow> parser_inv X s1 \<and> onward X s s1 \<and>
      (case x of Inl l' \<Rightarrow> rem s1 < rem s \<and> holds (I l') s1 \<and> Q l' s1 | Inr r \<Rightarrow> holds (B r) s1)"
    and "known X k None (Both A (I l)) s" and "Q l s" and "run_state (loop d body l) s = (r, s')"
  shows "parser_inv X s' \<and> onward X s s' \<and> holds (B r) s'"
proof -
  have "rem s < Suc (length (ps_tokens s) - ps_cursor s)"
    using next_significant_le [of "ps_cursor s" "ps_tokens s"] by (simp add: rem_def sig_def)
  then show ?thesis using assms(2-4) by (intro loop_rounds_inv [OF body]) (auto simp: loop_def)
qed

lemma H_loop:
  assumes init: "\<And>s. known X k c A s \<Longrightarrow> holds (I l) s"
    and body: "\<And>l k'. k' \<le> k \<Longrightarrow> H X k' None (Both A (I l)) (body l) (Round k' I B)"
  shows "H X k c A (loop d body l) B"
proof (rule HI)
  fix s r s'
  assume s: "known X k c A s" and run: "run_state (loop d body l) s = (r, s')"
  have step: "parser_inv X s1 \<and> onward X s s1 \<and>
      (case x of Inl l' \<Rightarrow> rem s1 < rem s \<and> holds (I l') s1 \<and> True | Inr r \<Rightarrow> holds (B r) s1)"
    if "known X k None (Both A (I l)) s" "run_state (body l) s = (x, s1)" for l s x s1
  proof -
    from that(1) have "known X (rem s) None (Both A (I l)) s" "rem s \<le> k" by (auto simp: known_def)
    from HD [OF body [OF this(2)] this(1) that(2)] show ?thesis by (auto split: sum.splits)
  qed
  have "known X k None (Both A (I l)) s" using s init by (auto simp: known_def)
  then show "parser_inv X s' \<and> onward X s s' \<and> holds (B r) s'"
    using loop_inv [where Q = "\<lambda>_ _. True", OF step _ _ run] by auto
qed

section \<open>Tokens\<close>

abbreviation tok :: "parse_input \<Rightarrow> size_t \<Rightarrow> SolToken" where
  "tok X i \<equiv> token_at (in_source X) (in_tokens X) i"

text \<open>Where the current token may be, given the bound.\<close>

definition within :: "parse_input \<Rightarrow> nat \<Rightarrow> size_t \<Rightarrow> bool" where
  "within X k i \<longleftrightarrow> i \<le> length (in_tokens X) \<and> length (in_tokens X) - i \<le> k"

lemma known_sig: "known X k c A s \<Longrightarrow> known X k (Some (sig s)) A s \<and> within X k (sig s)"
  by (auto simp: known_def within_def parser_inv_def rem_def sig_def intro: next_significant_bound)

lemma known_cursor:
  assumes "known X k c A s"
  shows "known X k (Some (sig s)) A (s\<lparr>ps_cursor := sig s\<rparr>)" "onward X s (s\<lparr>ps_cursor := sig s\<rparr>)"
proof -
  have le: "ps_cursor s \<le> sig s" by (simp add: sig_def next_significant_le)
  then show on: "onward X s (s\<lparr>ps_cursor := sig s\<rparr>)"
    by (auto simp: onward_def failed_def)
  from assms have "sig s \<le> length (in_tokens X)"
    using known_sig [OF assms] by (simp add: within_def)
  moreover from assms on have "holds A (s\<lparr>ps_cursor := sig s\<rparr>)"
    by (auto simp: known_def intro: holds_onward)
  ultimately show "known X k (Some (sig s)) A (s\<lparr>ps_cursor := sig s\<rparr>)"
    using assms by (auto simp: known_def parser_inv_def failed_def rem_def)
qed

lemma run_significant_index [simp]:
  "run_state sol_parser_significant_index s = (sig s, s\<lparr>ps_cursor := sig s\<rparr>)"
  by (simp add: sol_parser_significant_index_def sig_def)

lemma run_current [simp]:
  "run_state sol_parser_current s =
     (token_at (ps_source s) (ps_tokens s) (sig s), s\<lparr>ps_cursor := sig s\<rparr>)"
  by (simp add: sol_parser_current_def)

lemma run_kind [simp]:
  "run_state sol_parser_kind s =
     (tk_kind (token_at (ps_source s) (ps_tokens s) (sig s)), s\<lparr>ps_cursor := sig s\<rparr>)"
  by (simp add: sol_parser_kind_def)

text \<open>A continuation that starts at the current token.\<close>

lemma H_from_cursor:
  assumes m: "\<And>s. parser_inv X s \<Longrightarrow> run_state m s = (g (sig s), s\<lparr>ps_cursor := sig s\<rparr>)"
    and f: "\<And>i. c = None \<or> c = Some i \<Longrightarrow> within X k i \<Longrightarrow> H X k (Some i) A (f (g i)) B"
  shows "H X k c A (State_Monad.bind m f) B"
proof (rule HI)
  fix s r s'
  assume s: "known X k c A s" and run: "run_state (State_Monad.bind m f) s = (r, s')"
  let ?s = "s\<lparr>ps_cursor := sig s\<rparr>"
  have run': "run_state (f (g (sig s))) ?s = (r, s')"
    using run m [OF known_D(1) [OF s]] by simp
  have c: "c = None \<or> c = Some (sig s)" using s by (cases c) (auto simp: known_def)
  from HD [OF f [OF c conjunct2 [OF known_sig [OF s]]] known_cursor(1) [OF s] run']
  show "parser_inv X s' \<and> onward X s s' \<and> holds (B r) s'"
    using known_cursor(2) [OF s] by (auto intro: onward_trans)
qed

lemma H_current [hoare]:
  "(\<And>i. within X k i \<Longrightarrow> H X k (Some i) A (f (tok X i)) B) \<Longrightarrow>
   H X k None A (State_Monad.bind sol_parser_current f) B"
  "(within X k i \<Longrightarrow> H X k (Some i) A (f (tok X i)) B) \<Longrightarrow>
   H X k (Some i) A (State_Monad.bind sol_parser_current f) B"
  by (rule H_from_cursor [where g = "tok X"]; auto simp: parser_inv_def)+

lemma H_kind [hoare]:
  "(\<And>i. within X k i \<Longrightarrow> H X k (Some i) A (f (tk_kind (tok X i))) B) \<Longrightarrow>
   H X k None A (State_Monad.bind sol_parser_kind f) B"
  "(within X k i \<Longrightarrow> H X k (Some i) A (f (tk_kind (tok X i))) B) \<Longrightarrow>
   H X k (Some i) A (State_Monad.bind sol_parser_kind f) B"
  by (rule H_from_cursor [where g = "\<lambda>i. tk_kind (tok X i)"]; auto simp: parser_inv_def)+

lemma H_significant_index [hoare]:
  "(\<And>i. within X k i \<Longrightarrow> H X k (Some i) (Both A (From i)) (f i) B) \<Longrightarrow>
   H X k None A (State_Monad.bind sol_parser_significant_index f) B"
  "(within X k i \<Longrightarrow> H X k (Some i) (Both A (From i)) (f i) B) \<Longrightarrow>
   H X k (Some i) A (State_Monad.bind sol_parser_significant_index f) B"
proof -
  have weaken: "H X k (Some i) A (f i) B" if "H X k (Some i) (Both A (From i)) (f i) B" for i
    using that by (rule H_weaken) (auto simp: known_def)
  show "(\<And>i. within X k i \<Longrightarrow> H X k (Some i) (Both A (From i)) (f i) B) \<Longrightarrow>
     H X k None A (State_Monad.bind sol_parser_significant_index f) B"
    by (rule H_from_cursor [where g = "\<lambda>i. i"]) (auto intro: weaken)
  show "(within X k i \<Longrightarrow> H X k (Some i) (Both A (From i)) (f i) B) \<Longrightarrow>
     H X k (Some i) A (State_Monad.bind sol_parser_significant_index f) B"
    by (rule H_from_cursor [where g = "\<lambda>i. i"]) (auto intro: weaken)
qed

lemma H_peek_kind [hoare]:
  assumes f: "\<And>n. H X k c A (f n) B"
  shows "H X k c A (State_Monad.bind (sol_parser_peek_kind d) f) B"
proof (rule HI)
  fix s r s'
  assume s: "known X k c A s"
    and run: "run_state (State_Monad.bind (sol_parser_peek_kind d) f) s = (r, s')"
  let ?s = "s\<lparr>ps_cursor := sig s\<rparr>"
  obtain n where run': "run_state (f n) ?s = (r, s')" using run by (auto simp: sol_parser_peek_kind_def)
  have "known X k c A ?s" using known_cursor(1) [OF s] s by (cases c) (auto simp: known_def)
  from HD [OF f this run'] show "parser_inv X s' \<and> onward X s s' \<and> holds (B r) s'"
    using known_cursor(2) [OF s] by (auto intro: onward_trans)
qed

lemma kind_eof_past: "\<not> i < length (in_tokens X) \<Longrightarrow> tk_kind (tok X i) = SOL_TOKEN_EOF"
  by (simp add: token_at_def)

lemma advance_run:
  assumes s: "known X k c A s"
  obtains s1 where "run_state sol_parser_advance s = (tok X (sig s), s1)"
    "onward X s s1" "parser_inv X s1" "tk_kind (tok X (sig s)) \<noteq> SOL_TOKEN_EOF \<longrightarrow> holds (Ate k) s1"
proof
  let ?s1 = "if sig s < length (in_tokens X) then s\<lparr>ps_cursor := Suc (sig s)\<rparr>
    else s\<lparr>ps_cursor := sig s\<rparr>"
  from s have X: "ps_source s = in_source X" "ps_tokens s = in_tokens X"
    by (auto simp: known_def parser_inv_def)
  show "run_state sol_parser_advance s = (tok X (sig s), ?s1)"
    by (simp add: sol_parser_advance_def when_do_def X)
  have "ps_cursor s \<le> sig s" by (simp add: sig_def next_significant_le)
  then show "onward X s ?s1" by (auto simp: onward_def failed_def)
  have "sig s \<le> length (in_tokens X)" using known_sig [OF s] by (simp add: within_def)
  then show "parser_inv X ?s1" using s by (auto simp: known_def parser_inv_def failed_def)
  show "tk_kind (tok X (sig s)) \<noteq> SOL_TOKEN_EOF \<longrightarrow> holds (Ate k) ?s1"
  proof
  assume "tk_kind (tok X (sig s)) \<noteq> SOL_TOKEN_EOF"
  then have i: "sig s < length (in_tokens X)" using kind_eof_past by blast
  have "Suc (sig s) \<le> sig (s\<lparr>ps_cursor := Suc (sig s)\<rparr>)"
    by (simp add: sig_def [of "s\<lparr>ps_cursor := Suc (sig s)\<rparr>"] next_significant_le)
  then show "holds (Ate k) ?s1" using i s X by (auto simp: rem_def known_def)
  qed
qed

lemma H_advance_sig:
  assumes f: "\<And>i. c = None \<or> c = Some i \<Longrightarrow> within X k i \<Longrightarrow>
    H X k None (Both A (Given (tk_kind (tok X i) \<noteq> SOL_TOKEN_EOF) (Ate k))) (f (tok X i)) B"
  shows "H X k c A (State_Monad.bind sol_parser_advance f) B"
proof (rule HI)
  fix s r s'
  assume s: "known X k c A s" and run: "run_state (State_Monad.bind sol_parser_advance f) s = (r, s')"
  obtain s1 where s1: "run_state sol_parser_advance s = (tok X (sig s), s1)"
    "onward X s s1" "parser_inv X s1" "tk_kind (tok X (sig s)) \<noteq> SOL_TOKEN_EOF \<longrightarrow> holds (Ate k) s1"
    by (rule advance_run [OF s])
  have c: "c = None \<or> c = Some (sig s)" using s by (cases c) (auto simp: known_def)
  have "known X k None (Both A (Given (tk_kind (tok X (sig s)) \<noteq> SOL_TOKEN_EOF) (Ate k))) s1"
    using s1 by (intro known_onward [OF s]) auto
  from HD [OF f [OF c conjunct2 [OF known_sig [OF s]]] this] run s1(1,2)
  show "parser_inv X s' \<and> onward X s s' \<and> holds (B r) s'" by (auto intro: onward_trans)
qed

lemma H_advance [hoare]:
  "(\<And>i. within X k i \<Longrightarrow>
     H X k None (Both A (Given (tk_kind (tok X i) \<noteq> SOL_TOKEN_EOF) (Ate k))) (f (tok X i)) B) \<Longrightarrow>
   H X k None A (State_Monad.bind sol_parser_advance f) B"
  "(within X k i \<Longrightarrow>
     H X k None (Both A (Given (tk_kind (tok X i) \<noteq> SOL_TOKEN_EOF) (Ate k))) (f (tok X i)) B) \<Longrightarrow>
   H X k (Some i) A (State_Monad.bind sol_parser_advance f) B"
  by (rule H_advance_sig; auto)+

end
