(* ===== verification/Sol_ParserRules.thy ===== *)
theory Sol_ParserRules
  imports Sol_ParserLogic
begin

text \<open>
  The rules of the judgement for the operations of \<open>Sol_ParserState\<close>: matching tokens,
  diagnostics, flags, and the arrays of the tree through the interface \<open>syntax_table\<close>.
\<close>

section \<open>Operations that leave the current token alone\<close>

definition K ::
  "parse_input \<Rightarrow> nat \<Rightarrow> size_t option \<Rightarrow> fact \<Rightarrow> 'a parse \<Rightarrow> ('a \<Rightarrow> fact) \<Rightarrow> bool" where
  "K X k c A m B \<longleftrightarrow>
     (\<forall>s. known X k c A s \<longrightarrow>
       (case run_state m s of (r, s') \<Rightarrow>
          parser_inv X s' \<and> onward X s s' \<and> sig s' = sig s \<and> holds (B r) s'))"

lemma K_bind:
  assumes m: "K X k c A m b" and f: "\<And>r. H X k c (Both A (b r)) (f r) B"
  shows "H X k c A (State_Monad.bind m f) B"
proof (rule HI)
  fix s r s'
  assume s: "known X k c A s" and run: "run_state (State_Monad.bind m f) s = (r, s')"
  obtain r1 s1 where m1: "run_state m s = (r1, s1)" by (cases "run_state m s")
  with run have f1: "run_state (f r1) s1 = (r, s')" by simp
  from m s m1 have s1: "parser_inv X s1" "onward X s s1" "sig s1 = sig s" "holds (b r1) s1"
    by (force simp: K_def)+
  from known_onward [OF s s1(2,1,4)] have "known X k c (Both A (b r1)) s1"
    using s s1(3) by (cases c) (auto simp: known_def)
  from HD [OF f this f1] s1(2) show "parser_inv X s' \<and> onward X s s' \<and> holds (B r) s'"
    by (auto intro: onward_trans)
qed

lemma K_bind_pure:
  assumes m: "K X k c A m (\<lambda>r. Pure (q r))" and f: "\<And>r. q r \<Longrightarrow> H X k c A (f r) B"
  shows "H X k c A (State_Monad.bind m f) B"
proof (rule K_bind [OF m])
  fix r
  show "H X k c (Both A (Pure (q r))) (f r) B"
    using f [of r] by (cases "q r") (auto simp: H_def known_def)
qed

lemma K_tail:
  assumes "K X k c A m b" and "\<And>r s. known X k c (Both A (b r)) s \<Longrightarrow> holds (B r) s"
  shows "H X k c A m B"
proof -
  have "H X k c A (State_Monad.bind m ret) B"
    by (rule K_bind [OF assms(1)]) (rule H_ret, rule assms(2))
  then show ?thesis by (simp add: H_def split: prod.splits)
qed

lemma K_I:
  assumes "\<And>s. known X k c A s \<Longrightarrow> \<exists>r s'. run_state m s = (r, s') \<and>
    parser_inv X s' \<and> onward X s s' \<and> sig s' = sig s \<and> holds (b r) s'"
  shows "K X k c A m b"
  using assms by (fastforce simp: K_def)

text \<open>A change of state that nothing in the logic depends on.\<close>

definition quiet :: "(SolParser \<Rightarrow> SolParser) \<Rightarrow> bool" where
  "quiet g \<longleftrightarrow> (\<forall>s. ps_source (g s) = ps_source s \<and> ps_tokens (g s) = ps_tokens s \<and>
     ps_tree (g s) = ps_tree s \<and> ps_diagnostics (g s) = ps_diagnostics s \<and>
     ps_cursor (g s) = ps_cursor s \<and> ps_allocation_failed (g s) = ps_allocation_failed s \<and>
     ps_trap (g s) = ps_trap s)"

lemma quiet_flags [simp, intro!]:
  "quiet (ps_type_depth_update f)" "quiet (ps_expression_depth_update f)"
  "quiet (ps_loop_depth_update f)" "quiet (ps_contract_context_update g)"
  "quiet (ps_suppress_record_literal_update h)"
  by (simp_all add: quiet_def)

lemma quiet_keeps:
  assumes "quiet g" "parser_inv X s"
  shows "parser_inv X (g s)" "onward X s (g s)" "sig (g s) = sig s"
  using assms by (auto simp: quiet_def parser_inv_def onward_def sig_def failed_def)

lemma K_gets: "K X k c A (gets g) (\<lambda>_. Pure True)"
  by (rule K_I) (auto simp: known_def)

lemma K_modify: "quiet g \<Longrightarrow> K X k c A (modify g) (\<lambda>_. Pure True)"
  by (rule K_I) (auto simp: known_def quiet_keeps)

lemma H_gets [hoare]: "(\<And>x. H X k c A (f x) B) \<Longrightarrow> H X k c A (State_Monad.bind (gets g) f) B"
  by (rule K_bind [OF K_gets]) (rule H_weaken, auto simp: known_def)

lemma H_modify [hoare]:
  "quiet g \<Longrightarrow> H X k c A (f ()) B \<Longrightarrow> H X k c A (State_Monad.bind (modify g) f) B"
  by (rule K_bind [OF K_modify]) (auto intro: H_weaken simp: known_def)

lemma H_item_count [hoare]:
  "(\<And>x. H X k c A (f x) B) \<Longrightarrow> H X k c A (State_Monad.bind item_count f) B"
  unfolding item_count_def by (rule H_gets)

lemma H_token_text_is [hoare]:
  "(\<And>b. H X k c A (f b) B) \<Longrightarrow> H X k c A (State_Monad.bind (token_text_is t tx) f) B"
  unfolding token_text_is_def by (intro H_assoc H_gets H_ret_bind)

section \<open>Diagnostics\<close>

lemma has_errors_added:
  assumes "run_state (sol_diagnostics_add ds code SOL_SEVERITY_ERROR sp message) e = ((b, ds'), e')"
  shows "sol_diagnostics_has_errors ds'"
  using assms
  by (auto simp: sol_diagnostics_add_def sol_diagnostics_has_errors_def make_diagnostic_def
      split: if_splits option.splits prod.splits)

lemma K_diagnostic: "K X k c A (parser_diagnostic code sp message) (\<lambda>_. Bad)"
proof (rule K_I)
  fix s
  assume s: "known X k c A s"
  obtain b ds' e' where add:
    "run_state (sol_diagnostics_add (ps_diagnostics s) code SOL_SEVERITY_ERROR sp message)
       (ps_env s) = ((b, ds'), e')" by (metis prod.collapse)
  let ?s = "s\<lparr>ps_env := e', ps_diagnostics := ds'\<rparr>"
  have run: "run_state (parser_diagnostic code sp message) s = ((), ?s)"
    by (simp add: parser_diagnostic_def lift_env_def add)
  have "failed ?s" using has_errors_added [OF add] by (simp add: failed_def)
  then show "\<exists>r s'. run_state (parser_diagnostic code sp message) s = (r, s') \<and>
      parser_inv X s' \<and> onward X s s' \<and> sig s' = sig s \<and> holds Bad s'"
    using s run by (intro exI [of _ "()"] exI [of _ ?s])
      (auto simp: known_def parser_inv_def onward_def sig_def)
qed

lemma K_error: "K X k c A (sol_parser_error code t message) (\<lambda>_. Bad)"
  unfolding sol_parser_error_def by (rule K_diagnostic)

lemmas H_diagnostic [hoare] = K_diagnostic [THEN K_bind] K_diagnostic [THEN K_tail]
lemmas H_error [hoare] = K_error [THEN K_bind] K_error [THEN K_tail]

text \<open>Errors reported on a condition.\<close>

lemma K_when: "(b \<Longrightarrow> K X k c A m (\<lambda>_. B)) \<Longrightarrow> K X k c A (when_do b m) (\<lambda>_. Given b B)"
  by (cases b) (auto simp: when_do_def K_def known_def)

lemma K_current:
  assumes "\<And>i. K X k (Some i) A (f (tok X i)) B"
  shows "K X k c A (State_Monad.bind sol_parser_current f) B"
proof (rule K_I)
  fix s
  assume s: "known X k c A s"
  let ?s = "s\<lparr>ps_cursor := sig s\<rparr>"
  have eq: "run_state (State_Monad.bind sol_parser_current f) s = run_state (f (tok X (sig s))) ?s"
    using s by (simp add: known_def parser_inv_def)
  obtain r s' where run: "run_state (f (tok X (sig s))) ?s = (r, s')"
    by (cases "run_state (f (tok X (sig s))) ?s")
  with assms [of "sig s"] known_cursor(1) [OF s]
  have "parser_inv X s' \<and> onward X ?s s' \<and> sig s' = sig ?s \<and> holds (B r) s'"
    by (force simp: K_def)
  then show "\<exists>r s'. run_state (State_Monad.bind sol_parser_current f) s = (r, s') \<and>
      parser_inv X s' \<and> onward X s s' \<and> sig s' = sig s \<and> holds (B r) s'"
    using eq run known_cursor(2) [OF s] by (auto intro: onward_trans)
qed

lemmas K_when_error = K_when [OF K_error] K_when [OF K_diagnostic] K_when [OF K_current [OF K_error]]

lemmas H_when_error [hoare] = K_when_error [THEN K_bind] K_when_error [THEN K_tail]

lemma H_when [hoare]:
  "(b \<Longrightarrow> H X k c A (State_Monad.bind m f) B) \<Longrightarrow> (\<not> b \<Longrightarrow> H X k c A (f ()) B) \<Longrightarrow>
   H X k c A (State_Monad.bind (when_do b m) f) B"
  "(b \<Longrightarrow> H X k c A m B') \<Longrightarrow> (\<And>s. \<not> b \<Longrightarrow> known X k c A s \<Longrightarrow> holds (B' ()) s) \<Longrightarrow>
   H X k c A (when_do b m) B'"
  by (auto simp: when_do_def intro: H_ret)

section \<open>Matching tokens\<close>

text \<open>The kinds the parser tests for are never the end of the file.\<close>

lemma H_match_sig:
  assumes kind: "kind \<noteq> SOL_TOKEN_EOF"
    and yes: "\<And>i. c = None \<or> c = Some i \<Longrightarrow> within X k i \<Longrightarrow> tk_kind (tok X i) = kind \<Longrightarrow>
      H X k None (Both A (Ate k)) (f True) B"
    and no: "\<And>i. c = None \<or> c = Some i \<Longrightarrow> within X k i \<Longrightarrow> tk_kind (tok X i) \<noteq> kind \<Longrightarrow>
      H X k (Some i) A (f False) B"
  shows "H X k c A (State_Monad.bind (sol_parser_match kind) f) B"
  unfolding sol_parser_match_def
proof (intro H_assoc, rule H_from_cursor [where g = "\<lambda>i. tk_kind (tok X i)"])
  show "parser_inv X s \<Longrightarrow> run_state sol_parser_kind s =
      (tk_kind (tok X (sig s)), s\<lparr>ps_cursor := sig s\<rparr>)" for s by (auto simp: parser_inv_def)
next
  fix i
  assume i: "c = None \<or> c = Some i" "within X k i"
  show "H X k (Some i) A (State_Monad.bind (if tk_kind (tok X i) \<noteq> kind then ret False
      else do { sol_parser_advance; ret True }) f) B"
  proof (cases "tk_kind (tok X i) = kind")
    case True
    have "H X k (Some i) A (State_Monad.bind sol_parser_advance (\<lambda>_. f True)) B"
      by (rule H_advance) (rule H_weaken [OF yes [OF i True]], use kind True in \<open>auto simp: known_def\<close>)
    with True show ?thesis by (simp add: H_assoc H_def split: prod.splits)
  next
    case False
    with no [OF i] show ?thesis by (simp add: H_ret_bind)
  qed
qed

lemma H_match [hoare]:
  "kind \<noteq> SOL_TOKEN_EOF \<Longrightarrow> H X k None (Both A (Ate k)) (f True) B \<Longrightarrow>
   (\<And>i. within X k i \<Longrightarrow> tk_kind (tok X i) \<noteq> kind \<Longrightarrow> H X k (Some i) A (f False) B) \<Longrightarrow>
   H X k None A (State_Monad.bind (sol_parser_match kind) f) B"
  "kind \<noteq> SOL_TOKEN_EOF \<Longrightarrow>
   (tk_kind (tok X i) = kind \<Longrightarrow> H X k None (Both A (Ate k)) (f True) B) \<Longrightarrow>
   (tk_kind (tok X i) \<noteq> kind \<Longrightarrow> H X k (Some i) A (f False) B) \<Longrightarrow>
   H X k (Some i) A (State_Monad.bind (sol_parser_match kind) f) B"
  by (rule H_match_sig; auto)+

lemma H_expect_sig:
  assumes kind: "kind \<noteq> SOL_TOKEN_EOF"
    and yes: "\<And>i. c = None \<or> c = Some i \<Longrightarrow> within X k i \<Longrightarrow> tk_kind (tok X i) = kind \<Longrightarrow>
      H X k None (Both A (Ate k)) (f True) B"
    and no: "\<And>i. c = None \<or> c = Some i \<Longrightarrow> within X k i \<Longrightarrow> tk_kind (tok X i) \<noteq> kind \<Longrightarrow>
      H X k (Some i) (Both A Bad) (f False) B"
  shows "H X k c A (State_Monad.bind (sol_parser_expect kind message) f) B"
  unfolding sol_parser_expect_def
proof (intro H_assoc, rule H_from_cursor [where g = "tok X"])
  show "parser_inv X s \<Longrightarrow> run_state sol_parser_current s =
      (tok X (sig s), s\<lparr>ps_cursor := sig s\<rparr>)" for s by (auto simp: parser_inv_def)
next
  fix i
  assume i: "c = None \<or> c = Some i" "within X k i"
  show "H X k (Some i) A (State_Monad.bind (if tk_kind (tok X i) = kind
      then do { sol_parser_advance; ret True }
      else do { sol_parser_error ''SOL-PARSE-001'' (tok X i) message; ret False }) f) B"
  proof (cases "tk_kind (tok X i) = kind")
    case True
    have "H X k (Some i) A (State_Monad.bind sol_parser_advance (\<lambda>_. f True)) B"
      by (rule H_advance) (rule H_weaken [OF yes [OF i True]], use kind True in \<open>auto simp: known_def\<close>)
    with True show ?thesis by (simp add: H_def split: prod.splits)
  next
    case False
    then show ?thesis by (simp add: H_assoc H_error H_ret_bind no [OF i])
  qed
qed

lemma H_expect [hoare]:
  "kind \<noteq> SOL_TOKEN_EOF \<Longrightarrow> H X k None (Both A (Ate k)) (f True) B \<Longrightarrow>
   (\<And>i. within X k i \<Longrightarrow> tk_kind (tok X i) \<noteq> kind \<Longrightarrow> H X k (Some i) (Both A Bad) (f False) B) \<Longrightarrow>
   H X k None A (State_Monad.bind (sol_parser_expect kind message) f) B"
  "kind \<noteq> SOL_TOKEN_EOF \<Longrightarrow>
   (tk_kind (tok X i) = kind \<Longrightarrow> H X k None (Both A (Ate k)) (f True) B) \<Longrightarrow>
   (tk_kind (tok X i) \<noteq> kind \<Longrightarrow> H X k (Some i) (Both A Bad) (f False) B) \<Longrightarrow>
   H X k (Some i) A (State_Monad.bind (sol_parser_expect kind message) f) B"
  by (rule H_expect_sig; auto)+

lemma token_span_in: "parser_inv X s \<Longrightarrow> span_in (in_source X) (tk_span (tok X i))"
  by (auto simp: parser_inv_def tokens_in_def list_all_iff token_at_def span_in_def)

lemma token_bounds [simp]:
  assumes "parser_inv X s"
  shows "sp_start (tk_span (tok X i)) \<le> sp_end (tk_span (tok X i))"
    "sp_end (tk_span (tok X i)) \<le> src_length (in_source X)"
    "sp_start (tk_span (tok X i)) \<le> src_length (in_source X)"
  using token_span_in [OF assms, of i] by (auto simp: span_in_def)

lemmas token_span_bounds [simp] = token_bounds [OF known_D(1)]

lemma K_previous:
  assumes moved: "\<And>s. known X k c A s \<Longrightarrow> 0 < ps_cursor s"
  shows "K X k c A previous_token (\<lambda>t. Pure (span_in (in_source X) (tk_span t)))"
proof (rule K_I)
  fix s
  assume s: "known X k c A s"
  then have "0 < ps_cursor s" "ps_cursor s \<le> length (in_tokens X)" "ps_tokens s = in_tokens X"
    "tokens_in (in_source X) (in_tokens X)"
    using moved by (auto simp: known_def parser_inv_def)
  then show "\<exists>r s'. run_state previous_token s = (r, s') \<and> parser_inv X s' \<and> onward X s s' \<and>
      sig s' = sig s \<and> holds (Pure (span_in (in_source X) (tk_span r))) s'"
    using s by (auto simp: previous_token_def known_def tokens_in_def list_all_iff)
qed

lemmas H_previous [hoare] = K_previous [THEN K_bind]

lemma K_line_break:
  assumes "\<And>s. known X k c A s \<Longrightarrow> stop \<le> src_length (in_source X)"
  shows "K X k c A (sol_parser_has_line_break start stop) (\<lambda>_. Pure True)"
proof (rule K_I)
  fix s
  assume s: "known X k c A s"
  from assms [OF s] s have "\<not> (start < stop \<and> src_length (ps_source s) < stop)"
    by (simp add: known_def parser_inv_def)
  then have "\<exists>b. run_state (sol_parser_has_line_break start stop) s = (b, s)"
    by (auto simp: sol_parser_has_line_break_def when_do_def)
  with s show "\<exists>r s'. run_state (sol_parser_has_line_break start stop) s = (r, s') \<and>
      parser_inv X s' \<and> onward X s s' \<and> sig s' = sig s \<and> holds (Pure True) s'"
    by (auto simp: known_def)
qed

lemmas H_line_break [hoare] = K_line_break [THEN K_bind]

section \<open>Saved flags\<close>

lemma H_with_suppression:
  assumes "H X k c A m B"
  shows "H X k c A (with_suppression b m) B"
  unfolding with_suppression_def
proof (intro H_gets H_modify quiet_flags)
  fix x
  show "H X k c A (State_Monad.bind m (\<lambda>x'. do {
      modify (ps_suppress_record_literal_update (\<lambda>_. x)); ret x' })) B"
    by (rule H_bind [OF assms]) (intro H_modify quiet_flags H_ret, auto simp: known_def)
qed

lemma H_with_context:
  assumes "H X k c A m B"
  shows "H X k c A (with_context b m) B"
  unfolding with_context_def
proof (intro H_gets H_modify quiet_flags)
  fix x
  show "H X k c A (State_Monad.bind m (\<lambda>x'. do {
      modify (ps_contract_context_update (\<lambda>_. x)); ret x' })) B"
    by (rule H_bind [OF assms]) (intro H_modify quiet_flags H_ret, auto simp: known_def)
qed

end
