(* ===== verification/Sol_ParserTables.thy ===== *)
theory Sol_ParserTables
  imports Sol_ParserRules
begin

text \<open>
  The arrays of the tree in the logic: adding an entry, reading and updating one, and
  appending to a linked list are verified once for the interface \<open>syntax_table\<close> and
  instantiated for every array.
\<close>

section \<open>Sequencing\<close>

lemma K_seq:
  assumes m: "K X k c A m b" and f: "\<And>r. K X k c (Both A (b r)) (f r) B"
  shows "K X k c A (State_Monad.bind m f) B"
proof (rule K_I)
  fix s
  assume s: "known X k c A s"
  obtain r1 s1 where m1: "run_state m s = (r1, s1)" by (cases "run_state m s")
  from m s m1 have s1: "parser_inv X s1" "onward X s s1" "sig s1 = sig s" "holds (b r1) s1"
    by (force simp: K_def)+
  from known_onward [OF s s1(2,1,4)] have k1: "known X k c (Both A (b r1)) s1"
    using s s1(3) by (cases c) (auto simp: known_def)
  obtain r2 s2 where f2: "run_state (f r1) s1 = (r2, s2)" by (cases "run_state (f r1) s1")
  from f k1 f2 have "parser_inv X s2 \<and> onward X s1 s2 \<and> sig s2 = sig s1 \<and> holds (B r2) s2"
    by (force simp: K_def)
  with m1 f2 s1 show "\<exists>r s'. run_state (State_Monad.bind m f) s = (r, s') \<and> parser_inv X s' \<and>
      onward X s s' \<and> sig s' = sig s \<and> holds (B r) s'" by (auto intro: onward_trans)
qed

lemma K_ret: "(\<And>s. known X k c A s \<Longrightarrow> holds (B x) s) \<Longrightarrow> K X k c A (ret x) B"
  by (auto simp: K_def known_def)

lemma K_if: "(b \<Longrightarrow> K X k c A m B) \<Longrightarrow> (\<not> b \<Longrightarrow> K X k c A n B) \<Longrightarrow> K X k c A (if b then m else n) B"
  by simp

section \<open>Nodes that may be added\<close>

definition may_add :: "parse_input \<Rightarrow> table \<Rightarrow> node \<Rightarrow> SolParser \<Rightarrow> bool" where
  "may_add X T n s \<longleftrightarrow>
     node_safe (in_source X) (ps_tree s) n \<and>
     (failed s \<or> \<not> nd_error n \<and> refs_in (ps_tree s) (nd_refs n) \<and>
        list_all (\<lambda>j. j < entries (ps_tree s) T) (nd_children n) \<and> nd_link n = SOL_AST_NONE)"

lemma refs_in_simps [simp]:
  "refs_in t []" "refs_in t ((T, i) # rs) \<longleftrightarrow> i < entries t T \<and> refs_in t rs"
  "refs_in t (rs @ qs) \<longleftrightarrow> refs_in t rs \<and> refs_in t qs"
  "refs_in t (maybe T i) \<longleftrightarrow> (i \<noteq> SOL_AST_NONE \<longrightarrow> i < entries t T)"
  by (auto simp: refs_in_def maybe_def)

lemma node_plain [simp]:
  "node_safe src t (plain_node rs l)"
  "node_ok t T i (plain_node rs l) \<longleftrightarrow>
     refs_in t rs \<and> (l = SOL_AST_NONE \<or> i < l \<and> l < entries t T)"
  by (simp_all add: node_safe_def node_ok_def plain_node_def)

lemma may_add_plain [simp]:
  "may_add X T (plain_node rs l) s \<longleftrightarrow> failed s \<or> refs_in (ps_tree s) rs \<and> l = SOL_AST_NONE"
  by (auto simp: may_add_def plain_node_def node_safe_def)

lemma may_add_expr [simp]:
  "may_add X T (expr_node x) s \<longleftrightarrow>
     failed s \<or> ex_kind x \<noteq> SOL_EXPR_ERROR \<and> refs_in (ps_tree s) (expr_refs (ex_kind x)) \<and>
     list_all (\<lambda>j. j < entries (ps_tree s) T) (expr_children (ex_kind x))"
  by (auto simp: may_add_def expr_node_def plain_node_def node_safe_def)

lemma may_add_param [simp]:
  "may_add X T (param_node x) s \<longleftrightarrow>
     pa_type_id x < entries (ps_tree s) T_TYPE \<and> span_in (in_source X) (pa_name x) \<and>
     (failed s \<or> pa_next x = SOL_AST_NONE)"
  by (auto simp: may_add_def param_node_def plain_node_def node_safe_def)

lemmas node_views [simp] = stmt_node_def invariant_node_def arg_node_def type_node_def
  type_arg_node_def type_param_node_def effect_param_node_def field_node_def variant_node_def
  pattern_node_def binding_node_def arm_node_def effect_node_def member_node_def
  method_node_def clause_node_def condition_view_def item_node_def import_node_def

lemma plain_node_link [simp]: "(plain_node rs l)\<lparr>nd_link := i\<rparr> = plain_node rs i"
  by (simp add: plain_node_def)

section \<open>Growth\<close>

lemma parser_grow_run:
  assumes "0 < initial" "run_state (parser_grow initial capacity item) s = (r, s')"
  obtains e where "r = None" "s' = s\<lparr>ps_env := e, ps_allocation_failed := True\<rparr>"
  | e c where "r = Some c" "capacity < c" "c \<le> SIZE_MAX" "s' = s\<lparr>ps_env := e\<rparr>"
proof -
  let ?c = "if capacity = 0 then initial else capacity * 2"
  have lt: "capacity < ?c" using assms(1) by simp
  have env: "s\<lparr>ps_allocation_failed := True\<rparr> =
    s\<lparr>ps_env := ps_env s, ps_allocation_failed := True\<rparr>" by simp
  consider "capacity > SIZE_MAX div 2 \<or> ?c > SIZE_MAX div item"
    | "capacity \<le> SIZE_MAX div 2" "?c \<le> SIZE_MAX div item" by linarith
  then show thesis
  proof cases
    case 1
    with assms(2) have "r = None" "s' = s\<lparr>ps_allocation_failed := True\<rparr>"
      by (auto simp: parser_grow_def Let_def split: if_splits)
    with that(1) env show ?thesis by metis
  next
    case 2
    obtain b e where charge: "run_state (sol_resource_charge_arena (?c - capacity)) (ps_env s) = (b, e)"
      by (metis prod.collapse)
    obtain g e' where realloc: "run_state (sol_resource_realloc (?c * item)) e = (g, e')"
      by (metis prod.collapse)
    have run: "run_state (parser_grow initial capacity item) s =
      (if \<not> b then (None, s\<lparr>ps_env := e, ps_allocation_failed := True\<rparr>)
       else if g then (Some ?c, s\<lparr>ps_env := e'\<rparr>)
       else (None, s\<lparr>ps_env := e', ps_allocation_failed := True\<rparr>))"
      using 2 charge realloc by (simp add: parser_grow_def Let_def lift_env_def)
    have le: "?c \<le> SIZE_MAX" using 2(2) div_le_dividend [of SIZE_MAX item] by (rule order.trans)
    show ?thesis
    proof (cases "b \<and> g")
      case True
      with assms(2) run show ?thesis by (intro that(2) [OF _ lt le, of e']) simp_all
    next
      case False
      with assms(2) run show ?thesis by (cases b) (auto intro: that(1))
    qed
  qed
qed

section \<open>The operations on an array\<close>

text \<open>The outcome of appending to a list.\<close>

abbreviation Added :: "table \<Rightarrow> (size_t \<times> size_t) option \<Rightarrow> fact" where
  "Added T r \<equiv> (case r of None \<Rightarrow> Bad
     | Some l \<Rightarrow> Both (Lst T l) (Pure (fst l \<noteq> SOL_AST_NONE)))"

context syntax_table
begin

lemma safe_get:
  assumes "\<forall>T. table_safe src t T"
  shows "tb_count (get t) \<le> length (tb_memory (get t))"
    "length (tb_memory (get t)) \<le> tb_capacity (get t)" "tb_capacity (get t) \<le> SIZE_MAX"
    "i < length (tb_memory (get t)) \<Longrightarrow> node_safe src t (view (tb_memory (get t) ! i))"
  using spec [OF assms, of T] by (simp_all add: table_safe_def view_get list_all_length)

lemma ok_get:
  assumes "\<forall>T. table_ok t T" "i < length (tb_memory (get t))"
  shows "node_ok t T i (view (tb_memory (get t) ! i))"
  using spec [OF assms(1), of T] assms(2) by (simp add: table_ok_iff view_get)

lemma add_K:
  assumes initial: "0 < initial" and frozen: "in_frozen X \<Longrightarrow> T \<noteq> T_CLAUSE"
    and may: "\<And>s. known X k c A s \<Longrightarrow> may_add X T (view x) s"
    and j: "\<And>s. p \<Longrightarrow> known X k c A s \<Longrightarrow> failed s \<or> j < entries (ps_tree s) T"
  shows "K X k c A (table_add get upd (\<lambda>c. parser_grow initial c item) x)
    (\<lambda>r. Both (Res T r) (Given p (Either (Pure (j < r)) Bad)))"
proof (rule K_I)
  fix s
  assume s: "known X k c A s"
  let ?t = "ps_tree s" and ?tb = "get (ps_tree s)"
  let ?post = "\<lambda>r s'. run_state (table_add get upd (\<lambda>c. parser_grow initial c item) x) s = (r, s') \<and>
    parser_inv X s' \<and> onward X s s' \<and> sig s' = sig s \<and>
    holds (Both (Res T r) (Given p (Either (Pure (j < r)) Bad))) s'"
  from s have inv: "parser_inv X s" by (simp add: known_def)
  then have safe: "\<forall>T. table_safe (in_source X) ?t T"
    and ok: "failed s \<or> (\<forall>T. table_ok ?t T)" by (auto simp: parser_inv_def)
  from safe have counts: "tb_count ?tb \<le> length (tb_memory ?tb)" "length (tb_memory ?tb) \<le> tb_capacity ?tb"
    "tb_capacity ?tb \<le> SIZE_MAX" by (rule safe_get)+
  have push: "\<exists>r s'. ?post r s'" if c: "tb_count ?tb < c" "tb_capacity ?tb \<le> c" "c \<le> SIZE_MAX"
    and run: "run_state (if tb_count ?tb = tb_capacity ?tb then parser_grow initial (tb_capacity ?tb) item
      else ret (Some (tb_capacity ?tb))) s = (Some c, s\<lparr>ps_env := e\<rparr>)" for c e
  proof -
    let ?u = "upd (table_push c x) ?t" and ?s = "s\<lparr>ps_env := e, ps_tree := upd (table_push c x) (ps_tree s)\<rparr>"
    have node: "node_safe (in_source X) ?u (view x)"
      using may [OF s] by (auto simp: may_add_def intro: node_safe_grows [OF push_grows])
    have "table_ok ?u T'" if nf: "\<not> failed s" for T'
    proof (rule push_ok)
      show "\<forall>T. table_ok ?t T" using ok nf by simp
      show "node_ok ?u T (entries ?t T) (view x)"
        using may [OF s] nf by (auto simp: may_add_def node_ok_def intro: refs_in_grows [OF push_grows])
    qed
    then have inv': "parser_inv X ?s"
      using inv push_safe [OF safe c node] by (auto simp: parser_inv_def failed_def)
    have clause: "in_frozen X \<Longrightarrow> nodes ?u T_CLAUSE = nodes ?t T_CLAUSE"
      using frozen by (auto intro: other_views(1))
    have on: "onward X s ?s" using clause push_grows by (auto simp: onward_def failed_def)
    have has: "tb_count ?tb < entries ?u T"
      using counts by (auto simp: view_get table_push_def)
    have after: "p \<longrightarrow> j < tb_count ?tb \<or> failed ?s"
      using j [OF _ s] ok by (auto simp: table_ok_iff live_get [symmetric] failed_def)
    have "?post (tb_count ?tb) ?s"
      using run c inv' on has after by (simp add: table_add_def sig_def)
    then show ?thesis by blast
  qed
  show "\<exists>r s'. ?post r s'"
  proof (cases "tb_count ?tb = tb_capacity ?tb")
    case False
    with counts have "tb_count ?tb < tb_capacity ?tb" by simp
    with False show ?thesis using counts by (intro push [of "tb_capacity ?tb" "ps_env s"]) simp_all
  next
    case True
    obtain g s1 where grow: "run_state (parser_grow initial (tb_capacity ?tb) item) s = (g, s1)"
      by (metis prod.collapse)
    from initial grow show ?thesis
    proof (cases rule: parser_grow_run)
      case (1 e)
      then have "?post SOL_AST_NONE s1"
        using True grow inv by (auto simp: table_add_def parser_inv_def onward_def failed_def sig_def)
      then show ?thesis by blast
    next
      case (2 e c)
      with True grow show ?thesis by (intro push [of c e]) simp_all
    qed
  qed
qed

lemma add_entry:
  assumes "0 < initial" "in_frozen X \<Longrightarrow> T \<noteq> T_CLAUSE"
    and "\<And>s. known X k c A s \<Longrightarrow> may_add X T (view x) s"
  shows "K X k c A (table_add get upd (\<lambda>c. parser_grow initial c item) x) (Res T)"
  using add_K [OF assms, where p = False and j = 0 and item = item]
  by (auto simp: K_def split: prod.splits)

lemma add_content:
  assumes run: "run_state (table_add get upd (\<lambda>c. parser_grow initial c item) x) s = (i, s')"
    and "0 < initial" "tb_count (get (ps_tree s)) \<le> length (tb_memory (get (ps_tree s)))" "i \<noteq> SOL_AST_NONE"
  shows "tb_memory (get (ps_tree s')) ! i = x"
proof -
  let ?tb = "get (ps_tree s)"
  have push: "tb_memory (table_push c x ?tb) ! tb_count ?tb = x" for c
    using assms(3) by (simp add: table_push_def nth_append)
  obtain g s1 where grow: "run_state (if tb_count ?tb = tb_capacity ?tb
      then parser_grow initial (tb_capacity ?tb) item else ret (Some (tb_capacity ?tb))) s = (g, s1)"
    by (metis prod.collapse)
  have tree: "ps_tree s1 = ps_tree s"
  proof (cases "tb_count ?tb = tb_capacity ?tb")
    case True
    with grow have "run_state (parser_grow initial (tb_capacity ?tb) item) s = (g, s1)" by simp
    with assms(2) show ?thesis by (rule parser_grow_run) simp_all
  qed (use grow in simp)
  show ?thesis
  proof (cases g)
    case None
    with run grow assms(4) show ?thesis by (simp add: table_add_def)
  next
    case (Some c)
    with run grow assms(4) have "i = tb_count ?tb" "s' = ps_tree_update (upd (table_push c x)) s1"
      by (simp_all add: table_add_def sol_trap_def split: if_split_asm)
    then show ?thesis using push tree by (simp add: get_upd)
  qed
qed

lemma write_K:
  assumes frozen: "in_frozen X \<Longrightarrow> T \<noteq> T_CLAUSE"
    and i: "\<And>s. known X k c A s \<Longrightarrow> i < entries (ps_tree s) T"
    and new: "\<And>s y. known X k c A s \<Longrightarrow> node_safe (in_source X) (ps_tree s) (view y) \<Longrightarrow>
      failed s \<or> node_ok (ps_tree s) T i (view y) \<Longrightarrow>
      node_safe (in_source X) (ps_tree s) (view (f y)) \<and>
      (failed s \<or> node_ok (ps_tree s) T i (view (f y)))"
  shows "K X k c A (table_write get upd i f) (\<lambda>_. Pure True)"
proof (rule K_I)
  fix s
  assume s: "known X k c A s"
  let ?t = "ps_tree s" and ?y = "tb_memory (get (ps_tree s)) ! i"
  let ?s = "ps_tree_update (put i f) s"
  from s have inv: "parser_inv X s" by (simp add: known_def)
  from i [OF s] have i: "i < length (tb_memory (get ?t))" by (simp add: view_get)
  from inv have safe: "\<forall>T. table_safe (in_source X) ?t T"
    and ok: "failed s \<or> (\<forall>T. table_ok ?t T)" by (auto simp: parser_inv_def)
  have "node_safe (in_source X) ?t (view ?y)"
    using safe i by (rule safe_get)
  moreover have "failed s \<or> node_ok ?t T i (view ?y)"
    using ok i ok_get by blast
  ultimately have new: "node_safe (in_source X) ?t (view (f ?y))"
    "failed s \<or> node_ok ?t T i (view (f ?y))" using new [OF s] by blast+
  have "table_ok (put i f ?t) T'" if "\<not> failed s" for T'
    using that new(2) ok i by (intro put_ok) (auto simp: view_get)
  then have "parser_inv X ?s"
    using inv put_safe [where f = f and i = i, OF safe new(1)]
    by (auto simp: parser_inv_def failed_def)
  moreover have "onward X s ?s"
    using put_grows frozen by (auto simp: onward_def failed_def intro: other_views(1))
  ultimately show "\<exists>r s'. run_state (table_write get upd i f) s = (r, s') \<and> parser_inv X s' \<and>
      onward X s s' \<and> sig s' = sig s \<and> holds (Pure True) s'"
    using i by (simp add: table_write_def sig_def)
qed

lemma read_K:
  assumes i: "\<And>s. known X k c A s \<Longrightarrow> i < entries (ps_tree s) T"
  shows "K X k c A (table_read get d i) (\<lambda>y. Sound (view y))"
proof (rule K_I)
  fix s
  assume s: "known X k c A s"
  let ?t = "ps_tree s"
  from i [OF s] have i: "i < length (tb_memory (get ?t))" by (simp add: view_get)
  from s have safe: "\<forall>T. table_safe (in_source X) ?t T" and src: "ps_source s = in_source X"
    and ok: "failed s \<or> (\<forall>T. table_ok ?t T)" by (auto simp: known_def parser_inv_def)
  have "node_safe (in_source X) ?t (view (tb_memory (get ?t) ! i))"
    using safe i by (rule safe_get)
  moreover have "failed s \<or> node_ok ?t T i (view (tb_memory (get ?t) ! i))"
    using ok i ok_get by blast
  ultimately show "\<exists>r s'. run_state (table_read get d i) s = (r, s') \<and> parser_inv X s' \<and>
      onward X s s' \<and> sig s' = sig s \<and> holds (Sound (view r)) s'"
    using i s src by (auto simp: table_read_def known_def node_ok_def)
qed

lemma link_K:
  assumes frozen: "in_frozen X \<Longrightarrow> T \<noteq> T_CLAUSE"
    and link: "\<And>y. view (f y) = (view y)\<lparr>nd_link := j\<rparr>"
    and i: "\<And>s. known X k c A s \<Longrightarrow> i < entries (ps_tree s) T"
    and j: "\<And>s. known X k c A s \<Longrightarrow> failed s \<or> i < j \<and> j < entries (ps_tree s) T"
  shows "K X k c A (table_write get upd i f) (\<lambda>_. Pure True)"
  using frozen i j by (intro write_K) (auto simp: link node_safe_def node_ok_def)

lemma append_K:
  assumes frozen: "in_frozen X \<Longrightarrow> T \<noteq> T_CLAUSE"
    and link: "\<And>y j. view (nx j y) = (view y)\<lparr>nd_link := j\<rparr>"
    and i: "i \<noteq> SOL_AST_NONE" "\<And>s. known X k c A s \<Longrightarrow> i < entries (ps_tree s) T"
    and l: "\<And>s. known X k c A s \<Longrightarrow> holds (Lst T l) s"
    and lt: "\<And>s. known X k c A s \<Longrightarrow> fst l = SOL_AST_NONE \<or> failed s \<or> snd l < i"
  shows "K X k c A (append_node (\<lambda>i j. table_write get upd i (nx j)) (fst l) (snd l) i)
    (\<lambda>l. Both (Lst T l) (Pure (fst l \<noteq> SOL_AST_NONE)))"
proof (cases "fst l = SOL_AST_NONE")
  case True
  with i show ?thesis by (auto simp: append_node_def intro: K_ret)
next
  case False
  have link: "K X k c A (table_write get upd (snd l) (nx i)) (\<lambda>_. Pure True)"
    using l lt i(2) False by (intro link_K [OF frozen link]) auto
  have "K X k c A (do { table_write get upd (snd l) (nx i); ret (fst l, i) })
      (\<lambda>l. Both (Lst T l) (Pure (fst l \<noteq> SOL_AST_NONE)))"
    by (rule K_seq [OF link], rule K_ret) (use False i l in \<open>auto simp: known_def\<close>)
  with False show ?thesis by (simp add: append_node_def)
qed

lemma add_to_list_K:
  assumes initial: "0 < initial" and frozen: "in_frozen X \<Longrightarrow> T \<noteq> T_CLAUSE"
    and link: "\<And>y j. view (nx j y) = (view y)\<lparr>nd_link := j\<rparr>"
    and may: "\<And>s. known X k c A s \<Longrightarrow> may_add X T (view x) s"
    and l: "\<And>s. known X k c A s \<Longrightarrow> holds (Lst T l) s"
  shows "K X k c A (add_to_list (table_add get upd (\<lambda>c. parser_grow initial c item))
      (\<lambda>i j. table_write get upd i (nx j)) l x)
    (Added T)"
proof -
  define p where "p \<longleftrightarrow> fst l \<noteq> SOL_AST_NONE"
  let ?b = "\<lambda>r. Both (Res T r) (Given p (Either (Pure (snd l < r)) Bad))"
  have j: "failed s \<or> snd l < entries (ps_tree s) T" if "p" "known X k c A s" for s
    using l [OF that(2)] that(1) by (auto simp: p_def)
  have append: "K X k c (Both A (?b i))
      (append_node (\<lambda>i j. table_write get upd i (nx j)) (fst l) (snd l) i)
      (\<lambda>l. Both (Lst T l) (Pure (fst l \<noteq> SOL_AST_NONE)))" if "i \<noteq> SOL_AST_NONE" for i
  proof (rule append_K [OF frozen link that])
    fix s
    assume "known X k c (Both A (?b i)) s"
    then have s: "known X k c A s" "holds (?b i) s" by (auto simp: known_def)
    then show "i < entries (ps_tree s) T" "holds (Lst T l) s" using that l by auto
    show "fst l = SOL_AST_NONE \<or> failed s \<or> snd l < i"
      using s by (auto simp: p_def)
  qed
  have rest: "K X k c (Both A (?b i)) (if i = SOL_AST_NONE then ret None
      else State_Monad.bind (append_node (\<lambda>i j. table_write get upd i (nx j)) (fst l) (snd l) i)
        (\<lambda>l. ret (Some l)))
    (Added T)" for i
    by (intro K_if K_seq [OF append] K_ret) (auto simp: known_def)
  show ?thesis
    unfolding add_to_list_def by (rule K_seq [OF add_K [OF initial frozen may j] rest])
qed

lemma add_link:
  assumes may: "\<And>s. known X k c A s \<Longrightarrow> may_add X T (view x) s"
    and prev: "\<And>s. known X k c A s \<Longrightarrow> holds (Has T j) s"
    and none: "H X k c (Both A Bad) m B"
    and some: "\<And>i. H X k c (Both A (Has T i)) (f i) B"
    and initial: "0 < initial" and frozen: "in_frozen X \<Longrightarrow> T \<noteq> T_CLAUSE"
    and link: "\<And>y i. view (nx i y) = (view y)\<lparr>nd_link := i\<rparr>"
  shows "H X k c A (State_Monad.bind (table_add get upd (\<lambda>c. parser_grow initial c item) x) (\<lambda>i.
    if i = SOL_AST_NONE then m
    else State_Monad.bind (table_write get upd j (nx i)) (\<lambda>_. f i))) B"
proof (rule K_bind [OF add_K [OF initial frozen may, where p = True and j = j]])
  show "failed s \<or> j < entries (ps_tree s) T" if "known X k c A s" for s
    using prev [OF that] by simp
next
  fix i
  let ?A = "Both A (Both (Res T i) (Given True (Either (Pure (j < i)) Bad)))"
  show "H X k c ?A (if i = SOL_AST_NONE then m
      else State_Monad.bind (table_write get upd j (nx i)) (\<lambda>_. f i)) B"
  proof (rule H_if)
    assume "i = SOL_AST_NONE"
    then show "H X k c ?A m B" by (intro H_weaken [OF none]) (auto simp: known_def)
  next
    assume "i \<noteq> SOL_AST_NONE"
    then show "H X k c ?A (State_Monad.bind (table_write get upd j (nx i)) (\<lambda>_. f i)) B"
      using prev by (intro K_bind [OF link_K [OF frozen link]] H_weaken [OF some]) (auto simp: known_def)
  qed
qed simp

end

end
