(* ===== verification/Sol_ParserArrays.thy ===== *)
theory Sol_ParserArrays
  imports Sol_ParserTables
begin

text \<open>
  Every array of the syntax tree meets the interface \<open>syntax_table\<close>; the rules for the
  operations of \<open>Sol_ParserState\<close> on the arrays follow.
\<close>

section \<open>The arrays\<close>

interpretation tab_imports: syntax_table tr_imports tr_imports_update T_IMPORT import_node
  by unfold_locales (simp_all add: shape_other_tables)

interpretation tab_items: syntax_table tr_items tr_items_update T_ITEM item_node
  by unfold_locales (simp_all add: shape_other_tables)

interpretation tab_expressions: syntax_table tr_expressions tr_expressions_update T_EXPR expr_node
  by unfold_locales (simp_all add: shape_other_tables)

interpretation tab_statements: syntax_table tr_statements tr_statements_update T_STMT stmt_node
  by unfold_locales (simp_all add: shape_other_tables)

interpretation tab_loop_invariants: syntax_table tr_loop_invariants tr_loop_invariants_update T_INVARIANT invariant_node
  by unfold_locales (simp_all add: shape_other_tables)

interpretation tab_arguments: syntax_table tr_arguments tr_arguments_update T_ARG arg_node
  by unfold_locales (simp_all add: shape_other_tables)

interpretation tab_parameters: syntax_table tr_parameters tr_parameters_update T_PARAM param_node
  by unfold_locales (simp_all add: shape_other_tables)

interpretation tab_types: syntax_table tr_types tr_types_update T_TYPE type_node
  by unfold_locales (simp_all add: shape_other_tables)

interpretation tab_type_arguments: syntax_table tr_type_arguments tr_type_arguments_update T_TYPE_ARG type_arg_node
  by unfold_locales (simp_all add: shape_other_tables)

interpretation tab_type_parameters: syntax_table tr_type_parameters tr_type_parameters_update T_TYPE_PARAM type_param_node
  by unfold_locales (simp_all add: shape_other_tables)

interpretation tab_effect_parameters: syntax_table tr_effect_parameters tr_effect_parameters_update T_EFFECT_PARAM effect_param_node
  by unfold_locales (simp_all add: shape_other_tables)

interpretation tab_fields: syntax_table tr_fields tr_fields_update T_FIELD field_node
  by unfold_locales (simp_all add: shape_other_tables)

interpretation tab_variants: syntax_table tr_variants tr_variants_update T_VARIANT variant_node
  by unfold_locales (simp_all add: shape_other_tables)

interpretation tab_patterns: syntax_table tr_patterns tr_patterns_update T_PATTERN pattern_node
  by unfold_locales (simp_all add: shape_other_tables)

interpretation tab_pattern_bindings: syntax_table tr_pattern_bindings tr_pattern_bindings_update T_BINDING binding_node
  by unfold_locales (simp_all add: shape_other_tables)

interpretation tab_match_arms: syntax_table tr_match_arms tr_match_arms_update T_ARM arm_node
  by unfold_locales (simp_all add: shape_other_tables)

interpretation tab_effects: syntax_table tr_effects tr_effects_update T_EFFECT effect_node
  by unfold_locales (simp_all add: shape_other_tables)

interpretation tab_capability_members: syntax_table tr_capability_members tr_capability_members_update T_MEMBER member_node
  by unfold_locales (simp_all add: shape_other_tables)

interpretation tab_trait_methods: syntax_table tr_trait_methods tr_trait_methods_update T_METHOD method_node
  by unfold_locales (simp_all add: shape_other_tables)

interpretation tab_contract_clauses: syntax_table tr_contract_clauses tr_contract_clauses_update T_CLAUSE clause_node
  by unfold_locales (simp_all add: shape_other_tables)

interpretation tab_contract_conditions: syntax_table tr_contract_conditions tr_contract_conditions_update T_CONDITION condition_view
  by unfold_locales (simp_all add: shape_other_tables)

section \<open>Adding an entry\<close>

lemmas add_defs = sol_parser_grow_def sol_parser_add_item_def sol_parser_add_import_def
  sol_parser_add_expression_def sol_parser_add_statement_def sol_parser_add_loop_invariant_def
  sol_parser_add_argument_def sol_parser_add_parameter_def sol_parser_add_type_def
  sol_parser_add_type_argument_def sol_parser_add_type_parameter_def
  sol_parser_add_effect_parameter_def sol_parser_add_field_def sol_parser_add_variant_def
  sol_parser_add_pattern_def sol_parser_add_pattern_binding_def sol_parser_add_match_arm_def
  sol_parser_add_effect_def sol_parser_add_capability_member_def sol_parser_add_trait_method_def
  sol_parser_add_contract_clause_def sol_parser_add_contract_condition_def

lemma K_add:
  "(\<And>s. known X k c A s \<Longrightarrow> may_add X T_EXPR (expr_node x_expression) s) \<Longrightarrow>
   K X k c A (sol_parser_add_expression x_expression) (Res T_EXPR)"
  "(\<And>s. known X k c A s \<Longrightarrow> may_add X T_STMT (stmt_node x_statement) s) \<Longrightarrow>
   K X k c A (sol_parser_add_statement x_statement) (Res T_STMT)"
  "(\<And>s. known X k c A s \<Longrightarrow> may_add X T_INVARIANT (invariant_node x_loop_invariant) s) \<Longrightarrow>
   K X k c A (sol_parser_add_loop_invariant x_loop_invariant) (Res T_INVARIANT)"
  "(\<And>s. known X k c A s \<Longrightarrow> may_add X T_ARG (arg_node x_argument) s) \<Longrightarrow>
   K X k c A (sol_parser_add_argument x_argument) (Res T_ARG)"
  "(\<And>s. known X k c A s \<Longrightarrow> may_add X T_PARAM (param_node x_parameter) s) \<Longrightarrow>
   K X k c A (sol_parser_add_parameter x_parameter) (Res T_PARAM)"
  "(\<And>s. known X k c A s \<Longrightarrow> may_add X T_TYPE (type_node x_type) s) \<Longrightarrow>
   K X k c A (sol_parser_add_type x_type) (Res T_TYPE)"
  "(\<And>s. known X k c A s \<Longrightarrow> may_add X T_TYPE_ARG (type_arg_node x_type_argument) s) \<Longrightarrow>
   K X k c A (sol_parser_add_type_argument x_type_argument) (Res T_TYPE_ARG)"
  "(\<And>s. known X k c A s \<Longrightarrow> may_add X T_TYPE_PARAM (type_param_node x_type_parameter) s) \<Longrightarrow>
   K X k c A (sol_parser_add_type_parameter x_type_parameter) (Res T_TYPE_PARAM)"
  "(\<And>s. known X k c A s \<Longrightarrow> may_add X T_EFFECT_PARAM (effect_param_node x_effect_parameter) s) \<Longrightarrow>
   K X k c A (sol_parser_add_effect_parameter x_effect_parameter) (Res T_EFFECT_PARAM)"
  "(\<And>s. known X k c A s \<Longrightarrow> may_add X T_FIELD (field_node x_field) s) \<Longrightarrow>
   K X k c A (sol_parser_add_field x_field) (Res T_FIELD)"
  "(\<And>s. known X k c A s \<Longrightarrow> may_add X T_VARIANT (variant_node x_variant) s) \<Longrightarrow>
   K X k c A (sol_parser_add_variant x_variant) (Res T_VARIANT)"
  "(\<And>s. known X k c A s \<Longrightarrow> may_add X T_PATTERN (pattern_node x_pattern) s) \<Longrightarrow>
   K X k c A (sol_parser_add_pattern x_pattern) (Res T_PATTERN)"
  "(\<And>s. known X k c A s \<Longrightarrow> may_add X T_BINDING (binding_node x_pattern_binding) s) \<Longrightarrow>
   K X k c A (sol_parser_add_pattern_binding x_pattern_binding) (Res T_BINDING)"
  "(\<And>s. known X k c A s \<Longrightarrow> may_add X T_ARM (arm_node x_match_arm) s) \<Longrightarrow>
   K X k c A (sol_parser_add_match_arm x_match_arm) (Res T_ARM)"
  "(\<And>s. known X k c A s \<Longrightarrow> may_add X T_EFFECT (effect_node x_effect) s) \<Longrightarrow>
   K X k c A (sol_parser_add_effect x_effect) (Res T_EFFECT)"
  "(\<And>s. known X k c A s \<Longrightarrow> may_add X T_MEMBER (member_node x_capability_member) s) \<Longrightarrow>
   K X k c A (sol_parser_add_capability_member x_capability_member) (Res T_MEMBER)"
  "(\<And>s. known X k c A s \<Longrightarrow> may_add X T_METHOD (method_node x_trait_method) s) \<Longrightarrow>
   K X k c A (sol_parser_add_trait_method x_trait_method) (Res T_METHOD)"
  "\<not> in_frozen X \<Longrightarrow> (\<And>s. known X k c A s \<Longrightarrow> may_add X T_CLAUSE (clause_node x_contract_clause) s) \<Longrightarrow>
   K X k c A (sol_parser_add_contract_clause x_contract_clause) (Res T_CLAUSE)"
  "(\<And>s. known X k c A s \<Longrightarrow> may_add X T_CONDITION (condition_view x_contract_condition) s) \<Longrightarrow>
   K X k c A (sol_parser_add_contract_condition x_contract_condition) (Res T_CONDITION)"
  unfolding add_defs
  by ((rule tab_expressions.add_entry
    tab_statements.add_entry
    tab_loop_invariants.add_entry
    tab_arguments.add_entry
    tab_parameters.add_entry
    tab_types.add_entry
    tab_type_arguments.add_entry
    tab_type_parameters.add_entry
    tab_effect_parameters.add_entry
    tab_fields.add_entry
    tab_variants.add_entry
    tab_patterns.add_entry
    tab_pattern_bindings.add_entry
    tab_match_arms.add_entry
    tab_effects.add_entry
    tab_capability_members.add_entry
    tab_trait_methods.add_entry
    tab_contract_clauses.add_entry
    tab_contract_conditions.add_entry; simp)+)

lemmas H_add [hoare] = K_add [THEN K_bind] K_add [THEN K_tail]

section \<open>Lists\<close>

lemmas link_defs = link_statement_def link_loop_invariant_def link_argument_def link_parameter_def
  link_type_argument_def link_type_parameter_def link_field_def link_variant_def
  link_pattern_binding_def link_match_arm_def link_effect_def link_capability_member_def
  link_trait_method_def link_contract_clause_def link_contract_condition_def

lemma param_node_link [simp]:
  "param_node (pa_next_update (\<lambda>_. i) y) = (param_node y)\<lparr>nd_link := i\<rparr>"
  by (simp add: param_node_def plain_node_def)

lemma K_add_to_list:
  "(\<And>s. known X k c A s \<Longrightarrow> may_add X T_STMT (stmt_node x_statement) s) \<Longrightarrow>
   (\<And>s. known X k c A s \<Longrightarrow> holds (Lst T_STMT l) s) \<Longrightarrow>
   K X k c A (add_to_list sol_parser_add_statement link_statement l x_statement) (Added T_STMT)"
  "(\<And>s. known X k c A s \<Longrightarrow> may_add X T_INVARIANT (invariant_node x_loop_invariant) s) \<Longrightarrow>
   (\<And>s. known X k c A s \<Longrightarrow> holds (Lst T_INVARIANT l) s) \<Longrightarrow>
   K X k c A (add_to_list sol_parser_add_loop_invariant link_loop_invariant l x_loop_invariant) (Added T_INVARIANT)"
  "(\<And>s. known X k c A s \<Longrightarrow> may_add X T_ARG (arg_node x_argument) s) \<Longrightarrow>
   (\<And>s. known X k c A s \<Longrightarrow> holds (Lst T_ARG l) s) \<Longrightarrow>
   K X k c A (add_to_list sol_parser_add_argument link_argument l x_argument) (Added T_ARG)"
  "(\<And>s. known X k c A s \<Longrightarrow> may_add X T_PARAM (param_node x_parameter) s) \<Longrightarrow>
   (\<And>s. known X k c A s \<Longrightarrow> holds (Lst T_PARAM l) s) \<Longrightarrow>
   K X k c A (add_to_list sol_parser_add_parameter link_parameter l x_parameter) (Added T_PARAM)"
  "(\<And>s. known X k c A s \<Longrightarrow> may_add X T_TYPE_ARG (type_arg_node x_type_argument) s) \<Longrightarrow>
   (\<And>s. known X k c A s \<Longrightarrow> holds (Lst T_TYPE_ARG l) s) \<Longrightarrow>
   K X k c A (add_to_list sol_parser_add_type_argument link_type_argument l x_type_argument) (Added T_TYPE_ARG)"
  "(\<And>s. known X k c A s \<Longrightarrow> may_add X T_TYPE_PARAM (type_param_node x_type_parameter) s) \<Longrightarrow>
   (\<And>s. known X k c A s \<Longrightarrow> holds (Lst T_TYPE_PARAM l) s) \<Longrightarrow>
   K X k c A (add_to_list sol_parser_add_type_parameter link_type_parameter l x_type_parameter) (Added T_TYPE_PARAM)"
  "(\<And>s. known X k c A s \<Longrightarrow> may_add X T_FIELD (field_node x_field) s) \<Longrightarrow>
   (\<And>s. known X k c A s \<Longrightarrow> holds (Lst T_FIELD l) s) \<Longrightarrow>
   K X k c A (add_to_list sol_parser_add_field link_field l x_field) (Added T_FIELD)"
  "(\<And>s. known X k c A s \<Longrightarrow> may_add X T_VARIANT (variant_node x_variant) s) \<Longrightarrow>
   (\<And>s. known X k c A s \<Longrightarrow> holds (Lst T_VARIANT l) s) \<Longrightarrow>
   K X k c A (add_to_list sol_parser_add_variant link_variant l x_variant) (Added T_VARIANT)"
  "(\<And>s. known X k c A s \<Longrightarrow> may_add X T_BINDING (binding_node x_pattern_binding) s) \<Longrightarrow>
   (\<And>s. known X k c A s \<Longrightarrow> holds (Lst T_BINDING l) s) \<Longrightarrow>
   K X k c A (add_to_list sol_parser_add_pattern_binding link_pattern_binding l x_pattern_binding) (Added T_BINDING)"
  "(\<And>s. known X k c A s \<Longrightarrow> may_add X T_ARM (arm_node x_match_arm) s) \<Longrightarrow>
   (\<And>s. known X k c A s \<Longrightarrow> holds (Lst T_ARM l) s) \<Longrightarrow>
   K X k c A (add_to_list sol_parser_add_match_arm link_match_arm l x_match_arm) (Added T_ARM)"
  "(\<And>s. known X k c A s \<Longrightarrow> may_add X T_EFFECT (effect_node x_effect) s) \<Longrightarrow>
   (\<And>s. known X k c A s \<Longrightarrow> holds (Lst T_EFFECT l) s) \<Longrightarrow>
   K X k c A (add_to_list sol_parser_add_effect link_effect l x_effect) (Added T_EFFECT)"
  "(\<And>s. known X k c A s \<Longrightarrow> may_add X T_MEMBER (member_node x_capability_member) s) \<Longrightarrow>
   (\<And>s. known X k c A s \<Longrightarrow> holds (Lst T_MEMBER l) s) \<Longrightarrow>
   K X k c A (add_to_list sol_parser_add_capability_member link_capability_member l x_capability_member) (Added T_MEMBER)"
  "(\<And>s. known X k c A s \<Longrightarrow> may_add X T_METHOD (method_node x_trait_method) s) \<Longrightarrow>
   (\<And>s. known X k c A s \<Longrightarrow> holds (Lst T_METHOD l) s) \<Longrightarrow>
   K X k c A (add_to_list sol_parser_add_trait_method link_trait_method l x_trait_method) (Added T_METHOD)"
  "\<not> in_frozen X \<Longrightarrow> (\<And>s. known X k c A s \<Longrightarrow> may_add X T_CLAUSE (clause_node x_contract_clause) s) \<Longrightarrow>
   (\<And>s. known X k c A s \<Longrightarrow> holds (Lst T_CLAUSE l) s) \<Longrightarrow>
   K X k c A (add_to_list sol_parser_add_contract_clause link_contract_clause l x_contract_clause) (Added T_CLAUSE)"
  "(\<And>s. known X k c A s \<Longrightarrow> may_add X T_CONDITION (condition_view x_contract_condition) s) \<Longrightarrow>
   (\<And>s. known X k c A s \<Longrightarrow> holds (Lst T_CONDITION l) s) \<Longrightarrow>
   K X k c A (add_to_list sol_parser_add_contract_condition link_contract_condition l x_contract_condition) (Added T_CONDITION)"
  unfolding add_defs link_defs [abs_def]
  by ((rule tab_statements.add_to_list_K
    tab_loop_invariants.add_to_list_K
    tab_arguments.add_to_list_K
    tab_parameters.add_to_list_K
    tab_type_arguments.add_to_list_K
    tab_type_parameters.add_to_list_K
    tab_fields.add_to_list_K
    tab_variants.add_to_list_K
    tab_pattern_bindings.add_to_list_K
    tab_match_arms.add_to_list_K
    tab_effects.add_to_list_K
    tab_capability_members.add_to_list_K
    tab_trait_methods.add_to_list_K
    tab_contract_clauses.add_to_list_K
    tab_contract_conditions.add_to_list_K; simp)+)

lemmas H_add_to_list [hoare] = K_add_to_list [THEN K_bind] K_add_to_list [THEN K_tail]

text \<open>An entry added behind a given one and linked to it.\<close>

lemma H_add_link:
  assumes may: "\<And>s. known X k c A s \<Longrightarrow> may_add X T_TYPE_ARG (type_arg_node x) s"
    and prev: "\<And>s. known X k c A s \<Longrightarrow> holds (Has T_TYPE_ARG j) s"
    and none: "H X k c (Both A Bad) m B"
    and some: "\<And>i. H X k c (Both A (Has T_TYPE_ARG i)) (f i) B"
  shows "H X k c A (State_Monad.bind (sol_parser_add_type_argument x) (\<lambda>i.
    if i = SOL_AST_NONE then m else State_Monad.bind (link_type_argument j i) (\<lambda>_. f i))) B"
  using may prev none some unfolding add_defs link_defs by (rule tab_type_arguments.add_link) simp_all

lemma H_add_link_argument:
  assumes may: "\<And>s. known X k c A s \<Longrightarrow> may_add X T_ARG (arg_node x) s"
    and prev: "\<And>s. known X k c A s \<Longrightarrow> holds (Has T_ARG j) s"
    and none: "H X k c (Both A Bad) m B"
    and some: "\<And>i. H X k c (Both A (Has T_ARG i)) (f i) B"
  shows "H X k c A (State_Monad.bind (sol_parser_add_argument x) (\<lambda>i.
    if i = SOL_AST_NONE then m else State_Monad.bind (link_argument j i) (\<lambda>_. f i))) B"
  using may prev none some unfolding add_defs link_defs by (rule tab_arguments.add_link) simp_all

section \<open>Single entries\<close>

lemma K_expression_at:
  "(\<And>s. known X k c A s \<Longrightarrow> i < entries (ps_tree s) T_EXPR) \<Longrightarrow>
   K X k c A (expression_at i) (\<lambda>x. Sound (expr_node x))"
  unfolding expression_at_def by (rule tab_expressions.read_K)

lemma K_type_at:
  "(\<And>s. known X k c A s \<Longrightarrow> i < entries (ps_tree s) T_TYPE) \<Longrightarrow>
   K X k c A (type_at i) (\<lambda>x. Sound (type_node x))"
  unfolding type_at_def by (rule tab_types.read_K)

lemma K_expression_edge:
  assumes "\<And>s. known X k c A s \<Longrightarrow> holds (Res T_EXPR i) s"
  shows "K X k c A (expression_end i e) (\<lambda>_. Pure True)" "K X k c A (expression_start i e) (\<lambda>_. Pure True)"
  unfolding expression_end_def expression_start_def
  using assms by (auto intro!: K_ret K_seq [OF K_expression_at])

lemmas H_entry [hoare] = K_expression_at [THEN K_bind] K_type_at [THEN K_bind]
  K_expression_edge [THEN K_bind]

lemma K_write_type:
  assumes "\<And>s. known X k c A s \<Longrightarrow> i < entries (ps_tree s) T_TYPE"
    and "\<And>s. known X k c A s \<Longrightarrow> may_add X T_TYPE (type_node x) s"
  shows "K X k c A (table_write tr_types tr_types_update i (\<lambda>_. x)) (\<lambda>_. Pure True)"
  using assms by (intro tab_types.write_K) auto

lemmas H_write_type [hoare] = K_write_type [THEN K_bind]

end
