(* ===== verification/Sol_TypeRules.thy ===== *)
theory Sol_TypeRules
  imports Sol_ParserArrays
begin

text \<open>
  The productions of \<open>Sol_ParserType\<close> in the logic.
\<close>

section \<open>Paths\<close>

lemma H_path_step:
  "H X k None A (path_step l) (Round k (\<lambda>_. Pure True) (\<lambda>(_, _, valid). Given (\<not> valid) Bad))"
  unfolding path_step_def by (intro hoare) (auto simp: known_def)

lemma H_path_components:
  "H X k None A (sol_parser_path_components d)
     (Orelse (\<lambda>(_, _, valid). Both (Ate k) (Given (\<not> valid) Bad)))"
  unfolding sol_parser_path_components_def
  by (intro hoare H_loop [OF _ H_path_step, THEN H_call]) (auto simp: known_def)

lemma H_path: "H X k None A (sol_parser_path d) (Orelse (\<lambda>_. Ate k))"
  unfolding sol_parser_path_def
  by (intro hoare H_path_components [THEN H_call]) (auto simp: known_def split: option.splits)

lemmas path_calls [hoare] = H_path [THEN H_call] H_path_components [THEN H_call]

section \<open>Effects\<close>

lemma H_effect_name:
  "H X k (Some i) A (effect_name_step t) (\<lambda>(_, r). Orelse (\<lambda>_. Ate k) r)"
  unfolding effect_name_step_def
  by (intro hoare; auto simp: known_def)

lemma H_effect_argument: "H X k None A (effect_argument_step e) (Orelse (\<lambda>_. Pure True))"
  unfolding effect_argument_step_def
  by (intro hoare; auto simp: known_def)

lemma H_effect_step:
  assumes "\<And>s. known X k None A s \<Longrightarrow> holds (Lst T_EFFECT l) s"
  shows "H X k None A (effect_step w q l) (Round k (Lst T_EFFECT) (Orelse (Opt T_EFFECT)))"
  unfolding effect_step_def
  apply (intro hoare H_effect_name [THEN H_bind] H_effect_argument [THEN H_call])
  using assms apply (auto simp: known_def)
  done

lemma H_effect_clause: "H X k None A (sol_parser_effect_clause w q) (Orelse (Opt T_EFFECT))"
  unfolding sol_parser_effect_clause_def
  by (intro hoare H_loop [OF _ H_effect_step, THEN H_tail_call]) (auto simp: known_def)

lemmas effect_clause_calls [hoare] = H_effect_clause [THEN H_call]

section \<open>The recursive productions\<close>

text \<open>
  The productions that a production calls may be used when fewer than \<open>n\<close> tokens are left;
  an expression may also start with a block at the token it starts with.
\<close>

abbreviation Typed :: "nat \<Rightarrow> (SolSpan \<times> SolTypeId) option \<Rightarrow> fact" where
  "Typed k \<equiv> Orelse (\<lambda>(_, i). Both (Ate k) (Has T_TYPE i))"

definition recursion_ok :: "parse_input \<Rightarrow> nat \<Rightarrow> bool \<Rightarrow> sol_parsers \<Rightarrow> bool" where
  "recursion_ok X n b P \<longleftrightarrow>
     (\<forall>k < n. (\<forall>p. H X k None (Pure True) (parse_expression P p) (Res T_EXPR)) \<and>
        H X k None (Pure True) (parse_type P) (Typed k) \<and>
        (\<forall>d e. H X k None (Pure True) (parse_pattern P d e) (Res T_PATTERN))) \<and>
     (\<forall>k. k < n \<or> b \<and> k = n \<longrightarrow> H X k None (Pure True) (parse_block P) (Res T_EXPR))"

lemma H_at_rem:
  assumes m: "\<And>k'. k' \<le> k \<Longrightarrow> Q k' \<Longrightarrow> H X k' None (Pure True) m (B k')"
    and Q: "\<And>s. known X k c A s \<Longrightarrow> Q (rem s)"
    and B: "\<And>r s k'. k' \<le> k \<Longrightarrow> holds (B k' r) s \<Longrightarrow> holds (B k r) s"
  shows "H X k c A m (B k)"
proof (rule HI)
  fix s r s'
  assume s: "known X k c A s" and run: "run_state m s = (r, s')"
  then have le: "rem s \<le> k" and "known X (rem s) None (Pure True) s" by (simp_all add: known_def)
  from HD [OF m [OF le Q [OF s]] this(2) run] B [OF le]
  show "parser_inv X s' \<and> onward X s s' \<and> holds (B k r) s'" by blast
qed

lemma H_parsers:
  assumes P: "recursion_ok X n b P" and below: "\<And>s. known X k c A s \<Longrightarrow> holds (Below n) s"
  shows "H X k c A (parse_expression P p) (Res T_EXPR)"
    and "H X k c A (parse_block P) (Res T_EXPR)"
    and "H X k c A (parse_type P) (Typed k)"
    and "H X k c A (parse_pattern P d e) (Res T_PATTERN)"
proof -
  have below: "\<And>s. known X k c A s \<Longrightarrow> rem s < n" using below by simp
  note at_rem = H_at_rem [where Q = "\<lambda>k. k < n", OF _ below]
  note const = at_rem [where B = "\<lambda>_. Res T_EXPR"] at_rem [where B = "\<lambda>_. Res T_PATTERN"]
  from P have small: "H X k' None (Pure True) (parse_expression P p) (Res T_EXPR)"
    "H X k' None (Pure True) (parse_block P) (Res T_EXPR)"
    "H X k' None (Pure True) (parse_pattern P d e) (Res T_PATTERN)" if "k' < n" for k' p d e
    using that by (simp_all add: recursion_ok_def)
  show "H X k c A (parse_expression P p) (Res T_EXPR)" by (rule const(1) [OF small(1)])
  show "H X k c A (parse_block P) (Res T_EXPR)" by (rule const(1) [OF small(2)])
  show "H X k c A (parse_pattern P d e) (Res T_PATTERN)" by (rule const(2) [OF small(3)])
  show "H X k c A (parse_type P) (Typed k)"
    by (rule at_rem [where B = Typed])
      (use P in \<open>auto simp: recursion_ok_def split: option.splits\<close>)
qed

lemma H_block_here:
  assumes "recursion_ok X n True P" "k \<le> n"
  shows "H X k c A (parse_block P) (Res T_EXPR)"
proof (rule H_at_rem [where Q = "\<lambda>k. k < n \<or> k = n" and B = "\<lambda>_. Res T_EXPR"])
  show "H X k' None (Pure True) (parse_block P) (Res T_EXPR)" if "k' < n \<or> k' = n" for k'
    using assms(1) that by (auto simp: recursion_ok_def)
  show "rem s < n \<or> rem s = n" if "known X k c A s" for s
    using that assms(2) by (auto simp: known_def)
qed

lemmas parser_calls = H_parsers [THEN H_call] H_parsers [THEN H_tail_call]

section \<open>Lists of types\<close>

lemma H_list_separator:
  "closing \<noteq> SOL_TOKEN_EOF \<Longrightarrow> H X k None A (list_separator closing message)
     (\<lambda>r. Both (Given (r \<noteq> Some False) (Ate k)) (Given (r = Some False) Bad))"
  unfolding list_separator_def by (intro hoare; auto simp: known_def)

lemmas separator_calls [hoare] = H_list_separator [THEN H_call]

lemma H_type_argument_step:
  assumes P: "recursion_ok X n b P"
    and A: "\<And>s. known X k None A s \<Longrightarrow> holds (Both (Below n) (Lst T_TYPE_ARG l)) s"
  shows "H X k None A (type_argument_step P l) (Round k (Lst T_TYPE_ARG) (Orelse (Opt T_TYPE_ARG)))"
  unfolding type_argument_step_def
  using A by (intro hoare parser_calls [OF P])
    (auto simp: known_def list_round_def split: option.splits)

lemma H_type_arguments:
  assumes P: "recursion_ok X n b P" and A: "\<And>s. known X k None A s \<Longrightarrow> holds (Below n) s"
  shows "H X k None A (sol_parser_type_arguments P) (Orelse (Opt T_TYPE_ARG))"
  unfolding sol_parser_type_arguments_def
  using A by (intro hoare H_loop [OF _ H_type_argument_step [OF P], THEN H_tail_call])
    (auto simp: known_def)

lemma H_parameter_access: "H X k None A parameter_access (\<lambda>_. Pure True)"
  unfolding parameter_access_def by (intro hoare) (auto simp: known_def)

lemma H_function_type_step:
  assumes P: "recursion_ok X n b P"
    and A: "\<And>s. known X k None A s \<Longrightarrow> holds (Both (Below n) (Lst T_TYPE_ARG l)) s"
  shows "H X k None A (function_type_step P l) (Round k (Lst T_TYPE_ARG) (Orelse (Opt T_TYPE_ARG)))"
  unfolding function_type_step_def
  using A by (intro hoare parser_calls [OF P] H_parameter_access [THEN H_call])
    (auto simp: known_def list_round_def split: option.splits)

lemma H_function_type_parameters:
  assumes P: "recursion_ok X n b P" and A: "\<And>s. known X k None A s \<Longrightarrow> holds (Below n) s"
  shows "H X k None A (function_type_parameters P) (Orelse (Opt T_TYPE_ARG))"
  unfolding function_type_parameters_def
  using A by (intro hoare H_loop [OF _ H_function_type_step [OF P], THEN H_tail_call])
    (auto simp: known_def)

lemma H_function_type_effects:
  "H X k None A (function_type_effects q) (Orelse (\<lambda>(e, _). Opt T_EFFECT e))"
  unfolding function_type_effects_def
  by (intro hoare) (auto simp: known_def split: option.splits)

lemma H_function_type_result:
  assumes P: "recursion_ok X n b P" and A: "\<And>s. known X k None A s \<Longrightarrow> holds (Below n) s"
  shows "H X k None A (function_type_result P q)
    (Orelse (\<lambda>(t, e, _). Both (Has T_TYPE t) (Opt T_EFFECT e)))"
  unfolding function_type_result_def
  using A by (intro hoare parser_calls [OF P] H_function_type_effects [THEN H_call])
    (auto simp: known_def split: option.splits)

text \<open>A type that may be stored: its references exist.\<close>

abbreviation Storable :: "SolTypeId \<times> SolSyntaxType \<Rightarrow> fact" where
  "Storable p \<equiv> Both (Opt T_TYPE (fst p)) (Both (Opt T_TYPE_ARG (ty_first_argument (snd p)))
     (Both (Opt T_TYPE (ty_return_type (snd p))) (Opt T_EFFECT (ty_first_effect (snd p)))))"

lemma H_function_type:
  assumes P: "recursion_ok X n b P" and k: "k \<le> n" and i: "tk_kind (tok X i) \<noteq> SOL_TOKEN_EOF"
  shows "H X k (Some i) A (function_type P) (Orelse (\<lambda>r. Both (Ate k) (Storable r)))"
  unfolding function_type_def
  using k i by (intro hoare H_function_type_parameters [OF P, THEN H_call]
      H_function_type_result [OF P, THEN H_call])
    (auto simp: known_def empty_type_def split: option.splits)

lemma H_reject_named_element: "H X k None A reject_named_element (\<lambda>_. Pure True)"
  unfolding reject_named_element_def by (intro hoare) (auto simp: known_def)

lemma H_tuple_type_step:
  assumes P: "recursion_ok X n b P"
    and A: "\<And>s. known X k None A s \<Longrightarrow> holds (Both (Below n) (Has T_TYPE_ARG (fst l))) s"
  shows "H X k None A (tuple_type_step P l)
    (Round k (\<lambda>l. Has T_TYPE_ARG (fst l)) (\<lambda>r. Given (\<not> r) Bad))"
  unfolding tuple_type_step_def
  supply H_add [hoare del]
  using A by (intro hoare H_add_link parser_calls [OF P] H_reject_named_element [THEN H_call])
    (auto simp: known_def split: option.splits)

lemma H_tuple_type:
  assumes P: "recursion_ok X n b P"
    and A: "\<And>s. known X k None A s \<Longrightarrow> holds (Both (Below n) (Has T_TYPE i)) s"
  shows "H X k None A (tuple_type P i) (Orelse (Has T_TYPE_ARG))"
  unfolding tuple_type_def
  using A by (intro hoare H_loop [OF _ H_tuple_type_step [OF P], THEN H_call]) (auto simp: known_def)

lemma H_parenthesized_type:
  assumes P: "recursion_ok X n b P"
    and A: "\<And>s. known X k None A s \<Longrightarrow> holds (Both (Below n) (Ate k)) s"
  shows "H X k None A (parenthesized_type P t) (\<lambda>r. case r of Inl (_, i) \<Rightarrow> Has T_TYPE i
    | Inr r \<Rightarrow> Orelse (\<lambda>t. Storable (SOL_AST_NONE, t)) r)"
  unfolding parenthesized_type_def
  using A by (intro hoare parser_calls [OF P] H_reject_named_element [THEN H_call]
      H_tuple_type [OF P, THEN H_call]) (auto simp: known_def empty_type_def split: option.splits)

lemma H_path_type:
  assumes P: "recursion_ok X n b P" and k: "k \<le> n"
  shows "H X k None A (path_type P) (Orelse (\<lambda>t. Both (Ate k) (Storable (SOL_AST_NONE, t))))"
  unfolding path_type_def
  using k by (intro hoare H_type_arguments [OF P, THEN H_call])
    (auto simp: known_def empty_type_def split: option.splits)

lemma last_significant_less: "0 < i \<Longrightarrow> last_significant ts i < i"
proof (induction i)
  case (Suc i)
  then show ?case by (cases i) auto
qed simp

lemma K_last_significant_token:
  assumes moved: "\<And>s. known X k c A s \<Longrightarrow> 0 < ps_cursor s"
  shows "K X k c A last_significant_token (\<lambda>_. Pure True)"
proof (rule K_I)
  fix s
  assume s: "known X k c A s"
  then have "0 < ps_cursor s" "ps_cursor s \<le> length (ps_tokens s)"
    using moved by (auto simp: known_def parser_inv_def)
  then show "\<exists>r s'. run_state last_significant_token s = (r, s') \<and> parser_inv X s' \<and> onward X s s' \<and>
      sig s' = sig s \<and> holds (Pure True) s'"
    using s by (auto simp: last_significant_token_def known_def)
qed

lemma H_store_type:
  assumes "\<And>s. known X k c A s \<Longrightarrow> holds (Storable (i, t)) s"
  shows "H X k c A (store_type i t) (Res T_TYPE)"
  unfolding store_type_def
  using assms by (intro hoare) (auto simp: known_def)

lemma H_finish_type:
  assumes "\<And>s. known X k None A s \<Longrightarrow> holds (Orelse (\<lambda>r. Both (Ate k) (Storable r)) r) s"
  shows "H X k None A (finish_type t r) (Typed k)"
  unfolding finish_type_def
  using assms by (intro hoare K_last_significant_token [THEN K_bind] H_store_type [THEN H_call])
    (auto simp: known_def split: option.splits)

lemmas type_calls = H_function_type [THEN H_bind] H_parenthesized_type [THEN H_call]
  H_path_type [THEN H_call]

lemma H_type_body:
  assumes P: "recursion_ok X n b P" and k: "k \<le> n"
  shows "H X k None A (type_body P t) (Typed k)"
  unfolding type_body_def
  using k by (intro hoare type_calls [OF P] H_finish_type)
    (auto simp: known_def split: option.splits sum.splits)

theorem H_type:
  assumes P: "recursion_ok X n b P" and k: "k \<le> n"
  shows "H X k None A (sol_parser_type P) (Typed k)"
  unfolding sol_parser_type_def
  using k by (intro hoare parser_calls [OF P] H_type_body [OF P, THEN H_tail_call])
    (auto simp: known_def split: option.splits)

end
