(* ===== verification/Sol_Lookahead.thy ===== *)
theory Sol_Lookahead
  imports Sol_TypeRules
begin

text \<open>
  The lookahead over type arguments ends within the number of tokens, and a list it accepts
  is closed by a token of the source. The lookahead keeps an index of its own, so the proofs
  are about functions and not about runs.
\<close>

section \<open>Progress\<close>

definition advances :: "SolToken list \<Rightarrow> size_t \<Rightarrow> lookahead \<Rightarrow> bool" where
  "advances ts i r \<longleftrightarrow> (\<exists>ok j. r = Some (ok, j) \<and> (ok \<longrightarrow> i < j \<and> j \<le> length ts))"

lemma advances_simps [simp]:
  "advances ts i (Some (False, j))" "advances ts i (Some (True, j)) \<longleftrightarrow> i < j \<and> j \<le> length ts"
  by (auto simp: advances_def)

lemma advances_E:
  assumes "advances ts i r"
  obtains j where "r = Some (False, j)" | j where "r = Some (True, j)" "i < j" "j \<le> length ts"
proof -
  from assms obtain ok j where r: "r = Some (ok, j)" "ok \<longrightarrow> i < j \<and> j \<le> length ts"
    by (auto simp: advances_def)
  show thesis using r that by (cases ok) auto
qed

lemma advances_mono: "advances ts i r \<Longrightarrow> i' \<le> i \<Longrightarrow> advances ts i' r"
  by (auto simp: advances_def)

lemma lookahead_kind_le:
  "sol_parser_lookahead_kind ts i = (kind, j) \<Longrightarrow> i \<le> j"
  using next_significant_le [of i ts] by (auto simp: sol_parser_lookahead_kind_def Let_def)

lemma lookahead_kind_in:
  "sol_parser_lookahead_kind ts i = (kind, j) \<Longrightarrow> kind \<noteq> SOL_TOKEN_EOF \<Longrightarrow> j < length ts"
  by (auto simp: sol_parser_lookahead_kind_def Let_def split: if_splits)

lemma lookahead_kind_bound:
  "sol_parser_lookahead_kind ts i = (kind, j) \<Longrightarrow> i \<le> length ts \<Longrightarrow> j \<le> length ts"
  by (auto simp: sol_parser_lookahead_kind_def Let_def intro: next_significant_bound)

section \<open>The parts of a type\<close>

lemma lookahead_list_advances:
  assumes element: "\<And>i. advances ts i (element i)" and closing: "closing \<noteq> SOL_TOKEN_EOF"
  shows "length ts - i < n \<Longrightarrow> advances ts i (lookahead_list n ts element closing i)"
proof (induction n arbitrary: i)
  case (Suc n)
  from element [of i] show ?case
  proof (cases rule: advances_E)
    case (2 j)
    obtain kind j1 where k1: "sol_parser_lookahead_kind ts j = (kind, j1)" by fastforce
    obtain kind' j2 where k2: "sol_parser_lookahead_kind ts (Suc j1) = (kind', j2)" by fastforce
    note le = lookahead_kind_le [OF k1] lookahead_kind_le [OF k2]
    have "advances ts i (lookahead_list n ts element closing j2)"
      using 2 le Suc.prems by (intro advances_mono [OF Suc.IH]) auto
    then show ?thesis
      using 2 k1 k2 le closing lookahead_kind_in [OF k1] lookahead_kind_in [OF k2]
      by (auto simp: Let_def)
  qed simp
qed simp

lemma lookahead_type_list_advances:
  assumes "\<And>i. advances ts i (element i)" "closing \<noteq> SOL_TOKEN_EOF"
  shows "advances ts i (sol_parser_lookahead_type_list ts element closing i)"
proof -
  obtain kind j where k: "sol_parser_lookahead_kind ts i = (kind, j)" by fastforce
  have "advances ts i (lookahead_list (Suc (length ts - j)) ts element closing j)"
    using lookahead_kind_le [OF k] by (intro advances_mono [OF lookahead_list_advances [OF assms]]) auto
  with k assms(2) lookahead_kind_le [OF k] lookahead_kind_in [OF k] show ?thesis
    by (auto simp: sol_parser_lookahead_type_list_def simp del: lookahead_list.simps)
qed

lemma lookahead_braces_advances:
  "length ts - i < n \<Longrightarrow> advances ts i (lookahead_braces n ts b i)"
proof (induction n arbitrary: b i)
  case (Suc n)
  obtain kind j where k: "sol_parser_lookahead_kind ts i = (kind, j)" by fastforce
  note kind = lookahead_kind_le [OF k] lookahead_kind_in [OF k]
  have "advances ts i (lookahead_braces n ts b' (Suc j))" if "kind \<noteq> SOL_TOKEN_EOF" for b'
    using that kind Suc.prems by (intro advances_mono [OF Suc.IH]) auto
  then show ?case using k kind by (auto simp: Let_def)
qed simp

lemma lookahead_path_advances:
  "length ts - i < n \<Longrightarrow> i < length ts \<Longrightarrow> advances ts i (lookahead_path n ts (Suc i))"
proof (induction n arbitrary: i)
  case (Suc n)
  obtain kind j where k: "sol_parser_lookahead_kind ts (Suc i) = (kind, j)" by fastforce
  obtain kind' j' where k': "sol_parser_lookahead_kind ts (Suc j) = (kind', j')" by fastforce
  note le = lookahead_kind_le [OF k] lookahead_kind_le [OF k']
  have "advances ts i (lookahead_path n ts (Suc j'))" if "kind' = SOL_TOKEN_IDENTIFIER"
    using that le lookahead_kind_in [OF k'] Suc.prems
    by (intro advances_mono [OF Suc.IH]) auto
  then show ?case using k k' le Suc.prems lookahead_kind_bound [OF k] by (auto simp: Let_def)
qed simp

lemma lookahead_function_type_advances:
  assumes element: "\<And>i. advances ts i (element i)"
  shows "advances ts i (lookahead_function_type ts element i)"
proof -
  obtain kind j where k: "sol_parser_lookahead_kind ts i = (kind, j)" by fastforce
  have "advances ts (Suc j) (sol_parser_lookahead_type_list ts element SOL_TOKEN_RIGHT_PAREN (Suc j))"
    using element by (rule lookahead_type_list_advances) simp
  then show ?thesis
  proof (cases rule: advances_E)
    case (2 j1)
    obtain kind1 j2 where k1: "sol_parser_lookahead_kind ts j1 = (kind1, j2)" by fastforce
    from element [of "Suc j2"] show ?thesis
    proof (cases rule: advances_E)
      case e: (2 j3)
      obtain kind2 j4 where k2: "sol_parser_lookahead_kind ts j3 = (kind2, j4)" by fastforce
      obtain kind3 j5 where k3: "sol_parser_lookahead_kind ts (Suc j4) = (kind3, j5)" by fastforce
      note le = lookahead_kind_le [OF k] lookahead_kind_le [OF k1] lookahead_kind_le [OF k2]
        lookahead_kind_le [OF k3]
      have "advances ts i (lookahead_braces (Suc (length ts - j5)) ts 0 j5)"
        using 2 e le by (intro advances_mono [OF lookahead_braces_advances]) auto
      then show ?thesis
        using k 2 k1 e k2 k3 le lookahead_kind_in [OF k3]
        by (auto simp: lookahead_function_type_def simp del: lookahead_braces.simps)
    qed (use k 2 k1 in \<open>simp add: lookahead_function_type_def\<close>)
  qed (use k in \<open>simp add: lookahead_function_type_def\<close>)
qed

lemma lookahead_path_type_advances:
  assumes element: "\<And>i. advances ts i (element i)"
    and k: "sol_parser_lookahead_kind ts i = (kind, j)"
  shows "advances ts i (lookahead_path_type ts element kind j)"
proof -
  obtain kind1 j1 where k1: "(if kind = SOL_TOKEN_CAPABILITY
    then sol_parser_lookahead_kind ts (Suc j) else (kind, j)) = (kind1, j1)" by fastforce
  then have j1: "i \<le> j1" "kind1 = SOL_TOKEN_IDENTIFIER \<Longrightarrow> j1 < length ts"
    using lookahead_kind_le [OF k] lookahead_kind_in [OF k]
    by (auto split: if_splits dest: lookahead_kind_le lookahead_kind_in)
  show ?thesis
  proof (cases "kind1 = SOL_TOKEN_IDENTIFIER")
    case True
    from lookahead_path_advances [OF lessI j1(2) [OF True]] show ?thesis
    proof (cases rule: advances_E)
      case (2 j2)
      obtain kind3 j3 where k3: "sol_parser_lookahead_kind ts j2 = (kind3, j3)" by fastforce
      note le = lookahead_kind_le [OF k3] lookahead_kind_bound [OF k3]
      have "advances ts i (sol_parser_lookahead_type_list ts element SOL_TOKEN_GREATER (Suc j3))"
        using element 2 j1(1) le by (intro advances_mono [OF lookahead_type_list_advances]) auto
      then show ?thesis
        using 2 k1 k3 j1 le True
        by (auto simp: lookahead_path_type_def simp del: lookahead_path.simps)
    qed (use k1 True in \<open>auto simp: lookahead_path_type_def simp del: lookahead_path.simps\<close>)
  qed (use k1 in \<open>auto simp: lookahead_path_type_def simp del: lookahead_path.simps
      split: if_splits\<close>)
qed

lemma lookahead_type_advances: "advances ts i (lookahead_type n ts i)"
proof (induction n arbitrary: i)
  case (Suc n)
  obtain kind j where k: "sol_parser_lookahead_kind ts i = (kind, j)" by fastforce
  obtain kind' j' where k': "sol_parser_lookahead_kind ts (Suc j) = (kind', j')" by fastforce
  note le = lookahead_kind_le [OF k] lookahead_kind_le [OF k']
  have rest: "advances ts i (lookahead_type n ts (Suc j))"
    "advances ts i (lookahead_function_type ts (lookahead_type n ts) (Suc j))"
    "advances ts i (lookahead_path_type ts (lookahead_type n ts) kind j)"
    using le(1) Suc.IH lookahead_path_type_advances [OF Suc.IH k]
    by (auto intro: advances_mono [OF Suc.IH] advances_mono [OF lookahead_function_type_advances])
  with k k' le lookahead_kind_in [OF k'] show ?case by auto
qed simp

text \<open>
  The lookahead always ends, and the closing token of an accepted argument list exists.
\<close>

definition lookahead_ok :: "SolToken list \<Rightarrow> SolTypeLookahead option \<Rightarrow> bool" where
  "lookahead_ok ts r \<longleftrightarrow>
     (\<exists>l. r = Some l \<and> (la_kind l = SOL_TYPE_LOOKAHEAD_VALID \<longrightarrow> la_closing l < length ts))"

lemma lookahead_arguments_ok:
  "length ts - i < n \<Longrightarrow> lookahead_ok ts (lookahead_arguments n ts i)"
proof (induction n arbitrary: i)
  case (Suc n)
  obtain kind j where k: "sol_parser_lookahead_kind ts i = (kind, j)" by fastforce
  obtain kind' j' where k': "sol_parser_lookahead_kind ts (Suc j) = (kind', j')" by fastforce
  note kind = lookahead_kind_le [OF k] lookahead_kind_in [OF k] lookahead_kind_le [OF k']
  have next_ok: "lookahead_ok ts (lookahead_arguments n ts j'')"
    if "kind = SOL_TOKEN_COMMA" "j' \<le> j''" for j''
    using that kind Suc.prems by (intro Suc.IH) auto
  from lookahead_type_advances [of ts j' "type_nesting_limit - 0"] show ?case
  proof (cases rule: advances_E)
    case (1 j'')
    with k k' kind next_ok show ?thesis
      by (auto simp: lookahead_ok_def sol_parser_lookahead_type_def)
  next
    case (2 j'')
    with k k' kind next_ok [of j'] next_ok [of j''] show ?thesis
      by (auto simp: lookahead_ok_def sol_parser_lookahead_type_def)
  qed
qed simp

section \<open>In the logic\<close>

lemma K_expression_type_arguments:
  "K X k c A sol_parser_expression_type_arguments
     (\<lambda>l. Pure (la_kind l = SOL_TYPE_LOOKAHEAD_VALID \<longrightarrow> la_closing l < length (in_tokens X)))"
proof (rule K_I)
  fix s
  assume s: "known X k c A s"
  let ?m = sol_parser_expression_type_arguments
  obtain kind j where k: "sol_parser_lookahead_kind (ps_tokens s) (ps_cursor s) = (kind, j)" by fastforce
  have "\<exists>l. run_state ?m s = (l, s) \<and>
      (la_kind l = SOL_TYPE_LOOKAHEAD_VALID \<longrightarrow> la_closing l < length (ps_tokens s))"
  proof (cases "kind = SOL_TOKEN_LESS")
    case True
    from lookahead_type_advances [of "ps_tokens s" "Suc j" "type_nesting_limit - 0"]
    show ?thesis
    proof (cases rule: advances_E)
      case (1 i)
      with k True show ?thesis
        by (simp add: sol_parser_expression_type_arguments_def sol_parser_lookahead_type_def)
    next
      case (2 i)
      have "length (ps_tokens s) - i < Suc (length (ps_tokens s))" by simp
      from lookahead_arguments_ok [OF this] 2 k True show ?thesis
        by (auto simp: sol_parser_expression_type_arguments_def sol_parser_lookahead_type_def
            lookahead_ok_def simp del: lookahead_arguments.simps)
    qed
  qed (use k in \<open>simp add: sol_parser_expression_type_arguments_def\<close>)
  then show "\<exists>r s'. run_state ?m s = (r, s') \<and> parser_inv X s' \<and> onward X s s' \<and> sig s' = sig s \<and>
      holds (Pure (la_kind r = SOL_TYPE_LOOKAHEAD_VALID \<longrightarrow> la_closing r < length (in_tokens X))) s'"
    using s by (auto simp: known_def parser_inv_def)
qed

lemmas H_expression_type_arguments [hoare] = K_expression_type_arguments [THEN K_bind_pure]

lemma H_recover_step:
  "H X k None A (recover_type_arguments_step d) (Round k (\<lambda>_. Pure True) (\<lambda>_. Pure True))"
  unfolding recover_type_arguments_step_def by (intro hoare) (auto simp: known_def)

lemma H_recover:
  "H X k None A sol_parser_recover_expression_type_arguments (\<lambda>_. Pure True)"
  unfolding sol_parser_recover_expression_type_arguments_def
  by (intro hoare H_loop [OF _ H_recover_step, THEN H_tail_call]) (auto simp: known_def)

end
