(* ===== verification/Sol_ParserRewind.thy ===== *)
theory Sol_ParserRewind
  imports Sol_ParserArrays
begin

text \<open>
  Giving entries back after an error. The count of an array is set back to a mark, the
  memory stays; some productions also set the cursor back and read the tokens again.
\<close>

section \<open>Counts\<close>

abbreviation Upto :: "table \<Rightarrow> size_t \<Rightarrow> fact" where
  "Upto T m \<equiv> Both (Pure (m \<le> SOL_AST_NONE)) (Given (0 < m) (Has T (m - 1)))"

definition truncated :: "SolSyntaxTree \<Rightarrow> SolSyntaxTree \<Rightarrow> bool" where
  "truncated t u \<longleftrightarrow> (\<forall>T. nodes u T = nodes t T \<and> room u T = room t T \<and> live u T \<le> entries t T)"

lemma truncated_entries: "truncated t u \<Longrightarrow> entries u T = entries t T"
  by (simp add: truncated_def entries_def)

lemma truncated_grows: "truncated t u \<Longrightarrow> grows t u"
  by (simp add: grows_def truncated_entries)

lemma truncated_refl: "parser_inv X s \<Longrightarrow> truncated (ps_tree s) (ps_tree s)"
  by (auto simp: truncated_def parser_inv_def table_safe_def)

lemma truncated_safe:
  assumes "table_safe src t T" "truncated t u"
  shows "table_safe src u T"
  using assms truncated_entries [OF assms(2)]
  by (auto simp: table_safe_def truncated_def list_all_iff
      intro: node_safe_grows [OF truncated_grows [OF assms(2)]])

context syntax_table
begin

lemma truncate:
  assumes "truncated t u" "m \<le> entries t T"
  shows "truncated t (upd (truncate_to m) u)"
  unfolding truncated_def
proof
  fix T'
  show "nodes (upd (truncate_to m) u) T' = nodes t T' \<and> room (upd (truncate_to m) u) T' = room t T' \<and>
      live (upd (truncate_to m) u) T' \<le> entries t T'"
  proof (cases "T' = T")
    case True
    have "nodes (upd (truncate_to m) u) T = nodes u T" "room (upd (truncate_to m) u) T = room u T"
      "live (upd (truncate_to m) u) T = m"
      by (simp_all add: truncate_to_def view_get)
    with True assms show ?thesis by (simp add: truncated_def)
  qed (use assms in \<open>simp add: truncated_def other_views\<close>)
qed

lemma count_K: "K X k c A (gets (\<lambda>s. tb_count (get (ps_tree s)))) (Upto T)"
proof (rule K_I)
  fix s
  assume s: "known X k c A s"
  let ?n = "tb_count (get (ps_tree s))"
  from s have "table_safe (in_source X) (ps_tree s) T" by (simp add: known_def parser_inv_def)
  then have "?n \<le> entries (ps_tree s) T" "?n \<le> SOL_AST_NONE"
    by (simp_all add: table_safe_def live_get SOL_AST_NONE_def)
  then show "\<exists>r s'. run_state (gets (\<lambda>s. tb_count (get (ps_tree s)))) s = (r, s') \<and>
      parser_inv X s' \<and> onward X s s' \<and> sig s' = sig s \<and> holds (Upto T r) s'"
    using s by (auto simp: known_def)
qed

end

lemma K_mark: "K X k c A (gets ps_tree) Since"
proof (rule K_I)
  fix s
  assume s: "known X k c A s"
  then have "live (ps_tree s) T \<le> entries (ps_tree s) T" for T
    by (auto simp: known_def parser_inv_def table_safe_def)
  then show "\<exists>r s'. run_state (gets ps_tree) s = (r, s') \<and> parser_inv X s' \<and> onward X s s' \<and>
      sig s' = sig s \<and> holds (Since r) s'"
    using s by (auto simp: known_def)
qed

lemma truncated_keeps:
  assumes "parser_inv X s" "failed s" "truncated (ps_tree s) t"
  shows "parser_inv X (s\<lparr>ps_tree := t\<rparr>)" "onward X s (s\<lparr>ps_tree := t\<rparr>)"
  using assms truncated_grows [OF assms(3)]
  by (auto simp: parser_inv_def onward_def failed_def truncated_def
      intro: truncated_safe [OF _ assms(3)])

lemma K_truncate:
  assumes "\<And>s. known X k c A s \<Longrightarrow> failed s \<and> truncated (ps_tree s) (g (ps_tree s))"
  shows "K X k c A (modify (ps_tree_update g)) (\<lambda>_. Pure True)"
proof (rule K_I)
  fix s
  assume s: "known X k c A s"
  have eq: "ps_tree_update g s = s\<lparr>ps_tree := g (ps_tree s)\<rparr>" by simp
  from assms [OF s] s show "\<exists>r s'. run_state (modify (ps_tree_update g)) s = (r, s') \<and>
      parser_inv X s' \<and> onward X s s' \<and> sig s' = sig s \<and> holds (Pure True) s'"
    by (auto simp: known_def sig_def truncated_keeps eq)
qed

section \<open>The cursor\<close>

lemma rewind:
  assumes s: "known X k (Some i) A s" and s1: "onward X s s1" "parser_inv X s1" "failed s1"
    and t: "truncated (ps_tree s1) t"
  shows "known X k (Some i) (Both A Bad) (s1\<lparr>ps_tree := t, ps_cursor := ps_cursor s\<rparr>)"
    and "onward X s (s1\<lparr>ps_tree := t, ps_cursor := ps_cursor s\<rparr>)"
proof -
  let ?s = "s1\<lparr>ps_tree := t, ps_cursor := ps_cursor s\<rparr>"
  note keeps = truncated_keeps [OF s1(2,3) t]
  have on: "onward X s (s1\<lparr>ps_tree := t\<rparr>)" using s1(1) keeps(2) by (rule onward_trans)
  then show "onward X s ?s" by (auto simp: onward_def failed_def)
  then have A: "holds A ?s" using s by (auto simp: known_def intro: holds_onward)
  have "ps_cursor s \<le> length (in_tokens X)" "ps_tokens s = in_tokens X"
    using s by (auto simp: known_def parser_inv_def)
  with keeps(1) have "parser_inv X ?s" by (auto simp: parser_inv_def failed_def)
  moreover have "sig ?s = sig s" "rem ?s = rem s"
    using s1(1) by (auto simp: sig_def rem_def onward_def)
  ultimately show "known X k (Some i) (Both A Bad) ?s"
    using s A s1(3) by (auto simp: known_def failed_def)
qed

end
