(* ===== verification/Sol_ExprRules.thy ===== *)
theory Sol_ExprRules
  imports Sol_Lookahead Sol_ParserRewind
begin

text \<open>
  The productions of \<open>Sol_ParserExpr\<close> in the logic: arguments, patterns and primary
  expressions.
\<close>

section \<open>Arguments\<close>

lemma H_nested:
  assumes "recursion_ok X n b P" "\<And>s. known X k None A s \<Longrightarrow> holds (Below n) s"
  shows "H X k None A (sol_parser_nested_expression P p) (Res T_EXPR)"
  unfolding sol_parser_nested_expression_def
  by (rule H_with_suppression [OF H_parsers(1) [OF assms]])

lemma H_suppressed:
  assumes "recursion_ok X n b P" "\<And>s. known X k None A s \<Longrightarrow> holds (Below n) s"
  shows "H X k None A (with_suppression e (parse_expression P p)) (Res T_EXPR)"
  by (rule H_with_suppression [OF H_parsers(1) [OF assms]])

lemmas nested_calls = parser_calls H_nested [THEN H_call] H_nested [THEN H_tail_call]
  H_suppressed [THEN H_call] H_suppressed [THEN H_tail_call]

text \<open>The outcome of an argument list.\<close>

abbreviation Arguments :: "SolParsedArguments \<Rightarrow> fact" where
  "Arguments r \<equiv> Both (Opt T_ARG (pr_first r)) (Given (\<not> pr_closed r) Bad)"

lemma H_closed_arguments:
  assumes "\<And>s. known X k None A s \<Longrightarrow> 0 < ps_cursor s \<and> holds (Opt T_ARG i) s"
  shows "H X k None A (closed_arguments i) Arguments"
  unfolding closed_arguments_def using assms by (intro hoare) (auto simp: known_def)

lemma H_unclosed_arguments:
  assumes "\<And>s. known X k None A s \<Longrightarrow> failed s \<and> holds (Opt T_ARG i) s"
  shows "H X k None A (unclosed_arguments i) Arguments"
  unfolding unclosed_arguments_def using assms by (intro hoare) (auto simp: known_def)

lemmas arguments_calls [hoare] = H_closed_arguments [THEN H_call]
  H_closed_arguments [THEN H_tail_call] H_unclosed_arguments [THEN H_call]

lemma H_argument_tail:
  assumes "closing \<noteq> SOL_TOKEN_EOF" "\<And>s. known X k None A s \<Longrightarrow> holds (Lst T_ARG l) s"
  shows "H X k None A (argument_tail closing m l) (Round k (Lst T_ARG) Arguments)"
  unfolding argument_tail_def using assms by (intro hoare) (auto simp: known_def)

lemma H_argument_name: "H X k None A argument_name (\<lambda>_. Pure True)"
  unfolding argument_name_def by (intro hoare) (auto simp: known_def)

lemmas argument_name_calls [hoare] = H_argument_name [THEN H_call]

lemma H_argument_step:
  assumes P: "recursion_ok X n b P" and closing: "closing \<noteq> SOL_TOKEN_EOF"
    and A: "\<And>s. known X k None A s \<Longrightarrow> holds (Both (Below n) (Lst T_ARG l)) s"
  shows "H X k None A (argument_step P closing l) (Round k (Lst T_ARG) Arguments)"
  unfolding argument_step_def
  using A closing by (intro hoare nested_calls [OF P] H_argument_tail) (auto simp: known_def)

lemma H_argument_list:
  assumes P: "recursion_ok X n b P" and closing: "closing \<noteq> SOL_TOKEN_EOF"
    and A: "\<And>s. known X k None A s \<Longrightarrow> holds (Below n) s"
  shows "H X k None A (sol_parser_argument_list P closing) Arguments"
  unfolding sol_parser_argument_list_def
  using A closing by (intro hoare H_loop [OF _ H_argument_step [OF P], THEN H_tail_call])
    (auto simp: known_def)

lemma H_record_field_value:
  assumes P: "recursion_ok X n b P" and A: "\<And>s. known X k None A s \<Longrightarrow> holds (Below n) s"
  shows "H X k None A (record_field_value P t) (Res T_EXPR)"
  unfolding record_field_value_def
  using A by (intro hoare nested_calls [OF P]) (auto simp: known_def)

lemma H_record_field_step:
  assumes P: "recursion_ok X n b P"
    and A: "\<And>s. known X k None A s \<Longrightarrow> holds (Both (Below n) (Lst T_ARG l)) s"
  shows "H X k None A (record_field_step P l) (Round k (Lst T_ARG) Arguments)"
  unfolding record_field_step_def
  using A by (intro hoare H_record_field_value [OF P, THEN H_call] H_argument_tail)
    (auto simp: known_def)

lemma H_record_fields:
  assumes P: "recursion_ok X n b P" and A: "\<And>s. known X k None A s \<Longrightarrow> holds (Below n) s"
  shows "H X k None A (sol_parser_record_fields P) Arguments"
  unfolding sol_parser_record_fields_def
  using A by (intro hoare H_loop [OF _ H_record_field_step [OF P], THEN H_tail_call])
    (auto simp: known_def)

section \<open>Patterns\<close>

lemma make_pattern_binding [simp]: "pt_first_binding (make_pattern kind sp nm i) = i"
  by (simp add: make_pattern_def)

lemma H_pattern_child:
  assumes "\<And>s. known X k None A s \<Longrightarrow> holds (Both (Lst T_BINDING l) (Res T_PATTERN i)) s"
  shows "H X k None A (sol_parser_pattern_child l i sp) (Added T_BINDING)"
  unfolding sol_parser_pattern_child_def using assms by (intro hoare) (fastforce simp: known_def)+

lemma H_pattern_list_step:
  assumes P: "recursion_ok X n b P"
    and A: "\<And>s. known X k None A s \<Longrightarrow> holds (Both (Below n) (Lst T_BINDING (fst l))) s"
  shows "H X k None A (pattern_list_step P d m l)
    (Round k (\<lambda>l. Lst T_BINDING (fst l)) (Orelse (\<lambda>(i, _). Opt T_BINDING i)))"
  unfolding pattern_list_step_def
  using A by (intro hoare parser_calls [OF P] H_pattern_child [THEN H_call])
    (auto simp: known_def split: option.splits)

lemmas pattern_list_calls = H_loop [OF _ H_pattern_list_step, THEN H_call]
  H_loop [OF _ H_pattern_list_step, THEN H_tail_call]

lemma H_tuple_pattern:
  assumes P: "recursion_ok X n b P" and k: "k \<le> n" and i: "tk_kind (tok X i) \<noteq> SOL_TOKEN_EOF"
  shows "H X k (Some i) A (tuple_pattern P d) (Res T_PATTERN)"
  unfolding tuple_pattern_def
  using i k by (intro hoare pattern_list_calls [OF _ P]) (auto simp: known_def)

lemma H_record_pattern_child:
  assumes P: "recursion_ok X n b P" and A: "\<And>s. known X k None A s \<Longrightarrow> holds (Below n) s"
  shows "H X k None A (record_pattern_child P d t) (Res T_PATTERN)"
  unfolding record_pattern_child_def
  using A by (intro hoare parser_calls [OF P]) (auto simp: known_def)

lemma H_record_pattern_step:
  assumes P: "recursion_ok X n b P"
    and A: "\<And>s. known X k None A s \<Longrightarrow> holds (Both (Below n) (Lst T_BINDING l)) s"
  shows "H X k None A (record_pattern_step P d l)
    (Round k (Lst T_BINDING) (Orelse (Opt T_BINDING)))"
  unfolding record_pattern_step_def
  using A by (intro hoare H_record_pattern_child [OF P, THEN H_call] H_pattern_child [THEN H_call])
    (auto simp: known_def list_round_def split: option.splits)

lemma H_record_pattern:
  assumes P: "recursion_ok X n b P" and A: "\<And>s. known X k None A s \<Longrightarrow> holds (Both (Below n) (Ate k)) s"
  shows "H X k None A (record_pattern P d t) (Res T_PATTERN)"
  unfolding record_pattern_def
  using A by (intro hoare H_loop [OF _ H_record_pattern_step [OF P], THEN H_call]) (auto simp: known_def)

lemma H_name_pattern:
  assumes P: "recursion_ok X n b P" and A: "\<And>s. known X k None A s \<Longrightarrow> holds (Below n) s"
  shows "H X k None A (name_pattern P d e t) (Res T_PATTERN)"
  unfolding name_pattern_def positional_elements_def
  using A by (intro hoare pattern_list_calls [OF _ P]) (auto simp: known_def)

lemma H_identifier_pattern:
  assumes P: "recursion_ok X n b P" and k: "k \<le> n" and i: "tk_kind (tok X i) \<noteq> SOL_TOKEN_EOF"
  shows "H X k (Some i) A (identifier_pattern P d e t) (Res T_PATTERN)"
  unfolding identifier_pattern_def
  using k i by (intro hoare H_record_pattern [OF P, THEN H_tail_call] H_name_pattern [OF P, THEN H_tail_call])
    (auto simp: known_def)

theorem H_pattern:
  assumes P: "recursion_ok X n b P" and k: "k \<le> n"
  shows "H X k None A (sol_parser_pattern_depth P d e) (Res T_PATTERN)"
  unfolding sol_parser_pattern_depth_def
  using k by (intro hoare H_identifier_pattern [OF P] H_tuple_pattern [OF P]) (auto simp: known_def)

section \<open>Tuples\<close>

lemma H_reject_named_tuple: "H X k None A (reject_named_tuple l) (\<lambda>_. Pure True)"
  unfolding reject_named_tuple_def by (intro hoare) (auto simp: known_def)

lemmas reject_named_tuple_calls [hoare] = H_reject_named_tuple [THEN H_call]

lemma H_tuple_element_step:
  assumes P: "recursion_ok X n b P"
    and A: "\<And>s. known X k None A s \<Longrightarrow> holds (Both (Below n) (Has T_ARG (fst l))) s"
  shows "H X k None A (tuple_element_step P l) (Round k (\<lambda>l. Has T_ARG (fst l)) (\<lambda>_. Pure True))"
  unfolding tuple_element_step_def
  supply H_add [hoare del]
  using A by (intro hoare H_add_link_argument nested_calls [OF P]) (auto simp: known_def)

lemma H_tuple_rest:
  assumes P: "recursion_ok X n b P"
    and A: "\<And>s. known X k None A s \<Longrightarrow> holds (Both (Below n) (Res T_ARG i)) s"
  shows "H X k None A (tuple_rest P t i) (Res T_EXPR)"
  unfolding tuple_rest_def
  using A apply (intro hoare H_loop [OF _ H_tuple_element_step [OF P], THEN H_call]) apply (auto simp: known_def)
  done

lemma H_parenthesized_expression:
  assumes P: "recursion_ok X n b P" and k: "k \<le> n" and i: "tk_kind (tok X i) \<noteq> SOL_TOKEN_EOF"
  shows "H X k (Some i) A (sol_parser_parenthesized_expression P) (Res T_EXPR)"
  unfolding sol_parser_parenthesized_expression_def
  using k i by (intro hoare nested_calls [OF P] H_tuple_rest [OF P, THEN H_tail_call])
    (auto simp: known_def)

section \<open>Primary expressions\<close>

lemma H_error_expression:
  assumes "\<And>s. known X k c A s \<Longrightarrow> failed s"
  shows "H X k c A (error_expression sp) (Res T_EXPR)"
  unfolding error_expression_def using assms by (intro hoare) (auto simp: known_def)

text \<open>A token expected whose absence only counts as an error.\<close>

lemma H_expect_flag:
  assumes "kind \<noteq> SOL_TOKEN_EOF"
  shows "H X k None A (sol_parser_expect kind m) (\<lambda>r. Given (\<not> r) Bad)"
proof -
  have "H X k None A (State_Monad.bind (sol_parser_expect kind m) ret) (\<lambda>r. Given (\<not> r) Bad)"
    using assms by (intro hoare) (auto simp: known_def)
  then show ?thesis by (simp add: H_def split: prod.splits)
qed

lemmas expect_flag = H_expect_flag [THEN H_call] H_expect_flag [THEN H_tail_call]

lemma H_handle_expression:
  assumes P: "recursion_ok X n b P" and k: "k \<le> n" and i: "tk_kind (tok X i) \<noteq> SOL_TOKEN_EOF"
  shows "H X k (Some i) A (sol_parser_handle_expression P) (Res T_EXPR)"
  unfolding sol_parser_handle_expression_def
  supply H_gets [hoare del] H_expect [hoare del] H_when [hoare del]
  using k i apply (intro hoare nested_calls [OF P] tab_expressions.count_K [THEN K_bind] expect_flag)
  apply (simp_all add: known_def)
  apply (auto split: option.splits)
  done

section \<open>Match expressions\<close>

lemma H_synchronize_value:
  assumes P: "recursion_ok X n b P" and A: "\<And>s. known X k None A s \<Longrightarrow> holds (Below n) s"
    and i: "tk_kind (tok X i) \<noteq> SOL_TOKEN_EOF"
  shows "H X k (Some i) A (synchronize_arm_value P) (\<lambda>_. Below k)"
  unfolding synchronize_arm_value_def
  using A i by (intro hoare nested_calls [OF P]) (auto simp: known_def)

lemma H_synchronize:
  assumes P: "recursion_ok X n b P" and A: "\<And>s. known X k None A s \<Longrightarrow> holds (Below n) s"
  shows "H X k None A (synchronize_match_arm P m p q) (\<lambda>_. Pure True)"
  using A
proof (induction m arbitrary: A p q)
  case (Suc m)
  show ?case
    unfolding synchronize_match_arm.simps
    using Suc.prems by (intro hoare H_synchronize_value [OF P, THEN H_conseq]
        Suc.IH [THEN H_tail_call]) (auto simp: known_def)
qed (auto intro: H_ret)

lemma H_synchronize_here:
  assumes P: "recursion_ok X n b P" and A: "\<And>s. known X k None A s \<Longrightarrow> holds (Below n) s"
    and i: "tk_kind (tok X i) \<noteq> SOL_TOKEN_EOF" "tk_kind (tok X i) \<noteq> SOL_TOKEN_RIGHT_BRACE"
  shows "H X k (Some i) A (synchronize_match_arm P (Suc m) 0 q) (\<lambda>_. Below k)"
  unfolding synchronize_match_arm.simps
  using A i by (intro hoare H_synchronize_value [OF P] H_synchronize [OF P, THEN H_tail_call])
    (auto simp: known_def)

lemma H_pattern_span:
  assumes "\<And>s. known X k None A s \<Longrightarrow> holds (Has T_PATTERN i) s"
  shows "H X k None A (pattern_span i) (\<lambda>_. Pure True)"
  unfolding pattern_span_def
  using assms by (intro hoare tab_patterns.read_K [THEN K_bind]) auto

lemma H_arm_head:
  assumes P: "recursion_ok X n b P" and A: "\<And>s. known X k None A s \<Longrightarrow> holds (Below n) s"
  shows "H X k None A (arm_head P)
    (Orelse (\<lambda>(p, g). Both (Ate k) (Both (Has T_PATTERN p) (Either (Opt T_EXPR g) Bad))))"
  unfolding arm_head_def arm_guard_def sol_parser_pattern_def
  using A by (intro hoare parser_calls [OF P]) (auto simp: known_def)

lemma H_arm_body:
  assumes P: "recursion_ok X n b P"
    and A: "\<And>s. known X k None A s \<Longrightarrow> holds (Both (Below n) (Both (Lst T_ARM l)
      (Both (Has T_PATTERN p) (Either (Opt T_EXPR g) Bad)))) s"
  shows "H X k None A (arm_body P l p g) (Added T_ARM)"
  unfolding arm_body_def
  using A by (intro hoare nested_calls [OF P] H_pattern_span [THEN H_call]) (auto simp: known_def)

text \<open>An attempt at an arm, and the recovery from its failure at the token it started with.\<close>

lemma run_restart_arm:
  "run_state (restart_arm P cursor_mark pattern_mark binding_mark) s =
     run_state (sol_parser_synchronize_match_arm P)
       (s\<lparr>ps_tree := tr_pattern_bindings_update (truncate_to binding_mark)
          (tr_patterns_update (truncate_to pattern_mark) (ps_tree s)), ps_cursor := cursor_mark\<rparr>)"
  by (simp add: restart_arm_def) (rule arg_cong [where f = "run_state _"], simp)

lemma H_attempt_arm:
  assumes head: "H X k None A m (Orelse B)"
    and arm: "\<And>x. H X k None (Both A (B x)) (f x) C"
    and again: "H X k (Some i) (Both A Bad) (State_Monad.bind (sol_parser_synchronize_match_arm P) g) C"
  shows "H X k (Some i) A (do {
      cursor_mark \<leftarrow> gets ps_cursor;
      pattern_mark \<leftarrow> gets (\<lambda>s. tb_count (tr_patterns (ps_tree s)));
      binding_mark \<leftarrow> gets (\<lambda>s. tb_count (tr_pattern_bindings (ps_tree s)));
      head \<leftarrow> m;
      case head of
        None \<Rightarrow> State_Monad.bind (restart_arm P cursor_mark pattern_mark binding_mark) g
      | Some x \<Rightarrow> f x }) C"
proof (rule HI)
  fix s r s'
  assume s: "known X k (Some i) A s" and run: "run_state (do {
      cursor_mark \<leftarrow> gets ps_cursor;
      pattern_mark \<leftarrow> gets (\<lambda>s. tb_count (tr_patterns (ps_tree s)));
      binding_mark \<leftarrow> gets (\<lambda>s. tb_count (tr_pattern_bindings (ps_tree s)));
      head \<leftarrow> m;
      case head of
        None \<Rightarrow> State_Monad.bind (restart_arm P cursor_mark pattern_mark binding_mark) g
      | Some x \<Rightarrow> f x }) s = (r, s')"
  from s have s0: "known X k None A s" by (simp add: known_def)
  obtain x s1 where m: "run_state m s = (x, s1)" by (cases "run_state m s")
  note s1 = HD [OF head s0 m]
  show "parser_inv X s' \<and> onward X s s' \<and> holds (C r) s'"
  proof (cases x)
    case (Some y)
    with s1 have "known X k None (Both A (B y)) s1" by (intro known_onward [OF s0]) auto
    moreover have "run_state (f y) s1 = (r, s')" using run m Some by simp
    ultimately show ?thesis using HD [OF arm] s1(2) by (blast intro: onward_trans)
  next
    case None
    let ?t = "tr_pattern_bindings_update (truncate_to (tb_count (tr_pattern_bindings (ps_tree s))))
      (tr_patterns_update (truncate_to (tb_count (tr_patterns (ps_tree s)))) (ps_tree s1))"
    let ?s = "s1\<lparr>ps_tree := ?t, ps_cursor := ps_cursor s\<rparr>"
    from s s1(2) have "live (ps_tree s) T \<le> entries (ps_tree s1) T" for T
      by (auto simp: known_def parser_inv_def table_safe_def onward_def grows_def intro: order.trans)
    then have "truncated (ps_tree s1) ?t"
      using truncated_refl [OF s1(1)]
      by (intro tab_pattern_bindings.truncate tab_patterns.truncate)
        (auto simp: tab_pattern_bindings.live_get [symmetric] tab_patterns.live_get [symmetric])
    moreover have "failed s1" using s1(3) None by simp
    ultimately have rewound: "known X k (Some i) (Both A Bad) ?s" "onward X s ?s"
      using rewind [OF s s1(2,1)] by blast+
    have "run_state (State_Monad.bind (sol_parser_synchronize_match_arm P) g) ?s = (r, s')"
      using run m None by (simp add: run_restart_arm)
    from HD [OF again rewound(1) this] rewound(2) show ?thesis by (blast intro: onward_trans)
  qed
qed

lemma H_synchronize_start:
  assumes P: "recursion_ok X n b P" and A: "\<And>s. known X k None A s \<Longrightarrow> holds (Below n) s"
    and i: "tk_kind (tok X i) \<noteq> SOL_TOKEN_EOF" "tk_kind (tok X i) \<noteq> SOL_TOKEN_RIGHT_BRACE"
  shows "H X k (Some i) A (sol_parser_synchronize_match_arm P) (\<lambda>_. Below k)"
proof -
  from i(1) have "i < length (in_tokens X)" using kind_eof_past by blast
  then obtain m where m: "length (in_tokens X) = Suc m" by (cases "length (in_tokens X)") auto
  have "run_state (sol_parser_synchronize_match_arm P) s = run_state (synchronize_match_arm P (Suc m) 0 0) s"
    if "known X k (Some i) A s" for s
    using that m by (simp add: sol_parser_synchronize_match_arm_def known_def parser_inv_def)
  with H_synchronize_here [OF P A i, where m = m and q = 0] show ?thesis
    by (auto simp: H_def simp del: synchronize_match_arm.simps)
qed

lemma H_match_arm_step:
  assumes P: "recursion_ok X n b P"
    and A: "\<And>s. known X k None A s \<Longrightarrow> holds (Both (Below n) (Lst T_ARM l)) s"
  shows "H X k None A (match_arm_step P l) (Round k (Lst T_ARM) (Opt T_ARM))"
  unfolding match_arm_step_def
  supply H_gets [hoare del]
  using A apply (intro hoare H_attempt_arm [OF H_arm_head [OF P]] H_arm_body [OF P, THEN H_call]
      H_synchronize_start [OF P, THEN H_bind])
  apply (auto simp: known_def)
  done

lemma H_match_expression:
  assumes P: "recursion_ok X n b P" and k: "k \<le> n" and i: "tk_kind (tok X i) \<noteq> SOL_TOKEN_EOF"
  shows "H X k (Some i) A (sol_parser_match_expression P) (Res T_EXPR)"
  unfolding sol_parser_match_expression_def
  using k i by (intro hoare nested_calls [OF P] H_loop [OF _ H_match_arm_step [OF P], THEN H_call]
      H_error_expression) (auto simp: known_def)

section \<open>Primary expressions\<close>

lemma H_old_expression:
  assumes P: "recursion_ok X n b P" and k: "k \<le> n" and i: "tk_kind (tok X i) \<noteq> SOL_TOKEN_EOF"
  shows "H X k (Some i) A (old_expression P t) (Res T_EXPR)"
  unfolding old_expression_def
  using k i by (intro hoare nested_calls [OF P] H_error_expression) (auto simp: known_def)

lemma H_identifier_expression:
  assumes P: "recursion_ok X n b P" and k: "k \<le> n" and i: "tk_kind (tok X i) \<noteq> SOL_TOKEN_EOF"
  shows "H X k (Some i) A (identifier_expression P t) (Res T_EXPR)"
  unfolding identifier_expression_def result_expression_def literal_expression_def
  using k i by (intro hoare H_old_expression [OF P]) (auto simp: known_def)

lemma H_else_expression:
  assumes P: "recursion_ok X n b P" and A: "\<And>s. known X k None A s \<Longrightarrow> holds (Below n) s"
  shows "H X k None A (else_expression P) (Res T_EXPR)"
  unfolding else_expression_def
  using A by (intro hoare nested_calls [OF P] H_error_expression) (auto simp: known_def)

lemma H_if_expression:
  assumes P: "recursion_ok X n b P" and k: "k \<le> n" and i: "tk_kind (tok X i) \<noteq> SOL_TOKEN_EOF"
  shows "H X k (Some i) A (if_expression P) (Res T_EXPR)"
  unfolding if_expression_def
  using k i by (intro hoare nested_calls [OF P] H_else_expression [OF P, THEN H_call])
    (auto simp: known_def)

lemma H_unexpected_expression: "H X k (Some i) A (unexpected_expression t) (Res T_EXPR)"
  unfolding unexpected_expression_def by (intro hoare H_error_expression) (auto simp: known_def)

lemma H_region_expression: "H X k (Some i) A (region_expression t) (Res T_EXPR)"
  unfolding region_expression_def by (intro hoare H_error_expression) (auto simp: known_def)

lemmas primary_rules = H_identifier_expression H_parenthesized_expression H_if_expression
  H_match_expression H_handle_expression

theorem H_primary_expression:
  assumes P: "recursion_ok X n True P" and k: "k \<le> n"
  shows "H X k None A (sol_parser_primary_expression P) (Res T_EXPR)"
  unfolding sol_parser_primary_expression_def literal_expression_def
  using k by (intro hoare primary_rules [OF P] H_region_expression H_unexpected_expression
      H_block_here [OF P]) (auto simp: known_def)

end
