(* ===== verification/Sol_StmtRules.thy ===== *)
theory Sol_StmtRules
  imports Sol_ExprRules
begin

text \<open>
  The productions of \<open>Sol_ParserStmt\<close> in the logic, and the closing of the recursion: with
  a call depth of twice the number of tokens left, every recursive production is safe.
\<close>

section \<open>Postfix expressions\<close>

text \<open>A list of references that exist.\<close>

primrec Refs :: "(table \<times> size_t) list \<Rightarrow> fact" where
  "Refs [] = Pure True"
| "Refs (x # xs) = Both (Has (fst x) (snd x)) (Refs xs)"

lemma holds_Refs [simp]: "holds (Refs rs) s \<longleftrightarrow> refs_in (ps_tree s) rs"
  by (induction rs) (auto simp: refs_in_def)

lemma H_postfix_node:
  assumes "\<And>s. known X k c A s \<Longrightarrow> e < entries (ps_tree s) T_EXPR"
    and "\<And>s. known X k c A s \<Longrightarrow> failed s \<or> kind \<noteq> SOL_EXPR_ERROR \<and>
      refs_in (ps_tree s) (expr_refs kind) \<and>
      list_all (\<lambda>j. j < entries (ps_tree s) T_EXPR) (expr_children kind)"
  shows "H X k c A (postfix_node kind e stop) (Res T_EXPR)"
  unfolding postfix_node_def using assms by (intro hoare) (auto simp: known_def)

lemmas postfix_calls = H_postfix_node [THEN H_call]

lemma H_token_end_at:
  assumes "i < length (in_tokens X)"
  shows "H X k c A (token_end_at i) (\<lambda>_. Pure True)"
  unfolding token_end_at_def H_def
  using assms by (auto simp: known_def parser_inv_def)

lemma H_type_arguments_here:
  assumes P: "recursion_ok X n b P" and k: "k \<le> n" and i: "tk_kind (tok X i) = SOL_TOKEN_LESS"
  shows "H X k (Some i) A (sol_parser_type_arguments P) (Orelse (\<lambda>a. Both (Ate k) (Opt T_TYPE_ARG a)))"
  unfolding sol_parser_type_arguments_def
  using k i by (intro hoare H_loop [OF _ H_type_argument_step [OF P], THEN H_tail_call])
    (auto simp: known_def split: option.splits)

lemma H_type_application:
  assumes P: "recursion_ok X n b P" and k: "k \<le> n" and i: "tk_kind (tok X i) = SOL_TOKEN_LESS"
    and j: "j < length (in_tokens X)" and A: "\<And>s. known X k None A s \<Longrightarrow> holds (Has T_EXPR e) s"
  shows "H X k (Some i) A (type_application P e j) (Round k (Res T_EXPR) (Res T_EXPR))"
  unfolding type_application_def
  using k i j A by (intro hoare H_type_arguments_here [OF P, THEN H_bind] H_token_end_at [THEN H_call]
      postfix_calls) (auto simp: known_def)

lemma H_malformed:
  assumes i: "tk_kind (tok X i) = SOL_TOKEN_LESS" and A: "\<And>s. known X k None A s \<Longrightarrow> holds (Has T_EXPR e) s"
  shows "H X k (Some i) A (malformed_type_arguments e) (Round k (Res T_EXPR) (Res T_EXPR))"
  unfolding malformed_type_arguments_def sol_parser_recover_expression_type_arguments_def
  using i A by (intro hoare H_loop [OF _ H_recover_step, THEN H_call]) (auto simp: known_def)

lemma H_call_expression:
  assumes P: "recursion_ok X n b P" and k: "k \<le> n" and i: "tk_kind (tok X i) \<noteq> SOL_TOKEN_EOF"
    and A: "\<And>s. known X k None A s \<Longrightarrow> holds (Has T_EXPR e) s"
  shows "H X k (Some i) A (call_expression P e) (Round k (Res T_EXPR) (Res T_EXPR))"
  unfolding call_expression_def
  using k i A by (intro hoare H_argument_list [OF P, THEN H_call] postfix_calls) (auto simp: known_def)

lemma H_record_expression:
  assumes P: "recursion_ok X n b P" and k: "k \<le> n" and i: "tk_kind (tok X i) \<noteq> SOL_TOKEN_EOF"
    and A: "\<And>s. known X k None A s \<Longrightarrow> holds (Has T_EXPR e) s"
  shows "H X k (Some i) A (record_expression P e) (Round k (Res T_EXPR) (Res T_EXPR))"
  unfolding record_expression_def
  using k i A by (intro hoare H_record_fields [OF P, THEN H_call] postfix_calls) (auto simp: known_def)

lemma H_leading_zero: "H X k c A (leading_zero (tok X i)) (\<lambda>_. Pure True)"
proof (rule HI)
  fix s r s'
  assume s: "known X k c A s" and run: "run_state (leading_zero (tok X i)) s = (r, s')"
  from s have src: "ps_source s = in_source X" by (simp add: known_def parser_inv_def)
  have "sp_start (tk_span (tok X i)) < src_length (in_source X)"
    if "size_sub (sp_end (tk_span (tok X i))) (sp_start (tk_span (tok X i))) > 1"
    using that token_span_bounds [OF s, of i] by auto
  with run src have "s' = s" by (auto simp: leading_zero_def split: if_splits)
  with s show "parser_inv X s' \<and> onward X s s' \<and> holds (Pure True) s'" by (simp add: known_def)
qed

lemma H_field_expression:
  assumes i: "tk_kind (tok X i) \<noteq> SOL_TOKEN_EOF" and A: "\<And>s. known X k None A s \<Longrightarrow> holds (Has T_EXPR e) s"
  shows "H X k (Some i) A (field_expression e) (Round k (Res T_EXPR) (Res T_EXPR))"
  unfolding field_expression_def
  using i A by (intro hoare H_leading_zero [THEN H_call] postfix_calls) (auto simp: known_def)

lemma H_propagate_expression:
  assumes i: "tk_kind (tok X i) \<noteq> SOL_TOKEN_EOF" and A: "\<And>s. known X k None A s \<Longrightarrow> holds (Has T_EXPR e) s"
  shows "H X k (Some i) A (propagate_expression e) (Round k (Res T_EXPR) (Res T_EXPR))"
  unfolding propagate_expression_def
  using i A by (intro hoare postfix_calls) (auto simp: known_def)

lemma K_record_brace:
  "K X k (Some i) A (record_brace x kind) (\<lambda>r. Pure (r \<longrightarrow> kind = SOL_TOKEN_LEFT_BRACE))"
  unfolding record_brace_def
  by (intro K_seq [OF K_gets] K_if K_current K_seq [OF K_line_break] K_ret) auto

lemmas postfix_rules = H_type_application H_call_expression H_record_expression

lemma H_postfix_step:
  assumes P: "recursion_ok X n b P" and k: "k \<le> n"
    and A: "\<And>s. known X k None A s \<Longrightarrow> holds (Res T_EXPR e) s"
  shows "H X k None A (postfix_step P e) (Round k (Res T_EXPR) (Res T_EXPR))"
  unfolding postfix_step_def
  using k A by (intro hoare postfix_rules [OF P] H_malformed H_field_expression
      H_propagate_expression K_record_brace [THEN K_bind_pure]) (auto simp: known_def)

lemma H_postfix_expression:
  assumes P: "recursion_ok X n True P" and k: "k \<le> n"
  shows "H X k None A (sol_parser_postfix_expression P) (Res T_EXPR)"
  unfolding sol_parser_postfix_expression_def
  using k by (intro H_primary_expression [OF P, THEN H_call]
      H_loop [OF _ H_postfix_step [OF P], THEN H_tail_call]) (auto simp: known_def)

section \<open>Operators\<close>

lemma H_unary_expression:
  assumes P: "recursion_ok X n True P" and k: "k \<le> n"
  shows "H X k None A (sol_parser_unary_expression P) (Res T_EXPR)"
  unfolding sol_parser_unary_expression_def
  using k by (intro hoare parser_calls [OF P] H_postfix_expression [OF P, THEN H_tail_call])
    (auto simp: known_def)

lemma H_binary_step:
  assumes P: "recursion_ok X n b P" and k: "k \<le> n"
    and A: "\<And>s. known X k None A s \<Longrightarrow> holds (Res T_EXPR e) s"
  shows "H X k None A (binary_step P p e) (Round k (Res T_EXPR) (Res T_EXPR))"
  unfolding binary_step_def
  using k A by (intro hoare parser_calls [OF P])
    (auto simp: known_def sol_parser_binary_precedence_def)

theorem H_expression:
  assumes P: "recursion_ok X n True P" and k: "k \<le> n"
  shows "H X k None A (sol_parser_expression P p) (Res T_EXPR)"
  unfolding sol_parser_expression_def
  using k by (intro hoare H_error_expression H_unary_expression [OF P, THEN H_call]
      H_loop [OF _ H_binary_step [OF P], THEN H_call]) (auto simp: known_def)

section \<open>Progress\<close>

text \<open>The current token is behind one that it was not before.\<close>

lemma moved_on:
  assumes "parser_inv X s" "i \<le> sig s" "sig s \<noteq> i" "within X k i" "tk_kind (tok X i) \<noteq> SOL_TOKEN_EOF"
  shows "rem s < k"
proof -
  have "i < length (in_tokens X)" using assms(5) kind_eof_past by blast
  with assms show ?thesis by (auto simp: within_def rem_def parser_inv_def)
qed

lemma H_ensure_progress:
  assumes i: "within X k i" "tk_kind (tok X i) \<noteq> SOL_TOKEN_EOF"
    and A: "\<And>s. known X k None A s \<Longrightarrow> holds (From i) s"
  shows "H X k None A (ensure_progress i) (\<lambda>_. Below k)"
  unfolding ensure_progress_def
  using A i by (intro hoare) (auto simp: known_def not_le intro: moved_on [OF _ _ _ i])

section \<open>Statements\<close>

lemma H_check_multiline_record:
  assumes "\<And>s. known X k None A s \<Longrightarrow> holds (Res T_EXPR e) s"
  shows "H X k None A (sol_parser_check_multiline_record e) (\<lambda>_. Pure True)"
  unfolding sol_parser_check_multiline_record_def
  using assms by (intro hoare) (auto simp: known_def)

lemmas multiline_calls [hoare] = H_check_multiline_record [THEN H_call]
  H_check_multiline_record [THEN H_tail_call]

text \<open>What may follow an invariant expression that did not start at a closing brace.\<close>

lemma H_invariant_separator:
  assumes i: "within X k i" "tk_kind (tok X i) \<noteq> SOL_TOKEN_EOF" "tk_kind (tok X i) \<noteq> SOL_TOKEN_RIGHT_BRACE"
    and A: "\<And>s. known X k None A s \<Longrightarrow> holds (From i) s"
  shows "H X k None A (invariant_separator sp i) (\<lambda>_. Below k)"
  unfolding invariant_separator_def
  using A i(2,3) by (intro hoare H_ensure_progress [OF i(1,2), THEN H_tail_call])
    (auto simp: known_def intro!: moved_on [OF _ _ _ i(1,2)])

lemma H_loop_invariant_step:
  assumes P: "recursion_ok X n b P"
    and A: "\<And>s. known X k None A s \<Longrightarrow> holds (Both (Below n) (Lst T_INVARIANT l)) s"
  shows "H X k None A (loop_invariant_step P l) (Round k (Lst T_INVARIANT) (Opt T_INVARIANT))"
  unfolding loop_invariant_step_def invariant_expression_step_def
  using A apply (intro hoare nested_calls [OF P] H_invariant_separator [THEN H_call])
  apply (auto simp: known_def)
  done

lemma H_loop_invariant_clause:
  assumes P: "recursion_ok X n b P" and A: "\<And>s. known X k None A s \<Longrightarrow> holds (Below n) s"
  shows "H X k None A (sol_parser_loop_invariant_clause P t) (\<lambda>(_, i). Opt T_INVARIANT i)"
  unfolding sol_parser_loop_invariant_clause_def
  using A by (intro hoare H_loop [OF _ H_loop_invariant_step [OF P], THEN H_call]) (auto simp: known_def)

lemma H_skip_to_brace: "H X k None A (skip_to_brace_step l) (Round k (\<lambda>_. Pure True) (\<lambda>_. Pure True))"
  unfolding skip_to_brace_step_def by (intro hoare) (auto simp: known_def)

lemma H_loop_decreases_clause:
  assumes P: "recursion_ok X n b P" and A: "\<And>s. known X k None A s \<Longrightarrow> holds (Below n) s"
  shows "H X k None A (sol_parser_loop_decreases_clause P t) (\<lambda>(_, i). Opt T_EXPR i)"
  unfolding sol_parser_loop_decreases_clause_def clause_expression_def
  using A by (intro hoare nested_calls [OF P] H_loop [OF _ H_skip_to_brace, THEN H_call])
    (auto simp: known_def)

lemma make_statement_simps [simp]:
  "st_kind (make_statement kind sp) = kind" "st_next (make_statement kind sp) = SOL_AST_NONE"
  by (simp_all add: make_statement_def)

lemma H_typed_var:
  assumes P: "recursion_ok X n b P" and A: "\<And>s. known X k None A s \<Longrightarrow> holds (Below n) s"
  shows "H X k None A (typed_var P) (Typed k)"
  unfolding typed_var_def
  using A by (intro hoare parser_calls [OF P]) (auto simp: known_def split: option.splits)

text \<open>A statement that may be added.\<close>

abbreviation Stmt :: "SolStatement \<Rightarrow> fact" where
  "Stmt st \<equiv> Both (Pure (st_next st = SOL_AST_NONE)) (Either (Refs (stmt_refs (st_kind st))) Bad)"

lemma H_let_statement:
  assumes P: "recursion_ok X n b P" and A: "\<And>s. known X k None A s \<Longrightarrow> holds (Below n) s"
  shows "H X k None A (let_statement P t) Stmt"
  unfolding let_statement_def initializer_def
  using A apply (intro hoare parser_calls [OF P] H_typed_var [OF P, THEN H_call])
  apply (auto simp: known_def split: option.splits)
  done

lemma H_keyword_statement:
  assumes P: "recursion_ok X n b P" and A: "\<And>s. known X k None A s \<Longrightarrow> holds (Below n) s"
    and kind: "\<And>e. stmt_refs (kind e) = [(T_EXPR, e)]"
  shows "H X k None A (keyword_statement P kind t) Stmt"
  unfolding keyword_statement_def
  using A by (intro hoare parser_calls [OF P]) (auto simp: known_def kind)

lemma H_skip_braces: "H X k None A (skip_braces_step d) (Round k (\<lambda>_. Pure True) (\<lambda>_. Pure True))"
  unfolding skip_braces_step_def by (intro hoare) (auto simp: known_def)

lemma H_unreachable_statement:
  assumes P: "recursion_ok X n b P" and A: "\<And>s. known X k None A s \<Longrightarrow> holds (Below n) s"
  shows "H X k None A (unreachable_statement P t) Stmt"
  unfolding unreachable_statement_def unreachable_proof_def clause_expression_def
  using A by (intro hoare nested_calls [OF P] H_loop [OF _ H_skip_braces, THEN H_call])
    (auto simp: known_def)

lemma H_body_statements:
  assumes P: "recursion_ok X n b P" and A: "\<And>s. known X k None A s \<Longrightarrow> holds (Below n) s"
  shows "H X k None A (require_statement P t) Stmt"
    and "H X k None A (region_statement P t) Stmt"
    and "H X k None A (modify_statement P t) Stmt"
  unfolding require_statement_def region_statement_def modify_statement_def
  using A by (intro hoare nested_calls [OF P]; auto simp: known_def)+

text \<open>The clauses of a loop.\<close>

abbreviation Clauses :: "loop_clauses \<Rightarrow> fact" where
  "Clauses lc \<equiv> Both (Opt T_INVARIANT (lc_first_invariant lc)) (Opt T_EXPR (lc_decreases lc))"

lemma H_loop_clause_step:
  assumes P: "recursion_ok X n b P"
    and A: "\<And>s. known X k None A s \<Longrightarrow> holds (Both (Below n) (Clauses lc)) s"
  shows "H X k None A (loop_clause_step P lc) (Round k Clauses Clauses)"
  unfolding loop_clause_step_def invariant_clause_step_def decreases_clause_step_def
  using A by (intro hoare H_loop_invariant_clause [OF P, THEN H_call]
      H_loop_decreases_clause [OF P, THEN H_call]) (auto simp: known_def)

lemma no_clauses_simps [simp]:
  "lc_first_invariant no_clauses = SOL_AST_NONE" "lc_decreases no_clauses = SOL_AST_NONE"
  by (simp_all add: no_clauses_def)

lemma H_loop_statement:
  assumes P: "recursion_ok X n b P" and A: "\<And>s. known X k None A s \<Longrightarrow> holds (Below n) s"
  shows "H X k None A (loop_statement P t) Stmt"
  unfolding loop_statement_def loop_condition_def
  using A by (intro hoare nested_calls [OF P] H_loop [OF _ H_loop_clause_step [OF P], THEN H_call])
    (auto simp: known_def)

lemma H_jump_statement: "H X k None A (jump_statement t) Stmt"
  unfolding jump_statement_def by (intro hoare) (auto simp: known_def)

lemma H_expression_statement:
  assumes P: "recursion_ok X n b P" and A: "\<And>s. known X k None A s \<Longrightarrow> holds (Below n) s"
  shows "H X k None A (expression_statement P t) Stmt"
  unfolding expression_statement_def
  using A by (intro hoare parser_calls [OF P]) (auto simp: known_def)

lemmas statement_rules = H_let_statement H_loop_statement H_expression_statement
  H_keyword_statement [THEN H_tail_call] H_unreachable_statement [THEN H_tail_call]
  H_body_statements [THEN H_tail_call]

lemma H_statement_node:
  assumes P: "recursion_ok X n b P" and A: "\<And>s. known X k None A s \<Longrightarrow> holds (Below n) s"
  shows "H X k None A (statement_node P t) Stmt"
  unfolding statement_node_def matched_statement_def
  using A by (intro hoare statement_rules [OF P] H_jump_statement) (auto simp: known_def)

text \<open>A statement is newer than any statement there was.\<close>

lemma H_statement:
  assumes P: "recursion_ok X n b P" and A: "\<And>s. known X k None A s \<Longrightarrow> holds (Below n) s"
    and j: "\<And>s. p \<Longrightarrow> known X k None A s \<Longrightarrow> holds (Has T_STMT j) s"
  shows "H X k None A (sol_parser_statement P)
    (\<lambda>r. Both (Res T_STMT r) (Given p (Either (Pure (j < r)) Bad)))"
  unfolding sol_parser_statement_def add_defs
  using A j by (intro H_current H_statement_node [OF P, THEN H_call]
      tab_statements.add_K [where p = p and j = j, THEN K_tail]) (auto simp: known_def)

section \<open>Blocks\<close>

lemma K_append_statement:
  assumes "\<And>s. known X k c A s \<Longrightarrow> holds (Both (Lst T_STMT l) (Both (Res T_STMT i)
    (Given (fst l \<noteq> SOL_AST_NONE) (Either (Pure (snd l < i)) Bad)))) s"
  shows "K X k c A (append_statement l i) (Lst T_STMT)"
proof (cases "i = SOL_AST_NONE")
  case False
  have "K X k c A (append_node (\<lambda>i j. table_write tr_statements tr_statements_update i (st_next_update (\<lambda>_. j)))
      (fst l) (snd l) i) (\<lambda>l. Both (Lst T_STMT l) (Pure (fst l \<noteq> SOL_AST_NONE)))"
    using assms False by (intro tab_statements.append_K) auto
  with False show ?thesis
    by (auto simp: append_statement_def link_defs [abs_def] K_def split: prod.splits)
qed (use assms in \<open>auto simp: append_statement_def intro!: K_ret\<close>)

lemma H_block_step:
  assumes P: "recursion_ok X n b P"
    and A: "\<And>s. known X k None A s \<Longrightarrow> holds (Both (Below n) (Lst T_STMT l)) s"
  shows "H X k None A (block_step P l) (Round k (Lst T_STMT) (Opt T_STMT))"
  unfolding block_step_def
  using A by (intro hoare H_statement [OF P, where p = "fst l \<noteq> SOL_AST_NONE" and j = "snd l", THEN H_call]
      K_append_statement [THEN K_bind] H_ensure_progress [THEN H_call]) (auto simp: known_def)

lemma H_block_body:
  assumes P: "recursion_ok X n b P" and A: "\<And>s. known X k None A s \<Longrightarrow> holds (Below n) s"
  shows "H X k None A (do {
      first \<leftarrow> loop SOL_AST_NONE (block_step P) (SOL_AST_NONE, SOL_AST_NONE);
      closing \<leftarrow> sol_parser_current;
      sol_parser_expect SOL_TOKEN_RIGHT_BRACE message;
      ret (first, closing) }) (\<lambda>(i, _). Opt T_STMT i)"
  using A by (intro hoare H_loop [OF _ H_block_step [OF P], THEN H_call]) (auto simp: known_def)

theorem H_block:
  assumes P: "recursion_ok X n b P" and k: "k \<le> n"
  shows "H X k None A (sol_parser_block_expression P) (Res T_EXPR)"
  unfolding sol_parser_block_expression_def block_statements_def
  using k by (intro hoare H_with_suppression [OF H_block_body [OF P], THEN H_call] H_error_expression)
    (auto simp: known_def)

section \<open>The recursion\<close>

theorem parsers_ok: "2 * n + (if b then 1 else 0) \<le> d \<Longrightarrow> recursion_ok X n b (sol_parsers_upto d)"
proof (induction d arbitrary: n b)
  case 0
  then show ?case by (simp add: recursion_ok_def split: if_splits)
next
  case (Suc d)
  have below: "recursion_ok X k True (sol_parsers_upto d)" if "k < n" for k
    using Suc.IH [of k True] Suc.prems that by (auto split: if_splits)
  have here: "recursion_ok X n False (sol_parsers_upto d)" if b
    using Suc.IH [of n False] Suc.prems that by simp
  show ?case
    unfolding recursion_ok_def sol_parsers_upto.simps Let_def sol_parsers.select_convs
    using below here
    by (auto intro: H_expression [OF _ order.refl] H_type [OF _ order.refl]
        H_pattern [OF _ order.refl] H_block [OF _ order.refl])
qed

end
