(* ===== verification/Sol_ContractRules.thy ===== *)
theory Sol_ContractRules
  imports Sol_StmtRules
begin

text \<open>
  Contract clauses in the logic. The loop over the conditions of a clause reads the clause
  back to see whether it has a condition already; while a condition is parsed the clauses
  are frozen, and between two conditions only this clause changes.
\<close>

section \<open>Frozen clauses\<close>

definition freeze :: "parse_input \<Rightarrow> parse_input" where
  "freeze X = X\<lparr>in_frozen := True\<rparr>"

lemma freeze_simps [simp]:
  "in_source (freeze X) = in_source X" "in_tokens (freeze X) = in_tokens X" "in_frozen (freeze X)"
  by (simp_all add: freeze_def)

lemma freeze_inv [simp]: "parser_inv (freeze X) s \<longleftrightarrow> parser_inv X s"
  by (simp add: parser_inv_def)

lemma freeze_known [simp]: "known (freeze X) k c A s \<longleftrightarrow> known X k c A s"
  by (simp add: known_def)

lemma freeze_within [simp]: "within (freeze X) k i \<longleftrightarrow> within X k i"
  by (simp add: within_def)

lemma freeze_onward:
  "onward (freeze X) s s' \<Longrightarrow> onward X s s' \<and> nodes (ps_tree s') T_CLAUSE = nodes (ps_tree s) T_CLAUSE"
  by (simp add: onward_def)

section \<open>One condition\<close>

text \<open>The tokens of a condition are consumed, or its first one is still there to be skipped.\<close>

abbreviation Started :: "parse_input \<Rightarrow> nat \<Rightarrow> size_t \<Rightarrow> fact" where
  "Started X k i \<equiv> Either (Below k) (Both (From i) (Pure (within X k i \<and>
     tk_kind (tok X i) \<noteq> SOL_TOKEN_EOF \<and> tk_kind (tok X i) \<noteq> SOL_TOKEN_RIGHT_BRACE)))"

lemma H_condition_separator:
  assumes A: "\<And>s. known X k None A s \<Longrightarrow> holds (Started X k i) s"
  shows "H X k None A (condition_separator e i) (\<lambda>_. Below k)"
proof (rule HI)
  fix s r s'
  assume s: "known X k None A s" and run: "run_state (condition_separator e i) s = (r, s')"
  from A [OF s] consider (moved) "holds (Below k) s" | (first) "holds (From i) s" "within X k i"
    "tk_kind (tok X i) \<noteq> SOL_TOKEN_EOF" "tk_kind (tok X i) \<noteq> SOL_TOKEN_RIGHT_BRACE" by auto
  then show "parser_inv X s' \<and> onward X s s' \<and> holds (Below k) s'"
  proof cases
    case moved
    have "H X k None (Both A (Below k)) (condition_separator e i) (\<lambda>_. Below k)"
      unfolding condition_separator_def ensure_progress_def by (intro hoare) (auto simp: known_def)
    from H_run [OF this _ run] s moved show ?thesis by (simp add: known_def)
  next
    case first
    have "H X k None (Both A (From i)) (condition_separator e i) (\<lambda>_. Below k)"
      unfolding condition_separator_def
      using first(3,4) by (intro hoare H_ensure_progress [OF first(2,3), THEN H_tail_call])
        (auto simp: known_def intro!: moved_on [OF _ _ _ first(2,3)])
    from H_run [OF this _ run] s first(1) show ?thesis by (simp add: known_def)
  qed
qed

lemma H_condition_outcome:
  assumes "tk_kind (tok X i) \<noteq> SOL_TOKEN_EOF"
  shows "H X k (Some i) A (condition_outcome kind t) (\<lambda>_. Either (Below k) (From i))"
  unfolding condition_outcome_def using assms by (intro hoare) (auto simp: known_def)

abbreviation Condition :: "parse_input \<Rightarrow> nat \<Rightarrow> size_t \<Rightarrow> size_t \<times> size_t \<times> size_t \<Rightarrow> fact" where
  "Condition X k latest \<equiv> (\<lambda>(c, _, j). Both (Both (Has T_CONDITION c) (Pure (c \<noteq> SOL_AST_NONE)))
     (Both (Started X k j) (Given (latest \<noteq> SOL_AST_NONE) (Either (Pure (latest < c)) Bad))))"

lemma H_condition_entry:
  assumes P: "recursion_ok X n b P"
    and A: "\<And>s. known X k None A s \<Longrightarrow> holds (Both (Both (Below n) (Started X k j))
      (Both (Has T_CLAUSE clause) (Opt T_CONDITION latest))) s"
  shows "H X k None A (condition_entry P clause t outcome j) (Orelse (Condition X k latest))"
  unfolding condition_entry_def add_defs
  using A by (intro hoare parser_calls [OF P]
      tab_contract_conditions.add_K [where p = "latest \<noteq> SOL_AST_NONE" and j = latest, THEN K_bind])
    (auto simp: known_def)

lemma H_condition_node:
  assumes P: "recursion_ok X n b P"
    and A: "\<And>s. known X k None A s \<Longrightarrow> holds (Both (Below n) (Both (Has T_CLAUSE clause)
      (Opt T_CONDITION latest))) s"
    and i: "within X k i" "tk_kind (tok X i) \<noteq> SOL_TOKEN_EOF" "tk_kind (tok X i) \<noteq> SOL_TOKEN_RIGHT_BRACE"
  shows "H X k (Some i) A (condition_node P kind clause) (Orelse (Condition X k latest))"
  unfolding condition_node_def
proof (intro H_current H_condition_outcome [THEN H_bind] H_significant_index)
  fix outcome j
  let ?A = "Both (Both A (Either (Below k) (From i))) (From j)"
  have started: "holds (Started X k j) s" if "known X k (Some j) ?A s" for s
    using that i by (cases "j = i") (auto simp: known_def intro: moved_on)
  show "H X k (Some j) ?A (condition_entry P clause (tok X i) outcome j) (Orelse (Condition X k latest))"
  proof (rule H_note [OF started])
    show "H X k (Some j) (Both ?A (Started X k j)) (condition_entry P clause (tok X i) outcome j)
        (Orelse (Condition X k latest))"
      by (rule H_weaken [OF H_condition_entry [OF P, where A = "Both ?A (Started X k j)" and k = k]])
        (use A in \<open>auto simp: known_def\<close>)
  qed
qed (use i in auto)

section \<open>The conditions of a clause\<close>

text \<open>A clause without a condition, as long as none has been appended.\<close>

definition unset :: "size_t \<Rightarrow> size_t \<Rightarrow> SolParser \<Rightarrow> bool" where
  "unset clause latest s \<longleftrightarrow>
     latest = SOL_AST_NONE \<longrightarrow> nd_refs (nodes (ps_tree s) T_CLAUSE ! clause) = []"

lemma unset_first:
  assumes "clause < entries (ps_tree s) T_CLAUSE" "unset clause SOL_AST_NONE s"
  shows "cl_first_condition (tb_memory (tr_contract_clauses (ps_tree s)) ! clause) = SOL_AST_NONE"
  using assms by (auto simp: unset_def tab_contract_clauses.view_get plain_node_def maybe_def
      split: if_splits)

lemma K_set_first:
  assumes "\<not> in_frozen X"
    and "\<And>s. known X k c A s \<Longrightarrow> holds (Both (Has T_CLAUSE clause) (Has T_CONDITION i)) s"
  shows "K X k c A (set_first_condition clause i) (\<lambda>_. Pure True)"
  unfolding set_first_condition_def
  using assms by (intro tab_contract_clauses.write_K) auto

lemma K_link_condition:
  assumes "\<And>s. known X k c A s \<Longrightarrow> holds (Both (Both (Has T_CONDITION latest) (Has T_CONDITION i))
    (Either (Pure (latest < i)) Bad)) s"
  shows "K X k c A (link_contract_condition latest i) (\<lambda>_. Pure True)"
  unfolding link_defs
  using assms by (intro tab_contract_conditions.link_K) auto

lemma append_condition_inv:
  assumes X: "\<not> in_frozen X" and s: "known X k None A s" and u: "unset clause latest s"
    and A: "\<And>s. known X k None A s \<Longrightarrow> holds (Both (Both (Has T_CLAUSE clause) (Opt T_CONDITION latest))
      (Both (Has T_CONDITION i) (Given (latest \<noteq> SOL_AST_NONE) (Either (Pure (latest < i)) Bad)))) s"
    and run: "run_state (append_condition clause latest i) s = (r, s')"
  shows "parser_inv X s' \<and> onward X s s' \<and> sig s' = sig s"
proof -
  let ?first = "cl_first_condition (tb_memory (tr_contract_clauses (ps_tree s)) ! clause)"
  have clause: "clause < length (tb_memory (tr_contract_clauses (ps_tree s)))"
    using A [OF s] by (simp add: tab_contract_clauses.view_get)
  with run have run: "run_state (if ?first = SOL_AST_NONE then set_first_condition clause i
      else link_contract_condition latest i) s = (r, s')"
    by (simp add: append_condition_def clause_first_condition_def table_read_def)
  have "K X k None A (if ?first = SOL_AST_NONE then set_first_condition clause i
      else link_contract_condition latest i) (\<lambda>_. Pure True)"
  proof (rule K_if)
    show "K X k None A (set_first_condition clause i) (\<lambda>_. Pure True)"
      using A by (intro K_set_first [OF X]) auto
  next
    assume "?first \<noteq> SOL_AST_NONE"
    then have "latest \<noteq> SOL_AST_NONE" using unset_first u A [OF s] by auto
    then show "K X k None A (link_contract_condition latest i) (\<lambda>_. Pure True)"
      using A by (intro K_link_condition) auto
  qed
  with s run show ?thesis by (force simp: K_def)
qed

lemma H_contract_head:
  assumes P: "recursion_ok X n b P"
    and A: "\<And>s. known X k None A s \<Longrightarrow> holds (Both (Below n) (Both (Has T_CLAUSE clause)
      (Opt T_CONDITION latest))) s"
  shows "H X k None A (contract_head P kind clause latest) (\<lambda>r. case r of
      Inl x \<Rightarrow> Round k (\<lambda>l. Pure (l = latest)) (\<lambda>ok. Given (\<not> ok) Bad) x
    | Inr c \<Rightarrow> Condition X k latest c)"
  unfolding contract_head_def
  using A by (intro hoare H_condition_node [OF P, where latest = latest, THEN H_bind])
    (auto simp: known_def split: option.splits)

lemma contract_step_inv:
  assumes X: "\<not> in_frozen X" and P: "recursion_ok (freeze X) n b P"
    and A: "\<And>s. known X k None A s \<Longrightarrow> holds (Both (Below n) (Both (Has T_CLAUSE clause)
      (Opt T_CONDITION l))) s"
    and s: "known X k None A s" and u: "unset clause l s"
    and run: "run_state (contract_step P kind clause l) s = (x, s')"
  shows "parser_inv X s' \<and> onward X s s' \<and> (case x of
      Inl l' \<Rightarrow> rem s' < rem s \<and> holds (Opt T_CONDITION l') s' \<and> unset clause l' s'
    | Inr ok \<Rightarrow> holds (Given (\<not> ok) Bad) s')"
proof -
  let ?k = "rem s" and ?B = "\<lambda>r. case r of Inl x \<Rightarrow> Round (rem s) (\<lambda>l'. Pure (l' = l)) (\<lambda>ok. Given (\<not> ok) Bad) x
    | Inr c \<Rightarrow> Condition (freeze X) (rem s) l c"
  from s have sk: "known X ?k None A s" by (simp add: known_def)
  have Ak: "holds (Both (Below n) (Both (Has T_CLAUSE clause) (Opt T_CONDITION l))) s"
    if "known X ?k None A s" for s using that A s by (simp add: known_def)
  obtain h s1 where head: "run_state (contract_head P kind clause l) s = (h, s1)"
    by (cases "run_state (contract_head P kind clause l) s")
  have "H (freeze X) ?k None A (contract_head P kind clause l) ?B"
    using Ak by (intro H_contract_head [OF P]) simp
  from H_run [OF this _ head] sk have s1: "parser_inv X s1" "onward X s s1" "holds (?B h) s1"
    "nodes (ps_tree s1) T_CLAUSE = nodes (ps_tree s) T_CLAUSE"
    using freeze_onward [of X s s1] by auto
  have u1: "unset clause l s1" using u s1(4) by (simp add: unset_def)
  show ?thesis
  proof (cases h)
    case (Inl r)
    with run head have "x = r" "s' = s1" by (simp_all add: contract_step_def)
    with s1 u1 Inl A [OF s] show ?thesis
      using holds_onward [of "Opt T_CONDITION l", OF _ s1(2)] by (auto split: sum.splits)
  next
    case (Inr c)
    obtain i e j where c: "c = (i, e, j)" by (cases c) auto
    let ?A1 = "Both A (Condition (freeze X) ?k l c)"
    have k1: "known X ?k None ?A1 s1" using known_onward [OF sk s1(2,1)] s1(3) Inr by simp
    obtain u2 s2 where app: "run_state (append_condition clause l i) s1 = (u2, s2)"
      by (cases "run_state (append_condition clause l i) s1")
    have s2: "parser_inv X s2" "onward X s1 s2"
      using append_condition_inv [OF X k1 u1 _ app] Ak c by (auto simp: known_def)
    have k2: "known X ?k None ?A1 s2"
      using known_onward [OF k1 s2(2,1), of "Pure True"] by (simp add: known_def)
    obtain u3 s3 where sep: "run_state (condition_separator e j) s2 = (u3, s3)"
      by (cases "run_state (condition_separator e j) s2")
    have "H X ?k None ?A1 (condition_separator e j) (\<lambda>_. Below ?k)"
      using c by (intro H_condition_separator) (auto simp: known_def)
    note s3 = H_run [OF this k2 sep]
    have "x = Inl i" "s' = s3" using run head Inr c app sep by (simp_all add: contract_step_def)
    moreover have "holds ?A1 s3" using k2 s3 by (auto simp: known_def intro: holds_onward)
    ultimately show ?thesis
      using s1(2) s2(2) s3 c by (auto simp: unset_def intro: onward_trans)
  qed
qed

lemma contract_loop_inv:
  assumes X: "\<not> in_frozen X" and P: "recursion_ok (freeze X) n b P"
    and A: "\<And>s. known X k None A s \<Longrightarrow> holds (Both (Below n) (Has T_CLAUSE clause)) s"
    and s: "known X k None A s" "unset clause SOL_AST_NONE s"
    and run: "run_state (loop d (contract_step P kind clause) SOL_AST_NONE) s = (r, s')"
  shows "parser_inv X s' \<and> onward X s s' \<and> holds (Given (\<not> r) Bad) s'"
proof (rule loop_inv [where I = "Opt T_CONDITION" and Q = "unset clause" and A = A and k = k, OF _ _ s(2) run])
  show "known X k None (Both A (Opt T_CONDITION SOL_AST_NONE)) s" using s(1) by (simp add: known_def)
  fix l s x s1
  assume s: "known X k None (Both A (Opt T_CONDITION l)) s" "unset clause l s"
    "run_state (contract_step P kind clause l) s = (x, s1)"
  show "parser_inv X s1 \<and> onward X s s1 \<and> (case x of
      Inl l' \<Rightarrow> rem s1 < rem s \<and> holds (Opt T_CONDITION l') s1 \<and> unset clause l' s1
    | Inr ok \<Rightarrow> holds (Given (\<not> ok) Bad) s1)"
    by (rule contract_step_inv [OF X P _ s]) (use A in \<open>simp add: known_def\<close>)
qed

lemma K_set_clause_end:
  assumes "\<not> in_frozen X" "\<And>s. known X k c A s \<Longrightarrow> holds (Has T_CLAUSE clause) s"
  shows "K X k c A (set_clause_end clause e) (\<lambda>_. Pure True)"
  unfolding set_clause_end_def
  using assms by (intro tab_contract_clauses.write_K) auto

lemma contract_conditions_inv:
  assumes X: "\<not> in_frozen X" and P: "recursion_ok (freeze X) n b P"
    and A: "\<And>s. known X k None A s \<Longrightarrow> holds (Both (Below n) (Has T_CLAUSE clause)) s"
    and s: "known X k None A s" "unset clause SOL_AST_NONE s"
    and run: "run_state (contract_conditions P kind clause) s = (r, s')"
  shows "parser_inv X s' \<and> onward X s s' \<and> holds (Given (\<not> r) Bad) s'"
proof -
  obtain ok s1 where loop: "run_state (loop False (contract_step P kind clause) SOL_AST_NONE) s = (ok, s1)"
    by (metis prod.collapse)
  note s1 = contract_loop_inv [OF X P A s loop]
  let ?rest = "if \<not> ok then ret False
    else do {
      closing \<leftarrow> sol_parser_current;
      closed \<leftarrow> sol_parser_expect SOL_TOKEN_RIGHT_BRACE ''expected '}' after contract conditions'';
      set_clause_end clause (sp_end (tk_span closing));
      ret closed }"
  have "H X k None (Both A (Given (\<not> ok) Bad)) ?rest (\<lambda>r. Given (\<not> r) Bad)"
    using A by (intro hoare K_set_clause_end [OF X, THEN K_bind]) (auto simp: known_def)
  moreover have "known X k None (Both A (Given (\<not> ok) Bad)) s1" using s1 by (intro known_onward [OF s(1)]) auto
  moreover have "run_state ?rest s1 = (r, s')" using run loop by (simp add: contract_conditions_def)
  ultimately have "parser_inv X s' \<and> onward X s1 s' \<and> holds (Given (\<not> r) Bad) s'" by (rule H_run)
  with s1 show ?thesis by (auto intro: onward_trans)
qed

section \<open>Clauses\<close>

text \<open>A new clause is newer than any clause there was and has no condition.\<close>

abbreviation Newer :: "bool \<Rightarrow> size_t \<Rightarrow> size_t \<Rightarrow> fact" where
  "Newer p j r \<equiv> Both (Has T_CLAUSE r) (Given p (Either (Pure (j < r)) Bad))"

lemma add_clause_unset:
  assumes "parser_inv X s" "run_state (sol_parser_add_contract_clause x) s = (i, s')"
    and "cl_first_condition x = SOL_AST_NONE" "i \<noteq> SOL_AST_NONE" "i < entries (ps_tree s') T_CLAUSE"
  shows "unset i SOL_AST_NONE s'"
proof -
  have "table_safe (in_source X) (ps_tree s) T_CLAUSE" using assms(1) by (simp add: parser_inv_def)
  then have "tb_memory (tr_contract_clauses (ps_tree s')) ! i = x"
    using assms(2,4) unfolding add_defs
    by (intro tab_contract_clauses.add_content) (auto simp: table_safe_def tab_contract_clauses.view_get)
  with assms(3,5) show ?thesis
    by (simp add: unset_def tab_contract_clauses.view_get plain_node_def maybe_def)
qed

lemma with_context_inv:
  assumes m: "\<And>s1 s2. known X k None A s1 \<Longrightarrow> nodes (ps_tree s1) = nodes (ps_tree s) \<Longrightarrow>
      run_state m s1 = (r, s2) \<Longrightarrow> parser_inv X s2 \<and> onward X s1 s2 \<and> holds b s2"
    and s: "known X k None A s" and run: "run_state (with_context context m) s = (r, s')"
  shows "parser_inv X s' \<and> onward X s s' \<and> holds b s'"
proof -
  let ?s1 = "s\<lparr>ps_contract_context := context\<rparr>"
  obtain s2 where s2: "run_state m ?s1 = (r, s2)" "s' = s2\<lparr>ps_contract_context := ps_contract_context s\<rparr>"
    using run by (auto simp: with_context_def split: prod.splits)
  have inv: "parser_inv X s" using s by (simp add: known_def)
  have q: "quiet (\<lambda>s. s\<lparr>ps_contract_context := c\<rparr>)" for c by (simp add: quiet_def)
  note k1 = quiet_keeps [OF q inv]
  have "known X k None A ?s1"
    using known_onward [OF s k1(2,1), of "Pure True"] by (simp add: known_def)
  from m [OF this _ s2(1)] have inv2: "parser_inv X s2" "onward X ?s1 s2" "holds b s2" by auto
  note k2 = quiet_keeps [OF q inv2(1)]
  show ?thesis
    unfolding s2(2) using k1(2) inv2(2) k2 holds_onward [OF inv2(3) k2(2)]
    by (blast intro: onward_trans)
qed

lemma H_clause_conditions:
  assumes X: "\<not> in_frozen X" and P: "recursion_ok (freeze X) n b P"
    and A: "\<And>s. known X k None A s \<Longrightarrow> holds (Below n) s"
    and j: "\<And>s. p \<Longrightarrow> known X k None A s \<Longrightarrow> holds (Has T_CLAUSE j) s"
    and x: "cl_first_condition x = SOL_AST_NONE" "cl_next x = SOL_AST_NONE"
  shows "H X k None A (do {
      clause \<leftarrow> sol_parser_add_contract_clause x;
      if clause = SOL_AST_NONE then ret None
      else do {
        closed \<leftarrow> with_context context (contract_conditions P kind clause);
        ret (if closed then Some clause else None)
      } }) (Orelse (Newer p j))"
proof (rule HI)
  fix s r s'
  assume s: "known X k None A s" and run: "run_state (do {
      clause \<leftarrow> sol_parser_add_contract_clause x;
      if clause = SOL_AST_NONE then ret None
      else do {
        closed \<leftarrow> with_context context (contract_conditions P kind clause);
        ret (if closed then Some clause else None)
      } }) s = (r, s')"
  have inv: "parser_inv X s" using s by (simp add: known_def)
  obtain i s1 where add: "run_state (sol_parser_add_contract_clause x) s = (i, s1)" by (metis prod.collapse)
  have "K X k None A (sol_parser_add_contract_clause x)
      (\<lambda>r. Both (Res T_CLAUSE r) (Given p (Either (Pure (j < r)) Bad)))"
    unfolding add_defs using X x j by (intro tab_contract_clauses.add_K) auto
  with s add have s1: "parser_inv X s1" "onward X s s1"
    "holds (Both (Res T_CLAUSE i) (Given p (Either (Pure (j < i)) Bad))) s1" by (force simp: K_def)+
  show "parser_inv X s' \<and> onward X s s' \<and> holds (Orelse (Newer p j) r) s'"
  proof (cases "i = SOL_AST_NONE")
    case True
    then show ?thesis using run add s1 none_not_entry [OF s1(1)] by auto
  next
    case False
    let ?A = "Both A (Newer p j i)"
    have k1: "known X k None ?A s1" using s1 False by (intro known_onward [OF s]) auto
    have u: "unset i SOL_AST_NONE s1"
      using s1(3) False by (intro add_clause_unset [OF inv add x(1)]) auto
    obtain closed where closed: "run_state (with_context context (contract_conditions P kind i)) s1 = (closed, s')"
      "r = (if closed then Some i else None)"
      using run add False by (auto split: prod.splits)
    have rest: "parser_inv X s' \<and> onward X s1 s' \<and> holds (Given (\<not> closed) Bad) s'"
    proof (rule with_context_inv [OF _ k1 closed(1)])
      fix s2 s3
      assume s2: "known X k None ?A s2" "nodes (ps_tree s2) = nodes (ps_tree s1)"
        "run_state (contract_conditions P kind i) s2 = (closed, s3)"
      have "unset i SOL_AST_NONE s2" using u s2(2) by (simp add: unset_def)
      then show "parser_inv X s3 \<and> onward X s2 s3 \<and> holds (Given (\<not> closed) Bad) s3"
        using A by (intro contract_conditions_inv [OF X P _ s2(1) _ s2(3)]) (simp_all add: known_def)
    qed
    then have "holds ?A s'" using known_D(3) [OF k1] holds_onward by blast
    with rest show ?thesis using closed(2) s1(2) by (auto intro: onward_trans)
  qed
qed

theorem H_contract_clause:
  assumes X: "\<not> in_frozen X" and P: "recursion_ok (freeze X) n b P"
    and A: "\<And>s. known X k None A s \<Longrightarrow> holds (Below n) s"
    and j: "\<And>s. p \<Longrightarrow> known X k None A s \<Longrightarrow> holds (Has T_CLAUSE j) s"
  shows "H X k None A (sol_parser_contract_clause P kind w q t) (Orelse (Newer p j))"
  unfolding sol_parser_contract_clause_def
  using A j by (intro H_current H_expect H_if_known H_ret H_clause_conditions [OF X P])
    (auto simp: known_def)

end
