(* ===== verification/Sol_DeclRules.thy ===== *)
theory Sol_DeclRules
  imports Sol_ContractRules
begin

text \<open>
  The parts of declarations in the logic: fields, parameters, generic parameters, the
  clauses of a function and functions (\<open>Sol_ParserDecl\<close> and \<open>Sol_ParserItem\<close>).
\<close>

section \<open>Fields and parameters\<close>

lemma H_balanced_step: "H X k None A (balanced_step d) (Round k (\<lambda>_. Pure True) (\<lambda>_. Pure True))"
  unfolding balanced_step_def by (intro hoare) (auto simp: known_def)

lemma H_balanced_block: "H X k None A (sol_parser_balanced_block m) (\<lambda>ok. Given (\<not> ok) Bad)"
  unfolding sol_parser_balanced_block_def
  by (intro hoare H_loop [OF _ H_balanced_step, THEN H_call]) (auto simp: known_def)

text \<open>A name with its type; the name is a token of the source.\<close>

abbreviation Named :: "parse_input \<Rightarrow> nat \<Rightarrow> SolToken \<times> SolAccessMode \<times> SolSpan \<times> SolTypeId \<Rightarrow> fact" where
  "Named X k \<equiv> (\<lambda>(t, _, _, i). Both (Pure (span_in (in_source X) (tk_span t))) (Both (Ate k) (Has T_TYPE i)))"

lemma H_named_type:
  assumes P: "recursion_ok X n b P" and A: "\<And>s. known X k None A s \<Longrightarrow> holds (Below n) s"
    and access: "\<And>A. H X k None A access (\<lambda>_. Pure True)"
  shows "H X k None A (named_type P m m' access) (Orelse (Named X k))"
  unfolding named_type_def
  using A by (intro hoare parser_calls [OF P] access [THEN H_call])
    (auto simp: known_def span_in_def split: option.splits)

lemma H_no_access: "H X k None A (ret SOL_ACCESS_OWNED) (\<lambda>_. Pure True)"
  by (intro hoare) simp

lemma H_field_step:
  assumes P: "recursion_ok X n b P" and closing: "closing \<noteq> SOL_TOKEN_EOF"
    and A: "\<And>s. known X k None A s \<Longrightarrow> holds (Both (Below n) (Lst T_FIELD l)) s"
  shows "H X k None A (field_step P closing l) (Round k (Lst T_FIELD) (Orelse (Opt T_FIELD)))"
  unfolding field_step_def
  using A closing by (intro hoare H_named_type [OF P _ H_no_access, THEN H_call])
    (auto simp: known_def list_round_def split: option.splits)

lemma H_named_type_list:
  assumes P: "recursion_ok X n b P" and closing: "closing \<noteq> SOL_TOKEN_EOF"
    and A: "\<And>s. known X k None A s \<Longrightarrow> holds (Below n) s"
  shows "H X k None A (sol_parser_named_type_list P closing) (Orelse (Opt T_FIELD))"
  unfolding sol_parser_named_type_list_def
  using A closing by (intro hoare H_loop [OF _ H_field_step [OF P], THEN H_tail_call])
    (auto simp: known_def)

lemma H_parameter_step:
  assumes P: "recursion_ok X n b P"
    and A: "\<And>s. known X k None A s \<Longrightarrow> holds (Both (Below n) (Lst T_PARAM l)) s"
  shows "H X k None A (parameter_step P l) (Round k (Lst T_PARAM) (Orelse (Opt T_PARAM)))"
  unfolding parameter_step_def
  using A by (intro hoare H_named_type [OF P _ H_parameter_access, THEN H_call])
    (auto simp: known_def list_round_def split: option.splits)

lemma H_parameters:
  assumes P: "recursion_ok X n b P" and A: "\<And>s. known X k None A s \<Longrightarrow> holds (Below n) s"
  shows "H X k None A (sol_parser_parameters P) (Orelse (Opt T_PARAM))"
  unfolding sol_parser_parameters_def
  using A by (intro hoare H_loop [OF _ H_parameter_step [OF P], THEN H_tail_call])
    (auto simp: known_def)

section \<open>Generic parameters\<close>

lemma H_skip_generic: "H X k None A (skip_generic_step d) (Round k (\<lambda>_. Pure True) (\<lambda>_. Pure True))"
  unfolding skip_generic_step_def by (intro hoare) (auto simp: known_def)

lemmas skip_generic_calls = H_loop [OF _ H_skip_generic, THEN H_call]
  H_loop [OF _ H_skip_generic, THEN H_tail_call]

lemma H_generic_name: "H X k None A (generic_name e) (Orelse (\<lambda>_. Ate k))"
  unfolding generic_name_def generic_bound_def reject_generic_default_def
  by (intro hoare skip_generic_calls) (auto simp: known_def)

abbreviation Generics :: "generic_state \<Rightarrow> fact" where
  "Generics g \<equiv> Both (Lst T_TYPE_PARAM (gs_first g, gs_last g)) (Opt T_EFFECT_PARAM (gs_first_effect g))"

lemma H_store_generic:
  assumes "\<And>s. known X k None A s \<Longrightarrow> holds (Generics g) s"
  shows "H X k None A (store_generic ts es e t sp g) (Orelse Generics)"
  unfolding store_generic_def store_effect_parameter_def store_type_parameter_def
  using assms by (intro hoare) (auto simp: known_def split: option.splits)

lemma H_check_generic_order: "H X k None A (check_generic_order e d) (\<lambda>_. Pure True)"
  unfolding check_generic_order_def by (intro hoare) (auto simp: known_def)

lemma H_generic_step:
  assumes "\<And>s. known X k None A s \<Longrightarrow> holds (Generics g) s"
  shows "H X k None A (generic_step ts es g) (Round k Generics (Orelse Generics))"
  unfolding generic_step_def
  using assms by (intro hoare H_check_generic_order [THEN H_call] H_generic_name [THEN H_call]
      H_store_generic [THEN H_call]) (auto simp: known_def split: option.splits)

lemma H_generic_parameters:
  "H X k None A (sol_parser_generic_parameters ts es)
     (Orelse (\<lambda>(i, j). Both (Opt T_TYPE_PARAM i) (Opt T_EFFECT_PARAM j)))"
  unfolding sol_parser_generic_parameters_def
  by (intro hoare H_loop [OF _ H_generic_step, THEN H_call])
    (auto simp: known_def no_generics_def split: option.splits)

lemmas generic_calls [hoare] = H_generic_parameters [THEN H_call]

section \<open>Authority clauses\<close>

lemma H_expect_identifier_text:
  "H X k None A (sol_parser_expect_identifier_text tx m) (\<lambda>ok. Given (\<not> ok) Bad)"
  unfolding sol_parser_expect_identifier_text_def by (intro hoare) (auto simp: known_def)

lemma H_authority_source:
  "H X k None A authority_source
     (\<lambda>(ok, t). Both (Given (\<not> ok) Bad) (Pure (span_in (in_source X) (tk_span t))))"
  unfolding authority_source_def
  by (intro hoare H_expect_identifier_text [THEN H_call]) (auto simp: known_def span_in_def)

lemma H_authority_recover:
  "H X k None A (authority_recover_step l) (Round k (\<lambda>_. Pure True) (\<lambda>_. Pure True))"
  unfolding authority_recover_step_def by (intro hoare) (auto simp: known_def)

lemma param_node_safe [simp]:
  "node_safe src t (param_node p) \<longleftrightarrow> pa_type_id p < entries t T_TYPE \<and> span_in src (pa_name p)"
  by (simp add: node_safe_def param_node_def plain_node_def)

lemma K_parameter_at:
  "(\<And>s. known X k c A s \<Longrightarrow> i < entries (ps_tree s) T_PARAM) \<Longrightarrow>
   K X k c A (parameter_at i) (\<lambda>p. Sound (param_node p))"
  unfolding parameter_at_def by (rule tab_parameters.read_K)

lemma H_same_text:
  assumes "\<And>s. known X k None A s \<Longrightarrow> span_in (in_source X) a \<and> span_in (in_source X) b"
  shows "H X k None A (same_text a b) (\<lambda>_. Pure True)"
proof (rule HI)
  fix s r s'
  assume s: "known X k None A s" and run: "run_state (same_text a b) s = (r, s')"
  from assms [OF s] s have "s' = s"
    using run by (auto simp: same_text_def Let_def span_in_def known_def parser_inv_def split: if_splits)
  with s show "parser_inv X s' \<and> onward X s s' \<and> holds (Pure True) s'" by (simp add: known_def)
qed

lemma H_find_parameter:
  assumes "\<And>s. known X k None A s \<Longrightarrow> holds (Both (Upto T_PARAM m) (Pure (span_in (in_source X) sp))) s"
  shows "H X k None A (find_parameter d m sp i) (Opt T_PARAM)"
  using assms
proof (induction d arbitrary: A i)
  case (Suc d)
  show ?case
    unfolding find_parameter.simps
    using Suc.prems by (intro hoare K_parameter_at [THEN K_bind] H_same_text [THEN H_call]
        Suc.IH [THEN H_tail_call]) (fastforce simp: known_def parser_inv_def)+
qed (auto intro: H_ret)

abbreviation FunctionClauses :: "function_clauses \<Rightarrow> fact" where
  "FunctionClauses fc \<equiv> Both (Opt T_EFFECT (fc_first_effect fc))
     (Both (Lst T_CLAUSE (fc_first_contract fc, fc_last_contract fc))
       (Opt T_PARAM (fc_authority_parameter fc)))"

lemma H_parameter_authority:
  assumes "\<And>s. known X k None A s \<Longrightarrow> holds (Both (FunctionClauses fc) (Pure (span_in (in_source X) (tk_span t)))) s"
  shows "H X k None A (parameter_authority t e i fc) FunctionClauses"
  unfolding parameter_authority_def
  supply H_gets [hoare del]
  using assms by (intro hoare tab_parameters.count_K [THEN K_bind] H_find_parameter [THEN H_call]
      K_parameter_at [THEN K_bind]) (auto simp: known_def)

lemma H_apply_authority:
  assumes "\<And>s. known X k None A s \<Longrightarrow> holds (Both (Both (FunctionClauses fc) (Has T_TYPE q))
    (Pure (span_in (in_source X) (tk_span t')))) s"
  shows "H X k None A (apply_authority e i q t t' fc) FunctionClauses"
  unfolding apply_authority_def member_authority_def
  using assms by (intro hoare H_parameter_authority [THEN H_tail_call]) (auto simp: known_def)

lemma H_authority_clause:
  assumes A: "\<And>s. known X k None A s \<Longrightarrow> holds (Both (FunctionClauses fc) (Has T_TYPE q)) s"
    and j: "tk_kind (tok X j) \<noteq> SOL_TOKEN_EOF"
  shows "H X k (Some j) A (authority_clause e e' i q t fc) (Orelse (\<lambda>fc. Both (Ate k) (FunctionClauses fc)))"
  unfolding authority_clause_def
  using A j by (intro hoare H_balanced_block [THEN H_call] H_authority_source [THEN H_call]
      H_loop [OF _ H_authority_recover, THEN H_call] H_apply_authority [THEN H_call])
    (auto simp: known_def)

section \<open>Contracts and effects of a function\<close>

lemma K_append_clause:
  assumes X: "\<not> in_frozen X"
    and A: "\<And>s. known X k c A s \<Longrightarrow> holds (Both (Lst T_CLAUSE (f, l)) (Newer (f \<noteq> SOL_AST_NONE) l i)) s"
  shows "K X k c A (append_node link_contract_clause f l i)
    (\<lambda>l. Both (Lst T_CLAUSE l) (Pure (fst l \<noteq> SOL_AST_NONE)))"
proof (cases "i = SOL_AST_NONE")
  case True
  then have "\<not> known X k c A s" for s using A [of s] none_not_entry [of X s] by (auto simp: known_def)
  then show ?thesis by (simp add: K_def)
next
  case False
  have "K X k c A (append_node (\<lambda>i j. table_write tr_contract_clauses tr_contract_clauses_update i
      (cl_next_update (\<lambda>_. j))) (fst (f, l)) (snd (f, l)) i)
    (\<lambda>l. Both (Lst T_CLAUSE l) (Pure (fst l \<noteq> SOL_AST_NONE)))"
    by (rule tab_contract_clauses.append_K [OF _ _ False]) (use X A in auto)
  then show ?thesis by (simp add: link_defs [abs_def])
qed

lemma note_clause_simps [simp]:
  "fc_first_effect (note_clause n fc) = fc_first_effect fc"
  "fc_first_contract (note_clause n fc) = fc_first_contract fc"
  "fc_last_contract (note_clause n fc) = fc_last_contract fc"
  "fc_authority_parameter (note_clause n fc) = fc_authority_parameter fc"
  by (simp_all add: note_clause_def)

lemma H_effects_clause:
  assumes "\<And>s. known X k None A s \<Longrightarrow> holds (FunctionClauses fc) s"
  shows "H X k None A (effects_clause w q fc) (Orelse FunctionClauses)"
  unfolding effects_clause_def
  using assms by (intro hoare) (auto simp: known_def split: option.splits)

text \<open>The productions a declaration calls, with the clauses free and frozen.\<close>

definition parsers_safe :: "parse_input \<Rightarrow> nat \<Rightarrow> sol_parsers \<Rightarrow> bool" where
  "parsers_safe X n P \<longleftrightarrow>
     \<not> in_frozen X \<and> recursion_ok X n False P \<and> recursion_ok (freeze X) n False P"

lemma parsers_safe_D:
  assumes "parsers_safe X n P"
  shows "\<not> in_frozen X" "recursion_ok X n False P" "recursion_ok (freeze X) n False P"
  using assms by (simp_all add: parsers_safe_def)

lemma H_function_contract:
  assumes P: "parsers_safe X n P"
    and A: "\<And>s. known X k None A s \<Longrightarrow> holds (Both (Below n) (FunctionClauses fc)) s"
  shows "H X k None A (contract_clause P e e' q t m fc) (Orelse FunctionClauses)"
  unfolding contract_clause_def
  using A by (intro hoare H_balanced_block [THEN H_call]
    H_contract_clause [OF parsers_safe_D(1,3) [OF P], where p = "fc_first_contract fc \<noteq> SOL_AST_NONE"
      and j = "fc_last_contract fc", THEN H_call]
    K_append_clause [OF parsers_safe_D(1) [OF P], THEN K_bind]) (auto simp: known_def)

lemma clause_number_eof [simp]: "clause_number SOL_TOKEN_EOF = 0"
  by (simp add: clause_number_def)

lemma H_ordinary_clause:
  assumes P: "parsers_safe X n P" and k: "k \<le> n"
    and A: "\<And>s. known X k None A s \<Longrightarrow> holds (FunctionClauses fc) s"
  shows "H X k None A (ordinary_clause P mode fc) (Round k FunctionClauses (Orelse FunctionClauses))"
  unfolding ordinary_clause_def check_clause_order_def
  using k A by (intro hoare H_effects_clause [THEN H_call] H_function_contract [OF P, THEN H_call])
    (auto simp: known_def split: option.splits)

lemma H_function_clause_step:
  assumes P: "parsers_safe X n P" and k: "k \<le> n"
    and A: "\<And>s. known X k None A s \<Longrightarrow> holds (Both (FunctionClauses fc) (Has T_TYPE q)) s"
  shows "H X k None A (function_clause_step P mode i q fc) (Round k FunctionClauses (Orelse FunctionClauses))"
  unfolding function_clause_step_def
  using k A by (intro hoare H_authority_clause [THEN H_bind] H_ordinary_clause [OF P, THEN H_tail_call])
    (auto simp: known_def split: option.splits)

section \<open>Functions\<close>

lemma H_function_signature:
  assumes P: "parsers_safe X n P" and A: "\<And>s. known X k None A s \<Longrightarrow> holds (Below n) s"
  shows "H X k None A (function_signature P) (Orelse (\<lambda>(i, _, t). Both (Opt T_PARAM i) (Has T_TYPE t)))"
  unfolding function_signature_def
  using A by (intro hoare H_parameters [OF parsers_safe_D(2) [OF P], THEN H_call]
      parser_calls [OF parsers_safe_D(2) [OF P]]) (auto simp: known_def split: option.splits)

abbreviation Header :: "function_header \<Rightarrow> fact" where
  "Header h \<equiv> Both (Both (Opt T_TYPE_PARAM (fh_type_parameter h)) (Opt T_EFFECT_PARAM (fh_effect_parameter h)))
     (Both (Opt T_PARAM (fh_first_parameter h)) (Has T_TYPE (fh_return_type_id h)))"

lemma H_function_head:
  assumes P: "parsers_safe X n P" and A: "\<And>s. known X k None A s \<Longrightarrow> holds (Below n) s"
  shows "H X k None A (function_head P e) (Orelse Header)"
  unfolding function_head_def
  using A by (intro hoare H_function_signature [OF P, THEN H_call])
    (auto simp: known_def split: option.splits)

lemma H_function_body:
  assumes P: "parsers_safe X n P" and A: "\<And>s. known X k None A s \<Longrightarrow> holds (Below n) s"
  shows "H X k None A (function_body P mode) (Orelse (\<lambda>i.
    Both (Opt T_EXPR i) (Given (\<not> fm_member mode) (Has T_EXPR i))))"
  unfolding function_body_def
  using A by (intro hoare parser_calls [OF parsers_safe_D(2) [OF P]]) (auto simp: known_def)

text \<open>A function that parsed; one that did not has consumed its keyword or has none.\<close>

abbreviation Function :: "nat \<Rightarrow> function_mode \<Rightarrow> parsed_function \<Rightarrow> fact" where
  "Function k mode f \<equiv> Both (Ate k) (Both (Both (Header (pf_header f)) (FunctionClauses (pf_clauses f)))
     (Both (Opt T_EXPR (pf_body f)) (Given (\<not> fm_member mode) (Has T_EXPR (pf_body f)))))"

lemma no_function_clauses_simps [simp]:
  "fc_first_effect no_function_clauses = SOL_AST_NONE"
  "fc_first_contract no_function_clauses = SOL_AST_NONE"
  "fc_authority_parameter no_function_clauses = SOL_AST_NONE"
  by (simp_all add: no_function_clauses_def)

lemma H_function_rest:
  assumes P: "parsers_safe X n P" and k: "k \<le> n"
    and A: "\<And>s. known X k None A s \<Longrightarrow> holds (Both (Both (Below n) (Ate k)) (Header h)) s"
  shows "H X k None A (function_rest P mode t h) (Orelse (Function k mode))"
  unfolding function_rest_def
  using k A by (intro hoare H_loop [OF _ H_function_clause_step [OF P], THEN H_call]
      H_function_body [OF P, THEN H_call]) (auto simp: known_def)

lemma H_function_at:
  assumes P: "parsers_safe X n P" and k: "k \<le> n" and i: "tk_kind (tok X i) = SOL_TOKEN_FUNCTION"
  shows "H X k (Some i) A (sol_parser_function P mode)
    (\<lambda>r. Both (Ate k) (Orelse (Function k mode) r))"
  unfolding sol_parser_function_def
  using k i by (intro hoare H_function_head [OF P, THEN H_call] H_function_rest [OF P, THEN H_tail_call])
    (auto simp: known_def split: option.splits)

lemma H_function_not:
  assumes i: "tk_kind (tok X i) \<noteq> SOL_TOKEN_FUNCTION"
  shows "H X k (Some i) A (sol_parser_function P mode) (\<lambda>r. Both (Pure (r = None)) Bad)"
  unfolding sol_parser_function_def
  using i by (intro hoare) (auto simp: known_def)

theorem H_function:
  assumes P: "parsers_safe X n P" and k: "k \<le> n"
  shows "H X k None A (sol_parser_function P mode) (Orelse (Function k mode))"
  unfolding sol_parser_function_def
  using k by (intro hoare H_function_head [OF P, THEN H_call] H_function_rest [OF P, THEN H_tail_call])
    (auto simp: known_def split: option.splits)

end
