(* ===== verification/Sol_ItemRules.thy ===== *)
theory Sol_ItemRules
  imports Sol_DeclRules
begin

text \<open>
  Declarations in the logic (\<open>Sol_ParserItem\<close> and \<open>Sol_Parse\<close>): types, records, enums,
  capabilities, traits and implementations, with the recovery after their errors.
\<close>

section \<open>Items\<close>

lemma nd_refs_plain [simp]: "nd_refs (plain_node rs l) = rs"
  by (simp add: plain_node_def)

text \<open>An item that may be added, and the outcome of a production for one.\<close>

abbreviation Item :: "nat \<Rightarrow> SolSyntaxItem option \<Rightarrow> fact" where
  "Item k \<equiv> Orelse (\<lambda>it. Both (Below k) (Refs (nd_refs (item_node it))))"

lemmas item_simps = item_required_def empty_item_def

lemma H_declaration_name:
  assumes i: "tk_kind (tok X i) \<noteq> SOL_TOKEN_EOF"
  shows "H X k (Some i) A (declaration_name m) (Orelse (\<lambda>(_, _, j). Both (Ate k) (Opt T_TYPE_PARAM j)))"
  unfolding declaration_name_def
  using i by (intro hoare) (auto simp: known_def split: option.splits)

lemma H_span_to_previous:
  assumes "\<And>s. known X k None A s \<Longrightarrow> 0 < ps_cursor s"
  shows "H X k None A (span_to_previous t) (\<lambda>_. Pure True)"
  unfolding span_to_previous_def using assms by (intro hoare) auto

lemma H_record:
  assumes P: "parsers_safe X n P" and k: "k \<le> n" and i: "tk_kind (tok X i) \<noteq> SOL_TOKEN_EOF"
  shows "H X k (Some i) A (sol_parser_record P) (Item k)"
  unfolding sol_parser_record_def
  using k i by (intro hoare H_declaration_name [THEN H_bind]
      H_named_type_list [OF parsers_safe_D(2) [OF P], THEN H_call] H_span_to_previous [THEN H_call])
    (auto simp: known_def item_simps)

lemma H_variant_step:
  assumes P: "parsers_safe X n P"
    and A: "\<And>s. known X k None A s \<Longrightarrow> holds (Both (Below n) (Lst T_VARIANT l)) s"
  shows "H X k None A (variant_step P l) (Round k (Lst T_VARIANT) (Orelse (Opt T_VARIANT)))"
  unfolding variant_step_def variant_fields_def
  using A by (intro hoare H_named_type_list [OF parsers_safe_D(2) [OF P], THEN H_call])
    (auto simp: known_def list_round_def split: option.splits)

lemma H_enum:
  assumes P: "parsers_safe X n P" and k: "k \<le> n" and i: "tk_kind (tok X i) \<noteq> SOL_TOKEN_EOF"
  shows "H X k (Some i) A (sol_parser_enum P e) (Item k)"
  unfolding sol_parser_enum_def enum_variants_def
  using k i by (intro hoare H_declaration_name [THEN H_bind]
      H_loop [OF _ H_variant_step [OF P], THEN H_call] H_span_to_previous [THEN H_call])
    (auto simp: known_def item_simps)

section \<open>Type declarations\<close>

lemma H_declaration_flavor: "H X k None A declaration_flavor (Orelse (\<lambda>_. Pure True))"
  unfolding declaration_flavor_def by (intro hoare) (auto simp: known_def)

lemma H_refinement_clause:
  assumes X: "\<not> in_frozen X" and A: "\<And>s. known X k None A s \<Longrightarrow> holds (Has T_EXPR e) s"
  shows "H X k None A (refinement_clause t e sp) (Orelse (\<lambda>(_, i). Has T_CLAUSE i))"
  unfolding refinement_clause_def
  using X A by (intro hoare K_set_first [THEN K_bind]) (auto simp: known_def)

lemma H_refinement_predicate:
  assumes P: "parsers_safe X n P" and A: "\<And>s. known X k None A s \<Longrightarrow> holds (Below n) s"
  shows "H X k None A (refinement_predicate P) (Orelse (\<lambda>(_, i). Has T_CLAUSE i))"
proof -
  have in_context: "H X k None A (with_context c (parse_expression P p)) (Res T_EXPR)"
    if "\<And>s. known X k None A s \<Longrightarrow> holds (Below n) s" for k A c p
    using that by (intro H_with_context H_parsers(1) [OF parsers_safe_D(2) [OF P]])
  show ?thesis
    unfolding refinement_predicate_def
    using A by (intro hoare in_context [THEN H_call]
        H_refinement_clause [OF parsers_safe_D(1) [OF P], THEN H_tail_call])
      (auto simp: known_def expr_node_def)
qed

lemma H_type_representation:
  assumes P: "parsers_safe X n P"
    and A: "\<And>s. known X k None A s \<Longrightarrow> holds (Both (Both (Below n) (Below k)) (Opt T_TYPE_PARAM j)) s"
  shows "H X k None A (type_representation P t sp j fl) (Item k)"
  unfolding type_representation_def type_predicate_def reject_distinct_predicate_def reject_using_def
  using A by (intro hoare parser_calls [OF parsers_safe_D(2) [OF P]] H_refinement_predicate [OF P, THEN H_call])
    (auto simp: known_def item_simps)

lemma H_type_declaration:
  assumes P: "parsers_safe X n P" and k: "k \<le> n" and i: "tk_kind (tok X i) \<noteq> SOL_TOKEN_EOF"
  shows "H X k (Some i) A (sol_parser_type_declaration P) (Item k)"
  unfolding sol_parser_type_declaration_def
  using k i by (intro hoare H_declaration_name [THEN H_bind] H_declaration_flavor [THEN H_call]
      H_type_representation [OF P, THEN H_tail_call]) (auto simp: known_def)

section \<open>Restored counts\<close>

context syntax_table
begin

lemma back_to:
  assumes "\<And>T. live mark T \<le> entries t T" "truncated t u"
  shows "truncated t (back_to mark get upd u)"
  unfolding back_to_def using assms(1) [of T] by (intro truncate assms) (simp add: live_get)

end

lemma truncated_restore_method:
  assumes "\<And>T. live mark T \<le> entries t T" "truncated t u"
  shows "truncated t (restore_method mark u)"
  unfolding restore_method_def o_def
  using assms by (intro tab_match_arms.back_to tab_pattern_bindings.back_to tab_patterns.back_to
      tab_arguments.back_to tab_statements.back_to tab_expressions.back_to tab_effects.back_to
      tab_type_arguments.back_to tab_types.back_to tab_parameters.back_to)

lemma truncated_restore_member:
  assumes "\<And>T. live mark T \<le> entries t T" "truncated t u"
  shows "truncated t (restore_member mark u)"
  unfolding restore_member_def o_def
  using assms by (intro tab_contract_conditions.back_to tab_contract_clauses.back_to
      tab_effect_parameters.back_to tab_type_parameters.back_to truncated_restore_method)

lemma truncated_restore_declaration:
  assumes "\<And>T. live mark T \<le> entries t T" "truncated t u"
  shows "truncated t (restore_declaration mark u)"
  unfolding restore_declaration_def o_def
  using assms by (intro tab_trait_methods.back_to tab_capability_members.back_to tab_variants.back_to
      tab_fields.back_to truncated_restore_member)

lemma K_restore:
  assumes "\<And>s. known X k c A s \<Longrightarrow> holds (Both Bad (Since mark)) s"
  shows "K X k c A (modify (ps_tree_update (restore_member mark))) (\<lambda>_. Pure True)"
    and "K X k c A (modify (ps_tree_update (restore_declaration mark))) (\<lambda>_. Pure True)"
  using assms by (auto intro!: K_truncate truncated_restore_member truncated_restore_declaration truncated_refl
      simp: known_def)

section \<open>Capabilities\<close>

lemma H_capability_source:
  assumes P: "parsers_safe X n P" and A: "\<And>s. known X k None A s \<Longrightarrow> holds (Below n) s"
  shows "H X k None A (capability_source P) (Orelse (\<lambda>(_, i). Opt T_PARAM i))"
  unfolding capability_source_def
  using A by (intro hoare H_named_type [OF parsers_safe_D(2) [OF P], THEN H_call])
    (auto simp: known_def split: option.splits)

text \<open>The position a production starts at, when it may set the cursor back or give up there.\<close>

lemma H_kind_from:
  assumes "\<And>i. within X k i \<Longrightarrow> H X k (Some i) (Both A (From i)) (f (tk_kind (tok X i))) B"
  shows "H X k None A (State_Monad.bind sol_parser_kind f) B"
  using assms by (intro H_kind(1)) (rule H_weaken, auto simp: known_def)

lemma H_function_try:
  assumes P: "parsers_safe X n P" and k: "k \<le> n"
  shows "H X k (Some i) A (sol_parser_function P mode) (\<lambda>r. Both
    (Given (tk_kind (tok X i) = SOL_TOKEN_FUNCTION) (Ate k)) (Orelse (Function k mode) r))"
proof (cases "tk_kind (tok X i) = SOL_TOKEN_FUNCTION")
  case True
  then show ?thesis by (intro H_conseq [OF H_function_at [OF P k]]) (auto simp: known_def)
next
  case False
  then show ?thesis by (intro H_conseq [OF H_function_not]) (auto simp: known_def)
qed

lemma H_skip_member:
  assumes i: "within X k i" "tk_kind (tok X i) \<noteq> SOL_TOKEN_EOF" "tk_kind (tok X i) \<noteq> SOL_TOKEN_RIGHT_BRACE"
    and A: "\<And>s. known X k None A s \<Longrightarrow> holds (Both (Both Bad (Since mark)) (Both (From i)
      (Given (tk_kind (tok X i) = SOL_TOKEN_FUNCTION) (Ate k)))) s"
  shows "H X k None A (skip_member mark) (\<lambda>_. Below k)"
  unfolding skip_member_def
  using A i by (intro K_restore(1) [THEN K_bind] hoare) (auto simp: known_def intro: moved_on [OF _ _ _ i(1,2)])

lemma H_member_step:
  assumes P: "parsers_safe X n P" and k: "k \<le> n" and A: "\<And>s. known X k None A s \<Longrightarrow> holds (Lst T_MEMBER l) s"
  shows "H X k None A (member_step P derived l) (Round k (Lst T_MEMBER) (Orelse (Opt T_MEMBER)))"
  unfolding member_step_def
  supply H_gets [hoare del] H_kind [hoare del]
  apply (intro hoare H_kind_from K_mark [THEN K_bind] H_function_try [OF P k, THEN H_bind])
  subgoal using A by (auto simp: known_def)
  subgoal for i mark using A by (intro H_skip_member [where i = i, THEN H_call] hoare) (auto simp: known_def)
  subgoal by (simp add: known_def make_member_def)
  subgoal using A by (auto simp: known_def)
  subgoal by (simp add: known_def split: option.split_asm)
  done

lemma H_capability_members:
  assumes P: "parsers_safe X n P" and k: "k \<le> n"
  shows "H X k None A (capability_members P derived) (Orelse (\<lambda>i. Both (Ate k) (Opt T_MEMBER i)))"
  unfolding capability_members_def
  using k by (intro hoare H_loop [OF _ H_member_step [OF P], THEN H_call]) (auto simp: known_def)

lemma H_capability_rest:
  assumes P: "parsers_safe X n P" and k: "k \<le> n" and A: "\<And>s. known X k None A s \<Longrightarrow> holds (Below n) s"
  shows "H X k None A (capability_rest P t sp) (Item k)"
  unfolding capability_rest_def
  using k A by (intro hoare H_capability_source [OF P, THEN H_call] H_capability_members [OF P, THEN H_call]
      H_span_to_previous [THEN H_call]) (auto simp: known_def item_simps)

lemma H_capability:
  assumes P: "parsers_safe X n P" and k: "k \<le> n" and i: "tk_kind (tok X i) \<noteq> SOL_TOKEN_EOF"
  shows "H X k (Some i) A (sol_parser_capability P) (Item k)"
  unfolding sol_parser_capability_def
  using k i by (intro hoare H_capability_rest [OF P, THEN H_tail_call]) (auto simp: known_def)

section \<open>Traits and implementations\<close>

text \<open>The recovery behind a method that starts at a token that is not the end of the methods.\<close>

lemma H_recover_method_step:
  assumes i: "within X m i" "tk_kind (tok X i) \<noteq> SOL_TOKEN_EOF" "tk_kind (tok X i) \<noteq> SOL_TOKEN_RIGHT_BRACE"
    and k: "k \<le> m"
    and A: "\<And>s. known X k None A s \<Longrightarrow> holds (Both (From i) ((\<lambda>(_, _, _, b). Given (\<not> b) (Below m)) l)) s"
  shows "H X k None A (recover_method_step l)
    (Round k (\<lambda>(_, _, _, b). Given (\<not> b) (Below m)) (\<lambda>_. Below m))"
proof (cases l)
  case (fields a b c d)
  show ?thesis
    unfolding recover_method_step_def fields
    using k A [unfolded fields] i(2,3) by (intro hoare) (auto simp: known_def intro: moved_on [OF _ _ _ i(1,2)])
qed

lemma H_recover_method:
  assumes i: "within X k i" "tk_kind (tok X i) \<noteq> SOL_TOKEN_EOF" "tk_kind (tok X i) \<noteq> SOL_TOKEN_RIGHT_BRACE"
  shows "H X k (Some i) A (loop () recover_method_step (0, 0, 0, True)) (\<lambda>_. Below k)"
proof (rule H_note [where b = "From i"])
  show "H X k (Some i) (Both A (From i)) (loop () recover_method_step (0, 0, 0, True)) (\<lambda>_. Below k)"
    by (intro H_loop [where I = "\<lambda>(_, _, _, b). Given (\<not> b) (Below k)"] H_recover_method_step [OF i])
      (auto simp: known_def)
qed (auto simp: known_def)

text \<open>An attempt at a method, and the recovery from its failure at the token it started with.\<close>

lemma run_restart_method:
  "run_state (restart_method mark i) s = run_state (loop () recover_method_step (0, 0, 0, True))
     (s\<lparr>ps_tree := restore_method mark (ps_tree s), ps_cursor := i\<rparr>)"
  by (simp add: restart_method_def sol_parser_recover_trait_method_def)
    (rule arg_cong [where f = "run_state _"], simp)

lemma H_attempt_method:
  assumes attempt: "\<And>mark. H X k (Some i) A (m mark) (Orelse B)"
    and stored: "\<And>x. H X k None (Both A (B x)) (f x) C"
    and again: "H X k (Some i) (Both A Bad) (State_Monad.bind (loop () recover_method_step (0, 0, 0, True)) g) C"
  shows "H X k (Some i) A (do {
      method_start \<leftarrow> sol_parser_significant_index;
      mark \<leftarrow> gets ps_tree;
      parsed \<leftarrow> m mark;
      case parsed of
        None \<Rightarrow> State_Monad.bind (restart_method mark method_start) g
      | Some x \<Rightarrow> f x }) C" (is "H _ _ _ _ ?m _")
proof (rule HI)
  fix s r s'
  assume s: "known X k (Some i) A s" and run: "run_state ?m s = (r, s')"
  let ?s0 = "s\<lparr>ps_cursor := sig s\<rparr>"
  from s have i: "sig s = i" by (simp add: known_def)
  have s0: "known X k (Some i) A ?s0" "onward X s ?s0"
    using known_cursor [OF s] by (simp_all add: i)
  then have s0': "known X k None A ?s0" by (simp add: known_def i)
  obtain x s1 where m: "run_state (m (ps_tree s)) ?s0 = (x, s1)"
    by (cases "run_state (m (ps_tree s)) ?s0")
  note s1 = HD [OF attempt s0(1) m]
  show "parser_inv X s' \<and> onward X s s' \<and> holds (C r) s'"
  proof (cases x)
    case (Some y)
    with s1 have "known X k None (Both A (B y)) s1" by (intro known_onward [OF s0']) auto
    moreover have "run_state (f y) s1 = (r, s')" using run m Some by simp
    ultimately show ?thesis using HD [OF stored] s1(2) s0(2) by (blast intro: onward_trans)
  next
    case None
    let ?s2 = "s1\<lparr>ps_tree := restore_method (ps_tree s) (ps_tree s1), ps_cursor := ps_cursor ?s0\<rparr>"
    from s s1(2) have "live (ps_tree s) T \<le> entries (ps_tree s1) T" for T
      by (auto simp: known_def parser_inv_def table_safe_def onward_def grows_def intro: order.trans)
    then have "truncated (ps_tree s1) (restore_method (ps_tree s) (ps_tree s1))"
      using truncated_refl [OF s1(1)] by (rule truncated_restore_method)
    moreover have "failed s1" using s1(3) None by simp
    ultimately have rewound: "known X k (Some i) (Both A Bad) ?s2" "onward X ?s0 ?s2"
      using rewind [OF s0(1) s1(2,1)] by blast+
    have "run_state (State_Monad.bind (loop () recover_method_step (0, 0, 0, True)) g) ?s2 = (r, s')"
      using run m None by (simp add: run_restart_method)
    from HD [OF again rewound(1) this] rewound(2) s0(2) show ?thesis by (blast intro: onward_trans)
  qed
qed

abbreviation Method :: "nat \<Rightarrow> parsed_function \<Rightarrow> fact" where
  "Method k f \<equiv> Both (Ate k) (Both (Both (Header (pf_header f)) (FunctionClauses (pf_clauses f)))
     (Opt T_EXPR (pf_body f)))"

lemma H_store_method:
  assumes A: "\<And>s. known X k None A s \<Longrightarrow> holds (Both (Method k f) (Lst T_METHOD l)) s"
  shows "H X k None A (store_method f l) (Round k (Lst T_METHOD) (Orelse (Opt T_METHOD)))"
  unfolding store_method_def
  apply (intro hoare)
  subgoal using A by (auto simp: known_def make_method_def)
  subgoal using A by (auto simp: known_def)
  subgoal using A by (auto simp: known_def split: option.split_asm)
  done

lemma H_method_step:
  assumes P: "parsers_safe X n P" and k: "k \<le> n" and A: "\<And>s. known X k None A s \<Longrightarrow> holds (Lst T_METHOD l) s"
  shows "H X k None A (method_step P b l) (Round k (Lst T_METHOD) (Orelse (Opt T_METHOD)))"
  unfolding method_step_def
  supply H_significant_index [hoare del] H_gets [hoare del]
  apply (intro hoare H_attempt_method [where B = "Method k"] H_recover_method [THEN H_bind]
      H_function [OF P k, THEN H_tail_call] H_store_method)
  using A apply (auto simp: known_def split: option.split_asm)
  done

lemma H_trait_head:
  assumes P: "parsers_safe X n P" and A: "\<And>s. known X k None A s \<Longrightarrow> holds (Below n) s"
  shows "H X k None A (trait_head P b t t') (Orelse (\<lambda>(_, i). Both (Opt T_TYPE i) (Given b (Has T_TYPE i))))"
  unfolding trait_head_def
  using A by (intro hoare parser_calls [OF parsers_safe_D(2) [OF P]]) (auto simp: known_def split: option.splits)

lemma H_trait_methods:
  assumes P: "parsers_safe X n P" and k: "k \<le> n"
  shows "H X k None A (trait_methods P b) (Orelse (\<lambda>i. Both (Ate k) (Opt T_METHOD i)))"
  unfolding trait_methods_def
  using k by (intro hoare H_loop [OF _ H_method_step [OF P], THEN H_call]) (auto simp: known_def)

lemma H_trait_rest:
  assumes P: "parsers_safe X n P" and k: "k \<le> n" and A: "\<And>s. known X k None A s \<Longrightarrow> holds (Below n) s"
  shows "H X k None A (trait_rest P b t t') (Item k)"
  unfolding trait_rest_def
  using k A by (intro hoare H_trait_head [OF P, THEN H_call] H_trait_methods [OF P, THEN H_call]
      H_span_to_previous [THEN H_call]) (auto simp: known_def item_simps)

lemma H_trait_like:
  assumes P: "parsers_safe X n P" and k: "k \<le> n" and i: "tk_kind (tok X i) \<noteq> SOL_TOKEN_EOF"
  shows "H X k (Some i) A (sol_parser_trait_like P b) (Item k)"
  unfolding sol_parser_trait_like_def
  using k i by (intro hoare H_trait_rest [OF P, THEN H_tail_call]) (auto simp: known_def)

section \<open>Annotations\<close>

lemma H_annotation:
  assumes i: "tk_kind (tok X i) \<noteq> SOL_TOKEN_EOF"
  shows "H X k (Some i) A sol_parser_annotation (\<lambda>_. Ate k)"
  unfolding sol_parser_annotation_def string_annotation_def reject_entry_arguments_def
  using i by (intro hoare) (auto simp: known_def)

lemma H_note_annotation: "H X k c A (note_annotation an l) (\<lambda>_. Pure True)"
  unfolding note_annotation_def
  by (cases "an_kind an"; cases l) (auto intro!: hoare simp: known_def)

lemma H_annotation_step:
  "H X k None A (annotation_step l) (Round k (\<lambda>_. Pure True) (\<lambda>_. Pure True))"
  unfolding annotation_step_def
  by (intro hoare H_annotation [THEN H_bind] H_note_annotation [THEN H_call]) (auto simp: known_def)

end
