(* ===== verification/Sol_FileRules.thy ===== *)
theory Sol_FileRules
  imports Sol_ItemRules
begin

text \<open>
  Declarations, the header and the file in the logic (\<open>Sol_Parse\<close>): every round of the loop
  over the declarations consumes a token, also the ones that end in an error.
\<close>

section \<open>Kinds of declarations\<close>

lemma H_function_declaration:
  assumes P: "parsers_safe X n P" and k: "k \<le> n"
  shows "H X k None A (function_declaration P) (Item k)"
  unfolding function_declaration_def
  by (intro hoare H_function [OF P k, THEN H_call])
    (auto simp: known_def item_simps function_item_def split: option.split_asm)

lemma H_test_declaration:
  assumes P: "parsers_safe X n P" and k: "k \<le> n" and i: "tk_kind (tok X i) \<noteq> SOL_TOKEN_EOF"
  shows "H X k (Some i) A (test_declaration P j b) (Item k)"
  unfolding test_declaration_def
  using k i by (intro hoare parser_calls [OF parsers_safe_D(2) [OF P]]) (auto simp: known_def item_simps)

lemma H_open_declaration:
  assumes P: "parsers_safe X n P" and k: "k \<le> n" and i: "tk_kind (tok X i) \<noteq> SOL_TOKEN_EOF"
  shows "H X k (Some i) A (open_declaration P) (case_sum (\<lambda>_. Below k) (Item k))"
  unfolding open_declaration_def
  using k i by (intro hoare H_enum [OF P, THEN H_bind]) (auto simp: known_def)

lemma H_closed_declaration:
  assumes P: "parsers_safe X n P" and k: "k \<le> n"
  shows "H X k (Some i) A (closed_declaration P j b) (Item k)"
  unfolding closed_declaration_def
  using k by (intro hoare H_type_declaration [OF P] H_record [OF P] H_enum [OF P] H_capability [OF P]
      H_trait_like [OF P] H_function_declaration [OF P, THEN H_tail_call] H_test_declaration [OF P])
    (auto simp: known_def)

lemma H_declaration_item:
  assumes P: "parsers_safe X n P" and k: "k \<le> n"
  shows "H X k None A (declaration_item P j b) (case_sum (\<lambda>_. Below k) (Item k))"
  unfolding declaration_item_def
  using k by (intro hoare H_open_declaration [OF P] H_closed_declaration [OF P, THEN H_bind])
    (auto simp: known_def)

section \<open>Declarations\<close>

lemma finish_item_simps [simp]:
  "it_kind (finish_item i sp e e' it) = it_kind it"
  "it_body (finish_item i sp e e' it) = it_body it"
  "it_first_parameter (finish_item i sp e e' it) = it_first_parameter it"
  "it_return_type_id (finish_item i sp e e' it) = it_return_type_id it"
  "it_first_field (finish_item i sp e e' it) = it_first_field it"
  "it_first_variant (finish_item i sp e e' it) = it_first_variant it"
  "it_first_effect (finish_item i sp e e' it) = it_first_effect it"
  "it_first_contract (finish_item i sp e e' it) = it_first_contract it"
  "it_representation_type (finish_item i sp e e' it) = it_representation_type it"
  "it_first_member (finish_item i sp e e' it) = it_first_member it"
  "it_result_authority_parameter (finish_item i sp e e' it) = it_result_authority_parameter it"
  "it_capability_source (finish_item i sp e e' it) = it_capability_source it"
  "it_first_type_parameter (finish_item i sp e e' it) = it_first_type_parameter it"
  "it_first_effect_parameter (finish_item i sp e e' it) = it_first_effect_parameter it"
  "it_implementation_type (finish_item i sp e e' it) = it_implementation_type it"
  "it_first_trait_method (finish_item i sp e e' it) = it_first_trait_method it"
  by (simp_all add: finish_item_def Let_def)

lemma finish_item_required [simp]: "item_required (finish_item i sp e e' it) = item_required it"
  by (simp add: item_required_def split: SolItemKind.split)

lemma K_add_item:
  assumes "\<And>s. known X k c A s \<Longrightarrow> holds (Refs (nd_refs (item_node it))) s"
  shows "K X k c A (sol_parser_add_item it) (\<lambda>_. Pure True)"
  unfolding sol_parser_add_item_def
  using assms by (intro K_seq [OF tab_items.add_entry] K_ret) auto

lemma K_add_import: "K X k c A (sol_parser_add_import im) (\<lambda>_. Pure True)"
  unfolding sol_parser_add_import_def sol_parser_grow_def
  by (intro K_seq [OF tab_imports.add_entry] K_ret) auto

lemma H_recover_declaration:
  assumes i: "within X k i" "tk_kind (tok X i) \<noteq> SOL_TOKEN_EOF"
    and A: "\<And>s. known X k None A s \<Longrightarrow> holds (From i) s"
  shows "H X k None A (sol_parser_recover_declaration i) (\<lambda>_. Below k)"
proof -
  have step: "H X m None A (recover_declaration_step l) (Round m (\<lambda>_. Pure True) (\<lambda>_. Pure True))" for m A l
    unfolding recover_declaration_step_def by (intro hoare) (auto simp: known_def needs_declaration_def)
  show ?thesis
    unfolding sol_parser_recover_declaration_def
    using A by (intro H_ensure_progress [OF i, THEN H_call] H_loop [OF _ step, THEN H_tail_call])
      (auto simp: known_def)
qed

lemma H_keep_declaration:
  assumes i: "within X k i" "tk_kind (tok X i) \<noteq> SOL_TOKEN_EOF"
    and A: "\<And>s. known X k None A s \<Longrightarrow> holds (Both (Both (From i) (Since mark)) (Item k it)) s"
  shows "H X k None A (keep_declaration mark i it) (\<lambda>_. Below k)"
  unfolding keep_declaration_def
  using A by (intro hoare K_add_item [THEN K_bind] K_restore(2) [THEN K_bind]
      H_recover_declaration [OF i]) (auto simp: known_def)

lemma H_declaration:
  assumes P: "parsers_safe X n P" and k: "k \<le> n" and i: "tk_kind (tok X i) \<noteq> SOL_TOKEN_EOF"
  shows "H X k (Some i) A (sol_parser_declaration P) (\<lambda>_. Below k)"
  unfolding sol_parser_declaration_def declaration_modifiers_def
  supply H_gets [hoare del]
  using k i apply (intro hoare K_mark [THEN K_bind] H_loop [OF _ H_annotation_step, THEN H_call]
      H_declaration_item [OF P, THEN H_call] H_keep_declaration)
  apply (auto simp: known_def split: option.split_asm)
  done

section \<open>Header\<close>

text \<open>The name of the module and the edition are not part of what the invariant sees.\<close>

lemma K_relabel:
  assumes g: "\<And>t. tree_shape (g t) = tree_shape t"
  shows "K X k c A (modify (ps_tree_update g)) (\<lambda>_. Pure True)"
proof (rule K_I)
  fix s
  assume s: "known X k c A s"
  have views: "nodes (g t) = nodes t" "live (g t) = live t" "room (g t) = room t" "entries (g t) = entries t" for t
    by (rule ext, simp add: shape_defs g)+
  have "table_safe src (g t) T = table_safe src t T" "table_ok (g t) T = table_ok t T" for src t T
    by (simp_all add: table_safe_def table_ok_def views node_safe_def [abs_def] node_ok_def refs_in_def)
  moreover have "grows t (g t)" for t by (simp add: grows_def views)
  ultimately show "\<exists>r s'. run_state (modify (ps_tree_update g)) s = (r, s') \<and>
      parser_inv X s' \<and> onward X s s' \<and> sig s' = sig s \<and> holds (Pure True) s'"
    using s by (auto simp: known_def parser_inv_def onward_def failed_def sig_def views)
qed

lemma shape_labels [simp]:
  "tree_shape (tr_module_name_update f t) T = tree_shape t T"
  "tree_shape (tr_edition_update g t) T = tree_shape t T"
  by (cases T; simp)+

lemma K_labels:
  "K X k c A (modify (ps_tree_update (tr_module_name_update f))) (\<lambda>_. Pure True)"
  "K X k c A (modify (ps_tree_update (tr_edition_update g))) (\<lambda>_. Pure True)"
  by (rule K_relabel, rule ext, simp)+

lemma H_parse_module: "H X k None A parse_module (\<lambda>_. Pure True)"
  unfolding parse_module_def by (intro hoare K_labels(1) [THEN K_tail]) (auto simp: known_def)

lemma H_parse_edition: "H X k None A parse_edition (\<lambda>_. Pure True)"
  unfolding parse_edition_def
  supply H_modify [hoare del]
  by (intro hoare K_labels(2) [THEN K_bind]) (auto simp: known_def)

lemma H_import_step: "H X k None A (import_step l) (Round k (\<lambda>_. Pure True) (\<lambda>_. Pure True))"
  unfolding import_step_def
  by (intro hoare K_add_import [THEN K_bind]) (auto simp: known_def)

lemma H_header: "H X k None A sol_parser_header (\<lambda>_. Pure True)"
  unfolding sol_parser_header_def
  by (intro H_parse_module [THEN H_call] H_parse_edition [THEN H_call]
      H_loop [OF _ H_import_step, THEN H_tail_call]) (auto simp: known_def)

section \<open>The file\<close>

lemma K_allocation_failed: "K X k c A (gets ps_allocation_failed) (\<lambda>b. Given b Bad)"
  by (rule K_I) (auto simp: known_def failed_def)

text \<open>The loop ends at the token for the end of the file, which is the last one.\<close>

definition ends_once :: "SolToken list \<Rightarrow> bool" where
  "ends_once ts \<longleftrightarrow> list_all (\<lambda>t. tk_kind t \<noteq> SOL_TOKEN_EOF) (butlast ts)"

lemma at_end:
  assumes "ends_once (in_tokens X)" "parser_inv X s" "tk_kind (tok X (sig s)) = SOL_TOKEN_EOF"
  shows "rem s < 2"
proof (rule ccontr)
  assume "\<not> rem s < 2"
  with assms(2) have "Suc (sig s) < length (in_tokens X)" by (simp add: rem_def parser_inv_def)
  then have "butlast (in_tokens X) ! sig s \<in> set (butlast (in_tokens X))"
    by (intro nth_mem) simp
  moreover have "butlast (in_tokens X) ! sig s = tok X (sig s)"
    using \<open>Suc (sig s) < length (in_tokens X)\<close> by (simp add: token_at_def nth_butlast)
  ultimately show False using assms by (auto simp: ends_once_def list_all_iff)
qed

lemma H_declarations_step:
  assumes P: "parsers_safe X n P" and k: "k \<le> n"
  shows "H X k None A (declarations_step P l) (Round k (\<lambda>_. Pure True)
    (\<lambda>_. Given (ends_once (in_tokens X)) (Either (Below 2) Bad)))"
  unfolding declarations_step_def
  supply H_gets [hoare del]
  using k by (intro hoare K_allocation_failed [THEN K_bind] H_declaration [OF P, THEN H_bind])
    (auto simp: known_def intro: at_end)

lemma H_parse_file:
  assumes P: "parsers_safe X n P"
  shows "H X n None A (parse_file P) (\<lambda>_. Given (ends_once (in_tokens X)) (Either (Below 2) Bad))"
  unfolding parse_file_def
  by (intro hoare H_header [THEN H_call] H_loop [OF _ H_declarations_step [OF P], THEN H_call])
    (auto simp: known_def)

end
