(* ===== verification/Sol_ParserSafety.thy ===== *)
theory Sol_ParserSafety
  imports Sol_FileRules Sol_ParserUniform Sol_Lexer
begin

text \<open>
  What the logic shows of \<open>sol_parse\<close> (\<open>src/src/parser.c\<close>): it returns on every list of tokens
  that lie in the source, reads no entry and no byte that is not there, keeps every array
  within its capacity, and leaves a well-formed tree unless it reports an error. What it
  builds is a function of the source and its tokens.
\<close>

section \<open>The run\<close>

definition parse_input_of :: "SolSource \<Rightarrow> SolToken list \<Rightarrow> parse_input" where
  "parse_input_of src ts = \<lparr> in_source = src, in_tokens = ts, in_frozen = False \<rparr>"

lemma parse_input_of_simps [simp]:
  "in_source (parse_input_of src ts) = src" "in_tokens (parse_input_of src ts) = ts"
  "\<not> in_frozen (parse_input_of src ts)"
  by (simp_all add: parse_input_of_def)

lemma empty_tree_shape: "tree_shape sol_syntax_tree_init T = ([], 0, 0)"
  by (cases T) (simp_all add: sol_syntax_tree_init_def empty_table_def table_shape_def)

lemma empty_tree_ok: "table_safe src sol_syntax_tree_init T" "table_ok sol_syntax_tree_init T"
  by (simp_all add: table_safe_def table_ok_def shape_defs empty_tree_shape)

lemma parser_init_known:
  assumes "tokens_in src ts"
  shows "known (parse_input_of src ts) (length ts) None (Pure True)
    (parser_init src ts sol_syntax_tree_init ds env)"
  using assms by (simp add: known_def parser_inv_def parser_init_def empty_tree_ok rem_def)

lemma parsers_safe_upto:
  assumes "2 * n \<le> d"
  shows "parsers_safe (parse_input_of src ts) n (sol_parsers_upto d)"
  using assms by (simp add: parsers_safe_def parsers_ok)

lemma parse_file_run:
  assumes ts: "tokens_in src ts" and d: "parser_depth ts \<le> d"
    and run: "run_state (parse_file (sol_parsers_upto d))
      (parser_init src ts sol_syntax_tree_init ds env) = (r, s)"
  shows "parser_inv (parse_input_of src ts) s" "ends_once ts \<Longrightarrow> rem s < 2 \<or> failed s"
proof -
  have "parsers_safe (parse_input_of src ts) (length ts) (sol_parsers_upto d)"
    using d by (intro parsers_safe_upto) (simp add: parser_depth_def)
  from HD [OF H_parse_file [OF this] parser_init_known [OF ts] run]
  show "parser_inv (parse_input_of src ts) s" "ends_once ts \<Longrightarrow> rem s < 2 \<or> failed s" by auto
qed

text \<open>A parse that runs out of memory reports it.\<close>

lemma failed_reported:
  assumes "run_state (parse_file P) s = (r, s')" "failed s'"
  shows "sol_diagnostics_has_errors (ps_diagnostics s')"
proof -
  obtain s1 s2 where h: "run_state sol_parser_header s = ((), s1)"
    and l: "run_state (loop () (declarations_step P) ()) s1 = ((), s2)"
    by (cases "run_state sol_parser_header s") (metis old.unit.exhaust surj_pair)
  obtain b ds' e' where add: "run_state (sol_diagnostics_add (ps_diagnostics s2) ''SOL-INTERNAL-001''
      SOL_SEVERITY_ERROR no_span ''out of memory while constructing the syntax tree'') (ps_env s2)
      = ((b, ds'), e')" by (metis prod.collapse)
  show ?thesis
    using assms h l has_errors_added [OF add]
    by (auto simp: parse_file_def parser_diagnostic_def lift_env_def add failed_def split: if_splits)
qed

lemma lexed_tokens_in: "tokens_in src (lexed_tokens src)"
proof -
  have "list_all (\<lambda>t. span_in src (tk_span t)) ts"
    if "tiles src i j ts" "j \<le> src_length src" for i j ts
    using that by (induction ts arbitrary: i) (auto simp: span_in_def dest: tiles_le)
  from this [OF reference_tiles [of 0 src]] show ?thesis
    by (simp add: tokens_in_def lexed_tokens_def span_in_def)
qed

lemma lexed_ends_once: "ends_once (lexed_tokens src)"
  using reference_not_eof [of src 0] by (simp add: ends_once_def lexed_tokens_def)

lemma parse_file_result:
  assumes "run_state (parse_file P) s = (r, s')" "\<not> sol_diagnostics_has_errors (ps_diagnostics s')"
  shows "r"
proof -
  have ok: "\<not> failed s'" using failed_reported [OF assms(1)] assms(2) by blast
  have "\<not> dgs_allocation_failed (ps_diagnostics s')"
    using assms(2) by (auto simp: sol_diagnostics_has_errors_def)
  obtain s1 s2 where "run_state sol_parser_header s = ((), s1)"
    "run_state (loop () (declarations_step P) ()) s1 = ((), s2)"
    by (cases "run_state sol_parser_header s") (metis old.unit.exhaust surj_pair)
  with assms(1) ok \<open>\<not> dgs_allocation_failed (ps_diagnostics s')\<close> show ?thesis
    by (auto simp: parse_file_def parser_diagnostic_def lift_env_def failed_def split: if_splits prod.splits)
qed

text \<open>The state a parse without errors ends in.\<close>

lemma parse_clean:
  assumes "tokens_in src (tks_items ts)" "sol_parse src ts sol_syntax_tree_init ds env = (r, s)"
    and "\<not> sol_diagnostics_has_errors (ps_diagnostics s)"
  shows "parser_inv (parse_input_of src (tks_items ts)) s" "\<not> failed s" "table_ok (ps_tree s) T"
proof -
  note run = assms(2) [unfolded sol_parse_def]
  show inv: "parser_inv (parse_input_of src (tks_items ts)) s"
    by (rule parse_file_run(1) [OF assms(1) order.refl run])
  show ok: "\<not> failed s" using failed_reported [OF run] assms(3) by blast
  with inv show "table_ok (ps_tree s) T" by (simp add: parser_inv_def)
qed

section \<open>Reading a tree\<close>

text \<open>
  The walk along the links of a list, as the later phases do it: nothing when it leaves the
  array or has not ended after \<open>n\<close> entries.
\<close>

fun walk :: "nat \<Rightarrow> SolSyntaxTree \<Rightarrow> table \<Rightarrow> size_t \<Rightarrow> size_t list option" where
  "walk 0 t T i = None"
| "walk (Suc n) t T i =
     (if i = SOL_AST_NONE then Some []
      else if i < entries t T then map_option ((#) i) (walk n t T (nd_link (nodes t T ! i)))
      else None)"

lemma walk_ends:
  assumes ok: "table_ok t T" and none: "entries t T \<le> SOL_AST_NONE"
  shows "i = SOL_AST_NONE \<or> i < entries t T \<Longrightarrow> entries t T - i < n \<Longrightarrow>
    \<exists>ids. walk n t T i = Some ids \<and> sorted_wrt (<) ids \<and> list_all (\<lambda>j. i \<le> j) ids"
proof (induction n arbitrary: i)
  case (Suc n)
  show ?case
  proof (cases "i = SOL_AST_NONE")
    case False
    with Suc.prems(1) have i: "i < entries t T" by simp
    let ?j = "nd_link (nodes t T ! i)"
    from ok i have "?j = SOL_AST_NONE \<or> i < ?j \<and> ?j < entries t T"
      by (auto simp: table_ok_iff node_ok_def)
    moreover from this i none have less: "i < ?j" by auto
    ultimately obtain ids where "walk n t T ?j = Some ids" "sorted_wrt (<) ids" "list_all (\<lambda>j. ?j \<le> j) ids"
      using Suc.IH [of ?j] Suc.prems(2) i by fastforce
    with False i less show ?thesis by (auto simp: list_all_iff intro: order.strict_trans2)
  qed simp
qed simp

section \<open>A sample file\<close>

definition enum_source :: SolSource where
  "enum_source = \<lparr> src_path = ''a'', src_text = ''module m enum E{A,B}'', line_starts = [0] \<rparr>"

definition enum_tokens :: SolTokens where
  "enum_tokens = \<lparr> tks_items = lexed_tokens enum_source, tks_capacity = 64 \<rparr>"

definition enum_parser :: SolParser where
  "enum_parser = snd (sol_parse enum_source enum_tokens sol_syntax_tree_init sol_diagnostics_init plain_env)"

lemma enum_tokens_in: "tokens_in enum_source (tks_items enum_tokens)"
  by (simp add: enum_tokens_def lexed_tokens_in)

text \<open>Variants without fields call no other production, so any table of productions will do.\<close>

lemma enum_run:
  "case run_state (parse_file P)
     (parser_init enum_source (tks_items enum_tokens) sol_syntax_tree_init sol_diagnostics_init plain_env) of
     (r, s) \<Rightarrow> tb_count (tr_variants (ps_tree s)) = 2 \<and> \<not> sol_diagnostics_has_errors (ps_diagnostics s)"
  by code_simp

lemma enum_parse:
  "sol_parse enum_source enum_tokens sol_syntax_tree_init sol_diagnostics_init plain_env =
     (fst (sol_parse enum_source enum_tokens sol_syntax_tree_init sol_diagnostics_init plain_env), enum_parser)"
  by (simp add: enum_parser_def)

lemma enum_parser_facts:
  "tb_count (tr_variants (ps_tree enum_parser)) = 2"
  "\<not> sol_diagnostics_has_errors (ps_diagnostics enum_parser)"
  using enum_run [of "sol_parsers_upto (parser_depth (tks_items enum_tokens))"]
  by (simp_all add: enum_parser_def sol_parse_def split: prod.splits)

lemma enum_lex:
  "run_state (sol_lex enum_source sol_tokens_init sol_diagnostics_init) plain_env
   = ((True, enum_tokens, sol_diagnostics_init),
      snd (run_state (sol_lex enum_source sol_tokens_init sol_diagnostics_init) plain_env))"
proof -
  have "fst (run_state (sol_lex enum_source sol_tokens_init sol_diagnostics_init) plain_env)
      = (True, enum_tokens, sol_diagnostics_init)" by code_simp
  then show ?thesis by (metis prod.collapse)
qed

section \<open>Properties of the parser\<close>

text \<open>
  C4. On every list of tokens whose spans lie in the source, whatever its order and kinds,
  the parser returns: with a call depth of twice the number of tokens and two, or any
  greater one, no production, loop or lookahead is cut off. And no step of it reads an array
  at an entry that is not there, a token before the first one or text outside the source,
  also while it recovers from errors and gives entries back.
\<close>

theorem sol_parse_never_traps:
  assumes "tokens_in src ts" and "parser_depth ts \<le> d"
  shows "ps_trap (snd (run_state (parse_file (sol_parsers_upto d))
    (parser_init src ts sol_syntax_tree_init ds env))) = None"
proof -
  obtain r s where "run_state (parse_file (sol_parsers_upto d))
    (parser_init src ts sol_syntax_tree_init ds env) = (r, s)" by fastforce
  with parse_file_run(1) [OF assms this] show ?thesis by (simp add: parser_inv_def)
qed

theorem sol_parse_never_traps_witness: "ps_trap enum_parser = None"
  using sol_parse_never_traps [OF enum_tokens_in order.refl]
  by (simp add: enum_parser_def sol_parse_def)

text \<open>
  C5. A parse that leaves no error in the diagnostics returns true and has built a
  well-formed tree: no error nodes, every reference of a node within its array, required
  ones present, the children of an expression before it and every link of a list forward.
\<close>

theorem sol_parse_tree_ok:
  assumes "tokens_in src (tks_items ts)"
    and "sol_parse src ts sol_syntax_tree_init ds env = (r, s)"
    and "\<not> sol_diagnostics_has_errors (ps_diagnostics s)"
  shows "r \<and> syntax_tree_ok (ps_tree s)"
  using parse_file_result [OF assms(2) [unfolded sol_parse_def] assms(3)] parse_clean(3) [OF assms]
  by (simp add: syntax_tree_ok_iff)

theorem sol_parse_tree_ok_witness: "syntax_tree_ok (ps_tree enum_parser)"
  using sol_parse_tree_ok [OF enum_tokens_in enum_parse enum_parser_facts(2)] by simp

text \<open>
  C6. The lexer and the parser together: whatever the source, the parse of the tokens that
  \<open>sol_lex\<close> made of it never traps, and at its end either the diagnostics have an error or the
  parser has consumed every token up to the one for the end of the file and its tree is well
  formed.
\<close>

theorem sol_lex_parse_complete:
  assumes "run_state (sol_lex src sol_tokens_init ds) e = ((True, ts, ds'), e')"
    and "sol_parse src ts sol_syntax_tree_init ds' e' = (r, s)"
  shows "ps_trap s = None \<and>
    (sol_diagnostics_has_errors (ps_diagnostics s) \<or>
     syntax_tree_ok (ps_tree s) \<and>
     length (tks_items ts) \<le> Suc (sol_parser_next_significant (tks_items ts) (ps_cursor s)))"
proof -
  note run = assms(2) [unfolded sol_parse_def]
  have ts: "tks_items ts = lexed_tokens src" using sol_lex_items [OF assms(1)] .
  then have within: "tokens_in src (tks_items ts)" and ends: "ends_once (tks_items ts)"
    by (simp_all add: lexed_tokens_in lexed_ends_once)
  note inv = parse_file_run(1) [OF within order.refl run]
  note clean = parse_clean [OF within assms(2)] parse_file_run(2) [OF within order.refl run ends]
  from inv clean show ?thesis by (auto simp: parser_inv_def rem_def sig_def syntax_tree_ok_iff)
qed

theorem sol_lex_parse_complete_witness:
  "length (tks_items enum_tokens) = 13 \<and>
   (let s = snd (sol_parse enum_source enum_tokens sol_syntax_tree_init sol_diagnostics_init
      (snd (run_state (sol_lex enum_source sol_tokens_init sol_diagnostics_init) plain_env)))
    in 13 \<le> Suc (sol_parser_next_significant (tks_items enum_tokens) (ps_cursor s)))"
proof -
  let ?e = "snd (run_state (sol_lex enum_source sol_tokens_init sol_diagnostics_init) plain_env)"
  let ?p = "sol_parse enum_source enum_tokens sol_syntax_tree_init sol_diagnostics_init ?e"
  have n: "length (tks_items enum_tokens) = 13" by code_simp
  have "\<not> sol_diagnostics_has_errors (ps_diagnostics (snd (run_state (parse_file P)
    (parser_init enum_source (tks_items enum_tokens) sol_syntax_tree_init sol_diagnostics_init ?e))))" for P
    by code_simp
  then have "\<not> sol_diagnostics_has_errors (ps_diagnostics (snd ?p))" by (simp add: sol_parse_def)
  with sol_lex_parse_complete [OF enum_lex prod.collapse [symmetric]] n show ?thesis by simp
qed

text \<open>
  C18. In the tree of a parse without errors every list ends: from any entry of any array
  the links lead through increasing entries of that array to \<open>SOL_AST_NONE\<close>, so a walk visits
  no entry twice.
\<close>

theorem sol_parse_lists_end:
  assumes "tokens_in src (tks_items ts)"
    and "sol_parse src ts sol_syntax_tree_init ds env = (r, s)"
    and "\<not> sol_diagnostics_has_errors (ps_diagnostics s)"
    and "i < entries (ps_tree s) T"
  shows "\<exists>ids. walk (Suc (entries (ps_tree s) T)) (ps_tree s) T i = Some ids \<and> sorted_wrt (<) ids"
proof -
  note clean = parse_clean [OF assms(1-3)]
  have "entries (ps_tree s) T \<le> SOL_AST_NONE" using none_not_entry [OF clean(1), of T] by simp
  moreover have "entries (ps_tree s) T - i < Suc (entries (ps_tree s) T)" by simp
  ultimately show ?thesis using walk_ends [OF clean(3)] assms(4) by blast
qed

theorem sol_parse_lists_end_witness:
  "\<exists>ids. walk (Suc (entries (ps_tree enum_parser) T_VARIANT)) (ps_tree enum_parser) T_VARIANT 0 = Some ids \<and>
     sorted_wrt (<) ids"
proof (rule sol_parse_lists_end [OF enum_tokens_in enum_parse enum_parser_facts(2)])
  have "live (ps_tree enum_parser) T_VARIANT = entries (ps_tree enum_parser) T_VARIANT"
    using parse_clean(3) [OF enum_tokens_in enum_parse enum_parser_facts(2)] by (simp add: table_ok_def)
  with enum_parser_facts(1) show "0 < entries (ps_tree enum_parser) T_VARIANT"
    by (simp add: tab_variants.live_get)
qed

text \<open>
  C20. Whether it succeeds or not, the parser leaves every array of the tree within what it
  allocated: the count is at most the number of entries ever written, these fit into the
  capacity, and the capacity fits into a \<open>size_t\<close>.
\<close>

theorem sol_parse_arrays_bounded:
  assumes "tokens_in src (tks_items ts)"
  shows "live (ps_tree (snd (sol_parse src ts sol_syntax_tree_init ds env))) T
      \<le> entries (ps_tree (snd (sol_parse src ts sol_syntax_tree_init ds env))) T \<and>
    entries (ps_tree (snd (sol_parse src ts sol_syntax_tree_init ds env))) T
      \<le> room (ps_tree (snd (sol_parse src ts sol_syntax_tree_init ds env))) T \<and>
    room (ps_tree (snd (sol_parse src ts sol_syntax_tree_init ds env))) T \<le> SIZE_MAX"
proof -
  obtain r s where run: "sol_parse src ts sol_syntax_tree_init ds env = (r, s)" by fastforce
  have "table_safe src (ps_tree s) T"
    using parse_file_run(1) [OF assms order.refl run [unfolded sol_parse_def]] by (simp add: parser_inv_def)
  with run show ?thesis by (simp add: table_safe_def)
qed

theorem sol_parse_arrays_bounded_witness:
  "2 \<le> room (ps_tree enum_parser) T_VARIANT \<and> room (ps_tree enum_parser) T_VARIANT \<le> SIZE_MAX"
  using sol_parse_arrays_bounded [OF enum_tokens_in, of sol_diagnostics_init plain_env T_VARIANT]
    enum_parser_facts(1)
  unfolding enum_parser_def by (simp add: tab_variants.live_get)

text \<open>
  C19. What a parse builds does not depend on its memory: two parses of the same source, tokens
  and tree to start from that both succeed end with the same tree, whatever diagnostics,
  limits, charges and allocation outcomes each of them started with.
\<close>

theorem sol_parse_deterministic:
  assumes "sol_parse src ts tree ds env = (True, s)" and "sol_parse src us tree ds' env' = (True, t)"
    and "tks_items ts = tks_items us"
  shows "ps_tree s = ps_tree t"
  using assms by (rule sol_parse_same)

theorem sol_parse_deterministic_witness:
  "ps_tree (snd (sol_parse enum_source enum_tokens sol_syntax_tree_init
     (sol_diagnostics_init\<lparr>dgs_capacity := 8\<rparr>) (plain_env\<lparr>heap_calls := 7\<rparr>))) = ps_tree enum_parser"
proof -
  let ?ds = "sol_diagnostics_init\<lparr>dgs_capacity := 8\<rparr>"
  let ?env = "plain_env\<lparr>heap_calls := 7\<rparr>"
  let ?other = "sol_parse enum_source enum_tokens sol_syntax_tree_init ?ds ?env"
  have "fst (run_state (parse_file P)
      (parser_init enum_source (tks_items enum_tokens) sol_syntax_tree_init ?ds ?env))" for P
    by code_simp
  then have "?other = (True, snd ?other)" by (simp add: sol_parse_def prod_eq_iff)
  moreover have "sol_parse enum_source enum_tokens sol_syntax_tree_init sol_diagnostics_init plain_env
      = (True, enum_parser)"
    using parse_file_result [OF enum_parse [unfolded sol_parse_def] enum_parser_facts(2)]
    by (simp add: sol_parse_def enum_parser_def prod_eq_iff)
  ultimately show ?thesis by (rule sol_parse_deterministic) simp
qed

end
