(* ===== verification/Spec2Isabelle.thy ===== *)
theory Spec2Isabelle
  imports Sol_Formatter Sol_Limits Sol_Termination Sol_Frames Sol_Digest Sol_HostSafety
    Sol_Recipe Sol_LayoutSample Sol_ParserSafety
begin

text \<open>
  Verification of the Sol compiler and interpreter.

  \<^bold>\<open>The program.\<close> Sol is a small language with algebraic data types, effects with capabilities,
  contracts and ownership. Its compiler, in C, reads a source file (\<open>src/src/source.c\<close>), splits it
  into tokens (\<open>lexer.c\<close>), parses it (\<open>parser.c\<close>), resolves, type checks and lowers it to a flat
  intermediate representation (\<open>SolIr\<close>, \<open>src/include/sol/ir.h\<close>), which the reference interpreter
  (\<open>interpreter.c\<close>) runs and which the back end turns into MIR, recipes, layouts and WebAssembly.
  Errors are collected as diagnostics (\<open>diagnostic.c\<close>), memory and work of a compilation are
  charged to a budget (\<open>resource.c\<close>). A formatter (\<open>formatter.c\<close>) prints sources in a canonical
  form. A host embeds the interpreter through a registry of capabilities (\<open>compilation.c\<close>, end
  of \<open>interpreter.c\<close>).

  \<^bold>\<open>How the code is modelled.\<close> A struct is a record with the source's members, an enum or tagged
  union a datatype, \<open>size_t\<close> is a natural number whose overflow tests are written out, a pointer
  to an array is a list. Code that reports, allocates or charges is a state transformer of
  \<open>HOL-Library.State_Monad\<close>. A function that fails returns \<open>None\<close>, false or a stop, as in
  the source. A read outside an array has no behaviour in C: the interpreter model records it as a
  trap, the builders stop with \<open>OutOfBounds\<close>. The allocator is an oracle that may refuse
  any request.

  \<^bold>\<open>Theories.\<close>
  \<^item> \<open>Sol_Prelude\<close>: types, lemma collections, loops and triples for the state monad.
  \<^item> \<open>Sol_Resource\<close> (\<open>resource.c\<close>), \<open>Sol_Source\<close> (\<open>source.c\<close>), \<open>Sol_Diagnostic\<close>
    (\<open>diagnostic.c\<close>), \<open>Sol_Token\<close> and \<open>Sol_Lexer\<close> (\<open>lexer.c\<close>): the budget, the line index
    and position search, the diagnostics and their renderings, the scanner. Shown: the tokens tile
    the source; errors are reported exactly for malformed tokens; the budget is respected;
    positions and line starts are right; the JSON form of a string reads back if and only if the
    string is well-formed UTF-8.
  \<^item> \<open>Sol_Formatter\<close> (\<open>formatter.c\<close>): rendering and its self checks around the modelled
    parser. Shown: a formatted text has the tokens of the source with only blanks between them,
    whatever the parser answers, and formatting it again, if that succeeds, changes nothing.
  \<^item> \<open>Sol_IR\<close>, \<open>Sol_Value\<close>, \<open>Sol_Arith\<close>, \<open>Sol_Types\<close>, \<open>Sol_Runtime\<close>, \<open>Sol_Contract\<close>,
    \<open>Sol_Invoke\<close>, \<open>Sol_Eval\<close> (\<open>ir.h\<close>, \<open>interpreter.c\<close>): the IR tables; values with
    cloning, metrics and equality; checked arithmetic; runtime type checks; frames, places, patterns
    and cleanup; contracts; invocation with evidence, handlers and host operations; the evaluator.
    The evaluator is defined by recursion on fuel; the entry point uses one more than the step
    limit of the request, and \<open>Sol_Termination\<close> shows that this is always enough.
  \<^item> \<open>Sol_Machine\<close>, \<open>Sol_Limits\<close>, \<open>Sol_Termination\<close>, \<open>Sol_Frames\<close>, \<open>Sol_Sample\<close>: the
    locale of the machine's primitive operations with what follows for every run; its
    interpretations: limits are kept, the first diagnostic sticks, cleanup actions are numbered
    without gaps, runs end; the binding discipline of frames; sample programs and the value a
    block keeps past a binding.
  \<^item> \<open>Sol_Host\<close>, \<open>Sol_HostRun\<close>, \<open>Sol_HostSafety\<close> (\<open>compilation.c\<close>, end of
    \<open>interpreter.c\<close>): the registry, the preflight, the conversion of values and hosted runs.
    Shown: a hosted run touches the host only through granted, bound and declared operations; the
    preflight is exact; answers nesting fewer than 256 sums have the operation's type.
  \<^item> \<open>Sol_Digest\<close> (\<open>mir_linkage_digest.c\<close>): the metered SHA-256. Shown: streaming gives the
    hash of the message; the unrolled compression and the padding by runs agree with their
    reference forms in the source.
  \<^item> \<open>Sol_Build\<close>: how builders of the back end stop, loop, allocate and compare address ranges.
  \<^item> \<open>Sol_Representation\<close> (\<open>mir_representation.c\<close>), \<open>Sol_Classify\<close>, \<open>Sol_MirSample\<close>,
    \<open>Sol_Recipe\<close>: recipes of concrete types and their classification. The three fixed points are
    interpretations of one locale. Shown: a recipe is marked inhabited exactly when it has a value,
    zero-sized exactly when it has a value of units only, copyable exactly when it reaches no
    owned handle; with enough memory and work \<open>classify\<close> fails only on wrong copy flags, and
    its loops end within \<open>count + 1\<close> passes.
  \<^item> \<open>Sol_Layout\<close> (\<open>mir_layout.c\<close>), \<open>Sol_LayoutCheck\<close> (\<open>mir_layout_validate.c\<close>),
    \<open>Sol_LayoutWord\<close>, \<open>Sol_LayoutSound\<close>, \<open>Sol_LayoutApi\<close>, \<open>Sol_LayoutSample\<close>: the
    builder, the independent validator, 64-bit arithmetic read as numbers. Shown: in every layout
    handed out fields are aligned, disjoint and inside their objects, and projections read
    inside objects.
  \<^item> \<open>Sol_Syntax\<close> (\<open>ast.h\<close>, \<open>parser.h\<close>), \<open>Sol_ParserState\<close>, \<open>Sol_ParserType\<close>,
    \<open>Sol_ParserExpr\<close>, \<open>Sol_ParserStmt\<close>, \<open>Sol_ParserDecl\<close>, \<open>Sol_ParserItem\<close>, \<open>Sol_Parse\<close>
    (\<open>parser.c\<close>): the syntax tree as 21 arrays, each with its memory, count and capacity, and the
    whole recursive descent parser over one state, with its diagnostics, lookahead, recovery and
    the counts it gives back. A read outside an array, the tokens or the text is the trap
    \<open>BAD_ACCESS\<close>. A loop runs at most once per token left and the four mutually recursive
    productions have a bound on their call depth, \<open>2 n + 2\<close> for \<open>n\<close> tokens
    (\<open>parser_depth\<close>); running out of either is the trap \<open>OUT_OF_FUEL\<close>, which never happens.
  \<^item> \<open>Sol_ParserNodes\<close>, \<open>Sol_ParserLogic\<close>, \<open>Sol_ParserRules\<close>, \<open>Sol_ParserTables\<close>,
    \<open>Sol_ParserArrays\<close>, \<open>Sol_ParserRewind\<close>: what a well-formed tree is, with the locale
    \<open>syntax_table\<close> of its arrays, interpreted on all 21; a program logic for the parser whose
    judgement keeps the invariant of the state and counts the tokens left; its rules.
  \<^item> \<open>Sol_TypeRules\<close>, \<open>Sol_Lookahead\<close>, \<open>Sol_ExprRules\<close>, \<open>Sol_StmtRules\<close>,
    \<open>Sol_ContractRules\<close>, \<open>Sol_DeclRules\<close>, \<open>Sol_ItemRules\<close>, \<open>Sol_FileRules\<close>: the
    productions in the logic, one rule each; \<open>parsers_ok\<close> closes the recursion by induction on
    the depth.
  \<^item> \<open>Sol_ParserUniform\<close>: a relational judgement over the same productions: two runs that differ
    only in diagnostics and memory agree unless one fails to allocate.
  \<^item> \<open>Sol_ParserSafety\<close>: what follows for \<open>sol_parse\<close>. Shown: on any tokens in the source it
    returns and never traps; its arrays stay within their capacities; without errors the tree is
    well formed, all tokens of a lexed file are consumed and lists end; parses that succeed build
    the same tree from the same tokens.


  \<^bold>\<open>Parameters.\<close> Code outside the modelled files is an argument of the definitions that call it:
  \<open>sol_ir_validate\<close> of the interpreter's entry, \<open>sol_mir_materialization_validate\<close> and
  \<open>sol_mir_representation_validate\<close> of the builders, the host's callbacks, the addresses that
  the allocator returns and those that the layout validator compares with.

  \<^bold>\<open>Not modelled.\<close> Releasing memory and sharing between values; NULL handles and destinations that
  are not empty; the length that a text value without bytes would carry; the wrap-around of the
  count of cleanup actions; enum members outside their declared values; the contract check over
  a finished tree (\<open>syntax.c\<close>); file input and the command line; the renderers of plans; IR
  members that the interpreter does not read. Of the compiler's phases: name resolution, type, effect and ownership
  checking, contract lowering, IR lowering and validation, MIR and its evaluator, the materialization,
  operation, linkage and runtime plans, and the WebAssembly back end, each of which needs the phases
  before it. Planned next: the validator of representations and its agreement with the builder, the
  agreement of the layout builder and validator on all other representations, the ordering of the
  linkage keys in \<open>mir_linkage_digest.c\<close>.
\<close>

end
